(* ===== verification/Base.thy ===== *)
theory Base
  imports Main "HOL-Library.Word"
begin

section \<open>Prelude: text, time and list lemmas shared by every component\<close>

text \<open>
  The prelude of the development. It fixes the types the whole model uses (Unicode text, UTC
  instants, calendar days, row identifiers), the string functions of the Rust standard library
  that the program calls, and the generic list lemmas the stores share. The named collections
  declared here are filled by the component theories.
\<close>

named_theorems preserves_rules \<open>rules that push a step relation through an action\<close>
named_theorems store_simps \<open>effect of the store's statements on its tables\<close>

subsection \<open>Types\<close>

text \<open>
  A Rust \<^verbatim>\<open>String\<close> is a sequence of Unicode scalar values; the program counts and tests
  them with \<^verbatim>\<open>chars()\<close>, so text is modelled as the list of scalar values. Compile-time
  ASCII constants (error codes, stored enum names, callback payloads) stay HOL strings.
\<close>

type_synonym uchar = nat
type_synonym utext = "uchar list"

definition ascii :: "string \<Rightarrow> utext" where
  "ascii s = map of_char s"

lemma length_ascii [simp]: "length (ascii s) = length s"
  by (simp add: ascii_def)

lemma ascii_append: "ascii (s @ r) = ascii s @ ascii r"
  by (simp add: ascii_def)

lemma ascii_eq_iff [simp]: "ascii s = ascii r \<longleftrightarrow> s = r"
  by (simp add: ascii_def inj_map_eq_map inj_on_def)

lemma ascii_Nil [simp]: "ascii s = [] \<longleftrightarrow> s = []" "[] = ascii s \<longleftrightarrow> s = []"
  by (simp_all add: ascii_def)

text \<open>UTC instants are nanoseconds since the epoch, calendar days are days since 1970-01-01.\<close>

type_synonym instant = int
type_synonym day = int

definition ns_per_sec :: int where "ns_per_sec = 1000000000"
definition ns_per_min :: int where "ns_per_min = 60 * ns_per_sec"
definition ns_per_day :: int where "ns_per_day = 86400 * ns_per_sec"

lemma ns_pos [simp]: "0 < ns_per_sec" "0 < ns_per_min" "0 < ns_per_day"
  by (simp_all add: ns_per_sec_def ns_per_min_def ns_per_day_def)

definition date_of :: "instant \<Rightarrow> day" where
  "date_of t = t div ns_per_day"

text \<open>Row identifiers and Telegram identifiers are \<^verbatim>\<open>i64\<close>; task identities are UUIDs.\<close>

type_synonym row_id = int
type_synonym uuid = "128 word"

subsection \<open>Rust string functions\<close>

text \<open>\<^verbatim>\<open>char::is_whitespace\<close>: the Unicode \<^verbatim>\<open>White_Space\<close> property.\<close>

definition is_whitespace :: "uchar \<Rightarrow> bool" where
  "is_whitespace c \<longleftrightarrow>
     9 \<le> c \<and> c \<le> 13 \<or> c = 32 \<or> c = 133 \<or> c = 160 \<or> c = 5760
     \<or> 8192 \<le> c \<and> c \<le> 8202 \<or> c = 8232 \<or> c = 8233 \<or> c = 8239 \<or> c = 8287 \<or> c = 12288"

text \<open>\<^verbatim>\<open>char::is_control\<close>: the Unicode category \<^verbatim>\<open>Cc\<close>.\<close>

definition is_control :: "uchar \<Rightarrow> bool" where
  "is_control c \<longleftrightarrow> c < 32 \<or> 127 \<le> c \<and> c < 160"

definition is_ascii_digit :: "uchar \<Rightarrow> bool" where
  "is_ascii_digit c \<longleftrightarrow> 48 \<le> c \<and> c \<le> 57"

definition is_ascii_alphanumeric :: "uchar \<Rightarrow> bool" where
  "is_ascii_alphanumeric c \<longleftrightarrow>
     is_ascii_digit c \<or> 65 \<le> c \<and> c \<le> 90 \<or> 97 \<le> c \<and> c \<le> 122"

definition to_ascii_uppercase :: "utext \<Rightarrow> utext" where
  "to_ascii_uppercase = map (\<lambda>c. if 97 \<le> c \<and> c \<le> 122 then c - 32 else c)"

definition to_ascii_lowercase :: "utext \<Rightarrow> utext" where
  "to_ascii_lowercase = map (\<lambda>c. if 65 \<le> c \<and> c \<le> 90 then c + 32 else c)"

definition trim_start_by :: "(uchar \<Rightarrow> bool) \<Rightarrow> utext \<Rightarrow> utext" where
  "trim_start_by P s = dropWhile P s"

definition trim_end_by :: "(uchar \<Rightarrow> bool) \<Rightarrow> utext \<Rightarrow> utext" where
  "trim_end_by P s = rev (dropWhile P (rev s))"

definition trim :: "utext \<Rightarrow> utext" where
  "trim s = trim_end_by is_whitespace (trim_start_by is_whitespace s)"

fun split_whitespace_from :: "utext \<Rightarrow> utext \<Rightarrow> utext list" where
  "split_whitespace_from word [] = (if word = [] then [] else [word])"
| "split_whitespace_from word (c # cs) =
     (if is_whitespace c
      then (if word = [] then split_whitespace_from [] cs
            else word # split_whitespace_from [] cs)
      else split_whitespace_from (word @ [c]) cs)"

definition split_whitespace :: "utext \<Rightarrow> utext list" where
  "split_whitespace s = split_whitespace_from [] s"

text \<open>\<^verbatim>\<open>str::split(c)\<close>: one piece more than there are separators.\<close>

fun split_on :: "uchar \<Rightarrow> utext \<Rightarrow> utext list" where
  "split_on sep [] = [[]]"
| "split_on sep (c # cs) =
     (if c = sep then [] # split_on sep cs
      else (case split_on sep cs of p # ps \<Rightarrow> (c # p) # ps | [] \<Rightarrow> [[c]]))"

fun join :: "utext \<Rightarrow> utext list \<Rightarrow> utext" where
  "join sep [] = []"
| "join sep [x] = x"
| "join sep (x # y # ys) = x @ sep @ join sep (y # ys)"

fun strip_prefix :: "utext \<Rightarrow> utext \<Rightarrow> utext option" where
  "strip_prefix [] s = Some s"
| "strip_prefix (p # ps) [] = None"
| "strip_prefix (p # ps) (c # cs) = (if p = c then strip_prefix ps cs else None)"

definition starts_with :: "utext \<Rightarrow> utext \<Rightarrow> bool" where
  "starts_with p s \<longleftrightarrow> take (length p) s = p"

fun contains_text :: "utext \<Rightarrow> utext \<Rightarrow> bool" where
  "contains_text [] needle \<longleftrightarrow> needle = []"
| "contains_text (c # cs) needle \<longleftrightarrow> starts_with needle (c # cs) \<or> contains_text cs needle"

lemma dropWhile_hd: "dropWhile P s = c # cs \<Longrightarrow> \<not> P c"
  by (induction s) (auto split: if_splits)

lemma length_trim_le: "length (trim s) \<le> length s"
  using length_dropWhile_le[of is_whitespace s]
        length_dropWhile_le[of is_whitespace "rev (dropWhile is_whitespace s)"]
  by (simp add: trim_def trim_end_by_def trim_start_by_def)

lemma trim_end_by_snoc: "trim_end_by P s = xs @ [c] \<Longrightarrow> \<not> P c"
  by (metis dropWhile_hd rev_eq_Cons_iff rev_rev_ident trim_end_by_def)

lemma trim_end_by_prefix: "\<exists>ys. s = trim_end_by P s @ ys"
  by (metis rev_append rev_rev_ident takeWhile_dropWhile_id trim_end_by_def)

lemma trim_end_by_idem: "s = [] \<or> \<not> P (last s) \<Longrightarrow> trim_end_by P s = s"
  by (cases s rule: rev_cases) (auto simp: trim_end_by_def)

lemma trim_not_ws_ends:
  "trim s = [] \<or> \<not> is_whitespace (hd (trim s)) \<and> \<not> is_whitespace (last (trim s))"
proof (cases "trim s")
  case (Cons c cs)
  obtain ys where "trim_start_by is_whitespace s = trim s @ ys"
    unfolding trim_def using trim_end_by_prefix by blast
  with Cons have hd: "\<not> is_whitespace c"
    using dropWhile_hd by (fastforce simp: trim_start_by_def)
  from Cons obtain zs d where snoc: "trim s = zs @ [d]"
    by (metis list.distinct(1) rev_exhaust)
  then have "\<not> is_whitespace d"
    unfolding trim_def by (rule trim_end_by_snoc)
  with hd Cons snoc show ?thesis by (metis last_snoc list.sel(1))
qed simp

lemma trim_idem [simp]: "trim (trim s) = trim s"
proof (cases "trim s = []")
  case True
  have "trim [] = []" by (simp add: trim_def trim_end_by_def trim_start_by_def)
  with True show ?thesis by simp
next
  case False
  with trim_not_ws_ends[of s]
  have ends: "\<not> is_whitespace (hd (trim s))" "\<not> is_whitespace (last (trim s))" by auto
  then have "trim_start_by is_whitespace (trim s) = trim s"
    using False by (cases "trim s") (auto simp: trim_start_by_def)
  then have "trim (trim s) = trim_end_by is_whitespace (trim s)"
    unfolding trim_def[of "trim s"] by simp
  with ends show ?thesis by (simp add: trim_end_by_idem)
qed

lemma strip_prefix_append [simp]: "strip_prefix p (p @ s) = Some s"
  by (induction p) auto

lemma strip_prefix_Some: "strip_prefix p s = Some r \<longleftrightarrow> s = p @ r"
  by (induction p s rule: strip_prefix.induct) auto

subsection \<open>Decimal numbers\<close>

fun show_nat :: "nat \<Rightarrow> utext" where
  "show_nat n = (if n < 10 then [48 + n] else show_nat (n div 10) @ [48 + n mod 10])"

declare show_nat.simps [simp del]

definition show_int :: "int \<Rightarrow> utext" where
  "show_int i = (if i < 0 then 45 # show_nat (nat (- i)) else show_nat (nat i))"

text \<open>\<open>parse_nat\<close> reads a non-empty run of ASCII digits.\<close>

definition digits_value :: "utext \<Rightarrow> nat" where
  "digits_value ds = foldl (\<lambda>acc c. acc * 10 + (c - 48)) 0 ds"

definition parse_nat :: "utext \<Rightarrow> nat option" where
  "parse_nat ds = (if ds \<noteq> [] \<and> list_all is_ascii_digit ds then Some (digits_value ds) else None)"

lemma digits_value_snoc [simp]: "digits_value (ds @ [c]) = digits_value ds * 10 + (c - 48)"
  by (simp add: digits_value_def)

lemma show_nat_digits: "show_nat n \<noteq> [] \<and> list_all is_ascii_digit (show_nat n)"
proof (induction n rule: show_nat.induct)
  case (1 n)
  have "is_ascii_digit (48 + n mod 10)" "n < 10 \<Longrightarrow> is_ascii_digit (48 + n)"
    by (auto simp: is_ascii_digit_def)
  with 1 show ?case
    by (subst (1 2) show_nat.simps) auto
qed

lemma digits_value_show_nat [simp]: "digits_value (show_nat n) = n"
proof (induction n rule: show_nat.induct)
  case (1 n)
  show ?case
  proof (cases "n < 10")
    case True
    then show ?thesis by (simp add: show_nat.simps[of n] digits_value_def)
  next
    case False
    then show ?thesis using 1 by (subst show_nat.simps) simp
  qed
qed

lemma parse_show_nat [simp]: "parse_nat (show_nat n) = Some n"
  using show_nat_digits by (simp add: parse_nat_def)

lemma show_nat_inj [simp]: "show_nat m = show_nat n \<longleftrightarrow> m = n"
  by (metis digits_value_show_nat)

lemma show_nat_set: "c \<in> set (show_nat n) \<Longrightarrow> is_ascii_digit c"
  using show_nat_digits by (auto simp: list_all_iff)

lemma show_nat_hd_not_minus: "show_nat n = c # cs \<Longrightarrow> c \<noteq> 45"
  using show_nat_set[of c n] by (auto simp: is_ascii_digit_def)

lemma show_int_inj [simp]: "show_int i = show_int j \<longleftrightarrow> i = j"
proof
  assume eq: "show_int i = show_int j"
  have neg: "show_nat m \<noteq> 45 # cs" for m cs
    using show_nat_hd_not_minus by blast
  show "i = j"
    using eq neg[of "nat i"] neg[of "nat j"] neg[symmetric]
    by (auto simp: show_int_def split: if_splits)
qed simp

subsection \<open>Lists used as tables\<close>

text \<open>
  A table is the list of its rows in rowid order. \<open>update_where P f\<close> is an
  \<^verbatim>\<open>UPDATE ... WHERE P\<close>, \<open>find P\<close> a \<^verbatim>\<open>SELECT\<close> of the first match.
\<close>

definition update_where :: "('a \<Rightarrow> bool) \<Rightarrow> ('a \<Rightarrow> 'a) \<Rightarrow> 'a list \<Rightarrow> 'a list" where
  "update_where P f rows = map (\<lambda>r. if P r then f r else r) rows"

lemma length_update_where [simp]: "length (update_where P f rows) = length rows"
  by (simp add: update_where_def)

lemma set_update_where:
  "set (update_where P f rows) = f ` {r \<in> set rows. P r} \<union> {r \<in> set rows. \<not> P r}"
  by (auto simp: update_where_def)

lemma map_update_where_frame:
  "(\<And>r. P r \<Longrightarrow> g (f r) = g r) \<Longrightarrow> map g (update_where P f rows) = map g rows"
  by (auto simp: update_where_def)

lemma update_where_none: "\<forall>r \<in> set rows. \<not> P r \<Longrightarrow> update_where P f rows = rows"
  by (simp add: update_where_def map_idI)

lemma find_SomeD: "find P xs = Some x \<Longrightarrow> x \<in> set xs \<and> P x"
  by (induction xs) (auto split: if_splits)

lemma find_NoneD: "find P xs = None \<Longrightarrow> \<forall>x \<in> set xs. \<not> P x"
  by (simp add: find_None_iff)

lemma find_update_where:
  assumes "\<And>r. Q r \<Longrightarrow> P (f r) = P r"
  shows "find P (update_where Q f rows) =
         map_option (\<lambda>r. if Q r then f r else r) (find P rows)"
  using assms by (induction rows) (auto simp: update_where_def)

lemma find_distinct_key:
  assumes "distinct (map k rows)" "r \<in> set rows"
  shows "find (\<lambda>x. k x = k r) rows = Some r"
  using assms by (induction rows) (auto simp: rev_image_eqI)

lemma find_append_None: "find P xs = None \<Longrightarrow> find P (xs @ ys) = find P ys"
  by (induction xs) (auto split: if_splits)

lemma find_append_Some: "find P xs = Some x \<Longrightarrow> find P (xs @ ys) = Some x"
  by (induction xs) (auto split: if_splits)

lemma distinct_key_inj:
  "distinct (map k rows) \<Longrightarrow> a \<in> set rows \<Longrightarrow> b \<in> set rows \<Longrightarrow> k a = k b \<Longrightarrow> a = b"
  by (induction rows) (auto simp: rev_image_eqI)

end
