(* ===== verification/Errors.thy ===== *)
theory Errors
  imports Base
begin

section \<open>Application errors and fallible state actions\<close>

text \<open>
  The error type of \<^verbatim>\<open>src/domain/errors.rs\<close>, the result type every fallible operation
  returns, and the state actions the stateful operations are written in. An action takes the
  state and returns a result and the state reached, on success and on failure alike, so what a
  failing operation leaves behind is part of the model.
\<close>

subsection \<open>JSON values\<close>

text \<open>
  A \<^verbatim>\<open>serde_json::Value\<close>. Members are an association list without duplicate keys; the
  program never observes their order. Task identities are kept as identities (\<open>JUuid\<close>) and
  instants and days as such (\<open>JTime\<close>, \<open>JDay\<close>), since the text the \<^verbatim>\<open>uuid\<close> and \<^verbatim>\<open>chrono\<close> crates print
  for them is not observed either.
\<close>

datatype json =
    JNull
  | JBool bool
  | JNum int
  | JStr utext
  | JUuid uuid
  | JTime instant
  | JDay day
  | JArr "json list"
  | JObj "(string \<times> json) list"

definition jstr :: "string \<Rightarrow> json" where
  "jstr s = JStr (ascii s)"

fun jopt :: "('a \<Rightarrow> json) \<Rightarrow> 'a option \<Rightarrow> json" where
  "jopt f None = JNull"
| "jopt f (Some x) = f x"

fun json_insert :: "string \<Rightarrow> json \<Rightarrow> (string \<times> json) list \<Rightarrow> (string \<times> json) list" where
  "json_insert k v [] = [(k, v)]"
| "json_insert k v ((k', v') # kvs) =
     (if k = k' then (k, v) # kvs else (k', v') # json_insert k v kvs)"

fun json_get :: "json \<Rightarrow> string \<Rightarrow> json option" where
  "json_get (JObj kvs) k = map_of kvs k"
| "json_get _ k = None"

lemma map_of_json_insert: "map_of (json_insert k v kvs) = (map_of kvs)(k \<mapsto> v)"
  by (induction k v kvs rule: json_insert.induct) auto

subsection \<open>The error type\<close>

datatype app_error =
    Validation string utext json
  | Auth string utext json
  | NotFound string utext json
  | Conflict string utext json
  | RateLimit string utext json
  | Network string utext json
  | Timeout string utext json
  | Internal string utext json

definition schema_validation :: "string \<Rightarrow> utext \<Rightarrow> json \<Rightarrow> app_error" where
  "schema_validation code message context = Validation code message context"

definition business_rule :: "string \<Rightarrow> utext \<Rightarrow> json \<Rightarrow> app_error" where
  "business_rule code message context = Validation code message context"

definition unauthenticated :: "utext \<Rightarrow> json \<Rightarrow> app_error" where
  "unauthenticated message context = Auth ''UNAUTHENTICATED'' message context"

definition unauthorized :: "utext \<Rightarrow> json \<Rightarrow> app_error" where
  "unauthorized message context = Auth ''UNAUTHORIZED'' message context"

definition forbidden :: "string \<Rightarrow> utext \<Rightarrow> json \<Rightarrow> app_error" where
  "forbidden code message context = Auth code message context"

definition not_found :: "string \<Rightarrow> utext \<Rightarrow> json \<Rightarrow> app_error" where
  "not_found code message context = NotFound code message context"

definition conflict :: "string \<Rightarrow> utext \<Rightarrow> json \<Rightarrow> app_error" where
  "conflict code message context = Conflict code message context"

definition rate_limit :: "utext \<Rightarrow> json \<Rightarrow> app_error" where
  "rate_limit message context = RateLimit ''RATE_LIMITED'' message context"

definition network :: "string \<Rightarrow> utext \<Rightarrow> json \<Rightarrow> app_error" where
  "network code message context = Network code message context"

definition timeout :: "string \<Rightarrow> utext \<Rightarrow> json \<Rightarrow> app_error" where
  "timeout code message context = Timeout code message context"

definition internal :: "string \<Rightarrow> utext \<Rightarrow> json \<Rightarrow> app_error" where
  "internal code message context = Internal code message context"

fun err_code :: "app_error \<Rightarrow> string" where
  "err_code (Validation c _ _) = c"
| "err_code (Auth c _ _) = c"
| "err_code (NotFound c _ _) = c"
| "err_code (Conflict c _ _) = c"
| "err_code (RateLimit c _ _) = c"
| "err_code (Network c _ _) = c"
| "err_code (Timeout c _ _) = c"
| "err_code (Internal c _ _) = c"

fun err_message :: "app_error \<Rightarrow> utext" where
  "err_message (Validation _ m _) = m"
| "err_message (Auth _ m _) = m"
| "err_message (NotFound _ m _) = m"
| "err_message (Conflict _ m _) = m"
| "err_message (RateLimit _ m _) = m"
| "err_message (Network _ m _) = m"
| "err_message (Timeout _ m _) = m"
| "err_message (Internal _ m _) = m"

fun err_context :: "app_error \<Rightarrow> json" where
  "err_context (Validation _ _ c) = c"
| "err_context (Auth _ _ c) = c"
| "err_context (NotFound _ _ c) = c"
| "err_context (Conflict _ _ c) = c"
| "err_context (RateLimit _ _ c) = c"
| "err_context (Network _ _ c) = c"
| "err_context (Timeout _ _ c) = c"
| "err_context (Internal _ _ c) = c"

fun status_code :: "app_error \<Rightarrow> nat" where
  "status_code (Validation _ _ _) = 400"
| "status_code (Auth c _ _) = (if c = ''UNAUTHENTICATED'' then 401 else 403)"
| "status_code (NotFound _ _ _) = 404"
| "status_code (Conflict _ _ _) = 409"
| "status_code (RateLimit _ _ _) = 429"
| "status_code (Network _ _ _) = 503"
| "status_code (Timeout _ _ _) = 504"
| "status_code (Internal _ _ _) = 500"

fun should_retry :: "app_error \<Rightarrow> bool" where
  "should_retry (Network _ _ _) = True"
| "should_retry (Timeout _ _ _) = True"
| "should_retry (Internal _ _ _) = True"
| "should_retry _ = False"

fun with_context_value :: "app_error \<Rightarrow> json \<Rightarrow> app_error" where
  "with_context_value (Validation c m _) ctx = Validation c m ctx"
| "with_context_value (Auth c m _) ctx = Auth c m ctx"
| "with_context_value (NotFound c m _) ctx = NotFound c m ctx"
| "with_context_value (Conflict c m _) ctx = Conflict c m ctx"
| "with_context_value (RateLimit c m _) ctx = RateLimit c m ctx"
| "with_context_value (Network c m _) ctx = Network c m ctx"
| "with_context_value (Timeout c m _) ctx = Timeout c m ctx"
| "with_context_value (Internal c m _) ctx = Internal c m ctx"

definition with_context :: "string \<Rightarrow> json \<Rightarrow> app_error \<Rightarrow> app_error" where
  "with_context key v e =
     (case err_context e of
        JObj kvs \<Rightarrow> with_context_value e (JObj (json_insert key v kvs))
      | _ \<Rightarrow> with_context_value e (JObj (json_insert key v [])))"

lemmas error_constructors =
  schema_validation_def business_rule_def unauthenticated_def unauthorized_def forbidden_def
  not_found_def conflict_def rate_limit_def network_def timeout_def internal_def

lemma with_context_value_fields [simp]:
  "err_code (with_context_value e c) = err_code e"
  "err_message (with_context_value e c) = err_message e"
  "err_context (with_context_value e c) = c"
  "status_code (with_context_value e c) = status_code e"
  "should_retry (with_context_value e c) = should_retry e"
  by (cases e; simp)+

lemma with_context_fields [simp]:
  "err_code (with_context k v e) = err_code e"
  "err_message (with_context k v e) = err_message e"
  "status_code (with_context k v e) = status_code e"
  "should_retry (with_context k v e) = should_retry e"
  by (simp_all add: with_context_def split: json.split)

lemma with_context_lookup:
  "json_get (err_context (with_context k v e)) k' =
     (if k' = k then Some v else json_get (err_context e) k')"
  by (cases "err_context e") (simp_all add: with_context_def map_of_json_insert)

lemma should_retry_iff: "should_retry e \<longleftrightarrow> 500 \<le> status_code e"
  by (cases e) auto

end
