(* ===== verification/Actions.thy ===== *)
theory Actions
  imports Errors
begin

section \<open>Results and state actions\<close>

text \<open>
  \<^verbatim>\<open>AppResult<T>\<close> is a sum with the error on the left. A stateful operation is an action: a
  function from the state to a result and the state reached. \<open>tryR\<close> and \<open>tryA\<close> are the
  \<^verbatim>\<open>?\<close> operator on results and on actions: they stop at the first error and keep the state
  reached there.
\<close>

type_synonym 'a result = "app_error + 'a"
type_synonym ('s, 'a) act = "'s \<Rightarrow> 'a result \<times> 's"

abbreviation Ok :: "'a \<Rightarrow> 'a result" where "Ok \<equiv> Inr"
abbreviation Err :: "app_error \<Rightarrow> 'a result" where "Err \<equiv> Inl"

fun tryR :: "'a result \<Rightarrow> ('a \<Rightarrow> 'b result) \<Rightarrow> 'b result" where
  "tryR (Inl e) f = Inl e"
| "tryR (Inr x) f = f x"

fun map_err :: "(app_error \<Rightarrow> app_error) \<Rightarrow> 'a result \<Rightarrow> 'a result" where
  "map_err g (Inl e) = Inl (g e)"
| "map_err g (Inr x) = Inr x"

fun ok_or :: "app_error \<Rightarrow> 'a option \<Rightarrow> 'a result" where
  "ok_or e None = Inl e"
| "ok_or e (Some x) = Inr x"

definition is_ok :: "'a result \<Rightarrow> bool" where
  "is_ok r \<longleftrightarrow> (case r of Inl _ \<Rightarrow> False | Inr _ \<Rightarrow> True)"

lemma is_ok_simps [simp]: "is_ok (Inr x)" "\<not> is_ok (Inl e)"
  by (simp_all add: is_ok_def)

lemma is_ok_iff: "is_ok r \<longleftrightarrow> (\<exists>x. r = Inr x)"
  by (cases r) auto

lemma tryR_eq_Inr: "tryR r f = Inr y \<longleftrightarrow> (\<exists>x. r = Inr x \<and> f x = Inr y)"
  by (cases r) auto

lemma tryR_eq_Inl: "tryR r f = Inl e \<longleftrightarrow> r = Inl e \<or> (\<exists>x. r = Inr x \<and> f x = Inl e)"
  by (cases r) auto

lemma map_err_eq_Inr [simp]: "map_err g r = Inr x \<longleftrightarrow> r = Inr x"
  by (cases r) auto

lemma ok_or_eq_Inr [simp]: "ok_or e r = Inr x \<longleftrightarrow> r = Some x"
  by (cases r) auto

lemma ok_or_eq_Inl [simp]: "ok_or e r = Inl e' \<longleftrightarrow> r = None \<and> e' = e"
  by (cases r) auto

lemma Inr_eq_ok_or [simp]: "Inr x = ok_or e r \<longleftrightarrow> r = Some x"
  by (cases r) auto

lemma Inl_eq_ok_or [simp]: "Inl e' = ok_or e r \<longleftrightarrow> r = None \<and> e' = e"
  by (cases r) auto

subsection \<open>Actions\<close>

definition ret :: "'a \<Rightarrow> ('s, 'a) act" where
  "ret x s = (Inr x, s)"

definition fail :: "app_error \<Rightarrow> ('s, 'a) act" where
  "fail e s = (Inl e, s)"

definition lift :: "'a result \<Rightarrow> ('s, 'a) act" where
  "lift r s = (r, s)"

definition tryA :: "('s, 'a) act \<Rightarrow> ('a \<Rightarrow> ('s, 'b) act) \<Rightarrow> ('s, 'b) act" where
  "tryA m f s = (case m s of (Inl e, s') \<Rightarrow> (Inl e, s') | (Inr x, s') \<Rightarrow> f x s')"

definition gets :: "('s \<Rightarrow> 'a) \<Rightarrow> ('s, 'a) act" where
  "gets f s = (Inr (f s), s)"

definition modify :: "('s \<Rightarrow> 's) \<Rightarrow> ('s, unit) act" where
  "modify f s = (Inr (), f s)"

text \<open>\<open>attempt\<close> hands an action's result to its continuation as a value (\<^verbatim>\<open>match call().await\<close>).\<close>

definition attempt :: "('s, 'a) act \<Rightarrow> ('a result \<Rightarrow> ('s, 'b) act) \<Rightarrow> ('s, 'b) act" where
  "attempt m f s = (case m s of (r, s') \<Rightarrow> f r s')"

definition whenA :: "bool \<Rightarrow> ('s, unit) act \<Rightarrow> ('s, unit) act" where
  "whenA b m = (if b then m else ret ())"

text \<open>\<^verbatim>\<open>for x in xs { body(x)?; }\<close>, and the same loop collecting values.\<close>

fun forA :: "'a list \<Rightarrow> ('a \<Rightarrow> ('s, unit) act) \<Rightarrow> ('s, unit) act" where
  "forA [] f = ret ()"
| "forA (x # xs) f = tryA (f x) (\<lambda>_. forA xs f)"

fun mapA :: "('a \<Rightarrow> ('s, 'b) act) \<Rightarrow> 'a list \<Rightarrow> ('s, 'b list) act" where
  "mapA f [] = ret []"
| "mapA f (x # xs) = tryA (f x) (\<lambda>y. tryA (mapA f xs) (\<lambda>ys. ret (y # ys)))"

text \<open>A loop with an accumulator, one step per element.\<close>

fun foldA :: "('b \<Rightarrow> 'a \<Rightarrow> ('s, 'b) act) \<Rightarrow> 'b \<Rightarrow> 'a list \<Rightarrow> ('s, 'b) act" where
  "foldA f acc [] = ret acc"
| "foldA f acc (x # xs) = tryA (f acc x) (\<lambda>acc'. foldA f acc' xs)"

lemmas act_simps = ret_def fail_def lift_def gets_def modify_def

lemma fst_snd_act [simp]:
  "fst (ret x s) = Inr x" "snd (ret x s) = s"
  "fst (fail e s) = Inl e" "snd (fail e s) = s"
  "fst (lift r s) = r" "snd (lift r s) = s"
  "fst (gets g s) = Inr (g s)" "snd (gets g s) = s"
  by (simp_all add: act_simps)

lemma ret_eq [simp]: "ret x s = (r, s') \<longleftrightarrow> r = Inr x \<and> s' = s"
  by (auto simp: ret_def)

lemma fail_eq [simp]: "fail e s = (r, s') \<longleftrightarrow> r = Inl e \<and> s' = s"
  by (auto simp: fail_def)

lemma lift_eq [simp]: "lift q s = (r, s') \<longleftrightarrow> q = r \<and> s' = s"
  by (auto simp: lift_def)

lemma gets_eq [simp]: "gets f s = (r, s') \<longleftrightarrow> r = Inr (f s) \<and> s' = s"
  by (auto simp: gets_def)

lemma modify_eq [simp]: "modify f s = (r, s') \<longleftrightarrow> r = Inr () \<and> s' = f s"
  by (auto simp: modify_def)

lemma tryA_eq_Inr:
  "tryA m f s = (Inr y, s') \<longleftrightarrow> (\<exists>x s1. m s = (Inr x, s1) \<and> f x s1 = (Inr y, s'))"
  by (auto simp: tryA_def split: prod.splits sum.splits)

lemma tryA_eq_Inl:
  "tryA m f s = (Inl e, s') \<longleftrightarrow>
     m s = (Inl e, s') \<or> (\<exists>x s1. m s = (Inr x, s1) \<and> f x s1 = (Inl e, s'))"
  by (auto simp: tryA_def split: prod.splits sum.splits)

lemma attempt_eq:
  "attempt m f s = (q, s') \<longleftrightarrow> (\<exists>r s1. m s = (r, s1) \<and> f r s1 = (q, s'))"
  by (auto simp: attempt_def split: prod.splits)

lemma option_fail_eq_Inr:
  "(case v of None \<Rightarrow> fail e | Some x \<Rightarrow> f x) s = (Inr y, s') \<longleftrightarrow>
     (\<exists>x. v = Some x \<and> f x s = (Inr y, s'))"
  by (cases v) auto

lemma option_fail_eq_Inl:
  "(case v of None \<Rightarrow> fail e | Some x \<Rightarrow> f x) s = (Inl e', s') \<longleftrightarrow>
     v = None \<and> e' = e \<and> s' = s \<or> (\<exists>x. v = Some x \<and> f x s = (Inl e', s'))"
  by (cases v) auto

lemmas act_elims =
  tryA_eq_Inr tryA_eq_Inl attempt_eq option_fail_eq_Inr option_fail_eq_Inl

text \<open>Regrouping a sequence of actions.\<close>

lemma tryA_assoc: "tryA (tryA m f) g = tryA m (\<lambda>x. tryA (f x) g)"
  by (auto simp: fun_eq_iff tryA_def split: prod.split sum.split)

lemma tryA_ret: "tryA (ret x) g = g x"
  by (simp add: fun_eq_iff tryA_def ret_def fail_def)

lemma tryA_fail: "tryA (fail e) g = fail e"
  by (simp add: fun_eq_iff tryA_def ret_def fail_def)

lemma tryA_option:
  "tryA (case v of None \<Rightarrow> m | Some x \<Rightarrow> f x) g =
     (case v of None \<Rightarrow> tryA m g | Some x \<Rightarrow> tryA (f x) g)"
  by (simp split: option.split)

lemmas regroup = tryA_assoc tryA_ret tryA_fail tryA_option

subsection \<open>Frames: what an action may do to the state, whatever it returns\<close>

text \<open>
  \<open>obeys R m\<close>: every run of \<open>m\<close>, successful or not, relates the state before to the state
  after by \<open>R\<close>. For a preorder the property passes through every combinator, so a component
  proves it for its statements and gets it for every operation composed of them.
\<close>

definition obeys :: "('s \<Rightarrow> 's \<Rightarrow> bool) \<Rightarrow> ('s, 'a) act \<Rightarrow> bool" where
  "obeys R m \<longleftrightarrow> (\<forall>s. R s (snd (m s)))"

lemma obeysI: "(\<And>s. R s (snd (m s))) \<Longrightarrow> obeys R m"
  by (simp add: obeys_def)

lemma obeysD: "obeys R m \<Longrightarrow> m s = (r, s') \<Longrightarrow> R s s'"
  by (metis obeys_def snd_conv)

lemma obeys_if [preserves_rules]:
  "(b \<Longrightarrow> obeys R m) \<Longrightarrow> (\<not> b \<Longrightarrow> obeys R n) \<Longrightarrow> obeys R (if b then m else n)"
  by simp

lemma obeys_option [preserves_rules]:
  "obeys R m \<Longrightarrow> (\<And>x. v = Some x \<Longrightarrow> obeys R (f x)) \<Longrightarrow>
   obeys R (case v of None \<Rightarrow> m | Some x \<Rightarrow> f x)"
  by (simp split: option.split)

lemma obeys_sum [preserves_rules]:
  "(\<And>x. obeys R (f x)) \<Longrightarrow> (\<And>x. obeys R (g x)) \<Longrightarrow>
   obeys R (case v of Inl x \<Rightarrow> f x | Inr x \<Rightarrow> g x)"
  by (simp split: sum.split)

lemma obeys_prod [preserves_rules]:
  "(\<And>x y. v = (x, y) \<Longrightarrow> obeys R (f x y)) \<Longrightarrow> obeys R (case v of (x, y) \<Rightarrow> f x y)"
  by (simp split: prod.split)

locale frame =
  fixes R :: "'s \<Rightarrow> 's \<Rightarrow> bool"
  assumes refl: "R s s"
    and trans: "R s t \<Longrightarrow> R t u \<Longrightarrow> R s u"
begin

lemma ret: "obeys R (ret x)"
  by (simp add: obeys_def refl)

lemma fail: "obeys R (fail e)"
  by (simp add: obeys_def refl)

lemma lift: "obeys R (lift r)"
  by (simp add: obeys_def refl)

lemma gets: "obeys R (gets f)"
  by (simp add: obeys_def refl)

lemma modify: "(\<And>s. R s (f s)) \<Longrightarrow> obeys R (modify f)"
  by (simp add: obeys_def modify_def)

lemma tryA: "obeys R m \<Longrightarrow> (\<And>x. obeys R (f x)) \<Longrightarrow> obeys R (tryA m f)"
  unfolding obeys_def tryA_def
  by (auto split: prod.splits sum.splits) (metis refl snd_conv, metis snd_conv trans)

lemma attempt: "obeys R m \<Longrightarrow> (\<And>x. obeys R (f x)) \<Longrightarrow> obeys R (attempt m f)"
  unfolding obeys_def attempt_def
  by (auto split: prod.splits) (metis snd_conv trans)

lemma whenA: "(b \<Longrightarrow> obeys R m) \<Longrightarrow> obeys R (whenA b m)"
  by (simp add: whenA_def ret)

lemma forA: "(\<And>x. obeys R (f x)) \<Longrightarrow> obeys R (forA xs f)"
  by (induction xs) (simp_all add: ret tryA)

lemma mapA: "(\<And>x. obeys R (f x)) \<Longrightarrow> obeys R (mapA f xs)"
  by (induction xs) (simp_all add: ret tryA)

lemma foldA: "(\<And>a x. obeys R (f a x)) \<Longrightarrow> obeys R (foldA f a xs)"
  by (induction xs arbitrary: a) (simp_all add: ret tryA)

lemma forA_each:
  "(\<And>x. obeys R (f x)) \<Longrightarrow> forA xs f s = (Inr u, s') \<Longrightarrow> x \<in> set xs \<Longrightarrow>
     \<exists>s1 s2. f x s1 = (Inr (), s2) \<and> R s s1 \<and> R s2 s'"
proof (induction xs arbitrary: s)
  case (Cons a xs)
  from Cons.prems(2) obtain s1 where s1: "f a s = (Inr (), s1)" "forA xs f s1 = (Inr u, s')"
    by (auto simp: tryA_eq_Inr)
  have "R s s1" using obeysD[OF Cons.prems(1) s1(1)] .
  show ?case
  proof (cases "x = a")
    case True
    have "R s1 s'" using obeysD[OF forA s1(2)] Cons.prems(1) by blast
    with True s1(1) show ?thesis using refl by blast
  next
    case False
    with Cons.IH[OF Cons.prems(1) s1(2)] Cons.prems(3)
    obtain q1 q2 where "f x q1 = (Inr (), q2)" "R s1 q1" "R q2 s'" by auto
    with \<open>R s s1\<close> show ?thesis using trans by blast
  qed
qed simp

lemmas rules = ret fail lift gets tryA attempt whenA forA mapA foldA

end

interpretation same_state: frame "(=)"
  by unfold_locales auto

text \<open>Actions that only read leave the state as it is.\<close>

lemma reads_only: "obeys (=) m \<Longrightarrow> m s = (r, s') \<Longrightarrow> s' = s"
  by (drule (1) obeysD) simp

end
