(* ===== verification/Task_Types.thy ===== *)
theory Task_Types
  imports Actions
begin

section \<open>Task statuses, priorities and message types\<close>

text \<open>
  \<^verbatim>\<open>src/domain/task/types.rs\<close>: the status state machine, with the printed names that are
  stored and logged.
\<close>

datatype task_status = Created | Sent | InProgress | Blocked | InReview | Completed | Cancelled

datatype task_priority = Low | Medium | High | Urgent

datatype message_type = Text | Voice

fun can_transition_to :: "task_status \<Rightarrow> task_status \<Rightarrow> bool" where
  "can_transition_to Created Sent = True"
| "can_transition_to Created InProgress = True"
| "can_transition_to Created Blocked = True"
| "can_transition_to Created Cancelled = True"
| "can_transition_to Sent InProgress = True"
| "can_transition_to Sent Blocked = True"
| "can_transition_to Sent InReview = True"
| "can_transition_to Sent Cancelled = True"
| "can_transition_to InProgress Blocked = True"
| "can_transition_to InProgress InReview = True"
| "can_transition_to InProgress Cancelled = True"
| "can_transition_to Blocked InProgress = True"
| "can_transition_to Blocked InReview = True"
| "can_transition_to Blocked Cancelled = True"
| "can_transition_to InReview InProgress = True"
| "can_transition_to InReview Completed = True"
| "can_transition_to InReview Cancelled = True"
| "can_transition_to _ _ = False"

fun is_terminal :: "task_status \<Rightarrow> bool" where
  "is_terminal Completed = True"
| "is_terminal Cancelled = True"
| "is_terminal _ = False"

fun show_status :: "task_status \<Rightarrow> string" where
  "show_status Created = ''created''"
| "show_status Sent = ''sent''"
| "show_status InProgress = ''in_progress''"
| "show_status Blocked = ''blocked''"
| "show_status InReview = ''in_review''"
| "show_status Completed = ''completed''"
| "show_status Cancelled = ''cancelled''"

lemma is_terminal_iff: "is_terminal s \<longleftrightarrow> s = Completed \<or> s = Cancelled"
  by (cases s) auto

lemma show_status_inj [simp]: "show_status s = show_status r \<longleftrightarrow> s = r"
  by (cases s; cases r) auto

lemma terminal_iff_stuck: "is_terminal s \<longleftrightarrow> (\<forall>r. \<not> can_transition_to s r)"
proof (cases s)
  case Created
  then show ?thesis by (auto intro!: exI[of _ Sent])
next
  case Sent
  then show ?thesis by (auto intro!: exI[of _ InReview])
next
  case InProgress
  then show ?thesis by (auto intro!: exI[of _ InReview])
next
  case Blocked
  then show ?thesis by (auto intro!: exI[of _ InReview])
next
  case InReview
  then show ?thesis by (auto intro!: exI[of _ Completed])
qed auto

lemma transition_irrefl [simp]: "\<not> can_transition_to s s"
  by (cases s) auto

lemma no_transition_to_Created [simp]: "\<not> can_transition_to s Created"
  by (cases s) auto

lemma to_Completed_iff [simp]: "can_transition_to s Completed \<longleftrightarrow> s = InReview"
  by (cases s) auto

lemma to_Blocked_iff: "can_transition_to s Blocked \<longleftrightarrow> s \<in> {Created, Sent, InProgress}"
  by (cases s) auto

lemma to_Cancelled_iff: "can_transition_to s Cancelled \<longleftrightarrow> \<not> is_terminal s"
  by (cases s) auto

lemma to_InProgress_iff:
  "can_transition_to s InProgress \<longleftrightarrow> \<not> is_terminal s \<and> s \<noteq> InProgress"
  by (cases s) auto

lemma to_InReview_iff: "can_transition_to s InReview \<longleftrightarrow> s \<in> {Sent, InProgress, Blocked}"
  by (cases s) auto

lemma to_Sent_iff: "can_transition_to s Sent \<longleftrightarrow> s = Created"
  by (cases s) auto

lemmas transition_iffs =
  to_Blocked_iff to_Cancelled_iff to_InProgress_iff to_InReview_iff to_Sent_iff

instantiation task_status :: linorder
begin

fun status_rank :: "task_status \<Rightarrow> nat" where
  "status_rank Created = 0"
| "status_rank Sent = 1"
| "status_rank InProgress = 2"
| "status_rank Blocked = 3"
| "status_rank InReview = 4"
| "status_rank Completed = 5"
| "status_rank Cancelled = 6"

definition less_eq_task_status :: "task_status \<Rightarrow> task_status \<Rightarrow> bool" where
  "less_eq_task_status s r \<longleftrightarrow> status_rank s \<le> status_rank r"

definition less_task_status :: "task_status \<Rightarrow> task_status \<Rightarrow> bool" where
  "less_task_status s r \<longleftrightarrow> status_rank s < status_rank r"

instance
proof
  fix s r u :: task_status
  show "s < r \<longleftrightarrow> s \<le> r \<and> \<not> r \<le> s" by (auto simp: less_eq_task_status_def less_task_status_def)
  show "s \<le> s" by (simp add: less_eq_task_status_def)
  show "s \<le> r \<Longrightarrow> r \<le> u \<Longrightarrow> s \<le> u" by (simp add: less_eq_task_status_def)
  show "s \<le> r \<Longrightarrow> r \<le> s \<Longrightarrow> s = r" by (cases s; cases r) (auto simp: less_eq_task_status_def)
  show "s \<le> r \<or> r \<le> s" by (auto simp: less_eq_task_status_def)
qed

end

end
