(* ===== verification/Task_Draft.thy ===== *)
theory Task_Draft
  imports Task_Types
begin

section \<open>The structured task draft\<close>

text \<open>
  \<^verbatim>\<open>src/domain/task/draft.rs\<close>: the draft the language model returns and the domain limits it
  must satisfy before a task is made of it. The text of a schema error is printed by the
  \<^verbatim>\<open>validator\<close> crate; \<open>report\<close> stands for it.
\<close>

definition MAX_TASK_TITLE_LENGTH :: nat where "MAX_TASK_TITLE_LENGTH = 100"
definition MAX_TASK_STEP_LENGTH :: nat where "MAX_TASK_STEP_LENGTH = 280"
definition MAX_TASK_EXPECTED_RESULT_LENGTH :: nat where "MAX_TASK_EXPECTED_RESULT_LENGTH = 280"
definition MAX_TASK_ACCEPTANCE_CRITERION_LENGTH :: nat where
  "MAX_TASK_ACCEPTANCE_CRITERION_LENGTH = 160"
definition MIN_TASK_STEPS :: nat where "MIN_TASK_STEPS = 1"
definition MAX_TASK_STEPS :: nat where "MAX_TASK_STEPS = 7"
definition MAX_ACCEPTANCE_CRITERIA :: nat where "MAX_ACCEPTANCE_CRITERIA = 5"

lemmas draft_limits =
  MAX_TASK_TITLE_LENGTH_def MAX_TASK_STEP_LENGTH_def MAX_TASK_EXPECTED_RESULT_LENGTH_def
  MAX_TASK_ACCEPTANCE_CRITERION_LENGTH_def MIN_TASK_STEPS_def MAX_TASK_STEPS_def
  MAX_ACCEPTANCE_CRITERIA_def

record structured_task_draft =
  d_title :: utext
  d_expected_result :: utext
  d_steps :: "utext list"
  d_acceptance_criteria :: "utext list"
  d_deadline_iso :: "utext option"
  d_refused :: bool
  d_refusal_reason :: "utext option"

text \<open>The derived \<^verbatim>\<open>Validate\<close> checks: a title of 1 to 100 characters, a non-empty result.\<close>

definition schema_ok :: "structured_task_draft \<Rightarrow> bool" where
  "schema_ok d \<longleftrightarrow>
     1 \<le> length (d_title d) \<and> length (d_title d) \<le> 100 \<and> 1 \<le> length (d_expected_result d)"

definition validate_business_rules ::
  "(structured_task_draft \<Rightarrow> utext) \<Rightarrow> structured_task_draft \<Rightarrow> unit result" where
  "validate_business_rules report d =
    (if d_refused d then
       Inl (business_rule ''TASK_DRAFT_REFUSED''
         (ascii ''AI refused to produce a task for this input'')
         (JObj [(''reason'', jopt JStr (d_refusal_reason d))]))
     else if \<not> schema_ok d then
       Inl (schema_validation ''TASK_DRAFT_INVALID''
         (ascii ''AI response does not match the expected schema'')
         (JObj [(''errors'', JStr (report d))]))
     else if \<not> (MIN_TASK_STEPS \<le> length (d_steps d) \<and> length (d_steps d) \<le> MAX_TASK_STEPS) then
       Inl (business_rule ''TASK_STEPS_INVALID''
         (ascii ''Task must contain between 1 and 7 concrete steps'')
         (JObj [(''count'', JNum (int (length (d_steps d))))]))
     else if length (d_acceptance_criteria d) > MAX_ACCEPTANCE_CRITERIA then
       Inl (business_rule ''TASK_ACCEPTANCE_CRITERIA_INVALID''
         (ascii ''Task contains too many acceptance criteria'')
         (JObj [(''count'', JNum (int (length (d_acceptance_criteria d))))]))
     else if length (d_title d) > MAX_TASK_TITLE_LENGTH then
       Inl (business_rule ''TASK_TITLE_TOO_LONG'' (ascii ''Task title is too long'')
         (JObj [(''limit'', JNum (int MAX_TASK_TITLE_LENGTH))]))
     else if length (d_expected_result d) > MAX_TASK_EXPECTED_RESULT_LENGTH then
       Inl (business_rule ''TASK_EXPECTED_RESULT_TOO_LONG''
         (ascii ''Task expected result is too long'')
         (JObj [(''limit'', JNum (int MAX_TASK_EXPECTED_RESULT_LENGTH))]))
     else case find (\<lambda>n. n > MAX_TASK_STEP_LENGTH) (map length (d_steps d)) of
       Some n \<Rightarrow>
         Inl (business_rule ''TASK_STEP_TOO_LONG''
           (ascii ''Task contains a step that is too long for Telegram delivery'')
           (JObj [(''limit'', JNum (int MAX_TASK_STEP_LENGTH)), (''length'', JNum (int n))]))
     | None \<Rightarrow>
       (case find (\<lambda>n. n > MAX_TASK_ACCEPTANCE_CRITERION_LENGTH)
               (map length (d_acceptance_criteria d)) of
          Some n \<Rightarrow>
            Inl (business_rule ''TASK_ACCEPTANCE_CRITERION_TOO_LONG''
              (ascii ''Task contains an acceptance criterion that is too long for Telegram delivery'')
              (JObj [(''limit'', JNum (int MAX_TASK_ACCEPTANCE_CRITERION_LENGTH)),
                     (''length'', JNum (int n))]))
        | None \<Rightarrow> Inr ()))"

text \<open>What an accepted draft satisfies, stated without the order of the checks.\<close>

definition draft_within_limits :: "structured_task_draft \<Rightarrow> bool" where
  "draft_within_limits d \<longleftrightarrow>
     \<not> d_refused d
     \<and> length (d_title d) \<in> {1..MAX_TASK_TITLE_LENGTH}
     \<and> length (d_expected_result d) \<in> {1..MAX_TASK_EXPECTED_RESULT_LENGTH}
     \<and> length (d_steps d) \<in> {MIN_TASK_STEPS..MAX_TASK_STEPS}
     \<and> length (d_acceptance_criteria d) \<le> MAX_ACCEPTANCE_CRITERIA
     \<and> list_all (\<lambda>x. length x \<le> MAX_TASK_STEP_LENGTH) (d_steps d)
     \<and> list_all (\<lambda>x. length x \<le> MAX_TASK_ACCEPTANCE_CRITERION_LENGTH) (d_acceptance_criteria d)"

lemma find_longer_None:
  "find (\<lambda>n. n > b) (map length xs) = None \<longleftrightarrow> list_all (\<lambda>x. length x \<le> b) xs"
  by (induction xs) auto

lemma validate_ok_iff: "validate_business_rules report d = Inr u \<longleftrightarrow> draft_within_limits d"
  by (auto simp: validate_business_rules_def draft_within_limits_def schema_ok_def
      find_longer_None[symmetric] MAX_TASK_TITLE_LENGTH_def
      split: if_splits option.splits)

end
