(* ===== verification/Task_Entity.thy ===== *)
theory Task_Entity
  imports Task_Draft
begin

section \<open>The task aggregate\<close>

text \<open>
  \<^verbatim>\<open>src/domain/task/entity.rs\<close>: the task record and the four operations that produce a new
  version of it, the lifecycle they generate, and its invariants.
\<close>

definition MAX_TASK_BLOCKER_REASON_LENGTH :: nat where "MAX_TASK_BLOCKER_REASON_LENGTH = 280"

record task =
  t_id :: "row_id option"
  t_task_uid :: uuid
  t_version :: int
  t_source_message_key :: utext
  t_created_by_user_id :: row_id
  t_assigned_to_user_id :: "row_id option"
  t_assigned_to_employee_id :: "row_id option"
  t_title :: utext
  t_description :: utext
  t_acceptance_criteria :: "utext list"
  t_expected_result :: utext
  t_deadline :: "day option"
  t_deadline_raw :: "utext option"
  t_original_message :: utext
  t_message_type :: message_type
  t_ai_model_used :: utext
  t_ai_response_raw :: utext
  t_status :: task_status
  t_priority :: task_priority
  t_blocked_reason :: "utext option"
  t_telegram_chat_id :: int
  t_telegram_message_id :: int
  t_telegram_task_message_id :: "int option"
  t_tags :: "utext list"
  t_created_at :: instant
  t_sent_at :: "instant option"
  t_started_at :: "instant option"
  t_blocked_at :: "instant option"
  t_review_requested_at :: "instant option"
  t_completed_at :: "instant option"
  t_cancelled_at :: "instant option"
  t_updated_at :: instant

text \<open>
  \<^verbatim>\<open>Task::new\<close>. The fresh identifier \<^verbatim>\<open>Uuid::now_v7()\<close> is the argument \<open>uid\<close>.
\<close>

definition new_task ::
  "(structured_task_draft \<Rightarrow> utext) \<Rightarrow> uuid \<Rightarrow> utext \<Rightarrow> row_id \<Rightarrow> row_id option \<Rightarrow> row_id option \<Rightarrow>
   structured_task_draft \<Rightarrow> day option \<Rightarrow> utext option \<Rightarrow> utext \<Rightarrow> message_type \<Rightarrow> utext \<Rightarrow> utext \<Rightarrow>
   int \<Rightarrow> int \<Rightarrow> instant \<Rightarrow> task result" where
  "new_task report uid key creator user employee draft deadline deadline_raw original mtype
     model raw chat message now =
   tryR (validate_business_rules report draft) (\<lambda>_.
   Inr \<lparr> t_id = None, t_task_uid = uid, t_version = 0, t_source_message_key = key,
         t_created_by_user_id = creator, t_assigned_to_user_id = user,
         t_assigned_to_employee_id = employee, t_title = d_title draft,
         t_description = join (ascii [CHR 10]) (d_steps draft),
         t_acceptance_criteria = d_acceptance_criteria draft,
         t_expected_result = d_expected_result draft, t_deadline = deadline,
         t_deadline_raw = deadline_raw, t_original_message = original, t_message_type = mtype,
         t_ai_model_used = model, t_ai_response_raw = raw, t_status = Created,
         t_priority = Medium, t_blocked_reason = None, t_telegram_chat_id = chat,
         t_telegram_message_id = message, t_telegram_task_message_id = None, t_tags = [],
         t_created_at = now, t_sent_at = None, t_started_at = None, t_blocked_at = None,
         t_review_requested_at = None, t_completed_at = None, t_cancelled_at = None,
         t_updated_at = now \<rparr>)"

definition mark_timestamp ::
  "task_status \<Rightarrow> task_status \<Rightarrow> instant option \<Rightarrow> instant \<Rightarrow> instant option" where
  "mark_timestamp next_status target_status current now =
     (if next_status = target_status
      then (case current of None \<Rightarrow> Some now | Some v \<Rightarrow> Some v)
      else current)"

definition transition_to :: "task \<Rightarrow> task_status \<Rightarrow> instant \<Rightarrow> task result" where
  "transition_to t next_status now =
    (if \<not> can_transition_to (t_status t) next_status then
       Inl (business_rule ''TASK_TRANSITION_INVALID''
         (ascii ''Task status transition is not allowed'')
         (JObj [(''from'', jstr (show_status (t_status t))),
                (''to'', jstr (show_status next_status)),
                (''task_uid'', JUuid (t_task_uid t))]))
     else
       Inr (t\<lparr> t_version := t_version t + 1,
              t_status := next_status,
              t_updated_at := now,
              t_sent_at := mark_timestamp next_status Sent (t_sent_at t) now,
              t_started_at := mark_timestamp next_status InProgress (t_started_at t) now,
              t_blocked_at := mark_timestamp next_status Blocked (t_blocked_at t) now,
              t_review_requested_at :=
                mark_timestamp next_status InReview (t_review_requested_at t) now,
              t_completed_at := mark_timestamp next_status Completed (t_completed_at t) now,
              t_cancelled_at := mark_timestamp next_status Cancelled (t_cancelled_at t) now,
              t_blocked_reason :=
                (if next_status \<noteq> Blocked then None else t_blocked_reason t) \<rparr>))"

definition apply_blocker :: "task \<Rightarrow> utext \<Rightarrow> instant \<Rightarrow> task result" where
  "apply_blocker t reason now =
    (let normalized = trim reason in
     if normalized = [] then
       Inl (business_rule ''TASK_BLOCKER_EMPTY'' (ascii ''Blocker reason cannot be empty'')
         (JObj []))
     else if length normalized > MAX_TASK_BLOCKER_REASON_LENGTH then
       Inl (business_rule ''TASK_BLOCKER_TOO_LONG'' (ascii ''Blocker reason is too long'')
         (JObj [(''limit'', JNum (int MAX_TASK_BLOCKER_REASON_LENGTH))]))
     else tryR (transition_to t Blocked now) (\<lambda>t'.
       Inr (t'\<lparr> t_blocked_reason := Some normalized \<rparr>)))"

definition reassign :: "task \<Rightarrow> row_id option \<Rightarrow> row_id option \<Rightarrow> instant \<Rightarrow> task result" where
  "reassign t user employee now =
    (if is_terminal (t_status t) then
       Inl (business_rule ''TASK_REASSIGN_TERMINAL''
         (ascii ''Completed or cancelled task cannot be reassigned'')
         (JObj [(''task_uid'', JUuid (t_task_uid t)),
                (''status'', jstr (show_status (t_status t)))]))
     else
       Inr (t\<lparr> t_version := t_version t + 1,
              t_assigned_to_user_id := user,
              t_assigned_to_employee_id := employee,
              t_status := Created,
              t_started_at := None,
              t_blocked_at := None,
              t_review_requested_at := None,
              t_completed_at := None,
              t_cancelled_at := None,
              t_sent_at := None,
              t_blocked_reason := None,
              t_updated_at := now \<rparr>))"

definition link_registered_assignee :: "task \<Rightarrow> row_id \<Rightarrow> instant \<Rightarrow> task result" where
  "link_registered_assignee t user now =
    (if t_assigned_to_employee_id t = None then
       Inl (business_rule ''TASK_EMPLOYEE_ASSIGNMENT_MISSING''
         (ascii ''Task cannot be linked to a registered assignee without an employee assignment'')
         (JObj [(''task_uid'', JUuid (t_task_uid t))]))
     else if t_assigned_to_user_id t = Some user then Inr t
     else
       Inr (t\<lparr> t_version := t_version t + 1,
              t_assigned_to_user_id := Some user,
              t_updated_at := now \<rparr>))"

definition review_required :: "task \<Rightarrow> bool" where
  "review_required t \<longleftrightarrow>
     (case t_assigned_to_user_id t of
        Some user \<Rightarrow> user \<noteq> t_created_by_user_id t
      | None \<Rightarrow> False)"

end
