(* ===== verification/Task_Lifecycle.thy ===== *)
theory Task_Lifecycle
  imports Task_Entity
begin

section \<open>The life of a task\<close>

text \<open>
  The operations of the task aggregate as a step relation, the tasks reachable from creation
  under a clock that does not run backwards, and the invariants of all of them: which
  timestamps a status implies, their order, the blocker reason, the version counter, and what
  no operation ever changes.
\<close>

subsection \<open>Effect of the single operations\<close>

lemma mark_timestamp_simps [simp]:
  "mark_timestamp s s (Some v) now = Some v"
  "mark_timestamp s s None now = Some now"
  "s \<noteq> r \<Longrightarrow> mark_timestamp s r w now = w"
  by (simp_all add: mark_timestamp_def)

lemma mark_timestamp_None_iff: "mark_timestamp s r v now = None \<longleftrightarrow> v = None \<and> s \<noteq> r"
  by (auto simp: mark_timestamp_def split: option.split)

lemma transition_ok_iff:
  "(\<exists>t'. transition_to t s now = Inr t') \<longleftrightarrow> can_transition_to (t_status t) s"
  by (simp add: transition_to_def)

lemma transition_fields:
  assumes "transition_to t s now = Inr t'"
  shows "can_transition_to (t_status t) s" "t_status t' = s" "t_version t' = t_version t + 1"
    "t_updated_at t' = now" "t_id t' = t_id t" "t_task_uid t' = t_task_uid t"
    "t_created_by_user_id t' = t_created_by_user_id t"
    "t_assigned_to_user_id t' = t_assigned_to_user_id t"
    "t_assigned_to_employee_id t' = t_assigned_to_employee_id t"
    "t_source_message_key t' = t_source_message_key t"
    "t_title t' = t_title t" "t_deadline t' = t_deadline t" "t_created_at t' = t_created_at t"
    "t_blocked_reason t' = (if s = Blocked then t_blocked_reason t else None)"
    "t_sent_at t' = mark_timestamp s Sent (t_sent_at t) now"
    "t_started_at t' = mark_timestamp s InProgress (t_started_at t) now"
    "t_blocked_at t' = mark_timestamp s Blocked (t_blocked_at t) now"
    "t_review_requested_at t' = mark_timestamp s InReview (t_review_requested_at t) now"
    "t_completed_at t' = mark_timestamp s Completed (t_completed_at t) now"
    "t_cancelled_at t' = mark_timestamp s Cancelled (t_cancelled_at t) now"
  using assms by (auto simp: transition_to_def split: if_splits)

lemma apply_blocker_ok_iff:
  "apply_blocker t r now = Inr t' \<longleftrightarrow>
     trim r \<noteq> [] \<and> length (trim r) \<le> MAX_TASK_BLOCKER_REASON_LENGTH \<and>
     (\<exists>t1. transition_to t Blocked now = Inr t1 \<and> t' = t1\<lparr> t_blocked_reason := Some (trim r) \<rparr>)"
  by (auto simp: apply_blocker_def Let_def tryR_eq_Inr not_less)

lemma apply_blocker_fields:
  assumes "apply_blocker t r now = Inr t'"
  shows "can_transition_to (t_status t) Blocked" "t_status t' = Blocked"
    "t_version t' = t_version t + 1" "t_updated_at t' = now" "t_task_uid t' = t_task_uid t"
    "t_id t' = t_id t" "t_created_by_user_id t' = t_created_by_user_id t"
    "t_assigned_to_user_id t' = t_assigned_to_user_id t"
    "t_assigned_to_employee_id t' = t_assigned_to_employee_id t"
    "t_source_message_key t' = t_source_message_key t"
    "t_blocked_reason t' = Some (trim r)" "trim r \<noteq> []"
    "length (trim r) \<le> MAX_TASK_BLOCKER_REASON_LENGTH"
proof -
  obtain t1 where t1: "transition_to t Blocked now = Inr t1"
    "t' = t1\<lparr> t_blocked_reason := Some (trim r) \<rparr>" "trim r \<noteq> []"
    "length (trim r) \<le> MAX_TASK_BLOCKER_REASON_LENGTH"
    using assms by (auto simp: apply_blocker_ok_iff)
  note F = transition_fields[OF t1(1)]
  show "can_transition_to (t_status t) Blocked" "t_status t' = Blocked"
    "t_version t' = t_version t + 1" "t_updated_at t' = now" "t_task_uid t' = t_task_uid t"
    "t_id t' = t_id t" "t_created_by_user_id t' = t_created_by_user_id t"
    "t_assigned_to_user_id t' = t_assigned_to_user_id t"
    "t_assigned_to_employee_id t' = t_assigned_to_employee_id t"
    "t_source_message_key t' = t_source_message_key t"
    "t_blocked_reason t' = Some (trim r)" "trim r \<noteq> []"
    "length (trim r) \<le> MAX_TASK_BLOCKER_REASON_LENGTH"
    using F(1) t1(3,4) by (simp_all add: F t1(2))
qed

lemma reassign_ok_iff: "(\<exists>t'. reassign t u e now = Inr t') \<longleftrightarrow> \<not> is_terminal (t_status t)"
  by (simp add: reassign_def)

lemma reassign_fields:
  assumes "reassign t u e now = Inr t'"
  shows "t_status t' = Created" "t_version t' = t_version t + 1" "t_updated_at t' = now"
    "t_assigned_to_user_id t' = u" "t_assigned_to_employee_id t' = e"
    "t_id t' = t_id t" "t_task_uid t' = t_task_uid t" "\<not> is_terminal (t_status t)"
    "t_created_by_user_id t' = t_created_by_user_id t"
    "t_source_message_key t' = t_source_message_key t" "t_title t' = t_title t"
    "t_created_at t' = t_created_at t" "t_blocked_reason t' = None"
    "t_sent_at t' = None" "t_started_at t' = None" "t_blocked_at t' = None"
    "t_review_requested_at t' = None" "t_completed_at t' = None" "t_cancelled_at t' = None"
  using assms by (auto simp: reassign_def split: if_splits)

lemma link_fields:
  assumes "link_registered_assignee t u now = Inr t'"
  shows "t_status t' = t_status t" "t_assigned_to_user_id t' = Some u"
    "t' = t \<or> t_version t' = t_version t + 1 \<and> t_updated_at t' = now"
    "t_id t' = t_id t" "t_task_uid t' = t_task_uid t" "t_created_at t' = t_created_at t"
    "t_assigned_to_employee_id t' = t_assigned_to_employee_id t"
    "t_created_by_user_id t' = t_created_by_user_id t"
    "t_source_message_key t' = t_source_message_key t"
    "t_blocked_reason t' = t_blocked_reason t"
    "t_sent_at t' = t_sent_at t" "t_started_at t' = t_started_at t"
    "t_blocked_at t' = t_blocked_at t"
    "t_review_requested_at t' = t_review_requested_at t"
    "t_completed_at t' = t_completed_at t" "t_cancelled_at t' = t_cancelled_at t"
  using assms by (auto simp: link_registered_assignee_def split: if_splits)

subsection \<open>Steps and reachable tasks\<close>

inductive task_step :: "instant \<Rightarrow> task \<Rightarrow> task \<Rightarrow> bool" where
  step_transition: "transition_to t s now = Inr t' \<Longrightarrow> task_step now t t'"
| step_blocker: "apply_blocker t r now = Inr t' \<Longrightarrow> task_step now t t'"
| step_reassign: "reassign t u e now = Inr t' \<Longrightarrow> task_step now t t'"
| step_link: "link_registered_assignee t u now = Inr t' \<Longrightarrow> task_step now t t'"

inductive_cases task_stepE: "task_step now t t'"

inductive task_lives :: "(structured_task_draft \<Rightarrow> utext) \<Rightarrow> instant \<Rightarrow> task \<Rightarrow> bool"
  for report where
  born: "new_task report uid key creator user employee draft deadline deadline_raw original mtype
           model raw chat message now = Inr t \<Longrightarrow> task_lives report now t"
| lives_step: "task_lives report t0 t \<Longrightarrow> t0 \<le> now \<Longrightarrow> task_step now t t' \<Longrightarrow>
           task_lives report now t'"

text \<open>The identity and the content of a task: no operation writes them.\<close>

definition same_content :: "task \<Rightarrow> task \<Rightarrow> bool" where
  "same_content t t' \<longleftrightarrow>
     t_id t' = t_id t \<and> t_task_uid t' = t_task_uid t
     \<and> t_source_message_key t' = t_source_message_key t
     \<and> t_created_by_user_id t' = t_created_by_user_id t
     \<and> t_title t' = t_title t \<and> t_description t' = t_description t
     \<and> t_acceptance_criteria t' = t_acceptance_criteria t
     \<and> t_expected_result t' = t_expected_result t \<and> t_deadline t' = t_deadline t
     \<and> t_deadline_raw t' = t_deadline_raw t \<and> t_original_message t' = t_original_message t
     \<and> t_message_type t' = t_message_type t \<and> t_priority t' = t_priority t
     \<and> t_telegram_chat_id t' = t_telegram_chat_id t
     \<and> t_telegram_message_id t' = t_telegram_message_id t
     \<and> t_created_at t' = t_created_at t"

text \<open>The stamps a status implies.\<close>

definition stamps_fit_status :: "task \<Rightarrow> bool" where
  "stamps_fit_status t \<longleftrightarrow>
     (t_completed_at t \<noteq> None \<longleftrightarrow> t_status t = Completed)
     \<and> (t_cancelled_at t \<noteq> None \<longleftrightarrow> t_status t = Cancelled)
     \<and> (t_status t = Sent \<longrightarrow> t_sent_at t \<noteq> None)
     \<and> (t_status t = InProgress \<longrightarrow> t_started_at t \<noteq> None)
     \<and> (t_status t = Blocked \<longrightarrow> t_blocked_at t \<noteq> None)
     \<and> (t_status t = InReview \<or> t_status t = Completed \<longrightarrow> t_review_requested_at t \<noteq> None)
     \<and> (t_status t = Created \<longrightarrow> t_sent_at t = None \<and> t_started_at t = None
          \<and> t_blocked_at t = None \<and> t_review_requested_at t = None)"

definition reason_fits_status :: "task \<Rightarrow> bool" where
  "reason_fits_status t \<longleftrightarrow>
     (case t_blocked_reason t of
        None \<Rightarrow> True
      | Some r \<Rightarrow> t_status t = Blocked \<and> r \<noteq> [] \<and> trim r = r
                  \<and> length r \<le> MAX_TASK_BLOCKER_REASON_LENGTH)"

definition stamp_within :: "instant \<Rightarrow> instant \<Rightarrow> instant option \<Rightarrow> bool" where
  "stamp_within a b v \<longleftrightarrow> (case v of None \<Rightarrow> True | Some x \<Rightarrow> a \<le> x \<and> x \<le> b)"

definition work_stamps_within :: "instant \<Rightarrow> task \<Rightarrow> bool" where
  "work_stamps_within b t \<longleftrightarrow>
     stamp_within (t_created_at t) b (t_sent_at t)
     \<and> stamp_within (t_created_at t) b (t_started_at t)
     \<and> stamp_within (t_created_at t) b (t_blocked_at t)
     \<and> stamp_within (t_created_at t) b (t_review_requested_at t)"

text \<open>All work precedes the end of the task, and every stamp lies in its lifetime.\<close>

definition stamps_in_order :: "task \<Rightarrow> bool" where
  "stamps_in_order t \<longleftrightarrow>
     t_created_at t \<le> t_updated_at t \<and> work_stamps_within (t_updated_at t) t
     \<and> (case t_completed_at t of None \<Rightarrow> True
        | Some c \<Rightarrow> t_created_at t \<le> c \<and> c \<le> t_updated_at t \<and> work_stamps_within c t)
     \<and> (case t_cancelled_at t of None \<Rightarrow> True
        | Some c \<Rightarrow> t_created_at t \<le> c \<and> c \<le> t_updated_at t \<and> work_stamps_within c t)"

definition task_inv :: "task \<Rightarrow> bool" where
  "task_inv t \<longleftrightarrow> 0 \<le> t_version t \<and> stamps_fit_status t \<and> reason_fits_status t"

lemma stamp_within_None [simp]: "stamp_within a b None"
  by (simp add: stamp_within_def)

lemma stamp_within_mono: "stamp_within a b v \<Longrightarrow> b \<le> c \<Longrightarrow> stamp_within a c v"
  by (auto simp: stamp_within_def split: option.splits)

lemma stamp_within_mark:
  "stamp_within a b v \<Longrightarrow> a \<le> now \<Longrightarrow> b \<le> now \<Longrightarrow> stamp_within a now (mark_timestamp s r v now)"
  by (auto simp: mark_timestamp_def stamp_within_def split: option.splits)

lemma work_stamps_within_mono: "work_stamps_within b t \<Longrightarrow> b \<le> c \<Longrightarrow> work_stamps_within c t"
  by (auto simp: work_stamps_within_def intro: stamp_within_mono)

lemma work_stamps_within_reason [simp]:
  "work_stamps_within b (t\<lparr> t_blocked_reason := r \<rparr>) = work_stamps_within b t"
  by (simp add: work_stamps_within_def)

lemma stamps_in_order_reason [simp]:
  "stamps_in_order (t\<lparr> t_blocked_reason := r \<rparr>) = stamps_in_order t"
  by (simp add: stamps_in_order_def cong: option.case_cong)

lemma new_task_inv:
  assumes "new_task report uid key creator user employee draft deadline deadline_raw original
             mtype model raw chat message now = Inr t"
  shows "task_inv t" "stamps_in_order t" "t_updated_at t = now"
    "t_status t = Created" "t_version t = 0" "t_task_uid t = uid" "t_id t = None"
    "t_source_message_key t = key" "t_created_by_user_id t = creator"
    "t_assigned_to_user_id t = user" "t_assigned_to_employee_id t = employee"
    "draft_within_limits draft" "t_title t = d_title draft"
    "t_expected_result t = d_expected_result draft"
    "t_acceptance_criteria t = d_acceptance_criteria draft"
    "t_created_at t = now" "t_review_requested_at t = None" "t_completed_at t = None"
  using assms
  by (auto simp: new_task_def tryR_eq_Inr validate_ok_iff task_inv_def stamps_fit_status_def
      reason_fits_status_def stamps_in_order_def work_stamps_within_def)

lemma transition_inv:
  assumes "task_inv t" "transition_to t s now = Inr t'"
  shows "task_inv t'"
proof -
  note F = transition_fields[OF assms(2)]
  have "stamps_fit_status t'"
    using assms(1) F(1) unfolding task_inv_def stamps_fit_status_def F mark_timestamp_None_iff
    by (cases s; cases "t_status t"; simp)
  moreover have "reason_fits_status t'"
    using assms(1) F(1)
    by (auto simp: reason_fits_status_def F task_inv_def split: option.splits)
  ultimately show ?thesis using assms(1) by (simp add: task_inv_def F)
qed

lemma blocker_inv:
  assumes "task_inv t" "apply_blocker t r now = Inr t'"
  shows "task_inv t'"
proof -
  from assms(2) obtain t1 where
    t1: "transition_to t Blocked now = Inr t1" "t' = t1\<lparr> t_blocked_reason := Some (trim r) \<rparr>"
    and r: "trim r \<noteq> []" "length (trim r) \<le> MAX_TASK_BLOCKER_REASON_LENGTH"
    by (auto simp: apply_blocker_ok_iff)
  have "task_inv t1" using transition_inv[OF assms(1) t1(1)] .
  moreover have "t_status t1 = Blocked" using transition_fields(2)[OF t1(1)] .
  ultimately show ?thesis
    using r t1(2) by (simp add: task_inv_def stamps_fit_status_def reason_fits_status_def)
qed

lemma reassign_inv:
  assumes "task_inv t" "reassign t u e now = Inr t'"
  shows "task_inv t'"
  using assms(1)
  by (simp add: task_inv_def stamps_fit_status_def reason_fits_status_def
      reassign_fields[OF assms(2)])

lemma link_inv:
  assumes "task_inv t" "link_registered_assignee t u now = Inr t'"
  shows "task_inv t'"
proof -
  have "t_version t \<le> t_version t'" using link_fields(3)[OF assms(2)] by auto
  with assms(1) show ?thesis
    by (simp add: task_inv_def stamps_fit_status_def reason_fits_status_def
        link_fields(1,10-16)[OF assms(2)] cong: option.case_cong)
qed

lemma task_step_inv: "task_step now t t' \<Longrightarrow> task_inv t \<Longrightarrow> task_inv t'"
  by (elim task_stepE) (blast intro: transition_inv blocker_inv reassign_inv link_inv)+

lemma transition_content: "transition_to t s now = Inr t' \<Longrightarrow> same_content t t'"
  unfolding transition_to_def by (clarsimp split: if_split_asm) (simp_all add: same_content_def)

lemma blocker_content: "apply_blocker t r now = Inr t' \<Longrightarrow> same_content t t'"
  using transition_content[of t Blocked now]
  by (clarsimp simp: apply_blocker_ok_iff) (simp add: same_content_def)

lemma reassign_content: "reassign t u e now = Inr t' \<Longrightarrow> same_content t t'"
  unfolding reassign_def by (clarsimp split: if_splits) (simp add: same_content_def)

lemma link_content: "link_registered_assignee t u now = Inr t' \<Longrightarrow> same_content t t'"
  unfolding link_registered_assignee_def
  by (clarsimp split: if_splits) (auto simp add: same_content_def)

lemma task_step_content: "task_step now t t' \<Longrightarrow> same_content t t'"
  by (elim task_stepE)
     (blast intro: transition_content blocker_content reassign_content link_content)+

lemma task_step_version:
  "task_step now t t' \<Longrightarrow> t' = t \<or> t_version t' = t_version t + 1 \<and> t_updated_at t' = now"
  by (elim task_stepE)
     (metis transition_fields(3,4), metis apply_blocker_fields(3,4), metis reassign_fields(2,3),
      metis link_fields(3))

lemma task_step_status:
  "task_step now t t' \<Longrightarrow>
     t_status t' = t_status t \<or> can_transition_to (t_status t) (t_status t')
     \<or> \<not> is_terminal (t_status t) \<and> t_status t' = Created"
  by (elim task_stepE)
     (metis transition_fields(1,2), metis apply_blocker_fields(1,2), metis reassign_fields(1,8),
      metis link_fields(1))

lemma transition_order:
  assumes "stamps_in_order t" "stamps_fit_status t" "t_updated_at t \<le> now"
    and tr: "transition_to t s now = Inr t'"
  shows "stamps_in_order t'"
proof -
  note F = transition_fields[OF tr]
  have ended: "t_completed_at t = None" "t_cancelled_at t = None"
    using assms(2) F(1) by (cases "t_status t"; simp add: stamps_fit_status_def)+
  have le: "t_created_at t \<le> now" using assms(1,3) by (simp add: stamps_in_order_def)
  have "work_stamps_within now t'"
    using assms(1,3) le unfolding stamps_in_order_def work_stamps_within_def F
    by (blast intro: stamp_within_mark)
  with le ended show ?thesis
    by (auto simp: stamps_in_order_def F mark_timestamp_def)
qed

lemma link_order:
  assumes "link_registered_assignee t u now = Inr t'" "stamps_in_order t" "t_updated_at t \<le> now"
  shows "stamps_in_order t'"
  using link_fields(3)[OF assms(1)]
proof
  assume "t_version t' = t_version t + 1 \<and> t_updated_at t' = now"
  with assms(2,3) work_stamps_within_mono[of "t_updated_at t" t now] show ?thesis
    by (auto simp: stamps_in_order_def work_stamps_within_def link_fields[OF assms(1)]
        split: option.splits)
qed (use assms(2) in simp)

lemma task_step_order:
  assumes "task_step now t t'" "task_inv t" "stamps_in_order t" "t_updated_at t \<le> now"
  shows "stamps_in_order t'"
  using assms(1)
proof (cases rule: task_step.cases)
  case (step_transition s)
  then show ?thesis using assms transition_order by (auto simp: task_inv_def)
next
  case (step_blocker r)
  then obtain t1 where t1: "transition_to t Blocked now = Inr t1"
    "t' = t1\<lparr> t_blocked_reason := Some (trim r) \<rparr>"
    by (auto simp: apply_blocker_ok_iff)
  have "stamps_in_order t1" using assms t1(1) transition_order by (auto simp: task_inv_def)
  with t1(2) show ?thesis by simp
next
  case (step_reassign u e)
  then show ?thesis using assms(3,4)
    by (simp add: stamps_in_order_def work_stamps_within_def reassign_fields)
next
  case (step_link u)
  then show ?thesis using assms link_order by blast
qed

lemma task_lives_inv:
  "task_lives report now t \<Longrightarrow> task_inv t \<and> stamps_in_order t \<and> t_updated_at t \<le> now"
proof (induction rule: task_lives.induct)
  case (lives_step t0 t now t')
  then have "t_updated_at t \<le> now" by simp
  with lives_step show ?case
    using task_step_inv task_step_order task_step_version[OF lives_step.hyps(3)]
    by (metis order_refl)
qed (simp add: new_task_inv)

subsection \<open>A task to run the operations on\<close>

definition sample_draft :: structured_task_draft where
  "sample_draft = \<lparr> d_title = ascii ''Report'', d_expected_result = ascii ''Sent'',
     d_steps = [ascii ''Collect'', ascii ''Write''], d_acceptance_criteria = [],
     d_deadline_iso = None, d_refused = False, d_refusal_reason = None \<rparr>"

definition sample_task :: task where
  "sample_task = \<lparr> t_id = Some 7, t_task_uid = 1, t_version = 0,
     t_source_message_key = ascii ''telegram:1:1'', t_created_by_user_id = 1,
     t_assigned_to_user_id = Some 2, t_assigned_to_employee_id = Some 5,
     t_title = ascii ''Report'', t_description = ascii ''Collect'', t_acceptance_criteria = [],
     t_expected_result = ascii ''Sent'', t_deadline = None, t_deadline_raw = None,
     t_original_message = ascii ''Report'', t_message_type = Text, t_ai_model_used = [],
     t_ai_response_raw = [], t_status = Created, t_priority = Medium, t_blocked_reason = None,
     t_telegram_chat_id = 1, t_telegram_message_id = 1, t_telegram_task_message_id = None,
     t_tags = [], t_created_at = 0, t_sent_at = None, t_started_at = None, t_blocked_at = None,
     t_review_requested_at = None, t_completed_at = None, t_cancelled_at = None,
     t_updated_at = 0 \<rparr>"

lemma sample_draft_within_limits: "draft_within_limits sample_draft"
  by (simp add: draft_within_limits_def sample_draft_def draft_limits)

lemma sample_task_fields [simp]:
  "t_id sample_task = Some 7" "t_task_uid sample_task = 1" "t_version sample_task = 0"
  "t_created_by_user_id sample_task = 1" "t_assigned_to_user_id sample_task = Some 2"
  "t_assigned_to_employee_id sample_task = Some 5" "t_status sample_task = Created"
  "t_blocked_reason sample_task = None" "t_created_at sample_task = 0"
  "t_updated_at sample_task = 0" "t_sent_at sample_task = None"
  "t_started_at sample_task = None" "t_blocked_at sample_task = None"
  "t_review_requested_at sample_task = None" "t_completed_at sample_task = None"
  "t_cancelled_at sample_task = None"
  by (simp_all add: sample_task_def)

definition no_report :: "structured_task_draft \<Rightarrow> utext" where
  "no_report d = []"

definition sample_created :: task where
  "sample_created =
     (case new_task no_report 1 (ascii ''telegram:1:1'') 1 (Some 2) (Some 5) sample_draft None None
        (ascii ''Report'') Text [] [] 1 1 0 of Inr t \<Rightarrow> t | Inl _ \<Rightarrow> sample_task)"

lemma sample_created:
  "new_task no_report 1 (ascii ''telegram:1:1'') 1 (Some 2) (Some 5) sample_draft None None
     (ascii ''Report'') Text [] [] 1 1 0 = Inr sample_created"
proof -
  have "validate_business_rules no_report sample_draft = Inr ()"
    using sample_draft_within_limits by (simp add: validate_ok_iff)
  then show ?thesis by (simp add: sample_created_def new_task_def)
qed

text \<open>The sample driven through start, review and approval at the times 1, 2 and 3.\<close>

fun run_transitions :: "task \<Rightarrow> (task_status \<times> instant) list \<Rightarrow> task result" where
  "run_transitions t [] = Inr t"
| "run_transitions t ((s, now) # rest) =
     tryR (transition_to t s now) (\<lambda>t'. run_transitions t' rest)"

lemma run_transitions_lives:
  "task_lives report t0 t \<Longrightarrow> run_transitions t steps = Inr t' \<Longrightarrow>
     sorted (t0 # map snd steps) \<Longrightarrow> task_lives report (last (t0 # map snd steps)) t'"
proof (induction t steps arbitrary: t0 rule: run_transitions.induct)
  case (2 t s now rest)
  then obtain t1 where t1: "transition_to t s now = Inr t1" "run_transitions t1 rest = Inr t'"
    by (auto simp: tryR_eq_Inr)
  have "task_lives report now t1"
    using 2(2,4) t1(1) by (auto intro: lives_step step_transition)
  from 2(1)[OF this t1(2)] 2(4) show ?case by simp
qed simp

definition sample_completed :: task where
  "sample_completed =
     (case run_transitions sample_created [(InProgress, 1), (InReview, 2), (Completed, 3)] of
        Inr t \<Rightarrow> t | Inl _ \<Rightarrow> sample_task)"

lemma sample_completed:
  "run_transitions sample_created [(InProgress, 1), (InReview, 2), (Completed, 3)]
     = Inr sample_completed"
  "t_status sample_completed = Completed" "t_version sample_completed = 3"
  "t_created_at sample_completed = 0"
  "t_review_requested_at sample_completed = Some 2" "t_completed_at sample_completed = Some 3"
proof -
  have s: "t_status sample_created = Created" "t_version sample_created = 0"
    using new_task_inv(4,5)[OF sample_created] by simp_all
  have "t_created_at sample_created = 0" "t_review_requested_at sample_created = None"
    "t_completed_at sample_created = None"
    using new_task_inv(16-18)[OF sample_created] by simp_all
  with s show "run_transitions sample_created [(InProgress, 1), (InReview, 2), (Completed, 3)]
      = Inr sample_completed"
    "t_status sample_completed = Completed" "t_version sample_completed = 3"
    "t_created_at sample_completed = 0"
    "t_review_requested_at sample_completed = Some 2" "t_completed_at sample_completed = Some 3"
    by (simp_all add: sample_completed_def transition_to_def)
qed

lemma sample_completed_lives: "task_lives no_report 3 sample_completed"
  using run_transitions_lives[OF born[OF sample_created] sample_completed(1)] by simp

subsection \<open>Properties of the task lifecycle\<close>

text \<open>C16. Every task reachable from its creation by any sequence of transitions, blockers,
  reassignments and late links, under a clock that does not run backwards, is consistent: the
  completion and cancellation stamps are set exactly in those statuses, each working status has
  its stamp, a blocker reason exists only while the task is blocked and is trimmed and within its
  limit, and every stamp lies between creation and last update, work stamps before the end.\<close>

theorem task_lifecycle_invariant:
  assumes "task_lives report now t"
  shows "stamps_fit_status t \<and> reason_fits_status t \<and> stamps_in_order t
    \<and> 0 \<le> t_version t \<and> t_updated_at t \<le> now"
  using task_lives_inv[OF assms] by (simp add: task_inv_def)

theorem task_lifecycle_invariant_witness:
  "stamps_fit_status sample_completed \<and> stamps_in_order sample_completed
   \<and> t_completed_at sample_completed = Some 3"
  using task_lifecycle_invariant[OF sample_completed_lives] sample_completed by blast

text \<open>Once a task is completed or cancelled no operation moves it again: every transition,
  blocker and reassignment is refused, and linking a late registration keeps its status and every
  stamp.\<close>

theorem terminal_is_final:
  assumes "is_terminal (t_status t)"
  shows "(\<exists>ctx. transition_to t s now = Inl (Validation ''TASK_TRANSITION_INVALID''
            (ascii ''Task status transition is not allowed'') ctx))
       \<and> (\<exists>e. apply_blocker t r now = Inl e)
       \<and> (\<exists>ctx. reassign t u e now = Inl (Validation ''TASK_REASSIGN_TERMINAL''
            (ascii ''Completed or cancelled task cannot be reassigned'') ctx))
       \<and> (\<forall>t'. link_registered_assignee t v now = Inr t' \<longrightarrow>
            t_status t' = t_status t \<and> t_completed_at t' = t_completed_at t
            \<and> t_cancelled_at t' = t_cancelled_at t \<and> t_started_at t' = t_started_at t)"
proof (intro conjI)
  have stuck: "\<not> can_transition_to (t_status t) s'" for s'
    using assms terminal_iff_stuck by blast
  then show "\<exists>ctx. transition_to t s now = Inl (Validation ''TASK_TRANSITION_INVALID''
           (ascii ''Task status transition is not allowed'') ctx)"
    by (simp add: transition_to_def business_rule_def)
  show "\<exists>e. apply_blocker t r now = Inl e"
    using stuck by (simp add: apply_blocker_def Let_def transition_to_def)
  show "\<exists>ctx. reassign t u e now = Inl (Validation ''TASK_REASSIGN_TERMINAL''
           (ascii ''Completed or cancelled task cannot be reassigned'') ctx)"
    using assms by (simp add: reassign_def business_rule_def)
qed (simp add: link_fields)

theorem terminal_is_final_witness:
  "\<exists>e. apply_blocker sample_completed (ascii ''late'') 9 = Inl e"
proof -
  have "is_terminal (t_status sample_completed)" using sample_completed(2) by simp
  from terminal_is_final[OF this] show ?thesis by blast
qed

text \<open>A successful operation either returns the task unchanged (a link that is already
  there) or raises its version by exactly one and stamps the update; it never changes the identity,
  the creator, the source message or the content of the task, and the status follows an edge of the
  state machine, stays, or goes back to created from a status that is not terminal.\<close>

theorem step_is_one_version:
  assumes "task_step now t t'"
  shows "(t' = t \<or> t_version t' = t_version t + 1 \<and> t_updated_at t' = now)
    \<and> same_content t t'
    \<and> (t_status t' = t_status t \<or> can_transition_to (t_status t) (t_status t')
       \<or> \<not> is_terminal (t_status t) \<and> t_status t' = Created)"
  using task_step_version[OF assms] task_step_content[OF assms] task_step_status[OF assms]
  by blast

lemma sample_step:
  "task_step 4 sample_task (case transition_to sample_task InProgress 4 of
     Inr t \<Rightarrow> t | Inl _ \<Rightarrow> sample_task)"
  by (rule step_transition[where s = InProgress]) (simp add: transition_to_def)

theorem step_is_one_version_witness:
  "same_content sample_task (case transition_to sample_task InProgress 4 of
     Inr t \<Rightarrow> t | Inl _ \<Rightarrow> sample_task)"
  using step_is_one_version[OF sample_step] by blast

lemma length_join_le:
  "list_all (\<lambda>x. length x \<le> b) xs \<Longrightarrow> xs \<noteq> [] \<Longrightarrow>
     length (join sep xs) \<le> length xs * b + (length xs - 1) * length sep"
proof (induction sep xs rule: join.induct)
  case (3 sep x y ys)
  then have "length (join sep (y # ys)) \<le> length (y # ys) * b + length ys * length sep" by simp
  with 3 show ?case by simp
qed auto

text \<open>A task can be created from a draft exactly when the draft is not refused and keeps
  every limit; then it starts as version 0 in status created with the fields of the draft and a
  description of at most 1966 characters.\<close>

theorem new_task_iff_limits:
  "(\<exists>t. new_task report uid key creator user employee draft deadline deadline_raw original mtype
      model raw chat message now = Inr t
      \<and> t_status t = Created \<and> t_version t = 0 \<and> t_task_uid t = uid
      \<and> t_title t = d_title draft \<and> length (t_description t) \<le> 1966)
   \<longleftrightarrow> draft_within_limits draft"
proof
  assume "draft_within_limits draft"
  moreover from this have "length (join (ascii [CHR 10]) (d_steps draft)) \<le> 1966"
    using length_join_le[of MAX_TASK_STEP_LENGTH "d_steps draft" "ascii [CHR 10]"]
    by (force simp: draft_within_limits_def draft_limits)
  ultimately show "\<exists>t. new_task report uid key creator user employee draft deadline deadline_raw
      original mtype model raw chat message now = Inr t
      \<and> t_status t = Created \<and> t_version t = 0 \<and> t_task_uid t = uid
      \<and> t_title t = d_title draft \<and> length (t_description t) \<le> 1966"
    by (simp add: new_task_def tryR_eq_Inr validate_ok_iff)
qed (auto dest: new_task_inv(12))

end
