(* ===== verification/Texts.thy ===== *)
theory Texts
  imports Base
begin

section \<open>Fixed texts of the interface\<close>

text \<open>
  The Russian string literals the modelled operations put into messages, notifications and
  prompts, as lists of Unicode scalar values, each with an English gloss. Their wording carries
  no logic; they are kept exact so that a message built by the model is the message the program
  sends.
\<close>

text \<open>User (shown when an account has no name at all)\<close>

definition txt_anonymous :: utext where
  "txt_anonymous =
   [1055, 1086, 1083, 1100, 1079, 1086, 1074, 1072, 1090, 1077, 1083, 1100]"

text \<open>Task sent for review (prefix of a status change)\<close>

definition txt_sent_for_review :: utext where
  "txt_sent_for_review =
   [1047, 1072, 1076, 1072, 1095, 1072, 32, 1086, 1090, 1087, 1088, 1072, 1074, 1083, 1077,
    1085, 1072, 32, 1085, 1072, 32, 1087, 1088, 1086, 1074, 1077, 1088, 1082, 1091, 58, 32]"

text \<open>Task status updated (prefix of a status change)\<close>

definition txt_status_updated :: utext where
  "txt_status_updated =
   [1057, 1090, 1072, 1090, 1091, 1089, 32, 1079, 1072, 1076, 1072, 1095, 1080, 32, 1086,
    1073, 1085, 1086, 1074, 1083, 1105, 1085, 58, 32]"

text \<open>Task, opening quote\<close>

definition txt_task_quote :: utext where
  "txt_task_quote =
   [1047, 1072, 1076, 1072, 1095, 1072, 32, 171]"

text \<open>On task, opening quote\<close>

definition txt_by_task_quote :: utext where
  "txt_by_task_quote =
   [1055, 1086, 32, 1079, 1072, 1076, 1072, 1095, 1077, 32, 171]"

text \<open>closing quote, is ready and waits for your review\<close>

definition txt_ready_for_review :: utext where
  "txt_ready_for_review =
   [187, 32, 1075, 1086, 1090, 1086, 1074, 1072, 32, 1080, 32, 1078, 1076, 1105, 1090, 32,
    1074, 1072, 1096, 1077, 1081, 32, 1087, 1088, 1086, 1074, 1077, 1088, 1082, 1080, 46]"

text \<open>closing quote, is accepted and completed\<close>

definition txt_accepted :: utext where
  "txt_accepted =
   [187, 32, 1087, 1088, 1080, 1085, 1103, 1090, 1072, 32, 1080, 32, 1079, 1072, 1074, 1077,
    1088, 1096, 1077, 1085, 1072, 46]"

text \<open>closing quote, a blocker is recorded\<close>

definition txt_blocker_recorded :: utext where
  "txt_blocker_recorded =
   [187, 32, 1079, 1072, 1092, 1080, 1082, 1089, 1080, 1088, 1086, 1074, 1072, 1085, 32,
    1073, 1083, 1086, 1082, 1077, 1088, 46]"

text \<open>closing quote, is cancelled\<close>

definition txt_cancelled :: utext where
  "txt_cancelled =
   [187, 32, 1086, 1090, 1084, 1077, 1085, 1077, 1085, 1072, 46]"

text \<open>closing quote, is now in status\<close>

definition txt_now_in_status :: utext where
  "txt_now_in_status =
   [187, 32, 1090, 1077, 1087, 1077, 1088, 1100, 32, 1074, 32, 1089, 1090, 1072, 1090, 1091,
    1089, 1077, 32]"

text \<open>closing quote, there is a blocker\<close>

definition txt_has_blocker :: utext where
  "txt_has_blocker =
   [187, 32, 1077, 1089, 1090, 1100, 32, 1073, 1083, 1086, 1082, 1077, 1088, 58, 32]"

text \<open>Blocker saved, the author is notified\<close>

definition txt_blocker_saved :: utext where
  "txt_blocker_saved =
   [1041, 1083, 1086, 1082, 1077, 1088, 32, 1089, 1086, 1093, 1088, 1072, 1085, 1105, 1085,
    44, 32, 1072, 1074, 1090, 1086, 1088, 32, 1091, 1074, 1077, 1076, 1086, 1084, 1083,
    1105, 1085, 46]"

text \<open>New comment on task, opening quote\<close>

definition txt_new_comment :: utext where
  "txt_new_comment =
   [1053, 1086, 1074, 1099, 1081, 32, 1082, 1086, 1084, 1084, 1077, 1085, 1090, 1072, 1088,
    1080, 1081, 32, 1087, 1086, 32, 1079, 1072, 1076, 1072, 1095, 1077, 32, 171]"

text \<open>closing quote and colon\<close>

definition txt_quote_colon :: utext where
  "txt_quote_colon =
   [187, 58, 32]"

text \<open>closing quote and full stop\<close>

definition txt_quote_dot :: utext where
  "txt_quote_dot =
   [187, 46]"

text \<open>Comment added\<close>

definition txt_comment_added :: utext where
  "txt_comment_added =
   [1050, 1086, 1084, 1084, 1077, 1085, 1090, 1072, 1088, 1080, 1081, 32, 1076, 1086, 1073,
    1072, 1074, 1083, 1077, 1085, 46]"

text \<open>A task was reassigned to you, opening quote\<close>

definition txt_reassigned_to_you :: utext where
  "txt_reassigned_to_you =
   [1042, 1072, 1084, 32, 1087, 1077, 1088, 1077, 1085, 1072, 1079, 1085, 1072, 1095, 1080,
    1083, 1080, 32, 1079, 1072, 1076, 1072, 1095, 1091, 32, 171]"

text \<open>Assignee updated (prefix)\<close>

definition txt_assignee_updated :: utext where
  "txt_assignee_updated =
   [1048, 1089, 1087, 1086, 1083, 1085, 1080, 1090, 1077, 1083, 1100, 32, 1086, 1073, 1085,
    1086, 1074, 1083, 1105, 1085, 58, 32]"

text \<open>Warning sign, task, opening quote\<close>

definition txt_warn_task_quote :: utext where
  "txt_warn_task_quote =
   [9888, 65039, 32, 1047, 1072, 1076, 1072, 1095, 1072, 32, 171]"

text \<open>closing quote, approaches its deadline, opening parenthesis\<close>

definition txt_near_deadline :: utext where
  "txt_near_deadline =
   [187, 32, 1087, 1088, 1080, 1073, 1083, 1080, 1078, 1072, 1077, 1090, 1089, 1103, 32,
    1082, 32, 1076, 1077, 1076, 1083, 1072, 1081, 1085, 1091, 32, 40]"

text \<open>closing parenthesis, days left\<close>

definition txt_days_left :: utext where
  "txt_days_left =
   [41, 46, 10, 1054, 1089, 1090, 1072, 1083, 1089, 1103, 32]"

text \<open>days, check the status\<close>

definition txt_days_check :: utext where
  "txt_days_check =
   [32, 1076, 1085, 46, 32, 8212, 32, 1087, 1088, 1086, 1074, 1077, 1088, 1100, 1090, 1077,
    32, 1089, 1090, 1072, 1090, 1091, 1089, 46]"

text \<open>Red circle, task, opening quote\<close>

definition txt_red_task_quote :: utext where
  "txt_red_task_quote =
   [128308, 32, 1047, 1072, 1076, 1072, 1095, 1072, 32, 171]"

text \<open>closing quote, is overdue, deadline\<close>

definition txt_overdue :: utext where
  "txt_overdue =
   [187, 32, 1087, 1088, 1086, 1089, 1088, 1086, 1095, 1077, 1085, 1072, 32, 40, 1076, 1077,
    1076, 1083, 1072, 1081, 1085, 32]"

text \<open>has passed; update the status urgently\<close>

definition txt_passed_update :: utext where
  "txt_passed_update =
   [32, 1087, 1088, 1086, 1096, 1105, 1083, 41, 46, 10, 1057, 1088, 1086, 1095, 1085, 1086,
    32, 1086, 1073, 1085, 1086, 1074, 1080, 1090, 1077, 32, 1089, 1090, 1072, 1090, 1091,
    1089, 32, 1080, 1083, 1080, 32, 1089, 1086, 1086, 1073, 1097, 1080, 1090, 1077, 32,
    1086, 1090, 1074, 1077, 1090, 1089, 1090, 1074, 1077, 1085, 1085, 1086, 1084, 1091, 46]"

lemmas text_defs =
  txt_anonymous_def
  txt_sent_for_review_def
  txt_status_updated_def
  txt_task_quote_def
  txt_by_task_quote_def
  txt_ready_for_review_def
  txt_accepted_def
  txt_blocker_recorded_def
  txt_cancelled_def
  txt_now_in_status_def
  txt_has_blocker_def
  txt_blocker_saved_def
  txt_new_comment_def
  txt_quote_colon_def
  txt_quote_dot_def
  txt_comment_added_def
  txt_reassigned_to_you_def
  txt_assignee_updated_def
  txt_warn_task_quote_def
  txt_near_deadline_def
  txt_days_left_def
  txt_days_check_def
  txt_red_task_quote_def
  txt_overdue_def
  txt_passed_update_def

end
