(* ===== verification/User_Domain.thy ===== *)
theory User_Domain
  imports Actions Texts
begin

section \<open>Users, roles and onboarding states\<close>

text \<open>\<^verbatim>\<open>src/domain/user.rs\<close>: the account record, its role, its onboarding state and its name.\<close>

datatype user_role = User | Manager | Admin

fun is_admin :: "user_role \<Rightarrow> bool" where
  "is_admin Admin = True"
| "is_admin _ = False"

fun is_manager_or_admin :: "user_role \<Rightarrow> bool" where
  "is_manager_or_admin Manager = True"
| "is_manager_or_admin Admin = True"
| "is_manager_or_admin User = False"

fun show_role :: "user_role \<Rightarrow> string" where
  "show_role User = ''user''"
| "show_role Manager = ''manager''"
| "show_role Admin = ''admin''"

lemma is_admin_iff [simp]: "is_admin r \<longleftrightarrow> r = Admin"
  by (cases r) auto

lemma is_manager_or_admin_iff: "is_manager_or_admin r \<longleftrightarrow> r \<noteq> User"
  by (cases r) auto

datatype onboarding_state =
    AwaitingFirstName
  | AwaitingLastName
  | AwaitingEmployeeLink
  | OnboardingCompleted

fun onboarding_storage :: "onboarding_state \<Rightarrow> string" where
  "onboarding_storage AwaitingFirstName = ''awaiting_first_name''"
| "onboarding_storage AwaitingLastName = ''awaiting_last_name''"
| "onboarding_storage AwaitingEmployeeLink = ''awaiting_employee_link''"
| "onboarding_storage OnboardingCompleted = ''completed''"

definition onboarding_from_storage :: "string option \<Rightarrow> onboarding_state" where
  "onboarding_from_storage v =
     (case v of
        None \<Rightarrow> OnboardingCompleted
      | Some s \<Rightarrow>
          if s = ''awaiting_first_name'' then AwaitingFirstName
          else if s = ''awaiting_last_name'' then AwaitingLastName
          else if s = ''awaiting_employee_link'' then AwaitingEmployeeLink
          else OnboardingCompleted)"

definition onboarding_terminal :: "onboarding_state \<Rightarrow> bool" where
  "onboarding_terminal s \<longleftrightarrow> s = OnboardingCompleted"

lemma onboarding_roundtrip [simp]: "onboarding_from_storage (Some (onboarding_storage s)) = s"
  by (cases s) (simp_all add: onboarding_from_storage_def)

definition DEFAULT_USER_TIMEZONE :: string where "DEFAULT_USER_TIMEZONE = ''Europe/Moscow''"
definition DEFAULT_QUIET_HOURS_START_MIN :: int where "DEFAULT_QUIET_HOURS_START_MIN = 22 * 60"
definition DEFAULT_QUIET_HOURS_END_MIN :: int where "DEFAULT_QUIET_HOURS_END_MIN = 8 * 60"

record user =
  u_id :: "row_id option"
  u_telegram_id :: int
  u_last_chat_id :: "int option"
  u_telegram_username :: "utext option"
  u_full_name :: "utext option"
  u_first_name :: "utext option"
  u_last_name :: "utext option"
  u_linked_employee_id :: "row_id option"
  u_is_employee :: bool
  u_role :: user_role
  u_onboarding_state :: onboarding_state
  u_onboarding_version :: int
  u_timezone :: utext
  u_quiet_hours_start_min :: int
  u_quiet_hours_end_min :: int
  u_deactivated_at :: "instant option"
  u_created_at :: instant
  u_updated_at :: instant

datatype display_name_kind =
    FullOnboarded
  | FirstOnly
  | TelegramFullName
  | TelegramUsername
  | Anonymous

record display_name_object =
  dn_value :: utext
  dn_kind :: display_name_kind

fun non_empty :: "utext option \<Rightarrow> utext option" where
  "non_empty (Some s) = (if s = [] then None else Some s)"
| "non_empty None = None"

definition display_name_object :: "user \<Rightarrow> display_name_object" where
  "display_name_object u =
     (case (non_empty (u_first_name u), non_empty (u_last_name u)) of
        (Some first_name, Some last_name) \<Rightarrow>
          \<lparr> dn_value = first_name @ [32] @ last_name, dn_kind = FullOnboarded \<rparr>
      | (Some first_name, None) \<Rightarrow> \<lparr> dn_value = first_name, dn_kind = FirstOnly \<rparr>
      | (None, _) \<Rightarrow>
         (case non_empty (u_full_name u) of
            Some full \<Rightarrow> \<lparr> dn_value = full, dn_kind = TelegramFullName \<rparr>
          | None \<Rightarrow>
             (case non_empty (u_telegram_username u) of
                Some username \<Rightarrow>
                  \<lparr> dn_value = 64 # username, dn_kind = TelegramUsername \<rparr>
              | None \<Rightarrow> \<lparr> dn_value = txt_anonymous, dn_kind = Anonymous \<rparr>)))"

definition display_name :: "user \<Rightarrow> utext" where
  "display_name u = dn_value (display_name_object u)"

definition is_onboarded :: "user \<Rightarrow> bool" where
  "is_onboarded u \<longleftrightarrow>
     onboarding_terminal (u_onboarding_state u)
     \<and> (case u_first_name u of Some v \<Rightarrow> v \<noteq> [] | None \<Rightarrow> False)
     \<and> (case u_last_name u of Some v \<Rightarrow> v \<noteq> [] | None \<Rightarrow> False)"

lemma display_name_not_empty: "display_name u \<noteq> []"
  by (cases "u_first_name u"; cases "u_last_name u"; cases "u_full_name u";
      cases "u_telegram_username u")
     (simp_all add: display_name_def display_name_object_def txt_anonymous_def)

lemma onboarded_name:
  "is_onboarded u \<Longrightarrow>
     display_name_object u =
       \<lparr> dn_value = the (u_first_name u) @ [32] @ the (u_last_name u), dn_kind = FullOnboarded \<rparr>"
  by (auto simp: is_onboarded_def display_name_object_def split: option.splits)


section \<open>Incoming messages\<close>

text \<open>
  \<^verbatim>\<open>src/domain/message.rs\<close>: the message a Telegram update is turned into, its idempotency key
  and its length check, and the account a first message creates (\<^verbatim>\<open>User::from_message\<close>).
\<close>

definition MAX_MESSAGE_LENGTH :: nat where "MAX_MESSAGE_LENGTH = 2000"

record voice_attachment =
  v_file_id :: utext
  v_file_unique_id :: utext
  v_duration_seconds :: nat
  v_mime_type :: "utext option"
  v_file_size_bytes :: "nat option"

datatype message_content =
    TextContent utext
  | VoiceContent voice_attachment
  | CommandContent utext

record incoming_message =
  m_message_id :: int
  m_chat_id :: int
  m_sender_id :: int
  m_sender_name :: utext
  m_sender_username :: "utext option"
  m_content :: message_content
  m_timestamp :: instant
  m_source_message_key_override :: "utext option"
  m_is_voice_origin :: bool

record parsed_task_request =
  p_assignee_name :: "utext option"
  p_task_description :: utext
  p_deadline :: "day option"
  p_deadline_raw :: "utext option"
  p_explicit_unassigned :: bool
  p_confidence_score :: nat

definition source_message_key :: "incoming_message \<Rightarrow> utext" where
  "source_message_key m =
     (case m_source_message_key_override m of
        Some key \<Rightarrow> key
      | None \<Rightarrow>
          ascii ''telegram:'' @ show_int (m_chat_id m) @ [58] @ show_int (m_message_id m))"

fun text_payload :: "message_content \<Rightarrow> utext option" where
  "text_payload (TextContent text) = Some text"
| "text_payload (CommandContent text) = Some text"
| "text_payload (VoiceContent _) = None"

definition validate_payload_length :: "incoming_message \<Rightarrow> unit result" where
  "validate_payload_length m =
     (case text_payload (m_content m) of
        Some payload \<Rightarrow>
          if length payload > MAX_MESSAGE_LENGTH then
            Inl (schema_validation ''MESSAGE_TOO_LONG''
              (ascii ''Message exceeds the supported length'')
              (JObj [(''limit'', JNum (int MAX_MESSAGE_LENGTH))]))
          else Inr ()
      | None \<Rightarrow> Inr ())"

definition from_message :: "incoming_message \<Rightarrow> user_role \<Rightarrow> bool \<Rightarrow> user" where
  "from_message m role is_employee =
     \<lparr> u_id = None, u_telegram_id = m_sender_id m, u_last_chat_id = Some (m_chat_id m),
       u_telegram_username = m_sender_username m, u_full_name = Some (m_sender_name m),
       u_first_name = None, u_last_name = None, u_linked_employee_id = None,
       u_is_employee = is_employee, u_role = role,
       u_onboarding_state = OnboardingCompleted, u_onboarding_version = 0,
       u_timezone = ascii DEFAULT_USER_TIMEZONE,
       u_quiet_hours_start_min = DEFAULT_QUIET_HOURS_START_MIN,
       u_quiet_hours_end_min = DEFAULT_QUIET_HOURS_END_MIN,
       u_deactivated_at = None, u_created_at = m_timestamp m, u_updated_at = m_timestamp m \<rparr>"

text \<open>Messages without an override have the same key only if they are the same message.\<close>

lemma digits_colon_split:
  assumes "xs @ (58 :: nat) # ys = xs' @ 58 # ys'" "58 \<notin> set xs" "58 \<notin> set xs'"
  shows "xs = xs' \<and> ys = ys'"
  using assms
proof (induction xs arbitrary: xs')
  case Nil
  then show ?case by (cases xs') auto
next
  case (Cons x xs)
  then show ?case by (cases xs') auto
qed

lemma show_int_no_colon [simp]: "58 \<notin> set (show_int i)"
proof -
  have "58 \<notin> set (show_nat n)" for n
    using show_nat_set[of 58 n] by (auto simp: is_ascii_digit_def)
  then show ?thesis by (simp add: show_int_def)
qed

lemma source_message_key_inj:
  assumes "m_source_message_key_override m = None" "m_source_message_key_override m' = None"
  shows "source_message_key m = source_message_key m' \<longleftrightarrow>
           m_chat_id m = m_chat_id m' \<and> m_message_id m = m_message_id m'"
  using assms digits_colon_split[of "show_int (m_chat_id m)" "show_int (m_message_id m)"
      "show_int (m_chat_id m')" "show_int (m_message_id m')"]
  by (auto simp: source_message_key_def)

end
