(* ===== verification/Records.thy ===== *)
theory Records
  imports Task_Entity User_Domain
begin

section \<open>Comments, notifications, audit entries and employees\<close>

text \<open>
  \<^verbatim>\<open>src/domain/comment.rs\<close>, \<^verbatim>\<open>notification.rs\<close>, \<^verbatim>\<open>audit.rs\<close> and \<^verbatim>\<open>employee.rs\<close>: the records the
  operations on tasks and accounts write besides the task or the account itself.
\<close>

subsection \<open>Comments\<close>

definition MAX_TASK_COMMENT_LENGTH :: nat where "MAX_TASK_COMMENT_LENGTH = 500"

datatype comment_kind = ContextComment | BlockerComment | SystemComment

record task_comment =
  c_id :: "row_id option"
  c_task_id :: row_id
  c_author_user_id :: row_id
  c_kind :: comment_kind
  c_body :: utext
  c_created_at :: instant

definition new_comment ::
  "row_id \<Rightarrow> row_id \<Rightarrow> comment_kind \<Rightarrow> utext \<Rightarrow> instant \<Rightarrow> task_comment result" where
  "new_comment task_id author kind body created_at =
    (let normalized = trim body in
     if normalized = [] then
       Inl (business_rule ''TASK_COMMENT_EMPTY'' (ascii ''Task comment cannot be empty'') (JObj []))
     else if length normalized > MAX_TASK_COMMENT_LENGTH then
       Inl (business_rule ''TASK_COMMENT_TOO_LONG'' (ascii ''Task comment is too long'')
         (JObj [(''limit'', JNum (int MAX_TASK_COMMENT_LENGTH))]))
     else
       Inr \<lparr> c_id = None, c_task_id = task_id, c_author_user_id = author, c_kind = kind,
             c_body = normalized, c_created_at = created_at \<rparr>)"

lemma new_comment_ok_iff:
  "new_comment tid a k b at = Inr c \<longleftrightarrow>
     trim b \<noteq> [] \<and> length (trim b) \<le> MAX_TASK_COMMENT_LENGTH
     \<and> c = \<lparr> c_id = None, c_task_id = tid, c_author_user_id = a, c_kind = k,
             c_body = trim b, c_created_at = at \<rparr>"
  by (auto simp: new_comment_def Let_def not_less)

text \<open>A blocker reason the task accepts is also a comment body the comment accepts.\<close>

lemma blocker_reason_fits_comment:
  "trim r \<noteq> [] \<Longrightarrow> length (trim r) \<le> MAX_TASK_BLOCKER_REASON_LENGTH \<Longrightarrow>
     \<exists>c. new_comment tid a k r at = Inr c"
  by (simp add: new_comment_ok_iff MAX_TASK_BLOCKER_REASON_LENGTH_def MAX_TASK_COMMENT_LENGTH_def)

subsection \<open>Notifications\<close>

datatype notification_type =
    TaskAssigned
  | TaskUpdated
  | DeadlineReminder
  | TaskCompleted
  | TaskCancelled
  | TaskReviewRequested
  | TaskBlocked
  | DailySummary
  | SlaEscalation

datatype delivery_state = DeliveryPending | DeliverySent | DeliveryRetryPending | DeliveryFailed

record notification =
  n_id :: "row_id option"
  n_task_id :: "row_id option"
  n_recipient_user_id :: row_id
  n_notification_type :: notification_type
  n_message :: utext
  n_dedupe_key :: utext
  n_telegram_message_id :: "int option"
  n_delivery_state :: delivery_state
  n_is_sent :: bool
  n_is_read :: bool
  n_attempt_count :: int
  n_sent_at :: "instant option"
  n_read_at :: "instant option"
  n_next_attempt_at :: "instant option"
  n_last_error_code :: "string option"
  n_created_at :: instant

subsection \<open>Audit entries\<close>

datatype audit_action =
    AuditCreated
  | AuditSent
  | AuditAssigned
  | AuditStatusChanged
  | AuditReviewRequested
  | AuditReassigned
  | AuditBlocked
  | AuditCommented
  | AuditEdited
  | AuditCancelled
  | AuditEmployeesSynced

record audit_entry =
  al_id :: "row_id option"
  al_task_id :: row_id
  al_action :: audit_action
  al_old_status :: "string option"
  al_new_status :: "string option"
  al_changed_by_user_id :: "row_id option"
  al_metadata :: json
  al_created_at :: instant

datatype audit_action_code =
    UserOnboardingStarted
  | UserOnboardingCompleted
  | UserOnboardingAbandoned
  | UserEmployeeLinked
  | UserEmployeeUnlinked
  | RoleElevatedByBootstrap
  | RoleChangedByAdmin
  | UserDeactivatedByAdmin
  | UserReactivatedByAdmin
  | AdminFeatureToggled
  | ForbiddenActionAttempted
  | CallbackAuthorshipViolation
  | RateLimitExceeded
  | AdminNonceExpired

fun as_code :: "audit_action_code \<Rightarrow> string" where
  "as_code UserOnboardingStarted = ''user_onboarding_started''"
| "as_code UserOnboardingCompleted = ''user_onboarding_completed''"
| "as_code UserOnboardingAbandoned = ''user_onboarding_abandoned''"
| "as_code UserEmployeeLinked = ''user_employee_linked''"
| "as_code UserEmployeeUnlinked = ''user_employee_unlinked''"
| "as_code RoleElevatedByBootstrap = ''role_elevated_by_bootstrap''"
| "as_code RoleChangedByAdmin = ''role_changed_by_admin''"
| "as_code UserDeactivatedByAdmin = ''user_deactivated_by_admin''"
| "as_code UserReactivatedByAdmin = ''user_reactivated_by_admin''"
| "as_code AdminFeatureToggled = ''admin_feature_toggled''"
| "as_code ForbiddenActionAttempted = ''forbidden_action_attempted''"
| "as_code CallbackAuthorshipViolation = ''callback_authorship_violation''"
| "as_code RateLimitExceeded = ''rate_limit_exceeded''"
| "as_code AdminNonceExpired = ''admin_nonce_expired''"

record admin_audit_entry =
  aa_id :: "row_id option"
  aa_actor_user_id :: "row_id option"
  aa_target_user_id :: "row_id option"
  aa_action_code :: audit_action_code
  aa_metadata :: json
  aa_created_at :: instant

record security_audit_entry =
  sa_id :: "row_id option"
  sa_actor_user_id :: "row_id option"
  sa_telegram_id :: "int option"
  sa_event_code :: audit_action_code
  sa_metadata :: json
  sa_created_at :: instant

subsection \<open>Employees\<close>

record employee =
  e_id :: "row_id option"
  e_full_name :: utext
  e_telegram_username :: "utext option"
  e_email :: "utext option"
  e_phone :: "utext option"
  e_department :: "utext option"
  e_is_active :: bool
  e_synced_at :: "instant option"
  e_created_at :: instant
  e_updated_at :: instant

datatype match_strategy =
    ExactUsername
  | ExactFullName
  | ExactFirstName
  | PrefixFirstName
  | SuggestedFirstName
  | SuggestedFullName

record employee_match =
  em_employee :: employee
  em_confidence :: nat
  em_strategy :: match_strategy

datatype employee_match_outcome =
    UniqueMatch employee_match
  | AmbiguousMatch "employee_match list"
  | NoMatch

end
