(* ===== verification/Role_Policy.thy ===== *)
theory Role_Policy
  imports Task_Lifecycle Records
begin

section \<open>The role authorization policy\<close>

text \<open>
  \<^verbatim>\<open>src/application/policies/role_authorization.rs\<close>: who may see, comment on, reassign and
  move a task, the admin-panel gates, the review gate that rewrites or refuses a completion,
  and the actions a task card offers (\<^verbatim>\<open>TaskActionView\<close> of
  \<^verbatim>\<open>src/application/dto/task_views.rs\<close>).
\<close>

definition FORBIDDEN_ADMIN_ONLY :: string where
  "FORBIDDEN_ADMIN_ONLY = ''FORBIDDEN_ADMIN_ONLY''"
definition FORBIDDEN_ACCOUNT_DEACTIVATED :: string where
  "FORBIDDEN_ACCOUNT_DEACTIVATED = ''FORBIDDEN_ACCOUNT_DEACTIVATED''"
definition FORBIDDEN_SELF_TARGET :: string where
  "FORBIDDEN_SELF_TARGET = ''FORBIDDEN_SELF_TARGET''"

lemmas forbidden_codes =
  FORBIDDEN_ADMIN_ONLY_def FORBIDDEN_ACCOUNT_DEACTIVATED_def FORBIDDEN_SELF_TARGET_def

subsection \<open>Team and admin gates\<close>

definition ensure_can_view_team_tasks :: "user \<Rightarrow> unit result" where
  "ensure_can_view_team_tasks actor =
    (if is_manager_or_admin (u_role actor) then Inr ()
     else Inl (unauthorized (ascii ''Only managers and admins can view team task dashboards'')
       (JObj [(''telegram_id'', JNum (u_telegram_id actor))])))"

definition ensure_can_view_team_stats :: "user \<Rightarrow> unit result" where
  "ensure_can_view_team_stats actor =
    (if is_manager_or_admin (u_role actor) then Inr ()
     else Inl (unauthorized (ascii ''Only managers and admins can view team stats'')
       (JObj [(''telegram_id'', JNum (u_telegram_id actor))])))"

definition ensure_can_sync_employees :: "user \<Rightarrow> unit result" where
  "ensure_can_sync_employees actor =
    (if is_admin (u_role actor) then Inr ()
     else Inl (unauthorized (ascii ''Only admins can trigger employee sync'')
       (JObj [(''telegram_id'', JNum (u_telegram_id actor))])))"

definition ensure_active :: "user \<Rightarrow> unit result" where
  "ensure_active actor =
    (if u_deactivated_at actor \<noteq> None then
       Inl (forbidden FORBIDDEN_ACCOUNT_DEACTIVATED (ascii ''This account is deactivated'')
         (JObj [(''telegram_id'', JNum (u_telegram_id actor)),
                (''deactivated_at'', jopt JTime (u_deactivated_at actor))]))
     else Inr ())"

definition ensure_can_access_admin_panel :: "user \<Rightarrow> unit result" where
  "ensure_can_access_admin_panel actor =
    tryR (ensure_active actor) (\<lambda>_.
    if is_admin (u_role actor) then Inr ()
    else Inl (forbidden FORBIDDEN_ADMIN_ONLY (ascii ''Only admins can open the admin panel'')
      (JObj [(''telegram_id'', JNum (u_telegram_id actor)),
             (''role'', jstr (show_role (u_role actor)))])))"

definition ensure_not_self :: "user \<Rightarrow> user \<Rightarrow> string \<Rightarrow> unit result" where
  "ensure_not_self actor target operation =
    (let same_persistent_id =
           (case (u_id actor, u_id target) of (Some a, Some b) \<Rightarrow> a = b | _ \<Rightarrow> False);
         same_telegram_id = (u_telegram_id actor = u_telegram_id target)
     in if same_persistent_id \<or> same_telegram_id then
          Inl (forbidden FORBIDDEN_SELF_TARGET
            (ascii ''An admin cannot apply this action to themselves'')
            (JObj [(''operation'', jstr operation),
                   (''telegram_id'', JNum (u_telegram_id actor)),
                   (''target_role'', jstr (show_role (u_role target)))]))
        else Inr ())"

definition ensure_can_manage_roles :: "user \<Rightarrow> user \<Rightarrow> unit result" where
  "ensure_can_manage_roles actor target =
    tryR (ensure_can_access_admin_panel actor) (\<lambda>_. ensure_not_self actor target ''manage_roles'')"

definition ensure_can_toggle_features :: "user \<Rightarrow> unit result" where
  "ensure_can_toggle_features actor = ensure_can_access_admin_panel actor"

definition ensure_can_deactivate_user :: "user \<Rightarrow> user \<Rightarrow> unit result" where
  "ensure_can_deactivate_user actor target =
    tryR (ensure_can_access_admin_panel actor) (\<lambda>_.
      ensure_not_self actor target ''deactivate_user'')"

definition ensure_can_view_admin_panel :: "user \<Rightarrow> unit result" where
  "ensure_can_view_admin_panel actor = ensure_can_access_admin_panel actor"

subsection \<open>Task gates\<close>

definition required_actor_id :: "user \<Rightarrow> string \<Rightarrow> row_id result" where
  "required_actor_id actor action =
    ok_or (unauthenticated (ascii (''User must be registered before they can '' @ action))
             (JObj [(''telegram_id'', JNum (u_telegram_id actor))]))
      (u_id actor)"

definition ensure_can_view_task :: "user \<Rightarrow> task \<Rightarrow> unit result" where
  "ensure_can_view_task actor t =
    tryR (required_actor_id actor ''view task status'') (\<lambda>actor_id.
    if is_manager_or_admin (u_role actor) \<or> actor_id = t_created_by_user_id t
       \<or> t_assigned_to_user_id t = Some actor_id then Inr ()
    else Inl (unauthorized (ascii ''User is not allowed to view this task'')
      (JObj [(''task_uid'', JUuid (t_task_uid t))])))"

definition ensure_can_comment :: "user \<Rightarrow> task \<Rightarrow> unit result" where
  "ensure_can_comment actor t =
    tryR (required_actor_id actor ''comment on a task'') (\<lambda>actor_id.
    if is_manager_or_admin (u_role actor) \<or> actor_id = t_created_by_user_id t
       \<or> t_assigned_to_user_id t = Some actor_id then Inr ()
    else Inl (unauthorized (ascii ''User is not allowed to comment on this task'')
      (JObj [(''task_uid'', JUuid (t_task_uid t))])))"

definition ensure_can_report_blocker :: "user \<Rightarrow> task \<Rightarrow> unit result" where
  "ensure_can_report_blocker actor t =
    tryR (required_actor_id actor ''report a blocker'') (\<lambda>actor_id.
    if is_admin (u_role actor) \<or> t_assigned_to_user_id t = Some actor_id then Inr ()
    else Inl (unauthorized (ascii ''Only the assignee or admin can mark a task as blocked'')
      (JObj [(''task_uid'', JUuid (t_task_uid t))])))"

definition ensure_can_reassign :: "user \<Rightarrow> task \<Rightarrow> unit result" where
  "ensure_can_reassign actor t =
    tryR (required_actor_id actor ''reassign tasks'') (\<lambda>actor_id.
    if is_manager_or_admin (u_role actor) \<or> t_created_by_user_id t = actor_id
       \<or> t_assigned_to_user_id t = Some actor_id then Inr ()
    else Inl (unauthorized
      (ascii ''Only the creator, assignee, manager, or admin can reassign a task'')
      (JObj [(''actor_user_id'', JNum actor_id), (''task_uid'', JUuid (t_task_uid t))])))"

definition normalize_requested_status :: "user \<Rightarrow> task \<Rightarrow> task_status \<Rightarrow> task_status result" where
  "normalize_requested_status actor t requested =
    (if requested = Completed \<and> review_required t
        \<and> u_id actor \<noteq> Some (t_created_by_user_id t) \<and> \<not> is_manager_or_admin (u_role actor)
     then Inr InReview
     else if requested = Completed \<and> review_required t \<and> t_status t \<noteq> InReview then
       Inl (business_rule ''TASK_REVIEW_REQUIRED''
         (ascii ''Task must go through review before final completion'')
         (JObj [(''task_uid'', JUuid (t_task_uid t))]))
     else Inr requested)"

definition creator_can_change_status :: "task \<Rightarrow> task_status \<Rightarrow> bool" where
  "creator_can_change_status t next_status =
    (case next_status of
       Completed \<Rightarrow> True | Cancelled \<Rightarrow> True
     | InProgress \<Rightarrow> t_status t = InReview
     | Created \<Rightarrow> False | Sent \<Rightarrow> False | Blocked \<Rightarrow> False | InReview \<Rightarrow> False)"

definition assignee_can_change_status :: "task_status \<Rightarrow> bool" where
  "assignee_can_change_status next_status \<longleftrightarrow>
     next_status = InProgress \<or> next_status = InReview \<or> next_status = Blocked
     \<or> next_status = Cancelled"

definition manager_can_change_status :: "task_status \<Rightarrow> bool" where
  "manager_can_change_status next_status \<longleftrightarrow>
     next_status = InProgress \<or> next_status = Completed \<or> next_status = Cancelled"

definition ensure_can_change_status :: "user \<Rightarrow> task \<Rightarrow> task_status \<Rightarrow> unit result" where
  "ensure_can_change_status actor t next_status =
    tryR (required_actor_id actor ''change task status'') (\<lambda>actor_id.
    if is_admin (u_role actor) then Inr ()
    else if actor_id = t_created_by_user_id t \<and> creator_can_change_status t next_status then Inr ()
    else if t_assigned_to_user_id t = Some actor_id \<and> assignee_can_change_status next_status
    then Inr ()
    else if is_manager_or_admin (u_role actor) \<and> manager_can_change_status next_status then Inr ()
    else Inl (unauthorized (ascii ''User is not allowed to change this task status'')
      (JObj [(''task_uid'', JUuid (t_task_uid t)),
             (''next_status'', jstr (show_status next_status))])))"

subsection \<open>The actions a task card offers\<close>

datatype task_action =
    StartProgress
  | SubmitForReview
  | ApproveReview
  | ReturnToWork
  | Cancel
  | ReportBlocker
  | AddComment
  | Reassign

definition available_actions :: "user \<Rightarrow> task \<Rightarrow> task_action list" where
  "available_actions actor t =
    (let actor_id = u_id actor;
         is_assignee = (actor_id \<noteq> None \<and> t_assigned_to_user_id t = actor_id);
         is_creator = (actor_id = Some (t_created_by_user_id t));
         admin = is_admin (u_role actor);
         can_manage = (is_creator \<or> is_manager_or_admin (u_role actor))
     in (if t_status t \<in> {Created, Sent, Blocked} \<and> (is_assignee \<or> admin)
         then [StartProgress] else [])
      @ (if t_status t \<in> {Sent, InProgress, Blocked} \<and> (is_assignee \<or> admin)
         then [SubmitForReview] else [])
      @ (if t_status t = InReview \<and> can_manage then [ApproveReview, ReturnToWork] else [])
      @ (if t_status t \<in> {Created, Sent, InProgress, Blocked} \<and> (is_assignee \<or> admin)
         then [ReportBlocker] else [])
      @ (if \<not> is_terminal (t_status t) \<and> can_manage then [Reassign] else [])
      @ (if \<not> is_terminal (t_status t) \<and> (is_assignee \<or> can_manage) then [Cancel] else [])
      @ [AddComment])"

subsection \<open>What the gates decide\<close>

lemma required_actor_id_ok [simp]: "required_actor_id actor a = Inr i \<longleftrightarrow> u_id actor = Some i"
  by (simp add: required_actor_id_def)

lemma ensure_active_ok [simp]: "ensure_active u = Inr x \<longleftrightarrow> u_deactivated_at u = None"
  by (simp add: ensure_active_def)

lemma admin_panel_ok_iff:
  "ensure_can_access_admin_panel u = Inr x \<longleftrightarrow> u_deactivated_at u = None \<and> u_role u = Admin"
  by (auto simp: ensure_can_access_admin_panel_def tryR_eq_Inr)

lemma not_self_ok_iff:
  "ensure_not_self a b op = Inr x \<longleftrightarrow>
     u_telegram_id a \<noteq> u_telegram_id b \<and> \<not> (\<exists>i. u_id a = Some i \<and> u_id b = Some i)"
  by (auto simp: ensure_not_self_def Let_def split: option.splits)

lemma manage_roles_ok_iff:
  "ensure_can_manage_roles a b = Inr x \<longleftrightarrow>
     u_deactivated_at a = None \<and> u_role a = Admin \<and> u_telegram_id a \<noteq> u_telegram_id b
     \<and> \<not> (\<exists>i. u_id a = Some i \<and> u_id b = Some i)"
  by (auto simp: ensure_can_manage_roles_def tryR_eq_Inr admin_panel_ok_iff not_self_ok_iff)

lemma deactivate_ok_iff:
  "ensure_can_deactivate_user a b = Inr x \<longleftrightarrow> ensure_can_manage_roles a b = Inr x"
  by (auto simp: ensure_can_deactivate_user_def ensure_can_manage_roles_def tryR_eq_Inr
      not_self_ok_iff)

definition participates :: "user \<Rightarrow> task \<Rightarrow> bool" where
  "participates actor t \<longleftrightarrow>
     (\<exists>i. u_id actor = Some i \<and>
        (u_role actor \<noteq> User \<or> i = t_created_by_user_id t \<or> t_assigned_to_user_id t = Some i))"

lemma view_ok_iff: "ensure_can_view_task actor t = Inr x \<longleftrightarrow> participates actor t"
  by (auto simp: ensure_can_view_task_def tryR_eq_Inr participates_def is_manager_or_admin_iff)

lemma comment_ok_iff: "ensure_can_comment actor t = Inr x \<longleftrightarrow> participates actor t"
  by (auto simp: ensure_can_comment_def tryR_eq_Inr participates_def is_manager_or_admin_iff)

lemma reassign_gate_ok_iff: "ensure_can_reassign actor t = Inr x \<longleftrightarrow> participates actor t"
  by (auto simp: ensure_can_reassign_def tryR_eq_Inr participates_def is_manager_or_admin_iff)

lemma blocker_gate_ok_iff:
  "ensure_can_report_blocker actor t = Inr x \<longleftrightarrow>
     (\<exists>i. u_id actor = Some i \<and> (u_role actor = Admin \<or> t_assigned_to_user_id t = Some i))"
  by (auto simp: ensure_can_report_blocker_def tryR_eq_Inr)

lemma change_status_ok_iff:
  "ensure_can_change_status actor t s = Inr x \<longleftrightarrow>
     (\<exists>i. u_id actor = Some i \<and>
       (u_role actor = Admin
        \<or> i = t_created_by_user_id t \<and> creator_can_change_status t s
        \<or> t_assigned_to_user_id t = Some i \<and> assignee_can_change_status s
        \<or> u_role actor \<noteq> User \<and> manager_can_change_status s))"
  by (auto simp: ensure_can_change_status_def tryR_eq_Inr is_manager_or_admin_iff)

lemma change_status_implies_participates:
  "ensure_can_change_status actor t s = Inr x \<Longrightarrow> participates actor t"
  by (auto simp: change_status_ok_iff participates_def)

lemma normalize_ok_iff:
  "normalize_requested_status actor t r = Inr s \<longleftrightarrow>
     (if r = Completed \<and> review_required t then
        if u_id actor \<noteq> Some (t_created_by_user_id t) \<and> u_role actor = User then s = InReview
        else t_status t = InReview \<and> s = Completed
      else s = r)"
  by (auto simp: normalize_requested_status_def is_manager_or_admin_iff)

lemma mem_available_actions:
  "a \<in> set (available_actions actor t) \<longleftrightarrow>
    (let is_assignee = (u_id actor \<noteq> None \<and> t_assigned_to_user_id t = u_id actor);
         can_manage = (u_id actor = Some (t_created_by_user_id t) \<or> u_role actor \<noteq> User)
     in case a of
        StartProgress \<Rightarrow> t_status t \<in> {Created, Sent, Blocked} \<and> (is_assignee \<or> u_role actor = Admin)
      | SubmitForReview \<Rightarrow>
          t_status t \<in> {Sent, InProgress, Blocked} \<and> (is_assignee \<or> u_role actor = Admin)
      | ApproveReview \<Rightarrow> t_status t = InReview \<and> can_manage
      | ReturnToWork \<Rightarrow> t_status t = InReview \<and> can_manage
      | ReportBlocker \<Rightarrow>
          t_status t \<in> {Created, Sent, InProgress, Blocked} \<and> (is_assignee \<or> u_role actor = Admin)
      | Reassign \<Rightarrow> \<not> is_terminal (t_status t) \<and> can_manage
      | Cancel \<Rightarrow> \<not> is_terminal (t_status t) \<and> (is_assignee \<or> can_manage)
      | AddComment \<Rightarrow> True)"
  by (cases a) (auto simp: available_actions_def Let_def is_manager_or_admin_iff)

subsection \<open>Properties of the policy\<close>

definition sample_user :: user where
  "sample_user = \<lparr> u_id = Some 2, u_telegram_id = 20, u_last_chat_id = Some 20,
     u_telegram_username = None, u_full_name = Some (ascii ''Ann''), u_first_name = None,
     u_last_name = None, u_linked_employee_id = None, u_is_employee = True, u_role = User,
     u_onboarding_state = OnboardingCompleted, u_onboarding_version = 0,
     u_timezone = ascii DEFAULT_USER_TIMEZONE, u_quiet_hours_start_min = 1320,
     u_quiet_hours_end_min = 480, u_deactivated_at = None, u_created_at = 0, u_updated_at = 0 \<rparr>"

text \<open>A user who is neither manager nor admin can only move a task they created or that
  is assigned to them, and can never complete a task assigned to them by somebody else.\<close>

theorem plain_user_needs_a_stake:
  assumes "ensure_can_change_status actor t s = Inr ()" "u_role actor = User"
  shows "u_id actor \<noteq> None
    \<and> (u_id actor = Some (t_created_by_user_id t) \<or> t_assigned_to_user_id t = u_id actor)
    \<and> (u_id actor \<noteq> Some (t_created_by_user_id t) \<longrightarrow> s \<noteq> Completed)
    \<and> s \<noteq> Created \<and> s \<noteq> Sent"
  using assms
  by (auto simp: change_status_ok_iff creator_can_change_status_def
      assignee_can_change_status_def)

theorem plain_user_needs_a_stake_witness:
  "u_id sample_user = Some (t_created_by_user_id sample_task)
   \<or> t_assigned_to_user_id sample_task = u_id sample_user"
proof -
  have "ensure_can_change_status sample_user sample_task InReview = Inr ()"
    by (simp add: change_status_ok_iff sample_user_def assignee_can_change_status_def)
  from plain_user_needs_a_stake[OF this] show ?thesis by (simp add: sample_user_def)
qed

text \<open>The admin gates: role management and deactivation are open exactly to an active
  admin acting on somebody else, by row and by Telegram identity.\<close>

theorem admin_gates_exclude_self_and_inactive:
  "(ensure_can_manage_roles actor target = Inr () \<longleftrightarrow>
     u_deactivated_at actor = None \<and> u_role actor = Admin
     \<and> u_telegram_id actor \<noteq> u_telegram_id target
     \<and> \<not> (\<exists>i. u_id actor = Some i \<and> u_id target = Some i))
   \<and> (ensure_can_deactivate_user actor target = Inr () \<longleftrightarrow>
     ensure_can_manage_roles actor target = Inr ())"
  by (simp only: manage_roles_ok_iff deactivate_ok_iff)

end
