(* ===== verification/Codecs.thy ===== *)
theory Codecs
  imports Records
begin

section \<open>How rows are stored\<close>

text \<open>
  The encodings between domain values and database columns: the writers of
  \<^verbatim>\<open>src/infrastructure/db/repositories/common.rs\<close> and the readers of
  \<^verbatim>\<open>src/infrastructure/db/models.rs\<close>. Every value that is written is read back as itself, and a
  reader accepts no other text, so the tables of the store can hold decoded values.
\<close>

definition invalid_row :: "string \<Rightarrow> string \<Rightarrow> app_error" where
  "invalid_row field raw =
     internal ''DATABASE_ROW_INVALID'' (ascii ''Database row contains an invalid value'')
       (JObj [(''field'', jstr field), (''raw'', jstr raw)])"

definition bool_as_i64 :: "bool \<Rightarrow> int" where
  "bool_as_i64 b = (if b then 1 else 0)"

definition i64_as_bool :: "int \<Rightarrow> bool" where
  "i64_as_bool i \<longleftrightarrow> i \<noteq> 0"

lemma bool_roundtrip [simp]: "i64_as_bool (bool_as_i64 b) = b"
  by (simp add: i64_as_bool_def bool_as_i64_def)

fun user_role_to_db :: "user_role \<Rightarrow> string" where
  "user_role_to_db User = ''user''"
| "user_role_to_db Manager = ''manager''"
| "user_role_to_db Admin = ''admin''"

definition parse_user_role :: "string \<Rightarrow> user_role result" where
  "parse_user_role s =
    (if s = ''user'' then Inr User
     else if s = ''manager'' then Inr Manager
     else if s = ''admin'' then Inr Admin
     else Inl (invalid_row ''role'' s))"

lemma parse_user_role_iff: "parse_user_role s = Inr v \<longleftrightarrow> s = user_role_to_db v"
  by (cases v) (auto simp: parse_user_role_def)

fun task_status_to_db :: "task_status \<Rightarrow> string" where
  "task_status_to_db Created = ''created''"
| "task_status_to_db Sent = ''sent''"
| "task_status_to_db InProgress = ''in_progress''"
| "task_status_to_db Blocked = ''blocked''"
| "task_status_to_db InReview = ''in_review''"
| "task_status_to_db Completed = ''completed''"
| "task_status_to_db Cancelled = ''cancelled''"

definition parse_task_status :: "string \<Rightarrow> task_status result" where
  "parse_task_status s =
    (if s = ''created'' then Inr Created
     else if s = ''sent'' then Inr Sent
     else if s = ''in_progress'' then Inr InProgress
     else if s = ''blocked'' then Inr Blocked
     else if s = ''in_review'' then Inr InReview
     else if s = ''completed'' then Inr Completed
     else if s = ''cancelled'' then Inr Cancelled
     else Inl (invalid_row ''status'' s))"

lemma parse_task_status_iff: "parse_task_status s = Inr v \<longleftrightarrow> s = task_status_to_db v"
  by (cases v) (auto simp: parse_task_status_def)

fun task_priority_to_db :: "task_priority \<Rightarrow> string" where
  "task_priority_to_db Low = ''low''"
| "task_priority_to_db Medium = ''medium''"
| "task_priority_to_db High = ''high''"
| "task_priority_to_db Urgent = ''urgent''"

definition parse_task_priority :: "string \<Rightarrow> task_priority result" where
  "parse_task_priority s =
    (if s = ''low'' then Inr Low
     else if s = ''medium'' then Inr Medium
     else if s = ''high'' then Inr High
     else if s = ''urgent'' then Inr Urgent
     else Inl (invalid_row ''priority'' s))"

lemma parse_task_priority_iff: "parse_task_priority s = Inr v \<longleftrightarrow> s = task_priority_to_db v"
  by (cases v) (auto simp: parse_task_priority_def)

fun message_type_to_db :: "message_type \<Rightarrow> string" where
  "message_type_to_db Text = ''text''"
| "message_type_to_db Voice = ''voice''"

definition parse_message_type :: "string \<Rightarrow> message_type result" where
  "parse_message_type s =
    (if s = ''text'' then Inr Text
     else if s = ''voice'' then Inr Voice
     else Inl (invalid_row ''message_type'' s))"

lemma parse_message_type_iff: "parse_message_type s = Inr v \<longleftrightarrow> s = message_type_to_db v"
  by (cases v) (auto simp: parse_message_type_def)

fun notification_type_to_db :: "notification_type \<Rightarrow> string" where
  "notification_type_to_db TaskAssigned = ''task_assigned''"
| "notification_type_to_db TaskUpdated = ''task_updated''"
| "notification_type_to_db DeadlineReminder = ''deadline_reminder''"
| "notification_type_to_db TaskCompleted = ''task_completed''"
| "notification_type_to_db TaskCancelled = ''task_cancelled''"
| "notification_type_to_db TaskReviewRequested = ''task_review_requested''"
| "notification_type_to_db TaskBlocked = ''task_blocked''"
| "notification_type_to_db DailySummary = ''daily_summary''"
| "notification_type_to_db SlaEscalation = ''sla_escalation''"

definition parse_notification_type :: "string \<Rightarrow> notification_type result" where
  "parse_notification_type s =
    (if s = ''task_assigned'' then Inr TaskAssigned
     else if s = ''task_updated'' then Inr TaskUpdated
     else if s = ''deadline_reminder'' then Inr DeadlineReminder
     else if s = ''task_completed'' then Inr TaskCompleted
     else if s = ''task_cancelled'' then Inr TaskCancelled
     else if s = ''task_review_requested'' then Inr TaskReviewRequested
     else if s = ''task_blocked'' then Inr TaskBlocked
     else if s = ''daily_summary'' then Inr DailySummary
     else if s = ''sla_escalation'' then Inr SlaEscalation
     else Inl (invalid_row ''notification_type'' s))"

lemma parse_notification_type_iff: "parse_notification_type s = Inr v \<longleftrightarrow> s = notification_type_to_db v"
  by (cases v) (auto simp: parse_notification_type_def)

fun delivery_state_to_db :: "delivery_state \<Rightarrow> string" where
  "delivery_state_to_db DeliveryPending = ''pending''"
| "delivery_state_to_db DeliverySent = ''sent''"
| "delivery_state_to_db DeliveryRetryPending = ''retry_pending''"
| "delivery_state_to_db DeliveryFailed = ''failed''"

definition parse_delivery_state :: "string \<Rightarrow> delivery_state result" where
  "parse_delivery_state s =
    (if s = ''pending'' then Inr DeliveryPending
     else if s = ''sent'' then Inr DeliverySent
     else if s = ''retry_pending'' then Inr DeliveryRetryPending
     else if s = ''failed'' then Inr DeliveryFailed
     else Inl (invalid_row ''delivery_state'' s))"

lemma parse_delivery_state_iff: "parse_delivery_state s = Inr v \<longleftrightarrow> s = delivery_state_to_db v"
  by (cases v) (auto simp: parse_delivery_state_def)

fun audit_action_to_db :: "audit_action \<Rightarrow> string" where
  "audit_action_to_db AuditCreated = ''created''"
| "audit_action_to_db AuditSent = ''sent''"
| "audit_action_to_db AuditAssigned = ''assigned''"
| "audit_action_to_db AuditStatusChanged = ''status_changed''"
| "audit_action_to_db AuditReviewRequested = ''review_requested''"
| "audit_action_to_db AuditReassigned = ''reassigned''"
| "audit_action_to_db AuditBlocked = ''blocked''"
| "audit_action_to_db AuditCommented = ''commented''"
| "audit_action_to_db AuditEdited = ''edited''"
| "audit_action_to_db AuditCancelled = ''cancelled''"
| "audit_action_to_db AuditEmployeesSynced = ''employees_synced''"

definition parse_audit_action :: "string \<Rightarrow> audit_action result" where
  "parse_audit_action s =
    (if s = ''created'' then Inr AuditCreated
     else if s = ''sent'' then Inr AuditSent
     else if s = ''assigned'' then Inr AuditAssigned
     else if s = ''status_changed'' then Inr AuditStatusChanged
     else if s = ''review_requested'' then Inr AuditReviewRequested
     else if s = ''reassigned'' then Inr AuditReassigned
     else if s = ''blocked'' then Inr AuditBlocked
     else if s = ''commented'' then Inr AuditCommented
     else if s = ''edited'' then Inr AuditEdited
     else if s = ''cancelled'' then Inr AuditCancelled
     else if s = ''employees_synced'' then Inr AuditEmployeesSynced
     else Inl (invalid_row ''audit_action'' s))"

lemma parse_audit_action_iff: "parse_audit_action s = Inr v \<longleftrightarrow> s = audit_action_to_db v"
  by (cases v) (auto simp: parse_audit_action_def)

fun comment_kind_to_db :: "comment_kind \<Rightarrow> string" where
  "comment_kind_to_db ContextComment = ''context''"
| "comment_kind_to_db BlockerComment = ''blocker''"
| "comment_kind_to_db SystemComment = ''system''"

definition parse_comment_kind :: "string \<Rightarrow> comment_kind result" where
  "parse_comment_kind s =
    (if s = ''context'' then Inr ContextComment
     else if s = ''blocker'' then Inr BlockerComment
     else if s = ''system'' then Inr SystemComment
     else Inl (invalid_row ''comment_kind'' s))"

lemma parse_comment_kind_iff: "parse_comment_kind s = Inr v \<longleftrightarrow> s = comment_kind_to_db v"
  by (cases v) (auto simp: parse_comment_kind_def)

definition parse_audit_action_code :: "string \<Rightarrow> audit_action_code result" where
  "parse_audit_action_code s =
    (if s = ''user_onboarding_started'' then Inr UserOnboardingStarted
     else if s = ''user_onboarding_completed'' then Inr UserOnboardingCompleted
     else if s = ''user_onboarding_abandoned'' then Inr UserOnboardingAbandoned
     else if s = ''user_employee_linked'' then Inr UserEmployeeLinked
     else if s = ''user_employee_unlinked'' then Inr UserEmployeeUnlinked
     else if s = ''role_elevated_by_bootstrap'' then Inr RoleElevatedByBootstrap
     else if s = ''role_changed_by_admin'' then Inr RoleChangedByAdmin
     else if s = ''user_deactivated_by_admin'' then Inr UserDeactivatedByAdmin
     else if s = ''user_reactivated_by_admin'' then Inr UserReactivatedByAdmin
     else if s = ''admin_feature_toggled'' then Inr AdminFeatureToggled
     else if s = ''forbidden_action_attempted'' then Inr ForbiddenActionAttempted
     else if s = ''callback_authorship_violation'' then Inr CallbackAuthorshipViolation
     else if s = ''rate_limit_exceeded'' then Inr RateLimitExceeded
     else if s = ''admin_nonce_expired'' then Inr AdminNonceExpired
     else Inl (invalid_row ''audit_action_code'' s))"

lemma parse_audit_action_code_iff: "parse_audit_action_code s = Inr v \<longleftrightarrow> s = as_code v"
  by (cases v) (auto simp: parse_audit_action_code_def)

lemma task_status_to_db_show: "task_status_to_db s = show_status s"
  by (cases s) simp_all

text \<open>Every enumeration the store writes is read back as the value written, no other text is
  accepted for it, and no two values share a text: roles, statuses, priorities, message types,
  notification types, delivery states, audit actions, comment kinds and audit codes.\<close>

theorem stored_enums_roundtrip:
  "(parse_user_role a = Inr r \<longleftrightarrow> a = user_role_to_db r)
   \<and> (parse_task_status b = Inr s \<longleftrightarrow> b = task_status_to_db s)
   \<and> (parse_task_priority c = Inr p \<longleftrightarrow> c = task_priority_to_db p)
   \<and> (parse_message_type d = Inr m \<longleftrightarrow> d = message_type_to_db m)
   \<and> (parse_notification_type e = Inr n \<longleftrightarrow> e = notification_type_to_db n)
   \<and> (parse_delivery_state f = Inr q \<longleftrightarrow> f = delivery_state_to_db q)
   \<and> (parse_audit_action g = Inr u \<longleftrightarrow> g = audit_action_to_db u)
   \<and> (parse_comment_kind h = Inr k \<longleftrightarrow> h = comment_kind_to_db k)
   \<and> (parse_audit_action_code i = Inr v \<longleftrightarrow> i = as_code v)"
  by (simp only: parse_user_role_iff parse_task_status_iff parse_task_priority_iff
      parse_message_type_iff parse_notification_type_iff parse_delivery_state_iff
      parse_audit_action_iff parse_comment_kind_iff parse_audit_action_code_iff simp_thms)

end
