(* ===== verification/Feature_Flags.thy ===== *)
theory Feature_Flags
  imports Base
begin

section \<open>Feature flags\<close>

text \<open>
  \<^verbatim>\<open>src/shared/feature_flags.rs\<close>: the flags, their stored keys, and the registry of enabled flags
  that is built from the environment, overridden from the database and toggled at run time. The
  registry's \<^verbatim>\<open>HashSet\<close> is a set; the \<^verbatim>\<open>HashMap\<close> of overrides is the list of its entries in
  iteration order.
\<close>

datatype feature_flag =
    OnboardingV2
  | AdminPanel
  | SlaEscalations
  | VoiceV2
  | NotificationDigest
  | TaskTemplates
  | RecurrenceRules
  | InlineAssigneeSearch
  | TeamAnalytics
  | CsvExport

fun as_key :: "feature_flag \<Rightarrow> string" where
  "as_key OnboardingV2 = ''onboarding_v2''"
| "as_key AdminPanel = ''admin_panel''"
| "as_key SlaEscalations = ''sla_escalations''"
| "as_key VoiceV2 = ''voice_v2''"
| "as_key NotificationDigest = ''notification_digest''"
| "as_key TaskTemplates = ''task_templates''"
| "as_key RecurrenceRules = ''recurrence_rules''"
| "as_key InlineAssigneeSearch = ''inline_assignee_search''"
| "as_key TeamAnalytics = ''team_analytics''"
| "as_key CsvExport = ''csv_export''"

definition feature_flag_from_str :: "utext \<Rightarrow> utext + feature_flag" where
  "feature_flag_from_str value =
    (let key = trim value in
     if key = ascii ''onboarding_v2'' then Inr OnboardingV2
     else if key = ascii ''admin_panel'' then Inr AdminPanel
     else if key = ascii ''sla_escalations'' then Inr SlaEscalations
     else if key = ascii ''voice_v2'' then Inr VoiceV2
     else if key = ascii ''notification_digest'' then Inr NotificationDigest
     else if key = ascii ''task_templates'' then Inr TaskTemplates
     else if key = ascii ''recurrence_rules'' then Inr RecurrenceRules
     else if key = ascii ''inline_assignee_search'' then Inr InlineAssigneeSearch
     else if key = ascii ''team_analytics'' then Inr TeamAnalytics
     else if key = ascii ''csv_export'' then Inr CsvExport
     else Inl key)"

definition ALL_FLAGS :: "feature_flag list" where
  "ALL_FLAGS = [OnboardingV2, AdminPanel, SlaEscalations, VoiceV2, NotificationDigest,
     TaskTemplates, RecurrenceRules, InlineAssigneeSearch, TeamAnalytics, CsvExport]"

type_synonym flag_registry = "feature_flag set"

definition default_enabled :: "feature_flag set" where
  "default_enabled = {OnboardingV2, AdminPanel}"

definition flag_is_enabled :: "flag_registry \<Rightarrow> feature_flag \<Rightarrow> bool" where
  "flag_is_enabled enabled flag \<longleftrightarrow> flag \<in> enabled"

fun toggle :: "feature_flag \<Rightarrow> bool \<Rightarrow> flag_registry \<Rightarrow> flag_registry" where
  "toggle flag True enabled = insert flag enabled"
| "toggle flag False enabled = enabled - {flag}"

definition from_env_and_defaults :: "utext option \<Rightarrow> flag_registry" where
  "from_env_and_defaults env_value =
     (case env_value of
        None \<Rightarrow> default_enabled
      | Some csv \<Rightarrow>
          foldl (\<lambda>enabled token.
              case feature_flag_from_str token of
                Inr flag \<Rightarrow> insert flag enabled
              | Inl _ \<Rightarrow> enabled)
            default_enabled (split_on 44 csv))"

definition apply_overrides :: "(feature_flag \<times> bool) list \<Rightarrow> flag_registry \<Rightarrow> flag_registry" where
  "apply_overrides overrides enabled =
     foldl (\<lambda>acc (flag, on). toggle flag on acc) enabled overrides"

definition all_flags :: "flag_registry \<Rightarrow> (feature_flag \<times> bool) list" where
  "all_flags enabled = map (\<lambda>flag. (flag, flag_is_enabled enabled flag)) ALL_FLAGS"

subsection \<open>Facts\<close>

lemma trim_key [simp]: "trim (ascii (as_key f)) = ascii (as_key f)"
  by (cases f) (simp_all add: ascii_def trim_def trim_end_by_def trim_start_by_def is_whitespace_def)

lemma flag_roundtrip [simp]: "feature_flag_from_str (ascii (as_key f)) = Inr f"
  unfolding feature_flag_from_str_def Let_def trim_key by (cases f) simp_all

lemma flag_from_str_cong: "trim v = trim v' \<Longrightarrow> feature_flag_from_str v = feature_flag_from_str v'"
  by (simp add: feature_flag_from_str_def)

lemma flag_from_str_sound: "feature_flag_from_str v = Inr f \<Longrightarrow> trim v = ascii (as_key f)"
  by (auto simp: feature_flag_from_str_def Let_def split: if_splits)

lemma as_key_inj [simp]: "as_key f = as_key g \<longleftrightarrow> f = g"
  by (metis flag_roundtrip sum.inject(2))

lemma all_flags_complete: "f \<in> set ALL_FLAGS"
  by (cases f) (simp_all add: ALL_FLAGS_def)

lemma toggle_iff: "flag_is_enabled (toggle f on r) g \<longleftrightarrow> (if g = f then on else flag_is_enabled r g)"
  by (cases on) (auto simp: flag_is_enabled_def)

lemma apply_overrides_Nil [simp]: "apply_overrides [] r = r"
  by (simp add: apply_overrides_def)

lemma apply_overrides_Cons [simp]:
  "apply_overrides ((f, on) # ov) r = apply_overrides ov (toggle f on r)"
  by (simp add: apply_overrides_def)

lemma apply_overrides_iff:
  "distinct (map fst ov) \<Longrightarrow>
     flag_is_enabled (apply_overrides ov r) g =
       (case map_of ov g of Some on \<Rightarrow> on | None \<Rightarrow> flag_is_enabled r g)"
proof (induction ov arbitrary: r)
  case (Cons p ov)
  obtain f on where p: "p = (f, on)" by (cases p)
  have rest: "map_of ov f = None" using Cons.prems p by (simp add: map_of_eq_None_iff)
  show ?case
    using Cons p rest by (auto simp: toggle_iff split: option.split)
qed simp

text \<open>Flags layer as documented: an override from the database decides its flag whatever the
  environment says and in whatever order the overrides are visited; a flag without an override is
  on exactly when it is a default or some comma-separated token of the environment names it, and
  unknown tokens change nothing.\<close>
theorem flag_layering:
  assumes "distinct (map fst overrides)"
  shows "flag_is_enabled (apply_overrides overrides (from_env_and_defaults env)) flag =
      (case map_of overrides flag of
         Some on \<Rightarrow> on
       | None \<Rightarrow> flag = OnboardingV2 \<or> flag = AdminPanel
           \<or> (case env of None \<Rightarrow> False
              | Some csv \<Rightarrow> \<exists>token \<in> set (split_on 44 csv). trim token = ascii (as_key flag)))"
proof -
  have fold: "flag \<in> foldl (\<lambda>enabled token.
        case feature_flag_from_str token of Inr f \<Rightarrow> insert f enabled | Inl _ \<Rightarrow> enabled) acc ts
      \<longleftrightarrow> flag \<in> acc \<or> (\<exists>token \<in> set ts. feature_flag_from_str token = Inr flag)" for acc ts
    by (induction ts arbitrary: acc) (auto split: sum.splits)
  have names: "feature_flag_from_str token = Inr flag \<longleftrightarrow> trim token = ascii (as_key flag)" for token
    by (metis flag_from_str_cong flag_from_str_sound flag_roundtrip trim_key)
  show ?thesis
    unfolding apply_overrides_iff[OF assms]
    by (auto simp: flag_is_enabled_def from_env_and_defaults_def default_enabled_def fold names
        split: option.split)
qed

theorem flag_layering_witness:
  "flag_is_enabled (apply_overrides [(AdminPanel, False)]
      (from_env_and_defaults (Some (ascii ''voice_v2, nope'')))) AdminPanel = False"
  using flag_layering[of "[(AdminPanel, False)]" "Some (ascii ''voice_v2, nope'')" AdminPanel]
  by simp

end
