(* ===== verification/Voice_Domain.thy ===== *)
theory Voice_Domain
  imports Actions
begin

section \<open>Voice processing attempts\<close>

text \<open>
  \<^verbatim>\<open>src/domain/voice.rs\<close>: the states of one voice-to-task attempt, the transitions between them, the
  stored codes and the record. A state is left once: \<open>Queued\<close>, \<open>Transcribing\<close>, and then one of the two
  terminal states.
\<close>

datatype voice_state = Queued | Transcribing | Transcribed | VoiceFailed

fun voice_as_code :: "voice_state \<Rightarrow> string" where
  "voice_as_code Queued = ''queued''"
| "voice_as_code Transcribing = ''transcribing''"
| "voice_as_code Transcribed = ''transcribed''"
| "voice_as_code VoiceFailed = ''failed''"

fun voice_is_terminal :: "voice_state \<Rightarrow> bool" where
  "voice_is_terminal Transcribed = True"
| "voice_is_terminal VoiceFailed = True"
| "voice_is_terminal _ = False"

fun voice_can_transition_to :: "voice_state \<Rightarrow> voice_state \<Rightarrow> bool" where
  "voice_can_transition_to Queued Transcribing = True"
| "voice_can_transition_to Queued VoiceFailed = True"
| "voice_can_transition_to Transcribing Transcribed = True"
| "voice_can_transition_to Transcribing VoiceFailed = True"
| "voice_can_transition_to _ _ = False"

definition voice_from_str :: "utext \<Rightarrow> voice_state result" where
  "voice_from_str value =
     (if value = ascii ''queued'' then Inr Queued
      else if value = ascii ''transcribing'' then Inr Transcribing
      else if value = ascii ''transcribed'' then Inr Transcribed
      else if value = ascii ''failed'' then Inr VoiceFailed
      else Inl (schema_validation ''VOICE_PROCESSING_STATE_UNKNOWN''
        (ascii ''unrecognised voice processing state '' @ [39] @ value @ [39])
        (JObj [(''state'', JStr value)])))"

record voice_record =
  vr_id :: "row_id option"
  vr_file_unique_id :: utext
  vr_chat_id :: int
  vr_telegram_user_id :: int
  vr_user_id :: "row_id option"
  vr_state :: voice_state
  vr_attempt_count :: nat
  vr_last_error_code :: "utext option"
  vr_transcript_preview_hash :: "utext option"
  vr_completed_at :: "instant option"
  vr_created_at :: instant
  vr_updated_at :: instant

definition queued_record ::
  "utext \<Rightarrow> int \<Rightarrow> int \<Rightarrow> row_id option \<Rightarrow> instant \<Rightarrow> voice_record" where
  "queued_record file_unique_id chat_id telegram_user_id user_id now =
     \<lparr> vr_id = None, vr_file_unique_id = file_unique_id, vr_chat_id = chat_id,
       vr_telegram_user_id = telegram_user_id, vr_user_id = user_id, vr_state = Queued,
       vr_attempt_count = 0, vr_last_error_code = None, vr_transcript_preview_hash = None,
       vr_completed_at = None, vr_created_at = now, vr_updated_at = now \<rparr>"

lemma voice_code_roundtrip [simp]: "voice_from_str (ascii (voice_as_code s)) = Inr s"
  by (cases s) (simp_all add: voice_from_str_def)

lemma voice_terminal_iff: "voice_is_terminal s \<longleftrightarrow> (\<forall>t. \<not> voice_can_transition_to s t)"
  by (cases s) (auto intro: exI[of _ VoiceFailed])

text \<open>Every transition makes progress, so a record changes its state at most twice.\<close>

fun voice_rank :: "voice_state \<Rightarrow> nat" where
  "voice_rank Queued = 0"
| "voice_rank Transcribing = 1"
| "voice_rank _ = 2"

lemma voice_rank_increases: "voice_can_transition_to s t \<Longrightarrow> voice_rank s < voice_rank t"
  by (cases "(s, t)" rule: voice_can_transition_to.cases) simp_all

end
