(* ===== verification/Sla.thy ===== *)
theory Sla
  imports Actions
begin

section \<open>Calendar days and time zones\<close>

text \<open>
  The values of the \<^verbatim>\<open>chrono\<close> and \<^verbatim>\<open>chrono_tz\<close> crates the deadline code works on. A naive local
  time is the number of nanoseconds a clock on the wall shows since 1970-01-01 00:00, and a zone is
  a parameter of the model: what its clocks show at an instant (\<^verbatim>\<open>with_timezone\<close>), and the instant
  of a local time that exists exactly once (\<^verbatim>\<open>from_local_datetime(..).single()\<close>). Operations that
  may panic return an option, a panic being \<open>None\<close>.
\<close>

record timezone =
  tz_local :: "instant \<Rightarrow> int"
  tz_single :: "int \<Rightarrow> instant option"

definition local_date :: "timezone \<Rightarrow> instant \<Rightarrow> day" where
  "local_date z t = tz_local z t div ns_per_day"

definition local_minute_of_day :: "timezone \<Rightarrow> instant \<Rightarrow> int" where
  "local_minute_of_day z t = (tz_local z t mod ns_per_day) div ns_per_min"

text \<open>\<^verbatim>\<open>NaiveDate::MAX\<close>, 31 December 262142, and the days \<^verbatim>\<open>chrono\<close> can represent.\<close>

definition NAIVE_DATE_MAX :: day where "NAIVE_DATE_MAX = 95026236"
definition NAIVE_DATE_MIN :: day where "NAIVE_DATE_MIN = -96465293"

definition succ_opt :: "day \<Rightarrow> day option" where
  "succ_opt d = (if d < NAIVE_DATE_MAX then Some (d + 1) else None)"

text \<open>\<^verbatim>\<open>date + Duration::days(n)\<close>, which panics out of range.\<close>

definition add_days :: "day \<Rightarrow> int \<Rightarrow> day option" where
  "add_days d n = (if NAIVE_DATE_MIN \<le> d + n \<and> d + n \<le> NAIVE_DATE_MAX then Some (d + n) else None)"

text \<open>\<^verbatim>\<open>weekday().num_days_from_monday()\<close>; 1 January 1970 was a Thursday.\<close>

definition num_days_from_monday :: "day \<Rightarrow> nat" where
  "num_days_from_monday d = nat ((d + 3) mod 7)"

definition and_hm :: "day \<Rightarrow> nat \<Rightarrow> nat \<Rightarrow> int option" where
  "and_hm d hour minute =
     (if hour < 24 \<and> minute < 60
      then Some (d * ns_per_day + int (hour * 60 + minute) * ns_per_min) else None)"

text \<open>\<^verbatim>\<open>from_local_datetime(&naive).single().unwrap_or_else(|| from_utc_datetime(&naive))\<close>.\<close>

definition resolve_local :: "timezone \<Rightarrow> int \<Rightarrow> instant" where
  "resolve_local z naive = (case tz_single z naive of Some t \<Rightarrow> t | None \<Rightarrow> naive)"

text \<open>A zone whose clocks are never changed, Moscow's since 2014 for one.\<close>

definition fixed_zone :: "int \<Rightarrow> timezone" where
  "fixed_zone offset = \<lparr> tz_local = (\<lambda>t. t + offset), tz_single = (\<lambda>n. Some (n - offset)) \<rparr>"

lemma fixed_zone [simp]:
  "tz_local (fixed_zone off) t = t + off" "tz_single (fixed_zone off) n = Some (n - off)"
  "resolve_local (fixed_zone off) n = n - off"
  by (simp_all add: fixed_zone_def resolve_local_def)

definition moscow :: timezone where
  "moscow = fixed_zone (180 * ns_per_min)"

subsection \<open>Facts\<close>

lemma num_days_from_monday_less: "num_days_from_monday d < 7"
  by (simp add: num_days_from_monday_def nat_less_iff)

lemma day_minutes: "ns_per_day = 1440 * ns_per_min"
  by (simp add: ns_per_day_def ns_per_min_def)

lemma and_hm_of_minutes:
  "m < 1440 \<Longrightarrow> and_hm d (m div 60) (m mod 60) = Some (d * ns_per_day + int m * ns_per_min)"
  by (auto simp: and_hm_def less_mult_imp_div_less)

lemma and_hm_end_of_day: "1440 \<le> m \<Longrightarrow> and_hm d (m div 60) r = None"
proof -
  assume "1440 \<le> m"
  then have "1440 div 60 \<le> m div 60" by (rule div_le_mono)
  then show ?thesis by (simp add: and_hm_def)
qed

lemma local_minute_less: "local_minute_of_day z t < 1440" "0 \<le> local_minute_of_day z t"
proof -
  have "tz_local z t mod ns_per_day < 1440 * ns_per_min"
    using pos_mod_bound[of ns_per_day] by (simp add: day_minutes[symmetric])
  then show "local_minute_of_day z t < 1440"
    unfolding local_minute_of_day_def by (simp add: ns_per_min_def ns_per_sec_def)
  show "0 \<le> local_minute_of_day z t"
    by (simp add: local_minute_of_day_def pos_imp_zdiv_nonneg_iff)
qed

lemma date_of_local: "0 \<le> x \<Longrightarrow> x < ns_per_day \<Longrightarrow> (d * ns_per_day + x) div ns_per_day = d"
  by (simp add: div_pos_pos_trivial)

lemma before_next_day: "x < (x div ns_per_day + 1) * ns_per_day"
proof -
  have "x mod ns_per_day < ns_per_day" by simp
  then have "x < x div ns_per_day * ns_per_day + ns_per_day"
    using div_mult_mod_eq[of x ns_per_day] by linarith
  then show ?thesis by (simp add: distrib_right)
qed

lemma minutes_mono: "(a::int) \<le> b \<Longrightarrow> a * ns_per_min \<le> b * ns_per_min"
  by (rule mult_right_mono) (simp_all add: ns_per_min_def ns_per_sec_def)


section \<open>Working calendars and deadline arithmetic\<close>

text \<open>
  \<^verbatim>\<open>src/domain/sla.rs\<close>: the SLA states and their stored codes, the working calendar with its
  constructor, the working-time arithmetic (whose loop runs over at most 366 days) and the check of
  an SLA policy. The two sets of days are sets; minutes of the day are 16-bit and the weekday mask
  32-bit words, as in the code.
\<close>

unbundle bit_operations_syntax

datatype sla_state = Healthy | AtRisk | Breached

fun sla_as_code :: "sla_state \<Rightarrow> string" where
  "sla_as_code Healthy = ''healthy''"
| "sla_as_code AtRisk = ''at_risk''"
| "sla_as_code Breached = ''breached''"

definition sla_from_code :: "utext \<Rightarrow> sla_state result" where
  "sla_from_code code =
     (if code = ascii ''healthy'' then Inr Healthy
      else if code = ascii ''at_risk'' then Inr AtRisk
      else if code = ascii ''breached'' then Inr Breached
      else Inl (schema_validation ''SLA_STATE_UNKNOWN''
        (ascii ''unrecognised sla_state value '' @ [39] @ code @ [39])
        (JObj [(''sla_state'', JStr code)])))"

definition MINUTES_IN_DAY :: int where "MINUTES_IN_DAY = 24 * 60"

definition WEEKDAY_BITS :: "(nat \<times> 32 word) list" where
  "WEEKDAY_BITS = [(0, 1), (1, 2), (2, 4), (3, 8), (4, 16), (5, 32), (6, 64)]"

definition weekday_bit :: "nat \<Rightarrow> 32 word" where
  "weekday_bit weekday = (case map_of WEEKDAY_BITS weekday of Some b \<Rightarrow> b | None \<Rightarrow> 0)"

record working_calendar =
  wc_code :: utext
  wc_timezone :: timezone
  wc_workday_mask :: "32 word"
  wc_workday_start_min :: "16 word"
  wc_workday_end_min :: "16 word"
  wc_holidays :: "day set"
  wc_extra_working_days :: "day set"

definition new_working_calendar ::
  "utext \<Rightarrow> timezone \<Rightarrow> 32 word \<Rightarrow> 16 word \<Rightarrow> 16 word \<Rightarrow> day list \<Rightarrow> day list \<Rightarrow>
   working_calendar result" where
  "new_working_calendar code zone days_mask start_min end_min holidays extra =
    (if days_mask = 0 then
       Inl (schema_validation ''WORKING_CALENDAR_EMPTY_MASK''
         (ascii ''workday_mask must select at least one weekday'')
         (JObj [(''workday_mask'', JNum (uint days_mask))]))
     else if uint start_min \<ge> MINUTES_IN_DAY \<or> uint end_min > MINUTES_IN_DAY then
       Inl (schema_validation ''WORKING_CALENDAR_MINUTE_OUT_OF_RANGE''
         (ascii ''workday_start_min/workday_end_min must lie in [0, 1440]'')
         (JObj [(''workday_start_min'', JNum (uint start_min)),
                (''workday_end_min'', JNum (uint end_min))]))
     else if end_min \<le> start_min then
       Inl (schema_validation ''WORKING_CALENDAR_INVERTED_WINDOW''
         (ascii ''workday_end_min must be strictly greater than workday_start_min'')
         (JObj [(''workday_start_min'', JNum (uint start_min)),
                (''workday_end_min'', JNum (uint end_min))]))
     else
       Inr \<lparr> wc_code = code, wc_timezone = zone, wc_workday_mask = days_mask,
         wc_workday_start_min = start_min, wc_workday_end_min = end_min,
         wc_holidays = set holidays, wc_extra_working_days = set extra \<rparr>)"

definition is_working_day :: "working_calendar \<Rightarrow> day \<Rightarrow> bool" where
  "is_working_day cal date =
    (if date \<in> wc_extra_working_days cal then True
     else if date \<in> wc_holidays cal then False
     else wc_workday_mask cal AND weekday_bit (num_days_from_monday date) \<noteq> 0)"

definition local_at :: "working_calendar \<Rightarrow> day \<Rightarrow> int \<Rightarrow> instant option" where
  "local_at cal date minute_of_day =
    (case and_hm date (nat (minute_of_day div 60)) (nat (minute_of_day mod 60)) of
       None \<Rightarrow> None
     | Some naive \<Rightarrow> Some (resolve_local (wc_timezone cal) naive))"

text \<open>\<^verbatim>\<open>with_nanosecond(0)\<close> resolves the truncated local time again and may fail.\<close>

definition with_nanosecond_0 :: "timezone \<Rightarrow> instant \<Rightarrow> instant option" where
  "with_nanosecond_0 z t = tz_single z (tz_local z t div ns_per_sec * ns_per_sec)"

definition advance_to_next_day_start :: "working_calendar \<Rightarrow> day \<Rightarrow> instant option" where
  "advance_to_next_day_start cal day =
    (case succ_opt day of
       None \<Rightarrow> None
     | Some next_day \<Rightarrow>
        (case local_at cal next_day (uint (wc_workday_start_min cal)) of
           None \<Rightarrow> None
         | Some t \<Rightarrow>
            (case with_nanosecond_0 (wc_timezone cal) t of
               Some t' \<Rightarrow> Some t'
             | None \<Rightarrow> local_at cal next_day (uint (wc_workday_start_min cal)))))"

fun working_loop :: "nat \<Rightarrow> working_calendar \<Rightarrow> instant \<Rightarrow> int \<Rightarrow> instant option" where
  "working_loop 0 cal current remaining = Some current"
| "working_loop (Suc n) cal current remaining =
    (let day = local_date (wc_timezone cal) current in
     if \<not> is_working_day cal day then
       (case advance_to_next_day_start cal day of
          None \<Rightarrow> None
        | Some next \<Rightarrow> working_loop n cal next remaining)
     else
       case local_at cal day (uint (wc_workday_start_min cal)) of
         None \<Rightarrow> None
       | Some start_of_window \<Rightarrow>
          (case local_at cal day (uint (wc_workday_end_min cal)) of
             None \<Rightarrow> None
           | Some end_of_window \<Rightarrow>
              (let current = (if current < start_of_window then start_of_window else current) in
               if current \<ge> end_of_window then
                 (case advance_to_next_day_start cal day of
                    None \<Rightarrow> None
                  | Some next \<Rightarrow> working_loop n cal next remaining)
               else
                 let minutes_available = (end_of_window - current) div ns_per_min in
                 if remaining \<le> minutes_available then Some (current + remaining * ns_per_min)
                 else
                   case advance_to_next_day_start cal day of
                     None \<Rightarrow> None
                   | Some next \<Rightarrow> working_loop n cal next (remaining - minutes_available))))"

definition add_working_duration :: "working_calendar \<Rightarrow> instant \<Rightarrow> int \<Rightarrow> instant option" where
  "add_working_duration cal from working_minutes =
     (if working_minutes \<le> 0 then Some from else working_loop 366 cal from working_minutes)"

record sla_policy =
  sp_deadline_minutes :: int
  sp_at_risk_minutes :: int
  sp_escalation_steps_minutes :: "int list"

text \<open>The loop over the escalation steps, with its early return and its \<^verbatim>\<open>break\<close>.\<close>

fun check_steps :: "int \<Rightarrow> int list \<Rightarrow> bool result" where
  "check_steps last_step [] = Inr True"
| "check_steps last_step (step # steps) =
     (if step < 0 then
        Inl (schema_validation ''SLA_POLICY_NEGATIVE_ESCALATION''
          (ascii ''escalation steps must be non-negative'') (JObj [(''step'', JNum step)]))
      else if step < last_step then Inr False
      else check_steps step steps)"

definition validate_sla_policy :: "sla_policy \<Rightarrow> unit result" where
  "validate_sla_policy p =
    (if sp_deadline_minutes p \<le> 0 then
       Inl (schema_validation ''SLA_POLICY_INVALID_DEADLINE''
         (ascii ''deadline_minutes must be positive'')
         (JObj [(''deadline_minutes'', JNum (sp_deadline_minutes p))]))
     else if sp_at_risk_minutes p < 0 \<or> sp_at_risk_minutes p > sp_deadline_minutes p then
       Inl (schema_validation ''SLA_POLICY_INVALID_AT_RISK''
         (ascii ''at_risk_minutes must lie in [0, deadline_minutes]'')
         (JObj [(''at_risk_minutes'', JNum (sp_at_risk_minutes p)),
                (''deadline_minutes'', JNum (sp_deadline_minutes p))]))
     else
       tryR (check_steps 0 (sp_escalation_steps_minutes p)) (\<lambda>sorted.
         if \<not> sorted then
           Inl (schema_validation ''SLA_POLICY_UNSORTED_ESCALATION''
             (ascii ''escalation_steps_minutes must be sorted ascending'')
             (JObj [(''steps'', JArr (map JNum (sp_escalation_steps_minutes p)))]))
         else Inr ()))"

subsection \<open>Codes and constructors\<close>

lemma sla_code_roundtrip [simp]: "sla_from_code (ascii (sla_as_code s)) = Inr s"
  by (cases s) (simp_all add: sla_from_code_def)

lemma new_working_calendar_iff:
  "is_ok (new_working_calendar code zone days_mask s e hs xs) \<longleftrightarrow>
     days_mask \<noteq> 0 \<and> uint s < uint e \<and> uint e \<le> 1440"
  by (auto simp: new_working_calendar_def MINUTES_IN_DAY_def word_le_def is_ok_def)

lemma check_steps_iff:
  "check_steps l steps = Inr True \<longleftrightarrow> sorted (l # steps) \<and> (\<forall>s \<in> set steps. 0 \<le> s)"
  if "0 \<le> l"
  using that
proof (induction l steps rule: check_steps.induct)
  case (2 l step steps)
  then show ?case by (auto simp: not_less)
qed simp

subsection \<open>The reference: working time between two instants\<close>

text \<open>
  Independently of the loop, \<open>worked\<close> adds up, day by day, the overlap of an interval with the
  working windows. Both work on local time.
\<close>

definition day_start :: "working_calendar \<Rightarrow> day \<Rightarrow> int" where
  "day_start cal d = d * ns_per_day + uint (wc_workday_start_min cal) * ns_per_min"

definition day_end :: "working_calendar \<Rightarrow> day \<Rightarrow> int" where
  "day_end cal d = d * ns_per_day + uint (wc_workday_end_min cal) * ns_per_min"

definition day_span :: "working_calendar \<Rightarrow> int \<Rightarrow> int \<Rightarrow> day \<Rightarrow> int" where
  "day_span cal x y d =
     (if is_working_day cal d then max 0 (min y (day_end cal d) - max x (day_start cal d)) else 0)"

definition worked :: "working_calendar \<Rightarrow> int \<Rightarrow> int \<Rightarrow> int" where
  "worked cal x y = (\<Sum>d = x div ns_per_day .. y div ns_per_day. day_span cal x y d)"

definition in_working_window :: "working_calendar \<Rightarrow> int \<Rightarrow> bool" where
  "in_working_window cal y \<longleftrightarrow> is_working_day cal (y div ns_per_day)
     \<and> day_start cal (y div ns_per_day) < y \<and> y \<le> day_end cal (y div ns_per_day)"

text \<open>A calendar in a zone of fixed offset, whose window ends before midnight.\<close>

definition plain_calendar :: "int \<Rightarrow> working_calendar \<Rightarrow> bool" where
  "plain_calendar off cal \<longleftrightarrow> wc_timezone cal = fixed_zone off
     \<and> uint (wc_workday_start_min cal) < uint (wc_workday_end_min cal)
     \<and> uint (wc_workday_end_min cal) < 1440"

lemma local_at_fixed:
  assumes "plain_calendar off cal" "0 \<le> m" "m < 1440"
  shows "local_at cal d m = Some (d * ns_per_day + m * ns_per_min - off)"
proof -
  have "nat (m div 60) = nat m div 60" "nat (m mod 60) = nat m mod 60"
    using assms(2) by (simp_all add: nat_div_distrib nat_mod_distrib)
  moreover have "nat m < 1440" using assms by linarith
  ultimately show ?thesis
    using assms by (simp add: local_at_def plain_calendar_def and_hm_of_minutes)
qed

lemma minutes_whole_seconds: "(k * ns_per_min) div ns_per_sec * ns_per_sec = k * ns_per_min"
proof -
  have "ns_per_sec \<noteq> 0" by (simp add: ns_per_sec_def)
  then show ?thesis unfolding ns_per_min_def mult.assoc[symmetric] by simp
qed

lemma advance_fixed:
  assumes cal: "plain_calendar off cal" and "d < NAIVE_DATE_MAX"
  shows "advance_to_next_day_start cal d = Some (day_start cal (d + 1) - off)"
proof -
  let ?s = "uint (wc_workday_start_min cal)"
  have bounds: "0 \<le> ?s" "?s < 1440" and z: "wc_timezone cal = fixed_zone off"
    using cal by (auto simp: plain_calendar_def)
  have whole: "day_start cal (d + 1) = ((d + 1) * 1440 + ?s) * ns_per_min"
    by (simp add: day_start_def day_minutes algebra_simps)
  have "with_nanosecond_0 (fixed_zone off) (day_start cal (d + 1) - off)
      = Some (day_start cal (d + 1) - off)"
    by (simp add: with_nanosecond_0_def whole minutes_whole_seconds)
  then show ?thesis
    using assms(2)
    by (simp add: advance_to_next_day_start_def succ_opt_def local_at_fixed[OF cal bounds] z
        day_start_def)
qed

lemma day_of_window:
  assumes cal: "plain_calendar off cal" and "day_start cal d \<le> y" "y \<le> day_end cal d"
  shows "y div ns_per_day = d"
proof -
  have e: "uint (wc_workday_end_min cal) * ns_per_min < ns_per_day"
    using cal by (simp add: plain_calendar_def day_minutes)
  have s: "0 \<le> uint (wc_workday_start_min cal) * ns_per_min"
    by (simp add: ns_per_min_def ns_per_sec_def)
  have "0 \<le> y - d * ns_per_day" "y - d * ns_per_day < ns_per_day"
    using assms(2,3) e s by (auto simp: day_start_def day_end_def)
  then have "(d * ns_per_day + (y - d * ns_per_day)) div ns_per_day = d" by (rule date_of_local)
  then show ?thesis by simp
qed

lemma day_end_less: "plain_calendar off cal \<Longrightarrow> day_end cal d < (d + 1) * ns_per_day"
  by (simp add: plain_calendar_def day_end_def day_minutes algebra_simps)

lemma day_start_ge: "d * ns_per_day \<le> day_start cal d"
  by (simp add: day_start_def ns_per_min_def ns_per_sec_def)

lemma day_start_less_end: "plain_calendar off cal \<Longrightarrow> day_start cal d < day_end cal d"
  by (simp add: plain_calendar_def day_start_def day_end_def)

lemma day_start_mono: "d \<le> d' \<Longrightarrow> day_start cal d \<le> day_start cal d'"
  by (simp add: day_start_def mult_right_mono ns_per_day_def ns_per_sec_def)

text \<open>The first day of an interval is split off.\<close>

lemma worked_split:
  assumes cal: "plain_calendar off cal" and d: "d = x div ns_per_day"
    and y: "day_start cal (d + 1) \<le> y"
  shows "worked cal x y = day_span cal x (day_end cal d) d + worked cal (day_start cal (d + 1)) y"
proof -
  let ?next = "day_start cal (d + 1)"
  have nd: "?next div ns_per_day = d + 1"
    using day_of_window[OF cal, of "d + 1" ?next] day_start_less_end[OF cal, of "d + 1"] by simp
  have "(d + 1) * ns_per_day \<le> y" using day_start_ge[of "d + 1" cal] y by linarith
  then have yd: "d + 1 \<le> y div ns_per_day"
    by (metis mult.commute nonzero_mult_div_cancel_left ns_pos(3) order_less_irrefl zdiv_mono1)
  have x: "x < (d + 1) * ns_per_day" using before_next_day[of x] by (simp add: d)
  have later: "day_span cal x y d' = day_span cal ?next y d'" if "d + 1 \<le> d'" for d'
  proof -
    have "?next \<le> day_start cal d'" using that by (rule day_start_mono)
    moreover have "x \<le> day_start cal d'" using x day_start_ge[of "d + 1" cal] calculation by linarith
    ultimately show ?thesis by (simp add: day_span_def max_absorb2)
  qed
  have first_day: "day_span cal x y d = day_span cal x (day_end cal d) d"
    using day_end_less[OF cal, of d] day_start_ge[of "d + 1" cal] y
    by (simp add: day_span_def min_absorb2)
  have "{d .. y div ns_per_day} = insert d {d + 1 .. y div ns_per_day}" using yd by auto
  then have "worked cal x y = day_span cal x y d + (\<Sum>d' = d + 1 .. y div ns_per_day. day_span cal x y d')"
    by (simp add: worked_def d[symmetric])
  also have "(\<Sum>d' = d + 1 .. y div ns_per_day. day_span cal x y d') = worked cal ?next y"
    unfolding worked_def nd by (rule sum.cong) (auto simp: later)
  finally show ?thesis using first_day by simp
qed

lemma worked_same_day:
  "x div ns_per_day = d \<Longrightarrow> y div ns_per_day = d \<Longrightarrow> worked cal x y = day_span cal x y d"
  by (simp add: worked_def)

lemma worked_no_days: "y div ns_per_day < x div ns_per_day \<Longrightarrow> worked cal x y = 0"
  by (simp add: worked_def)

subsection \<open>The loop computes it\<close>

lemma working_loop_step:
  assumes cal: "plain_calendar off cal" and al: "x mod ns_per_min = 0"
    and d: "d = x div ns_per_day" and small: "d < NAIVE_DATE_MAX"
    and span: "day_span cal x (day_end cal d) d < rem * ns_per_min" and rem: "0 < rem"
  obtains k where "day_span cal x (day_end cal d) d = k * ns_per_min" "0 \<le> k" "k < rem"
    "working_loop (Suc n) cal (x - off) rem =
       working_loop n cal (day_start cal (d + 1) - off) (rem - k)"
proof -
  have z: "wc_timezone cal = fixed_zone off"
    and w: "0 \<le> uint (wc_workday_start_min cal)" "uint (wc_workday_start_min cal) < 1440"
      "0 \<le> uint (wc_workday_end_min cal)" "uint (wc_workday_end_min cal) < 1440"
    using cal by (auto simp: plain_calendar_def)
  have ld: "local_date (fixed_zone off) (x - off) = d" by (simp add: local_date_def d)
  note facts = Let_def z ld local_at_fixed[OF cal w(1,2)] local_at_fixed[OF cal w(3,4)]
    advance_fixed[OF cal small]
  note start_end = day_start_def[symmetric] day_end_def[symmetric]
  show thesis
  proof (cases "is_working_day cal d")
    case False
    show thesis
      by (rule that[of 0]) (use False rem in \<open>simp_all add: facts day_span_def\<close>)
  next
    case True
    define c where "c = max x (day_start cal d)"
    have cur: "(if x < day_start cal d then day_start cal d - off else x - off) = c - off"
      by (simp add: c_def)
    show thesis
    proof (cases "day_end cal d \<le> c")
      case late: True
      show thesis
        by (rule that[of 0])
          (use True late rem in \<open>auto simp: facts day_span_def c_def start_end max_def\<close>)
    next
      case open_window: False
      have dx: "ns_per_min dvd x" using al by (simp add: mod_eq_0_iff_dvd)
      have "ns_per_min dvd day_start cal d" "ns_per_min dvd day_end cal d"
        by (simp_all add: day_start_def day_end_def day_minutes)
      then have "ns_per_min dvd day_end cal d - c" using dx by (simp add: c_def max_def)
      then obtain k where k: "day_end cal d - c = k * ns_per_min" by (metis dvdE mult.commute)
      have k0: "0 \<le> k" using k open_window by (smt (verit) ns_pos(2) mult_neg_pos)
      have sp: "day_span cal x (day_end cal d) d = k * ns_per_min"
        using True open_window k by (simp add: day_span_def c_def)
      have kr: "k < rem" using span sp by simp
      have av: "(day_end cal d - c) div ns_per_min = k"
        unfolding k by (rule nonzero_mult_div_cancel_right) (simp add: ns_per_min_def ns_per_sec_def)
      have "working_loop (Suc n) cal (x - off) rem =
          working_loop n cal (day_start cal (d + 1) - off) (rem - k)"
        using True open_window kr av by (simp add: facts start_end cur split del: if_split)
      with sp k0 kr show thesis by (rule that)
    qed
  qed
qed

lemma working_loop_finishes:
  assumes cal: "plain_calendar off cal" and al: "x mod ns_per_min = 0"
    and d: "d = x div ns_per_day" and small: "d < NAIVE_DATE_MAX"
    and span: "rem * ns_per_min \<le> day_span cal x (day_end cal d) d" and rem: "0 < rem"
  obtains y where "working_loop (Suc n) cal (x - off) rem = Some (y - off)" "x \<le> y"
    "worked cal x y = rem * ns_per_min" "in_working_window cal y"
proof -
  have z: "wc_timezone cal = fixed_zone off"
    and w: "0 \<le> uint (wc_workday_start_min cal)" "uint (wc_workday_start_min cal) < 1440"
      "0 \<le> uint (wc_workday_end_min cal)" "uint (wc_workday_end_min cal) < 1440"
    using cal by (auto simp: plain_calendar_def)
  have ld: "local_date (fixed_zone off) (x - off) = d" by (simp add: local_date_def d)
  note facts = Let_def z ld local_at_fixed[OF cal w(1,2)] local_at_fixed[OF cal w(3,4)]
  note start_end = day_start_def[symmetric] day_end_def[symmetric]
  define c where "c = max x (day_start cal d)"
  have cur: "(if x < day_start cal d then day_start cal d - off else x - off) = c - off"
    by (simp add: c_def)
  have pos: "0 < rem * ns_per_min" using rem by simp
  then have work: "is_working_day cal d" and sp: "rem * ns_per_min \<le> day_end cal d - c"
    using span by (auto simp: day_span_def c_def split: if_splits)
  have av: "rem \<le> (day_end cal d - c) div ns_per_min"
    using sp by (metis ns_pos(2) nonzero_mult_div_cancel_right order_less_irrefl zdiv_mono1)
  let ?y = "c + rem * ns_per_min"
  have run: "working_loop (Suc n) cal (x - off) rem = Some (?y - off)"
    using work av pos sp by (simp add: facts start_end cur split del: if_split)
  have yd: "?y div ns_per_day = d"
    by (rule day_of_window[OF cal]) (use sp pos in \<open>auto simp: c_def\<close>)
  have w: "worked cal x ?y = rem * ns_per_min"
    unfolding worked_same_day[OF d[symmetric] yd] using work sp pos
    by (auto simp: day_span_def c_def)
  have win: "in_working_window cal ?y"
    unfolding in_working_window_def yd using work sp pos by (auto simp: c_def)
  have "x \<le> ?y" using pos by (simp add: c_def)
  with run w win show thesis using that by blast
qed

lemma working_loop_exact:
  assumes cal: "plain_calendar off cal"
  shows "\<lbrakk>x mod ns_per_min = 0; x div ns_per_day + int n \<le> NAIVE_DATE_MAX; 0 < rem;
      rem * ns_per_min \<le> worked cal x (day_end cal (x div ns_per_day + int n - 1))\<rbrakk>
    \<Longrightarrow> \<exists>y. working_loop n cal (x - off) rem = Some (y - off) \<and> x \<le> y
      \<and> worked cal x y = rem * ns_per_min \<and> in_working_window cal y"
proof (induction n arbitrary: x rem)
  case 0
  have "day_end cal (x div ns_per_day - 1) div ns_per_day = x div ns_per_day - 1"
    using day_start_less_end[OF cal, of "x div ns_per_day - 1"] by (intro day_of_window[OF cal]) auto
  then have "worked cal x (day_end cal (x div ns_per_day - 1)) = 0" by (simp add: worked_no_days)
  then have "rem * ns_per_min \<le> 0" using 0 by simp
  moreover have "0 < rem * ns_per_min" using 0 by simp
  ultimately show ?case by linarith
next
  case (Suc n)
  define d where "d = x div ns_per_day"
  note small = Suc.prems(2)[folded d_def]
  show ?case
  proof (cases "rem * ns_per_min \<le> day_span cal x (day_end cal d) d")
    case True
    then show ?thesis
      using working_loop_finishes[OF cal Suc.prems(1) d_def _ True Suc.prems(3), of n] small
      by (metis add_strict_increasing2 of_nat_0_less_iff add.commute less_add_same_cancel1
          order_less_le_trans zero_less_Suc)
  next
    case False
    let ?next = "day_start cal (d + 1)"
    obtain k where k: "day_span cal x (day_end cal d) d = k * ns_per_min" "0 \<le> k" "k < rem"
      and step: "working_loop (Suc n) cal (x - off) rem = working_loop n cal (?next - off) (rem - k)"
      using working_loop_step[OF cal Suc.prems(1) d_def, of rem n] small False Suc.prems(3) by auto
    have dn: "?next div ns_per_day = d + 1"
      using day_start_less_end[OF cal, of "d + 1"] by (intro day_of_window[OF cal]) auto
    have al: "?next mod ns_per_min = 0" by (simp add: day_start_def day_minutes mod_eq_0_iff_dvd)
    have hor: "x div ns_per_day + int (Suc n) - 1 = d + 1 + int n - 1" by (simp add: d_def)
    have cap: "(rem - k) * ns_per_min \<le> worked cal ?next (day_end cal (d + 1 + int n - 1))"
    proof (cases "n = 0")
      case True
      have "day_end cal d div ns_per_day = d"
        using day_start_less_end[OF cal, of d] by (intro day_of_window[OF cal]) auto
      then have "worked cal x (day_end cal d) = k * ns_per_min"
        using k(1) by (simp add: worked_same_day[OF d_def[symmetric]])
      then have "rem * ns_per_min \<le> k * ns_per_min" using Suc.prems(4) True hor by simp
      then show ?thesis using k(3) by simp
    next
      case False
      have "?next \<le> day_end cal (d + 1)" using day_start_less_end[OF cal, of "d + 1"] by simp
      also have "\<dots> \<le> day_end cal (d + 1 + int n - 1)"
        using False by (simp add: day_end_def ns_per_day_def ns_per_sec_def)
      finally show ?thesis
        using Suc.prems(4) worked_split[OF cal d_def] k(1) hor by (simp add: algebra_simps)
    qed
    have "\<exists>y. working_loop n cal (?next - off) (rem - k) = Some (y - off) \<and> ?next \<le> y
        \<and> worked cal ?next y = (rem - k) * ns_per_min \<and> in_working_window cal y"
      by (rule Suc.IH) (use al small k(3) cap in \<open>simp_all add: dn\<close>)
    then obtain y where y: "working_loop n cal (?next - off) (rem - k) = Some (y - off)" "?next \<le> y"
      "worked cal ?next y = (rem - k) * ns_per_min" "in_working_window cal y" by blast
    have "x \<le> ?next"
      using day_start_ge[of "d + 1" cal] before_next_day[of x] by (simp add: d_def)
    moreover have "worked cal x y = rem * ns_per_min"
      using worked_split[OF cal d_def y(2)] k(1) y(3) by (simp add: algebra_simps)
    ultimately show ?thesis using y step by (metis order_trans)
  qed
qed

lemma day_span_mono: "y \<le> y' \<Longrightarrow> day_span cal x y d \<le> day_span cal x y' d"
  by (simp add: day_span_def min_def max_def)

lemma worked_mono:
  assumes "y \<le> y'"
  shows "worked cal x y \<le> worked cal x y'"
proof -
  have "worked cal x y \<le> (\<Sum>d = x div ns_per_day .. y div ns_per_day. day_span cal x y' d)"
    unfolding worked_def by (rule sum_mono) (rule day_span_mono[OF assms])
  also have "\<dots> \<le> worked cal x y'"
    unfolding worked_def using assms
    by (intro sum_mono2) (auto simp: day_span_def intro: order_trans zdiv_mono1)
  finally show ?thesis .
qed

lemma new_working_calendar_plain:
  "new_working_calendar code (fixed_zone off) days_mask s e hs xs = Inr cal \<Longrightarrow> uint e \<noteq> 1440 \<Longrightarrow>
     plain_calendar off cal"
  by (auto simp: new_working_calendar_def plain_calendar_def MINUTES_IN_DAY_def word_le_def
      split: if_splits)

text \<open>C33. Deadline arithmetic is exact. In a zone of fixed offset, for a calendar the constructor
  accepts whose working day ends before midnight, let \<open>from\<close> fall on a whole minute and let the
  calendar hold enough working time in the days up to \<open>days \<le> 365\<close> after it. Then adding a
  positive number of working minutes does not panic; the due instant lies in the working window of
  a working day; and the working time between \<open>from\<close> and it, added up day by day, is exactly the
  number of minutes asked for.\<close>
theorem working_time_is_exact:
  assumes "new_working_calendar code (fixed_zone off) days_mask s e hs xs = Inr cal"
    and "uint e \<noteq> 1440" and "(from + off) mod ns_per_min = 0" and "0 < minutes"
    and "days \<le> 365" and "local_date (fixed_zone off) from + 366 \<le> NAIVE_DATE_MAX"
    and "minutes * ns_per_min
      \<le> worked cal (from + off) (day_end cal (local_date (fixed_zone off) from + int days))"
  shows "\<exists>due. add_working_duration cal from minutes = Some due
      \<and> worked cal (from + off) (due + off) = minutes * ns_per_min
      \<and> in_working_window cal (due + off)"
proof -
  let ?d = "(from + off) div ns_per_day"
  have cal: "plain_calendar off cal" using assms(1,2) by (rule new_working_calendar_plain)
  have d: "local_date (fixed_zone off) from = ?d" by (simp add: local_date_def)
  have "day_end cal (?d + int days) \<le> day_end cal (?d + 365)"
    using assms(5) by (simp add: day_end_def ns_per_day_def ns_per_sec_def)
  from order_trans[OF assms(7) worked_mono[OF this[folded d]]]
  have "minutes * ns_per_min \<le> worked cal (from + off) (day_end cal (?d + int 366 - 1))"
    by (simp add: d add.commute)
  moreover have "?d + int 366 \<le> NAIVE_DATE_MAX" using assms(6) by (simp add: d)
  ultimately obtain y where "working_loop 366 cal (from + off - off) minutes = Some (y - off)"
    "worked cal (from + off) y = minutes * ns_per_min" "in_working_window cal y"
    using working_loop_exact[OF cal assms(3) _ assms(4), of 366] by blast
  then show ?thesis
    using assms(4) by (intro exI[of _ "y - off"]) (simp add: add_working_duration_def)
qed

text \<open>The calendar of the shipped migration, in Moscow: Friday 24 April 2026, 17:45, and 30 minutes.\<close>

definition sample_calendar :: working_calendar where
  "sample_calendar = \<lparr> wc_code = ascii ''RU'', wc_timezone = moscow, wc_workday_mask = 31,
     wc_workday_start_min = 540, wc_workday_end_min = 1080, wc_holidays = {},
     wc_extra_working_days = {} \<rparr>"

definition sample_friday :: instant where
  "sample_friday = 20567 * ns_per_day + 1065 * ns_per_min - 180 * ns_per_min"

lemma sample_calendar_accepted:
  "new_working_calendar (ascii ''RU'') (fixed_zone (180 * ns_per_min)) 31 540 1080 [] []
     = Inr sample_calendar"
  by (simp add: new_working_calendar_def sample_calendar_def MINUTES_IN_DAY_def moscow_def
      word_le_def)

lemma sample_weekdays [simp]:
  "is_working_day sample_calendar 20567" "\<not> is_working_day sample_calendar 20568"
  "\<not> is_working_day sample_calendar 20569" "is_working_day sample_calendar 20570"
  by (simp_all add: is_working_day_def sample_calendar_def num_days_from_monday_def
      weekday_bit_def WEEKDAY_BITS_def)

theorem working_time_is_exact_witness:
  "\<exists>due. add_working_duration sample_calendar sample_friday 30 = Some due
      \<and> worked sample_calendar (sample_friday + 180 * ns_per_min) (due + 180 * ns_per_min)
          = 30 * ns_per_min
      \<and> in_working_window sample_calendar (due + 180 * ns_per_min)"
proof -
  have fri: "sample_friday + 180 * ns_per_min = 20567 * ns_per_day + 1065 * ns_per_min"
    by (simp add: sample_friday_def)
  have d: "local_date (fixed_zone (180 * ns_per_min)) sample_friday = 20567"
    unfolding local_date_def fixed_zone fri by (simp add: ns_per_day_def ns_per_min_def ns_per_sec_def)
  have days: "{20567 .. 20570} = {20567, 20568, 20569, 20570 :: int}" by auto
  have edges: "day_start sample_calendar x = x * ns_per_day + 540 * ns_per_min"
    "day_end sample_calendar x = x * ns_per_day + 1080 * ns_per_min" for x
    by (simp_all add: day_start_def day_end_def sample_calendar_def)
  have ends: "(20567 * ns_per_day + 1065 * ns_per_min) div ns_per_day = 20567"
    "(20570 * ns_per_day + 1080 * ns_per_min) div ns_per_day = 20570"
    by (simp_all add: ns_per_day_def ns_per_min_def ns_per_sec_def)
  have "worked sample_calendar (20567 * ns_per_day + 1065 * ns_per_min) (day_end sample_calendar 20570)
      = 555 * ns_per_min"
    unfolding worked_def edges ends days
    by (simp add: day_span_def edges) (simp add: ns_per_day_def ns_per_min_def ns_per_sec_def)
  then show ?thesis
    by (intro working_time_is_exact[OF sample_calendar_accepted, of sample_friday 30 3])
      (simp_all add: d fri NAIVE_DATE_MAX_def day_minutes)
qed

subsection \<open>A window that ends at midnight\<close>

text \<open>The constructor accepts a working day that ends at minute 1440, and there the arithmetic
  cannot work: on a working day, adding any positive number of minutes panics, in every time zone,
  since 24:00 is not a time of day.\<close>
theorem midnight_window_panics:
  assumes "new_working_calendar code zone days_mask s e hs xs = Inr cal"
    and "uint e = 1440" and "is_working_day cal (local_date zone from)" and "0 < minutes"
  shows "add_working_duration cal from minutes = None"
proof -
  have cal: "wc_timezone cal = zone" "wc_workday_end_min cal = e"
    using assms(1) by (auto simp: new_working_calendar_def split: if_splits)
  have "local_at cal d 1440 = None" for d
    by (simp add: local_at_def and_hm_def)
  then have "working_loop (Suc n) cal from minutes = None" for n
    using assms(2,3) by (simp add: Let_def cal split: option.split)
  from this[of 365] show ?thesis using assms(4) by (simp add: add_working_duration_def)
qed

theorem midnight_window_panics_witness:
  "\<exists>cal. new_working_calendar [] moscow 31 540 1440 [] [] = Inr cal
     \<and> add_working_duration cal sample_friday 30 = None"
proof -
  obtain cal where cal: "new_working_calendar [] moscow 31 540 1440 [] [] = Inr cal"
    by (simp add: new_working_calendar_def MINUTES_IN_DAY_def word_le_def)
  have "local_date moscow sample_friday = 20567"
    by (simp add: local_date_def moscow_def sample_friday_def ns_per_day_def ns_per_min_def
        ns_per_sec_def)
  moreover have "is_working_day cal 20567"
    using cal by (auto simp: new_working_calendar_def is_working_day_def num_days_from_monday_def
        weekday_bit_def WEEKDAY_BITS_def split: if_splits)
  ultimately show ?thesis
    using midnight_window_panics[OF cal, of sample_friday 30] cal by auto
qed

end
