(* ===== verification/Store.thy ===== *)
theory Store
  imports Codecs Feature_Flags Voice_Domain Sla
begin

section \<open>The database and its statements\<close>

text \<open>
  The state every repository of \<^verbatim>\<open>src/infrastructure/db\<close> works on. A table is the list of its
  rows in rowid order, holding decoded values (\<^verbatim>\<open>Codecs\<close> shows that nothing is lost by that). A
  statement may fail: \<open>w_faults\<close> says of each statement to come whether the driver refuses it and
  with which text, so a run is quantified over all patterns of database failures. A statement that
  breaks a foreign key fails as well. The clock is a function of the number of readings, and the
  identifiers \<^verbatim>\<open>Uuid::now_v7\<close> returns and the texts the \<^verbatim>\<open>uuid\<close> and \<^verbatim>\<open>chrono\<close> crates print are part
  of the environment, about which theorems make their assumptions explicit. The run-time registry of
  feature flags (\<open>w_flags\<close>) is process memory, which no transaction touches.
\<close>

record environment =
  env_clock :: "nat \<Rightarrow> instant"
  env_fresh_uuid :: "nat \<Rightarrow> uuid"
  env_uuid_text :: "uuid \<Rightarrow> utext"
  env_date_text :: "day \<Rightarrow> utext"

record flag_override =
  fo_flag_key :: utext
  fo_enabled :: int
  fo_updated_by_user_id :: "row_id option"
  fo_updated_at :: instant

text \<open>
  The tables beside the core: the two SLA columns of \<^verbatim>\<open>tasks\<close> by task id, the escalations, the voice
  attempts, and the recurrence rules with their templates.
\<close>

record escalation =
  sx_task_id :: row_id
  sx_level :: int
  sx_triggered_at :: instant
  sx_actor :: string
  sx_detail :: json

record recurrence_rule =
  rr_id :: row_id
  rr_template_id :: "row_id option"
  rr_owner_user_id :: row_id
  rr_cron_expression :: utext
  rr_timezone :: utext
  rr_next_run_at :: "instant option"
  rr_last_run_at :: "instant option"
  rr_is_active :: bool
  rr_updated_at :: instant

record task_template =
  tt_id :: row_id
  tt_code :: utext
  tt_title :: utext
  tt_body :: utext
  tt_created_by_user_id :: "row_id option"
  tt_is_active :: bool

record side_tables =
  sd_sla :: "row_id \<Rightarrow> string option \<times> int"
  sd_escalations :: "escalation list"
  sd_voice :: "voice_record list"
  sd_rules :: "recurrence_rule list"
  sd_templates :: "task_template list"

record world =
  w_users :: "user list"
  w_employees :: "employee list"
  w_tasks :: "task list"
  w_notifications :: "notification list"
  w_comments :: "task_comment list"
  w_history :: "audit_entry list"
  w_admin_audit :: "admin_audit_entry list"
  w_security_audit :: "security_audit_entry list"
  w_flag_overrides :: "flag_override list"
  w_flags :: flag_registry
  w_side :: side_tables
  w_env :: environment
  w_ticks :: nat
  w_uuids :: nat
  w_faults :: "utext option list"

definition database_error :: "utext \<Rightarrow> app_error" where
  "database_error text =
     internal ''DATABASE_OPERATION_FAILED'' (ascii ''SQLite operation failed'')
       (JObj [(''error'', JStr text)])"

definition foreign_key_failed :: utext where
  "foreign_key_failed = ascii ''FOREIGN KEY constraint failed''"

text \<open>One SQL statement: its referential check and its effect.\<close>

definition statement ::
  "(world \<Rightarrow> bool) \<Rightarrow> (world \<Rightarrow> 'a \<times> world) \<Rightarrow> (world, 'a) act" where
  "statement ok f w =
    (case w_faults w of
       Some text # rest \<Rightarrow> (Inl (database_error text), w\<lparr> w_faults := rest \<rparr>)
     | faults \<Rightarrow>
        (let w1 = w\<lparr> w_faults := tl faults \<rparr> in
         if ok w1 then (case f w1 of (x, w2) \<Rightarrow> (Inr x, w2))
         else (Inl (database_error foreign_key_failed), w1)))"

definition select :: "(world \<Rightarrow> 'a) \<Rightarrow> (world, 'a) act" where
  "select f = statement (\<lambda>_. True) (\<lambda>w. (f w, w))"

definition execute :: "(world \<Rightarrow> world) \<Rightarrow> (world, unit) act" where
  "execute f = statement (\<lambda>_. True) (\<lambda>w. ((), f w))"

text \<open>A transaction: what it wrote disappears when a statement of it, or its commit, fails.\<close>

definition rollback :: "world \<Rightarrow> world \<Rightarrow> world" where
  "rollback w0 w1 =
     w0\<lparr> w_ticks := w_ticks w1, w_uuids := w_uuids w1, w_faults := w_faults w1 \<rparr>"

definition transaction :: "(world, 'a) act \<Rightarrow> (world, 'a) act" where
  "transaction m =
    tryA (execute id) (\<lambda>_ w0.
      case m w0 of
        (Inl e, w1) \<Rightarrow> (Inl e, rollback w0 w1)
      | (Inr x, w1) \<Rightarrow>
          (case execute id w1 of
             (Inl e, w2) \<Rightarrow> (Inl e, rollback w0 w2)
           | (Inr _, w2) \<Rightarrow> (Inr x, w2)))"

definition now_utc :: "(world, instant) act" where
  "now_utc w = (Inr (env_clock (w_env w) (w_ticks w)), w\<lparr> w_ticks := Suc (w_ticks w) \<rparr>)"

definition today_utc :: "(world, day) act" where
  "today_utc = tryA now_utc (\<lambda>now. ret (date_of now))"

definition fresh_uuid :: "(world, uuid) act" where
  "fresh_uuid w = (Inr (env_fresh_uuid (w_env w) (w_uuids w)), w\<lparr> w_uuids := Suc (w_uuids w) \<rparr>)"

definition uuid_text :: "uuid \<Rightarrow> (world, utext) act" where
  "uuid_text u w = (Inr (env_uuid_text (w_env w) u), w)"

text \<open>\<^verbatim>\<open>AUTOINCREMENT\<close> on a table whose rows are never deleted.\<close>

definition next_id :: "('r \<Rightarrow> row_id option) \<Rightarrow> 'r list \<Rightarrow> row_id" where
  "next_id k rows = foldr (\<lambda>r m. max (case k r of Some i \<Rightarrow> i | None \<Rightarrow> 0) m) rows 0 + 1"

definition has_id :: "('r \<Rightarrow> row_id option) \<Rightarrow> row_id \<Rightarrow> 'r list \<Rightarrow> bool" where
  "has_id k i rows \<longleftrightarrow> list_ex (\<lambda>r. k r = Some i) rows"

definition references :: "('r \<Rightarrow> row_id option) \<Rightarrow> row_id option \<Rightarrow> 'r list \<Rightarrow> bool" where
  "references k v rows \<longleftrightarrow> (case v of None \<Rightarrow> True | Some i \<Rightarrow> has_id k i rows)"

subsection \<open>Facts about statements\<close>

lemma statement_Inr:
  "statement ok f w = (Inr x, w') \<longleftrightarrow>
     (case w_faults w of Some _ # _ \<Rightarrow> False | _ \<Rightarrow> True)
     \<and> ok (w\<lparr> w_faults := tl (w_faults w) \<rparr>) \<and> f (w\<lparr> w_faults := tl (w_faults w) \<rparr>) = (x, w')"
  by (auto simp: statement_def Let_def split: list.splits option.splits prod.splits)

lemma statement_Inl:
  "statement ok f w = (Inl e, w') \<Longrightarrow>
     w' = w\<lparr> w_faults := tl (w_faults w) \<rparr> \<and> (\<exists>text. e = database_error text)"
  by (auto simp: statement_def Let_def split: list.splits option.splits prod.splits if_splits)

lemma no_faults_same: "w_faults w = [] \<Longrightarrow> w\<lparr> w_faults := [] \<rparr> = w"
  by (cases w) simp

lemma statement_no_faults:
  "w_faults w = [] \<Longrightarrow>
     statement ok f w =
       (if ok w then (Inr (fst (f w)), snd (f w)) else (Inl (database_error foreign_key_failed), w))"
  by (simp add: statement_def Let_def case_prod_beta no_faults_same)

lemma select_Inr:
  "select f w = (Inr x, w') \<longleftrightarrow>
     (case w_faults w of Some _ # _ \<Rightarrow> False | _ \<Rightarrow> True)
     \<and> w' = w\<lparr> w_faults := tl (w_faults w) \<rparr> \<and> x = f w'"
  by (auto simp: select_def statement_Inr)

lemma select_Inl: "select f w = (Inl e, w') \<Longrightarrow> w' = w\<lparr> w_faults := tl (w_faults w) \<rparr>"
  by (auto simp: select_def dest!: statement_Inl)

lemma select_no_faults: "w_faults w = [] \<Longrightarrow> select f w = (Inr (f w), w)"
  by (simp add: select_def statement_no_faults)

lemma execute_no_faults: "w_faults w = [] \<Longrightarrow> execute f w = (Inr (), f w)"
  by (simp add: execute_def statement_no_faults)

lemma now_utc_eq [simp]:
  "now_utc w = (r, w') \<longleftrightarrow>
     r = Inr (env_clock (w_env w) (w_ticks w)) \<and> w' = w\<lparr> w_ticks := Suc (w_ticks w) \<rparr>"
  by (auto simp: now_utc_def)

lemma today_utc_eq [simp]:
  "today_utc w = (r, w') \<longleftrightarrow>
     r = Inr (date_of (env_clock (w_env w) (w_ticks w))) \<and> w' = w\<lparr> w_ticks := Suc (w_ticks w) \<rparr>"
  by (auto simp: today_utc_def tryA_def now_utc_def)

lemma fresh_uuid_eq [simp]:
  "fresh_uuid w = (r, w') \<longleftrightarrow>
     r = Inr (env_fresh_uuid (w_env w) (w_uuids w)) \<and> w' = w\<lparr> w_uuids := Suc (w_uuids w) \<rparr>"
  by (auto simp: fresh_uuid_def)

lemma uuid_text_eq [simp]:
  "uuid_text u w = (r, w') \<longleftrightarrow> r = Inr (env_uuid_text (w_env w) u) \<and> w' = w"
  by (auto simp: uuid_text_def)

lemma next_id_greater:
  "r \<in> set rows \<Longrightarrow> k r = Some i \<Longrightarrow> i < next_id k rows"
proof (induction rows)
  case (Cons a rows)
  show ?case
  proof (cases "r = a")
    case True
    with Cons.prems show ?thesis by (simp add: next_id_def)
  next
    case False
    with Cons have "i < next_id k rows" by simp
    then show ?thesis by (simp add: next_id_def)
  qed
qed simp

lemma next_id_positive: "0 < next_id k rows"
  by (induction rows) (auto simp: next_id_def)

lemma next_id_fresh: "r \<in> set rows \<Longrightarrow> k r \<noteq> Some (next_id k rows)"
  using next_id_greater by fastforce

lemma has_id_iff: "has_id k i rows \<longleftrightarrow> (\<exists>r \<in> set rows. k r = Some i)"
  by (simp add: has_id_def list_ex_iff)

subsection \<open>Frames over the store\<close>

text \<open>
  A frame \<open>R\<close> that ignores the clock, the identifier supply and the fault list passes through
  reads and clock readings; a statement respects it when its effect does.
\<close>

definition bookkeeping_free :: "(world \<Rightarrow> world \<Rightarrow> bool) \<Rightarrow> bool" where
  "bookkeeping_free R \<longleftrightarrow>
     (\<forall>w t u f. R w (w\<lparr> w_ticks := t, w_uuids := u, w_faults := f \<rparr>))"

locale store_frame = frame R for R :: "world \<Rightarrow> world \<Rightarrow> bool" +
  assumes free: "bookkeeping_free R"
begin

lemma faults_step: "R w (w\<lparr> w_faults := f \<rparr>)"
proof -
  have "R w (w\<lparr> w_ticks := w_ticks w, w_uuids := w_uuids w, w_faults := f \<rparr>)"
    using free unfolding bookkeeping_free_def by blast
  then show ?thesis by simp
qed

lemma statement:
  assumes "\<And>w. ok w \<Longrightarrow> R w (snd (f w))"
  shows "obeys R (statement ok f)"
proof (rule obeysI)
  fix w
  show "R w (snd (statement ok f w))"
    using faults_step[of w] trans[OF faults_step assms]
    by (auto simp: statement_def Let_def case_prod_beta split: list.split option.split)
qed

lemma select: "obeys R (select f)"
  unfolding select_def by (rule statement) (simp add: refl)

lemma execute: "(\<And>w. R w (f w)) \<Longrightarrow> obeys R (execute f)"
  unfolding execute_def by (rule statement) simp

lemma now_utc: "obeys R now_utc"
proof (rule obeysI)
  fix w
  have "R w (w\<lparr> w_ticks := Suc (w_ticks w), w_uuids := w_uuids w, w_faults := w_faults w \<rparr>)"
    using free unfolding bookkeeping_free_def by blast
  then show "R w (snd (now_utc w))" by (simp add: now_utc_def)
qed

lemma fresh_uuid: "obeys R fresh_uuid"
proof (rule obeysI)
  fix w
  have "R w (w\<lparr> w_ticks := w_ticks w, w_uuids := Suc (w_uuids w), w_faults := w_faults w \<rparr>)"
    using free unfolding bookkeeping_free_def by blast
  then show "R w (snd (fresh_uuid w))" by (simp add: fresh_uuid_def)
qed

lemma today_utc: "obeys R today_utc"
  unfolding today_utc_def by (intro tryA now_utc ret)

lemma uuid_text: "obeys R (uuid_text u)"
  by (simp add: obeys_def uuid_text_def refl)

lemma transaction:
  assumes "obeys R m"
  shows "obeys R (transaction m)"
  unfolding transaction_def
proof (rule tryA)
  show "obeys R (execute id)" by (rule execute) (simp add: refl)
  show "obeys R (\<lambda>w0. case m w0 of
        (Inl e, w1) \<Rightarrow> (Inl e, rollback w0 w1)
      | (Inr x, w1) \<Rightarrow>
          (case execute id w1 of
             (Inl e, w2) \<Rightarrow> (Inl e, rollback w0 w2)
           | (Inr _, w2) \<Rightarrow> (Inr x, w2)))"
  proof (rule obeysI)
    fix w0
    have rb: "R w0 (rollback w0 w1)" for w1
      using free by (simp add: rollback_def bookkeeping_free_def)
    have "R w0 (snd (m w0))" using assms by (simp add: obeys_def)
    moreover have "R w1 (snd (execute id w1))" for w1
      using execute[of id] by (simp add: obeys_def refl)
    ultimately show "R w0 (snd (case m w0 of
        (Inl e, w1) \<Rightarrow> (Inl e, rollback w0 w1)
      | (Inr x, w1) \<Rightarrow>
          (case execute id w1 of
             (Inl e, w2) \<Rightarrow> (Inl e, rollback w0 w2)
           | (Inr _, w2) \<Rightarrow> (Inr x, w2))))"
      using rb by (auto split: prod.split sum.split) (metis snd_conv trans)
  qed
qed

lemmas store_rules = rules statement select now_utc today_utc fresh_uuid uuid_text transaction

end

text \<open>The tables as a whole, without bookkeeping: reads keep them.\<close>

definition same_tables :: "world \<Rightarrow> world \<Rightarrow> bool" where
  "same_tables w w' \<longleftrightarrow>
     w_users w' = w_users w \<and> w_employees w' = w_employees w \<and> w_tasks w' = w_tasks w
     \<and> w_notifications w' = w_notifications w \<and> w_comments w' = w_comments w
     \<and> w_history w' = w_history w \<and> w_admin_audit w' = w_admin_audit w
     \<and> w_security_audit w' = w_security_audit w
     \<and> w_flag_overrides w' = w_flag_overrides w \<and> w_flags w' = w_flags w \<and> w_side w' = w_side w
     \<and> w_env w' = w_env w"

interpretation same_tables: store_frame same_tables
  by unfold_locales (auto simp: same_tables_def bookkeeping_free_def)

definition same_env :: "world \<Rightarrow> world \<Rightarrow> bool" where
  "same_env w w' \<longleftrightarrow> w_env w' = w_env w"

interpretation same_env: store_frame same_env
  by unfold_locales (auto simp: same_env_def bookkeeping_free_def)

lemma execute_id_Inr: "execute id w = (Inr x, w') \<Longrightarrow> w' = w\<lparr> w_faults := tl (w_faults w) \<rparr>"
  by (auto simp: execute_def statement_Inr)

lemma transaction_Inl: "transaction m w = (Inl e, w') \<Longrightarrow> same_tables w w'"
  by (auto simp: transaction_def tryA_eq_Inl execute_def statement_Inr rollback_def same_tables_def
      split: prod.splits sum.splits dest!: statement_Inl)

lemma transaction_Inr:
  assumes "transaction m w = (Inr x, w')"
  shows "\<exists>w0 w1. m w0 = (Inr x, w1) \<and> same_tables w w0 \<and> same_tables w1 w'"
proof -
  obtain w0 where w0: "execute id w = (Inr (), w0)"
    and run: "(case m w0 of
        (Inl e, w1) \<Rightarrow> (Inl e, rollback w0 w1)
      | (Inr x, w1) \<Rightarrow>
          (case execute id w1 of
             (Inl e, w2) \<Rightarrow> (Inl e, rollback w0 w2)
           | (Inr _, w2) \<Rightarrow> (Inr x, w2))) = (Inr x, w')"
    using assms unfolding transaction_def tryA_eq_Inr by (elim exE conjE) (erule that[rotated], simp)
  obtain r w1 where m: "m w0 = (r, w1)" by (cases "m w0")
  obtain q w2 where c: "execute id w1 = (q, w2)" by (cases "execute id w1")
  from run m c have "r = Inr x" "q = Inr ()" "w2 = w'" by (auto split: sum.splits)
  with m c w0 have "m w0 = (Inr x, w1)" "same_tables w w0" "same_tables w1 w'"
    by (auto simp: same_tables_def dest!: execute_id_Inr)
  then show ?thesis by blast
qed

subsection \<open>Actions whose only errors are the database's\<close>

definition db_errors_only :: "(world, 'a) act \<Rightarrow> bool" where
  "db_errors_only m \<longleftrightarrow>
     (\<forall>w e w'. m w = (Inl e, w') \<longrightarrow> err_code e = ''DATABASE_OPERATION_FAILED'')"

lemma db_errorsD:
  "db_errors_only m \<Longrightarrow> m w = (Inl e, w') \<Longrightarrow> err_code e = ''DATABASE_OPERATION_FAILED''"
  by (auto simp: db_errors_only_def)

lemma database_error_code [simp]: "err_code (database_error t) = ''DATABASE_OPERATION_FAILED''"
  by (simp add: database_error_def internal_def)

lemma db_errors_ret: "db_errors_only (ret x)"
  by (simp add: db_errors_only_def)

lemma db_errors_statement: "db_errors_only (statement ok f)"
  by (auto simp: db_errors_only_def dest!: statement_Inl)

lemma db_errors_select: "db_errors_only (select f)"
  unfolding select_def by (rule db_errors_statement)

lemma db_errors_execute: "db_errors_only (execute f)"
  unfolding execute_def by (rule db_errors_statement)

lemma db_errors_now: "db_errors_only now_utc"
  by (simp add: db_errors_only_def)

lemma db_errors_uuid: "db_errors_only (uuid_text u)"
  by (simp add: db_errors_only_def)

lemma db_errors_tryA:
  "db_errors_only m \<Longrightarrow> (\<And>x. db_errors_only (f x)) \<Longrightarrow> db_errors_only (tryA m f)"
  unfolding db_errors_only_def tryA_eq_Inl by blast

lemma db_errors_forA: "(\<And>x. db_errors_only (f x)) \<Longrightarrow> db_errors_only (forA xs f)"
  by (induction xs) (simp_all add: db_errors_ret db_errors_tryA)

lemma db_errors_if:
  "(b \<Longrightarrow> db_errors_only m) \<Longrightarrow> (\<not> b \<Longrightarrow> db_errors_only n) \<Longrightarrow> db_errors_only (if b then m else n)"
  by simp

lemma db_errors_lift: "(\<And>e. r = Inl e \<Longrightarrow> err_code e = ''DATABASE_OPERATION_FAILED'') \<Longrightarrow>
    db_errors_only (lift r)"
  by (simp add: db_errors_only_def)

lemmas db_errors_rules =
  db_errors_ret db_errors_statement db_errors_select db_errors_execute db_errors_now db_errors_uuid
  db_errors_tryA db_errors_forA db_errors_if

end
