(* ===== verification/Task_Repo.thy ===== *)
theory Task_Repo
  imports Store Task_Lifecycle "HOL-Library.List_Lexorder"
begin

section \<open>The task repository\<close>

text \<open>
  \<^verbatim>\<open>src/infrastructure/db/repositories/task_repository.rs\<close>. Updates are guarded by the version of
  the row (\<^verbatim>\<open>WHERE task_uid = ? AND version = ?\<close>), inserts by the two unique columns. The averages of
  \<^verbatim>\<open>count_stats_for_user\<close> and \<^verbatim>\<open>count_stats_global\<close> are computed by SQLite in floating point and are
  not modelled.
\<close>

datatype persisted_task = TaskCreated task | TaskExisting task

fun stored_task :: "persisted_task \<Rightarrow> task" where
  "stored_task (TaskCreated t) = t"
| "stored_task (TaskExisting t) = t"

definition is_open :: "task \<Rightarrow> bool" where
  "is_open t \<longleftrightarrow> t_status t \<in> {Created, Sent, InProgress, Blocked, InReview}"

subsection \<open>Reading\<close>

definition find_by_source_message_key :: "utext \<Rightarrow> (world, task option) act" where
  "find_by_source_message_key key =
     select (\<lambda>w. find (\<lambda>t. t_source_message_key t = key) (w_tasks w))"

definition find_by_uid :: "uuid \<Rightarrow> (world, task option) act" where
  "find_by_uid uid = select (\<lambda>w. find (\<lambda>t. t_task_uid t = uid) (w_tasks w))"

definition find_by_id :: "row_id \<Rightarrow> (world, task option) act" where
  "find_by_id i = select (\<lambda>w. find (\<lambda>t. t_id t = Some i) (w_tasks w))"

definition page_by_uid :: "(task \<Rightarrow> bool) \<Rightarrow> utext option \<Rightarrow> nat \<Rightarrow> world \<Rightarrow> task list" where
  "page_by_uid P cursor limit w =
     (let text = (\<lambda>t. env_uuid_text (w_env w) (t_task_uid t));
          rows = filter (\<lambda>t. P t \<and> (case cursor of None \<Rightarrow> True | Some c \<Rightarrow> text t < c)) (w_tasks w)
      in take limit (rev (sort_key text rows)))"

definition list_assigned_to_user :: "row_id \<Rightarrow> utext option \<Rightarrow> nat \<Rightarrow> (world, task list) act" where
  "list_assigned_to_user user cursor limit =
     select (page_by_uid (\<lambda>t. t_assigned_to_user_id t = Some user) cursor limit)"

definition list_created_by_user :: "row_id \<Rightarrow> utext option \<Rightarrow> nat \<Rightarrow> (world, task list) act" where
  "list_created_by_user user cursor limit =
     select (page_by_uid (\<lambda>t. t_created_by_user_id t = user) cursor limit)"

definition list_all_tasks :: "utext option \<Rightarrow> nat \<Rightarrow> (world, task list) act" where
  "list_all_tasks cursor limit = select (page_by_uid (\<lambda>_. True) cursor limit)"

text \<open>\<^verbatim>\<open>ORDER BY updated_at DESC, task_uid DESC LIMIT ?\<close>\<close>

definition recently_updated :: "(task \<Rightarrow> bool) \<Rightarrow> nat \<Rightarrow> world \<Rightarrow> task list" where
  "recently_updated P limit w =
     take limit (rev (sort_key t_updated_at
       (sort_key (\<lambda>t. env_uuid_text (w_env w) (t_task_uid t)) (filter P (w_tasks w)))))"

definition list_open_assigned_to_employee_without_user ::
  "row_id \<Rightarrow> nat \<Rightarrow> (world, task list) act" where
  "list_open_assigned_to_employee_without_user employee limit =
     select (recently_updated (\<lambda>t. t_assigned_to_employee_id t = Some employee
       \<and> t_assigned_to_user_id t = None \<and> is_open t) limit)"

definition list_open :: "nat \<Rightarrow> (world, task list) act" where
  "list_open limit = select (recently_updated is_open limit)"

text \<open>\<^verbatim>\<open>ORDER BY deadline ASC, task_uid ASC LIMIT ?\<close>\<close>

definition by_deadline :: "(task \<Rightarrow> bool) \<Rightarrow> nat \<Rightarrow> world \<Rightarrow> task list" where
  "by_deadline P limit w =
     take limit (sort_key (\<lambda>t. the (t_deadline t))
       (sort_key (\<lambda>t. env_uuid_text (w_env w) (t_task_uid t))
         (filter (\<lambda>t. t_deadline t \<noteq> None \<and> P t) (w_tasks w))))"

definition get_due_between :: "day \<Rightarrow> day \<Rightarrow> nat \<Rightarrow> (world, task list) act" where
  "get_due_between start end_day limit =
     select (by_deadline (\<lambda>t. start \<le> the (t_deadline t) \<and> the (t_deadline t) \<le> end_day
       \<and> is_open t) limit)"

definition get_overdue :: "day \<Rightarrow> nat \<Rightarrow> (world, task list) act" where
  "get_overdue as_of limit =
     select (by_deadline (\<lambda>t. the (t_deadline t) < as_of \<and> is_open t) limit)"

subsection \<open>Writing\<close>

definition task_references :: "task \<Rightarrow> world \<Rightarrow> bool" where
  "task_references t w \<longleftrightarrow>
     references u_id (t_assigned_to_user_id t) (w_users w)
     \<and> references e_id (t_assigned_to_employee_id t) (w_employees w)"

text \<open>\<^verbatim>\<open>INSERT OR IGNORE\<close>: a row with the same identity or the same source key makes it a no-op.\<close>

definition task_clashes :: "task \<Rightarrow> task list \<Rightarrow> bool" where
  "task_clashes t rows \<longleftrightarrow>
     list_ex (\<lambda>r. t_task_uid r = t_task_uid t
       \<or> t_source_message_key r = t_source_message_key t) rows"

definition insert_task :: "task \<Rightarrow> (world, bool) act" where
  "insert_task t = statement
     (\<lambda>w. task_clashes t (w_tasks w)
        \<or> has_id u_id (t_created_by_user_id t) (w_users w) \<and> task_references t w)
     (\<lambda>w. if task_clashes t (w_tasks w) then (False, w)
          else (True, w\<lparr> w_tasks := w_tasks w @ [t\<lparr> t_id := Some (next_id t_id (w_tasks w)) \<rparr>] \<rparr>))"

definition create_if_absent :: "task \<Rightarrow> (world, persisted_task) act" where
  "create_if_absent t =
     tryA (insert_task t) (\<lambda>inserted.
     tryA (find_by_source_message_key (t_source_message_key t)) (\<lambda>found.
     tryA (lift (ok_or (internal ''TASK_PERSISTENCE_FAILED''
              (ascii ''Task insert completed without a readable record'')
              (JObj [(''task_uid'', JUuid (t_task_uid t))])) found)) (\<lambda>stored.
     ret (if inserted then TaskCreated stored else TaskExisting stored))))"

text \<open>The columns \<^verbatim>\<open>UPDATE tasks SET\<close> writes.\<close>

definition write_columns :: "task \<Rightarrow> task \<Rightarrow> task" where
  "write_columns t r = r\<lparr>
     t_assigned_to_user_id := t_assigned_to_user_id t,
     t_assigned_to_employee_id := t_assigned_to_employee_id t,
     t_title := t_title t, t_description := t_description t,
     t_acceptance_criteria := t_acceptance_criteria t,
     t_expected_result := t_expected_result t,
     t_deadline := t_deadline t, t_deadline_raw := t_deadline_raw t,
     t_status := t_status t, t_priority := t_priority t,
     t_blocked_reason := t_blocked_reason t,
     t_telegram_task_message_id := t_telegram_task_message_id t,
     t_sent_at := t_sent_at t, t_started_at := t_started_at t,
     t_blocked_at := t_blocked_at t, t_review_requested_at := t_review_requested_at t,
     t_completed_at := t_completed_at t, t_cancelled_at := t_cancelled_at t,
     t_updated_at := t_updated_at t, t_version := t_version t \<rparr>"

definition update_matches :: "task \<Rightarrow> task \<Rightarrow> bool" where
  "update_matches t r \<longleftrightarrow> t_task_uid r = t_task_uid t \<and> t_version r = t_version t - 1"

definition update_task :: "task \<Rightarrow> (world, task) act" where
  "update_task t =
     tryA (statement
       (\<lambda>w. find (update_matches t) (w_tasks w) = None \<or> task_references t w)
       (\<lambda>w. (map_option (write_columns t) (find (update_matches t) (w_tasks w)),
             w\<lparr> w_tasks := update_where (update_matches t) (write_columns t) (w_tasks w) \<rparr>)))
     (\<lambda>row. lift (ok_or (conflict ''TASK_VERSION_CONFLICT''
       (ascii ''Task was updated concurrently, please reopen the card and try again'')
       (JObj [(''task_uid'', JUuid (t_task_uid t)),
              (''expected_previous_version'', JNum (t_version t - 1))])) row))"

subsection \<open>The table invariant\<close>

definition tasks_ok :: "world \<Rightarrow> bool" where
  "tasks_ok w \<longleftrightarrow>
     distinct (map t_task_uid (w_tasks w)) \<and> distinct (map t_source_message_key (w_tasks w))
     \<and> distinct (map t_id (w_tasks w)) \<and> (\<forall>t \<in> set (w_tasks w). t_id t \<noteq> None)"

definition task_at :: "world \<Rightarrow> uuid \<Rightarrow> task option" where
  "task_at w uid = find (\<lambda>t. t_task_uid t = uid) (w_tasks w)"

lemma task_at_uid: "task_at w uid = Some t \<Longrightarrow> t \<in> set (w_tasks w) \<and> t_task_uid t = uid"
  unfolding task_at_def by (drule find_SomeD)

lemma task_at_iff:
  "tasks_ok w \<Longrightarrow> task_at w uid = Some t \<longleftrightarrow> t \<in> set (w_tasks w) \<and> t_task_uid t = uid"
  using find_distinct_key[of t_task_uid "w_tasks w" t] find_SomeD
  by (fastforce simp: task_at_def tasks_ok_def)

lemma write_columns_frame [simp]:
  "t_task_uid (write_columns t r) = t_task_uid r"
  "t_source_message_key (write_columns t r) = t_source_message_key r"
  "t_id (write_columns t r) = t_id r"
  "t_created_by_user_id (write_columns t r) = t_created_by_user_id r"
  "t_version (write_columns t r) = t_version t" "t_status (write_columns t r) = t_status t"
  "t_assigned_to_user_id (write_columns t r) = t_assigned_to_user_id t"
  "t_assigned_to_employee_id (write_columns t r) = t_assigned_to_employee_id t"
  "t_title (write_columns t r) = t_title t"
  "t_blocked_reason (write_columns t r) = t_blocked_reason t"
  by (simp_all add: write_columns_def)

lemma update_matches_uid: "update_matches t r \<Longrightarrow> t_task_uid r = t_task_uid t"
  by (simp add: update_matches_def)

lemma task_at_update:
  assumes "distinct (map t_task_uid rows)" "find (update_matches t) rows = Some old"
  shows "find (\<lambda>r. t_task_uid r = u) (update_where (update_matches t) (write_columns t) rows)
       = (if u = t_task_uid t then Some (write_columns t old)
          else find (\<lambda>r. t_task_uid r = u) rows)"
proof -
  have old: "old \<in> set rows" "update_matches t old" using find_SomeD[OF assms(2)] by auto
  then have "find (\<lambda>r. t_task_uid r = t_task_uid t) rows = Some old"
    using find_distinct_key[OF assms(1) old(1)] update_matches_uid[OF old(2)] by simp
  moreover have "find (\<lambda>r. t_task_uid r = u)
      (update_where (update_matches t) (write_columns t) rows)
      = map_option (\<lambda>r. if update_matches t r then write_columns t r else r)
          (find (\<lambda>r. t_task_uid r = u) rows)"
    by (rule find_update_where) simp
  moreover have "\<not> update_matches t r"
    if "find (\<lambda>r. t_task_uid r = u) rows = Some r" "u \<noteq> t_task_uid t" for r
    using find_SomeD[OF that(1)] that(2) by (auto simp: update_matches_def)
  ultimately show ?thesis using old(2)
    by (cases "find (\<lambda>r. t_task_uid r = u) rows") auto
qed

lemma update_where_none_found:
  "find (update_matches t) rows = None \<Longrightarrow>
     update_where (update_matches t) (write_columns t) rows = rows"
  by (intro update_where_none) (simp add: find_None_iff)

lemma update_task_Inr:
  assumes "update_task t w = (Inr r, w')"
  shows "\<exists>old. find (update_matches t) (w_tasks w) = Some old \<and> r = write_columns t old
    \<and> w_tasks w' = update_where (update_matches t) (write_columns t) (w_tasks w)
    \<and> w_users w' = w_users w \<and> w_employees w' = w_employees w
    \<and> w_notifications w' = w_notifications w \<and> w_comments w' = w_comments w
    \<and> w_history w' = w_history w \<and> w_env w' = w_env w \<and> w_ticks w' = w_ticks w"
  using assms by (auto simp: update_task_def act_elims statement_Inr)

lemma update_task_Inl:
  assumes "update_task t w = (Inl e, w')"
  shows "w' = w\<lparr> w_faults := tl (w_faults w) \<rparr>"
  using assms
  by (auto simp: update_task_def act_elims statement_Inr update_where_none_found
      dest!: statement_Inl)

lemma tasks_ok_update:
  "tasks_ok w \<Longrightarrow> tasks_ok (w\<lparr> w_tasks := update_where (update_matches t) (write_columns t) (w_tasks w) \<rparr>)"
  by (auto simp: tasks_ok_def map_update_where_frame set_update_where)

lemma tasks_ok_insert:
  assumes "tasks_ok w" "\<not> task_clashes t (w_tasks w)"
  shows "tasks_ok (w\<lparr> w_tasks := w_tasks w @ [t\<lparr> t_id := Some (next_id t_id (w_tasks w)) \<rparr>] \<rparr>)"
  using assms next_id_fresh[of _ "w_tasks w" t_id]
  by (fastforce simp: tasks_ok_def task_clashes_def list_ex_iff)

lemma tasks_ok_tables: "tasks_ok w \<Longrightarrow> same_tables w w' \<Longrightarrow> tasks_ok w'"
  by (simp add: tasks_ok_def same_tables_def)

end
