(* ===== verification/Record_Repos.thy ===== *)
theory Record_Repos
  imports Store
begin

section \<open>The repositories of notifications, comments and task history\<close>

text \<open>
  \<^verbatim>\<open>notification_repository.rs\<close>, \<^verbatim>\<open>comment_repository.rs\<close> and \<^verbatim>\<open>audit_repository.rs\<close> of
  \<^verbatim>\<open>src/infrastructure/db/repositories\<close>. Notifications are unique by their dedupe key; comments and
  history are append-only.
\<close>

subsection \<open>Notifications\<close>

definition dedupe_clash :: "notification \<Rightarrow> notification list \<Rightarrow> bool" where
  "dedupe_clash n rows \<longleftrightarrow> list_ex (\<lambda>r. n_dedupe_key r = n_dedupe_key n) rows"

definition enqueue :: "notification \<Rightarrow> (world, notification) act" where
  "enqueue n =
     tryA (statement
       (\<lambda>w. dedupe_clash n (w_notifications w)
          \<or> references t_id (n_task_id n) (w_tasks w)
            \<and> has_id u_id (n_recipient_user_id n) (w_users w))
       (\<lambda>w. ((), if dedupe_clash n (w_notifications w) then w
                 else w\<lparr> w_notifications := w_notifications w
                        @ [n\<lparr> n_id := Some (next_id n_id (w_notifications w)) \<rparr>] \<rparr>)))
     (\<lambda>_.
     tryA (select (\<lambda>w. find (\<lambda>r. n_dedupe_key r = n_dedupe_key n) (w_notifications w))) (\<lambda>row.
     lift (ok_or (database_error (ascii ''no rows returned'')) row)))"

definition due_for_delivery :: "instant \<Rightarrow> notification \<Rightarrow> bool" where
  "due_for_delivery now n \<longleftrightarrow>
     n_delivery_state n \<in> {DeliveryPending, DeliveryRetryPending}
     \<and> (case n_next_attempt_at n of None \<Rightarrow> True | Some at \<Rightarrow> at \<le> now)"

definition list_pending :: "nat \<Rightarrow> (world, notification list) act" where
  "list_pending limit =
     tryA now_utc (\<lambda>now.
     select (\<lambda>w. take limit (sort_key n_created_at
       (filter (due_for_delivery now) (w_notifications w)))))"

definition update_notification ::
  "row_id \<Rightarrow> (notification \<Rightarrow> notification) \<Rightarrow> (world, unit) act" where
  "update_notification i f =
     execute (\<lambda>w. w\<lparr> w_notifications := update_where (\<lambda>n. n_id n = Some i) f (w_notifications w) \<rparr>)"

definition mark_sent :: "row_id \<Rightarrow> int \<Rightarrow> instant \<Rightarrow> (world, unit) act" where
  "mark_sent i telegram_message_id at = update_notification i (\<lambda>n. n\<lparr>
     n_is_sent := True, n_delivery_state := DeliverySent,
     n_telegram_message_id := Some telegram_message_id, n_sent_at := Some at,
     n_next_attempt_at := None, n_last_error_code := None \<rparr>)"

definition mark_retry_pending :: "row_id \<Rightarrow> instant \<Rightarrow> string \<Rightarrow> (world, unit) act" where
  "mark_retry_pending i next_attempt_at code = update_notification i (\<lambda>n. n\<lparr>
     n_attempt_count := n_attempt_count n + 1, n_delivery_state := DeliveryRetryPending,
     n_next_attempt_at := Some next_attempt_at, n_last_error_code := Some code \<rparr>)"

definition mark_failed :: "row_id \<Rightarrow> string \<Rightarrow> (world, unit) act" where
  "mark_failed i code = update_notification i (\<lambda>n. n\<lparr>
     n_attempt_count := n_attempt_count n + 1, n_delivery_state := DeliveryFailed,
     n_next_attempt_at := None, n_last_error_code := Some code \<rparr>)"

definition requeue :: "row_id \<Rightarrow> (world, unit) act" where
  "requeue i = update_notification i (\<lambda>n. n\<lparr>
     n_delivery_state := DeliveryPending, n_next_attempt_at := None,
     n_last_error_code := None \<rparr>)"

text \<open>\<^verbatim>\<open>ORDER BY created_at DESC, id DESC LIMIT 1\<close>: the last row of the greatest creation time.\<close>

definition find_latest_for_task_and_recipient ::
  "row_id \<Rightarrow> row_id \<Rightarrow> notification_type \<Rightarrow> (world, notification option) act" where
  "find_latest_for_task_and_recipient task_id user ntype =
     select (\<lambda>w.
       case rev (sort_key n_created_at (filter (\<lambda>n. n_task_id n = Some task_id
              \<and> n_recipient_user_id n = user \<and> n_notification_type n = ntype)
              (w_notifications w))) of
         [] \<Rightarrow> None | n # _ \<Rightarrow> Some n)"

subsection \<open>Comments and history\<close>

definition create_comment :: "task_comment \<Rightarrow> (world, task_comment) act" where
  "create_comment c = statement
     (\<lambda>w. has_id t_id (c_task_id c) (w_tasks w) \<and> has_id u_id (c_author_user_id c) (w_users w))
     (\<lambda>w. let row = c\<lparr> c_id := Some (next_id c_id (w_comments w)) \<rparr>
          in (row, w\<lparr> w_comments := w_comments w @ [row] \<rparr>))"

definition list_recent_for_task :: "row_id \<Rightarrow> nat \<Rightarrow> (world, task_comment list) act" where
  "list_recent_for_task task_id limit =
     select (\<lambda>w. take limit (rev (sort_key c_created_at
       (filter (\<lambda>c. c_task_id c = task_id) (w_comments w)))))"

definition append_audit :: "audit_entry \<Rightarrow> (world, audit_entry) act" where
  "append_audit e = statement
     (\<lambda>w. has_id t_id (al_task_id e) (w_tasks w)
        \<and> references u_id (al_changed_by_user_id e) (w_users w))
     (\<lambda>w. let row = e\<lparr> al_id := Some (next_id al_id (w_history w)) \<rparr>
          in (row, w\<lparr> w_history := w_history w @ [row] \<rparr>))"

definition list_for_task :: "row_id \<Rightarrow> (world, audit_entry list) act" where
  "list_for_task task_id =
     select (\<lambda>w. rev (sort_key al_created_at
       (filter (\<lambda>e. al_task_id e = task_id) (w_history w))))"

subsection \<open>What the statements do\<close>

definition notifications_ok :: "world \<Rightarrow> bool" where
  "notifications_ok w \<longleftrightarrow>
     distinct (map n_dedupe_key (w_notifications w)) \<and> distinct (map n_id (w_notifications w))
     \<and> (\<forall>n \<in> set (w_notifications w). n_id n \<noteq> None)"

definition notification_for :: "world \<Rightarrow> utext \<Rightarrow> notification option" where
  "notification_for w key = find (\<lambda>n. n_dedupe_key n = key) (w_notifications w)"

lemma dedupe_clash_iff: "dedupe_clash n (w_notifications w) \<longleftrightarrow>
    notification_for w (n_dedupe_key n) \<noteq> None"
  by (auto simp: dedupe_clash_def notification_for_def list_ex_iff find_None_iff)

text \<open>
  Nothing but the notifications changes; those already there stay, and every new one satisfies
  \<open>P\<close>.
\<close>

definition adds_notifications :: "(notification \<Rightarrow> bool) \<Rightarrow> world \<Rightarrow> world \<Rightarrow> bool" where
  "adds_notifications P w w' \<longleftrightarrow>
     (\<exists>new. w_notifications w' = w_notifications w @ new \<and> list_all P new)
     \<and> w_tasks w' = w_tasks w \<and> w_users w' = w_users w \<and> w_employees w' = w_employees w
     \<and> w_comments w' = w_comments w \<and> w_history w' = w_history w
     \<and> w_admin_audit w' = w_admin_audit w \<and> w_security_audit w' = w_security_audit w
     \<and> w_flag_overrides w' = w_flag_overrides w \<and> w_flags w' = w_flags w \<and> w_side w' = w_side w
     \<and> w_env w' = w_env w"

interpretation adds: store_frame "adds_notifications P" for P
proof unfold_locales
  show "adds_notifications P s u" if "adds_notifications P s t" "adds_notifications P t u"
    for s t u :: world
    using that by (auto simp: adds_notifications_def)
qed (auto simp: adds_notifications_def bookkeeping_free_def)

lemma adds_enqueue:
  "(\<And>i. P (n\<lparr> n_id := Some i \<rparr>)) \<Longrightarrow> obeys (adds_notifications P) (enqueue n)"
  unfolding enqueue_def
  by (intro adds.store_rules) (auto simp: adds_notifications_def)

lemma notification_kept:
  "adds_notifications P w w' \<Longrightarrow> notification_for w k = Some n \<Longrightarrow> notification_for w' k = Some n"
  by (auto simp: adds_notifications_def notification_for_def find_append_Some)

lemma find_append_new:
  "find P (xs @ [x]) = (case find P xs of None \<Rightarrow> if P x then Some x else None | Some y \<Rightarrow> Some y)"
  by (induction xs) auto

lemma enqueue_Inr:
  assumes "enqueue n w = (Inr r, w')"
  shows "notification_for w' (n_dedupe_key n) = Some r"
    and "(case notification_for w (n_dedupe_key n) of
            Some old \<Rightarrow> r = old \<and> w_notifications w' = w_notifications w
          | None \<Rightarrow>
              r = n\<lparr> n_id := Some (next_id n_id (w_notifications w)) \<rparr>
              \<and> w_notifications w' = w_notifications w @ [r])"
proof -
  have w': "w_notifications w' = (if dedupe_clash n (w_notifications w) then w_notifications w
          else w_notifications w @ [n\<lparr> n_id := Some (next_id n_id (w_notifications w)) \<rparr>])"
    and r: "find (\<lambda>r. n_dedupe_key r = n_dedupe_key n) (w_notifications w') = Some r"
    using assms by (auto simp: enqueue_def act_elims statement_Inr select_Inr split: if_splits)
  show "notification_for w' (n_dedupe_key n) = Some r"
    using r by (simp add: notification_for_def)
  show "(case notification_for w (n_dedupe_key n) of
            Some old \<Rightarrow> r = old \<and> w_notifications w' = w_notifications w
          | None \<Rightarrow>
              r = n\<lparr> n_id := Some (next_id n_id (w_notifications w)) \<rparr>
              \<and> w_notifications w' = w_notifications w @ [r])"
    using r w' by (auto simp: dedupe_clash_iff notification_for_def find_append_new
        split: option.splits if_splits)
qed

lemma notifications_ok_enqueue:
  assumes "notifications_ok w" "enqueue n w = (r, w')"
  shows "notifications_ok w'"
proof -
  have "w_notifications w' = w_notifications w
      \<or> \<not> dedupe_clash n (w_notifications w)
        \<and> w_notifications w' = w_notifications w
            @ [n\<lparr> n_id := Some (next_id n_id (w_notifications w)) \<rparr>]"
    using assms(2)
    by (cases r) (auto simp: enqueue_def act_elims statement_Inr select_Inr select_def
        dest!: statement_Inl split: if_splits)
  with assms(1) show ?thesis
    using next_id_fresh[of _ "w_notifications w" n_id]
    by (fastforce simp: notifications_ok_def dedupe_clash_def list_ex_iff)
qed

text \<open>History and comments only grow, and nothing else changes.\<close>

definition appends_records :: "world \<Rightarrow> world \<Rightarrow> bool" where
  "appends_records w w' \<longleftrightarrow>
     (\<exists>cs hs ns. w_comments w' = w_comments w @ cs \<and> w_history w' = w_history w @ hs
        \<and> w_notifications w' = w_notifications w @ ns)
     \<and> w_tasks w' = w_tasks w \<and> w_users w' = w_users w \<and> w_employees w' = w_employees w
     \<and> w_admin_audit w' = w_admin_audit w \<and> w_security_audit w' = w_security_audit w
     \<and> w_flag_overrides w' = w_flag_overrides w \<and> w_flags w' = w_flags w \<and> w_side w' = w_side w
     \<and> w_env w' = w_env w"

interpretation appends: store_frame appends_records
proof unfold_locales
  show "appends_records s u" if "appends_records s t" "appends_records t u" for s t u :: world
    using that by (auto simp: appends_records_def)
qed (auto simp: appends_records_def bookkeeping_free_def)

lemma obeys_weaken: "obeys R m \<Longrightarrow> (\<And>s t. R s t \<Longrightarrow> Q s t) \<Longrightarrow> obeys Q m"
  by (simp add: obeys_def)

lemma appends_of_adds: "adds_notifications P w w' \<Longrightarrow> appends_records w w'"
  by (auto simp: adds_notifications_def appends_records_def)

lemma appends_enqueue: "obeys appends_records (enqueue n)"
  by (rule obeys_weaken[OF adds_enqueue[of "\<lambda>_. True"] appends_of_adds]) simp

lemma appends_comment: "obeys appends_records (create_comment c)"
  unfolding create_comment_def
  by (rule appends.statement) (auto simp: appends_records_def Let_def)

lemma appends_audit: "obeys appends_records (append_audit e)"
  unfolding append_audit_def
  by (rule appends.statement) (auto simp: appends_records_def Let_def)

lemmas appends_rules = appends.store_rules appends_enqueue appends_comment appends_audit

lemma append_audit_Inr:
  "append_audit e w = (Inr r, w') \<Longrightarrow>
     r = e\<lparr> al_id := Some (next_id al_id (w_history w)) \<rparr> \<and> w_history w' = w_history w @ [r]
     \<and> w_notifications w' = w_notifications w \<and> w_comments w' = w_comments w
     \<and> w_tasks w' = w_tasks w"
  by (auto simp: append_audit_def statement_Inr Let_def)

lemma create_comment_Inr:
  "create_comment c w = (Inr r, w') \<Longrightarrow>
     r = c\<lparr> c_id := Some (next_id c_id (w_comments w)) \<rparr> \<and> w_comments w' = w_comments w @ [r]
     \<and> w_notifications w' = w_notifications w \<and> w_history w' = w_history w
     \<and> w_tasks w' = w_tasks w"
  by (auto simp: create_comment_def statement_Inr Let_def)

lemma db_errors_enqueue: "db_errors_only (enqueue n)"
  unfolding enqueue_def by (intro db_errors_rules db_errors_lift) auto

lemma db_errors_append_audit: "db_errors_only (append_audit e)"
  unfolding append_audit_def by (rule db_errors_statement)

lemma db_errors_create_comment: "db_errors_only (create_comment c)"
  unfolding create_comment_def by (rule db_errors_statement)

lemmas record_db_errors = db_errors_rules db_errors_enqueue db_errors_append_audit
  db_errors_create_comment

end
