(* ===== verification/Samples.thy ===== *)
theory Samples
  imports Role_Policy Task_Repo Record_Repos
begin

section \<open>A small database to run the operations on\<close>

text \<open>
  A database with a creator, an assignee, an admin, one employee and the sample task, without
  failing statements. The theorems about stateful operations are exercised on it.
\<close>

definition sample_creator :: user where
  "sample_creator = sample_user\<lparr> u_id := Some 1, u_telegram_id := 10, u_role := Manager \<rparr>"

definition sample_admin :: user where
  "sample_admin = sample_user\<lparr> u_id := Some 3, u_telegram_id := 30, u_role := Admin \<rparr>"

definition sample_employee :: employee where
  "sample_employee = \<lparr> e_id = Some 5, e_full_name = ascii ''Ann Lee'',
     e_telegram_username = Some (ascii ''ann''), e_email = None, e_phone = None,
     e_department = None, e_is_active = True, e_synced_at = None, e_created_at = 0,
     e_updated_at = 0 \<rparr>"

definition sample_env :: environment where
  "sample_env = \<lparr> env_clock = int, env_fresh_uuid = word_of_nat,
     env_uuid_text = (\<lambda>u. show_nat (unat u)), env_date_text = show_int \<rparr>"

definition no_side_tables :: side_tables where
  "no_side_tables = \<lparr> sd_sla = (\<lambda>_. (None, 0)), sd_escalations = [], sd_voice = [], sd_rules = [],
     sd_templates = [] \<rparr>"

definition sample_world :: world where
  "sample_world = \<lparr> w_users = [sample_creator, sample_user, sample_admin],
     w_employees = [sample_employee], w_tasks = [sample_task], w_notifications = [],
     w_comments = [], w_history = [], w_admin_audit = [], w_security_audit = [],
     w_flag_overrides = [], w_flags = {}, w_side = no_side_tables,
     w_env = sample_env, w_ticks = 5, w_uuids = 9, w_faults = [] \<rparr>"

lemma sample_user_fields [simp]:
  "u_id sample_user = Some 2" "u_role sample_user = User" "u_telegram_id sample_user = 20"
  "u_deactivated_at sample_user = None" "u_id sample_creator = Some 1"
  "u_role sample_creator = Manager" "u_telegram_id sample_creator = 10"
  "u_id sample_admin = Some 3" "u_role sample_admin = Admin" "u_telegram_id sample_admin = 30"
  "u_deactivated_at sample_admin = None" "u_deactivated_at sample_creator = None"
  by (simp_all add: sample_user_def sample_creator_def sample_admin_def)

lemma sample_world_fields [simp]:
  "w_users sample_world = [sample_creator, sample_user, sample_admin]"
  "w_employees sample_world = [sample_employee]" "w_tasks sample_world = [sample_task]"
  "w_notifications sample_world = []" "w_comments sample_world = []"
  "w_history sample_world = []" "w_faults sample_world = []" "w_env sample_world = sample_env"
  "w_admin_audit sample_world = []" "w_security_audit sample_world = []"
  "w_flag_overrides sample_world = []" "w_flags sample_world = {}"
  "w_side sample_world = no_side_tables"
  "w_ticks sample_world = 5" "w_uuids sample_world = 9"
  by (simp_all add: sample_world_def)

lemma sample_employee_id [simp]: "e_id sample_employee = Some 5"
  by (simp add: sample_employee_def)

text \<open>Evaluating a run on it.\<close>

lemmas run_simps =
  tryA_def attempt_def ret_def fail_def lift_def now_utc_def fresh_uuid_def uuid_text_def
  select_no_faults statement_no_faults execute_no_faults

lemma sample_ok: "tasks_ok sample_world" "notifications_ok sample_world"
  by (simp_all add: tasks_ok_def notifications_ok_def)

lemma sample_task_inv: "task_inv sample_task"
  by (simp add: task_inv_def stamps_fit_status_def reason_fits_status_def)

definition sample_started :: task where
  "sample_started = sample_task\<lparr> t_version := 1, t_status := InProgress, t_updated_at := 4,
     t_started_at := Some 4 \<rparr>"

lemma sample_started: "transition_to sample_task InProgress 4 = Inr sample_started"
  by (simp add: transition_to_def sample_started_def)

lemma sample_started_fields [simp]:
  "t_task_uid sample_started = 1" "t_version sample_started = 1" "t_id sample_started = Some 7"
  "t_status sample_started = InProgress" "t_assigned_to_user_id sample_started = Some 2"
  "t_assigned_to_employee_id sample_started = Some 5"
  by (simp_all add: sample_started_def)

lemma sample_update:
  "update_task sample_started sample_world
     = (Inr sample_started, sample_world\<lparr> w_tasks := [sample_started] \<rparr>)"
proof -
  have "write_columns sample_started sample_task = sample_started"
    by (simp add: write_columns_def sample_started_def)
  then show ?thesis
    by (simp add: update_task_def tryA_def statement_no_faults update_matches_def
        task_references_def references_def has_id_def update_where_def lift_def)
qed

end
