(* ===== verification/Task_Sessions.thy ===== *)
theory Task_Sessions
  imports Samples
begin

section \<open>Concurrent writers of one task table\<close>

text \<open>
  Handlers run concurrently: each reads a task, computes a new version of it with one of the
  aggregate's operations, and writes it back. The contract of the task port (\<^verbatim>\<open>TaskRepository\<close> of
  \<^verbatim>\<open>src/application/ports/repositories.rs\<close>) is the locale \<open>versioned_store\<close>: an update succeeds
  only on the row of the version before, and writes the mutable columns. From it follows, for
  every interleaving of readers and writers, that a successful write is a lifecycle step of the
  row as it is at that moment, so no update is lost. The SQLite repository is an instance.
\<close>

record 's session_state =
  ss_store :: 's
  ss_read :: "nat \<Rightarrow> task option"

text \<open>A step is a handler that reads, a handler that writes, a new task, or anything that leaves the
  rows of the tasks as they are. The one statement outside these is that of the SLA worker, which
  stamps \<^verbatim>\<open>updated_at\<close> on a row without raising its version
  (\<^verbatim>\<open>sla_repository.rs\<close>); \<^verbatim>\<open>Sla_Worker\<close> models it.\<close>

inductive session_step ::
  "('s \<Rightarrow> uuid \<Rightarrow> task option) \<Rightarrow> (task \<Rightarrow> ('s, task) act) \<Rightarrow>
   's session_state \<Rightarrow> 's session_state \<Rightarrow> bool" for row upd where
  session_read: "row (ss_store c) uid = Some t \<Longrightarrow>
     session_step row upd c (c\<lparr> ss_read := (ss_read c)(i \<mapsto> t) \<rparr>)"
| session_write: "ss_read c i = Some t \<Longrightarrow> task_step now t t' \<Longrightarrow> t_version t' = t_version t + 1 \<Longrightarrow>
     upd t' (ss_store c) = (r, s') \<Longrightarrow>
     session_step row upd c (c\<lparr> ss_store := s', ss_read := (ss_read c)(i := None) \<rparr>)"
| session_create: "row s' = (row (ss_store c))(uid \<mapsto> t) \<Longrightarrow> row (ss_store c) uid = None \<Longrightarrow>
     t_task_uid t = uid \<Longrightarrow> task_inv t \<Longrightarrow>
     session_step row upd c (c\<lparr> ss_store := s' \<rparr>)"
| session_other: "row s' = row (ss_store c) \<Longrightarrow> session_step row upd c (c\<lparr> ss_store := s' \<rparr>)"

inductive_cases session_stepE: "session_step row upd c c'"

text \<open>Every snapshot a handler holds is the current row, or an older version of it.\<close>

definition snapshots_ok :: "('s \<Rightarrow> uuid \<Rightarrow> task option) \<Rightarrow> 's session_state \<Rightarrow> bool" where
  "snapshots_ok row c \<longleftrightarrow>
     (\<forall>i t. ss_read c i = Some t \<longrightarrow>
        (\<exists>cur. row (ss_store c) (t_task_uid t) = Some cur
           \<and> (cur = t \<or> t_version t < t_version cur)))"

lemma snapshotD:
  assumes "snapshots_ok row c" "ss_read c i = Some t"
  obtains cur where "row (ss_store c) (t_task_uid t) = Some cur"
    "cur = t \<or> t_version t < t_version cur"
  using assms by (auto simp: snapshots_ok_def)

definition rows_consistent :: "('s \<Rightarrow> uuid \<Rightarrow> task option) \<Rightarrow> 's session_state \<Rightarrow> bool" where
  "rows_consistent row c \<longleftrightarrow> (\<forall>u t. row (ss_store c) u = Some t \<longrightarrow> task_inv t)"

text \<open>An operation of the aggregate changes mutable columns only.\<close>

lemma write_columns_step:
  assumes "task_step now t t'"
  shows "write_columns t' t = t'"
  using assms
proof (cases rule: task_step.cases)
  case (step_transition s)
  then show ?thesis
    by (auto simp: transition_to_def write_columns_def split: if_split_asm)
next
  case (step_blocker r)
  then show ?thesis
    by (auto simp: apply_blocker_ok_iff transition_to_def write_columns_def split: if_split_asm)
next
  case (step_reassign u e)
  then show ?thesis by (auto simp: reassign_def write_columns_def split: if_split_asm)
next
  case (step_link u)
  then show ?thesis
    by (auto simp: link_registered_assignee_def write_columns_def split: if_split_asm)
qed

locale versioned_store =
  fixes row :: "'s \<Rightarrow> uuid \<Rightarrow> task option"
    and upd :: "task \<Rightarrow> ('s, task) act"
    and good :: "'s \<Rightarrow> bool"
  assumes upd_ok: "good s \<Longrightarrow> upd t s = (Inr r, s') \<Longrightarrow>
      \<exists>old. row s (t_task_uid t) = Some old \<and> t_version old = t_version t - 1
        \<and> r = write_columns t old \<and> row s' = (row s)(t_task_uid t \<mapsto> r)"
    and upd_err: "upd t s = (Inl e, s') \<Longrightarrow> row s' = row s"
    and row_uid: "row s u = Some t \<Longrightarrow> t_task_uid t = u"
begin

lemma write_current:
  assumes "good s" "row s (t_task_uid t) = Some t" "task_step now t t'"
    "t_version t' = t_version t + 1" "upd t' s = (Inr r, s')"
  shows "r = t' \<and> row s' = (row s)(t_task_uid t \<mapsto> t')"
proof -
  have "t_task_uid t' = t_task_uid t"
    using task_step_content[OF assms(3)] by (simp add: same_content_def)
  then show ?thesis
    using upd_ok[OF assms(1,5)] assms(2) write_columns_step[OF assms(3)] by auto
qed

lemma write_commits_step:
  assumes "snapshots_ok row c" "good (ss_store c)" "ss_read c i = Some t" "task_step now t t'"
    "t_version t' = t_version t + 1" "upd t' (ss_store c) = (Inr r, s')"
  shows "row (ss_store c) (t_task_uid t) = Some t \<and> r = t'
    \<and> row s' = (row (ss_store c))(t_task_uid t \<mapsto> t')"
proof -
  have uid: "t_task_uid t' = t_task_uid t"
    using task_step_content[OF assms(4)] by (simp add: same_content_def)
  obtain old where old: "row (ss_store c) (t_task_uid t) = Some old"
    "t_version old = t_version t' - 1" "r = write_columns t' old"
    "row s' = (row (ss_store c))(t_task_uid t \<mapsto> r)"
    using upd_ok[OF assms(2,6)] uid by auto
  have "old = t"
    using snapshotD[OF assms(1,3)] assms(5) old(1,2) by fastforce
  then show ?thesis using old write_columns_step[OF assms(4)] by simp
qed

lemma snapshots_step:
  assumes "session_step row upd c c'" "snapshots_ok row c" "good (ss_store c)"
  shows "snapshots_ok row c'"
  using assms(1)
proof (cases rule: session_step.cases)
  case (session_read uid t i)
  then show ?thesis using assms(2) row_uid[of "ss_store c" uid t] by (simp add: snapshots_ok_def)
next
  case (session_write i t now t' r s')
  show ?thesis
  proof (cases r)
    case (Inl e)
    then have "row s' = row (ss_store c)" using upd_err session_write(5) by blast
    then show ?thesis using assms(2) session_write(1) by (auto simp: snapshots_ok_def)
  next
    case (Inr q)
    then have w: "row (ss_store c) (t_task_uid t) = Some t"
      "row s' = (row (ss_store c))(t_task_uid t \<mapsto> t')"
      using write_commits_step[OF assms(2,3) session_write(2-4)] session_write(5) by auto
    have uid: "t_task_uid t' = t_task_uid t"
      using task_step_content[OF session_write(3)] by (simp add: same_content_def)
    show ?thesis unfolding snapshots_ok_def
    proof (intro allI impI)
      fix j x
      assume "ss_read c' j = Some x"
      then have "ss_read c j = Some x" using session_write(1) by (auto split: if_splits)
      from snapshotD[OF assms(2) this] obtain cur where
        cur: "row (ss_store c) (t_task_uid x) = Some cur" "cur = x \<or> t_version x < t_version cur" .
      show "\<exists>cur. row (ss_store c') (t_task_uid x) = Some cur
          \<and> (cur = x \<or> t_version x < t_version cur)"
        using cur w session_write(1,4) by (cases "t_task_uid x = t_task_uid t") auto
    qed
  qed
next
  case (session_create s' uid t)
  then show ?thesis using assms(2) by (fastforce simp: snapshots_ok_def)
next
  case (session_other s')
  then show ?thesis using assms(2) by (simp add: snapshots_ok_def)
qed

lemma consistent_step:
  assumes "session_step row upd c c'" "snapshots_ok row c" "good (ss_store c)"
    "rows_consistent row c"
  shows "rows_consistent row c'"
  using assms(1)
proof (cases rule: session_step.cases)
  case (session_write i t now t' r s')
  show ?thesis
  proof (cases r)
    case (Inl e)
    then have "row s' = row (ss_store c)" using upd_err session_write(5) by blast
    then show ?thesis using assms(4) session_write(1) by (simp add: rows_consistent_def)
  next
    case (Inr q)
    then have w: "row (ss_store c) (t_task_uid t) = Some t"
      "row s' = (row (ss_store c))(t_task_uid t \<mapsto> t')"
      using write_commits_step[OF assms(2,3) session_write(2-4)] session_write(5) by auto
    have "task_inv t'"
      using task_step_inv[OF session_write(3)] assms(4) w(1) by (auto simp: rows_consistent_def)
    then show ?thesis using assms(4) w session_write(1) by (simp add: rows_consistent_def)
  qed
qed (use assms(4) in \<open>auto simp: rows_consistent_def\<close>)

text \<open>A row only ever moves by lifecycle steps of itself, whoever writes it.\<close>

lemma row_evolves:
  assumes "session_step row upd c c'" "snapshots_ok row c" "good (ss_store c)"
    "row (ss_store c) u = Some t"
  shows "\<exists>t'. row (ss_store c') u = Some t' \<and> (t' = t \<or> (\<exists>now. task_step now t t'))"
  using assms(1)
proof (cases rule: session_step.cases)
  case (session_write i t1 now t' r s')
  show ?thesis
  proof (cases r)
    case (Inl e)
    then show ?thesis using upd_err session_write(1,5) assms(4) by fastforce
  next
    case (Inr q)
    then show ?thesis
      using write_commits_step[OF assms(2,3) session_write(2-4)] session_write assms(4) by auto
  qed
qed (use assms(4) in auto)

end

text \<open>The SQLite task repository keeps the contract.\<close>

lemma task_at_update_Inr:
  assumes "tasks_ok w" "update_task t w = (Inr r, w')"
  shows "\<exists>old. task_at w (t_task_uid t) = Some old \<and> t_version old = t_version t - 1
    \<and> r = write_columns t old \<and> task_at w' = (task_at w)(t_task_uid t \<mapsto> r)"
proof -
  obtain old where old: "find (update_matches t) (w_tasks w) = Some old" "r = write_columns t old"
    "w_tasks w' = update_where (update_matches t) (write_columns t) (w_tasks w)"
    using update_task_Inr[OF assms(2)] by auto
  have m: "old \<in> set (w_tasks w)" "update_matches t old" using find_SomeD[OF old(1)] by auto
  then have "task_at w (t_task_uid t) = Some old"
    using task_at_iff[OF assms(1)] by (simp add: update_matches_def)
  moreover have "task_at w' = (task_at w)(t_task_uid t \<mapsto> r)"
    using task_at_update[OF _ old(1)] assms(1) old(2,3)
    by (auto simp: task_at_def tasks_ok_def)
  ultimately show ?thesis using m(2) old(2) by (auto simp: update_matches_def)
qed

interpretation sqlite_tasks: versioned_store task_at update_task tasks_ok
proof unfold_locales
  show "\<exists>old. task_at s (t_task_uid t) = Some old \<and> t_version old = t_version t - 1
        \<and> r = write_columns t old \<and> task_at s' = (task_at s)(t_task_uid t \<mapsto> r)"
    if "tasks_ok s" "update_task t s = (Inr r, s')" for s t r s'
    using that by (rule task_at_update_Inr)
  show "task_at s' = task_at s" if "update_task t s = (Inl e, s')" for s t e s'
    using update_task_Inl[OF that] by (simp add: task_at_def fun_eq_iff)
  show "t_task_uid t = u" if "task_at s u = Some t" for s u t
    using that task_at_uid by blast
qed

text \<open>A sequence of sessions over the database that keeps the keys of the table unique.\<close>

inductive db_sessions :: "world session_state \<Rightarrow> world session_state \<Rightarrow> bool" where
  db_start: "db_sessions c c"
| db_step: "db_sessions c d \<Longrightarrow> session_step task_at update_task d e \<Longrightarrow> tasks_ok (ss_store e) \<Longrightarrow>
     db_sessions c e"

lemma db_sessions_inv:
  assumes "db_sessions c d" "tasks_ok (ss_store c)" "snapshots_ok task_at c"
    "rows_consistent task_at c"
  shows "tasks_ok (ss_store d) \<and> snapshots_ok task_at d \<and> rows_consistent task_at d"
  using assms
proof (induction rule: db_sessions.induct)
  case (db_step c d e)
  then show ?case using sqlite_tasks.snapshots_step sqlite_tasks.consistent_step by blast
qed auto

lemma db_sessions_final:
  assumes "db_sessions c d" "tasks_ok (ss_store c)" "snapshots_ok task_at c"
    "rows_consistent task_at c" "task_at (ss_store c) u = Some t" "is_terminal (t_status t)"
  shows "\<exists>t'. task_at (ss_store d) u = Some t' \<and> t_status t' = t_status t"
  using assms
proof (induction rule: db_sessions.induct)
  case (db_step c d e)
  then obtain t1 where t1: "task_at (ss_store d) u = Some t1" "t_status t1 = t_status t" by blast
  have "tasks_ok (ss_store d)" "snapshots_ok task_at d"
    using db_sessions_inv[OF db_step(1)] db_step.prems by auto
  then obtain t2 where t2: "task_at (ss_store e) u = Some t2"
    "t2 = t1 \<or> (\<exists>now. task_step now t1 t2)"
    using sqlite_tasks.row_evolves[OF db_step(2) _ _ t1(1)] by blast
  have "t_status t2 = t_status t1"
    using t2(2) t1(2) db_step.prems(5) task_step_status terminal_iff_stuck by metis
  with t1 t2 show ?case by auto
qed auto

subsection \<open>Properties\<close>

text \<open>C8. No update is lost. In every interleaving of handlers that read tasks, compute a new
  version with an operation of the aggregate and write it to the database, started from consistent
  rows: when a handler's write succeeds, the row is at that moment exactly the task the handler had
  read, and it becomes exactly the task the handler computed.\<close>

theorem no_lost_update:
  assumes "db_sessions c d" "tasks_ok (ss_store c)" "snapshots_ok task_at c"
    "rows_consistent task_at c"
    and "ss_read d i = Some t" "task_step now t t'" "t_version t' = t_version t + 1"
    and "update_task t' (ss_store d) = (Inr r, w')"
  shows "task_at (ss_store d) (t_task_uid t) = Some t \<and> r = t'
    \<and> task_at w' = (task_at (ss_store d))(t_task_uid t \<mapsto> t')"
  using sqlite_tasks.write_commits_step[OF _ _ assms(5-8)] db_sessions_inv[OF assms(1-4)] by blast

definition sample_session :: "world session_state" where
  "sample_session = \<lparr> ss_store = sample_world, ss_read = [0 \<mapsto> sample_task] \<rparr>"

lemma sample_session_ok:
  "tasks_ok (ss_store sample_session)" "snapshots_ok task_at sample_session"
  "rows_consistent task_at sample_session"
  using sample_ok(1) sample_task_inv
  by (auto simp: sample_session_def snapshots_ok_def rows_consistent_def task_at_def
      split: if_splits)

theorem no_lost_update_witness:
  "task_at (sample_world\<lparr> w_tasks := [sample_started] \<rparr>) 1 = Some sample_started"
proof -
  have "ss_read sample_session 0 = Some sample_task"
    "update_task sample_started (ss_store sample_session)
       = (Inr sample_started, sample_world\<lparr> w_tasks := [sample_started] \<rparr>)"
    using sample_update by (simp_all add: sample_session_def)
  moreover have "task_step 4 sample_task sample_started"
    using sample_started by (rule step_transition)
  ultimately show ?thesis
    using no_lost_update[OF db_start sample_session_ok, of 0 sample_task 4 sample_started] by simp
qed

text \<open>C9. In every interleaving of handlers every stored task keeps the lifecycle invariant, and a
  task that is completed or cancelled keeps that status whatever other handlers do.\<close>

theorem stored_tasks_stay_consistent:
  assumes "db_sessions c d" "tasks_ok (ss_store c)" "snapshots_ok task_at c"
    "rows_consistent task_at c"
  shows "(\<forall>u t. task_at (ss_store d) u = Some t \<longrightarrow> task_inv t)
    \<and> (\<forall>u t. task_at (ss_store c) u = Some t \<and> is_terminal (t_status t) \<longrightarrow>
         (\<exists>t'. task_at (ss_store d) u = Some t' \<and> t_status t' = t_status t))"
  using db_sessions_inv[OF assms] db_sessions_final[OF assms]
  by (auto simp: rows_consistent_def)

theorem stored_tasks_stay_consistent_witness:
  "task_inv (the (task_at (ss_store sample_session) 1))"
proof -
  have "task_at (ss_store sample_session) 1 = Some sample_task"
    by (simp add: sample_session_def task_at_def)
  then show ?thesis
    using stored_tasks_stay_consistent[OF db_start sample_session_ok] by simp
qed

end
