(* ===== verification/Task_Codes.thy ===== *)
theory Task_Codes
  imports Actions
begin

section \<open>Public task codes\<close>

text \<open>
  \<^verbatim>\<open>src/shared/task_codes.rs\<close>: the code users see and type for a task (\<^verbatim>\<open>T-0042\<close>) and the reading
  of a task reference, which falls back to the \<^verbatim>\<open>uuid\<close> crate's parser (the argument
  \<open>parse_uuid\<close>).
\<close>

definition PUBLIC_TASK_CODE_WIDTH :: nat where "PUBLIC_TASK_CODE_WIDTH = 4"
definition PUBLIC_TASK_CODE_PREFIX :: utext where "PUBLIC_TASK_CODE_PREFIX = ascii ''T''"
definition PUBLIC_TASK_CODE_SEPARATOR :: utext where "PUBLIC_TASK_CODE_SEPARATOR = ascii ''-''"
definition PUBLIC_TASK_CODE_PLACEHOLDER_NUMBER :: utext where
  "PUBLIC_TASK_CODE_PLACEHOLDER_NUMBER = ascii ''NEW''"

lemmas task_code_parts =
  PUBLIC_TASK_CODE_WIDTH_def PUBLIC_TASK_CODE_PREFIX_def PUBLIC_TASK_CODE_SEPARATOR_def
  PUBLIC_TASK_CODE_PLACEHOLDER_NUMBER_def

datatype task_reference = PublicId int | Uid uuid

text \<open>Rust's \<^verbatim>\<open>{:0width$}\<close> pads after the sign; \<^verbatim>\<open>parse::<i64>\<close> reads an optional sign.\<close>

definition pad_zeros :: "nat \<Rightarrow> utext \<Rightarrow> utext" where
  "pad_zeros w ds = replicate (w - length ds) 48 @ ds"

definition show_padded :: "nat \<Rightarrow> int \<Rightarrow> utext" where
  "show_padded w i =
     (if i < 0 then 45 # pad_zeros (w - 1) (show_nat (nat (- i)))
      else pad_zeros w (show_nat (nat i)))"

definition parse_i64 :: "utext \<Rightarrow> int option" where
  "parse_i64 s =
     (case (case s of
              [] \<Rightarrow> None
            | c # ds \<Rightarrow>
                if c = 43 then map_option int (parse_nat ds)
                else if c = 45 then map_option (\<lambda>n. - int n) (parse_nat ds)
                else map_option int (parse_nat (c # ds))) of
        None \<Rightarrow> None
      | Some v \<Rightarrow> if - (2 ^ 63) \<le> v \<and> v < 2 ^ 63 then Some v else None)"

definition format_public_task_code :: "int \<Rightarrow> utext" where
  "format_public_task_code task_id =
     PUBLIC_TASK_CODE_PREFIX @ PUBLIC_TASK_CODE_SEPARATOR
       @ show_padded PUBLIC_TASK_CODE_WIDTH task_id"

definition format_public_task_code_or_placeholder :: "int option \<Rightarrow> utext" where
  "format_public_task_code_or_placeholder task_id =
     (case task_id of
        Some v \<Rightarrow>
          if v > 0 then format_public_task_code v
          else PUBLIC_TASK_CODE_PREFIX @ PUBLIC_TASK_CODE_SEPARATOR
                 @ PUBLIC_TASK_CODE_PLACEHOLDER_NUMBER
      | None \<Rightarrow>
          PUBLIC_TASK_CODE_PREFIX @ PUBLIC_TASK_CODE_SEPARATOR
            @ PUBLIC_TASK_CODE_PLACEHOLDER_NUMBER)"

definition parse_public_task_code :: "utext \<Rightarrow> int option" where
  "parse_public_task_code value =
     (let normalized = to_ascii_uppercase (trim value) in
      case strip_prefix PUBLIC_TASK_CODE_PREFIX normalized of
        None \<Rightarrow> None
      | Some rest \<Rightarrow>
         (case strip_prefix PUBLIC_TASK_CODE_SEPARATOR rest of
            None \<Rightarrow> None
          | Some numeric_part \<Rightarrow>
              if numeric_part = [] then None
              else (case parse_i64 numeric_part of
                      Some v \<Rightarrow> if v > 0 then Some v else None
                    | None \<Rightarrow> None)))"

definition parse_task_reference ::
  "(utext \<Rightarrow> uuid option) \<Rightarrow> utext \<Rightarrow> task_reference option" where
  "parse_task_reference parse_uuid value =
     (let trimmed = trim value in
      if trimmed = [] then None
      else case parse_public_task_code trimmed of
             Some v \<Rightarrow> Some (PublicId v)
           | None \<Rightarrow> map_option Uid (parse_uuid trimmed))"

subsection \<open>Reading a printed code back\<close>

lemma digits_value_zeros [simp]: "digits_value (replicate k 48 @ ds) = digits_value ds"
  by (induction k) (simp_all add: digits_value_def)

lemma parse_nat_padded [simp]: "parse_nat (pad_zeros w (show_nat n)) = Some n"
  using show_nat_digits[of n]
  by (auto simp: parse_nat_def pad_zeros_def list_all_iff is_ascii_digit_def)

lemma pad_zeros_digits: "list_all is_ascii_digit (pad_zeros w (show_nat n))"
  using show_nat_digits[of n] by (auto simp: pad_zeros_def list_all_iff is_ascii_digit_def)

lemma pad_zeros_not_empty [simp]: "pad_zeros w (show_nat n) \<noteq> []"
  using show_nat_digits[of n] by (simp add: pad_zeros_def)

lemma digit_no_space: "is_ascii_digit c \<Longrightarrow> \<not> is_whitespace c"
  by (auto simp: is_ascii_digit_def is_whitespace_def)

lemma upper_digits: "list_all is_ascii_digit ds \<Longrightarrow> to_ascii_uppercase ds = ds"
  by (induction ds) (auto simp: to_ascii_uppercase_def is_ascii_digit_def)

lemma trim_ends: "s \<noteq> [] \<Longrightarrow> \<not> is_whitespace (hd s) \<Longrightarrow> \<not> is_whitespace (last s) \<Longrightarrow> trim s = s"
  by (cases s) (auto simp: trim_def trim_start_by_def trim_end_by_idem)

lemma parse_i64_digits:
  assumes "list_all is_ascii_digit ds" "parse_nat ds = Some n" "n < 2 ^ 63"
  shows "parse_i64 ds = Some (int n)"
proof (cases ds)
  case Nil
  with assms(2) show ?thesis by (simp add: parse_nat_def)
next
  case (Cons c cs)
  with assms(1) have "c \<noteq> 43" "c \<noteq> 45" by (auto simp: is_ascii_digit_def)
  moreover have "int n < 2 ^ 63" using assms(3) by (metis of_nat_less_iff of_nat_numeral of_nat_power)
  ultimately show ?thesis using Cons assms(2) by (simp add: parse_i64_def)
qed

lemma parse_format_code:
  assumes "0 < i" "i < 2 ^ 63"
  shows "parse_public_task_code (format_public_task_code i) = Some i"
proof -
  let ?ds = "pad_zeros PUBLIC_TASK_CODE_WIDTH (show_nat (nat i))"
  have code: "format_public_task_code i = 84 # 45 # ?ds"
    using assms(1) by (simp add: format_public_task_code_def show_padded_def task_code_parts ascii_def)
  have digits: "list_all is_ascii_digit ?ds" by (rule pad_zeros_digits)
  then have "is_ascii_digit (last ?ds)" by (simp add: list_all_iff)
  then have "trim (84 # 45 # ?ds) = 84 # 45 # ?ds"
    by (intro trim_ends) (auto simp: digit_no_space, simp add: is_whitespace_def)
  moreover have "to_ascii_uppercase (84 # 45 # ?ds) = 84 # 45 # ?ds"
    using upper_digits[OF digits] by (simp add: to_ascii_uppercase_def)
  moreover have "parse_i64 ?ds = Some i"
    using parse_i64_digits[OF digits, of "nat i"] assms by (simp add: nat_less_iff)
  ultimately show ?thesis
    using assms(1) by (simp add: code parse_public_task_code_def task_code_parts ascii_def)
qed

lemma parse_code_positive: "parse_public_task_code s = Some i \<Longrightarrow> 0 < i \<and> i < 2 ^ 63"
  by (auto simp: parse_public_task_code_def parse_i64_def Let_def split: option.splits if_splits)

text \<open>The public code of a stored task, read back as a task reference, names the same task
  whatever the identifier parser accepts; two tasks never share a code, and the placeholder of a
  task without an identifier is not read as a code.\<close>

theorem public_code_roundtrip:
  assumes "0 < i" "i < 2 ^ 63"
  shows "parse_task_reference parse_uuid (format_public_task_code_or_placeholder (Some i))
           = Some (PublicId i)
    \<and> (\<forall>j. 0 < j \<and> j < 2 ^ 63 \<and> format_public_task_code j = format_public_task_code i \<longrightarrow> j = i)
    \<and> parse_public_task_code (format_public_task_code_or_placeholder None) = None"
proof (intro conjI allI impI)
  have "trim (format_public_task_code i) \<noteq> []"
  proof
    assume "trim (format_public_task_code i) = []"
    then have "parse_public_task_code (format_public_task_code i) = None"
      by (simp add: parse_public_task_code_def task_code_parts to_ascii_uppercase_def ascii_def)
    with parse_format_code[OF assms] show False by simp
  qed
  moreover have "parse_public_task_code (trim s) = parse_public_task_code s" for s
    by (simp add: parse_public_task_code_def)
  ultimately show "parse_task_reference parse_uuid
      (format_public_task_code_or_placeholder (Some i)) = Some (PublicId i)"
    using assms parse_format_code[OF assms]
    by (simp add: parse_task_reference_def format_public_task_code_or_placeholder_def Let_def)
  show "j = i"
    if "0 < j \<and> j < 2 ^ 63 \<and> format_public_task_code j = format_public_task_code i" for j
    using that parse_format_code[of j] parse_format_code[OF assms] by (metis option.inject)
  show "parse_public_task_code (format_public_task_code_or_placeholder None) = None"
    by (simp add: format_public_task_code_or_placeholder_def parse_public_task_code_def
        task_code_parts ascii_def trim_def trim_start_by_def trim_end_by_def is_whitespace_def
        to_ascii_uppercase_def parse_i64_def parse_nat_def is_ascii_digit_def)
qed

theorem public_code_roundtrip_witness:
  "parse_task_reference (\<lambda>_. None) (format_public_task_code_or_placeholder (Some 42))
     = Some (PublicId 42)"
  using public_code_roundtrip[of 42 "\<lambda>_. None"] by simp

end
