(* ===== verification/Task_Use_Cases.thy ===== *)
theory Task_Use_Cases
  imports Task_Sessions Task_Codes
begin

section \<open>Use cases on a task: status change, blocker, comment\<close>

text \<open>
  \<^verbatim>\<open>update_task_status.rs\<close>, \<^verbatim>\<open>report_task_blocker.rs\<close> and \<^verbatim>\<open>add_task_comment.rs\<close> of
  \<^verbatim>\<open>src/application/use_cases\<close>, whole: lookup, policy, the operation of the aggregate, the guarded
  write, the history entry and the notifications, in the order of the code and over a store whose
  every statement may fail.
\<close>

record task_status_summary =
  ts_task_uid :: uuid
  ts_public_code :: utext
  ts_status :: task_status
  ts_message :: utext

definition task_not_found :: "uuid \<Rightarrow> app_error" where
  "task_not_found uid =
     not_found ''TASK_NOT_FOUND'' (ascii ''Task was not found'') (JObj [(''task_uid'', JUuid uid)])"

text \<open>A notification as the use cases build it: pending, unsent, unread, never attempted.\<close>

definition pending_notification ::
  "row_id option \<Rightarrow> row_id \<Rightarrow> notification_type \<Rightarrow> utext \<Rightarrow> utext \<Rightarrow> instant \<Rightarrow> notification" where
  "pending_notification task_id recipient ntype message key at =
     \<lparr> n_id = None, n_task_id = task_id, n_recipient_user_id = recipient,
       n_notification_type = ntype, n_message = message, n_dedupe_key = key,
       n_telegram_message_id = None, n_delivery_state = DeliveryPending, n_is_sent = False,
       n_is_read = False, n_attempt_count = 0, n_sent_at = None, n_read_at = None,
       n_next_attempt_at = None, n_last_error_code = None, n_created_at = at \<rparr>"

text \<open>\<^verbatim>\<open>[Some(created_by), assigned_to].into_iter().flatten()\<close>\<close>

definition participants :: "task \<Rightarrow> row_id list" where
  "participants t = t_created_by_user_id t
     # (case t_assigned_to_user_id t of None \<Rightarrow> [] | Some u \<Rightarrow> [u])"

subsection \<open>Changing the status\<close>

definition audit_action_for_status :: "task_status \<Rightarrow> audit_action" where
  "audit_action_for_status s = (if s = InReview then AuditReviewRequested else AuditStatusChanged)"

fun notification_type_for_status :: "task_status \<Rightarrow> notification_type" where
  "notification_type_for_status Completed = TaskCompleted"
| "notification_type_for_status Cancelled = TaskCancelled"
| "notification_type_for_status InReview = TaskReviewRequested"
| "notification_type_for_status Blocked = TaskBlocked"
| "notification_type_for_status Created = TaskUpdated"
| "notification_type_for_status Sent = TaskUpdated"
| "notification_type_for_status InProgress = TaskUpdated"

definition build_status_message :: "task_status \<Rightarrow> task_status \<Rightarrow> utext" where
  "build_status_message previous next_status =
     (if next_status = InReview then txt_sent_for_review else txt_status_updated)
       @ ascii (show_status previous) @ ascii '' -> '' @ ascii (show_status next_status)"

fun build_participant_notification :: "task \<Rightarrow> task_status \<Rightarrow> utext" where
  "build_participant_notification t InReview = txt_task_quote @ t_title t @ txt_ready_for_review"
| "build_participant_notification t Completed = txt_task_quote @ t_title t @ txt_accepted"
| "build_participant_notification t Blocked = txt_by_task_quote @ t_title t @ txt_blocker_recorded"
| "build_participant_notification t Cancelled = txt_task_quote @ t_title t @ txt_cancelled"
| "build_participant_notification t s =
     txt_task_quote @ t_title t @ txt_now_in_status @ ascii (show_status s) @ ascii ''.''"

definition status_dedupe_key :: "utext \<Rightarrow> row_id \<Rightarrow> task_status \<Rightarrow> int \<Rightarrow> utext" where
  "status_dedupe_key uid_text recipient s version =
     ascii ''task_status:'' @ uid_text @ ascii '':'' @ show_int recipient @ ascii '':''
       @ ascii (show_status s) @ ascii '':'' @ show_int version"

definition log_status_change ::
  "row_id option \<Rightarrow> task \<Rightarrow> task_status \<Rightarrow> task_status \<Rightarrow> (world, unit) act" where
  "log_status_change actor_id t previous next_status =
     (case t_id t of
        None \<Rightarrow> fail (internal ''TASK_ID_MISSING''
          (ascii ''Task must have a database identifier before audit logging'')
          (JObj [(''task_uid'', JUuid (t_task_uid t))]))
      | Some task_id \<Rightarrow>
          tryA now_utc (\<lambda>at.
          tryA (append_audit \<lparr> al_id = None, al_task_id = task_id,
                  al_action = audit_action_for_status next_status,
                  al_old_status = Some (show_status previous),
                  al_new_status = Some (show_status next_status),
                  al_changed_by_user_id = actor_id, al_metadata = JObj [],
                  al_created_at = at \<rparr>) (\<lambda>_.
          ret ())))"

definition notify_status_participant ::
  "row_id option \<Rightarrow> task \<Rightarrow> task_status \<Rightarrow> row_id \<Rightarrow> (world, unit) act" where
  "notify_status_participant actor_id t next_status recipient =
     (if Some recipient = actor_id then ret ()
      else
        tryA (uuid_text (t_task_uid t)) (\<lambda>uid_text.
        tryA now_utc (\<lambda>at.
        tryA (enqueue (pending_notification (t_id t) recipient
               (notification_type_for_status next_status)
               (build_participant_notification t next_status)
               (status_dedupe_key uid_text recipient next_status (t_version t)) at)) (\<lambda>_.
        ret ()))))"

definition enqueue_participant_notifications ::
  "row_id option \<Rightarrow> task \<Rightarrow> task_status \<Rightarrow> (world, unit) act" where
  "enqueue_participant_notifications actor_id t next_status =
     forA (participants t) (notify_status_participant actor_id t next_status)"

definition update_task_status ::
  "user \<Rightarrow> uuid \<Rightarrow> task_status \<Rightarrow> (world, task_status_summary) act" where
  "update_task_status actor uid requested =
     tryA (find_by_uid uid) (\<lambda>found.
     case found of
       None \<Rightarrow> fail (task_not_found uid)
     | Some t \<Rightarrow>
         tryA (lift (normalize_requested_status actor t requested)) (\<lambda>next_status.
         tryA (lift (ensure_can_change_status actor t next_status)) (\<lambda>_.
         tryA now_utc (\<lambda>now.
         tryA (lift (transition_to t next_status now)) (\<lambda>updated.
         tryA (update_task updated) (\<lambda>saved.
         tryA (log_status_change (u_id actor) saved (t_status t) next_status) (\<lambda>_.
         tryA (enqueue_participant_notifications (u_id actor) saved next_status) (\<lambda>_.
         ret \<lparr> ts_task_uid = uid,
               ts_public_code = format_public_task_code_or_placeholder (t_id saved),
               ts_status = t_status saved,
               ts_message = build_status_message (t_status t) (t_status saved) \<rparr>))))))))"

subsection \<open>Reporting a blocker\<close>

definition log_blocker ::
  "row_id \<Rightarrow> row_id \<Rightarrow> string \<Rightarrow> utext \<Rightarrow> (world, unit) act" where
  "log_blocker task_id actor_id previous reason =
     tryA now_utc (\<lambda>at.
     tryA (append_audit \<lparr> al_id = None, al_task_id = task_id, al_action = AuditBlocked,
             al_old_status = Some previous, al_new_status = Some ''blocked'',
             al_changed_by_user_id = Some actor_id,
             al_metadata = JObj [(''reason'', JStr reason)], al_created_at = at \<rparr>) (\<lambda>_.
     ret ()))"

definition blocked_key :: "utext \<Rightarrow> row_id \<Rightarrow> int \<Rightarrow> utext" where
  "blocked_key uid recipient version =
     ascii ''task_blocked:'' @ uid @ ascii '':'' @ show_int recipient @ ascii '':'' @ show_int version"

definition notify_creator :: "task \<Rightarrow> utext \<Rightarrow> row_id \<Rightarrow> (world, unit) act" where
  "notify_creator t reason actor_id =
     (if t_created_by_user_id t = actor_id then ret ()
      else
        tryA (uuid_text (t_task_uid t)) (\<lambda>uid_text.
        tryA now_utc (\<lambda>at.
        tryA (enqueue (pending_notification (t_id t) (t_created_by_user_id t) TaskBlocked
               (txt_by_task_quote @ t_title t @ txt_has_blocker @ reason)
               (blocked_key uid_text (t_created_by_user_id t) (t_version t)) at)) (\<lambda>_.
        ret ()))))"

definition report_task_blocker ::
  "user \<Rightarrow> uuid \<Rightarrow> utext \<Rightarrow> (world, task_status_summary) act" where
  "report_task_blocker actor uid reason =
     (case u_id actor of
        None \<Rightarrow> fail (unauthenticated
          (ascii ''User must be registered before reporting a blocker'')
          (JObj [(''telegram_id'', JNum (u_telegram_id actor))]))
      | Some actor_id \<Rightarrow>
         tryA (find_by_uid uid) (\<lambda>found.
         case found of
           None \<Rightarrow> fail (task_not_found uid)
         | Some t \<Rightarrow>
             tryA (lift (ensure_can_report_blocker actor t)) (\<lambda>_.
             tryA now_utc (\<lambda>now.
             tryA (lift (apply_blocker t reason now)) (\<lambda>updated.
             tryA (update_task updated) (\<lambda>saved.
             tryA (lift (ok_or (internal ''TASK_ID_MISSING''
                      (ascii ''Task must have an identifier after blocker update'')
                      (JObj [(''task_uid'', JUuid uid)])) (t_id saved))) (\<lambda>task_id.
             tryA now_utc (\<lambda>commented_at.
             tryA (lift (new_comment task_id actor_id BlockerComment reason commented_at)) (\<lambda>comment.
             tryA (create_comment comment) (\<lambda>stored.
             tryA (log_blocker task_id actor_id (show_status (t_status t)) (c_body stored)) (\<lambda>_.
             tryA (notify_creator saved (c_body stored) actor_id) (\<lambda>_.
             ret \<lparr> ts_task_uid = uid,
                   ts_public_code = format_public_task_code_or_placeholder (t_id saved),
                   ts_status = t_status saved, ts_message = txt_blocker_saved \<rparr>))))))))))))"

subsection \<open>Adding a comment\<close>

definition log_comment :: "row_id \<Rightarrow> row_id \<Rightarrow> utext \<Rightarrow> (world, unit) act" where
  "log_comment task_id actor_id body =
     tryA now_utc (\<lambda>at.
     tryA (append_audit \<lparr> al_id = None, al_task_id = task_id, al_action = AuditCommented,
             al_old_status = None, al_new_status = None, al_changed_by_user_id = Some actor_id,
             al_metadata = JObj [(''preview'', JStr body)], al_created_at = at \<rparr>) (\<lambda>_.
     ret ()))"

definition notify_comment_participant ::
  "row_id \<Rightarrow> task \<Rightarrow> utext \<Rightarrow> row_id option \<Rightarrow> row_id \<Rightarrow> (world, unit) act" where
  "notify_comment_participant actor_id t body comment_id recipient =
     (if recipient = actor_id then ret ()
      else
        tryA (uuid_text (t_task_uid t)) (\<lambda>uid_text.
        tryA now_utc (\<lambda>at.
        tryA (enqueue (pending_notification (t_id t) recipient TaskUpdated
               (txt_new_comment @ t_title t @ txt_quote_colon @ body)
               (ascii ''task_comment:'' @ uid_text @ ascii '':'' @ show_int recipient
                 @ ascii '':'' @ show_int (case comment_id of Some i \<Rightarrow> i | None \<Rightarrow> 0)) at)) (\<lambda>_.
        ret ()))))"

definition notify_other_side ::
  "row_id \<Rightarrow> task \<Rightarrow> utext \<Rightarrow> row_id option \<Rightarrow> (world, unit) act" where
  "notify_other_side actor_id t body comment_id =
     forA (participants t) (notify_comment_participant actor_id t body comment_id)"

definition add_task_comment :: "user \<Rightarrow> uuid \<Rightarrow> utext \<Rightarrow> (world, utext) act" where
  "add_task_comment actor uid body =
     (case u_id actor of
        None \<Rightarrow> fail (unauthenticated
          (ascii ''User must be registered before commenting on a task'')
          (JObj [(''telegram_id'', JNum (u_telegram_id actor))]))
      | Some actor_id \<Rightarrow>
         tryA (find_by_uid uid) (\<lambda>found.
         case found of
           None \<Rightarrow> fail (task_not_found uid)
         | Some t \<Rightarrow>
             tryA (lift (ensure_can_comment actor t)) (\<lambda>_.
             case t_id t of
               None \<Rightarrow> fail (internal ''TASK_ID_MISSING''
                 (ascii ''Task must have an identifier before creating comments'')
                 (JObj [(''task_uid'', JUuid uid)]))
             | Some task_id \<Rightarrow>
                 tryA now_utc (\<lambda>at.
                 tryA (lift (new_comment task_id actor_id ContextComment body at)) (\<lambda>comment.
                 tryA (create_comment comment) (\<lambda>stored.
                 tryA (log_comment task_id actor_id (c_body stored)) (\<lambda>_.
                 tryA (notify_other_side actor_id t (c_body stored) (c_id stored)) (\<lambda>_.
                 ret txt_comment_added))))))))"

subsection \<open>What the pieces do\<close>

lemma find_by_uid_Inr:
  "find_by_uid uid w = (Inr r, w') \<Longrightarrow> w' = w\<lparr> w_faults := tl (w_faults w) \<rparr> \<and> task_at w uid = r"
  by (auto simp: find_by_uid_def select_Inr task_at_def)

lemma obeys_find_by_uid: "obeys same_tables (find_by_uid uid)"
  unfolding find_by_uid_def by (rule same_tables.select)

lemmas act_cases = obeys_if obeys_option obeys_prod

lemma appends_log_status: "obeys appends_records (log_status_change a t p n)"
  unfolding log_status_change_def by (intro appends_rules act_cases)

text \<open>A notification of a status change reaches participants other than the actor only.\<close>

definition status_notice :: "row_id option \<Rightarrow> task \<Rightarrow> task_status \<Rightarrow> notification \<Rightarrow> bool" where
  "status_notice actor_id t s n \<longleftrightarrow>
     n_recipient_user_id n \<in> set (participants t) \<and> Some (n_recipient_user_id n) \<noteq> actor_id
     \<and> n_notification_type n = notification_type_for_status s \<and> n_task_id n = t_id t
     \<and> n_delivery_state n = DeliveryPending \<and> n_attempt_count n = 0
     \<and> n_message n = build_participant_notification t s"

lemma adds_notify_status:
  "r \<in> set (participants t) \<Longrightarrow>
     obeys (adds_notifications (status_notice a t n)) (notify_status_participant a t n r)"
  unfolding notify_status_participant_def
  by (intro adds.store_rules adds_enqueue act_cases)
     (auto simp: status_notice_def pending_notification_def)

lemma forA_obeys:
  assumes "frame R" "\<And>x. x \<in> set xs \<Longrightarrow> obeys R (f x)"
  shows "obeys R (forA xs f)"
  using assms(2) by (induction xs) (auto intro: frame.ret[OF assms(1)] frame.tryA[OF assms(1)])

lemma adds_participant_notifications:
  "obeys (adds_notifications (status_notice a t n)) (enqueue_participant_notifications a t n)"
  unfolding enqueue_participant_notifications_def
  by (rule forA_obeys[OF adds.frame_axioms adds_notify_status])

lemma appends_participant_notifications:
  "obeys appends_records (enqueue_participant_notifications a t n)"
  using adds_participant_notifications appends_of_adds by (rule obeys_weaken)

lemma appends_log_blocker: "obeys appends_records (log_blocker i a p r)"
  unfolding log_blocker_def by (intro appends_rules)

lemma appends_notify_creator: "obeys appends_records (notify_creator t r a)"
  unfolding notify_creator_def by (intro appends_rules act_cases)

lemma appends_log_comment: "obeys appends_records (log_comment i a b)"
  unfolding log_comment_def by (intro appends_rules)

lemma appends_notify_other: "obeys appends_records (notify_other_side a t b c)"
  unfolding notify_other_side_def notify_comment_participant_def
  by (intro appends_rules act_cases)

lemma participant_notified:
  assumes "enqueue_participant_notifications a t s w = (Inr u, w')" "p \<in> set (participants t)"
    "Some p \<noteq> a"
  shows "notification_for w' (status_dedupe_key (env_uuid_text (w_env w) (t_task_uid t)) p s
           (t_version t)) \<noteq> None"
proof -
  have any: "obeys (adds_notifications (\<lambda>_. True)) (notify_status_participant a t s r)" for r
    unfolding notify_status_participant_def by (intro adds.store_rules adds_enqueue act_cases) simp
  obtain w1 w2 where w12: "notify_status_participant a t s p w1 = (Inr (), w2)"
    "adds_notifications (\<lambda>_. True) w w1" "adds_notifications (\<lambda>_. True) w2 w'"
    using adds.forA_each[OF any assms(1)[unfolded enqueue_participant_notifications_def] assms(2)]
    by blast
  have "w_env w1 = w_env w" using w12(2) by (simp add: adds_notifications_def)
  with w12(1) assms(3) have "notification_for w2 (status_dedupe_key
      (env_uuid_text (w_env w) (t_task_uid t)) p s (t_version t)) \<noteq> None"
    by (auto simp: notify_status_participant_def act_elims pending_notification_def
        dest!: enqueue_Inr(1))
  then show ?thesis using notification_kept[OF w12(3)] by auto
qed

lemma log_status_change_Inr:
  assumes "log_status_change a t p n w = (Inr u, w')"
  shows "\<exists>e i. t_id t = Some i \<and> w_history w' = w_history w @ [e]
    \<and> al_task_id e = i \<and> al_action e = audit_action_for_status n
    \<and> al_old_status e = Some (show_status p) \<and> al_new_status e = Some (show_status n)
    \<and> al_changed_by_user_id e = a \<and> w_notifications w' = w_notifications w
    \<and> w_tasks w' = w_tasks w \<and> w_env w' = w_env w"
proof -
  have "appends_records w w'" using obeysD[OF appends_log_status assms] .
  then have "w_env w' = w_env w" by (simp add: appends_records_def)
  then show ?thesis
    using assms by (auto simp: log_status_change_def act_elims split: option.splits
        dest!: append_audit_Inr)
qed

text \<open>A write of the task read just before.\<close>

lemma update_after_read:
  assumes "tasks_ok w" "task_at w uid = Some t" "task_step now t t'"
    "t_version t' = t_version t + 1" "update_task t' w = (Inr r, w')"
  shows "r = t' \<and> task_at w' = (task_at w)(uid \<mapsto> t')"
proof -
  have "t_task_uid t = uid" using task_at_uid[OF assms(2)] by simp
  then show ?thesis using sqlite_tasks.write_current[OF assms(1) _ assms(3-5)] assms(2) by simp
qed

lemma log_status_change_errors:
  "log_status_change a t p n w = (Inl e, w') \<Longrightarrow> t_id t \<noteq> None \<Longrightarrow>
     err_code e = ''DATABASE_OPERATION_FAILED''"
  using db_errorsD[OF db_errors_append_audit]
  by (auto simp: log_status_change_def act_elims split: option.splits)

lemma notify_errors: "db_errors_only (enqueue_participant_notifications a t n)"
  unfolding enqueue_participant_notifications_def notify_status_participant_def
  by (intro record_db_errors)

lemma task_at_tables: "w_tasks w' = w_tasks w \<Longrightarrow> task_at w' = task_at w"
  by (simp add: task_at_def fun_eq_iff)

lemma stored_id: "tasks_ok w \<Longrightarrow> task_at w uid = Some t \<Longrightarrow> t_id t \<noteq> None"
  by (auto simp: task_at_iff tasks_ok_def)

lemma same_tables_bookkeeping [simp]:
  "same_tables w (w\<lparr> w_faults := f \<rparr>)" "same_tables w (w\<lparr> w_ticks := i \<rparr>)"
  "same_tables w (w\<lparr> w_faults := f, w_ticks := i \<rparr>)"
  "same_tables w (w\<lparr> w_ticks := i, w_faults := f \<rparr>)"
  by (simp_all add: same_tables_def)

lemma task_at_same: "same_tables w w' \<Longrightarrow> task_at w' = task_at w"
  by (rule task_at_tables) (simp add: same_tables_def)

lemma tasks_ok_same: "w_tasks w' = w_tasks w \<Longrightarrow> tasks_ok w' = tasks_ok w"
  by (simp add: tasks_ok_def)

subsection \<open>Properties of the status change\<close>

text \<open>C12. A successful status change moves exactly the addressed task, by one transition the
  review gate and the policy granted to the actor for the task as stored; it writes one history
  entry with the old and the new status and the actor, and leaves a notification for every
  participant other than the actor and for nobody else.\<close>

theorem status_change_success:
  assumes "tasks_ok w" "update_task_status actor uid requested w = (Inr summary, w')"
  shows "\<exists>t t' s now e new.
      task_at w uid = Some t \<and> normalize_requested_status actor t requested = Inr s
      \<and> ensure_can_change_status actor t s = Inr () \<and> transition_to t s now = Inr t'
      \<and> task_at w' = (task_at w)(uid \<mapsto> t') \<and> ts_status summary = s
      \<and> w_history w' = w_history w @ [e] \<and> Some (al_task_id e) = t_id t
      \<and> al_old_status e = Some (show_status (t_status t)) \<and> al_new_status e = Some (show_status s)
      \<and> al_changed_by_user_id e = u_id actor
      \<and> w_notifications w' = w_notifications w @ new
      \<and> list_all (status_notice (u_id actor) t' s) new
      \<and> (\<forall>p \<in> set (participants t'). Some p \<noteq> u_id actor \<longrightarrow>
           notification_for w' (status_dedupe_key (env_uuid_text (w_env w) uid) p s (t_version t'))
             \<noteq> None)"
proof -
  from assms(2) obtain t s t' saved w1 now w2 w3 where
    find: "find_by_uid uid w = (Inr (Some t), w1)"
    and norm: "normalize_requested_status actor t requested = Inr s"
    and auth: "ensure_can_change_status actor t s = Inr ()"
    and tr: "transition_to t s now = Inr t'"
    and upd: "update_task t' (w1\<lparr> w_ticks := Suc (w_ticks w1) \<rparr>) = (Inr saved, w2)"
    and log: "log_status_change (u_id actor) saved (t_status t) s w2 = (Inr (), w3)"
    and notify: "enqueue_participant_notifications (u_id actor) saved s w3 = (Inr (), w')"
    and summary: "ts_status summary = t_status saved"
    by (auto simp: update_task_status_def act_elims split: option.splits)
  have w1: "w1 = w\<lparr> w_faults := tl (w_faults w) \<rparr>" and t: "task_at w uid = Some t"
    using find_by_uid_Inr[OF find] by auto
  let ?w = "w1\<lparr> w_ticks := Suc (w_ticks w1) \<rparr>"
  have eq: "task_at ?w = task_at w" "tasks_ok ?w" using assms(1) w1 by (simp_all add: task_at_def
      tasks_ok_def fun_eq_iff)
  have step: "task_step now t t'" "t_version t' = t_version t + 1"
    using tr transition_fields(3) step_transition by blast+
  have saved: "saved = t'" "task_at w2 = (task_at w)(uid \<mapsto> t')"
    using update_after_read[OF eq(2) _ step upd] t eq(1) by auto
  have kept: "w_history w2 = w_history w" "w_notifications w2 = w_notifications w"
    "w_env w2 = w_env w"
    using update_task_Inr[OF upd] w1 by auto
  obtain e where e: "Some (al_task_id e) = t_id t'" "w_history w3 = w_history w @ [e]"
    "al_old_status e = Some (show_status (t_status t))" "al_new_status e = Some (show_status s)"
    "al_changed_by_user_id e = u_id actor" "w_notifications w3 = w_notifications w"
    "w_tasks w3 = w_tasks w2" "w_env w3 = w_env w"
    using log_status_change_Inr[OF log] saved(1) kept by fastforce
  have adds: "adds_notifications (status_notice (u_id actor) t' s) w3 w'"
    using obeysD[OF adds_participant_notifications notify] saved(1) by simp
  have "w_tasks w' = w_tasks w2" using adds e(7) by (simp add: adds_notifications_def)
  then have "task_at w' = (task_at w)(uid \<mapsto> t')"
    using saved(2) task_at_tables by metis
  moreover have "t_id t' = t_id t" "t_task_uid t' = uid" "t_status t' = s"
    using transition_fields[OF tr] task_at_uid[OF t] by auto
  moreover have "\<forall>p \<in> set (participants t'). Some p \<noteq> u_id actor \<longrightarrow>
      notification_for w' (status_dedupe_key (env_uuid_text (w_env w) uid) p s (t_version t'))
        \<noteq> None"
    using participant_notified[OF notify] saved(1) e(8) \<open>t_task_uid t' = uid\<close> by auto
  moreover obtain new where "w_notifications w' = w_notifications w @ new"
    "list_all (status_notice (u_id actor) t' s) new" "w_history w' = w_history w @ [e]"
    using adds e by (auto simp: adds_notifications_def)
  ultimately show ?thesis using t norm auth tr e summary saved(1) by metis
qed

text \<open>A run on the sample database: the assignee starts the task.\<close>

definition sample_status_run :: "task_status_summary result \<times> world" where
  "sample_status_run = update_task_status sample_user 1 InProgress sample_world"

lemma sample_started_again: "transition_to sample_task InProgress 5 = Inr
    (sample_started\<lparr> t_updated_at := 5, t_started_at := Some 5 \<rparr>)"
  by (simp add: transition_to_def sample_started_def)

lemma sample_gates:
  "normalize_requested_status sample_user sample_task InProgress = Inr InProgress"
  "ensure_can_change_status sample_user sample_task InProgress = Inr ()"
  by (simp_all add: normalize_ok_iff change_status_ok_iff assignee_can_change_status_def)

lemma sample_status_ok: "\<exists>s w'. sample_status_run = (Inr s, w')"
  by (simp add: sample_status_run_def update_task_status_def find_by_uid_def run_simps
      sample_gates sample_env_def sample_started_again update_task_def update_matches_def
      task_references_def references_def has_id_def update_where_def write_columns_def
      log_status_change_def append_audit_def Let_def enqueue_participant_notifications_def
      participants_def notify_status_participant_def sample_started_def pending_notification_def
      enqueue_def dedupe_clash_def)

theorem status_change_success_witness:
  "\<exists>t'. task_at (snd sample_status_run) 1 = Some t' \<and> t_status t' = InProgress"
proof -
  obtain s w' where run: "update_task_status sample_user 1 InProgress sample_world = (Inr s, w')"
    using sample_status_ok by (auto simp: sample_status_run_def)
  have "normalize_requested_status sample_user sample_task InProgress = Inr InProgress"
    by (simp add: normalize_ok_iff)
  then show ?thesis
    using status_change_success[OF sample_ok(1) run] run transition_fields(2)
    by (fastforce simp: sample_status_run_def task_at_def)
qed

text \<open>The half of a status change that reads and decides, before anything is written.\<close>

definition decide_status ::
  "user \<Rightarrow> uuid \<Rightarrow> task_status \<Rightarrow> (world, task \<times> task_status \<times> task) act" where
  "decide_status actor uid requested =
     tryA (find_by_uid uid) (\<lambda>found.
     case found of
       None \<Rightarrow> fail (task_not_found uid)
     | Some t \<Rightarrow>
         tryA (lift (normalize_requested_status actor t requested)) (\<lambda>s.
         tryA (lift (ensure_can_change_status actor t s)) (\<lambda>_.
         tryA now_utc (\<lambda>now.
         tryA (lift (transition_to t s now)) (\<lambda>updated.
         ret (t, s, updated))))))"

lemma update_task_status_split:
  "update_task_status actor uid requested =
     tryA (decide_status actor uid requested) (\<lambda>(t, s, updated).
     tryA (update_task updated) (\<lambda>saved.
     tryA (log_status_change (u_id actor) saved (t_status t) s) (\<lambda>_.
     tryA (enqueue_participant_notifications (u_id actor) saved s) (\<lambda>_.
     ret \<lparr> ts_task_uid = uid,
           ts_public_code = format_public_task_code_or_placeholder (t_id saved),
           ts_status = t_status saved,
           ts_message = build_status_message (t_status t) (t_status saved) \<rparr>))))"
  unfolding update_task_status_def decide_status_def by (simp only: regroup prod.case)

lemma decide_reads: "obeys same_tables (decide_status actor uid requested)"
  unfolding decide_status_def find_by_uid_def by (intro same_tables.store_rules act_cases)

lemma decide_status_Inr:
  "decide_status actor uid requested w = (Inr (t, s, t'), w1) \<Longrightarrow>
     task_at w uid = Some t \<and> normalize_requested_status actor t requested = Inr s
     \<and> ensure_can_change_status actor t s = Inr () \<and> (\<exists>now. transition_to t s now = Inr t')"
  by (auto simp: decide_status_def act_elims split: option.splits dest!: find_by_uid_Inr)

subsection \<open>On a database that answers\<close>

text \<open>
  The converse of the gates: with its foreign keys in order and no failure, a change the policy grants
  comes through. \<open>at_rest\<close> is what one statement leaves for the next.
\<close>

definition keys_resolve :: "user \<Rightarrow> task \<Rightarrow> world \<Rightarrow> bool" where
  "keys_resolve actor t w \<longleftrightarrow> task_references t w \<and> references u_id (u_id actor) (w_users w)
     \<and> list_all (\<lambda>i. has_id u_id i (w_users w)) (participants t)"

definition at_rest :: "world \<Rightarrow> world \<Rightarrow> bool" where
  "at_rest w w' \<longleftrightarrow> w_faults w' = [] \<and> w_users w' = w_users w \<and> map t_id (w_tasks w') = map t_id (w_tasks w)"

lemma at_rest_trans: "at_rest w v \<Longrightarrow> at_rest v w' \<Longrightarrow> at_rest w w'"
  by (simp add: at_rest_def)

lemma has_id_map: "has_id k i rows \<longleftrightarrow> Some i \<in> set (map k rows)"
  by (auto simp: has_id_def list_ex_iff image_iff) metis

lemma update_task_answers:
  assumes "tasks_ok w" "w_faults w = []" "task_at w uid = Some t" "task_step now t t'"
    "t_version t' = t_version t + 1" "task_references t' w"
  obtains w' where "update_task t' w = (Inr t', w')" "at_rest w w'"
proof -
  have t: "t \<in> set (w_tasks w)" "t_task_uid t = uid" using assms(3) by (auto simp: task_at_def dest: find_SomeD)
  have "update_matches t' t" using task_step_content[OF assms(4)] assms(5) by (simp add: update_matches_def same_content_def)
  then obtain old where old: "find (update_matches t') (w_tasks w) = Some old"
    using t(1) by (cases "find (update_matches t') (w_tasks w)") (auto simp: find_None_iff)
  then obtain r w' where run: "update_task t' w = (Inr r, w')" "w_faults w' = []" "w_users w' = w_users w"
    "w_tasks w' = update_where (update_matches t') (write_columns t') (w_tasks w)"
    using assms(2,6) by (simp add: update_task_def run_simps)
  moreover have "r = t'" using update_after_read[OF assms(1,3,4,5) run(1)] by simp
  moreover have "map t_id (w_tasks w') = map t_id (w_tasks w)"
    unfolding run(4) by (simp add: update_where_def)
  ultimately show ?thesis using that by (simp add: at_rest_def)
qed

lemma log_status_answers:
  assumes "w_faults w = []" "t_id t = Some i" "has_id t_id i (w_tasks w)" "references u_id a (w_users w)"
  obtains w' where "log_status_change a t p s w = (Inr (), w')" "at_rest w w'"
proof -
  have "\<exists>w'. log_status_change a t p s w = (Inr (), w') \<and> at_rest w w'"
    using assms by (simp add: log_status_change_def run_simps append_audit_def Let_def at_rest_def)
  then show ?thesis using that by blast
qed

lemma enqueue_answers:
  assumes "w_faults w = []" "references t_id (n_task_id n) (w_tasks w)" "has_id u_id (n_recipient_user_id n) (w_users w)"
  obtains r w' where "enqueue n w = (Inr r, w')" "at_rest w w'"
proof -
  have "\<exists>r. find (\<lambda>r. n_dedupe_key r = n_dedupe_key n) ns = Some r" if "dedupe_clash n ns" for ns
    using that by (cases "find (\<lambda>r. n_dedupe_key r = n_dedupe_key n) ns")
      (auto simp: dedupe_clash_def list_ex_iff find_None_iff)
  moreover have "\<exists>r. find (\<lambda>r. n_dedupe_key r = n_dedupe_key n) (ns @ [n\<lparr> n_id := j \<rparr>]) = Some r" for ns j
    by (cases "find (\<lambda>r. n_dedupe_key r = n_dedupe_key n) (ns @ [n\<lparr> n_id := j \<rparr>])")
      (auto simp: find_None_iff)
  ultimately have "\<exists>r w'. enqueue n w = (Inr r, w') \<and> at_rest w w'"
    using assms by (cases "dedupe_clash n (w_notifications w)") (fastforce simp: enqueue_def run_simps at_rest_def)+
  then show ?thesis using that by blast
qed

lemma notify_participants_answers:
  assumes "w_faults w = []" "t_id t = Some i" "has_id t_id i (w_tasks w)" "list_all (\<lambda>i. has_id u_id i (w_users w)) is"
  obtains w' where "forA is (notify_status_participant a t s) w = (Inr (), w')" "at_rest w w'"
proof -
  have "\<exists>w'. forA is (notify_status_participant a t s) w = (Inr (), w') \<and> at_rest w w'"
    using assms
  proof (induction "is" arbitrary: w)
    case Nil
    then show ?case by (simp add: ret_def at_rest_def)
  next
    case (Cons p ps)
    have "\<exists>w1. notify_status_participant a t s p w = (Inr (), w1) \<and> at_rest w w1"
    proof (cases "Some p = a")
      case True
      then show ?thesis using Cons.prems by (simp add: notify_status_participant_def ret_def at_rest_def)
    next
      case False
      let ?n = "\<lambda>at. pending_notification (t_id t) p (notification_type_for_status s)
        (build_participant_notification t s)
        (status_dedupe_key (env_uuid_text (w_env w) (t_task_uid t)) p s (t_version t)) at"
      let ?v = "w\<lparr> w_ticks := Suc (w_ticks w) \<rparr>"
      obtain r w1 where "enqueue (?n (env_clock (w_env w) (w_ticks w))) ?v = (Inr r, w1)" "at_rest ?v w1"
        by (rule enqueue_answers[of ?v "?n (env_clock (w_env w) (w_ticks w))"])
          (use Cons.prems in \<open>simp_all add: pending_notification_def references_def\<close>)
      with False show ?thesis by (simp add: notify_status_participant_def run_simps at_rest_def)
    qed
    then obtain w1 where one: "notify_status_participant a t s p w = (Inr (), w1)" "at_rest w w1" by blast
    moreover have "\<exists>w'. forA ps (notify_status_participant a t s) w1 = (Inr (), w') \<and> at_rest w1 w'"
      using Cons.prems one(2) by (intro Cons.IH) (simp_all add: at_rest_def has_id_map)
    ultimately show ?case by (auto simp: tryA_def intro: at_rest_trans)
  qed
  then show ?thesis using that by blast
qed

lemma status_change_answers:
  assumes ok: "tasks_ok w" "w_faults w = []" and t: "task_at w uid = Some t" and keys: "keys_resolve actor t w"
    and gates: "normalize_requested_status actor t requested = Inr s" "ensure_can_change_status actor t s = Inr ()"
      "can_transition_to (t_status t) s"
  shows "\<exists>summary w'. update_task_status actor uid requested w = (Inr summary, w') \<and> ts_status summary = s"
proof -
  let ?now = "env_clock (w_env w) (w_ticks w)" and ?w = "w\<lparr> w_ticks := Suc (w_ticks w) \<rparr>"
  obtain t' where tr: "transition_to t s ?now = Inr t'" using gates(3) transition_ok_iff by blast
  have step: "task_step ?now t t'" "t_version t' = t_version t + 1"
    using tr transition_fields(3) step_transition by blast+
  have same: "t_id t' = t_id t" "t_assigned_to_user_id t' = t_assigned_to_user_id t"
    "t_assigned_to_employee_id t' = t_assigned_to_employee_id t" "t_created_by_user_id t' = t_created_by_user_id t"
    "t_status t' = s"
    using transition_fields[OF tr] by auto
  have row: "t \<in> set (w_tasks w)" using t by (auto simp: task_at_def dest: find_SomeD)
  then obtain i where i: "t_id t = Some i" using ok(1) by (auto simp: tasks_ok_def)
  have at: "task_at ?w = task_at w" "tasks_ok ?w" using ok(1) by (simp_all add: task_at_def tasks_ok_def fun_eq_iff)
  obtain w1 where w1: "update_task t' ?w = (Inr t', w1)" "at_rest ?w w1"
    by (rule update_task_answers[OF at(2) _ _ step])
      (use ok(2) t keys same at in \<open>simp_all add: keys_resolve_def task_references_def\<close>)
  have known: "has_id t_id i (w_tasks w1)" "list_all (\<lambda>i. has_id u_id i (w_users w1)) (participants t')"
    "references u_id (u_id actor) (w_users w1)"
    using w1(2) image_eqI[of "Some i" t_id t, OF i[symmetric] row] keys same
    by (simp_all add: at_rest_def has_id_map keys_resolve_def participants_def)
  obtain w2 where w2: "log_status_change (u_id actor) t' (t_status t) s w1 = (Inr (), w2)" "at_rest w1 w2"
    by (rule log_status_answers[where t = t', OF _ _ known(1,3)]) (use w1(2) i same in \<open>simp_all add: at_rest_def\<close>)
  obtain w3 where "enqueue_participant_notifications (u_id actor) t' s w2 = (Inr (), w3)"
    unfolding enqueue_participant_notifications_def
    by (rule notify_participants_answers[of w2 t' i "participants t'"])
      (use w2(2) known i same in \<open>simp_all add: at_rest_def has_id_map\<close>)
  moreover have "find_by_uid uid w = (Inr (Some t), w)"
    using t ok(2) by (simp add: find_by_uid_def select_no_faults task_at_def)
  ultimately show ?thesis
    using gates(1,2) tr w1(1) w2(1) same(5) by (simp add: update_task_status_def tryA_def lift_def now_utc_def ret_def)
qed

text \<open>C13. A failed status change that is not a database failure leaves every table as it was;
  and whatever the failure, the tasks table is either unchanged or holds exactly the transition
  the policy granted to the actor.\<close>

theorem status_change_failure:
  assumes "tasks_ok w" "update_task_status actor uid requested w = (Inl e, w')"
  shows "(err_code e \<noteq> ''DATABASE_OPERATION_FAILED'' \<longrightarrow> same_tables w w')
    \<and> (task_at w' = task_at w
       \<or> (\<exists>t t' s now. task_at w uid = Some t
            \<and> normalize_requested_status actor t requested = Inr s
            \<and> ensure_can_change_status actor t s = Inr () \<and> transition_to t s now = Inr t'
            \<and> task_at w' = (task_at w)(uid \<mapsto> t')))"
proof -
  consider (unchanged) "same_tables w w'"
    | (written) t s now t' v saved w2 where "task_at w uid = Some t"
      "normalize_requested_status actor t requested = Inr s"
      "ensure_can_change_status actor t s = Inr ()" "transition_to t s now = Inr t'"
      "same_tables w v" "update_task t' v = (Inr saved, w2)"
      "log_status_change (u_id actor) saved (t_status t) s w2 = (Inl e, w')
        \<or> (\<exists>w3. log_status_change (u_id actor) saved (t_status t) s w2 = (Inr (), w3)
             \<and> enqueue_participant_notifications (u_id actor) saved s w3 = (Inl e, w'))"
  proof -
    consider (decide) "decide_status actor uid requested w = (Inl e, w')"
      | (update) t s t' v where "decide_status actor uid requested w = (Inr (t, s, t'), v)"
        "update_task t' v = (Inl e, w')"
      | (later) t s t' v saved w2 where "decide_status actor uid requested w = (Inr (t, s, t'), v)"
        "update_task t' v = (Inr saved, w2)"
        "log_status_change (u_id actor) saved (t_status t) s w2 = (Inl e, w')
        \<or> (\<exists>w3. log_status_change (u_id actor) saved (t_status t) s w2 = (Inr (), w3)
             \<and> enqueue_participant_notifications (u_id actor) saved s w3 = (Inl e, w'))"
      using assms(2) unfolding update_task_status_split by (auto simp: act_elims)
    then show ?thesis
    proof cases
      case decide
      then show ?thesis using that(1) obeysD[OF decide_reads] by blast
    next
      case update
      have "same_tables v w'" using update_task_Inl[OF update(2)] by simp
      then show ?thesis
        using that(1) obeysD[OF decide_reads update(1)] same_tables.trans by blast
    next
      case later
      obtain now where "transition_to t s now = Inr t'"
        using decide_status_Inr[OF later(1)] by blast
      with that(2)[of t s now t' v saved w2] show ?thesis
        using decide_status_Inr[OF later(1)] obeysD[OF decide_reads later(1)] later(2,3) by simp
    qed
  qed
  then show ?thesis
  proof cases
    case unchanged
    then have "task_at w' = task_at w" using task_at_same by blast
    with unchanged show ?thesis by blast
  next
    case (written t s now t' v saved w2)
    have v: "task_at v = task_at w" "tasks_ok v"
      using written(5) assms(1) task_at_same tasks_ok_tables by blast+
    have step: "task_step now t t'" "t_version t' = t_version t + 1"
      using written(4) transition_fields(3) step_transition by blast+
    have saved: "saved = t'" "task_at w2 = (task_at w)(uid \<mapsto> t')"
      using update_after_read[OF v(2) _ step written(6)] v(1) written(1) by auto
    have "t_id saved \<noteq> None"
      using stored_id[OF assms(1) written(1)] transition_fields(5)[OF written(4)] saved(1) by simp
    then have code: "err_code e = ''DATABASE_OPERATION_FAILED''"
      using written(7) log_status_change_errors db_errorsD[OF notify_errors] by blast
    have "appends_records w2 w'"
      using written(7) obeysD[OF appends_log_status] obeysD[OF appends_participant_notifications]
        appends.trans by blast
    then have "w_tasks w' = w_tasks w2" by (simp add: appends_records_def)
    with code saved(2) written show ?thesis using task_at_tables by metis
  qed
qed

text \<open>A run that fails: the assignee of a task nobody has started asks for its completion.\<close>

lemma sample_failure:
  "\<exists>e w'. update_task_status sample_user 1 Completed sample_world = (Inl e, w')
     \<and> err_code e = ''TASK_TRANSITION_INVALID''"
proof -
  have "normalize_requested_status sample_user sample_task Completed = Inr InReview"
    "ensure_can_change_status sample_user sample_task InReview = Inr ()"
    by (simp_all add: normalize_ok_iff change_status_ok_iff review_required_def
        assignee_can_change_status_def)
  then show ?thesis
    by (simp add: update_task_status_def find_by_uid_def run_simps transition_to_def
        business_rule_def)
qed

theorem status_change_failure_witness:
  "same_tables sample_world (snd (update_task_status sample_user 1 Completed sample_world))"
  using sample_failure status_change_failure[OF sample_ok(1)] by fastforce

subsection \<open>The review gate\<close>

text \<open>Whatever a status change returns, the addressed task is as before or made the one transition the gates granted.\<close>

lemma status_change_moves:
  assumes "tasks_ok w" "update_task_status actor uid requested w = (r, w')"
  shows "task_at w' = task_at w
    \<or> (\<exists>t t' s now. task_at w uid = Some t \<and> normalize_requested_status actor t requested = Inr s
         \<and> ensure_can_change_status actor t s = Inr () \<and> transition_to t s now = Inr t'
         \<and> task_at w' = (task_at w)(uid \<mapsto> t'))"
proof -
  obtain q v where decide: "decide_status actor uid requested w = (q, v)" by fastforce
  have same: "same_tables w v" using obeysD[OF decide_reads decide] .
  then have v: "task_at v = task_at w" "tasks_ok v" using assms(1) task_at_same tasks_ok_tables by blast+
  show ?thesis
  proof (cases q)
    case (Inl e)
    with assms(2) decide v(1) show ?thesis by (auto simp: update_task_status_split tryA_def)
  next
    case (Inr d)
    obtain t s t' where d: "d = (t, s, t')" by (cases d)
    obtain now where granted: "task_at w uid = Some t" "normalize_requested_status actor t requested = Inr s"
      "ensure_can_change_status actor t s = Inr ()" "transition_to t s now = Inr t'"
      using decide_status_Inr decide Inr d by blast
    have step: "task_step now t t'" "t_version t' = t_version t + 1"
      using granted(4) transition_fields(3) step_transition by blast+
    obtain u w2 where wrote: "update_task t' v = (u, w2)" by fastforce
    show ?thesis
    proof (cases u)
      case (Inl e)
      with assms(2) decide Inr d wrote have "w' = w2" by (auto simp: update_task_status_split tryA_def)
      then have "same_tables v w'" using update_task_Inl[of t' v e w2] wrote Inl by (simp add: same_tables_def)
      then show ?thesis using v(1) task_at_same by metis
    next
      case (Inr saved)
      have "saved = t'" "task_at w2 = (task_at w)(uid \<mapsto> t')"
        using update_after_read[OF v(2) _ step] wrote Inr v(1) granted(1) by auto
      moreover have "obeys appends_records (tryA (log_status_change (u_id actor) saved (t_status t) s) (\<lambda>_.
          tryA (enqueue_participant_notifications (u_id actor) saved s) (\<lambda>_. ret x)))" for x :: task_status_summary
        by (intro appends_rules appends_log_status appends_participant_notifications)
      then have "appends_records w2 w'"
        using assms(2) decide \<open>q = Inr d\<close> d wrote Inr
        by (auto simp: update_task_status_split tryA_def[of "decide_status actor uid requested"]
            tryA_def[of "update_task t'"] dest: obeysD)
      then have "w_tasks w' = w_tasks w2" by (simp add: appends_records_def)
      ultimately show ?thesis using granted task_at_tables by metis
    qed
  qed
qed

lemma refused_status_change:
  assumes "w_faults w = []" "task_at w uid = Some t"
    "normalize_requested_status actor t requested = Inl e
     \<or> (\<exists>s. normalize_requested_status actor t requested = Inr s
          \<and> (ensure_can_change_status actor t s = Inl e \<or> ensure_can_change_status actor t s = Inr ()
               \<and> (\<exists>now. transition_to t s now = Inl e)))"
  shows "\<exists>w'. update_task_status actor uid requested w = (Inl e, w') \<and> same_tables w w'"
proof -
  have "find_by_uid uid w = (Inr (Some t), w)"
    using assms(1,2) by (simp add: find_by_uid_def select_no_faults task_at_def)
  moreover have "transition_to t s now' = Inl e" if "transition_to t s now = Inl e" for s now now'
    using that by (auto simp: transition_to_def split: if_splits)
  ultimately show ?thesis
    using assms(3) by (auto simp: update_task_status_def tryA_def lift_def now_utc_def same_tables_def)
qed

definition accepts_work :: "user \<Rightarrow> task \<Rightarrow> bool" where
  "accepts_work actor t \<longleftrightarrow> u_id actor = Some (t_created_by_user_id t) \<or> u_role actor \<noteq> User"

lemma completion_requested:
  "review_required t \<Longrightarrow> normalize_requested_status actor t Completed =
     (if \<not> accepts_work actor t then Inr InReview
      else if t_status t = InReview then Inr Completed
      else Inl (business_rule ''TASK_REVIEW_REQUIRED''
        (ascii ''Task must go through review before final completion'')
        (JObj [(''task_uid'', JUuid (t_task_uid t))])))"
  by (auto simp: normalize_requested_status_def accepts_work_def is_manager_or_admin_iff)

lemma reviewers_may_complete:
  "accepts_work actor t \<Longrightarrow> u_id actor \<noteq> None \<Longrightarrow> ensure_can_change_status actor t Completed = Inr ()"
  by (auto simp: accepts_work_def change_status_ok_iff creator_can_change_status_def manager_can_change_status_def)

lemma review_requests:
  "\<not> accepts_work actor t \<Longrightarrow> u_id actor \<noteq> None \<Longrightarrow>
     ensure_can_change_status actor t InReview = Inr () \<longleftrightarrow> t_assigned_to_user_id t = u_id actor"
  by (auto simp: accepts_work_def change_status_ok_iff assignee_can_change_status_def)

lemma into_review: "can_transition_to s InReview \<longleftrightarrow> s \<in> {Sent, InProgress, Blocked}"
  by (cases s) simp_all

lemma from_review: "can_transition_to s Completed \<longleftrightarrow> s = InReview"
  by (cases s) simp_all

text \<open>C18. The review gate, end to end. When somebody asks to complete a task that is assigned to somebody
  other than its creator, then whatever the database does the task becomes completed only out of review
  and at the hands of its creator, a manager or an administrator. On a database that answers, with its
  keys in order, these people complete a task in review and are told \<^verbatim>\<open>TASK_REVIEW_REQUIRED\<close> in any other
  status; the assignee's request for a sent, running or blocked task succeeds and puts the task into
  review; and every other request fails without a change to any table.\<close>

theorem review_gate:
  assumes "tasks_ok w" "task_at w uid = Some t" "review_required t"
    "update_task_status actor uid Completed w = (r, w')"
  shows "(\<forall>t'. task_at w' uid = Some t' \<and> t_status t' = Completed \<and> t_status t \<noteq> Completed \<longrightarrow>
            t_status t = InReview \<and> accepts_work actor t)
    \<and> (w_faults w = [] \<and> keys_resolve actor t w \<and> u_id actor \<noteq> None \<longrightarrow>
        (if accepts_work actor t then
           (if t_status t = InReview then \<exists>summary. r = Inr summary \<and> ts_status summary = Completed
            else (\<exists>e. r = Inl e \<and> err_code e = ''TASK_REVIEW_REQUIRED'') \<and> same_tables w w')
         else if t_assigned_to_user_id t = u_id actor \<and> t_status t \<in> {Sent, InProgress, Blocked} then
           \<exists>summary. r = Inr summary \<and> ts_status summary = InReview
         else (\<exists>e. r = Inl e) \<and> same_tables w w'))"
proof (intro conjI impI)
  note gate = completion_requested[OF assms(3), of actor]
  show "\<forall>t'. task_at w' uid = Some t' \<and> t_status t' = Completed \<and> t_status t \<noteq> Completed \<longrightarrow>
            t_status t = InReview \<and> accepts_work actor t"
    using status_change_moves[OF assms(1,4)] assms(2) gate
    by (auto dest: transition_fields(2) split: if_splits)
  assume answers: "w_faults w = [] \<and> keys_resolve actor t w \<and> u_id actor \<noteq> None"
  then have rest: "w_faults w = []" "keys_resolve actor t w" "u_id actor \<noteq> None" by simp_all
  note comes_through = status_change_answers[OF assms(1) rest(1) assms(2) rest(2), of Completed]
    and refused = refused_status_change[OF rest(1) assms(2), of actor Completed]
  show "if accepts_work actor t then
           (if t_status t = InReview then \<exists>summary. r = Inr summary \<and> ts_status summary = Completed
            else (\<exists>e. r = Inl e \<and> err_code e = ''TASK_REVIEW_REQUIRED'') \<and> same_tables w w')
         else if t_assigned_to_user_id t = u_id actor \<and> t_status t \<in> {Sent, InProgress, Blocked} then
           \<exists>summary. r = Inr summary \<and> ts_status summary = InReview
         else (\<exists>e. r = Inl e) \<and> same_tables w w'"
  proof (cases "accepts_work actor t")
    case True
    with gate reviewers_may_complete[OF True rest(3)] comes_through[of Completed] refused assms(4) show ?thesis
      by (auto simp: from_review business_rule_def)
  next
    case False
    show ?thesis
    proof (cases "t_assigned_to_user_id t = u_id actor \<and> t_status t \<in> {Sent, InProgress, Blocked}")
      case True
      with False gate review_requests[OF False rest(3)] comes_through[of InReview] assms(4) show ?thesis
        by (auto simp: into_review)
    next
      case blocked: False
      obtain e where "ensure_can_change_status actor t InReview = Inl e
          \<or> ensure_can_change_status actor t InReview = Inr () \<and> (\<exists>now. transition_to t InReview now = Inl e)"
      proof (cases "ensure_can_change_status actor t InReview")
        case (Inr x)
        then have "\<not> can_transition_to (t_status t) InReview"
          using blocked review_requests[OF False rest(3)] by (auto simp: into_review)
        then show ?thesis using that Inr by (simp add: transition_to_def)
      qed (use that in blast)
      with False gate refused assms(4) blocked show ?thesis by auto
    qed
  qed
qed

text \<open>On the sample database the assignee asks for the completion of the task once it runs.\<close>

theorem review_gate_witness:
  "\<exists>s w'. update_task_status sample_user 1 Completed (sample_world\<lparr> w_tasks := [sample_started] \<rparr>) = (Inr s, w')
     \<and> ts_status s = InReview"
proof -
  let ?w = "sample_world\<lparr> w_tasks := [sample_started] \<rparr>"
  obtain r w' where run: "update_task_status sample_user 1 Completed ?w = (r, w')" by fastforce
  have ok: "tasks_ok ?w" "task_at ?w 1 = Some sample_started" "review_required sample_started"
    by (simp_all add: tasks_ok_def task_at_def sample_started_def review_required_def)
  have rest: "w_faults ?w = []" "keys_resolve sample_user sample_started ?w" "u_id sample_user \<noteq> None"
    by (simp_all add: keys_resolve_def task_references_def references_def has_id_def participants_def
        sample_started_def)
  have "\<not> accepts_work sample_user sample_started" "t_assigned_to_user_id sample_started = u_id sample_user"
    "t_status sample_started = InProgress"
    by (simp_all add: accepts_work_def sample_started_def)
  with review_gate[OF ok run] rest run show ?thesis by auto
qed

subsection \<open>Properties of blockers and comments\<close>

lemma log_blocker_Inr:
  "log_blocker i a p r w = (Inr u, w') \<Longrightarrow>
     \<exists>e. w_history w' = w_history w @ [e] \<and> al_action e = AuditBlocked \<and> al_task_id e = i
       \<and> al_old_status e = Some p \<and> al_new_status e = Some ''blocked''
       \<and> al_changed_by_user_id e = Some a
       \<and> al_metadata e = JObj [(''reason'', JStr r)] \<and> w_tasks w' = w_tasks w
       \<and> w_comments w' = w_comments w \<and> w_notifications w' = w_notifications w \<and> w_env w' = w_env w"
  by (auto simp: log_blocker_def append_audit_def statement_Inr Let_def act_elims)

text \<open>What the creator of a blocked task is told, and when.\<close>

definition blocker_notice :: "task \<Rightarrow> utext \<Rightarrow> notification \<Rightarrow> bool" where
  "blocker_notice t reason n \<longleftrightarrow>
     n_recipient_user_id n = t_created_by_user_id t \<and> n_notification_type n = TaskBlocked
     \<and> n_task_id n = t_id t \<and> n_delivery_state n = DeliveryPending
     \<and> n_message n = txt_by_task_quote @ t_title t @ txt_has_blocker @ reason"

definition creator_is_told :: "task \<Rightarrow> utext \<Rightarrow> row_id \<Rightarrow> world \<Rightarrow> world \<Rightarrow> bool" where
  "creator_is_told t reason actor_id w w' \<longleftrightarrow>
     (\<exists>new. w_notifications w' = w_notifications w @ new \<and> length new \<le> 1
        \<and> list_all (blocker_notice t reason) new
        \<and> (if t_created_by_user_id t = actor_id then new = []
           else notification_for w' (blocked_key (env_uuid_text (w_env w) (t_task_uid t))
                  (t_created_by_user_id t) (t_version t)) \<noteq> None))"

lemma creator_is_told_cong:
  "w_notifications v = w_notifications w \<Longrightarrow> w_env v = w_env w \<Longrightarrow>
     creator_is_told t r a v w' = creator_is_told t r a w w'"
  by (simp add: creator_is_told_def)

lemma notify_creator_Inr:
  assumes "notify_creator t r a w = (Inr u, w')"
  shows "creator_is_told t r a w w' \<and> w_tasks w' = w_tasks w \<and> w_comments w' = w_comments w
    \<and> w_history w' = w_history w"
proof (cases "t_created_by_user_id t = a")
  case True
  then show ?thesis using assms by (simp add: notify_creator_def creator_is_told_def ret_def)
next
  case False
  then obtain at n w1 where
    n: "n = pending_notification (t_id t) (t_created_by_user_id t) TaskBlocked
          (txt_by_task_quote @ t_title t @ txt_has_blocker @ r)
          (blocked_key (env_uuid_text (w_env w) (t_task_uid t)) (t_created_by_user_id t) (t_version t)) at"
    and q: "enqueue n (w\<lparr> w_ticks := Suc (w_ticks w) \<rparr>) = (Inr w1, w')"
    using assms by (auto simp: notify_creator_def act_elims)
  have "blocker_notice t r (n\<lparr> n_id := i \<rparr>)" for i
    by (simp add: n blocker_notice_def pending_notification_def)
  moreover have "n_dedupe_key n = blocked_key (env_uuid_text (w_env w) (t_task_uid t))
      (t_created_by_user_id t) (t_version t)"
    by (simp add: n pending_notification_def)
  moreover have "w_tasks w' = w_tasks w \<and> w_comments w' = w_comments w \<and> w_history w' = w_history w"
    using obeysD[OF adds_enqueue[of "\<lambda>_. True"] q] by (simp add: adds_notifications_def)
  ultimately show ?thesis
    using False enqueue_Inr[OF q] by (auto simp: creator_is_told_def notification_for_def split: option.splits)
qed

lemma notify_creator_errors: "db_errors_only (notify_creator t r a)"
  unfolding notify_creator_def by (intro record_db_errors)

text \<open>C14. A successful blocker report was made by the assignee or an admin on a task that was created, sent
  or in progress. It blocks exactly that task, one version on and with the trimmed reason; stores the
  same text as one blocker comment of that task by the actor and in one history entry of that task, by
  the actor, with the old status; and tells the creator by one notification when somebody else
  reported, and nobody otherwise.\<close>

theorem blocker_success:
  assumes "tasks_ok w" "report_task_blocker actor uid reason w = (Inr summary, w')"
  shows "\<exists>t t' a now c e.
      u_id actor = Some a \<and> task_at w uid = Some t
      \<and> (u_role actor = Admin \<or> t_assigned_to_user_id t = Some a)
      \<and> t_status t \<in> {Created, Sent, InProgress}
      \<and> apply_blocker t reason now = Inr t' \<and> t_status t' = Blocked \<and> ts_status summary = Blocked
      \<and> t_version t' = t_version t + 1 \<and> t_blocked_reason t' = Some (trim reason)
      \<and> task_at w' = (task_at w)(uid \<mapsto> t')
      \<and> w_comments w' = w_comments w @ [c] \<and> c_body c = trim reason \<and> c_kind c = BlockerComment
      \<and> Some (c_task_id c) = t_id t \<and> c_author_user_id c = a
      \<and> w_history w' = w_history w @ [e] \<and> al_action e = AuditBlocked \<and> Some (al_task_id e) = t_id t
      \<and> al_changed_by_user_id e = Some a \<and> al_old_status e = Some (show_status (t_status t))
      \<and> al_new_status e = Some ''blocked'' \<and> al_metadata e = JObj [(''reason'', JStr (trim reason))]
      \<and> creator_is_told t' (trim reason) a w w'"
proof -
  obtain a where a: "u_id actor = Some a"
    using assms(2) by (cases "u_id actor") (auto simp: report_task_blocker_def)
  from assms(2) a obtain t w1 now t' saved w2 i c0 c w3 w4 k where
    find: "find_by_uid uid w = (Inr (Some t), w1)"
    and gate: "ensure_can_report_blocker actor t = Inr ()"
    and bl: "apply_blocker t reason now = Inr t'"
    and upd: "update_task t' (w1\<lparr> w_ticks := Suc (w_ticks w1) \<rparr>) = (Inr saved, w2)"
    and i: "t_id saved = Some i" and c0: "new_comment i a BlockerComment reason k = Inr c0"
    and cc: "create_comment c0 (w2\<lparr> w_ticks := Suc (w_ticks w2) \<rparr>) = (Inr c, w3)"
    and log: "log_blocker i a (show_status (t_status t)) (c_body c) w3 = (Inr (), w4)"
    and notify: "notify_creator saved (c_body c) a w4 = (Inr (), w')"
    and summary: "ts_status summary = t_status saved"
    by (auto simp: report_task_blocker_def act_elims)
  have w1: "w1 = w\<lparr> w_faults := tl (w_faults w) \<rparr>" and t: "task_at w uid = Some t"
    using find_by_uid_Inr[OF find] by auto
  let ?w = "w1\<lparr> w_ticks := Suc (w_ticks w1) \<rparr>"
  have same: "same_tables w ?w" using w1 by simp
  note F = apply_blocker_fields[OF bl]
  have saved: "saved = t'" "task_at w2 = (task_at w)(uid \<mapsto> t')"
    using update_after_read[OF tasks_ok_tables[OF assms(1) same] _ step_blocker[OF bl] F(3) upd]
      task_at_same[OF same] t by auto
  have kept: "w_history w2 = w_history w" "w_comments w2 = w_comments w"
    "w_notifications w2 = w_notifications w" "w_env w2 = w_env w"
    using update_task_Inr[OF upd] w1 by auto
  have body: "c_body c = trim reason" "c_kind c = BlockerComment" "c_task_id c = i" "c_author_user_id c = a"
    "w_comments w3 = w_comments w @ [c]" "w_history w3 = w_history w" "w_tasks w3 = w_tasks w2"
    "w_notifications w3 = w_notifications w"
    using create_comment_Inr[OF cc] c0 kept by (auto simp: new_comment_ok_iff)
  have env: "w_env w3 = w_env w"
    using cc kept(4) by (auto simp: create_comment_def statement_Inr Let_def)
  from log_blocker_Inr[OF log] body env obtain e where
    e: "w_history w4 = w_history w @ [e]" "al_action e = AuditBlocked" "al_task_id e = i"
      "al_old_status e = Some (show_status (t_status t))" "al_new_status e = Some ''blocked''"
      "al_changed_by_user_id e = Some a" "al_metadata e = JObj [(''reason'', JStr (trim reason))]"
      "w_tasks w4 = w_tasks w2" "w_comments w4 = w_comments w @ [c]"
      "w_notifications w4 = w_notifications w" "w_env w4 = w_env w"
    by auto
  have told: "creator_is_told t' (trim reason) a w w'" and rest: "w_tasks w' = w_tasks w2"
    "w_comments w' = w_comments w @ [c]" "w_history w' = w_history w @ [e]"
    using notify_creator_Inr[OF notify] saved(1) body(1) e(1,8,9) creator_is_told_cong[OF e(10,11)] by auto
  have "task_at w' = (task_at w)(uid \<mapsto> t')" using task_at_tables[OF rest(1)] saved(2) by simp
  moreover have "t_status t \<in> {Created, Sent, InProgress}" using F(1) to_Blocked_iff by blast
  moreover have "u_role actor = Admin \<or> t_assigned_to_user_id t = Some a"
    using gate a blocker_gate_ok_iff by auto
  moreover have "t_id t = Some i" using i saved(1) F(6) by simp
  ultimately show ?thesis
    by - (rule exI[of _ t], rule exI[of _ t'], rule exI[of _ a], rule exI[of _ now], rule exI[of _ c],
        rule exI[of _ e], simp add: a t bl F(2,3,11) rest body(1-4) e(2-7) told summary saved(1))
qed

definition sample_blocker_run :: "task_status_summary result \<times> world" where
  "sample_blocker_run = report_task_blocker sample_user 1 (ascii '' no key '') sample_world"

lemma trim_sample: "trim (ascii '' no key '') = ascii ''no key''"
  by (simp add: ascii_def trim_def trim_start_by_def trim_end_by_def is_whitespace_def)

lemma sample_blocker_gate: "ensure_can_report_blocker sample_user sample_task = Inr ()"
  by (simp add: blocker_gate_ok_iff)

lemma sample_blocker_ok: "\<exists>s w'. sample_blocker_run = (Inr s, w')"
  by (simp add: sample_blocker_run_def report_task_blocker_def find_by_uid_def run_simps
      sample_blocker_gate apply_blocker_def trim_sample MAX_TASK_BLOCKER_REASON_LENGTH_def
      transition_to_def update_task_def update_matches_def task_references_def references_def
      has_id_def update_where_def write_columns_def new_comment_def MAX_TASK_COMMENT_LENGTH_def
      create_comment_def Let_def log_blocker_def append_audit_def notify_creator_def
      pending_notification_def enqueue_def dedupe_clash_def)

theorem blocker_success_witness:
  "\<exists>t'. task_at (snd sample_blocker_run) 1 = Some t'
     \<and> t_blocked_reason t' = Some (ascii ''no key'')"
proof -
  obtain s w' where run: "report_task_blocker sample_user 1 (ascii '' no key '') sample_world
      = (Inr s, w')"
    using sample_blocker_ok by (auto simp: sample_blocker_run_def)
  then show ?thesis
    using blocker_success[OF sample_ok(1) run] trim_sample
    by (auto simp: sample_blocker_run_def)
qed

lemma adds_notify_other:
  "obeys (adds_notifications (\<lambda>n. n_recipient_user_id n \<in> set (participants t)
      \<and> n_recipient_user_id n \<noteq> a \<and> n_notification_type n = TaskUpdated))
     (notify_other_side a t b c)"
  unfolding notify_other_side_def notify_comment_participant_def
  by (rule forA_obeys[OF adds.frame_axioms], intro adds.store_rules adds_enqueue act_cases)
     (simp_all add: pending_notification_def)

text \<open>A successful comment was written by a participant of the task; it stores exactly one
  comment with the trimmed text, writes one history entry, never touches a task, and notifies only
  participants other than the author.\<close>

theorem comment_success:
  assumes "add_task_comment actor uid body w = (Inr msg, w')"
  shows "\<exists>t c e new. task_at w uid = Some t \<and> participates actor t
      \<and> trim body \<noteq> [] \<and> length (trim body) \<le> MAX_TASK_COMMENT_LENGTH
      \<and> w_comments w' = w_comments w @ [c] \<and> c_body c = trim body
      \<and> Some (c_author_user_id c) = u_id actor \<and> Some (c_task_id c) = t_id t
      \<and> w_history w' = w_history w @ [e] \<and> al_action e = AuditCommented
      \<and> w_tasks w' = w_tasks w \<and> w_notifications w' = w_notifications w @ new
      \<and> list_all (\<lambda>n. n_recipient_user_id n \<in> set (participants t)
           \<and> Some (n_recipient_user_id n) \<noteq> u_id actor) new"
proof -
  obtain a where a: "u_id actor = Some a"
    using assms by (cases "u_id actor") (auto simp: add_task_comment_def)
  from assms a obtain t w1 i c0 c w2 w3 k where
    find: "find_by_uid uid w = (Inr (Some t), w1)"
    and gate: "ensure_can_comment actor t = Inr ()" and i: "t_id t = Some i"
    and c0: "new_comment i a ContextComment body k = Inr c0"
    and cc: "create_comment c0 (w1\<lparr> w_ticks := Suc (w_ticks w1) \<rparr>) = (Inr c, w2)"
    and log: "log_comment i a (c_body c) w2 = (Inr (), w3)"
    and notify: "notify_other_side a t (c_body c) (c_id c) w3 = (Inr (), w')"
    by (auto simp: add_task_comment_def act_elims)
  have w1: "w1 = w\<lparr> w_faults := tl (w_faults w) \<rparr>" and t: "task_at w uid = Some t"
    using find_by_uid_Inr[OF find] by auto
  have c: "c_body c = trim body" "c_author_user_id c = a" "c_task_id c = i" "trim body \<noteq> []"
    "length (trim body) \<le> MAX_TASK_COMMENT_LENGTH" "w_comments w2 = w_comments w @ [c]"
    "w_history w2 = w_history w" "w_tasks w2 = w_tasks w" "w_notifications w2 = w_notifications w"
    using create_comment_Inr[OF cc] c0 w1 by (auto simp: new_comment_ok_iff)
  from log obtain e where e: "w_history w3 = w_history w @ [e]" "al_action e = AuditCommented"
    "w_comments w3 = w_comments w @ [c]" "w_tasks w3 = w_tasks w"
    "w_notifications w3 = w_notifications w"
    using c by (auto simp: log_comment_def act_elims dest!: append_audit_Inr)
  from obeysD[OF adds_notify_other notify] obtain new where
    "w_notifications w' = w_notifications w @ new" "w_tasks w' = w_tasks w"
    "w_comments w' = w_comments w @ [c]" "w_history w' = w_history w @ [e]"
    "list_all (\<lambda>n. n_recipient_user_id n \<in> set (participants t)
      \<and> Some (n_recipient_user_id n) \<noteq> u_id actor) new"
    using e a by (auto simp: adds_notifications_def list_all_iff)
  moreover have "participates actor t" using gate comment_ok_iff by blast
  moreover have "Some (c_author_user_id c) = u_id actor" "Some (c_task_id c) = t_id t"
    using c(2,3) a i by auto
  ultimately show ?thesis using t c(1,4,5) e(2) by blast
qed

definition sample_comment_run :: "utext result \<times> world" where
  "sample_comment_run = add_task_comment sample_user 1 (ascii '' no key '') sample_world"

lemma sample_comment_gate: "ensure_can_comment sample_user sample_task = Inr ()"
  by (simp add: comment_ok_iff participates_def)

lemma sample_comment_ok: "\<exists>s w'. sample_comment_run = (Inr s, w')"
  by (simp add: sample_comment_run_def add_task_comment_def find_by_uid_def run_simps
      sample_comment_gate trim_sample references_def has_id_def
      new_comment_def MAX_TASK_COMMENT_LENGTH_def create_comment_def Let_def log_comment_def
      append_audit_def notify_other_side_def participants_def notify_comment_participant_def
      pending_notification_def enqueue_def dedupe_clash_def)

theorem comment_success_witness:
  "\<exists>c. w_comments (snd sample_comment_run) = [c] \<and> c_body c = ascii ''no key''"
proof -
  obtain s w' where run: "add_task_comment sample_user 1 (ascii '' no key '') sample_world
      = (Inr s, w')"
    using sample_comment_ok by (auto simp: sample_comment_run_def)
  then show ?thesis
    using comment_success[OF run] trim_sample by (auto simp: sample_comment_run_def)
qed

end
