(* ===== verification/User_Repo.thy ===== *)
theory User_Repo
  imports Samples
begin

section \<open>The user repository\<close>

text \<open>
  \<^verbatim>\<open>src/infrastructure/db/repositories/user_repository.rs\<close> with the two audit repositories the
  account operations write to. Role changes and deactivations run in a transaction that counts
  the other active admins first; onboarding progress is guarded by a version.
\<close>

definition ONBOARDING_CONCURRENCY_CONFLICT :: string where
  "ONBOARDING_CONCURRENCY_CONFLICT = ''USER_ONBOARDING_VERSION_CONFLICT''"
definition LAST_ADMIN_PROTECTED :: string where "LAST_ADMIN_PROTECTED = ''LAST_ADMIN_PROTECTED''"
definition USER_NOT_FOUND :: string where "USER_NOT_FOUND = ''USER_NOT_FOUND''"

definition last_admin_protected_error ::
  "string \<Rightarrow> row_id \<Rightarrow> user_role \<Rightarrow> user_role option \<Rightarrow> app_error" where
  "last_admin_protected_error operation target current requested =
     business_rule LAST_ADMIN_PROTECTED
       (ascii ''Cannot remove the last active administrator; promote another admin first'')
       (JObj [(''operation'', jstr operation), (''target_user_id'', JNum target),
              (''current_role'', jstr (show_role current)),
              (''requested_role'', jopt (\<lambda>r. jstr (show_role r)) requested)])"

definition user_not_found_error :: "row_id \<Rightarrow> app_error" where
  "user_not_found_error user_id =
     not_found USER_NOT_FOUND (ascii ''Target user does not exist'')
       (JObj [(''user_id'', JNum user_id)])"

definition onboarding_conflict_error :: "row_id \<Rightarrow> int \<Rightarrow> app_error" where
  "onboarding_conflict_error user_id expected_version =
     business_rule ONBOARDING_CONCURRENCY_CONFLICT
       (ascii ''Onboarding state changed concurrently; restart the step'')
       (JObj [(''user_id'', JNum user_id), (''expected_version'', JNum expected_version)])"

definition no_row_error :: app_error where
  "no_row_error = database_error (ascii ''no rows returned'')"

text \<open>\<^verbatim>\<open>UPDATE users SET ... WHERE ... RETURNING\<close>: at most one row matches.\<close>

definition update_user_returning ::
  "(user \<Rightarrow> bool) \<Rightarrow> (user \<Rightarrow> user) \<Rightarrow> (world, user option) act" where
  "update_user_returning P f = statement
     (\<lambda>w. list_all (\<lambda>u. references e_id (u_linked_employee_id (f u)) (w_employees w))
             (filter P (w_users w)))
     (\<lambda>w. (map_option f (find P (w_users w)), w\<lparr> w_users := update_where P f (w_users w) \<rparr>))"

definition insert_user :: "user \<Rightarrow> (world, user) act" where
  "insert_user u = statement
     (\<lambda>w. references e_id (u_linked_employee_id u) (w_employees w)
        \<and> \<not> list_ex (\<lambda>r. u_telegram_id r = u_telegram_id u) (w_users w))
     (\<lambda>w. let row = u\<lparr> u_id := Some (next_id u_id (w_users w)) \<rparr>
          in (row, w\<lparr> w_users := w_users w @ [row] \<rparr>))"

fun coalesce :: "'a option \<Rightarrow> 'a option \<Rightarrow> 'a option" where
  "coalesce (Some x) _ = Some x"
| "coalesce None y = y"

subsection \<open>Reading\<close>

definition find_user_by_id :: "row_id \<Rightarrow> (world, user option) act" where
  "find_user_by_id i = select (\<lambda>w. find (\<lambda>u. u_id u = Some i) (w_users w))"

definition find_by_telegram_id :: "int \<Rightarrow> (world, user option) act" where
  "find_by_telegram_id tid = select (\<lambda>w. find (\<lambda>u. u_telegram_id u = tid) (w_users w))"

definition find_by_username :: "utext \<Rightarrow> (world, user option) act" where
  "find_by_username username =
     select (\<lambda>w. find (\<lambda>u. map_option to_ascii_lowercase (u_telegram_username u)
         = Some (to_ascii_lowercase (trim_start_by (\<lambda>c. c = 64) username))) (w_users w))"

definition list_with_chat_id :: "(world, user list) act" where
  "list_with_chat_id = select (\<lambda>w. filter (\<lambda>u. u_last_chat_id u \<noteq> None) (w_users w))"

definition active_admin :: "user \<Rightarrow> bool" where
  "active_admin u \<longleftrightarrow> u_role u = Admin \<and> u_deactivated_at u = None"

definition list_active_admins :: "(world, user list) act" where
  "list_active_admins = select (\<lambda>w. filter active_admin (w_users w))"

subsection \<open>Writing\<close>

definition merge_from_message :: "user \<Rightarrow> user \<Rightarrow> user" where
  "merge_from_message excluded r = r\<lparr>
     u_last_chat_id := u_last_chat_id excluded,
     u_telegram_username := u_telegram_username excluded,
     u_full_name := u_full_name excluded,
     u_first_name := coalesce (u_first_name excluded) (u_first_name r),
     u_last_name := coalesce (u_last_name excluded) (u_last_name r),
     u_linked_employee_id := coalesce (u_linked_employee_id excluded) (u_linked_employee_id r),
     u_is_employee := (u_is_employee r \<or> u_is_employee excluded),
     u_updated_at := u_updated_at excluded \<rparr>"

definition upsert_from_message :: "user \<Rightarrow> (world, user) act" where
  "upsert_from_message u = statement
     (\<lambda>w. references e_id (u_linked_employee_id u) (w_employees w))
     (\<lambda>w. case find (\<lambda>r. u_telegram_id r = u_telegram_id u) (w_users w) of
        Some r \<Rightarrow> (merge_from_message u r,
          w\<lparr> w_users := update_where (\<lambda>r. u_telegram_id r = u_telegram_id u)
                          (merge_from_message u) (w_users w) \<rparr>)
      | None \<Rightarrow>
          (let row = u\<lparr> u_id := Some (next_id u_id (w_users w)) \<rparr>
           in (row, w\<lparr> w_users := w_users w @ [row] \<rparr>)))"

definition ensure_onboarding_session ::
  "int \<Rightarrow> int \<Rightarrow> utext option \<Rightarrow> utext option \<Rightarrow> instant \<Rightarrow> (world, user) act" where
  "ensure_onboarding_session telegram_id chat_id username fallback_full_name now =
     tryA (find_by_telegram_id telegram_id) (\<lambda>existing.
     case existing of
       Some u \<Rightarrow>
         tryA (update_user_returning (\<lambda>r. u_id r = u_id u) (\<lambda>r. r\<lparr>
                 u_last_chat_id := Some chat_id, u_telegram_username := username,
                 u_updated_at := now \<rparr>)) (\<lambda>row.
         lift (ok_or no_row_error row))
     | None \<Rightarrow>
         insert_user \<lparr> u_id = None, u_telegram_id = telegram_id,
           u_last_chat_id = Some chat_id, u_telegram_username = username,
           u_full_name = fallback_full_name, u_first_name = None, u_last_name = None,
           u_linked_employee_id = None, u_is_employee = False, u_role = User,
           u_onboarding_state = AwaitingFirstName, u_onboarding_version = 0,
           u_timezone = ascii DEFAULT_USER_TIMEZONE, u_quiet_hours_start_min = 1320,
           u_quiet_hours_end_min = 480, u_deactivated_at = None, u_created_at = now,
           u_updated_at = now \<rparr>)"

definition save_onboarding_progress ::
  "row_id \<Rightarrow> int \<Rightarrow> onboarding_state \<Rightarrow> utext option \<Rightarrow> utext option \<Rightarrow> instant \<Rightarrow>
   (world, user) act" where
  "save_onboarding_progress user_id expected_version next_state first_name last_name now =
     tryA (update_user_returning
       (\<lambda>r. u_id r = Some user_id \<and> u_onboarding_version r = expected_version)
       (\<lambda>r. r\<lparr> u_first_name := coalesce first_name (u_first_name r),
               u_last_name := coalesce last_name (u_last_name r),
               u_onboarding_state := next_state,
               u_onboarding_version := u_onboarding_version r + 1,
               u_updated_at := now \<rparr>)) (\<lambda>row.
     lift (ok_or (onboarding_conflict_error user_id expected_version) row))"

definition complete_onboarding ::
  "row_id \<Rightarrow> int \<Rightarrow> utext \<Rightarrow> utext \<Rightarrow> row_id option \<Rightarrow> instant \<Rightarrow> (world, user) act" where
  "complete_onboarding user_id expected_version first_name last_name linked_employee now =
     tryA (update_user_returning
       (\<lambda>r. u_id r = Some user_id \<and> u_onboarding_version r = expected_version)
       (\<lambda>r. r\<lparr> u_first_name := Some first_name, u_last_name := Some last_name,
               u_full_name := Some (first_name @ [32] @ last_name),
               u_linked_employee_id := coalesce linked_employee (u_linked_employee_id r),
               u_is_employee := (u_is_employee r \<or> linked_employee \<noteq> None),
               u_onboarding_state := OnboardingCompleted,
               u_onboarding_version := u_onboarding_version r + 1,
               u_updated_at := now \<rparr>)) (\<lambda>row.
     lift (ok_or (onboarding_conflict_error user_id expected_version) row))"

definition load_user_by_id_in_tx :: "row_id \<Rightarrow> (world, user) act" where
  "load_user_by_id_in_tx i =
     tryA (find_user_by_id i) (\<lambda>row. lift (ok_or (user_not_found_error i) row))"

definition count_other_active_admins_in_tx :: "row_id \<Rightarrow> (world, nat) act" where
  "count_other_active_admins_in_tx excluding =
     select (\<lambda>w. length (filter (\<lambda>u. active_admin u \<and> u_id u \<noteq> Some excluding) (w_users w)))"

definition set_role :: "row_id \<Rightarrow> user_role \<Rightarrow> instant \<Rightarrow> (world, user) act" where
  "set_role target_id new_role now =
     transaction
      (tryA (load_user_by_id_in_tx target_id) (\<lambda>target.
       tryA (if u_role target = Admin \<and> new_role \<noteq> Admin \<and> u_deactivated_at target = None
             then count_other_active_admins_in_tx target_id else ret 1) (\<lambda>others.
       if others = 0 then
         fail (last_admin_protected_error ''set_role'' target_id (u_role target) (Some new_role))
       else
         tryA (update_user_returning (\<lambda>r. u_id r = Some target_id)
                 (\<lambda>r. r\<lparr> u_role := new_role, u_updated_at := now \<rparr>)) (\<lambda>row.
         lift (ok_or no_row_error row)))))"

definition deactivate :: "row_id \<Rightarrow> instant \<Rightarrow> (world, user) act" where
  "deactivate target_id now =
     transaction
      (tryA (load_user_by_id_in_tx target_id) (\<lambda>target.
       tryA (if u_role target = Admin \<and> u_deactivated_at target = None
             then count_other_active_admins_in_tx target_id else ret 1) (\<lambda>others.
       if others = 0 then
         fail (last_admin_protected_error ''deactivate'' target_id (u_role target) None)
       else
         tryA (update_user_returning (\<lambda>r. u_id r = Some target_id)
                 (\<lambda>r. r\<lparr> u_deactivated_at := Some now, u_updated_at := now \<rparr>)) (\<lambda>row.
         lift (ok_or no_row_error row)))))"

definition reactivate :: "row_id \<Rightarrow> instant \<Rightarrow> (world, user) act" where
  "reactivate target_id now =
     tryA (update_user_returning (\<lambda>r. u_id r = Some target_id)
             (\<lambda>r. r\<lparr> u_deactivated_at := None, u_updated_at := now \<rparr>)) (\<lambda>row.
     lift (ok_or (user_not_found_error target_id) row))"

datatype bootstrap_promotion = Elevated user | AlreadyAdmin user

definition promote_bootstrap_admin :: "int \<Rightarrow> instant \<Rightarrow> (world, bootstrap_promotion option) act" where
  "promote_bootstrap_admin telegram_id now =
     tryA (find_by_telegram_id telegram_id) (\<lambda>existing.
     case existing of
       None \<Rightarrow> ret None
     | Some u \<Rightarrow>
         if u_role u = Admin then ret (Some (AlreadyAdmin u))
         else
           tryA (update_user_returning (\<lambda>r. u_id r = u_id u)
                   (\<lambda>r. r\<lparr> u_role := Admin, u_deactivated_at := None, u_updated_at := now \<rparr>))
             (\<lambda>row.
           tryA (lift (ok_or no_row_error row)) (\<lambda>elevated.
           ret (Some (Elevated elevated)))))"

subsection \<open>Audit logs\<close>

definition append_admin_audit :: "admin_audit_entry \<Rightarrow> (world, admin_audit_entry) act" where
  "append_admin_audit e = statement
     (\<lambda>w. references u_id (aa_actor_user_id e) (w_users w)
        \<and> references u_id (aa_target_user_id e) (w_users w))
     (\<lambda>w. let row = e\<lparr> aa_id := Some (next_id aa_id (w_admin_audit w)) \<rparr>
          in (row, w\<lparr> w_admin_audit := w_admin_audit w @ [row] \<rparr>))"

definition list_recent_admin_audit :: "nat \<Rightarrow> (world, admin_audit_entry list) act" where
  "list_recent_admin_audit limit =
     select (\<lambda>w. take limit (rev (sort_key aa_created_at (w_admin_audit w))))"

definition list_admin_audit_for_target :: "row_id \<Rightarrow> nat \<Rightarrow> (world, admin_audit_entry list) act" where
  "list_admin_audit_for_target target limit =
     select (\<lambda>w. take limit (rev (sort_key aa_created_at
       (filter (\<lambda>e. aa_target_user_id e = Some target) (w_admin_audit w)))))"

definition append_security_audit :: "security_audit_entry \<Rightarrow> (world, security_audit_entry) act" where
  "append_security_audit e = statement
     (\<lambda>w. references u_id (sa_actor_user_id e) (w_users w))
     (\<lambda>w. let row = e\<lparr> sa_id := Some (next_id sa_id (w_security_audit w)) \<rparr>
          in (row, w\<lparr> w_security_audit := w_security_audit w @ [row] \<rparr>))"

definition list_recent_security_audit :: "nat \<Rightarrow> (world, security_audit_entry list) act" where
  "list_recent_security_audit limit =
     select (\<lambda>w. take limit (rev (sort_key sa_created_at (w_security_audit w))))"

subsection \<open>The account table is never left without an active admin\<close>

definition users_ok :: "world \<Rightarrow> bool" where
  "users_ok w \<longleftrightarrow>
     distinct (map u_id (w_users w)) \<and> distinct (map u_telegram_id (w_users w))
     \<and> (\<forall>u \<in> set (w_users w). u_id u \<noteq> None)"

definition has_active_admin :: "world \<Rightarrow> bool" where
  "has_active_admin w \<longleftrightarrow> (\<exists>u \<in> set (w_users w). active_admin u)"

definition keeps_admin :: "world \<Rightarrow> world \<Rightarrow> bool" where
  "keeps_admin w w' \<longleftrightarrow>
     (users_ok w \<longrightarrow> users_ok w') \<and> (users_ok w \<and> has_active_admin w \<longrightarrow> has_active_admin w')"

lemma keeps_admin_same_users: "w_users w' = w_users w \<Longrightarrow> keeps_admin w w'"
  by (simp add: keeps_admin_def users_ok_def has_active_admin_def)

interpretation admins: store_frame keeps_admin
proof
  show "keeps_admin w w" for w by (simp add: keeps_admin_same_users)
  show "keeps_admin a b \<Longrightarrow> keeps_admin b c \<Longrightarrow> keeps_admin a c" for a b c
    unfolding keeps_admin_def by blast
  show "bookkeeping_free keeps_admin"
    by (simp add: bookkeeping_free_def keeps_admin_same_users)
qed

lemma keeps_admin_insert:
  assumes fresh: "\<not> list_ex (\<lambda>r. u_telegram_id r = u_telegram_id u) (w_users w)"
  shows "keeps_admin w (w\<lparr> w_users := w_users w @ [u\<lparr> u_id := Some (next_id u_id (w_users w)) \<rparr>] \<rparr>)"
proof -
  have new_id: "Some (next_id u_id (w_users w)) \<notin> u_id ` set (w_users w)"
    using next_id_fresh[of _ "w_users w" u_id] by (metis imageE)
  have new_chat: "u_telegram_id u \<notin> u_telegram_id ` set (w_users w)"
    using fresh by (metis (mono_tags, lifting) imageE list_ex_iff)
  from new_id new_chat show ?thesis
    unfolding keeps_admin_def users_ok_def has_active_admin_def
    by (simp add: bex_Un ball_Un)
qed

lemma keeps_admin_update:
  assumes id: "\<And>u. P u \<Longrightarrow> u_id (f u) = u_id u"
    and chat: "\<And>u. P u \<Longrightarrow> u_telegram_id (f u) = u_telegram_id u"
    and alive: "\<And>u. P u \<Longrightarrow> active_admin u \<Longrightarrow> active_admin (f u)"
  shows "keeps_admin w (w\<lparr> w_users := update_where P f (w_users w) \<rparr>)"
proof -
  have "users_ok (w\<lparr> w_users := update_where P f (w_users w) \<rparr>)" if "users_ok w"
    using that id chat by (auto simp: users_ok_def map_update_where_frame set_update_where)
  moreover have "has_active_admin (w\<lparr> w_users := update_where P f (w_users w) \<rparr>)"
    if "has_active_admin w"
  proof -
    from that obtain a where a: "a \<in> set (w_users w)" "active_admin a"
      by (auto simp: has_active_admin_def)
    show ?thesis
      using a alive[of a]
      by (cases "P a") (auto simp: has_active_admin_def set_update_where)
  qed
  ultimately show ?thesis by (simp add: keeps_admin_def)
qed

lemma admins_update_user:
  assumes "\<And>u. P u \<Longrightarrow> u_id (f u) = u_id u" "\<And>u. P u \<Longrightarrow> u_telegram_id (f u) = u_telegram_id u"
    "\<And>u. P u \<Longrightarrow> active_admin u \<Longrightarrow> active_admin (f u)"
  shows "obeys keeps_admin (update_user_returning P f)"
  unfolding update_user_returning_def
  by (rule admins.statement) (simp add: keeps_admin_update[OF assms])

lemma admins_insert_user: "obeys keeps_admin (insert_user u)"
  unfolding insert_user_def
  by (rule admins.statement) (simp add: Let_def keeps_admin_insert)

lemma admins_upsert: "obeys keeps_admin (upsert_from_message u)"
  unfolding upsert_from_message_def
proof (rule admins.statement)
  fix w
  show "keeps_admin w (snd (case find (\<lambda>r. u_telegram_id r = u_telegram_id u) (w_users w) of
        Some r \<Rightarrow> (merge_from_message u r,
          w\<lparr> w_users := update_where (\<lambda>r. u_telegram_id r = u_telegram_id u)
                          (merge_from_message u) (w_users w) \<rparr>)
      | None \<Rightarrow>
          (let row = u\<lparr> u_id := Some (next_id u_id (w_users w)) \<rparr>
           in (row, w\<lparr> w_users := w_users w @ [row] \<rparr>))))"
    by (auto simp: Let_def find_None_iff list_ex_iff merge_from_message_def active_admin_def
        intro!: keeps_admin_insert keeps_admin_update split: option.split)
qed

lemmas admins_cases = obeys_if obeys_option obeys_prod

lemma admins_onboarding:
  "obeys keeps_admin (ensure_onboarding_session t c n f now)"
  "obeys keeps_admin (save_onboarding_progress i v s fn ln now)"
  "obeys keeps_admin (complete_onboarding i v fn' ln' e now)"
  unfolding ensure_onboarding_session_def save_onboarding_progress_def complete_onboarding_def
    find_by_telegram_id_def
  by (intro admins.store_rules admins_cases admins_insert_user admins_update_user;
      simp add: active_admin_def)+

lemma admins_reactivate: "obeys keeps_admin (reactivate i now)"
  unfolding reactivate_def
  by (intro admins.store_rules admins_update_user) (simp_all add: active_admin_def)

lemma admins_promote: "obeys keeps_admin (promote_bootstrap_admin t now)"
  unfolding promote_bootstrap_admin_def find_by_telegram_id_def
  by (intro admins.store_rules admins_cases admins_update_user) (simp_all add: active_admin_def)

text \<open>
  The two guarded operations. The guard counts the other active admins in the same transaction;
  the update that follows touches the target only.
\<close>

definition guarded_user_update ::
  "row_id \<Rightarrow> (user \<Rightarrow> bool) \<Rightarrow> (user \<Rightarrow> app_error) \<Rightarrow> (user \<Rightarrow> user) \<Rightarrow> (world, user) act" where
  "guarded_user_update i needs_guard err f =
     tryA (load_user_by_id_in_tx i) (\<lambda>target.
     tryA (if needs_guard target then count_other_active_admins_in_tx i else ret 1) (\<lambda>others.
     if others = 0 then fail (err target)
     else
       tryA (update_user_returning (\<lambda>r. u_id r = Some i) f) (\<lambda>row.
       lift (ok_or no_row_error row))))"

lemma set_role_guarded:
  "set_role i r now = transaction (guarded_user_update i
     (\<lambda>t. u_role t = Admin \<and> r \<noteq> Admin \<and> u_deactivated_at t = None)
     (\<lambda>t. last_admin_protected_error ''set_role'' i (u_role t) (Some r))
     (\<lambda>u. u\<lparr> u_role := r, u_updated_at := now \<rparr>))"
  by (simp add: set_role_def guarded_user_update_def)

lemma deactivate_guarded:
  "deactivate i now = transaction (guarded_user_update i
     (\<lambda>t. u_role t = Admin \<and> u_deactivated_at t = None)
     (\<lambda>t. last_admin_protected_error ''deactivate'' i (u_role t) None)
     (\<lambda>u. u\<lparr> u_deactivated_at := Some now, u_updated_at := now \<rparr>))"
  by (simp add: deactivate_def guarded_user_update_def)

lemma update_user_Inr:
  "update_user_returning P f w = (Inr r, w') \<Longrightarrow>
     r = map_option f (find P (w_users w)) \<and> w_users w' = update_where P f (w_users w)
     \<and> w_admin_audit w' = w_admin_audit w"
  by (auto simp: update_user_returning_def statement_Inr)

lemma update_user_Inl: "update_user_returning P f w = (Inl e, w') \<Longrightarrow> w_users w' = w_users w"
  by (auto simp: update_user_returning_def dest!: statement_Inl)

lemma guarded_update_cases:
  assumes "guarded_user_update i g err f w = (res, w')"
  shows "w_users w' = w_users w
    \<or> (\<exists>t. find (\<lambda>u. u_id u = Some i) (w_users w) = Some t
        \<and> w_users w' = update_where (\<lambda>r. u_id r = Some i) f (w_users w)
        \<and> (g t \<longrightarrow> (\<exists>u \<in> set (w_users w). active_admin u \<and> u_id u \<noteq> Some i)))"
proof -
  have load: "w_users w1 = w_users w \<and> (\<forall>t. r = Inr t \<longrightarrow>
        find (\<lambda>u. u_id u = Some i) (w_users w) = Some t)"
    if "load_user_by_id_in_tx i w = (r, w1)" for r w1
    using that by (cases r) (auto simp: load_user_by_id_in_tx_def find_user_by_id_def act_elims
        select_Inr dest!: select_Inl)
  have count: "w_users w2 = w_users w1 \<and> (\<forall>k. r = Inr k \<longrightarrow> k > 0 \<longrightarrow>
        (\<exists>u \<in> set (w_users w1). active_admin u \<and> u_id u \<noteq> Some i))"
    if "count_other_active_admins_in_tx i w1 = (r, w2)" for r w1 w2
  proof (cases r)
    case (Inl e)
    with that show ?thesis
      by (auto simp: count_other_active_admins_in_tx_def dest!: select_Inl)
  next
    case (Inr k)
    with that have "w_users w2 = w_users w1"
      "k = length (filter (\<lambda>u. active_admin u \<and> u_id u \<noteq> Some i) (w_users w1))"
      by (auto simp: count_other_active_admins_in_tx_def select_Inr)
    with Inr show ?thesis by (auto simp: filter_empty_conv)
  qed
  show ?thesis
  proof (cases "load_user_by_id_in_tx i w")
    case (Pair r w1)
    note L = load[OF Pair]
    show ?thesis
    proof (cases r)
      case (Inl e)
      then show ?thesis using assms Pair L by (simp add: guarded_user_update_def tryA_def)
    next
      case (Inr t)
      define c where "c = (if g t then count_other_active_admins_in_tx i else ret (1 :: nat))"
      obtain rc w2 where c2: "c w1 = (rc, w2)" by (cases "c w1")
      have C: "w_users w2 = w_users w \<and> (\<forall>k. rc = Inr k \<longrightarrow> k > 0 \<longrightarrow> g t \<longrightarrow>
          (\<exists>u \<in> set (w_users w). active_admin u \<and> u_id u \<noteq> Some i))"
        using c2 count[of w1 rc w2] L by (auto simp: c_def split: if_splits)
      show ?thesis
        using assms Pair Inr c2 C L
        by (cases rc; cases "update_user_returning (\<lambda>r. u_id r = Some i) f w2")
           (auto simp: guarded_user_update_def tryA_def c_def[symmetric] lift_def
              split: sum.splits if_splits dest!: update_user_Inr update_user_Inl)
    qed
  qed
qed

lemma admins_guarded:
  assumes "\<And>u. u_id (f u) = u_id u" "\<And>u. u_telegram_id (f u) = u_telegram_id u"
    "\<And>u. active_admin u \<Longrightarrow> \<not> g u \<Longrightarrow> active_admin (f u)"
  shows "obeys keeps_admin (guarded_user_update i g err f)"
proof (rule obeysI)
  fix w
  let ?w' = "snd (guarded_user_update i g err f w)"
  have "guarded_user_update i g err f w = (fst (guarded_user_update i g err f w), ?w')" by simp
  from guarded_update_cases[OF this] show "keeps_admin w ?w'"
  proof (elim disjE exE conjE)
    fix t
    assume t: "find (\<lambda>u. u_id u = Some i) (w_users w) = Some t"
      and upd: "w_users ?w' = update_where (\<lambda>r. u_id r = Some i) f (w_users w)"
      and g: "g t \<longrightarrow> (\<exists>u \<in> set (w_users w). active_admin u \<and> u_id u \<noteq> Some i)"
    have ok: "users_ok ?w'" if "users_ok w"
      using that upd assms(1,2)
      by (auto simp: users_ok_def map_update_where_frame set_update_where)
    have alive: "has_active_admin ?w'" if ok0: "users_ok w" and alive0: "has_active_admin w"
    proof (cases "g t")
      case True
      with g upd show ?thesis by (auto simp: has_active_admin_def set_update_where)
    next
      case False
      obtain a where a: "a \<in> set (w_users w)" "active_admin a"
        using alive0 by (auto simp: has_active_admin_def)
      show ?thesis
      proof (cases "u_id a = Some i")
        case True
        have "t \<in> set (w_users w)" "u_id t = Some i" using find_SomeD[OF t] by auto
        then have "a = t"
          using distinct_key_inj[of u_id "w_users w" a t] ok0 a(1) True by (simp add: users_ok_def)
        with False assms(3) a True have "active_admin (f a)" by blast
        with a(1) True upd show ?thesis by (auto simp: has_active_admin_def set_update_where)
      next
        case False
        with a upd show ?thesis by (auto simp: has_active_admin_def set_update_where)
      qed
    qed
    from ok alive show ?thesis by (simp add: keeps_admin_def)
  qed (rule keeps_admin_same_users)
qed

lemma admins_set_role: "obeys keeps_admin (set_role i r now)"
  unfolding set_role_guarded
  by (intro admins.transaction admins_guarded) (auto simp: active_admin_def)

lemma admins_deactivate: "obeys keeps_admin (deactivate i now)"
  unfolding deactivate_guarded
  by (intro admins.transaction admins_guarded) (auto simp: active_admin_def)

lemma admins_audit: "obeys keeps_admin (append_admin_audit e)"
  "obeys keeps_admin (append_security_audit s)"
  unfolding append_admin_audit_def append_security_audit_def
  by (auto intro!: admins.statement keeps_admin_same_users simp: Let_def)

end
