(* ===== verification/Admin_Use_Cases.thy ===== *)
theory Admin_Use_Cases
  imports User_Repo "HOL-Library.AList"
begin

section \<open>The admin panel and the bootstrap of admins\<close>

text \<open>
  \<^verbatim>\<open>src/application/use_cases/admin.rs\<close>, \<^verbatim>\<open>bootstrap_admins.rs\<close> and the flag overrides of
  \<^verbatim>\<open>feature_flag_repository.rs\<close>. Every operation re-authorises its caller, delegates the guarded
  update to the user repository and records an audit entry whose failure is swallowed.
\<close>

subsection \<open>Feature flag overrides\<close>

definition insert_override ::
  "(feature_flag \<times> bool) list \<Rightarrow> flag_override \<Rightarrow> (feature_flag \<times> bool) list" where
  "insert_override result row =
     (case feature_flag_from_str (fo_flag_key row) of
        Inr flag \<Rightarrow> AList.update flag (fo_enabled row \<noteq> 0) result
      | Inl _ \<Rightarrow> result)"

definition read_overrides :: "flag_override list \<Rightarrow> (feature_flag \<times> bool) list" where
  "read_overrides rows = foldl insert_override [] rows"

definition list_overrides :: "(world, (feature_flag \<times> bool) list) act" where
  "list_overrides = select (\<lambda>w. read_overrides (w_flag_overrides w))"

definition upsert_override ::
  "feature_flag \<Rightarrow> bool \<Rightarrow> row_id option \<Rightarrow> instant \<Rightarrow> (world, unit) act" where
  "upsert_override flag enabled updated_by now = statement
     (\<lambda>w. references u_id updated_by (w_users w))
     (\<lambda>w. let key = ascii (as_key flag);
              row = \<lparr> fo_flag_key = key, fo_enabled = bool_as_i64 enabled,
                      fo_updated_by_user_id = updated_by, fo_updated_at = now \<rparr>
          in ((), if list_ex (\<lambda>r. fo_flag_key r = key) (w_flag_overrides w)
                  then w\<lparr> w_flag_overrides :=
                            update_where (\<lambda>r. fo_flag_key r = key) (\<lambda>_. row) (w_flag_overrides w) \<rparr>
                  else w\<lparr> w_flag_overrides := w_flag_overrides w @ [row] \<rparr>))"

subsection \<open>The admin panel\<close>

definition emit_audit :: "admin_audit_entry \<Rightarrow> (world, unit) act" where
  "emit_audit entry = attempt (append_admin_audit entry) (\<lambda>_. ret ())"

definition actor_not_registered :: app_error where
  "actor_not_registered = unauthenticated (ascii ''Actor must be registered'') (JObj [])"

definition panel_list_active_admins :: "user \<Rightarrow> (world, user list) act" where
  "panel_list_active_admins actor =
     tryA (lift (ensure_can_view_admin_panel actor)) (\<lambda>_. list_active_admins)"

definition get_user :: "user \<Rightarrow> row_id \<Rightarrow> (world, user) act" where
  "get_user actor target_user_id =
     tryA (lift (ensure_can_view_admin_panel actor)) (\<lambda>_.
     tryA (find_user_by_id target_user_id) (\<lambda>row.
     lift (ok_or (not_found USER_NOT_FOUND (ascii ''Requested user does not exist'')
             (JObj [(''target_user_id'', JNum target_user_id)])) row)))"

definition change_role :: "user \<Rightarrow> row_id \<Rightarrow> user_role \<Rightarrow> (world, user) act" where
  "change_role actor target_user_id next_role =
     tryA (get_user actor target_user_id) (\<lambda>target.
     tryA (lift (ensure_can_manage_roles actor target)) (\<lambda>_.
     tryA (lift (ok_or actor_not_registered (u_id actor))) (\<lambda>actor_id.
     tryA now_utc (\<lambda>now.
     tryA (set_role target_user_id next_role now) (\<lambda>updated.
     tryA (emit_audit \<lparr> aa_id = None, aa_actor_user_id = u_id actor,
             aa_target_user_id = Some target_user_id, aa_action_code = RoleChangedByAdmin,
             aa_metadata = JObj [(''previous_role'', jstr (show_role (u_role target))),
               (''next_role'', jstr (show_role next_role)),
               (''target_telegram_id'', JNum (u_telegram_id target))],
             aa_created_at = now \<rparr>) (\<lambda>_.
     ret updated))))))"

definition deactivate_user :: "user \<Rightarrow> row_id \<Rightarrow> (world, user) act" where
  "deactivate_user actor target_user_id =
     tryA (get_user actor target_user_id) (\<lambda>target.
     tryA (lift (ensure_can_deactivate_user actor target)) (\<lambda>_.
     tryA (lift (ok_or actor_not_registered (u_id actor))) (\<lambda>actor_id.
     tryA now_utc (\<lambda>now.
     tryA (deactivate target_user_id now) (\<lambda>updated.
     tryA (emit_audit \<lparr> aa_id = None, aa_actor_user_id = u_id actor,
             aa_target_user_id = Some target_user_id, aa_action_code = UserDeactivatedByAdmin,
             aa_metadata = JObj [(''target_telegram_id'', JNum (u_telegram_id target)),
               (''previous_role'', jstr (show_role (u_role target)))],
             aa_created_at = now \<rparr>) (\<lambda>_.
     ret updated))))))"

definition reactivate_user :: "user \<Rightarrow> row_id \<Rightarrow> (world, user) act" where
  "reactivate_user actor target_user_id =
     tryA (get_user actor target_user_id) (\<lambda>target.
     tryA (lift (ensure_can_access_admin_panel actor)) (\<lambda>_.
     tryA (lift (ok_or actor_not_registered (u_id actor))) (\<lambda>actor_id.
     tryA now_utc (\<lambda>now.
     tryA (reactivate target_user_id now) (\<lambda>updated.
     tryA (emit_audit \<lparr> aa_id = None, aa_actor_user_id = u_id actor,
             aa_target_user_id = Some target_user_id, aa_action_code = UserReactivatedByAdmin,
             aa_metadata = JObj [(''target_telegram_id'', JNum (u_telegram_id target))],
             aa_created_at = now \<rparr>) (\<lambda>_.
     ret updated))))))"

definition list_recent_audit :: "user \<Rightarrow> nat \<Rightarrow> (world, admin_audit_entry list) act" where
  "list_recent_audit actor limit =
     tryA (lift (ensure_can_view_admin_panel actor)) (\<lambda>_.
     list_recent_admin_audit (max 1 (min 50 limit)))"

definition toggle_feature_flag :: "user \<Rightarrow> utext \<Rightarrow> bool \<Rightarrow> (world, bool) act" where
  "toggle_feature_flag actor flag_key enabled =
     tryA (lift (ensure_can_access_admin_panel actor)) (\<lambda>_.
     tryA (lift (case feature_flag_from_str flag_key of
             Inr flag \<Rightarrow> Inr flag
           | Inl key \<Rightarrow> Inl (not_found ''UNKNOWN_FEATURE_FLAG''
               (ascii ''feature flag key is not recognised'')
               (JObj [(''flag_key'', JStr key)])))) (\<lambda>flag.
     tryA (lift (ok_or actor_not_registered (u_id actor))) (\<lambda>actor_id.
     tryA now_utc (\<lambda>now.
     tryA (upsert_override flag enabled (Some actor_id) now) (\<lambda>_.
     tryA (modify (\<lambda>w. w\<lparr> w_flags := toggle flag enabled (w_flags w) \<rparr>)) (\<lambda>_.
     tryA (emit_audit \<lparr> aa_id = None, aa_actor_user_id = u_id actor,
             aa_target_user_id = None, aa_action_code = AdminFeatureToggled,
             aa_metadata = JObj [(''flag_key'', jstr (as_key flag)), (''enabled'', JBool enabled)],
             aa_created_at = now \<rparr>) (\<lambda>_.
     ret enabled)))))))"

subsection \<open>Bootstrap\<close>

record bootstrap_summary =
  configured_admins :: nat
  elevated_now :: nat
  already_admin :: nat
  pending_signup :: nat
  failed :: nat

definition promote_one ::
  "instant \<Rightarrow> bootstrap_summary \<Rightarrow> int \<Rightarrow> (world, bootstrap_summary) act" where
  "promote_one now summary telegram_id =
     attempt (promote_bootstrap_admin telegram_id now) (\<lambda>outcome.
     case outcome of
       Inr None \<Rightarrow> ret (summary\<lparr> pending_signup := pending_signup summary + 1 \<rparr>)
     | Inr (Some (AlreadyAdmin _)) \<Rightarrow> ret (summary\<lparr> already_admin := already_admin summary + 1 \<rparr>)
     | Inr (Some (Elevated u)) \<Rightarrow>
         tryA (emit_audit \<lparr> aa_id = None, aa_actor_user_id = None, aa_target_user_id = u_id u,
                 aa_action_code = RoleElevatedByBootstrap,
                 aa_metadata = JObj [(''telegram_id'', JNum telegram_id),
                   (''source'', jstr ''env:TELEGRAM_ADMIN_IDS'')],
                 aa_created_at = now \<rparr>) (\<lambda>_.
         ret (summary\<lparr> elevated_now := elevated_now summary + 1 \<rparr>))
     | Inl _ \<Rightarrow> ret (summary\<lparr> failed := failed summary + 1 \<rparr>))"

definition bootstrap_admins :: "int list \<Rightarrow> (world, bootstrap_summary) act" where
  "bootstrap_admins admin_ids =
     (let summary = \<lparr> configured_admins = length admin_ids, elevated_now = 0, already_admin = 0,
                      pending_signup = 0, failed = 0 \<rparr>
      in if admin_ids = [] then ret summary
         else tryA now_utc (\<lambda>now. foldA (promote_one now) summary admin_ids))"


subsection \<open>Facts about the guarded updates\<close>

text \<open>Only the user table differs.\<close>

definition same_but_users :: "world \<Rightarrow> world \<Rightarrow> bool" where
  "same_but_users w w' \<longleftrightarrow> same_tables (w\<lparr> w_users := w_users w' \<rparr>) w'"

lemma same_but_users_trans:
  "same_tables a b \<Longrightarrow> same_but_users b c \<Longrightarrow> same_but_users a c"
  "same_but_users a b \<Longrightarrow> same_tables b c \<Longrightarrow> same_but_users a c"
  by (auto simp: same_but_users_def same_tables_def)

lemma load_user_Inr:
  "load_user_by_id_in_tx i w = (Inr t, w') \<Longrightarrow>
     find (\<lambda>u. u_id u = Some i) (w_users w) = Some t \<and> same_tables w w'"
  by (auto simp: load_user_by_id_in_tx_def find_user_by_id_def act_elims select_Inr same_tables_def)

lemma count_others_Inr:
  "count_other_active_admins_in_tx i w = (Inr k, w') \<Longrightarrow>
     k = length (filter (\<lambda>u. active_admin u \<and> u_id u \<noteq> Some i) (w_users w)) \<and> same_tables w w'"
  by (auto simp: count_other_active_admins_in_tx_def select_Inr same_tables_def)

lemma update_user_tables:
  "update_user_returning P f w = (Inr r, w') \<Longrightarrow>
     r = map_option f (find P (w_users w)) \<and> w_users w' = update_where P f (w_users w)
     \<and> same_but_users w w'"
  by (auto simp: update_user_returning_def statement_Inr same_but_users_def same_tables_def)

lemma guarded_Inr:
  assumes "guarded_user_update i g err f w = (Inr u, w')"
  shows "\<exists>t. find (\<lambda>u. u_id u = Some i) (w_users w) = Some t \<and> u = f t
    \<and> w_users w' = update_where (\<lambda>r. u_id r = Some i) f (w_users w) \<and> same_but_users w w'
    \<and> (g t \<longrightarrow> (\<exists>a \<in> set (w_users w). active_admin a \<and> u_id a \<noteq> Some i))"
proof -
  obtain t w1 where l: "load_user_by_id_in_tx i w = (Inr t, w1)"
    and rest: "tryA (if g t then count_other_active_admins_in_tx i else ret 1) (\<lambda>others.
        if others = 0 then fail (err t)
        else tryA (update_user_returning (\<lambda>r. u_id r = Some i) f) (\<lambda>row.
             lift (ok_or no_row_error row))) w1 = (Inr u, w')"
    using assms unfolding guarded_user_update_def tryA_eq_Inr[of "load_user_by_id_in_tx i"] by blast
  obtain k w2 where
    c: "(if g t then count_other_active_admins_in_tx i else ret 1) w1 = (Inr k, w2)"
    and r: "(if k = 0 then fail (err t)
        else tryA (update_user_returning (\<lambda>r. u_id r = Some i) f) (\<lambda>row.
             lift (ok_or no_row_error row))) w2 = (Inr u, w')"
    using rest unfolding tryA_eq_Inr[of "if g t then _ else _"] by blast
  from r have k: "k \<noteq> 0"
    and u: "update_user_returning (\<lambda>r. u_id r = Some i) f w2 = (Inr (Some u), w')"
    by (cases "k = 0"; simp add: tryA_eq_Inr)+
  from load_user_Inr[OF l] have t: "find (\<lambda>u. u_id u = Some i) (w_users w) = Some t"
    and w1: "same_tables w w1" by auto
  have w2: "same_tables w1 w2"
    and other: "g t \<longrightarrow> (\<exists>a \<in> set (w_users w1). active_admin a \<and> u_id a \<noteq> Some i)"
    using c k by (auto simp: same_tables.refl filter_empty_conv split: if_splits dest!: count_others_Inr)
  have w02: "same_tables w w2" using w1 w2 by (rule same_tables.trans)
  then have users: "w_users w2 = w_users w" "w_users w1 = w_users w"
    using w1 by (simp_all add: same_tables_def)
  show ?thesis
    using update_user_tables[OF u] other same_but_users_trans(1)[OF w02] unfolding users t by simp
qed

lemma guarded_transaction_Inr:
  assumes "transaction (guarded_user_update i g err f) w = (Inr u, w')"
  shows "\<exists>t. find (\<lambda>u. u_id u = Some i) (w_users w) = Some t \<and> u = f t
    \<and> w_users w' = update_where (\<lambda>r. u_id r = Some i) f (w_users w) \<and> same_but_users w w'
    \<and> (g t \<longrightarrow> (\<exists>a \<in> set (w_users w). active_admin a \<and> u_id a \<noteq> Some i))"
proof -
  obtain w0 w1 where m: "guarded_user_update i g err f w0 = (Inr u, w1)"
    and t: "same_tables w w0" "same_tables w1 w'"
    using transaction_Inr[OF assms] by blast
  then have "w_users w0 = w_users w" "w_users w' = w_users w1" by (simp_all add: same_tables_def)
  moreover have "same_but_users w w'" if "same_but_users w0 w1"
    using same_but_users_trans(1)[OF t(1) same_but_users_trans(2)[OF that t(2)]] .
  ultimately show ?thesis using guarded_Inr[OF m] by (elim exE conjE) simp
qed

lemma append_admin_audit_Inr:
  "append_admin_audit e w = (Inr row, w') \<Longrightarrow>
     row = e\<lparr> aa_id := Some (next_id aa_id (w_admin_audit w)) \<rparr>
     \<and> same_tables (w\<lparr> w_admin_audit := w_admin_audit w @ [row] \<rparr>) w'"
  by (auto simp: append_admin_audit_def statement_Inr Let_def same_tables_def)

lemma append_admin_audit_Inl: "append_admin_audit e w = (Inl err, w') \<Longrightarrow> same_tables w w'"
  by (auto simp: append_admin_audit_def same_tables_def dest!: statement_Inl)

text \<open>At most one entry, this one, is added to the log; nothing else changes.\<close>

definition audited :: "admin_audit_entry \<Rightarrow> world \<Rightarrow> world \<Rightarrow> bool" where
  "audited e w w' \<longleftrightarrow> same_tables w w' \<or>
     (\<exists>i. same_tables (w\<lparr> w_admin_audit := w_admin_audit w @ [e\<lparr> aa_id := Some i \<rparr>] \<rparr>) w')"

lemma emit_audit_result:
  assumes "emit_audit e w = (r, w')"
  shows "r = Inr () \<and> audited e w w'"
proof -
  obtain q where q: "append_admin_audit e w = (q, w')" and r: "r = Inr ()"
    using assms by (auto simp: emit_audit_def attempt_eq)
  show ?thesis
  proof (cases q)
    case (Inl err)
    with q r append_admin_audit_Inl[of e w err w'] show ?thesis by (simp add: audited_def)
  next
    case (Inr row)
    from append_admin_audit_Inr[OF q[unfolded Inr]] r show ?thesis by (auto simp: audited_def)
  qed
qed

lemma get_user_reads: "obeys same_tables (get_user actor i)"
  unfolding get_user_def find_user_by_id_def by (intro same_tables.store_rules)

lemma get_user_Inr:
  "get_user actor i w = (Inr t, w') \<Longrightarrow>
     find (\<lambda>u. u_id u = Some i) (w_users w) = Some t \<and> same_tables w w'
     \<and> u_role actor = Admin \<and> u_deactivated_at actor = None"
  by (auto simp: get_user_def find_user_by_id_def act_elims select_Inr same_tables_def
      ensure_can_view_admin_panel_def ensure_can_access_admin_panel_def ensure_active_def
      tryR_eq_Inr split: if_splits)

lemma not_self:
  "ensure_not_self actor target op = Inr () \<Longrightarrow>
     u_telegram_id actor \<noteq> u_telegram_id target \<and> (u_id actor = None \<or> u_id actor \<noteq> u_id target)"
  by (auto simp: ensure_not_self_def Let_def split: if_splits option.splits)


text \<open>The shape the three account operations share.\<close>

definition panel_operation ::
  "user \<Rightarrow> row_id \<Rightarrow> (user \<Rightarrow> unit result) \<Rightarrow> (instant \<Rightarrow> (world, user) act) \<Rightarrow>
   (user \<Rightarrow> instant \<Rightarrow> admin_audit_entry) \<Rightarrow> (world, user) act" where
  "panel_operation actor i gate upd entry =
     tryA (get_user actor i) (\<lambda>target.
     tryA (lift (gate target)) (\<lambda>_.
     tryA (lift (ok_or actor_not_registered (u_id actor))) (\<lambda>actor_id.
     tryA now_utc (\<lambda>now.
     tryA (upd now) (\<lambda>updated.
     tryA (emit_audit (entry target now)) (\<lambda>_.
     ret updated))))))"

lemma panel_operation_Inr:
  assumes "panel_operation actor i gate upd entry w = (Inr u, w')"
  shows "\<exists>t now w1 w2. find (\<lambda>u. u_id u = Some i) (w_users w) = Some t \<and> gate t = Inr ()
     \<and> u_role actor = Admin \<and> u_deactivated_at actor = None \<and> u_id actor \<noteq> None
     \<and> same_tables w w1 \<and> upd now w1 = (Inr u, w2) \<and> audited (entry t now) w2 w'"
proof -
  obtain t wt where t: "get_user actor i w = (Inr t, wt)" and gate: "gate t = Inr ()"
    and actor: "u_id actor \<noteq> None"
    and run: "tryA now_utc (\<lambda>now. tryA (upd now) (\<lambda>updated.
       tryA (emit_audit (entry t now)) (\<lambda>_. ret updated))) wt = (Inr u, w')"
    using assms unfolding panel_operation_def tryA_eq_Inr[of "get_user actor i"]
      tryA_eq_Inr[of "lift _"] by auto
  define now where "now = env_clock (w_env wt) (w_ticks wt)"
  define w1 where "w1 = wt\<lparr> w_ticks := Suc (w_ticks wt) \<rparr>"
  obtain w2 where upd: "upd now w1 = (Inr u, w2)"
    and log: "emit_audit (entry t now) w2 = (Inr (), w')"
    using run by (auto simp: tryA_eq_Inr now_def w1_def)
  have "same_tables w w1" using get_user_Inr[OF t] by (simp add: w1_def same_tables_def)
  with get_user_Inr[OF t] gate actor upd emit_audit_result[OF log] show ?thesis by blast
qed

lemma panel_operation_Inl:
  assumes "panel_operation actor i gate upd entry w = (Inl e, w')"
    and "\<And>now w1 w2. upd now w1 = (Inl e, w2) \<Longrightarrow> same_tables w1 w2"
  shows "same_tables w w'"
proof -
  have reads: "same_tables w wt" if "get_user actor i w = (r, wt)" for r wt
    using obeysD[OF get_user_reads that] .
  have silent: "emit_audit a x \<noteq> (Inl e, x')" for a x x'
    using emit_audit_result by blast
  from assms(1) consider "get_user actor i w = (Inl e, w')"
    | t where "get_user actor i w = (Inr t, w')"
    | t wt now where "get_user actor i w = (Inr t, wt)"
        "upd now (wt\<lparr> w_ticks := Suc (w_ticks wt) \<rparr>) = (Inl e, w')"
    unfolding panel_operation_def
    by (auto simp: tryA_eq_Inl silent)
  then show ?thesis
  proof cases
    case 3
    have "same_tables w (wt\<lparr> w_ticks := Suc (w_ticks wt) \<rparr>)"
      using reads[OF 3(1)] by (simp add: same_tables_def)
    then show ?thesis using assms(2)[OF 3(2)] same_tables.trans by blast
  qed (simp_all add: reads)
qed

lemma update_user_no_match:
  "update_user_returning P f w = (Inr None, w') \<Longrightarrow> same_tables w w'"
  by (auto simp: update_user_returning_def statement_Inr same_tables_def
      update_where_none[OF find_NoneD])

lemma update_user_error: "update_user_returning P f w = (Inl e, w') \<Longrightarrow> same_tables w w'"
  by (auto simp: update_user_returning_def same_tables_def dest!: statement_Inl)

lemma reactivate_Inl: "reactivate i now w = (Inl e, w') \<Longrightarrow> same_tables w w'"
  by (auto simp: reactivate_def tryA_eq_Inl dest: update_user_no_match update_user_error)

lemma panel_operations:
  "change_role actor i r = panel_operation actor i (ensure_can_manage_roles actor) (set_role i r)
     (\<lambda>target now. \<lparr> aa_id = None, aa_actor_user_id = u_id actor,
        aa_target_user_id = Some i, aa_action_code = RoleChangedByAdmin,
        aa_metadata = JObj [(''previous_role'', jstr (show_role (u_role target))),
          (''next_role'', jstr (show_role r)),
          (''target_telegram_id'', JNum (u_telegram_id target))], aa_created_at = now \<rparr>)"
  "deactivate_user actor i = panel_operation actor i (ensure_can_deactivate_user actor) (deactivate i)
     (\<lambda>target now. \<lparr> aa_id = None, aa_actor_user_id = u_id actor,
        aa_target_user_id = Some i, aa_action_code = UserDeactivatedByAdmin,
        aa_metadata = JObj [(''target_telegram_id'', JNum (u_telegram_id target)),
          (''previous_role'', jstr (show_role (u_role target)))], aa_created_at = now \<rparr>)"
  "reactivate_user actor i = panel_operation actor i
     (\<lambda>_. ensure_can_access_admin_panel actor) (reactivate i)
     (\<lambda>target now. \<lparr> aa_id = None, aa_actor_user_id = u_id actor,
        aa_target_user_id = Some i, aa_action_code = UserReactivatedByAdmin,
        aa_metadata = JObj [(''target_telegram_id'', JNum (u_telegram_id target))],
        aa_created_at = now \<rparr>)"
  by (simp_all add: change_role_def deactivate_user_def reactivate_user_def panel_operation_def)

subsection \<open>Properties\<close>

text \<open>A role change that succeeds was made by an active admin on somebody else: the stored
  target gets the new role and nothing but its timestamp, no other account and no other table
  changes except for at most one audit entry naming the actor, the target and both roles; and when
  it demotes an active admin, another active admin remains.\<close>
theorem change_role_success:
  assumes "change_role actor i r w = (Inr u, w')"
  shows "\<exists>t now i'.
     u_role actor = Admin \<and> u_deactivated_at actor = None
     \<and> u_id actor \<noteq> Some i \<and> u_telegram_id actor \<noteq> u_telegram_id t
     \<and> find (\<lambda>x. u_id x = Some i) (w_users w) = Some t
     \<and> u = t\<lparr> u_role := r, u_updated_at := now \<rparr>
     \<and> w_users w' = update_where (\<lambda>x. u_id x = Some i)
                       (\<lambda>x. x\<lparr> u_role := r, u_updated_at := now \<rparr>) (w_users w)
     \<and> (u_role t = Admin \<and> r \<noteq> Admin \<and> u_deactivated_at t = None \<longrightarrow>
          (\<exists>a \<in> set (w_users w'). active_admin a \<and> u_id a \<noteq> Some i))
     \<and> (w_admin_audit w' = w_admin_audit w \<or>
        w_admin_audit w' = w_admin_audit w @
          [\<lparr> aa_id = Some i', aa_actor_user_id = u_id actor, aa_target_user_id = Some i,
             aa_action_code = RoleChangedByAdmin,
             aa_metadata = JObj [(''previous_role'', jstr (show_role (u_role t))),
               (''next_role'', jstr (show_role r)),
               (''target_telegram_id'', JNum (u_telegram_id t))],
             aa_created_at = now \<rparr>])
     \<and> w_tasks w' = w_tasks w \<and> w_notifications w' = w_notifications w
     \<and> w_history w' = w_history w \<and> w_flags w' = w_flags w"
proof -
  from panel_operation_Inr[OF assms[unfolded panel_operations]] obtain t now w1 w2 where
    t: "find (\<lambda>u. u_id u = Some i) (w_users w) = Some t"
    and gate: "ensure_can_manage_roles actor t = Inr ()"
    and actor: "u_role actor = Admin" "u_deactivated_at actor = None" "u_id actor \<noteq> None"
    and w1: "same_tables w w1" and upd: "set_role i r now w1 = (Inr u, w2)"
    and log: "audited \<lparr> aa_id = None, aa_actor_user_id = u_id actor,
        aa_target_user_id = Some i, aa_action_code = RoleChangedByAdmin,
        aa_metadata = JObj [(''previous_role'', jstr (show_role (u_role t))),
          (''next_role'', jstr (show_role r)),
          (''target_telegram_id'', JNum (u_telegram_id t))], aa_created_at = now \<rparr> w2 w'"
    by blast
  have other: "u_id actor \<noteq> Some i" "u_telegram_id actor \<noteq> u_telegram_id t"
    using gate not_self[of actor t] find_SomeD[OF t] actor
    by (auto simp: ensure_can_manage_roles_def tryR_eq_Inr)
  have users: "w_users w1 = w_users w" using w1 by (simp add: same_tables_def)
  from guarded_transaction_Inr[OF upd[unfolded set_role_guarded]] t
  have u: "u = t\<lparr> u_role := r, u_updated_at := now \<rparr>"
    and w2: "w_users w2 = update_where (\<lambda>x. u_id x = Some i)
               (\<lambda>x. x\<lparr> u_role := r, u_updated_at := now \<rparr>) (w_users w)" "same_but_users w1 w2"
    and guard: "u_role t = Admin \<and> r \<noteq> Admin \<and> u_deactivated_at t = None \<longrightarrow>
      (\<exists>a \<in> set (w_users w). active_admin a \<and> u_id a \<noteq> Some i)"
    by (auto simp: users)
  from log obtain i' where audit: "w_admin_audit w' = w_admin_audit w \<or>
        w_admin_audit w' = w_admin_audit w @
          [\<lparr> aa_id = Some i', aa_actor_user_id = u_id actor, aa_target_user_id = Some i,
             aa_action_code = RoleChangedByAdmin,
             aa_metadata = JObj [(''previous_role'', jstr (show_role (u_role t))),
               (''next_role'', jstr (show_role r)),
               (''target_telegram_id'', JNum (u_telegram_id t))],
             aa_created_at = now \<rparr>]"
    using w1 w2(2) by (auto simp: audited_def same_but_users_def same_tables_def)
  have rest: "w_users w' = w_users w2" "w_tasks w' = w_tasks w"
    "w_notifications w' = w_notifications w" "w_history w' = w_history w" "w_flags w' = w_flags w"
    using log w1 w2(2) by (auto simp: audited_def same_but_users_def same_tables_def)
  have kept: "u_role t = Admin \<and> r \<noteq> Admin \<and> u_deactivated_at t = None \<longrightarrow>
      (\<exists>a \<in> set (w_users w'). active_admin a \<and> u_id a \<noteq> Some i)"
    using guard by (auto simp: rest w2(1) set_update_where)
  show ?thesis
    by (rule exI[of _ t], rule exI[of _ now], rule exI[of _ i'], intro conjI)
       (use actor other t u w2(1) rest audit kept in simp_all)
qed


definition sample_promotion :: "user result \<times> world" where
  "sample_promotion = change_role sample_admin 2 Manager sample_world"

lemma sample_gates_admin:
  "ensure_can_view_admin_panel sample_admin = Inr ()"
  "ensure_can_access_admin_panel sample_admin = Inr ()"
  "ensure_can_manage_roles sample_admin sample_user = Inr ()"
  by (simp_all add: ensure_can_manage_roles_def ensure_can_access_admin_panel_def
      ensure_active_def ensure_not_self_def ensure_can_view_admin_panel_def)

lemma sample_links [simp]:
  "u_linked_employee_id sample_user = None" "u_linked_employee_id sample_creator = None"
  "u_linked_employee_id sample_admin = None"
  by (simp_all add: sample_user_def sample_creator_def sample_admin_def)

lemma sample_promotion_ok: "\<exists>u w'. sample_promotion = (Inr u, w')"
  by (simp add: sample_promotion_def change_role_def get_user_def find_user_by_id_def run_simps
      sample_gates_admin transaction_def set_role_def load_user_by_id_in_tx_def
      update_user_returning_def references_def no_row_error_def emit_audit_def
      append_admin_audit_def Let_def has_id_def update_where_def sample_env_def)

theorem change_role_success_witness:
  "find (\<lambda>x. u_id x = Some 3) (w_users (snd sample_promotion)) = Some sample_admin"
proof -
  obtain u w' where run: "change_role sample_admin 2 Manager sample_world = (Inr u, w')"
    using sample_promotion_ok by (auto simp: sample_promotion_def)
  obtain now where "w_users w' = update_where (\<lambda>x. u_id x = Some 2)
      (\<lambda>x. x\<lparr> u_role := Manager, u_updated_at := now \<rparr>) (w_users sample_world)"
    using change_role_success[OF run] by blast
  then show ?thesis by (simp add: sample_promotion_def run update_where_def)
qed

text \<open>A failed account operation of the panel - refused by the policy, by the last-admin guard
  or by the database at any statement - leaves every table and the flag registry as they were.\<close>
theorem panel_failure_changes_nothing:
  assumes "op \<in> {change_role actor i r, deactivate_user actor i, reactivate_user actor i}"
    and "op w = (Inl e, w')"
  shows "same_tables w w'"
proof -
  have "same_tables w w'" if "change_role actor i r w = (Inl e, w')"
    using panel_operation_Inl[OF that[unfolded panel_operations]] transaction_Inl
    unfolding set_role_guarded by blast
  moreover have "same_tables w w'" if "deactivate_user actor i w = (Inl e, w')"
    using panel_operation_Inl[OF that[unfolded panel_operations]] transaction_Inl
    unfolding deactivate_guarded by blast
  moreover have "same_tables w w'" if "reactivate_user actor i w = (Inl e, w')"
    using panel_operation_Inl[OF that[unfolded panel_operations]] reactivate_Inl by blast
  ultimately show ?thesis using assms by blast
qed

lemma sample_refusal:
  "\<exists>e. change_role sample_user 1 Admin sample_world = (Inl e, sample_world)"
  by (simp add: change_role_def get_user_def run_simps ensure_can_view_admin_panel_def
      ensure_can_access_admin_panel_def ensure_active_def)

theorem panel_failure_changes_nothing_witness:
  "same_tables sample_world (snd (change_role sample_user 1 Admin sample_world))"
  using sample_refusal panel_failure_changes_nothing[of _ sample_user 1 Admin sample_world]
  by fastforce


subsection \<open>Flag overrides survive a restart\<close>

text \<open>The override table as the program writes it: one row per key, keys in canonical form.\<close>

definition overrides_ok :: "world \<Rightarrow> bool" where
  "overrides_ok w \<longleftrightarrow> distinct (map fo_flag_key (w_flag_overrides w))
     \<and> (\<forall>row \<in> set (w_flag_overrides w). \<forall>flag \<in> set ALL_FLAGS.
          feature_flag_from_str (fo_flag_key row) = Inr flag \<longrightarrow> fo_flag_key row = ascii (as_key flag))"

lemma read_overrides_snoc:
  "read_overrides (rows @ [row]) =
     (case feature_flag_from_str (fo_flag_key row) of
        Inr flag \<Rightarrow> AList.update flag (fo_enabled row \<noteq> 0) (read_overrides rows)
      | Inl _ \<Rightarrow> read_overrides rows)"
  by (simp add: read_overrides_def insert_override_def split: sum.split)

lemma read_overrides_distinct: "distinct (map fst (read_overrides rows))"
  by (induction rows rule: rev_induct)
     (auto simp: read_overrides_snoc distinct_update split: sum.split, simp add: read_overrides_def)

lemma read_overrides_last:
  "(\<exists>row \<in> set rows. feature_flag_from_str (fo_flag_key row) = Inr flag) \<Longrightarrow>
   (\<And>row. row \<in> set rows \<Longrightarrow> feature_flag_from_str (fo_flag_key row) = Inr flag \<Longrightarrow>
      fo_enabled row \<noteq> 0 \<longleftrightarrow> on) \<Longrightarrow>
   map_of (read_overrides rows) flag = Some on"
proof (induction rows rule: rev_induct)
  case (snoc row rows)
  show ?case
  proof (cases "feature_flag_from_str (fo_flag_key row) = Inr flag")
    case True
    with snoc.prems(2)[of row] show ?thesis by (simp add: read_overrides_snoc update_conv)
  next
    case False
    with snoc have "map_of (read_overrides rows) flag = Some on" by auto
    with False show ?thesis
      by (auto simp: read_overrides_snoc update_conv split: sum.split)
  qed
qed simp

lemma list_overrides_Inr:
  "list_overrides w = (Inr ov, w') \<Longrightarrow> ov = read_overrides (w_flag_overrides w)"
  by (auto simp: list_overrides_def select_Inr)

text \<open>The rows after an upsert.\<close>

lemma upsert_override_Inr:
  assumes "upsert_override flag on by now w = (Inr u, w')" and ok: "overrides_ok w"
  shows "overrides_ok w' \<and> map_of (read_overrides (w_flag_overrides w')) flag = Some on
    \<and> w_users w' = w_users w \<and> w_flags w' = w_flags w"
proof -
  let ?key = "ascii (as_key flag)" and ?rows = "w_flag_overrides w"
  define row where "row = \<lparr> fo_flag_key = ?key, fo_enabled = bool_as_i64 on,
     fo_updated_by_user_id = by, fo_updated_at = now \<rparr>"
  have row: "fo_flag_key row = ?key" "fo_enabled row \<noteq> 0 \<longleftrightarrow> on"
    by (simp_all add: row_def bool_as_i64_def)
  define rows' where "rows' = (if list_ex (\<lambda>r. fo_flag_key r = ?key) ?rows
      then update_where (\<lambda>r. fo_flag_key r = ?key) (\<lambda>_. row) ?rows else ?rows @ [row])"
  have w': "w_flag_overrides w' = rows'" "w_users w' = w_users w" "w_flags w' = w_flags w"
    using assms(1)
    by (auto simp: upsert_override_def statement_Inr Let_def rows'_def row_def[symmetric]
        split: if_splits)
  have in_rows': "row \<in> set rows'" "r \<in> set rows' \<Longrightarrow> r = row \<or> r \<in> set ?rows \<and> fo_flag_key r \<noteq> ?key"
    for r
    by (auto simp: rows'_def set_update_where list_ex_iff split: if_splits)
  have "distinct (map fo_flag_key rows')"
    using ok row
    by (auto simp: rows'_def overrides_ok_def map_update_where_frame list_ex_iff split: if_splits)
  moreover have canonical: "fo_flag_key r = ascii (as_key f)"
    if "r \<in> set rows'" "feature_flag_from_str (fo_flag_key r) = Inr f" for r f
    using in_rows'(2)[OF that(1)] that(2) ok row all_flags_complete[of f]
    by (auto simp: overrides_ok_def)
  moreover have "map_of (read_overrides rows') flag = Some on"
  proof (rule read_overrides_last)
    show "\<exists>r \<in> set rows'. feature_flag_from_str (fo_flag_key r) = Inr flag"
      using in_rows'(1) row(1) by (intro bexI[of _ row]) simp_all
  next
    fix r assume r: "r \<in> set rows'" "feature_flag_from_str (fo_flag_key r) = Inr flag"
    from canonical[OF r] in_rows'(2)[OF r(1)] have "r = row" by simp
    with row(2) show "fo_enabled r \<noteq> 0 \<longleftrightarrow> on" by simp
  qed
  ultimately show ?thesis using w' by (simp add: overrides_ok_def)
qed

text \<open>Toggling a flag takes effect at once and survives a restart: after a successful toggle by
  an active admin the running registry answers the new state for that flag and the old one for
  every other flag, and a process started later - whatever its environment - reads the override
  table and builds a registry in which the flag has that state.\<close>
theorem toggled_flag_survives_restart:
  assumes "toggle_feature_flag actor key on w = (Inr b, w')" and "overrides_ok w"
  shows "\<exists>flag. feature_flag_from_str key = Inr flag \<and> b = on \<and> overrides_ok w'
    \<and> u_role actor = Admin \<and> u_deactivated_at actor = None
    \<and> (\<forall>g. flag_is_enabled (w_flags w') g = (if g = flag then on else flag_is_enabled (w_flags w) g))
    \<and> (\<forall>w1 w2 ov env. w_flag_overrides w1 = w_flag_overrides w' \<longrightarrow>
         list_overrides w1 = (Inr ov, w2) \<longrightarrow>
         flag_is_enabled (apply_overrides ov (from_env_and_defaults env)) flag = on)"
proof -
  from assms(1) obtain flag i w1 w2 where
    gate: "ensure_can_access_admin_panel actor = Inr ()"
    and flag: "feature_flag_from_str key = Inr flag" and b: "b = on"
    and up: "upsert_override flag on (Some i) (env_clock (w_env w) (w_ticks w))
        (w\<lparr> w_ticks := Suc (w_ticks w) \<rparr>) = (Inr (), w1)"
    and log: "emit_audit \<lparr> aa_id = None, aa_actor_user_id = u_id actor,
             aa_target_user_id = None, aa_action_code = AdminFeatureToggled,
             aa_metadata = JObj [(''flag_key'', jstr (as_key flag)), (''enabled'', JBool on)],
             aa_created_at = env_clock (w_env w) (w_ticks w) \<rparr>
        (w1\<lparr> w_flags := toggle flag on (w_flags w1) \<rparr>) = (Inr (), w')"
    by (auto simp: toggle_feature_flag_def tryA_eq_Inr split: sum.splits)
  have "overrides_ok (w\<lparr> w_ticks := Suc (w_ticks w) \<rparr>)"
    using assms(2) by (simp add: overrides_ok_def)
  note up' = upsert_override_Inr[OF up this]
  have same: "w_flag_overrides w' = w_flag_overrides w1"
    "w_flags w' = toggle flag on (w_flags w)"
    using emit_audit_result[OF log] up' by (auto simp: audited_def same_tables_def)
  have restart: "flag_is_enabled (apply_overrides ov (from_env_and_defaults env)) flag = on"
    if "w_flag_overrides v1 = w_flag_overrides w'" "list_overrides v1 = (Inr ov, v2)" for v1 v2 ov env
  proof -
    have "map_of ov flag = Some on"
      using list_overrides_Inr[OF that(2)] that(1) same(1) up' by metis
    moreover have "distinct (map fst ov)"
      using list_overrides_Inr[OF that(2)] read_overrides_distinct by metis
    ultimately show ?thesis unfolding apply_overrides_iff[OF \<open>distinct (map fst ov)\<close>] by simp
  qed
  show ?thesis
    using gate flag b up' same restart
    by (intro exI[of _ flag])
       (auto simp: toggle_iff overrides_ok_def ensure_can_access_admin_panel_def ensure_active_def
         tryR_eq_Inr split: if_splits)
qed

lemma sample_toggle_ok: "\<exists>b w'. toggle_feature_flag sample_admin (ascii ''voice_v2'') True sample_world
    = (Inr b, w')"
  using flag_roundtrip[of VoiceV2]
  by (intro exI[of _ True]) (simp add: toggle_feature_flag_def run_simps sample_gates_admin upsert_override_def
      references_def has_id_def modify_def emit_audit_def append_admin_audit_def Let_def sample_env_def)

theorem toggled_flag_survives_restart_witness:
  "flag_is_enabled (w_flags (snd (toggle_feature_flag sample_admin (ascii ''voice_v2'') True
      sample_world))) VoiceV2"
proof -
  obtain b w' where run: "toggle_feature_flag sample_admin (ascii ''voice_v2'') True sample_world
      = (Inr b, w')"
    using sample_toggle_ok by blast
  have "overrides_ok sample_world" by (simp add: overrides_ok_def)
  from toggled_flag_survives_restart[OF run this] flag_roundtrip[of VoiceV2] show ?thesis
    by (auto simp: run)
qed


subsection \<open>Bootstrap: every configured admin is accounted for\<close>

definition accounted :: "bootstrap_summary \<Rightarrow> nat" where
  "accounted s = elevated_now s + already_admin s + pending_signup s + failed s"

lemma promote_one_counts:
  "\<exists>s' w'. promote_one now s t w = (Inr s', w') \<and> accounted s' = Suc (accounted s)
     \<and> configured_admins s' = configured_admins s"
proof -
  obtain q w1 where q: "promote_bootstrap_admin t now w = (q, w1)"
    by (cases "promote_bootstrap_admin t now w")
  have log: "\<exists>w2. emit_audit e w1 = (Inr (), w2)" for e
    using emit_audit_result by (cases "emit_audit e w1") blast
  show ?thesis
  proof (cases q)
    case (Inl e)
    with q show ?thesis by (simp add: promote_one_def attempt_def ret_def accounted_def)
  next
    case (Inr p)
    show ?thesis
    proof (cases p)
      case None
      with q Inr show ?thesis by (simp add: promote_one_def attempt_def ret_def accounted_def)
    next
      case (Some r)
      show ?thesis
      proof (cases r)
        case (Elevated u)
        obtain w2 where "emit_audit \<lparr> aa_id = None, aa_actor_user_id = None,
            aa_target_user_id = u_id u, aa_action_code = RoleElevatedByBootstrap,
            aa_metadata = JObj [(''telegram_id'', JNum t),
              (''source'', jstr ''env:TELEGRAM_ADMIN_IDS'')],
            aa_created_at = now \<rparr> w1 = (Inr (), w2)" using log by blast
        with q Inr Some Elevated show ?thesis
          by (simp add: promote_one_def attempt_def tryA_def ret_def accounted_def)
      next
        case (AlreadyAdmin u)
        with q Inr Some show ?thesis by (simp add: promote_one_def attempt_def ret_def accounted_def)
      qed
    qed
  qed
qed

lemma promote_all_counts:
  "\<exists>s' w'. foldA (promote_one now) s ids w = (Inr s', w')
     \<and> accounted s' = accounted s + length ids \<and> configured_admins s' = configured_admins s"
proof (induction ids arbitrary: s w)
  case (Cons t ids)
  obtain s1 w1 where one: "promote_one now s t w = (Inr s1, w1)" "accounted s1 = Suc (accounted s)"
    "configured_admins s1 = configured_admins s"
    using promote_one_counts by blast
  with Cons.IH[of s1 w1] show ?case by (auto simp: tryA_def)
qed simp

text \<open>The bootstrap sweep never fails, whatever the database does: it visits every configured
  admin, and its summary counts each of them exactly once as elevated, already admin, pending or
  failed.\<close>
theorem bootstrap_is_resilient:
  "\<exists>s w'. bootstrap_admins ids w = (Inr s, w') \<and> configured_admins s = length ids
     \<and> elevated_now s + already_admin s + pending_signup s + failed s = length ids"
  using promote_all_counts[of "env_clock (w_env w) (w_ticks w)"
      "\<lparr> configured_admins = length ids, elevated_now = 0, already_admin = 0,
         pending_signup = 0, failed = 0 \<rparr>" ids "w\<lparr> w_ticks := Suc (w_ticks w) \<rparr>"]
  by (auto simp: bootstrap_admins_def Let_def tryA_def now_utc_def ret_def accounted_def)

text \<open>Without failures every registered admin ends up promoted, and a second sweep is idle.\<close>

definition links_ok :: "world \<Rightarrow> bool" where
  "links_ok w \<longleftrightarrow>
     (\<forall>u \<in> set (w_users w). references e_id (u_linked_employee_id u) (w_employees w))"

definition settled :: "int set \<Rightarrow> world \<Rightarrow> bool" where
  "settled ids w \<longleftrightarrow> w_faults w = [] \<and> users_ok w \<and> links_ok w
     \<and> (\<forall>u \<in> set (w_users w). u_telegram_id u \<in> ids \<longrightarrow> u_role u = Admin)"

lemma emit_audit_no_faults:
  "w_faults w = [] \<Longrightarrow> \<exists>w'. emit_audit e w = (Inr (), w') \<and> w_faults w' = []
     \<and> w_users w' = w_users w \<and> w_employees w' = w_employees w"
  by (auto simp: emit_audit_def attempt_def append_admin_audit_def statement_no_faults Let_def ret_def)

lemma promote_one_idle:
  assumes "settled ids w" "t \<in> ids"
  shows "\<exists>s'. promote_one now s t w = (Inr s', w) \<and> elevated_now s' = elevated_now s
    \<and> failed s' = failed s"
proof (cases "find (\<lambda>u. u_telegram_id u = t) (w_users w)")
  case None
  with assms show ?thesis
    by (simp add: promote_one_def attempt_def promote_bootstrap_admin_def find_by_telegram_id_def
        settled_def tryA_def select_no_faults ret_def)
next
  case (Some u)
  with assms find_SomeD[OF Some] have "u_role u = Admin" by (auto simp: settled_def)
  with Some assms show ?thesis
    by (simp add: promote_one_def attempt_def promote_bootstrap_admin_def find_by_telegram_id_def
        settled_def tryA_def select_no_faults ret_def)
qed

lemma promote_all_idle:
  "settled ids w \<Longrightarrow> set ts \<subseteq> ids \<Longrightarrow>
     \<exists>s'. foldA (promote_one now) s ts w = (Inr s', w) \<and> elevated_now s' = elevated_now s
       \<and> failed s' = failed s"
proof (induction ts arbitrary: s)
  case (Cons t ts)
  obtain s1 where one: "promote_one now s t w = (Inr s1, w)" "elevated_now s1 = elevated_now s"
    "failed s1 = failed s"
    using promote_one_idle[OF Cons.prems(1), of t] Cons.prems(2) by (meson list.set_intros(1) subsetD)
  from Cons.IH[OF Cons.prems(1), of s1] Cons.prems(2) one show ?case by (auto simp: tryA_def)
qed simp

lemma promote_one_settles:
  assumes "settled ids w"
  shows "\<exists>s' w'. promote_one now s t w = (Inr s', w') \<and> settled (insert t ids) w'
    \<and> failed s' = failed s"
proof (cases "find (\<lambda>u. u_telegram_id u = t) (w_users w)")
  case None
  then have "settled (insert t ids) w" using assms by (auto simp: settled_def find_None_iff)
  then show ?thesis using promote_one_idle[of "insert t ids" w t now s] by blast
next
  case (Some u)
  note u = find_SomeD[OF Some]
  have ok: "w_faults w = []" "users_ok w" "links_ok w" using assms by (simp_all add: settled_def)
  have unique: "v = u" if "v \<in> set (w_users w)" "u_telegram_id v = t" for v
    using distinct_key_inj[of u_telegram_id "w_users w" v u] that u ok(2) by (simp add: users_ok_def)
  have same_row: "v = u" if "v \<in> set (w_users w)" "u_id v = u_id u" for v
    using distinct_key_inj[of u_id "w_users w" v u] that u ok(2) by (simp add: users_ok_def)
  show ?thesis
  proof (cases "u_role u = Admin")
    case True
    then have "settled (insert t ids) w" using assms unique by (auto simp: settled_def)
    then show ?thesis using promote_one_idle[of "insert t ids" w t now s] by blast
  next
    case False
    let ?f = "\<lambda>r. r\<lparr> u_role := Admin, u_deactivated_at := None, u_updated_at := now \<rparr>"
    let ?users = "update_where (\<lambda>r. u_id r = u_id u) ?f (w_users w)"
    have found: "find (\<lambda>r. u_id r = u_id u) (w_users w) = Some u"
      using find_distinct_key[of u_id "w_users w" u] u ok(2) by (simp add: users_ok_def)
    have refs: "list_all (\<lambda>r. references e_id (u_linked_employee_id r) (w_employees w))
        (filter (\<lambda>r. u_id r = u_id u) (w_users w))"
      using ok(3) by (simp add: links_ok_def list_all_iff)
    have promote: "promote_bootstrap_admin t now w =
        (Inr (Some (Elevated (?f u))), w\<lparr> w_users := ?users \<rparr>)"
      using Some False found refs ok(1)
      by (simp add: promote_bootstrap_admin_def find_by_telegram_id_def tryA_def select_no_faults
          update_user_returning_def statement_no_faults lift_def ret_def)
    obtain w2 where log: "emit_audit \<lparr> aa_id = None, aa_actor_user_id = None,
            aa_target_user_id = u_id (?f u), aa_action_code = RoleElevatedByBootstrap,
            aa_metadata = JObj [(''telegram_id'', JNum t),
              (''source'', jstr ''env:TELEGRAM_ADMIN_IDS'')],
            aa_created_at = now \<rparr> (w\<lparr> w_users := ?users \<rparr>) = (Inr (), w2)"
      and w2: "w_faults w2 = []" "w_users w2 = ?users" "w_employees w2 = w_employees w"
      using emit_audit_no_faults[of "w\<lparr> w_users := ?users \<rparr>"] ok(1) by fastforce
    have "users_ok w2"
      using ok(2) w2(2) u by (auto simp: users_ok_def map_update_where_frame set_update_where)
    moreover have "links_ok w2"
      using ok(3) w2(2,3) by (auto simp: links_ok_def set_update_where)
    moreover have "u_role v = Admin" if "v \<in> set ?users" "u_telegram_id v \<in> insert t ids" for v
      using that unique assms u by (auto simp: set_update_where settled_def)
    ultimately have "settled (insert t ids) w2" using w2 by (simp add: settled_def)
    moreover have "promote_one now s t w = (Inr (s\<lparr> elevated_now := elevated_now s + 1 \<rparr>), w2)"
      using promote log by (simp add: promote_one_def attempt_def tryA_def ret_def)
    ultimately show ?thesis by simp
  qed
qed

lemma promote_all_settles:
  "settled ids w \<Longrightarrow> \<exists>s' w'. foldA (promote_one now) s ts w = (Inr s', w')
     \<and> settled (set ts \<union> ids) w' \<and> failed s' = failed s"
proof (induction ts arbitrary: s w ids)
  case (Cons t ts)
  obtain s1 w1 where one: "promote_one now s t w = (Inr s1, w1)" "settled (insert t ids) w1"
    "failed s1 = failed s"
    using promote_one_settles[OF Cons.prems] by blast
  from Cons.IH[OF one(2), of s1] one show ?case by (auto simp: tryA_def)
qed simp

text \<open>On a database that answers, bootstrap promotes every configured admin who has an account,
  with no failure, and running it again is idempotent: the second sweep elevates nobody and changes
  nothing but the clock.\<close>
theorem bootstrap_promotes_and_is_idempotent:
  assumes "w_faults w = []" "users_ok w" "links_ok w"
  shows "\<exists>s w1 s2 w2. bootstrap_admins ids w = (Inr s, w1) \<and> failed s = 0
    \<and> (\<forall>u \<in> set (w_users w1). u_telegram_id u \<in> set ids \<longrightarrow> u_role u = Admin)
    \<and> bootstrap_admins ids w1 = (Inr s2, w2) \<and> elevated_now s2 = 0 \<and> failed s2 = 0
    \<and> same_tables w1 w2"
proof (cases "ids = []")
  case True
  then show ?thesis by (simp add: bootstrap_admins_def Let_def ret_def same_tables.refl)
next
  case False
  let ?s0 = "\<lparr> configured_admins = length ids, elevated_now = 0, already_admin = 0,
               pending_signup = 0, failed = 0 \<rparr>"
  have "settled {} (w\<lparr> w_ticks := Suc (w_ticks w) \<rparr>)"
    using assms by (simp add: settled_def users_ok_def links_ok_def)
  from promote_all_settles[OF this, of "env_clock (w_env w) (w_ticks w)" ?s0 ids]
  obtain s w1 where run: "bootstrap_admins ids w = (Inr s, w1)" "settled (set ids) w1" "failed s = 0"
    using False by (auto simp: bootstrap_admins_def Let_def tryA_def now_utc_def)
  have "settled (set ids) (w1\<lparr> w_ticks := Suc (w_ticks w1) \<rparr>)"
    using run(2) by (simp add: settled_def users_ok_def links_ok_def)
  from promote_all_idle[OF this, of ids "env_clock (w_env w1) (w_ticks w1)" ?s0]
  obtain s2 where "bootstrap_admins ids w1 = (Inr s2, w1\<lparr> w_ticks := Suc (w_ticks w1) \<rparr>)"
    "elevated_now s2 = 0" "failed s2 = 0"
    using False by (auto simp: bootstrap_admins_def Let_def tryA_def now_utc_def)
  then show ?thesis using run by (auto simp: settled_def same_tables_def)
qed

theorem bootstrap_promotes_and_is_idempotent_witness:
  "\<exists>s w1. bootstrap_admins [10, 20, 77] sample_world = (Inr s, w1) \<and> failed s = 0"
  using bootstrap_promotes_and_is_idempotent[of sample_world "[10, 20, 77]"]
  by (auto simp: users_ok_def links_ok_def references_def)

end
