(* ===== verification/Deliveries.thy ===== *)
theory Deliveries
  imports User_Repo "HOL-Library.Multiset"
begin

section \<open>Delivering notifications\<close>

text \<open>
  \<^verbatim>\<open>src/application/use_cases/process_notifications.rs\<close> with its constants of
  \<^verbatim>\<open>src/shared/constants/reliability.rs\<close>. A run takes the batch of notifications that are due and
  delivers each of them through Telegram; the outcome moves the notification to sent, to a later
  retry or to failed, and a delivered assignment moves its task from created to sent.

  Telegram is outside the repository: \<open>tg\<close> answers the \<open>k\<close>-th message ever sent with a message id
  or an error. The deliveries of a batch are tokio tasks whose order of completion is not fixed;
  \<open>order\<close> is that order. The interleaving of statements of two deliveries, which work on different
  notification rows, is not modelled.
\<close>

subsection \<open>The courier: the database and what was sent\<close>

record courier =
  co_world :: world
  co_sent :: "(int \<times> utext) list"

definition db :: "(world, 'a) act \<Rightarrow> (courier, 'a) act" where
  "db m c = (case m (co_world c) of (r, w') \<Rightarrow> (r, c\<lparr> co_world := w' \<rparr>))"

type_synonym telegram =
  "nat \<Rightarrow> int \<Rightarrow> utext \<Rightarrow> notification_type \<Rightarrow> uuid option \<Rightarrow> task_status option \<Rightarrow> int result"

definition send_notification ::
  "telegram \<Rightarrow> int \<Rightarrow> utext \<Rightarrow> notification_type \<Rightarrow> uuid option \<Rightarrow> task_status option \<Rightarrow>
   (courier, int) act" where
  "send_notification tg chat message ntype uid status c =
     (tg (length (co_sent c)) chat message ntype uid status,
      c\<lparr> co_sent := co_sent c @ [(chat, message)] \<rparr>)"

subsection \<open>Outcomes\<close>

definition RECIPIENT_MISSING_ERROR :: string where "RECIPIENT_MISSING_ERROR = ''RECIPIENT_MISSING''"
definition CHAT_ID_MISSING_ERROR :: string where "CHAT_ID_MISSING_ERROR = ''CHAT_ID_MISSING''"
definition TELEGRAM_SEND_FAILED_ERROR :: string where
  "TELEGRAM_SEND_FAILED_ERROR = ''TELEGRAM_SEND_FAILED''"
definition PERMANENT_DELIVERY_ERROR_CODES :: "string list" where
  "PERMANENT_DELIVERY_ERROR_CODES = [''TELEGRAM_BOT_BLOCKED'', ''TELEGRAM_CHAT_NOT_FOUND'']"

definition MAX_NOTIFICATION_RETRY_ATTEMPTS :: int where "MAX_NOTIFICATION_RETRY_ATTEMPTS = 3"
definition NOTIFICATION_RETRY_BASE_SECONDS :: int where "NOTIFICATION_RETRY_BASE_SECONDS = 60"
definition NOTIFICATION_RETRY_MAX_SECONDS :: int where "NOTIFICATION_RETRY_MAX_SECONDS = 3600"
definition PENDING_NOTIFICATION_BATCH_SIZE :: nat where "PENDING_NOTIFICATION_BATCH_SIZE = 25"

text \<open>\<^verbatim>\<open>i64::saturating_mul\<close> on non-negative factors.\<close>

definition saturating_mul_i64 :: "int \<Rightarrow> int \<Rightarrow> int" where
  "saturating_mul_i64 a b = min (a * b) (2 ^ 63 - 1)"

definition backoff_seconds :: "int \<Rightarrow> int" where
  "backoff_seconds next_attempt_count =
     (let exponent = nat (max (next_attempt_count - 1) 0);
          backoff_factor = 2 ^ min exponent 30
      in min (saturating_mul_i64 NOTIFICATION_RETRY_BASE_SECONDS backoff_factor)
             NOTIFICATION_RETRY_MAX_SECONDS)"

definition handle_transient_failure :: "row_id \<Rightarrow> int \<Rightarrow> (world, unit) act" where
  "handle_transient_failure i next_attempt_count =
     (if next_attempt_count \<ge> MAX_NOTIFICATION_RETRY_ATTEMPTS
      then mark_failed i TELEGRAM_SEND_FAILED_ERROR
      else
        tryA now_utc (\<lambda>now.
        mark_retry_pending i (now + backoff_seconds next_attempt_count * ns_per_sec)
          TELEGRAM_SEND_FAILED_ERROR))"

definition mark_related_task_as_sent ::
  "notification_type \<Rightarrow> task option \<Rightarrow> (world, unit) act" where
  "mark_related_task_as_sent ntype related =
     (if ntype \<noteq> TaskAssigned then ret ()
      else case related of
        None \<Rightarrow> ret ()
      | Some t \<Rightarrow>
          if t_status t \<noteq> Created then ret ()
          else
            tryA now_utc (\<lambda>now.
            tryA (lift (transition_to t Sent now)) (\<lambda>updated.
            attempt (update_task updated) (\<lambda>r.
            case r of
              Inl e \<Rightarrow> if err_code e = ''TASK_VERSION_CONFLICT'' then ret () else fail e
            | Inr stored \<Rightarrow>
                (case t_id stored of
                   None \<Rightarrow> ret ()
                 | Some task_id \<Rightarrow>
                     tryA (append_audit \<lparr> al_id = None, al_task_id = task_id,
                       al_action = AuditSent, al_old_status = Some (show_status Created),
                       al_new_status = Some (show_status Sent), al_changed_by_user_id = None,
                       al_metadata = JObj [(''delivery_channel'', jstr ''telegram'')],
                       al_created_at = now \<rparr>) (\<lambda>_. ret ()))))))"

definition load_related_task :: "row_id option \<Rightarrow> (world, task option) act" where
  "load_related_task task_id =
     (case task_id of None \<Rightarrow> ret None | Some i \<Rightarrow> find_by_id i)"

subsection \<open>One delivery, one batch\<close>

definition deliver_single :: "telegram \<Rightarrow> notification \<Rightarrow> (courier, unit) act" where
  "deliver_single tg n =
     (case n_id n of
        None \<Rightarrow> ret ()
      | Some i \<Rightarrow>
          tryA (db (find_user_by_id (n_recipient_user_id n))) (\<lambda>recipient.
          case recipient of
            None \<Rightarrow> db (mark_failed i RECIPIENT_MISSING_ERROR)
          | Some u \<Rightarrow>
          (case u_last_chat_id u of
            None \<Rightarrow> db (mark_failed i CHAT_ID_MISSING_ERROR)
          | Some chat_id \<Rightarrow>
          tryA (db (load_related_task (n_task_id n))) (\<lambda>related.
          attempt (send_notification tg chat_id (n_message n) (n_notification_type n)
                     (map_option t_task_uid related) (map_option t_status related)) (\<lambda>outcome.
          case outcome of
            Inr message_id \<Rightarrow>
              tryA (db now_utc) (\<lambda>now.
              tryA (db (mark_sent i message_id now)) (\<lambda>_.
              db (mark_related_task_as_sent (n_notification_type n) related)))
          | Inl e \<Rightarrow>
              if err_code e \<in> set PERMANENT_DELIVERY_ERROR_CODES
              then db (mark_failed i (err_code e))
              else db (handle_transient_failure i (n_attempt_count n + 1)))))))"

fun deliver_all ::
  "telegram \<Rightarrow> app_error option \<Rightarrow> notification list \<Rightarrow> (courier, unit) act" where
  "deliver_all tg first_error [] =
     (case first_error of None \<Rightarrow> ret () | Some e \<Rightarrow> fail e)"
| "deliver_all tg first_error (n # ns) =
     attempt (deliver_single tg n) (\<lambda>r.
       deliver_all tg
         (case r of
            Inr _ \<Rightarrow> first_error
          | Inl e \<Rightarrow> (case first_error of None \<Rightarrow> Some e | Some f \<Rightarrow> Some f)) ns)"

definition process_notifications ::
  "telegram \<Rightarrow> (notification list \<Rightarrow> notification list) \<Rightarrow> (courier, unit) act" where
  "process_notifications tg order =
     tryA (db (list_pending PENDING_NOTIFICATION_BATCH_SIZE)) (\<lambda>notifications.
     deliver_all tg None (order notifications))"

subsection \<open>Backoff\<close>

text \<open>The delay before a retry doubles with the attempt, starting at one minute, and never
  exceeds one hour: the saturating product and the capped exponent of the code compute
  \<open>min (60 * 2 ^ (k - 1)) 3600\<close> for every attempt \<open>k\<close>, without overflow.\<close>
theorem backoff_is_capped_doubling:
  assumes "1 \<le> k"
  shows "backoff_seconds k = min (60 * 2 ^ nat (k - 1)) 3600"
proof -
  have big: "(3600 :: int) \<le> 60 * 2 ^ m" if "6 \<le> m" for m
  proof -
    have "(2 :: int) ^ 6 \<le> 2 ^ m" using that by (intro power_increasing) auto
    then show ?thesis by simp
  qed
  show ?thesis
  proof (cases "nat (k - 1) \<le> 30")
    case True
    have "(60 :: int) * 2 ^ nat (k - 1) \<le> 60 * 2 ^ 30"
      using True by (intro mult_left_mono power_increasing) auto
    then have "saturating_mul_i64 60 (2 ^ nat (k - 1)) = 60 * 2 ^ nat (k - 1)"
      by (simp add: saturating_mul_i64_def)
    with True assms show ?thesis
      by (simp add: backoff_seconds_def Let_def NOTIFICATION_RETRY_BASE_SECONDS_def
          NOTIFICATION_RETRY_MAX_SECONDS_def)
  next
    case False
    then have "min (nat (k - 1)) 30 = 30" by simp
    with False big[of "nat (k - 1)"] assms show ?thesis
      by (simp add: backoff_seconds_def Let_def NOTIFICATION_RETRY_BASE_SECONDS_def
          NOTIFICATION_RETRY_MAX_SECONDS_def saturating_mul_i64_def)
  qed
qed

theorem backoff_is_capped_doubling_witness:
  "backoff_seconds 2 = 120 \<and> backoff_seconds 9 = 3600"
  using backoff_is_capped_doubling[of 2] backoff_is_capped_doubling[of 9] by simp


subsection \<open>What a delivery does to the notification rows\<close>

datatype mark = MarkSent int instant | MarkRetry instant string | MarkFailed string

fun apply_mark :: "mark \<Rightarrow> notification \<Rightarrow> notification" where
  "apply_mark (MarkSent message_id at) n = n\<lparr> n_is_sent := True, n_delivery_state := DeliverySent,
     n_telegram_message_id := Some message_id, n_sent_at := Some at, n_next_attempt_at := None,
     n_last_error_code := None \<rparr>"
| "apply_mark (MarkRetry at code) n = n\<lparr> n_attempt_count := n_attempt_count n + 1,
     n_delivery_state := DeliveryRetryPending, n_next_attempt_at := Some at,
     n_last_error_code := Some code \<rparr>"
| "apply_mark (MarkFailed code) n = n\<lparr> n_attempt_count := n_attempt_count n + 1,
     n_delivery_state := DeliveryFailed, n_next_attempt_at := None,
     n_last_error_code := Some code \<rparr>"

fun mark_allowed :: "notification \<Rightarrow> mark \<Rightarrow> bool" where
  "mark_allowed n (MarkRetry _ _) \<longleftrightarrow> n_attempt_count n + 1 < MAX_NOTIFICATION_RETRY_ATTEMPTS"
| "mark_allowed n _ \<longleftrightarrow> True"

lemma marks:
  "mark_sent i m at = update_notification i (apply_mark (MarkSent m at))"
  "mark_retry_pending i at code = update_notification i (apply_mark (MarkRetry at code))"
  "mark_failed i code = update_notification i (apply_mark (MarkFailed code))"
  unfolding mark_sent_def mark_retry_pending_def mark_failed_def
  by (rule arg_cong[where f = "update_notification i"], simp add: fun_eq_iff)+

lemma apply_mark_frame [simp]:
  "n_id (apply_mark m n) = n_id n" "n_dedupe_key (apply_mark m n) = n_dedupe_key n"
  by (cases m; simp)+

text \<open>\<open>row_marked i n w w'\<close>: the row \<open>i\<close> received at most one mark, allowed for the snapshot \<open>n\<close>.\<close>

definition row_marked :: "row_id \<Rightarrow> notification \<Rightarrow> world \<Rightarrow> world \<Rightarrow> bool" where
  "row_marked i n w w' \<longleftrightarrow> w_notifications w' = w_notifications w \<or>
     (\<exists>m. mark_allowed n m \<and> w_notifications w' =
        update_where (\<lambda>r. n_id r = Some i) (apply_mark m) (w_notifications w))"

definition same_notifications :: "world \<Rightarrow> world \<Rightarrow> bool" where
  "same_notifications w w' \<longleftrightarrow> w_notifications w' = w_notifications w"

interpretation notif: store_frame same_notifications
  by unfold_locales (auto simp: same_notifications_def bookkeeping_free_def)

lemma notif_update_task: "obeys same_notifications (update_task t)"
  unfolding update_task_def by (intro notif.store_rules) (simp add: same_notifications_def)

lemma notif_append_audit: "obeys same_notifications (append_audit e)"
  unfolding append_audit_def by (rule notif.statement) (simp add: same_notifications_def Let_def)

lemma notif_related: "obeys same_notifications (mark_related_task_as_sent ty t)"
  unfolding mark_related_task_as_sent_def
  by (intro notif.store_rules obeys_if obeys_option obeys_sum notif_update_task notif_append_audit)

lemma notif_reads: "obeys same_notifications (find_user_by_id j)"
  "obeys same_notifications (load_related_task v)"
  unfolding find_user_by_id_def load_related_task_def find_by_id_def
  by (intro notif.store_rules obeys_option)+

lemma update_notification_row:
  assumes "update_notification i (apply_mark m) w = (r, w')" "mark_allowed n m"
  shows "row_marked i n w w' \<and> (r = Inr () \<longrightarrow>
    w_notifications w' = update_where (\<lambda>r. n_id r = Some i) (apply_mark m) (w_notifications w))"
  using assms
  by (cases r) (auto simp: update_notification_def execute_def statement_Inr row_marked_def
      dest!: statement_Inl)

lemma transient_row:
  assumes "handle_transient_failure i (n_attempt_count n + 1) w = (r, w')"
  shows "row_marked i n w w'"
proof (cases "n_attempt_count n + 1 \<ge> MAX_NOTIFICATION_RETRY_ATTEMPTS")
  case True
  with assms show ?thesis
    using update_notification_row[of i "MarkFailed TELEGRAM_SEND_FAILED_ERROR" w r w' n]
    by (simp add: handle_transient_failure_def marks)
next
  case False
  let ?w1 = "w\<lparr> w_ticks := Suc (w_ticks w) \<rparr>"
  from False assms obtain at where
    "update_notification i (apply_mark (MarkRetry at TELEGRAM_SEND_FAILED_ERROR)) ?w1 = (r, w')"
    by (cases r) (auto simp: handle_transient_failure_def marks tryA_eq_Inr tryA_eq_Inl)
  with False have "row_marked i n ?w1 w'" using update_notification_row by fastforce
  then show ?thesis by (simp add: row_marked_def)
qed

lemma db_eq: "db m c = (r, c') \<longleftrightarrow>
    (\<exists>w'. m (co_world c) = (r, w') \<and> c' = c\<lparr> co_world := w' \<rparr>)"
  by (auto simp: db_def split: prod.splits)

lemma same_notificationsD: "obeys same_notifications m \<Longrightarrow> m w = (r, w') \<Longrightarrow>
    w_notifications w' = w_notifications w"
  using obeysD[of same_notifications m w r w'] by (simp add: same_notifications_def)

lemma row_marked_same:
  "w_notifications w1 = w_notifications w \<Longrightarrow> row_marked i n w1 w' \<Longrightarrow> row_marked i n w w'"
  "row_marked i n w w1 \<Longrightarrow> w_notifications w' = w_notifications w1 \<Longrightarrow> row_marked i n w w'"
  by (simp_all add: row_marked_def)

text \<open>The part of a delivery after the message went out.\<close>

definition after_send ::
  "row_id \<Rightarrow> notification \<Rightarrow> task option \<Rightarrow> int result \<Rightarrow> (world, unit) act" where
  "after_send i n related outcome =
     (case outcome of
        Inr message_id \<Rightarrow>
          tryA now_utc (\<lambda>now.
          tryA (mark_sent i message_id now) (\<lambda>_.
          mark_related_task_as_sent (n_notification_type n) related))
      | Inl e \<Rightarrow>
          if err_code e \<in> set PERMANENT_DELIVERY_ERROR_CODES
          then mark_failed i (err_code e)
          else handle_transient_failure i (n_attempt_count n + 1))"

lemma after_send_row:
  assumes "after_send i n related outcome w = (r, w')"
  shows "row_marked i n w w'"
proof (cases outcome)
  case (Inl e)
  with assms show ?thesis
    using update_notification_row[of i "MarkFailed (err_code e)" w r w' n] transient_row
    by (auto simp: after_send_def marks split: if_splits)
next
  case (Inr m)
  let ?at = "env_clock (w_env w) (w_ticks w)" and ?w1 = "w\<lparr> w_ticks := Suc (w_ticks w) \<rparr>"
  obtain q w2 where mark: "update_notification i (apply_mark (MarkSent m ?at)) ?w1 = (q, w2)"
    by (cases "update_notification i (apply_mark (MarkSent m ?at)) ?w1")
  have "row_marked i n ?w1 w2" using update_notification_row[OF mark] by simp
  then have "row_marked i n w w2" by (simp add: row_marked_def)
  moreover have "w_notifications w' = w_notifications w2"
    using assms Inr mark same_notificationsD[OF notif_related]
    by (cases q) (auto simp: after_send_def marks tryA_def now_utc_def)
  ultimately show ?thesis by (rule row_marked_same(2))
qed


lemma db_tryA: "db (tryA m f) = tryA (db m) (\<lambda>x. db (f x))"
  by (auto simp: fun_eq_iff db_def tryA_def split: prod.split sum.split)

lemma deliver_single_eq:
  "deliver_single tg n =
     (case n_id n of
        None \<Rightarrow> ret ()
      | Some i \<Rightarrow>
          tryA (db (find_user_by_id (n_recipient_user_id n))) (\<lambda>recipient.
          case recipient of
            None \<Rightarrow> db (mark_failed i RECIPIENT_MISSING_ERROR)
          | Some u \<Rightarrow>
          (case u_last_chat_id u of
            None \<Rightarrow> db (mark_failed i CHAT_ID_MISSING_ERROR)
          | Some chat_id \<Rightarrow>
          tryA (db (load_related_task (n_task_id n))) (\<lambda>related.
          attempt (send_notification tg chat_id (n_message n) (n_notification_type n)
                     (map_option t_task_uid related) (map_option t_status related)) (\<lambda>outcome.
          db (after_send i n related outcome))))))"
proof -
  have "(case outcome of
            Inr message_id \<Rightarrow>
              tryA (db now_utc) (\<lambda>now.
              tryA (db (mark_sent i message_id now)) (\<lambda>_.
              db (mark_related_task_as_sent (n_notification_type n) related)))
          | Inl e \<Rightarrow>
              if err_code e \<in> set PERMANENT_DELIVERY_ERROR_CODES
              then db (mark_failed i (err_code e))
              else db (handle_transient_failure i (n_attempt_count n + 1)))
        = db (after_send i n related outcome)" for i related outcome
    by (simp add: after_send_def db_tryA split: sum.split)
  then show ?thesis by (simp add: deliver_single_def cong: option.case_cong)
qed

lemma deliver_single_row:
  assumes i: "n_id n = Some i" and run: "deliver_single tg n c = (r, c')"
  shows "row_marked i n (co_world c) (co_world c')
    \<and> length (co_sent c') \<le> length (co_sent c) + 1"
proof -
  have failed: "row_marked i n v w'" if "mark_failed i code v = (q, w')" for code q v w'
    using update_notification_row[of i "MarkFailed code" v q w' n] that by (simp add: marks)
  obtain q w1 where user: "find_user_by_id (n_recipient_user_id n) (co_world c) = (q, w1)"
    by (cases "find_user_by_id (n_recipient_user_id n) (co_world c)")
  have w1: "w_notifications w1 = w_notifications (co_world c)"
    using same_notificationsD[OF notif_reads(1) user] .
  note step = run[unfolded deliver_single_eq] i user
  show ?thesis
  proof (cases q)
    case (Inl e)
    with step w1 show ?thesis by (auto simp: tryA_def db_def row_marked_def)
  next
    case (Inr recipient)
    show ?thesis
    proof (cases "Option.bind recipient u_last_chat_id")
      case None
      with step Inr obtain code where "db (mark_failed i code) (c\<lparr> co_world := w1 \<rparr>) = (r, c')"
        by (cases recipient) (auto simp: tryA_def db_def[of "find_user_by_id _"] split: option.splits)
      then show ?thesis using failed row_marked_same(1)[OF w1] by (auto simp: db_eq)
    next
      case (Some chat_id)
      obtain p w2 where task: "load_related_task (n_task_id n) w1 = (p, w2)"
        by (cases "load_related_task (n_task_id n) w1")
      have w2: "w_notifications w2 = w_notifications (co_world c)"
        using same_notificationsD[OF notif_reads(2) task] w1 by simp
      show ?thesis
      proof (cases p)
        case (Inl e)
        with step Inr Some task w2 show ?thesis
          by (auto simp: tryA_def db_def row_marked_def bind_eq_Some_conv)
      next
        case (Inr related)
        define outcome where "outcome = tg (length (co_sent c)) chat_id (n_message n)
          (n_notification_type n) (map_option t_task_uid related) (map_option t_status related)"
        define c2 where "c2 = c\<lparr> co_world := w2, co_sent := co_sent c @ [(chat_id, n_message n)] \<rparr>"
        from Some obtain u where "recipient = Some u" "u_last_chat_id u = Some chat_id"
          by (auto simp: bind_eq_Some_conv)
        with step \<open>q = Inr recipient\<close> task Inr have "db (after_send i n related outcome) c2 = (r, c')"
          by (simp add: tryA_def db_def[of "find_user_by_id _"] db_def[of "load_related_task _"]
              attempt_def send_notification_def outcome_def c2_def)
        moreover have "co_world c2 = w2" "length (co_sent c2) = length (co_sent c) + 1"
          by (simp_all add: c2_def)
        ultimately show ?thesis using after_send_row row_marked_same(1)[OF w2] by (auto simp: db_eq)
      qed
    qed
  qed
qed

subsection \<open>The number of attempts stays bounded\<close>

definition attempts_ok :: "world \<Rightarrow> bool" where
  "attempts_ok w \<longleftrightarrow> (\<forall>n \<in> set (w_notifications w). 0 \<le> n_attempt_count n
     \<and> n_attempt_count n \<le> MAX_NOTIFICATION_RETRY_ATTEMPTS
     \<and> (n_delivery_state n \<in> {DeliveryPending, DeliveryRetryPending} \<longrightarrow>
          n_attempt_count n < MAX_NOTIFICATION_RETRY_ATTEMPTS))"

text \<open>The snapshots still to be delivered are the rows as they are, due for a first or a later try.\<close>

definition fresh_batch :: "notification list \<Rightarrow> world \<Rightarrow> bool" where
  "fresh_batch ns w \<longleftrightarrow> distinct (map n_id ns)
     \<and> (\<forall>n \<in> set ns. n \<in> set (w_notifications w)
          \<and> n_delivery_state n \<in> {DeliveryPending, DeliveryRetryPending})"

lemma row_marked_keeps:
  assumes ok: "notifications_ok w" "attempts_ok w" and batch: "fresh_batch (n # ns) w"
    and i: "n_id n = Some i" and marked: "row_marked i n w w'"
  shows "notifications_ok w' \<and> attempts_ok w' \<and> fresh_batch ns w'"
  using marked unfolding row_marked_def
proof (elim disjE exE conjE)
  assume "w_notifications w' = w_notifications w"
  with ok batch show ?thesis by (simp add: notifications_ok_def attempts_ok_def fresh_batch_def)
next
  fix m
  assume m: "mark_allowed n m"
    and rows: "w_notifications w' = update_where (\<lambda>r. n_id r = Some i) (apply_mark m) (w_notifications w)"
  have n: "n \<in> set (w_notifications w)" "n_delivery_state n \<in> {DeliveryPending, DeliveryRetryPending}"
    using batch by (simp_all add: fresh_batch_def)
  have unique: "r = n" if "r \<in> set (w_notifications w)" "n_id r = Some i" for r
    using distinct_key_inj[of n_id "w_notifications w" r n] ok(1) n(1) that i
    by (simp add: notifications_ok_def)
  have row: "r = apply_mark m n \<or> r \<in> set (w_notifications w) \<and> n_id r \<noteq> Some i"
    if "r \<in> set (w_notifications w')" for r
    using that unique by (auto simp: rows set_update_where)
  have marked_row: "0 \<le> n_attempt_count (apply_mark m n)
      \<and> n_attempt_count (apply_mark m n) \<le> MAX_NOTIFICATION_RETRY_ATTEMPTS
      \<and> (n_delivery_state (apply_mark m n) \<in> {DeliveryPending, DeliveryRetryPending} \<longrightarrow>
           n_attempt_count (apply_mark m n) < MAX_NOTIFICATION_RETRY_ATTEMPTS)"
    using ok(2) n m by (cases m) (auto simp: attempts_ok_def)
  have "notifications_ok w'"
    using ok(1) by (auto simp: notifications_ok_def rows map_update_where_frame set_update_where)
  moreover have "attempts_ok w'"
    unfolding attempts_ok_def
  proof
    fix r assume "r \<in> set (w_notifications w')"
    from row[OF this] marked_row ok(2) show "0 \<le> n_attempt_count r
      \<and> n_attempt_count r \<le> MAX_NOTIFICATION_RETRY_ATTEMPTS
      \<and> (n_delivery_state r \<in> {DeliveryPending, DeliveryRetryPending} \<longrightarrow>
           n_attempt_count r < MAX_NOTIFICATION_RETRY_ATTEMPTS)"
      unfolding attempts_ok_def by blast
  qed
  moreover have "fresh_batch ns w'"
    unfolding fresh_batch_def
  proof (intro conjI ballI)
    show "distinct (map n_id ns)" using batch by (simp add: fresh_batch_def)
    fix x assume x: "x \<in> set ns"
    have "n_id x \<in> n_id ` set ns" using x by simp
    with batch i have "n_id x \<noteq> Some i" by (metis distinct.simps(2) fresh_batch_def list.map(2) list.set_map)
    moreover have "x \<in> set (w_notifications w)" using batch x by (simp add: fresh_batch_def)
    ultimately show "x \<in> set (w_notifications w')" by (simp add: rows set_update_where)
    show "n_delivery_state x \<in> {DeliveryPending, DeliveryRetryPending}"
      using batch x by (simp add: fresh_batch_def)
  qed
  ultimately show ?thesis by simp
qed

lemma deliver_all_keeps:
  "notifications_ok (co_world c) \<Longrightarrow> attempts_ok (co_world c) \<Longrightarrow> fresh_batch ns (co_world c) \<Longrightarrow>
   deliver_all tg e ns c = (r, c') \<Longrightarrow>
     notifications_ok (co_world c') \<and> attempts_ok (co_world c')
     \<and> length (co_sent c') \<le> length (co_sent c) + length ns"
proof (induction ns arbitrary: e c)
  case Nil
  then show ?case by (auto split: option.splits)
next
  case (Cons n ns)
  obtain i where i: "n_id n = Some i"
    using Cons.prems(1,3) by (auto simp: fresh_batch_def notifications_ok_def)
  obtain q c1 where one: "deliver_single tg n c = (q, c1)" by (cases "deliver_single tg n c")
  note row = deliver_single_row[OF i one]
  from row_marked_keeps[OF Cons.prems(1-3) i] row
  have "notifications_ok (co_world c1)" "attempts_ok (co_world c1)" "fresh_batch ns (co_world c1)"
    by simp_all
  from Cons.IH[OF this] Cons.prems(4) one row show ?case
    by (fastforce simp: attempt_def)
qed


lemma notif_list_pending: "obeys same_notifications (list_pending k)"
  unfolding list_pending_def by (intro notif.store_rules)

lemma pending_batch:
  assumes run: "list_pending k w = (Inr ns, w')" and ok: "notifications_ok w"
    and order: "mset ms = mset ns"
  shows "fresh_batch ms w' \<and> length ms \<le> k \<and> w_notifications w' = w_notifications w"
proof -
  obtain now where ns: "ns = take k (sort_key n_created_at
       (filter (due_for_delivery now) (w_notifications w)))"
    and same: "w_notifications w' = w_notifications w"
    using run by (auto simp: list_pending_def tryA_eq_Inr select_Inr)
  let ?rows = "sort_key n_created_at (filter (due_for_delivery now) (w_notifications w))"
  have "mset (map n_id ?rows) = mset (map n_id (filter (due_for_delivery now) (w_notifications w)))"
    by (simp only: mset_map mset_sort)
  then have "distinct (map n_id ?rows)"
    using ok distinct_map_filter[of n_id "w_notifications w"]
    by (metis mset_eq_imp_distinct_iff notifications_ok_def)
  then have "distinct (map n_id ns)" unfolding ns take_map[symmetric] by simp
  moreover have "mset (map n_id ms) = mset (map n_id ns)" using order by simp
  ultimately have dist: "distinct (map n_id ms)" using mset_eq_imp_distinct_iff by blast
  have sets: "set ms = set ns" using order by (rule mset_eq_setD)
  have "n \<in> set (w_notifications w') \<and> n_delivery_state n \<in> {DeliveryPending, DeliveryRetryPending}"
    if "n \<in> set ms" for n
  proof -
    have "n \<in> set ?rows" using that unfolding sets ns by (rule in_set_takeD)
    then show ?thesis by (simp add: same due_for_delivery_def)
  qed
  with dist have "fresh_batch ms w'" unfolding fresh_batch_def by blast
  moreover have "length ms \<le> k" using mset_eq_length[OF order] by (simp add: ns)
  ultimately show ?thesis using same by simp
qed

text \<open>A delivery run - successful or cut short by database failures, whatever Telegram answers and
  in whatever order the deliveries of the batch finish - sends at most 25 messages, keeps the
  notification table well-formed, and never lets a notification exceed three attempts: one that is
  still to be delivered has had fewer than three.\<close>
theorem delivery_run_bounded:
  assumes "notifications_ok (co_world c)" "attempts_ok (co_world c)"
    and "\<And>ns. mset (order ns) = mset ns"
    and "process_notifications tg order c = (r, c')"
  shows "notifications_ok (co_world c') \<and> attempts_ok (co_world c')
    \<and> length (co_sent c') \<le> length (co_sent c) + 25"
proof -
  obtain q w1 where list: "list_pending PENDING_NOTIFICATION_BATCH_SIZE (co_world c) = (q, w1)"
    by (cases "list_pending PENDING_NOTIFICATION_BATCH_SIZE (co_world c)")
  have same: "w_notifications w1 = w_notifications (co_world c)"
    using same_notificationsD[OF notif_list_pending list] .
  then have ok1: "notifications_ok w1" "attempts_ok w1"
    using assms(1,2) by (simp_all add: notifications_ok_def attempts_ok_def)
  show ?thesis
  proof (cases q)
    case (Inl e)
    with assms(4) list ok1 show ?thesis
      by (auto simp: process_notifications_def tryA_def db_def)
  next
    case (Inr ns)
    have run: "deliver_all tg None (order ns) (c\<lparr> co_world := w1 \<rparr>) = (r, c')"
      using assms(4) list Inr by (simp add: process_notifications_def tryA_def db_def)
    have batch: "fresh_batch (order ns) w1" "length (order ns) \<le> 25"
      using pending_batch[OF list[unfolded Inr] assms(1) assms(3)]
      by (simp_all add: PENDING_NOTIFICATION_BATCH_SIZE_def)
    show ?thesis
      using deliver_all_keeps[OF _ _ _ run] ok1 batch by fastforce
  qed
qed

subsection \<open>Every notification is settled\<close>

definition calm :: "world \<Rightarrow> world \<Rightarrow> bool" where
  "calm w w' \<longleftrightarrow> (w_faults w = [] \<longrightarrow> w_faults w' = [])"

interpretation calm: frame calm
  by unfold_locales (auto simp: calm_def)

lemma calm_statement:
  assumes "\<And>w. w_faults (snd (f w)) = w_faults w"
  shows "obeys calm (statement ok f)"
  by (rule obeysI) (use assms in \<open>simp add: calm_def statement_no_faults\<close>)

lemma calm_basic: "obeys calm now_utc" "obeys calm (select g)"
  unfolding select_def
  by (simp add: obeys_def calm_def now_utc_def, rule calm_statement, simp)

lemma calm_related: "obeys calm (mark_related_task_as_sent ty t)"
  unfolding mark_related_task_as_sent_def update_task_def append_audit_def
  by (intro calm.rules calm_basic calm_statement obeys_if obeys_option obeys_sum)
     (simp_all add: Let_def)

lemma update_notification_calm:
  "w_faults w = [] \<Longrightarrow> update_notification i f w =
     (Inr (), w\<lparr> w_notifications := update_where (\<lambda>n. n_id n = Some i) f (w_notifications w) \<rparr>)"
  by (simp add: update_notification_def execute_no_faults)

text \<open>\<open>row_progress i n w w'\<close>: the row received a mark, and the database is still answering.\<close>

definition row_progress :: "row_id \<Rightarrow> notification \<Rightarrow> world \<Rightarrow> world \<Rightarrow> bool" where
  "row_progress i n w w' \<longleftrightarrow> w_faults w' = [] \<and>
     (\<exists>m. mark_allowed n m \<and> w_notifications w' =
        update_where (\<lambda>r. n_id r = Some i) (apply_mark m) (w_notifications w))"

lemma mark_progress:
  "w_faults w = [] \<Longrightarrow> mark_allowed n m \<Longrightarrow>
     row_progress i n w (snd (update_notification i (apply_mark m) w))"
  by (auto simp: update_notification_calm row_progress_def)

lemma after_send_progress:
  assumes "w_faults w = []"
  shows "row_progress i n w (snd (after_send i n related outcome w))"
proof (cases outcome)
  case (Inl e)
  let ?w1 = "w\<lparr> w_ticks := Suc (w_ticks w) \<rparr>"
  have "row_progress i n ?w1 v \<Longrightarrow> row_progress i n w v" for v by (simp add: row_progress_def)
  with Inl assms show ?thesis
    using mark_progress[of w n "MarkFailed c" i for c]
      mark_progress[of ?w1 n "MarkRetry t c" i for t c]
    by (auto simp: after_send_def handle_transient_failure_def marks tryA_def now_utc_def)
next
  case (Inr m)
  let ?at = "env_clock (w_env w) (w_ticks w)" and ?w1 = "w\<lparr> w_ticks := Suc (w_ticks w) \<rparr>"
  let ?w2 = "?w1\<lparr> w_notifications := update_where (\<lambda>n. n_id n = Some i)
      (apply_mark (MarkSent m ?at)) (w_notifications w) \<rparr>"
  obtain q w3 where rel: "mark_related_task_as_sent (n_notification_type n) related ?w2 = (q, w3)"
    by (cases "mark_related_task_as_sent (n_notification_type n) related ?w2")
  have "after_send i n related outcome w = (q, w3)"
    using Inr assms rel
    by (simp add: after_send_def marks tryA_def now_utc_def update_notification_calm)
  moreover have "w_notifications w3 = w_notifications ?w2"
    using same_notificationsD[OF notif_related rel] .
  moreover have "w_faults w3 = []"
    using obeysD[OF calm_related rel] assms by (simp add: calm_def)
  ultimately show ?thesis
    by (auto simp: row_progress_def intro!: exI[of _ "MarkSent m ?at"])
qed

lemma deliver_single_progress:
  assumes i: "n_id n = Some i" and calm: "w_faults (co_world c) = []"
  shows "row_progress i n (co_world c) (co_world (snd (deliver_single tg n c)))"
proof -
  let ?w = "co_world c"
  have user: "db (find_user_by_id j) c = (Inr (find (\<lambda>u. u_id u = Some j) (w_users ?w)), c)" for j
    using calm by (simp add: db_def find_user_by_id_def select_no_faults)
  have task: "db (load_related_task v) c =
      (Inr (Option.bind v (\<lambda>k. find (\<lambda>t. t_id t = Some k) (w_tasks ?w))), c)" for v
    using calm by (cases v) (simp_all add: db_def load_related_task_def find_by_id_def
        select_no_faults ret_def)
  have failed: "row_progress i n ?w (co_world (snd (db (mark_failed i code) c)))" for code
    using mark_progress[of ?w n "MarkFailed code" i] calm
    by (simp add: db_def marks case_prod_beta)
  have sent: "row_progress i n ?w (co_world (snd (db (after_send i n rel out) (c\<lparr> co_sent := l \<rparr>))))"
    for rel out l
    using after_send_progress[of ?w i n rel out] calm by (simp add: db_def case_prod_beta)
  show ?thesis
    unfolding deliver_single_eq
    by (auto simp: i tryA_def user task attempt_def send_notification_def failed sent
        split: option.split)
qed


text \<open>Another look at one notification: it is delivered again while it is not settled.\<close>

definition awaiting :: "notification \<Rightarrow> bool" where
  "awaiting n \<longleftrightarrow> n_delivery_state n \<in> {DeliveryPending, DeliveryRetryPending}"

definition row_of :: "row_id \<Rightarrow> courier \<Rightarrow> notification option" where
  "row_of i c = find (\<lambda>n. n_id n = Some i) (w_notifications (co_world c))"

definition redeliver :: "telegram \<Rightarrow> row_id \<Rightarrow> courier \<Rightarrow> courier" where
  "redeliver tg i c =
     (case row_of i c of
        Some n \<Rightarrow> if awaiting n then snd (deliver_single tg n c) else c
      | None \<Rightarrow> c)"

text \<open>A notification that waits has a delivery ahead of it, even one that is queued again after its last attempt.\<close>

definition attempts_left :: "notification \<Rightarrow> nat" where
  "attempts_left n =
     (if awaiting n then max 1 (nat (MAX_NOTIFICATION_RETRY_ATTEMPTS - n_attempt_count n)) else 0)"

lemma mark_uses_an_attempt:
  "mark_allowed n m \<Longrightarrow> awaiting n \<Longrightarrow> attempts_left (apply_mark m n) \<le> attempts_left n - 1"
  by (cases m) (auto simp: attempts_left_def awaiting_def)

lemma redeliver_progress:
  assumes row: "row_of i c = Some n" and calm: "w_faults (co_world c) = []"
  shows "\<exists>n'. row_of i (redeliver tg i c) = Some n' \<and> attempts_left n' \<le> attempts_left n - 1
    \<and> w_faults (co_world (redeliver tg i c)) = []"
proof (cases "awaiting n")
  case False
  with row calm show ?thesis by (simp add: redeliver_def attempts_left_def)
next
  case True
  have i: "n_id n = Some i" using find_SomeD[OF row[unfolded row_of_def]] by simp
  let ?c = "snd (deliver_single tg n c)"
  obtain m where m: "mark_allowed n m" "w_notifications (co_world ?c) =
      update_where (\<lambda>r. n_id r = Some i) (apply_mark m) (w_notifications (co_world c))"
    "w_faults (co_world ?c) = []"
    using deliver_single_progress[OF i calm, of tg] by (auto simp: row_progress_def)
  have "row_of i ?c = map_option (\<lambda>r. if n_id r = Some i then apply_mark m r else r) (row_of i c)"
    unfolding row_of_def m(2) by (rule find_update_where) simp
  then have "row_of i ?c = Some (apply_mark m n)" using row i by simp
  then show ?thesis using mark_uses_an_attempt[OF m(1) True] m(3) row True by (simp add: redeliver_def)
qed

lemma redeliver_times:
  "row_of i c = Some n \<Longrightarrow> w_faults (co_world c) = [] \<Longrightarrow>
     \<exists>n'. row_of i ((redeliver tg i ^^ k) c) = Some n' \<and> attempts_left n' \<le> attempts_left n - k
       \<and> w_faults (co_world ((redeliver tg i ^^ k) c)) = []"
proof (induction k)
  case (Suc k)
  then obtain n1 where n1: "row_of i ((redeliver tg i ^^ k) c) = Some n1"
    "attempts_left n1 \<le> attempts_left n - k" "w_faults (co_world ((redeliver tg i ^^ k) c)) = []"
    by blast
  from redeliver_progress[OF n1(1,3), of tg] n1(2) show ?case by fastforce
qed simp

text \<open>C23. On a database that answers, every notification is settled after at most three deliveries,
  whatever Telegram answers each time, however often it has been tried before and whether or not it was
  queued again: it is sent or failed, and no delivery of it is left to do. (So the third retry, a
  fourth delivery after 240 seconds, that comments of \<^verbatim>\<open>reliability.rs\<close> and \<^verbatim>\<open>process_notifications.rs\<close>
  list never happens.)\<close>

theorem every_notification_is_settled:
  assumes "row_of i c = Some n" "w_faults (co_world c) = []" "0 \<le> n_attempt_count n"
  shows "\<exists>n'. row_of i ((redeliver tg i ^^ 3) c) = Some n'
    \<and> n_delivery_state n' \<in> {DeliverySent, DeliveryFailed}"
proof -
  have left: "attempts_left n \<le> 3"
    using assms(3) by (auto simp: attempts_left_def MAX_NOTIFICATION_RETRY_ATTEMPTS_def)
  obtain n' where n': "row_of i ((redeliver tg i ^^ 3) c) = Some n'" "attempts_left n' \<le> attempts_left n - 3"
    using redeliver_times[OF assms(1,2)] by blast
  with left have "\<not> awaiting n'" by (auto simp: attempts_left_def split: if_splits)
  then show ?thesis using n'(1) by (cases "n_delivery_state n'") (auto simp: awaiting_def)
qed

text \<open>A courier with one due notification, and a Telegram that always fails.\<close>

definition sample_notification :: notification where
  "sample_notification = \<lparr> n_id = Some 1, n_task_id = None, n_recipient_user_id = 2,
     n_notification_type = TaskUpdated, n_message = [], n_dedupe_key = [],
     n_telegram_message_id = None, n_delivery_state = DeliveryPending, n_is_sent = False,
     n_is_read = False, n_attempt_count = 0, n_sent_at = None, n_read_at = None,
     n_next_attempt_at = None, n_last_error_code = None, n_created_at = 0 \<rparr>"

definition sample_courier :: courier where
  "sample_courier = \<lparr> co_world = sample_world\<lparr> w_notifications := [sample_notification] \<rparr>,
     co_sent = [] \<rparr>"

definition sample_telegram :: telegram where
  "sample_telegram k chat message ntype uid status =
     Inl (network ''TELEGRAM_UNAVAILABLE'' [] JNull)"

lemma sample_courier_ok:
  "row_of 1 sample_courier = Some sample_notification"
  "w_faults (co_world sample_courier) = []" "attempts_ok (co_world sample_courier)"
  "notifications_ok (co_world sample_courier)"
  by (simp_all add: sample_courier_def row_of_def sample_notification_def attempts_ok_def
      notifications_ok_def MAX_NOTIFICATION_RETRY_ATTEMPTS_def)

theorem every_notification_is_settled_witness:
  "\<exists>n. row_of 1 ((redeliver sample_telegram 1 ^^ 3) sample_courier) = Some n
     \<and> n_delivery_state n \<in> {DeliverySent, DeliveryFailed}"
  using every_notification_is_settled[OF sample_courier_ok(1,2), of sample_telegram]
  by (simp add: sample_notification_def)

theorem delivery_run_bounded_witness:
  "length (co_sent (snd (process_notifications sample_telegram rev sample_courier))) \<le> 25"
proof -
  obtain r c' where run: "process_notifications sample_telegram rev sample_courier = (r, c')"
    by (cases "process_notifications sample_telegram rev sample_courier")
  have "mset (rev ns) = mset ns" for ns :: "notification list" by simp
  from delivery_run_bounded[OF sample_courier_ok(4,3) this run] run
  show ?thesis by (simp add: sample_courier_def)
qed

end
