(* ===== verification/Callback_Codec.thy ===== *)
theory Callback_Codec
  imports Task_Codes Role_Policy User_Domain
begin

section \<open>Callback payloads of the Telegram buttons\<close>

text \<open>
  \<^verbatim>\<open>src/presentation/telegram/callbacks/types.rs\<close> and \<^verbatim>\<open>codec.rs\<close>: the closed set of button actions
  and the colon-separated text each is carried in. The \<^verbatim>\<open>uuid\<close> crate is outside the repository:
  its printer and parser are arguments, about which \<open>uuid_format\<close> states what the crate documents.
\<close>

subsection \<open>The actions\<close>

datatype task_list_origin =
    OriginAssigned | OriginCreated | OriginTeam | OriginFocus | OriginManagerInbox

datatype task_card_mode = Compact | Expanded

datatype draft_edit_field = FieldAssignee | FieldDescription | FieldDeadline

datatype admin_role_option = OptUser | OptManager | OptAdmin

fun role_option_code :: "admin_role_option \<Rightarrow> string" where
  "role_option_code OptUser = ''u''"
| "role_option_code OptManager = ''m''"
| "role_option_code OptAdmin = ''a''"

definition role_option_from_code :: "utext \<Rightarrow> admin_role_option option" where
  "role_option_from_code v =
     (if v = ascii ''u'' then Some OptUser
      else if v = ascii ''m'' then Some OptManager
      else if v = ascii ''a'' then Some OptAdmin
      else None)"

fun to_user_role :: "admin_role_option \<Rightarrow> user_role" where
  "to_user_role OptUser = User"
| "to_user_role OptManager = Manager"
| "to_user_role OptAdmin = Admin"

datatype telegram_callback =
    MenuHome
  | MenuHelp
  | MenuSettings
  | MenuStats
  | MenuTeamStats
  | MenuCreate
  | MenuSyncEmployees
  | ListTasks task_list_origin "utext option"
  | OpenTask uuid task_list_origin task_card_mode
  | UpdateTaskStatus uuid task_status task_list_origin
  | ConfirmTaskCancel uuid task_list_origin
  | ExecuteTaskCancel uuid task_list_origin
  | StartTaskCommentInput uuid task_list_origin
  | StartTaskBlockerInput uuid task_list_origin
  | StartTaskReassignInput uuid task_list_origin
  | ShowDeliveryHelp uuid task_list_origin
  | StartQuickCreate
  | StartGuidedCreate
  | VoiceCreateConfirm
  | VoiceCreateEdit
  | VoiceCreateBack
  | VoiceCreateCancel
  | RegistrationPickEmployee int
  | RegistrationContinueUnlinked
  | ClarificationPickEmployee int
  | ClarificationCreateUnassigned
  | DraftSkipAssignee
  | DraftSkipDeadline
  | DraftSubmit
  | DraftEdit draft_edit_field
  | GuidedAssigneeConfirm int
  | AdminMenu
  | AdminUsers
  | AdminUserDetails int
  | AdminUserPrepareRoleChange int admin_role_option
  | AdminUserPrepareDeactivate int
  | AdminUserPrepareReactivate int
  | AdminConfirmNonce utext
  | AdminCancelPending
  | AdminAudit
  | AdminSecurityAudit
  | AdminFeatures
  | AdminToggleFeature utext

fun is_mutating :: "telegram_callback \<Rightarrow> bool" where
  "is_mutating (UpdateTaskStatus _ _ _) = True"
| "is_mutating (ExecuteTaskCancel _ _) = True"
| "is_mutating DraftSubmit = True"
| "is_mutating VoiceCreateConfirm = True"
| "is_mutating (RegistrationPickEmployee _) = True"
| "is_mutating RegistrationContinueUnlinked = True"
| "is_mutating (ClarificationPickEmployee _) = True"
| "is_mutating ClarificationCreateUnassigned = True"
| "is_mutating (GuidedAssigneeConfirm _) = True"
| "is_mutating (AdminConfirmNonce _) = True"
| "is_mutating (AdminToggleFeature _) = True"
| "is_mutating _ = False"

fun action_to_status :: "task_action \<Rightarrow> task_status option" where
  "action_to_status StartProgress = Some InProgress"
| "action_to_status SubmitForReview = Some InReview"
| "action_to_status ApproveReview = Some Completed"
| "action_to_status ReturnToWork = Some InProgress"
| "action_to_status Cancel = None"
| "action_to_status ReportBlocker = None"
| "action_to_status AddComment = None"
| "action_to_status Reassign = None"

subsection \<open>Codes\<close>

fun origin_code :: "task_list_origin \<Rightarrow> string" where
  "origin_code OriginAssigned = ''assigned''"
| "origin_code OriginCreated = ''created''"
| "origin_code OriginTeam = ''team''"
| "origin_code OriginFocus = ''focus''"
| "origin_code OriginManagerInbox = ''manager_inbox''"

definition parse_origin_code :: "utext \<Rightarrow> task_list_origin option" where
  "parse_origin_code v =
     (if v = ascii ''assigned'' then Some OriginAssigned
      else if v = ascii ''created'' then Some OriginCreated
      else if v = ascii ''team'' then Some OriginTeam
      else if v = ascii ''focus'' then Some OriginFocus
      else if v = ascii ''manager_inbox'' then Some OriginManagerInbox
      else None)"

lemma parse_origin_code_roundtrip [simp]: "parse_origin_code (ascii (origin_code x)) = Some x"
  by (cases x) (simp_all add: parse_origin_code_def)

fun task_card_mode_code :: "task_card_mode \<Rightarrow> string" where
  "task_card_mode_code Compact = ''compact''"
| "task_card_mode_code Expanded = ''expanded''"

definition parse_task_card_mode :: "utext \<Rightarrow> task_card_mode option" where
  "parse_task_card_mode v =
     (if v = ascii ''compact'' then Some Compact
      else if v = ascii ''expanded'' then Some Expanded
      else None)"

lemma parse_task_card_mode_roundtrip [simp]: "parse_task_card_mode (ascii (task_card_mode_code x)) = Some x"
  by (cases x) (simp_all add: parse_task_card_mode_def)

fun task_status_code :: "task_status \<Rightarrow> string" where
  "task_status_code Created = ''created''"
| "task_status_code Sent = ''sent''"
| "task_status_code InProgress = ''in_progress''"
| "task_status_code Blocked = ''blocked''"
| "task_status_code InReview = ''in_review''"
| "task_status_code Completed = ''completed''"
| "task_status_code Cancelled = ''cancelled''"

definition parse_status_code :: "utext \<Rightarrow> task_status option" where
  "parse_status_code v =
     (if v = ascii ''created'' then Some Created
      else if v = ascii ''sent'' then Some Sent
      else if v = ascii ''in_progress'' then Some InProgress
      else if v = ascii ''blocked'' then Some Blocked
      else if v = ascii ''in_review'' then Some InReview
      else if v = ascii ''completed'' then Some Completed
      else if v = ascii ''cancelled'' then Some Cancelled
      else None)"

lemma parse_status_code_roundtrip [simp]: "parse_status_code (ascii (task_status_code x)) = Some x"
  by (cases x) (simp_all add: parse_status_code_def)

fun draft_field_code :: "draft_edit_field \<Rightarrow> string" where
  "draft_field_code FieldAssignee = ''assignee''"
| "draft_field_code FieldDescription = ''description''"
| "draft_field_code FieldDeadline = ''deadline''"

definition parse_draft_field :: "utext \<Rightarrow> draft_edit_field option" where
  "parse_draft_field v =
     (if v = ascii ''assignee'' then Some FieldAssignee
      else if v = ascii ''description'' then Some FieldDescription
      else if v = ascii ''deadline'' then Some FieldDeadline
      else None)"

lemma parse_draft_field_roundtrip [simp]: "parse_draft_field (ascii (draft_field_code x)) = Some x"
  by (cases x) (simp_all add: parse_draft_field_def)

lemma role_option_roundtrip [simp]: "role_option_from_code (ascii (role_option_code x)) = Some x"
  by (cases x) (simp_all add: role_option_from_code_def)

definition EMPTY_CURSOR :: utext where "EMPTY_CURSOR = ascii ''_''"

definition parse_cursor :: "utext \<Rightarrow> utext option" where
  "parse_cursor v = (if v = EMPTY_CURSOR then None else Some v)"

subsection \<open>Encoding\<close>

definition colon :: "utext list \<Rightarrow> utext" where
  "colon parts = join [58] parts"

fun encode_callback :: "(uuid \<Rightarrow> utext) \<Rightarrow> telegram_callback \<Rightarrow> utext" where
  "encode_callback _ MenuHome =
     colon [ascii ''m'', ascii ''home'']"
| "encode_callback _ MenuHelp =
     colon [ascii ''m'', ascii ''help'']"
| "encode_callback _ MenuSettings =
     colon [ascii ''m'', ascii ''settings'']"
| "encode_callback _ MenuStats =
     colon [ascii ''m'', ascii ''stats'']"
| "encode_callback _ MenuTeamStats =
     colon [ascii ''m'', ascii ''team_stats'']"
| "encode_callback _ MenuCreate =
     colon [ascii ''m'', ascii ''create'']"
| "encode_callback _ MenuSyncEmployees =
     colon [ascii ''m'', ascii ''sync'']"
| "encode_callback _ (ListTasks origin cursor) =
     colon [ascii ''l'', ascii (origin_code origin), (case cursor of Some c \<Rightarrow> c | None \<Rightarrow> EMPTY_CURSOR)]"
| "encode_callback show_uuid (OpenTask uid origin mode) =
     colon [ascii ''t'', ascii ''open'', ascii (origin_code origin), show_uuid uid, ascii (task_card_mode_code mode)]"
| "encode_callback show_uuid (UpdateTaskStatus uid status origin) =
     colon [ascii ''t'', ascii ''status'', ascii (origin_code origin), show_uuid uid, ascii (task_status_code status)]"
| "encode_callback show_uuid (ConfirmTaskCancel uid origin) =
     colon [ascii ''t'', ascii ''cancel_confirm'', ascii (origin_code origin), show_uuid uid]"
| "encode_callback show_uuid (ExecuteTaskCancel uid origin) =
     colon [ascii ''t'', ascii ''cancel_execute'', ascii (origin_code origin), show_uuid uid]"
| "encode_callback show_uuid (StartTaskCommentInput uid origin) =
     colon [ascii ''i'', ascii ''comment'', ascii (origin_code origin), show_uuid uid]"
| "encode_callback show_uuid (StartTaskBlockerInput uid origin) =
     colon [ascii ''i'', ascii ''blocker'', ascii (origin_code origin), show_uuid uid]"
| "encode_callback show_uuid (StartTaskReassignInput uid origin) =
     colon [ascii ''i'', ascii ''reassign'', ascii (origin_code origin), show_uuid uid]"
| "encode_callback show_uuid (ShowDeliveryHelp uid origin) =
     colon [ascii ''i'', ascii ''delivery_help'', ascii (origin_code origin), show_uuid uid]"
| "encode_callback _ StartQuickCreate =
     colon [ascii ''c'', ascii ''quick'']"
| "encode_callback _ StartGuidedCreate =
     colon [ascii ''c'', ascii ''guided'']"
| "encode_callback _ VoiceCreateConfirm =
     colon [ascii ''c'', ascii ''voice_confirm'']"
| "encode_callback _ VoiceCreateEdit =
     colon [ascii ''c'', ascii ''voice_edit'']"
| "encode_callback _ VoiceCreateBack =
     colon [ascii ''c'', ascii ''voice_back'']"
| "encode_callback _ VoiceCreateCancel =
     colon [ascii ''c'', ascii ''voice_cancel'']"
| "encode_callback _ (RegistrationPickEmployee i) =
     colon [ascii ''c'', ascii ''register_employee'', show_int i]"
| "encode_callback _ RegistrationContinueUnlinked =
     colon [ascii ''c'', ascii ''register_unlinked'']"
| "encode_callback _ (ClarificationPickEmployee i) =
     colon [ascii ''c'', ascii ''clarify_employee'', show_int i]"
| "encode_callback _ ClarificationCreateUnassigned =
     colon [ascii ''c'', ascii ''clarify_unassigned'']"
| "encode_callback _ DraftSkipAssignee =
     colon [ascii ''d'', ascii ''skip_assignee'']"
| "encode_callback _ DraftSkipDeadline =
     colon [ascii ''d'', ascii ''skip_deadline'']"
| "encode_callback _ DraftSubmit =
     colon [ascii ''d'', ascii ''submit'']"
| "encode_callback _ (DraftEdit field) =
     colon [ascii ''d'', ascii ''edit'', ascii (draft_field_code field)]"
| "encode_callback _ (GuidedAssigneeConfirm i) =
     colon [ascii ''d'', ascii ''assignee_pick'', show_int i]"
| "encode_callback _ AdminMenu =
     colon [ascii ''a'', ascii ''menu'']"
| "encode_callback _ AdminUsers =
     colon [ascii ''a'', ascii ''users'']"
| "encode_callback _ (AdminUserDetails i) =
     colon [ascii ''a'', ascii ''user'', show_int i]"
| "encode_callback _ (AdminUserPrepareRoleChange i role) =
     colon [ascii ''a'', ascii ''role'', show_int i, ascii (role_option_code role)]"
| "encode_callback _ (AdminUserPrepareDeactivate i) =
     colon [ascii ''a'', ascii ''deact'', show_int i]"
| "encode_callback _ (AdminUserPrepareReactivate i) =
     colon [ascii ''a'', ascii ''react'', show_int i]"
| "encode_callback _ (AdminConfirmNonce nonce) =
     colon [ascii ''a'', ascii ''confirm'', nonce]"
| "encode_callback _ AdminCancelPending =
     colon [ascii ''a'', ascii ''cancel'']"
| "encode_callback _ AdminAudit =
     colon [ascii ''a'', ascii ''audit'']"
| "encode_callback _ AdminSecurityAudit =
     colon [ascii ''a'', ascii ''sec_audit'']"
| "encode_callback _ AdminFeatures =
     colon [ascii ''a'', ascii ''feat'']"
| "encode_callback _ (AdminToggleFeature key) =
     colon [ascii ''a'', ascii ''ftog'', key]"

subsection \<open>Parsing\<close>

definition parse_callback_modern :: "(utext \<Rightarrow> uuid option) \<Rightarrow> utext \<Rightarrow> telegram_callback option" where
  "parse_callback_modern parse_uuid value =
    (case split_on 58 value of
       [g, a] \<Rightarrow>
         (if g = ascii ''m'' \<and> a = ascii ''home''
          then Some (MenuHome)
          else if g = ascii ''m'' \<and> a = ascii ''help''
          then Some (MenuHelp)
          else if g = ascii ''m'' \<and> a = ascii ''settings''
          then Some (MenuSettings)
          else if g = ascii ''m'' \<and> a = ascii ''stats''
          then Some (MenuStats)
          else if g = ascii ''m'' \<and> a = ascii ''team_stats''
          then Some (MenuTeamStats)
          else if g = ascii ''m'' \<and> a = ascii ''create''
          then Some (MenuCreate)
          else if g = ascii ''m'' \<and> a = ascii ''sync''
          then Some (MenuSyncEmployees)
          else if g = ascii ''c'' \<and> a = ascii ''quick''
          then Some (StartQuickCreate)
          else if g = ascii ''c'' \<and> a = ascii ''guided''
          then Some (StartGuidedCreate)
          else if g = ascii ''c'' \<and> a = ascii ''voice_confirm''
          then Some (VoiceCreateConfirm)
          else if g = ascii ''c'' \<and> a = ascii ''voice_edit''
          then Some (VoiceCreateEdit)
          else if g = ascii ''c'' \<and> a = ascii ''voice_back''
          then Some (VoiceCreateBack)
          else if g = ascii ''c'' \<and> a = ascii ''voice_cancel''
          then Some (VoiceCreateCancel)
          else if g = ascii ''c'' \<and> a = ascii ''register_unlinked''
          then Some (RegistrationContinueUnlinked)
          else if g = ascii ''c'' \<and> a = ascii ''clarify_unassigned''
          then Some (ClarificationCreateUnassigned)
          else if g = ascii ''d'' \<and> a = ascii ''skip_assignee''
          then Some (DraftSkipAssignee)
          else if g = ascii ''d'' \<and> a = ascii ''skip_deadline''
          then Some (DraftSkipDeadline)
          else if g = ascii ''d'' \<and> a = ascii ''submit''
          then Some (DraftSubmit)
          else if g = ascii ''a'' \<and> a = ascii ''menu''
          then Some (AdminMenu)
          else if g = ascii ''a'' \<and> a = ascii ''users''
          then Some (AdminUsers)
          else if g = ascii ''a'' \<and> a = ascii ''cancel''
          then Some (AdminCancelPending)
          else if g = ascii ''a'' \<and> a = ascii ''audit''
          then Some (AdminAudit)
          else if g = ascii ''a'' \<and> a = ascii ''sec_audit''
          then Some (AdminSecurityAudit)
          else if g = ascii ''a'' \<and> a = ascii ''feat''
          then Some (AdminFeatures)
          else None)
       | [g, a, b] \<Rightarrow>
         (if g = ascii ''l''
          then (case parse_origin_code a of Some origin \<Rightarrow> Some (ListTasks origin (parse_cursor b)) | None \<Rightarrow> None)
          else if g = ascii ''c'' \<and> a = ascii ''register_employee''
          then (case parse_i64 b of Some i \<Rightarrow> Some (RegistrationPickEmployee i) | None \<Rightarrow> None)
          else if g = ascii ''c'' \<and> a = ascii ''clarify_employee''
          then (case parse_i64 b of Some i \<Rightarrow> Some (ClarificationPickEmployee i) | None \<Rightarrow> None)
          else if g = ascii ''d'' \<and> a = ascii ''edit''
          then (case parse_draft_field b of Some field \<Rightarrow> Some (DraftEdit field) | None \<Rightarrow> None)
          else if g = ascii ''d'' \<and> a = ascii ''assignee_pick''
          then (case parse_i64 b of Some i \<Rightarrow> Some (GuidedAssigneeConfirm i) | None \<Rightarrow> None)
          else if g = ascii ''a'' \<and> a = ascii ''user''
          then (case parse_i64 b of Some i \<Rightarrow> Some (AdminUserDetails i) | None \<Rightarrow> None)
          else if g = ascii ''a'' \<and> a = ascii ''deact''
          then (case parse_i64 b of Some i \<Rightarrow> Some (AdminUserPrepareDeactivate i) | None \<Rightarrow> None)
          else if g = ascii ''a'' \<and> a = ascii ''react''
          then (case parse_i64 b of Some i \<Rightarrow> Some (AdminUserPrepareReactivate i) | None \<Rightarrow> None)
          else if g = ascii ''a'' \<and> a = ascii ''confirm''
          then Some (AdminConfirmNonce b)
          else if g = ascii ''a'' \<and> a = ascii ''ftog''
          then Some (AdminToggleFeature b)
          else None)
       | [g, a, b, c] \<Rightarrow>
         (if g = ascii ''t'' \<and> a = ascii ''open''
          then (case parse_origin_code b of Some origin \<Rightarrow> (case parse_uuid c of Some uid \<Rightarrow> Some (OpenTask uid origin Compact) | None \<Rightarrow> None) | None \<Rightarrow> None)
          else if g = ascii ''t'' \<and> a = ascii ''cancel_confirm''
          then (case parse_origin_code b of Some origin \<Rightarrow> (case parse_uuid c of Some uid \<Rightarrow> Some (ConfirmTaskCancel uid origin) | None \<Rightarrow> None) | None \<Rightarrow> None)
          else if g = ascii ''t'' \<and> a = ascii ''cancel_execute''
          then (case parse_origin_code b of Some origin \<Rightarrow> (case parse_uuid c of Some uid \<Rightarrow> Some (ExecuteTaskCancel uid origin) | None \<Rightarrow> None) | None \<Rightarrow> None)
          else if g = ascii ''i'' \<and> a = ascii ''comment''
          then (case parse_origin_code b of Some origin \<Rightarrow> (case parse_uuid c of Some uid \<Rightarrow> Some (StartTaskCommentInput uid origin) | None \<Rightarrow> None) | None \<Rightarrow> None)
          else if g = ascii ''i'' \<and> a = ascii ''blocker''
          then (case parse_origin_code b of Some origin \<Rightarrow> (case parse_uuid c of Some uid \<Rightarrow> Some (StartTaskBlockerInput uid origin) | None \<Rightarrow> None) | None \<Rightarrow> None)
          else if g = ascii ''i'' \<and> a = ascii ''reassign''
          then (case parse_origin_code b of Some origin \<Rightarrow> (case parse_uuid c of Some uid \<Rightarrow> Some (StartTaskReassignInput uid origin) | None \<Rightarrow> None) | None \<Rightarrow> None)
          else if g = ascii ''i'' \<and> a = ascii ''delivery_help''
          then (case parse_origin_code b of Some origin \<Rightarrow> (case parse_uuid c of Some uid \<Rightarrow> Some (ShowDeliveryHelp uid origin) | None \<Rightarrow> None) | None \<Rightarrow> None)
          else if g = ascii ''a'' \<and> a = ascii ''role''
          then (case parse_i64 b of Some i \<Rightarrow> (case role_option_from_code c of Some role \<Rightarrow> Some (AdminUserPrepareRoleChange i role) | None \<Rightarrow> None) | None \<Rightarrow> None)
          else None)
       | [g, a, b, c, d] \<Rightarrow>
         (if g = ascii ''t'' \<and> a = ascii ''open''
          then (case parse_origin_code b of Some origin \<Rightarrow> (case parse_uuid c of Some uid \<Rightarrow> (case parse_task_card_mode d of Some mode \<Rightarrow> Some (OpenTask uid origin mode) | None \<Rightarrow> None) | None \<Rightarrow> None) | None \<Rightarrow> None)
          else if g = ascii ''t'' \<and> a = ascii ''status''
          then (case parse_origin_code b of Some origin \<Rightarrow> (case parse_uuid c of Some uid \<Rightarrow> (case parse_status_code d of Some status \<Rightarrow> Some (UpdateTaskStatus uid status origin) | None \<Rightarrow> None) | None \<Rightarrow> None) | None \<Rightarrow> None)
          else None)
     | _ \<Rightarrow> None)"

definition parse_legacy_callback :: "(utext \<Rightarrow> uuid option) \<Rightarrow> utext \<Rightarrow> telegram_callback option" where
  "parse_legacy_callback parse_uuid value =
    (case split_on 58 value of
       [g, a] \<Rightarrow>
         (if g = ascii ''open''
          then (case parse_uuid a of Some uid \<Rightarrow> Some (OpenTask uid OriginAssigned Compact) | None \<Rightarrow> None)
          else if g = ascii ''block''
          then (case parse_uuid a of Some uid \<Rightarrow> Some (StartTaskBlockerInput uid OriginAssigned) | None \<Rightarrow> None)
          else None)
     | [g, a, b] \<Rightarrow>
         (if g = ascii ''status''
          then (case parse_uuid a of Some uid \<Rightarrow>
                 (case parse_status_code b of
                    Some status \<Rightarrow> Some (UpdateTaskStatus uid status OriginAssigned) | None \<Rightarrow> None)
               | None \<Rightarrow> None)
          else None)
     | _ \<Rightarrow> None)"

definition parse_callback :: "(utext \<Rightarrow> uuid option) \<Rightarrow> utext \<Rightarrow> telegram_callback option" where
  "parse_callback parse_uuid value =
     (case parse_legacy_callback parse_uuid value of
        Some c \<Rightarrow> Some c
      | None \<Rightarrow> parse_callback_modern parse_uuid value)"

subsection \<open>Splitting what was joined\<close>

lemma split_on_no_sep: "sep \<notin> set p \<Longrightarrow> split_on sep p = [p]"
  by (induction p) auto

lemma split_on_append: "sep \<notin> set p \<Longrightarrow> split_on sep (p @ sep # rest) = p # split_on sep rest"
  by (induction p) auto

lemma split_colon:
  "parts \<noteq> [] \<Longrightarrow> list_all (\<lambda>p. 58 \<notin> set p) parts \<Longrightarrow> split_on 58 (colon parts) = parts"
  unfolding colon_def
  by (induction "[58 :: nat]" parts rule: join.induct) (auto simp: split_on_no_sep split_on_append)

lemma parse_show_int [simp]: "- (2 ^ 63) \<le> i \<Longrightarrow> i < 2 ^ 63 \<Longrightarrow> parse_i64 (show_int i) = Some i"
proof (cases "i < 0")
  case True
  assume "- (2 ^ 63) \<le> i" "i < 2 ^ 63"
  with True show ?thesis by (simp add: show_int_def parse_i64_def)
next
  case False
  assume bounds: "- (2 ^ 63) \<le> i" "i < 2 ^ 63"
  obtain c cs where c: "show_nat (nat i) = c # cs" using show_nat_digits[of "nat i"] by (cases "show_nat (nat i)") auto
  have "is_ascii_digit c" using show_nat_set[of c "nat i"] c by simp
  then have "c \<noteq> 43" "c \<noteq> 45" by (auto simp: is_ascii_digit_def)
  with False bounds c parse_show_nat[of "nat i"] show ?thesis
    by (simp add: show_int_def parse_i64_def)
qed

lemma colon_in_ascii [simp]: "58 \<in> set (ascii s) \<longleftrightarrow> CHR '':'' \<in> set s"
proof -
  have "of_char c = (58 :: nat) \<longleftrightarrow> c = CHR '':''" for c :: char
    using of_char_eq_iff[of c "CHR '':''", where 'a = nat] by simp
  then show ?thesis by (auto simp: ascii_def image_iff)
qed

lemma origin_no_colon [simp]: "CHR '':'' \<notin> set (origin_code v)" by (cases v) simp_all
lemma mode_no_colon [simp]: "CHR '':'' \<notin> set (task_card_mode_code v)" by (cases v) simp_all
lemma status_no_colon [simp]: "CHR '':'' \<notin> set (task_status_code v)" by (cases v) simp_all
lemma field_no_colon [simp]: "CHR '':'' \<notin> set (draft_field_code v)" by (cases v) simp_all
lemma role_no_colon [simp]: "CHR '':'' \<notin> set (role_option_code v)" by (cases v) simp_all

text \<open>What the \<^verbatim>\<open>uuid\<close> crate documents of its hyphenated form.\<close>

definition uuid_format :: "(uuid \<Rightarrow> utext) \<Rightarrow> (utext \<Rightarrow> uuid option) \<Rightarrow> bool" where
  "uuid_format show_uuid parse_uuid \<longleftrightarrow>
     (\<forall>u. parse_uuid (show_uuid u) = Some u \<and> 58 \<notin> set (show_uuid u) \<and> length (show_uuid u) = 36)"

text \<open>A payload the program can send: identifiers are \<^verbatim>\<open>i64\<close>, free text holds no separator, and a
  cursor is not the mark of the empty one.\<close>

definition i64 :: "int \<Rightarrow> bool" where
  "i64 i \<longleftrightarrow> - (2 ^ 63) \<le> i \<and> i < 2 ^ 63"

fun payload_ok :: "telegram_callback \<Rightarrow> bool" where
  "payload_ok (ListTasks _ (Some c)) \<longleftrightarrow> c \<noteq> EMPTY_CURSOR \<and> 58 \<notin> set c"
| "payload_ok (RegistrationPickEmployee i) \<longleftrightarrow> i64 i"
| "payload_ok (ClarificationPickEmployee i) \<longleftrightarrow> i64 i"
| "payload_ok (GuidedAssigneeConfirm i) \<longleftrightarrow> i64 i"
| "payload_ok (AdminUserDetails i) \<longleftrightarrow> i64 i"
| "payload_ok (AdminUserPrepareRoleChange i _) \<longleftrightarrow> i64 i"
| "payload_ok (AdminUserPrepareDeactivate i) \<longleftrightarrow> i64 i"
| "payload_ok (AdminUserPrepareReactivate i) \<longleftrightarrow> i64 i"
| "payload_ok (AdminConfirmNonce n) \<longleftrightarrow> 58 \<notin> set n"
| "payload_ok (AdminToggleFeature k) \<longleftrightarrow> 58 \<notin> set k"
| "payload_ok _ \<longleftrightarrow> True"

lemma cursor_roundtrip: "payload_ok (ListTasks origin c) \<Longrightarrow>
   58 \<notin> set (case c of Some c \<Rightarrow> c | None \<Rightarrow> EMPTY_CURSOR)
   \<and> parse_cursor (case c of Some c \<Rightarrow> c | None \<Rightarrow> EMPTY_CURSOR) = c"
  by (cases c) (auto simp: parse_cursor_def EMPTY_CURSOR_def)

text \<open>C30. Every button's payload is read back as the action it was made from, through the legacy
  parser tried first and the modern one after it.\<close>
theorem callback_roundtrip:
  assumes "uuid_format show_uuid parse_uuid" "payload_ok cb"
  shows "parse_callback parse_uuid (encode_callback show_uuid cb) = Some cb"
proof -
  have uuid: "58 \<notin> set (show_uuid u)" "parse_uuid (show_uuid u) = Some u" for u
    using assms(1) by (simp_all add: uuid_format_def)
  note [simp] = parse_callback_def parse_legacy_callback_def parse_callback_modern_def split_colon
    uuid i64_def
  show ?thesis
  proof (cases cb)
    case (ListTasks origin c)
    with cursor_roundtrip[of origin c] assms(2) show ?thesis by simp
  qed (use assms(2) in simp_all)
qed

text \<open>A printer and a parser with that format, to exercise the theorems: 36 base-16 digits.\<close>

fun base16 :: "nat \<Rightarrow> nat \<Rightarrow> utext" where
  "base16 0 n = []"
| "base16 (Suc k) n = base16 k (n div 16) @ [65 + n mod 16]"

definition base16_value :: "utext \<Rightarrow> nat" where
  "base16_value s = foldl (\<lambda>acc c. acc * 16 + (c - 65)) 0 s"

lemma base16_value: "base16_value (base16 k n) = n mod 16 ^ k"
proof (induction k arbitrary: n)
  case (Suc k)
  have "base16_value (base16 (Suc k) n) = (n div 16 mod 16 ^ k) * 16 + n mod 16"
    using Suc by (simp add: base16_value_def)
  also have "\<dots> = n mod 16 ^ Suc k" by (simp add: mod_mult2_eq)
  finally show ?case .
qed (simp add: base16_value_def)

lemma base16_shape: "length (base16 k n) = k" "c \<in> set (base16 k n) \<Longrightarrow> 65 \<le> c"
  by (induction k arbitrary: n) auto

definition sample_show_uuid :: "uuid \<Rightarrow> utext" where
  "sample_show_uuid u = base16 36 (unat u)"

definition sample_parse_uuid :: "utext \<Rightarrow> uuid option" where
  "sample_parse_uuid s = (if length s = 36 then Some (word_of_nat (base16_value s)) else None)"

lemma sample_uuid_format: "uuid_format sample_show_uuid sample_parse_uuid"
proof -
  have "unat u mod 16 ^ 36 = unat u" for u :: uuid
    using unsigned_less[of u, where 'a = nat] by simp
  then have "sample_parse_uuid (sample_show_uuid u) = Some u" for u
    by (simp add: sample_parse_uuid_def sample_show_uuid_def base16_shape base16_value)
  moreover have "58 \<notin> set (sample_show_uuid u)" for u
    using base16_shape(2)[of 58 36 "unat u"] by (auto simp: sample_show_uuid_def)
  ultimately show ?thesis
    by (simp add: uuid_format_def sample_show_uuid_def base16_shape)
qed

theorem callback_roundtrip_witness:
  "parse_callback sample_parse_uuid
     (encode_callback sample_show_uuid (UpdateTaskStatus 7 InReview OriginManagerInbox))
   = Some (UpdateTaskStatus 7 InReview OriginManagerInbox)"
  by (rule callback_roundtrip[OF sample_uuid_format]) simp

text \<open>Telegram accepts at most 64 bytes of callback data. With the 36 characters of a hyphenated
  UUID, the buttons that open a card from the manager inbox, ask to cancel there, or explain a
  delivery there are over the limit, and so is the button that starts work on a task opened from
  the assigned, created or inbox lists; the comment, blocker and reassign buttons always fit.\<close>
theorem callback_data_sizes:
  assumes "uuid_format show_uuid parse_uuid"
  shows "(64 < length (encode_callback show_uuid (UpdateTaskStatus u InProgress origin))
        \<longleftrightarrow> origin \<noteq> OriginTeam \<and> origin \<noteq> OriginFocus)
    \<and> (64 < length (encode_callback show_uuid (OpenTask u origin mode)) \<longleftrightarrow> origin = OriginManagerInbox)
    \<and> (64 < length (encode_callback show_uuid (ConfirmTaskCancel u origin))
        \<longleftrightarrow> origin = OriginManagerInbox)
    \<and> (64 < length (encode_callback show_uuid (ShowDeliveryHelp u origin))
        \<longleftrightarrow> origin = OriginManagerInbox)
    \<and> length (encode_callback show_uuid (StartTaskCommentInput u origin)) \<le> 64
    \<and> length (encode_callback show_uuid (StartTaskBlockerInput u origin)) \<le> 64
    \<and> length (encode_callback show_uuid (StartTaskReassignInput u origin)) \<le> 64"
proof -
  have "length (show_uuid u) = 36" using assms by (simp add: uuid_format_def)
  then show ?thesis by (cases origin; cases mode) (simp_all add: colon_def)
qed

theorem callback_data_sizes_witness:
  "64 < length (encode_callback sample_show_uuid (UpdateTaskStatus 7 InProgress OriginAssigned))"
  using callback_data_sizes[OF sample_uuid_format, of 7 OriginAssigned Compact] by simp

end
