(* ===== verification/Gateway.thy ===== *)
theory Gateway
  imports Callback_Codec
begin

section \<open>The update gateway and the confirmation of admin actions\<close>

text \<open>
  \<^verbatim>\<open>src/presentation/telegram/gateway.rs\<close>: the bounded memory of updates seen and the one-shot
  barrier of an update; \<^verbatim>\<open>admin_nonce_store.rs\<close>: the one-time confirmations of destructive admin
  actions. Both live behind a mutex, so an execution is a sequence of their operations. The clock
  readings of the nonce store and the nonces it draws are arguments. The lock per chat is in
  \<open>Chat_Locks\<close>.
\<close>

subsection \<open>Deduplication of updates\<close>

definition UPDATE_DEDUP_CAPACITY :: nat where "UPDATE_DEDUP_CAPACITY = 2048"

record dedup_key =
  dk_chat_id :: int
  dk_token :: int

record update_dedup =
  ud_seen :: "dedup_key set"
  ud_order :: "dedup_key list"

definition dedup_new :: update_dedup where
  "dedup_new = \<lparr> ud_seen = {}, ud_order = [] \<rparr>"

definition observe :: "dedup_key \<Rightarrow> update_dedup \<Rightarrow> bool \<times> update_dedup" where
  "observe key st =
     (if key \<in> ud_seen st then (False, st)
      else
        let st1 =
          (if length (ud_order st) \<ge> UPDATE_DEDUP_CAPACITY
           then (case ud_order st of
                   oldest # rest \<Rightarrow> \<lparr> ud_seen = ud_seen st - {oldest}, ud_order = rest \<rparr>
                 | [] \<Rightarrow> st)
           else st)
        in (True, \<lparr> ud_seen = insert key (ud_seen st1), ud_order = ud_order st1 @ [key] \<rparr>))"

fun observe_all :: "dedup_key list \<Rightarrow> update_dedup \<Rightarrow> bool list \<times> update_dedup" where
  "observe_all [] st = ([], st)"
| "observe_all (k # ks) st =
     (let (b, st1) = observe k st; (bs, st2) = observe_all ks st1 in (b # bs, st2))"

text \<open>The abstract contract: an update is fresh when it is none of the last \<open>n\<close> fresh ones.\<close>

definition last_n :: "nat \<Rightarrow> 'a list \<Rightarrow> 'a list" where
  "last_n n xs = drop (length xs - n) xs"

fun fresh_spec :: "nat \<Rightarrow> 'a list \<Rightarrow> 'a list \<Rightarrow> bool list" where
  "fresh_spec n history [] = []"
| "fresh_spec n history (k # ks) =
     (let fresh = k \<notin> set (last_n n history)
      in fresh # fresh_spec n (if fresh then history @ [k] else history) ks)"

definition dedup_abs :: "dedup_key list \<Rightarrow> update_dedup \<Rightarrow> bool" where
  "dedup_abs history st \<longleftrightarrow>
     ud_order st = last_n UPDATE_DEDUP_CAPACITY history \<and> ud_seen st = set (ud_order st)
     \<and> distinct (ud_order st)"

lemma last_n_snoc:
  "0 < n \<Longrightarrow> last_n n (xs @ [x]) = (if n \<le> length xs then tl (last_n n xs) else last_n n xs) @ [x]"
  by (auto simp: last_n_def drop_Suc tl_drop Suc_diff_le)

lemma length_last_n: "length (last_n n xs) = min n (length xs)"
  by (simp add: last_n_def min_def)

lemma observe_refines:
  assumes "dedup_abs h st"
  shows "\<exists>st'. observe k st = (k \<notin> set (last_n UPDATE_DEDUP_CAPACITY h), st')
     \<and> dedup_abs (if k \<notin> set (last_n UPDATE_DEDUP_CAPACITY h) then h @ [k] else h) st'"
proof (cases "k \<in> ud_seen st")
  case True
  with assms show ?thesis by (auto simp: observe_def dedup_abs_def)
next
  case False
  let ?n = "UPDATE_DEDUP_CAPACITY"
  have n: "0 < ?n" by (simp add: UPDATE_DEDUP_CAPACITY_def)
  have order: "ud_order st = last_n ?n h" "ud_seen st = set (last_n ?n h)"
    "distinct (last_n ?n h)" using assms by (auto simp: dedup_abs_def)
  have full: "?n \<le> length (ud_order st) \<longleftrightarrow> ?n \<le> length h"
    by (simp add: order length_last_n)
  show ?thesis
  proof (cases "?n \<le> length h")
    case True
    then have "length (last_n ?n h) = ?n" by (simp add: length_last_n)
    with n have "0 < length (last_n ?n h)" by simp
    then obtain oldest rest where l: "last_n ?n h = oldest # rest"
      unfolding length_greater_0_conv neq_Nil_conv by blast
    have obs: "observe k st = (True, \<lparr> ud_seen = insert k (ud_seen st - {oldest}), ud_order = rest @ [k] \<rparr>)"
      using False full True order(1) l by (simp add: observe_def Let_def)
    have "last_n ?n (h @ [k]) = rest @ [k]" using True n l by (simp add: last_n_snoc)
    with obs False order l show ?thesis by (auto simp: dedup_abs_def)
  next
    case gap: False
    with False order n full show ?thesis
      by (auto simp: observe_def Let_def dedup_abs_def last_n_snoc)
  qed
qed

lemma observe_all_refines:
  "dedup_abs h st \<Longrightarrow> fst (observe_all ks st) = fresh_spec UPDATE_DEDUP_CAPACITY h ks"
proof (induction ks arbitrary: h st)
  case (Cons k ks)
  obtain st' where "observe k st = (k \<notin> set (last_n UPDATE_DEDUP_CAPACITY h), st')"
    "dedup_abs (if k \<notin> set (last_n UPDATE_DEDUP_CAPACITY h) then h @ [k] else h) st'"
    using observe_refines[OF Cons.prems] by blast
  with Cons.IH[of _ st'] show ?case by (simp add: Let_def case_prod_beta)
qed simp

text \<open>C29. The deduplicator is a sliding window. Over any sequence of updates it answers exactly what the
  window of the last 2048 accepted updates answers: an update is new if its key is none of theirs. (The
  window is first in, first out. The comments of \<^verbatim>\<open>gateway.rs\<close> call it a bounded LRU, but a key that comes
  again is not refreshed, so it is forgotten 2048 accepted updates after it was accepted, however often
  it came in between.)\<close>

theorem dedup_refines_window:
  "fst (observe_all ks dedup_new) = fresh_spec UPDATE_DEDUP_CAPACITY [] ks"
  by (rule observe_all_refines) (simp add: dedup_abs_def dedup_new_def last_n_def)

subsection \<open>The one-shot barrier\<close>

definition try_consume :: "bool \<Rightarrow> bool \<times> bool" where
  "try_consume flag = (\<not> flag, True)"

definition is_spent :: "bool \<Rightarrow> bool" where
  "is_spent flag = flag"

fun consume_times :: "nat \<Rightarrow> bool \<Rightarrow> bool list" where
  "consume_times 0 flag = []"
| "consume_times (Suc n) flag =
     (let (ok, flag') = try_consume flag in ok # consume_times n flag')"

lemma one_effect_per_update: "consume_times (Suc n) False = True # replicate n False"
proof -
  have "consume_times n True = replicate n False"
    by (induction n) (simp_all add: try_consume_def)
  then show ?thesis by (simp add: try_consume_def)
qed

subsection \<open>Nonces of pending admin actions\<close>

datatype pending_admin_action =
    ChangeRole int int utext admin_role_option
  | Deactivate int int utext
  | Reactivate int int utext

fun target_user_id :: "pending_admin_action \<Rightarrow> int" where
  "target_user_id (ChangeRole target _ _ _) = target"
| "target_user_id (Deactivate target _ _) = target"
| "target_user_id (Reactivate target _ _) = target"

record nonce_entry =
  ne_actor_user_id :: int
  ne_action :: pending_admin_action
  ne_expires_at :: instant

datatype nonce_error = NotFound | WrongActor

type_synonym nonce_store = "utext \<rightharpoonup> nonce_entry"

definition sweep_expired :: "instant \<Rightarrow> nonce_store \<Rightarrow> nonce_store" where
  "sweep_expired now store =
     (\<lambda>k. case store k of
        Some e \<Rightarrow> if ne_expires_at e > now then Some e else None
      | None \<Rightarrow> None)"

text \<open>The code reads the clock twice here, for the expiry of the new entry and for the sweep of the old
  ones. Nothing happens between the two readings, and one instant stands for both.\<close>

definition nonce_issue ::
  "instant \<Rightarrow> instant \<Rightarrow> utext \<Rightarrow> int \<Rightarrow> pending_admin_action \<Rightarrow> nonce_store \<Rightarrow> nonce_store" where
  "nonce_issue ttl now nonce actor action store =
     (sweep_expired now store)(nonce \<mapsto>
        \<lparr> ne_actor_user_id = actor, ne_action = action, ne_expires_at = now + ttl \<rparr>)"

definition nonce_consume ::
  "instant \<Rightarrow> int \<Rightarrow> utext \<Rightarrow> nonce_store \<Rightarrow> (nonce_error + pending_admin_action) \<times> nonce_store" where
  "nonce_consume now actor nonce store =
     (let swept = sweep_expired now store in
      case swept nonce of
        None \<Rightarrow> (Inl NotFound, swept)
      | Some entry \<Rightarrow>
          (if ne_actor_user_id entry \<noteq> actor then Inl WrongActor else Inr (ne_action entry),
           swept(nonce := None)))"

definition nonce_discard :: "utext \<Rightarrow> nonce_store \<Rightarrow> nonce_store" where
  "nonce_discard nonce store = store(nonce := None)"

text \<open>A run of the store: the operations in the order they took the mutex.\<close>

datatype nonce_event =
    Issue instant utext int pending_admin_action
  | Consume instant int utext
  | Discard utext

fun nonce_step :: "instant \<Rightarrow> nonce_event \<Rightarrow> nonce_store \<Rightarrow> nonce_store" where
  "nonce_step ttl (Issue now n actor action) s = nonce_issue ttl now n actor action s"
| "nonce_step ttl (Consume now actor n) s = snd (nonce_consume now actor n s)"
| "nonce_step ttl (Discard n) s = nonce_discard n s"

definition nonce_run :: "instant \<Rightarrow> nonce_event list \<Rightarrow> nonce_store" where
  "nonce_run ttl es = foldl (\<lambda>s e. nonce_step ttl e s) Map.empty es"

fun touches :: "utext \<Rightarrow> nonce_event \<Rightarrow> bool" where
  "touches n (Issue _ m _ _) \<longleftrightarrow> m = n"
| "touches n (Consume _ _ m) \<longleftrightarrow> m = n"
| "touches n (Discard m) \<longleftrightarrow> m = n"

lemma nonce_run_snoc [simp]: "nonce_run ttl (es @ [e]) = nonce_step ttl e (nonce_run ttl es)"
  by (simp add: nonce_run_def)

lemma sweep_Some: "sweep_expired now s n = Some e \<longleftrightarrow> s n = Some e \<and> now < ne_expires_at e"
  by (auto simp: sweep_expired_def split: option.splits if_splits)

lemma nonce_step_other: "\<not> touches n e \<Longrightarrow> nonce_step ttl e s n = Some x \<Longrightarrow> s n = Some x"
  by (cases e) (auto simp: nonce_issue_def nonce_consume_def nonce_discard_def Let_def sweep_Some
      split: option.splits)

lemma nonce_step_same:
  "touches n e \<Longrightarrow> nonce_step ttl e s n = Some x \<Longrightarrow>
     \<exists>now actor action. e = Issue now n actor action
       \<and> x = \<lparr> ne_actor_user_id = actor, ne_action = action, ne_expires_at = now + ttl \<rparr>"
  by (cases e) (auto simp: nonce_issue_def nonce_consume_def nonce_discard_def Let_def
      split: option.splits)

lemma stored_nonce_was_issued:
  "nonce_run ttl es n = Some x \<Longrightarrow>
     \<exists>pre now actor action post. es = pre @ Issue now n actor action # post
       \<and> x = \<lparr> ne_actor_user_id = actor, ne_action = action, ne_expires_at = now + ttl \<rparr>
       \<and> list_all (\<lambda>e. \<not> touches n e) post"
proof (induction es arbitrary: x rule: rev_induct)
  case Nil
  then show ?case by (simp add: nonce_run_def)
next
  case (snoc e es)
  show ?case
  proof (cases "touches n e")
    case True
    with snoc.prems nonce_step_same[of n e ttl "nonce_run ttl es" x] show ?thesis by fastforce
  next
    case False
    then have "nonce_run ttl es n = Some x" using snoc.prems nonce_step_other by simp
    from snoc.IH[OF this] obtain pre now actor action post where
      "es = pre @ Issue now n actor action # post"
      "x = \<lparr> ne_actor_user_id = actor, ne_action = action, ne_expires_at = now + ttl \<rparr>"
      "list_all (\<lambda>e. \<not> touches n e) post" by blast
    with False show ?thesis
      by (intro exI[of _ pre] exI[of _ now] exI[of _ actor] exI[of _ action] exI[of _ "post @ [e]"]) simp
  qed
qed

text \<open>C26. A confirmation is two-step, bound to its actor, short-lived and single-use: whenever a nonce
  is redeemed, the very same admin had it issued for exactly the action that is carried out, less
  than the time to live ago, and nobody - not even another admin - has tried to redeem it,
  discarded it or had it reissued in between.\<close>
theorem nonce_confirms_once:
  assumes "fst (nonce_consume now actor n (nonce_run ttl es)) = Inr action"
  shows "\<exists>pre issued post. es = pre @ Issue issued n actor action # post
     \<and> now < issued + ttl \<and> list_all (\<lambda>e. \<not> touches n e) post"
proof -
  obtain x where x: "sweep_expired now (nonce_run ttl es) n = Some x"
    "ne_actor_user_id x = actor" "ne_action x = action"
    using assms by (auto simp: nonce_consume_def Let_def split: option.splits if_splits)
  then have "nonce_run ttl es n = Some x" "now < ne_expires_at x" by (simp_all add: sweep_Some)
  with stored_nonce_was_issued[of ttl es n x] x show ?thesis by fastforce
qed

theorem nonce_confirms_once_witness:
  "fst (nonce_consume 20 42 (ascii ''n'') (nonce_run 60
      [Issue 5 (ascii ''n'') 42 (Deactivate 7 70 [])])) = Inr (Deactivate 7 70 [])
   \<and> (\<exists>pre issued post. [Issue 5 (ascii ''n'') 42 (Deactivate 7 70 [])]
        = pre @ Issue issued (ascii ''n'') 42 (Deactivate 7 70 []) # post \<and> 20 < issued + 60
        \<and> list_all (\<lambda>e. \<not> touches (ascii ''n'') e) post)"
proof -
  have "fst (nonce_consume 20 42 (ascii ''n'') (nonce_run 60
      [Issue 5 (ascii ''n'') 42 (Deactivate 7 70 [])])) = Inr (Deactivate 7 70 [])"
    by (simp add: nonce_run_def nonce_consume_def nonce_issue_def sweep_expired_def)
  with nonce_confirms_once[OF this] show ?thesis by blast
qed

end
