(* ===== verification/Http_Resilience.thy ===== *)
theory Http_Resilience
  imports Actions
begin

section \<open>Calls to external services\<close>

text \<open>
  \<^verbatim>\<open>src/infrastructure/http/circuit_breaker.rs\<close> and \<^verbatim>\<open>retry.rs\<close> with the constants of
  \<^verbatim>\<open>src/shared/constants/reliability.rs\<close>. The breaker is a counter of consecutive failures (a
  saturating \<^verbatim>\<open>u32\<close>) and a deadline; the clock readings are arguments. The retry loop runs an
  arbitrary operation on an arbitrary state and logs the delays it slept, in milliseconds.
\<close>

subsection \<open>Circuit breaker\<close>

definition CIRCUIT_BREAKER_FAILURE_THRESHOLD :: nat where
  "CIRCUIT_BREAKER_FAILURE_THRESHOLD = 5"
definition CIRCUIT_BREAKER_OPEN_SECONDS :: int where "CIRCUIT_BREAKER_OPEN_SECONDS = 60"

record circuit_breaker =
  cb_consecutive_failures :: nat
  cb_opened_until :: "instant option"

definition breaker_new :: circuit_breaker where
  "breaker_new = \<lparr> cb_consecutive_failures = 0, cb_opened_until = None \<rparr>"

definition ensure_closed :: "string \<Rightarrow> instant \<Rightarrow> circuit_breaker \<Rightarrow> unit result" where
  "ensure_closed service_name now st =
     (case cb_opened_until st of
        Some opened_until \<Rightarrow>
          if now < opened_until
          then Inl (network ''CIRCUIT_BREAKER_OPEN''
                 (ascii (service_name @ '' circuit breaker is open''))
                 (JObj [(''service'', jstr service_name)]))
          else Inr ()
      | None \<Rightarrow> Inr ())"

definition record_success :: "circuit_breaker \<Rightarrow> circuit_breaker" where
  "record_success st = st\<lparr> cb_consecutive_failures := 0, cb_opened_until := None \<rparr>"

definition U32_MAX :: nat where "U32_MAX = 2 ^ 32 - 1"

definition saturating_succ :: "nat \<Rightarrow> nat" where
  "saturating_succ n = min (n + 1) U32_MAX"

definition record_failure :: "instant \<Rightarrow> circuit_breaker \<Rightarrow> circuit_breaker" where
  "record_failure now st =
     (let st1 = st\<lparr> cb_consecutive_failures := saturating_succ (cb_consecutive_failures st) \<rparr>
      in if cb_consecutive_failures st1 \<ge> CIRCUIT_BREAKER_FAILURE_THRESHOLD
         then st1\<lparr> cb_opened_until := Some (now + CIRCUIT_BREAKER_OPEN_SECONDS * ns_per_sec) \<rparr>
         else st1)"

text \<open>The outcomes the breaker has been told of, in order, and the current streak of failures.\<close>

datatype outcome = Succeeded | FailedAt instant

fun breaker_step :: "outcome \<Rightarrow> circuit_breaker \<Rightarrow> circuit_breaker" where
  "breaker_step Succeeded st = record_success st"
| "breaker_step (FailedAt now) st = record_failure now st"

definition breaker_run :: "outcome list \<Rightarrow> circuit_breaker" where
  "breaker_run os = foldl (\<lambda>st e. breaker_step e st) breaker_new os"

definition failure_streak :: "outcome list \<Rightarrow> outcome list" where
  "failure_streak os = takeWhile (\<lambda>e. e \<noteq> Succeeded) (rev os)"

lemma breaker_run_snoc [simp]: "breaker_run (os @ [e]) = breaker_step e (breaker_run os)"
  by (simp add: breaker_run_def)

lemma failure_streak_snoc [simp]:
  "failure_streak (os @ [e]) = (if e = Succeeded then [] else e # failure_streak os)"
  by (simp add: failure_streak_def)

lemma breaker_run_state:
  "breaker_run os =
    \<lparr> cb_consecutive_failures = min (length (failure_streak os)) U32_MAX,
      cb_opened_until =
        (if length (failure_streak os) \<ge> CIRCUIT_BREAKER_FAILURE_THRESHOLD
         then (case failure_streak os of
                 FailedAt now # _ \<Rightarrow> Some (now + CIRCUIT_BREAKER_OPEN_SECONDS * ns_per_sec)
               | _ \<Rightarrow> None)
         else None) \<rparr>"
proof (induction os rule: rev_induct)
  case Nil
  show ?case
    by (simp add: breaker_run_def breaker_new_def failure_streak_def
        CIRCUIT_BREAKER_FAILURE_THRESHOLD_def)
next
  case (snoc e os)
  show ?case
  proof (cases e)
    case Succeeded
    then show ?thesis
      by (simp add: record_success_def snoc.IH CIRCUIT_BREAKER_FAILURE_THRESHOLD_def)
  next
    case (FailedAt now)
    let ?n = "length (failure_streak os)"
    have count: "saturating_succ (min ?n U32_MAX) = min (Suc ?n) U32_MAX"
      by (simp add: saturating_succ_def U32_MAX_def)
    have reached: "CIRCUIT_BREAKER_FAILURE_THRESHOLD \<le> min (Suc ?n) U32_MAX
        \<longleftrightarrow> CIRCUIT_BREAKER_FAILURE_THRESHOLD \<le> Suc ?n"
      by (auto simp: CIRCUIT_BREAKER_FAILURE_THRESHOLD_def U32_MAX_def)
    have cap: "CIRCUIT_BREAKER_FAILURE_THRESHOLD \<le> U32_MAX"
      by (simp add: CIRCUIT_BREAKER_FAILURE_THRESHOLD_def U32_MAX_def)
    have small: "saturating_succ n = Suc n" if "Suc n < CIRCUIT_BREAKER_FAILURE_THRESHOLD" for n
      using that cap by (simp add: saturating_succ_def)
    have below: "Suc ?n < CIRCUIT_BREAKER_FAILURE_THRESHOLD \<Longrightarrow> ?n < CIRCUIT_BREAKER_FAILURE_THRESHOLD"
      by simp
    show ?thesis
      unfolding breaker_run_snoc FailedAt breaker_step.simps snoc.IH record_failure_def Let_def
      using below cap small[of ?n] by (auto simp: count reached not_le)
  qed
qed

text \<open>The breaker refuses a call exactly when the last five or more outcomes in a row were
  failures and less than a minute has passed since the latest of them; one success closes it, and
  after the minute calls are let through again until the next failure.\<close>
theorem breaker_open_iff:
  "ensure_closed service now (breaker_run os) \<noteq> Inr () \<longleftrightarrow>
     5 \<le> length (failure_streak os)
     \<and> (\<exists>at rest. failure_streak os = FailedAt at # rest \<and> now < at + 60 * ns_per_sec)"
proof (cases "failure_streak os")
  case Nil
  then show ?thesis
    by (simp add: ensure_closed_def breaker_run_state CIRCUIT_BREAKER_FAILURE_THRESHOLD_def)
next
  case (Cons e rest)
  then have "e \<noteq> Succeeded"
    using set_takeWhileD[of e "\<lambda>e. e \<noteq> Succeeded" "rev os"] by (simp add: failure_streak_def)
  with Cons show ?thesis
    by (cases e)
       (auto simp: ensure_closed_def breaker_run_state CIRCUIT_BREAKER_FAILURE_THRESHOLD_def
         CIRCUIT_BREAKER_OPEN_SECONDS_def)
qed

subsection \<open>Retry with backoff\<close>

definition MAX_EXTERNAL_RETRY_ATTEMPTS :: nat where "MAX_EXTERNAL_RETRY_ATTEMPTS = 3"

definition DURATION_MAX_MS :: nat where
  "DURATION_MAX_MS = (2 ^ 64 - 1) * 1000 + 999"

text \<open>The loop over the remaining attempts; the state carries the delays slept so far.\<close>

fun retry_loop ::
  "('s, 'a) act \<Rightarrow> nat list \<Rightarrow> nat \<Rightarrow> app_error option \<Rightarrow> ('s \<times> nat list, 'a) act" where
  "retry_loop operation [] delay last_error (s, slept) =
     (Inl (case last_error of
             Some e \<Rightarrow> e
           | None \<Rightarrow> internal ''RETRY_STATE_INVALID''
               (ascii ''Retry loop finished without preserving the last error'') (JObj [])),
      (s, slept))"
| "retry_loop operation (k # ks) delay last_error (s, slept) =
     (case operation s of
        (Inr value, s1) \<Rightarrow> (Inr value, (s1, slept))
      | (Inl e, s1) \<Rightarrow>
          if should_retry e \<and> k < MAX_EXTERNAL_RETRY_ATTEMPTS
          then retry_loop operation ks (min (delay * 2) DURATION_MAX_MS) (Some e)
                 (s1, slept @ [delay])
          else (Inl e, (s1, slept)))"

definition retry_with_backoff :: "('s, 'a) act \<Rightarrow> ('s \<times> nat list, 'a) act" where
  "retry_with_backoff operation =
     retry_loop operation [1 ..< MAX_EXTERNAL_RETRY_ATTEMPTS + 1] 250 None"

text \<open>An external call is made at most three times: a success ends the loop at once, a
  permanent error is reported without another attempt, a transient one is retried after 250 and
  then 500 milliseconds, and the third error is reported as it is. The branch that would report an
  invalid retry state is never taken.\<close>
theorem retry_makes_at_most_three_calls:
  "retry_with_backoff op (s, []) =
    (case op s of
       (Inr x, s1) \<Rightarrow> (Inr x, (s1, []))
     | (Inl e1, s1) \<Rightarrow>
        if \<not> should_retry e1 then (Inl e1, (s1, []))
        else (case op s1 of
           (Inr x, s2) \<Rightarrow> (Inr x, (s2, [250]))
         | (Inl e2, s2) \<Rightarrow>
            if \<not> should_retry e2 then (Inl e2, (s2, [250]))
            else (case op s2 of (r, s3) \<Rightarrow> (r, (s3, [250, 500])))))"
proof -
  have attempts: "[1 ..< MAX_EXTERNAL_RETRY_ATTEMPTS + 1] = [1, 2, 3]"
    by (simp add: MAX_EXTERNAL_RETRY_ATTEMPTS_def upt_rec)
  show ?thesis
    unfolding retry_with_backoff_def attempts
    by (auto simp: MAX_EXTERNAL_RETRY_ATTEMPTS_def DURATION_MAX_MS_def
        split: prod.split sum.split)
qed

end
