(* ===== verification/Notification_Preferences.thy ===== *)
theory Notification_Preferences
  imports Sla User_Domain
begin

section \<open>Quiet hours\<close>

text \<open>
  \<^verbatim>\<open>src/domain/notification_preferences.rs\<close>: a user's quiet hours, in minutes of the local day,
  and the instant a deferred message may be delivered. The parser of IANA zone names is a parameter.
  Minutes are kept as integers; the constructor bounds them, so the \<^verbatim>\<open>i32\<close> arithmetic does not wrap.
\<close>

record notification_preferences =
  np_timezone :: timezone
  np_quiet_start_min :: int
  np_quiet_end_min :: int

definition MINUTES_PER_DAY :: int where "MINUTES_PER_DAY = 24 * 60"

definition in_minute_range :: "int \<Rightarrow> bool" where
  "in_minute_range value \<longleftrightarrow> 0 \<le> value \<and> value < MINUTES_PER_DAY"

definition new_notification_preferences ::
  "(utext \<Rightarrow> timezone option) \<Rightarrow> utext \<Rightarrow> int \<Rightarrow> int \<Rightarrow> notification_preferences result" where
  "new_notification_preferences parse_tz timezone_code quiet_start_min quiet_end_min =
    tryR (ok_or (schema_validation ''NOTIFICATION_PREFERENCES_UNKNOWN_TZ''
           (ascii ''unknown timezone '' @ [39] @ timezone_code @ [39])
           (JObj [(''timezone'', JStr timezone_code)]))
         (parse_tz timezone_code)) (\<lambda>zone.
    if \<not> in_minute_range quiet_start_min \<or> \<not> in_minute_range quiet_end_min then
      Inl (schema_validation ''NOTIFICATION_PREFERENCES_MINUTE_OUT_OF_RANGE''
        (ascii ''quiet hours must lie in [0, 1440)'')
        (JObj [(''quiet_start_min'', JNum quiet_start_min), (''quiet_end_min'', JNum quiet_end_min)]))
    else Inr \<lparr> np_timezone = zone, np_quiet_start_min = quiet_start_min,
      np_quiet_end_min = quiet_end_min \<rparr>)"

definition user_notification_preferences ::
  "(utext \<Rightarrow> timezone option) \<Rightarrow> user \<Rightarrow> notification_preferences result" where
  "user_notification_preferences parse_tz u =
     new_notification_preferences parse_tz (u_timezone u) (u_quiet_hours_start_min u)
       (u_quiet_hours_end_min u)"

definition quiet_hours_disabled :: "notification_preferences \<Rightarrow> bool" where
  "quiet_hours_disabled p \<longleftrightarrow> np_quiet_start_min p = np_quiet_end_min p"

definition inside_window :: "int \<Rightarrow> int \<Rightarrow> int \<Rightarrow> bool" where
  "inside_window minute_of_day start end_min =
     (if start < end_min then start \<le> minute_of_day \<and> minute_of_day < end_min
      else minute_of_day \<ge> start \<or> minute_of_day < end_min)"

definition minutes_until_end_of_window :: "int \<Rightarrow> int \<Rightarrow> int \<Rightarrow> int" where
  "minutes_until_end_of_window current_minute start end_min =
     (if start < end_min then max (end_min - current_minute) 1
      else if current_minute \<ge> start then (MINUTES_PER_DAY - current_minute) + end_min
      else max (end_min - current_minute) 1)"

definition is_in_quiet_hours :: "notification_preferences \<Rightarrow> instant \<Rightarrow> bool" where
  "is_in_quiet_hours p now =
     (if quiet_hours_disabled p then False
      else inside_window (local_minute_of_day (np_timezone p) now) (np_quiet_start_min p)
             (np_quiet_end_min p))"

definition next_deliverable_at :: "notification_preferences \<Rightarrow> instant \<Rightarrow> instant option" where
  "next_deliverable_at p now =
    (if \<not> is_in_quiet_hours p now then Some now
     else
       let current_minute = local_minute_of_day (np_timezone p) now;
           minutes_to_advance =
             minutes_until_end_of_window current_minute (np_quiet_start_min p) (np_quiet_end_min p);
           candidate = (current_minute + minutes_to_advance) mod MINUTES_PER_DAY;
           today = local_date (np_timezone p) now
       in
         case (if current_minute + minutes_to_advance \<ge> MINUTES_PER_DAY then succ_opt today
               else Some today) of
           None \<Rightarrow> None
         | Some date_local \<Rightarrow>
            (case and_hm date_local (nat (candidate div 60)) (nat (candidate mod 60)) of
               None \<Rightarrow> None
             | Some naive \<Rightarrow> Some (resolve_local (np_timezone p) naive)))"

subsection \<open>The end of the window\<close>

lemma new_preferences_bounds:
  "new_notification_preferences parse_tz code s e = Inr p \<Longrightarrow>
     0 \<le> np_quiet_start_min p \<and> np_quiet_start_min p < 1440
     \<and> 0 \<le> np_quiet_end_min p \<and> np_quiet_end_min p < 1440"
  by (auto simp: new_notification_preferences_def tryR_eq_Inr in_minute_range_def
      MINUTES_PER_DAY_def split: if_splits)

lemma minute_of_day_bounds:
  "d * ns_per_day + a * ns_per_min \<le> x \<Longrightarrow> x < d * ns_per_day + b * ns_per_min \<Longrightarrow>
     0 \<le> a \<Longrightarrow> b \<le> 1440 \<Longrightarrow>
     a \<le> (x mod ns_per_day) div ns_per_min \<and> (x mod ns_per_day) div ns_per_min < b"
proof -
  assume a: "d * ns_per_day + a * ns_per_min \<le> x" and b: "x < d * ns_per_day + b * ns_per_min"
    and "0 \<le> a" and "b \<le> 1440"
  let ?r = "x - d * ns_per_day"
  have a0: "0 \<le> a * ns_per_min" using minutes_mono[OF \<open>0 \<le> a\<close>] by simp
  have r: "0 \<le> ?r" "?r < ns_per_day"
    using a b a0 minutes_mono[OF \<open>b \<le> 1440\<close>] day_minutes by linarith+
  have "x mod ns_per_day = ?r"
    using r by (metis add_diff_cancel_left' diff_add_cancel mod_mult_self4 mod_pos_pos_trivial
        mult.commute)
  moreover have "a * ns_per_min \<le> ?r" "?r < b * ns_per_min" using a b by simp_all
  moreover have "?r div ns_per_min * ns_per_min \<le> ?r"
    using div_mult_mod_eq[of ?r ns_per_min] pos_mod_sign[OF ns_pos(2), of ?r] by linarith
  ultimately show ?thesis
    using zdiv_mono1[of "a * ns_per_min" ?r ns_per_min] ns_pos(2)
    by (smt (verit) mult_right_mono nonzero_mult_div_cancel_right)
qed

text \<open>The local minute and date of an instant in a zone of fixed offset, and back.\<close>

lemma local_fixed:
  assumes "d = (x::int) div ns_per_day" "m = (x mod ns_per_day) div ns_per_min"
  shows "d * ns_per_day + m * ns_per_min \<le> x" "x < d * ns_per_day + (m + 1) * ns_per_min"
proof -
  have "x = d * ns_per_day + x mod ns_per_day" by (simp add: assms)
  moreover have "x mod ns_per_day = m * ns_per_min + (x mod ns_per_day) mod ns_per_min"
    by (simp add: assms)
  moreover have "0 \<le> (x mod ns_per_day) mod ns_per_min" "(x mod ns_per_day) mod ns_per_min < ns_per_min"
    by simp_all
  ultimately show "d * ns_per_day + m * ns_per_min \<le> x" "x < d * ns_per_day + (m + 1) * ns_per_min"
    unfolding distrib_right by linarith+
qed

text \<open>The end of the quiet window that \<open>x\<close> lies in, on local time.\<close>

definition window_close :: "notification_preferences \<Rightarrow> int \<Rightarrow> int" where
  "window_close p x =
    (let d = x div ns_per_day; m = (x mod ns_per_day) div ns_per_min in
     (if np_quiet_start_min p < np_quiet_end_min p \<or> m < np_quiet_start_min p then d else d + 1)
       * ns_per_day + np_quiet_end_min p * ns_per_min)"

lemma next_deliverable_fixed:
  assumes p: "new_notification_preferences parse_tz code s e = Inr p"
    and z: "np_timezone p = fixed_zone off"
    and q: "is_in_quiet_hours p now" and small: "local_date (np_timezone p) now < NAIVE_DATE_MAX"
  shows "next_deliverable_at p now = Some (window_close p (now + off) - off)"
proof -
  define d where "d = (now + off) div ns_per_day"
  define m where "m = ((now + off) mod ns_per_day) div ns_per_min"
  have ld: "local_date (fixed_zone off) now = d" by (simp add: local_date_def d_def)
  have lm: "local_minute_of_day (fixed_zone off) now = m" by (simp add: local_minute_of_day_def m_def)
  have m: "0 \<le> m" "m < 1440"
    using local_minute_less[of "fixed_zone off" now] by (simp_all add: lm)
  note b = new_preferences_bounds[OF p]
  let ?s = "np_quiet_start_min p" and ?e = "np_quiet_end_min p"
  have ins: "inside_window m ?s ?e" and ne: "?s \<noteq> ?e"
    using q by (auto simp: is_in_quiet_hours_def quiet_hours_disabled_def z lm split: if_splits)
  have hm: "and_hm x (nat (?e div 60)) (nat (?e mod 60)) = Some (x * ns_per_day + ?e * ns_per_min)"
    for x
  proof -
    have "nat (?e div 60) = nat ?e div 60" "nat (?e mod 60) = nat ?e mod 60"
      using b by (simp_all add: nat_div_distrib nat_mod_distrib)
    moreover have "nat ?e < 1440" using b by linarith
    ultimately show ?thesis using b by (simp add: and_hm_of_minutes)
  qed
  have sd: "succ_opt d = Some (d + 1)" using small by (simp add: succ_opt_def ld z)
  have wc: "window_close p (now + off) = (if ?s < ?e \<or> m < ?s then d else d + 1)
      * ns_per_day + ?e * ns_per_min"
    by (simp add: window_close_def Let_def d_def[symmetric] m_def[symmetric])
  show ?thesis
  proof (cases "?s < ?e \<or> m < ?s")
    case True
    then have adv: "minutes_until_end_of_window m ?s ?e = ?e - m"
      using ins by (auto simp: minutes_until_end_of_window_def inside_window_def split: if_splits)
    show ?thesis
      unfolding next_deliverable_at_def wc
      using q True b by (simp add: Let_def z ld lm adv MINUTES_PER_DAY_def hm)
  next
    case False
    then have adv: "minutes_until_end_of_window m ?s ?e = (1440 - m) + ?e"
      by (simp add: minutes_until_end_of_window_def MINUTES_PER_DAY_def)
    have "(m + ((1440 - m) + ?e)) mod 1440 = ?e" using b by simp
    then show ?thesis
      unfolding next_deliverable_at_def wc
      using q False b by (simp add: Let_def z ld lm adv MINUTES_PER_DAY_def hm sd)
  qed
qed

lemma quiet_until_close:
  assumes p: "new_notification_preferences parse_tz code s e = Inr p"
    and z: "np_timezone p = fixed_zone off"
    and q: "is_in_quiet_hours p now"
    and t: "now \<le> t" "t < window_close p (now + off) - off"
  shows "is_in_quiet_hours p t"
proof -
  define d where "d = (now + off) div ns_per_day"
  define m where "m = ((now + off) mod ns_per_day) div ns_per_min"
  note b = new_preferences_bounds[OF p]
  let ?s = "np_quiet_start_min p" and ?e = "np_quiet_end_min p" and ?t = "t + off"
  let ?m = "(?t mod ns_per_day) div ns_per_min"
  have ins: "inside_window m ?s ?e" and ne: "?s \<noteq> ?e"
    using q by (auto simp: is_in_quiet_hours_def quiet_hours_disabled_def z local_minute_of_day_def
        m_def split: if_splits)
  have m: "0 \<le> m" "m < 1440"
    using local_minute_less[of "fixed_zone off" now]
    by (simp_all add: local_minute_of_day_def m_def)
  have lo: "d * ns_per_day + m * ns_per_min \<le> ?t"
    using local_fixed(1)[OF d_def m_def] t(1) by simp
  have hi: "?t < (if ?s < ?e \<or> m < ?s then d else d + 1) * ns_per_day + ?e * ns_per_min"
    using t(2) by (simp add: window_close_def Let_def d_def[symmetric] m_def[symmetric])
  have "inside_window ?m ?s ?e"
  proof (cases "?s < ?e \<or> m < ?s")
    case True
    have "m \<le> ?m \<and> ?m < ?e"
      by (rule minute_of_day_bounds[OF lo]) (use hi True m b in auto)
    then show ?thesis using ins True by (auto simp: inside_window_def split: if_splits)
  next
    case wraps: False
    show ?thesis
    proof (cases "?t < (d + 1) * ns_per_day")
      case True
      have "m \<le> ?m \<and> ?m < 1440"
        by (rule minute_of_day_bounds[OF lo]) (use True m in \<open>auto simp: distrib_right day_minutes\<close>)
      then show ?thesis using wraps by (auto simp: inside_window_def)
    next
      case False
      have "0 \<le> ?m \<and> ?m < ?e"
        by (rule minute_of_day_bounds[of "d + 1"]) (use hi wraps False b in auto)
      then show ?thesis using wraps by (auto simp: inside_window_def)
    qed
  qed
  then show ?thesis
    using ne by (simp add: is_in_quiet_hours_def quiet_hours_disabled_def z local_minute_of_day_def)
qed

lemma open_at_close:
  assumes p: "new_notification_preferences parse_tz code s e = Inr p"
    and z: "np_timezone p = fixed_zone off"
  shows "\<not> is_in_quiet_hours p (window_close p x - off)"
proof -
  note b = new_preferences_bounds[OF p]
  let ?s = "np_quiet_start_min p" and ?e = "np_quiet_end_min p" and ?c = "window_close p x"
  obtain d where c: "?c = d * ns_per_day + ?e * ns_per_min"
    by (auto simp: window_close_def Let_def)
  have "?e \<le> (?c mod ns_per_day) div ns_per_min \<and> (?c mod ns_per_day) div ns_per_min < ?e + 1"
    by (rule minute_of_day_bounds[of d]) (use b in \<open>auto simp: c distrib_right\<close>)
  then have "(?c mod ns_per_day) div ns_per_min = ?e" by linarith
  then show ?thesis
    by (auto simp: is_in_quiet_hours_def quiet_hours_disabled_def inside_window_def z
        local_minute_of_day_def)
qed

lemma close_is_later:
  assumes p: "new_notification_preferences parse_tz code s e = Inr p"
    and z: "np_timezone p = fixed_zone off" and q: "is_in_quiet_hours p now"
  shows "now < window_close p (now + off) - off"
proof -
  define d where "d = (now + off) div ns_per_day"
  define m where "m = ((now + off) mod ns_per_day) div ns_per_min"
  let ?s = "np_quiet_start_min p" and ?e = "np_quiet_end_min p"
  note b = new_preferences_bounds[OF p]
  have ins: "inside_window m ?s ?e"
    using q by (auto simp: is_in_quiet_hours_def z local_minute_of_day_def m_def split: if_splits)
  have "now + off < (d + 1) * ns_per_day" unfolding d_def by (rule before_next_day)
  moreover have "m < ?e \<Longrightarrow> now + off < d * ns_per_day + ?e * ns_per_min"
    using local_fixed(2)[OF d_def m_def] minutes_mono[of "m + 1" ?e] by linarith
  moreover have "(d + 1) * ns_per_day \<le> (d + 1) * ns_per_day + ?e * ns_per_min"
    using b minutes_mono[of 0 ?e] by simp
  moreover have "window_close p (now + off) = (if ?s < ?e \<or> m < ?s then d else d + 1)
      * ns_per_day + ?e * ns_per_min"
    by (simp add: window_close_def Let_def d_def[symmetric] m_def[symmetric])
  ultimately have "now + off < window_close p (now + off)"
    using ins by (auto simp: inside_window_def split: if_splits)
  then show ?thesis by simp
qed

text \<open>C34. A deferred message is delivered at the first possible instant. For preferences the
  constructor accepts, in a zone of fixed offset, \<^verbatim>\<open>next_deliverable_at\<close> does not panic and returns
  the least instant from \<open>now\<close> on that is not in the user's quiet hours, whether the window wraps
  around midnight or not.\<close>
theorem next_deliverable_is_earliest:
  assumes "new_notification_preferences parse_tz code s e = Inr p"
    and "np_timezone p = fixed_zone off"
    and "local_date (np_timezone p) now < NAIVE_DATE_MAX"
  shows "\<exists>t. next_deliverable_at p now = Some t
      \<and> now \<le> t \<and> \<not> is_in_quiet_hours p t
      \<and> (\<forall>u. now \<le> u \<and> u < t \<longrightarrow> is_in_quiet_hours p u)"
proof (cases "is_in_quiet_hours p now")
  case False
  then show ?thesis by (intro exI[of _ now]) (auto simp: next_deliverable_at_def)
next
  case True
  let ?t = "window_close p (now + off) - off"
  have "now \<le> ?t" using close_is_later[OF assms(1,2) True] by simp
  moreover have "\<not> is_in_quiet_hours p ?t" by (rule open_at_close[OF assms(1,2)])
  ultimately show ?thesis
    using next_deliverable_fixed[OF assms(1,2) True assms(3)]
      quiet_until_close[OF assms(1,2) True] by blast
qed

theorem next_deliverable_is_earliest_witness:
  "\<exists>p. new_notification_preferences (\<lambda>_. Some moscow) (ascii ''Europe/Moscow'') 1320 480 = Inr p
    \<and> is_in_quiet_hours p (20 * 60 * ns_per_min)
    \<and> (\<exists>t. next_deliverable_at p (20 * 60 * ns_per_min) = Some t
        \<and> \<not> is_in_quiet_hours p t)"
proof -
  define p where "p = \<lparr> np_timezone = moscow, np_quiet_start_min = 1320, np_quiet_end_min = 480 \<rparr>"
  have p: "new_notification_preferences (\<lambda>_. Some moscow) (ascii ''Europe/Moscow'') 1320 480 = Inr p"
    by (simp add: new_notification_preferences_def in_minute_range_def MINUTES_PER_DAY_def p_def)
  have z: "np_timezone p = fixed_zone (180 * ns_per_min)" by (simp add: p_def moscow_def)
  have "is_in_quiet_hours p (20 * 60 * ns_per_min)"
    unfolding is_in_quiet_hours_def quiet_hours_disabled_def local_minute_of_day_def z
    by (simp add: p_def inside_window_def ns_per_day_def ns_per_min_def ns_per_sec_def)
  moreover have "local_date (np_timezone p) (20 * 60 * ns_per_min) < NAIVE_DATE_MAX"
    by (simp add: local_date_def z NAIVE_DATE_MAX_def ns_per_day_def ns_per_min_def ns_per_sec_def)
  ultimately show ?thesis
    using next_deliverable_is_earliest[OF p z, of "20 * 60 * ns_per_min"] p by blast
qed

end
