(* ===== verification/Voice_Repo.thy ===== *)
theory Voice_Repo
  imports Samples
begin

section \<open>The repository of voice attempts\<close>

text \<open>
  \<^verbatim>\<open>src/infrastructure/db/repositories/voice_processing_repository.rs\<close>: one row per Telegram file,
  moved along the state machine of \<open>Voice_Domain\<close> by compare-and-swap inside a transaction.
\<close>

datatype voice_transition_outcome =
    Transitioned voice_record
  | StaleExpectedState
  | VoiceNotFound
  | InvalidTransition

definition voice_of :: "world \<Rightarrow> utext \<Rightarrow> voice_record option" where
  "voice_of w key = find (\<lambda>r. vr_file_unique_id r = key) (sd_voice (w_side w))"

definition put_voice_rows :: "voice_record list \<Rightarrow> world \<Rightarrow> world" where
  "put_voice_rows rows w = w\<lparr> w_side := (w_side w)\<lparr> sd_voice := rows \<rparr> \<rparr>"

definition fetch_by_key :: "utext \<Rightarrow> (world, voice_record option) act" where
  "fetch_by_key key = select (\<lambda>w. voice_of w key)"

definition reload_voice :: "utext \<Rightarrow> (world, voice_record) act" where
  "reload_voice key =
     tryA (fetch_by_key key) (\<lambda>row. lift (ok_or (database_error (ascii ''no rows returned'')) row))"

definition modify_voice :: "utext \<Rightarrow> (voice_record \<Rightarrow> voice_record) \<Rightarrow> (world, unit) act" where
  "modify_voice key f = execute (\<lambda>w. put_voice_rows
     (update_where (\<lambda>r. vr_file_unique_id r = key) f (sd_voice (w_side w))) w)"

definition insert_voice :: "voice_record \<Rightarrow> (world, unit) act" where
  "insert_voice record = statement (\<lambda>w. references u_id (vr_user_id record) (w_users w))
     (\<lambda>w. ((), put_voice_rows (sd_voice (w_side w) @ [record\<lparr>
        vr_id := Some (next_id vr_id (sd_voice (w_side w))), vr_last_error_code := None,
        vr_transcript_preview_hash := None, vr_completed_at := None \<rparr>]) w))"

definition get_or_create_queued :: "voice_record \<Rightarrow> (world, voice_record) act" where
  "get_or_create_queued record = transaction
    (tryA (fetch_by_key (vr_file_unique_id record)) (\<lambda>existing.
       case existing of
         Some row \<Rightarrow> ret row
       | None \<Rightarrow>
          tryA (insert_voice record) (\<lambda>_. reload_voice (vr_file_unique_id record))))"

definition transition_state ::
  "utext \<Rightarrow> voice_state \<Rightarrow> voice_state \<Rightarrow> utext option \<Rightarrow> instant \<Rightarrow>
   (world, voice_transition_outcome) act" where
  "transition_state key expected next error_code now =
    (if \<not> voice_can_transition_to expected next then ret InvalidTransition
     else transaction
       (tryA (fetch_by_key key) (\<lambda>current.
          case current of
            None \<Rightarrow> ret VoiceNotFound
          | Some row \<Rightarrow>
             if vr_state row \<noteq> expected then ret StaleExpectedState
             else
               tryA (modify_voice key (\<lambda>r. r\<lparr> vr_state := next,
                  vr_attempt_count := vr_attempt_count r + 1,
                  vr_last_error_code := error_code, vr_updated_at := now \<rparr>)) (\<lambda>_.
               tryA (reload_voice key) (\<lambda>r. ret (Transitioned r))))))"

definition mark_transcribed ::
  "utext \<Rightarrow> utext \<Rightarrow> instant \<Rightarrow> (world, voice_transition_outcome) act" where
  "mark_transcribed key hash now = transaction
     (tryA (fetch_by_key key) (\<lambda>current.
        case current of
          None \<Rightarrow> ret VoiceNotFound
        | Some row \<Rightarrow>
           if vr_state row \<noteq> Transcribing then ret StaleExpectedState
           else
             tryA (modify_voice key (\<lambda>r. r\<lparr> vr_state := Transcribed,
                vr_transcript_preview_hash := Some hash, vr_completed_at := Some now,
                vr_updated_at := now \<rparr>)) (\<lambda>_.
             tryA (reload_voice key) (\<lambda>r. ret (Transitioned r)))))"

definition purgeable :: "instant \<Rightarrow> voice_record \<Rightarrow> bool" where
  "purgeable older_than r \<longleftrightarrow>
     (case vr_completed_at r of None \<Rightarrow> False | Some t \<Rightarrow> t < older_than)
     \<and> vr_state r \<in> {Transcribed, VoiceFailed}
     \<and> (vr_transcript_preview_hash r \<noteq> None \<or> vr_last_error_code r \<noteq> None)"

definition purge_stale_payloads :: "instant \<Rightarrow> (world, nat) act" where
  "purge_stale_payloads older_than = statement (\<lambda>_. True)
     (\<lambda>w. let rows = sd_voice (w_side w) in
        (length (filter (purgeable older_than) rows),
         put_voice_rows (update_where (purgeable older_than)
           (\<lambda>r. r\<lparr> vr_transcript_preview_hash := None, vr_last_error_code := None \<rparr>) rows) w))"

subsection \<open>What one operation may do to an attempt\<close>

lemma voice_of_set [simp]:
  "voice_of (put_voice_rows rows w) key = find (\<lambda>r. vr_file_unique_id r = key) rows"
  by (simp add: voice_of_def put_voice_rows_def)

lemma voice_of_faults [simp]: "voice_of (w\<lparr> w_faults := fs \<rparr>) key = voice_of w key"
  by (simp add: voice_of_def)

lemma same_tables_voice: "same_tables w w' \<Longrightarrow> voice_of w' key = voice_of w key"
  by (simp add: same_tables_def voice_of_def)

text \<open>
  \<open>voice_steps w w'\<close>: no attempt disappears, its state either stays or moves one permitted
  transition, and the completion time stays with the transcribed attempts.
\<close>

definition done_is_transcribed :: "voice_record \<Rightarrow> bool" where
  "done_is_transcribed r \<longleftrightarrow> (vr_completed_at r \<noteq> None \<longrightarrow> vr_state r = Transcribed)"

definition row_step :: "voice_record \<Rightarrow> voice_record \<Rightarrow> bool" where
  "row_step r r' \<longleftrightarrow>
     (vr_state r' = vr_state r \<or> voice_can_transition_to (vr_state r) (vr_state r'))
     \<and> (done_is_transcribed r \<longrightarrow> done_is_transcribed r')"

definition voice_steps :: "world \<Rightarrow> world \<Rightarrow> bool" where
  "voice_steps w w' \<longleftrightarrow>
     (\<forall>key r. voice_of w key = Some r \<longrightarrow> (\<exists>r'. voice_of w' key = Some r' \<and> row_step r r'))
     \<and> (\<forall>key r'. voice_of w key = None \<longrightarrow> voice_of w' key = Some r' \<longrightarrow> done_is_transcribed r')"

lemma row_step_refl [simp]: "row_step r r"
  by (simp add: row_step_def)

lemma voice_steps_same: "same_tables w w' \<Longrightarrow> voice_steps w w'"
  by (simp add: voice_steps_def same_tables_voice)

lemma fetch_Inr: "fetch_by_key key w = (Inr x, w') \<Longrightarrow> x = voice_of w key \<and> same_tables w w'"
  by (auto simp: fetch_by_key_def select_Inr same_tables_def)

lemma reload_Inr: "reload_voice key w = (Inr r, w') \<Longrightarrow> voice_of w key = Some r \<and> same_tables w w'"
  by (auto simp: reload_voice_def tryA_eq_Inr dest!: fetch_Inr)

lemma modify_voice_Inr:
  assumes "modify_voice key f w = (Inr u, w')" and "\<And>r. vr_file_unique_id (f r) = vr_file_unique_id r"
  shows "voice_of w' k = map_option (\<lambda>r. if vr_file_unique_id r = key then f r else r) (voice_of w k)"
  using assms(1) find_update_where[of "\<lambda>r. vr_file_unique_id r = key" "\<lambda>r. vr_file_unique_id r = k" f]
  by (auto simp: modify_voice_def execute_def statement_Inr assms(2) voice_of_def[symmetric])

text \<open>The compare-and-swap both operations share.\<close>

definition voice_cas ::
  "utext \<Rightarrow> voice_state \<Rightarrow> (voice_record \<Rightarrow> voice_record) \<Rightarrow> (world, voice_transition_outcome) act" where
  "voice_cas key expected f =
     tryA (fetch_by_key key) (\<lambda>current.
        case current of
          None \<Rightarrow> ret VoiceNotFound
        | Some row \<Rightarrow>
           if vr_state row \<noteq> expected then ret StaleExpectedState
           else tryA (modify_voice key f) (\<lambda>_. tryA (reload_voice key) (\<lambda>r. ret (Transitioned r))))"

lemma voice_cas_Inr:
  assumes run: "voice_cas key expected f w = (Inr out, w')"
    and f: "\<And>r. vr_file_unique_id (f r) = vr_file_unique_id r"
  shows "same_tables w w' \<and> (\<forall>r. out \<noteq> Transitioned r)
      \<or> (\<exists>row. voice_of w key = Some row \<and> vr_state row = expected \<and> out = Transitioned (f row)
          \<and> (\<forall>k. voice_of w' k = map_option
                (\<lambda>r. if vr_file_unique_id r = key then f r else r) (voice_of w k)))"
proof -
  obtain cur w1 where cur: "fetch_by_key key w = (Inr cur, w1)"
    and rest: "(case cur of None \<Rightarrow> ret VoiceNotFound
        | Some row \<Rightarrow>
           if vr_state row \<noteq> expected then ret StaleExpectedState
           else tryA (modify_voice key f) (\<lambda>_. tryA (reload_voice key) (\<lambda>r. ret (Transitioned r)))) w1
      = (Inr out, w')"
    using run unfolding voice_cas_def tryA_eq_Inr[of "fetch_by_key key"] by blast
  note c = fetch_Inr[OF cur]
  show ?thesis
  proof (cases cur)
    case None
    then show ?thesis using rest c by auto
  next
    case (Some row)
    note v = c[unfolded Some, THEN conjunct1, symmetric] c[THEN conjunct2]
    note rest' = rest[unfolded Some option.case]
    show ?thesis
    proof (cases "vr_state row = expected")
      case False
      then show ?thesis using rest' v by auto
    next
      case True
      then obtain w2 r where u: "modify_voice key f w1 = (Inr (), w2)"
        and r: "reload_voice key w2 = (Inr r, w')" "out = Transitioned r"
        using rest' by (auto simp: tryA_eq_Inr)
      have key: "vr_file_unique_id row = key"
        using v(1) by (auto simp: voice_of_def dest!: find_SomeD)
      have now: "voice_of w' k = map_option (\<lambda>r. if vr_file_unique_id r = key then f r else r)
          (voice_of w k)" for k
        using modify_voice_Inr[OF u f] same_tables_voice[of w w1] same_tables_voice[of w2 w']
          v(2) reload_Inr[OF r(1)] by simp
      have "voice_of w2 key = Some r" using reload_Inr[OF r(1)] by simp
      then have "r = f row"
        using modify_voice_Inr[OF u f, of key] same_tables_voice[of w w1 key] v key by simp
      then show ?thesis using now r(2) v(1) True by auto
    qed
  qed
qed

lemma transition_state_eq:
  "transition_state key expected next error_code now =
    (if \<not> voice_can_transition_to expected next then ret InvalidTransition
     else transaction (voice_cas key expected (\<lambda>r. r\<lparr> vr_state := next,
                  vr_attempt_count := vr_attempt_count r + 1,
                  vr_last_error_code := error_code, vr_updated_at := now \<rparr>)))"
  unfolding transition_state_def voice_cas_def ..

lemma mark_transcribed_eq:
  "mark_transcribed key hash now =
     transaction (voice_cas key Transcribing (\<lambda>r. r\<lparr> vr_state := Transcribed,
                vr_transcript_preview_hash := Some hash, vr_completed_at := Some now,
                vr_updated_at := now \<rparr>))"
  unfolding mark_transcribed_def voice_cas_def ..

lemma cas_transaction:
  assumes run: "transaction (voice_cas key expected f) w = (r, w')"
    and f: "\<And>r. vr_file_unique_id (f r) = vr_file_unique_id r"
  shows "same_tables w w' \<and> (\<forall>row. r \<noteq> Inr (Transitioned row))
      \<or> (\<exists>row. voice_of w key = Some row \<and> vr_state row = expected
          \<and> r = Inr (Transitioned (f row))
          \<and> (\<forall>k. voice_of w' k = map_option
                (\<lambda>r. if vr_file_unique_id r = key then f r else r) (voice_of w k)))"
proof (cases r)
  case (Inl e)
  then show ?thesis using run by (auto dest: transaction_Inl)
next
  case (Inr out)
  then obtain w0 w1 where m: "voice_cas key expected f w0 = (Inr out, w1)"
    and st: "same_tables w w0" "same_tables w1 w'"
    using transaction_Inr[OF run[unfolded Inr]] by blast
  show ?thesis
    using voice_cas_Inr[OF m f]
  proof (elim disjE)
    assume a: "same_tables w0 w1 \<and> (\<forall>r. out \<noteq> Transitioned r)"
    then have "same_tables w w'" using st same_tables.trans by blast
    with a Inr show ?thesis by simp
  next
    assume "\<exists>row. voice_of w0 key = Some row \<and> vr_state row = expected \<and> out = Transitioned (f row)
          \<and> (\<forall>k. voice_of w1 k = map_option
                (\<lambda>r. if vr_file_unique_id r = key then f r else r) (voice_of w0 k))"
    then obtain row where row: "voice_of w0 key = Some row" "vr_state row = expected"
        "out = Transitioned (f row)"
      and k: "\<And>k. voice_of w1 k = map_option
                (\<lambda>r. if vr_file_unique_id r = key then f r else r) (voice_of w0 k)" by blast
    show ?thesis
      by (intro disjI2 exI[of _ row] conjI allI)
        (use row k Inr same_tables_voice[OF st(1)] same_tables_voice[OF st(2)] in simp_all)
  qed
qed

lemma cas_voice_steps:
  assumes run: "transaction (voice_cas key expected f) w = (r, w')"
    and f: "\<And>r. vr_file_unique_id (f r) = vr_file_unique_id r"
    and step: "\<And>r. vr_state r = expected \<Longrightarrow> row_step r (f r)"
  shows "voice_steps w w'"
  using cas_transaction[OF run f]
proof (elim disjE conjE exE)
  fix row
  assume row: "voice_of w key = Some row" "vr_state row = expected"
    and now: "\<forall>k. voice_of w' k = map_option
        (\<lambda>r. if vr_file_unique_id r = key then f r else r) (voice_of w k)"
  show "voice_steps w w'"
    unfolding voice_steps_def
  proof (intro conjI allI impI)
    fix k r assume r: "voice_of w k = Some r"
    then have k: "vr_file_unique_id r = k" by (auto simp: voice_of_def dest: find_SomeD)
    have "r = row" if "k = key" using that r row by simp
    then show "\<exists>r'. voice_of w' k = Some r' \<and> row_step r r'"
      using now r row k step by auto
  qed (simp add: now)
qed (simp add: voice_steps_same)

lemma transition_voice_steps:
  assumes run: "transition_state key expected next code now w = (r, w')"
  shows "voice_steps w w'"
proof (cases "voice_can_transition_to expected next")
  case True
  let ?f = "\<lambda>r. r\<lparr> vr_state := next, vr_attempt_count := vr_attempt_count r + 1,
    vr_last_error_code := code, vr_updated_at := now \<rparr>"
  have "transaction (voice_cas key expected ?f) w = (r, w')"
    using run True by (simp only: transition_state_eq not_True_eq_False if_False)
  then show ?thesis
    by (rule cas_voice_steps) (use True in \<open>auto simp: row_step_def done_is_transcribed_def\<close>)
next
  case False
  then show ?thesis
    using run by (simp add: transition_state_eq voice_steps_def)
qed

lemma transcribed_voice_steps: "mark_transcribed key hash now w = (r, w') \<Longrightarrow> voice_steps w w'"
  by (auto simp: mark_transcribed_eq row_step_def done_is_transcribed_def dest!: cas_voice_steps)

lemma purge_Inr:
  assumes "purge_stale_payloads t w = (Inr n, w')"
  shows "voice_of w' k = map_option (\<lambda>r. if purgeable t r
      then r\<lparr> vr_transcript_preview_hash := None, vr_last_error_code := None \<rparr> else r) (voice_of w k)"
  using assms find_update_where[of "purgeable t" "\<lambda>r. vr_file_unique_id r = k"
        "\<lambda>r. r\<lparr> vr_transcript_preview_hash := None, vr_last_error_code := None \<rparr>"]
  by (auto simp: purge_stale_payloads_def statement_Inr Let_def) (simp add: voice_of_def)

lemma purge_voice_steps: "purge_stale_payloads t w = (r, w') \<Longrightarrow> voice_steps w w'"
proof (cases r)
  case (Inl e)
  moreover assume "purge_stale_payloads t w = (r, w')"
  ultimately have "w' = w\<lparr> w_faults := tl (w_faults w) \<rparr>"
    by (auto simp: purge_stale_payloads_def dest!: statement_Inl)
  then show ?thesis by (simp add: voice_steps_def)
next
  case (Inr n)
  moreover assume "purge_stale_payloads t w = (r, w')"
  ultimately have "voice_of w' k = map_option (\<lambda>r. if purgeable t r
      then r\<lparr> vr_transcript_preview_hash := None, vr_last_error_code := None \<rparr> else r) (voice_of w k)"
    for k using purge_Inr by blast
  then show ?thesis by (auto simp: voice_steps_def row_step_def done_is_transcribed_def)
qed

lemma get_or_create_voice_steps: "get_or_create_queued record w = (r, w') \<Longrightarrow> voice_steps w w'"
proof (cases r)
  case (Inl e)
  moreover assume "get_or_create_queued record w = (r, w')"
  ultimately have "same_tables w w'"
    unfolding get_or_create_queued_def using transaction_Inl by blast
  then show ?thesis by (rule voice_steps_same)
next
  case (Inr row)
  let ?key = "vr_file_unique_id record"
  assume "get_or_create_queued record w = (r, w')"
  then obtain w0 w1 where m: "tryA (fetch_by_key ?key) (\<lambda>existing.
       case existing of Some row \<Rightarrow> ret row
       | None \<Rightarrow> tryA (insert_voice record) (\<lambda>_. reload_voice ?key)) w0 = (Inr row, w1)"
    and st: "same_tables w w0" "same_tables w1 w'"
    using transaction_Inr[of _ w row w'] unfolding Inr get_or_create_queued_def by blast
  obtain ex w2 where e: "fetch_by_key ?key w0 = (Inr ex, w2)"
    and rest: "(case ex of Some row \<Rightarrow> ret row
       | None \<Rightarrow> tryA (insert_voice record) (\<lambda>_. reload_voice ?key)) w2 = (Inr row, w1)"
    using m unfolding tryA_eq_Inr[of "fetch_by_key ?key"] by blast
  have w2: "voice_of w2 k = voice_of w k" for k
    using same_tables_voice[OF st(1)] fetch_Inr[OF e] same_tables_voice[of w0 w2] by simp
  show "voice_steps w w'"
  proof (cases ex)
    case None
    then obtain w3 where ins: "insert_voice record w2 = (Inr (), w3)"
      and rl: "reload_voice ?key w3 = (Inr row, w1)" using rest by (auto simp: tryA_eq_Inr)
    have "voice_of w' k = voice_of w3 k" for k
      using same_tables_voice[OF st(2)] reload_Inr[OF rl] same_tables_voice[of w3 w1] by simp
    moreover have "sd_voice (w_side w3) = sd_voice (w_side w2) @ [record\<lparr>
        vr_id := Some (next_id vr_id (sd_voice (w_side w2))), vr_last_error_code := None,
        vr_transcript_preview_hash := None, vr_completed_at := None \<rparr>]"
      using ins by (auto simp: insert_voice_def statement_Inr put_voice_rows_def)
    ultimately show ?thesis
      unfolding voice_steps_def w2[symmetric]
      by (auto simp: voice_of_def find_append_Some find_append_None done_is_transcribed_def
          split: if_splits)
  next
    case (Some r')
    then have "same_tables w2 w1" using rest by (simp add: same_tables.refl)
    then have "voice_of w' k = voice_of w k" for k
      using same_tables_voice[OF st(2)] same_tables_voice[of w2 w1] w2 by simp
    then show ?thesis by (simp add: voice_steps_def)
  qed
qed

subsection \<open>Sessions of the repository\<close>

datatype voice_op =
    GetOrCreate voice_record
  | Transition utext voice_state voice_state "utext option" instant
  | MarkTranscribed utext utext instant
  | PurgeStale instant

fun voice_step :: "voice_op \<Rightarrow> world \<Rightarrow> world" where
  "voice_step (GetOrCreate record) w = snd (get_or_create_queued record w)"
| "voice_step (Transition key expected next code now) w =
     snd (transition_state key expected next code now w)"
| "voice_step (MarkTranscribed key hash now) w = snd (mark_transcribed key hash now w)"
| "voice_step (PurgeStale t) w = snd (purge_stale_payloads t w)"

lemma voice_step_steps: "voice_steps w (voice_step oper w)"
  by (cases oper)
    (simp_all, (metis prod.collapse get_or_create_voice_steps transition_voice_steps
      transcribed_voice_steps purge_voice_steps)+)

lemma voice_run_rank:
  "voice_of w key = Some r \<Longrightarrow>
     \<exists>r'. voice_of (fold voice_step ops w) key = Some r'
        \<and> (voice_rank (vr_state r) < voice_rank (vr_state r') \<or> vr_state r' = vr_state r)"
proof (induction ops arbitrary: w r)
  case (Cons a ops)
  obtain r1 where r1: "voice_of (voice_step a w) key = Some r1"
    "vr_state r1 = vr_state r \<or> voice_can_transition_to (vr_state r) (vr_state r1)"
    using voice_step_steps[of w a] Cons.prems unfolding voice_steps_def row_step_def by blast
  with Cons.IH[OF r1(1)] show ?case
    using voice_rank_increases[of "vr_state r" "vr_state r1"] by auto
qed simp

lemma cas_Transitioned:
  assumes "transaction (voice_cas key expected f) w = (Inr (Transitioned r), w')"
    "\<And>r. vr_file_unique_id (f r) = vr_file_unique_id r" "\<And>r. vr_state (f r) = next"
  shows "\<exists>row. voice_of w key = Some row \<and> vr_state row = expected"
    and "\<exists>row. voice_of w' key = Some row \<and> vr_state row = next"
proof -
  obtain row where row: "voice_of w key = Some row" "vr_state row = expected"
    and now: "voice_of w' key = map_option
        (\<lambda>r. if vr_file_unique_id r = key then f r else r) (voice_of w key)"
    using cas_transaction[OF assms(1,2)] by auto
  then show "\<exists>row. voice_of w key = Some row \<and> vr_state row = expected" by blast
  have "vr_file_unique_id row = key" using row(1) by (auto simp: voice_of_def dest: find_SomeD)
  then show "\<exists>row. voice_of w' key = Some row \<and> vr_state row = next"
    using now row(1) assms(3) by simp
qed

text \<open>The compare-and-swaps of the repository on an attempt: a transition from the state the worker expects,
  and storing a transcript, which expects an attempt that is being transcribed.\<close>

definition compare_and_swap :: "utext \<Rightarrow> voice_state \<Rightarrow> (world, voice_transition_outcome) act \<Rightarrow> bool" where
  "compare_and_swap key expected m \<longleftrightarrow>
     (\<exists>next code now. m = transition_state key expected next code now)
     \<or> expected = Transcribing \<and> (\<exists>hash now. m = mark_transcribed key hash now)"

lemma swapped:
  assumes "compare_and_swap key expected m" "m w = (Inr (Transitioned r), w')"
  shows "\<exists>row. voice_of w key = Some row \<and> vr_state row = expected"
    and "\<exists>row. voice_of w' key = Some row \<and> voice_rank expected < voice_rank (vr_state row)"
proof -
  obtain f "next" where run: "transaction (voice_cas key expected f) w = (Inr (Transitioned r), w')"
    and f: "\<And>r. vr_file_unique_id (f r) = vr_file_unique_id r" "\<And>r. vr_state (f r) = next"
    and up: "voice_rank expected < voice_rank next"
  proof -
    from assms(1) consider (transition) "next" code now where "m = transition_state key expected next code now"
      | (transcribed) hash now where "expected = Transcribing" "m = mark_transcribed key hash now"
      unfolding compare_and_swap_def by blast
    then show ?thesis
    proof cases
      case transition
      then have "voice_can_transition_to expected next"
        using assms(2) by (auto simp: transition_state_eq split: if_splits)
      note up = voice_rank_increases[OF this]
      have "transaction (voice_cas key expected (\<lambda>r. r\<lparr> vr_state := next, vr_attempt_count := vr_attempt_count r + 1,
          vr_last_error_code := code, vr_updated_at := now \<rparr>)) w = (Inr (Transitioned r), w')"
        using assms(2) \<open>voice_can_transition_to expected next\<close> unfolding transition transition_state_eq
        by (simp only: not_True_eq_False if_False)
      from that[OF this] up show ?thesis by simp
    next
      case transcribed
      note run = assms(2)[unfolded transcribed(2) mark_transcribed_eq, folded transcribed(1)]
      show ?thesis by (rule that[of _ Transcribed, OF run]) (simp_all add: transcribed(1))
    qed
  qed
  show "\<exists>row. voice_of w key = Some row \<and> vr_state row = expected"
    using cas_Transitioned(1)[OF run f] .
  show "\<exists>row. voice_of w' key = Some row \<and> voice_rank expected < voice_rank (vr_state row)"
    using cas_Transitioned(2)[OF run f] up by blast
qed

text \<open>C35. A voice attempt is claimed once. Once a worker has moved an attempt out of a state, by a
  transition or by storing its transcript, no later compare-and-swap that expects this state succeeds,
  neither a transition nor the storing of a transcript, whichever operations of the repository ran in
  between, on whichever attempts, with whichever failures of the database: a second worker working from
  what it read earlier is refused. So nothing is transcribed twice, and a failed attempt is not
  transcribed.\<close>

theorem voice_claimed_once:
  assumes "compare_and_swap key expected first" "first w = (Inr (Transitioned r), w1)"
    and "compare_and_swap key expected again"
  shows "fst (again (fold voice_step ops w1)) \<noteq> Inr (Transitioned r')"
proof
  let ?w2 = "fold voice_step ops w1"
  assume "fst (again ?w2) = Inr (Transitioned r')"
  then obtain w3 where later: "again ?w2 = (Inr (Transitioned r'), w3)" by (metis prod.collapse)
  obtain row where row: "voice_of w1 key = Some row" "voice_rank expected < voice_rank (vr_state row)"
    using swapped(2)[OF assms(1,2)] by blast
  obtain row2 where row2: "voice_of ?w2 key = Some row2"
    "voice_rank (vr_state row) < voice_rank (vr_state row2) \<or> vr_state row2 = vr_state row"
    using voice_run_rank[OF row(1)] by blast
  have "vr_state row2 = expected" using swapped(1)[OF assms(3) later] row2(1) by auto
  then show False using row2(2) row(2) by auto
qed

definition sample_voice_world :: world where
  "sample_voice_world =
     put_voice_rows [queued_record (ascii ''file'') 1 20 None 0\<lparr> vr_id := Some 1, vr_state := Transcribing \<rparr>] sample_world"

text \<open>One worker gives the transcription up, and another one comes with a transcript.\<close>

theorem voice_claimed_once_witness:
  "\<nexists>r. fst (mark_transcribed (ascii ''file'') [] 9
      (fold voice_step [Transition (ascii ''file'') Queued Transcribing None 8]
        (snd (transition_state (ascii ''file'') Transcribing VoiceFailed None 7 sample_voice_world))))
    = Inr (Transitioned r)"
proof -
  obtain r w1 where run: "transition_state (ascii ''file'') Transcribing VoiceFailed None 7 sample_voice_world
      = (Inr (Transitioned r), w1)"
    by (simp add: transition_state_def transaction_def run_simps sample_voice_world_def
        fetch_by_key_def modify_voice_def reload_voice_def put_voice_rows_def voice_of_def
        queued_record_def update_where_def)
  have "compare_and_swap (ascii ''file'') Transcribing (transition_state (ascii ''file'') Transcribing VoiceFailed None 7)"
    "compare_and_swap (ascii ''file'') Transcribing (mark_transcribed (ascii ''file'') [] 9)"
    by (auto simp: compare_and_swap_def)
  from voice_claimed_once[OF this(1) run this(2), of "[Transition (ascii ''file'') Queued Transcribing None 8]"]
  show ?thesis by (simp add: run)
qed

text \<open>
  The retention sweep is meant for transcribed and failed attempts alike, but a failed attempt has
  no completion time: starting from an empty table, it never touches one.
\<close>

lemma voice_run_done:
  "(\<And>k r. voice_of w k = Some r \<Longrightarrow> done_is_transcribed r) \<Longrightarrow>
     voice_of (fold voice_step ops w) key = Some r \<Longrightarrow> done_is_transcribed r"
proof (induction ops arbitrary: w)
  case (Cons a ops)
  have step: "done_is_transcribed q" if "voice_of (voice_step a w) k = Some q" for k q
    using voice_step_steps[of w a] Cons.prems(1) that
    unfolding voice_steps_def row_step_def by (cases "voice_of w k") force+
  show ?case
    by (rule Cons.IH[of "voice_step a w"]) (use step Cons.prems(2) in auto)
qed simp

theorem failed_attempts_never_purged:
  assumes "sd_voice (w_side w) = []"
    and "voice_of (fold voice_step ops w) key = Some r" and "vr_state r = VoiceFailed"
  shows "voice_of (snd (purge_stale_payloads t (fold voice_step ops w))) key = Some r"
proof -
  let ?w = "fold voice_step ops w"
  have "done_is_transcribed r"
    by (rule voice_run_done[of w ops key]) (use assms in \<open>simp_all add: voice_of_def\<close>)
  then have keep: "\<not> purgeable t r"
    using assms(3) by (simp add: done_is_transcribed_def purgeable_def)
  obtain q w' where run: "purge_stale_payloads t ?w = (q, w')" by (metis prod.collapse)
  show ?thesis
  proof (cases q)
    case (Inl e)
    then have "w' = ?w\<lparr> w_faults := tl (w_faults ?w) \<rparr>"
      using run by (auto simp: purge_stale_payloads_def dest!: statement_Inl)
    then show ?thesis using run assms(2) by simp
  next
    case (Inr n)
    then show ?thesis using purge_Inr[of t ?w n w' key] run assms(2) keep by simp
  qed
qed

end
