(* ===== verification/Sla_Worker.thy ===== *)
theory Sla_Worker
  imports Task_Use_Cases
begin

section \<open>The SLA escalation worker\<close>

text \<open>
  \<^verbatim>\<open>src/infrastructure/db/repositories/sla_repository.rs\<close> and
  \<^verbatim>\<open>src/application/use_cases/update_sla_states.rs\<close>: on each tick the worker classifies every open
  task with a deadline, writes the SLA columns of the task, records an escalation when the level
  rises, and notifies the assignee.
\<close>

subsection \<open>The repository\<close>

record sla_task_row =
  st_id :: row_id
  st_task_uid :: uuid
  st_title :: utext
  st_deadline :: day
  st_created_at :: instant
  st_assigned_to_user_id :: "row_id option"
  st_current_sla_state :: "string option"
  st_sla_last_level :: int

definition sla_row :: "world \<Rightarrow> task \<Rightarrow> sla_task_row" where
  "sla_row w t =
     (let i = the (t_id t) in
      \<lparr> st_id = i, st_task_uid = t_task_uid t, st_title = t_title t, st_deadline = the (t_deadline t),
        st_created_at = t_created_at t, st_assigned_to_user_id = t_assigned_to_user_id t,
        st_current_sla_state = fst (sd_sla (w_side w) i),
        st_sla_last_level = snd (sd_sla (w_side w) i) \<rparr>)"

definition tracked :: "task \<Rightarrow> bool" where
  "tracked t \<longleftrightarrow> t_deadline t \<noteq> None \<and> t_status t \<notin> {Completed, Cancelled}"

definition list_active_with_deadline :: "nat \<Rightarrow> (world, sla_task_row list) act" where
  "list_active_with_deadline limit =
     select (\<lambda>w. map (sla_row w)
       (take limit (sort_key (\<lambda>t. the (t_deadline t)) (filter tracked (w_tasks w)))))"

definition update_sla_state :: "row_id \<Rightarrow> string \<Rightarrow> int \<Rightarrow> instant \<Rightarrow> (world, unit) act" where
  "update_sla_state task_id code level now = execute (\<lambda>w. w\<lparr>
     w_side := (w_side w)\<lparr> sd_sla := (sd_sla (w_side w))(task_id := (Some code, level)) \<rparr>,
     w_tasks := update_where (\<lambda>t. t_id t = Some task_id) (\<lambda>t. t\<lparr> t_updated_at := now \<rparr>) (w_tasks w) \<rparr>)"

definition escalated :: "row_id \<Rightarrow> int \<Rightarrow> world \<Rightarrow> bool" where
  "escalated task_id level w \<longleftrightarrow>
     list_ex (\<lambda>x. sx_task_id x = task_id \<and> sx_level x = level) (sd_escalations (w_side w))"

text \<open>\<^verbatim>\<open>INSERT OR IGNORE\<close> under \<^verbatim>\<open>UNIQUE (task_id, level)\<close>; true when a row was inserted.\<close>

definition record_escalation ::
  "row_id \<Rightarrow> int \<Rightarrow> string \<Rightarrow> json \<Rightarrow> instant \<Rightarrow> (world, bool) act" where
  "record_escalation task_id level actor detail now = statement
     (\<lambda>w. escalated task_id level w \<or> has_id t_id task_id (w_tasks w))
     (\<lambda>w. if escalated task_id level w then (False, w)
          else (True, w\<lparr> w_side := (w_side w)\<lparr> sd_escalations := sd_escalations (w_side w)
            @ [\<lparr> sx_task_id = task_id, sx_level = level, sx_triggered_at = now, sx_actor = actor,
                 sx_detail = detail \<rparr>] \<rparr> \<rparr>))"

subsection \<open>The worker\<close>

definition sla_target :: "int \<Rightarrow> sla_state \<times> int" where
  "sla_target days_remaining =
     (if days_remaining < 0 then (Breached, 2)
      else if days_remaining \<le> 1 then (AtRisk, 1)
      else (Healthy, 0))"

definition sla_message ::
  "(day \<Rightarrow> utext) \<Rightarrow> sla_state \<Rightarrow> sla_task_row \<Rightarrow> int \<Rightarrow> utext option" where
  "sla_message date_text state row days_remaining =
    (case state of
       AtRisk \<Rightarrow> Some (txt_warn_task_quote @ st_title row @ txt_near_deadline
         @ date_text (st_deadline row) @ txt_days_left @ show_int (max days_remaining 0)
         @ txt_days_check)
     | Breached \<Rightarrow> Some (txt_red_task_quote @ st_title row @ txt_overdue
         @ date_text (st_deadline row) @ txt_passed_update)
     | Healthy \<Rightarrow> None)"

definition escalate :: "instant \<Rightarrow> sla_task_row \<Rightarrow> sla_state \<Rightarrow> int \<Rightarrow> int \<Rightarrow> (world, unit) act" where
  "escalate now row state level days_remaining =
    tryA (record_escalation (st_id row) level ''system''
       (JObj [(''days_remaining'', JNum days_remaining), (''deadline'', JDay (st_deadline row))]) now)
      (\<lambda>is_new_escalation.
    if \<not> is_new_escalation then ret ()
    else case st_assigned_to_user_id row of
      None \<Rightarrow> ret ()
    | Some recipient \<Rightarrow>
       tryA (gets (\<lambda>w. env_date_text (w_env w))) (\<lambda>date_text.
       case sla_message date_text state row days_remaining of
         None \<Rightarrow> ret ()
       | Some message \<Rightarrow>
          tryA (uuid_text (st_task_uid row)) (\<lambda>uid.
          attempt (enqueue ((pending_notification (Some (st_id row)) recipient SlaEscalation message
              (ascii ''sla:'' @ uid @ ascii '':level:'' @ show_int level) now)
              \<lparr> n_next_attempt_at := Some (now + 5 * ns_per_sec) \<rparr>)) (\<lambda>_. ret ()))))"

definition update_one_sla :: "instant \<Rightarrow> day \<Rightarrow> sla_task_row \<Rightarrow> (world, unit) act" where
  "update_one_sla now today row =
    (let days_remaining = st_deadline row - today in
     case sla_target days_remaining of (new_state, new_level) \<Rightarrow>
     if st_current_sla_state row = Some (sla_as_code new_state)
        \<and> st_sla_last_level row \<ge> new_level then ret ()
     else
       tryA (update_sla_state (st_id row) (sla_as_code new_state) new_level now) (\<lambda>_.
       if new_level \<le> st_sla_last_level row \<or> new_level = 0 then ret ()
       else escalate now row new_state new_level days_remaining))"

definition update_sla_states :: "(world, unit) act" where
  "update_sla_states =
     tryA (gets (\<lambda>w. flag_is_enabled (w_flags w) SlaEscalations)) (\<lambda>enabled.
     if \<not> enabled then ret ()
     else
       tryA now_utc (\<lambda>now.
       tryA today_utc (\<lambda>today.
       tryA (list_active_with_deadline 500) (\<lambda>tasks.
       forA tasks (update_one_sla now today)))))"

subsection \<open>What a tick leaves alone\<close>

text \<open>A tick changes no task but its time stamp, no account, and the SLA columns of no other task.\<close>

definition stripped :: "world \<Rightarrow> task list" where
  "stripped w = map (\<lambda>t. t\<lparr> t_updated_at := 0 \<rparr>) (w_tasks w)"

definition sla_frame :: "row_id set \<Rightarrow> world \<Rightarrow> world \<Rightarrow> bool" where
  "sla_frame ids w w' \<longleftrightarrow>
     stripped w' = stripped w \<and> w_users w' = w_users w \<and> w_flags w' = w_flags w
     \<and> w_env w' = w_env w \<and> (\<forall>i. i \<notin> ids \<longrightarrow> sd_sla (w_side w') i = sd_sla (w_side w) i)"

interpretation sla: store_frame "sla_frame ids" for ids
  by unfold_locales (auto simp: sla_frame_def bookkeeping_free_def stripped_def)

lemma sla_update:
  assumes "i \<in> ids"
  shows "obeys (sla_frame ids) (update_sla_state i code level now)"
  unfolding update_sla_state_def
proof (rule sla.execute)
  fix w :: world
  have "map (\<lambda>t. t\<lparr> t_updated_at := 0 \<rparr>) (update_where (\<lambda>t. t_id t = Some i)
      (\<lambda>t. t\<lparr> t_updated_at := now \<rparr>) (w_tasks w)) = map (\<lambda>t. t\<lparr> t_updated_at := 0 \<rparr>) (w_tasks w)"
    by (rule map_update_where_frame) simp
  with assms show "sla_frame ids w (w\<lparr>
     w_side := (w_side w)\<lparr> sd_sla := (sd_sla (w_side w))(i := (Some code, level)) \<rparr>,
     w_tasks := update_where (\<lambda>t. t_id t = Some i) (\<lambda>t. t\<lparr> t_updated_at := now \<rparr>) (w_tasks w) \<rparr>)"
    by (auto simp: sla_frame_def stripped_def)
qed

lemma sla_record: "obeys (sla_frame ids) (record_escalation i level actor detail now)"
  unfolding record_escalation_def
  by (rule sla.statement) (simp add: sla_frame_def stripped_def)

lemma sla_enqueue: "obeys (sla_frame ids) (enqueue n)"
  unfolding enqueue_def by (intro sla.store_rules) (simp add: sla_frame_def stripped_def)

lemma sla_escalate: "obeys (sla_frame ids) (escalate now row state level days)"
  unfolding escalate_def by (intro preserves_rules sla.store_rules sla_record sla_enqueue)

lemma sla_one: "st_id row \<in> ids \<Longrightarrow> obeys (sla_frame ids) (update_one_sla now today row)"
  unfolding update_one_sla_def Let_def
  by (intro preserves_rules sla.store_rules sla_update sla_escalate)

lemma sla_rows: "st_id ` set rows \<subseteq> ids \<Longrightarrow> obeys (sla_frame ids) (forA rows (update_one_sla now today))"
  by (rule forA_obeys) (auto intro: sla.frame_axioms sla_one)

subsection \<open>A tick settles its tasks\<close>

definition settled :: "day \<Rightarrow> world \<Rightarrow> row_id \<Rightarrow> day \<Rightarrow> bool" where
  "settled today w i deadline \<longleftrightarrow>
     (case sla_target (deadline - today) of (state, level) \<Rightarrow>
        fst (sd_sla (w_side w) i) = Some (sla_as_code state) \<and> level \<le> snd (sd_sla (w_side w) i))"

definition fresh_row :: "world \<Rightarrow> sla_task_row \<Rightarrow> bool" where
  "fresh_row w row \<longleftrightarrow>
     sd_sla (w_side w) (st_id row) = (st_current_sla_state row, st_sla_last_level row)"

lemma settled_frame:
  "sla_frame ids w w' \<Longrightarrow> i \<notin> ids \<Longrightarrow> settled today w' i d = settled today w i d"
  by (simp add: settled_def sla_frame_def)

lemma fresh_row_frame: "sla_frame ids w w' \<Longrightarrow> st_id row \<notin> ids \<Longrightarrow> fresh_row w' row = fresh_row w row"
  by (simp add: fresh_row_def sla_frame_def)

lemma skip_when_settled:
  "fresh_row w row \<Longrightarrow>
     settled today w (st_id row) (st_deadline row) \<Longrightarrow> update_one_sla now today row = ret ()"
  by (auto simp: settled_def fresh_row_def update_one_sla_def Let_def split: prod.splits)

lemma update_sla_state_Inr:
  "update_sla_state i code level now w = (Inr u, w') \<Longrightarrow> sd_sla (w_side w') i = (Some code, level)"
  by (auto simp: update_sla_state_def execute_def statement_Inr)

lemma one_settles:
  assumes run: "update_one_sla now today row w = (Inr u, w')" and fresh: "fresh_row w row"
  shows "settled today w' (st_id row) (st_deadline row)"
proof -
  let ?days = "st_deadline row - today"
  obtain state level where t: "sla_target ?days = (state, level)" by (cases "sla_target ?days")
  show ?thesis
  proof (cases "st_current_sla_state row = Some (sla_as_code state) \<and> st_sla_last_level row \<ge> level")
    case True
    then have "w' = w" using run t by (simp add: update_one_sla_def Let_def)
    with True fresh t show ?thesis by (simp add: settled_def fresh_row_def)
  next
    case False
    then obtain w1 where w1: "update_sla_state (st_id row) (sla_as_code state) level now w = (Inr (), w1)"
      and rest: "(if level \<le> st_sla_last_level row \<or> level = 0 then ret ()
         else escalate now row state level ?days) w1 = (Inr u, w')"
      using run t by (auto simp: update_one_sla_def Let_def tryA_eq_Inr)
    have "obeys (sla_frame {}) (if level \<le> st_sla_last_level row \<or> level = 0 then ret ()
         else escalate now row state level ?days)"
      by (intro preserves_rules sla.ret sla_escalate)
    from obeysD[OF this rest] have "sd_sla (w_side w') (st_id row) = sd_sla (w_side w1) (st_id row)"
      by (simp add: sla_frame_def)
    with update_sla_state_Inr[OF w1] show ?thesis by (simp add: settled_def t)
  qed
qed

lemma rows_settle:
  "\<lbrakk>forA rows (update_one_sla now today) w = (Inr u, w'); distinct (map st_id rows);
    \<forall>row \<in> set rows. fresh_row w row; row \<in> set rows\<rbrakk>
    \<Longrightarrow> settled today w' (st_id row) (st_deadline row)"
proof (induction rows arbitrary: w)
  case (Cons a rows)
  obtain w1 where a: "update_one_sla now today a w = (Inr (), w1)"
    and rest: "forA rows (update_one_sla now today) w1 = (Inr u, w')"
    using Cons.prems(1) by (auto simp: tryA_eq_Inr)
  have first_frame: "sla_frame {st_id a} w w1" by (rule obeysD[OF sla_one a]) simp
  have rest_frame: "sla_frame (st_id ` set rows) w1 w'" by (rule obeysD[OF sla_rows rest]) simp
  have "st_id a \<notin> st_id ` set rows" using Cons.prems(2) by simp
  then have "settled today w' (st_id a) (st_deadline a)"
    using one_settles[OF a] Cons.prems(3) settled_frame[OF rest_frame] by simp
  moreover have "\<forall>r \<in> set rows. fresh_row w1 r"
  proof
    fix r assume "r \<in> set rows"
    then have "st_id r \<in> st_id ` set rows" by (rule imageI)
    moreover have "st_id a \<notin> st_id ` set rows" using Cons.prems(2) by simp
    ultimately have "st_id r \<notin> {st_id a}" by (metis singletonD)
    moreover have "fresh_row w r" using Cons.prems(3) \<open>r \<in> set rows\<close> by simp
    ultimately show "fresh_row w1 r" using fresh_row_frame[OF first_frame] by simp
  qed
  ultimately show ?case
    using Cons.IH[OF rest] Cons.prems(2,4) by auto
qed simp

subsection \<open>The rows of two ticks\<close>

lemma insort_key_map: "insort_key f (g x) (map g xs) = map g (insort_key (\<lambda>x. f (g x)) x xs)"
  by (induction xs) simp_all

lemma sort_key_map: "sort_key f (map g xs) = map g (sort_key (\<lambda>x. f (g x)) xs)"
  by (induction xs) (simp_all add: insort_key_map)

definition due_tasks :: "nat \<Rightarrow> world \<Rightarrow> task list" where
  "due_tasks limit w = take limit (sort_key (\<lambda>t. the (t_deadline t)) (filter tracked (w_tasks w)))"

lemma tracked_strip [simp]: "tracked (t\<lparr> t_updated_at := at \<rparr>) = tracked t"
  by (simp add: tracked_def)

lemma due_tasks_stripped:
  "map (\<lambda>t. t\<lparr> t_updated_at := 0 \<rparr>) (due_tasks limit w) =
     take limit (sort_key (\<lambda>t. the (t_deadline t)) (filter tracked (stripped w)))"
  by (simp add: due_tasks_def stripped_def sort_key_map filter_map take_map comp_def)

lemma due_tasks_frame:
  assumes "stripped w' = stripped w"
  shows "map (\<lambda>t. (the (t_id t), the (t_deadline t))) (due_tasks limit w') =
         map (\<lambda>t. (the (t_id t), the (t_deadline t))) (due_tasks limit w)"
proof -
  let ?strip = "\<lambda>t :: task. t\<lparr> t_updated_at := 0 \<rparr>" and ?key = "\<lambda>t. (the (t_id t), the (t_deadline t))"
  have "map ?strip (due_tasks limit w') = map ?strip (due_tasks limit w)"
    by (simp add: due_tasks_stripped assms)
  then have "map ?key (map ?strip (due_tasks limit w')) = map ?key (map ?strip (due_tasks limit w))"
    by simp
  then show ?thesis by (simp add: comp_def)
qed

lemma list_active_Inr:
  "list_active_with_deadline limit w = (Inr rows, w') \<Longrightarrow>
     rows = map (sla_row w) (due_tasks limit w) \<and> same_tables w w' \<and> w_side w' = w_side w"
  by (auto simp: list_active_with_deadline_def select_Inr same_tables_def due_tasks_def sla_row_def)

lemma due_tasks_distinct:
  assumes "tasks_ok w"
  shows "distinct (map (\<lambda>t. the (t_id t)) (due_tasks limit w))"
proof -
  have "inj_on (\<lambda>t. the (t_id t)) (set (w_tasks w))"
  proof (rule inj_onI)
    fix x y assume xy: "x \<in> set (w_tasks w)" "y \<in> set (w_tasks w)" "the (t_id x) = the (t_id y)"
    then have "t_id x \<noteq> None" "t_id y \<noteq> None" using assms by (simp_all add: tasks_ok_def)
    then have "t_id x = t_id y" using xy(3) by auto
    with xy show "x = y" using assms by (auto simp: tasks_ok_def distinct_map inj_on_def)
  qed
  moreover have "distinct (w_tasks w)" using assms by (auto simp: tasks_ok_def distinct_map)
  moreover have "set (due_tasks limit w) \<subseteq> set (w_tasks w)"
    by (auto simp: due_tasks_def dest: in_set_takeD)
  moreover have "distinct (due_tasks limit w)"
    using \<open>distinct (w_tasks w)\<close> by (simp add: due_tasks_def distinct_take)
  ultimately show ?thesis
    unfolding distinct_map using inj_on_subset by blast
qed

lemma forA_ret: "(\<And>x. x \<in> set xs \<Longrightarrow> f x = ret ()) \<Longrightarrow> forA xs f = ret ()"
  by (induction xs) (simp_all add: tryA_ret)

lemma second_tick:
  assumes "flag_is_enabled (w_flags w) SlaEscalations"
    and skip: "\<And>now row. row \<in> set (map (sla_row w) (due_tasks 500 w)) \<Longrightarrow>
      update_one_sla now (date_of (env_clock (w_env w) (w_ticks w + 1))) row = ret ()"
  shows "same_tables w (snd (update_sla_states w))"
proof -
  define wt where "wt = w\<lparr> w_ticks := Suc (Suc (w_ticks w)) \<rparr>"
  let ?now = "env_clock (w_env w) (w_ticks w)"
  let ?today = "date_of (env_clock (w_env w) (w_ticks w + 1))"
  have tick: "update_sla_states w =
      tryA (list_active_with_deadline 500) (\<lambda>rows. forA rows (update_one_sla ?now ?today)) wt"
    using assms(1) by (simp add: update_sla_states_def tryA_def gets_def now_utc_def today_utc_def
        ret_def wt_def split: sum.split prod.split)
  have wt: "same_tables w wt" by (simp add: wt_def same_tables_def)
  obtain r wl where l: "list_active_with_deadline 500 wt = (r, wl)"
    by (cases "list_active_with_deadline 500 wt")
  have wl: "same_tables w wl"
    using obeysD[OF same_tables.select l[unfolded list_active_with_deadline_def]] wt
      same_tables.trans by blast
  show ?thesis
  proof (cases r)
    case (Inl e)
    then show ?thesis using wl by (simp add: tick tryA_def l)
  next
    case (Inr rows)
    then have "rows = map (sla_row wt) (due_tasks 500 wt)" using list_active_Inr l by blast
    moreover have "sla_row wt = sla_row w" "due_tasks 500 wt = due_tasks 500 w"
      by (simp_all add: wt_def due_tasks_def sla_row_def fun_eq_iff)
    ultimately have "rows = map (sla_row w) (due_tasks 500 w)" by simp
    then have "forA rows (update_one_sla ?now ?today) = ret ()"
      using skip by (intro forA_ret) blast
    then show ?thesis using wl Inr by (simp add: tick tryA_def l)
  qed
qed

text \<open>C36. The worker is idempotent within a day. After a tick that returned without an error, a
  further tick on the same day, whatever time it is and whatever the database does, changes no
  table: every task it lists already carries the state and the level of that day, so nothing is
  written, escalated or sent again.\<close>
theorem sla_tick_idempotent:
  assumes "tasks_ok w" and run: "update_sla_states w = (Inr (), w1)"
    and "date_of (env_clock (w_env w) (w_ticks w1 + 1)) = date_of (env_clock (w_env w) (w_ticks w + 1))"
  shows "same_tables w1 (snd (update_sla_states w1))"
proof (cases "flag_is_enabled (w_flags w) SlaEscalations")
  case False
  then have "w1 = w" using run by (simp add: update_sla_states_def tryA_def gets_def ret_def)
  with False show ?thesis
    by (simp add: update_sla_states_def tryA_def gets_def ret_def same_tables.refl)
next
  case True
  define today where "today = date_of (env_clock (w_env w) (w_ticks w + 1))"
  define wt where "wt = w\<lparr> w_ticks := Suc (Suc (w_ticks w)) \<rparr>"
  obtain rows wl where rows: "list_active_with_deadline 500 wt = (Inr rows, wl)"
    and loop: "forA rows (update_one_sla (env_clock (w_env w) (w_ticks w)) today) wl = (Inr (), w1)"
    using run True by (auto simp: update_sla_states_def tryA_eq_Inr today_def wt_def)
  have r: "rows = map (sla_row w) (due_tasks 500 w)" and side: "w_side wl = w_side w"
    and st: "same_tables w wl"
    using list_active_Inr[OF rows] by (auto simp: wt_def due_tasks_def sla_row_def same_tables_def)
  have "distinct (map st_id rows)"
    using due_tasks_distinct[OF assms(1), of 500] by (simp add: r comp_def sla_row_def Let_def)
  moreover have "\<forall>row \<in> set rows. fresh_row wl row"
    by (auto simp: r fresh_row_def side sla_row_def Let_def)
  ultimately have all: "settled today w1 (st_id row) (st_deadline row)" if "row \<in> set rows" for row
    using rows_settle[OF loop] that by blast
  have fr: "sla_frame (st_id ` set rows) wl w1" by (rule obeysD[OF sla_rows loop]) simp
  then have keys: "map (\<lambda>t. (the (t_id t), the (t_deadline t))) (due_tasks 500 w1) =
      map (\<lambda>t. (the (t_id t), the (t_deadline t))) (due_tasks 500 w)"
    using st by (intro due_tasks_frame) (auto simp: sla_frame_def stripped_def same_tables_def)
  have "settled today w1 (the (t_id t)) (the (t_deadline t))" if "t \<in> set (due_tasks 500 w1)" for t
  proof -
    have "(the (t_id t), the (t_deadline t)) \<in> set (map (\<lambda>t. (the (t_id t), the (t_deadline t))) (due_tasks 500 w))"
      using that unfolding keys[symmetric] by auto
    then obtain q where "q \<in> set (due_tasks 500 w)" "the (t_id q) = the (t_id t)"
      "the (t_deadline q) = the (t_deadline t)" by auto
    moreover from this(1) have "sla_row w q \<in> set rows" by (simp add: r)
    note all[OF this]
    ultimately show ?thesis by (simp add: sla_row_def Let_def)
  qed
  then have "fresh_row w1 row \<and> settled today w1 (st_id row) (st_deadline row)"
    if "row \<in> set (map (sla_row w1) (due_tasks 500 w1))" for row
    using that by (auto simp: fresh_row_def sla_row_def Let_def)
  then have skip: "update_one_sla now today row = ret ()"
    if "row \<in> set (map (sla_row w1) (due_tasks 500 w1))" for now row
    using that skip_when_settled by blast
  have env: "w_env w1 = w_env w" "w_flags w1 = w_flags w"
    using fr st by (auto simp: sla_frame_def same_tables_def)
  then have "date_of (env_clock (w_env w1) (w_ticks w1 + 1)) = today"
    using assms(3) by (simp add: today_def)
  with skip True env show ?thesis by (intro second_tick) simp_all
qed

definition sample_sla_world :: world where
  "sample_sla_world = sample_world\<lparr> w_flags := {SlaEscalations},
     w_tasks := [sample_task\<lparr> t_deadline := Some 0 \<rparr>] \<rparr>"

lemma sample_sla_task [simp]:
  "t_id (sample_task\<lparr> t_deadline := Some 0 \<rparr>) = Some 7"
  "t_deadline (sample_task\<lparr> t_deadline := Some 0 \<rparr>) = Some 0"
  "t_status (sample_task\<lparr> t_deadline := Some 0 \<rparr>) = Created"
  by simp_all

lemmas sla_run_simps =
  update_sla_states_def list_active_with_deadline_def run_simps gets_def today_utc_def
  flag_is_enabled_def tracked_def sla_row_def Let_def update_one_sla_def sla_target_def
  update_sla_state_def escalate_def record_escalation_def escalated_def has_id_def update_where_def
  sla_message_def enqueue_def dedupe_clash_def references_def pending_notification_def

lemma sample_tick:
  obtains w1 where "update_sla_states sample_sla_world = (Inr (), w1)" "w_ticks w1 = 7"
    "sd_escalations (w_side w1) \<noteq> []" "length (w_notifications w1) = 1"
proof -
  have due: "date_of 6 = 0" by (simp add: date_of_def ns_per_day_def ns_per_sec_def)
  show thesis
    by (rule that)
      (simp add: sla_run_simps sample_sla_world_def sample_env_def due no_side_tables_def)+
qed

theorem sla_tick_idempotent_witness:
  "\<exists>w1. update_sla_states sample_sla_world = (Inr (), w1) \<and> length (w_notifications w1) = 1
     \<and> same_tables w1 (snd (update_sla_states w1))"
proof -
  obtain w1 where run: "update_sla_states sample_sla_world = (Inr (), w1)" "w_ticks w1 = 7"
    and n: "length (w_notifications w1) = 1" by (rule sample_tick)
  have ok: "tasks_ok sample_sla_world" by (simp add: tasks_ok_def sample_sla_world_def)
  have "date_of 8 = date_of 6" by (simp add: date_of_def ns_per_day_def ns_per_sec_def)
  then have "same_tables w1 (snd (update_sla_states w1))"
    by (intro sla_tick_idempotent[OF ok run(1)])
      (simp add: run(2), simp add: sample_sla_world_def sample_env_def)
  with run n show ?thesis by blast
qed

text \<open>
  The columns are written before the escalation is recorded. When the database fails between the
  two statements, the next tick finds the level already written and the escalation is lost.
\<close>

theorem escalation_lost_after_failure:
  "\<exists>w1. update_sla_states (sample_sla_world\<lparr> w_faults := [None, None, Some []] \<rparr>)
       = (Inl (database_error []), w1)
     \<and> w_faults w1 = [] \<and> sd_escalations (w_side w1) = []
     \<and> sd_escalations (w_side (snd (update_sla_states w1))) = []
     \<and> w_notifications (snd (update_sla_states w1)) = []"
proof -
  have due: "date_of 6 = 0" "date_of 8 = 0"
    by (simp_all add: date_of_def ns_per_day_def ns_per_sec_def)
  show ?thesis
    by (simp add: sla_run_simps sample_sla_world_def sample_env_def due no_side_tables_def
        select_def execute_def statement_def)
qed

end
