(* ===== verification/Use_Case_Texts.thy ===== *)
theory Use_Case_Texts
  imports Base
begin

section \<open>Fixed texts of the interface\<close>

text \<open>
  The Russian string literals the modelled operations put into messages, notifications and
  prompts, as lists of Unicode scalar values, each with an English gloss. Their wording carries
  no logic; they are kept exact so that a message built by the model is the message the program
  sends.
\<close>

subsection \<open>Recurrence\<close>

text \<open>Automatic task from template, opening quote\<close>

definition txt_auto_task :: utext where
  "txt_auto_task =
   [1040, 1074, 1090, 1086, 1079, 1072, 1076, 1072, 1095, 1072, 32, 1080, 1079, 32, 1096,
    1072, 1073, 1083, 1086, 1085, 1072, 32, 171]"

text \<open>closing quote\<close>

definition txt_quote_end :: utext where
  "txt_quote_end =
   [187]"

lemmas recurrence_text_defs =
  txt_auto_task_def
  txt_quote_end_def

subsection \<open>Task cards\<close>

text \<open>Title (prefix)\<close>

definition txt_card_title :: utext where
  "txt_card_title =
   [1047, 1072, 1075, 1086, 1083, 1086, 1074, 1086, 1082, 58, 32]"

text \<open>Description, step by step\<close>

definition txt_card_steps :: utext where
  "txt_card_steps =
   [1054, 1087, 1080, 1089, 1072, 1085, 1080, 1077, 32, 40, 1087, 1086, 1096, 1072, 1075,
    1086, 1074, 1086, 41, 58]"

text \<open>Expected result (prefix)\<close>

definition txt_card_result :: utext where
  "txt_card_result =
   [1054, 1078, 1080, 1076, 1072, 1077, 1084, 1099, 1081, 32, 1088, 1077, 1079, 1091, 1083,
    1100, 1090, 1072, 1090, 58, 32]"

text \<open>Acceptance criteria\<close>

definition txt_card_criteria :: utext where
  "txt_card_criteria =
   [1050, 1088, 1080, 1090, 1077, 1088, 1080, 1080, 32, 1087, 1088, 1080, 1105, 1084, 1072,
    58]"

text \<open>Deadline (prefix)\<close>

definition txt_card_deadline :: utext where
  "txt_card_deadline =
   [1057, 1088, 1086, 1082, 32, 1074, 1099, 1087, 1086, 1083, 1085, 1077, 1085, 1080, 1103,
    58, 32]"

text \<open>No deadline is given\<close>

definition txt_card_no_deadline :: utext where
  "txt_card_no_deadline =
   [1057, 1088, 1086, 1082, 32, 1085, 1077, 32, 1091, 1082, 1072, 1079, 1072, 1085]"

text \<open>ellipsis\<close>

definition txt_ellipsis :: utext where
  "txt_ellipsis =
   [8230]"

lemmas card_text_defs =
  txt_card_title_def
  txt_card_steps_def
  txt_card_result_def
  txt_card_criteria_def
  txt_card_deadline_def
  txt_card_no_deadline_def
  txt_ellipsis_def

subsection \<open>Registration\<close>

text \<open>Found several employees you resemble; choose yourself explicitly\<close>

definition txt_registration_ambiguous :: utext where
  "txt_registration_ambiguous =
   [1053, 1072, 1096, 1105, 1083, 32, 1085, 1077, 1089, 1082, 1086, 1083, 1100, 1082, 1086,
    32, 1089, 1086, 1090, 1088, 1091, 1076, 1085, 1080, 1082, 1086, 1074, 44, 32, 1085,
    1072, 32, 1082, 1086, 1090, 1086, 1088, 1099, 1093, 32, 1074, 1099, 32, 1087, 1086,
    1093, 1086, 1078, 1080, 46, 32, 1042, 1099, 1073, 1077, 1088, 1080, 1090, 1077, 32,
    1089, 1077, 1073, 1103, 32, 1103, 1074, 1085, 1086, 44, 32, 1095, 1090, 1086, 1073,
    1099, 32, 1079, 1072, 1076, 1072, 1095, 1080, 32, 1085, 1077, 32, 1091, 1096, 1083,
    1080, 32, 1085, 1077, 32, 1090, 1086, 1084, 1091, 32, 1095, 1077, 1083, 1086, 1074,
    1077, 1082, 1091, 46]"

text \<open>Choose yourself from the list of employees\<close>

definition txt_choose_yourself :: utext where
  "txt_choose_yourself =
   [1042, 1099, 1073, 1077, 1088, 1080, 1090, 1077, 32, 1089, 1077, 1073, 1103, 32, 1080,
    1079, 32, 1089, 1087, 1080, 1089, 1082, 1072, 32, 1089, 1086, 1090, 1088, 1091, 1076,
    1085, 1080, 1082, 1086, 1074]"

text \<open>We found you in the directory, confirm to finish\<close>

definition txt_found_you :: utext where
  "txt_found_you =
   [1052, 1099, 32, 1085, 1072, 1096, 1083, 1080, 32, 1074, 1072, 1089, 32, 1074, 32, 1089,
    1087, 1088, 1072, 1074, 1086, 1095, 1085, 1080, 1082, 1077, 32, 1089, 1086, 1090, 1088,
    1091, 1076, 1085, 1080, 1082, 1086, 1074, 32, 8212, 32, 1087, 1086, 1076, 1090, 1074,
    1077, 1088, 1076, 1080, 1090, 1077, 44, 32, 1095, 1090, 1086, 1073, 1099, 32, 1079,
    1072, 1082, 1086, 1085, 1095, 1080, 1090, 1100, 46]"

lemmas registration_text_defs =
  txt_registration_ambiguous_def
  txt_choose_yourself_def
  txt_found_you_def

subsection \<open>Assignees\<close>

text \<open>This username is not among the registered users; ask the colleague to open the bot\<close>

definition txt_unknown_username :: utext where
  "txt_unknown_username =
   [1053, 1077, 32, 1074, 1080, 1078, 1091, 32, 1101, 1090, 1086, 1075, 1086, 32, 64, 117,
    115, 101, 114, 110, 97, 109, 101, 32, 1089, 1088, 1077, 1076, 1080, 32, 1079, 1072,
    1088, 1077, 1075, 1080, 1089, 1090, 1088, 1080, 1088, 1086, 1074, 1072, 1085, 1085,
    1099, 1093, 32, 1087, 1086, 1083, 1100, 1079, 1086, 1074, 1072, 1090, 1077, 1083, 1077,
    1081, 46, 32, 1055, 1086, 1087, 1088, 1086, 1089, 1080, 1090, 1077, 32, 1082, 1086,
    1083, 1083, 1077, 1075, 1091, 32, 1086, 1090, 1082, 1088, 1099, 1090, 1100, 32, 1073,
    1086, 1090, 1072, 32, 1095, 1077, 1088, 1077, 1079, 32, 47, 115, 116, 97, 114, 116, 32,
    1080, 1083, 1080, 32, 1074, 1099, 1073, 1077, 1088, 1080, 1090, 1077, 32, 1085, 1091,
    1078, 1085, 1086, 1075, 1086, 32, 1089, 1086, 1090, 1088, 1091, 1076, 1085, 1080, 1082,
    1072, 32, 1085, 1080, 1078, 1077, 46]"

text \<open>Found similar employees, cannot assign safely, choose explicitly\<close>

definition txt_similar_full_names :: utext where
  "txt_similar_full_names =
   [1053, 1072, 1096, 1105, 1083, 32, 1087, 1086, 1093, 1086, 1078, 1080, 1093, 32, 1089,
    1086, 1090, 1088, 1091, 1076, 1085, 1080, 1082, 1086, 1074, 44, 32, 1085, 1086, 32,
    1085, 1077, 32, 1084, 1086, 1075, 1091, 32, 1073, 1077, 1079, 1086, 1087, 1072, 1089,
    1085, 1086, 32, 1085, 1072, 1079, 1085, 1072, 1095, 1080, 1090, 1100, 32, 1079, 1072,
    1076, 1072, 1095, 1091, 32, 1072, 1074, 1090, 1086, 1084, 1072, 1090, 1080, 1095, 1077,
    1089, 1082, 1080, 46, 32, 1042, 1099, 1073, 1077, 1088, 1080, 1090, 1077, 32, 1087,
    1088, 1072, 1074, 1080, 1083, 1100, 1085, 1086, 1075, 1086, 32, 1095, 1077, 1083, 1086,
    1074, 1077, 1082, 1072, 32, 1103, 1074, 1085, 1086, 44, 32, 1095, 1090, 1086, 1073,
    1099, 32, 1079, 1072, 1076, 1072, 1095, 1072, 32, 1085, 1077, 32, 1091, 1096, 1083,
    1072, 32, 1085, 1077, 32, 1090, 1086, 1084, 1091, 46]"

text \<open>Several employees have this name, choose explicitly\<close>

definition txt_several_with_name :: utext where
  "txt_several_with_name =
   [1057, 32, 1101, 1090, 1080, 1084, 32, 1080, 1084, 1077, 1085, 1077, 1084, 32, 1077,
    1089, 1090, 1100, 32, 1085, 1077, 1089, 1082, 1086, 1083, 1100, 1082, 1086, 32, 1089,
    1086, 1090, 1088, 1091, 1076, 1085, 1080, 1082, 1086, 1074, 46, 32, 1042, 1099, 1073,
    1077, 1088, 1080, 1090, 1077, 32, 1090, 1086, 1095, 1085, 1086, 1075, 1086, 32, 1080,
    1089, 1087, 1086, 1083, 1085, 1080, 1090, 1077, 1083, 1103, 32, 1103, 1074, 1085, 1086,
    44, 32, 1095, 1090, 1086, 1073, 1099, 32, 1079, 1072, 1076, 1072, 1095, 1072, 32, 1085,
    1077, 32, 1091, 1096, 1083, 1072, 32, 1085, 1077, 32, 1090, 1086, 1084, 1091, 46]"

text \<open>You seem to have meant\<close>

definition txt_you_meant :: utext where
  "txt_you_meant =
   [1055, 1086, 1093, 1086, 1078, 1077, 44, 32, 1074, 1099, 32, 1080, 1084, 1077, 1083,
    1080, 32, 1074, 32, 1074, 1080, 1076, 1091, 32, 8212, 32]"

text \<open>Confirm if this is the right assignee or choose another\<close>

definition txt_confirm_assignee :: utext where
  "txt_confirm_assignee =
   [46, 32, 1055, 1086, 1076, 1090, 1074, 1077, 1088, 1076, 1080, 1090, 1077, 44, 32, 1077,
    1089, 1083, 1080, 32, 1101, 1090, 1086, 32, 1087, 1088, 1072, 1074, 1080, 1083, 1100,
    1085, 1099, 1081, 32, 1080, 1089, 1087, 1086, 1083, 1085, 1080, 1090, 1077, 1083, 1100,
    44, 32, 1080, 1083, 1080, 32, 1074, 1099, 1073, 1077, 1088, 1080, 1090, 1077, 32, 1076,
    1088, 1091, 1075, 1086, 1075, 1086, 32, 1095, 1077, 1083, 1086, 1074, 1077, 1082, 1072,
    46]"

text \<open>Cannot match this full name safely\<close>

definition txt_no_full_name_match :: utext where
  "txt_no_full_name_match =
   [1053, 1077, 32, 1084, 1086, 1075, 1091, 32, 1073, 1077, 1079, 1086, 1087, 1072, 1089,
    1085, 1086, 32, 1089, 1086, 1087, 1086, 1089, 1090, 1072, 1074, 1080, 1090, 1100, 32,
    1101, 1090, 1086, 32, 1087, 1086, 1083, 1085, 1086, 1077, 32, 1080, 1084, 1103, 46, 32,
    1055, 1088, 1086, 1074, 1077, 1088, 1100, 1090, 1077, 32, 1085, 1072, 1087, 1080, 1089,
    1072, 1085, 1080, 1077, 44, 32, 1074, 1099, 1073, 1077, 1088, 1080, 1090, 1077, 32,
    1087, 1086, 1076, 1093, 1086, 1076, 1103, 1097, 1077, 1075, 1086, 32, 1089, 1086, 1090,
    1088, 1091, 1076, 1085, 1080, 1082, 1072, 32, 1080, 1083, 1080, 32, 1089, 1086, 1079,
    1076, 1072, 1081, 1090, 1077, 32, 1079, 1072, 1076, 1072, 1095, 1091, 32, 1073, 1077,
    1079, 32, 1080, 1089, 1087, 1086, 1083, 1085, 1080, 1090, 1077, 1083, 1103, 46]"

text \<open>Cannot determine the assignee safely\<close>

definition txt_no_name_match :: utext where
  "txt_no_name_match =
   [1053, 1077, 32, 1084, 1086, 1075, 1091, 32, 1073, 1077, 1079, 1086, 1087, 1072, 1089,
    1085, 1086, 32, 1086, 1087, 1088, 1077, 1076, 1077, 1083, 1080, 1090, 1100, 32, 1080,
    1089, 1087, 1086, 1083, 1085, 1080, 1090, 1077, 1083, 1103, 46, 32, 1059, 1082, 1072,
    1078, 1080, 1090, 1077, 32, 64, 117, 115, 101, 114, 110, 97, 109, 101, 32, 1080, 1083,
    1080, 32, 1090, 1086, 1095, 1085, 1086, 1077, 32, 1087, 1086, 1083, 1085, 1086, 1077,
    32, 1080, 1084, 1103, 44, 32, 1083, 1080, 1073, 1086, 32, 1089, 1086, 1079, 1076, 1072,
    1081, 1090, 1077, 32, 1079, 1072, 1076, 1072, 1095, 1091, 32, 1073, 1077, 1079, 32,
    1080, 1089, 1087, 1086, 1083, 1085, 1080, 1090, 1077, 1083, 1103, 46]"

lemmas assignee_text_defs =
  txt_unknown_username_def
  txt_similar_full_names_def
  txt_several_with_name_def
  txt_you_meant_def
  txt_confirm_assignee_def
  txt_no_full_name_match_def
  txt_no_name_match_def

subsection \<open>Requests\<close>

text \<open>one or two capitalised words and a comma\<close>

definition ASSIGNEE_REGEX :: utext where
  "ASSIGNEE_REGEX =
   [94, 40, 63, 80, 60, 110, 97, 109, 101, 62, 91, 1040, 45, 1071, 1025, 65, 45, 90, 93, 91,
    1040, 45, 1071, 1025, 65, 45, 90, 1072, 45, 1103, 1105, 97, 45, 122, 93, 43, 40, 63, 58,
    92, 115, 43, 91, 1040, 45, 1071, 1025, 65, 45, 90, 93, 91, 1040, 45, 1071, 1025, 65, 45,
    90, 1072, 45, 1103, 1105, 97, 45, 122, 93, 43, 41, 63, 41, 92, 115, 42, 44, 92, 115, 42]"

text \<open>a username with an at sign, then a comma or white space\<close>

definition ASSIGNEE_USERNAME_REGEX :: utext where
  "ASSIGNEE_USERNAME_REGEX =
   [94, 64, 40, 63, 80, 60, 117, 115, 101, 114, 110, 97, 109, 101, 62, 91, 65, 45, 90, 97,
    45, 122, 48, 45, 57, 95, 93, 123, 53, 44, 51, 50, 125, 41, 40, 63, 58, 92, 115, 42, 44,
    92, 115, 42, 124, 92, 115, 43, 41]"

text \<open>without an assignee\<close>

definition NO_ASSIGNEE_REGEX :: utext where
  "NO_ASSIGNEE_REGEX =
   [40, 63, 105, 41, 92, 98, 40, 1073, 1077, 1079, 32, 1080, 1089, 1087, 1086, 1083, 1085,
    1080, 1090, 1077, 1083, 1103, 124, 1073, 1077, 1079, 32, 1085, 1072, 1079, 1085, 1072,
    1095, 1077, 1085, 1080, 1103, 124, 110, 111, 32, 97, 115, 115, 105, 103, 110, 101, 101,
    41, 92, 98]"

text \<open>by day, month and perhaps year\<close>

definition ABSOLUTE_DEADLINE_REGEX :: utext where
  "ABSOLUTE_DEADLINE_REGEX =
   [40, 63, 105, 41, 92, 98, 40, 63, 58, 1076, 1086, 124, 1082, 41, 92, 115, 43, 40, 63, 80,
    60, 100, 97, 121, 62, 92, 100, 123, 49, 44, 50, 125, 41, 91, 46, 47, 93, 40, 63, 80, 60,
    109, 111, 110, 116, 104, 62, 92, 100, 123, 49, 44, 50, 125, 41, 40, 63, 58, 91, 46, 47,
    93, 40, 63, 80, 60, 121, 101, 97, 114, 62, 92, 100, 123, 52, 125, 41, 41, 63]"

text \<open>today, tomorrow, the day after tomorrow, urgently\<close>

definition RELATIVE_DEADLINE_REGEX :: utext where
  "RELATIVE_DEADLINE_REGEX =
   [40, 63, 105, 41, 92, 98, 40, 63, 80, 60, 114, 97, 119, 62, 1089, 1077, 1075, 1086, 1076,
    1085, 1103, 124, 1079, 1072, 1074, 1090, 1088, 1072, 124, 1087, 1086, 1089, 1083, 1077,
    1079, 1072, 1074, 1090, 1088, 1072, 124, 1089, 1088, 1086, 1095, 1085, 1086, 41, 92, 98]"

text \<open>in a number of days or hours\<close>

definition IN_PERIOD_REGEX :: utext where
  "IN_PERIOD_REGEX =
   [40, 63, 105, 41, 92, 98, 1095, 1077, 1088, 1077, 1079, 92, 115, 43, 40, 63, 80, 60, 118,
    97, 108, 117, 101, 62, 92, 100, 43, 41, 92, 115, 43, 40, 63, 80, 60, 117, 110, 105, 116,
    62, 1076, 1085, 40, 63, 58, 1077, 1081, 124, 1103, 41, 63, 124, 1095, 1072, 1089, 40,
    63, 58, 1086, 1074, 124, 1072, 41, 63, 41, 92, 98]"

text \<open>by a weekday\<close>

definition WEEKDAY_REGEX :: utext where
  "WEEKDAY_REGEX =
   [40, 63, 105, 41, 92, 98, 40, 63, 58, 1076, 1086, 124, 1082, 41, 63, 92, 115, 42, 40, 63,
    80, 60, 114, 97, 119, 62, 1087, 1086, 1085, 1077, 1076, 1077, 1083, 1100, 1085, 1080,
    1082, 40, 63, 58, 1072, 124, 1091, 41, 63, 124, 1074, 1090, 1086, 1088, 1085, 1080,
    1082, 40, 63, 58, 1072, 124, 1091, 41, 63, 124, 1089, 1088, 1077, 1076, 91, 1072, 1077,
    1099, 1091, 93, 124, 1095, 1077, 1090, 1074, 1077, 1088, 1075, 40, 63, 58, 1072, 124,
    1091, 41, 63, 124, 1087, 1103, 1090, 1085, 1080, 1094, 91, 1072, 1077, 1099, 93, 124,
    1089, 1091, 1073, 1073, 1086, 1090, 91, 1072, 1077, 1099, 1091, 93, 124, 1074, 1086,
    1089, 1082, 1088, 1077, 1089, 1077, 1085, 1100, 91, 1077, 1103, 1102, 93, 41, 92, 98]"

text \<open>white space\<close>

definition WHITESPACE_REGEX :: utext where
  "WHITESPACE_REGEX =
   [92, 115, 43]"

text \<open>today\<close>

definition txt_today :: utext where
  "txt_today =
   [1089, 1077, 1075, 1086, 1076, 1085, 1103]"

text \<open>urgently\<close>

definition txt_urgently :: utext where
  "txt_urgently =
   [1089, 1088, 1086, 1095, 1085, 1086]"

text \<open>tomorrow\<close>

definition txt_tomorrow :: utext where
  "txt_tomorrow =
   [1079, 1072, 1074, 1090, 1088, 1072]"

text \<open>the day after tomorrow\<close>

definition txt_after_tomorrow :: utext where
  "txt_after_tomorrow =
   [1087, 1086, 1089, 1083, 1077, 1079, 1072, 1074, 1090, 1088, 1072]"

text \<open>stem of days\<close>

definition txt_days_stem :: utext where
  "txt_days_stem =
   [1076, 1085]"

text \<open>in (before a period)\<close>

definition txt_in :: utext where
  "txt_in =
   [1095, 1077, 1088, 1077, 1079]"

text \<open>Monday\<close>

definition txt_monday :: utext where
  "txt_monday =
   [1087, 1086, 1085, 1077, 1076, 1077, 1083, 1100, 1085, 1080, 1082]"

text \<open>Tuesday\<close>

definition txt_tuesday :: utext where
  "txt_tuesday =
   [1074, 1090, 1086, 1088, 1085, 1080, 1082]"

text \<open>stem of Wednesday\<close>

definition txt_wednesday :: utext where
  "txt_wednesday =
   [1089, 1088, 1077, 1076]"

text \<open>Thursday\<close>

definition txt_thursday :: utext where
  "txt_thursday =
   [1095, 1077, 1090, 1074, 1077, 1088, 1075]"

text \<open>stem of Friday\<close>

definition txt_friday :: utext where
  "txt_friday =
   [1087, 1103, 1090, 1085, 1080, 1094]"

text \<open>stem of Saturday\<close>

definition txt_saturday :: utext where
  "txt_saturday =
   [1089, 1091, 1073, 1073, 1086, 1090]"

text \<open>stem of Sunday\<close>

definition txt_sunday :: utext where
  "txt_sunday =
   [1074, 1086, 1089, 1082, 1088, 1077, 1089, 1077, 1085, 1100]"

lemmas parsing_text_defs =
  ASSIGNEE_REGEX_def
  ASSIGNEE_USERNAME_REGEX_def
  NO_ASSIGNEE_REGEX_def
  ABSOLUTE_DEADLINE_REGEX_def
  RELATIVE_DEADLINE_REGEX_def
  IN_PERIOD_REGEX_def
  WEEKDAY_REGEX_def
  WHITESPACE_REGEX_def
  txt_today_def
  txt_urgently_def
  txt_tomorrow_def
  txt_after_tomorrow_def
  txt_days_stem_def
  txt_in_def
  txt_monday_def
  txt_tuesday_def
  txt_wednesday_def
  txt_thursday_def
  txt_friday_def
  txt_saturday_def
  txt_sunday_def

subsection \<open>Task creation\<close>

text \<open>The assignee already got a notification\<close>

definition txt_hint_delivered :: utext where
  "txt_hint_delivered =
   [1048, 1089, 1087, 1086, 1083, 1085, 1080, 1090, 1077, 1083, 1102, 32, 1091, 1078, 1077,
    32, 1076, 1086, 1089, 1090, 1072, 1074, 1083, 1077, 1085, 1086, 32, 1091, 1074, 1077,
    1076, 1086, 1084, 1083, 1077, 1085, 1080, 1077, 46]"

text \<open>The notification is queued\<close>

definition txt_hint_pending :: utext where
  "txt_hint_pending =
   [1059, 1074, 1077, 1076, 1086, 1084, 1083, 1077, 1085, 1080, 1077, 32, 1087, 1086, 1089,
    1090, 1072, 1074, 1083, 1077, 1085, 1086, 32, 1074, 32, 1086, 1095, 1077, 1088, 1077,
    1076, 1100, 32, 1085, 1072, 32, 1086, 1090, 1087, 1088, 1072, 1074, 1082, 1091, 32,
    1080, 1089, 1087, 1086, 1083, 1085, 1080, 1090, 1077, 1083, 1102, 46]"

text \<open>The assignee has not started the bot yet\<close>

definition txt_hint_registration :: utext where
  "txt_hint_registration =
   [1048, 1089, 1087, 1086, 1083, 1085, 1080, 1090, 1077, 1083, 1100, 32, 1085, 1072, 1081,
    1076, 1077, 1085, 44, 32, 1085, 1086, 32, 1077, 1097, 1105, 32, 1085, 1077, 32, 1079,
    1072, 1087, 1091, 1089, 1082, 1072, 1083, 32, 1073, 1086, 1090, 1072, 46, 32, 1055,
    1086, 1089, 1083, 1077, 32, 47, 115, 116, 97, 114, 116, 32, 1091, 1074, 1077, 1076,
    1086, 1084, 1083, 1077, 1085, 1080, 1103, 32, 1085, 1072, 1095, 1085, 1091, 1090, 32,
    1087, 1088, 1080, 1093, 1086, 1076, 1080, 1090, 1100, 32, 1085, 1072, 1087, 1088, 1103,
    1084, 1091, 1102, 46]"

text \<open>Delivery failed for now and will be retried\<close>

definition txt_hint_retry :: utext where
  "txt_hint_retry =
   [1044, 1086, 1089, 1090, 1072, 1074, 1082, 1072, 32, 1074, 1088, 1077, 1084, 1077, 1085,
    1085, 1086, 32, 1085, 1077, 32, 1091, 1076, 1072, 1083, 1072, 1089, 1100, 46, 32, 1041,
    1086, 1090, 32, 1087, 1086, 1087, 1088, 1086, 1073, 1091, 1077, 1090, 32, 1086, 1090,
    1087, 1088, 1072, 1074, 1080, 1090, 1100, 32, 1091, 1074, 1077, 1076, 1086, 1084, 1083,
    1077, 1085, 1080, 1077, 32, 1087, 1086, 1074, 1090, 1086, 1088, 1085, 1086, 46]"

text \<open>Created, but the notification could not be delivered\<close>

definition txt_hint_failed :: utext where
  "txt_hint_failed =
   [1047, 1072, 1076, 1072, 1095, 1072, 32, 1089, 1086, 1079, 1076, 1072, 1085, 1072, 44,
    32, 1085, 1086, 32, 1076, 1086, 1089, 1090, 1072, 1074, 1080, 1090, 1100, 32, 1091,
    1074, 1077, 1076, 1086, 1084, 1083, 1077, 1085, 1080, 1077, 32, 1080, 1089, 1087, 1086,
    1083, 1085, 1080, 1090, 1077, 1083, 1102, 32, 1087, 1086, 1082, 1072, 32, 1085, 1077,
    32, 1087, 1086, 1083, 1091, 1095, 1080, 1083, 1086, 1089, 1100, 46]"

text \<open>Created without delivery to an assignee\<close>

definition txt_hint_creator_only :: utext where
  "txt_hint_creator_only =
   [1047, 1072, 1076, 1072, 1095, 1072, 32, 1089, 1086, 1079, 1076, 1072, 1085, 1072, 32,
    1073, 1077, 1079, 32, 1087, 1088, 1103, 1084, 1086, 1081, 32, 1076, 1086, 1089, 1090,
    1072, 1074, 1082, 1080, 32, 1080, 1089, 1087, 1086, 1083, 1085, 1080, 1090, 1077, 1083,
    1102, 46]"

text \<open>The task is saved; identifier (prefix)\<close>

definition txt_task_saved :: utext where
  "txt_task_saved =
   [1047, 1072, 1076, 1072, 1095, 1072, 32, 1089, 1086, 1093, 1088, 1072, 1085, 1077, 1085,
    1072, 46, 10, 73, 68, 58, 32]"

text \<open>Status, on a new line\<close>

definition txt_status_line :: utext where
  "txt_status_line =
   [10, 1057, 1090, 1072, 1090, 1091, 1089, 58, 32]"

text \<open>This message was processed before; no duplicate; identifier (prefix)\<close>

definition txt_duplicate :: utext where
  "txt_duplicate =
   [1055, 1086, 1093, 1086, 1078, 1077, 44, 32, 1101, 1090, 1086, 32, 1089, 1086, 1086,
    1073, 1097, 1077, 1085, 1080, 1077, 32, 1091, 1078, 1077, 32, 1073, 1099, 1083, 1086,
    32, 1086, 1073, 1088, 1072, 1073, 1086, 1090, 1072, 1085, 1086, 32, 1088, 1072, 1085,
    1100, 1096, 1077, 46, 32, 1044, 1091, 1073, 1083, 1080, 1082, 1072, 1090, 32, 1085,
    1077, 32, 1089, 1086, 1079, 1076, 1072, 1085, 44, 32, 1086, 1090, 1082, 1088, 1099,
    1074, 1072, 1081, 1090, 1077, 32, 1089, 1091, 1097, 1077, 1089, 1090, 1074, 1091, 1102,
    1097, 1091, 1102, 32, 1082, 1072, 1088, 1090, 1086, 1095, 1082, 1091, 46, 10, 10, 73,
    68, 58, 32]"

lemmas create_text_defs =
  txt_hint_delivered_def
  txt_hint_pending_def
  txt_hint_registration_def
  txt_hint_retry_def
  txt_hint_failed_def
  txt_hint_creator_only_def
  txt_task_saved_def
  txt_status_line_def
  txt_duplicate_def

subsection \<open>Lists\<close>

text \<open>Overdue\<close>

definition txt_sec_overdue :: utext where
  "txt_sec_overdue =
   [128293, 32, 1055, 1088, 1086, 1089, 1088, 1086, 1095, 1077, 1085, 1086]"

text \<open>Waits for review\<close>

definition txt_sec_waits_review :: utext where
  "txt_sec_waits_review =
   [129514, 32, 1046, 1076, 1105, 1090, 32, 1087, 1088, 1086, 1074, 1077, 1088, 1082, 1080]"

text \<open>Has blockers\<close>

definition txt_sec_blockers :: utext where
  "txt_sec_blockers =
   [128679, 32, 1045, 1089, 1090, 1100, 32, 1073, 1083, 1086, 1082, 1077, 1088, 1099]"

text \<open>For today\<close>

definition txt_sec_today :: utext where
  "txt_sec_today =
   [9200, 32, 1053, 1072, 32, 1089, 1077, 1075, 1086, 1076, 1085, 1103]"

text \<open>New\<close>

definition txt_sec_new :: utext where
  "txt_sec_new =
   [128229, 32, 1053, 1086, 1074, 1099, 1077]"

text \<open>In progress\<close>

definition txt_sec_in_progress :: utext where
  "txt_sec_in_progress =
   [9654, 65039, 32, 1042, 32, 1088, 1072, 1073, 1086, 1090, 1077]"

text \<open>Completed\<close>

definition txt_sec_completed :: utext where
  "txt_sec_completed =
   [9989, 32, 1047, 1072, 1074, 1077, 1088, 1096, 1077, 1085, 1086]"

text \<open>Cancelled\<close>

definition txt_sec_cancelled :: utext where
  "txt_sec_cancelled =
   [9940, 32, 1054, 1090, 1084, 1077, 1085, 1077, 1085, 1086]"

text \<open>Needs attention\<close>

definition txt_sec_attention :: utext where
  "txt_sec_attention =
   [9888, 65039, 32, 1058, 1088, 1077, 1073, 1091, 1077, 1090, 32, 1074, 1085, 1080, 1084,
    1072, 1085, 1080, 1103]"

text \<open>In review\<close>

definition txt_sec_review :: utext where
  "txt_sec_review =
   [129514, 32, 1053, 1072, 32, 1087, 1088, 1086, 1074, 1077, 1088, 1082, 1077]"

text \<open>Urgent now\<close>

definition txt_sec_urgent :: utext where
  "txt_sec_urgent =
   [128293, 32, 1043, 1086, 1088, 1080, 1090, 32, 1089, 1077, 1081, 1095, 1072, 1089]"

text \<open>Waits for my action\<close>

definition txt_sec_my_action :: utext where
  "txt_sec_my_action =
   [129517, 32, 1046, 1076, 1105, 1090, 32, 1084, 1086, 1077, 1075, 1086, 32, 1076, 1077,
    1081, 1089, 1090, 1074, 1080, 1103]"

text \<open>Blocked\<close>

definition txt_sec_blocked :: utext where
  "txt_sec_blocked =
   [128679, 32, 1047, 1072, 1073, 1083, 1086, 1082, 1080, 1088, 1086, 1074, 1072, 1085, 1086]"

text \<open>The rest in progress\<close>

definition txt_sec_rest :: utext where
  "txt_sec_rest =
   [9654, 65039, 32, 1054, 1089, 1090, 1072, 1083, 1100, 1085, 1086, 1077, 32, 1074, 32,
    1088, 1072, 1073, 1086, 1090, 1077]"

text \<open>Waits for a manager's decision\<close>

definition txt_sec_manager_review :: utext where
  "txt_sec_manager_review =
   [129514, 32, 1046, 1076, 1105, 1090, 32, 1088, 1077, 1096, 1077, 1085, 1080, 1103, 32,
    1084, 1077, 1085, 1077, 1076, 1078, 1077, 1088, 1072]"

text \<open>Needs help with a blocker\<close>

definition txt_sec_manager_blocker :: utext where
  "txt_sec_manager_blocker =
   [128679, 32, 1053, 1091, 1078, 1085, 1072, 32, 1087, 1086, 1084, 1086, 1097, 1100, 32,
    1089, 32, 1073, 1083, 1086, 1082, 1077, 1088, 1086, 1084]"

text \<open>The assignee has not connected the bot yet\<close>

definition txt_sec_no_bot :: utext where
  "txt_sec_no_bot =
   [128075, 32, 1048, 1089, 1087, 1086, 1083, 1085, 1080, 1090, 1077, 1083, 1100, 32, 1077,
    1097, 1105, 32, 1085, 1077, 32, 1087, 1086, 1076, 1082, 1083, 1102, 1095, 1080, 1083,
    32, 1073, 1086, 1090, 1072]"

text \<open>Deadline risk\<close>

definition txt_sec_risk :: utext where
  "txt_sec_risk =
   [128293, 32, 1056, 1080, 1089, 1082, 32, 1087, 1086, 32, 1089, 1088, 1086, 1082, 1072,
    1084]"

text \<open>Without progress\<close>

definition txt_sec_stale :: utext where
  "txt_sec_stale =
   [128368, 65039, 32, 1041, 1077, 1079, 32, 1076, 1074, 1080, 1078, 1077, 1085, 1080, 1103]"

text \<open>needs /start from the assignee\<close>

definition txt_hl_needs_start :: utext where
  "txt_hl_needs_start =
   [1085, 1091, 1078, 1077, 1085, 32, 47, 115, 116, 97, 114, 116, 32, 1086, 1090, 32, 1080,
    1089, 1087, 1086, 1083, 1085, 1080, 1090, 1077, 1083, 1103]"

text \<open>the deadline has passed\<close>

definition txt_hl_deadline_passed :: utext where
  "txt_hl_deadline_passed =
   [1076, 1077, 1076, 1083, 1072, 1081, 1085, 32, 1091, 1078, 1077, 32, 1087, 1088, 1086,
    1096, 1105, 1083]"

text \<open>due today\<close>

definition txt_hl_due_today :: utext where
  "txt_hl_due_today =
   [1089, 1088, 1086, 1082, 32, 1089, 1077, 1075, 1086, 1076, 1085, 1103]"

text \<open>no progress for a long time\<close>

definition txt_hl_stale :: utext where
  "txt_hl_stale =
   [1087, 1086, 32, 1079, 1072, 1076, 1072, 1095, 1077, 32, 1076, 1072, 1074, 1085, 1086,
    32, 1085, 1077, 32, 1073, 1099, 1083, 1086, 32, 1076, 1074, 1080, 1078, 1077, 1085,
    1080, 1103]"

text \<open>the catalogue is for registered users only\<close>

definition txt_search_forbidden :: utext where
  "txt_search_forbidden =
   [1082, 1072, 1090, 1072, 1083, 1086, 1075, 32, 1079, 1072, 1076, 1072, 1095, 32, 1076,
    1086, 1089, 1090, 1091, 1087, 1077, 1085, 32, 1090, 1086, 1083, 1100, 1082, 1086, 32,
    1079, 1072, 1088, 1077, 1075, 1080, 1089, 1090, 1088, 1080, 1088, 1086, 1074, 1072,
    1085, 1085, 1099, 1084, 32, 1087, 1086, 1083, 1100, 1079, 1086, 1074, 1072, 1090, 1077,
    1083, 1103, 1084]"

lemmas list_text_defs =
  txt_sec_overdue_def
  txt_sec_waits_review_def
  txt_sec_blockers_def
  txt_sec_today_def
  txt_sec_new_def
  txt_sec_in_progress_def
  txt_sec_completed_def
  txt_sec_cancelled_def
  txt_sec_attention_def
  txt_sec_review_def
  txt_sec_urgent_def
  txt_sec_my_action_def
  txt_sec_blocked_def
  txt_sec_rest_def
  txt_sec_manager_review_def
  txt_sec_manager_blocker_def
  txt_sec_no_bot_def
  txt_sec_risk_def
  txt_sec_stale_def
  txt_hl_needs_start_def
  txt_hl_deadline_passed_def
  txt_hl_due_today_def
  txt_hl_stale_def
  txt_search_forbidden_def

subsection \<open>Reminders\<close>

text \<open>Reminder: task (open quote)\<close>

definition txt_reminder :: utext where
  "txt_reminder =
   [1053, 1072, 1087, 1086, 1084, 1080, 1085, 1072, 1085, 1080, 1077, 58, 32, 1079, 1072,
    1076, 1072, 1095, 1072, 32, 171]"

text \<open>(close quote) must be ready tomorrow.\<close>

definition txt_ready_tomorrow :: utext where
  "txt_ready_tomorrow =
   [187, 32, 1076, 1086, 1083, 1078, 1085, 1072, 32, 1073, 1099, 1090, 1100, 32, 1075, 1086,
    1090, 1086, 1074, 1072, 32, 1079, 1072, 1074, 1090, 1088, 1072, 46]"

text \<open>Task (open quote)\<close>

definition txt_overdue_task :: utext where
  "txt_overdue_task =
   [1047, 1072, 1076, 1072, 1095, 1072, 32, 171]"

text \<open>(close quote) is overdue by\<close>

definition txt_overdue_for :: utext where
  "txt_overdue_for =
   [187, 32, 1087, 1088, 1086, 1089, 1088, 1086, 1095, 1077, 1085, 1072, 32, 1091, 1078,
    1077, 32, 1085, 1072, 32]"

text \<open>days.\<close>

definition txt_days_dot :: utext where
  "txt_days_dot =
   [32, 1076, 1085, 46]"

text \<open>Good morning. In your work there are\<close>

definition txt_good_morning :: utext where
  "txt_good_morning =
   [1044, 1086, 1073, 1088, 1086, 1077, 32, 1091, 1090, 1088, 1086, 46, 32, 1042, 32, 1088,
    1072, 1073, 1086, 1090, 1077, 32, 1091, 32, 1074, 1072, 1089, 32]"

text \<open>tasks. Overdue:\<close>

definition txt_summary_overdue :: utext where
  "txt_summary_overdue =
   [32, 1079, 1072, 1076, 1072, 1095, 46, 10, 10, 1055, 1088, 1086, 1089, 1088, 1086, 1095,
    1077, 1085, 1086, 58, 32]"

text \<open>For today:\<close>

definition txt_summary_today :: utext where
  "txt_summary_today =
   [10, 1053, 1072, 32, 1089, 1077, 1075, 1086, 1076, 1085, 1103, 58, 32]"

text \<open>Blocked:\<close>

definition txt_summary_blocked :: utext where
  "txt_summary_blocked =
   [10, 1057, 32, 1073, 1083, 1086, 1082, 1077, 1088, 1086, 1084, 58, 32]"

text \<open>In review:\<close>

definition txt_summary_review :: utext where
  "txt_summary_review =
   [10, 1053, 1072, 32, 1087, 1088, 1086, 1074, 1077, 1088, 1082, 1077, 58, 32]"

text \<open>Nearest tasks:\<close>

definition txt_summary_nearest :: utext where
  "txt_summary_nearest =
   [10, 10, 1041, 1083, 1080, 1078, 1072, 1081, 1096, 1080, 1077, 32, 1079, 1072, 1076,
    1072, 1095, 1080, 58, 10]"

text \<open>a bullet\<close>

definition txt_bullet :: utext where
  "txt_bullet =
   [8226, 32]"

lemmas reminder_text_defs =
  txt_reminder_def
  txt_ready_tomorrow_def
  txt_overdue_task_def
  txt_overdue_for_def
  txt_days_dot_def
  txt_good_morning_def
  txt_summary_overdue_def
  txt_summary_today_def
  txt_summary_blocked_def
  txt_summary_review_def
  txt_summary_nearest_def
  txt_bullet_def

subsection \<open>Task details\<close>

text \<open>new\<close>

definition txt_hs_new :: utext where
  "txt_hs_new =
   [1085, 1086, 1074, 1072, 1103]"

text \<open>sent\<close>

definition txt_hs_sent :: utext where
  "txt_hs_sent =
   [1086, 1090, 1087, 1088, 1072, 1074, 1083, 1077, 1085, 1072]"

text \<open>in progress\<close>

definition txt_hs_progress :: utext where
  "txt_hs_progress =
   [1074, 32, 1088, 1072, 1073, 1086, 1090, 1077]"

text \<open>blocked\<close>

definition txt_hs_blocked :: utext where
  "txt_hs_blocked =
   [1089, 32, 1073, 1083, 1086, 1082, 1077, 1088, 1086, 1084]"

text \<open>in review\<close>

definition txt_hs_review :: utext where
  "txt_hs_review =
   [1085, 1072, 32, 1087, 1088, 1086, 1074, 1077, 1088, 1082, 1077]"

text \<open>completed\<close>

definition txt_hs_completed :: utext where
  "txt_hs_completed =
   [1079, 1072, 1074, 1077, 1088, 1096, 1077, 1085, 1072]"

text \<open>cancelled\<close>

definition txt_hs_cancelled :: utext where
  "txt_hs_cancelled =
   [1086, 1090, 1084, 1077, 1085, 1077, 1085, 1072]"

text \<open>unknown\<close>

definition txt_hs_unknown :: utext where
  "txt_hs_unknown =
   [1085, 1077, 1080, 1079, 1074, 1077, 1089, 1090, 1085, 1086]"

text \<open>task created\<close>

definition txt_he_created :: utext where
  "txt_he_created =
   [1079, 1072, 1076, 1072, 1095, 1072, 32, 1089, 1086, 1079, 1076, 1072, 1085, 1072]"

text \<open>notification delivered to the assignee\<close>

definition txt_he_sent :: utext where
  "txt_he_sent =
   [1091, 1074, 1077, 1076, 1086, 1084, 1083, 1077, 1085, 1080, 1077, 32, 1076, 1086, 1089,
    1090, 1072, 1074, 1083, 1077, 1085, 1086, 32, 1080, 1089, 1087, 1086, 1083, 1085, 1080,
    1090, 1077, 1083, 1102]"

text \<open>assignee updated\<close>

definition txt_he_assignee :: utext where
  "txt_he_assignee =
   [1080, 1089, 1087, 1086, 1083, 1085, 1080, 1090, 1077, 1083, 1100, 32, 1086, 1073, 1085,
    1086, 1074, 1083, 1105, 1085]"

text \<open>task sent for review\<close>

definition txt_he_review :: utext where
  "txt_he_review =
   [1079, 1072, 1076, 1072, 1095, 1072, 32, 1086, 1090, 1087, 1088, 1072, 1074, 1083, 1077,
    1085, 1072, 32, 1085, 1072, 32, 1087, 1088, 1086, 1074, 1077, 1088, 1082, 1091]"

text \<open>blocker recorded (colon)\<close>

definition txt_he_blocked_by :: utext where
  "txt_he_blocked_by =
   [1079, 1072, 1092, 1080, 1082, 1089, 1080, 1088, 1086, 1074, 1072, 1085, 32, 1073, 1083,
    1086, 1082, 1077, 1088, 58, 32]"

text \<open>blocker recorded\<close>

definition txt_he_blocked :: utext where
  "txt_he_blocked =
   [1079, 1072, 1092, 1080, 1082, 1089, 1080, 1088, 1086, 1074, 1072, 1085, 32, 1073, 1083,
    1086, 1082, 1077, 1088]"

text \<open>comment added (colon)\<close>

definition txt_he_comment_text :: utext where
  "txt_he_comment_text =
   [1076, 1086, 1073, 1072, 1074, 1083, 1077, 1085, 32, 1082, 1086, 1084, 1084, 1077, 1085,
    1090, 1072, 1088, 1080, 1081, 58, 32]"

text \<open>comment added\<close>

definition txt_he_comment :: utext where
  "txt_he_comment =
   [1076, 1086, 1073, 1072, 1074, 1083, 1077, 1085, 32, 1082, 1086, 1084, 1084, 1077, 1085,
    1090, 1072, 1088, 1080, 1081]"

text \<open>arrow\<close>

definition txt_arrow :: utext where
  "txt_arrow =
   [32, 8594, 32]"

text \<open>task card updated\<close>

definition txt_he_edited :: utext where
  "txt_he_edited =
   [1082, 1072, 1088, 1090, 1086, 1095, 1082, 1072, 32, 1079, 1072, 1076, 1072, 1095, 1080,
    32, 1086, 1073, 1085, 1086, 1074, 1083, 1077, 1085, 1072]"

text \<open>employee directory synchronised\<close>

definition txt_he_synced :: utext where
  "txt_he_synced =
   [1089, 1087, 1088, 1072, 1074, 1086, 1095, 1085, 1080, 1082, 32, 1089, 1086, 1090, 1088,
    1091, 1076, 1085, 1080, 1082, 1086, 1074, 32, 1089, 1080, 1085, 1093, 1088, 1086, 1085,
    1080, 1079, 1080, 1088, 1086, 1074, 1072, 1085]"

lemmas detail_text_defs =
  txt_hs_new_def
  txt_hs_sent_def
  txt_hs_progress_def
  txt_hs_blocked_def
  txt_hs_review_def
  txt_hs_completed_def
  txt_hs_cancelled_def
  txt_hs_unknown_def
  txt_he_created_def
  txt_he_sent_def
  txt_he_assignee_def
  txt_he_review_def
  txt_he_blocked_by_def
  txt_he_blocked_def
  txt_he_comment_text_def
  txt_he_comment_def
  txt_arrow_def
  txt_he_edited_def
  txt_he_synced_def

end
