(* ===== verification/Recurrence.thy ===== *)
theory Recurrence
  imports Samples Use_Case_Texts
begin

section \<open>Task templates and recurrence rules\<close>

text \<open>
  \<^verbatim>\<open>src/domain/recurrence.rs\<close>, \<^verbatim>\<open>src/infrastructure/db/repositories/recurrence_repository.rs\<close> and
  \<^verbatim>\<open>src/application/use_cases/process_recurrence_rules.rs\<close>: on each tick the due rules create tasks from
  their templates and are rescheduled. What the \<^verbatim>\<open>cron\<close>, \<^verbatim>\<open>chrono_tz\<close> and \<^verbatim>\<open>serde_json\<close> crates compute is
  a parameter: the parser of a schedule with its successor function, the parser of zone names, the
  reader of a template body, each failing with the text of its error.
\<close>

record template_body =
  tb_description :: utext
  tb_acceptance_criteria :: "utext list"
  tb_expected_result :: utext
  tb_tags :: "utext list"

type_synonym schedule = "timezone \<Rightarrow> instant \<Rightarrow> instant option"

record crates =
  cr_schedule :: "utext \<Rightarrow> utext + schedule"
  cr_timezone :: "utext \<Rightarrow> timezone option"
  cr_template_body :: "utext \<Rightarrow> utext + template_body"

subsection \<open>Validated values\<close>

definition MIN_TEMPLATE_CODE_LEN :: nat where "MIN_TEMPLATE_CODE_LEN = 2"
definition MAX_TEMPLATE_CODE_LEN :: nat where "MAX_TEMPLATE_CODE_LEN = 32"

definition parse_template_code :: "utext \<Rightarrow> utext result" where
  "parse_template_code raw =
    (let trimmed = trim raw; char_count = length trimmed in
     if \<not> (MIN_TEMPLATE_CODE_LEN \<le> char_count \<and> char_count \<le> MAX_TEMPLATE_CODE_LEN) then
       Inl (schema_validation ''TEMPLATE_CODE_INVALID_LENGTH''
         (ascii ''template code must have 2..32 characters'') (JObj [(''len'', JNum (int char_count))]))
     else if \<not> list_all (\<lambda>c. is_ascii_alphanumeric c \<or> c = 95 \<or> c = 45) trimmed then
       Inl (schema_validation ''TEMPLATE_CODE_INVALID_CHARACTERS''
         (ascii ''template code may only contain letters, digits, - and _'') (JObj []))
     else Inr trimmed)"

definition parse_cron :: "crates \<Rightarrow> utext \<Rightarrow> (utext \<times> schedule) result" where
  "parse_cron lib raw =
    (let trimmed = trim raw in
     if trimmed = [] then
       Inl (schema_validation ''CRON_EXPRESSION_EMPTY'' (ascii ''cron expression must not be empty'')
         (JObj []))
     else
       case cr_schedule lib trimmed of
         Inl text \<Rightarrow> Inl (schema_validation ''CRON_EXPRESSION_INVALID''
           (ascii ''cron expression is not a valid schedule'') (JObj [(''error'', JStr text)]))
       | Inr schedule \<Rightarrow> Inr (trimmed, schedule))"

definition next_fire_after :: "utext \<times> schedule \<Rightarrow> instant \<Rightarrow> timezone \<Rightarrow> instant option" where
  "next_fire_after cron from zone = snd cron zone from"

definition parse_timezone :: "crates \<Rightarrow> utext \<Rightarrow> timezone result" where
  "parse_timezone lib code =
     ok_or (schema_validation ''RECURRENCE_RULE_UNKNOWN_TZ''
       (ascii ''unknown timezone '' @ [39] @ code @ [39]) (JObj [(''timezone'', JStr code)]))
     (cr_timezone lib code)"

definition decode_template_body :: "crates \<Rightarrow> utext \<Rightarrow> template_body result" where
  "decode_template_body lib raw =
    (case cr_template_body lib raw of
       Inl text \<Rightarrow> Inl (schema_validation ''TEMPLATE_BODY_DECODE_FAILED''
         (ascii ''failed to decode template body'') (JObj [(''error'', JStr text)]))
     | Inr body \<Rightarrow> Inr body)"

subsection \<open>The repository\<close>

definition rule_due :: "instant \<Rightarrow> recurrence_rule \<Rightarrow> bool" where
  "rule_due as_of r \<longleftrightarrow> rr_is_active r
     \<and> (case rr_next_run_at r of None \<Rightarrow> False | Some t \<Rightarrow> t \<le> as_of)"

definition list_due :: "instant \<Rightarrow> nat \<Rightarrow> (world, recurrence_rule list) act" where
  "list_due as_of limit =
     select (\<lambda>w. take limit (sort_key (\<lambda>r. the (rr_next_run_at r))
       (filter (rule_due as_of) (sd_rules (w_side w)))))"

definition get_template :: "row_id \<Rightarrow> (world, task_template option) act" where
  "get_template i = select (\<lambda>w. find (\<lambda>t. tt_id t = i \<and> tt_is_active t) (sd_templates (w_side w)))"

definition advance_rule :: "row_id \<Rightarrow> instant \<Rightarrow> instant option \<Rightarrow> instant \<Rightarrow> (world, unit) act" where
  "advance_rule i fired_at next_run_at now = execute (\<lambda>w. w\<lparr> w_side := (w_side w)\<lparr> sd_rules :=
     update_where (\<lambda>r. rr_id r = i) (\<lambda>r. r\<lparr> rr_last_run_at := Some fired_at,
       rr_next_run_at := next_run_at, rr_updated_at := now \<rparr>) (sd_rules (w_side w)) \<rparr> \<rparr>)"

subsection \<open>The tick\<close>

definition compute_next_run :: "crates \<Rightarrow> utext \<Rightarrow> utext \<Rightarrow> instant \<Rightarrow> instant option" where
  "compute_next_run lib cron_expr tz_code from =
    (case parse_cron lib cron_expr of
       Inl _ \<Rightarrow> None
     | Inr cron \<Rightarrow>
        (case parse_timezone lib tz_code of
           Inl _ \<Rightarrow> None
         | Inr zone \<Rightarrow> next_fire_after cron from zone))"

definition advance :: "crates \<Rightarrow> recurrence_rule \<Rightarrow> instant \<Rightarrow> (world, unit) act" where
  "advance lib rule now =
     attempt (advance_rule (rr_id rule) now
       (compute_next_run lib (rr_cron_expression rule) (rr_timezone rule) now) now) (\<lambda>_. ret ())"

definition recurrence_key :: "recurrence_rule \<Rightarrow> instant \<Rightarrow> utext" where
  "recurrence_key rule now = ascii ''recurrence:'' @ show_int (rr_id rule) @ [58]
     @ show_int (now div ns_per_sec)"

definition recurrence_task ::
  "recurrence_rule \<Rightarrow> task_template \<Rightarrow> template_body \<Rightarrow> uuid \<Rightarrow> instant \<Rightarrow> task" where
  "recurrence_task rule template body uid now =
    \<lparr> t_id = None, t_task_uid = uid, t_version = 1,
      t_source_message_key = recurrence_key rule now,
      t_created_by_user_id = rr_owner_user_id rule, t_assigned_to_user_id = None,
      t_assigned_to_employee_id = None, t_title = tt_title template,
      t_description = tb_description body, t_acceptance_criteria = tb_acceptance_criteria body,
      t_expected_result = tb_expected_result body, t_deadline = None, t_deadline_raw = None,
      t_original_message = txt_auto_task @ tt_code template @ txt_quote_end,
      t_message_type = Text, t_ai_model_used = [], t_ai_response_raw = [],
      t_status = Created, t_priority = Medium, t_blocked_reason = None,
      t_telegram_chat_id = 0, t_telegram_message_id = 0, t_telegram_task_message_id = None,
      t_tags = tb_tags body, t_created_at = now, t_sent_at = None, t_started_at = None,
      t_blocked_at = None, t_review_requested_at = None, t_completed_at = None,
      t_cancelled_at = None, t_updated_at = now \<rparr>"

definition fire_rule :: "crates \<Rightarrow> instant \<Rightarrow> recurrence_rule \<Rightarrow> (world, unit) act" where
  "fire_rule lib now rule =
    (case rr_template_id rule of
       None \<Rightarrow> advance lib rule now
     | Some template_id \<Rightarrow>
        attempt (get_template template_id) (\<lambda>found.
        case found of
          Inl _ \<Rightarrow> ret ()
        | Inr None \<Rightarrow> advance lib rule now
        | Inr (Some template) \<Rightarrow>
           (case decode_template_body lib (tt_body template) of
              Inl _ \<Rightarrow> advance lib rule now
            | Inr body \<Rightarrow>
               tryA fresh_uuid (\<lambda>uid.
               attempt (create_if_absent (recurrence_task rule template body uid now)) (\<lambda>_.
               advance lib rule now)))))"

definition MAX_RULES_PER_TICK :: nat where "MAX_RULES_PER_TICK = 50"

definition process_recurrence_rules :: "crates \<Rightarrow> (world, unit) act" where
  "process_recurrence_rules lib =
     tryA (gets (\<lambda>w. flag_is_enabled (w_flags w) RecurrenceRules)) (\<lambda>enabled.
     if \<not> enabled then ret ()
     else
       tryA now_utc (\<lambda>now.
       tryA (list_due now MAX_RULES_PER_TICK) (\<lambda>due_rules.
       forA due_rules (fire_rule lib now))))"

subsection \<open>What a tick does\<close>

text \<open>Tasks are only added, rules only rescheduled, and the rules of other identities stay.\<close>

definition rule_frame :: "row_id set \<Rightarrow> world \<Rightarrow> world \<Rightarrow> bool" where
  "rule_frame ids w w' \<longleftrightarrow>
     (\<exists>new. w_tasks w' = w_tasks w @ new)
     \<and> map rr_id (sd_rules (w_side w')) = map rr_id (sd_rules (w_side w))
     \<and> (\<forall>i. i \<notin> ids \<longrightarrow> find (\<lambda>r. rr_id r = i) (sd_rules (w_side w'))
                       = find (\<lambda>r. rr_id r = i) (sd_rules (w_side w)))
     \<and> (w_faults w = [] \<longrightarrow> w_faults w' = [])"

lemma rule_frame_refl: "rule_frame ids w w"
  by (simp add: rule_frame_def)

interpretation rule_frame: frame "rule_frame ids" for ids
proof
  show "rule_frame ids s u" if "rule_frame ids s t" "rule_frame ids t u" for s t u :: world
    using that by (auto simp: rule_frame_def)
qed (rule rule_frame_refl)

lemma rule_frame_statement:
  assumes "\<And>w. ok w \<Longrightarrow> rule_frame ids w (snd (f w))"
  shows "obeys (rule_frame ids) (statement ok f)"
proof (rule obeysI)
  fix w :: world
  have fault: "rule_frame ids w (w\<lparr> w_faults := tl (w_faults w) \<rparr>)"
    by (simp add: rule_frame_def)
  show "rule_frame ids w (snd (statement ok f w))"
  proof (cases "statement ok f w")
    case (Pair r w')
    show ?thesis
    proof (cases r)
      case (Inl e)
      then show ?thesis using Pair fault by (auto dest!: statement_Inl)
    next
      case (Inr x)
      let ?w = "w\<lparr> w_faults := tl (w_faults w) \<rparr>"
      have "ok ?w" "f ?w = (x, w')" using Pair Inr by (simp_all add: statement_Inr)
      then have "rule_frame ids ?w w'" using assms[of ?w] by simp
      then show ?thesis using Pair rule_frame.trans[OF fault] by simp
    qed
  qed
qed

lemma rule_frame_select: "obeys (rule_frame ids) (select f)"
  unfolding select_def by (rule rule_frame_statement) (simp add: rule_frame_refl)

lemma rule_frame_uuid: "obeys (rule_frame ids) fresh_uuid"
  by (rule obeysI) (simp add: fresh_uuid_def rule_frame_def)

lemma rule_frame_create: "obeys (rule_frame ids) (create_if_absent t)"
  unfolding create_if_absent_def insert_task_def find_by_source_message_key_def
  by (intro rule_frame.rules rule_frame_statement rule_frame_select) (simp add: rule_frame_def)

lemma rule_frame_advance:
  assumes "rr_id rule \<in> ids"
  shows "obeys (rule_frame ids) (advance lib rule now)"
  unfolding advance_def advance_rule_def execute_def
proof (intro rule_frame.attempt rule_frame.ret rule_frame_statement)
  fix w :: world
  show "rule_frame ids w (snd ((), w\<lparr> w_side := (w_side w)\<lparr> sd_rules :=
     update_where (\<lambda>r. rr_id r = rr_id rule) (\<lambda>r. r\<lparr> rr_last_run_at := Some now,
       rr_next_run_at := compute_next_run lib (rr_cron_expression rule) (rr_timezone rule) now,
       rr_updated_at := now \<rparr>) (sd_rules (w_side w)) \<rparr> \<rparr>))"
    using assms
    by (auto simp: rule_frame_def map_update_where_frame find_update_where option.map_ident_strong
        dest!: find_SomeD intro!: option.map_ident_strong)
qed

lemma rule_frame_fire: "rr_id rule \<in> ids \<Longrightarrow> obeys (rule_frame ids) (fire_rule lib now rule)"
  unfolding fire_rule_def get_template_def
  by (intro preserves_rules rule_frame.rules rule_frame_advance rule_frame_select rule_frame_uuid
      rule_frame_create)

definition rescheduled :: "crates \<Rightarrow> instant \<Rightarrow> recurrence_rule \<Rightarrow> recurrence_rule" where
  "rescheduled lib now r = r\<lparr> rr_last_run_at := Some now,
     rr_next_run_at := compute_next_run lib (rr_cron_expression r) (rr_timezone r) now,
     rr_updated_at := now \<rparr>"

lemma advance_no_faults:
  assumes "w_faults w = []" and "find (\<lambda>r. rr_id r = rr_id rule) (sd_rules (w_side w)) = Some rule"
  shows "\<exists>w'. advance lib rule now w = (Inr (), w')
     \<and> find (\<lambda>r. rr_id r = rr_id rule) (sd_rules (w_side w')) = Some (rescheduled lib now rule)"
  using assms
  by (simp add: advance_def advance_rule_def attempt_def execute_no_faults ret_def find_update_where
      rescheduled_def)

lemma fire_rule_advances:
  assumes "w_faults w = []"
  shows "\<exists>w1. fire_rule lib now rule w = advance lib rule now w1 \<and> rule_frame {} w w1"
proof (cases "rr_template_id rule")
  case None
  then have "fire_rule lib now rule w = advance lib rule now w" by (simp add: fire_rule_def)
  with rule_frame_refl show ?thesis by blast
next
  case (Some i)
  let ?t = "find (\<lambda>t. tt_id t = i \<and> tt_is_active t) (sd_templates (w_side w))"
  note get = Some fire_rule_def attempt_def get_template_def select_no_faults[OF assms]
  show ?thesis
  proof (cases ?t)
    case None
    then have "fire_rule lib now rule w = advance lib rule now w" by (simp add: get)
    with rule_frame_refl show ?thesis by blast
  next
    case (Some t)
    show ?thesis
    proof (cases "decode_template_body lib (tt_body t)")
      case (Inl e)
      then have "fire_rule lib now rule w = advance lib rule now w" using Some by (simp add: get)
      with rule_frame_refl show ?thesis by blast
    next
      case (Inr body)
      obtain u w1 where u: "fresh_uuid w = (Inr u, w1)" by (simp add: fresh_uuid_def)
      obtain q w2 where c: "create_if_absent (recurrence_task rule t body u now) w1 = (q, w2)"
        by (cases "create_if_absent (recurrence_task rule t body u now) w1")
      have "fire_rule lib now rule w = advance lib rule now w2"
        using Some Inr c u by (simp add: get tryA_def fresh_uuid_def)
      moreover have "rule_frame {} w w2"
        using rule_frame.trans obeysD[OF rule_frame_uuid u] obeysD[OF rule_frame_create c] by blast
      ultimately show ?thesis by blast
    qed
  qed
qed

lemma rules_reschedule:
  "\<lbrakk>w_faults w = []; distinct (map rr_id rules);
    \<forall>r \<in> set rules. find (\<lambda>x. rr_id x = rr_id r) (sd_rules (w_side w)) = Some r\<rbrakk>
    \<Longrightarrow> \<exists>w'. forA rules (fire_rule lib now) w = (Inr (), w') \<and>
       (\<forall>r \<in> set rules. find (\<lambda>x. rr_id x = rr_id r) (sd_rules (w_side w'))
          = Some (rescheduled lib now r))"
proof (induction rules arbitrary: w)
  case (Cons a rules)
  obtain w1 where fire: "fire_rule lib now a w = advance lib a now w1" and f1: "rule_frame {} w w1"
    using fire_rule_advances[OF Cons.prems(1)] by blast
  have "find (\<lambda>x. rr_id x = rr_id a) (sd_rules (w_side w1)) = Some a" "w_faults w1 = []"
    using f1 Cons.prems(1,3) by (simp_all add: rule_frame_def)
  then obtain w2 where adv: "advance lib a now w1 = (Inr (), w2)"
    and done_a: "find (\<lambda>x. rr_id x = rr_id a) (sd_rules (w_side w2)) = Some (rescheduled lib now a)"
    using advance_no_faults by blast
  have f2: "rule_frame {rr_id a} w w2"
    by (rule obeysD[OF rule_frame_fire[of a _ lib now]]) (simp_all add: fire adv)
  have others: "rr_id r \<noteq> rr_id a" if "r \<in> set rules" for r
    using Cons.prems(2) that by (metis distinct.simps(2) imageI list.simps(9) set_map)
  obtain w' where rest: "forA rules (fire_rule lib now) w2 = (Inr (), w')"
    and done_rest: "\<forall>r \<in> set rules. find (\<lambda>x. rr_id x = rr_id r) (sd_rules (w_side w'))
        = Some (rescheduled lib now r)"
    using Cons.IH[of w2] Cons.prems f2 others by (auto simp: rule_frame_def)
  have "obeys (rule_frame (rr_id ` set rules)) (forA xs (fire_rule lib now))"
    if "set xs \<subseteq> set rules" for xs
    using that by (induction xs) (auto intro!: rule_frame.ret rule_frame.tryA rule_frame_fire)
  then have "obeys (rule_frame (rr_id ` set rules)) (forA rules (fire_rule lib now))" by blast
  from obeysD[OF this rest] have f3: "rule_frame (rr_id ` set rules) w2 w'" .
  have "rr_id a \<notin> rr_id ` set rules" using Cons.prems(2) by simp
  then have "find (\<lambda>x. rr_id x = rr_id a) (sd_rules (w_side w')) = Some (rescheduled lib now a)"
    using f3 done_a by (simp add: rule_frame_def)
  with rest done_rest show ?case by (simp add: tryA_def fire adv)
qed simp

definition due_rules :: "instant \<Rightarrow> world \<Rightarrow> recurrence_rule list" where
  "due_rules now w = take MAX_RULES_PER_TICK (sort_key (\<lambda>r. the (rr_next_run_at r))
     (filter (rule_due now) (sd_rules (w_side w))))"

text \<open>C37. Every due rule is rescheduled. When the database answers and the schedules of the \<^verbatim>\<open>cron\<close>
  crate name times after the one they are asked about, a tick returns, keeps every task there was,
  and leaves each rule it picked with this run recorded and no longer due, whether its template is
  missing, inactive or unreadable, its schedule or time zone invalid, or its task could not be
  created.\<close>
theorem due_rules_are_rescheduled:
  assumes "w_faults w = []" and "flag_is_enabled (w_flags w) RecurrenceRules"
    and "distinct (map rr_id (sd_rules (w_side w)))"
    and later: "\<And>e s z t t'. cr_schedule lib e = Inr s \<Longrightarrow> s z t = Some t' \<Longrightarrow> t < t'"
    and "now = env_clock (w_env w) (w_ticks w)"
    and "r \<in> set (due_rules now w)"
  shows "\<exists>w' r' new. process_recurrence_rules lib w = (Inr (), w')
     \<and> w_tasks w' = w_tasks w @ new
     \<and> find (\<lambda>x. rr_id x = rr_id r) (sd_rules (w_side w')) = Some r'
     \<and> rr_last_run_at r' = Some now \<and> \<not> rule_due now r'"
proof -
  let ?wt = "w\<lparr> w_ticks := Suc (w_ticks w) \<rparr>"
  have sub: "set (due_rules now w) \<subseteq> set (sd_rules (w_side w))"
    by (auto simp: due_rules_def dest: in_set_takeD)
  have "distinct (due_rules now w)"
    using assms(3) by (simp add: due_rules_def distinct_take distinct_map)
  then have dist: "distinct (map rr_id (due_rules now w))"
    using assms(3) sub unfolding distinct_map by (auto intro: inj_on_subset)
  have found: "\<forall>r \<in> set (due_rules now w). find (\<lambda>x. rr_id x = rr_id r) (sd_rules (w_side ?wt)) = Some r"
    using find_distinct_key[OF assms(3)] sub by auto
  obtain w' where run: "forA (due_rules now w) (fire_rule lib now) ?wt = (Inr (), w')"
    and all: "\<forall>r \<in> set (due_rules now w). find (\<lambda>x. rr_id x = rr_id r) (sd_rules (w_side w'))
          = Some (rescheduled lib now r)"
    using rules_reschedule[of ?wt, OF _ dist found, of lib now] assms(1) by auto
  have "rule_frame UNIV ?wt w'"
    by (rule obeysD[OF rule_frame.forA run]) (rule rule_frame_fire, simp)
  then obtain new where new: "w_tasks w' = w_tasks w @ new" by (auto simp: rule_frame_def)
  have "process_recurrence_rules lib w = (Inr (), w')"
    using assms(1,2) run
    by (simp add: process_recurrence_rules_def tryA_def gets_def now_utc_def list_due_def
        select_no_faults due_rules_def assms(5)[symmetric])
  moreover have "\<not> rule_due now (rescheduled lib now r)"
  proof -
    have "t' > now" if "compute_next_run lib e z now = Some t'" for e z t'
      using that later
      by (auto simp: compute_next_run_def parse_cron_def parse_timezone_def next_fire_after_def Let_def
          split: sum.splits if_splits)
    from this[of "rr_cron_expression r" "rr_timezone r"] show ?thesis
      by (cases "compute_next_run lib (rr_cron_expression r) (rr_timezone r) now")
        (simp_all add: rule_due_def rescheduled_def)
  qed
  ultimately show ?thesis
    using all assms(6) new by (auto simp: rescheduled_def)
qed

text \<open>A weekly rule with its template, and clocks that advance by a second per reading.\<close>

definition sample_crates :: crates where
  "sample_crates = \<lparr> cr_schedule = (\<lambda>_. Inr (\<lambda>_ t. Some (t + 7 * ns_per_day))),
     cr_timezone = (\<lambda>_. Some moscow),
     cr_template_body = (\<lambda>_. Inr \<lparr> tb_description = ascii ''Report'', tb_acceptance_criteria = [],
       tb_expected_result = [], tb_tags = [] \<rparr>) \<rparr>"

definition sample_rule :: recurrence_rule where
  "sample_rule = \<lparr> rr_id = 4, rr_template_id = Some 2, rr_owner_user_id = 1,
     rr_cron_expression = ascii ''0 9 * * 1'', rr_timezone = ascii ''Europe/Moscow'',
     rr_next_run_at = Some 0, rr_last_run_at = None, rr_is_active = True, rr_updated_at = 0 \<rparr>"

definition sample_recurrence_world :: world where
  "sample_recurrence_world = sample_world\<lparr> w_flags := {RecurrenceRules},
     w_env := sample_env\<lparr> env_clock := (\<lambda>n. int n * ns_per_sec) \<rparr>,
     w_side := no_side_tables\<lparr> sd_rules := [sample_rule],
       sd_templates := [\<lparr> tt_id = 2, tt_code = ascii ''weekly'', tt_title = ascii ''Report'',
         tt_body = [], tt_created_by_user_id = None, tt_is_active = True \<rparr>] \<rparr> \<rparr>"

lemma sample_rule_due: "due_rules (5 * ns_per_sec) sample_recurrence_world = [sample_rule]"
  by (simp add: due_rules_def sample_recurrence_world_def rule_due_def sample_rule_def
      MAX_RULES_PER_TICK_def ns_per_sec_def)

theorem due_rules_are_rescheduled_witness:
  "\<exists>w' r' new. process_recurrence_rules sample_crates sample_recurrence_world = (Inr (), w')
     \<and> w_tasks w' = w_tasks sample_recurrence_world @ new
     \<and> find (\<lambda>x. rr_id x = 4) (sd_rules (w_side w')) = Some r'
     \<and> rr_last_run_at r' = Some (5 * ns_per_sec) \<and> \<not> rule_due (5 * ns_per_sec) r'"
proof -
  have w: "w_faults sample_recurrence_world = []"
    "flag_is_enabled (w_flags sample_recurrence_world) RecurrenceRules"
    "distinct (map rr_id (sd_rules (w_side sample_recurrence_world)))"
    "5 * ns_per_sec = env_clock (w_env sample_recurrence_world) (w_ticks sample_recurrence_world)"
    by (simp_all add: sample_recurrence_world_def flag_is_enabled_def)
  have later: "t < t'" if "cr_schedule sample_crates e = Inr s" "s z t = Some t'" for e s z t t'
    using that by (auto simp: sample_crates_def)
  have "sample_rule \<in> set (due_rules (5 * ns_per_sec) sample_recurrence_world)"
    by (simp add: sample_rule_due)
  from due_rules_are_rescheduled[OF w(1-3) later w(4) this]
  show ?thesis by (simp add: sample_rule_def)
qed

text \<open>
  The key of a created task is made of the time of the tick, not of the occurrence. When the rule
  cannot be advanced after its task was created, the next tick creates the task again.
\<close>

theorem occurrence_fires_twice:
  "\<exists>w1 w2. process_recurrence_rules sample_crates
      (sample_recurrence_world\<lparr> w_tasks := [], w_faults := [None, None, None, None, Some []] \<rparr>) = (Inr (), w1)
     \<and> w_faults w1 = [] \<and> length (w_tasks w1) = 1
     \<and> process_recurrence_rules sample_crates w1 = (Inr (), w2) \<and> length (w_tasks w2) = 2"
  by (simp add: process_recurrence_rules_def list_due_def run_simps gets_def flag_is_enabled_def
      sample_recurrence_world_def rule_due_def sample_rule_def MAX_RULES_PER_TICK_def sample_env_def
      fire_rule_def get_template_def decode_template_body_def sample_crates_def create_if_absent_def
      insert_task_def task_clashes_def recurrence_task_def has_id_def task_references_def
      references_def find_by_source_message_key_def advance_def advance_rule_def update_where_def
      select_def execute_def statement_def recurrence_key_def ns_per_sec_def)

end
