(* ===== verification/Employee_Repo.thy ===== *)
theory Employee_Repo
  imports Samples
begin

section \<open>The employee directory\<close>

text \<open>
  \<^verbatim>\<open>src/infrastructure/db/repositories/employee_repository.rs\<close>: the upsert of a synchronised
  directory, in one transaction, and its reads. Employees with a Telegram username are matched by
  it (the unique partial index), those without by their full name among the rows without one.
\<close>

definition set_employees :: "employee list \<Rightarrow> world \<Rightarrow> world" where
  "set_employees rows w = w\<lparr> w_employees := rows \<rparr>"

definition append_employee :: "employee \<Rightarrow> employee list \<Rightarrow> employee list" where
  "append_employee e rows = rows @ [e\<lparr> e_id := Some (next_id e_id rows) \<rparr>]"

definition merge_employee :: "employee \<Rightarrow> employee \<Rightarrow> employee" where
  "merge_employee e r = r\<lparr> e_full_name := e_full_name e, e_email := e_email e, e_phone := e_phone e,
     e_department := e_department e, e_is_active := e_is_active e, e_synced_at := e_synced_at e,
     e_updated_at := e_updated_at e \<rparr>"

definition upsert_with_username :: "employee \<Rightarrow> employee list \<Rightarrow> employee list" where
  "upsert_with_username e rows =
    (if list_ex (\<lambda>r. e_telegram_username r = e_telegram_username e) rows
     then update_where (\<lambda>r. e_telegram_username r = e_telegram_username e) (merge_employee e) rows
     else append_employee e rows)"

definition same_nameless :: "employee \<Rightarrow> employee \<Rightarrow> bool" where
  "same_nameless e r \<longleftrightarrow> e_full_name r = e_full_name e \<and> e_telegram_username r = None"

definition upsert_one :: "employee \<Rightarrow> (world, unit) act" where
  "upsert_one e =
    (if e_telegram_username e \<noteq> None then
       execute (\<lambda>w. set_employees (upsert_with_username e (w_employees w)) w)
     else
       tryA (select (\<lambda>w. find (same_nameless e) (w_employees w))) (\<lambda>existing.
       case existing of
         Some r \<Rightarrow> execute (\<lambda>w. set_employees (update_where (\<lambda>q. e_id q = e_id r) (\<lambda>q. q\<lparr>
             e_email := e_email e, e_phone := e_phone e, e_department := e_department e,
             e_is_active := e_is_active e, e_synced_at := e_synced_at e,
             e_updated_at := e_updated_at e \<rparr>) (w_employees w)) w)
       | None \<Rightarrow> execute (\<lambda>w. set_employees (append_employee e (w_employees w)) w)))"

definition upsert_many :: "employee list \<Rightarrow> (world, nat) act" where
  "upsert_many employees =
     tryA (transaction (forA employees upsert_one)) (\<lambda>_. ret (length employees))"

definition list_active_employees :: "(world, employee list) act" where
  "list_active_employees =
     select (\<lambda>w. sort_key e_full_name (filter e_is_active (w_employees w)))"

definition find_employee_by_id :: "row_id \<Rightarrow> (world, employee option) act" where
  "find_employee_by_id i = select (\<lambda>w. find (\<lambda>e. e_id e = Some i) (w_employees w))"

text \<open>The synchronisation (\<^verbatim>\<open>src/application/use_cases/sync_employees.rs\<close>); what the directory client
  answers is a parameter.\<close>

definition sync_employees :: "employee list result \<Rightarrow> (world, nat) act" where
  "sync_employees fetched = tryA (lift fetched) upsert_many"

subsection \<open>Synchronising keeps the directory's keys\<close>

text \<open>Identities and usernames stay unique, and no employee loses its identity.\<close>

definition employees_ok :: "employee list \<Rightarrow> bool" where
  "employees_ok rows \<longleftrightarrow> distinct (map e_id rows) \<and> (\<forall>e \<in> set rows. e_id e \<noteq> None)
     \<and> distinct (filter (\<lambda>u. u \<noteq> None) (map e_telegram_username rows))"

definition directory_step :: "world \<Rightarrow> world \<Rightarrow> bool" where
  "directory_step w w' \<longleftrightarrow>
     (employees_ok (w_employees w) \<longrightarrow> employees_ok (w_employees w'))
     \<and> e_id ` set (w_employees w) \<subseteq> e_id ` set (w_employees w')"

interpretation directory: store_frame directory_step
  by unfold_locales (auto simp: directory_step_def bookkeeping_free_def)

lemma employees_ok_append:
  assumes "employees_ok rows" "e_telegram_username e = None
    \<or> \<not> list_ex (\<lambda>r. e_telegram_username r = e_telegram_username e) rows"
  shows "employees_ok (append_employee e rows)"
proof -
  have fresh: "Some (next_id e_id rows) \<notin> e_id ` set rows"
    using next_id_fresh[of _ rows e_id] by (metis imageE)
  have "e_telegram_username e \<notin> set (filter (\<lambda>u. u \<noteq> None) (map e_telegram_username rows))"
    using assms(2) by (auto simp: list_ex_iff)
  then show ?thesis
    using assms(1) fresh by (auto simp: employees_ok_def append_employee_def)
qed

lemma employees_ok_update:
  assumes "\<And>r. P r \<Longrightarrow> e_id (f r) = e_id r" "\<And>r. P r \<Longrightarrow> e_telegram_username (f r) = e_telegram_username r"
  shows "employees_ok rows \<Longrightarrow> employees_ok (update_where P f rows)"
    and "e_id ` set (update_where P f rows) = e_id ` set rows"
proof -
  have ids: "map e_id (update_where P f rows) = map e_id rows"
    using assms(1) by (rule map_update_where_frame)
  then show "e_id ` set (update_where P f rows) = e_id ` set rows" by (metis set_map)
  have "map e_telegram_username (update_where P f rows) = map e_telegram_username rows"
    using assms(2) by (rule map_update_where_frame)
  moreover have "(\<forall>e \<in> set (update_where P f rows). e_id e \<noteq> None) \<longleftrightarrow> (\<forall>e \<in> set rows. e_id e \<noteq> None)"
    using ids by (metis (mono_tags, lifting) imageE imageI set_map)
  ultimately show "employees_ok rows \<Longrightarrow> employees_ok (update_where P f rows)"
    using ids by (simp add: employees_ok_def)
qed

lemma directory_execute:
  assumes "\<And>rows. employees_ok rows \<Longrightarrow> employees_ok (g rows)"
    and "\<And>rows. e_id ` set rows \<subseteq> e_id ` set (g rows)"
  shows "obeys directory_step (execute (\<lambda>w. set_employees (g (w_employees w)) w))"
  by (rule directory.execute) (use assms in \<open>auto simp: directory_step_def set_employees_def\<close>)

lemma append_keeps_ids: "e_id ` set rows \<subseteq> e_id ` set (append_employee e rows)"
  by (auto simp: append_employee_def)

lemma upsert_many_keeps_directory: "obeys directory_step (upsert_many es)"
  unfolding upsert_many_def
proof (intro directory.store_rules)
  fix e
  show "obeys directory_step (upsert_one e)"
    unfolding upsert_one_def
  proof (intro preserves_rules directory.store_rules directory_execute)
    fix rows :: "employee list"
    show "e_id ` set rows \<subseteq> e_id ` set (upsert_with_username e rows)"
      by (auto simp: upsert_with_username_def append_employee_def employees_ok_update(2) merge_employee_def)
    show "employees_ok rows \<Longrightarrow> employees_ok (upsert_with_username e rows)"
      by (auto simp: upsert_with_username_def merge_employee_def
          intro!: employees_ok_append employees_ok_update(1))
  qed (auto simp: employees_ok_update append_keeps_ids intro: employees_ok_append employees_ok_update(1))
qed

lemma sync_employees_keeps_directory: "obeys directory_step (sync_employees fetched)"
  unfolding sync_employees_def
  by (intro directory.store_rules preserves_rules upsert_many_keeps_directory)

end
