(* ===== verification/Task_Views.thy ===== *)
theory Task_Views
  imports Task_Entity Records Task_Codes Use_Case_Texts
begin

section \<open>The task card and the views of the use cases\<close>

text \<open>
  The text of a task card (\<^verbatim>\<open>render_for_telegram\<close> of \<^verbatim>\<open>src/domain/task/entity.rs\<close>) and the view records of
  \<^verbatim>\<open>src/application/dto/task_views.rs\<close> that the use cases return. The printer of dates is a
  parameter.
\<close>

text \<open>\<^verbatim>\<open>str::lines\<close>: lines end at a line feed, a final line feed opens no line, and a carriage return
  before the line feed is dropped.\<close>

definition drop_cr :: "utext \<Rightarrow> utext" where
  "drop_cr s = (if s \<noteq> [] \<and> last s = 13 then butlast s else s)"

definition text_lines :: "utext \<Rightarrow> utext list" where
  "text_lines s =
    (let pieces = split_on 10 s in
     map drop_cr (butlast pieces) @ (if last pieces = [] then [] else [last pieces]))"

definition join_lines :: "utext list \<Rightarrow> utext" where
  "join_lines = join [10]"

definition render_for_telegram :: "(day \<Rightarrow> utext) \<Rightarrow> task \<Rightarrow> utext option \<Rightarrow> utext" where
  "render_for_telegram date_text t assignee_mention =
    join_lines
     ((case assignee_mention of None \<Rightarrow> [] | Some mention \<Rightarrow> [mention, []])
      @ [txt_card_title @ t_title t, [], txt_card_steps]
      @ map (\<lambda>(index, step). show_nat (index + 1) @ [46, 32] @ step)
          (enumerate 0 (text_lines (t_description t)))
      @ [[], txt_card_result @ t_expected_result t]
      @ (if t_acceptance_criteria t = [] then []
         else [[], txt_card_criteria] @ map (\<lambda>c. [45, 32] @ c) (t_acceptance_criteria t))
      @ [[], txt_card_deadline @
           (case t_deadline t of None \<Rightarrow> txt_card_no_deadline | Some d \<Rightarrow> date_text d)])"

subsection \<open>Views\<close>

record employee_candidate_view =
  ec_employee_id :: "row_id option"
  ec_full_name :: utext
  ec_telegram_username :: "utext option"
  ec_confidence :: nat

definition candidate_from_match :: "employee_match \<Rightarrow> employee_candidate_view" where
  "candidate_from_match v =
     \<lparr> ec_employee_id = e_id (em_employee v), ec_full_name = e_full_name (em_employee v),
       ec_telegram_username = e_telegram_username (em_employee v),
       ec_confidence = em_confidence v \<rparr>"

datatype delivery_status =
    DeliveredToAssignee
  | PendingDelivery
  | PendingAssigneeRegistration
  | DeliveryRetry
  | DeliveryFailedStatus
  | CreatorOnly

definition from_assignment_notification ::
  "delivery_state option \<Rightarrow> bool \<Rightarrow> bool \<Rightarrow> delivery_status" where
  "from_assignment_notification state has_assignee direct_delivery_possible =
    (if \<not> has_assignee then CreatorOnly
     else if \<not> direct_delivery_possible then PendingAssigneeRegistration
     else case state of
        Some DeliverySent \<Rightarrow> DeliveredToAssignee
      | Some DeliveryRetryPending \<Rightarrow> DeliveryRetry
      | Some DeliveryFailed \<Rightarrow> DeliveryFailedStatus
      | Some DeliveryPending \<Rightarrow> PendingDelivery
      | None \<Rightarrow> PendingDelivery)"

record task_list_item =
  li_task_uid :: uuid
  li_public_code :: utext
  li_title :: utext
  li_status :: task_status
  li_deadline :: "day option"
  li_assigned_to_display :: "utext option"
  li_delivery_status :: "delivery_status option"
  li_highlight :: "utext option"

definition list_item_from_task ::
  "task \<Rightarrow> utext option \<Rightarrow> delivery_status option \<Rightarrow> utext option \<Rightarrow> task_list_item" where
  "list_item_from_task t assigned_to_display delivery highlight =
     \<lparr> li_task_uid = t_task_uid t,
       li_public_code = format_public_task_code_or_placeholder (t_id t),
       li_title = t_title t, li_status = t_status t, li_deadline = t_deadline t,
       li_assigned_to_display = assigned_to_display, li_delivery_status = delivery,
       li_highlight = highlight \<rparr>"

record task_creation_summary =
  cs_task_uid :: uuid
  cs_public_code :: utext
  cs_message :: utext
  cs_delivery_status :: delivery_status
  cs_task :: task_list_item

definition creation_summary ::
  "task \<Rightarrow> utext \<Rightarrow> delivery_status \<Rightarrow> task_creation_summary" where
  "creation_summary t message delivery =
     \<lparr> cs_task_uid = t_task_uid t,
       cs_public_code = format_public_task_code_or_placeholder (t_id t),
       cs_message = message, cs_delivery_status = delivery,
       cs_task = list_item_from_task t None (Some delivery) None \<rparr>"

record clarification_request =
  cl_message :: utext
  cl_requested_query :: "utext option"
  cl_allow_unassigned :: bool
  cl_candidates :: "employee_candidate_view list"
  cl_task_body_preview :: "utext option"

datatype task_creation_outcome =
    OutcomeCreated task_creation_summary
  | OutcomeDuplicate task_creation_summary
  | OutcomeClarification clarification_request

definition MAX_CLARIFICATION_TASK_BODY_PREVIEW_CHARS :: nat where
  "MAX_CLARIFICATION_TASK_BODY_PREVIEW_CHARS = 400"

definition body_preview :: "utext \<Rightarrow> utext \<Rightarrow> utext" where
  "body_preview task_description fallback_full_text =
    (let body = trim task_description;
         source = (if body = [] then trim fallback_full_text else body);
         limit = MAX_CLARIFICATION_TASK_BODY_PREVIEW_CHARS in
     if length source \<le> limit then source else take limit source @ txt_ellipsis)"

lemma length_body_preview: "length (body_preview d f) \<le> 401"
  by (simp add: body_preview_def Let_def MAX_CLARIFICATION_TASK_BODY_PREVIEW_CHARS_def
      txt_ellipsis_def)

end
