(* ===== verification/Unicode_Text.thy ===== *)
theory Unicode_Text
  imports Base
begin

section \<open>Unicode text: words, case and classes\<close>

text \<open>
  The part of Rust's Unicode text handling that rests on the Unicode tables is a parameter of the
  model: which scalar values are alphabetic and numeric, and the lower-case form of a text. Words
  separated by white space are handled concretely; joining the words of a text with single spaces
  is the normal form the program gives to names and messages.
\<close>

record unicode =
  uc_is_alphabetic :: "uchar \<Rightarrow> bool"
  uc_is_numeric :: "uchar \<Rightarrow> bool"
  uc_to_lowercase :: "utext \<Rightarrow> utext"

definition uc_is_alphanumeric :: "unicode \<Rightarrow> uchar \<Rightarrow> bool" where
  "uc_is_alphanumeric U c \<longleftrightarrow> uc_is_alphabetic U c \<or> uc_is_numeric U c"

text \<open>\<^verbatim>\<open>split_whitespace().collect::<Vec<_>>().join(" ")\<close>\<close>

definition squeeze :: "utext \<Rightarrow> utext" where
  "squeeze s = join [32] (split_whitespace s)"

text \<open>\<^verbatim>\<open>replace(char, char)\<close>\<close>

definition replace_char :: "uchar \<Rightarrow> uchar \<Rightarrow> utext \<Rightarrow> utext" where
  "replace_char a b = map (\<lambda>c. if c = a then b else c)"

subsection \<open>Words\<close>

definition is_word :: "utext \<Rightarrow> bool" where
  "is_word w \<longleftrightarrow> w \<noteq> [] \<and> (\<forall>c \<in> set w. \<not> is_whitespace c)"

lemma space_is_whitespace [simp]: "is_whitespace 32"
  by (simp add: is_whitespace_def)

lemma split_from_word:
  "\<forall>c \<in> set w. \<not> is_whitespace c \<Longrightarrow>
     split_whitespace_from acc (w @ s) = split_whitespace_from (acc @ w) s"
  by (induction w arbitrary: acc) auto

lemma split_from_words:
  "\<forall>c \<in> set acc. \<not> is_whitespace c \<Longrightarrow> list_all is_word (split_whitespace_from acc s)"
  by (induction s arbitrary: acc) (auto simp: is_word_def)

lemma split_words: "list_all is_word (split_whitespace s)"
  by (simp add: split_whitespace_def split_from_words)

lemma split_from_set:
  "w \<in> set (split_whitespace_from acc s) \<Longrightarrow> set w \<subseteq> set acc \<union> set s"
  by (induction acc s rule: split_whitespace_from.induct) (auto split: if_splits)

lemma split_set: "w \<in> set (split_whitespace s) \<Longrightarrow> set w \<subseteq> set s"
  using split_from_set[of w "[]" s] by (simp add: split_whitespace_def)

lemma split_join: "list_all is_word ws \<Longrightarrow> split_whitespace (join [32] ws) = ws"
proof (induction "[32] :: utext" ws rule: join.induct)
  case (3 x y ys)
  then have "split_whitespace (join [32] (x # y # ys)) =
      split_whitespace_from x (32 # join [32] (y # ys))"
    using split_from_word[of x "[]"] by (simp add: split_whitespace_def is_word_def)
  with 3 show ?case by (simp add: split_whitespace_def is_word_def)
next
  case (2 x)
  then show ?case
    using split_from_word[of x "[]" "[]"] by (simp add: split_whitespace_def is_word_def)
qed (simp add: split_whitespace_def)

lemma set_join: "set (join sep ws) \<subseteq> set sep \<union> (\<Union>w \<in> set ws. set w)"
  by (induction sep ws rule: join.induct) auto

lemma squeeze_idem [simp]: "squeeze (squeeze s) = squeeze s"
  by (simp add: squeeze_def split_join split_words)

lemma set_squeeze: "set (squeeze s) \<subseteq> insert 32 (set s)"
  using set_join[of "[32]" "split_whitespace s"] split_set[of _ s] unfolding squeeze_def by fastforce

end
