(* ===== verification/Registration.thy ===== *)
theory Registration
  imports User_Repo User_Domain Employee_Repo Task_Views Unicode_Text Use_Case_Texts Task_Use_Cases
begin

section \<open>Registration\<close>

text \<open>
  \<^verbatim>\<open>src/application/use_cases/register_user\<close>: a person who writes to the bot is matched with the employee
  directory, stored, and given the open tasks that were assigned to the employee before. The time
  readings, the reads and the writes are in the order of the code; a lost race of an update is
  retried once.
\<close>

subsection \<open>Matching the directory\<close>

datatype registration_match =
    MatchUnique employee
  | MatchAmbiguous "employee_match list"
  | MatchNotFound

definition eq_ignore_ascii_case :: "utext \<Rightarrow> utext \<Rightarrow> bool" where
  "eq_ignore_ascii_case s r \<longleftrightarrow> to_ascii_lowercase s = to_ascii_lowercase r"

definition bare_username :: "utext \<Rightarrow> utext" where
  "bare_username s = trim_start_by (\<lambda>c. c = 64) (trim s)"

definition exact_username_matches :: "incoming_message \<Rightarrow> employee list \<Rightarrow> employee list" where
  "exact_username_matches m employees =
    (case m_sender_username m of
       None \<Rightarrow> []
     | Some username \<Rightarrow>
        (let normalized_username = bare_username username in
         if normalized_username = [] then []
         else filter (\<lambda>e. case e_telegram_username e of
                None \<Rightarrow> False
              | Some value \<Rightarrow> eq_ignore_ascii_case (bare_username value) normalized_username)
              employees))"

definition normalize_person_name :: "unicode \<Rightarrow> utext \<Rightarrow> utext" where
  "normalize_person_name U value = uc_to_lowercase U (squeeze value)"

definition exact_full_name_matches ::
  "unicode \<Rightarrow> incoming_message \<Rightarrow> employee list \<Rightarrow> employee list" where
  "exact_full_name_matches U m employees =
    (let normalized_name = normalize_person_name U (m_sender_name m) in
     if normalized_name = [] then []
     else filter (\<lambda>e. normalize_person_name U (e_full_name e) = normalized_name) employees)"

definition to_employee_match :: "employee \<Rightarrow> employee_match" where
  "to_employee_match e =
     \<lparr> em_employee = e, em_confidence = 100, em_strategy = ExactFullName \<rparr>"

definition resolve_registration_match ::
  "unicode \<Rightarrow> incoming_message \<Rightarrow> employee list \<Rightarrow> registration_match" where
  "resolve_registration_match U m employees =
    (case exact_username_matches m employees of
       [e] \<Rightarrow> MatchUnique e
     | e # e' # es \<Rightarrow> MatchAmbiguous (map to_employee_match (e # e' # es))
     | [] \<Rightarrow>
        (case exact_full_name_matches U m employees of
           [e] \<Rightarrow> MatchUnique e
         | e # e' # es \<Rightarrow> MatchAmbiguous (map to_employee_match (e # e' # es))
         | [] \<Rightarrow> MatchNotFound))"

datatype link_decision = LinkAuto | LinkEmployee row_id | ContinueUnlinked

record link_clarification =
  lc_message :: utext
  lc_candidates :: "employee_candidate_view list"
  lc_allow_continue_unlinked :: bool

datatype link_preview = LinkReady link_decision | LinkClarification link_clarification

definition is_explicit_start_command :: "incoming_message \<Rightarrow> bool" where
  "is_explicit_start_command m \<longleftrightarrow>
     (case text_payload (m_content m) of
        None \<Rightarrow> False
      | Some payload \<Rightarrow> starts_with (ascii ''/start'') (trim_start_by is_whitespace payload))"

definition preview_linking :: "unicode \<Rightarrow> incoming_message \<Rightarrow> (world, link_preview) act" where
  "preview_linking U m =
    tryA (find_by_telegram_id (m_sender_id m)) (\<lambda>existing_user.
    case Option.bind existing_user u_linked_employee_id of
      Some linked_employee_id \<Rightarrow> ret (LinkReady (LinkEmployee linked_employee_id))
    | None \<Rightarrow>
        if existing_user \<noteq> None \<and> \<not> is_explicit_start_command m then
          ret (LinkReady ContinueUnlinked)
        else
          tryA list_active_employees (\<lambda>employees.
          case resolve_registration_match U m employees of
            MatchUnique e \<Rightarrow>
              (case e_id e of
                 None \<Rightarrow> fail (internal ''EMPLOYEE_ID_MISSING''
                   (ascii ''Directory employee must contain an identifier before linking registration'')
                   (JObj [(''full_name'', JStr (e_full_name e))]))
               | Some employee_id \<Rightarrow> ret (LinkReady (LinkEmployee employee_id)))
          | MatchAmbiguous candidates \<Rightarrow>
              ret (LinkClarification \<lparr> lc_message = txt_registration_ambiguous,
                lc_candidates = map candidate_from_match candidates,
                lc_allow_continue_unlinked = True \<rparr>)
          | MatchNotFound \<Rightarrow> ret (LinkReady ContinueUnlinked)))"

subsection \<open>Recovering the tasks of the employee\<close>

definition MAX_REGISTRATION_RECOVERY_BATCHES :: nat where "MAX_REGISTRATION_RECOVERY_BATCHES = 5"
definition REGISTRATION_RECOVERY_TASK_BATCH_SIZE :: nat where
  "REGISTRATION_RECOVERY_TASK_BATCH_SIZE = 200"

definition TASK_VERSION_CONFLICT_ERROR :: string where
  "TASK_VERSION_CONFLICT_ERROR = ''TASK_VERSION_CONFLICT''"

definition should_link_task :: "task \<Rightarrow> row_id \<Rightarrow> bool" where
  "should_link_task t employee_id \<longleftrightarrow> t_assigned_to_user_id t = None
     \<and> t_assigned_to_employee_id t = Some employee_id \<and> \<not> is_terminal (t_status t)"

definition retry_link_after_conflict ::
  "task \<Rightarrow> row_id \<Rightarrow> row_id \<Rightarrow> (world, task option) act" where
  "retry_link_after_conflict t user_id employee_id =
    tryA (find_by_uid (t_task_uid t)) (\<lambda>found.
    case found of
      None \<Rightarrow> ret None
    | Some latest_task \<Rightarrow>
        if \<not> should_link_task latest_task employee_id then ret None
        else
          tryA now_utc (\<lambda>now.
          tryA (lift (link_registered_assignee latest_task user_id now)) (\<lambda>retried_task.
          attempt (update_task retried_task) (\<lambda>outcome.
          case outcome of
            Inr saved \<Rightarrow> ret (Some saved)
          | Inl e \<Rightarrow> if err_code e = TASK_VERSION_CONFLICT_ERROR then ret None else fail e))))"

definition link_task_to_registered_user ::
  "task \<Rightarrow> row_id \<Rightarrow> row_id \<Rightarrow> (world, task option) act" where
  "link_task_to_registered_user t user_id employee_id =
    tryA now_utc (\<lambda>now.
    tryA (lift (link_registered_assignee t user_id now)) (\<lambda>updated_task.
    attempt (update_task updated_task) (\<lambda>outcome.
    case outcome of
      Inr saved \<Rightarrow> ret (Some saved)
    | Inl e \<Rightarrow>
        if err_code e = TASK_VERSION_CONFLICT_ERROR
        then retry_link_after_conflict t user_id employee_id else fail e)))"

definition log_recovered_assignment :: "task \<Rightarrow> row_id \<Rightarrow> row_id \<Rightarrow> (world, unit) act" where
  "log_recovered_assignment t user_id employee_id =
    (case t_id t of
       None \<Rightarrow> fail (internal ''TASK_ID_MISSING''
         (ascii ''Recovered task must contain a database identifier'')
         (JObj [(''task_uid'', JUuid (t_task_uid t))]))
     | Some task_id \<Rightarrow>
        tryA now_utc (\<lambda>now.
        tryA (append_audit \<lparr> al_id = None, al_task_id = task_id, al_action = AuditAssigned,
            al_old_status = Some (show_status (t_status t)),
            al_new_status = Some (show_status (t_status t)),
            al_changed_by_user_id = Some user_id,
            al_metadata = JObj [(''resolution'', jstr ''assignee_registered''),
              (''assigned_to_user_id'', JNum user_id),
              (''assigned_to_employee_id'', JNum employee_id)],
            al_created_at = now \<rparr>) (\<lambda>_. ret ())))"

definition should_keep_existing_notification :: "notification \<Rightarrow> bool" where
  "should_keep_existing_notification n \<longleftrightarrow>
     n_delivery_state n \<in> {DeliveryPending, DeliveryRetryPending, DeliverySent}"

definition requeue_assignment_notification :: "notification \<Rightarrow> (world, unit) act" where
  "requeue_assignment_notification n =
     (case n_id n of None \<Rightarrow> ret () | Some i \<Rightarrow> requeue i)"

definition assignment_dedupe_key :: "utext \<Rightarrow> row_id \<Rightarrow> utext" where
  "assignment_dedupe_key uid user_id = ascii ''task_assigned:'' @ uid @ [58] @ show_int user_id"

definition enqueue_assignment_notification :: "task \<Rightarrow> row_id \<Rightarrow> (world, unit) act" where
  "enqueue_assignment_notification t user_id =
    tryA (gets (\<lambda>w. env_date_text (w_env w))) (\<lambda>date_text.
    tryA (uuid_text (t_task_uid t)) (\<lambda>uid.
    tryA now_utc (\<lambda>now.
    tryA (enqueue (pending_notification (t_id t) user_id TaskAssigned
            (render_for_telegram date_text t None) (assignment_dedupe_key uid user_id) now)) (\<lambda>_.
    ret ()))))"

definition ensure_assignment_notification :: "task \<Rightarrow> row_id \<Rightarrow> (world, unit) act" where
  "ensure_assignment_notification t user_id =
    (case t_id t of
       None \<Rightarrow> fail (internal ''TASK_ID_MISSING''
         (ascii ''Task must contain an identifier before scheduling delivery'')
         (JObj [(''task_uid'', JUuid (t_task_uid t))]))
     | Some task_id \<Rightarrow>
        tryA (find_latest_for_task_and_recipient task_id user_id TaskAssigned) (\<lambda>existing.
        case existing of
          None \<Rightarrow> enqueue_assignment_notification t user_id
        | Some n \<Rightarrow>
            if should_keep_existing_notification n then ret ()
            else requeue_assignment_notification n))"

definition recover_one :: "row_id \<Rightarrow> row_id \<Rightarrow> nat \<Rightarrow> task \<Rightarrow> (world, nat) act" where
  "recover_one user_id employee_id recovered_count t =
    tryA (link_task_to_registered_user t user_id employee_id) (\<lambda>linked.
    case linked of
      None \<Rightarrow> ret recovered_count
    | Some saved_task \<Rightarrow>
        tryA (log_recovered_assignment saved_task user_id employee_id) (\<lambda>_.
        tryA (ensure_assignment_notification saved_task user_id) (\<lambda>_.
        ret (recovered_count + 1))))"

definition recover_task_batch :: "task list \<Rightarrow> row_id \<Rightarrow> row_id \<Rightarrow> (world, nat) act" where
  "recover_task_batch tasks user_id employee_id = foldA (recover_one user_id employee_id) 0 tasks"

fun recover_batches :: "nat \<Rightarrow> row_id \<Rightarrow> row_id \<Rightarrow> (world, unit) act" where
  "recover_batches 0 user_id employee_id = ret ()"
| "recover_batches (Suc n) user_id employee_id =
    tryA (list_open_assigned_to_employee_without_user employee_id
            REGISTRATION_RECOVERY_TASK_BATCH_SIZE) (\<lambda>tasks.
    if tasks = [] then ret ()
    else
      tryA (recover_task_batch tasks user_id employee_id) (\<lambda>recovered_count.
      if recovered_count = 0 \<or> length tasks < REGISTRATION_RECOVERY_TASK_BATCH_SIZE then ret ()
      else recover_batches n user_id employee_id))"

definition recover_pending_assignments :: "user \<Rightarrow> employee option \<Rightarrow> (world, unit) act" where
  "recover_pending_assignments u employee_opt =
    (case Option.bind employee_opt e_id of
       None \<Rightarrow> ret ()
     | Some employee_id \<Rightarrow>
        tryA (lift (ok_or (internal ''USER_ID_MISSING''
                (ascii ''Persisted user must contain a database identifier'')
                (JObj [(''telegram_id'', JNum (u_telegram_id u))])) (u_id u))) (\<lambda>user_id.
        recover_batches MAX_REGISTRATION_RECOVERY_BATCHES user_id employee_id))"

subsection \<open>The use case\<close>

definition resolve_employee_for_decision ::
  "unicode \<Rightarrow> incoming_message \<Rightarrow> link_decision \<Rightarrow> (world, employee option) act" where
  "resolve_employee_for_decision U m decision =
    (case decision of
       ContinueUnlinked \<Rightarrow> ret None
     | LinkEmployee employee_id \<Rightarrow> find_employee_by_id employee_id
     | LinkAuto \<Rightarrow>
        tryA (preview_linking U m) (\<lambda>preview.
        case preview of
          LinkReady (LinkEmployee employee_id) \<Rightarrow> find_employee_by_id employee_id
        | LinkReady ContinueUnlinked \<Rightarrow> ret None
        | _ \<Rightarrow> fail (business_rule ''REGISTRATION_LINK_DECISION_REQUIRED''
                 (ascii ''Registration requires an explicit linking decision'')
                 (JObj [(''telegram_id'', JNum (m_sender_id m))]))))"

definition persist_user :: "incoming_message \<Rightarrow> employee option \<Rightarrow> (world, user) act" where
  "persist_user m employee_opt =
     upsert_from_message ((from_message m User (employee_opt \<noteq> None))
       \<lparr> u_linked_employee_id := Option.bind employee_opt e_id \<rparr>)"

definition execute_with_link_decision ::
  "unicode \<Rightarrow> incoming_message \<Rightarrow> link_decision \<Rightarrow> (world, user) act" where
  "execute_with_link_decision U m decision =
    tryA (resolve_employee_for_decision U m decision) (\<lambda>employee_opt.
    tryA (persist_user m employee_opt) (\<lambda>actor.
    tryA (recover_pending_assignments actor employee_opt) (\<lambda>_.
    ret actor)))"

definition register_user :: "unicode \<Rightarrow> incoming_message \<Rightarrow> (world, user) act" where
  "register_user U m =
    tryA (preview_linking U m) (\<lambda>preview.
    case preview of
      LinkReady decision \<Rightarrow> execute_with_link_decision U m decision
    | LinkClarification _ \<Rightarrow> fail (business_rule ''REGISTRATION_LINK_CLARIFICATION_REQUIRED''
        (ascii ''Registration requires explicit employee clarification'')
        (JObj [(''telegram_id'', JNum (m_sender_id m))])))"

end
