(* ===== verification/Person_Name.thy ===== *)
theory Person_Name
  imports Actions Unicode_Text
begin

section \<open>Person names\<close>

text \<open>
  \<^verbatim>\<open>src/domain/person_name.rs\<close>: the validated pair of first and last name, its display forms and the
  trigrams of the assignee index.
\<close>

definition MAX_PERSON_NAME_PART_LENGTH :: nat where "MAX_PERSON_NAME_PART_LENGTH = 64"
definition MIN_PERSON_NAME_PART_LENGTH :: nat where "MIN_PERSON_NAME_PART_LENGTH = 1"

record person_name =
  pn_first :: utext
  pn_last :: utext

definition normalize_part :: "utext \<Rightarrow> utext" where
  "normalize_part value = squeeze (filter (\<lambda>c. \<not> is_control c) value)"

definition is_allowed_name_character :: "unicode \<Rightarrow> uchar \<Rightarrow> bool" where
  "is_allowed_name_character U c \<longleftrightarrow>
     uc_is_alphabetic U c \<or> uc_is_numeric U c \<or> c = 32 \<or> c = 45 \<or> c = 39"

definition validate_part :: "unicode \<Rightarrow> string \<Rightarrow> utext \<Rightarrow> unit result" where
  "validate_part U field normalized =
    (let char_count = length normalized in
     if char_count < MIN_PERSON_NAME_PART_LENGTH then
       Inl (schema_validation ''PERSON_NAME_EMPTY'' (ascii (field @ '' must not be empty''))
         (JObj [(''field'', jstr field)]))
     else if char_count > MAX_PERSON_NAME_PART_LENGTH then
       Inl (schema_validation ''PERSON_NAME_TOO_LONG''
         (ascii (field @ '' exceeds the supported length''))
         (JObj [(''field'', jstr field), (''limit'', JNum (int MAX_PERSON_NAME_PART_LENGTH))]))
     else if \<not> list_all (is_allowed_name_character U) normalized then
       Inl (schema_validation ''PERSON_NAME_INVALID_CHARACTERS''
         (ascii (field @ '' contains characters that are not allowed''))
         (JObj [(''field'', jstr field)]))
     else Inr ())"

definition parse_person_name :: "unicode \<Rightarrow> utext \<Rightarrow> utext \<Rightarrow> person_name result" where
  "parse_person_name U first_raw last_raw =
    (let first_name = normalize_part first_raw; last_name = normalize_part last_raw in
     tryR (validate_part U ''first_name'' first_name) (\<lambda>_.
     tryR (validate_part U ''last_name'' last_name) (\<lambda>_.
     Inr \<lparr> pn_first = first_name, pn_last = last_name \<rparr>)))"

definition parse_first_only :: "unicode \<Rightarrow> utext \<Rightarrow> utext result" where
  "parse_first_only U first_raw =
    (let first_name = normalize_part first_raw in
     tryR (validate_part U ''first_name'' first_name) (\<lambda>_. Inr first_name))"

definition parse_last_with_first :: "unicode \<Rightarrow> utext \<Rightarrow> utext \<Rightarrow> person_name result" where
  "parse_last_with_first U first_name last_raw =
    (let last_name = normalize_part last_raw in
     tryR (validate_part U ''last_name'' last_name) (\<lambda>_.
     Inr \<lparr> pn_first = first_name, pn_last = last_name \<rparr>))"

definition person_display :: "person_name \<Rightarrow> utext" where
  "person_display n = pn_first n @ [32] @ pn_last n"

definition person_display_reversed :: "person_name \<Rightarrow> utext" where
  "person_display_reversed n = pn_last n @ [32] @ pn_first n"

text \<open>The Cyrillic letter yo (1105) counts as ye (1077).\<close>

definition canonical_for_trigrams :: "unicode \<Rightarrow> utext \<Rightarrow> utext" where
  "canonical_for_trigrams U value =
     squeeze (filter (\<lambda>c. uc_is_alphanumeric U c \<or> is_whitespace c)
       (replace_char 1105 1077 (uc_to_lowercase U value)))"

fun windows3 :: "utext \<Rightarrow> utext list" where
  "windows3 (a # b # c # cs) = [a, b, c] # windows3 (b # c # cs)"
| "windows3 _ = []"

definition trigrams :: "unicode \<Rightarrow> person_name \<Rightarrow> utext list" where
  "trigrams U n =
    (let canonical = canonical_for_trigrams U (pn_first n @ [32] @ pn_last n) in
     if length canonical < 3 then [canonical] else windows3 canonical)"

subsection \<open>Names are in normal form\<close>

definition part_ok :: "unicode \<Rightarrow> utext \<Rightarrow> bool" where
  "part_ok U s \<longleftrightarrow> s \<noteq> [] \<and> length s \<le> 64 \<and> normalize_part s = s
     \<and> (\<forall>c \<in> set s. is_allowed_name_character U c \<and> \<not> is_control c)"

lemma normalize_no_control: "c \<in> set (normalize_part s) \<Longrightarrow> \<not> is_control c"
  using set_squeeze[of "filter (\<lambda>c. \<not> is_control c) s"]
  by (auto simp: normalize_part_def is_control_def)

lemma normalize_idem [simp]: "normalize_part (normalize_part s) = normalize_part s"
proof -
  have "filter (\<lambda>c. \<not> is_control c) (normalize_part s) = normalize_part s"
    using normalize_no_control by (intro filter_True) blast
  then show ?thesis
    unfolding normalize_part_def[of "normalize_part s"] by (simp add: normalize_part_def)
qed

lemma validate_part_iff: "validate_part U field s = Inr () \<longleftrightarrow>
    s \<noteq> [] \<and> length s \<le> 64 \<and> (\<forall>c \<in> set s. is_allowed_name_character U c)"
  by (auto simp: validate_part_def Let_def MIN_PERSON_NAME_PART_LENGTH_def
      MAX_PERSON_NAME_PART_LENGTH_def list_all_iff)

lemma validated_part_ok: "validate_part U field (normalize_part s) = Inr () \<Longrightarrow> part_ok U (normalize_part s)"
  using normalize_no_control[of _ s] by (auto simp: validate_part_iff part_ok_def)

lemma part_ok_validates: "part_ok U s \<Longrightarrow> validate_part U field s = Inr ()"
  by (simp add: validate_part_iff part_ok_def)

text \<open>A parsed name is well-formed and stays what it is: both parts are non-empty, at most 64
  characters long, made of allowed characters only, free of control characters and of leading,
  trailing and repeated white space, and parsing the parts again gives the same name.\<close>
theorem parsed_name_well_formed:
  assumes "parse_person_name U first_raw last_raw = Inr n"
  shows "part_ok U (pn_first n) \<and> part_ok U (pn_last n)
    \<and> parse_person_name U (pn_first n) (pn_last n) = Inr n"
proof -
  have n: "n = \<lparr> pn_first = normalize_part first_raw, pn_last = normalize_part last_raw \<rparr>"
    and v: "validate_part U ''first_name'' (normalize_part first_raw) = Inr ()"
      "validate_part U ''last_name'' (normalize_part last_raw) = Inr ()"
    using assms by (auto simp: parse_person_name_def Let_def tryR_eq_Inr)
  then have "part_ok U (pn_first n)" "part_ok U (pn_last n)" by (simp_all add: validated_part_ok)
  moreover have "parse_person_name U (pn_first n) (pn_last n) = Inr n"
    using v by (simp add: parse_person_name_def Let_def n)
  ultimately show ?thesis by simp
qed

definition ascii_letters :: unicode where
  "ascii_letters = \<lparr> uc_is_alphabetic = (\<lambda>c. 65 \<le> c \<and> c \<le> 90 \<or> 97 \<le> c \<and> c \<le> 122),
     uc_is_numeric = is_ascii_digit, uc_to_lowercase = to_ascii_lowercase \<rparr>"

theorem parsed_name_well_formed_witness:
  "\<exists>n. parse_person_name ascii_letters (ascii ''  Anna  Maria '') (ascii ''Lee'') = Inr n
     \<and> pn_first n = ascii ''Anna Maria''
     \<and> parse_person_name ascii_letters (pn_first n) (pn_last n) = Inr n"
proof -
  have "\<exists>n. parse_person_name ascii_letters (ascii ''  Anna  Maria '') (ascii ''Lee'') = Inr n
     \<and> pn_first n = ascii ''Anna Maria''"
    by (simp add: parse_person_name_def normalize_part_def squeeze_def split_whitespace_def ascii_def
        is_control_def is_whitespace_def validate_part_def MIN_PERSON_NAME_PART_LENGTH_def
        MAX_PERSON_NAME_PART_LENGTH_def is_allowed_name_character_def ascii_letters_def Let_def)
  then show ?thesis using parsed_name_well_formed by blast
qed

end
