(* ===== verification/Onboarding.thy ===== *)
theory Onboarding
  imports Registration Person_Name
begin

section \<open>Onboarding\<close>

text \<open>
  \<^verbatim>\<open>src/application/use_cases/onboarding/mod.rs\<close>: the dialogue that collects a person's first and last
  name and links the account with an employee. Every step is guarded by the version of the
  onboarding session it was read with. \<open>now\<close> is the time of the principal's context.
\<close>

datatype onboarding_retry_reason =
    FirstNameInvalid
  | LastNameInvalid
  | LinkSelectionExpected
  | TooLong

datatype onboarding_outcome =
    AskFirstName user
  | AskLastName user
  | AskEmployeeLink user link_clarification
  | OnboardingDone user
  | RetryPrompt onboarding_retry_reason

datatype link_selection = PickEmployee row_id | ContinueWithoutLink

definition onboarding_invalid_state_error :: "user \<Rightarrow> app_error" where
  "onboarding_invalid_state_error u =
     internal ''ONBOARDING_STATE_INVALID''
       (ascii ''Cannot complete onboarding without captured first/last name'')
       (JObj [(''user_id'', jopt JNum (u_id u)),
              (''state'', jstr (onboarding_storage (u_onboarding_state u)))])"

definition outcome_for :: "user \<Rightarrow> onboarding_outcome" where
  "outcome_for u =
    (case u_onboarding_state u of
       AwaitingFirstName \<Rightarrow> AskFirstName u
     | AwaitingLastName \<Rightarrow> AskLastName u
     | AwaitingEmployeeLink \<Rightarrow> AskEmployeeLink u
         \<lparr> lc_message = txt_choose_yourself, lc_candidates = [], lc_allow_continue_unlinked = True \<rparr>
     | OnboardingCompleted \<Rightarrow> OnboardingDone u)"

definition handle_start :: "instant \<Rightarrow> incoming_message \<Rightarrow> (world, onboarding_outcome) act" where
  "handle_start now m =
    tryA (ensure_onboarding_session (m_sender_id m) (m_chat_id m) (m_sender_username m)
            (Some (m_sender_name m)) now) (\<lambda>u.
    ret (outcome_for u))"

definition require_active_session :: "int \<Rightarrow> (world, user) act" where
  "require_active_session telegram_id =
    tryA (find_by_telegram_id telegram_id) (\<lambda>found.
    lift (ok_or (not_found ''USER_NOT_FOUND''
      (ascii ''Onboarding session does not exist; send /start first'')
      (JObj [(''telegram_id'', JNum telegram_id)])) found))"

definition step_first_name :: "unicode \<Rightarrow> instant \<Rightarrow> user \<Rightarrow> utext \<Rightarrow> (world, onboarding_outcome) act" where
  "step_first_name U now u text =
    (if length text > MAX_PERSON_NAME_PART_LENGTH then ret (RetryPrompt TooLong)
     else case parse_first_only U text of
       Inl _ \<Rightarrow> ret (RetryPrompt FirstNameInvalid)
     | Inr first_name \<Rightarrow>
        tryA (lift (ok_or (onboarding_invalid_state_error u) (u_id u))) (\<lambda>user_id.
        tryA (save_onboarding_progress user_id (u_onboarding_version u) AwaitingLastName
                (Some first_name) None now) (\<lambda>updated.
        ret (AskLastName updated))))"

definition employee_to_link :: "link_decision \<Rightarrow> row_id option" where
  "employee_to_link decision = (case decision of LinkEmployee i \<Rightarrow> Some i | _ \<Rightarrow> None)"

definition step_last_name ::
  "unicode \<Rightarrow> instant \<Rightarrow> user \<Rightarrow> utext \<Rightarrow> incoming_message \<Rightarrow> (world, onboarding_outcome) act" where
  "step_last_name U now u text m =
    (if length text > MAX_PERSON_NAME_PART_LENGTH then ret (RetryPrompt TooLong)
     else case parse_last_with_first U (case u_first_name u of None \<Rightarrow> [] | Some f \<Rightarrow> f) text of
       Inl _ \<Rightarrow> ret (RetryPrompt LastNameInvalid)
     | Inr name \<Rightarrow>
        tryA (lift (ok_or (onboarding_invalid_state_error u) (u_id u))) (\<lambda>user_id.
        tryA (save_onboarding_progress user_id (u_onboarding_version u) AwaitingEmployeeLink
                None (Some (pn_last name)) now) (\<lambda>updated.
        tryA (preview_linking U m) (\<lambda>preview.
        case preview of
          LinkReady decision \<Rightarrow>
            tryA (lift (ok_or (onboarding_invalid_state_error updated) (u_id updated))) (\<lambda>updated_id.
            tryA (complete_onboarding updated_id (u_onboarding_version updated) (pn_first name)
                    (pn_last name) (employee_to_link decision) now) (\<lambda>completed_user.
            tryA (execute_with_link_decision U m decision) (\<lambda>_.
            ret (OnboardingDone completed_user))))
        | LinkClarification clarification \<Rightarrow> ret (AskEmployeeLink updated clarification)))))"

definition handle_text ::
  "unicode \<Rightarrow> instant \<Rightarrow> incoming_message \<Rightarrow> utext \<Rightarrow> (world, onboarding_outcome) act" where
  "handle_text U now m text =
    tryA (require_active_session (m_sender_id m)) (\<lambda>u.
    case u_onboarding_state u of
      AwaitingFirstName \<Rightarrow> step_first_name U now u text
    | AwaitingLastName \<Rightarrow> step_last_name U now u text m
    | AwaitingEmployeeLink \<Rightarrow> ret (RetryPrompt LinkSelectionExpected)
    | OnboardingCompleted \<Rightarrow> ret (OnboardingDone u))"

definition handle_link_selection ::
  "unicode \<Rightarrow> instant \<Rightarrow> incoming_message \<Rightarrow> link_selection \<Rightarrow> (world, onboarding_outcome) act" where
  "handle_link_selection U now m selection =
    tryA (require_active_session (m_sender_id m)) (\<lambda>u.
    let decision = (case selection of PickEmployee i \<Rightarrow> LinkEmployee i
                    | ContinueWithoutLink \<Rightarrow> ContinueUnlinked) in
    tryA (lift (ok_or (onboarding_invalid_state_error u) (u_first_name u))) (\<lambda>first_name.
    tryA (lift (ok_or (onboarding_invalid_state_error u) (u_last_name u))) (\<lambda>last_name.
    tryA (lift (ok_or (onboarding_invalid_state_error u) (u_id u))) (\<lambda>user_id.
    tryA (complete_onboarding user_id (u_onboarding_version u) first_name last_name
            (employee_to_link decision) now) (\<lambda>completed_user.
    tryA (execute_with_link_decision U m decision) (\<lambda>_.
    ret (OnboardingDone completed_user)))))))"

definition fetch_link_clarification ::
  "unicode \<Rightarrow> incoming_message \<Rightarrow> (world, link_clarification) act" where
  "fetch_link_clarification U m =
    tryA list_active_employees (\<lambda>_.
    tryA (preview_linking U m) (\<lambda>preview.
    case preview of
      LinkClarification clarification \<Rightarrow> ret clarification
    | LinkReady _ \<Rightarrow> ret \<lparr> lc_message = txt_found_you, lc_candidates = [],
        lc_allow_continue_unlinked = True \<rparr>))"

definition probe_onboarding_state :: "int \<Rightarrow> (world, user option) act" where
  "probe_onboarding_state telegram_id = find_by_telegram_id telegram_id"

end
