(* ===== verification/Name_Matching.thy ===== *)
theory Name_Matching
  imports Complex_Main Records Unicode_Text "HOL-Library.List_Lexorder"
begin

section \<open>Matching a name against the directory\<close>

text \<open>
  \<^verbatim>\<open>src/domain/name_matching.rs\<close>: from the words a person used for an assignee to an employee, a
  suggestion or a list. The normalised Levenshtein similarity is the crate strsim's and a parameter
  \<open>similar\<close> of the model, a number between 0 and 1; it is used in exact arithmetic, where the
  program computes with doubles.
\<close>

type_synonym similarity = "utext \<Rightarrow> utext \<Rightarrow> rat"

definition HIGH_CONFIDENCE_THRESHOLD :: nat where "HIGH_CONFIDENCE_THRESHOLD = 95"
definition SUGGESTED_CONFIDENCE_THRESHOLD :: nat where "SUGGESTED_CONFIDENCE_THRESHOLD = 75"
definition PREFIX_MATCH_CONFIDENCE :: nat where "PREFIX_MATCH_CONFIDENCE = 78"
definition MIN_PREFIX_QUERY_LEN :: nat where "MIN_PREFIX_QUERY_LEN = 2"
definition MIN_EMPLOYEE_MATCH_CONFIDENCE :: rat where "MIN_EMPLOYEE_MATCH_CONFIDENCE = 8 / 10"

lemmas confidence_defs = HIGH_CONFIDENCE_THRESHOLD_def SUGGESTED_CONFIDENCE_THRESHOLD_def
  PREFIX_MATCH_CONFIDENCE_def

datatype employee_query_kind = UsernameQuery | FirstNameQuery | FullNameQuery

datatype ranked_outcome =
    RankedUnique employee_match
  | RankedSuggested employee_match "employee_match list"
  | RankedAmbiguous "employee_match list"
  | RankedNotFound

subsection \<open>Normal forms\<close>

definition normalize_name :: "unicode \<Rightarrow> utext \<Rightarrow> utext" where
  "normalize_name U value = squeeze (replace_char 1105 1077 (uc_to_lowercase U (trim value)))"

definition normalize_username :: "unicode \<Rightarrow> utext \<Rightarrow> utext" where
  "normalize_username U value = uc_to_lowercase U (trim_start_by (\<lambda>c. c = 64) (trim value))"

definition first_name :: "unicode \<Rightarrow> employee \<Rightarrow> utext" where
  "first_name U e =
     (case split_whitespace (e_full_name e) of [] \<Rightarrow> [] | w # _ \<Rightarrow> normalize_name U w)"

definition classify_query :: "unicode \<Rightarrow> utext \<Rightarrow> employee_query_kind" where
  "classify_query U value =
    (if starts_with [64] (trim_start_by is_whitespace value) then UsernameQuery
     else if length (split_whitespace (normalize_name U value)) \<le> 1 then FirstNameQuery
     else FullNameQuery)"

subsection \<open>Candidates\<close>

text \<open>A stable sort by descending confidence and then by name: the sort by the name first.\<close>

definition sort_matches :: "employee_match list \<Rightarrow> employee_match list" where
  "sort_matches ms =
     sort_key (\<lambda>m. - int (em_confidence m)) (sort_key (\<lambda>m. e_full_name (em_employee m)) ms)"

definition exact_match :: "match_strategy \<Rightarrow> employee \<Rightarrow> employee_match" where
  "exact_match strategy e = \<lparr> em_employee = e, em_confidence = 100, em_strategy = strategy \<rparr>"

definition collect_matches ::
  "similarity \<Rightarrow> employee list \<Rightarrow> utext \<Rightarrow> match_strategy \<Rightarrow> (employee \<Rightarrow> utext) \<Rightarrow> employee_match list" where
  "collect_matches similar employees normalized_query strategy extractor =
     take 3 (sort_matches (List.map_filter (\<lambda>e.
       let similarity = similar normalized_query (extractor e) in
       if similarity < MIN_EMPLOYEE_MATCH_CONFIDENCE then None
       else Some \<lparr> em_employee = e, em_confidence = nat (round (similarity * 100)),
                   em_strategy = strategy \<rparr>) employees))"

definition resolve_exact_matches :: "employee_match list \<Rightarrow> employee_match_outcome option" where
  "resolve_exact_matches ms =
     (case ms of [] \<Rightarrow> None | [m] \<Rightarrow> Some (UniqueMatch m) | _ \<Rightarrow> Some (AmbiguousMatch ms))"

definition resolve_suggestions :: "employee_match list \<Rightarrow> employee_match_outcome" where
  "resolve_suggestions ms = (if ms = [] then NoMatch else AmbiguousMatch ms)"

definition prefix_matches :: "unicode \<Rightarrow> utext \<Rightarrow> employee list \<Rightarrow> employee_match list" where
  "prefix_matches U normalized_query employees =
     map (\<lambda>e. \<lparr> em_employee = e, em_confidence = PREFIX_MATCH_CONFIDENCE,
                em_strategy = PrefixFirstName \<rparr>)
       (filter (\<lambda>e. starts_with normalized_query (first_name U e)
                \<and> length (first_name U e) > length normalized_query) employees)"

definition match_first_name ::
  "unicode \<Rightarrow> similarity \<Rightarrow> utext \<Rightarrow> employee list \<Rightarrow> employee_match_outcome" where
  "match_first_name U similar normalized_query employees =
    (case resolve_exact_matches (map (exact_match ExactFirstName)
        (filter (\<lambda>e. first_name U e = normalized_query) employees)) of
       Some outcome \<Rightarrow> outcome
     | None \<Rightarrow>
        (let prefixes = (if length normalized_query \<ge> MIN_PREFIX_QUERY_LEN
                         then prefix_matches U normalized_query employees else []) in
         case prefixes of
           [m] \<Rightarrow> UniqueMatch m
         | _ # _ # _ \<Rightarrow> AmbiguousMatch (sort_matches prefixes)
         | [] \<Rightarrow> resolve_suggestions
             (collect_matches similar employees normalized_query SuggestedFirstName (first_name U))))"

definition match_employee_name ::
  "unicode \<Rightarrow> similarity \<Rightarrow> utext \<Rightarrow> employee list \<Rightarrow> employee_match_outcome" where
  "match_employee_name U similar query employees =
    (let normalized_query = normalize_name U query;
         normalized_username_query = normalize_username U query in
     case find (\<lambda>e. map_option (normalize_username U) (e_telegram_username e)
                   = Some normalized_username_query) employees of
       Some e \<Rightarrow> UniqueMatch (exact_match ExactUsername e)
     | None \<Rightarrow>
        (case find (\<lambda>e. normalize_name U (e_full_name e) = normalized_query) employees of
           Some e \<Rightarrow> UniqueMatch (exact_match ExactFullName e)
         | None \<Rightarrow>
            if classify_query U query = FirstNameQuery
            then match_first_name U similar normalized_query employees
            else resolve_suggestions (collect_matches similar employees normalized_query
                   SuggestedFullName (\<lambda>e. normalize_name U (e_full_name e)))))"

subsection \<open>Ranking\<close>

definition rank_outcome :: "employee_match_outcome \<Rightarrow> ranked_outcome" where
  "rank_outcome outcome =
    (case outcome of
       UniqueMatch best \<Rightarrow>
        (if em_confidence best \<ge> HIGH_CONFIDENCE_THRESHOLD then RankedUnique best
         else if em_confidence best \<ge> SUGGESTED_CONFIDENCE_THRESHOLD then RankedSuggested best []
         else RankedNotFound)
     | AmbiguousMatch candidates \<Rightarrow>
        (let filtered = filter (\<lambda>c. em_confidence c \<ge> SUGGESTED_CONFIDENCE_THRESHOLD) candidates in
         case filtered of
           [] \<Rightarrow> RankedNotFound
         | [best] \<Rightarrow>
             if em_confidence best \<ge> HIGH_CONFIDENCE_THRESHOLD then RankedUnique best
             else RankedSuggested best []
         | best # second # others \<Rightarrow>
             if em_confidence best \<ge> HIGH_CONFIDENCE_THRESHOLD
                \<and> em_confidence second < SUGGESTED_CONFIDENCE_THRESHOLD then RankedUnique best
             else if em_confidence best \<ge> SUGGESTED_CONFIDENCE_THRESHOLD
             then RankedSuggested best (second # others)
             else RankedAmbiguous filtered)
     | NoMatch \<Rightarrow> RankedNotFound)"
subsection \<open>What a match means\<close>

lemma set_sort_matches [simp]: "set (sort_matches ms) = set ms"
  by (simp add: sort_matches_def)

lemma length_sort_matches [simp]: "length (sort_matches ms) = length ms"
  by (simp add: sort_matches_def)

lemma collected_confidence:
  assumes "m \<in> set (collect_matches similar es q strategy key)"
  shows "80 \<le> em_confidence m" "em_employee m \<in> set es" "em_strategy m = strategy"
    "em_confidence m = nat (round (similar q (key (em_employee m)) * 100))"
proof -
  from set_take_subset assms have "m \<in> set (List.map_filter (\<lambda>e.
       let similarity = similar q (key e) in
       if similarity < MIN_EMPLOYEE_MATCH_CONFIDENCE then None
       else Some \<lparr> em_employee = e, em_confidence = nat (round (similarity * 100)),
                   em_strategy = strategy \<rparr>) es)"
    unfolding collect_matches_def by fastforce
  then obtain e where e: "e \<in> set es" "8 / 10 \<le> similar q (key e)"
    "m = \<lparr> em_employee = e, em_confidence = nat (round (similar q (key e) * 100)),
           em_strategy = strategy \<rparr>"
    by (auto simp: map_filter_def Let_def MIN_EMPLOYEE_MATCH_CONFIDENCE_def not_less split: if_splits)
  from e(2) have "80 \<le> similar q (key e) * 100" by simp
  then have "round (80 :: rat) \<le> round (similar q (key e) * 100)" by (rule round_mono)
  then have "80 \<le> round (similar q (key e) * 100)" by simp
  with e show "80 \<le> em_confidence m" "em_employee m \<in> set es" "em_strategy m = strategy"
    "em_confidence m = nat (round (similar q (key (em_employee m)) * 100))"
    by simp_all
qed

text \<open>One candidate means one employee that is similar enough.\<close>

lemma collected_single:
  assumes "collect_matches similar es q strategy key = [m]"
  shows "filter (\<lambda>e. MIN_EMPLOYEE_MATCH_CONFIDENCE \<le> similar q (key e)) es = [em_employee m]"
proof -
  define ms where "ms = List.map_filter (\<lambda>e.
       let similarity = similar q (key e) in
       if similarity < MIN_EMPLOYEE_MATCH_CONFIDENCE then None
       else Some \<lparr> em_employee = e, em_confidence = nat (round (similarity * 100)),
                   em_strategy = strategy \<rparr>) es"
  have "take 3 (sort_matches ms) = [m]" using assms by (simp add: collect_matches_def ms_def)
  then have "sort_matches ms = [m]" by (cases "sort_matches ms") auto
  then have "length ms = 1" "set ms = {m}"
    using length_sort_matches[of ms] set_sort_matches[of ms] by simp_all
  then have "ms = [m]" by (cases ms) auto
  moreover have "map em_employee ms
      = filter (\<lambda>e. MIN_EMPLOYEE_MATCH_CONFIDENCE \<le> similar q (key e)) es"
    unfolding ms_def by (induction es) (auto simp: map_filter_simps Let_def not_less)
  ultimately show ?thesis by simp
qed

lemma filter_eq_Cons: "filter P xs = y # ys \<Longrightarrow> P y \<and> (\<forall>z \<in> set ys. P z)"
proof -
  assume "filter P xs = y # ys"
  then have "set (y # ys) = {x \<in> set xs. P x}" by (metis set_filter)
  then show ?thesis by auto
qed

text \<open>No list of candidates is ever ranked ambiguous: its first entry is always suggested.\<close>

lemma rank_never_ambiguous: "rank_outcome outcome \<noteq> RankedAmbiguous ms"
proof (cases outcome)
  case (AmbiguousMatch candidates)
  show ?thesis
  proof (cases "filter (\<lambda>c. SUGGESTED_CONFIDENCE_THRESHOLD \<le> em_confidence c) candidates")
    case (Cons best others)
    with filter_eq_Cons[OF Cons] AmbiguousMatch show ?thesis
      by (simp add: rank_outcome_def split: list.split)
  qed (simp add: AmbiguousMatch rank_outcome_def)
qed (simp_all add: rank_outcome_def)

lemma rank_unique_cases:
  assumes "rank_outcome outcome = RankedUnique m"
  obtains "outcome = UniqueMatch m" "95 \<le> em_confidence m"
  | candidates where "outcome = AmbiguousMatch candidates" "95 \<le> em_confidence m"
      "filter (\<lambda>c. 75 \<le> em_confidence c) candidates = [m]"
proof (cases outcome)
  case (AmbiguousMatch candidates)
  let ?credible = "filter (\<lambda>c. 75 \<le> em_confidence c) candidates"
  have "?credible = [m] \<and> 95 \<le> em_confidence m"
  proof (cases ?credible)
    case (Cons best others)
    with filter_eq_Cons[OF Cons] AmbiguousMatch assms show ?thesis
      by (simp add: rank_outcome_def confidence_defs split: list.splits if_splits)
  qed (use AmbiguousMatch assms in \<open>simp add: rank_outcome_def confidence_defs\<close>)
  with AmbiguousMatch that(2) show ?thesis by simp
qed (use assms that(1) in \<open>simp_all add: rank_outcome_def confidence_defs split: if_splits\<close>)

subsection \<open>Who is assigned without a question\<close>

text \<open>
  \<open>names_employee\<close> is the contract of an automatic assignment: the words are the username of the
  employee, the first of the list who has it, or else the full name, again of the first who bears it, or
  else the first name of exactly one employee, or else the employee is the only one whose name is
  similar at all, and it is at least 95 percent similar.
\<close>

definition only_similar ::
  "similarity \<Rightarrow> utext \<Rightarrow> (employee \<Rightarrow> utext) \<Rightarrow> employee list \<Rightarrow> employee \<Rightarrow> bool" where
  "only_similar similar q key es e \<longleftrightarrow>
     filter (\<lambda>r. MIN_EMPLOYEE_MATCH_CONFIDENCE \<le> similar q (key r)) es = [e]
     \<and> 95 \<le> round (similar q (key e) * 100)"

definition bears_username :: "unicode \<Rightarrow> utext \<Rightarrow> employee \<Rightarrow> bool" where
  "bears_username U query e \<longleftrightarrow>
     map_option (normalize_username U) (e_telegram_username e) = Some (normalize_username U query)"

definition bears_full_name :: "unicode \<Rightarrow> utext \<Rightarrow> employee \<Rightarrow> bool" where
  "bears_full_name U query e \<longleftrightarrow> normalize_name U (e_full_name e) = normalize_name U query"

definition names_employee :: "unicode \<Rightarrow> similarity \<Rightarrow> utext \<Rightarrow> employee list \<Rightarrow> employee \<Rightarrow> bool" where
  "names_employee U similar query es e \<longleftrightarrow>
    (case find (bears_username U query) es of Some r \<Rightarrow> e = r
     | None \<Rightarrow> (case find (bears_full_name U query) es of Some r \<Rightarrow> e = r
     | None \<Rightarrow>
         filter (\<lambda>r. first_name U r = normalize_name U query) es = [e]
         \<or> only_similar similar (normalize_name U query) (first_name U) es e
         \<or> only_similar similar (normalize_name U query) (\<lambda>r. normalize_name U (e_full_name r)) es e))"

lemma suggestion_ranked_unique:
  assumes "rank_outcome (resolve_suggestions (collect_matches similar es q strategy key)) = RankedUnique m"
  shows "only_similar similar q key es (em_employee m)" "em_employee m \<in> set es"
proof -
  let ?ms = "collect_matches similar es q strategy key"
  have "75 \<le> em_confidence x" if "x \<in> set ?ms" for x using collected_confidence(1)[OF that] by simp
  then have "filter (\<lambda>c. 75 \<le> em_confidence c) ?ms = ?ms" by (simp add: filter_id_conv)
  with assms have ms: "?ms = [m]" "95 \<le> em_confidence m"
    by (auto simp: resolve_suggestions_def elim!: rank_unique_cases split: if_splits)
  have "95 \<le> round (similar q (key (em_employee m)) * 100)"
    using ms collected_confidence(4)[of m similar es q strategy key] by (simp add: le_nat_iff)
  with collected_single[OF ms(1)] show "only_similar similar q key es (em_employee m)"
    by (simp add: only_similar_def)
  show "em_employee m \<in> set es" using collected_confidence(2)[of m similar es q strategy key] ms(1) by simp
qed

lemma first_name_ranked_unique:
  assumes "rank_outcome (match_first_name U similar q es) = RankedUnique m"
  shows "em_employee m \<in> set es
     \<and> (filter (\<lambda>r. first_name U r = q) es = [em_employee m]
        \<or> only_similar similar q (first_name U) es (em_employee m))"
proof -
  define exact where "exact = filter (\<lambda>e. first_name U e = q) es"
  define prefixes where "prefixes = (if length q \<ge> MIN_PREFIX_QUERY_LEN then prefix_matches U q es else [])"
  have low: "em_confidence x = 78" if "x \<in> set prefixes" for x
    using that by (auto simp: prefixes_def prefix_matches_def PREFIX_MATCH_CONFIDENCE_def split: if_splits)
  have outcome: "match_first_name U similar q es =
     (case resolve_exact_matches (map (exact_match ExactFirstName) exact) of
        Some outcome \<Rightarrow> outcome
      | None \<Rightarrow> (case prefixes of [p] \<Rightarrow> UniqueMatch p | _ # _ # _ \<Rightarrow> AmbiguousMatch (sort_matches prefixes)
         | [] \<Rightarrow> resolve_suggestions (collect_matches similar es q SuggestedFirstName (first_name U))))"
    by (simp only: match_first_name_def exact_def prefixes_def Let_def)
  consider e where "exact = [e]" | e e' r where "exact = e # e' # r" | "exact = []"
    by (metis list.exhaust)
  then show ?thesis
  proof cases
    case (1 e)
    then have "em_employee m = e"
      using assms by (auto simp: outcome resolve_exact_matches_def exact_match_def elim!: rank_unique_cases)
    moreover have "e \<in> set exact" using 1 by simp
    ultimately show ?thesis using 1 by (simp add: exact_def)
  next
    case (2 e e' r)
    then show ?thesis
      using assms by (auto simp: outcome resolve_exact_matches_def exact_match_def elim!: rank_unique_cases)
  next
    case 3
    show ?thesis
    proof (cases "prefixes = []")
      case True
      with 3 assms have "rank_outcome (resolve_suggestions
          (collect_matches similar es q SuggestedFirstName (first_name U))) = RankedUnique m"
        by (simp add: outcome resolve_exact_matches_def)
      from suggestion_ranked_unique[OF this] show ?thesis by simp
    next
      case False
      then obtain p ps where p: "prefixes = p # ps" by (cases prefixes) auto
      have "em_confidence m = 78"
      proof (cases ps)
        case Nil
        with 3 p assms show ?thesis
          using low by (auto simp: outcome resolve_exact_matches_def elim!: rank_unique_cases)
      next
        case (Cons p' ps')
        with 3 p assms have "rank_outcome (AmbiguousMatch (sort_matches prefixes)) = RankedUnique m"
          by (simp add: outcome resolve_exact_matches_def)
        then have "filter (\<lambda>c. 75 \<le> em_confidence c) (sort_matches prefixes) = [m]"
          by (auto elim!: rank_unique_cases)
        then have "m \<in> set (sort_matches prefixes)"
          by (metis filter_is_subset list.set_intros(1) subsetD)
        with low show ?thesis by simp
      qed
      moreover have "95 \<le> em_confidence m" using assms by (auto elim!: rank_unique_cases)
      ultimately show ?thesis by simp
    qed
  qed
qed

lemma match_employee_name_by_tier:
  "match_employee_name U similar query es =
     (case find (bears_username U query) es of
        Some e \<Rightarrow> UniqueMatch (exact_match ExactUsername e)
      | None \<Rightarrow> (case find (bears_full_name U query) es of
          Some e \<Rightarrow> UniqueMatch (exact_match ExactFullName e)
        | None \<Rightarrow>
            if classify_query U query = FirstNameQuery then match_first_name U similar (normalize_name U query) es
            else resolve_suggestions (collect_matches similar es (normalize_name U query)
              SuggestedFullName (\<lambda>e. normalize_name U (e_full_name e)))))"
  unfolding match_employee_name_def Let_def bears_username_def[abs_def] bears_full_name_def[abs_def] ..

lemma ranked_unique_names:
  assumes "rank_outcome (match_employee_name U similar query es) = RankedUnique m"
  shows "em_employee m \<in> set es \<and> names_employee U similar query es (em_employee m)"
proof -
  let ?q = "normalize_name U query"
  show ?thesis
  proof (cases "find (bears_username U query) es")
    case (Some e)
    with assms have "em_employee m = e"
      by (auto simp: match_employee_name_by_tier exact_match_def elim!: rank_unique_cases)
    with Some find_SomeD[OF Some] show ?thesis by (simp add: names_employee_def)
  next
    case no_user: None
    show ?thesis
    proof (cases "find (bears_full_name U query) es")
      case (Some e)
      with assms no_user have "em_employee m = e"
        by (auto simp: match_employee_name_by_tier exact_match_def elim!: rank_unique_cases)
      with Some no_user find_SomeD[OF Some] show ?thesis by (simp add: names_employee_def)
    next
      case None
      show ?thesis
      proof (cases "classify_query U query = FirstNameQuery")
        case True
        with assms no_user None have "rank_outcome (match_first_name U similar ?q es) = RankedUnique m"
          by (simp add: match_employee_name_by_tier)
        from first_name_ranked_unique[OF this] no_user None show ?thesis by (auto simp: names_employee_def)
      next
        case False
        with assms no_user None have "rank_outcome (resolve_suggestions (collect_matches similar es ?q
            SuggestedFullName (\<lambda>e. normalize_name U (e_full_name e)))) = RankedUnique m"
          by (simp add: match_employee_name_by_tier)
        from suggestion_ranked_unique[OF this] no_user None show ?thesis by (auto simp: names_employee_def)
      qed
    qed
  qed
qed

text \<open>Of two employees with the same full name, the full name silently means the first.\<close>

lemma namesakes_are_not_ambiguous:
  assumes "e_full_name a = e_full_name b" "e_telegram_username a = None" "e_telegram_username b = None"
  shows "rank_outcome (match_employee_name U similar (e_full_name a) [a, b])
    = RankedUnique (exact_match ExactFullName a)"
  using assms
  by (simp add: match_employee_name_def Let_def rank_outcome_def exact_match_def HIGH_CONFIDENCE_THRESHOLD_def)

end
