(* ===== verification/Assignee_Resolution.thy ===== *)
theory Assignee_Resolution
  imports Name_Matching Registration Person_Name Use_Case_Texts
begin

section \<open>Resolving an assignee\<close>

text \<open>
  \<^verbatim>\<open>src/application/use_cases/assignee_resolution.rs\<close>: the words a person used for an assignee become
  an employee and their account, or a question with candidates. Both lookups only read.
\<close>

record resolved_assignee =
  ra_user :: "user option"
  ra_employee :: "employee option"

datatype assignee_resolution =
    ResolvedTo resolved_assignee
  | ResolutionClarification clarification_request

datatype resolution_purpose = TaskCreation | Reassignment

definition nobody :: resolved_assignee where
  "nobody = \<lparr> ra_user = None, ra_employee = None \<rparr>"

definition looks_like_username :: "utext \<Rightarrow> bool" where
  "looks_like_username value =
    (let normalized = trim_start_by (\<lambda>c. c = 64) (trim value); l = length normalized in
     5 \<le> l \<and> l \<le> 32 \<and> list_all (\<lambda>c. is_ascii_alphanumeric c \<or> c = 95) normalized)"

definition looks_like_full_name :: "utext \<Rightarrow> bool" where
  "looks_like_full_name value \<longleftrightarrow> length (split_whitespace value) \<ge> 2"

definition clarification_message :: "utext \<Rightarrow> utext" where
  "clarification_message query =
     (if looks_like_full_name query then txt_similar_full_names else txt_several_with_name)"

definition suggested_message :: "utext \<Rightarrow> utext" where
  "suggested_message candidate_name = txt_you_meant @ candidate_name @ txt_confirm_assignee"

definition no_match_message :: "utext \<Rightarrow> utext" where
  "no_match_message query =
     (if looks_like_full_name query then txt_no_full_name_match else txt_no_name_match)"

definition clarify_assignee ::
  "utext \<Rightarrow> resolution_purpose \<Rightarrow> utext \<Rightarrow> employee_candidate_view list \<Rightarrow> assignee_resolution" where
  "clarify_assignee normalized_query purpose message candidates =
     ResolutionClarification \<lparr> cl_message = message, cl_requested_query = Some normalized_query,
       cl_allow_unassigned = (purpose = TaskCreation), cl_candidates = candidates,
       cl_task_body_preview = None \<rparr>"

definition resolve_user_from_employee :: "employee \<Rightarrow> (world, user option) act" where
  "resolve_user_from_employee e =
    (case e_telegram_username e of
       None \<Rightarrow> ret None
     | Some username \<Rightarrow> find_by_username (trim_start_by (\<lambda>c. c = 64) username))"

definition resolve_employee_id :: "row_id \<Rightarrow> (world, resolved_assignee) act" where
  "resolve_employee_id employee_id =
    tryA (find_employee_by_id employee_id) (\<lambda>found.
    tryA (case found of Some e \<Rightarrow> resolve_user_from_employee e | None \<Rightarrow> ret None) (\<lambda>u.
    ret \<lparr> ra_user = u, ra_employee = found \<rparr>))"

definition resolve_unmatched ::
  "utext \<Rightarrow> resolution_purpose \<Rightarrow> (world, assignee_resolution) act" where
  "resolve_unmatched normalized_query purpose =
    (if looks_like_username normalized_query then
       tryA (find_by_username (trim_start_by (\<lambda>c. c = 64) normalized_query)) (\<lambda>u.
       if u \<noteq> None then ret (ResolvedTo \<lparr> ra_user = u, ra_employee = None \<rparr>)
       else ret (clarify_assignee normalized_query purpose txt_unknown_username []))
     else ret (clarify_assignee normalized_query purpose (no_match_message normalized_query) []))"

definition resolve_with_purpose ::
  "unicode \<Rightarrow> similarity \<Rightarrow> utext \<Rightarrow> resolution_purpose \<Rightarrow> (world, assignee_resolution) act" where
  "resolve_with_purpose U similar query purpose =
    (let normalized_query = trim query in
     if normalized_query = [] then ret (ResolvedTo nobody)
     else
       tryA list_active_employees (\<lambda>employees.
       case rank_outcome (match_employee_name U similar normalized_query employees) of
         RankedUnique candidate \<Rightarrow>
           tryA (resolve_user_from_employee (em_employee candidate)) (\<lambda>u.
           ret (ResolvedTo \<lparr> ra_user = u, ra_employee = Some (em_employee candidate) \<rparr>))
       | RankedSuggested best others \<Rightarrow>
           ret (clarify_assignee normalized_query purpose
             (suggested_message (e_full_name (em_employee best)))
             (candidate_from_match best # map candidate_from_match others))
       | RankedAmbiguous candidates \<Rightarrow>
           ret (clarify_assignee normalized_query purpose (clarification_message normalized_query)
             (map candidate_from_match candidates))
       | RankedNotFound \<Rightarrow> resolve_unmatched normalized_query purpose))"

definition resolve_for_creation ::
  "unicode \<Rightarrow> similarity \<Rightarrow> utext \<Rightarrow> (world, assignee_resolution) act" where
  "resolve_for_creation U similar query = resolve_with_purpose U similar query TaskCreation"

definition resolve_for_reassignment ::
  "unicode \<Rightarrow> similarity \<Rightarrow> utext \<Rightarrow> (world, assignee_resolution) act" where
  "resolve_for_reassignment U similar query = resolve_with_purpose U similar query Reassignment"

subsection \<open>Who is assigned without a question\<close>

definition active_directory :: "world \<Rightarrow> employee list" where
  "active_directory w = sort_key e_full_name (filter e_is_active (w_employees w))"

definition has_username :: "utext \<Rightarrow> user \<Rightarrow> bool" where
  "has_username name u \<longleftrightarrow> map_option to_ascii_lowercase (u_telegram_username u)
     = Some (to_ascii_lowercase (trim_start_by (\<lambda>c. c = 64) name))"

text \<open>The account of an employee is found by the username the directory gives.\<close>

definition account_of :: "world \<Rightarrow> employee \<Rightarrow> user option \<Rightarrow> bool" where
  "account_of w e found \<longleftrightarrow>
     found = (case e_telegram_username e of None \<Rightarrow> None
              | Some name \<Rightarrow> find (has_username name) (w_users w))"

lemma trim_start_idem [simp]: "trim_start_by P (trim_start_by P s) = trim_start_by P s"
  by (simp add: trim_start_by_def)

lemma find_by_username_Inr:
  "find_by_username (trim_start_by (\<lambda>c. c = 64) name) w = (Inr found, w') \<Longrightarrow>
     found = find (has_username name) (w_users w) \<and> w_users w' = w_users w
     \<and> w_employees w' = w_employees w"
  by (auto simp: find_by_username_def select_Inr has_username_def[abs_def])

lemma resolve_user_Inr:
  "resolve_user_from_employee e w = (Inr found, w') \<Longrightarrow>
     account_of w e found \<and> w_employees w' = w_employees w"
  by (auto simp: resolve_user_from_employee_def account_of_def split: option.splits
      dest: find_by_username_Inr)

lemma directory_listed:
  "list_active_employees w = (Inr es, w') \<Longrightarrow>
     es = active_directory w \<and> w_users w' = w_users w \<and> w_employees w' = w_employees w"
  by (auto simp: list_active_employees_def select_Inr active_directory_def)

lemma unmatched_resolved:
  assumes "resolve_unmatched q purpose w = (Inr (ResolvedTo v), w')"
  shows "\<exists>u. v = \<lparr> ra_user = Some u, ra_employee = None \<rparr> \<and> u \<in> set (w_users w) \<and> has_username q u"
  using assms
  by (auto simp: resolve_unmatched_def clarify_assignee_def tryA_eq_Inr find_Some_iff
      dest!: find_by_username_Inr split: if_splits) (metis find_Some_iff nth_mem)


definition same_or_not :: similarity where
  "same_or_not a b = (if a = b then 1 else 0)"

lemma ann_lee_resolves:
  "resolve_with_purpose ascii_letters same_or_not (ascii '' ann lee'') purpose sample_world
     = (Inr (ResolvedTo \<lparr> ra_user = None, ra_employee = Some sample_employee \<rparr>), sample_world)"
proof -
  have "active_directory sample_world = [sample_employee]"
    by (simp add: active_directory_def sample_employee_def)
  moreover have "match_employee_name ascii_letters same_or_not (ascii ''ann lee'') [sample_employee]
      = UniqueMatch (exact_match ExactFullName sample_employee)"
    by (simp add: match_employee_name_def normalize_name_def normalize_username_def sample_employee_def
        squeeze_def split_whitespace_def ascii_def replace_char_def ascii_letters_def trim_def
        trim_start_by_def trim_end_by_def is_whitespace_def to_ascii_lowercase_def Let_def)
  moreover have "trim (ascii '' ann lee'') = ascii ''ann lee''"
    by (simp add: trim_def ascii_def trim_start_by_def trim_end_by_def is_whitespace_def)
  moreover have "list_active_employees sample_world = (Inr (active_directory sample_world), sample_world)"
    by (simp add: list_active_employees_def active_directory_def select_no_faults)
  moreover have "resolve_user_from_employee sample_employee sample_world = (Inr None, sample_world)"
    by (simp add: resolve_user_from_employee_def sample_employee_def find_by_username_def
        select_no_faults sample_user_def sample_creator_def sample_admin_def)
  moreover have "rank_outcome (UniqueMatch (exact_match ExactFullName sample_employee))
      = RankedUnique (exact_match ExactFullName sample_employee)"
    by (simp add: rank_outcome_def exact_match_def HIGH_CONFIDENCE_THRESHOLD_def)
  ultimately show ?thesis
    by (simp add: resolve_with_purpose_def tryA_def exact_match_def Let_def)
qed


end
