(* ===== verification/Parsing.thy ===== *)
theory Parsing
  imports User_Domain Sla Unicode_Text Use_Case_Texts
begin

section \<open>Reading a task request\<close>

text \<open>
  \<^verbatim>\<open>src/domain/parsing.rs\<close>: from a message to an assignee, a deadline and a description. The regular
  expressions are the program's; the engine that runs them, the Unicode tables, and the calendar,
  the date parsers and the time zones of the \<^verbatim>\<open>chrono\<close> crates are parameters. A panic is \<open>None\<close>.
\<close>

record regex_match =
  rm_whole :: utext
  rm_group :: "string \<Rightarrow> utext option"

record libraries =
  lb_unicode :: unicode
  lb_captures :: "utext \<Rightarrow> utext \<Rightarrow> regex_match option"
  lb_replace_all :: "utext \<Rightarrow> utext \<Rightarrow> utext \<Rightarrow> utext"
  lb_from_ymd :: "int \<Rightarrow> nat \<Rightarrow> nat \<Rightarrow> day option"
  lb_year :: "day \<Rightarrow> int"
  lb_rfc3339 :: "utext \<Rightarrow> instant option"
  lb_iso_date :: "utext \<Rightarrow> day option"
  lb_date_label :: "day \<Rightarrow> utext"
  lb_zone :: "utext \<Rightarrow> timezone option"

definition MIN_TASK_DESCRIPTION_LENGTH :: nat where "MIN_TASK_DESCRIPTION_LENGTH = 10"

text \<open>\<^verbatim>\<open>?\<close> on a computation that may also panic.\<close>

fun tryO :: "'a result option \<Rightarrow> ('a \<Rightarrow> 'b result option) \<Rightarrow> 'b result option" where
  "tryO None f = None"
| "tryO (Some (Inl e)) f = Some (Inl e)"
| "tryO (Some (Inr x)) f = f x"

lemma tryO_eq_Inr: "tryO m f = Some (Inr y) \<longleftrightarrow> (\<exists>x. m = Some (Inr x) \<and> f x = Some (Inr y))"
  by (cases "(m, f)" rule: tryO.cases) auto

subsection \<open>Text\<close>

definition normalize_whitespace :: "libraries \<Rightarrow> utext \<Rightarrow> utext" where
  "normalize_whitespace L value = lb_replace_all L WHITESPACE_REGEX (trim value) [32]"

text \<open>\<^verbatim>\<open>replacen(fragment, "", 1)\<close>\<close>

fun remove_first :: "utext \<Rightarrow> utext \<Rightarrow> utext" where
  "remove_first fragment [] = []"
| "remove_first fragment (c # cs) =
     (if starts_with fragment (c # cs) then drop (length fragment) (c # cs)
      else c # remove_first fragment cs)"

definition trim_matches :: "(uchar \<Rightarrow> bool) \<Rightarrow> utext \<Rightarrow> utext" where
  "trim_matches P s = trim_end_by P (trim_start_by P s)"

text \<open>\<^verbatim>\<open>str::parse::<u32>\<close> and \<^verbatim>\<open>str::parse::<i32>\<close>\<close>

definition parse_unsigned :: "nat \<Rightarrow> utext \<Rightarrow> nat option" where
  "parse_unsigned bound s =
     (case parse_nat (if s \<noteq> [] \<and> hd s = 43 then tl s else s) of
        None \<Rightarrow> None | Some n \<Rightarrow> if n < bound then Some n else None)"

definition parse_i32 :: "utext \<Rightarrow> int option" where
  "parse_i32 s =
     (if s \<noteq> [] \<and> hd s = 45
      then (case parse_nat (tl s) of None \<Rightarrow> None
            | Some n \<Rightarrow> if n \<le> 2 ^ 31 then Some (- int n) else None)
      else map_option int (parse_unsigned (2 ^ 31) s))"

definition invalid_deadline_error :: "string \<Rightarrow> utext \<Rightarrow> app_error" where
  "invalid_deadline_error field raw =
     schema_validation ''DEADLINE_INVALID'' (ascii ''Deadline cannot be parsed'')
       (JObj [(''field'', jstr field), (''raw'', JStr raw)])"

definition parse_u32 :: "utext option \<Rightarrow> string \<Rightarrow> nat result" where
  "parse_u32 value field =
    tryR (ok_or (invalid_deadline_error field (ascii ''missing deadline value'')) value) (\<lambda>s.
    ok_or (invalid_deadline_error field (ascii ''invalid deadline value''))
      (parse_unsigned (2 ^ 32) s))"

subsection \<open>Deadlines\<close>

type_synonym found_deadline = "day option \<times> utext option"

definition parse_absolute_deadline ::
  "libraries \<Rightarrow> utext \<Rightarrow> day \<Rightarrow> found_deadline option result" where
  "parse_absolute_deadline L message_text today =
    (case lb_captures L ABSOLUTE_DEADLINE_REGEX message_text of
       None \<Rightarrow> Inr None
     | Some captures \<Rightarrow>
        (let raw = trim (rm_whole captures) in
         tryR (parse_u32 (rm_group captures ''day'') ''day'') (\<lambda>day.
         tryR (parse_u32 (rm_group captures ''month'') ''month'') (\<lambda>month.
         tryR (case rm_group captures ''year'' of
                 None \<Rightarrow> Inr (lb_year L today)
               | Some s \<Rightarrow> ok_or (invalid_deadline_error ''year'' raw) (parse_i32 s)) (\<lambda>year.
         tryR (ok_or (invalid_deadline_error ''date'' raw) (lb_from_ymd L year month day)) (\<lambda>deadline.
         Inr (Some (Some deadline, Some raw))))))))"

definition parse_relative_deadline ::
  "libraries \<Rightarrow> utext \<Rightarrow> day \<Rightarrow> found_deadline option option" where
  "parse_relative_deadline L message_text today =
    (case Option.bind (lb_captures L RELATIVE_DEADLINE_REGEX message_text)
            (\<lambda>captures. rm_group captures ''raw'') of
       None \<Rightarrow> Some None
     | Some matched \<Rightarrow>
        (let raw = uc_to_lowercase (lb_unicode L) matched in
         if raw = txt_today \<or> raw = txt_urgently then Some (Some (Some today, Some raw))
         else if raw = txt_tomorrow then
           map_option (\<lambda>d. Some (Some d, Some raw)) (add_days today 1)
         else if raw = txt_after_tomorrow then
           map_option (\<lambda>d. Some (Some d, Some raw)) (add_days today 2)
         else Some None))"

definition period_days :: "nat \<Rightarrow> utext \<Rightarrow> int" where
  "period_days value unit =
     (if starts_with txt_days_stem unit then int value
      else max (int (min (value + 23) (2 ^ 32 - 1) div 24)) 1)"

definition parse_period_deadline ::
  "libraries \<Rightarrow> utext \<Rightarrow> day \<Rightarrow> found_deadline option result option" where
  "parse_period_deadline L message_text today =
    (case lb_captures L IN_PERIOD_REGEX message_text of
       None \<Rightarrow> Some (Inr None)
     | Some captures \<Rightarrow>
        (let raw = trim (rm_whole captures) in
         tryO (Some (parse_u32 (rm_group captures ''value'') ''value'')) (\<lambda>value.
         let unit = (case rm_group captures ''unit'' of None \<Rightarrow> [] | Some s \<Rightarrow> s) in
         map_option (\<lambda>d. Inr (Some (Some d, Some raw))) (add_days today (period_days value unit)))))"

text \<open>Weekdays are counted from Monday, 0.\<close>

definition weekday_from_russian :: "libraries \<Rightarrow> utext \<Rightarrow> nat option" where
  "weekday_from_russian L value =
    (let lowered = uc_to_lowercase (lb_unicode L) value in
     if starts_with txt_monday lowered then Some 0
     else if starts_with txt_tuesday lowered then Some 1
     else if starts_with txt_wednesday lowered then Some 2
     else if starts_with txt_thursday lowered then Some 3
     else if starts_with txt_friday lowered then Some 4
     else if starts_with txt_saturday lowered then Some 5
     else if starts_with txt_sunday lowered then Some 6
     else None)"

definition days_until_weekday :: "nat \<Rightarrow> nat \<Rightarrow> nat" where
  "days_until_weekday current_number target_number =
    (let distance = (target_number + 7 - current_number) mod 7 in
     if distance = 0 then 7 else distance)"

definition parse_weekday_deadline :: "libraries \<Rightarrow> utext \<Rightarrow> day \<Rightarrow> found_deadline option" where
  "parse_weekday_deadline L message_text today =
    (case Option.bind (lb_captures L WEEKDAY_REGEX message_text) (\<lambda>captures. rm_group captures ''raw'') of
       None \<Rightarrow> Some (None, None)
     | Some raw_match \<Rightarrow>
        (case weekday_from_russian L raw_match of
           None \<Rightarrow> Some (None, None)
         | Some target_weekday \<Rightarrow>
             map_option (\<lambda>d. (Some d, Some raw_match))
               (add_days today (int (days_until_weekday (num_days_from_monday today) target_weekday)))))"

definition extract_deadline_from_text ::
  "libraries \<Rightarrow> utext \<Rightarrow> day \<Rightarrow> found_deadline result option" where
  "extract_deadline_from_text L message_text today =
    (let normalized = normalize_whitespace L message_text in
     tryO (Some (parse_absolute_deadline L normalized today)) (\<lambda>found_absolute.
     case found_absolute of Some parsed \<Rightarrow> Some (Inr parsed) | None \<Rightarrow>
     Option.bind (parse_relative_deadline L normalized today) (\<lambda>found_relative.
     case found_relative of Some parsed \<Rightarrow> Some (Inr parsed) | None \<Rightarrow>
     tryO (parse_period_deadline L normalized today) (\<lambda>found_period.
     case found_period of Some parsed \<Rightarrow> Some (Inr parsed) | None \<Rightarrow>
     map_option Inr (parse_weekday_deadline L normalized today)))))"

definition extract_deadline :: "libraries \<Rightarrow> utext \<Rightarrow> day \<Rightarrow> found_deadline result option" where
  "extract_deadline L message_text today = extract_deadline_from_text L message_text today"

subsection \<open>The request\<close>

definition extract_assignee :: "libraries \<Rightarrow> utext \<Rightarrow> utext option \<times> utext option" where
  "extract_assignee L normalized_message =
    (case Option.bind (lb_captures L ASSIGNEE_USERNAME_REGEX normalized_message)
            (\<lambda>captures. map_option (Pair captures) (rm_group captures ''username'')) of
       Some (captures, username) \<Rightarrow> (Some (trim username), Some (rm_whole captures))
     | None \<Rightarrow>
        (case Option.bind (lb_captures L ASSIGNEE_REGEX normalized_message)
                (\<lambda>captures. map_option (Pair captures) (rm_group captures ''name'')) of
           Some (captures, name) \<Rightarrow> (Some (normalize_whitespace L name), Some (rm_whole captures))
         | None \<Rightarrow> (None, None)))"

definition build_description ::
  "libraries \<Rightarrow> utext \<Rightarrow> utext option \<Rightarrow> utext option \<Rightarrow> utext" where
  "build_description L normalized_message assignee_fragment deadline_fragment =
    (let without_assignee = (case assignee_fragment of None \<Rightarrow> normalized_message
           | Some fragment \<Rightarrow> remove_first fragment normalized_message);
         without_deadline = (case deadline_fragment of None \<Rightarrow> without_assignee
           | Some fragment \<Rightarrow> remove_first fragment without_assignee) in
     normalize_whitespace L (trim_matches (\<lambda>c. c = 46 \<or> c = 44) without_deadline))"

definition validate_description :: "libraries \<Rightarrow> utext \<Rightarrow> unit result" where
  "validate_description L description =
    (if length description < MIN_TASK_DESCRIPTION_LENGTH then
       Inl (business_rule ''TASK_DESCRIPTION_TOO_SHORT'' (ascii ''Task description is too short'')
         (JObj [(''min_length'', JNum (int MIN_TASK_DESCRIPTION_LENGTH))]))
     else
      (let alpha_count = length (filter (uc_is_alphabetic (lb_unicode L)) description);
           token_count = length (split_whitespace description) in
       if alpha_count < MIN_TASK_DESCRIPTION_LENGTH \<or> token_count < 2 then
         Inl (business_rule ''TASK_DESCRIPTION_INVALID''
           (ascii ''Task description looks incomplete or gibberish'')
           (JObj [(''description'', JStr description)]))
       else Inr ()))"

definition calculate_confidence :: "bool \<Rightarrow> bool \<Rightarrow> nat" where
  "calculate_confidence has_assignee has_deadline =
     60 + (if has_assignee then 20 else 0) + (if has_deadline then 20 else 0)"

definition parse_task_request ::
  "libraries \<Rightarrow> utext \<Rightarrow> day \<Rightarrow> parsed_task_request result option" where
  "parse_task_request L message_text today =
    (let normalized_message = normalize_whitespace L message_text;
         (assignee_name, assignee_fragment) = extract_assignee L normalized_message;
         explicit_unassigned = (lb_captures L NO_ASSIGNEE_REGEX normalized_message \<noteq> None) in
     tryO (extract_deadline L normalized_message today) (\<lambda>(deadline, deadline_raw).
     let description = build_description L normalized_message assignee_fragment deadline_raw in
     tryO (Some (validate_description L description)) (\<lambda>_.
     Some (Inr \<lparr> p_assignee_name = assignee_name, p_task_description = description,
       p_deadline = deadline, p_deadline_raw = deadline_raw,
       p_explicit_unassigned = explicit_unassigned,
       p_confidence_score = calculate_confidence (assignee_fragment \<noteq> None) (deadline \<noteq> None) \<rparr>))))"

subsection \<open>What a request holds\<close>

lemma tryO_Some [simp]: "tryO (Some r) f = (case r of Inl e \<Rightarrow> Some (Inl e) | Inr x \<Rightarrow> f x)"
  by (cases r) simp_all

lemma validate_description_iff:
  "validate_description L d = Inr () \<longleftrightarrow> MIN_TASK_DESCRIPTION_LENGTH \<le> length d
     \<and> MIN_TASK_DESCRIPTION_LENGTH \<le> length (filter (uc_is_alphabetic (lb_unicode L)) d)
     \<and> 2 \<le> length (split_whitespace d)"
  by (auto simp: validate_description_def Let_def not_less)

text \<open>A weekday means its next occurrence after today: one to seven days ahead.\<close>

lemma days_until_weekday_next:
  assumes "target < 7"
  shows "0 < days_until_weekday (num_days_from_monday today) target"
    and "days_until_weekday (num_days_from_monday today) target \<le> 7"
    and "num_days_from_monday (today + int (days_until_weekday (num_days_from_monday today) target)) = target"
proof -
  define k where "k = num_days_from_monday today"
  have k: "k < 7" "int k = (today + 3) mod 7"
    by (simp_all add: k_def num_days_from_monday_less) (simp add: num_days_from_monday_def)
  have distance: "0 < days_until_weekday k target" "days_until_weekday k target \<le> 7"
    "(k + days_until_weekday k target) mod 7 = target"
    using assms k(1) by (auto simp: days_until_weekday_def Let_def mod_simps) presburger
  then show "0 < days_until_weekday (num_days_from_monday today) target"
    "days_until_weekday (num_days_from_monday today) target \<le> 7" by (simp_all add: k_def)
  have "(today + int (days_until_weekday k target) + 3) mod 7
      = ((today + 3) mod 7 + int (days_until_weekday k target)) mod 7"
    by (simp add: mod_simps algebra_simps)
  also have "\<dots> = int ((k + days_until_weekday k target) mod 7)" by (simp add: k(2)[symmetric] zmod_int)
  finally show "num_days_from_monday (today + int (days_until_weekday (num_days_from_monday today) target)) = target"
    using distance(3)
    by (simp add: k_def[symmetric]
        num_days_from_monday_def[where d = "today + int (days_until_weekday k target)"])
qed

lemma found_deadline_has_fragment:
  assumes "extract_deadline_from_text L s today = Some (Inr (d, raw))"
  shows "d = None \<longleftrightarrow> raw = None"
  using assms
  by (auto simp: extract_deadline_from_text_def Let_def tryO_eq_Inr parse_absolute_deadline_def
      tryR_eq_Inr parse_relative_deadline_def parse_period_deadline_def parse_weekday_deadline_def
      bind_eq_Some_conv split: option.splits sum.splits if_splits)

text \<open>A number of days the calendar cannot reach ends the parse in a panic.\<close>

lemma huge_period_panics:
  assumes "lb_captures L IN_PERIOD_REGEX s = Some captures"
    and "rm_group captures ''value'' = Some (ascii ''4000000000'')"
    and "rm_group captures ''unit'' = Some (txt_days_stem @ more_text)" "0 \<le> today"
  shows "parse_period_deadline L s today = None"
proof -
  have "parse_unsigned (2 ^ 32) (ascii ''4000000000'') = Some 4000000000"
    by (simp add: parse_unsigned_def ascii_def parse_nat_def is_ascii_digit_def digits_value_def)
  with assms show ?thesis
    by (simp add: parse_period_deadline_def parse_u32_def period_days_def starts_with_def
        add_days_def NAIVE_DATE_MAX_def)
qed

end
