(* ===== verification/Deadline.thy ===== *)
theory Deadline
  imports Parsing Sla
begin

section \<open>The deadline kernel\<close>

text \<open>
  \<^verbatim>\<open>src/domain/deadline.rs\<close>: a due date from the hint of the language model, or else from the text, at
  the end of the business day in the person's zone and, with a working calendar, moved to a working
  day. A panic is \<open>None\<close>.
\<close>

definition DEFAULT_END_OF_BUSINESS_MIN :: nat where "DEFAULT_END_OF_BUSINESS_MIN = 18 * 60"

datatype deadline_source = AiStructured | DeterministicText | NoneProvided

record deadline =
  dl_utc :: "instant option"
  dl_local_date :: "day option"
  dl_raw_fragment :: "utext option"
  dl_source :: deadline_source
  dl_confidence :: nat

definition no_deadline :: deadline where
  "no_deadline = \<lparr> dl_utc = None, dl_local_date = None, dl_raw_fragment = None,
     dl_source = NoneProvided, dl_confidence = 0 \<rparr>"

definition has_value :: "deadline \<Rightarrow> bool" where
  "has_value d \<longleftrightarrow> dl_utc d \<noteq> None"

definition local_label :: "libraries \<Rightarrow> deadline \<Rightarrow> utext option" where
  "local_label L d = map_option (lb_date_label L) (dl_local_date d)"

record deadline_input =
  di_text :: utext
  di_ai_iso_hint :: "utext option"
  di_user_timezone :: timezone
  di_now_utc :: instant
  di_calendar :: "working_calendar option"

definition end_of_business_utc :: "day \<Rightarrow> timezone \<Rightarrow> working_calendar option \<Rightarrow> instant option" where
  "end_of_business_utc date zone calendar =
    (let end_min = (case calendar of None \<Rightarrow> DEFAULT_END_OF_BUSINESS_MIN
                    | Some c \<Rightarrow> unat (wc_workday_end_min c)) in
     map_option (resolve_local zone) (and_hm date (end_min div 60) (end_min mod 60)))"

text \<open>The search for the next working day tries the next 366 days.\<close>

fun next_working_day ::
  "nat \<Rightarrow> working_calendar \<Rightarrow> day \<Rightarrow> int \<Rightarrow> instant \<Rightarrow> instant option" where
  "next_working_day 0 calendar day offset candidate = Some candidate"
| "next_working_day (Suc n) calendar day offset candidate =
    (case add_days day offset of
       None \<Rightarrow> None
     | Some candidate_day \<Rightarrow>
        if is_working_day calendar candidate_day
        then end_of_business_utc candidate_day (wc_timezone calendar) (Some calendar)
        else next_working_day n calendar day (offset + 1) candidate)"

definition apply_calendar :: "instant \<Rightarrow> deadline_input \<Rightarrow> instant option" where
  "apply_calendar candidate inp =
    (case di_calendar inp of
       None \<Rightarrow> Some candidate
     | Some calendar \<Rightarrow>
        (let day = local_date (wc_timezone calendar) candidate in
         if is_working_day calendar day then Some candidate
         else next_working_day 366 calendar day 1 candidate))"

text \<open>
  A zone is chosen for the local date, the calendar for the hour. \<open>Some None\<close> means that the hint
  is not used.
\<close>

definition try_ai_iso :: "libraries \<Rightarrow> utext \<Rightarrow> deadline_input \<Rightarrow> deadline option option" where
  "try_ai_iso L hint inp =
    (let trimmed = trim hint in
     if trimmed = [] then Some None
     else
       Option.bind (case lb_rfc3339 L trimmed of
            Some instant \<Rightarrow> Some (Some instant)
          | None \<Rightarrow> (case lb_iso_date L trimmed of
                Some date \<Rightarrow> map_option Some (end_of_business_utc date (di_user_timezone inp) (di_calendar inp))
              | None \<Rightarrow> Some None)) (\<lambda>parsed.
       case parsed of
         None \<Rightarrow> Some None
       | Some parsed_utc \<Rightarrow>
          if parsed_utc < di_now_utc inp then Some None
          else map_option (\<lambda>clamped. Some \<lparr> dl_utc = Some clamped,
                 dl_local_date = Some (local_date (di_user_timezone inp) clamped),
                 dl_raw_fragment = Some trimmed, dl_source = AiStructured, dl_confidence = 100 \<rparr>)
               (apply_calendar parsed_utc inp)))"

definition deterministic_confidence :: "unicode \<Rightarrow> utext option \<Rightarrow> nat" where
  "deterministic_confidence U raw =
    (case raw of
       None \<Rightarrow> 50
     | Some value \<Rightarrow>
        (let lowered = uc_to_lowercase U value in
         if 46 \<in> set value \<or> 47 \<in> set value then 90
         else if lowered \<in> {txt_today, txt_tomorrow, txt_after_tomorrow} then 85
         else if value \<noteq> [] then (if starts_with txt_in lowered then 75 else 60)
         else 50))"

definition try_deterministic :: "libraries \<Rightarrow> deadline_input \<Rightarrow> deadline option result option" where
  "try_deterministic L inp =
    (let today_local = local_date (di_user_timezone inp) (di_now_utc inp) in
     tryO (extract_deadline_from_text L (di_text inp) today_local) (\<lambda>(date_opt, raw_opt).
     case date_opt of
       None \<Rightarrow> Some (Inr None)
     | Some date \<Rightarrow>
        map_option (\<lambda>utc. Inr (Some \<lparr> dl_utc = Some utc,
            dl_local_date = Some (local_date (di_user_timezone inp) utc),
            dl_raw_fragment = raw_opt, dl_source = DeterministicText,
            dl_confidence = deterministic_confidence (lb_unicode L) raw_opt \<rparr>))
          (Option.bind (end_of_business_utc date (di_user_timezone inp) (di_calendar inp))
             (\<lambda>t. apply_calendar t inp))))"

definition resolve_deadline :: "libraries \<Rightarrow> deadline_input \<Rightarrow> deadline result option" where
  "resolve_deadline L inp =
    Option.bind (case di_ai_iso_hint inp of None \<Rightarrow> Some None | Some hint \<Rightarrow> try_ai_iso L hint inp)
      (\<lambda>resolved.
    case resolved of
      Some d \<Rightarrow> Some (Inr d)
    | None \<Rightarrow>
        tryO (try_deterministic L inp) (\<lambda>found.
        case found of Some d \<Rightarrow> Some (Inr d) | None \<Rightarrow> Some (Inr no_deadline)))"

subsection \<open>What a deadline is\<close>

text \<open>A search that fails leaves the candidate; otherwise the result is the end of a working day.\<close>

lemma next_working_day_cases:
  assumes "next_working_day n cal day offset candidate = Some t"
  shows "t = candidate \<and> (\<forall>j. offset \<le> j \<and> j < offset + int n \<longrightarrow> \<not> is_working_day cal (day + j))
    \<or> (\<exists>k. offset \<le> k \<and> k < offset + int n \<and> is_working_day cal (day + k)
     \<and> end_of_business_utc (day + k) (wc_timezone cal) (Some cal) = Some t)"
  using assms
proof (induction n arbitrary: offset)
  case (Suc n)
  show ?case
  proof (cases "is_working_day cal (day + offset)")
    case True
    with Suc.prems have "end_of_business_utc (day + offset) (wc_timezone cal) (Some cal) = Some t"
      by (auto simp: add_days_def split: if_splits)
    with True show ?thesis by (intro disjI2 exI[of _ offset]) auto
  next
    case False
    with Suc.prems have "next_working_day n cal day (offset + 1) candidate = Some t"
      by (auto simp: add_days_def split: if_splits)
    from Suc.IH[OF this] show ?thesis
    proof (elim disjE exE conjE)
      assume none: "t = candidate"
        "\<forall>j. offset + 1 \<le> j \<and> j < offset + 1 + int n \<longrightarrow> \<not> is_working_day cal (day + j)"
      have "\<not> is_working_day cal (day + j)" if "offset \<le> j" "j < offset + int (Suc n)" for j
        using that False none(2) by (cases "j = offset") auto
      with none(1) show ?thesis by simp
    next
      fix k
      assume "offset + 1 \<le> k" "k < offset + 1 + int n" "is_working_day cal (day + k)"
        "end_of_business_utc (day + k) (wc_timezone cal) (Some cal) = Some t"
      then show ?thesis by (intro disjI2 exI[of _ k]) auto
    qed
  qed
qed auto

lemma end_of_business_fixed:
  assumes "plain_calendar off cal"
  shows "end_of_business_utc date (fixed_zone off) (Some cal)
     = Some (date * ns_per_day + uint (wc_workday_end_min cal) * ns_per_min - off)"
proof -
  have "int (unat (wc_workday_end_min cal)) < 1440"
    using assms by (simp add: plain_calendar_def)
  then have "unat (wc_workday_end_min cal) < 1440" by linarith
  then show ?thesis by (simp add: end_of_business_utc_def and_hm_of_minutes)
qed

lemma end_of_business_default:
  "end_of_business_utc date (fixed_zone off) None
     = Some (date * ns_per_day + 1080 * ns_per_min - off)"
  by (simp add: end_of_business_utc_def DEFAULT_END_OF_BUSINESS_MIN_def and_hm_def)

lemma apply_calendar_plain:
  assumes run: "apply_calendar c inp = Some t" and cal: "di_calendar inp = Some cal" "plain_calendar off cal"
  shows "c \<le> t \<and> (is_working_day cal (local_date (wc_timezone cal) t)
     \<or> (\<forall>k. 1 \<le> k \<and> k \<le> 366 \<longrightarrow> \<not> is_working_day cal (local_date (wc_timezone cal) t + k)))"
proof -
  have zone: "wc_timezone cal = fixed_zone off" and
    bounds: "0 \<le> uint (wc_workday_end_min cal)" "uint (wc_workday_end_min cal) < 1440"
    using cal(2) by (simp_all add: plain_calendar_def)
  let ?day = "local_date (wc_timezone cal) c"
  show ?thesis
  proof (cases "is_working_day cal ?day")
    case True
    with run cal show ?thesis by (simp add: apply_calendar_def)
  next
    case False
    with run cal have "next_working_day 366 cal ?day 1 c = Some t"
      by (simp add: apply_calendar_def Let_def)
    from next_working_day_cases[OF this] show ?thesis
    proof (elim disjE exE conjE)
      fix k
      assume k: "1 \<le> k" "is_working_day cal (?day + k)"
        "end_of_business_utc (?day + k) (wc_timezone cal) (Some cal) = Some t"
      define e where "e = uint (wc_workday_end_min cal) * ns_per_min"
      have e: "0 \<le> e" "e < ns_per_day"
        using bounds by (simp_all add: e_def day_minutes) (simp_all add: ns_per_min_def ns_per_sec_def)
      have t: "t + off = (?day + k) * ns_per_day + e"
        using k(3) cal(2) by (simp add: zone end_of_business_fixed e_def)
      have "local_date (wc_timezone cal) t = ?day + k"
        unfolding local_date_def using e t by (simp add: zone date_of_local local_date_def)
      moreover have "c + off < (?day + 1) * ns_per_day"
        using before_next_day[of "c + off"] by (simp add: local_date_def zone)
      moreover have "(?day + 1) * ns_per_day \<le> (?day + k) * ns_per_day"
        using k(1) by (intro mult_right_mono) (simp_all add: ns_per_day_def ns_per_sec_def)
      ultimately show ?thesis using k(2) e(1) t by (intro conjI) (linarith, simp)
    next
      assume "t = c" "\<forall>j. 1 \<le> j \<and> j < 1 + int 366 \<longrightarrow> \<not> is_working_day cal (?day + j)"
      then show ?thesis by auto
    qed
  qed
qed

lemma try_ai_iso_Some:
  assumes "try_ai_iso L hint inp = Some (Some d)"
  obtains parsed clamped where "di_now_utc inp \<le> parsed" "apply_calendar parsed inp = Some clamped"
    "d = \<lparr> dl_utc = Some clamped, dl_local_date = Some (local_date (di_user_timezone inp) clamped),
           dl_raw_fragment = Some (trim hint), dl_source = AiStructured, dl_confidence = 100 \<rparr>"
  using assms that
  by (auto simp: try_ai_iso_def Let_def bind_eq_Some_conv not_less split: option.splits if_splits)

lemma try_deterministic_Some:
  assumes "try_deterministic L inp = Some (Inr (Some d))"
  obtains date raw_opt candidate utc where
    "end_of_business_utc date (di_user_timezone inp) (di_calendar inp) = Some candidate"
    "apply_calendar candidate inp = Some utc"
    "d = \<lparr> dl_utc = Some utc, dl_local_date = Some (local_date (di_user_timezone inp) utc),
           dl_raw_fragment = raw_opt, dl_source = DeterministicText,
           dl_confidence = deterministic_confidence (lb_unicode L) raw_opt \<rparr>"
  using assms that
  by (auto simp: try_deterministic_def Let_def tryO_eq_Inr bind_eq_Some_conv split: option.splits)

lemma deterministic_confidence_le: "deterministic_confidence U raw \<le> 100"
  by (simp add: deterministic_confidence_def Let_def split: option.split)

lemma resolve_deadline_cases:
  assumes "resolve_deadline L inp = Some (Inr d)"
  obtains "d = no_deadline"
  | hint where "try_ai_iso L hint inp = Some (Some d)"
  | "try_deterministic L inp = Some (Inr (Some d))"
  using assms that
  by (auto simp: resolve_deadline_def bind_eq_Some_conv tryO_eq_Inr split: option.splits)

text \<open>C40. What the deadline kernel promises. A resolved deadline has a date exactly when it has an
  instant, and the date is the one clocks in the person's zone show then; its confidence is at
  most 100. A deadline taken from the language model's hint is never in the past. With a working
  calendar the deadline falls on a working day, unless there is none among the next 366 days. The
  calendar is one with a fixed offset whose working day ends before midnight.\<close>

theorem deadline_kernel_contract:
  assumes run: "resolve_deadline L inp = Some (Inr d)"
    and plain: "\<And>cal. di_calendar inp = Some cal \<Longrightarrow> plain_calendar off cal"
  shows "(dl_utc d = None \<longleftrightarrow> dl_source d = NoneProvided)
    \<and> dl_local_date d = map_option (local_date (di_user_timezone inp)) (dl_utc d)
    \<and> dl_confidence d \<le> 100
    \<and> (\<forall>t. dl_utc d = Some t \<and> dl_source d = AiStructured \<longrightarrow> di_now_utc inp \<le> t)
    \<and> (\<forall>t cal. dl_utc d = Some t \<and> di_calendar inp = Some cal \<longrightarrow>
         is_working_day cal (local_date (wc_timezone cal) t)
         \<or> (\<forall>k. 1 \<le> k \<and> k \<le> 366 \<longrightarrow> \<not> is_working_day cal (local_date (wc_timezone cal) t + k)))"
proof -
  have calendar: "c \<le> t \<and> (\<forall>cal. di_calendar inp = Some cal \<longrightarrow>
         is_working_day cal (local_date (wc_timezone cal) t)
         \<or> (\<forall>k. 1 \<le> k \<and> k \<le> 366 \<longrightarrow> \<not> is_working_day cal (local_date (wc_timezone cal) t + k)))"
    if "apply_calendar c inp = Some t" for c t
  proof (cases "di_calendar inp")
    case None
    with that show ?thesis by (simp add: apply_calendar_def)
  next
    case (Some cal)
    with apply_calendar_plain[OF that Some plain[OF Some]] show ?thesis by simp
  qed
  from run show ?thesis
  proof (cases rule: resolve_deadline_cases)
    case 1
    then show ?thesis by (simp add: no_deadline_def)
  next
    case (2 hint)
    then show ?thesis
    proof (rule try_ai_iso_Some)
      fix parsed clamped
      assume "di_now_utc inp \<le> parsed" "apply_calendar parsed inp = Some clamped"
        "d = \<lparr> dl_utc = Some clamped, dl_local_date = Some (local_date (di_user_timezone inp) clamped),
           dl_raw_fragment = Some (trim hint), dl_source = AiStructured, dl_confidence = 100 \<rparr>"
      with calendar[of parsed clamped] show ?thesis by simp
    qed
  next
    case 3
    then show ?thesis
    proof (rule try_deterministic_Some)
      fix date raw_opt candidate utc
      assume "apply_calendar candidate inp = Some utc"
        "d = \<lparr> dl_utc = Some utc, dl_local_date = Some (local_date (di_user_timezone inp) utc),
           dl_raw_fragment = raw_opt, dl_source = DeterministicText,
           dl_confidence = deterministic_confidence (lb_unicode L) raw_opt \<rparr>"
      with calendar[of candidate utc] show ?thesis by (simp add: deterministic_confidence_le)
    qed
  qed
qed

text \<open>Libraries with an engine that finds nothing, for the runs of examples.\<close>

definition sample_libraries :: libraries where
  "sample_libraries = \<lparr>
     lb_unicode = \<lparr> uc_is_alphabetic = (\<lambda>c. 65 \<le> c \<and> c \<le> 90 \<or> 97 \<le> c \<and> c \<le> 122),
       uc_is_numeric = is_ascii_digit, uc_to_lowercase = to_ascii_lowercase \<rparr>,
     lb_captures = (\<lambda>_ _. None), lb_replace_all = (\<lambda>_ s _. s), lb_from_ymd = (\<lambda>_ _ _. None),
     lb_year = (\<lambda>_. 2026), lb_rfc3339 = (\<lambda>_. None),
     lb_iso_date = (\<lambda>s. if s = ascii ''2026-04-25'' then Some 20568 else None),
     lb_date_label = (\<lambda>d. show_int d), lb_zone = (\<lambda>_. Some moscow) \<rparr>"

definition saturday_hint :: deadline_input where
  "saturday_hint = \<lparr> di_text = ascii ''send the report'',
     di_ai_iso_hint = Some (ascii ''2026-04-25''), di_user_timezone = moscow,
     di_now_utc = sample_friday, di_calendar = Some sample_calendar \<rparr>"

theorem deadline_kernel_contract_witness:
  "\<exists>d. resolve_deadline sample_libraries saturday_hint = Some (Inr d)
     \<and> dl_utc d = Some (20570 * ns_per_day + 900 * ns_per_min) \<and> dl_source d = AiStructured
     \<and> sample_friday \<le> 20570 * ns_per_day + 900 * ns_per_min
     \<and> dl_local_date d = Some (local_date moscow (20570 * ns_per_day + 900 * ns_per_min))"
proof -
  have plain: "plain_calendar (180 * ns_per_min) sample_calendar"
    by (simp add: plain_calendar_def sample_calendar_def moscow_def)
  have saturday: "local_date moscow (20568 * ns_per_day + 900 * ns_per_min) = 20568"
    by (simp add: local_date_def moscow_def ns_per_day_def ns_per_min_def ns_per_sec_def)
  have eob: "end_of_business_utc date moscow (Some sample_calendar)
      = Some (date * ns_per_day + 900 * ns_per_min)" for date
    using end_of_business_fixed[OF plain]
    by (simp add: moscow_def sample_calendar_def ns_per_min_def ns_per_sec_def)
  have trim: "trim (ascii ''2026-04-25'') = ascii ''2026-04-25''" "ascii ''2026-04-25'' \<noteq> []"
    by (simp_all add: trim_def ascii_def trim_start_by_def trim_end_by_def is_whitespace_def)
  have zone: "wc_timezone sample_calendar = moscow" by (simp add: sample_calendar_def)
  have roll: "apply_calendar (20568 * ns_per_day + 900 * ns_per_min) saturday_hint
      = Some (20570 * ns_per_day + 900 * ns_per_min)"
    by (simp add: apply_calendar_def saturday_hint_def zone saturday eval_nat_numeral
        add_days_def NAIVE_DATE_MIN_def NAIVE_DATE_MAX_def eob)
  have late: "\<not> 20568 * ns_per_day + 900 * ns_per_min < sample_friday"
    by (simp add: sample_friday_def ns_per_day_def ns_per_min_def ns_per_sec_def)
  have fields: "di_user_timezone saturday_hint = moscow" "di_now_utc saturday_hint = sample_friday"
    "di_calendar saturday_hint = Some sample_calendar" by (simp_all add: saturday_hint_def)
  have hint: "try_ai_iso sample_libraries (ascii ''2026-04-25'') saturday_hint = Some (Some
      \<lparr> dl_utc = Some (20570 * ns_per_day + 900 * ns_per_min),
        dl_local_date = Some (local_date moscow (20570 * ns_per_day + 900 * ns_per_min)),
        dl_raw_fragment = Some (ascii ''2026-04-25''), dl_source = AiStructured,
        dl_confidence = 100 \<rparr>)"
    by (simp add: try_ai_iso_def trim roll eob sample_libraries_def late fields Let_def)
  then obtain d where run: "resolve_deadline sample_libraries saturday_hint = Some (Inr d)"
    and d: "dl_utc d = Some (20570 * ns_per_day + 900 * ns_per_min)" "dl_source d = AiStructured"
    by (simp add: resolve_deadline_def saturday_hint_def)
  have "plain_calendar (180 * ns_per_min) cal" if "di_calendar saturday_hint = Some cal" for cal
    using plain that by (simp add: saturday_hint_def)
  from deadline_kernel_contract[OF run this] d
  have "sample_friday \<le> 20570 * ns_per_day + 900 * ns_per_min
     \<and> dl_local_date d = Some (local_date moscow (20570 * ns_per_day + 900 * ns_per_min))"
    by (simp add: fields)
  with run d show ?thesis by blast
qed

end
