(* ===== verification/Create_Task.thy ===== *)
theory Create_Task
  imports Assignee_Resolution Deadline Use_Case_Texts
begin

section \<open>Creating a task from a message\<close>

text \<open>
  \<^verbatim>\<open>src/application/use_cases/create_task_from_message.rs\<close>: the whole use case and its two previews. The
  speech recognition and the language model are parameters (\<open>services\<close>), as are the libraries.
  A call whose deadline code panics returns \<open>Inr None\<close>. Metrics are left out.
\<close>

record generated_task =
  gt_model_name :: utext
  gt_raw_response :: utext
  gt_structured_task :: structured_task_draft

record services =
  sv_transcribe :: "voice_attachment \<Rightarrow> utext result"
  sv_generate_task :: "parsed_task_request \<Rightarrow> employee option \<Rightarrow> generated_task result"
  sv_similar :: similarity
  sv_report :: "structured_task_draft \<Rightarrow> utext"

datatype assignee_decision = AssignAuto | AssignEmployee row_id | CreateUnassigned

definition message_type_label :: "message_content \<Rightarrow> string" where
  "message_type_label content =
    (case content of TextContent _ \<Rightarrow> ''text'' | VoiceContent _ \<Rightarrow> ''voice'' | CommandContent _ \<Rightarrow> ''command'')"

definition task_message_type :: "message_content \<Rightarrow> bool \<Rightarrow> message_type" where
  "task_message_type content is_voice_origin =
    (if is_voice_origin then Voice
     else case content of VoiceContent _ \<Rightarrow> Voice | TextContent _ \<Rightarrow> Text | CommandContent _ \<Rightarrow> Text)"

definition extract_original_text :: "services \<Rightarrow> incoming_message \<Rightarrow> utext result" where
  "extract_original_text S m =
    (case m_content m of
       TextContent text \<Rightarrow> Inr text
     | CommandContent text \<Rightarrow> Inr text
     | VoiceContent voice \<Rightarrow> sv_transcribe S voice)"

definition transcribe_voice_message :: "services \<Rightarrow> incoming_message \<Rightarrow> utext result" where
  "transcribe_voice_message S m =
    (case m_content m of
       VoiceContent voice \<Rightarrow> sv_transcribe S voice
     | _ \<Rightarrow> Inl (business_rule ''VOICE_MESSAGE_REQUIRED''
              (ascii ''Voice transcription preview requires a voice message'')
              (JObj [(''message_type'', jstr (message_type_label (m_content m)))])))"

definition register_creator :: "incoming_message \<Rightarrow> (world, user) act" where
  "register_creator m = upsert_from_message (from_message m User False)"

definition required_user_id :: "user \<Rightarrow> row_id result" where
  "required_user_id u =
     ok_or (internal ''USER_ID_MISSING''
       (ascii ''Persisted user must contain a database identifier'')
       (JObj [(''telegram_id'', JNum (u_telegram_id u))])) (u_id u)"

text \<open>\<^verbatim>\<open>resolve_deadline\<close>: an error of the kernel counts as no deadline; a panic stays one.\<close>

definition user_zone :: "libraries \<Rightarrow> user \<Rightarrow> timezone" where
  "user_zone L u =
    (case lb_zone L (u_timezone u) of
       Some z \<Rightarrow> z
     | None \<Rightarrow> (case lb_zone L (ascii DEFAULT_USER_TIMEZONE) of Some z \<Rightarrow> z | None \<Rightarrow> fixed_zone 0))"

definition task_deadline ::
  "libraries \<Rightarrow> utext \<Rightarrow> user \<Rightarrow> utext option \<Rightarrow> instant \<Rightarrow> deadline option" where
  "task_deadline L original_text creator ai_iso_hint now =
     map_option (\<lambda>r. case r of Inr d \<Rightarrow> d | Inl _ \<Rightarrow> no_deadline)
      (resolve_deadline L \<lparr> di_text = original_text, di_ai_iso_hint = ai_iso_hint,
         di_user_timezone = user_zone L creator, di_now_utc = now, di_calendar = None \<rparr>)"

definition resolve_assignee ::
  "libraries \<Rightarrow> services \<Rightarrow> parsed_task_request \<Rightarrow> assignee_decision \<Rightarrow> (world, assignee_resolution) act" where
  "resolve_assignee L S parsed_request decision =
    (case decision of
       CreateUnassigned \<Rightarrow> ret (ResolvedTo nobody)
     | AssignEmployee employee_id \<Rightarrow>
         tryA (resolve_employee_id employee_id) (\<lambda>resolved. ret (ResolvedTo resolved))
     | AssignAuto \<Rightarrow>
         if p_explicit_unassigned parsed_request then ret (ResolvedTo nobody)
         else case p_assignee_name parsed_request of
           None \<Rightarrow> ret (ResolvedTo nobody)
         | Some assignee_query \<Rightarrow> resolve_for_creation (lb_unicode L) (sv_similar S) assignee_query)"

definition log_task_creation :: "task \<Rightarrow> row_id option \<Rightarrow> row_id option \<Rightarrow> (world, unit) act" where
  "log_task_creation t creator_id assignee_id =
    (case t_id t of
       None \<Rightarrow> fail (internal ''TASK_ID_MISSING''
         (ascii ''Persisted task must contain a database identifier'')
         (JObj [(''task_uid'', JUuid (t_task_uid t))]))
     | Some task_id \<Rightarrow>
        tryA now_utc (\<lambda>now.
        tryA (append_audit \<lparr> al_id = None, al_task_id = task_id, al_action = AuditCreated,
            al_old_status = None, al_new_status = Some (show_status Created),
            al_changed_by_user_id = creator_id,
            al_metadata = JObj [(''assigned_to_user_id'', jopt JNum assignee_id),
              (''deadline'', jopt JDay (t_deadline t))],
            al_created_at = now \<rparr>) (\<lambda>_. ret ())))"

definition enqueue_assignee_notification ::
  "task \<Rightarrow> user option \<Rightarrow> bool \<Rightarrow> (world, delivery_status) act" where
  "enqueue_assignee_notification t assignee_user has_employee_match =
    (case assignee_user of
       None \<Rightarrow> ret (if has_employee_match then PendingAssigneeRegistration else CreatorOnly)
     | Some u \<Rightarrow>
        if u_last_chat_id u = None then ret PendingAssigneeRegistration
        else case u_id u of
          None \<Rightarrow> ret PendingAssigneeRegistration
        | Some recipient_user_id \<Rightarrow>
            tryA (gets (\<lambda>w. env_date_text (w_env w))) (\<lambda>date_text.
            tryA (uuid_text (t_task_uid t)) (\<lambda>uid.
            tryA now_utc (\<lambda>now.
            tryA (enqueue (pending_notification (t_id t) recipient_user_id TaskAssigned
                    (render_for_telegram date_text t None)
                    (assignment_dedupe_key uid recipient_user_id) now)) (\<lambda>_.
            ret PendingDelivery)))))"

definition build_creator_message :: "(day \<Rightarrow> utext) \<Rightarrow> task \<Rightarrow> delivery_status \<Rightarrow> utext" where
  "build_creator_message date_text t delivery =
    (let delivery_hint = (case delivery of
           DeliveredToAssignee \<Rightarrow> txt_hint_delivered
         | PendingDelivery \<Rightarrow> txt_hint_pending
         | PendingAssigneeRegistration \<Rightarrow> txt_hint_registration
         | DeliveryRetry \<Rightarrow> txt_hint_retry
         | DeliveryFailedStatus \<Rightarrow> txt_hint_failed
         | CreatorOnly \<Rightarrow> txt_hint_creator_only) in
     txt_task_saved @ format_public_task_code_or_placeholder (t_id t)
       @ txt_status_line @ ascii (show_status (t_status t)) @ [10] @ delivery_hint @ [10, 10]
       @ render_for_telegram date_text t None)"

definition build_duplicate_message :: "task \<Rightarrow> utext" where
  "build_duplicate_message t =
     txt_duplicate @ format_public_task_code_or_placeholder (t_id t)
       @ txt_status_line @ ascii (show_status (t_status t))"

definition resolve_duplicate_delivery_status :: "task \<Rightarrow> delivery_status" where
  "resolve_duplicate_delivery_status t =
    (if t_assigned_to_employee_id t \<noteq> None \<and> t_assigned_to_user_id t = None
     then PendingAssigneeRegistration
     else if t_assigned_to_user_id t \<noteq> None then PendingDelivery
     else CreatorOnly)"

definition persist_created ::
  "user \<Rightarrow> resolved_assignee \<Rightarrow> task \<Rightarrow> (world, task_creation_outcome) act" where
  "persist_created creator v t =
    tryA (create_if_absent t) (\<lambda>persisted.
    case persisted of
      TaskExisting stored \<Rightarrow>
        ret (OutcomeDuplicate (creation_summary stored (build_duplicate_message stored)
               (resolve_duplicate_delivery_status stored)))
    | TaskCreated stored \<Rightarrow>
        tryA (log_task_creation stored (u_id creator) (Option.bind (ra_user v) u_id)) (\<lambda>_.
        tryA (enqueue_assignee_notification stored (ra_user v) (ra_employee v \<noteq> None)) (\<lambda>delivery.
        tryA (gets (\<lambda>w. env_date_text (w_env w))) (\<lambda>date_text.
        ret (OutcomeCreated (creation_summary stored
              (build_creator_message date_text stored delivery) delivery))))))"

definition or_else :: "'a option \<Rightarrow> 'a option \<Rightarrow> 'a option" where
  "or_else a b = (case a of None \<Rightarrow> b | Some _ \<Rightarrow> a)"

definition create_resolved ::
  "libraries \<Rightarrow> services \<Rightarrow> incoming_message \<Rightarrow> utext \<Rightarrow> user \<Rightarrow> parsed_task_request \<Rightarrow>
   resolved_assignee \<Rightarrow> (world, task_creation_outcome option) act" where
  "create_resolved L S m original_text creator parsed v =
    tryA (lift (sv_generate_task S parsed (ra_employee v))) (\<lambda>generated.
    tryA now_utc (\<lambda>deadline_now.
    case task_deadline L original_text creator (d_deadline_iso (gt_structured_task generated))
           deadline_now of
      None \<Rightarrow> ret None
    | Some deadline \<Rightarrow>
        tryA (lift (required_user_id creator)) (\<lambda>creator_id.
        tryA now_utc (\<lambda>now.
        tryA fresh_uuid (\<lambda>uid.
        tryA (lift (new_task (sv_report S) uid (source_message_key m) creator_id
                (Option.bind (ra_user v) u_id) (Option.bind (ra_employee v) e_id)
                (gt_structured_task generated) (or_else (dl_local_date deadline) (p_deadline parsed))
                (or_else (dl_raw_fragment deadline) (p_deadline_raw parsed)) original_text
                (task_message_type (m_content m) (m_is_voice_origin m)) (gt_model_name generated)
                (gt_raw_response generated) (m_chat_id m) (m_message_id m) now)) (\<lambda>t.
        tryA (persist_created creator v t) (\<lambda>outcome.
        ret (Some outcome))))))))"

definition create_task ::
  "libraries \<Rightarrow> services \<Rightarrow> incoming_message \<Rightarrow> assignee_decision \<Rightarrow>
   (world, task_creation_outcome option) act" where
  "create_task L S m decision =
    tryA (lift (validate_payload_length m)) (\<lambda>_.
    tryA (lift (extract_original_text S m)) (\<lambda>original_text.
    tryA (register_creator m) (\<lambda>creator.
    tryA today_utc (\<lambda>today.
    case parse_task_request L original_text today of
      None \<Rightarrow> ret None
    | Some request \<Rightarrow>
        tryA (lift request) (\<lambda>parsed.
        tryA (resolve_assignee L S parsed decision) (\<lambda>resolution.
        case resolution of
          ResolutionClarification q \<Rightarrow>
            ret (Some (OutcomeClarification (q\<lparr> cl_task_body_preview :=
                   Some (body_preview (p_task_description parsed) original_text) \<rparr>)))
        | ResolvedTo v \<Rightarrow> create_resolved L S m original_text creator parsed v))))))"

definition create_task_auto ::
  "libraries \<Rightarrow> services \<Rightarrow> incoming_message \<Rightarrow> (world, task_creation_outcome option) act" where
  "create_task_auto L S m = create_task L S m AssignAuto"

subsection \<open>The previews\<close>

datatype assignee_interpretation =
    InterpretNone
  | InterpretResolved utext delivery_status
  | InterpretClarification clarification_request

record task_interpretation_preview =
  ip_description :: utext
  ip_deadline_label :: "utext option"
  ip_assignee :: assignee_interpretation

definition preview_assignee_resolution ::
  "libraries \<Rightarrow> services \<Rightarrow> utext \<Rightarrow> (world, assignee_resolution) act" where
  "preview_assignee_resolution L S query =
    (let trimmed = trim query in
     if trimmed = [] then ret (ResolvedTo nobody)
     else resolve_for_creation (lb_unicode L) (sv_similar S) trimmed)"

definition preview_delivery_status :: "resolved_assignee \<Rightarrow> delivery_status" where
  "preview_delivery_status v =
    (if ra_employee v = None \<and> ra_user v = None then CreatorOnly
     else if Option.bind (ra_user v) u_last_chat_id \<noteq> None then PendingDelivery
     else PendingAssigneeRegistration)"

definition preview_display :: "resolved_assignee \<Rightarrow> utext" where
  "preview_display v =
    (case ra_employee v of
       Some e \<Rightarrow> e_full_name e
     | None \<Rightarrow>
        (case Option.bind (ra_user v) (\<lambda>u. case u_telegram_username u of
             Some username \<Rightarrow> Some ([64] @ username) | None \<Rightarrow> u_full_name u) of
           Some display \<Rightarrow> display | None \<Rightarrow> ascii ''Unassigned''))"

definition preview_interpretation ::
  "libraries \<Rightarrow> services \<Rightarrow> incoming_message \<Rightarrow> (world, task_interpretation_preview option) act" where
  "preview_interpretation L S m =
    tryA (lift (extract_original_text S m)) (\<lambda>original_text.
    tryA today_utc (\<lambda>today.
    case parse_task_request L original_text today of
      None \<Rightarrow> ret None
    | Some request \<Rightarrow>
        tryA (lift request) (\<lambda>parsed.
        tryA now_utc (\<lambda>now.
        case task_deadline L original_text (from_message m User False) None now of
          None \<Rightarrow> ret None
        | Some deadline \<Rightarrow>
            (let label = or_else (local_label L deadline)
                           (map_option (lb_date_label L) (p_deadline parsed));
                 preview = (\<lambda>assignee. Some \<lparr> ip_description = p_task_description parsed,
                   ip_deadline_label = label, ip_assignee = assignee \<rparr>) in
             if p_explicit_unassigned parsed \<or> p_assignee_name parsed = None
             then ret (preview InterpretNone)
             else
               tryA (resolve_for_creation (lb_unicode L) (sv_similar S)
                       (case p_assignee_name parsed of None \<Rightarrow> [] | Some q \<Rightarrow> q)) (\<lambda>resolution.
               case resolution of
                 ResolvedTo v \<Rightarrow>
                   ret (preview (InterpretResolved (preview_display v) (preview_delivery_status v)))
               | ResolutionClarification q \<Rightarrow> ret (preview (InterpretClarification q))))))))"

subsection \<open>What the steps before the insert leave alone\<close>

definition same_records :: "world \<Rightarrow> world \<Rightarrow> bool" where
  "same_records w w' \<longleftrightarrow> w_tasks w' = w_tasks w \<and> w_notifications w' = w_notifications w
     \<and> w_history w' = w_history w \<and> w_env w' = w_env w"

interpretation records: store_frame same_records
  by unfold_locales (auto simp: same_records_def bookkeeping_free_def)

lemma records_upsert: "obeys same_records (upsert_from_message u)"
  unfolding upsert_from_message_def
  by (rule records.statement) (auto simp: same_records_def Let_def split: option.splits)

text \<open>Resolving an assignee only reads.\<close>

context store_frame
begin

lemma resolving_user: "obeys R (resolve_user_from_employee e)"
  unfolding resolve_user_from_employee_def find_by_username_def by (intro act_cases store_rules select)

lemma resolving_query: "obeys R (resolve_with_purpose U similar q purpose)"
proof -
  have "obeys R (case r of
         RankedUnique candidate \<Rightarrow>
           tryA (resolve_user_from_employee (em_employee candidate)) (\<lambda>u.
           ret (ResolvedTo \<lparr> ra_user = u, ra_employee = Some (em_employee candidate) \<rparr>))
       | RankedSuggested best others \<Rightarrow>
           ret (clarify_assignee q' purpose (suggested_message (e_full_name (em_employee best)))
             (candidate_from_match best # map candidate_from_match others))
       | RankedAmbiguous candidates \<Rightarrow>
           ret (clarify_assignee q' purpose (clarification_message q') (map candidate_from_match candidates))
       | RankedNotFound \<Rightarrow> resolve_unmatched q' purpose)" for r q'
    unfolding resolve_unmatched_def find_by_username_def
    by (cases r) (auto intro!: act_cases store_rules resolving_user simp del: not_None_eq)
  then show ?thesis
    unfolding resolve_with_purpose_def Let_def list_active_employees_def
    by (intro act_cases store_rules)
qed

lemma resolving_assignee: "obeys R (resolve_assignee L S p decision)"
proof (cases decision)
  case (AssignEmployee i)
  have "obeys R (case f of Some e \<Rightarrow> resolve_user_from_employee e | None \<Rightarrow> ret None)" for f
    by (intro act_cases store_rules resolving_user)
  with AssignEmployee show ?thesis
    unfolding resolve_assignee_def resolve_employee_id_def find_employee_by_id_def
    by (simp, intro store_rules)
qed (simp_all add: resolve_assignee_def resolve_for_creation_def act_cases ret
    resolving_query split: option.split)

end

text \<open>From the registration of the author on, nobody's account changes.\<close>

definition same_accounts :: "world \<Rightarrow> world \<Rightarrow> bool" where
  "same_accounts w w' \<longleftrightarrow> w_users w' = w_users w"

interpretation accounts: store_frame same_accounts
  by unfold_locales (auto simp: same_accounts_def bookkeeping_free_def)

lemma accounts_of_appends: "obeys appends_records m \<Longrightarrow> obeys same_accounts m"
  by (erule obeys_weaken) (simp add: appends_records_def same_accounts_def)

lemma appends_log_creation: "obeys appends_records (log_task_creation t a b)"
  unfolding log_task_creation_def by (intro act_cases appends_rules)

lemma adds_creation_notice: "obeys (adds_notifications (\<lambda>_. True)) (enqueue_assignee_notification t u b)"
  unfolding enqueue_assignee_notification_def by (intro act_cases adds.store_rules adds_enqueue) simp_all

lemma accounts_persist_created: "obeys same_accounts (persist_created creator v t)"
proof -
  have made: "obeys same_accounts (create_if_absent t)"
    unfolding create_if_absent_def insert_task_def find_by_source_message_key_def
    by (intro act_cases accounts.store_rules accounts.statement) (simp add: same_accounts_def)
  have "obeys same_accounts (enqueue_assignee_notification t u b)" for t u b
    by (rule accounts_of_appends[OF obeys_weaken[OF adds_creation_notice appends_of_adds]])
  then have "obeys same_accounts (case p of
      TaskExisting stored \<Rightarrow>
        ret (OutcomeDuplicate (creation_summary stored (build_duplicate_message stored)
               (resolve_duplicate_delivery_status stored)))
    | TaskCreated stored \<Rightarrow>
        tryA (log_task_creation stored (u_id creator) (Option.bind (ra_user v) u_id)) (\<lambda>_.
        tryA (enqueue_assignee_notification stored (ra_user v) (ra_employee v \<noteq> None)) (\<lambda>delivery.
        tryA (gets (\<lambda>w. env_date_text (w_env w))) (\<lambda>date_text.
        ret (OutcomeCreated (creation_summary stored
              (build_creator_message date_text stored delivery) delivery))))))" for p
    using accounts_of_appends[OF appends_log_creation]
    by (cases p) (auto intro!: accounts.store_rules simp del: not_None_eq)
  then show ?thesis unfolding persist_created_def by (intro accounts.tryA made)
qed

lemma register_creator_Inr:
  assumes "register_creator m w = (Inr creator, w')"
  shows "creator \<in> set (w_users w') \<and> u_telegram_id creator = m_sender_id m"
  using assms
  by (auto simp: register_creator_def upsert_from_message_def statement_Inr Let_def from_message_def
      merge_from_message_def set_update_where split: option.splits dest: find_SomeD)

subsection \<open>The insert\<close>

lemma insert_task_cases:
  assumes "insert_task t w = (Inr b, w1)"
  shows "if task_clashes t (w_tasks w) then \<not> b \<and> same_tables w w1
    else b \<and> w_tasks w1 = w_tasks w @ [t\<lparr> t_id := Some (next_id t_id (w_tasks w)) \<rparr>]
      \<and> w_notifications w1 = w_notifications w \<and> w_history w1 = w_history w \<and> w_env w1 = w_env w"
  using assms by (auto simp: insert_task_def statement_Inr same_tables_def split: if_splits)

lemma insert_task_clash:
  assumes "task_clashes t (w_tasks w)" "insert_task t w = (r, w1)"
  shows "same_records w w1"
proof -
  have "insert_task t w = statement (\<lambda>w. task_clashes t (w_tasks w)
        \<or> has_id u_id (t_created_by_user_id t) (w_users w) \<and> task_references t w)
     (\<lambda>w. if task_clashes t (w_tasks w) then (False, w)
          else (True, w\<lparr> w_tasks := w_tasks w @ [t\<lparr> t_id := Some (next_id t_id (w_tasks w)) \<rparr>] \<rparr>)) w"
    by (simp add: insert_task_def)
  with assms show ?thesis
    by (cases r) (auto simp: same_records_def statement_Inr dest!: statement_Inl)
qed

lemma create_if_absent_clash:
  assumes clash: "task_clashes t (w_tasks w)" and run: "create_if_absent t w = (r, w1)"
  shows "same_records w w1"
    and "r = Inr p \<Longrightarrow> \<exists>stored. p = TaskExisting stored
      \<and> find (\<lambda>q. t_source_message_key q = t_source_message_key t) (w_tasks w) = Some stored"
proof -
  have reads: "obeys same_records (find_by_source_message_key k)" for k
    unfolding find_by_source_message_key_def by (rule records.select)
  obtain b w2 where b: "insert_task t w = (b, w2)" by fastforce
  have w2: "same_records w w2" using insert_task_clash[OF clash b] .
  have rest: "obeys same_records (tryA (find_by_source_message_key (t_source_message_key t)) (\<lambda>found.
    tryA (lift (ok_or (internal ''TASK_PERSISTENCE_FAILED''
              (ascii ''Task insert completed without a readable record'')
              (JObj [(''task_uid'', JUuid (t_task_uid t))])) found)) (\<lambda>stored.
     ret (if i then TaskCreated stored else TaskExisting stored))))" for i
    by (intro records.store_rules reads)
  show "same_records w w1"
  proof (cases b)
    case (Inl e)
    with run b w2 show ?thesis by (simp add: create_if_absent_def tryA_def)
  next
    case (Inr i)
    with run b have "tryA (find_by_source_message_key (t_source_message_key t)) (\<lambda>found.
      tryA (lift (ok_or (internal ''TASK_PERSISTENCE_FAILED''
              (ascii ''Task insert completed without a readable record'')
              (JObj [(''task_uid'', JUuid (t_task_uid t))])) found)) (\<lambda>stored.
      ret (if i then TaskCreated stored else TaskExisting stored))) w2 = (r, w1)"
      by (simp add: create_if_absent_def tryA_def)
    from obeysD[OF rest this] w2 show ?thesis using records.trans by blast
  qed
  assume "r = Inr p"
  with run b obtain i where i: "b = Inr i"
    by (auto simp: create_if_absent_def tryA_eq_Inr)
  with insert_task_cases[of t w i w2] b clash have "\<not> i" "w_tasks w2 = w_tasks w"
    by (auto simp: same_tables_def)
  with run b i \<open>r = Inr p\<close> show "\<exists>stored. p = TaskExisting stored
      \<and> find (\<lambda>q. t_source_message_key q = t_source_message_key t) (w_tasks w) = Some stored"
    by (auto simp: create_if_absent_def tryA_eq_Inr find_by_source_message_key_def select_Inr)
qed

lemma create_if_absent_fresh:
  assumes "create_if_absent t w = (Inr (TaskCreated stored), w1)"
  shows "\<not> task_clashes t (w_tasks w) \<and> stored = t\<lparr> t_id := Some (next_id t_id (w_tasks w)) \<rparr>
    \<and> w_tasks w1 = w_tasks w @ [stored] \<and> w_notifications w1 = w_notifications w
    \<and> w_history w1 = w_history w \<and> w_env w1 = w_env w"
proof -
  have fresh: "\<not> task_clashes t (w_tasks w)"
    using create_if_absent_clash(2)[OF _ assms refl] by blast
  from assms obtain w2 where ins: "insert_task t w = (Inr True, w2)"
    and found: "find (\<lambda>q. t_source_message_key q = t_source_message_key t) (w_tasks w2) = Some stored"
    "w_tasks w1 = w_tasks w2" "w_notifications w1 = w_notifications w2" "w_history w1 = w_history w2"
    "w_env w1 = w_env w2"
    by (auto simp: create_if_absent_def tryA_eq_Inr find_by_source_message_key_def select_Inr
        split: if_splits)
  have none: "find (\<lambda>q. t_source_message_key q = t_source_message_key t) (w_tasks w) = None"
    using fresh by (auto simp: find_None_iff task_clashes_def list_ex_iff)
  show ?thesis
    using insert_task_cases[OF ins] fresh found none by (simp add: find_append_new)
qed

subsection \<open>One task for one message\<close>

definition seen :: "utext \<Rightarrow> world \<Rightarrow> task option" where
  "seen key w = find (\<lambda>t. t_source_message_key t = key) (w_tasks w)"

lemma seen_clash: "seen (t_source_message_key t) w \<noteq> None \<Longrightarrow> task_clashes t (w_tasks w)"
  by (auto simp: seen_def task_clashes_def list_ex_iff find_None_iff)

text \<open>Once a message has its task, processing it again changes no task, notification or history.\<close>

definition replay_safe :: "utext \<Rightarrow> world \<Rightarrow> world \<Rightarrow> bool" where
  "replay_safe key w w' \<longleftrightarrow> (seen key w \<noteq> None \<longrightarrow> same_records w w')"

interpretation replay: store_frame "replay_safe key" for key
  by unfold_locales (auto simp: replay_safe_def same_records_def seen_def bookkeeping_free_def)

lemma replay_of_records: "obeys same_records m \<Longrightarrow> obeys (replay_safe key) m"
  by (erule obeys_weaken) (simp add: replay_safe_def)

lemma persist_created_replay:
  assumes "t_source_message_key t = key"
  shows "obeys (replay_safe key) (persist_created creator v t)"
    and "seen key w = Some old \<Longrightarrow> persist_created creator v t w = (Inr out, w') \<Longrightarrow>
      \<exists>s. out = OutcomeDuplicate s \<and> cs_task_uid s = t_task_uid old"
proof -
  have run: "same_records w w' \<and> (\<forall>out. r = Inr out \<longrightarrow>
      (\<exists>s. out = OutcomeDuplicate s \<and> cs_task_uid s = t_task_uid old))"
    if old: "seen key w = Some old" and run: "persist_created creator v t w = (r, w')" for w w' r old
  proof -
    have clash: "task_clashes t (w_tasks w)" using seen_clash[of t w] old assms by simp
    obtain q w1 where q: "create_if_absent t w = (q, w1)" by fastforce
    note same = create_if_absent_clash(1)[OF clash q]
    show ?thesis
    proof (cases q)
      case (Inl e)
      with run q same show ?thesis by (auto simp: persist_created_def tryA_def)
    next
      case (Inr p)
      with create_if_absent_clash(2)[OF clash q Inr] old assms
      have "p = TaskExisting old" by (auto simp: seen_def)
      with run q Inr same show ?thesis
        by (auto simp: persist_created_def tryA_def creation_summary_def)
    qed
  qed
  show "obeys (replay_safe key) (persist_created creator v t)"
  proof (rule obeysI)
    fix w
    obtain r w' where "persist_created creator v t w = (r, w')" by fastforce
    with run[of w] show "replay_safe key w (snd (persist_created creator v t w))"
      by (auto simp: replay_safe_def)
  qed
  show "seen key w = Some old \<Longrightarrow> persist_created creator v t w = (Inr out, w') \<Longrightarrow>
      \<exists>s. out = OutcomeDuplicate s \<and> cs_task_uid s = t_task_uid old"
    using run by blast
qed

lemma new_task_key: "new_task f uid key c u e d dl dr org ty mo raw ch ms now = Inr t \<Longrightarrow>
    t_source_message_key t = key \<and> t_task_uid t = uid \<and> t_status t = Created \<and> t_version t = 0
    \<and> t_assigned_to_user_id t = u \<and> t_assigned_to_employee_id t = e \<and> t_created_by_user_id t = c"
  by (auto simp: new_task_def tryR_eq_Inr)

text \<open>A call splits into steps that leave the records alone and the insert with what follows it.\<close>

lemma lift_obeys_split:
  "(\<And>x. r = Inr x \<Longrightarrow> obeys R (f x)) \<Longrightarrow> (\<And>w. R w w) \<Longrightarrow> obeys R (tryA (lift r) f)"
  by (cases r) (simp_all add: obeys_def tryA_def lift_def)

lemma create_resolved_replay:
  "obeys (replay_safe (source_message_key m)) (create_resolved L S m original creator parsed v)"
  unfolding create_resolved_def
  by (intro act_cases replay.store_rules lift_obeys_split persist_created_replay(1)
      replay.refl) (simp_all add: new_task_key)

lemma create_task_replay: "obeys (replay_safe (source_message_key m)) (create_task L S m decision)"
proof -
  have "obeys (replay_safe (source_message_key m)) (case resolution of
          ResolutionClarification q \<Rightarrow>
            ret (Some (OutcomeClarification (q\<lparr> cl_task_body_preview :=
                   Some (body_preview (p_task_description parsed) original) \<rparr>)))
        | ResolvedTo v \<Rightarrow> create_resolved L S m original creator parsed v)" for resolution parsed original creator
    by (cases resolution) (simp_all add: replay.ret create_resolved_replay)
  then show ?thesis
    unfolding create_task_def register_creator_def
    by (intro act_cases replay.store_rules replay_of_records[OF records_upsert]
        replay_of_records[OF records.resolving_assignee])
qed

lemma create_task_outcome:
  assumes "create_task L S m decision w = (Inr (Some out), w')"
  obtains (Asked) q where "out = OutcomeClarification q"
  | (Stored) creator v t w0 where "same_records w w0" "persist_created creator v t w0 = (Inr out, w')"
      "t_source_message_key t = source_message_key m" "t_status t = Created" "t_version t = 0"
      "t_assigned_to_user_id t = Option.bind (ra_user v) u_id" "u_id creator = Some (t_created_by_user_id t)"
      "creator \<in> set (w_users w')" "u_telegram_id creator = m_sender_id m"
proof -
  from assms obtain original creator w1 w2 parsed resolution w3 where
    creator: "register_creator m w = (Inr creator, w1)"
    and w2: "w2 = w1\<lparr> w_ticks := Suc (w_ticks w1) \<rparr>"
    and resolution: "resolve_assignee L S parsed decision w2 = (Inr resolution, w3)"
    and rest: "(case resolution of
          ResolutionClarification q \<Rightarrow>
            ret (Some (OutcomeClarification (q\<lparr> cl_task_body_preview :=
                   Some (body_preview (p_task_description parsed) original) \<rparr>)))
        | ResolvedTo v \<Rightarrow> create_resolved L S m original creator parsed v) w3 = (Inr (Some out), w')"
    by (auto simp: create_task_def tryA_eq_Inr split: option.splits)
  show ?thesis
  proof (cases resolution)
    case (ResolutionClarification q)
    with rest show ?thesis using Asked by auto
  next
    case (ResolvedTo v)
    define w4 where "w4 = w3\<lparr> w_ticks := Suc (Suc (w_ticks w3)), w_uuids := Suc (w_uuids w3) \<rparr>"
    have author: "creator \<in> set (w_users w')" "u_telegram_id creator = m_sender_id m" if "w_users w' = w_users w4"
      using that register_creator_Inr[OF creator] obeysD[OF accounts.resolving_assignee resolution] w2
      by (simp_all add: same_accounts_def w4_def)
    from ResolvedTo rest obtain generated :: generated_task and deadline :: deadline
      and creator_id now uid t where
      t: "new_task (sv_report S) uid (source_message_key m) creator_id
                (Option.bind (ra_user v) u_id) (Option.bind (ra_employee v) e_id)
                (gt_structured_task generated) (or_else (dl_local_date deadline) (p_deadline parsed))
                (or_else (dl_raw_fragment deadline) (p_deadline_raw parsed)) original
                (task_message_type (m_content m) (m_is_voice_origin m)) (gt_model_name generated)
                (gt_raw_response generated) (m_chat_id m) (m_message_id m) now = Inr t"
      and run: "persist_created creator v t w4 = (Inr out, w')" and id: "u_id creator = Some creator_id"
      unfolding w4_def
      by (auto simp: create_resolved_def tryA_eq_Inr required_user_id_def split: option.splits)
    have "same_records w w1"
      using obeysD[OF records_upsert] creator by (simp add: register_creator_def)
    moreover have "same_records w2 w3" using obeysD[OF records.resolving_assignee resolution] .
    ultimately have "same_records w w4" using w2 by (simp add: same_records_def w4_def)
    moreover have "w_users w' = w_users w4"
      using obeysD[OF accounts_persist_created run] by (simp add: same_accounts_def)
    ultimately show ?thesis using Stored[OF _ run] author new_task_key[OF t] id by simp
  qed
qed

lemma log_task_creation_Inr:
  assumes "log_task_creation t a b w = (Inr x, w')"
  shows "appends_records w w' \<and> (\<exists>e. w_history w' = w_history w @ [e] \<and> al_action e = AuditCreated
     \<and> Some (al_task_id e) = t_id t \<and> al_changed_by_user_id e = a)
     \<and> w_notifications w' = w_notifications w"
proof -
  from obeysD[OF appends_log_creation assms] have "appends_records w w'" .
  moreover from assms have "(\<exists>e. w_history w' = w_history w @ [e] \<and> al_action e = AuditCreated
     \<and> Some (al_task_id e) = t_id t \<and> al_changed_by_user_id e = a)
     \<and> w_notifications w' = w_notifications w"
    by (auto simp: log_task_creation_def tryA_eq_Inr split: option.splits dest!: append_audit_Inr)
  ultimately show ?thesis by simp
qed

lemma enqueue_assignee_Inr:
  assumes "enqueue_assignee_notification t u b w = (Inr delivery, w')"
  shows "appends_records w w' \<and> w_history w' = w_history w
    \<and> (delivery = PendingDelivery \<longrightarrow> (\<exists>i. Option.bind u u_id = Some i
         \<and> notification_for w' (assignment_dedupe_key (env_uuid_text (w_env w) (t_task_uid t)) i) \<noteq> None))"
proof -
  from obeysD[OF adds_creation_notice assms] have adds: "adds_notifications (\<lambda>_. True) w w'" .
  moreover have "delivery = PendingDelivery \<longrightarrow> (\<exists>i. Option.bind u u_id = Some i
         \<and> notification_for w' (assignment_dedupe_key (env_uuid_text (w_env w) (t_task_uid t)) i) \<noteq> None)"
    using assms
    by (auto simp: enqueue_assignee_notification_def tryA_eq_Inr pending_notification_def
        split: option.splits if_splits dest!: enqueue_Inr(1))
  ultimately show ?thesis using appends_of_adds[OF adds] by (auto simp: adds_notifications_def)
qed

lemma persist_created_Inr:
  assumes "persist_created creator v t w = (Inr (OutcomeCreated s), w')"
  shows "\<exists>stored e. stored = t\<lparr> t_id := Some (next_id t_id (w_tasks w)) \<rparr>
     \<and> seen (t_source_message_key t) w = None \<and> w_tasks w' = w_tasks w @ [stored]
     \<and> cs_task_uid s = t_task_uid t
     \<and> w_history w' = w_history w @ [e] \<and> al_action e = AuditCreated
     \<and> Some (al_task_id e) = t_id stored \<and> al_changed_by_user_id e = u_id creator
     \<and> (cs_delivery_status s = PendingDelivery \<longrightarrow> (\<exists>i. Option.bind (ra_user v) u_id = Some i
         \<and> notification_for w' (assignment_dedupe_key (env_uuid_text (w_env w) (t_task_uid t)) i) \<noteq> None))"
proof -
  from assms obtain p w1 where made: "create_if_absent t w = (Inr p, w1)"
    and rest: "(case p of
      TaskExisting stored \<Rightarrow>
        ret (OutcomeDuplicate (creation_summary stored (build_duplicate_message stored)
               (resolve_duplicate_delivery_status stored)))
    | TaskCreated stored \<Rightarrow>
        tryA (log_task_creation stored (u_id creator) (Option.bind (ra_user v) u_id)) (\<lambda>_.
        tryA (enqueue_assignee_notification stored (ra_user v) (ra_employee v \<noteq> None)) (\<lambda>delivery.
        tryA (gets (\<lambda>w. env_date_text (w_env w))) (\<lambda>date_text.
        ret (OutcomeCreated (creation_summary stored
              (build_creator_message date_text stored delivery) delivery)))))) w1
       = (Inr (OutcomeCreated s), w')"
    unfolding persist_created_def tryA_eq_Inr[of "create_if_absent t"] by blast
  then obtain stored where p: "p = TaskCreated stored" by (cases p) auto
  note made = made[unfolded p]
  from rest[unfolded p persisted_task.case] obtain w2 delivery u where
    logged: "log_task_creation stored (u_id creator) (Option.bind (ra_user v) u_id) w1 = (Inr u, w2)"
    and queued: "enqueue_assignee_notification stored (ra_user v) (ra_employee v \<noteq> None) w2 = (Inr delivery, w')"
    and s: "s = creation_summary stored
              (build_creator_message (env_date_text (w_env w')) stored delivery) delivery"
    unfolding tryA_eq_Inr by auto
  note fresh = create_if_absent_fresh[OF made]
  note log = log_task_creation_Inr[OF logged]
  note queue = enqueue_assignee_Inr[OF queued]
  from fresh have "seen (t_source_message_key t) w = None" using seen_clash[of t w] by blast
  moreover have "w_tasks w' = w_tasks w @ [stored]" "w_env w2 = w_env w"
    using fresh log queue by (simp_all add: appends_records_def)
  moreover obtain e where "w_history w' = w_history w @ [e]" "al_action e = AuditCreated"
    "Some (al_task_id e) = t_id stored" "al_changed_by_user_id e = u_id creator"
    using fresh log queue by auto
  ultimately show ?thesis using fresh queue by (auto simp: s creation_summary_def)
qed

text \<open>C11. A message makes one task. A call that reports a created task has appended exactly one task,
  new, under the message's key and authored by the account of the sender, and one history entry for it
  by that author, and if it reports a pending delivery the assignee's notification exists. Whenever the
  same message is processed again (its redelivery, a repeated click, another choice of assignee, other
  answers of the language model, other database failures) on a database with unique keys that still
  holds the task, whatever has been written to it and to the other tables since, no task, notification
  or history entry is added or changed, and a call that comes through asks a question or reports a
  duplicate of the first task.\<close>

theorem message_creates_one_task:
  assumes run: "create_task L S m decision w = (Inr (Some (OutcomeCreated s)), w1)"
  shows "(\<exists>t e creator. w_tasks w1 = w_tasks w @ [t] \<and> t_source_message_key t = source_message_key m
       \<and> t_task_uid t = cs_task_uid s \<and> t_status t = Created \<and> t_version t = 0
       \<and> creator \<in> set (w_users w1) \<and> u_telegram_id creator = m_sender_id m
       \<and> u_id creator = Some (t_created_by_user_id t)
       \<and> w_history w1 = w_history w @ [e] \<and> al_action e = AuditCreated
       \<and> Some (al_task_id e) = t_id t \<and> al_changed_by_user_id e = u_id creator
       \<and> (cs_delivery_status s = PendingDelivery \<longrightarrow> (\<exists>i. t_assigned_to_user_id t = Some i
            \<and> notification_for w1 (assignment_dedupe_key (env_uuid_text (w_env w) (cs_task_uid s)) i) \<noteq> None)))
    \<and> (\<forall>L' S' m' decision' w2 t' r w3. tasks_ok w2 \<and> t' \<in> set (w_tasks w2)
         \<and> t_source_message_key t' = source_message_key m \<and> t_task_uid t' = cs_task_uid s
         \<and> source_message_key m' = source_message_key m
         \<and> create_task L' S' m' decision' w2 = (r, w3) \<longrightarrow>
           w_tasks w3 = w_tasks w2 \<and> w_notifications w3 = w_notifications w2 \<and> w_history w3 = w_history w2
           \<and> (\<forall>out. r = Inr (Some out) \<longrightarrow> (\<exists>q. out = OutcomeClarification q)
               \<or> (\<exists>d. out = OutcomeDuplicate d \<and> cs_task_uid d = cs_task_uid s)))"
proof -
  from run obtain creator v t w0 where
    before: "same_records w w0" and made: "persist_created creator v t w0 = (Inr (OutcomeCreated s), w1)"
    and t: "t_source_message_key t = source_message_key m" "t_status t = Created" "t_version t = 0"
      "t_assigned_to_user_id t = Option.bind (ra_user v) u_id" "u_id creator = Some (t_created_by_user_id t)"
    and author: "creator \<in> set (w_users w1)" "u_telegram_id creator = m_sender_id m"
    by (rule create_task_outcome) auto
  from persist_created_Inr[OF made] obtain stored e where
    stored: "stored = t\<lparr> t_id := Some (next_id t_id (w_tasks w0)) \<rparr>"
      "seen (t_source_message_key t) w0 = None" "w_tasks w1 = w_tasks w0 @ [stored]"
      "cs_task_uid s = t_task_uid t"
    and e: "w_history w1 = w_history w0 @ [e]" "al_action e = AuditCreated"
      "Some (al_task_id e) = t_id stored" "al_changed_by_user_id e = u_id creator"
    and queue: "cs_delivery_status s = PendingDelivery \<longrightarrow> (\<exists>i. Option.bind (ra_user v) u_id = Some i
         \<and> notification_for w1 (assignment_dedupe_key (env_uuid_text (w_env w0) (t_task_uid t)) i) \<noteq> None)"
    by blast
  have again: "w_tasks w3 = w_tasks w2 \<and> w_notifications w3 = w_notifications w2 \<and> w_history w3 = w_history w2
     \<and> (\<forall>out. r = Inr (Some out) \<longrightarrow> (\<exists>q. out = OutcomeClarification q)
               \<or> (\<exists>d. out = OutcomeDuplicate d \<and> cs_task_uid d = cs_task_uid s))"
    if old: "tasks_ok w2" "t' \<in> set (w_tasks w2)" "t_source_message_key t' = source_message_key m"
      "t_task_uid t' = cs_task_uid s" "source_message_key m' = source_message_key m"
      "create_task L' S' m' decision' w2 = (r, w3)" for L' S' m' decision' w2 t' r w3
  proof -
    have seen2: "seen (source_message_key m') w2 = Some t'"
      using find_distinct_key[of t_source_message_key "w_tasks w2" t'] old(1-3,5)
      by (simp add: seen_def tasks_ok_def)
    have "same_records w2 w3"
      using obeysD[OF create_task_replay old(6)] seen2 by (simp add: replay_safe_def)
    moreover have "(\<exists>q. out = OutcomeClarification q)
               \<or> (\<exists>d. out = OutcomeDuplicate d \<and> cs_task_uid d = cs_task_uid s)"
      if r: "r = Inr (Some out)" for out
      using \<open>create_task L' S' m' decision' w2 = (r, w3)\<close>[unfolded r]
    proof (cases rule: create_task_outcome)
      case (Stored creator' v' t2 w0')
      then have "seen (source_message_key m') w0' = Some t'"
        using seen2 by (simp add: seen_def same_records_def)
      from persist_created_replay(2)[OF Stored(3) this Stored(2)] old(4) show ?thesis by auto
    qed simp
    ultimately show ?thesis by (auto simp: same_records_def)
  qed
  have "\<exists>t e creator. w_tasks w1 = w_tasks w @ [t] \<and> t_source_message_key t = source_message_key m
       \<and> t_task_uid t = cs_task_uid s \<and> t_status t = Created \<and> t_version t = 0
       \<and> creator \<in> set (w_users w1) \<and> u_telegram_id creator = m_sender_id m
       \<and> u_id creator = Some (t_created_by_user_id t)
       \<and> w_history w1 = w_history w @ [e] \<and> al_action e = AuditCreated
       \<and> Some (al_task_id e) = t_id t \<and> al_changed_by_user_id e = u_id creator
       \<and> (cs_delivery_status s = PendingDelivery \<longrightarrow> (\<exists>i. t_assigned_to_user_id t = Some i
            \<and> notification_for w1 (assignment_dedupe_key (env_uuid_text (w_env w) (cs_task_uid s)) i) \<noteq> None))"
    using stored e queue before t author
    by (intro exI[of _ stored] exI[of _ e] exI[of _ creator]) (simp add: same_records_def)
  with again show ?thesis by blast
qed

subsection \<open>Runs\<close>

definition sample_text :: utext where "sample_text = ascii ''send the report''"

definition sample_message :: incoming_message where
  "sample_message = \<lparr> m_message_id = 7, m_chat_id = 10, m_sender_id = 10, m_sender_name = ascii ''Boss'',
     m_sender_username = None, m_content = TextContent sample_text, m_timestamp = 5,
     m_source_message_key_override = None, m_is_voice_origin = False \<rparr>"

definition sample_services :: services where
  "sample_services = \<lparr> sv_transcribe = (\<lambda>_. Inr sample_text),
     sv_generate_task = (\<lambda>_ _. Inr \<lparr> gt_model_name = ascii ''local'', gt_raw_response = [],
       gt_structured_task = sample_draft \<rparr>),
     sv_similar = same_or_not, sv_report = no_report \<rparr>"

definition sample_request :: parsed_task_request where
  "sample_request = \<lparr> p_assignee_name = None, p_task_description = sample_text, p_deadline = None,
     p_deadline_raw = None, p_explicit_unassigned = False, p_confidence_score = 60 \<rparr>"

lemma sample_libraries_fields [simp]:
  "lb_captures sample_libraries pat s = None" "lb_replace_all sample_libraries pat s new = s"
  by (simp_all add: sample_libraries_def)

lemma sample_parse: "parse_task_request sample_libraries sample_text today = Some (Inr sample_request)"
proof -
  have whitespace: "normalize_whitespace sample_libraries sample_text = sample_text"
    by (simp add: normalize_whitespace_def sample_text_def ascii_def trim_def trim_start_by_def
        trim_end_by_def is_whitespace_def)
  have description: "build_description sample_libraries sample_text None None = sample_text"
    by (simp add: build_description_def trim_matches_def normalize_whitespace_def sample_text_def
        ascii_def trim_def trim_start_by_def trim_end_by_def is_whitespace_def)
  have valid: "validate_description sample_libraries sample_text = Inr ()"
    unfolding validate_description_iff
    by (simp add: MIN_TASK_DESCRIPTION_LENGTH_def sample_text_def ascii_def sample_libraries_def
        split_whitespace_def is_whitespace_def)
  have no_date: "extract_deadline sample_libraries sample_text today = Some (Inr (None, None))"
    by (simp add: extract_deadline_def extract_deadline_from_text_def whitespace
        parse_absolute_deadline_def parse_relative_deadline_def parse_period_deadline_def
        parse_weekday_deadline_def)
  show ?thesis
    by (simp add: parse_task_request_def whitespace extract_assignee_def no_date description valid
        sample_request_def calculate_confidence_def)
qed

lemma sample_no_deadline: "task_deadline sample_libraries sample_text u None now = Some no_deadline"
  by (simp add: task_deadline_def resolve_deadline_def try_deterministic_def
      extract_deadline_from_text_def parse_absolute_deadline_def parse_relative_deadline_def
      parse_period_deadline_def parse_weekday_deadline_def Let_def)

text \<open>Ann's account is known by the username of the directory.\<close>

definition sample_ann :: user where
  "sample_ann = sample_user\<lparr> u_telegram_username := Some (ascii ''ann'') \<rparr>"

definition sample_boss :: user where
  "sample_boss = merge_from_message (from_message sample_message User False) sample_creator"

definition sample_desk :: "utext option list \<Rightarrow> world" where
  "sample_desk faults = sample_world\<lparr> w_users := [sample_creator, sample_ann, sample_admin],
     w_faults := faults \<rparr>"

definition sample_greeted :: "utext option list \<Rightarrow> world" where
  "sample_greeted faults = sample_world\<lparr> w_users := [sample_boss, sample_ann, sample_admin],
     w_faults := faults \<rparr>"

definition ann_resolved :: resolved_assignee where
  "ann_resolved = \<lparr> ra_user = Some sample_ann, ra_employee = Some sample_employee \<rparr>"

lemma sample_people [simp]:
  "u_id sample_ann = Some 2" "u_telegram_id sample_ann = 20" "u_last_chat_id sample_ann = Some 20"
  "u_telegram_username sample_ann = Some (ascii ''ann'')"
  "u_id sample_boss = Some 1" "u_telegram_id sample_boss = 10" "u_telegram_username sample_boss = None"
  by (simp_all add: sample_ann_def sample_boss_def merge_from_message_def sample_user_def
      from_message_def sample_message_def)

lemma sample_source_key: "source_message_key sample_message = ascii ''telegram:10:7''"
  by (simp add: source_message_key_def sample_message_def ascii_def show_int_def show_nat.simps)

lemma sample_registered:
  "register_creator sample_message (sample_desk (None # faults)) = (Inr sample_boss, sample_greeted faults)"
proof -
  have "m_sender_id sample_message = 10" by (simp add: sample_message_def)
  then show ?thesis
    by (simp add: register_creator_def upsert_from_message_def statement_def sample_desk_def
        sample_greeted_def from_message_def references_def update_where_def Let_def
        sample_boss_def)
qed

lemma sample_resolved:
  "resolve_assignee sample_libraries sample_services p (AssignEmployee 5)
     (sample_greeted (None # None # faults)\<lparr> w_ticks := n \<rparr>)
   = (Inr (ResolvedTo ann_resolved), sample_greeted faults\<lparr> w_ticks := n \<rparr>)"
proof -
  have ann: "e_telegram_username sample_employee = Some (ascii ''ann'')"
    "trim_start_by (\<lambda>c. c = 64) (ascii ''ann'') = ascii ''ann''"
    by (simp_all add: sample_employee_def trim_start_by_def ascii_def)
  show ?thesis
    by (simp add: resolve_assignee_def resolve_employee_id_def find_employee_by_id_def tryA_def
        select_def statement_def sample_greeted_def Let_def resolve_user_from_employee_def ann
        find_by_username_def ret_def ann_resolved_def)
qed

lemma sample_unresolved_steps:
  assumes "create_resolved sample_libraries sample_services sample_message sample_text sample_boss
     sample_request ann_resolved (sample_greeted faults\<lparr> w_ticks := 6 \<rparr>) = (r, w')"
  shows "create_task sample_libraries sample_services sample_message (AssignEmployee 5)
     (sample_desk (None # None # None # faults)) = (r, w')"
proof -
  have "validate_payload_length sample_message = Inr ()"
    "extract_original_text sample_services sample_message = Inr sample_text"
    by (simp_all add: validate_payload_length_def extract_original_text_def sample_message_def
        MAX_MESSAGE_LENGTH_def sample_text_def)
  moreover have "today_utc (sample_greeted (None # None # faults))
      = (Inr (date_of (env_clock sample_env 5)), sample_greeted (None # None # faults)\<lparr> w_ticks := 6 \<rparr>)"
    by (simp add: sample_greeted_def)
  ultimately show ?thesis
    using assms by (simp add: create_task_def tryA_def lift_def sample_registered sample_parse
        sample_resolved del: today_utc_eq)
qed

lemma sample_stored:
  assumes "t_source_message_key t = ascii ''telegram:10:7''" "t_task_uid t = 9"
    "t_created_by_user_id t = 1" "t_assigned_to_user_id t = Some 2" "t_assigned_to_employee_id t = Some 5"
  shows "\<exists>s w'. persist_created sample_boss ann_resolved t
      (sample_greeted []\<lparr> w_ticks := 8, w_uuids := 10 \<rparr>) = (Inr (OutcomeCreated s), w')
      \<and> cs_delivery_status s = PendingDelivery"
    and "\<exists>w'. persist_created sample_boss ann_resolved t
      (sample_greeted [None, None, Some disk]\<lparr> w_ticks := 8, w_uuids := 10 \<rparr>)
        = (Inl (database_error disk), w') \<and> w_notifications w' = [] \<and> w_faults w' = []
        \<and> w_users w' = [sample_boss, sample_ann, sample_admin]
        \<and> w_tasks w' = [sample_task, t\<lparr> t_id := Some 8 \<rparr>] \<and> w_employees w' = [sample_employee]"
proof -
  have key: "t_source_message_key sample_task \<noteq> ascii ''telegram:10:7''"
    by (simp add: sample_task_def ascii_def)
  show "\<exists>s w'. persist_created sample_boss ann_resolved t
      (sample_greeted []\<lparr> w_ticks := 8, w_uuids := 10 \<rparr>) = (Inr (OutcomeCreated s), w')
      \<and> cs_delivery_status s = PendingDelivery"
    using assms key
    by (simp add: persist_created_def create_if_absent_def insert_task_def run_simps sample_greeted_def
        task_clashes_def has_id_def task_references_def references_def next_id_def
        find_by_source_message_key_def log_task_creation_def append_audit_def gets_def Let_def
        enqueue_assignee_notification_def ann_resolved_def enqueue_def dedupe_clash_def
        pending_notification_def creation_summary_def)
  show "\<exists>w'. persist_created sample_boss ann_resolved t
      (sample_greeted [None, None, Some disk]\<lparr> w_ticks := 8, w_uuids := 10 \<rparr>)
        = (Inl (database_error disk), w') \<and> w_notifications w' = [] \<and> w_faults w' = []
        \<and> w_users w' = [sample_boss, sample_ann, sample_admin]
        \<and> w_tasks w' = [sample_task, t\<lparr> t_id := Some 8 \<rparr>] \<and> w_employees w' = [sample_employee]"
    using assms key
    by (simp add: persist_created_def create_if_absent_def insert_task_def run_simps sample_greeted_def
        select_def statement_def task_clashes_def has_id_def task_references_def references_def next_id_def
        find_by_source_message_key_def log_task_creation_def append_audit_def gets_def Let_def)
qed

lemma sample_draft_new_task:
  "\<exists>t. new_task no_report uid key c u e sample_draft d dr org ty mo raw ch ms now = Inr t"
  by (simp add: new_task_def sample_draft_within_limits[folded validate_ok_iff[of no_report _ "()"]])

lemma sample_create_resolved:
  obtains t where "t_source_message_key t = ascii ''telegram:10:7''" "t_task_uid t = 9"
    "t_created_by_user_id t = 1" "t_assigned_to_user_id t = Some 2" "t_assigned_to_employee_id t = Some 5"
    "create_resolved sample_libraries sample_services sample_message sample_text sample_boss
      sample_request ann_resolved (sample_greeted faults\<lparr> w_ticks := 6 \<rparr>)
     = (case persist_created sample_boss ann_resolved t
          (sample_greeted faults\<lparr> w_ticks := 8, w_uuids := 10 \<rparr>) of
          (Inl e, w') \<Rightarrow> (Inl e, w') | (Inr out, w') \<Rightarrow> (Inr (Some out), w'))"
proof -
  from sample_draft_new_task obtain t where
    t: "new_task no_report (word_of_nat 9) (ascii ''telegram:10:7'') 1 (Some 2) (Some 5) sample_draft
          None None sample_text Text (ascii ''local'') [] 10 7 7 = Inr t" by metis
  have fields: "w_env (sample_greeted faults) = sample_env" "w_uuids (sample_greeted faults) = 9"
    "env_clock sample_env n = int n" "env_fresh_uuid sample_env n = word_of_nat n" for n
    by (simp_all add: sample_greeted_def sample_env_def)
  have draft: "d_deadline_iso sample_draft = None" by (simp add: sample_draft_def)
  have message: "m_content sample_message = TextContent sample_text" "m_is_voice_origin sample_message = False"
    "m_chat_id sample_message = 10" "m_message_id sample_message = 7"
    by (simp_all add: sample_message_def)
  show ?thesis
  proof (rule that[of t])
    show "create_resolved sample_libraries sample_services sample_message sample_text sample_boss
      sample_request ann_resolved (sample_greeted faults\<lparr> w_ticks := 6 \<rparr>)
     = (case persist_created sample_boss ann_resolved t
          (sample_greeted faults\<lparr> w_ticks := 8, w_uuids := 10 \<rparr>) of
          (Inl e, w') \<Rightarrow> (Inl e, w') | (Inr out, w') \<Rightarrow> (Inr (Some out), w'))"
      using t by (simp add: create_resolved_def tryA_def lift_def sample_services_def now_utc_def
          fresh_uuid_def ret_def fields draft message sample_no_deadline required_user_id_def
          sample_source_key ann_resolved_def no_deadline_def or_else_def sample_request_def
          task_message_type_def split: prod.split sum.split)
  qed (use new_task_key[OF t] in simp_all)
qed

theorem message_creates_one_task_witness:
  "\<exists>s w1. create_task sample_libraries sample_services sample_message (AssignEmployee 5)
       (sample_desk [None, None, None]) = (Inr (Some (OutcomeCreated s)), w1)
     \<and> cs_delivery_status s = PendingDelivery \<and> length (w_tasks w1) = 2
     \<and> (\<forall>decision r w2. create_task sample_libraries sample_services sample_message decision w1 = (r, w2)
          \<longrightarrow> w_tasks w2 = w_tasks w1)"
proof -
  obtain t where t: "t_source_message_key t = ascii ''telegram:10:7''" "t_task_uid t = 9"
    "t_created_by_user_id t = 1" "t_assigned_to_user_id t = Some 2" "t_assigned_to_employee_id t = Some 5"
    and resolved: "create_resolved sample_libraries sample_services sample_message sample_text sample_boss
      sample_request ann_resolved (sample_greeted []\<lparr> w_ticks := 6 \<rparr>)
     = (case persist_created sample_boss ann_resolved t
          (sample_greeted []\<lparr> w_ticks := 8, w_uuids := 10 \<rparr>) of
          (Inl e, w') \<Rightarrow> (Inl e, w') | (Inr out, w') \<Rightarrow> (Inr (Some out), w'))"
    by (rule sample_create_resolved)
  from sample_stored(1)[OF t] obtain s w1 where
    "persist_created sample_boss ann_resolved t (sample_greeted []\<lparr> w_ticks := 8, w_uuids := 10 \<rparr>)
      = (Inr (OutcomeCreated s), w1)" and delivery: "cs_delivery_status s = PendingDelivery" by blast
  note stored = persist_created_Inr[OF this(1)]
  with t have ok: "tasks_ok w1" by (auto simp: tasks_ok_def seen_def sample_greeted_def sample_world_def next_id_def)
  from \<open>persist_created sample_boss ann_resolved t _ = _\<close> resolved have "create_resolved sample_libraries sample_services sample_message sample_text
      sample_boss sample_request ann_resolved (sample_greeted []\<lparr> w_ticks := 6 \<rparr>)
      = (Inr (Some (OutcomeCreated s)), w1)" by simp
  note run = sample_unresolved_steps[OF this]
  note one = message_creates_one_task[OF run]
  from conjunct1[OF one] obtain t' where t': "w_tasks w1 = w_tasks (sample_desk [None, None, None]) @ [t']"
    "t_source_message_key t' = source_message_key sample_message" "t_task_uid t' = cs_task_uid s" by blast
  then have "length (w_tasks w1) = 2" by (simp add: sample_desk_def)
  moreover have "w_tasks w2 = w_tasks w1" if "create_task sample_libraries sample_services sample_message
      decision w1 = (r, w2)" for decision r w2
    using conjunct2[OF one, rule_format, of w1 t' sample_message] t' ok that by simp
  ultimately show ?thesis using run delivery by blast
qed

text \<open>
  A failure between the insert and the notification loses the notification: the redelivered message
  is answered as a duplicate whose delivery is pending, while no notification exists.
\<close>

lemma assignment_lost_after_failure:
  "\<exists>w1. create_task sample_libraries sample_services sample_message (AssignEmployee 5)
       (sample_desk [None, None, None, None, None, Some disk]) = (Inl (database_error disk), w1)
     \<and> length (w_tasks w1) = 2 \<and> w_notifications w1 = []
     \<and> (\<forall>out w2. create_task sample_libraries sample_services sample_message (AssignEmployee 5) w1
            = (Inr (Some out), w2) \<longrightarrow> w_notifications w2 = [])"
proof -
  obtain t where t: "t_source_message_key t = ascii ''telegram:10:7''" "t_task_uid t = 9"
    "t_created_by_user_id t = 1" "t_assigned_to_user_id t = Some 2" "t_assigned_to_employee_id t = Some 5"
    and resolved: "create_resolved sample_libraries sample_services sample_message sample_text sample_boss
      sample_request ann_resolved (sample_greeted [None, None, Some disk]\<lparr> w_ticks := 6 \<rparr>)
     = (case persist_created sample_boss ann_resolved t
          (sample_greeted [None, None, Some disk]\<lparr> w_ticks := 8, w_uuids := 10 \<rparr>) of
          (Inl e, w') \<Rightarrow> (Inl e, w') | (Inr out, w') \<Rightarrow> (Inr (Some out), w'))"
    by (rule sample_create_resolved)
  from sample_stored(2)[OF t] obtain w1 where
    failed: "persist_created sample_boss ann_resolved t
      (sample_greeted [None, None, Some disk]\<lparr> w_ticks := 8, w_uuids := 10 \<rparr>)
        = (Inl (database_error disk), w1)"
    and w1: "w_notifications w1 = []" "w_tasks w1 = [sample_task, t\<lparr> t_id := Some 8 \<rparr>]" by blast
  have "create_task sample_libraries sample_services sample_message (AssignEmployee 5)
       (sample_desk [None, None, None, None, None, Some disk]) = (Inl (database_error disk), w1)"
    by (rule sample_unresolved_steps) (simp add: resolved failed)
  moreover have "seen (source_message_key sample_message) w1 \<noteq> None"
    using w1(2) t(1) by (simp add: seen_def sample_source_key)
  then have "w_notifications w2 = []" if "create_task sample_libraries sample_services sample_message
      (AssignEmployee 5) w1 = (Inr (Some out), w2)" for out w2
    using obeysD[OF create_task_replay that] w1(1) by (simp add: replay_safe_def same_records_def)
  ultimately show ?thesis using w1 by auto
qed

end
