(* ===== verification/Task_Lists.thy ===== *)
theory Task_Lists
  imports Task_Use_Cases Task_Views Unicode_Text Use_Case_Texts
begin

section \<open>Lists, search and statistics\<close>

text \<open>
  \<^verbatim>\<open>list_tasks.rs\<close>, \<^verbatim>\<open>search_tasks.rs\<close> and \<^verbatim>\<open>collect_stats.rs\<close> of \<^verbatim>\<open>src/application/use_cases\<close>, with the
  statistics of the task repository. SQLite's floating-point average and its clock (\<^verbatim>\<open>date('now')\<close>)
  are parameters, as is the monotonic clock of the statistics cache.
\<close>

subsection \<open>Sections\<close>

definition DEFAULT_PAGE_SIZE :: nat where "DEFAULT_PAGE_SIZE = 20"
definition MAX_PAGE_SIZE :: nat where "MAX_PAGE_SIZE = 50"
definition MANAGER_INBOX_STALE_DAYS :: int where "MANAGER_INBOX_STALE_DAYS = 3"

datatype task_list_scope = AssignedToMe | CreatedByMe | Team | Focus | ManagerInbox

record task_list_section =
  sn_title :: utext
  sn_tasks :: "task_list_item list"

record task_list_page =
  pg_sections :: "task_list_section list"
  pg_next_cursor :: "utext option"

definition sanitize_limit :: "nat option \<Rightarrow> nat" where
  "sanitize_limit limit =
     max 1 (min MAX_PAGE_SIZE (case limit of None \<Rightarrow> DEFAULT_PAGE_SIZE | Some n \<Rightarrow> n))"

definition section_overdue :: "task \<Rightarrow> day \<Rightarrow> bool" where
  "section_overdue t today \<longleftrightarrow>
     (case t_deadline t of None \<Rightarrow> False | Some d \<Rightarrow> d < today) \<and> \<not> is_terminal (t_status t)"

definition section_due_today :: "task \<Rightarrow> day \<Rightarrow> bool" where
  "section_due_today t today \<longleftrightarrow>
     t_deadline t = Some today \<and> \<not> is_terminal (t_status t) \<and> t_status t \<noteq> Blocked"

definition section_in_review :: "task \<Rightarrow> day \<Rightarrow> bool" where
  "section_in_review t today \<longleftrightarrow> t_status t = InReview"

definition section_blocked :: "task \<Rightarrow> day \<Rightarrow> bool" where
  "section_blocked t today \<longleftrightarrow> t_status t = Blocked"

definition section_new :: "task \<Rightarrow> day \<Rightarrow> bool" where
  "section_new t today \<longleftrightarrow> t_status t \<in> {Created, Sent}"

definition section_in_progress :: "task \<Rightarrow> day \<Rightarrow> bool" where
  "section_in_progress t today \<longleftrightarrow> t_status t = InProgress"

definition section_completed :: "task \<Rightarrow> day \<Rightarrow> bool" where
  "section_completed t today \<longleftrightarrow> t_status t = Completed"

definition section_cancelled :: "task \<Rightarrow> day \<Rightarrow> bool" where
  "section_cancelled t today \<longleftrightarrow> t_status t = Cancelled"

definition section_pending_registration :: "task \<Rightarrow> day \<Rightarrow> bool" where
  "section_pending_registration t today \<longleftrightarrow>
     t_assigned_to_employee_id t \<noteq> None \<and> t_assigned_to_user_id t = None"

definition section_attention :: "task \<Rightarrow> day \<Rightarrow> bool" where
  "section_attention t today \<longleftrightarrow>
     section_overdue t today \<or> t_status t = Blocked \<or> t_status t \<in> {Created, Sent}
     \<or> section_pending_registration t today"

definition section_focus_urgent :: "task \<Rightarrow> day \<Rightarrow> bool" where
  "section_focus_urgent t today \<longleftrightarrow> section_overdue t today \<or> section_due_today t today"

definition section_focus_waiting_for_me :: "task \<Rightarrow> day \<Rightarrow> bool" where
  "section_focus_waiting_for_me t today \<longleftrightarrow> t_status t \<in> {Created, Sent}"

definition section_deadline_risk :: "task \<Rightarrow> day \<Rightarrow> bool" where
  "section_deadline_risk t today \<longleftrightarrow>
     (if is_terminal (t_status t) then False
      else case t_deadline t of None \<Rightarrow> False | Some d \<Rightarrow> d \<le> today)"

definition section_stale :: "task \<Rightarrow> day \<Rightarrow> bool" where
  "section_stale t today \<longleftrightarrow>
     (if is_terminal (t_status t) then False
      else today - date_of (t_updated_at t) \<ge> MANAGER_INBOX_STALE_DAYS)"

definition task_highlight :: "task \<Rightarrow> day \<Rightarrow> utext option" where
  "task_highlight t today =
    (if section_pending_registration t today then Some txt_hl_needs_start
     else if t_status t = Blocked then t_blocked_reason t
     else if section_overdue t today then Some txt_hl_deadline_passed
     else if section_due_today t today then Some txt_hl_due_today
     else if section_stale t today then Some txt_hl_stale
     else None)"

definition build_standard_sections ::
  "task list \<Rightarrow> day \<Rightarrow> (utext \<times> (task \<Rightarrow> day \<Rightarrow> bool)) list \<Rightarrow> task_list_section list" where
  "build_standard_sections tasks today descriptors =
     List.map_filter (\<lambda>(title, member).
       let items = map (\<lambda>t. list_item_from_task t None None (task_highlight t today))
                     (filter (\<lambda>t. member t today) tasks) in
       if items = [] then None else Some \<lparr> sn_title = title, sn_tasks = items \<rparr>) descriptors"

fun scope_sections :: "task_list_scope \<Rightarrow> (utext \<times> (task \<Rightarrow> day \<Rightarrow> bool)) list" where
  "scope_sections AssignedToMe =
     [(txt_sec_overdue, section_overdue), (txt_sec_waits_review, section_in_review),
      (txt_sec_blockers, section_blocked), (txt_sec_today, section_due_today),
      (txt_sec_new, section_new), (txt_sec_in_progress, section_in_progress),
      (txt_sec_completed, section_completed), (txt_sec_cancelled, section_cancelled)]"
| "scope_sections CreatedByMe =
     [(txt_sec_attention, section_attention), (txt_sec_review, section_in_review),
      (txt_sec_blockers, section_blocked), (txt_sec_in_progress, section_in_progress),
      (txt_sec_completed, section_completed), (txt_sec_cancelled, section_cancelled)]"
| "scope_sections Team =
     [(txt_sec_attention, section_attention), (txt_sec_review, section_in_review),
      (txt_sec_blockers, section_blocked), (txt_sec_in_progress, section_in_progress),
      (txt_sec_completed, section_completed), (txt_sec_cancelled, section_cancelled)]"
| "scope_sections Focus =
     [(txt_sec_urgent, section_focus_urgent), (txt_sec_my_action, section_focus_waiting_for_me),
      (txt_sec_blocked, section_blocked), (txt_sec_review, section_in_review),
      (txt_sec_rest, section_in_progress)]"
| "scope_sections ManagerInbox =
     [(txt_sec_manager_review, section_in_review), (txt_sec_manager_blocker, section_blocked),
      (txt_sec_no_bot, section_pending_registration), (txt_sec_risk, section_deadline_risk),
      (txt_sec_stale, section_stale)]"

definition build_sections :: "task_list_scope \<Rightarrow> day \<Rightarrow> task list \<Rightarrow> task_list_section list" where
  "build_sections scope today tasks = build_standard_sections tasks today (scope_sections scope)"

definition scoped_tasks ::
  "user \<Rightarrow> row_id \<Rightarrow> task_list_scope \<Rightarrow> utext option \<Rightarrow> nat \<Rightarrow> (world, task list) act" where
  "scoped_tasks actor actor_id scope cursor page_size =
    (case scope of
       AssignedToMe \<Rightarrow> list_assigned_to_user actor_id cursor page_size
     | Focus \<Rightarrow> list_assigned_to_user actor_id cursor page_size
     | CreatedByMe \<Rightarrow> list_created_by_user actor_id cursor page_size
     | Team \<Rightarrow> tryA (lift (ensure_can_view_team_tasks actor)) (\<lambda>_. list_all_tasks cursor page_size)
     | ManagerInbox \<Rightarrow>
         tryA (lift (ensure_can_view_team_tasks actor)) (\<lambda>_. list_all_tasks cursor page_size))"

definition list_tasks ::
  "user \<Rightarrow> task_list_scope \<Rightarrow> utext option \<Rightarrow> nat option \<Rightarrow> (world, task_list_page) act" where
  "list_tasks actor scope cursor limit =
    tryA (lift (ok_or (unauthenticated (ascii ''User must be registered before listing tasks'')
            (JObj [(''telegram_id'', JNum (u_telegram_id actor))])) (u_id actor))) (\<lambda>actor_id.
    tryA (scoped_tasks actor actor_id scope cursor (sanitize_limit limit)) (\<lambda>tasks.
    tryA today_utc (\<lambda>today.
    tryA (gets (\<lambda>w. env_uuid_text (w_env w))) (\<lambda>uid_text.
    ret \<lparr> pg_sections = build_sections scope today tasks,
          pg_next_cursor = (if tasks = [] then None
                            else Some (uid_text (t_task_uid (last tasks)))) \<rparr>))))"

subsection \<open>Search\<close>

definition MAX_SEARCH_RESULTS :: nat where "MAX_SEARCH_RESULTS = 15"
definition MIN_QUERY_CHARS :: nat where "MIN_QUERY_CHARS = 2"
definition MAX_QUERY_CHARS :: nat where "MAX_QUERY_CHARS = 64"

definition parse_search_query :: "unicode \<Rightarrow> utext \<Rightarrow> utext result" where
  "parse_search_query U raw =
    (let canonical = uc_to_lowercase U (trim (filter (\<lambda>c. \<not> is_control c) raw));
         char_count = length canonical in
     if canonical = [] then
       Inl (schema_validation ''SEARCH_QUERY_EMPTY'' (ascii ''search query must not be empty'') (JObj []))
     else if char_count < MIN_QUERY_CHARS then
       Inl (schema_validation ''SEARCH_QUERY_TOO_SHORT''
         (ascii ''query must be at least '' @ show_nat MIN_QUERY_CHARS @ ascii '' characters'')
         (JObj [(''min'', JNum (int MIN_QUERY_CHARS))]))
     else if char_count > MAX_QUERY_CHARS then
       Inl (schema_validation ''SEARCH_QUERY_TOO_LONG''
         (ascii ''query must be at most '' @ show_nat MAX_QUERY_CHARS @ ascii '' characters'')
         (JObj [(''max'', JNum (int MAX_QUERY_CHARS))]))
     else Inr canonical)"

definition matches_query :: "unicode \<Rightarrow> (uuid \<Rightarrow> utext) \<Rightarrow> task \<Rightarrow> utext \<Rightarrow> bool" where
  "matches_query U uid_text t canonical_query \<longleftrightarrow>
     contains_text (uc_to_lowercase U (t_title t)) canonical_query
     \<or> contains_text (uc_to_lowercase U (t_description t)) canonical_query
     \<or> contains_text (uc_to_lowercase U (uid_text (t_task_uid t))) canonical_query"

text \<open>The first occurrence of every identity, in order (a \<^verbatim>\<open>HashSet\<close> filter).\<close>

fun dedup_by_uid :: "uuid set \<Rightarrow> task list \<Rightarrow> task list" where
  "dedup_by_uid seen [] = []"
| "dedup_by_uid seen (t # ts) =
     (if t_task_uid t \<in> seen then dedup_by_uid seen ts
      else t # dedup_by_uid (insert (t_task_uid t) seen) ts)"

definition search_tasks :: "unicode \<Rightarrow> user \<Rightarrow> utext \<Rightarrow> (world, task_list_item list) act" where
  "search_tasks U actor query =
    (case u_id actor of
       None \<Rightarrow> fail (forbidden ''SEARCH_REQUIRES_PERSISTED_USER'' txt_search_forbidden (JObj []))
     | Some user_id \<Rightarrow>
        tryA (list_assigned_to_user user_id None 200) (\<lambda>assigned.
        tryA (list_created_by_user user_id None 200) (\<lambda>created.
        tryA (gets (\<lambda>w. env_uuid_text (w_env w))) (\<lambda>uid_text.
        let merged = dedup_by_uid {} (assigned @ created);
            matching = filter (\<lambda>t. matches_query U uid_text t query) merged;
            results = take MAX_SEARCH_RESULTS (sort_key (\<lambda>t. - t_updated_at t) matching) in
        ret (map (\<lambda>t. list_item_from_task t None None None) results)))))"

subsection \<open>Statistics\<close>

text \<open>\<^verbatim>\<open>StatsView\<close> has the fields of \<^verbatim>\<open>TaskStats\<close> and its conversion copies them.\<close>

record task_stats =
  st_created_count :: nat
  st_completed_count :: nat
  st_active_count :: nat
  st_overdue_count :: nat
  st_average_completion_hours :: "int option"

record sqlite_stats =
  sq_today :: day
  sq_average :: "task list \<Rightarrow> int option"

definition stats_of :: "sqlite_stats \<Rightarrow> task list \<Rightarrow> task_stats" where
  "stats_of Q rows =
     \<lparr> st_created_count = length rows,
       st_completed_count = length (filter (\<lambda>t. t_status t = Completed) rows),
       st_active_count = length (filter is_open rows),
       st_overdue_count = length (filter (\<lambda>t. (case t_deadline t of None \<Rightarrow> False | Some d \<Rightarrow> d < sq_today Q)
          \<and> t_status t \<notin> {Completed, Cancelled}) rows),
       st_average_completion_hours = sq_average Q rows \<rparr>"

definition count_stats_for_user :: "sqlite_stats \<Rightarrow> row_id \<Rightarrow> (world, task_stats) act" where
  "count_stats_for_user Q user_id =
     select (\<lambda>w. stats_of Q (filter (\<lambda>t. t_created_by_user_id t = user_id) (w_tasks w)))"

definition count_stats_global :: "sqlite_stats \<Rightarrow> (world, task_stats) act" where
  "count_stats_global Q = select (\<lambda>w. stats_of Q (w_tasks w))"

datatype stats_scope = PersonalStats | TeamStats

definition GLOBAL_STATS_TTL :: int where "GLOBAL_STATS_TTL = 60 * ns_per_sec"

type_synonym stats_cache = "(int \<times> task_stats) option"

text \<open>
  The cache is shared by all callers; a call returns it as it leaves it. \<open>asked\<close> and \<open>answered\<close> are
  the readings of the monotonic clock at the look-up and after the query.
\<close>

definition global_stats_cached ::
  "sqlite_stats \<Rightarrow> int \<Rightarrow> int \<Rightarrow> stats_cache \<Rightarrow> (world, task_stats \<times> stats_cache) act" where
  "global_stats_cached Q asked answered guard =
    (case guard of
       Some (fetched_at, stats) \<Rightarrow>
         if asked - fetched_at < GLOBAL_STATS_TTL then ret (stats, guard)
         else tryA (count_stats_global Q) (\<lambda>fresh. ret (fresh, Some (answered, fresh)))
     | None \<Rightarrow> tryA (count_stats_global Q) (\<lambda>fresh. ret (fresh, Some (answered, fresh))))"

definition collect_stats ::
  "sqlite_stats \<Rightarrow> int \<Rightarrow> int \<Rightarrow> stats_cache \<Rightarrow> user \<Rightarrow> stats_scope \<Rightarrow> (world, task_stats \<times> stats_cache) act" where
  "collect_stats Q asked answered cache actor scope =
    tryA (lift (ok_or (unauthenticated (ascii ''User must be registered before viewing stats'')
            (JObj [(''telegram_id'', JNum (u_telegram_id actor))])) (u_id actor))) (\<lambda>actor_id.
    case scope of
      PersonalStats \<Rightarrow> tryA (count_stats_for_user Q actor_id) (\<lambda>stats. ret (stats, cache))
    | TeamStats \<Rightarrow>
        tryA (lift (ensure_can_view_team_stats actor)) (\<lambda>_.
        global_stats_cached Q asked answered cache))"

subsection \<open>Walking the pages\<close>

text \<open>A reader who presses \<open>next\<close> until a page has no next one, at most \<open>n\<close> times.\<close>

fun walk_pages ::
  "nat \<Rightarrow> user \<Rightarrow> task_list_scope \<Rightarrow> nat option \<Rightarrow> utext option \<Rightarrow> (world, task_list_page list) act" where
  "walk_pages 0 actor scope limit cursor = ret []"
| "walk_pages (Suc n) actor scope limit cursor =
    tryA (list_tasks actor scope cursor limit) (\<lambda>page.
    case pg_next_cursor page of
      None \<Rightarrow> ret [page]
    | Some c \<Rightarrow> tryA (walk_pages n actor scope limit (Some c)) (\<lambda>pages. ret (page # pages)))"

definition shown :: "task_list_page \<Rightarrow> uuid set" where
  "shown page = li_task_uid ` (\<Union>sn \<in> set (pg_sections page). set (sn_tasks sn))"

definition in_scope :: "row_id \<Rightarrow> task_list_scope \<Rightarrow> task \<Rightarrow> bool" where
  "in_scope i scope t \<longleftrightarrow>
     (case scope of AssignedToMe \<Rightarrow> t_assigned_to_user_id t = Some i
      | Focus \<Rightarrow> t_assigned_to_user_id t = Some i
      | CreatedByMe \<Rightarrow> t_created_by_user_id t = i | Team \<Rightarrow> True | ManagerInbox \<Rightarrow> True)"

lemma section_rows:
  "(\<Union>sn \<in> set (build_standard_sections tasks today ds). set (sn_tasks sn))
     = (\<lambda>t. list_item_from_task t None None (task_highlight t today))
         ` {t \<in> set tasks. \<exists>(title, member) \<in> set ds. member t today}"
proof (induction ds)
  case Nil
  then show ?case by (simp add: build_standard_sections_def map_filter_simps)
next
  case (Cons d ds)
  obtain title member where d: "d = (title, member)" by (cases d)
  let ?rest = "build_standard_sections tasks today ds"
  have "build_standard_sections tasks today (d # ds)
      = (if filter (\<lambda>t. member t today) tasks = [] then ?rest
         else \<lparr> sn_title = title, sn_tasks = map (\<lambda>t. list_item_from_task t None None (task_highlight t today))
                (filter (\<lambda>t. member t today) tasks) \<rparr> # ?rest)"
    by (simp add: d build_standard_sections_def map_filter_simps Let_def del: filter_False)
  then have "(\<Union>sn \<in> set (build_standard_sections tasks today (d # ds)). set (sn_tasks sn))
      = (\<lambda>t. list_item_from_task t None None (task_highlight t today)) ` {t \<in> set tasks. member t today}
        \<union> (\<Union>sn \<in> set ?rest. set (sn_tasks sn))"
    by (auto simp: filter_empty_conv)
  also have "\<dots> = (\<lambda>t. list_item_from_task t None None (task_highlight t today))
      ` {t \<in> set tasks. \<exists>(title, member) \<in> set (d # ds). member t today}"
    unfolding Cons.IH by (auto simp: d)
  finally show ?case .
qed

lemma sections_uids:
  "li_task_uid ` (\<Union>sn \<in> set (build_standard_sections tasks today ds). set (sn_tasks sn))
     = t_task_uid ` {t \<in> set tasks. \<exists>(title, member) \<in> set ds. member t today}"
  unfolding section_rows by (simp add: image_image list_item_from_task_def)

definition full_scope :: "task_list_scope \<Rightarrow> bool" where
  "full_scope scope \<longleftrightarrow> scope \<in> {AssignedToMe, CreatedByMe, Team}"

lemma full_scope_covers:
  "full_scope scope \<Longrightarrow> \<exists>(title, member) \<in> set (scope_sections scope). member t today"
  by (cases "t_status t")
     (auto simp: full_scope_def section_overdue_def section_in_review_def section_blocked_def
       section_new_def section_in_progress_def section_completed_def section_cancelled_def
       section_attention_def)

lemma shown_page:
  "full_scope scope \<Longrightarrow> shown \<lparr> pg_sections = build_sections scope today tasks, pg_next_cursor = c \<rparr>
     = t_task_uid ` set tasks"
  by (simp add: shown_def build_sections_def sections_uids) (use full_scope_covers in fastforce)

text \<open>The rows in the order of the pages, and a page as a part of them.\<close>

definition ordered :: "(task \<Rightarrow> bool) \<Rightarrow> world \<Rightarrow> task list" where
  "ordered P w = rev (sort_key (\<lambda>t. env_uuid_text (w_env w) (t_task_uid t)) (filter P (w_tasks w)))"

lemma page_is_part:
  assumes "inj (env_uuid_text (w_env w))" "tasks_ok w" "ordered P w = xs @ ys"
  shows "page_by_uid P (if xs = [] then None else Some (env_uuid_text (w_env w) (t_task_uid (last xs)))) k w
    = take k ys"
proof (cases "xs = []")
  case True
  with assms(3) show ?thesis by (simp add: page_by_uid_def ordered_def)
next
  case False
  define key where "key = (\<lambda>t :: task. env_uuid_text (w_env w) (t_task_uid t))"
  define c where "c = key (last xs)"
  let ?rows = "filter P (w_tasks w)"
  have "distinct (map t_task_uid ?rows)" using assms(2) by (auto simp: tasks_ok_def distinct_map_filter)
  then have "distinct (map key ?rows)"
    using assms(1) by (auto simp: key_def distinct_map inj_on_def inj_def)
  then have "distinct (map key (sort_key key ?rows))" by (simp add: distinct_map)
  moreover have "sorted (map key (sort_key key ?rows))" by simp
  ultimately have "sorted_wrt (<) (map key (sort_key key ?rows))"
    by (simp add: strict_sorted_iff)
  then have "sorted_wrt (\<lambda>a b. key b < key a) (ordered P w)"
    by (simp add: ordered_def key_def sorted_wrt_map sorted_wrt_rev)
  with assms(3) have order: "sorted_wrt (\<lambda>a b. key b < key a) (xs @ ys)" by simp
  have "key y < c" if "y \<in> set ys" for y
    using order that False by (auto simp: sorted_wrt_append c_def)
  moreover have "\<not> key x < c" if "x \<in> set xs" for x
  proof -
    from False obtain us where us: "xs = us @ [last xs]" by (metis append_butlast_last_id)
    with order have "sorted_wrt (\<lambda>a b. key b < key a) (us @ [last xs])" by (simp add: sorted_wrt_append)
    then have "u \<in> set us \<Longrightarrow> c < key u" for u by (simp add: sorted_wrt_append c_def)
    moreover have "x \<in> set us \<or> x = last xs" using that us by (metis Un_iff empty_iff empty_set insert_iff list.simps(15) set_append)
    ultimately show ?thesis unfolding c_def by (metis order.asym)
  qed
  ultimately have cut: "filter (\<lambda>t. key t < c) (xs @ ys) = ys" by (simp add: filter_id_conv)
  have "page_by_uid P (Some c) k w = take k (rev (sort_key key (filter (\<lambda>t. key t < c) ?rows)))"
    by (simp add: page_by_uid_def key_def conj_commute)
  also have "\<dots> = take k (filter (\<lambda>t. key t < c) (ordered P w))"
    unfolding ordered_def key_def[symmetric] by (simp only: rev_filter[symmetric] filter_sort)
  also have "\<dots> = take k ys" by (simp only: assms(3) cut)
  finally show ?thesis using False by (simp add: c_def key_def)
qed

fun chunks :: "nat \<Rightarrow> 'a list \<Rightarrow> 'a list list" where
  "chunks 0 xs = [xs]"
| "chunks (Suc k) [] = [[]]"
| "chunks (Suc k) (x # xs) = take (Suc k) (x # xs) # chunks (Suc k) (drop k xs)"

lemma concat_chunks: "concat (chunks k xs) = xs"
  by (induction k xs rule: chunks.induct) simp_all

lemma length_chunks: "length (chunks k xs) \<le> length xs + 1"
  by (induction k xs rule: chunks.induct) simp_all

lemma chunk_sizes: "c \<in> set (chunks (Suc k) xs) \<Longrightarrow> length c \<le> Suc k"
  by (induction "Suc k" xs rule: chunks.induct) auto

text \<open>What a page says of its part of the list.\<close>

definition page_of :: "task_list_scope \<Rightarrow> task_list_page \<Rightarrow> task list \<Rightarrow> bool" where
  "page_of scope page part \<longleftrightarrow>
     (\<exists>today. pg_sections page = build_sections scope today part)
     \<and> (full_scope scope \<longrightarrow> shown page = t_task_uid ` set part)"

lemma list_tasks_page:
  assumes "w_faults w = []" "u_id actor = Some i"
    and "scope \<in> {Team, ManagerInbox} \<longrightarrow> ensure_can_view_team_tasks actor = Inr ()"
    and page: "page_by_uid (in_scope i scope) cursor (sanitize_limit limit) w = ts"
  obtains p where "list_tasks actor scope cursor limit w = (Inr p, w\<lparr> w_ticks := Suc (w_ticks w) \<rparr>)"
    "page_of scope p ts"
    "pg_next_cursor p = (if ts = [] then None else Some (env_uuid_text (w_env w) (t_task_uid (last ts))))"
proof -
  have in_scope: "in_scope i AssignedToMe = (\<lambda>t. t_assigned_to_user_id t = Some i)"
    "in_scope i Focus = (\<lambda>t. t_assigned_to_user_id t = Some i)"
    "in_scope i CreatedByMe = (\<lambda>t. t_created_by_user_id t = i)" "in_scope i Team = (\<lambda>_. True)"
    "in_scope i ManagerInbox = (\<lambda>_. True)"
    by (simp_all add: in_scope_def fun_eq_iff)
  have "scoped_tasks actor i scope cursor (sanitize_limit limit) w = (Inr ts, w)"
    using assms
    by (cases scope) (auto simp: scoped_tasks_def in_scope list_assigned_to_user_def
        list_created_by_user_def list_all_tasks_def select_no_faults tryA_def lift_def)
  then have run: "list_tasks actor scope cursor limit w = (Inr
      \<lparr> pg_sections = build_sections scope (date_of (env_clock (w_env w) (w_ticks w))) ts,
        pg_next_cursor = (if ts = [] then None
                          else Some (env_uuid_text (w_env w) (t_task_uid (last ts)))) \<rparr>,
      w\<lparr> w_ticks := Suc (w_ticks w) \<rparr>)"
    using assms(2) by (simp add: list_tasks_def tryA_def lift_def today_utc_def now_utc_def gets_def ret_def)
  show ?thesis by (rule that[OF run]) (auto simp: page_of_def shown_page)
qed

lemma walk_from:
  assumes "w_faults w = []" "u_id actor = Some i"
    and "scope \<in> {Team, ManagerInbox} \<longrightarrow> ensure_can_view_team_tasks actor = Inr ()"
    and "inj (env_uuid_text (w_env w))" "tasks_ok w"
    and "ordered (in_scope i scope) w = xs @ ys" "length ys < n"
    and "cursor = (if xs = [] then None else Some (env_uuid_text (w_env w) (t_task_uid (last xs))))"
  shows "\<exists>pages m'. walk_pages n actor scope limit cursor (w\<lparr> w_ticks := m \<rparr>)
       = (Inr pages, w\<lparr> w_ticks := m' \<rparr>)
     \<and> list_all2 (page_of scope) pages (chunks (sanitize_limit limit) ys)"
  using assms(6-)
proof (induction n arbitrary: xs ys cursor m)
  case (Suc n)
  let ?k = "sanitize_limit limit"
  let ?w = "w\<lparr> w_ticks := m \<rparr>"
  obtain k where k: "?k = Suc k" by (metis One_nat_def Suc_le_D max.cobounded1 sanitize_limit_def)
  have faults: "w_faults ?w = []" using assms(1) by simp
  have page: "page_by_uid (in_scope i scope) cursor ?k ?w = take ?k ys"
    using page_is_part[OF assms(4,5) Suc.prems(1), of ?k] Suc.prems(3) by (simp add: page_by_uid_def)
  obtain p where p: "list_tasks actor scope cursor limit ?w = (Inr p, w\<lparr> w_ticks := Suc m \<rparr>)"
    "page_of scope p (take ?k ys)"
    "pg_next_cursor p = (if take ?k ys = [] then None
       else Some (env_uuid_text (w_env w) (t_task_uid (last (take ?k ys)))))"
    by (rule list_tasks_page[OF faults assms(2,3) page], rule that, simp_all split: if_splits)
  show ?case
  proof (cases ys)
    case Nil
    with p k show ?thesis by (intro exI[of _ "[p]"] exI[of _ "Suc m"]) (simp add: tryA_def ret_def)
  next
    case (Cons y ys')
    have "ordered (in_scope i scope) w = (xs @ take ?k ys) @ drop ?k ys" using Suc.prems(1) by simp
    moreover have "length (drop ?k ys) < n" using Suc.prems(2) Cons k by simp
    moreover have "Some (env_uuid_text (w_env w) (t_task_uid (last (take ?k ys))))
      = (if xs @ take ?k ys = [] then None
         else Some (env_uuid_text (w_env w) (t_task_uid (last (xs @ take ?k ys)))))"
      using Cons k by simp
    ultimately obtain pages m' where rest: "walk_pages n actor scope limit
        (Some (env_uuid_text (w_env w) (t_task_uid (last (take ?k ys))))) (w\<lparr> w_ticks := Suc m \<rparr>)
       = (Inr pages, w\<lparr> w_ticks := m' \<rparr>)"
      "list_all2 (page_of scope) pages (chunks ?k (drop ?k ys))"
      using Suc.IH[of "xs @ take ?k ys" "drop ?k ys" _ "Suc m"] by blast
    have "take ?k ys \<noteq> []" using Cons k by simp
    with p rest Cons k show ?thesis
      by (intro exI[of _ "p # pages"] exI[of _ m']) (simp add: tryA_def ret_def)
  qed
qed simp

text \<open>C20. The pages cut the list into parts. Whatever page size a person asks for, following the next button
  through any of the lists ends, after at most one page more than there are tasks; the pages show one
  after the other consecutive parts of the list of the tasks in scope, each no longer than the page size,
  and the parts together are that list, every task once, ordered by the printed identity. The sections of
  a page are those of its part, a section holding the tasks of the part that belong there in the order
  of the list. In the own, the created and the team list every task of the part is in some section, and
  it may be in several (a blocked one that is overdue is in both); the focus list and the inbox of
  managers leave out what fits none of their sections. (The database does not change meanwhile, and the
  printed identities are distinct.)\<close>

theorem pages_cut_the_list:
  assumes "w_faults w = []" "tasks_ok w" "inj (env_uuid_text (w_env w))" "u_id actor = Some i"
    and "scope \<in> {Team, ManagerInbox} \<longrightarrow> ensure_can_view_team_tasks actor = Inr ()"
    and "length (w_tasks w) < n"
  shows "\<exists>pages parts w'. walk_pages n actor scope limit None w = (Inr pages, w')
    \<and> length pages \<le> length (w_tasks w) + 1
    \<and> list_all2 (\<lambda>page part. (\<exists>today. pg_sections page = build_sections scope today part)
         \<and> length part \<le> sanitize_limit limit
         \<and> (full_scope scope \<longrightarrow> shown page = t_task_uid ` set part)) pages parts
    \<and> set (concat parts) = {t \<in> set (w_tasks w). in_scope i scope t}
    \<and> distinct (map t_task_uid (concat parts))
    \<and> sorted (rev (map (\<lambda>t. env_uuid_text (w_env w) (t_task_uid t)) (concat parts)))"
proof -
  let ?rows = "ordered (in_scope i scope) w"
  let ?parts = "chunks (sanitize_limit limit) ?rows"
  obtain k where k: "sanitize_limit limit = Suc k" by (metis One_nat_def Suc_le_D max.cobounded1 sanitize_limit_def)
  have rows: "set ?rows = {t \<in> set (w_tasks w). in_scope i scope t}" "length ?rows \<le> length (w_tasks w)"
    "sorted (rev (map (\<lambda>t. env_uuid_text (w_env w) (t_task_uid t)) ?rows))"
    by (auto simp: ordered_def rev_map)
  have "distinct (map t_task_uid ?rows)"
    using assms(2) by (auto simp: ordered_def tasks_ok_def distinct_map_filter distinct_map inj_on_def)
  moreover obtain pages m' where run: "walk_pages n actor scope limit None w = (Inr pages, w\<lparr> w_ticks := m' \<rparr>)"
    and pages: "list_all2 (page_of scope) pages ?parts"
    using walk_from[OF assms(1,4,5,3,2), of "[]" ?rows n None limit "w_ticks w"] rows(2) assms(6)
    by auto
  moreover have "list_all2 (\<lambda>page part. (\<exists>today. pg_sections page = build_sections scope today part)
         \<and> length part \<le> sanitize_limit limit
         \<and> (full_scope scope \<longrightarrow> shown page = t_task_uid ` set part)) pages ?parts"
    using list.rel_mono_strong[OF pages, of "\<lambda>page part. (\<exists>today. pg_sections page = build_sections scope today part)
         \<and> length part \<le> sanitize_limit limit
         \<and> (full_scope scope \<longrightarrow> shown page = t_task_uid ` set part)"] chunk_sizes[of _ k ?rows] k
    by (auto simp: page_of_def)
  moreover have "length pages \<le> length (w_tasks w) + 1"
    using list_all2_lengthD[OF pages] length_chunks[of "sanitize_limit limit" ?rows] rows(2) by linarith
  ultimately show ?thesis
    using rows by (intro exI[of _ pages] exI[of _ ?parts] exI[of _ "w\<lparr> w_ticks := m' \<rparr>"]) (simp add: concat_chunks)
qed

text \<open>The creator of the sample task reads the list of what they have created, one task per page.\<close>

theorem pages_cut_the_list_witness:
  "\<exists>pages parts w'. walk_pages 5 sample_creator CreatedByMe (Some 1) None sample_world = (Inr pages, w')
    \<and> list_all2 (\<lambda>page part. shown page = t_task_uid ` set part) pages parts
    \<and> set (concat parts) = {sample_task}"
proof -
  have "inj (env_uuid_text (w_env sample_world))"
    by (simp add: sample_env_def inj_def word_unat_eq_iff)
  from pages_cut_the_list[OF _ sample_ok(1) this, of sample_creator 1 CreatedByMe 5 "Some 1"]
  obtain pages parts w' where run: "walk_pages 5 sample_creator CreatedByMe (Some 1) None sample_world = (Inr pages, w')"
    and parts: "list_all2 (\<lambda>page part. (\<exists>today. pg_sections page = build_sections CreatedByMe today part)
         \<and> length part \<le> sanitize_limit (Some 1)
         \<and> (full_scope CreatedByMe \<longrightarrow> shown page = t_task_uid ` set part)) pages parts"
    and all: "set (concat parts) = {t \<in> set (w_tasks sample_world). in_scope 1 CreatedByMe t}"
    by (auto simp: sample_creator_def)
  have "list_all2 (\<lambda>page part. shown page = t_task_uid ` set part) pages parts"
    by (rule list.rel_mono_strong[OF parts]) (simp add: full_scope_def)
  moreover have "{t \<in> set (w_tasks sample_world). in_scope 1 CreatedByMe t} = {sample_task}"
    by (auto simp: in_scope_def)
  ultimately show ?thesis using run all by auto
qed

subsection \<open>What search shows\<close>

lemma dedup_members: "t \<in> set (dedup_by_uid seen ts) \<Longrightarrow> t \<in> set ts \<and> t_task_uid t \<notin> seen"
  by (induction seen ts rule: dedup_by_uid.induct) (auto split: if_splits)

lemma dedup_distinct: "distinct (map t_task_uid (dedup_by_uid seen ts))"
  by (induction seen ts rule: dedup_by_uid.induct) (auto dest: dedup_members)

lemma page_members: "t \<in> set (page_by_uid P c k w) \<Longrightarrow> t \<in> set (w_tasks w) \<and> P t"
  by (auto simp: page_by_uid_def dest!: in_set_takeD split: option.splits if_splits)

text \<open>Search is private, has no duplicates and is short.\<close>

lemma search_is_private:
  assumes "w_faults w = []" "u_id actor = Some i"
  obtains items where "search_tasks U actor query w = (Inr items, w)"
    "length items \<le> 15" "distinct (map li_task_uid items)"
    "\<And>x. x \<in> set items \<Longrightarrow> \<exists>t \<in> set (w_tasks w). li_task_uid x = t_task_uid t
       \<and> (t_assigned_to_user_id t = Some i \<or> t_created_by_user_id t = i)
       \<and> matches_query U (env_uuid_text (w_env w)) t query"
proof -
  define merged where "merged = dedup_by_uid {}
    (page_by_uid (\<lambda>t. t_assigned_to_user_id t = Some i) None 200 w
     @ page_by_uid (\<lambda>t. t_created_by_user_id t = i) None 200 w)"
  define found where "found = take MAX_SEARCH_RESULTS (sort_key (\<lambda>t. - t_updated_at t)
    (filter (\<lambda>t. matches_query U (env_uuid_text (w_env w)) t query) merged))"
  let ?items = "map (\<lambda>t. list_item_from_task t None None None) found"
  have run: "search_tasks U actor query w = (Inr ?items, w)"
    using assms by (simp add: search_tasks_def list_assigned_to_user_def list_created_by_user_def
        select_no_faults tryA_def gets_def ret_def Let_def merged_def found_def)
  have uids: "map li_task_uid ?items = map t_task_uid found"
    by (simp add: list_item_from_task_def)
  have "distinct (map t_task_uid merged)" unfolding merged_def by (rule dedup_distinct)
  then have "distinct (map t_task_uid (sort_key (\<lambda>t. - t_updated_at t)
      (filter (\<lambda>t. matches_query U (env_uuid_text (w_env w)) t query) merged)))"
    by (auto simp: distinct_map inj_on_def)
  then have distinct: "distinct (map li_task_uid ?items)" unfolding uids unfolding found_def by (simp only: take_map[symmetric] distinct_take)
  have short: "length ?items \<le> 15" by (simp add: found_def MAX_SEARCH_RESULTS_def)
  have "\<exists>t \<in> set (w_tasks w). li_task_uid x = t_task_uid t
       \<and> (t_assigned_to_user_id t = Some i \<or> t_created_by_user_id t = i)
       \<and> matches_query U (env_uuid_text (w_env w)) t query" if x: "x \<in> set ?items" for x
  proof -
    obtain t :: task where t: "t \<in> set found" "x = list_item_from_task t None None None"
      using x by auto
    then have "t \<in> set merged" "matches_query U (env_uuid_text (w_env w)) t query"
      by (auto simp: found_def dest: in_set_takeD)
    moreover from this have "t \<in> set (w_tasks w) \<and> (t_assigned_to_user_id t = Some i \<or> t_created_by_user_id t = i)"
      unfolding merged_def by (auto dest!: dedup_members page_members)
    ultimately show ?thesis using t by (auto simp: list_item_from_task_def)
  qed
  with run short distinct show ?thesis by (rule that)
qed

end
