(* ===== verification/Reassign.thy ===== *)
theory Reassign
  imports Create_Task
begin

section \<open>Reassigning a task\<close>

text \<open>
  \<^verbatim>\<open>src/application/use_cases/reassign_task.rs\<close>: the use case whole, with the assignee resolver of
  \<open>Assignee_Resolution\<close>. The similarity measure and the Unicode tables are parameters.
\<close>

datatype reassign_task_outcome =
    Reassigned task_status_summary
  | ReassignClarification clarification_request

datatype reassign_decision = ReassignAuto | ReassignEmployee row_id

definition log_reassignment ::
  "row_id \<Rightarrow> task \<Rightarrow> task \<Rightarrow> utext \<Rightarrow> (world, unit) act" where
  "log_reassignment actor_id previous saved query =
    (case t_id saved of
       None \<Rightarrow> fail (internal ''TASK_ID_MISSING''
         (ascii ''Task must have an identifier after reassignment'')
         (JObj [(''task_uid'', JUuid (t_task_uid saved))]))
     | Some task_id \<Rightarrow>
        tryA now_utc (\<lambda>now.
        tryA (append_audit \<lparr> al_id = None, al_task_id = task_id, al_action = AuditReassigned,
            al_old_status = Some (show_status (t_status previous)),
            al_new_status = Some (show_status (t_status saved)),
            al_changed_by_user_id = Some actor_id,
            al_metadata = JObj [(''query'', JStr (trim query)),
              (''assigned_to_user_id'', jopt JNum (t_assigned_to_user_id saved)),
              (''assigned_to_employee_id'', jopt JNum (t_assigned_to_employee_id saved))],
            al_created_at = now \<rparr>) (\<lambda>_. ret ())))"

definition reassigned_key :: "utext \<Rightarrow> row_id \<Rightarrow> int \<Rightarrow> utext" where
  "reassigned_key uid recipient version =
     ascii ''task_reassigned:'' @ uid @ ascii '':'' @ show_int recipient @ ascii '':'' @ show_int version"

definition notify_new_assignee :: "task \<Rightarrow> (world, unit) act" where
  "notify_new_assignee t =
    (case t_assigned_to_user_id t of
       None \<Rightarrow> ret ()
     | Some recipient \<Rightarrow>
        tryA (uuid_text (t_task_uid t)) (\<lambda>uid.
        tryA now_utc (\<lambda>now.
        tryA (enqueue (pending_notification (t_id t) recipient TaskAssigned
               (txt_reassigned_to_you @ t_title t @ txt_quote_dot)
               (reassigned_key uid recipient (t_version t)) now)) (\<lambda>_.
        ret ()))))"

definition choose_assignee ::
  "unicode \<Rightarrow> similarity \<Rightarrow> reassign_decision \<Rightarrow> utext \<Rightarrow> (world, assignee_resolution) act" where
  "choose_assignee U similar decision query =
    (case decision of
       ReassignAuto \<Rightarrow> resolve_for_reassignment U similar query
     | ReassignEmployee employee_id \<Rightarrow>
         tryA (resolve_employee_id employee_id) (\<lambda>resolved. ret (ResolvedTo resolved)))"

definition store_reassignment ::
  "row_id \<Rightarrow> task \<Rightarrow> resolved_assignee \<Rightarrow> utext \<Rightarrow> (world, reassign_task_outcome) act" where
  "store_reassignment actor_id t v query =
    tryA now_utc (\<lambda>now.
    tryA (lift (reassign t (Option.bind (ra_user v) u_id) (Option.bind (ra_employee v) e_id) now))
      (\<lambda>reassigned.
    tryA (update_task reassigned) (\<lambda>saved.
    tryA (log_reassignment actor_id t saved query) (\<lambda>_.
    tryA (notify_new_assignee saved) (\<lambda>_.
    ret (Reassigned \<lparr> ts_task_uid = t_task_uid t,
           ts_public_code = format_public_task_code_or_placeholder (t_id saved),
           ts_status = t_status saved, ts_message = txt_assignee_updated @ trim query \<rparr>))))))"

definition reassign_task ::
  "unicode \<Rightarrow> similarity \<Rightarrow> user \<Rightarrow> uuid \<Rightarrow> utext \<Rightarrow> reassign_decision \<Rightarrow>
   (world, reassign_task_outcome) act" where
  "reassign_task U similar actor uid query decision =
    (case u_id actor of
       None \<Rightarrow> fail (unauthenticated (ascii ''User must be registered before reassigning tasks'')
         (JObj [(''telegram_id'', JNum (u_telegram_id actor))]))
     | Some actor_id \<Rightarrow>
        tryA (find_by_uid uid) (\<lambda>found.
        case found of
          None \<Rightarrow> fail (task_not_found uid)
        | Some t \<Rightarrow>
            tryA (lift (ensure_can_reassign actor t)) (\<lambda>_.
            tryA (choose_assignee U similar decision query) (\<lambda>resolution.
            case resolution of
              ResolutionClarification request \<Rightarrow>
                ret (ReassignClarification (request\<lparr> cl_task_body_preview :=
                       Some (body_preview [] (t_title t)) \<rparr>))
            | ResolvedTo v \<Rightarrow> store_reassignment actor_id t v query))))"

definition reassign_task_auto ::
  "unicode \<Rightarrow> similarity \<Rightarrow> user \<Rightarrow> uuid \<Rightarrow> utext \<Rightarrow> (world, reassign_task_outcome) act" where
  "reassign_task_auto U similar actor uid query = reassign_task U similar actor uid query ReassignAuto"

subsection \<open>What a reassignment does\<close>

lemma same_records_tasks:
  "same_records w w' \<Longrightarrow> task_at w' = task_at w \<and> tasks_ok w' = tasks_ok w"
  by (simp add: same_records_def task_at_def tasks_ok_def fun_eq_iff)

context store_frame
begin

lemma resolving_employee: "obeys R (resolve_employee_id i)"
proof -
  have "obeys R (case f of Some e \<Rightarrow> resolve_user_from_employee e | None \<Rightarrow> ret None)" for f
    by (intro act_cases store_rules resolving_user)
  then show ?thesis
    unfolding resolve_employee_id_def find_employee_by_id_def by (intro store_rules)
qed

lemma choosing_assignee: "obeys R (choose_assignee U similar decision query)"
  by (cases decision) (auto simp: choose_assignee_def resolve_for_reassignment_def
      intro!: resolving_query store_rules resolving_employee)

end

lemma log_reassignment_Inr:
  assumes "log_reassignment a t saved q w = (Inr x, w')"
  shows "\<exists>e. w_history w' = w_history w @ [e] \<and> Some (al_task_id e) = t_id saved
    \<and> al_action e = AuditReassigned \<and> al_old_status e = Some (show_status (t_status t))
    \<and> al_new_status e = Some (show_status (t_status saved)) \<and> al_changed_by_user_id e = Some a
    \<and> w_tasks w' = w_tasks w \<and> w_notifications w' = w_notifications w"
  using assms by (auto simp: log_reassignment_def act_elims split: option.splits dest!: append_audit_Inr)

lemma appends_log_reassignment: "obeys appends_records (log_reassignment a t s q)"
  unfolding log_reassignment_def by (intro appends_rules act_cases)

lemma adds_notify_new:
  "obeys (adds_notifications (\<lambda>n. Some (n_recipient_user_id n) = t_assigned_to_user_id t
      \<and> n_notification_type n = TaskAssigned)) (notify_new_assignee t)"
proof (cases "t_assigned_to_user_id t")
  case None
  then show ?thesis by (simp add: notify_new_assignee_def adds.ret)
next
  case (Some p)
  then show ?thesis unfolding notify_new_assignee_def option.case
    by (simp only: option.case) (intro adds.store_rules adds_enqueue, simp_all add: pending_notification_def)
qed

lemma notify_new_assignee_Inr:
  assumes "notify_new_assignee t w = (Inr x, w')"
  shows "\<exists>new. w_notifications w' = w_notifications w @ new \<and> length new \<le> 1"
    and "t_assigned_to_user_id t = Some p \<Longrightarrow>
      notification_for w' (reassigned_key (env_uuid_text (w_env w) (t_task_uid t)) p (t_version t)) \<noteq> None"
proof -
  show "\<exists>new. w_notifications w' = w_notifications w @ new \<and> length new \<le> 1"
    using assms
    by (auto simp: notify_new_assignee_def act_elims dest!: enqueue_Inr(2) split: option.splits)
  assume "t_assigned_to_user_id t = Some p"
  with assms show "notification_for w' (reassigned_key (env_uuid_text (w_env w) (t_task_uid t)) p
      (t_version t)) \<noteq> None"
    by (auto simp: notify_new_assignee_def act_elims pending_notification_def dest!: enqueue_Inr(1))
qed


text \<open>The creator hands the task of the sample database to an employee without an account.\<close>

definition sample_reassign :: "reassign_task_outcome result \<times> world" where
  "sample_reassign = reassign_task ascii_letters same_or_not sample_creator 1 (ascii '' ann lee'')
     ReassignAuto sample_world"

lemma sample_reassign_gate:
  "u_id sample_creator = Some 1" "ensure_can_reassign sample_creator sample_task = Inr ()"
  by (simp_all add: reassign_gate_ok_iff participates_def sample_creator_def)

lemma sample_reassign_ok: "\<exists>s w'. sample_reassign = (Inr (Reassigned s), w')"
  by (simp add: sample_reassign_def reassign_task_def find_by_uid_def run_simps sample_reassign_gate
      choose_assignee_def resolve_for_reassignment_def ann_lee_resolves
      store_reassignment_def reassign_def sample_env_def update_task_def update_matches_def
      task_references_def references_def has_id_def update_where_def write_columns_def
      log_reassignment_def append_audit_def Let_def notify_new_assignee_def)


text \<open>A choice that is gone from the directory clears the assignment, and the answer says it was updated.\<close>

lemma vanished_choice_unassigns:
  assumes "find (\<lambda>e. e_id e = Some i) (w_employees w) = None" "w_faults w = []"
  shows "choose_assignee U similar (ReassignEmployee i) query w = (Inr (ResolvedTo nobody), w)"
  using assms by (simp add: choose_assignee_def resolve_employee_id_def find_employee_by_id_def
      run_simps nobody_def)

end
