(* ===== verification/Reminders.thy ===== *)
theory Reminders
  imports Task_Use_Cases User_Repo Use_Case_Texts
begin

section \<open>Daily reminders and summaries\<close>

text \<open>
  The three daily jobs: \<^verbatim>\<open>src/application/use_cases/enqueue_task_reminders.rs\<close> (deadlines of tomorrow, overdue
  tasks) and \<^verbatim>\<open>src/application/use_cases/enqueue_daily_summaries.rs\<close>. Each writes notifications under keys made
  of the day, so a job that is run again adds nothing. The printed form of a date (\<^verbatim>\<open>{}\<close> of chrono's
  \<^verbatim>\<open>NaiveDate\<close>) is a parameter.
\<close>

definition REMINDER_TASK_FETCH_LIMIT :: nat where "REMINDER_TASK_FETCH_LIMIT = 200"
definition MAX_DAILY_SUMMARY_TASKS :: nat where "MAX_DAILY_SUMMARY_TASKS = 20"
definition MAX_DAILY_SUMMARY_PREVIEW_TASKS :: nat where "MAX_DAILY_SUMMARY_PREVIEW_TASKS = 5"
definition DAILY_SUMMARY_OPEN_TASK_SCAN_MULTIPLIER :: nat where
  "DAILY_SUMMARY_OPEN_TASK_SCAN_MULTIPLIER = 10"

definition reminder_key :: "(day \<Rightarrow> utext) \<Rightarrow> utext \<Rightarrow> day \<Rightarrow> utext" where
  "reminder_key show_day uid tomorrow = ascii ''deadline_reminder:'' @ uid @ ascii '':'' @ show_day tomorrow"

definition remind_deadline :: "(day \<Rightarrow> utext) \<Rightarrow> day \<Rightarrow> task \<Rightarrow> (world, unit) act" where
  "remind_deadline show_day tomorrow t =
    (case t_assigned_to_user_id t of
       None \<Rightarrow> ret ()
     | Some recipient \<Rightarrow>
        tryA (uuid_text (t_task_uid t)) (\<lambda>uid.
        tryA now_utc (\<lambda>now.
        tryA (enqueue (pending_notification (t_id t) recipient DeadlineReminder
               (txt_reminder @ t_title t @ txt_ready_tomorrow) (reminder_key show_day uid tomorrow) now)) (\<lambda>_.
        ret ()))))"

definition enqueue_upcoming_deadlines :: "(day \<Rightarrow> utext) \<Rightarrow> (world, unit) act" where
  "enqueue_upcoming_deadlines show_day =
    tryA today_utc (\<lambda>today.
    let tomorrow = today + 1 in
    tryA (get_due_between tomorrow tomorrow REMINDER_TASK_FETCH_LIMIT) (\<lambda>tasks.
    forA tasks (remind_deadline show_day tomorrow)))"

definition overdue_key :: "utext \<Rightarrow> row_id \<Rightarrow> int \<Rightarrow> utext" where
  "overdue_key uid recipient days =
     ascii ''overdue:'' @ uid @ ascii '':'' @ show_int recipient @ ascii '':'' @ show_int days"

definition alert_recipient :: "task \<Rightarrow> int \<Rightarrow> row_id \<Rightarrow> (world, unit) act" where
  "alert_recipient t overdue_days recipient =
    tryA (uuid_text (t_task_uid t)) (\<lambda>uid.
    tryA now_utc (\<lambda>now.
    tryA (enqueue (pending_notification (t_id t) recipient TaskUpdated
           (txt_overdue_task @ t_title t @ txt_overdue_for @ show_int overdue_days @ txt_days_dot)
           (overdue_key uid recipient overdue_days) now)) (\<lambda>_.
    ret ())))"

definition recipients :: "task \<Rightarrow> row_id list" where
  "recipients t = List.map_filter (\<lambda>r. r) [Some (t_created_by_user_id t), t_assigned_to_user_id t]"

definition alert_overdue :: "day \<Rightarrow> task \<Rightarrow> (world, unit) act" where
  "alert_overdue today t =
    (case t_deadline t of
       None \<Rightarrow> ret ()
     | Some deadline \<Rightarrow>
        let overdue_days = today - deadline in
        if overdue_days mod 3 \<noteq> 0 then ret ()
        else forA (recipients t) (alert_recipient t overdue_days))"

definition enqueue_overdue_alerts :: "(world, unit) act" where
  "enqueue_overdue_alerts =
    tryA today_utc (\<lambda>today.
    tryA (get_overdue today REMINDER_TASK_FETCH_LIMIT) (\<lambda>tasks.
    forA tasks (alert_overdue today)))"

definition summary_key :: "(day \<Rightarrow> utext) \<Rightarrow> row_id \<Rightarrow> day \<Rightarrow> utext" where
  "summary_key show_day user_id today = ascii ''daily_summary:'' @ show_int user_id @ ascii '':'' @ show_day today"

definition summary_message :: "day \<Rightarrow> task list \<Rightarrow> utext" where
  "summary_message today tasks =
    (let counted = (\<lambda>P. show_nat (length (filter P tasks)));
         preview = join [10] (take MAX_DAILY_SUMMARY_PREVIEW_TASKS (map (\<lambda>t. txt_bullet @ t_title t) tasks)) in
     txt_good_morning @ show_nat (length tasks)
     @ txt_summary_overdue @ counted (\<lambda>t. case t_deadline t of None \<Rightarrow> False | Some d \<Rightarrow> d < today)
     @ txt_summary_today @ counted (\<lambda>t. t_deadline t = Some today)
     @ txt_summary_blocked @ counted (\<lambda>t. t_status t = Blocked)
     @ txt_summary_review @ counted (\<lambda>t. t_status t = InReview)
     @ txt_summary_nearest @ preview)"

definition summarise_user ::
  "(day \<Rightarrow> utext) \<Rightarrow> day \<Rightarrow> task list \<Rightarrow> user \<Rightarrow> (world, unit) act" where
  "summarise_user show_day today open_tasks u =
    (case u_id u of
       None \<Rightarrow> ret ()
     | Some user_id \<Rightarrow>
        let assigned_tasks = take MAX_DAILY_SUMMARY_TASKS
              (filter (\<lambda>t. t_assigned_to_user_id t = Some user_id) open_tasks) in
        if assigned_tasks = [] then ret ()
        else
          tryA now_utc (\<lambda>now.
          tryA (enqueue (pending_notification None user_id DailySummary
                 (summary_message today assigned_tasks) (summary_key show_day user_id today) now)) (\<lambda>_.
          ret ())))"

definition enqueue_daily_summaries :: "(day \<Rightarrow> utext) \<Rightarrow> (world, unit) act" where
  "enqueue_daily_summaries show_day =
    tryA today_utc (\<lambda>today.
    tryA list_with_chat_id (\<lambda>users.
    tryA (list_open (MAX_DAILY_SUMMARY_TASKS * DAILY_SUMMARY_OPEN_TASK_SCAN_MULTIPLIER)) (\<lambda>open_tasks.
    forA users (summarise_user show_day today open_tasks))))"

datatype daily_job = UpcomingDeadlines | OverdueAlerts | DailySummaries

fun run_daily :: "(day \<Rightarrow> utext) \<Rightarrow> daily_job \<Rightarrow> (world, unit) act" where
  "run_daily show_day UpcomingDeadlines = enqueue_upcoming_deadlines show_day"
| "run_daily show_day OverdueAlerts = enqueue_overdue_alerts"
| "run_daily show_day DailySummaries = enqueue_daily_summaries show_day"

subsection \<open>Notices under keys\<close>

text \<open>
  What every job does per item: it writes only under the item's keys, leaves a notification under
  each of them when it succeeds, and is silent when all of them are taken.
\<close>

definition told :: "utext set \<Rightarrow> world \<Rightarrow> bool" where
  "told ks w \<longleftrightarrow> (\<forall>k \<in> ks. notification_for w k \<noteq> None)"

abbreviation adds_any :: "world \<Rightarrow> world \<Rightarrow> bool" where
  "adds_any \<equiv> adds_notifications (\<lambda>_. True)"

locale keyed_notices =
  fixes notice :: "'a \<Rightarrow> (world, unit) act"
    and keys :: "environment \<Rightarrow> 'a \<Rightarrow> utext set"
  assumes adds_only: "obeys adds_any (notice x)"
    and leaves: "notice x w = (Inr u, w') \<Longrightarrow> told (keys (w_env w) x) w'"
    and silent: "notice x w = (r, w') \<Longrightarrow> told (keys (w_env w) x) w \<Longrightarrow> w_notifications w' = w_notifications w"
begin

lemma env_kept: "forA xs notice w = (r, w') \<Longrightarrow> w_env w' = w_env w"
proof -
  have "obeys adds_any (forA xs notice)" by (rule adds.forA[OF adds_only])
  then show "forA xs notice w = (r, w') \<Longrightarrow> w_env w' = w_env w"
    by (auto simp: adds_notifications_def dest: obeysD)
qed

lemma all_told:
  assumes "forA xs notice w = (Inr u, w')" "x \<in> set xs"
  shows "told (keys (w_env w) x) w'"
proof -
  obtain w1 w2 where w12: "notice x w1 = (Inr (), w2)" "adds_any w w1" "adds_any w2 w'"
    using adds.forA_each[OF adds_only assms] by blast
  then have "told (keys (w_env w) x) w2" using leaves[OF w12(1)] by (simp add: adds_notifications_def)
  then show ?thesis using notification_kept[OF w12(3)] by (fastforce simp: told_def)
qed

lemma all_silent:
  "forA xs notice w = (r, w') \<Longrightarrow> (\<And>x. x \<in> set xs \<Longrightarrow> told (keys (w_env w) x) w)
     \<Longrightarrow> w_notifications w' = w_notifications w"
proof (induction xs arbitrary: w)
  case (Cons x xs)
  obtain r1 w1 where one: "notice x w = (r1, w1)" by fastforce
  then have same: "w_notifications w1 = w_notifications w" using silent Cons.prems(2) by simp
  have env: "w_env w1 = w_env w" using obeysD[OF adds_only one] by (simp add: adds_notifications_def)
  show ?case
  proof (cases r1)
    case (Inl e)
    with Cons.prems(1) one same show ?thesis by (simp add: tryA_def)
  next
    case (Inr v)
    with Cons.prems(1) one have "forA xs notice w1 = (r, w')" by (simp add: tryA_def)
    moreover have "told (keys (w_env w1) y) w1" if "y \<in> set xs" for y
      using Cons.prems(2)[of y] that same env by (simp add: told_def notification_for_def)
    ultimately show ?thesis using Cons.IH same by simp
  qed
qed (simp add: ret_def)

lemma again_silent:
  assumes "forA xs notice w = (Inr u, w1)" "\<And>k. told {k} w1 \<Longrightarrow> told {k} w2" "w_env w2 = w_env w1"
    and "forA xs notice w2 = (r, w3)"
  shows "w_notifications w3 = w_notifications w2"
proof (rule all_silent[OF assms(4)])
  fix x assume "x \<in> set xs"
  then show "told (keys (w_env w2) x) w2"
    using all_told[OF assms(1)] assms(2,3) env_kept[OF assms(1)] by (fastforce simp: told_def)
qed

end

text \<open>One notification under one key.\<close>

lemma enqueue_silent:
  assumes "enqueue n w = (r, w')" "notification_for w (n_dedupe_key n) \<noteq> None"
  shows "w_notifications w' = w_notifications w"
proof -
  have clash: "dedupe_clash n (w_notifications w)" using assms(2) by (simp add: dedupe_clash_iff)
  let ?read = "\<lambda>_ :: unit. tryA (select (\<lambda>w. find (\<lambda>r. n_dedupe_key r = n_dedupe_key n) (w_notifications w)))
    (\<lambda>row. lift (ok_or (database_error (ascii ''no rows returned'')) row))"
  have read: "obeys (\<lambda>w w'. w_notifications w' = w_notifications w) (?read x)" for x
    by (auto simp: obeys_def tryA_def lift_def split: sum.splits prod.splits
        dest!: select_Inl iffD1[OF select_Inr])
  obtain i w1 where ins: "statement
       (\<lambda>w. dedupe_clash n (w_notifications w)
          \<or> references t_id (n_task_id n) (w_tasks w) \<and> has_id u_id (n_recipient_user_id n) (w_users w))
       (\<lambda>w. ((), if dedupe_clash n (w_notifications w) then w
                 else w\<lparr> w_notifications := w_notifications w
                        @ [n\<lparr> n_id := Some (next_id n_id (w_notifications w)) \<rparr>] \<rparr>)) w = (i, w1)"
    by fastforce
  have w1: "w_notifications w1 = w_notifications w"
    using ins clash by (cases i) (auto simp: statement_Inr dest!: statement_Inl)
  show ?thesis
  proof (cases i)
    case (Inl e)
    with assms(1) ins w1 show ?thesis by (simp add: enqueue_def tryA_def)
  next
    case (Inr x)
    with assms(1) ins have "?read x w1 = (r, w')" by (simp add: enqueue_def tryA_def)
    from obeysD[OF read this] w1 show ?thesis by simp
  qed
qed

lemma enqueue_at_silent:
  assumes "tryA now_utc (\<lambda>now. tryA (enqueue (n now)) (\<lambda>_. ret ())) w = (r, w')"
    and "\<And>now. n_dedupe_key (n now) = k" "notification_for w k \<noteq> None"
  shows "w_notifications w' = w_notifications w"
proof -
  let ?n = "n (env_clock (w_env w) (w_ticks w))"
  obtain e w1 where e: "enqueue ?n (w\<lparr> w_ticks := Suc (w_ticks w) \<rparr>) = (e, w1)" by fastforce
  have "w_notifications w1 = w_notifications w"
    using enqueue_silent[OF e] assms(2,3) by (simp add: notification_for_def)
  moreover have "w' = w1" using assms(1) e by (cases e) (auto simp: tryA_def now_utc_def ret_def)
  ultimately show ?thesis by simp
qed

lemma enqueue_at_leaves:
  assumes "tryA now_utc (\<lambda>now. tryA (enqueue (n now)) (\<lambda>_. ret ())) w = (Inr u, w')"
    and "\<And>now. n_dedupe_key (n now) = k"
  shows "notification_for w' k \<noteq> None"
  using assms by (auto simp: act_elims dest!: enqueue_Inr(1))

lemma enqueue_at_adds: "obeys adds_any (tryA now_utc (\<lambda>now. tryA (enqueue (n now)) (\<lambda>_. ret ())))"
  by (intro adds.store_rules adds_enqueue) simp

interpretation deadline_notices: keyed_notices "remind_deadline show_day tomorrow"
    "\<lambda>env t. case t_assigned_to_user_id t of None \<Rightarrow> {}
       | Some _ \<Rightarrow> {reminder_key show_day (env_uuid_text env (t_task_uid t)) tomorrow}"
  for show_day tomorrow
proof unfold_locales
  fix t w w' u r
  show "obeys adds_any (remind_deadline show_day tomorrow t)"
    unfolding remind_deadline_def by (intro act_cases adds.store_rules adds_enqueue) simp
  show "told (case t_assigned_to_user_id t of None \<Rightarrow> {}
       | Some _ \<Rightarrow> {reminder_key show_day (env_uuid_text (w_env w) (t_task_uid t)) tomorrow}) w'"
    if "remind_deadline show_day tomorrow t w = (Inr u, w')"
    using that enqueue_at_leaves[of _ w u w']
    by (auto simp: told_def remind_deadline_def uuid_text_def tryA_def pending_notification_def
        split: option.splits)
  show "w_notifications w' = w_notifications w"
    if "remind_deadline show_day tomorrow t w = (r, w')"
      and "told (case t_assigned_to_user_id t of None \<Rightarrow> {}
       | Some _ \<Rightarrow> {reminder_key show_day (env_uuid_text (w_env w) (t_task_uid t)) tomorrow}) w"
  proof (cases "t_assigned_to_user_id t")
    case (Some p)
    with that show ?thesis
      by (intro enqueue_at_silent[of "\<lambda>now. pending_notification (t_id t) p DeadlineReminder
             (txt_reminder @ t_title t @ txt_ready_tomorrow)
             (reminder_key show_day (env_uuid_text (w_env w) (t_task_uid t)) tomorrow) now" w r w'
             "reminder_key show_day (env_uuid_text (w_env w) (t_task_uid t)) tomorrow"])
         (simp_all add: remind_deadline_def told_def pending_notification_def uuid_text_def gets_def tryA_def)
  qed (use that in \<open>simp add: remind_deadline_def ret_def\<close>)
qed

interpretation recipient_notices: keyed_notices "alert_recipient t days"
    "\<lambda>env p. {overdue_key (env_uuid_text env (t_task_uid t)) p days}"
  for t days
proof unfold_locales
  fix p and w w' :: world and u r
  let ?key = "overdue_key (env_uuid_text (w_env w) (t_task_uid t)) p days"
  let ?n = "\<lambda>now. pending_notification (t_id t) p TaskUpdated
     (txt_overdue_task @ t_title t @ txt_overdue_for @ show_int days @ txt_days_dot) ?key now"
  have run: "alert_recipient t days p w = tryA now_utc (\<lambda>now. tryA (enqueue (?n now)) (\<lambda>_. ret ())) w"
    by (simp add: alert_recipient_def uuid_text_def tryA_def)
  show "obeys adds_any (alert_recipient t days p)"
    unfolding alert_recipient_def by (intro adds.store_rules adds_enqueue) simp
  show "told {?key} w'" if "alert_recipient t days p w = (Inr u, w')"
    using enqueue_at_leaves[OF that[unfolded run], of ?key] by (simp add: told_def pending_notification_def)
  show "w_notifications w' = w_notifications w" if "alert_recipient t days p w = (r, w')" "told {?key} w"
    using enqueue_at_silent[OF that(1)[unfolded run], of ?key] that(2)
    by (simp add: told_def pending_notification_def)
qed

interpretation overdue_notices: keyed_notices "alert_overdue today"
    "\<lambda>env t. case t_deadline t of None \<Rightarrow> {}
       | Some d \<Rightarrow> if (today - d) mod 3 = 0
           then (\<lambda>p. overdue_key (env_uuid_text env (t_task_uid t)) p (today - d)) ` set (recipients t) else {}"
  for today
proof unfold_locales
  fix t :: task and w w' :: world and u r
  let ?keys = "case t_deadline t of None \<Rightarrow> {}
       | Some d \<Rightarrow> if (today - d) mod 3 = 0
           then (\<lambda>p. overdue_key (env_uuid_text (w_env w) (t_task_uid t)) p (today - d)) ` set (recipients t)
           else {}"
  show "obeys adds_any (alert_overdue today t)"
    unfolding alert_overdue_def Let_def
    by (intro act_cases adds.store_rules recipient_notices.adds_only)
  show "told ?keys w'" if "alert_overdue today t w = (Inr u, w')"
    using that recipient_notices.all_told[of "recipients t" t _ w u w']
    by (auto simp: alert_overdue_def told_def split: option.splits if_splits)
  show "w_notifications w' = w_notifications w" if "alert_overdue today t w = (r, w')" "told ?keys w"
    using that recipient_notices.all_silent[of "recipients t" t _ w r w']
    by (auto simp: alert_overdue_def told_def ret_def split: option.splits if_splits)
qed

interpretation summary_notices: keyed_notices "summarise_user show_day today open_tasks"
    "\<lambda>env u. case u_id u of None \<Rightarrow> {}
       | Some i \<Rightarrow> if \<exists>t \<in> set open_tasks. t_assigned_to_user_id t = Some i
                   then {summary_key show_day i today} else {}"
  for show_day today open_tasks
proof unfold_locales
  fix a :: user and w w' :: world and u r
  let ?keys = "case u_id a of None \<Rightarrow> {}
       | Some i \<Rightarrow> if \<exists>t \<in> set open_tasks. t_assigned_to_user_id t = Some i
                   then {summary_key show_day i today} else {}"
  show "obeys adds_any (summarise_user show_day today open_tasks a)"
    unfolding summarise_user_def Let_def by (intro act_cases adds.store_rules adds_enqueue) simp
  show "told ?keys w'" if "summarise_user show_day today open_tasks a w = (Inr u, w')"
    using that
    by (auto simp: summarise_user_def told_def Let_def MAX_DAILY_SUMMARY_TASKS_def filter_empty_conv pending_notification_def
        split: option.splits if_splits dest: enqueue_at_leaves)
  show "w_notifications w' = w_notifications w"
    if "summarise_user show_day today open_tasks a w = (r, w')" "told ?keys w"
    using that
    by (auto simp: summarise_user_def told_def Let_def MAX_DAILY_SUMMARY_TASKS_def filter_empty_conv pending_notification_def ret_def
        split: option.splits if_splits dest: enqueue_at_silent)
qed

subsection \<open>Each job tells everybody once a day\<close>

definition world_today :: "world \<Rightarrow> day" where
  "world_today w = date_of (env_clock (w_env w) (w_ticks w))"

fun daily_keys :: "(day \<Rightarrow> utext) \<Rightarrow> daily_job \<Rightarrow> world \<Rightarrow> utext set" where
  "daily_keys show_day UpcomingDeadlines w =
     {reminder_key show_day (env_uuid_text (w_env w) (t_task_uid t)) (world_today w + 1) | t.
        t \<in> set (w_tasks w) \<and> is_open t \<and> t_deadline t = Some (world_today w + 1)
        \<and> t_assigned_to_user_id t \<noteq> None}"
| "daily_keys show_day OverdueAlerts w =
     {overdue_key (env_uuid_text (w_env w) (t_task_uid t)) p (world_today w - d) | t p d.
        t \<in> set (w_tasks w) \<and> is_open t \<and> t_deadline t = Some d \<and> d < world_today w
        \<and> (world_today w - d) mod 3 = 0
        \<and> (p = t_created_by_user_id t \<or> t_assigned_to_user_id t = Some p)}"
| "daily_keys show_day DailySummaries w =
     {summary_key show_day i (world_today w) | u i.
        u \<in> set (w_users w) \<and> u_id u = Some i \<and> u_last_chat_id u \<noteq> None
        \<and> (\<exists>t \<in> set (w_tasks w). is_open t \<and> t_assigned_to_user_id t = Some i)}"

lemma set_recipients: "set (recipients t) = {p. p = t_created_by_user_id t \<or> t_assigned_to_user_id t = Some p}"
  by (auto simp: recipients_def map_filter_simps split: option.splits)

lemma take_all_filtered:
  "length xs \<le> n \<Longrightarrow> length ys = length (filter P xs) \<Longrightarrow> take n ys = ys"
  by (simp add: le_trans[OF length_filter_le])

lemma by_deadline_all:
  "length (w_tasks w) \<le> n \<Longrightarrow> set (by_deadline P n w) = {t \<in> set (w_tasks w). t_deadline t \<noteq> None \<and> P t}"
  unfolding by_deadline_def by (subst take_all_filtered) auto

lemma recently_updated_all:
  "length (w_tasks w) \<le> n \<Longrightarrow> set (recently_updated P n w) = {t \<in> set (w_tasks w). P t}"
  unfolding recently_updated_def by (subst take_all_filtered) auto

text \<open>
  A job reads its items and then loops over them: a failed read changes nothing.
\<close>

definition loops_over :: "'a list \<Rightarrow> ('a \<Rightarrow> (world, unit) act) \<Rightarrow> world \<Rightarrow> unit result \<Rightarrow> world \<Rightarrow> bool" where
  "loops_over items notice w r w' \<longleftrightarrow>
     r \<noteq> Inr () \<and> w_notifications w' = w_notifications w
     \<or> (\<exists>w1. w_env w1 = w_env w \<and> w_notifications w1 = w_notifications w
          \<and> forA items notice w1 = (r, w'))"

lemma loops_overI:
  "forA items notice w1 = (r, w') \<Longrightarrow> w_env w1 = w_env w \<Longrightarrow> w_notifications w1 = w_notifications w \<Longrightarrow>
     loops_over items notice w r w'"
  by (auto simp: loops_over_def)

lemma loops_over_select:
  assumes "tryA (select f) k w1 = (r, w')" "w_notifications w1 = w_notifications w"
    and "\<And>w2. w2 = w1\<lparr> w_faults := tl (w_faults w1) \<rparr> \<Longrightarrow> k (f w2) w2 = (r, w') \<Longrightarrow>
      loops_over items notice w r w'"
  shows "loops_over items notice w r w'"
proof (cases "select f w1")
  case (Pair x w2)
  show ?thesis
  proof (cases x)
    case (Inl e)
    with Pair assms(1) select_Inl[of f w1 e w2] assms(2) show ?thesis
      by (auto simp: tryA_def loops_over_def)
  next
    case (Inr y)
    with Pair have "w2 = w1\<lparr> w_faults := tl (w_faults w1) \<rparr>" "y = f w2" by (simp_all add: select_Inr)
    with Pair Inr assms(1) show ?thesis by (intro assms(3)[of w2]) (simp_all add: tryA_def)
  qed
qed

lemma tryA_today: "tryA today_utc k w = k (world_today w) (w\<lparr> w_ticks := Suc (w_ticks w) \<rparr>)"
  by (simp add: tryA_def today_utc_def now_utc_def ret_def world_today_def)

definition due_tomorrow :: "world \<Rightarrow> task list" where
  "due_tomorrow w = by_deadline (\<lambda>t. world_today w + 1 \<le> the (t_deadline t)
     \<and> the (t_deadline t) \<le> world_today w + 1 \<and> is_open t) 200 w"

definition overdue_today :: "world \<Rightarrow> task list" where
  "overdue_today w = by_deadline (\<lambda>t. the (t_deadline t) < world_today w \<and> is_open t) 200 w"

definition reachable_users :: "world \<Rightarrow> user list" where
  "reachable_users w = filter (\<lambda>u. u_last_chat_id u \<noteq> None) (w_users w)"

lemmas job_defs = enqueue_upcoming_deadlines_def enqueue_overdue_alerts_def enqueue_daily_summaries_def
  Let_def tryA_today REMINDER_TASK_FETCH_LIMIT_def MAX_DAILY_SUMMARY_TASKS_def
  DAILY_SUMMARY_OPEN_TASK_SCAN_MULTIPLIER_def get_due_between_def get_overdue_def list_open_def
  list_with_chat_id_def

lemma job_runs:
  "run_daily show_day UpcomingDeadlines w = (r, w') \<Longrightarrow>
     loops_over (due_tomorrow w) (remind_deadline show_day (world_today w + 1)) w r w'"
  "run_daily show_day OverdueAlerts w = (r, w') \<Longrightarrow>
     loops_over (overdue_today w) (alert_overdue (world_today w)) w r w'"
  "run_daily show_day DailySummaries w = (r, w') \<Longrightarrow>
     loops_over (reachable_users w)
       (summarise_user show_day (world_today w) (recently_updated is_open 200 w)) w r w'"
proof -
  show "loops_over (due_tomorrow w) (remind_deadline show_day (world_today w + 1)) w r w'"
    if "run_daily show_day UpcomingDeadlines w = (r, w')"
    by (rule loops_over_select[OF that[simplified, unfolded job_defs]])
       (auto simp: due_tomorrow_def by_deadline_def elim!: loops_overI)
  show "loops_over (overdue_today w) (alert_overdue (world_today w)) w r w'"
    if "run_daily show_day OverdueAlerts w = (r, w')"
    by (rule loops_over_select[OF that[simplified, unfolded job_defs]])
       (auto simp: overdue_today_def by_deadline_def elim!: loops_overI)
  show "loops_over (reachable_users w)
       (summarise_user show_day (world_today w) (recently_updated is_open 200 w)) w r w'"
    if "run_daily show_day DailySummaries w = (r, w')"
    by (rule loops_over_select[OF that[simplified, unfolded job_defs]], simp, erule loops_over_select)
       (auto simp: reachable_users_def recently_updated_def elim!: loops_overI)
qed

lemma run_told:
  "keyed_notices notice keys \<Longrightarrow> loops_over items notice w (Inr u) w' \<Longrightarrow> x \<in> set items \<Longrightarrow>
     told (keys (w_env w) x) w'"
  by (metis keyed_notices.all_told loops_over_def old.unit.exhaust)

lemma run_silent:
  assumes "keyed_notices notice keys" "loops_over items notice w (Inr u) w'"
    and "\<And>k. told {k} w' \<Longrightarrow> told {k} w2" "w_env w2 = w_env w" "loops_over items notice w2 r w3"
  shows "w_notifications w3 = w_notifications w2"
proof -
  from assms(2) obtain v where v: "forA items notice v = (Inr u, w')" "w_env v = w_env w"
    by (auto simp: loops_over_def)
  have env: "w_env w' = w_env w" using keyed_notices.env_kept[OF assms(1) v(1)] v(2) by simp
  from assms(5) consider "w_notifications w3 = w_notifications w2"
    | v2 where "w_env v2 = w_env w2" "w_notifications v2 = w_notifications w2" "forA items notice v2 = (r, w3)"
    by (auto simp: loops_over_def)
  then show ?thesis
  proof cases
    case 2
    then show ?thesis
      using keyed_notices.again_silent[OF assms(1) v(1) _ _ 2(3)] assms(3,4) env
      by (simp add: told_def notification_for_def)
  qed
qed

text \<open>C21. The daily jobs tell everybody concerned, once. When a job of the day succeeds on a database of at most
  200 tasks, there is a reminder for every open assigned task due tomorrow, an alert for creator and
  assignee of every open task overdue by a multiple of three days, or a summary for every reachable
  user with an open task; and running the job again on the same day, on the tasks and accounts of the
  first run and whatever happened to the notifications in between short of their removal, writes no
  notification, whether it succeeds or not. (A task or an account that changed in between can be told
  about: each notice has one key per task or person and day, which is used once.)\<close>

theorem daily_jobs_tell_once:
  assumes run: "run_daily show_day job w = (Inr (), w1)"
  shows "(length (w_tasks w) \<le> 200 \<longrightarrow> told (daily_keys show_day job w) w1)
    \<and> (\<forall>w2 r w3. w_tasks w2 = w_tasks w \<longrightarrow> w_users w2 = w_users w \<longrightarrow> w_env w2 = w_env w
          \<longrightarrow> world_today w2 = world_today w \<longrightarrow> (\<forall>k. told {k} w1 \<longrightarrow> told {k} w2)
          \<longrightarrow> run_daily show_day job w2 = (r, w3) \<longrightarrow> w_notifications w3 = w_notifications w2)"
proof (cases job)
  case UpcomingDeadlines
  note first = job_runs(1)[OF run[unfolded UpcomingDeadlines]]
  have "told (daily_keys show_day job w) w1" if "length (w_tasks w) \<le> 200"
    using run_told[OF deadline_notices.keyed_notices_axioms first]
    by (fastforce simp: UpcomingDeadlines told_def due_tomorrow_def by_deadline_all[OF that])
  moreover have "w_notifications w3 = w_notifications w2"
    if "w_tasks w2 = w_tasks w" "w_env w2 = w_env w" "world_today w2 = world_today w"
      "\<forall>k. told {k} w1 \<longrightarrow> told {k} w2" "run_daily show_day job w2 = (r, w3)" for w2 r w3
    using run_silent[OF deadline_notices.keyed_notices_axioms first _ that(2)]
      job_runs(1)[OF that(5)[unfolded UpcomingDeadlines]] that(1-4)
    by (simp add: due_tomorrow_def by_deadline_def)
  ultimately show ?thesis by blast
next
  case OverdueAlerts
  note first = job_runs(2)[OF run[unfolded OverdueAlerts]]
  have "told (daily_keys show_day job w) w1" if "length (w_tasks w) \<le> 200"
    using run_told[OF overdue_notices.keyed_notices_axioms first]
    by (fastforce simp: OverdueAlerts told_def overdue_today_def by_deadline_all[OF that] set_recipients)
  moreover have "w_notifications w3 = w_notifications w2"
    if "w_tasks w2 = w_tasks w" "w_env w2 = w_env w" "world_today w2 = world_today w"
      "\<forall>k. told {k} w1 \<longrightarrow> told {k} w2" "run_daily show_day job w2 = (r, w3)" for w2 r w3
    using run_silent[OF overdue_notices.keyed_notices_axioms first _ that(2)]
      job_runs(2)[OF that(5)[unfolded OverdueAlerts]] that(1-4)
    by (simp add: overdue_today_def by_deadline_def)
  ultimately show ?thesis by blast
next
  case DailySummaries
  note first = job_runs(3)[OF run[unfolded DailySummaries]]
  have "told (daily_keys show_day job w) w1" if "length (w_tasks w) \<le> 200"
  proof -
    have "told {summary_key show_day i (world_today w)} w1"
      if "u \<in> set (w_users w)" "u_id u = Some i" "u_last_chat_id u \<noteq> None" "t \<in> set (w_tasks w)"
        "is_open t" "t_assigned_to_user_id t = Some i" for u i t
      using run_told[OF summary_notices.keyed_notices_axioms first, of u] that
        recently_updated_all[OF \<open>length (w_tasks w) \<le> 200\<close>, of is_open]
      by (auto simp: reachable_users_def told_def split: if_splits)
    then show ?thesis by (fastforce simp: DailySummaries told_def)
  qed
  moreover have "w_notifications w3 = w_notifications w2"
    if "w_tasks w2 = w_tasks w" "w_users w2 = w_users w" "w_env w2 = w_env w"
      "world_today w2 = world_today w" "\<forall>k. told {k} w1 \<longrightarrow> told {k} w2"
      "run_daily show_day job w2 = (r, w3)" for w2 r w3
    using run_silent[OF summary_notices.keyed_notices_axioms first _ that(3)]
      job_runs(3)[OF that(6)[unfolded DailySummaries]] that(1-5)
    by (simp add: reachable_users_def recently_updated_def)
  ultimately show ?thesis by blast
qed

text \<open>The summaries of the sample database, sent twice.\<close>

definition sample_summaries :: "unit result \<times> world" where
  "sample_summaries = run_daily show_int DailySummaries sample_world"

lemma sample_summaries_ok: "\<exists>w1. sample_summaries = (Inr (), w1) \<and> w_tasks w1 = w_tasks sample_world
    \<and> w_users w1 = w_users sample_world \<and> w_env w1 = w_env sample_world \<and> world_today w1 = 0"
  by (simp add: sample_summaries_def enqueue_daily_summaries_def list_with_chat_id_def list_open_def
      Let_def run_simps today_utc_def recently_updated_def is_open_def sample_creator_def sample_admin_def
      MAX_DAILY_SUMMARY_TASKS_def DAILY_SUMMARY_OPEN_TASK_SCAN_MULTIPLIER_def summarise_user_def
      enqueue_def pending_notification_def dedupe_clash_def references_def has_id_def
      world_today_def sample_env_def date_of_def ns_per_day_def ns_per_sec_def)

theorem daily_jobs_tell_once_witness:
  "told {summary_key show_int 2 0} (snd sample_summaries)
   \<and> w_notifications (snd (run_daily show_int DailySummaries (snd sample_summaries)))
       = w_notifications (snd sample_summaries)"
proof -
  obtain w1 :: world where w1: "run_daily show_int DailySummaries sample_world = (Inr (), w1)"
    "snd sample_summaries = w1" "w_tasks w1 = w_tasks sample_world" "w_users w1 = w_users sample_world"
    "w_env w1 = w_env sample_world" "world_today w1 = 0"
    using sample_summaries_ok by (auto simp: sample_summaries_def)
  obtain r w3 where again: "run_daily show_int DailySummaries w1 = (r, w3)" by fastforce
  have today: "world_today sample_world = 0" by (simp add: world_today_def sample_env_def date_of_def ns_per_day_def ns_per_sec_def)
  have "summary_key show_int 2 0 \<in> daily_keys show_int DailySummaries sample_world"
    unfolding daily_keys.simps
  proof (intro CollectI exI conjI)
    show "sample_user \<in> set (w_users sample_world)" "u_id sample_user = Some 2"
      "u_last_chat_id sample_user \<noteq> None" by (simp_all add: sample_user_def)
  qed (simp_all add: today is_open_def)
  with daily_jobs_tell_once[OF w1(1)] w1 again today show ?thesis
    by (auto simp: told_def)
qed

end
