(* ===== verification/Task_Details.thy ===== *)
theory Task_Details
  imports Task_Use_Cases Task_Views Task_Codes Employee_Repo User_Repo Use_Case_Texts
begin

section \<open>The details of a task\<close>

text \<open>
  \<^verbatim>\<open>src/application/use_cases/get_task_status.rs\<close> with the detail views of
  \<^verbatim>\<open>src/application/dto/task_views.rs\<close>: what a person sees who opens a task. The printing of dates and
  times (\<^verbatim>\<open>%d.%m.%Y\<close> and \<^verbatim>\<open>%d.%m.%Y %H:%M\<close>) is chrono's and a parameter, as is the parser of the uuid crate.
\<close>

definition MAX_TASK_CONTEXT_PREVIEW_COMMENTS :: nat where "MAX_TASK_CONTEXT_PREVIEW_COMMENTS = 3"

record task_comment_view =
  cv_kind :: comment_kind
  cv_body :: utext
  cv_created_at :: utext

definition comment_view :: "(instant \<Rightarrow> utext) \<Rightarrow> task_comment \<Rightarrow> task_comment_view" where
  "comment_view show_time c =
     \<lparr> cv_kind = c_kind c, cv_body = c_body c, cv_created_at = show_time (c_created_at c) \<rparr>"

record task_status_details =
  td_task_uid :: uuid
  td_public_code :: utext
  td_title :: utext
  td_status :: task_status
  td_deadline :: "utext option"
  td_expected_result :: utext
  td_description_lines :: "utext list"
  td_acceptance_criteria :: "utext list"
  td_history_entries :: "utext list"
  td_assignee_display :: "utext option"
  td_delivery_status :: "delivery_status option"
  td_blocked_reason :: "utext option"
  td_comments :: "task_comment_view list"
  td_available_actions :: "task_action list"

definition split_description_lines :: "utext \<Rightarrow> utext list" where
  "split_description_lines description = filter (\<lambda>l. l \<noteq> []) (map trim (text_lines description))"

definition render_history_status :: "string option \<Rightarrow> utext" where
  "render_history_status s =
    (if s = Some ''created'' then txt_hs_new
     else if s = Some ''sent'' then txt_hs_sent
     else if s = Some ''in_progress'' then txt_hs_progress
     else if s = Some ''blocked'' then txt_hs_blocked
     else if s = Some ''in_review'' then txt_hs_review
     else if s = Some ''completed'' then txt_hs_completed
     else if s = Some ''cancelled'' then txt_hs_cancelled
     else txt_hs_unknown)"

text \<open>\<^verbatim>\<open>metadata.get(key).and_then(as_str)\<close>\<close>

definition json_str :: "string \<Rightarrow> json \<Rightarrow> utext option" where
  "json_str key v =
    (case v of
       JObj kvs \<Rightarrow> (case map_of kvs key of Some (JStr s) \<Rightarrow> Some s | _ \<Rightarrow> None)
     | _ \<Rightarrow> None)"

definition history_details :: "audit_entry \<Rightarrow> utext" where
  "history_details e =
    (case al_action e of
       AuditCreated \<Rightarrow> txt_he_created
     | AuditSent \<Rightarrow> txt_he_sent
     | AuditAssigned \<Rightarrow> txt_he_assignee
     | AuditReassigned \<Rightarrow> txt_he_assignee
     | AuditReviewRequested \<Rightarrow> txt_he_review
     | AuditBlocked \<Rightarrow>
         (case json_str ''reason'' (al_metadata e) of
            Some reason \<Rightarrow> txt_he_blocked_by @ reason | None \<Rightarrow> txt_he_blocked)
     | AuditCommented \<Rightarrow>
         (case json_str ''preview'' (al_metadata e) of
            Some preview \<Rightarrow> txt_he_comment_text @ preview | None \<Rightarrow> txt_he_comment)
     | AuditStatusChanged \<Rightarrow>
         render_history_status (al_old_status e) @ txt_arrow @ render_history_status (al_new_status e)
     | AuditCancelled \<Rightarrow>
         render_history_status (al_old_status e) @ txt_arrow @ render_history_status (al_new_status e)
     | AuditEdited \<Rightarrow> txt_he_edited
     | AuditEmployeesSynced \<Rightarrow> txt_he_synced)"

definition render_history_entry :: "(instant \<Rightarrow> utext) \<Rightarrow> audit_entry \<Rightarrow> utext" where
  "render_history_entry show_time e = show_time (al_created_at e) @ ascii '': '' @ history_details e"

definition account_display :: "row_id \<Rightarrow> user \<Rightarrow> utext" where
  "account_display user_id u =
    (case u_telegram_username u of
       Some name \<Rightarrow> [64] @ name
     | None \<Rightarrow> (case u_full_name u of Some name \<Rightarrow> name | None \<Rightarrow> ascii ''user:'' @ show_int user_id))"

definition employee_display :: "task \<Rightarrow> (world, utext option) act" where
  "employee_display t =
    (case t_assigned_to_employee_id t of
       None \<Rightarrow> ret None
     | Some employee_id \<Rightarrow>
         tryA (find_employee_by_id employee_id) (\<lambda>e. ret (map_option e_full_name e)))"

definition resolve_assignee_display :: "task \<Rightarrow> (world, utext option) act" where
  "resolve_assignee_display t =
    (case t_assigned_to_user_id t of
       Some user_id \<Rightarrow>
         tryA (find_user_by_id user_id) (\<lambda>found.
         case found of
           Some u \<Rightarrow> ret (Some (account_display user_id u))
         | None \<Rightarrow> employee_display t)
     | None \<Rightarrow> employee_display t)"

definition resolve_delivery_status :: "task \<Rightarrow> (world, delivery_status option) act" where
  "resolve_delivery_status t =
    (let has_assignee = t_assigned_to_user_id t \<noteq> None \<or> t_assigned_to_employee_id t \<noteq> None in
     if \<not> has_assignee then ret (Some CreatorOnly)
     else case t_id t of
       None \<Rightarrow> ret None
     | Some task_id \<Rightarrow>
        (case t_assigned_to_user_id t of
           None \<Rightarrow> ret (Some PendingAssigneeRegistration)
         | Some user_id \<Rightarrow>
             tryA (find_user_by_id user_id) (\<lambda>found.
             case found of
               None \<Rightarrow> ret (Some PendingAssigneeRegistration)
             | Some u \<Rightarrow>
                 tryA (find_latest_for_task_and_recipient task_id user_id TaskAssigned) (\<lambda>latest.
                 ret (Some (from_assignment_notification (map_option n_delivery_state latest)
                        has_assignee (u_last_chat_id u \<noteq> None)))))))"

definition get_task_status ::
  "(day \<Rightarrow> utext) \<Rightarrow> (instant \<Rightarrow> utext) \<Rightarrow> user \<Rightarrow> uuid \<Rightarrow> (world, task_status_details) act" where
  "get_task_status show_day show_time actor uid =
    tryA (find_by_uid uid) (\<lambda>found.
    case found of
      None \<Rightarrow> fail (task_not_found uid)
    | Some t \<Rightarrow>
        tryA (lift (ensure_can_view_task actor t)) (\<lambda>_.
        case t_id t of
          None \<Rightarrow> fail (internal ''TASK_ID_MISSING''
            (ascii ''Task must have a database identifier before loading details'')
            (JObj [(''task_uid'', JUuid uid)]))
        | Some task_id \<Rightarrow>
            tryA (list_for_task task_id) (\<lambda>history.
            tryA (list_recent_for_task task_id MAX_TASK_CONTEXT_PREVIEW_COMMENTS) (\<lambda>comments.
            tryA (resolve_assignee_display t) (\<lambda>assignee.
            tryA (resolve_delivery_status t) (\<lambda>delivery.
            ret \<lparr> td_task_uid = uid,
                  td_public_code = format_public_task_code_or_placeholder (t_id t),
                  td_title = t_title t, td_status = t_status t,
                  td_deadline = map_option show_day (t_deadline t),
                  td_expected_result = t_expected_result t,
                  td_description_lines = split_description_lines (t_description t),
                  td_acceptance_criteria = t_acceptance_criteria t,
                  td_history_entries = map (render_history_entry show_time) history,
                  td_assignee_display = assignee, td_delivery_status = delivery,
                  td_blocked_reason = t_blocked_reason t,
                  td_comments = map (comment_view show_time) comments,
                  td_available_actions = available_actions actor t \<rparr>))))))"

definition resolve_task_uid :: "(utext \<Rightarrow> uuid option) \<Rightarrow> utext \<Rightarrow> (world, uuid) act" where
  "resolve_task_uid parse_uuid reference =
    (case parse_task_reference parse_uuid reference of
       None \<Rightarrow> fail (business_rule ''TASK_REFERENCE_INVALID''
         (ascii ''Task reference must be a public task code like T-0042 or a UUID'')
         (JObj [(''reference'', JStr reference)]))
     | Some r \<Rightarrow>
        tryA (case r of PublicId i \<Rightarrow> find_by_id i | Uid u \<Rightarrow> find_by_uid u) (\<lambda>found.
        lift (ok_or (not_found ''TASK_NOT_FOUND'' (ascii ''Task was not found'')
                (JObj [(''reference'', JStr reference)])) (map_option t_task_uid found))))"

subsection \<open>What a viewer sees\<close>

lemma same_resolve_display: "obeys same_tables (resolve_assignee_display t)"
  unfolding resolve_assignee_display_def employee_display_def find_user_by_id_def find_employee_by_id_def
  by (intro act_cases same_tables.store_rules)

lemma same_resolve_delivery: "obeys same_tables (resolve_delivery_status t)"
  unfolding resolve_delivery_status_def find_user_by_id_def find_latest_for_task_and_recipient_def Let_def
  by (intro act_cases same_tables.store_rules)

lemma viewing_changes_nothing: "obeys same_tables (get_task_status show_day show_time actor uid)"
  unfolding get_task_status_def list_for_task_def list_recent_for_task_def
  by (intro act_cases same_tables.store_rules obeys_find_by_uid same_resolve_display same_resolve_delivery)

text \<open>Only a person with a stake, a manager or an administrator sees a task, and what is shown is the stored
  one with every entry of its history, newest first, and its three latest comments.\<close>

lemma details_show_the_task:
  assumes "get_task_status show_day show_time actor uid w = (Inr d, w')"
  obtains t i where "task_at w uid = Some t" "participates actor t" "t_id t = Some i"
    "td_status d = t_status t" "td_available_actions d = available_actions actor t" "td_task_uid d = uid"
    "td_history_entries d = map (render_history_entry show_time)
       (rev (sort_key al_created_at (filter (\<lambda>e. al_task_id e = i) (w_history w))))"
    "length (td_comments d) \<le> 3"
proof -
  from assms obtain t i w1 h w2 cs w3 a w4 ds where
    find: "find_by_uid uid w = (Inr (Some t), w1)" and view: "ensure_can_view_task actor t = Inr ()"
    and i: "t_id t = Some i" and h: "list_for_task i w1 = (Inr h, w2)"
    and cs: "list_recent_for_task i MAX_TASK_CONTEXT_PREVIEW_COMMENTS w2 = (Inr cs, w3)"
    and d: "td_status d = t_status t" "td_available_actions d = available_actions actor t" "td_task_uid d = uid"
      "td_history_entries d = map (render_history_entry show_time) h"
      "td_comments d = map (comment_view show_time) cs"
    by (auto simp: get_task_status_def act_elims split: option.splits)
  have "w_history w1 = w_history w" "task_at w uid = Some t" using find_by_uid_Inr[OF find] by auto
  then have "h = rev (sort_key al_created_at (filter (\<lambda>e. al_task_id e = i) (w_history w)))"
    using h by (simp add: list_for_task_def select_Inr)
  moreover have "length cs \<le> 3"
    using cs by (auto simp: list_recent_for_task_def select_Inr MAX_TASK_CONTEXT_PREVIEW_COMMENTS_def)
  ultimately show ?thesis
    using that \<open>task_at w uid = Some t\<close> view d i by (simp add: view_ok_iff)
qed

end
