(* ===== verification/Commands.thy ===== *)
theory Commands
  imports Base
begin

section \<open>Slash commands\<close>

text \<open>\<^verbatim>\<open>src/presentation/telegram/commands.rs\<close>: the commands of the bot and the parser that recognises
  them at the start of a message.\<close>

datatype bot_command =
    CmdStart
  | CmdMenu
  | CmdHelp
  | CmdNewTask "utext option"
  | CmdMyTasks "utext option"
  | CmdCreatedTasks "utext option"
  | CmdTeamTasks "utext option"
  | CmdStatus utext
  | CmdCancelTask utext
  | CmdStats
  | CmdTeamStats
  | CmdSettings
  | CmdAdminSyncEmployees
  | CmdAdmin
  | CmdFind "utext option"

text \<open>\<^verbatim>\<open>splitn(2, char::is_whitespace)\<close>: the part before the first whitespace character, and the part
  after it when there is one.\<close>

definition split_command :: "utext \<Rightarrow> utext \<times> utext option" where
  "split_command s =
     (takeWhile (\<lambda>c. \<not> is_whitespace c) s,
      (case dropWhile (\<lambda>c. \<not> is_whitespace c) s of [] \<Rightarrow> None | _ # rest \<Rightarrow> Some rest))"

definition parse_command :: "utext \<Rightarrow> bot_command option" where
  "parse_command message =
    (let (word, rest) = split_command (trim message);
         command = takeWhile (\<lambda>c. c \<noteq> 64) word;
         payload = (case rest of
                      None \<Rightarrow> None
                    | Some r \<Rightarrow> if trim r = [] then None else Some (trim r))
     in if command = ascii ''/start'' then Some CmdStart
        else if command = ascii ''/menu'' then Some CmdMenu
        else if command = ascii ''/help'' then Some CmdHelp
        else if command = ascii ''/new_task'' then Some (CmdNewTask payload)
        else if command = ascii ''/my_tasks'' then Some (CmdMyTasks payload)
        else if command = ascii ''/created_tasks'' then Some (CmdCreatedTasks payload)
        else if command = ascii ''/team_tasks'' then Some (CmdTeamTasks payload)
        else if command = ascii ''/status'' then map_option CmdStatus payload
        else if command = ascii ''/cancel_task'' then map_option CmdCancelTask payload
        else if command = ascii ''/stats'' then Some CmdStats
        else if command = ascii ''/team_stats'' then Some CmdTeamStats
        else if command = ascii ''/settings'' then Some CmdSettings
        else if command = ascii ''/admin_sync_employees'' then Some CmdAdminSyncEmployees
        else if command = ascii ''/admin'' then Some CmdAdmin
        else if command = ascii ''/find'' then Some (CmdFind payload)
        else None)"

text \<open>The payload a command carries.\<close>

fun command_payload :: "bot_command \<Rightarrow> utext option" where
  "command_payload (CmdNewTask p) = p"
| "command_payload (CmdMyTasks p) = p"
| "command_payload (CmdCreatedTasks p) = p"
| "command_payload (CmdTeamTasks p) = p"
| "command_payload (CmdStatus p) = Some p"
| "command_payload (CmdCancelTask p) = Some p"
| "command_payload (CmdFind p) = p"
| "command_payload _ = None"

lemma payload_is_trimmed:
  assumes "parse_command message = Some cmd" "command_payload cmd = Some p"
  shows "p \<noteq> []" "trim p = p"
proof -
  from assms obtain r where "trim r \<noteq> []" "p = trim r"
    by (auto simp: parse_command_def Let_def split: prod.splits if_splits option.splits)
  then show "p \<noteq> []" "trim p = p" by simp_all
qed

text \<open>Only a text that starts with a slash is a command.\<close>

lemma command_starts_with_slash:
  assumes "parse_command message = Some cmd"
  shows "\<exists>rest. trim message = 47 # rest"
proof (cases "trim message")
  case Nil
  with assms show ?thesis
    by (auto simp: parse_command_def split_command_def ascii_def split: if_splits)
next
  case (Cons c rest)
  with assms have "c = 47"
    by (auto simp: parse_command_def split_command_def ascii_def Let_def
        split: if_splits option.splits list.splits)
  with Cons show ?thesis by simp
qed

lemma command_examples:
  "parse_command (ascii ''/find@my_bot  important '') = Some (CmdFind (Some (ascii ''important'')))"
  "parse_command (ascii ''  /status'') = None"
  "parse_command (ascii ''/status T-0001'') = Some (CmdStatus (ascii ''T-0001''))"
  "parse_command (ascii ''prepare the release'') = None"
  by (simp_all add: parse_command_def split_command_def ascii_def trim_def trim_end_by_def
      trim_start_by_def is_whitespace_def)

end
