(* ===== verification/Transcript.thy ===== *)
theory Transcript
  imports Actions
begin

section \<open>Normalised transcripts\<close>

text \<open>
  \<^verbatim>\<open>src/domain/voice_transcript.rs\<close>: whitespace and control characters of a transcript are cleaned,
  and a long transcript is clipped near a sentence or word boundary. The clipping works on byte
  offsets of the UTF-8 text, so the width of every character matters.
\<close>

definition MAX_TRANSCRIPT_LENGTH :: nat where "MAX_TRANSCRIPT_LENGTH = 6000"

record normalized_transcript =
  nt_text :: utext
  nt_original_length :: nat
  nt_truncated :: bool

subsection \<open>Cleaning\<close>

fun normalise_from :: "bool \<Rightarrow> utext \<Rightarrow> utext" where
  "normalise_from prev_space [] = []"
| "normalise_from prev_space (c # cs) =
     (if is_control c \<and> c \<noteq> 10 \<and> c \<noteq> 13 then normalise_from prev_space cs
      else if is_whitespace c
      then (if prev_space then normalise_from True cs else 32 # normalise_from True cs)
      else c # normalise_from False cs)"

definition normalise_whitespace :: "utext \<Rightarrow> utext" where
  "normalise_whitespace raw = trim (normalise_from True raw)"

subsection \<open>Clipping\<close>

definition len_utf8 :: "uchar \<Rightarrow> nat" where
  "len_utf8 c = (if c < 128 then 1 else if c < 2048 then 2 else if c < 65536 then 3 else 4)"

definition byte_index :: "utext \<Rightarrow> nat \<Rightarrow> nat" where
  "byte_index s i = sum_list (map len_utf8 (take i s))"

text \<open>The last position of a window at or after a byte offset whose character satisfies a test.\<close>

definition last_boundary :: "(uchar \<Rightarrow> bool) \<Rightarrow> nat \<Rightarrow> utext \<Rightarrow> nat option" where
  "last_boundary P limit window =
     find (\<lambda>i. byte_index window i \<ge> limit \<and> P (window ! i)) (rev [0..<length window])"

definition is_sentence_end :: "uchar \<Rightarrow> bool" where
  "is_sentence_end c \<longleftrightarrow> c = 46 \<or> c = 33 \<or> c = 63"

definition clip_breakpoint :: "utext \<Rightarrow> nat \<Rightarrow> nat" where
  "clip_breakpoint s max_chars =
    (let window = take max_chars s;
         limit = byte_index window (length window) - 160
     in case last_boundary is_sentence_end limit window of
          Some i \<Rightarrow> i + 1
        | None \<Rightarrow>
           (case last_boundary is_whitespace limit window of
              Some i \<Rightarrow> i
            | None \<Rightarrow> length window))"

definition clip_to_budget :: "utext \<Rightarrow> nat \<Rightarrow> utext \<times> bool" where
  "clip_to_budget s max_chars =
     (if length s \<le> max_chars then (s, False)
      else (trim_end_by is_whitespace (take (clip_breakpoint s max_chars) s) @ [8230], True))"

definition transcript_from_raw :: "utext \<Rightarrow> normalized_transcript result" where
  "transcript_from_raw raw =
    (let normalised = normalise_whitespace raw in
     if normalised = [] then
       Inl (business_rule ''TRANSCRIPTION_EMPTY''
         (ascii ''Voice message could not be transcribed into text'') (JObj []))
     else
       (let (clipped, truncated) = clip_to_budget normalised MAX_TRANSCRIPT_LENGTH in
        Inr \<lparr> nt_text = clipped, nt_original_length = length normalised,
              nt_truncated = truncated \<rparr>))"

subsection \<open>What is cleaned\<close>

lemma normalised_chars:
  "c \<in> set (normalise_from p s) \<Longrightarrow> c = 32 \<or> \<not> is_whitespace c \<and> \<not> is_control c"
proof (induction p s rule: normalise_from.induct)
  case (2 prev_space d cs)
  have "is_whitespace 10" "is_whitespace 13" by (simp_all add: is_whitespace_def)
  with 2 show ?case by (auto split: if_splits)
qed simp

lemma normalised_head [simp]: "normalise_from True s \<noteq> 32 # rest"
  by (induction s) (auto simp: is_whitespace_def)

lemma normalised_no_double_space:
  "successively (\<lambda>a b. \<not> (a = 32 \<and> b = 32)) (normalise_from p s)"
proof (induction p s rule: normalise_from.induct)
  case (2 prev_space c cs)
  have "is_whitespace 32" by (simp add: is_whitespace_def)
  with 2 show ?case
    by (auto simp: successively_Cons neq_Nil_conv)
qed simp

text \<open>A tab is a control character and is dropped before the whitespace test can collapse it.\<close>

lemma tab_joins_words: "normalise_whitespace (ascii ''one'' @ [9] @ ascii ''two'') = ascii ''onetwo''"
  by (simp add: normalise_whitespace_def ascii_def is_control_def is_whitespace_def trim_def
      trim_start_by_def trim_end_by_def)

subsection \<open>What is clipped\<close>

lemma byte_index_mono: "i \<le> j \<Longrightarrow> byte_index s i \<le> byte_index s j"
proof -
  assume "i \<le> j"
  then have "take j s = take i s @ take (j - i) (drop i s)"
    by (metis le_add_diff_inverse take_add)
  then show ?thesis by (simp add: byte_index_def)
qed

lemma byte_index_gap:
  assumes "i \<le> j" "j \<le> length s"
  shows "j - i \<le> byte_index s j - byte_index s i"
proof -
  have one: "1 \<le> len_utf8 c" for c by (simp add: len_utf8_def)
  have len: "length xs \<le> sum_list (map len_utf8 xs)" for xs
  proof (induction xs)
    case (Cons x xs)
    with one[of x] show ?case by simp
  qed simp
  have "take j s = take i s @ take (j - i) (drop i s)"
    using assms(1) by (metis le_add_diff_inverse take_add)
  then have "byte_index s j = byte_index s i + sum_list (map len_utf8 (take (j - i) (drop i s)))"
    by (simp add: byte_index_def)
  with len[of "take (j - i) (drop i s)"] assms show ?thesis by simp
qed

lemma last_boundary_Some:
  assumes "last_boundary P limit w = Some i"
  shows "i < length w" "limit \<le> byte_index w i" "P (w ! i)"
  using assms by (auto simp: last_boundary_def find_Some_iff rev_nth)

lemma clip_breakpoint_bounds:
  assumes "max_chars < length s"
  shows "clip_breakpoint s max_chars \<le> max_chars" "max_chars \<le> clip_breakpoint s max_chars + 160"
proof -
  let ?w = "take max_chars s" let ?b = "byte_index ?w (length ?w)"
  have near: "length ?w - i \<le> 160" if "?b - 160 \<le> byte_index ?w i" "i < length ?w" for i
    using byte_index_gap[of i "length ?w" ?w] byte_index_mono[of i "length ?w" ?w] that by auto
  show "clip_breakpoint s max_chars \<le> max_chars"
    using assms by (auto simp: clip_breakpoint_def Let_def Suc_le_eq
        dest: last_boundary_Some(1) split: option.split)
  show "max_chars \<le> clip_breakpoint s max_chars + 160"
    using assms near by (fastforce simp: clip_breakpoint_def Let_def
        dest: last_boundary_Some(1,2) split: option.split)
qed

text \<open>A transcript is accepted exactly when something is left of it. Nothing is lost of one that
  fits; a longer one keeps a prefix, is marked, and never exceeds the limit by more than the mark.\<close>

lemma transcript_contract:
  "transcript_from_raw raw = Inr t \<longleftrightarrow>
     normalise_whitespace raw \<noteq> []
     \<and> nt_original_length t = length (normalise_whitespace raw)
     \<and> (nt_text t, nt_truncated t) = clip_to_budget (normalise_whitespace raw) MAX_TRANSCRIPT_LENGTH"
  by (cases t) (auto simp: transcript_from_raw_def Let_def split: prod.split)

lemma clip_keeps_what_fits:
  "length s \<le> n \<Longrightarrow> clip_to_budget s n = (s, False)"
  by (simp add: clip_to_budget_def)

lemma clip_keeps_prefix:
  assumes "n < length s" "clip_to_budget s n = (r, b)"
  shows "b" "length r \<le> n + 1" "\<exists>p rest. r = p @ [8230] \<and> s = p @ rest"
proof -
  let ?p = "take (clip_breakpoint s n) s" let ?q = "trim_end_by is_whitespace ?p"
  from assms have r: "r = ?q @ [8230]" "b" by (auto simp: clip_to_budget_def)
  obtain ys where ys: "?p = ?q @ ys" using trim_end_by_prefix by blast
  then have "length ?q \<le> length ?p" by (metis le_add1 length_append)
  with clip_breakpoint_bounds(1)[OF assms(1)] r show "length r \<le> n + 1" by simp
  from ys have "s = ?q @ ys @ drop (clip_breakpoint s n) s" by (metis append.assoc append_take_drop_id)
  with r show "\<exists>p rest. r = p @ [8230] \<and> s = p @ rest" by blast
  show b using r by simp
qed

text \<open>The window for a boundary is counted in bytes: 90 Cyrillic characters after the last space the
  word is cut, although the space lies well within 160 characters.\<close>

lemma cyrillic_word_is_cut:
  "clip_breakpoint (32 # replicate 100 1072) 91 = 91"
proof -
  let ?w = "32 # replicate 90 (1072 :: nat)"
  have w: "take 91 (32 # replicate 100 1072) = ?w" by simp
  have bytes: "byte_index ?w (length ?w) = 181"
    by (simp add: byte_index_def len_utf8_def sum_list_replicate)
  have no: "last_boundary P 21 ?w = None" if "\<not> P 1072" for P
    using that by (auto simp: last_boundary_def find_None_iff byte_index_def nth_Cons'
        split: if_splits)
  show ?thesis
    unfolding clip_breakpoint_def w Let_def bytes
    by (simp add: no is_sentence_end_def is_whitespace_def)
qed

end
