(* ===== verification/Bot_Texts.thy ===== *)
theory Bot_Texts
  imports Base
begin

section \<open>Fixed texts of the interface\<close>

text \<open>
  The Russian string literals the modelled operations put into messages, notifications and
  prompts, as lists of Unicode scalar values, each with an English gloss. Their wording carries
  no logic; they are kept exact so that a message built by the model is the message the program
  sends.
\<close>

subsection \<open>Transport\<close>

text \<open>too many requests in a row, wait a little\<close>

definition txt_rate_limit :: utext where
  "txt_rate_limit =
   [1057, 1083, 1080, 1096, 1082, 1086, 1084, 32, 1084, 1085, 1086, 1075, 1086, 32, 1079,
    1072, 1087, 1088, 1086, 1089, 1086, 1074, 32, 1087, 1086, 1076, 1088, 1103, 1076, 46,
    32, 1055, 1086, 1076, 1086, 1078, 1076, 1080, 1090, 1077, 32, 1085, 1077, 1084, 1085,
    1086, 1075, 1086, 32, 1080, 32, 1087, 1086, 1087, 1088, 1086, 1073, 1091, 1081, 1090,
    1077, 32, 1089, 1085, 1086, 1074, 1072, 46]"

text \<open>the object was not found\<close>

definition txt_er_missing :: utext where
  "txt_er_missing =
   [1053, 1077, 32, 1091, 1076, 1072, 1083, 1086, 1089, 1100, 32, 1085, 1072, 1081, 1090,
    1080, 32, 1079, 1072, 1087, 1088, 1086, 1096, 1077, 1085, 1085, 1099, 1081, 32, 1086,
    1073, 1098, 1077, 1082, 1090, 46, 32, 1042, 1086, 1079, 1084, 1086, 1078, 1085, 1086,
    44, 32, 1086, 1085, 32, 1073, 1099, 1083, 32, 1091, 1076, 1072, 1083, 1105, 1085, 32,
    1080, 1083, 1080, 32, 1080, 1079, 1084, 1077, 1085, 1080, 1083, 1089, 1103, 46]"

text \<open>insufficient rights\<close>

definition txt_er_rights :: utext where
  "txt_er_rights =
   [1053, 1077, 1076, 1086, 1089, 1090, 1072, 1090, 1086, 1095, 1085, 1086, 32, 1087, 1088,
    1072, 1074, 32, 1076, 1083, 1103, 32, 1074, 1099, 1087, 1086, 1083, 1085, 1077, 1085,
    1080, 1103, 32, 1101, 1090, 1086, 1075, 1086, 32, 1076, 1077, 1081, 1089, 1090, 1074,
    1080, 1103, 46]"

text \<open>run /start first\<close>

definition txt_er_start :: utext where
  "txt_er_start =
   [1057, 1085, 1072, 1095, 1072, 1083, 1072, 32, 1074, 1099, 1087, 1086, 1083, 1085, 1080,
    1090, 1077, 32, 47, 115, 116, 97, 114, 116, 44, 32, 1095, 1090, 1086, 1073, 1099, 32,
    1079, 1072, 1088, 1077, 1075, 1080, 1089, 1090, 1088, 1080, 1088, 1086, 1074, 1072,
    1090, 1100, 32, 1095, 1072, 1090, 46]"

text \<open>invalid request\<close>

definition txt_er_invalid :: utext where
  "txt_er_invalid =
   [1053, 1077, 1082, 1086, 1088, 1088, 1077, 1082, 1090, 1085, 1099, 1081, 32, 1079, 1072,
    1087, 1088, 1086, 1089, 46, 32, 1055, 1088, 1086, 1074, 1077, 1088, 1100, 1090, 1077,
    32, 1076, 1072, 1085, 1085, 1099, 1077, 32, 1080, 32, 1087, 1086, 1087, 1088, 1086,
    1073, 1091, 1081, 1090, 1077, 32, 1089, 1085, 1086, 1074, 1072, 46]"

text \<open>the data have changed\<close>

definition txt_er_conflict :: utext where
  "txt_er_conflict =
   [1044, 1072, 1085, 1085, 1099, 1077, 32, 1091, 1078, 1077, 32, 1080, 1079, 1084, 1077,
    1085, 1080, 1083, 1080, 1089, 1100, 46, 32, 1055, 1086, 1087, 1088, 1086, 1073, 1091,
    1081, 1090, 1077, 32, 1086, 1073, 1085, 1086, 1074, 1080, 1090, 1100, 32, 1089, 1090,
    1088, 1072, 1085, 1080, 1094, 1091, 32, 1080, 32, 1087, 1086, 1074, 1090, 1086, 1088,
    1080, 1090, 1100, 32, 1076, 1077, 1081, 1089, 1090, 1074, 1080, 1077, 46]"

text \<open>an error occurred\<close>

definition txt_er_other :: utext where
  "txt_er_other =
   [1055, 1088, 1086, 1080, 1079, 1086, 1096, 1083, 1072, 32, 1086, 1096, 1080, 1073, 1082,
    1072, 46, 32, 1055, 1086, 1087, 1088, 1086, 1073, 1091, 1081, 1090, 1077, 32, 1087,
    1086, 1074, 1090, 1086, 1088, 1080, 1090, 1100, 32, 1087, 1086, 1079, 1078, 1077, 46]"

lemmas bot_text_defs =
  txt_rate_limit_def
  txt_er_missing_def
  txt_er_rights_def
  txt_er_start_def
  txt_er_invalid_def
  txt_er_conflict_def
  txt_er_other_def

subsection \<open>Creation\<close>

text \<open>one short text message is needed to replace the transcript\<close>

definition txt_voice_text :: utext where
  "txt_voice_text =
   [1053, 1091, 1078, 1077, 1085, 32, 1086, 1076, 1080, 1085, 32, 1082, 1086, 1088, 1086,
    1090, 1082, 1080, 1081, 32, 1090, 1077, 1082, 1089, 1090, 32, 1089, 1086, 1086, 1073,
    1097, 1077, 1085, 1080, 1077, 1084, 46, 32, 1071, 32, 1079, 1072, 1084, 1077, 1085,
    1102, 32, 1080, 1084, 32, 1088, 1072, 1089, 1096, 1080, 1092, 1088, 1086, 1074, 1082,
    1091, 32, 1080, 32, 1089, 1085, 1086, 1074, 1072, 32, 1087, 1086, 1082, 1072, 1078,
    1091, 32, 1087, 1086, 1076, 1090, 1074, 1077, 1088, 1078, 1076, 1077, 1085, 1080, 1077,
    46]"

text \<open>text updated, check the final version\<close>

definition txt_voice_updated :: utext where
  "txt_voice_updated =
   [9999, 65039, 32, 1058, 1077, 1082, 1089, 1090, 32, 1086, 1073, 1085, 1086, 1074, 1083,
    1105, 1085, 46, 32, 1055, 1088, 1086, 1074, 1077, 1088, 1100, 1090, 1077, 32, 1092,
    1080, 1085, 1072, 1083, 1100, 1085, 1091, 1102, 32, 1074, 1077, 1088, 1089, 1080, 1102,
    32, 1087, 1077, 1088, 1077, 1076, 32, 1089, 1086, 1079, 1076, 1072, 1085, 1080, 1077,
    1084, 46]"

text \<open>if something was misunderstood, correct the text or record again\<close>

definition txt_voice_hint :: utext where
  "txt_voice_hint =
   [1045, 1089, 1083, 1080, 32, 1095, 1090, 1086, 45, 1090, 1086, 32, 1087, 1086, 1085,
    1103, 1090, 1086, 32, 1085, 1077, 1090, 1086, 1095, 1085, 1086, 44, 32, 1085, 1072,
    1078, 1084, 1080, 1090, 1077, 32, 171, 1048, 1089, 1087, 1088, 1072, 1074, 1080, 1090,
    1100, 32, 1090, 1077, 1082, 1089, 1090, 187, 32, 1080, 1083, 1080, 32, 1086, 1090, 1087,
    1088, 1072, 1074, 1100, 1090, 1077, 32, 1085, 1086, 1074, 1086, 1077, 32, 1075, 1086,
    1083, 1086, 1089, 1086, 1074, 1086, 1077, 46]"

text \<open>recognising the voice message\<close>

definition txt_voice_processing :: utext where
  "txt_voice_processing =
   [9203, 32, 1056, 1072, 1089, 1087, 1086, 1079, 1085, 1072, 1102, 32, 1075, 1086, 1083,
    1086, 1089, 1086, 1074, 1086, 1077, 46, 46, 46]"

text \<open>the voice message could not be understood\<close>

definition txt_voice_empty :: utext where
  "txt_voice_empty =
   [1053, 1077, 32, 1087, 1086, 1083, 1091, 1095, 1080, 1083, 1086, 1089, 1100, 32, 1091,
    1074, 1077, 1088, 1077, 1085, 1085, 1086, 32, 1088, 1072, 1079, 1086, 1073, 1088, 1072,
    1090, 1100, 32, 1075, 1086, 1083, 1086, 1089, 1086, 1074, 1086, 1077, 46, 32, 1055,
    1086, 1087, 1088, 1086, 1073, 1091, 1081, 1090, 1077, 32, 1086, 1090, 1087, 1088, 1072,
    1074, 1080, 1090, 1100, 32, 1077, 1075, 1086, 32, 1077, 1097, 1105, 32, 1088, 1072,
    1079, 32, 1080, 1083, 1080, 32, 1085, 1072, 1087, 1080, 1096, 1080, 1090, 1077, 32,
    1079, 1072, 1076, 1072, 1095, 1091, 32, 1090, 1077, 1082, 1089, 1090, 1086, 1084, 46]"

text \<open>the voice message was long, only its beginning was used\<close>

definition txt_voice_clipped :: utext where
  "txt_voice_clipped =
   [9888, 65039, 32, 1043, 1086, 1083, 1086, 1089, 1086, 1074, 1086, 1077, 32, 1086, 1082,
    1072, 1079, 1072, 1083, 1086, 1089, 1100, 32, 1076, 1083, 1080, 1085, 1085, 1099, 1084,
    44, 32, 1103, 32, 1080, 1089, 1087, 1086, 1083, 1100, 1079, 1086, 1074, 1072, 1083, 32,
    1090, 1086, 1083, 1100, 1082, 1086, 32, 1085, 1072, 1095, 1072, 1083, 1086, 46, 32,
    1055, 1088, 1086, 1074, 1077, 1088, 1100, 1090, 1077, 44, 32, 1095, 1090, 1086, 32,
    1074, 1089, 1077, 32, 1074, 1072, 1078, 1085, 1099, 1077, 32, 1076, 1077, 1090, 1072,
    1083, 1080, 32, 1089, 1086, 1093, 1088, 1072, 1085, 1080, 1083, 1080, 1089, 1100, 44,
    32, 1080, 1083, 1080, 32, 1079, 1072, 1087, 1080, 1096, 1080, 1090, 1077, 32, 1079,
    1072, 1085, 1086, 1074, 1086, 46]"

text \<open>User\<close>

definition txt_fallback_name :: utext where
  "txt_fallback_name =
   [1055, 1086, 1083, 1100, 1079, 1086, 1074, 1072, 1090, 1077, 1083, 1100]"

text \<open>the voice message is too long\<close>

definition txt_te_long :: utext where
  "txt_te_long =
   [9201, 32, 1043, 1086, 1083, 1086, 1089, 1086, 1074, 1086, 1077, 32, 1089, 1083, 1080,
    1096, 1082, 1086, 1084, 32, 1076, 1083, 1080, 1085, 1085, 1086, 1077, 46, 32, 1047,
    1072, 1087, 1080, 1096, 1080, 1090, 1077, 32, 1087, 1086, 1082, 1086, 1088, 1086, 1095,
    1077, 32, 1080, 1083, 1080, 32, 1087, 1088, 1080, 1096, 1083, 1080, 1090, 1077, 32,
    1079, 1072, 1076, 1072, 1095, 1091, 32, 1090, 1077, 1082, 1089, 1090, 1086, 1084, 46]"

text \<open>the file is too large\<close>

definition txt_te_large :: utext where
  "txt_te_large =
   [128230, 32, 1060, 1072, 1081, 1083, 32, 1075, 1086, 1083, 1086, 1089, 1086, 1074, 1086,
    1075, 1086, 32, 1089, 1083, 1080, 1096, 1082, 1086, 1084, 32, 1073, 1086, 1083, 1100,
    1096, 1086, 1081, 46, 32, 1055, 1086, 1087, 1088, 1086, 1073, 1091, 1081, 1090, 1077,
    32, 1073, 1086, 1083, 1077, 1077, 32, 1082, 1086, 1088, 1086, 1090, 1082, 1091, 1102,
    32, 1079, 1072, 1087, 1080, 1089, 1100, 46]"

text \<open>the speech was not understood\<close>

definition txt_te_empty :: utext where
  "txt_te_empty =
   [128263, 32, 1053, 1077, 32, 1091, 1076, 1072, 1083, 1086, 1089, 1100, 32, 1091, 1074,
    1077, 1088, 1077, 1085, 1085, 1086, 32, 1088, 1072, 1079, 1086, 1073, 1088, 1072, 1090,
    1100, 32, 1088, 1077, 1095, 1100, 46, 32, 1055, 1086, 1087, 1088, 1086, 1073, 1091,
    1081, 1090, 1077, 32, 1077, 1097, 1105, 32, 1088, 1072, 1079, 32, 1080, 1083, 1080, 32,
    1085, 1072, 1087, 1080, 1096, 1080, 1090, 1077, 32, 1090, 1077, 1082, 1089, 1090, 1086,
    1084, 46]"

text \<open>recognition is unavailable for now\<close>

definition txt_te_open :: utext where
  "txt_te_open =
   [128268, 32, 1057, 1077, 1088, 1074, 1080, 1089, 32, 1088, 1072, 1089, 1087, 1086, 1079,
    1085, 1072, 1074, 1072, 1085, 1080, 1103, 32, 1074, 1088, 1077, 1084, 1077, 1085, 1085,
    1086, 32, 1085, 1077, 1076, 1086, 1089, 1090, 1091, 1087, 1077, 1085, 46, 32, 1055,
    1086, 1087, 1088, 1086, 1073, 1091, 1081, 1090, 1077, 32, 1087, 1086, 1079, 1078, 1077,
    32, 1080, 1083, 1080, 32, 1085, 1072, 1087, 1080, 1096, 1080, 1090, 1077, 32, 1090,
    1077, 1082, 1089, 1090, 1086, 1084, 46]"

text \<open>the voice message could not be processed\<close>

definition txt_te_other :: utext where
  "txt_te_other =
   [9888, 65039, 32, 1053, 1077, 32, 1091, 1076, 1072, 1083, 1086, 1089, 1100, 32, 1086,
    1073, 1088, 1072, 1073, 1086, 1090, 1072, 1090, 1100, 32, 1075, 1086, 1083, 1086, 1089,
    1086, 1074, 1086, 1077, 46, 32, 1055, 1086, 1087, 1088, 1086, 1073, 1091, 1081, 1090,
    1077, 32, 1077, 1097, 1105, 32, 1088, 1072, 1079, 32, 1080, 1083, 1080, 32, 1085, 1072,
    1087, 1080, 1096, 1080, 1090, 1077, 32, 1090, 1077, 1082, 1089, 1090, 1086, 1084, 46]"

text \<open>a text is needed at this step\<close>

definition txt_guided_text :: utext where
  "txt_guided_text =
   [1053, 1072, 32, 1101, 1090, 1086, 1084, 32, 1096, 1072, 1075, 1077, 32, 1085, 1091,
    1078, 1077, 1085, 32, 1090, 1077, 1082, 1089, 1090, 46, 32, 1044, 1083, 1103, 32, 1075,
    1086, 1083, 1086, 1089, 1086, 1074, 1099, 1093, 32, 1091, 1076, 1086, 1073, 1085, 1077,
    1077, 32, 1080, 1089, 1087, 1086, 1083, 1100, 1079, 1086, 1074, 1072, 1090, 1100, 32,
    1073, 1099, 1089, 1090, 1088, 1099, 1081, 32, 1088, 1077, 1078, 1080, 1084, 46]"

text \<open>add the description of the task first\<close>

definition txt_guided_description :: utext where
  "txt_guided_description =
   [1057, 1085, 1072, 1095, 1072, 1083, 1072, 32, 1076, 1086, 1073, 1072, 1074, 1100, 1090,
    1077, 32, 1086, 1087, 1080, 1089, 1072, 1085, 1080, 1077, 32, 1079, 1072, 1076, 1072,
    1095, 1080, 44, 32, 1087, 1086, 1090, 1086, 1084, 32, 1103, 32, 1089, 1084, 1086, 1075,
    1091, 32, 1077, 1105, 32, 1089, 1086, 1079, 1076, 1072, 1090, 1100, 46]"

text \<open>until\<close>

definition txt_until :: utext where
  "txt_until =
   [32, 1076, 1086, 32]"

text \<open>the description is too short\<close>

definition txt_gd_short :: utext where
  "txt_gd_short =
   [1054, 1087, 1080, 1089, 1072, 1085, 1080, 1077, 32, 1087, 1086, 1082, 1072, 32, 1089,
    1083, 1080, 1096, 1082, 1086, 1084, 32, 1082, 1086, 1088, 1086, 1090, 1082, 1086, 1077,
    46, 32, 1053, 1072, 1087, 1080, 1096, 1080, 1090, 1077, 32, 1095, 1091, 1090, 1100, 32,
    1082, 1086, 1085, 1082, 1088, 1077, 1090, 1085, 1077, 1077, 58, 32, 1095, 1090, 1086,
    32, 1080, 1084, 1077, 1085, 1085, 1086, 32, 1085, 1091, 1078, 1085, 1086, 32, 1089,
    1076, 1077, 1083, 1072, 1090, 1100, 32, 1080, 32, 1082, 1072, 1082, 1086, 1081, 32,
    1088, 1077, 1079, 1091, 1083, 1100, 1090, 1072, 1090, 32, 1078, 1076, 1105, 1084, 46]"

text \<open>a phrase is needed, not one word\<close>

definition txt_gd_one_word :: utext where
  "txt_gd_one_word =
   [1060, 1086, 1088, 1084, 1091, 1083, 1080, 1088, 1086, 1074, 1082, 1072, 32, 1087, 1086,
    1082, 1072, 32, 1074, 1099, 1075, 1083, 1103, 1076, 1080, 1090, 32, 1089, 1083, 1080,
    1096, 1082, 1086, 1084, 32, 1082, 1086, 1088, 1086, 1090, 1082, 1086, 1081, 46, 32,
    1053, 1091, 1078, 1085, 1072, 32, 1086, 1076, 1085, 1072, 32, 1085, 1086, 1088, 1084,
    1072, 1083, 1100, 1085, 1072, 1103, 32, 1088, 1072, 1073, 1086, 1095, 1072, 1103, 32,
    1092, 1088, 1072, 1079, 1072, 44, 32, 1072, 32, 1085, 1077, 32, 1086, 1076, 1085, 1086,
    32, 1089, 1083, 1086, 1074, 1086, 46]"

text \<open>the list of candidates is out of date\<close>

definition txt_candidates_stale :: utext where
  "txt_candidates_stale =
   [1057, 1087, 1080, 1089, 1086, 1082, 32, 1082, 1072, 1085, 1076, 1080, 1076, 1072, 1090,
    1086, 1074, 32, 1091, 1089, 1090, 1072, 1088, 1077, 1083, 46, 32, 1047, 1072, 1076,
    1072, 1095, 1072, 32, 1086, 1090, 1082, 1088, 1099, 1090, 1072, 32, 1079, 1072, 1085,
    1086, 1074, 1086, 32, 8212, 32, 1087, 1086, 1087, 1088, 1086, 1073, 1091, 1081, 1090,
    1077, 32, 1085, 1072, 1079, 1085, 1072, 1095, 1080, 1090, 1100, 32, 1077, 1097, 1105,
    32, 1088, 1072, 1079, 46]"

lemmas bot_creation_text_defs =
  txt_voice_text_def
  txt_voice_updated_def
  txt_voice_hint_def
  txt_voice_processing_def
  txt_voice_empty_def
  txt_voice_clipped_def
  txt_fallback_name_def
  txt_te_long_def
  txt_te_large_def
  txt_te_empty_def
  txt_te_open_def
  txt_te_other_def
  txt_guided_text_def
  txt_guided_description_def
  txt_until_def
  txt_gd_short_def
  txt_gd_one_word_def
  txt_candidates_stale_def

subsection \<open>Dispatcher\<close>

text \<open>the screen is out of date, press /start\<close>

definition txt_registration_stale :: utext where
  "txt_registration_stale =
   [1069, 1082, 1088, 1072, 1085, 32, 1087, 1088, 1080, 1074, 1103, 1079, 1082, 1080, 32,
    1091, 1078, 1077, 32, 1091, 1089, 1090, 1072, 1088, 1077, 1083, 46, 32, 1053, 1072,
    1078, 1084, 1080, 1090, 1077, 32, 47, 115, 116, 97, 114, 116, 44, 32, 1080, 32, 1103,
    32, 1079, 1072, 1085, 1086, 1074, 1086, 32, 1087, 1086, 1082, 1072, 1078, 1091, 32,
    1074, 1072, 1088, 1080, 1072, 1085, 1090, 1099, 46]"

text \<open>profile linked\<close>

definition txt_linked :: utext where
  "txt_linked =
   [9989, 32, 1055, 1088, 1086, 1092, 1080, 1083, 1100, 32, 1087, 1088, 1080, 1074, 1103,
    1079, 1072, 1085, 46, 32, 1058, 1077, 1087, 1077, 1088, 1100, 32, 1079, 1072, 1076,
    1072, 1095, 1080, 32, 1073, 1091, 1076, 1091, 1090, 32, 1087, 1086, 1087, 1072, 1076,
    1072, 1090, 1100, 32, 1074, 1072, 1084, 32, 1082, 1072, 1082, 32, 1089, 1086, 1090,
    1088, 1091, 1076, 1085, 1080, 1082, 1091, 46, 10, 10]"

text \<open>going on without a link\<close>

definition txt_unlinked :: utext where
  "txt_unlinked =
   [8505, 65039, 32, 1055, 1086, 1082, 1072, 32, 1087, 1088, 1086, 1076, 1086, 1083, 1078,
    1072, 1077, 1084, 32, 1073, 1077, 1079, 32, 1087, 1088, 1080, 1074, 1103, 1079, 1082,
    1080, 32, 1082, 32, 1089, 1086, 1090, 1088, 1091, 1076, 1085, 1080, 1082, 1091, 46, 32,
    1045, 1089, 1083, 1080, 32, 1087, 1086, 1103, 1074, 1103, 1090, 1089, 1103, 32, 1085,
    1072, 1079, 1085, 1072, 1095, 1077, 1085, 1085, 1099, 1077, 32, 1085, 1072, 32, 1074,
    1072, 1089, 32, 1079, 1072, 1076, 1072, 1095, 1080, 44, 32, 1084, 1086, 1078, 1085,
    1086, 32, 1073, 1091, 1076, 1077, 1090, 32, 1074, 1077, 1088, 1085, 1091, 1090, 1100,
    1089, 1103, 32, 1082, 32, 1101, 1090, 1086, 1084, 1091, 32, 1095, 1077, 1088, 1077,
    1079, 32, 47, 115, 116, 97, 114, 116, 46, 10, 10]"

text \<open>nothing found for the query\<close>

definition txt_find_none :: utext where
  "txt_find_none =
   [128269, 32, 1055, 1086, 32, 1079, 1072, 1087, 1088, 1086, 1089, 1091, 32, 171]"

text \<open>nothing found for the query (part 2)\<close>

definition txt_find_none_2 :: utext where
  "txt_find_none_2 =
   [187, 32, 1085, 1080, 1095, 1077, 1075, 1086, 32, 1085, 1077, 32, 1085, 1072, 1081, 1076,
    1077, 1085, 1086, 46]"

text \<open>found\<close>

definition txt_find_some :: utext where
  "txt_find_some =
   [128269, 32, 1053, 1072, 1081, 1076, 1077, 1085, 1086, 58, 32]"

text \<open>found (part 2)\<close>

definition txt_find_some_2 :: utext where
  "txt_find_some_2 =
   [32, 40, 1087, 1086, 32, 1079, 1072, 1087, 1088, 1086, 1089, 1091, 32, 171]"

text \<open>found (part 3)\<close>

definition txt_find_some_3 :: utext where
  "txt_find_some_3 =
   [187, 41, 10]"

text \<open>line of a result\<close>

definition txt_find_line :: utext where
  "txt_find_line =
   [10, 8226, 32]"

text \<open>line of a result (part 2)\<close>

definition txt_find_line_2 :: utext where
  "txt_find_line_2 =
   [32, 8212, 32]"

text \<open>and more tasks\<close>

definition txt_find_more :: utext where
  "txt_find_more =
   [10, 8230, 1080, 32, 1077, 1097, 1105, 32]"

text \<open>and more tasks (part 2)\<close>

definition txt_find_more_2 :: utext where
  "txt_find_more_2 =
   [32, 1079, 1072, 1076, 1072, 1095]"

text \<open>enter a search\<close>

definition txt_find_hint :: utext where
  "txt_find_hint =
   [128269, 32, 1042, 1074, 1077, 1076, 1080, 1090, 1077, 32, 1087, 1086, 1080, 1089, 1082,
    58, 32, 47, 102, 105, 110, 100, 32, 60, 1090, 1077, 1082, 1089, 1090, 62, 10, 10, 1048,
    1089, 1082, 1072, 1090, 1100, 32, 1084, 1086, 1078, 1085, 1086, 32, 1087, 1086, 32,
    1085, 1072, 1079, 1074, 1072, 1085, 1080, 1102, 44, 32, 1086, 1087, 1080, 1089, 1072,
    1085, 1080, 1102, 32, 1080, 1083, 1080, 32, 1082, 1086, 1076, 1091, 32, 1079, 1072,
    1076, 1072, 1095, 1080, 46]"

text \<open>team analytics is off\<close>

definition txt_analytics_off :: utext where
  "txt_analytics_off =
   [128202, 32, 1050, 1086, 1084, 1072, 1085, 1076, 1085, 1072, 1103, 32, 1072, 1085, 1072,
    1083, 1080, 1090, 1080, 1082, 1072, 32, 1087, 1086, 1082, 1072, 32, 1085, 1077, 32,
    1074, 1082, 1083, 1102, 1095, 1077, 1085, 1072, 46, 10, 1054, 1073, 1088, 1072, 1090,
    1080, 1090, 1077, 1089, 1100, 32, 1082, 32, 1072, 1076, 1084, 1080, 1085, 1080, 1089,
    1090, 1088, 1072, 1090, 1086, 1088, 1091, 46]"

text \<open>done\<close>

definition txt_callback_ok :: utext where
  "txt_callback_ok =
   [1043, 1086, 1090, 1086, 1074, 1086]"

text \<open>this screen is out of date\<close>

definition txt_stale_mutation :: utext where
  "txt_stale_mutation =
   [1069, 1090, 1086, 1090, 32, 1101, 1082, 1088, 1072, 1085, 32, 1091, 1078, 1077, 32,
    1091, 1089, 1090, 1072, 1088, 1077, 1083, 46, 32, 1054, 1090, 1082, 1088, 1086, 1081,
    1090, 1077, 32, 1072, 1082, 1090, 1091, 1072, 1083, 1100, 1085, 1091, 1102, 32, 1082,
    1072, 1088, 1090, 1086, 1095, 1082, 1091, 32, 1080, 1083, 1080, 32, 1089, 1087, 1080,
    1089, 1086, 1082, 46]"

text \<open>opening the current screen\<close>

definition txt_stale_navigation :: utext where
  "txt_stale_navigation =
   [1054, 1090, 1082, 1088, 1099, 1074, 1072, 1102, 32, 1072, 1082, 1090, 1091, 1072, 1083,
    1100, 1085, 1099, 1081, 32, 1101, 1082, 1088, 1072, 1085, 46]"

lemmas bot_entry_text_defs =
  txt_registration_stale_def
  txt_linked_def
  txt_unlinked_def
  txt_find_none_def
  txt_find_none_2_def
  txt_find_some_def
  txt_find_some_2_def
  txt_find_some_3_def
  txt_find_line_def
  txt_find_line_2_def
  txt_find_more_def
  txt_find_more_2_def
  txt_find_hint_def
  txt_analytics_off_def
  txt_callback_ok_def
  txt_stale_mutation_def
  txt_stale_navigation_def

subsection \<open>Views\<close>

text \<open>my statistics\<close>

definition txt_st_mine :: utext where
  "txt_st_mine =
   [128202, 32, 1052, 1086, 1103, 32, 1089, 1090, 1072, 1090, 1080, 1089, 1090, 1080, 1082,
    1072]"

text \<open>statistics of the team\<close>

definition txt_st_team :: utext where
  "txt_st_team =
   [128200, 32, 1057, 1090, 1072, 1090, 1080, 1089, 1090, 1080, 1082, 1072, 32, 1082, 1086,
    1084, 1072, 1085, 1076, 1099]"

text \<open>the task was not recognised, use a code like T-0001\<close>

definition txt_invalid_reference :: utext where
  "txt_invalid_reference =
   [1053, 1077, 32, 1091, 1076, 1072, 1083, 1086, 1089, 1100, 32, 1088, 1072, 1089, 1087,
    1086, 1079, 1085, 1072, 1090, 1100, 32, 1079, 1072, 1076, 1072, 1095, 1091, 46, 32,
    1048, 1089, 1087, 1086, 1083, 1100, 1079, 1091, 1081, 1090, 1077, 32, 1082, 1086, 1076,
    32, 1074, 1080, 1076, 1072, 32, 84, 45, 48, 48, 48, 49, 32, 1080, 1083, 1080, 32, 1086,
    1090, 1082, 1088, 1086, 1081, 1090, 1077, 32, 1082, 1072, 1088, 1090, 1086, 1095, 1082,
    1091, 32, 1080, 1079, 32, 1089, 1087, 1080, 1089, 1082, 1072, 46]"

text \<open>one short text message is needed\<close>

definition txt_interaction_text :: utext where
  "txt_interaction_text =
   [1053, 1091, 1078, 1077, 1085, 32, 1086, 1076, 1080, 1085, 32, 1082, 1086, 1088, 1086,
    1090, 1082, 1080, 1081, 32, 1090, 1077, 1082, 1089, 1090, 32, 1089, 1086, 1086, 1073,
    1097, 1077, 1085, 1080, 1077, 1084, 46, 32, 1053, 1072, 1087, 1080, 1096, 1080, 1090,
    1077, 32, 1087, 1086, 32, 1076, 1077, 1083, 1091, 44, 32, 1080, 32, 1103, 32, 1089,
    1088, 1072, 1079, 1091, 32, 1086, 1073, 1085, 1086, 1074, 1083, 1102, 32, 1082, 1072,
    1088, 1090, 1086, 1095, 1082, 1091, 46]"

text \<open>comment added\<close>

definition txt_comment_saved :: utext where
  "txt_comment_saved =
   [128172, 32, 1050, 1086, 1084, 1084, 1077, 1085, 1090, 1072, 1088, 1080, 1081, 32, 1076,
    1086, 1073, 1072, 1074, 1083, 1077, 1085, 46]"

text \<open>blocker saved and shown in the card\<close>

definition txt_blocker_saved_notice :: utext where
  "txt_blocker_saved_notice =
   [128679, 32, 1041, 1083, 1086, 1082, 1077, 1088, 32, 1089, 1086, 1093, 1088, 1072, 1085,
    1105, 1085, 32, 1080, 32, 1087, 1086, 1082, 1072, 1079, 1072, 1085, 32, 1074, 32, 1082,
    1072, 1088, 1090, 1086, 1095, 1082, 1077, 46]"

lemmas bot_views_text_defs =
  txt_st_mine_def
  txt_st_team_def
  txt_invalid_reference_def
  txt_interaction_text_def
  txt_comment_saved_def
  txt_blocker_saved_notice_def

subsection \<open>Clients\<close>

text \<open>dash before a handle\<close>

definition txt_dg_handle :: utext where
  "txt_dg_handle =
   [32, 8212, 32, 64]"

text \<open>how many are left out\<close>

definition txt_dg_footer :: utext where
  "txt_dg_footer =
   [8230, 32, 1077, 1097, 1105, 32]"

text \<open>how many are left out (part 2)\<close>

definition txt_dg_footer_2 :: utext where
  "txt_dg_footer_2 =
   [32, 1089, 1086, 1090, 1088, 1091, 1076, 1085, 1080, 1082, 1086, 1074, 32, 1085, 1077,
    32, 1074, 1086, 1096, 1083, 1080, 32, 1074, 32, 1082, 1086, 1085, 1090, 1077, 1082,
    1089, 1090]"

text \<open>the rules the language model is given\<close>

definition txt_system_prompt :: utext where
  "txt_system_prompt =
   [1058, 1099, 32, 8212, 32, 1072, 1089, 1089, 1080, 1089, 1090, 1077, 1085, 1090, 32,
    1074, 1085, 1091, 1090, 1088, 1077, 1085, 1085, 1077, 1081, 32, 1089, 1080, 1089, 1090,
    1077, 1084, 1099, 32, 1091, 1087, 1088, 1072, 1074, 1083, 1077, 1085, 1080, 1103, 32,
    1079, 1072, 1076, 1072, 1095, 1072, 1084, 1080, 46, 10, 1058, 1074, 1086, 1103, 32,
    1079, 1072, 1076, 1072, 1095, 1072, 32, 8212, 32, 1087, 1088, 1077, 1074, 1088, 1072,
    1090, 1080, 1090, 1100, 32, 1073, 1080, 1079, 1085, 1077, 1089, 45, 1089, 1086, 1086,
    1073, 1097, 1077, 1085, 1080, 1077, 32, 1085, 1072, 32, 1088, 1091, 1089, 1089, 1082,
    1086, 1084, 32, 1074, 32, 1089, 1090, 1088, 1086, 1075, 1086, 32, 1089, 1090, 1088,
    1091, 1082, 1090, 1091, 1088, 1080, 1088, 1086, 1074, 1072, 1085, 1085, 1099, 1081, 32,
    74, 83, 79, 78, 46, 10, 10, 1055, 1088, 1072, 1074, 1080, 1083, 1072, 58, 10, 49, 46,
    32, 1054, 1090, 1074, 1077, 1095, 1072, 1081, 32, 1058, 1054, 1051, 1068, 1050, 1054,
    32, 1074, 1072, 1083, 1080, 1076, 1085, 1099, 1084, 32, 74, 83, 79, 78, 32, 1073, 1077,
    1079, 32, 77, 97, 114, 107, 100, 111, 119, 110, 44, 32, 1073, 1077, 1079, 32, 96, 96,
    96, 106, 115, 111, 110, 45, 1086, 1073, 1105, 1088, 1090, 1086, 1082, 32, 1080, 32,
    1073, 1077, 1079, 32, 1082, 1086, 1084, 1084, 1077, 1085, 1090, 1072, 1088, 1080, 1077,
    1074, 46, 10, 50, 46, 32, 1047, 1072, 1087, 1088, 1077, 1097, 1077, 1085, 1086, 32,
    1074, 1099, 1076, 1091, 1084, 1099, 1074, 1072, 1090, 1100, 32, 1076, 1077, 1090, 1072,
    1083, 1080, 44, 32, 1080, 1089, 1087, 1086, 1083, 1085, 1080, 1090, 1077, 1083, 1077,
    1081, 44, 32, 1089, 1088, 1086, 1082, 1080, 32, 1080, 32, 1082, 1088, 1080, 1090, 1077,
    1088, 1080, 1080, 44, 32, 1082, 1086, 1090, 1086, 1088, 1099, 1093, 32, 1085, 1077,
    1090, 32, 1074, 1086, 32, 1074, 1093, 1086, 1076, 1077, 46, 10, 51, 46, 32, 1045, 1089,
    1083, 1080, 32, 1074, 1093, 1086, 1076, 1085, 1086, 1081, 32, 1090, 1077, 1082, 1089,
    1090, 32, 1089, 1083, 1080, 1096, 1082, 1086, 1084, 32, 1082, 1086, 1088, 1086, 1090,
    1082, 1080, 1081, 44, 32, 1073, 1077, 1089, 1089, 1084, 1099, 1089, 1083, 1077, 1085,
    1085, 1099, 1081, 32, 1080, 1083, 1080, 32, 1086, 1087, 1072, 1089, 1085, 1099, 1081,
    32, 40, 1086, 1089, 1082, 1086, 1088, 1073, 1083, 1077, 1085, 1080, 1103, 44, 32, 1087,
    1088, 1080, 1079, 1099, 1074, 1099, 32, 1082, 32, 1085, 1077, 1079, 1072, 1082, 1086,
    1085, 1085, 1099, 1084, 32, 1076, 1077, 1081, 1089, 1090, 1074, 1080, 1103, 1084, 44,
    32, 1087, 1086, 1087, 1099, 1090, 1082, 1072, 32, 1086, 1073, 1086, 1081, 1090, 1080,
    32, 1087, 1086, 1083, 1080, 1090, 1080, 1082, 1091, 41, 32, 8212, 32, 1074, 1077, 1088,
    1085, 1080, 58, 10, 32, 32, 32, 123, 32, 34, 114, 101, 102, 117, 115, 101, 100, 34, 58,
    32, 116, 114, 117, 101, 44, 32, 34, 114, 101, 102, 117, 115, 97, 108, 95, 114, 101, 97,
    115, 111, 110, 34, 58, 32, 34, 1082, 1086, 1088, 1086, 1090, 1082, 1086, 32, 1080, 32,
    1074, 1077, 1078, 1083, 1080, 1074, 1086, 32, 1087, 1086, 45, 1088, 1091, 1089, 1089,
    1082, 1080, 34, 32, 125, 10, 32, 32, 32, 1080, 32, 1053, 1045, 32, 1079, 1072, 1087,
    1086, 1083, 1085, 1103, 1081, 32, 1086, 1089, 1090, 1072, 1083, 1100, 1085, 1099, 1077,
    32, 1087, 1086, 1083, 1103, 46, 10, 52, 46, 32, 1048, 1089, 1087, 1086, 1083, 1100,
    1079, 1091, 1081, 32, 1082, 1086, 1085, 1090, 1077, 1082, 1089, 1090, 32, 40, 1076,
    1072, 1090, 1072, 44, 32, 1090, 1072, 1081, 1084, 1079, 1086, 1085, 1072, 44, 32, 1089,
    1087, 1088, 1072, 1074, 1086, 1095, 1085, 1080, 1082, 32, 1089, 1086, 1090, 1088, 1091,
    1076, 1085, 1080, 1082, 1086, 1074, 41, 44, 32, 1095, 1090, 1086, 1073, 1099, 32, 1090,
    1086, 1095, 1085, 1077, 1077, 32, 1088, 1072, 1079, 1086, 1073, 1088, 1072, 1090, 1100,
    32, 1079, 1072, 1076, 1072, 1095, 1091, 46, 32, 1053, 1045, 32, 1094, 1080, 1090, 1080,
    1088, 1091, 1081, 32, 1082, 1086, 1085, 1090, 1077, 1082, 1089, 1090, 32, 1074, 32,
    1086, 1090, 1074, 1077, 1090, 1077, 46, 10, 53, 46, 32, 1055, 1086, 1083, 1077, 32, 96,
    100, 101, 97, 100, 108, 105, 110, 101, 95, 105, 115, 111, 96, 32, 8212, 32, 1089, 1090,
    1088, 1086, 1075, 1086, 32, 73, 83, 79, 45, 56, 54, 48, 49, 32, 40, 96, 89, 89, 89, 89,
    45, 77, 77, 45, 68, 68, 84, 72, 72, 58, 77, 77, 58, 83, 83, 43, 48, 51, 58, 48, 48, 96,
    32, 1080, 1083, 1080, 32, 96, 89, 89, 89, 89, 45, 77, 77, 45, 68, 68, 96, 41, 46, 32,
    1045, 1089, 1083, 1080, 32, 1089, 1088, 1086, 1082, 32, 1085, 1077, 32, 1074, 1099,
    1088, 1072, 1078, 1077, 1085, 32, 8212, 32, 1074, 1077, 1088, 1085, 1080, 32, 96, 110,
    117, 108, 108, 96, 46, 32, 1053, 1048, 1050, 1054, 1043, 1044, 1040, 32, 1085, 1077, 32,
    1074, 1099, 1076, 1091, 1084, 1099, 1074, 1072, 1081, 32, 1074, 1095, 1077, 1088, 1072,
    1096, 1085, 1102, 1102, 32, 1080, 1083, 1080, 32, 1087, 1086, 1079, 1072, 1074, 1095,
    1077, 1088, 1072, 1096, 1085, 1102, 1102, 32, 1076, 1072, 1090, 1091, 46, 10, 10, 1057,
    1093, 1077, 1084, 1072, 32, 1086, 1090, 1074, 1077, 1090, 1072, 58, 10, 123, 10, 32, 32,
    34, 116, 105, 116, 108, 101, 34, 58, 32, 32, 32, 32, 32, 32, 32, 32, 32, 32, 32, 32, 32,
    32, 32, 115, 116, 114, 105, 110, 103, 44, 32, 8804, 32, 49, 48, 48, 32, 1089, 1080,
    1084, 1074, 1086, 1083, 1086, 1074, 44, 32, 1083, 1072, 1082, 1086, 1085, 1080, 1095,
    1085, 1086, 32, 1080, 32, 1087, 1086, 32, 1076, 1077, 1083, 1091, 59, 10, 32, 32, 34,
    101, 120, 112, 101, 99, 116, 101, 100, 95, 114, 101, 115, 117, 108, 116, 34, 58, 32, 32,
    32, 32, 32, 115, 116, 114, 105, 110, 103, 44, 32, 8804, 32, 52, 48, 48, 32, 1089, 1080,
    1084, 1074, 1086, 1083, 1086, 1074, 44, 32, 1080, 1079, 1084, 1077, 1088, 1080, 1084,
    1086, 59, 10, 32, 32, 34, 115, 116, 101, 112, 115, 34, 58, 32, 32, 32, 32, 32, 32, 32,
    32, 32, 32, 32, 32, 32, 32, 32, 97, 114, 114, 97, 121, 32, 111, 102, 32, 115, 116, 114,
    105, 110, 103, 44, 32, 49, 8211, 55, 32, 1096, 1072, 1075, 1086, 1074, 44, 32, 1082,
    1072, 1078, 1076, 1099, 1081, 32, 8804, 32, 50, 48, 48, 32, 1089, 1080, 1084, 1074,
    1086, 1083, 1086, 1074, 59, 10, 32, 32, 34, 97, 99, 99, 101, 112, 116, 97, 110, 99, 101,
    95, 99, 114, 105, 116, 101, 114, 105, 97, 34, 58, 32, 97, 114, 114, 97, 121, 32, 111,
    102, 32, 115, 116, 114, 105, 110, 103, 44, 32, 8804, 32, 53, 32, 1096, 1090, 1091, 1082,
    44, 32, 1082, 1072, 1078, 1076, 1099, 1081, 32, 8804, 32, 50, 48, 48, 32, 1089, 1080,
    1084, 1074, 1086, 1083, 1086, 1074, 59, 10, 32, 32, 34, 100, 101, 97, 100, 108, 105,
    110, 101, 95, 105, 115, 111, 34, 58, 32, 32, 32, 32, 32, 32, 32, 32, 115, 116, 114, 105,
    110, 103, 32, 124, 32, 110, 117, 108, 108, 59, 10, 32, 32, 34, 114, 101, 102, 117, 115,
    101, 100, 34, 58, 32, 32, 32, 32, 32, 32, 32, 32, 32, 32, 32, 32, 32, 98, 111, 111, 108,
    101, 97, 110, 32, 40, 1086, 1087, 1094, 1080, 1086, 1085, 1072, 1083, 1100, 1085, 1086,
    44, 32, 1087, 1086, 32, 1091, 1084, 1086, 1083, 1095, 1072, 1085, 1080, 1102, 32, 102,
    97, 108, 115, 101, 41, 59, 10, 32, 32, 34, 114, 101, 102, 117, 115, 97, 108, 95, 114,
    101, 97, 115, 111, 110, 34, 58, 32, 32, 32, 32, 32, 32, 115, 116, 114, 105, 110, 103,
    32, 124, 32, 110, 117, 108, 108, 32, 40, 1086, 1073, 1103, 1079, 1072, 1090, 1077, 1083,
    1100, 1085, 1086, 32, 1082, 1086, 1075, 1076, 1072, 32, 114, 101, 102, 117, 115, 101,
    100, 32, 61, 61, 32, 116, 114, 117, 101, 41, 46, 10, 125]"

text \<open>Monday\<close>

definition txt_wd_mon :: utext where
  "txt_wd_mon =
   [1087, 1086, 1085, 1077, 1076, 1077, 1083, 1100, 1085, 1080, 1082]"

text \<open>Tuesday\<close>

definition txt_wd_tue :: utext where
  "txt_wd_tue =
   [1074, 1090, 1086, 1088, 1085, 1080, 1082]"

text \<open>Wednesday\<close>

definition txt_wd_wed :: utext where
  "txt_wd_wed =
   [1089, 1088, 1077, 1076, 1072]"

text \<open>Thursday\<close>

definition txt_wd_thu :: utext where
  "txt_wd_thu =
   [1095, 1077, 1090, 1074, 1077, 1088, 1075]"

text \<open>Friday\<close>

definition txt_wd_fri :: utext where
  "txt_wd_fri =
   [1087, 1103, 1090, 1085, 1080, 1094, 1072]"

text \<open>Saturday\<close>

definition txt_wd_sat :: utext where
  "txt_wd_sat =
   [1089, 1091, 1073, 1073, 1086, 1090, 1072]"

text \<open>Sunday\<close>

definition txt_wd_sun :: utext where
  "txt_wd_sun =
   [1074, 1086, 1089, 1082, 1088, 1077, 1089, 1077, 1085, 1100, 1077]"

text \<open>not named\<close>

definition txt_gp_nobody :: utext where
  "txt_gp_nobody =
   [1053, 1077, 32, 1091, 1082, 1072, 1079, 1072, 1085]"

text \<open>no deadline named\<close>

definition txt_gp_no_deadline :: utext where
  "txt_gp_no_deadline =
   [1089, 1088, 1086, 1082, 32, 1085, 1077, 32, 1091, 1082, 1072, 1079, 1072, 1085]"

text \<open>the directory is empty\<close>

definition txt_gp_no_directory :: utext where
  "txt_gp_no_directory =
   [1057, 1087, 1088, 1072, 1074, 1086, 1095, 1085, 1080, 1082, 32, 1089, 1086, 1090, 1088,
    1091, 1076, 1085, 1080, 1082, 1086, 1074, 58, 32, 1087, 1091, 1089, 1090, 32, 40, 1079,
    1072, 1076, 1072, 1095, 1072, 32, 1084, 1086, 1078, 1077, 1090, 32, 1073, 1099, 1090,
    1100, 32, 1073, 1077, 1079, 32, 1080, 1089, 1087, 1086, 1083, 1085, 1080, 1090, 1077,
    1083, 1103, 41, 46]"

text \<open>the directory\<close>

definition txt_gp_directory :: utext where
  "txt_gp_directory =
   [1057, 1087, 1088, 1072, 1074, 1086, 1095, 1085, 1080, 1082, 32, 1089, 1086, 1090, 1088,
    1091, 1076, 1085, 1080, 1082, 1086, 1074, 32, 40, 1080, 1084, 1103, 32, 8212, 32, 64,
    117, 115, 101, 114, 110, 97, 109, 101, 41, 58, 10]"

text \<open>the prompt\<close>

definition txt_gp_prompt :: utext where
  "txt_gp_prompt =
   [1057, 1077, 1075, 1086, 1076, 1085, 1103, 58, 32]"

text \<open>the prompt (part 2)\<close>

definition txt_gp_prompt_2 :: utext where
  "txt_gp_prompt_2 =
   [41, 46, 10, 1063, 1072, 1089, 1086, 1074, 1086, 1081, 32, 1087, 1086, 1103, 1089, 32,
    1087, 1086, 1083, 1100, 1079, 1086, 1074, 1072, 1090, 1077, 1083, 1103, 58, 32]"

text \<open>the prompt (part 3)\<close>

definition txt_gp_prompt_3 :: utext where
  "txt_gp_prompt_3 =
   [46, 10]"

text \<open>the prompt (part 4)\<close>

definition txt_gp_prompt_4 :: utext where
  "txt_gp_prompt_4 =
   [10, 10, 1048, 1089, 1087, 1086, 1083, 1085, 1080, 1090, 1077, 1083, 1100, 32, 40, 1077,
    1089, 1083, 1080, 32, 1088, 1072, 1089, 1087, 1086, 1079, 1085, 1072, 1085, 32, 1087,
    1072, 1088, 1089, 1077, 1088, 1086, 1084, 41, 58, 32]"

text \<open>the prompt (part 5)\<close>

definition txt_gp_prompt_5 :: utext where
  "txt_gp_prompt_5 =
   [10, 1053, 1072, 1084, 1105, 1082, 32, 1085, 1072, 32, 1089, 1088, 1086, 1082, 32, 40,
    1087, 1072, 1088, 1089, 1077, 1088, 41, 58, 32]"

text \<open>the prompt (part 6)\<close>

definition txt_gp_prompt_6 :: utext where
  "txt_gp_prompt_6 =
   [10, 1054, 1088, 1080, 1075, 1080, 1085, 1072, 1083, 1100, 1085, 1099, 1081, 32, 1090,
    1077, 1082, 1089, 1090, 32, 1087, 1086, 1083, 1100, 1079, 1086, 1074, 1072, 1090, 1077,
    1083, 1103, 58, 10, 96, 96, 96, 10]"

text \<open>the prompt (part 7)\<close>

definition txt_gp_prompt_7 :: utext where
  "txt_gp_prompt_7 =
   [10, 96, 96, 96, 10, 10, 1057, 1092, 1086, 1088, 1084, 1080, 1088, 1091, 1081, 32, 74,
    83, 79, 78, 32, 1087, 1086, 32, 1087, 1088, 1072, 1074, 1080, 1083, 1072, 1084, 32,
    1089, 1080, 1089, 1090, 1077, 1084, 1085, 1086, 1081, 32, 1080, 1085, 1089, 1090, 1088,
    1091, 1082, 1094, 1080, 1080, 46]"

lemmas clients_text_defs =
  txt_dg_handle_def
  txt_dg_footer_def
  txt_dg_footer_2_def
  txt_system_prompt_def
  txt_wd_mon_def
  txt_wd_tue_def
  txt_wd_wed_def
  txt_wd_thu_def
  txt_wd_fri_def
  txt_wd_sat_def
  txt_wd_sun_def
  txt_gp_nobody_def
  txt_gp_no_deadline_def
  txt_gp_no_directory_def
  txt_gp_directory_def
  txt_gp_prompt_def
  txt_gp_prompt_2_def
  txt_gp_prompt_3_def
  txt_gp_prompt_4_def
  txt_gp_prompt_5_def
  txt_gp_prompt_6_def
  txt_gp_prompt_7_def

subsection \<open>Local generator\<close>

text \<open>the task is done and ready for review\<close>

definition txt_lg_done :: utext where
  "txt_lg_done =
   [1047, 1072, 1076, 1072, 1095, 1072, 32, 1074, 1099, 1087, 1086, 1083, 1085, 1077, 1085,
    1072, 32, 1080, 32, 1075, 1086, 1090, 1086, 1074, 1072, 32, 1082, 32, 1087, 1088, 1086,
    1074, 1077, 1088, 1082, 1077, 46]"

text \<open>assignee\<close>

definition txt_lg_assignee :: utext where
  "txt_lg_assignee =
   [1048, 1089, 1087, 1086, 1083, 1085, 1080, 1090, 1077, 1083, 1100, 58, 32]"

text \<open>deadline\<close>

definition txt_lg_deadline :: utext where
  "txt_lg_deadline =
   [1057, 1088, 1086, 1082, 58, 32]"

text \<open>the result can be checked when done\<close>

definition txt_lg_check :: utext where
  "txt_lg_check =
   [1056, 1077, 1079, 1091, 1083, 1100, 1090, 1072, 1090, 32, 1084, 1086, 1078, 1085, 1086,
    32, 1087, 1088, 1086, 1074, 1077, 1088, 1080, 1090, 1100, 32, 1087, 1086, 32, 1092,
    1072, 1082, 1090, 1091, 32, 1074, 1099, 1087, 1086, 1083, 1085, 1077, 1085, 1080, 1103,
    46]"

text \<open>the deadline is kept\<close>

definition txt_lg_kept :: utext where
  "txt_lg_kept =
   [1057, 1088, 1086, 1082, 32, 1089, 1086, 1073, 1083, 1102, 1076, 1105, 1085, 58, 32]"

lemmas local_generator_text_defs =
  txt_lg_done_def
  txt_lg_assignee_def
  txt_lg_deadline_def
  txt_lg_check_def
  txt_lg_kept_def

subsection \<open>Notifications\<close>

text \<open>open\<close>

definition txt_nb_open :: utext where
  "txt_nb_open =
   [128203, 32, 1054, 1090, 1082, 1088, 1099, 1090, 1100]"

text \<open>start working\<close>

definition txt_nb_start :: utext where
  "txt_nb_start =
   [9654, 65039, 32, 1042, 32, 1088, 1072, 1073, 1086, 1090, 1091]"

text \<open>accept\<close>

definition txt_nb_approve :: utext where
  "txt_nb_approve =
   [9989, 32, 1055, 1088, 1080, 1085, 1103, 1090, 1100]"

text \<open>return\<close>

definition txt_nb_return :: utext where
  "txt_nb_return =
   [8617, 65039, 32, 1042, 1077, 1088, 1085, 1091, 1090, 1100]"

text \<open>there is a blocker\<close>

definition txt_nb_blocker :: utext where
  "txt_nb_blocker =
   [128679, 32, 1045, 1089, 1090, 1100, 32, 1073, 1083, 1086, 1082, 1077, 1088]"

lemmas notifier_text_defs =
  txt_nb_open_def
  txt_nb_start_def
  txt_nb_approve_def
  txt_nb_return_def
  txt_nb_blocker_def

end
