(* ===== verification/Local_Generator.thy ===== *)
theory Local_Generator
  imports Create_Task Bot_Texts
begin

section \<open>The rule-based task generator\<close>

text \<open>
  \<^verbatim>\<open>src/infrastructure/ai/local_task_generator.rs\<close>: the generator used when no language model is
  configured. The texts chrono prints for a day (\<^verbatim>\<open>%Y-%m-%d\<close>, \<^verbatim>\<open>%d.%m.%Y\<close>), the texts the validator
  prints and the JSON serde prints are arguments.
\<close>

definition truncate_chars :: "utext \<Rightarrow> nat \<Rightarrow> utext" where
  "truncate_chars v limit = take limit v"

text \<open>\<^verbatim>\<open>str::split\<close> at a set of characters.\<close>

fun split_by :: "(uchar \<Rightarrow> bool) \<Rightarrow> utext \<Rightarrow> utext list" where
  "split_by P [] = [[]]"
| "split_by P (c # cs) =
     (if P c then [] # split_by P cs
      else (case split_by P cs of p # ps \<Rightarrow> (c # p) # ps | [] \<Rightarrow> [[c]]))"

definition build_title :: "utext \<Rightarrow> utext" where
  "build_title description =
     truncate_chars
       (case find (\<lambda>v. v \<noteq> []) (map trim (split_by (\<lambda>c. c = 46 \<or> c = 33 \<or> c = 63) description)) of
          Some first_sentence \<Rightarrow> first_sentence
        | None \<Rightarrow> description) MAX_TASK_TITLE_LENGTH"

definition step_items :: "utext \<Rightarrow> utext list" where
  "step_items description =
     filter (\<lambda>v. v \<noteq> []) (map trim (split_by (\<lambda>c. c = 44 \<or> c = 59 \<or> c = 10) description))"

definition build_steps :: "utext \<Rightarrow> utext list" where
  "build_steps description =
    (let items = map (\<lambda>v. truncate_chars v MAX_TASK_STEP_LENGTH) (step_items description) in
     if items = [] then [truncate_chars (trim description) MAX_TASK_STEP_LENGTH] else items)"

definition build_expected_result :: "(day \<Rightarrow> utext) \<Rightarrow> parsed_task_request \<Rightarrow> utext option \<Rightarrow> utext" where
  "build_expected_result date_text p assignee_display =
     truncate_chars
      (join [32]
        ([txt_lg_done]
         @ (case assignee_display of
              Some v \<Rightarrow> [txt_lg_assignee @ v @ [46]] | None \<Rightarrow> [])
         @ (case p_deadline p of
              Some d \<Rightarrow> [txt_lg_deadline @ date_text d @ [46]] | None \<Rightarrow> [])))
      MAX_TASK_EXPECTED_RESULT_LENGTH"

definition build_acceptance_criteria :: "(day \<Rightarrow> utext) \<Rightarrow> parsed_task_request \<Rightarrow> utext list" where
  "build_acceptance_criteria date_text p =
     [txt_lg_check]
     @ (case p_deadline p of
          Some d \<Rightarrow> [txt_lg_kept @ date_text d @ [46]] | None \<Rightarrow> [])"

definition local_draft ::
  "(day \<Rightarrow> utext) \<Rightarrow> (day \<Rightarrow> utext) \<Rightarrow> parsed_task_request \<Rightarrow> employee option \<Rightarrow> structured_task_draft" where
  "local_draft iso_text date_text p assignee =
    (let assignee_display = (case assignee of
           Some e \<Rightarrow> Some (e_full_name e) | None \<Rightarrow> p_assignee_name p)
     in \<lparr> d_title = build_title (p_task_description p),
          d_expected_result = build_expected_result date_text p assignee_display,
          d_steps = build_steps (p_task_description p),
          d_acceptance_criteria = build_acceptance_criteria date_text p,
          d_deadline_iso = map_option iso_text (p_deadline p),
          d_refused = False, d_refusal_reason = None \<rparr>)"

definition local_generate_task ::
  "(day \<Rightarrow> utext) \<Rightarrow> (day \<Rightarrow> utext) \<Rightarrow> (structured_task_draft \<Rightarrow> utext) \<Rightarrow> (structured_task_draft \<Rightarrow> utext)
   \<Rightarrow> parsed_task_request \<Rightarrow> employee option \<Rightarrow> generated_task result" where
  "local_generate_task iso_text date_text report pretty p assignee =
    (let d = local_draft iso_text date_text p assignee in
     tryR (validate_business_rules report d) (\<lambda>_.
     Inr \<lparr> gt_model_name = ascii ''local-rule-based-generator'', gt_raw_response = pretty d,
           gt_structured_task = d \<rparr>))"

subsection \<open>When it produces a task\<close>

lemma expected_result_in_range:
  "1 \<le> length (build_expected_result f p a)"
  "length (build_expected_result f p a) \<le> MAX_TASK_EXPECTED_RESULT_LENGTH"
  by (auto simp: build_expected_result_def truncate_chars_def draft_limits
      local_generator_text_defs join.simps Suc_le_eq split: option.split)

lemma criteria_in_range:
  assumes "\<And>d. length (date_text d) \<le> 100"
  shows "length (build_acceptance_criteria date_text p) \<le> MAX_ACCEPTANCE_CRITERIA"
    "list_all (\<lambda>c. length c \<le> MAX_TASK_ACCEPTANCE_CRITERION_LENGTH)
       (build_acceptance_criteria date_text p)"
proof -
  have "length (date_text d) \<le> 144" for d using assms[of d] by simp
  then show "length (build_acceptance_criteria date_text p) \<le> MAX_ACCEPTANCE_CRITERIA"
    "list_all (\<lambda>c. length c \<le> MAX_TASK_ACCEPTANCE_CRITERION_LENGTH)
       (build_acceptance_criteria date_text p)"
    by (auto simp: build_acceptance_criteria_def draft_limits local_generator_text_defs
        split: option.split)
qed

lemma find_in_set: "find P xs = Some x \<Longrightarrow> x \<in> set xs \<and> P x"
  by (auto simp: find_Some_iff)

lemma title_in_range:
  assumes "description \<noteq> []"
  shows "1 \<le> length (build_title description)" "length (build_title description) \<le> MAX_TASK_TITLE_LENGTH"
  using assms
  by (auto simp: build_title_def truncate_chars_def draft_limits Suc_le_eq split: option.split
      dest: find_in_set)

lemma steps_short: "list_all (\<lambda>x. length x \<le> MAX_TASK_STEP_LENGTH) (build_steps description)"
  by (auto simp: build_steps_def truncate_chars_def Let_def list_all_iff)

lemma steps_count:
  "length (build_steps description) = max 1 (length (step_items description))"
  by (cases "step_items description") (auto simp: build_steps_def Let_def)

text \<open>
  Every described task passes the domain limits, with one exception: a description with more than
  seven comma- or line-separated parts, each of which becomes a step.
\<close>

lemma local_generator_iff:
  assumes "p_task_description p \<noteq> []" "\<And>d. length (date_text d) \<le> 100"
  shows "is_ok (local_generate_task iso_text date_text report pretty p assignee) \<longleftrightarrow>
     length (step_items (p_task_description p)) \<le> MAX_TASK_STEPS"
proof -
  let ?d = "local_draft iso_text date_text p assignee"
  have "draft_within_limits ?d \<longleftrightarrow> length (d_steps ?d) \<in> {MIN_TASK_STEPS..MAX_TASK_STEPS}"
    using assms title_in_range[OF assms(1)] expected_result_in_range criteria_in_range[OF assms(2)]
      steps_short
    by (auto simp: draft_within_limits_def local_draft_def Let_def)
  also have "\<dots> \<longleftrightarrow> length (step_items (p_task_description p)) \<le> MAX_TASK_STEPS"
    by (auto simp: local_draft_def Let_def steps_count draft_limits)
  finally have "draft_within_limits ?d \<longleftrightarrow> length (step_items (p_task_description p)) \<le> MAX_TASK_STEPS" .
  moreover have "is_ok (local_generate_task iso_text date_text report pretty p assignee) \<longleftrightarrow>
      is_ok (validate_business_rules report ?d)"
    unfolding local_generate_task_def Let_def by (cases "validate_business_rules report ?d") simp_all
  ultimately show ?thesis
    using validate_ok_iff[of report ?d] unfolding is_ok_iff by blast
qed

lemma eight_items_are_refused:
  "step_items (ascii ''a,b,c,d,e,f,g,h'') = map (\<lambda>c. [c]) (ascii ''abcdefgh'')"
  by (simp add: step_items_def ascii_def trim_def trim_start_by_def trim_end_by_def
      is_whitespace_def)

end
