(* ===== verification/Chat_State.thy ===== *)
theory Chat_State
  imports Callback_Codec
begin

section \<open>What the bot remembers of a chat\<close>

text \<open>
  \<^verbatim>\<open>src/presentation/telegram/drafts.rs\<close>, \<^verbatim>\<open>interactions.rs\<close>, \<^verbatim>\<open>assignee_selections.rs\<close> and
  \<^verbatim>\<open>registration_links.rs\<close>: the four per-chat conversation states. Each store is a hash map behind a
  lock, keyed by chat; it is modelled as a map, and its operations as updates of the map.
\<close>

type_synonym chat_id = int
type_synonym 'a chat_store = "chat_id \<Rightarrow> 'a option"

definition chat_get :: "chat_id \<Rightarrow> 'a chat_store \<Rightarrow> 'a option" where
  "chat_get chat st = st chat"

definition chat_set :: "chat_id \<Rightarrow> 'a \<Rightarrow> 'a chat_store \<Rightarrow> 'a chat_store" where
  "chat_set chat v st = st(chat \<mapsto> v)"

definition chat_clear :: "chat_id \<Rightarrow> 'a chat_store \<Rightarrow> 'a chat_store" where
  "chat_clear chat st = st(chat := None)"

lemma chat_get_simps [simp]:
  "chat_get c (chat_set c v st) = Some v"
  "chat_get c (chat_clear c st) = None"
  "c \<noteq> d \<Longrightarrow> chat_get d (chat_set c v st) = chat_get d st"
  "c \<noteq> d \<Longrightarrow> chat_get d (chat_clear c st) = chat_get d st"
  by (simp_all add: chat_get_def chat_set_def chat_clear_def)

subsection \<open>Drafts of a task being created\<close>

datatype guided_task_step = StepAssignee | StepDescription | StepDeadline | StepConfirm

datatype voice_task_step = VoiceConfirm | VoiceEditTranscript

record guided_task_draft =
  gd_submission_key :: uuid
  gd_assignee :: "utext option"
  gd_resolved_employee_id :: "int option"
  gd_description :: "utext option"
  gd_deadline :: "utext option"
  gd_step :: guided_task_step

record voice_task_draft =
  vd_source_message_key :: utext
  vd_transcript :: utext
  vd_step :: voice_task_step
  vd_truncated :: bool

datatype creation_session =
    QuickCapture
  | Guided guided_task_draft
  | VoiceDraft voice_task_draft

text \<open>The identity of a draft is the fresh UUID its construction draws.\<close>

definition guided_new :: "uuid \<Rightarrow> guided_task_draft" where
  "guided_new key =
     \<lparr> gd_submission_key = key, gd_assignee = None, gd_resolved_employee_id = None,
       gd_description = None, gd_deadline = None, gd_step = StepAssignee \<rparr>"

fun edit_field :: "draft_edit_field \<Rightarrow> guided_task_draft \<Rightarrow> guided_task_draft" where
  "edit_field FieldAssignee d =
     d\<lparr> gd_resolved_employee_id := None, gd_step := StepAssignee \<rparr>"
| "edit_field FieldDescription d = d\<lparr> gd_step := StepDescription \<rparr>"
| "edit_field FieldDeadline d = d\<lparr> gd_step := StepDeadline \<rparr>"

definition voice_new :: "utext \<Rightarrow> utext \<Rightarrow> voice_task_draft" where
  "voice_new key transcript =
     \<lparr> vd_source_message_key = key, vd_transcript = transcript, vd_step = VoiceConfirm,
       vd_truncated = False \<rparr>"

definition with_truncation :: "bool \<Rightarrow> voice_task_draft \<Rightarrow> voice_task_draft" where
  "with_truncation b d = d\<lparr> vd_truncated := b \<rparr>"

definition start_editing :: "voice_task_draft \<Rightarrow> voice_task_draft" where
  "start_editing d = d\<lparr> vd_step := VoiceEditTranscript \<rparr>"

definition replace_transcript :: "utext \<Rightarrow> voice_task_draft \<Rightarrow> voice_task_draft" where
  "replace_transcript transcript d =
     d\<lparr> vd_transcript := transcript, vd_step := VoiceConfirm, vd_truncated := False \<rparr>"

definition draft_to_confirmation :: "voice_task_draft \<Rightarrow> voice_task_draft" where
  "draft_to_confirmation d = d\<lparr> vd_step := VoiceConfirm \<rparr>"

definition set_quick_capture ::
  "chat_id \<Rightarrow> creation_session chat_store \<Rightarrow> creation_session chat_store" where
  "set_quick_capture chat st = chat_set chat QuickCapture st"

definition set_guided ::
  "chat_id \<Rightarrow> uuid \<Rightarrow> creation_session chat_store \<Rightarrow> creation_session chat_store" where
  "set_guided chat key st = chat_set chat (Guided (guided_new key)) st"

definition set_voice ::
  "chat_id \<Rightarrow> voice_task_draft \<Rightarrow> creation_session chat_store \<Rightarrow> creation_session chat_store" where
  "set_voice chat d st = chat_set chat (VoiceDraft d) st"

definition update_guided ::
  "chat_id \<Rightarrow> guided_task_draft \<Rightarrow> creation_session chat_store \<Rightarrow> creation_session chat_store" where
  "update_guided chat d st = chat_set chat (Guided d) st"

definition update_voice ::
  "chat_id \<Rightarrow> voice_task_draft \<Rightarrow> creation_session chat_store \<Rightarrow> creation_session chat_store" where
  "update_voice chat d st = chat_set chat (VoiceDraft d) st"

lemmas draft_store_defs =
  set_quick_capture_def set_guided_def set_voice_def update_guided_def update_voice_def

text \<open>Going back to the assignee forgets whom it had been resolved to; no other step does.\<close>

lemma edit_field_resolved:
  "gd_resolved_employee_id (edit_field field d) =
     (if field = FieldAssignee then None else gd_resolved_employee_id d)"
  by (cases field) simp_all

lemma edit_field_keeps_input:
  "gd_assignee (edit_field field d) = gd_assignee d
   \<and> gd_description (edit_field field d) = gd_description d
   \<and> gd_deadline (edit_field field d) = gd_deadline d
   \<and> gd_submission_key (edit_field field d) = gd_submission_key d"
  by (cases field) simp_all

lemma replaced_transcript_is_not_clipped:
  "\<not> vd_truncated (replace_transcript t d) \<and> vd_step (replace_transcript t (start_editing d)) = VoiceConfirm"
  by (simp add: replace_transcript_def start_editing_def)

subsection \<open>A comment, blocker or assignee being typed for a task\<close>

datatype task_interaction_kind = KindComment | KindBlocker | KindReassign

record task_interaction_session =
  ti_task_uid :: uuid
  ti_origin :: task_list_origin
  ti_kind :: task_interaction_kind

subsection \<open>A choice of assignee waiting for a button\<close>

record task_creation_selection =
  sc_message :: incoming_message
  sc_candidate_ids :: "int list"
  sc_allow_unassigned :: bool

record task_reassign_selection =
  rs_task_uid :: uuid
  rs_origin :: task_list_origin
  rs_original_query :: utext
  rs_candidate_ids :: "int list"

datatype pending_assignee_selection =
    SelectCreate task_creation_selection
  | SelectReassign task_reassign_selection

definition set_create ::
  "chat_id \<Rightarrow> incoming_message \<Rightarrow> int list \<Rightarrow> bool
   \<Rightarrow> pending_assignee_selection chat_store \<Rightarrow> pending_assignee_selection chat_store" where
  "set_create chat m ids allow st =
     chat_set chat
       (SelectCreate \<lparr> sc_message = m, sc_candidate_ids = ids, sc_allow_unassigned = allow \<rparr>) st"

definition set_reassign ::
  "chat_id \<Rightarrow> uuid \<Rightarrow> task_list_origin \<Rightarrow> utext \<Rightarrow> int list
   \<Rightarrow> pending_assignee_selection chat_store \<Rightarrow> pending_assignee_selection chat_store" where
  "set_reassign chat uid orig query ids st =
     chat_set chat
       (SelectReassign \<lparr> rs_task_uid = uid, rs_origin = orig, rs_original_query = query,
                         rs_candidate_ids = ids \<rparr>) st"

subsection \<open>A registration waiting for its employee\<close>

record pending_registration_link =
  pl_candidate_ids :: "int list"
  pl_allow_continue_unlinked :: bool

definition set_link ::
  "chat_id \<Rightarrow> int list \<Rightarrow> bool
   \<Rightarrow> pending_registration_link chat_store \<Rightarrow> pending_registration_link chat_store" where
  "set_link chat ids allow st =
     chat_set chat \<lparr> pl_candidate_ids = ids, pl_allow_continue_unlinked = allow \<rparr> st"

end
