(* ===== verification/Screens.thy ===== *)
theory Screens
  imports Chat_State Task_Lists
begin

section \<open>Screens and the callbacks they accept\<close>

text \<open>
  \<^verbatim>\<open>src/presentation/telegram/active_screens.rs\<close>: which screen a chat shows, the stage it belongs to,
  the capability matrix of callbacks per stage with its two screen-specific overrides, and the store
  of active screens.
\<close>

subsection \<open>Stages and screens\<close>

datatype stage =
    UnknownStage | RegistrationStage | OnboardingStage | MainStage | CreationStage
  | TaskDetailStage | AdminStage

datatype screen_descriptor =
    ScrUnknown
  | ScrProcessing
  | ScrRegistrationLinking
  | ScrOnboardingFirstName
  | ScrOnboardingLastName
  | ScrMainMenu
  | ScrHelp
  | ScrSettings
  | ScrCreateMenu
  | ScrQuickCreate
  | ScrGuidedStep guided_task_step
  | ScrGuidedAssigneeOptions
  | ScrVoiceCreate voice_task_step
  | ScrTaskList task_list_origin
  | ScrTaskDetail uuid task_card_mode task_list_origin
  | ScrCancelConfirmation uuid task_list_origin
  | ScrTaskInteractionPrompt uuid task_list_origin task_interaction_kind
  | ScrTaskCreationResult "uuid option"
  | ScrDeliveryHelp uuid task_list_origin
  | ScrStats stats_scope
  | ScrSyncEmployeesResult
  | ScrAdminMenu
  | ScrAdminUsers
  | ScrAdminUserDetails int
  | ScrAdminConfirm utext
  | ScrAdminAudit
  | ScrAdminSecurityAudit
  | ScrAdminFeatures

fun stage_of :: "screen_descriptor \<Rightarrow> stage" where
  "stage_of ScrUnknown = UnknownStage"
| "stage_of ScrProcessing = UnknownStage"
| "stage_of ScrRegistrationLinking = RegistrationStage"
| "stage_of ScrOnboardingFirstName = OnboardingStage"
| "stage_of ScrOnboardingLastName = OnboardingStage"
| "stage_of ScrMainMenu = MainStage"
| "stage_of ScrHelp = MainStage"
| "stage_of ScrSettings = MainStage"
| "stage_of (ScrStats _) = MainStage"
| "stage_of ScrSyncEmployeesResult = MainStage"
| "stage_of (ScrTaskList _) = MainStage"
| "stage_of ScrCreateMenu = CreationStage"
| "stage_of ScrQuickCreate = CreationStage"
| "stage_of (ScrGuidedStep _) = CreationStage"
| "stage_of ScrGuidedAssigneeOptions = CreationStage"
| "stage_of (ScrVoiceCreate _) = CreationStage"
| "stage_of (ScrTaskCreationResult _) = CreationStage"
| "stage_of (ScrTaskInteractionPrompt _ _ _) = CreationStage"
| "stage_of (ScrTaskDetail _ _ _) = TaskDetailStage"
| "stage_of (ScrCancelConfirmation _ _) = TaskDetailStage"
| "stage_of (ScrDeliveryHelp _ _) = TaskDetailStage"
| "stage_of ScrAdminMenu = AdminStage"
| "stage_of ScrAdminUsers = AdminStage"
| "stage_of (ScrAdminUserDetails _) = AdminStage"
| "stage_of (ScrAdminConfirm _) = AdminStage"
| "stage_of ScrAdminAudit = AdminStage"
| "stage_of ScrAdminSecurityAudit = AdminStage"
| "stage_of ScrAdminFeatures = AdminStage"

subsection \<open>The capability matrix\<close>

fun accepts_in_main :: "telegram_callback \<Rightarrow> bool" where
  "accepts_in_main MenuHome = True"
| "accepts_in_main MenuHelp = True"
| "accepts_in_main MenuSettings = True"
| "accepts_in_main MenuStats = True"
| "accepts_in_main MenuTeamStats = True"
| "accepts_in_main MenuCreate = True"
| "accepts_in_main MenuSyncEmployees = True"
| "accepts_in_main (ListTasks _ _) = True"
| "accepts_in_main (OpenTask _ _ _) = True"
| "accepts_in_main StartQuickCreate = True"
| "accepts_in_main StartGuidedCreate = True"
| "accepts_in_main AdminMenu = True"
| "accepts_in_main _ = False"

fun accepts_in_creation :: "telegram_callback \<Rightarrow> bool" where
  "accepts_in_creation StartQuickCreate = True"
| "accepts_in_creation StartGuidedCreate = True"
| "accepts_in_creation VoiceCreateConfirm = True"
| "accepts_in_creation VoiceCreateEdit = True"
| "accepts_in_creation VoiceCreateBack = True"
| "accepts_in_creation VoiceCreateCancel = True"
| "accepts_in_creation DraftSkipAssignee = True"
| "accepts_in_creation DraftSkipDeadline = True"
| "accepts_in_creation DraftSubmit = True"
| "accepts_in_creation (DraftEdit _) = True"
| "accepts_in_creation (ClarificationPickEmployee _) = True"
| "accepts_in_creation ClarificationCreateUnassigned = True"
| "accepts_in_creation (GuidedAssigneeConfirm _) = True"
| "accepts_in_creation MenuHome = True"
| "accepts_in_creation (OpenTask _ _ _) = True"
| "accepts_in_creation _ = False"

fun accepts_in_task_detail :: "telegram_callback \<Rightarrow> bool" where
  "accepts_in_task_detail MenuHome = True"
| "accepts_in_task_detail MenuHelp = True"
| "accepts_in_task_detail (ListTasks _ _) = True"
| "accepts_in_task_detail (OpenTask _ _ _) = True"
| "accepts_in_task_detail (UpdateTaskStatus _ _ _) = True"
| "accepts_in_task_detail (ConfirmTaskCancel _ _) = True"
| "accepts_in_task_detail (ExecuteTaskCancel _ _) = True"
| "accepts_in_task_detail (StartTaskCommentInput _ _) = True"
| "accepts_in_task_detail (StartTaskBlockerInput _ _) = True"
| "accepts_in_task_detail (StartTaskReassignInput _ _) = True"
| "accepts_in_task_detail (ShowDeliveryHelp _ _) = True"
| "accepts_in_task_detail _ = False"

fun accepts_in_admin :: "telegram_callback \<Rightarrow> bool" where
  "accepts_in_admin AdminMenu = True"
| "accepts_in_admin AdminUsers = True"
| "accepts_in_admin (AdminUserDetails _) = True"
| "accepts_in_admin (AdminUserPrepareRoleChange _ _) = True"
| "accepts_in_admin (AdminUserPrepareDeactivate _) = True"
| "accepts_in_admin (AdminUserPrepareReactivate _) = True"
| "accepts_in_admin (AdminConfirmNonce _) = True"
| "accepts_in_admin AdminCancelPending = True"
| "accepts_in_admin AdminAudit = True"
| "accepts_in_admin AdminSecurityAudit = True"
| "accepts_in_admin AdminFeatures = True"
| "accepts_in_admin (AdminToggleFeature _) = True"
| "accepts_in_admin MenuHome = True"
| "accepts_in_admin _ = False"

fun accepts_callback :: "stage \<Rightarrow> telegram_callback \<Rightarrow> bool" where
  "accepts_callback OnboardingStage cb = False"
| "accepts_callback RegistrationStage cb = False"
| "accepts_callback MainStage cb = accepts_in_main cb"
| "accepts_callback CreationStage cb = accepts_in_creation cb"
| "accepts_callback TaskDetailStage cb = accepts_in_task_detail cb"
| "accepts_callback AdminStage cb = accepts_in_admin cb"
| "accepts_callback UnknownStage cb = True"

text \<open>The task a card-bound callback names, and the task the active card or confirmation shows.\<close>

fun card_callback_task :: "telegram_callback \<Rightarrow> uuid option" where
  "card_callback_task (UpdateTaskStatus uid _ _) = Some uid"
| "card_callback_task (ConfirmTaskCancel uid _) = Some uid"
| "card_callback_task (ExecuteTaskCancel uid _) = Some uid"
| "card_callback_task (StartTaskCommentInput uid _) = Some uid"
| "card_callback_task (StartTaskBlockerInput uid _) = Some uid"
| "card_callback_task (StartTaskReassignInput uid _) = Some uid"
| "card_callback_task (ShowDeliveryHelp uid _) = Some uid"
| "card_callback_task _ = None"

fun card_screen_task :: "screen_descriptor \<Rightarrow> uuid option" where
  "card_screen_task (ScrTaskDetail uid _ _) = Some uid"
| "card_screen_task (ScrCancelConfirmation uid _) = Some uid"
| "card_screen_task _ = None"

fun is_registration_callback :: "telegram_callback \<Rightarrow> bool" where
  "is_registration_callback (RegistrationPickEmployee _) = True"
| "is_registration_callback RegistrationContinueUnlinked = True"
| "is_registration_callback _ = False"

definition accepts :: "screen_descriptor \<Rightarrow> telegram_callback \<Rightarrow> bool" where
  "accepts scr cb =
     (case (card_screen_task scr, card_callback_task cb) of
        (Some active, Some uid) \<Rightarrow> active = uid
      | _ \<Rightarrow>
          if scr = ScrRegistrationLinking \<and> is_registration_callback cb then True
          else accepts_callback (stage_of scr) cb)"

subsection \<open>The active screen of a chat\<close>

record active_screen_state =
  as_message_id :: int
  as_descriptor :: screen_descriptor

definition hydrate_if_missing ::
  "chat_id \<Rightarrow> int \<Rightarrow> active_screen_state chat_store \<Rightarrow> active_screen_state chat_store" where
  "hydrate_if_missing chat mid st =
     (case st chat of
        Some _ \<Rightarrow> st
      | None \<Rightarrow> st(chat \<mapsto> \<lparr> as_message_id = mid, as_descriptor = ScrUnknown \<rparr>))"

definition is_stale :: "chat_id \<Rightarrow> int \<Rightarrow> active_screen_state chat_store \<Rightarrow> bool" where
  "is_stale chat mid st =
     (case chat_get chat st of Some s \<Rightarrow> as_message_id s \<noteq> mid | None \<Rightarrow> False)"

lemma hydrate_idem [simp]:
  "hydrate_if_missing c n (hydrate_if_missing c m st) = hydrate_if_missing c m st"
  by (simp add: hydrate_if_missing_def split: option.split)

lemma hydrated_is_shown: "hydrate_if_missing c m st c \<noteq> None"
  by (simp add: hydrate_if_missing_def split: option.split)

lemma hydrated_fresh_is_not_stale: "st c = None \<Longrightarrow> \<not> is_stale c m (hydrate_if_missing c m st)"
  by (simp add: hydrate_if_missing_def is_stale_def chat_get_def)

subsection \<open>What the matrix guarantees\<close>

text \<open>The two onboarding screens accept nothing at all.\<close>

lemma onboarding_is_hermetic:
  "stage_of scr = OnboardingStage \<Longrightarrow> \<not> accepts scr cb"
  by (cases scr) (auto simp: accepts_def split: option.splits)

text \<open>Actions of the admin panel are accepted on its screens only, apart from opening its menu.\<close>

fun is_admin_action :: "telegram_callback \<Rightarrow> bool" where
  "is_admin_action cb \<longleftrightarrow> accepts_in_admin cb \<and> cb \<noteq> AdminMenu \<and> cb \<noteq> MenuHome"

lemma admin_actions_stay_in_panel:
  assumes "is_admin_action cb" "accepts scr cb"
  shows "stage_of scr \<in> {AdminStage, UnknownStage}"
proof -
  have "card_callback_task cb = None" "\<not> is_registration_callback cb"
    "\<not> accepts_in_main cb" "\<not> accepts_in_creation cb" "\<not> accepts_in_task_detail cb"
    using assms(1) by (cases cb; simp)+
  with assms(2) show ?thesis
    by (cases "stage_of scr") (auto simp: accepts_def split: option.splits)
qed

text \<open>A mutating press of a task card is let through only for the task the card shows.\<close>

lemma card_press_targets_card:
  assumes "accepts scr cb" "is_mutating cb" "card_callback_task cb = Some uid"
    "stage_of scr \<noteq> UnknownStage"
  shows "card_screen_task scr = Some uid \<or> (\<exists>shown orig. scr = ScrDeliveryHelp shown orig)"
  using assms by (cases cb; cases scr) (auto simp: accepts_def)

end
