(* ===== verification/Screen_Texts.thy ===== *)
theory Screen_Texts
  imports Base
begin

section \<open>Fixed texts of the interface\<close>

text \<open>
  The Russian string literals the modelled operations put into messages, notifications and
  prompts, as lists of Unicode scalar values, each with an English gloss. Their wording carries
  no logic; they are kept exact so that a message built by the model is the message the program
  sends.
\<close>

subsection \<open>Keyboards\<close>

text \<open>start working\<close>

definition txt_b_start :: utext where
  "txt_b_start =
   [9654, 65039, 32, 1042, 1079, 1103, 1090, 1100, 32, 1074, 32, 1088, 1072, 1073, 1086,
    1090, 1091]"

text \<open>submit for review\<close>

definition txt_b_submit_review :: utext where
  "txt_b_submit_review =
   [129514, 32, 1054, 1090, 1087, 1088, 1072, 1074, 1080, 1090, 1100, 32, 1085, 1072, 32,
    1087, 1088, 1086, 1074, 1077, 1088, 1082, 1091]"

text \<open>accept the work\<close>

definition txt_b_approve :: utext where
  "txt_b_approve =
   [9989, 32, 1055, 1088, 1080, 1085, 1103, 1090, 1100, 32, 1088, 1072, 1073, 1086, 1090,
    1091]"

text \<open>return to work\<close>

definition txt_b_return :: utext where
  "txt_b_return =
   [8617, 65039, 32, 1042, 1077, 1088, 1085, 1091, 1090, 1100, 32, 1074, 32, 1088, 1072,
    1073, 1086, 1090, 1091]"

text \<open>cancel\<close>

definition txt_b_cancel :: utext where
  "txt_b_cancel =
   [9940, 32, 1054, 1090, 1084, 1077, 1085, 1080, 1090, 1100]"

text \<open>report a blocker\<close>

definition txt_b_blocker :: utext where
  "txt_b_blocker =
   [128679, 32, 1057, 1086, 1086, 1073, 1097, 1080, 1090, 1100, 32, 1086, 32, 1073, 1083,
    1086, 1082, 1077, 1088, 1077]"

text \<open>comment\<close>

definition txt_b_comment :: utext where
  "txt_b_comment =
   [128172, 32, 1050, 1086, 1084, 1084, 1077, 1085, 1090, 1072, 1088, 1080, 1081]"

text \<open>reassign\<close>

definition txt_b_reassign :: utext where
  "txt_b_reassign =
   [128100, 32, 1055, 1077, 1088, 1077, 1085, 1072, 1079, 1085, 1072, 1095, 1080, 1090, 1100]"

text \<open>to my tasks\<close>

definition txt_b_back_assigned :: utext where
  "txt_b_back_assigned =
   [8617, 65039, 32, 1050, 32, 1084, 1086, 1080, 1084, 32, 1079, 1072, 1076, 1072, 1095,
    1072, 1084]"

text \<open>to those I created\<close>

definition txt_b_back_created :: utext where
  "txt_b_back_created =
   [8617, 65039, 32, 1050, 32, 1089, 1086, 1079, 1076, 1072, 1085, 1085, 1099, 1084, 32,
    1084, 1085, 1086, 1081]"

text \<open>to the tasks of the team\<close>

definition txt_b_back_team :: utext where
  "txt_b_back_team =
   [8617, 65039, 32, 1050, 32, 1079, 1072, 1076, 1072, 1095, 1072, 1084, 32, 1082, 1086,
    1084, 1072, 1085, 1076, 1099]"

text \<open>to my focus\<close>

definition txt_b_back_focus :: utext where
  "txt_b_back_focus =
   [8617, 65039, 32, 1050, 32, 1084, 1086, 1077, 1084, 1091, 32, 1092, 1086, 1082, 1091,
    1089, 1091]"

text \<open>to the inbox of the manager\<close>

definition txt_b_back_inbox :: utext where
  "txt_b_back_inbox =
   [8617, 65039, 32, 1050, 32, 105, 110, 98, 111, 120, 32, 1084, 1077, 1085, 1077, 1076,
    1078, 1077, 1088, 1072]"

text \<open>badge: new\<close>

definition txt_badge_new :: utext where
  "txt_badge_new =
   [127381]"

text \<open>badge: sent\<close>

definition txt_badge_sent :: utext where
  "txt_badge_sent =
   [128232]"

text \<open>badge: in progress\<close>

definition txt_badge_progress :: utext where
  "txt_badge_progress =
   [9654, 65039]"

text \<open>badge: blocked\<close>

definition txt_badge_blocked :: utext where
  "txt_badge_blocked =
   [128679]"

text \<open>badge: in review\<close>

definition txt_badge_review :: utext where
  "txt_badge_review =
   [129514]"

text \<open>badge: done\<close>

definition txt_badge_done :: utext where
  "txt_badge_done =
   [9989]"

text \<open>badge: cancelled\<close>

definition txt_badge_cancelled :: utext where
  "txt_badge_cancelled =
   [9940]"

text \<open>to the menu\<close>

definition txt_b_home :: utext where
  "txt_b_home =
   [127968, 32, 1042, 32, 1084, 1077, 1085, 1102]"

text \<open>my focus\<close>

definition txt_b_focus :: utext where
  "txt_b_focus =
   [129517, 32, 1052, 1086, 1081, 32, 1092, 1086, 1082, 1091, 1089]"

text \<open>create a task\<close>

definition txt_b_create :: utext where
  "txt_b_create =
   [127381, 32, 1057, 1086, 1079, 1076, 1072, 1090, 1100, 32, 1079, 1072, 1076, 1072, 1095,
    1091]"

text \<open>my tasks\<close>

definition txt_b_mine :: utext where
  "txt_b_mine =
   [128229, 32, 1052, 1086, 1080, 32, 1079, 1072, 1076, 1072, 1095, 1080]"

text \<open>created by me\<close>

definition txt_b_created :: utext where
  "txt_b_created =
   [128228, 32, 1057, 1086, 1079, 1076, 1072, 1085, 1085, 1099, 1077, 32, 1084, 1085, 1086,
    1081]"

text \<open>my statistics\<close>

definition txt_b_stats :: utext where
  "txt_b_stats =
   [128202, 32, 1052, 1086, 1103, 32, 1089, 1090, 1072, 1090, 1080, 1089, 1090, 1080, 1082,
    1072]"

text \<open>profile\<close>

definition txt_b_profile :: utext where
  "txt_b_profile =
   [9881, 65039, 32, 1055, 1088, 1086, 1092, 1080, 1083, 1100]"

text \<open>help\<close>

definition txt_b_help :: utext where
  "txt_b_help =
   [10067, 32, 1055, 1086, 1084, 1086, 1097, 1100]"

text \<open>tasks of the team\<close>

definition txt_b_team :: utext where
  "txt_b_team =
   [128101, 32, 1050, 1086, 1084, 1072, 1085, 1076, 1085, 1099, 1077, 32, 1079, 1072, 1076,
    1072, 1095, 1080]"

text \<open>inbox of the manager\<close>

definition txt_b_inbox :: utext where
  "txt_b_inbox =
   [129514, 32, 73, 110, 98, 111, 120, 32, 1084, 1077, 1085, 1077, 1076, 1078, 1077, 1088,
    1072]"

text \<open>statistics of the team\<close>

definition txt_b_team_stats :: utext where
  "txt_b_team_stats =
   [128200, 32, 1050, 1086, 1084, 1072, 1085, 1076, 1085, 1072, 1103, 32, 1089, 1090, 1072,
    1090, 1080, 1089, 1090, 1080, 1082, 1072]"

text \<open>synchronise the employees\<close>

definition txt_b_sync :: utext where
  "txt_b_sync =
   [128260, 32, 1057, 1080, 1085, 1093, 1088, 1086, 1085, 1080, 1079, 1080, 1088, 1086,
    1074, 1072, 1090, 1100, 32, 1089, 1086, 1090, 1088, 1091, 1076, 1085, 1080, 1082, 1086,
    1074]"

text \<open>quick mode\<close>

definition txt_b_quick :: utext where
  "txt_b_quick =
   [9889, 32, 1041, 1099, 1089, 1090, 1088, 1099, 1081, 32, 1088, 1077, 1078, 1080, 1084]"

text \<open>step by step\<close>

definition txt_b_guided :: utext where
  "txt_b_guided =
   [129517, 32, 1055, 1086, 1096, 1072, 1075, 1086, 1074, 1086]"

text \<open>space, bullet, space\<close>

definition txt_b_dot :: utext where
  "txt_b_dot =
   [32, 8226, 32]"

text \<open>more tasks\<close>

definition txt_b_more :: utext where
  "txt_b_more =
   [1045, 1097, 1105, 32, 1079, 1072, 1076, 1072, 1095, 1080]"

text \<open>in detail\<close>

definition txt_b_more_detail :: utext where
  "txt_b_more_detail =
   [128270, 32, 1055, 1086, 1076, 1088, 1086, 1073, 1085, 1077, 1077]"

text \<open>in short\<close>

definition txt_b_short :: utext where
  "txt_b_short =
   [129718, 32, 1050, 1086, 1088, 1086, 1090, 1082, 1086]"

text \<open>how to connect the assignee\<close>

definition txt_b_connect :: utext where
  "txt_b_connect =
   [128075, 32, 1050, 1072, 1082, 32, 1087, 1086, 1076, 1082, 1083, 1102, 1095, 1080, 1090,
    1100, 32, 1080, 1089, 1087, 1086, 1083, 1085, 1080, 1090, 1077, 1083, 1103]"

text \<open>yes, cancel\<close>

definition txt_b_yes_cancel :: utext where
  "txt_b_yes_cancel =
   [9989, 32, 1044, 1072, 44, 32, 1086, 1090, 1084, 1077, 1085, 1080, 1090, 1100]"

text \<open>back\<close>

definition txt_b_back :: utext where
  "txt_b_back =
   [8617, 65039, 32, 1053, 1072, 1079, 1072, 1076]"

text \<open>back to the task\<close>

definition txt_b_to_task :: utext where
  "txt_b_to_task =
   [8617, 65039, 32, 1042, 1077, 1088, 1085, 1091, 1090, 1100, 1089, 1103, 32, 1082, 32,
    1079, 1072, 1076, 1072, 1095, 1077]"

text \<open>open the card\<close>

definition txt_b_open_card :: utext where
  "txt_b_open_card =
   [128203, 32, 1054, 1090, 1082, 1088, 1099, 1090, 1100, 32, 1082, 1072, 1088, 1090, 1086,
    1095, 1082, 1091]"

text \<open>another task\<close>

definition txt_b_another :: utext where
  "txt_b_another =
   [127381, 32, 1045, 1097, 1105, 32, 1079, 1072, 1076, 1072, 1095, 1072]"

text \<open>clarify and create\<close>

definition txt_b_clarify :: utext where
  "txt_b_clarify =
   [127381, 32, 1059, 1090, 1086, 1095, 1085, 1080, 1090, 1100, 32, 1080, 32, 1089, 1086,
    1079, 1076, 1072, 1090, 1100]"

text \<open>no assignee\<close>

definition txt_b_no_assignee :: utext where
  "txt_b_no_assignee =
   [1041, 1077, 1079, 32, 1080, 1089, 1087, 1086, 1083, 1085, 1080, 1090, 1077, 1083, 1103]"

text \<open>no deadline\<close>

definition txt_b_no_deadline :: utext where
  "txt_b_no_deadline =
   [1041, 1077, 1079, 32, 1089, 1088, 1086, 1082, 1072]"

text \<open>create the task\<close>

definition txt_b_confirm_create :: utext where
  "txt_b_confirm_create =
   [9989, 32, 1057, 1086, 1079, 1076, 1072, 1090, 1100, 32, 1079, 1072, 1076, 1072, 1095,
    1091]"

text \<open>assignee\<close>

definition txt_b_edit_assignee :: utext where
  "txt_b_edit_assignee =
   [128100, 32, 1048, 1089, 1087, 1086, 1083, 1085, 1080, 1090, 1077, 1083, 1100]"

text \<open>description\<close>

definition txt_b_edit_description :: utext where
  "txt_b_edit_description =
   [128221, 32, 1054, 1087, 1080, 1089, 1072, 1085, 1080, 1077]"

text \<open>deadline\<close>

definition txt_b_edit_deadline :: utext where
  "txt_b_edit_deadline =
   [9200, 32, 1057, 1088, 1086, 1082]"

text \<open>correct the text\<close>

definition txt_b_fix_text :: utext where
  "txt_b_fix_text =
   [9999, 65039, 32, 1048, 1089, 1087, 1088, 1072, 1074, 1080, 1090, 1100, 32, 1090, 1077,
    1082, 1089, 1090]"

text \<open>cancel\<close>

definition txt_b_voice_cancel :: utext where
  "txt_b_voice_cancel =
   [10060, 32, 1054, 1090, 1084, 1077, 1085, 1080, 1090, 1100]"

text \<open>back to the transcript\<close>

definition txt_b_voice_back :: utext where
  "txt_b_voice_back =
   [8617, 65039, 32, 1053, 1072, 1079, 1072, 1076, 32, 1082, 32, 1088, 1072, 1089, 1096,
    1080, 1092, 1088, 1086, 1074, 1082, 1077]"

text \<open>create without an assignee\<close>

definition txt_b_create_unassigned :: utext where
  "txt_b_create_unassigned =
   [1057, 1086, 1079, 1076, 1072, 1090, 1100, 32, 1073, 1077, 1079, 32, 1080, 1089, 1087,
    1086, 1083, 1085, 1080, 1090, 1077, 1083, 1103]"

text \<open>to the creation menu\<close>

definition txt_b_to_create_menu :: utext where
  "txt_b_to_create_menu =
   [127381, 32, 1050, 32, 1084, 1077, 1085, 1102, 32, 1089, 1086, 1079, 1076, 1072, 1085,
    1080, 1103]"

text \<open>go on without a link\<close>

definition txt_b_unlinked :: utext where
  "txt_b_unlinked =
   [1055, 1088, 1086, 1076, 1086, 1083, 1078, 1080, 1090, 1100, 32, 1073, 1077, 1079, 32,
    1087, 1088, 1080, 1074, 1103, 1079, 1082, 1080]"

text \<open>who will be responsible?\<close>

definition txt_b_who :: utext where
  "txt_b_who =
   [128100, 32, 1050, 1090, 1086, 32, 1073, 1091, 1076, 1077, 1090, 32, 1086, 1090, 1074,
    1077, 1095, 1072, 1090, 1100, 63]"

text \<open>to the panel\<close>

definition txt_b_panel :: utext where
  "txt_b_panel =
   [8617, 65039, 32, 1042, 32, 1087, 1072, 1085, 1077, 1083, 1100]"

text \<open>administrators\<close>

definition txt_b_admins :: utext where
  "txt_b_admins =
   [128101, 32, 1040, 1076, 1084, 1080, 1085, 1080, 1089, 1090, 1088, 1072, 1090, 1086,
    1088, 1099]"

text \<open>log of actions\<close>

definition txt_b_audit :: utext where
  "txt_b_audit =
   [128220, 32, 1046, 1091, 1088, 1085, 1072, 1083, 32, 1076, 1077, 1081, 1089, 1090, 1074,
    1080, 1081]"

text \<open>security\<close>

definition txt_b_security :: utext where
  "txt_b_security =
   [128272, 32, 1041, 1077, 1079, 1086, 1087, 1072, 1089, 1085, 1086, 1089, 1090, 1100]"

text \<open>feature flags\<close>

definition txt_b_flags :: utext where
  "txt_b_flags =
   [128681, 32, 1060, 1083, 1072, 1075, 1080, 32, 1092, 1091, 1085, 1082, 1094, 1080, 1081]"

text \<open>badge: admin\<close>

definition txt_badge_admin :: utext where
  "txt_badge_admin =
   [128737]"

text \<open>badge: manager\<close>

definition txt_badge_manager :: utext where
  "txt_badge_manager =
   [129517]"

text \<open>badge: user\<close>

definition txt_badge_user :: utext where
  "txt_badge_user =
   [128100]"

text \<open>badge: deactivated\<close>

definition txt_badge_deactivated :: utext where
  "txt_badge_deactivated =
   [32, 8226, 32, 9940]"

text \<open>user\<close>

definition txt_b_role_user :: utext where
  "txt_b_role_user =
   [128100, 32, 1055, 1086, 1083, 1100, 1079, 1086, 1074, 1072, 1090, 1077, 1083, 1100]"

text \<open>manager\<close>

definition txt_b_role_manager :: utext where
  "txt_b_role_manager =
   [129517, 32, 1052, 1077, 1085, 1077, 1076, 1078, 1077, 1088]"

text \<open>admin\<close>

definition txt_b_role_admin :: utext where
  "txt_b_role_admin =
   [128737, 32, 1040, 1076, 1084, 1080, 1085]"

text \<open>activate\<close>

definition txt_b_activate :: utext where
  "txt_b_activate =
   [9989, 32, 1040, 1082, 1090, 1080, 1074, 1080, 1088, 1086, 1074, 1072, 1090, 1100]"

text \<open>deactivate\<close>

definition txt_b_deactivate :: utext where
  "txt_b_deactivate =
   [9940, 32, 1044, 1077, 1072, 1082, 1090, 1080, 1074, 1080, 1088, 1086, 1074, 1072, 1090,
    1100]"

text \<open>to the list\<close>

definition txt_b_to_list :: utext where
  "txt_b_to_list =
   [128101, 32, 1050, 32, 1089, 1087, 1080, 1089, 1082, 1091]"

text \<open>confirm\<close>

definition txt_b_confirm :: utext where
  "txt_b_confirm =
   [9989, 32, 1055, 1086, 1076, 1090, 1074, 1077, 1088, 1076, 1080, 1090, 1100]"

text \<open>cancel\<close>

definition txt_b_admin_cancel :: utext where
  "txt_b_admin_cancel =
   [10060, 32, 1054, 1090, 1084, 1077, 1085, 1072]"

text \<open>the flag is on\<close>

definition txt_flag_on :: utext where
  "txt_flag_on =
   [9989, 32]"

text \<open>(off)\<close>

definition txt_flag_off_hint :: utext where
  "txt_flag_off_hint =
   [32, 40, 1086, 1090, 1082, 1083, 46, 41]"

text \<open>the flag is off\<close>

definition txt_flag_off :: utext where
  "txt_flag_off =
   [11036, 32]"

text \<open>(on)\<close>

definition txt_flag_on_hint :: utext where
  "txt_flag_on_hint =
   [32, 40, 1074, 1082, 1083, 46, 41]"

text \<open>user\<close>

definition txt_role_user :: utext where
  "txt_role_user =
   [1087, 1086, 1083, 1100, 1079, 1086, 1074, 1072, 1090, 1077, 1083, 1100]"

text \<open>manager\<close>

definition txt_role_manager :: utext where
  "txt_role_manager =
   [1084, 1077, 1085, 1077, 1076, 1078, 1077, 1088]"

text \<open>admin\<close>

definition txt_role_admin :: utext where
  "txt_role_admin =
   [1072, 1076, 1084, 1080, 1085]"

text \<open>give to the user\<close>

definition txt_pa_assign :: utext where
  "txt_pa_assign =
   [1053, 1072, 1079, 1085, 1072, 1095, 1080, 1090, 1100, 32, 1087, 1086, 1083, 1100, 1079,
    1086, 1074, 1072, 1090, 1077, 1083, 1102, 32]"

text \<open>closing parenthesis, role\<close>

definition txt_pa_role :: utext where
  "txt_pa_role =
   [41, 32, 1088, 1086, 1083, 1100, 58, 32]"

text \<open>deactivate the user\<close>

definition txt_pa_deactivate :: utext where
  "txt_pa_deactivate =
   [1044, 1077, 1072, 1082, 1090, 1080, 1074, 1080, 1088, 1086, 1074, 1072, 1090, 1100, 32,
    1087, 1086, 1083, 1100, 1079, 1086, 1074, 1072, 1090, 1077, 1083, 1103, 32]"

text \<open>closing parenthesis; the user loses access to the bot until reactivated by hand\<close>

definition txt_pa_loses :: utext where
  "txt_pa_loses =
   [41, 46, 10, 1054, 1085, 32, 1087, 1086, 1090, 1077, 1088, 1103, 1077, 1090, 32, 1076,
    1086, 1089, 1090, 1091, 1087, 32, 1082, 32, 1073, 1086, 1090, 1091, 32, 1076, 1086, 32,
    1088, 1091, 1095, 1085, 1086, 1081, 32, 1088, 1077, 1072, 1082, 1090, 1080, 1074, 1072,
    1094, 1080, 1080, 46]"

text \<open>reactivate the user\<close>

definition txt_pa_reactivate :: utext where
  "txt_pa_reactivate =
   [1056, 1077, 1072, 1082, 1090, 1080, 1074, 1080, 1088, 1086, 1074, 1072, 1090, 1100, 32,
    1087, 1086, 1083, 1100, 1079, 1086, 1074, 1072, 1090, 1077, 1083, 1103, 32]"

text \<open>menu sign\<close>

definition txt_e_menu :: utext where
  "txt_e_menu =
   [127968]"

text \<open>creation sign\<close>

definition txt_e_create :: utext where
  "txt_e_create =
   [127381]"

text \<open>quick sign\<close>

definition txt_e_quick :: utext where
  "txt_e_quick =
   [9889]"

text \<open>guided sign\<close>

definition txt_e_guided :: utext where
  "txt_e_guided =
   [129517]"

text \<open>tasks sign\<close>

definition txt_e_tasks :: utext where
  "txt_e_tasks =
   [128203]"

text \<open>settings sign\<close>

definition txt_e_settings :: utext where
  "txt_e_settings =
   [9881, 65039]"

text \<open>help sign\<close>

definition txt_e_help :: utext where
  "txt_e_help =
   [10067]"

text \<open>synchronisation sign\<close>

definition txt_e_sync :: utext where
  "txt_e_sync =
   [128260]"

text \<open>information sign\<close>

definition txt_e_info :: utext where
  "txt_e_info =
   [8505, 65039]"

text \<open>time sign\<close>

definition txt_e_time :: utext where
  "txt_e_time =
   [9200]"

text \<open>new\<close>

definition txt_sl_new :: utext where
  "txt_sl_new =
   [1085, 1086, 1074, 1072, 1103]"

text \<open>sent to the assignee\<close>

definition txt_sl_sent :: utext where
  "txt_sl_sent =
   [1086, 1090, 1087, 1088, 1072, 1074, 1083, 1077, 1085, 1072, 32, 1080, 1089, 1087, 1086,
    1083, 1085, 1080, 1090, 1077, 1083, 1102]"

text \<open>in progress\<close>

definition txt_sl_progress :: utext where
  "txt_sl_progress =
   [1074, 32, 1088, 1072, 1073, 1086, 1090, 1077]"

text \<open>there is a blocker\<close>

definition txt_sl_blocked :: utext where
  "txt_sl_blocked =
   [1077, 1089, 1090, 1100, 32, 1073, 1083, 1086, 1082, 1077, 1088]"

text \<open>under review\<close>

definition txt_sl_review :: utext where
  "txt_sl_review =
   [1085, 1072, 32, 1087, 1088, 1086, 1074, 1077, 1088, 1082, 1077]"

text \<open>completed\<close>

definition txt_sl_done :: utext where
  "txt_sl_done =
   [1079, 1072, 1074, 1077, 1088, 1096, 1077, 1085, 1072]"

text \<open>cancelled\<close>

definition txt_sl_cancelled :: utext where
  "txt_sl_cancelled =
   [1086, 1090, 1084, 1077, 1085, 1077, 1085, 1072]"

text \<open>delivered\<close>

definition txt_db_delivered :: utext where
  "txt_db_delivered =
   [128236, 32, 1044, 1086, 1089, 1090, 1072, 1074, 1083, 1077, 1085, 1086]"

text \<open>in the queue\<close>

definition txt_db_pending :: utext where
  "txt_db_pending =
   [128339, 32, 1042, 32, 1086, 1095, 1077, 1088, 1077, 1076, 1080]"

text \<open>waits for /start\<close>

definition txt_db_waiting :: utext where
  "txt_db_waiting =
   [128075, 32, 1046, 1076, 1105, 1090, 32, 47, 115, 116, 97, 114, 116]"

text \<open>will be sent again\<close>

definition txt_db_retry :: utext where
  "txt_db_retry =
   [128257, 32, 1055, 1086, 1074, 1090, 1086, 1088, 1080, 1084, 32, 1086, 1090, 1087, 1088,
    1072, 1074, 1082, 1091]"

text \<open>not delivered\<close>

definition txt_db_failed :: utext where
  "txt_db_failed =
   [9888, 65039, 32, 1053, 1077, 32, 1076, 1086, 1089, 1090, 1072, 1074, 1083, 1077, 1085,
    1086]"

text \<open>to the author only\<close>

definition txt_db_creator :: utext where
  "txt_db_creator =
   [128100, 32, 1058, 1086, 1083, 1100, 1082, 1086, 32, 1072, 1074, 1090, 1086, 1088, 1091]"

text \<open>the assignee has received the task in Telegram\<close>

definition txt_dd_delivered :: utext where
  "txt_dd_delivered =
   [1080, 1089, 1087, 1086, 1083, 1085, 1080, 1090, 1077, 1083, 1100, 32, 1091, 1078, 1077,
    32, 1087, 1086, 1083, 1091, 1095, 1080, 1083, 32, 1079, 1072, 1076, 1072, 1095, 1091,
    32, 1074, 32, 84, 101, 108, 101, 103, 114, 97, 109]"

text \<open>the notification is in the queue, the bot will deliver it\<close>

definition txt_dd_pending :: utext where
  "txt_dd_pending =
   [1091, 1074, 1077, 1076, 1086, 1084, 1083, 1077, 1085, 1080, 1077, 32, 1091, 1078, 1077,
    32, 1074, 32, 1086, 1095, 1077, 1088, 1077, 1076, 1080, 44, 32, 1073, 1086, 1090, 32,
    1076, 1086, 1089, 1090, 1072, 1074, 1080, 1090, 32, 1077, 1075, 1086, 32, 1072, 1074,
    1090, 1086, 1084, 1072, 1090, 1080, 1095, 1077, 1089, 1082, 1080]"

text \<open>the assignee has not started the bot yet; the task is kept and comes after /start\<close>

definition txt_dd_waiting :: utext where
  "txt_dd_waiting =
   [1080, 1089, 1087, 1086, 1083, 1085, 1080, 1090, 1077, 1083, 1100, 32, 1077, 1097, 1105,
    32, 1085, 1077, 32, 1079, 1072, 1087, 1091, 1089, 1082, 1072, 1083, 32, 1073, 1086,
    1090, 1072, 59, 32, 1079, 1072, 1076, 1072, 1095, 1072, 32, 1089, 1086, 1093, 1088,
    1072, 1085, 1077, 1085, 1072, 32, 1080, 32, 1087, 1088, 1080, 1076, 1105, 1090, 32,
    1087, 1086, 1089, 1083, 1077, 32, 47, 115, 116, 97, 114, 116]"

text \<open>the last sending failed, the bot will try again\<close>

definition txt_dd_retry :: utext where
  "txt_dd_retry =
   [1087, 1088, 1086, 1096, 1083, 1072, 1103, 32, 1086, 1090, 1087, 1088, 1072, 1074, 1082,
    1072, 32, 1085, 1077, 32, 1091, 1076, 1072, 1083, 1072, 1089, 1100, 44, 32, 1073, 1086,
    1090, 32, 1087, 1086, 1074, 1090, 1086, 1088, 1080, 1090, 32, 1087, 1086, 1087, 1099,
    1090, 1082, 1091]"

text \<open>the notification could not be delivered, check the assignee's connection\<close>

definition txt_dd_failed :: utext where
  "txt_dd_failed =
   [1076, 1086, 1089, 1090, 1072, 1074, 1080, 1090, 1100, 32, 1091, 1074, 1077, 1076, 1086,
    1084, 1083, 1077, 1085, 1080, 1077, 32, 1087, 1086, 1082, 1072, 32, 1085, 1077, 32,
    1087, 1086, 1083, 1091, 1095, 1080, 1083, 1086, 1089, 1100, 44, 32, 1085, 1091, 1078,
    1085, 1086, 32, 1087, 1088, 1086, 1074, 1077, 1088, 1080, 1090, 1100, 32, 1087, 1086,
    1076, 1082, 1083, 1102, 1095, 1077, 1085, 1080, 1077, 32, 1080, 1089, 1087, 1086, 1083,
    1085, 1080, 1090, 1077, 1083, 1103]"

text \<open>the task was created without notifying an assignee\<close>

definition txt_dd_creator :: utext where
  "txt_dd_creator =
   [1079, 1072, 1076, 1072, 1095, 1072, 32, 1089, 1086, 1079, 1076, 1072, 1085, 1072, 32,
    1073, 1077, 1079, 32, 1086, 1090, 1076, 1077, 1083, 1100, 1085, 1086, 1075, 1086, 32,
    1091, 1074, 1077, 1076, 1086, 1084, 1083, 1077, 1085, 1080, 1103, 32, 1080, 1089, 1087,
    1086, 1083, 1085, 1080, 1090, 1077, 1083, 1102]"

text \<open>1. no description yet\<close>

definition txt_no_description :: utext where
  "txt_no_description =
   [49, 46, 32, 1054, 1087, 1080, 1089, 1072, 1085, 1080, 1077, 32, 1087, 1086, 1082, 1072,
    32, 1085, 1077, 32, 1091, 1082, 1072, 1079, 1072, 1085, 1086]"

text \<open>bullet, space\<close>

definition txt_ui_bullet :: utext where
  "txt_ui_bullet =
   [8226, 32]"

text \<open>dash\<close>

definition txt_dash :: utext where
  "txt_dash =
   [8212]"

lemmas keyboards_text_defs =
  txt_b_start_def
  txt_b_submit_review_def
  txt_b_approve_def
  txt_b_return_def
  txt_b_cancel_def
  txt_b_blocker_def
  txt_b_comment_def
  txt_b_reassign_def
  txt_b_back_assigned_def
  txt_b_back_created_def
  txt_b_back_team_def
  txt_b_back_focus_def
  txt_b_back_inbox_def
  txt_badge_new_def
  txt_badge_sent_def
  txt_badge_progress_def
  txt_badge_blocked_def
  txt_badge_review_def
  txt_badge_done_def
  txt_badge_cancelled_def
  txt_b_home_def
  txt_b_focus_def
  txt_b_create_def
  txt_b_mine_def
  txt_b_created_def
  txt_b_stats_def
  txt_b_profile_def
  txt_b_help_def
  txt_b_team_def
  txt_b_inbox_def
  txt_b_team_stats_def
  txt_b_sync_def
  txt_b_quick_def
  txt_b_guided_def
  txt_b_dot_def
  txt_b_more_def
  txt_b_more_detail_def
  txt_b_short_def
  txt_b_connect_def
  txt_b_yes_cancel_def
  txt_b_back_def
  txt_b_to_task_def
  txt_b_open_card_def
  txt_b_another_def
  txt_b_clarify_def
  txt_b_no_assignee_def
  txt_b_no_deadline_def
  txt_b_confirm_create_def
  txt_b_edit_assignee_def
  txt_b_edit_description_def
  txt_b_edit_deadline_def
  txt_b_fix_text_def
  txt_b_voice_cancel_def
  txt_b_voice_back_def
  txt_b_create_unassigned_def
  txt_b_to_create_menu_def
  txt_b_unlinked_def
  txt_b_who_def
  txt_b_panel_def
  txt_b_admins_def
  txt_b_audit_def
  txt_b_security_def
  txt_b_flags_def
  txt_badge_admin_def
  txt_badge_manager_def
  txt_badge_user_def
  txt_badge_deactivated_def
  txt_b_role_user_def
  txt_b_role_manager_def
  txt_b_role_admin_def
  txt_b_activate_def
  txt_b_deactivate_def
  txt_b_to_list_def
  txt_b_confirm_def
  txt_b_admin_cancel_def
  txt_flag_on_def
  txt_flag_off_hint_def
  txt_flag_off_def
  txt_flag_on_hint_def
  txt_role_user_def
  txt_role_manager_def
  txt_role_admin_def
  txt_pa_assign_def
  txt_pa_role_def
  txt_pa_deactivate_def
  txt_pa_loses_def
  txt_pa_reactivate_def
  txt_e_menu_def
  txt_e_create_def
  txt_e_quick_def
  txt_e_guided_def
  txt_e_tasks_def
  txt_e_settings_def
  txt_e_help_def
  txt_e_sync_def
  txt_e_info_def
  txt_e_time_def
  txt_sl_new_def
  txt_sl_sent_def
  txt_sl_progress_def
  txt_sl_blocked_def
  txt_sl_review_def
  txt_sl_done_def
  txt_sl_cancelled_def
  txt_db_delivered_def
  txt_db_pending_def
  txt_db_waiting_def
  txt_db_retry_def
  txt_db_failed_def
  txt_db_creator_def
  txt_dd_delivered_def
  txt_dd_pending_def
  txt_dd_waiting_def
  txt_dd_retry_def
  txt_dd_failed_def
  txt_dd_creator_def
  txt_no_description_def
  txt_ui_bullet_def
  txt_dash_def

subsection \<open>Admin panel\<close>

text \<open>user\<close>

definition txt_ar_user :: utext where
  "txt_ar_user =
   [1055, 1086, 1083, 1100, 1079, 1086, 1074, 1072, 1090, 1077, 1083, 1100]"

text \<open>manager\<close>

definition txt_ar_manager :: utext where
  "txt_ar_manager =
   [1052, 1077, 1085, 1077, 1076, 1078, 1077, 1088]"

text \<open>admin\<close>

definition txt_ar_admin :: utext where
  "txt_ar_admin =
   [1040, 1076, 1084, 1080, 1085]"

text \<open>onboarding: started\<close>

definition txt_ac_started :: utext where
  "txt_ac_started =
   [1086, 1085, 1073, 1086, 1088, 1076, 1080, 1085, 1075, 58, 32, 1089, 1090, 1072, 1088,
    1090]"

text \<open>onboarding: completed\<close>

definition txt_ac_completed :: utext where
  "txt_ac_completed =
   [1086, 1085, 1073, 1086, 1088, 1076, 1080, 1085, 1075, 58, 32, 1079, 1072, 1074, 1077,
    1088, 1096, 1105, 1085]"

text \<open>onboarding: abandoned\<close>

definition txt_ac_abandoned :: utext where
  "txt_ac_abandoned =
   [1086, 1085, 1073, 1086, 1088, 1076, 1080, 1085, 1075, 58, 32, 1087, 1088, 1077, 1088,
    1074, 1072, 1085]"

text \<open>employee: linked\<close>

definition txt_ac_linked :: utext where
  "txt_ac_linked =
   [1089, 1086, 1090, 1088, 1091, 1076, 1085, 1080, 1082, 58, 32, 1089, 1074, 1103, 1079,
    1100]"

text \<open>employee: unlinked\<close>

definition txt_ac_unlinked :: utext where
  "txt_ac_unlinked =
   [1089, 1086, 1090, 1088, 1091, 1076, 1085, 1080, 1082, 58, 32, 1086, 1090, 1074, 1103,
    1079, 1082, 1072]"

text \<open>admin: bootstrap\<close>

definition txt_ac_bootstrap :: utext where
  "txt_ac_bootstrap =
   [1072, 1076, 1084, 1080, 1085, 58, 32, 98, 111, 111, 116, 115, 116, 114, 97, 112]"

text \<open>role: changed\<close>

definition txt_ac_role :: utext where
  "txt_ac_role =
   [1088, 1086, 1083, 1100, 58, 32, 1080, 1079, 1084, 1077, 1085, 1077, 1085, 1080, 1077]"

text \<open>user: deactivated\<close>

definition txt_ac_deact :: utext where
  "txt_ac_deact =
   [1087, 1086, 1083, 1100, 1079, 1086, 1074, 1072, 1090, 1077, 1083, 1100, 58, 32, 1076,
    1077, 1072, 1082, 1090, 1080, 1074, 1072, 1094, 1080, 1103]"

text \<open>user: reactivated\<close>

definition txt_ac_react :: utext where
  "txt_ac_react =
   [1087, 1086, 1083, 1100, 1079, 1086, 1074, 1072, 1090, 1077, 1083, 1100, 58, 32, 1088,
    1077, 1072, 1082, 1090, 1080, 1074, 1072, 1094, 1080, 1103]"

text \<open>flag: toggled\<close>

definition txt_ac_flag :: utext where
  "txt_ac_flag =
   [1092, 1083, 1072, 1075, 58, 32, 1087, 1077, 1088, 1077, 1082, 1083, 1102, 1095, 1077,
    1085, 1080, 1077]"

text \<open>access denied\<close>

definition txt_ac_forbidden :: utext where
  "txt_ac_forbidden =
   [1086, 1090, 1082, 1072, 1079, 32, 1074, 32, 1076, 1086, 1089, 1090, 1091, 1087, 1077]"

text \<open>callback of another user\<close>

definition txt_ac_callback :: utext where
  "txt_ac_callback =
   [1095, 1091, 1078, 1086, 1081, 32, 99, 97, 108, 108, 98, 97, 99, 107]"

text \<open>nonce expired\<close>

definition txt_ac_nonce :: utext where
  "txt_ac_nonce =
   [110, 111, 110, 99, 101, 32, 1087, 1088, 1086, 1089, 1088, 1086, 1095, 1077, 1085]"

text \<open>forbidden action\<close>

definition txt_se_forbidden :: utext where
  "txt_se_forbidden =
   [1079, 1072, 1087, 1088, 1077, 1097, 1105, 1085, 1085, 1086, 1077, 32, 1076, 1077, 1081,
    1089, 1090, 1074, 1080, 1077]"

text \<open>administrator\<close>

definition txt_am_admin :: utext where
  "txt_am_admin =
   [1072, 1076, 1084, 1080, 1085, 1080, 1089, 1090, 1088, 1072, 1090, 1086, 1088]"

text \<open>admin panel\<close>

definition txt_am :: utext where
  "txt_am =
   [128737, 32, 1040, 1076, 1084, 1080, 1085, 45, 1087, 1072, 1085, 1077, 1083, 1100, 10,
    10, 1047, 1076, 1088, 1072, 1074, 1089, 1090, 1074, 1091, 1081, 1090, 1077, 44, 32]"

text \<open>admin panel (part 2)\<close>

definition txt_am_2 :: utext where
  "txt_am_2 =
   [46, 10, 10, 1042, 1099, 1073, 1077, 1088, 1080, 1090, 1077, 32, 1088, 1072, 1079, 1076,
    1077, 1083, 58, 10, 8226, 32, 1040, 1076, 1084, 1080, 1085, 1080, 1089, 1090, 1088,
    1072, 1090, 1086, 1088, 1099, 32, 8212, 32, 1091, 1087, 1088, 1072, 1074, 1083, 1077,
    1085, 1080, 1077, 32, 1088, 1086, 1083, 1103, 1084, 1080, 32, 1080, 32, 1076, 1077,
    1072, 1082, 1090, 1080, 1074, 1072, 1094, 1080, 1103, 10, 8226, 32, 1046, 1091, 1088,
    1085, 1072, 1083, 32, 1076, 1077, 1081, 1089, 1090, 1074, 1080, 1081, 32, 8212, 32,
    1087, 1086, 1089, 1083, 1077, 1076, 1085, 1080, 1077, 32, 1080, 1079, 1084, 1077, 1085,
    1077, 1085, 1080, 1103, 44, 32, 1089, 1076, 1077, 1083, 1072, 1085, 1085, 1099, 1077,
    32, 1095, 1077, 1088, 1077, 1079, 32, 1087, 1072, 1085, 1077, 1083, 1100, 10, 8226, 32,
    1060, 1083, 1072, 1075, 1080, 32, 1092, 1091, 1085, 1082, 1094, 1080, 1081, 32, 8212,
    32, 1087, 1077, 1088, 1077, 1082, 1083, 1102, 1095, 1077, 1085, 1080, 1077, 32, 1101,
    1082, 1089, 1087, 1077, 1088, 1080, 1084, 1077, 1085, 1090, 1072, 1083, 1100, 1085,
    1099, 1093, 32, 1074, 1086, 1079, 1084, 1086, 1078, 1085, 1086, 1089, 1090, 1077, 1081]"

text \<open>access to the panel is limited\<close>

definition txt_at_denied :: utext where
  "txt_at_denied =
   [32, 1044, 1086, 1089, 1090, 1091, 1087, 32, 1082, 32, 1072, 1076, 1084, 1080, 1085, 45,
    1087, 1072, 1085, 1077, 1083, 1080, 32, 1086, 1075, 1088, 1072, 1085, 1080, 1095, 1077,
    1085, 46, 10, 1054, 1073, 1088, 1072, 1090, 1080, 1090, 1077, 1089, 1100, 32, 1082, 32,
    1076, 1077, 1081, 1089, 1090, 1074, 1091, 1102, 1097, 1077, 1084, 1091, 32, 1072, 1076,
    1084, 1080, 1085, 1080, 1089, 1090, 1088, 1072, 1090, 1086, 1088, 1091, 44, 32, 1077,
    1089, 1083, 1080, 32, 1074, 1072, 1084, 32, 1085, 1091, 1078, 1077, 1085, 32, 1076,
    1086, 1089, 1090, 1091, 1087, 46]"

text \<open>your account is deactivated\<close>

definition txt_at_deact :: utext where
  "txt_at_deact =
   [32, 1042, 1072, 1096, 32, 1072, 1082, 1082, 1072, 1091, 1085, 1090, 32, 1076, 1077,
    1072, 1082, 1090, 1080, 1074, 1080, 1088, 1086, 1074, 1072, 1085, 32, 1080, 32, 1085,
    1077, 32, 1084, 1086, 1078, 1077, 1090, 32, 1074, 1099, 1087, 1086, 1083, 1085, 1103,
    1090, 1100, 32, 1076, 1077, 1081, 1089, 1090, 1074, 1080, 1103, 32, 1072, 1076, 1084,
    1080, 1085, 1080, 1089, 1090, 1088, 1072, 1090, 1086, 1088, 1072, 46]"

text \<open>not applicable to oneself\<close>

definition txt_at_self :: utext where
  "txt_at_self =
   [32, 1069, 1090, 1091, 32, 1086, 1087, 1077, 1088, 1072, 1094, 1080, 1102, 32, 1085,
    1077, 1083, 1100, 1079, 1103, 32, 1087, 1088, 1080, 1084, 1077, 1085, 1080, 1090, 1100,
    32, 1082, 32, 1089, 1077, 1073, 1077, 46, 10, 1055, 1086, 1087, 1088, 1086, 1089, 1080,
    1090, 1077, 32, 1076, 1088, 1091, 1075, 1086, 1075, 1086, 32, 1072, 1076, 1084, 1080,
    1085, 1080, 1089, 1090, 1088, 1072, 1090, 1086, 1088, 1072, 32, 1074, 1099, 1087, 1086,
    1083, 1085, 1080, 1090, 1100, 32, 1077, 1105, 44, 32, 1095, 1090, 1086, 1073, 1099, 32,
    1085, 1077, 32, 1085, 1072, 1088, 1091, 1096, 1080, 1090, 1100, 32, 1080, 1085, 1074,
    1072, 1088, 1080, 1072, 1085, 1090, 32, 171, 1093, 1086, 1090, 1103, 32, 1073, 1099, 32,
    1086, 1076, 1080, 1085, 32, 1072, 1082, 1090, 1080, 1074, 1085, 1099, 1081, 32, 1072,
    1076, 1084, 1080, 1085, 187, 46]"

text \<open>you are the last active administrator\<close>

definition txt_at_last :: utext where
  "txt_at_last =
   [32, 1053, 1077, 1083, 1100, 1079, 1103, 32, 1079, 1072, 1074, 1077, 1088, 1096, 1080,
    1090, 1100, 32, 1086, 1087, 1077, 1088, 1072, 1094, 1080, 1102, 58, 32, 1074, 1099, 32,
    8212, 32, 1087, 1086, 1089, 1083, 1077, 1076, 1085, 1080, 1081, 32, 1072, 1082, 1090,
    1080, 1074, 1085, 1099, 1081, 32, 1072, 1076, 1084, 1080, 1085, 1080, 1089, 1090, 1088,
    1072, 1090, 1086, 1088, 46, 10, 1057, 1085, 1072, 1095, 1072, 1083, 1072, 32, 1087,
    1086, 1074, 1099, 1089, 1100, 1090, 1077, 32, 1076, 1088, 1091, 1075, 1086, 1075, 1086,
    32, 1087, 1086, 1083, 1100, 1079, 1086, 1074, 1072, 1090, 1077, 1083, 1103, 32, 1076,
    1086, 32, 1088, 1086, 1083, 1080, 32, 171, 1040, 1076, 1084, 1080, 1085, 187, 44, 32,
    1072, 32, 1087, 1086, 1090, 1086, 1084, 32, 1074, 1086, 1079, 1074, 1088, 1072, 1097,
    1072, 1081, 1090, 1077, 1089, 1100, 32, 1089, 1102, 1076, 1072, 46]"

text \<open>user not found\<close>

definition txt_at_missing :: utext where
  "txt_at_missing =
   [32, 1055, 1086, 1083, 1100, 1079, 1086, 1074, 1072, 1090, 1077, 1083, 1100, 32, 1085,
    1077, 32, 1085, 1072, 1081, 1076, 1077, 1085, 46, 32, 1042, 1086, 1079, 1084, 1086,
    1078, 1085, 1086, 44, 32, 1089, 1087, 1080, 1089, 1086, 1082, 32, 1091, 1089, 1090,
    1072, 1088, 1077, 1083, 32, 8212, 32, 1074, 1077, 1088, 1085, 1080, 1090, 1077, 1089,
    1100, 32, 1082, 32, 1089, 1087, 1080, 1089, 1082, 1091, 46]"

text \<open>confirm the action\<close>

definition txt_at_confirm :: utext where
  "txt_at_confirm =
   [9888, 65039, 32, 1055, 1086, 1076, 1090, 1074, 1077, 1088, 1076, 1080, 1090, 1077, 32,
    1076, 1077, 1081, 1089, 1090, 1074, 1080, 1077, 10, 10]"

text \<open>confirm the action (part 2)\<close>

definition txt_at_confirm_2 :: utext where
  "txt_at_confirm_2 =
   [10, 10, 1053, 1072, 1078, 1084, 1080, 1090, 1077, 32, 171, 9989, 32, 1055, 1086, 1076,
    1090, 1074, 1077, 1088, 1076, 1080, 1090, 1100, 187, 44, 32, 1095, 1090, 1086, 1073,
    1099, 32, 1074, 1099, 1087, 1086, 1083, 1085, 1080, 1090, 1100, 44, 32, 1080, 1083,
    1080, 32, 171, 10060, 32, 1054, 1090, 1084, 1077, 1085, 1072, 187, 44, 32, 1095, 1090,
    1086, 1073, 1099, 32, 1086, 1090, 1082, 1072, 1079, 1072, 1090, 1100, 1089, 1103, 46,
    10, 1050, 1085, 1086, 1087, 1082, 1080, 32, 1089, 1090, 1072, 1085, 1086, 1074, 1103,
    1090, 1089, 1103, 32, 1085, 1077, 1072, 1082, 1090, 1080, 1074, 1085, 1099, 1084, 1080,
    32, 1095, 1077, 1088, 1077, 1079, 32, 50, 32, 1084, 1080, 1085, 1091, 1090, 1099, 46]"

text \<open>operation cancelled\<close>

definition txt_at_cancelled :: utext where
  "txt_at_cancelled =
   [32, 1054, 1087, 1077, 1088, 1072, 1094, 1080, 1103, 32, 1086, 1090, 1084, 1077, 1085,
    1077, 1085, 1072, 46]"

text \<open>confirmation not found or expired\<close>

definition txt_at_expired :: utext where
  "txt_at_expired =
   [32, 1055, 1086, 1076, 1090, 1074, 1077, 1088, 1078, 1076, 1077, 1085, 1080, 1077, 32,
    1085, 1077, 32, 1085, 1072, 1081, 1076, 1077, 1085, 1086, 32, 1080, 1083, 1080, 32,
    1087, 1088, 1086, 1089, 1088, 1086, 1095, 1077, 1085, 1086, 46, 10, 1054, 1090, 1082,
    1088, 1086, 1081, 1090, 1077, 32, 1076, 1077, 1081, 1089, 1090, 1074, 1080, 1077, 32,
    1079, 1072, 1085, 1086, 1074, 1086, 44, 32, 1095, 1090, 1086, 1073, 1099, 32, 1087,
    1086, 1083, 1091, 1095, 1080, 1090, 1100, 32, 1085, 1086, 1074, 1091, 1102, 32, 1082,
    1085, 1086, 1087, 1082, 1091, 32, 1087, 1086, 1076, 1090, 1074, 1077, 1088, 1078, 1076,
    1077, 1085, 1080, 1103, 46]"

text \<open>this button belongs to another administrator\<close>

definition txt_at_wrong :: utext where
  "txt_at_wrong =
   [32, 1069, 1090, 1072, 32, 1082, 1085, 1086, 1087, 1082, 1072, 32, 1087, 1086, 1076,
    1090, 1074, 1077, 1088, 1078, 1076, 1077, 1085, 1080, 1103, 32, 1087, 1088, 1080, 1085,
    1072, 1076, 1083, 1077, 1078, 1080, 1090, 32, 1076, 1088, 1091, 1075, 1086, 1084, 1091,
    32, 1072, 1076, 1084, 1080, 1085, 1080, 1089, 1090, 1088, 1072, 1090, 1086, 1088, 1091,
    46, 10, 1042, 1099, 1087, 1086, 1083, 1085, 1080, 1090, 1077, 32, 1076, 1077, 1081,
    1089, 1090, 1074, 1080, 1077, 32, 1080, 1079, 32, 1089, 1074, 1086, 1077, 1081, 32,
    1087, 1072, 1085, 1077, 1083, 1080, 46]"

text \<open>role updated\<close>

definition txt_at_role :: utext where
  "txt_at_role =
   [9989, 32, 1056, 1086, 1083, 1100, 32, 1086, 1073, 1085, 1086, 1074, 1083, 1077, 1085,
    1072, 10, 10]"

text \<open>role updated (part 2)\<close>

definition txt_at_role_2 :: utext where
  "txt_at_role_2 =
   [32, 8594, 32]"

text \<open>user deactivated\<close>

definition txt_at_off :: utext where
  "txt_at_off =
   [9940, 32, 1055, 1086, 1083, 1100, 1079, 1086, 1074, 1072, 1090, 1077, 1083, 1100, 32]"

text \<open>user deactivated (part 2)\<close>

definition txt_at_off_2 :: utext where
  "txt_at_off_2 =
   [32, 1076, 1077, 1072, 1082, 1090, 1080, 1074, 1080, 1088, 1086, 1074, 1072, 1085, 46]"

text \<open>user active again\<close>

definition txt_at_on :: utext where
  "txt_at_on =
   [9989, 32, 1055, 1086, 1083, 1100, 1079, 1086, 1074, 1072, 1090, 1077, 1083, 1100, 32]"

text \<open>user active again (part 2)\<close>

definition txt_at_on_2 :: utext where
  "txt_at_on_2 =
   [32, 1089, 1085, 1086, 1074, 1072, 32, 1072, 1082, 1090, 1080, 1074, 1077, 1085, 46]"

text \<open>no active administrators but you\<close>

definition txt_au_none :: utext where
  "txt_au_none =
   [32, 1042, 32, 1089, 1080, 1089, 1090, 1077, 1084, 1077, 32, 1087, 1086, 1082, 1072, 32,
    1085, 1077, 1090, 32, 1072, 1082, 1090, 1080, 1074, 1085, 1099, 1093, 32, 1072, 1076,
    1084, 1080, 1085, 1080, 1089, 1090, 1088, 1072, 1090, 1086, 1088, 1086, 1074, 44, 32,
    1082, 1088, 1086, 1084, 1077, 32, 1074, 1072, 1089, 32, 40]"

text \<open>no active administrators but you (part 2)\<close>

definition txt_au_none_2 :: utext where
  "txt_au_none_2 =
   [41, 46, 10, 10, 1044, 1086, 1073, 1072, 1074, 1100, 1090, 1077, 32, 1077, 1097, 1105,
    32, 1086, 1076, 1085, 1086, 1075, 1086, 44, 32, 1095, 1090, 1086, 1073, 1099, 32, 1085,
    1077, 32, 1087, 1086, 1090, 1077, 1088, 1103, 1090, 1100, 32, 1076, 1086, 1089, 1090,
    1091, 1087, 32, 1087, 1088, 1080, 32, 1076, 1077, 1072, 1082, 1090, 1080, 1074, 1072,
    1094, 1080, 1080, 46]"

text \<open>deactivated\<close>

definition txt_au_off :: utext where
  "txt_au_off =
   [32, 8226, 32, 9940, 32, 1076, 1077, 1072, 1082, 1090, 1080, 1074, 1080, 1088, 1086,
    1074, 1072, 1085]"

text \<open>line of a user\<close>

definition txt_au_line :: utext where
  "txt_au_line =
   [8226, 32]"

text \<open>line of a user (part 2)\<close>

definition txt_au_line_2 :: utext where
  "txt_au_line_2 =
   [32, 8212, 32]"

text \<open>active administrators\<close>

definition txt_au_some :: utext where
  "txt_au_some =
   [128101, 32, 1040, 1082, 1090, 1080, 1074, 1085, 1099, 1077, 32, 1072, 1076, 1084, 1080,
    1085, 1080, 1089, 1090, 1088, 1072, 1090, 1086, 1088, 1099, 32, 40]"

text \<open>active administrators (part 2)\<close>

definition txt_au_some_2 :: utext where
  "txt_au_some_2 =
   [41, 10, 10]"

text \<open>active administrators (part 3)\<close>

definition txt_au_some_3 :: utext where
  "txt_au_some_3 =
   [10, 10, 1042, 1099, 1073, 1077, 1088, 1080, 1090, 1077, 32, 1087, 1086, 1083, 1100,
    1079, 1086, 1074, 1072, 1090, 1077, 1083, 1103, 44, 32, 1095, 1090, 1086, 1073, 1099,
    32, 1080, 1079, 1084, 1077, 1085, 1080, 1090, 1100, 32, 1088, 1086, 1083, 1100, 32,
    1080, 1083, 1080, 32, 1076, 1077, 1072, 1082, 1090, 1080, 1074, 1080, 1088, 1086, 1074,
    1072, 1090, 1100, 46]"

text \<open>not given\<close>

definition txt_aud_none :: utext where
  "txt_aud_none =
   [1085, 1077, 32, 1091, 1082, 1072, 1079, 1072, 1085]"

text \<open>deactivated since\<close>

definition txt_aud_since :: utext where
  "txt_aud_since =
   [1076, 1077, 1072, 1082, 1090, 1080, 1074, 1080, 1088, 1086, 1074, 1072, 1085, 32, 1089,
    32]"

text \<open>active\<close>

definition txt_aud_active :: utext where
  "txt_aud_active =
   [1072, 1082, 1090, 1080, 1074, 1077, 1085]"

text \<open>card of a user\<close>

definition txt_aud :: utext where
  "txt_aud =
   [128100, 32]"

text \<open>card of a user (part 2)\<close>

definition txt_aud_2 :: utext where
  "txt_aud_2 =
   [10, 10, 85, 115, 101, 114, 110, 97, 109, 101, 58, 32]"

text \<open>card of a user (part 3)\<close>

definition txt_aud_3 :: utext where
  "txt_aud_3 =
   [10, 84, 101, 108, 101, 103, 114, 97, 109, 32, 73, 68, 58, 32]"

text \<open>card of a user (part 4)\<close>

definition txt_aud_4 :: utext where
  "txt_aud_4 =
   [10, 1056, 1086, 1083, 1100, 58, 32]"

text \<open>card of a user (part 5)\<close>

definition txt_aud_5 :: utext where
  "txt_aud_5 =
   [10, 1057, 1090, 1072, 1090, 1091, 1089, 58, 32]"

text \<open>card of a user (part 6)\<close>

definition txt_aud_6 :: utext where
  "txt_aud_6 =
   [10, 10, 1044, 1083, 1103, 32, 1080, 1079, 1084, 1077, 1085, 1077, 1085, 1080, 1103, 32,
    1074, 1099, 1073, 1077, 1088, 1080, 1090, 1077, 32, 1076, 1077, 1081, 1089, 1090, 1074,
    1080, 1077, 32, 1085, 1080, 1078, 1077, 46]"

text \<open>the log of actions is empty\<close>

definition txt_aa_none :: utext where
  "txt_aa_none =
   [32, 1046, 1091, 1088, 1085, 1072, 1083, 32, 1076, 1077, 1081, 1089, 1090, 1074, 1080,
    1081, 32, 1087, 1091, 1089, 1090, 46]"

text \<open>line of the log\<close>

definition txt_aa_line :: utext where
  "txt_aa_line =
   [8226, 32]"

text \<open>line of the log (part 2)\<close>

definition txt_aa_line_2 :: utext where
  "txt_aa_line_2 =
   [1084, 41, 32]"

text \<open>line of the log (part 3)\<close>

definition txt_aa_line_3 :: utext where
  "txt_aa_line_3 =
   [32, 8226, 32]"

text \<open>line of the log (part 4)\<close>

definition txt_aa_line_4 :: utext where
  "txt_aa_line_4 =
   [32, 8594, 32]"

text \<open>log of actions\<close>

definition txt_aa_some :: utext where
  "txt_aa_some =
   [128220, 32, 1046, 1091, 1088, 1085, 1072, 1083, 32, 1076, 1077, 1081, 1089, 1090, 1074,
    1080, 1081, 32, 40, 1087, 1086, 1089, 1083, 1077, 1076, 1085, 1080, 1077, 32]"

text \<open>log of actions (part 2)\<close>

definition txt_aa_some_2 :: utext where
  "txt_aa_some_2 =
   [41, 10, 10]"

text \<open>the log of security is empty\<close>

definition txt_sa_none :: utext where
  "txt_sa_none =
   [32, 1046, 1091, 1088, 1085, 1072, 1083, 32, 1073, 1077, 1079, 1086, 1087, 1072, 1089,
    1085, 1086, 1089, 1090, 1080, 32, 1087, 1091, 1089, 1090, 46]"

text \<open>line of the log\<close>

definition txt_sa_line :: utext where
  "txt_sa_line =
   [8226, 32]"

text \<open>line of the log (part 2)\<close>

definition txt_sa_line_2 :: utext where
  "txt_sa_line_2 =
   [1084, 41, 32]"

text \<open>line of the log (part 3)\<close>

definition txt_sa_line_3 :: utext where
  "txt_sa_line_3 =
   [32, 8226, 32]"

text \<open>log of security\<close>

definition txt_sa_some :: utext where
  "txt_sa_some =
   [128272, 32, 1046, 1091, 1088, 1085, 1072, 1083, 32, 1073, 1077, 1079, 1086, 1087, 1072,
    1089, 1085, 1086, 1089, 1090, 1080, 32, 40, 1087, 1086, 1089, 1083, 1077, 1076, 1085,
    1080, 1077, 32]"

text \<open>log of security (part 2)\<close>

definition txt_sa_some_2 :: utext where
  "txt_sa_some_2 =
   [41, 10, 10]"

text \<open>log of security (part 3)\<close>

definition txt_sa_some_3 :: utext where
  "txt_sa_some_3 =
   [10, 10, 9888, 65039, 32, 1069, 1090, 1086, 1090, 32, 1078, 1091, 1088, 1085, 1072, 1083,
    32, 1089, 1086, 1076, 1077, 1088, 1078, 1080, 1090, 32, 1087, 1086, 1087, 1099, 1090,
    1082, 1080, 32, 1086, 1090, 1082, 1072, 1079, 1072, 32, 1074, 32, 1076, 1086, 1089,
    1090, 1091, 1087, 1077, 44, 32, 1085, 1072, 1088, 1091, 1096, 1077, 1085, 1080, 1103,
    32, 1072, 1074, 1090, 1086, 1088, 1089, 1090, 1074, 1072, 32, 1082, 1086, 1083, 1083,
    1073, 1101, 1082, 1086, 1074, 32, 1080, 32, 1086, 1075, 1088, 1072, 1085, 1080, 1095,
    1077, 1085, 1080, 1103, 32, 1087, 1086, 32, 114, 97, 116, 101, 45, 108, 105, 109, 105,
    116, 46]"

text \<open>feature flags\<close>

definition txt_af_title :: utext where
  "txt_af_title =
   [128681, 32, 1060, 1083, 1072, 1075, 1080, 32, 1092, 1091, 1085, 1082, 1094, 1080, 1081]"

text \<open>on\<close>

definition txt_af_on :: utext where
  "txt_af_on =
   [9989]"

text \<open>off\<close>

definition txt_af_off :: utext where
  "txt_af_off =
   [11036]"

text \<open>press a flag to toggle it; changes apply at once and survive a restart\<close>

definition txt_af_hint :: utext where
  "txt_af_hint =
   [1053, 1072, 1078, 1084, 1080, 1090, 1077, 32, 1085, 1072, 32, 1092, 1083, 1072, 1075,
    44, 32, 1095, 1090, 1086, 1073, 1099, 32, 1087, 1077, 1088, 1077, 1082, 1083, 1102,
    1095, 1080, 1090, 1100, 32, 1077, 1075, 1086, 46, 32, 1048, 1079, 1084, 1077, 1085,
    1077, 1085, 1080, 1103, 32, 1087, 1088, 1080, 1084, 1077, 1085, 1103, 1102, 1090, 1089,
    1103, 32, 1085, 1077, 1084, 1077, 1076, 1083, 1077, 1085, 1085, 1086, 32, 1080, 32,
    1089, 1086, 1093, 1088, 1072, 1085, 1103, 1102, 1090, 1089, 1103, 32, 1087, 1086, 1089,
    1083, 1077, 32, 1087, 1077, 1088, 1077, 1079, 1072, 1087, 1091, 1089, 1082, 1072, 46]"

lemmas ui_admin_text_defs =
  txt_ar_user_def
  txt_ar_manager_def
  txt_ar_admin_def
  txt_ac_started_def
  txt_ac_completed_def
  txt_ac_abandoned_def
  txt_ac_linked_def
  txt_ac_unlinked_def
  txt_ac_bootstrap_def
  txt_ac_role_def
  txt_ac_deact_def
  txt_ac_react_def
  txt_ac_flag_def
  txt_ac_forbidden_def
  txt_ac_callback_def
  txt_ac_nonce_def
  txt_se_forbidden_def
  txt_am_admin_def
  txt_am_def
  txt_am_2_def
  txt_at_denied_def
  txt_at_deact_def
  txt_at_self_def
  txt_at_last_def
  txt_at_missing_def
  txt_at_confirm_def
  txt_at_confirm_2_def
  txt_at_cancelled_def
  txt_at_expired_def
  txt_at_wrong_def
  txt_at_role_def
  txt_at_role_2_def
  txt_at_off_def
  txt_at_off_2_def
  txt_at_on_def
  txt_at_on_2_def
  txt_au_none_def
  txt_au_none_2_def
  txt_au_off_def
  txt_au_line_def
  txt_au_line_2_def
  txt_au_some_def
  txt_au_some_2_def
  txt_au_some_3_def
  txt_aud_none_def
  txt_aud_since_def
  txt_aud_active_def
  txt_aud_def
  txt_aud_2_def
  txt_aud_3_def
  txt_aud_4_def
  txt_aud_5_def
  txt_aud_6_def
  txt_aa_none_def
  txt_aa_line_def
  txt_aa_line_2_def
  txt_aa_line_3_def
  txt_aa_line_4_def
  txt_aa_some_def
  txt_aa_some_2_def
  txt_sa_none_def
  txt_sa_line_def
  txt_sa_line_2_def
  txt_sa_line_3_def
  txt_sa_some_def
  txt_sa_some_2_def
  txt_sa_some_3_def
  txt_af_title_def
  txt_af_on_def
  txt_af_off_def
  txt_af_hint_def

subsection \<open>Menus\<close>

text \<open>the extended section of the team is open to you\<close>

definition txt_hint_manager :: utext where
  "txt_hint_manager =
   [1059, 32, 1074, 1072, 1089, 32, 1086, 1090, 1082, 1088, 1099, 1090, 32, 1088, 1072,
    1089, 1096, 1080, 1088, 1077, 1085, 1085, 1099, 1081, 32, 1088, 1072, 1079, 1076, 1077,
    1083, 32, 1082, 1086, 1084, 1072, 1085, 1076, 1099, 58, 32, 1084, 1086, 1078, 1085,
    1086, 32, 1073, 1099, 1089, 1090, 1088, 1086, 32, 1089, 1084, 1086, 1090, 1088, 1077,
    1090, 1100, 32, 114, 101, 118, 105, 101, 119, 44, 32, 1073, 1083, 1086, 1082, 1077,
    1088, 1099, 32, 1080, 32, 1079, 1072, 1076, 1072, 1095, 1080, 44, 32, 1075, 1076, 1077,
    32, 1085, 1091, 1078, 1085, 1086, 32, 1088, 1077, 1096, 1077, 1085, 1080, 1077, 32,
    1084, 1077, 1085, 1077, 1076, 1078, 1077, 1088, 1072, 46]"

text \<open>here you can set tasks and keep focus\<close>

definition txt_hint_user :: utext where
  "txt_hint_user =
   [1047, 1076, 1077, 1089, 1100, 32, 1091, 1076, 1086, 1073, 1085, 1086, 32, 1089, 1090,
    1072, 1074, 1080, 1090, 1100, 32, 1079, 1072, 1076, 1072, 1095, 1080, 44, 32, 1076,
    1077, 1088, 1078, 1072, 1090, 1100, 32, 1092, 1086, 1082, 1091, 1089, 32, 1080, 32,
    1073, 1099, 1089, 1090, 1088, 1086, 32, 1076, 1074, 1080, 1075, 1072, 1090, 1100, 32,
    1088, 1072, 1073, 1086, 1090, 1091, 32, 1076, 1072, 1083, 1100, 1096, 1077, 46]"

text \<open>welcome\<close>

definition txt_welcome :: utext where
  "txt_welcome =
   [10024, 32, 1044, 1086, 1073, 1088, 1086, 32, 1087, 1086, 1078, 1072, 1083, 1086, 1074,
    1072, 1090, 1100, 44, 32]"

text \<open>welcome (part 2)\<close>

definition txt_welcome_2 :: utext where
  "txt_welcome_2 =
   [33, 10, 10, 1071, 32, 1087, 1086, 1084, 1086, 1075, 1091, 32, 1087, 1086, 1089, 1090,
    1072, 1074, 1080, 1090, 1100, 32, 1079, 1072, 1076, 1072, 1095, 1091, 44, 32, 1085,
    1077, 32, 1087, 1086, 1090, 1077, 1088, 1103, 1090, 1100, 32, 1076, 1077, 1076, 1083,
    1072, 1081, 1085, 32, 1080, 32, 1073, 1099, 1089, 1090, 1088, 1086, 32, 1087, 1086,
    1085, 1103, 1090, 1100, 44, 32, 1095, 1090, 1086, 32, 1090, 1088, 1077, 1073, 1091,
    1077, 1090, 32, 1074, 1085, 1080, 1084, 1072, 1085, 1080, 1103, 46, 10]"

text \<open>welcome (part 3)\<close>

definition txt_welcome_3 :: utext where
  "txt_welcome_3 =
   [10, 10, 1042, 1099, 1073, 1077, 1088, 1080, 1090, 1077, 44, 32, 1089, 32, 1095, 1077,
    1075, 1086, 32, 1085, 1072, 1095, 1072, 1090, 1100, 58]"

text \<open>how to use the bot\<close>

definition txt_help :: utext where
  "txt_help =
   [32, 1050, 1072, 1082, 32, 1087, 1086, 1083, 1100, 1079, 1086, 1074, 1072, 1090, 1100,
    1089, 1103, 32, 1073, 1086, 1090, 1086, 1084, 10, 10, 49, 46, 32, 1054, 1090, 1082,
    1088, 1086, 1081, 1090, 1077, 32, 171, 129517, 32, 1052, 1086, 1081, 32, 1092, 1086,
    1082, 1091, 1089, 187, 44, 32, 1077, 1089, 1083, 1080, 32, 1093, 1086, 1090, 1080, 1090,
    1077, 32, 1073, 1099, 1089, 1090, 1088, 1086, 32, 1087, 1086, 1085, 1103, 1090, 1100,
    44, 32, 1095, 1090, 1086, 32, 1074, 1072, 1078, 1085, 1086, 32, 1087, 1088, 1103, 1084,
    1086, 32, 1089, 1077, 1081, 1095, 1072, 1089, 46, 10, 50, 46, 32, 1053, 1072, 1078,
    1084, 1080, 1090, 1077, 32, 171]"

text \<open>how to use the bot (part 2)\<close>

definition txt_help_2 :: utext where
  "txt_help_2 =
   [32, 1057, 1086, 1079, 1076, 1072, 1090, 1100, 32, 1079, 1072, 1076, 1072, 1095, 1091,
    187, 44, 32, 1077, 1089, 1083, 1080, 32, 1085, 1091, 1078, 1085, 1086, 32, 1087, 1086,
    1089, 1090, 1072, 1074, 1080, 1090, 1100, 32, 1085, 1086, 1074, 1091, 1102, 32, 1079,
    1072, 1076, 1072, 1095, 1091, 46, 10, 51, 46, 32, 1056, 1072, 1073, 1086, 1090, 1072,
    1081, 1090, 1077, 32, 1080, 1079, 32, 1082, 1072, 1088, 1090, 1086, 1095, 1082, 1080,
    32, 1079, 1072, 1076, 1072, 1095, 1080, 58, 32, 1089, 1090, 1072, 1090, 1091, 1089, 44,
    32, 1082, 1086, 1084, 1084, 1077, 1085, 1090, 1072, 1088, 1080, 1081, 44, 32, 1073,
    1083, 1086, 1082, 1077, 1088, 32, 1080, 32, 1087, 1077, 1088, 1077, 1085, 1072, 1079,
    1085, 1072, 1095, 1077, 1085, 1080, 1077, 32, 1076, 1086, 1089, 1090, 1091, 1087, 1085,
    1099, 32, 1074, 32, 1087, 1072, 1088, 1091, 32, 1085, 1072, 1078, 1072, 1090, 1080,
    1081, 46, 10, 10, 1055, 1086, 1083, 1077, 1079, 1085, 1099, 1077, 32, 1082, 1086, 1084,
    1072, 1085, 1076, 1099, 58, 10, 47, 115, 116, 97, 114, 116, 32, 8212, 32, 1075, 1083,
    1072, 1074, 1085, 1086, 1077, 32, 1084, 1077, 1085, 1102, 10, 47, 109, 101, 110, 117,
    32, 8212, 32, 1074, 1077, 1088, 1085, 1091, 1090, 1100, 1089, 1103, 32, 1074, 32, 1084,
    1077, 1085, 1102, 10, 47, 110, 101, 119, 95, 116, 97, 115, 107, 32, 60, 1090, 1077,
    1082, 1089, 1090, 62, 32, 8212, 32, 1073, 1099, 1089, 1090, 1088, 1086, 32, 1089, 1086,
    1079, 1076, 1072, 1090, 1100, 32, 1079, 1072, 1076, 1072, 1095, 1091, 10, 47, 115, 116,
    97, 116, 117, 115, 32, 60, 84, 45, 48, 48, 48, 49, 62, 32, 8212, 32, 1086, 1090, 1082,
    1088, 1099, 1090, 1100, 32, 1079, 1072, 1076, 1072, 1095, 1091, 32, 1087, 1086, 32,
    1082, 1086, 1076, 1091, 10, 47, 99, 97, 110, 99, 101, 108, 95, 116, 97, 115, 107, 32,
    60, 84, 45, 48, 48, 48, 49, 62, 32, 8212, 32, 1086, 1090, 1084, 1077, 1085, 1080, 1090,
    1100, 32, 1079, 1072, 1076, 1072, 1095, 1091, 10, 47, 109, 121, 95, 116, 97, 115, 107,
    115, 32, 8212, 32, 1084, 1086, 1080, 32, 1079, 1072, 1076, 1072, 1095, 1080, 10, 47, 99,
    114, 101, 97, 116, 101, 100, 95, 116, 97, 115, 107, 115, 32, 8212, 32, 1089, 1086, 1079,
    1076, 1072, 1085, 1085, 1099, 1077, 32, 1084, 1085, 1086, 1081, 10, 47, 116, 101, 97,
    109, 95, 116, 97, 115, 107, 115, 32, 8212, 32, 1079, 1072, 1076, 1072, 1095, 1080, 32,
    1082, 1086, 1084, 1072, 1085, 1076, 1099, 10, 47, 115, 116, 97, 116, 115, 32, 8212, 32,
    1084, 1086, 1103, 32, 1089, 1090, 1072, 1090, 1080, 1089, 1090, 1080, 1082, 1072, 10,
    47, 116, 101, 97, 109, 95, 115, 116, 97, 116, 115, 32, 8212, 32, 1089, 1090, 1072, 1090,
    1080, 1089, 1090, 1080, 1082, 1072, 32, 1082, 1086, 1084, 1072, 1085, 1076, 1099, 10,
    47, 115, 101, 116, 116, 105, 110, 103, 115, 32, 8212, 32, 1087, 1088, 1086, 1092, 1080,
    1083, 1100, 32, 1080, 32, 1091, 1074, 1077, 1076, 1086, 1084, 1083, 1077, 1085, 1080,
    1103]"

text \<open>creation of a task\<close>

definition txt_create_menu :: utext where
  "txt_create_menu =
   [32, 1057, 1086, 1079, 1076, 1072, 1085, 1080, 1077, 32, 1079, 1072, 1076, 1072, 1095,
    1080, 10, 10]"

text \<open>creation of a task (part 2)\<close>

definition txt_create_menu_2 :: utext where
  "txt_create_menu_2 =
   [32, 1041, 1099, 1089, 1090, 1088, 1099, 1081, 32, 1088, 1077, 1078, 1080, 1084, 32,
    8212, 32, 1077, 1089, 1083, 1080, 32, 1079, 1072, 1076, 1072, 1095, 1072, 32, 1091,
    1078, 1077, 32, 1089, 1092, 1086, 1088, 1084, 1091, 1083, 1080, 1088, 1086, 1074, 1072,
    1085, 1072, 32, 1080, 32, 1077, 1105, 32, 1085, 1091, 1078, 1085, 1086, 32, 1087, 1088,
    1086, 1089, 1090, 1086, 32, 1086, 1090, 1087, 1088, 1072, 1074, 1080, 1090, 1100, 46, 10]"

text \<open>creation of a task (part 3)\<close>

definition txt_create_menu_3 :: utext where
  "txt_create_menu_3 =
   [32, 1055, 1086, 1096, 1072, 1075, 1086, 1074, 1099, 1081, 32, 1088, 1077, 1078, 1080,
    1084, 32, 8212, 32, 1077, 1089, 1083, 1080, 32, 1074, 1072, 1078, 1085, 1086, 32, 1089,
    1087, 1086, 1082, 1086, 1081, 1085, 1086, 32, 1089, 1086, 1073, 1088, 1072, 1090, 1100,
    32, 1080, 1089, 1087, 1086, 1083, 1085, 1080, 1090, 1077, 1083, 1103, 44, 32, 1086,
    1087, 1080, 1089, 1072, 1085, 1080, 1077, 32, 1080, 32, 1089, 1088, 1086, 1082, 32,
    1073, 1077, 1079, 32, 1086, 1096, 1080, 1073, 1086, 1082, 46]"

text \<open>send a text or a voice message with the task\<close>

definition txt_quick_prompt :: utext where
  "txt_quick_prompt =
   [32, 1054, 1090, 1087, 1088, 1072, 1074, 1100, 1090, 1077, 32, 1090, 1077, 1082, 1089,
    1090, 32, 1080, 1083, 1080, 32, 1075, 1086, 1083, 1086, 1089, 1086, 1074, 1086, 1077,
    32, 1089, 1086, 1086, 1073, 1097, 1077, 1085, 1080, 1077, 32, 1089, 32, 1079, 1072,
    1076, 1072, 1095, 1077, 1081, 46, 10, 10, 1045, 1089, 1083, 1080, 32, 1086, 1090, 1087,
    1088, 1072, 1074, 1080, 1090, 1077, 32, 1075, 1086, 1083, 1086, 1089, 1086, 1074, 1086,
    1077, 44, 32, 1103, 32, 1089, 1085, 1072, 1095, 1072, 1083, 1072, 32, 1087, 1086, 1082,
    1072, 1078, 1091, 32, 1082, 1086, 1088, 1086, 1090, 1082, 1091, 1102, 32, 1088, 1072,
    1089, 1096, 1080, 1092, 1088, 1086, 1074, 1082, 1091, 32, 1080, 32, 1087, 1086, 1087,
    1088, 1086, 1096, 1091, 32, 1087, 1086, 1076, 1090, 1074, 1077, 1088, 1076, 1080, 1090,
    1100, 32, 1077, 1105, 46, 10, 10, 1055, 1088, 1080, 1084, 1077, 1088, 58, 10, 64, 105,
    118, 97, 110, 111, 118, 32, 1087, 1086, 1076, 1075, 1086, 1090, 1086, 1074, 1080, 1090,
    1100, 32, 1088, 1077, 1083, 1080, 1079, 32, 1076, 1086, 32, 1087, 1103, 1090, 1085,
    1080, 1094, 1099, 10, 10, 1050, 1086, 1075, 1076, 1072, 32, 1079, 1072, 1093, 1086,
    1090, 1080, 1090, 1077, 32, 1074, 1099, 1081, 1090, 1080, 44, 32, 1085, 1072, 1078,
    1084, 1080, 1090, 1077, 32, 171]"

text \<open>send a text or a voice message with the task (part 2)\<close>

definition txt_quick_prompt_2 :: utext where
  "txt_quick_prompt_2 =
   [32, 1042, 32, 1084, 1077, 1085, 1102, 187, 46]"

text \<open>step 1 of 3, whom to assign\<close>

definition txt_g_assignee :: utext where
  "txt_g_assignee =
   [32, 1064, 1072, 1075, 32, 49, 32, 1080, 1079, 32, 51, 10, 10, 1050, 1086, 1075, 1086,
    32, 1085, 1072, 1079, 1085, 1072, 1095, 1072, 1077, 1084, 63, 10, 1052, 1086, 1078,
    1085, 1086, 32, 1085, 1072, 1087, 1080, 1089, 1072, 1090, 1100, 32, 1080, 1084, 1103,
    44, 32, 1092, 1072, 1084, 1080, 1083, 1080, 1102, 32, 1080, 1083, 1080, 32, 64, 117,
    115, 101, 114, 110, 97, 109, 101, 46, 10, 1045, 1089, 1083, 1080, 32, 1079, 1072, 1076,
    1072, 1095, 1072, 32, 1087, 1086, 1082, 1072, 32, 1073, 1077, 1079, 32, 1080, 1089,
    1087, 1086, 1083, 1085, 1080, 1090, 1077, 1083, 1103, 44, 32, 1074, 1099, 1073, 1077,
    1088, 1080, 1090, 1077, 32, 1082, 1085, 1086, 1087, 1082, 1091, 32, 1085, 1080, 1078,
    1077, 46]"

text \<open>step 1 of 3\<close>

definition txt_g_clarify :: utext where
  "txt_g_clarify =
   [32, 1064, 1072, 1075, 32, 49, 32, 1080, 1079, 32, 51, 10, 10]"

text \<open>step 2 of 3, describe the task\<close>

definition txt_g_description :: utext where
  "txt_g_description =
   [32, 1064, 1072, 1075, 32, 50, 32, 1080, 1079, 32, 51, 10, 10, 1050, 1086, 1088, 1086,
    1090, 1082, 1086, 32, 1080, 32, 1087, 1086, 32, 1076, 1077, 1083, 1091, 32, 1086, 1087,
    1080, 1096, 1080, 1090, 1077, 32, 1079, 1072, 1076, 1072, 1095, 1091, 46, 10, 1054,
    1076, 1085, 1072, 32, 1089, 1080, 1083, 1100, 1085, 1072, 1103, 32, 1092, 1086, 1088,
    1084, 1091, 1083, 1080, 1088, 1086, 1074, 1082, 1072, 32, 1083, 1091, 1095, 1096, 1077,
    32, 1076, 1083, 1080, 1085, 1085, 1086, 1075, 1086, 32, 1082, 1072, 1085, 1094, 1077,
    1083, 1103, 1088, 1080, 1090, 1072, 46, 10, 10, 1061, 1086, 1088, 1086, 1096, 1086, 58,
    32, 171, 1087, 1086, 1076, 1075, 1086, 1090, 1086, 1074, 1080, 1090, 1100, 32, 1088,
    1077, 1083, 1080, 1079, 1085, 1099, 1081, 32, 1095, 1077, 1082, 45, 1083, 1080, 1089,
    1090, 32, 1080, 32, 1089, 1074, 1077, 1088, 1080, 1090, 1100, 32, 1074, 1077, 1088,
    1089, 1080, 1080, 187, 10, 1057, 1083, 1072, 1073, 1086, 58, 32, 171, 1089, 1076, 1077,
    1083, 1072, 1090, 1100, 32, 1101, 1090, 1086, 187]"

text \<open>step 3 of 3, give a deadline\<close>

definition txt_g_deadline :: utext where
  "txt_g_deadline =
   [32, 1064, 1072, 1075, 32, 51, 32, 1080, 1079, 32, 51, 10, 10, 1059, 1082, 1072, 1078,
    1080, 1090, 1077, 32, 1089, 1088, 1086, 1082, 32, 1074, 32, 1091, 1076, 1086, 1073,
    1085, 1086, 1081, 32, 1092, 1086, 1088, 1084, 1077, 58, 10, 8226, 32, 1079, 1072, 1074,
    1090, 1088, 1072, 10, 8226, 32, 1087, 1103, 1090, 1085, 1080, 1094, 1072, 10, 8226, 32,
    49, 50, 46, 48, 53, 10, 8226, 32, 1095, 1077, 1088, 1077, 1079, 32, 51, 32, 1076, 1085,
    1103, 10, 10, 1045, 1089, 1083, 1080, 32, 1089, 1088, 1086, 1082, 1072, 32, 1085, 1077,
    1090, 44, 32, 1085, 1072, 1078, 1084, 1080, 1090, 1077, 32, 171, 1041, 1077, 1079, 32,
    1089, 1088, 1086, 1082, 1072, 187, 46]"

text \<open>no assignee\<close>

definition txt_gc_none :: utext where
  "txt_gc_none =
   [1073, 1077, 1079, 32, 1080, 1089, 1087, 1086, 1083, 1085, 1080, 1090, 1077, 1083, 1103]"

text \<open>not given\<close>

definition txt_gc_unset :: utext where
  "txt_gc_unset =
   [1085, 1077, 32, 1091, 1082, 1072, 1079, 1072, 1085, 1086]"

text \<open>no deadline\<close>

definition txt_gc_no_deadline :: utext where
  "txt_gc_no_deadline =
   [1073, 1077, 1079, 32, 1089, 1088, 1086, 1082, 1072]"

text \<open>check the task before creating it\<close>

definition txt_g_confirm :: utext where
  "txt_g_confirm =
   [32, 1055, 1088, 1086, 1074, 1077, 1088, 1100, 1090, 1077, 32, 1079, 1072, 1076, 1072,
    1095, 1091, 32, 1087, 1077, 1088, 1077, 1076, 32, 1089, 1086, 1079, 1076, 1072, 1085,
    1080, 1077, 1084, 10, 10, 1048, 1089, 1087, 1086, 1083, 1085, 1080, 1090, 1077, 1083,
    1100, 58, 32]"

text \<open>check the task before creating it (part 2)\<close>

definition txt_g_confirm_2 :: utext where
  "txt_g_confirm_2 =
   [10, 1054, 1087, 1080, 1089, 1072, 1085, 1080, 1077, 58, 32]"

text \<open>check the task before creating it (part 3)\<close>

definition txt_g_confirm_3 :: utext where
  "txt_g_confirm_3 =
   [10, 1057, 1088, 1086, 1082, 58, 32]"

text \<open>check the task before creating it (part 4)\<close>

definition txt_g_confirm_4 :: utext where
  "txt_g_confirm_4 =
   [10, 10, 1045, 1089, 1083, 1080, 32, 1074, 1089, 1105, 32, 1074, 32, 1087, 1086, 1088,
    1103, 1076, 1082, 1077, 44, 32, 1087, 1086, 1076, 1090, 1074, 1077, 1088, 1076, 1080,
    1090, 1077, 32, 1089, 1086, 1079, 1076, 1072, 1085, 1080, 1077, 46]"

text \<open>I understood the voice message so\<close>

definition txt_v_confirm :: utext where
  "txt_v_confirm =
   [32, 1071, 32, 1088, 1072, 1079, 1086, 1073, 1088, 1072, 1083, 32, 1075, 1086, 1083,
    1086, 1089, 1086, 1074, 1086, 1077, 32, 1090, 1072, 1082, 10, 10]"

text \<open>I understood the voice message so (part 2)\<close>

definition txt_v_confirm_2 :: utext where
  "txt_v_confirm_2 =
   [10, 10, 1045, 1089, 1083, 1080, 32, 1074, 1089, 1105, 32, 1074, 1077, 1088, 1085, 1086,
    44, 32, 1089, 1086, 1079, 1076, 1072, 1081, 1090, 1077, 32, 1079, 1072, 1076, 1072,
    1095, 1091, 46, 32, 1045, 1089, 1083, 1080, 32, 1085, 1091, 1078, 1085, 1086, 44, 32,
    1089, 1085, 1072, 1095, 1072, 1083, 1072, 32, 1087, 1086, 1087, 1088, 1072, 1074, 1100,
    1090, 1077, 32, 1090, 1077, 1082, 1089, 1090, 46]"

text \<open>dash between spaces\<close>

definition txt_em_dash :: utext where
  "txt_em_dash =
   [32, 8212, 32]"

text \<open>no assignee yet\<close>

definition txt_vi_none :: utext where
  "txt_vi_none =
   [1055, 1086, 1082, 1072, 32, 1073, 1077, 1079, 32, 1080, 1089, 1087, 1086, 1083, 1085,
    1080, 1090, 1077, 1083, 1103]"

text \<open>delivery\<close>

definition txt_vi_delivery :: utext where
  "txt_vi_delivery =
   [10, 1044, 1086, 1089, 1090, 1072, 1074, 1082, 1072, 58, 32]"

text \<open>delivery (part 2)\<close>

definition txt_vi_delivery_2 :: utext where
  "txt_vi_delivery_2 =
   [32, 8212, 32]"

text \<open>the assignee must be named by hand\<close>

definition txt_vi_manual :: utext where
  "txt_vi_manual =
   [1053, 1091, 1078, 1085, 1086, 32, 1091, 1090, 1086, 1095, 1085, 1080, 1090, 1100, 32,
    1080, 1089, 1087, 1086, 1083, 1085, 1080, 1090, 1077, 1083, 1103, 32, 1074, 1088, 1091,
    1095, 1085, 1091, 1102, 46]"

text \<open>I heard\<close>

definition txt_vi_heard :: utext where
  "txt_vi_heard =
   [32, 1071, 32, 1091, 1089, 1083, 1099, 1096, 1072, 1083, 10]"

text \<open>I understood the task so\<close>

definition txt_vi_text :: utext where
  "txt_vi_text =
   [32, 1071, 32, 1087, 1086, 1085, 1103, 1083, 32, 1079, 1072, 1076, 1072, 1095, 1091, 32,
    1074, 1086, 1090, 32, 1090, 1072, 1082, 10, 10, 1048, 1089, 1087, 1086, 1083, 1085,
    1080, 1090, 1077, 1083, 1100, 58, 10]"

text \<open>I understood the task so (part 2)\<close>

definition txt_vi_text_2 :: utext where
  "txt_vi_text_2 =
   [10, 10, 1057, 1088, 1086, 1082, 58, 32]"

text \<open>I understood the task so (part 3)\<close>

definition txt_vi_text_3 :: utext where
  "txt_vi_text_3 =
   [10, 10, 1063, 1090, 1086, 32, 1085, 1091, 1078, 1085, 1086, 32, 1089, 1076, 1077, 1083,
    1072, 1090, 1100, 58, 10]"

text \<open>correct the text of the task\<close>

definition txt_v_edit :: utext where
  "txt_v_edit =
   [32, 1048, 1089, 1087, 1088, 1072, 1074, 1100, 1090, 1077, 32, 1090, 1077, 1082, 1089,
    1090, 32, 1079, 1072, 1076, 1072, 1095, 1080, 10, 10, 1057, 1077, 1081, 1095, 1072,
    1089, 32, 1091, 32, 1084, 1077, 1085, 1103, 32, 1090, 1072, 1082, 1072, 1103, 32, 1074,
    1077, 1088, 1089, 1080, 1103, 58, 10]"

text \<open>correct the text of the task (part 2)\<close>

definition txt_v_edit_2 :: utext where
  "txt_v_edit_2 =
   [10, 10, 1055, 1088, 1080, 1096, 1083, 1080, 1090, 1077, 32, 1086, 1076, 1085, 1080,
    1084, 32, 1089, 1086, 1086, 1073, 1097, 1077, 1085, 1080, 1077, 1084, 32, 1092, 1080,
    1085, 1072, 1083, 1100, 1085, 1099, 1081, 32, 1090, 1077, 1082, 1089, 1090, 32, 1079,
    1072, 1076, 1072, 1095, 1080, 46, 32, 1071, 32, 1079, 1072, 1084, 1077, 1085, 1102, 32,
    1088, 1072, 1089, 1096, 1080, 1092, 1088, 1086, 1074, 1082, 1091, 32, 1080, 32, 1089,
    1085, 1086, 1074, 1072, 32, 1087, 1086, 1082, 1072, 1078, 1091, 32, 1087, 1086, 1076,
    1090, 1074, 1077, 1088, 1078, 1076, 1077, 1085, 1080, 1077, 46]"

text \<open>link to an employee, none fits\<close>

definition txt_rl_none :: utext where
  "txt_rl_none =
   [32, 1055, 1088, 1080, 1074, 1103, 1079, 1082, 1072, 32, 1089, 1086, 1090, 1088, 1091,
    1076, 1085, 1080, 1082, 1072, 10, 10]"

text \<open>link to an employee, none fits (part 2)\<close>

definition txt_rl_none_2 :: utext where
  "txt_rl_none_2 =
   [10, 10, 1052, 1086, 1078, 1085, 1086, 32, 1087, 1088, 1086, 1076, 1086, 1083, 1078,
    1080, 1090, 1100, 32, 1073, 1077, 1079, 32, 1087, 1088, 1080, 1074, 1103, 1079, 1082,
    1080, 32, 1080, 32, 1074, 1077, 1088, 1085, 1091, 1090, 1100, 1089, 1103, 32, 1082, 32,
    1101, 1090, 1086, 1084, 1091, 32, 1087, 1086, 1079, 1078, 1077, 46]"

text \<open>link to an employee, candidates\<close>

definition txt_rl_some :: utext where
  "txt_rl_some =
   [32, 1055, 1088, 1080, 1074, 1103, 1079, 1082, 1072, 32, 1089, 1086, 1090, 1088, 1091,
    1076, 1085, 1080, 1082, 1072, 10, 10]"

text \<open>link to an employee, candidates (part 2)\<close>

definition txt_rl_some_2 :: utext where
  "txt_rl_some_2 =
   [10, 10, 1055, 1086, 1076, 1093, 1086, 1076, 1103, 1097, 1080, 1077, 32, 1074, 1072,
    1088, 1080, 1072, 1085, 1090, 1099, 58, 10]"

text \<open>welcome, give your first name\<close>

definition txt_ob_welcome :: utext where
  "txt_ob_welcome =
   [32, 1044, 1086, 1073, 1088, 1086, 32, 1087, 1086, 1078, 1072, 1083, 1086, 1074, 1072,
    1090, 1100, 33, 10, 10, 1063, 1090, 1086, 1073, 1099, 32, 1103, 32, 1084, 1086, 1075,
    32, 1082, 1086, 1088, 1088, 1077, 1082, 1090, 1085, 1086, 32, 1085, 1072, 1079, 1085,
    1072, 1095, 1072, 1090, 1100, 32, 1074, 1072, 1084, 32, 1079, 1072, 1076, 1072, 1095,
    1080, 32, 1080, 32, 1087, 1086, 1076, 1089, 1082, 1072, 1079, 1099, 1074, 1072, 1090,
    1100, 32, 1082, 1086, 1083, 1083, 1077, 1075, 1072, 1084, 32, 1074, 1072, 1096, 1077,
    32, 1080, 1084, 1103, 44, 32, 1076, 1072, 1074, 1072, 1081, 1090, 1077, 32, 1073, 1099,
    1089, 1090, 1088, 1086, 32, 1087, 1086, 1079, 1085, 1072, 1082, 1086, 1084, 1080, 1084,
    1089, 1103, 46, 10, 10, 1064, 1072, 1075, 32, 49, 32, 1080, 1079, 32, 50, 46, 32, 1055,
    1086, 1078, 1072, 1083, 1091, 1081, 1089, 1090, 1072, 44, 32, 1091, 1082, 1072, 1078,
    1080, 1090, 1077, 32, 1074, 1072, 1096, 1077, 32, 1080, 1084, 1103, 32, 40, 1086, 1076,
    1085, 1086, 32, 1089, 1083, 1086, 1074, 1086, 44, 32, 1090, 1086, 1083, 1100, 1082,
    1086, 32, 1073, 1091, 1082, 1074, 1099, 41, 46]"

text \<open>now your last name\<close>

definition txt_ob_last :: utext where
  "txt_ob_last =
   [32, 1054, 1090, 1083, 1080, 1095, 1085, 1086, 44, 32]"

text \<open>now your last name (part 2)\<close>

definition txt_ob_last_2 :: utext where
  "txt_ob_last_2 =
   [33, 10, 10, 1064, 1072, 1075, 32, 50, 32, 1080, 1079, 32, 50, 46, 32, 1058, 1077, 1087,
    1077, 1088, 1100, 32, 1087, 1088, 1080, 1096, 1083, 1080, 1090, 1077, 32, 1074, 1072,
    1096, 1091, 32, 1092, 1072, 1084, 1080, 1083, 1080, 1102, 32, 40, 1086, 1076, 1085,
    1080, 1084, 32, 1089, 1086, 1086, 1073, 1097, 1077, 1085, 1080, 1077, 1084, 44, 32,
    1090, 1086, 1083, 1100, 1082, 1086, 32, 1073, 1091, 1082, 1074, 1099, 32, 1080, 32,
    1076, 1077, 1092, 1080, 1089, 41, 46]"

text \<open>the first name in one word, please\<close>

definition txt_ob_retry_first :: utext where
  "txt_ob_retry_first =
   [32, 1055, 1086, 1078, 1072, 1083, 1091, 1081, 1089, 1090, 1072, 44, 32, 1087, 1088,
    1080, 1096, 1083, 1080, 1090, 1077, 32, 1074, 1072, 1096, 1077, 32, 1080, 1084, 1103,
    32, 1086, 1076, 1085, 1080, 1084, 32, 1089, 1083, 1086, 1074, 1086, 1084, 46, 10, 1048,
    1089, 1087, 1086, 1083, 1100, 1079, 1091, 1081, 1090, 1077, 32, 1090, 1086, 1083, 1100,
    1082, 1086, 32, 1073, 1091, 1082, 1074, 1099, 32, 40, 1085, 1072, 1087, 1088, 1080,
    1084, 1077, 1088, 58, 32, 171, 1040, 1085, 1085, 1072, 187, 32, 1080, 1083, 1080, 32,
    171, 1052, 1080, 1093, 1072, 1080, 1083, 187, 41, 46]"

text \<open>the last name in one line, please\<close>

definition txt_ob_retry_last :: utext where
  "txt_ob_retry_last =
   [32, 1055, 1088, 1080, 1096, 1083, 1080, 1090, 1077, 32, 1092, 1072, 1084, 1080, 1083,
    1080, 1102, 32, 1086, 1076, 1085, 1086, 1081, 32, 1089, 1090, 1088, 1086, 1082, 1086,
    1081, 46, 10, 1044, 1086, 1087, 1091, 1089, 1090, 1080, 1084, 1099, 32, 1073, 1091,
    1082, 1074, 1099, 32, 1080, 32, 1076, 1077, 1092, 1080, 1089, 32, 40, 1085, 1072, 1087,
    1088, 1080, 1084, 1077, 1088, 58, 32, 171, 1048, 1074, 1072, 1085, 1086, 1074, 1072,
    187, 32, 1080, 1083, 1080, 32, 171, 1055, 1077, 1090, 1088, 1086, 1074, 45, 1042, 1086,
    1076, 1082, 1080, 1085, 187, 41, 46]"

text \<open>the text is too long\<close>

definition txt_ob_too_long :: utext where
  "txt_ob_too_long =
   [32, 1057, 1083, 1080, 1096, 1082, 1086, 1084, 32, 1076, 1083, 1080, 1085, 1085, 1099,
    1081, 32, 1090, 1077, 1082, 1089, 1090, 46, 10, 1048, 1084, 1103, 32, 1080, 32, 1092,
    1072, 1084, 1080, 1083, 1080, 1103, 32, 1085, 1077, 32, 1076, 1086, 1083, 1078, 1085,
    1099, 32, 1087, 1088, 1077, 1074, 1099, 1096, 1072, 1090, 1100, 32, 54, 52, 32, 1089,
    1080, 1084, 1074, 1086, 1083, 1086, 1074, 46, 32, 1055, 1086, 1087, 1088, 1086, 1073,
    1091, 1081, 1090, 1077, 32, 1077, 1097, 1105, 32, 1088, 1072, 1079, 46]"

text \<open>your choice on the keyboard is expected\<close>

definition txt_ob_link :: utext where
  "txt_ob_link =
   [32, 1054, 1078, 1080, 1076, 1072, 1102, 32, 1074, 1072, 1096, 32, 1074, 1099, 1073,
    1086, 1088, 32, 1085, 1072, 32, 1082, 1083, 1072, 1074, 1080, 1072, 1090, 1091, 1088,
    1077, 32, 1085, 1080, 1078, 1077, 46, 10, 1053, 1072, 1078, 1084, 1080, 1090, 1077, 32,
    1085, 1072, 32, 1089, 1074, 1086, 1102, 32, 1082, 1072, 1088, 1090, 1086, 1095, 1082,
    1091, 32, 1074, 32, 1089, 1087, 1088, 1072, 1074, 1086, 1095, 1085, 1080, 1082, 1077,
    32, 1080, 1083, 1080, 32, 171, 1055, 1088, 1086, 1076, 1086, 1083, 1078, 1080, 1090,
    1100, 32, 1073, 1077, 1079, 32, 1087, 1088, 1080, 1074, 1103, 1079, 1082, 1080, 187, 46]"

text \<open>the profile is created\<close>

definition txt_ob_done :: utext where
  "txt_ob_done =
   [10024, 32, 1043, 1086, 1090, 1086, 1074, 1086, 44, 32]"

text \<open>the profile is created (part 2)\<close>

definition txt_ob_done_2 :: utext where
  "txt_ob_done_2 =
   [33, 10, 10, 1055, 1088, 1086, 1092, 1080, 1083, 1100, 32, 1089, 1086, 1079, 1076, 1072,
    1085, 46, 32, 1058, 1077, 1087, 1077, 1088, 1100, 32, 1086, 1090, 1082, 1088, 1086,
    1081, 1090, 1077, 32, 1075, 1083, 1072, 1074, 1085, 1086, 1077, 32, 1084, 1077, 1085,
    1102, 44, 32, 1095, 1090, 1086, 1073, 1099, 32, 1087, 1086, 1089, 1090, 1072, 1074,
    1080, 1090, 1100, 32, 1087, 1077, 1088, 1074, 1091, 1102, 32, 1079, 1072, 1076, 1072,
    1095, 1091, 32, 1080, 1083, 1080, 32, 1087, 1086, 1089, 1084, 1086, 1090, 1088, 1077,
    1090, 1100, 32, 1089, 1087, 1080, 1089, 1086, 1082, 32, 1074, 1093, 1086, 1076, 1103,
    1097, 1080, 1093, 46]"

text \<open>hours\<close>

definition txt_hours :: utext where
  "txt_hours =
   [32, 1095]"

text \<open>no data\<close>

definition txt_no_data :: utext where
  "txt_no_data =
   [1085, 1077, 1090, 32, 1076, 1072, 1085, 1085, 1099, 1093]"

text \<open>statistics\<close>

definition txt_stats :: utext where
  "txt_stats =
   [10, 10, 1042, 1089, 1077, 1075, 1086, 32, 1089, 1086, 1079, 1076, 1072, 1085, 1086, 58,
    32]"

text \<open>statistics (part 2)\<close>

definition txt_stats_2 :: utext where
  "txt_stats_2 =
   [10, 1040, 1082, 1090, 1080, 1074, 1085, 1099, 1093, 58, 32]"

text \<open>statistics (part 3)\<close>

definition txt_stats_3 :: utext where
  "txt_stats_3 =
   [10, 1047, 1072, 1074, 1077, 1088, 1096, 1077, 1085, 1086, 58, 32]"

text \<open>statistics (part 4)\<close>

definition txt_stats_4 :: utext where
  "txt_stats_4 =
   [10, 1055, 1088, 1086, 1089, 1088, 1086, 1095, 1077, 1085, 1086, 58, 32]"

text \<open>statistics (part 5)\<close>

definition txt_stats_5 :: utext where
  "txt_stats_5 =
   [10, 1057, 1088, 1077, 1076, 1085, 1077, 1077, 32, 1074, 1088, 1077, 1084, 1103, 32,
    1074, 1099, 1087, 1086, 1083, 1085, 1077, 1085, 1080, 1103, 58, 32]"

text \<open>switched off\<close>

definition txt_quiet_off :: utext where
  "txt_quiet_off =
   [1086, 1090, 1082, 1083, 1102, 1095, 1077, 1085, 1099]"

text \<open>quiet hours\<close>

definition txt_quiet :: utext where
  "txt_quiet =
   [32, 8211, 32]"

text \<open>quiet hours (part 2)\<close>

definition txt_quiet_2 :: utext where
  "txt_quiet_2 =
   [32, 40, 1083, 1086, 1082, 1072, 1083, 1100, 1085, 1086, 1077, 32, 1074, 1088, 1077,
    1084, 1103, 41]"

text \<open>employee\<close>

definition txt_pr_user :: utext where
  "txt_pr_user =
   [1089, 1086, 1090, 1088, 1091, 1076, 1085, 1080, 1082]"

text \<open>manager\<close>

definition txt_pr_manager :: utext where
  "txt_pr_manager =
   [1084, 1077, 1085, 1077, 1076, 1078, 1077, 1088]"

text \<open>administrator\<close>

definition txt_pr_admin :: utext where
  "txt_pr_admin =
   [1072, 1076, 1084, 1080, 1085, 1080, 1089, 1090, 1088, 1072, 1090, 1086, 1088]"

text \<open>my activity\<close>

definition txt_activity :: utext where
  "txt_activity =
   [128202, 32, 1052, 1086, 1103, 32, 1072, 1082, 1090, 1080, 1074, 1085, 1086, 1089, 1090,
    1100, 10, 10, 1042, 1089, 1077, 1075, 1086, 32, 1089, 1086, 1079, 1076, 1072, 1085,
    1086, 58, 32]"

text \<open>my activity (part 2)\<close>

definition txt_activity_2 :: utext where
  "txt_activity_2 =
   [10, 1042, 32, 1088, 1072, 1073, 1086, 1090, 1077, 58, 32]"

text \<open>my activity (part 3)\<close>

definition txt_activity_3 :: utext where
  "txt_activity_3 =
   [10, 1047, 1072, 1074, 1077, 1088, 1096, 1077, 1085, 1086, 58, 32]"

text \<open>my activity (part 4)\<close>

definition txt_activity_4 :: utext where
  "txt_activity_4 =
   [10, 1055, 1088, 1086, 1089, 1088, 1086, 1095, 1077, 1085, 1086, 58, 32]"

text \<open>my activity (part 5)\<close>

definition txt_activity_5 :: utext where
  "txt_activity_5 =
   [10, 1057, 1088, 1077, 1076, 1085, 1077, 1077, 32, 1074, 1088, 1077, 1084, 1103, 32,
    1074, 1099, 1087, 1086, 1083, 1085, 1077, 1085, 1080, 1103, 58, 32]"

text \<open>connected\<close>

definition txt_connected :: utext where
  "txt_connected =
   [1087, 1086, 1076, 1082, 1083, 1102, 1095, 1077, 1085, 1099]"

text \<open>not connected\<close>

definition txt_not_connected :: utext where
  "txt_not_connected =
   [1085, 1077, 32, 1087, 1086, 1076, 1082, 1083, 1102, 1095, 1077, 1085, 1099]"

text \<open>profile\<close>

definition txt_profile :: utext where
  "txt_profile =
   [32, 1055, 1088, 1086, 1092, 1080, 1083, 1100, 10, 10, 1048, 1084, 1103, 58, 32]"

text \<open>profile (part 2)\<close>

definition txt_profile_2 :: utext where
  "txt_profile_2 =
   [10, 85, 115, 101, 114, 110, 97, 109, 101, 58, 32]"

text \<open>profile (part 3)\<close>

definition txt_profile_3 :: utext where
  "txt_profile_3 =
   [10, 84, 101, 108, 101, 103, 114, 97, 109, 32, 73, 68, 58, 32]"

text \<open>profile (part 4)\<close>

definition txt_profile_4 :: utext where
  "txt_profile_4 =
   [10, 1056, 1086, 1083, 1100, 58, 32]"

text \<open>profile (part 5)\<close>

definition txt_profile_5 :: utext where
  "txt_profile_5 =
   [10, 1063, 1072, 1089, 1086, 1074, 1086, 1081, 32, 1087, 1086, 1103, 1089, 58, 32]"

text \<open>profile (part 6)\<close>

definition txt_profile_6 :: utext where
  "txt_profile_6 =
   [10, 1058, 1080, 1093, 1080, 1077, 32, 1095, 1072, 1089, 1099, 58, 32]"

text \<open>profile (part 7)\<close>

definition txt_profile_7 :: utext where
  "txt_profile_7 =
   [10, 1059, 1074, 1077, 1076, 1086, 1084, 1083, 1077, 1085, 1080, 1103, 58, 32]"

text \<open>employees synchronised\<close>

definition txt_synced :: utext where
  "txt_synced =
   [32, 1057, 1080, 1085, 1093, 1088, 1086, 1085, 1080, 1079, 1072, 1094, 1080, 1103, 32,
    1079, 1072, 1074, 1077, 1088, 1096, 1077, 1085, 1072, 46, 32, 1054, 1073, 1085, 1086,
    1074, 1083, 1077, 1085, 1086, 32, 1089, 1086, 1090, 1088, 1091, 1076, 1085, 1080, 1082,
    1086, 1074, 58, 32]"

lemmas ui_menu_text_defs =
  txt_hint_manager_def
  txt_hint_user_def
  txt_welcome_def
  txt_welcome_2_def
  txt_welcome_3_def
  txt_help_def
  txt_help_2_def
  txt_create_menu_def
  txt_create_menu_2_def
  txt_create_menu_3_def
  txt_quick_prompt_def
  txt_quick_prompt_2_def
  txt_g_assignee_def
  txt_g_clarify_def
  txt_g_description_def
  txt_g_deadline_def
  txt_gc_none_def
  txt_gc_unset_def
  txt_gc_no_deadline_def
  txt_g_confirm_def
  txt_g_confirm_2_def
  txt_g_confirm_3_def
  txt_g_confirm_4_def
  txt_v_confirm_def
  txt_v_confirm_2_def
  txt_em_dash_def
  txt_vi_none_def
  txt_vi_delivery_def
  txt_vi_delivery_2_def
  txt_vi_manual_def
  txt_vi_heard_def
  txt_vi_text_def
  txt_vi_text_2_def
  txt_vi_text_3_def
  txt_v_edit_def
  txt_v_edit_2_def
  txt_rl_none_def
  txt_rl_none_2_def
  txt_rl_some_def
  txt_rl_some_2_def
  txt_ob_welcome_def
  txt_ob_last_def
  txt_ob_last_2_def
  txt_ob_retry_first_def
  txt_ob_retry_last_def
  txt_ob_too_long_def
  txt_ob_link_def
  txt_ob_done_def
  txt_ob_done_2_def
  txt_hours_def
  txt_no_data_def
  txt_stats_def
  txt_stats_2_def
  txt_stats_3_def
  txt_stats_4_def
  txt_stats_5_def
  txt_quiet_off_def
  txt_quiet_def
  txt_quiet_2_def
  txt_pr_user_def
  txt_pr_manager_def
  txt_pr_admin_def
  txt_activity_def
  txt_activity_2_def
  txt_activity_3_def
  txt_activity_4_def
  txt_activity_5_def
  txt_connected_def
  txt_not_connected_def
  txt_profile_def
  txt_profile_2_def
  txt_profile_3_def
  txt_profile_4_def
  txt_profile_5_def
  txt_profile_6_def
  txt_profile_7_def
  txt_synced_def

subsection \<open>Tasks\<close>

text \<open>ellipsis; the full text is in the card of the task\<close>

definition txt_preview_more :: utext where
  "txt_preview_more =
   [8230, 10, 10, 1055, 1086, 1083, 1085, 1099, 1081, 32, 1090, 1077, 1082, 1089, 1090, 32,
    8212, 32, 1074, 32, 1082, 1072, 1088, 1090, 1086, 1095, 1082, 1077, 32, 1079, 1072,
    1076, 1072, 1095, 1080, 46]"

text \<open>the task is created\<close>

definition txt_tc_created :: utext where
  "txt_tc_created =
   [9989, 32, 1047, 1072, 1076, 1072, 1095, 1072, 32, 1089, 1086, 1079, 1076, 1072, 1085,
    1072, 10, 10, 1050, 1086, 1076, 58, 32]"

text \<open>the task is created (part 2)\<close>

definition txt_tc_created_2 :: utext where
  "txt_tc_created_2 =
   [10, 1057, 1090, 1072, 1090, 1091, 1089, 58, 32]"

text \<open>the task is created (part 3)\<close>

definition txt_tc_created_3 :: utext where
  "txt_tc_created_3 =
   [10, 1044, 1086, 1089, 1090, 1072, 1074, 1082, 1072, 58, 32]"

text \<open>the task is created (part 4)\<close>

definition txt_tc_created_4 :: utext where
  "txt_tc_created_4 =
   [32, 8212, 32]"

text \<open>the task is created (part 5)\<close>

definition txt_tc_created_5 :: utext where
  "txt_tc_created_5 =
   [10, 10, 1054, 1090, 1082, 1088, 1086, 1081, 1090, 1077, 32, 1082, 1072, 1088, 1090,
    1086, 1095, 1082, 1091, 44, 32, 1095, 1090, 1086, 1073, 1099, 32, 1087, 1088, 1086,
    1076, 1086, 1083, 1078, 1080, 1090, 1100, 32, 1088, 1072, 1073, 1086, 1090, 1091, 46]"

text \<open>such a task exists already\<close>

definition txt_tc_duplicate :: utext where
  "txt_tc_duplicate =
   [32, 1058, 1072, 1082, 1072, 1103, 32, 1079, 1072, 1076, 1072, 1095, 1072, 32, 1091,
    1078, 1077, 32, 1077, 1089, 1090, 1100, 10, 10, 1050, 1086, 1076, 58, 32]"

text \<open>such a task exists already (part 2)\<close>

definition txt_tc_duplicate_2 :: utext where
  "txt_tc_duplicate_2 =
   [10, 1057, 1090, 1072, 1090, 1091, 1089, 58, 32]"

text \<open>such a task exists already (part 3)\<close>

definition txt_tc_duplicate_3 :: utext where
  "txt_tc_duplicate_3 =
   [10, 10, 1071, 32, 1085, 1077, 32, 1089, 1086, 1079, 1076, 1072, 1074, 1072, 1083, 32,
    1076, 1091, 1073, 1083, 1100, 46, 32, 1054, 1090, 1082, 1088, 1086, 1081, 1090, 1077,
    32, 1090, 1077, 1082, 1091, 1097, 1091, 1102, 32, 1082, 1072, 1088, 1090, 1086, 1095,
    1082, 1091, 32, 1080, 32, 1087, 1088, 1086, 1076, 1086, 1083, 1078, 1072, 1081, 1090,
    1077, 32, 1088, 1072, 1073, 1086, 1090, 1091, 32, 1080, 1079, 32, 1085, 1077, 1105, 46]"

text \<open>text of the task\<close>

definition txt_tc_anchor :: utext where
  "txt_tc_anchor =
   [128203, 32, 1058, 1077, 1082, 1089, 1090, 32, 1079, 1072, 1076, 1072, 1095, 1080, 58, 10]"

text \<open>text of the task (part 2)\<close>

definition txt_tc_anchor_2 :: utext where
  "txt_tc_anchor_2 =
   [10, 10, 9472, 9472, 9472, 9472, 9472, 9472, 9472, 9472, 10, 10]"

text \<open>no exact match yet\<close>

definition txt_tc_no_match :: utext where
  "txt_tc_no_match =
   [1055, 1086, 1082, 1072, 32, 1085, 1077, 32, 1074, 1080, 1078, 1091, 32, 1090, 1086,
    1095, 1085, 1086, 1075, 1086, 32, 1089, 1086, 1074, 1087, 1072, 1076, 1077, 1085, 1080,
    1103, 46]"

text \<open>the assignee must be clarified\<close>

definition txt_tc_clarify :: utext where
  "txt_tc_clarify =
   [32, 1053, 1091, 1078, 1085, 1086, 32, 1091, 1090, 1086, 1095, 1085, 1080, 1090, 1100,
    32, 1080, 1089, 1087, 1086, 1083, 1085, 1080, 1090, 1077, 1083, 1103, 10, 10]"

text \<open>my tasks\<close>

definition txt_lh_mine :: utext where
  "txt_lh_mine =
   [128229, 32, 1052, 1086, 1080, 32, 1079, 1072, 1076, 1072, 1095, 1080]"

text \<open>all that is assigned to you now\<close>

definition txt_lh_mine_sub :: utext where
  "txt_lh_mine_sub =
   [1047, 1076, 1077, 1089, 1100, 32, 1074, 1089, 1105, 44, 32, 1095, 1090, 1086, 32, 1089,
    1077, 1081, 1095, 1072, 1089, 32, 1085, 1072, 1079, 1085, 1072, 1095, 1077, 1085, 1086,
    32, 1074, 1072, 1084, 46]"

text \<open>created by me\<close>

definition txt_lh_created :: utext where
  "txt_lh_created =
   [128228, 32, 1057, 1086, 1079, 1076, 1072, 1085, 1085, 1099, 1077, 32, 1084, 1085, 1086,
    1081]"

text \<open>the tasks you set to others or yourself\<close>

definition txt_lh_created_sub :: utext where
  "txt_lh_created_sub =
   [1047, 1072, 1076, 1072, 1095, 1080, 44, 32, 1082, 1086, 1090, 1086, 1088, 1099, 1077,
    32, 1074, 1099, 32, 1087, 1086, 1089, 1090, 1072, 1074, 1080, 1083, 1080, 32, 1076,
    1088, 1091, 1075, 1080, 1084, 32, 1080, 1083, 1080, 32, 1089, 1077, 1073, 1077, 46]"

text \<open>tasks of the team\<close>

definition txt_lh_team :: utext where
  "txt_lh_team =
   [128101, 32, 1047, 1072, 1076, 1072, 1095, 1080, 32, 1082, 1086, 1084, 1072, 1085, 1076,
    1099]"

text \<open>the list of the whole team\<close>

definition txt_lh_team_sub :: utext where
  "txt_lh_team_sub =
   [1054, 1073, 1097, 1080, 1081, 32, 1089, 1087, 1080, 1089, 1086, 1082, 32, 1082, 1086,
    1084, 1072, 1085, 1076, 1099, 44, 32, 1095, 1090, 1086, 1073, 1099, 32, 1074, 1080,
    1076, 1077, 1090, 1100, 32, 1082, 1072, 1088, 1090, 1080, 1085, 1091, 32, 1094, 1077,
    1083, 1080, 1082, 1086, 1084, 46]"

text \<open>my focus\<close>

definition txt_lh_focus :: utext where
  "txt_lh_focus =
   [129517, 32, 1052, 1086, 1081, 32, 1092, 1086, 1082, 1091, 1089]"

text \<open>what is urgent, waits for you or may get stuck\<close>

definition txt_lh_focus_sub :: utext where
  "txt_lh_focus_sub =
   [1069, 1082, 1088, 1072, 1085, 32, 1074, 1085, 1080, 1084, 1072, 1085, 1080, 1103, 58,
    32, 1095, 1090, 1086, 32, 1075, 1086, 1088, 1080, 1090, 44, 32, 1078, 1076, 1105, 1090,
    32, 1074, 1072, 1089, 32, 1080, 1083, 1080, 32, 1084, 1086, 1078, 1077, 1090, 32, 1079,
    1072, 1089, 1090, 1088, 1103, 1090, 1100, 46]"

text \<open>inbox of the manager\<close>

definition txt_lh_inbox :: utext where
  "txt_lh_inbox =
   [129514, 32, 73, 110, 98, 111, 120, 32, 1084, 1077, 1085, 1077, 1076, 1078, 1077, 1088,
    1072]"

text \<open>the tasks that need your decision most often\<close>

definition txt_lh_inbox_sub :: utext where
  "txt_lh_inbox_sub =
   [1047, 1076, 1077, 1089, 1100, 32, 1089, 1086, 1073, 1088, 1072, 1085, 1099, 32, 1079,
    1072, 1076, 1072, 1095, 1080, 44, 32, 1075, 1076, 1077, 32, 1095, 1072, 1097, 1077, 32,
    1074, 1089, 1077, 1075, 1086, 32, 1085, 1091, 1078, 1085, 1086, 32, 1074, 1072, 1096,
    1077, 32, 1088, 1077, 1096, 1077, 1085, 1080, 1077, 46]"

text \<open>no deadline\<close>

definition txt_ll_no_deadline :: utext where
  "txt_ll_no_deadline =
   [1041, 1077, 1079, 32, 1089, 1088, 1086, 1082, 1072]"

text \<open>space, bullet, space\<close>

definition txt_ll_sep :: utext where
  "txt_ll_sep =
   [32, 8226, 32]"

text \<open>new line, information sign\<close>

definition txt_ll_note :: utext where
  "txt_ll_note =
   [10, 32, 32, 32, 8505, 65039, 32]"

text \<open>new line, indent\<close>

definition txt_ll_indent :: utext where
  "txt_ll_indent =
   [10, 32, 32, 32]"

text \<open>nothing here yet\<close>

definition txt_list_empty :: utext where
  "txt_list_empty =
   [10, 10, 1055, 1086, 1082, 1072, 32, 1079, 1076, 1077, 1089, 1100, 32, 1087, 1091, 1089,
    1090, 1086, 46]"

text \<open>delivery\<close>

definition txt_cd_delivery :: utext where
  "txt_cd_delivery =
   [1044, 1086, 1089, 1090, 1072, 1074, 1082, 1072, 58, 32]"

text \<open>delivery (part 2)\<close>

definition txt_cd_delivery_2 :: utext where
  "txt_cd_delivery_2 =
   [32, 8212, 32]"

text \<open>delivery: none\<close>

definition txt_cd_none :: utext where
  "txt_cd_none =
   [1044, 1086, 1089, 1090, 1072, 1074, 1082, 1072, 58, 32, 8212]"

text \<open>important now: there is a blocker\<close>

definition txt_pn_blocker :: utext where
  "txt_pn_blocker =
   [1057, 1077, 1081, 1095, 1072, 1089, 32, 1074, 1072, 1078, 1085, 1086, 58, 32, 1077,
    1089, 1090, 1100, 32, 1073, 1083, 1086, 1082, 1077, 1088, 32, 8212, 32]"

text \<open>important now: the assignee has not opened the bot\<close>

definition txt_pn_not_opened :: utext where
  "txt_pn_not_opened =
   [1057, 1077, 1081, 1095, 1072, 1089, 32, 1074, 1072, 1078, 1085, 1086, 58, 32, 1080,
    1089, 1087, 1086, 1083, 1085, 1080, 1090, 1077, 1083, 1100, 32, 1077, 1097, 1105, 32,
    1085, 1077, 32, 1086, 1090, 1082, 1088, 1099, 1083, 32, 1073, 1086, 1090, 1072]"

text \<open>important now: the task waits for the review\<close>

definition txt_pn_review :: utext where
  "txt_pn_review =
   [1057, 1077, 1081, 1095, 1072, 1089, 32, 1074, 1072, 1078, 1085, 1086, 58, 32, 1079,
    1072, 1076, 1072, 1095, 1072, 32, 1078, 1076, 1105, 1090, 32, 1088, 1077, 1096, 1077,
    1085, 1080, 1103, 32, 1087, 1086, 32, 1087, 1088, 1086, 1074, 1077, 1088, 1082, 1077]"

text \<open>important now: mind the deadline and the next step\<close>

definition txt_pn_deadline :: utext where
  "txt_pn_deadline =
   [1057, 1077, 1081, 1095, 1072, 1089, 32, 1074, 1072, 1078, 1085, 1086, 58, 32, 1076,
    1077, 1088, 1078, 1080, 1090, 1077, 32, 1074, 32, 1092, 1086, 1082, 1091, 1089, 1077,
    32, 1089, 1088, 1086, 1082, 32, 1080, 32, 1089, 1083, 1077, 1076, 1091, 1102, 1097,
    1080, 1081, 32, 1096, 1072, 1075]"

text \<open>important now: the task is active\<close>

definition txt_pn_active :: utext where
  "txt_pn_active =
   [1057, 1077, 1081, 1095, 1072, 1089, 32, 1074, 1072, 1078, 1085, 1086, 58, 32, 1079,
    1072, 1076, 1072, 1095, 1072, 32, 1072, 1082, 1090, 1080, 1074, 1085, 1072, 44, 32,
    1084, 1086, 1078, 1085, 1086, 32, 1087, 1088, 1086, 1076, 1086, 1083, 1078, 1072, 1090,
    1100, 32, 1088, 1072, 1073, 1086, 1090, 1091]"

text \<open>context\<close>

definition txt_ck_context :: utext where
  "txt_ck_context =
   [1082, 1086, 1085, 1090, 1077, 1082, 1089, 1090]"

text \<open>blocker\<close>

definition txt_ck_blocker :: utext where
  "txt_ck_blocker =
   [1073, 1083, 1086, 1082, 1077, 1088]"

text \<open>system\<close>

definition txt_ck_system :: utext where
  "txt_ck_system =
   [1089, 1080, 1089, 1090, 1077, 1084, 1085, 1086, 1077]"

text \<open>no actions available\<close>

definition txt_no_actions :: utext where
  "txt_no_actions =
   [1076, 1086, 1089, 1090, 1091, 1087, 1085, 1099, 1093, 32, 1076, 1077, 1081, 1089, 1090,
    1074, 1080, 1081, 32, 1085, 1077, 1090]"

text \<open>not given\<close>

definition txt_not_given :: utext where
  "txt_not_given =
   [1085, 1077, 32, 1091, 1082, 1072, 1079, 1072, 1085]"

text \<open>compact card\<close>

definition txt_tdc :: utext where
  "txt_tdc =
   [32, 8226, 32]"

text \<open>compact card (part 2)\<close>

definition txt_tdc_2 :: utext where
  "txt_tdc_2 =
   [10, 1057, 1088, 1086, 1082, 58, 32]"

text \<open>compact card (part 3)\<close>

definition txt_tdc_3 :: utext where
  "txt_tdc_3 =
   [10, 1048, 1089, 1087, 1086, 1083, 1085, 1080, 1090, 1077, 1083, 1100, 58, 32]"

text \<open>compact card (part 4)\<close>

definition txt_tdc_4 :: utext where
  "txt_tdc_4 =
   [10, 1057, 1083, 1077, 1076, 1091, 1102, 1097, 1080, 1081, 32, 1096, 1072, 1075, 58, 32]"

text \<open>compact card (part 5)\<close>

definition txt_tdc_5 :: utext where
  "txt_tdc_5 =
   [10, 10, 1050, 1086, 1088, 1086, 1090, 1082, 1086, 58, 10]"

text \<open>full card\<close>

definition txt_tde :: utext where
  "txt_tde =
   [32, 8226, 32]"

text \<open>full card (part 2)\<close>

definition txt_tde_2 :: utext where
  "txt_tde_2 =
   [10, 1057, 1088, 1086, 1082, 58, 32]"

text \<open>full card (part 3)\<close>

definition txt_tde_3 :: utext where
  "txt_tde_3 =
   [10, 1048, 1089, 1087, 1086, 1083, 1085, 1080, 1090, 1077, 1083, 1100, 58, 32]"

text \<open>full card (part 4)\<close>

definition txt_tde_4 :: utext where
  "txt_tde_4 =
   [10, 1057, 1083, 1077, 1076, 1091, 1102, 1097, 1080, 1081, 32, 1096, 1072, 1075, 58, 32]"

text \<open>full card (part 5)\<close>

definition txt_tde_5 :: utext where
  "txt_tde_5 =
   [10, 10, 1063, 1090, 1086, 32, 1085, 1091, 1078, 1085, 1086, 32, 1089, 1076, 1077, 1083,
    1072, 1090, 1100, 58, 10]"

text \<open>full card (part 6)\<close>

definition txt_tde_6 :: utext where
  "txt_tde_6 =
   [10, 10, 1054, 1078, 1080, 1076, 1072, 1077, 1084, 1099, 1081, 32, 1088, 1077, 1079,
    1091, 1083, 1100, 1090, 1072, 1090, 58, 10]"

text \<open>full card (part 7)\<close>

definition txt_tde_7 :: utext where
  "txt_tde_7 =
   [10, 10, 1050, 1088, 1080, 1090, 1077, 1088, 1080, 1080, 32, 1087, 1088, 1080, 1105,
    1084, 1082, 1080, 58, 10]"

text \<open>full card (part 8)\<close>

definition txt_tde_8 :: utext where
  "txt_tde_8 =
   [10, 10, 1055, 1086, 1089, 1083, 1077, 1076, 1085, 1080, 1077, 32, 1082, 1086, 1084,
    1084, 1077, 1085, 1090, 1072, 1088, 1080, 1080, 58, 10]"

text \<open>full card (part 9)\<close>

definition txt_tde_9 :: utext where
  "txt_tde_9 =
   [10, 10, 1055, 1086, 1089, 1083, 1077, 1076, 1085, 1080, 1077, 32, 1080, 1079, 1084,
    1077, 1085, 1077, 1085, 1080, 1103, 58, 10]"

text \<open>confirm the cancellation\<close>

definition txt_cc :: utext where
  "txt_cc =
   [9940, 32, 1055, 1086, 1076, 1090, 1074, 1077, 1088, 1076, 1080, 1090, 1077, 32, 1086,
    1090, 1084, 1077, 1085, 1091, 10, 10, 1042, 1099, 32, 1076, 1077, 1081, 1089, 1090,
    1074, 1080, 1090, 1077, 1083, 1100, 1085, 1086, 32, 1093, 1086, 1090, 1080, 1090, 1077,
    32, 1086, 1090, 1084, 1077, 1085, 1080, 1090, 1100, 32, 1079, 1072, 1076, 1072, 1095,
    1091, 32]"

text \<open>confirm the cancellation (part 2)\<close>

definition txt_cc_2 :: utext where
  "txt_cc_2 =
   [32, 171]"

text \<open>confirm the cancellation (part 3)\<close>

definition txt_cc_3 :: utext where
  "txt_cc_3 =
   [187, 63, 10, 1069, 1090, 1086, 32, 1076, 1077, 1081, 1089, 1090, 1074, 1080, 1077, 32,
    1091, 1074, 1080, 1076, 1103, 1090, 32, 1091, 1095, 1072, 1089, 1090, 1085, 1080, 1082,
    1080, 32, 1079, 1072, 1076, 1072, 1095, 1080, 46]"

text \<open>comment on the task\<close>

definition txt_tp_comment :: utext where
  "txt_tp_comment =
   [128172, 32, 1050, 1086, 1084, 1084, 1077, 1085, 1090, 1072, 1088, 1080, 1081, 32, 1082,
    32, 1079, 1072, 1076, 1072, 1095, 1077, 32]"

text \<open>comment on the task (part 2)\<close>

definition txt_tp_comment_2 :: utext where
  "txt_tp_comment_2 =
   [32, 171]"

text \<open>comment on the task (part 3)\<close>

definition txt_tp_comment_3 :: utext where
  "txt_tp_comment_3 =
   [187, 10, 10, 1054, 1090, 1087, 1088, 1072, 1074, 1100, 1090, 1077, 32, 1086, 1076, 1080,
    1085, 32, 1082, 1086, 1088, 1086, 1090, 1082, 1080, 1081, 32, 1082, 1086, 1084, 1084,
    1077, 1085, 1090, 1072, 1088, 1080, 1081, 46, 32, 1054, 1085, 32, 1087, 1086, 1103,
    1074, 1080, 1090, 1089, 1103, 32, 1074, 32, 1082, 1072, 1088, 1090, 1086, 1095, 1082,
    1077, 32, 1080, 32, 1091, 1081, 1076, 1105, 1090, 32, 1091, 1095, 1072, 1089, 1090,
    1085, 1080, 1082, 1072, 1084, 32, 1079, 1072, 1076, 1072, 1095, 1080, 46]"

text \<open>what blocks the task\<close>

definition txt_tp_blocker :: utext where
  "txt_tp_blocker =
   [128679, 32, 1063, 1090, 1086, 32, 1084, 1077, 1096, 1072, 1077, 1090, 32, 1087, 1086,
    32, 1079, 1072, 1076, 1072, 1095, 1077, 32]"

text \<open>what blocks the task (part 2)\<close>

definition txt_tp_blocker_2 :: utext where
  "txt_tp_blocker_2 =
   [32, 171]"

text \<open>what blocks the task (part 3)\<close>

definition txt_tp_blocker_3 :: utext where
  "txt_tp_blocker_3 =
   [187, 63, 10, 10, 1054, 1087, 1080, 1096, 1080, 1090, 1077, 32, 1073, 1083, 1086, 1082,
    1077, 1088, 32, 1086, 1076, 1085, 1080, 1084, 32, 1089, 1086, 1086, 1073, 1097, 1077,
    1085, 1080, 1077, 1084, 46, 32, 1071, 32, 1086, 1090, 1084, 1077, 1095, 1091, 32, 1079,
    1072, 1076, 1072, 1095, 1091, 32, 1082, 1072, 1082, 32, 1079, 1072, 1073, 1083, 1086,
    1082, 1080, 1088, 1086, 1074, 1072, 1085, 1085, 1091, 1102, 32, 1080, 32, 1087, 1086,
    1082, 1072, 1078, 1091, 32, 1101, 1090, 1086, 32, 1072, 1074, 1090, 1086, 1088, 1091,
    32, 1080, 32, 1084, 1077, 1085, 1077, 1076, 1078, 1077, 1088, 1091, 46]"

text \<open>to whom to hand over the task\<close>

definition txt_tp_reassign :: utext where
  "txt_tp_reassign =
   [128100, 32, 1050, 1086, 1084, 1091, 32, 1087, 1077, 1088, 1077, 1076, 1072, 1090, 1100,
    32, 1079, 1072, 1076, 1072, 1095, 1091, 32]"

text \<open>to whom to hand over the task (part 2)\<close>

definition txt_tp_reassign_2 :: utext where
  "txt_tp_reassign_2 =
   [32, 171]"

text \<open>to whom to hand over the task (part 3)\<close>

definition txt_tp_reassign_3 :: utext where
  "txt_tp_reassign_3 =
   [187, 63, 10, 10, 1053, 1072, 1087, 1080, 1096, 1080, 1090, 1077, 32, 1080, 1084, 1103,
    32, 1089, 1086, 1090, 1088, 1091, 1076, 1085, 1080, 1082, 1072, 32, 1080, 1083, 1080,
    32, 64, 117, 115, 101, 114, 110, 97, 109, 101, 46, 32, 1045, 1089, 1083, 1080, 32, 1089,
    1086, 1074, 1087, 1072, 1076, 1077, 1085, 1080, 1077, 32, 1073, 1091, 1076, 1077, 1090,
    32, 1085, 1077, 1086, 1095, 1077, 1074, 1080, 1076, 1085, 1099, 1084, 44, 32, 1103, 32,
    1087, 1086, 1087, 1088, 1086, 1096, 1091, 32, 1091, 1090, 1086, 1095, 1085, 1080, 1090,
    1100, 46]"

text \<open>the assignee\<close>

definition txt_dh_assignee :: utext where
  "txt_dh_assignee =
   [1080, 1089, 1087, 1086, 1083, 1085, 1080, 1090, 1077, 1083, 1100]"

text \<open>how to connect the assignee\<close>

definition txt_dh :: utext where
  "txt_dh =
   [128075, 32, 1050, 1072, 1082, 32, 1087, 1086, 1076, 1082, 1083, 1102, 1095, 1080, 1090,
    1100, 32, 1080, 1089, 1087, 1086, 1083, 1085, 1080, 1090, 1077, 1083, 1103, 10, 10,
    1047, 1072, 1076, 1072, 1095, 1072, 32]"

text \<open>how to connect the assignee (part 2)\<close>

definition txt_dh_2 :: utext where
  "txt_dh_2 =
   [32, 1091, 1078, 1077, 32, 1089, 1086, 1093, 1088, 1072, 1085, 1077, 1085, 1072, 44, 32,
    1085, 1086, 32]"

text \<open>how to connect the assignee (part 3)\<close>

definition txt_dh_3 :: utext where
  "txt_dh_3 =
   [32, 1077, 1097, 1105, 32, 1085, 1077, 32, 1079, 1072, 1087, 1091, 1089, 1082, 1072,
    1083, 32, 1073, 1086, 1090, 1072, 46, 10, 10, 1063, 1090, 1086, 32, 1076, 1077, 1083,
    1072, 1090, 1100, 32, 1076, 1072, 1083, 1100, 1096, 1077, 58, 10, 8226, 32, 1087, 1086,
    1087, 1088, 1086, 1089, 1080, 1090, 1077, 32, 1089, 1086, 1090, 1088, 1091, 1076, 1085,
    1080, 1082, 1072, 32, 1086, 1090, 1082, 1088, 1099, 1090, 1100, 32, 1073, 1086, 1090,
    1072, 10, 8226, 32, 1087, 1086, 1087, 1088, 1086, 1089, 1080, 1090, 1077, 32, 1077,
    1075, 1086, 32, 1086, 1090, 1087, 1088, 1072, 1074, 1080, 1090, 1100, 32, 47, 115, 116,
    97, 114, 116, 10, 8226, 32, 1087, 1086, 1089, 1083, 1077, 32, 1101, 1090, 1086, 1075,
    1086, 32, 1079, 1072, 1076, 1072, 1095, 1072, 32, 1085, 1072, 1095, 1085, 1105, 1090,
    32, 1076, 1086, 1089, 1090, 1072, 1074, 1083, 1103, 1090, 1100, 1089, 1103, 32, 1085,
    1072, 1087, 1088, 1103, 1084, 1091, 1102, 32, 1072, 1074, 1090, 1086, 1084, 1072, 1090,
    1080, 1095, 1077, 1089, 1082, 1080, 10, 10, 1058, 1077, 1082, 1089, 1090, 44, 32, 1082,
    1086, 1090, 1086, 1088, 1099, 1081, 32, 1084, 1086, 1078, 1085, 1086, 32, 1087, 1077,
    1088, 1077, 1089, 1083, 1072, 1090, 1100, 58, 10, 10, 171, 1054, 1090, 1082, 1088, 1086,
    1081, 44, 32, 1087, 1086, 1078, 1072, 1083, 1091, 1081, 1089, 1090, 1072, 44, 32, 116,
    97, 115, 107, 32, 98, 111, 116, 32, 1080, 32, 1086, 1090, 1087, 1088, 1072, 1074, 1100,
    32, 1082, 1086, 1084, 1072, 1085, 1076, 1091, 32, 47, 115, 116, 97, 114, 116, 46, 32,
    1055, 1086, 1089, 1083, 1077, 32, 1101, 1090, 1086, 1075, 1086, 32, 1103, 32, 1089,
    1084, 1086, 1075, 1091, 32, 1085, 1072, 1079, 1085, 1072, 1095, 1072, 1090, 1100, 32,
    1090, 1077, 1073, 1077, 32, 1079, 1072, 1076, 1072, 1095, 1080, 32, 1087, 1088, 1103,
    1084, 1086, 32, 1074, 32, 84, 101, 108, 101, 103, 114, 97, 109, 46, 187]"

lemmas ui_tasks_text_defs =
  txt_preview_more_def
  txt_tc_created_def
  txt_tc_created_2_def
  txt_tc_created_3_def
  txt_tc_created_4_def
  txt_tc_created_5_def
  txt_tc_duplicate_def
  txt_tc_duplicate_2_def
  txt_tc_duplicate_3_def
  txt_tc_anchor_def
  txt_tc_anchor_2_def
  txt_tc_no_match_def
  txt_tc_clarify_def
  txt_lh_mine_def
  txt_lh_mine_sub_def
  txt_lh_created_def
  txt_lh_created_sub_def
  txt_lh_team_def
  txt_lh_team_sub_def
  txt_lh_focus_def
  txt_lh_focus_sub_def
  txt_lh_inbox_def
  txt_lh_inbox_sub_def
  txt_ll_no_deadline_def
  txt_ll_sep_def
  txt_ll_note_def
  txt_ll_indent_def
  txt_list_empty_def
  txt_cd_delivery_def
  txt_cd_delivery_2_def
  txt_cd_none_def
  txt_pn_blocker_def
  txt_pn_not_opened_def
  txt_pn_review_def
  txt_pn_deadline_def
  txt_pn_active_def
  txt_ck_context_def
  txt_ck_blocker_def
  txt_ck_system_def
  txt_no_actions_def
  txt_not_given_def
  txt_tdc_def
  txt_tdc_2_def
  txt_tdc_3_def
  txt_tdc_4_def
  txt_tdc_5_def
  txt_tde_def
  txt_tde_2_def
  txt_tde_3_def
  txt_tde_4_def
  txt_tde_5_def
  txt_tde_6_def
  txt_tde_7_def
  txt_tde_8_def
  txt_tde_9_def
  txt_cc_def
  txt_cc_2_def
  txt_cc_3_def
  txt_tp_comment_def
  txt_tp_comment_2_def
  txt_tp_comment_3_def
  txt_tp_blocker_def
  txt_tp_blocker_2_def
  txt_tp_blocker_3_def
  txt_tp_reassign_def
  txt_tp_reassign_2_def
  txt_tp_reassign_3_def
  txt_dh_assignee_def
  txt_dh_def
  txt_dh_2_def
  txt_dh_3_def

end
