(* ===== verification/Keyboards.thy ===== *)
theory Keyboards
  imports Screens Task_Lists Task_Details Gateway Screen_Texts
begin

section \<open>Keyboards\<close>

text \<open>
  \<^verbatim>\<open>src/presentation/telegram/ui_keyboards.rs\<close> and the labels of \<^verbatim>\<open>ui_shared.rs\<close>: the inline keyboard
  of every screen. A button carries its label and its action; the payload Telegram stores with it is
  the encoding of the action (\<^verbatim>\<open>encode_callback\<close>), applied when the keyboard is sent.
\<close>

datatype button = Button utext telegram_callback

type_synonym keyboard = "button list list"

fun button_label :: "button \<Rightarrow> utext" where
  "button_label (Button l _) = l"

fun button_action :: "button \<Rightarrow> telegram_callback" where
  "button_action (Button _ cb) = cb"

definition button_data :: "(uuid \<Rightarrow> utext) \<Rightarrow> button \<Rightarrow> utext" where
  "button_data show_uuid b = encode_callback show_uuid (button_action b)"

definition keyboard_actions :: "keyboard \<Rightarrow> telegram_callback list" where
  "keyboard_actions kb = map button_action (concat kb)"

subsection \<open>Labels\<close>

definition MAX_TASK_BUTTON_TITLE_LENGTH :: nat where
  "MAX_TASK_BUTTON_TITLE_LENGTH = 28"

fun action_label :: "task_action \<Rightarrow> utext" where
  "action_label StartProgress = txt_b_start"
| "action_label SubmitForReview = txt_b_submit_review"
| "action_label ApproveReview = txt_b_approve"
| "action_label ReturnToWork = txt_b_return"
| "action_label Cancel = txt_b_cancel"
| "action_label ReportBlocker = txt_b_blocker"
| "action_label AddComment = txt_b_comment"
| "action_label Reassign = txt_b_reassign"

fun back_label :: "task_list_origin \<Rightarrow> utext" where
  "back_label OriginAssigned = txt_b_back_assigned"
| "back_label OriginCreated = txt_b_back_created"
| "back_label OriginTeam = txt_b_back_team"
| "back_label OriginFocus = txt_b_back_focus"
| "back_label OriginManagerInbox = txt_b_back_inbox"

fun status_badge :: "task_status \<Rightarrow> utext" where
  "status_badge Created = txt_badge_new"
| "status_badge Sent = txt_badge_sent"
| "status_badge InProgress = txt_badge_progress"
| "status_badge Blocked = txt_badge_blocked"
| "status_badge InReview = txt_badge_review"
| "status_badge Completed = txt_badge_done"
| "status_badge Cancelled = txt_badge_cancelled"

definition truncate_title :: "utext \<Rightarrow> utext" where
  "truncate_title v =
     (if length v > MAX_TASK_BUTTON_TITLE_LENGTH
      then take MAX_TASK_BUTTON_TITLE_LENGTH v @ txt_ellipsis
      else take MAX_TASK_BUTTON_TITLE_LENGTH v)"

lemma length_truncate_title: "length (truncate_title v) \<le> 29"
  by (simp add: truncate_title_def MAX_TASK_BUTTON_TITLE_LENGTH_def txt_ellipsis_def)

definition is_dangerous_action :: "task_action \<Rightarrow> bool" where
  "is_dangerous_action a \<longleftrightarrow> a = Cancel"

definition ACTION_PRIORITY :: "task_action list" where
  "ACTION_PRIORITY = [StartProgress, SubmitForReview, ApproveReview, ReportBlocker, Reassign]"

definition next_best_action :: "task_action list \<Rightarrow> task_action option" where
  "next_best_action actions =
     (case find (\<lambda>a. a \<in> set actions) ACTION_PRIORITY of
        Some a \<Rightarrow> Some a
      | None \<Rightarrow> (case actions of a # _ \<Rightarrow> Some a | [] \<Rightarrow> None))"

lemma next_best_action_offered: "next_best_action actions = Some a \<Longrightarrow> a \<in> set actions"
  by (auto simp: next_best_action_def find_Some_iff split: option.splits list.splits)

lemma next_best_action_None: "next_best_action actions = None \<longleftrightarrow> actions = []"
  by (auto simp: next_best_action_def find_None_iff ACTION_PRIORITY_def
      split: option.splits list.splits if_splits)

subsection \<open>Menus\<close>

abbreviation home_row :: "button list" where
  "home_row \<equiv> [Button txt_b_home MenuHome]"

definition main_menu_keyboard :: "user \<Rightarrow> keyboard" where
  "main_menu_keyboard actor =
    (let head_rows =
           [[Button txt_b_focus (ListTasks OriginFocus None),
             Button txt_b_create MenuCreate],
            [Button txt_b_mine (ListTasks OriginAssigned None),
             Button txt_b_created (ListTasks OriginCreated None)]];
         tail_rows =
           [[Button txt_b_stats MenuStats,
             Button txt_b_profile MenuSettings],
            [Button txt_b_help MenuHelp]];
         manager_rows =
           (if is_manager_or_admin (u_role actor) then
              [[Button txt_b_team (ListTasks OriginTeam None),
                Button txt_b_inbox (ListTasks OriginManagerInbox None)],
               [Button txt_b_team_stats MenuTeamStats]]
            else []);
         admin_rows =
           (if is_admin (u_role actor) then
              [[Button txt_b_sync MenuSyncEmployees]]
            else [])
     in head_rows @ manager_rows @ tail_rows @ admin_rows)"

definition create_menu_keyboard :: keyboard where
  "create_menu_keyboard =
     [[Button txt_b_quick StartQuickCreate,
       Button txt_b_guided StartGuidedCreate],
      home_row]"

definition quick_capture_keyboard :: keyboard where
  "quick_capture_keyboard = [home_row]"

subsection \<open>Lists and cards\<close>

definition task_list_button_label :: "(day \<Rightarrow> utext) \<Rightarrow> task_list_item \<Rightarrow> utext" where
  "task_list_button_label day_month item =
     li_public_code item @ [32] @ status_badge (li_status item) @ [32]
     @ truncate_title (li_title item)
     @ (case li_deadline item of Some d \<Rightarrow> txt_b_dot @ day_month d | None \<Rightarrow> [])"

definition task_list_keyboard ::
  "(day \<Rightarrow> utext) \<Rightarrow> task_list_origin \<Rightarrow> task_list_page \<Rightarrow> keyboard" where
  "task_list_keyboard day_month orig page =
     map (\<lambda>item. [Button (task_list_button_label day_month item)
                    (OpenTask (li_task_uid item) orig Compact)])
       (concat (map sn_tasks (pg_sections page)))
     @ (case pg_next_cursor page of
          Some cursor \<Rightarrow> [[Button txt_b_more (ListTasks orig (Some cursor))]]
        | None \<Rightarrow> [])
     @ [home_row]"

fun action_button :: "task_action \<Rightarrow> uuid \<Rightarrow> task_list_origin \<Rightarrow> button" where
  "action_button Cancel uid orig = Button (action_label Cancel) (ConfirmTaskCancel uid orig)"
| "action_button AddComment uid orig =
     Button (action_label AddComment) (StartTaskCommentInput uid orig)"
| "action_button ReportBlocker uid orig =
     Button (action_label ReportBlocker) (StartTaskBlockerInput uid orig)"
| "action_button Reassign uid orig =
     Button (action_label Reassign) (StartTaskReassignInput uid orig)"
| "action_button a uid orig =
     Button (action_label a) (UpdateTaskStatus uid (the (action_to_status a)) orig)"

text \<open>\<^verbatim>\<open>expect\<close> in the last case never panics: those actions do have a status.\<close>

lemma status_button_never_panics:
  "a \<notin> {Cancel, AddComment, ReportBlocker, Reassign} \<Longrightarrow> action_to_status a \<noteq> None"
  by (cases a) simp_all

text \<open>\<^verbatim>\<open>slice::chunks(2)\<close>\<close>

fun chunks2 :: "'a list \<Rightarrow> 'a list list" where
  "chunks2 (x # y # xs) = [x, y] # chunks2 xs"
| "chunks2 [x] = [[x]]"
| "chunks2 [] = []"

lemma concat_chunks2 [simp]: "concat (chunks2 xs) = xs"
  by (induction xs rule: chunks2.induct) simp_all

fun task_view_toggle_button :: "uuid \<Rightarrow> task_list_origin \<Rightarrow> task_card_mode \<Rightarrow> button" where
  "task_view_toggle_button uid orig Compact =
     Button txt_b_more_detail (OpenTask uid orig Expanded)"
| "task_view_toggle_button uid orig Expanded =
     Button txt_b_short (OpenTask uid orig Compact)"

definition task_detail_keyboard ::
  "task_status_details \<Rightarrow> task_list_origin \<Rightarrow> task_card_mode \<Rightarrow> keyboard" where
  "task_detail_keyboard details orig mode =
    (let uid = td_task_uid details;
         actions = td_available_actions details;
         primary = next_best_action actions;
         secondary = filter (\<lambda>a. \<not> is_dangerous_action a)
                       (filter (\<lambda>a. Some a \<noteq> primary) actions);
         dangerous = filter is_dangerous_action actions
     in (case primary of Some a \<Rightarrow> [[action_button a uid orig]] | None \<Rightarrow> [])
        @ chunks2 (map (\<lambda>a. action_button a uid orig) secondary)
        @ (if dangerous = [] then [] else [map (\<lambda>a. action_button a uid orig) dangerous])
        @ (if td_delivery_status details = Some PendingAssigneeRegistration
           then [[Button txt_b_connect (ShowDeliveryHelp uid orig)]]
           else [])
        @ [[task_view_toggle_button uid orig mode],
           [Button (back_label orig) (ListTasks orig None)],
           home_row])"

definition cancel_confirmation_keyboard :: "uuid \<Rightarrow> task_list_origin \<Rightarrow> keyboard" where
  "cancel_confirmation_keyboard uid orig =
     [[Button txt_b_yes_cancel (ExecuteTaskCancel uid orig),
       Button txt_b_back (OpenTask uid orig Compact)],
      home_row]"

definition delivery_help_keyboard :: "uuid \<Rightarrow> task_list_origin \<Rightarrow> keyboard" where
  "delivery_help_keyboard uid orig =
     [[Button txt_b_to_task (OpenTask uid orig Compact)], home_row]"

subsection \<open>The status buttons of a card\<close>

text \<open>The button of an action and the status its press asks for: cancelling goes through a confirmation.\<close>

definition asks_for :: "telegram_callback \<Rightarrow> uuid \<Rightarrow> task_status \<Rightarrow> bool" where
  "asks_for action uid s \<longleftrightarrow> (\<exists>orig. action = UpdateTaskStatus uid s orig)
     \<or> s = Cancelled \<and> (\<exists>orig. action = ConfirmTaskCancel uid orig)"

lemma asks_for_action_button:
  "asks_for (button_action (action_button a uid orig)) v s \<longleftrightarrow>
     v = uid \<and> (action_to_status a = Some s \<or> a = Cancel \<and> s = Cancelled)"
  by (cases a) (auto simp: asks_for_def)

lemma offered_transition:
  "a \<in> set (available_actions actor t) \<Longrightarrow> action_to_status a = Some s \<or> a = Cancel \<and> s = Cancelled \<Longrightarrow>
     can_transition_to (t_status t) s"
  by (cases a) (auto simp: mem_available_actions Let_def transition_iffs is_terminal_iff)

lemma offered_normalize:
  "a \<in> set (available_actions actor t) \<Longrightarrow> action_to_status a = Some s \<or> a = Cancel \<and> s = Cancelled \<Longrightarrow>
     normalize_requested_status actor t s = Inr s"
  by (cases a) (auto simp: mem_available_actions Let_def normalize_ok_iff)

lemma offered_authorized:
  "a \<in> set (available_actions actor t) \<Longrightarrow> action_to_status a = Some s \<or> a = Cancel \<and> s = Cancelled \<Longrightarrow>
     u_id actor = Some i \<Longrightarrow> ensure_can_change_status actor t s = Inr ()"
  by (cases a) (auto simp: mem_available_actions Let_def change_status_ok_iff creator_can_change_status_def
      assignee_can_change_status_def manager_can_change_status_def)

lemma card_buttons:
  assumes "row \<in> set (task_detail_keyboard d orig mode)" "b \<in> set row" "asks_for (button_action b) v s"
  shows "\<exists>a \<in> set (td_available_actions d). b = action_button a (td_task_uid d) orig"
proof -
  have "\<not> asks_for (button_action (task_view_toggle_button u orig mode)) v s" for u
    by (cases mode) (auto simp: asks_for_def)
  moreover have "b \<in> set (concat (task_detail_keyboard d orig mode))" using assms(1,2) by auto
  ultimately show ?thesis
    using assms(3)
    by (auto simp: task_detail_keyboard_def Let_def asks_for_def
        split: option.splits if_splits dest: next_best_action_offered next_best_action_offered[OF sym])
qed

text \<open>C17. Every status button of a task card works for the person it is shown to. When somebody has opened
  a card, whatever the keyboard has been asked to look like, a button of it that asks for a status, at
  once or after the confirmation of a cancellation, asks it of the task of the card, and on a database
  that answers and has its keys in order \<^verbatim>\<open>UpdateTaskStatusUseCase\<close>, called for that person with that
  status, succeeds and the task has exactly that status: the review gate does not rewrite it, the policy
  grants it and the state machine allows it.\<close>

theorem offered_status_actions_work:
  assumes shown: "get_task_status show_day show_time actor uid w0 = (Inr details, w)"
    and rest: "tasks_ok w" "w_faults w = []" "\<And>t. task_at w uid = Some t \<Longrightarrow> keys_resolve actor t w"
    and button: "row \<in> set (task_detail_keyboard details orig mode)" "b \<in> set row" "asks_for (button_action b) v s"
  shows "v = uid \<and> (\<exists>summary w'. update_task_status actor v s w = (Inr summary, w') \<and> ts_status summary = s)"
proof -
  obtain t where t: "task_at w0 uid = Some t" "participates actor t"
    "td_available_actions details = available_actions actor t" "td_task_uid details = uid"
    using shown details_show_the_task[OF shown] by metis
  have "same_tables w0 w" using obeysD[OF viewing_changes_nothing shown] .
  then have now: "task_at w uid = Some t" using t(1) task_at_same by metis
  obtain a where a: "a \<in> set (available_actions actor t)" "b = action_button a uid orig"
    using card_buttons[OF button] t(3,4) by auto
  then have asked: "v = uid" "action_to_status a = Some s \<or> a = Cancel \<and> s = Cancelled"
    using button(3) asks_for_action_button by auto
  obtain i where i: "u_id actor = Some i" using t(2) by (auto simp: participates_def)
  note granted = offered_normalize[OF a(1) asked(2)] offered_authorized[OF a(1) asked(2) i]
    offered_transition[OF a(1) asked(2)]
  show ?thesis using status_change_answers[OF rest(1,2) now rest(3)[OF now] granted] asked(1) by simp
qed

text \<open>The assignee opens the card of the sample task and presses the button that starts it.\<close>

lemma sample_card:
  "\<exists>d. get_task_status show_int show_int sample_user 1 sample_world = (Inr d, sample_world)"
proof -
  have "ensure_can_view_task sample_user sample_task = Inr ()" by (simp add: view_ok_iff participates_def)
  then show ?thesis
    by (simp add: get_task_status_def find_by_uid_def run_simps list_for_task_def
        list_recent_for_task_def resolve_assignee_display_def resolve_delivery_status_def find_user_by_id_def
        find_latest_for_task_and_recipient_def employee_display_def)
qed

theorem offered_status_actions_work_witness:
  "\<exists>d row b. get_task_status show_int show_int sample_user 1 sample_world = (Inr d, sample_world)
     \<and> row \<in> set (task_detail_keyboard d OriginAssigned Compact) \<and> b \<in> set row
     \<and> (\<exists>summary w'. update_task_status sample_user 1 InProgress sample_world = (Inr summary, w')
          \<and> ts_status summary = InProgress)"
proof -
  obtain d where d: "get_task_status show_int show_int sample_user 1 sample_world = (Inr d, sample_world)"
    using sample_card by blast
  from details_show_the_task[OF d] have t: "td_available_actions d = available_actions sample_user sample_task"
    "td_task_uid d = 1" by (auto simp: task_at_def)
  then have "next_best_action (td_available_actions d) = Some StartProgress"
    by (simp add: available_actions_def next_best_action_def ACTION_PRIORITY_def)
  then have row: "[action_button StartProgress 1 OriginAssigned] \<in> set (task_detail_keyboard d OriginAssigned Compact)"
    using t(2) by (simp add: task_detail_keyboard_def Let_def)
  have asks: "asks_for (button_action (action_button StartProgress 1 OriginAssigned)) 1 InProgress"
    by (simp add: asks_for_def)
  have keys: "keys_resolve sample_user t sample_world" if "task_at sample_world 1 = Some t" for t
    using that by (auto simp: task_at_def keys_resolve_def task_references_def references_def has_id_def participants_def)
  from offered_status_actions_work[OF d sample_ok(1) _ keys row _ asks] d row show ?thesis
    by (intro exI[of _ d] exI[of _ "[action_button StartProgress 1 OriginAssigned]"]
        exI[of _ "action_button StartProgress 1 OriginAssigned"]) simp
qed

subsection \<open>Creation\<close>

fun outcome_keyboard :: "task_creation_outcome \<Rightarrow> keyboard" where
  "outcome_keyboard (OutcomeCreated summary) =
     [[Button txt_b_open_card (OpenTask (cs_task_uid summary) OriginCreated Compact)],
      [Button txt_b_another MenuCreate, Button txt_b_home MenuHome]]"
| "outcome_keyboard (OutcomeDuplicate summary) =
     [[Button txt_b_open_card (OpenTask (cs_task_uid summary) OriginCreated Compact)],
      [Button txt_b_another MenuCreate, Button txt_b_home MenuHome]]"
| "outcome_keyboard (OutcomeClarification _) =
     [[Button txt_b_clarify MenuCreate], home_row]"

definition guided_assignee_keyboard :: keyboard where
  "guided_assignee_keyboard =
     [[Button txt_b_no_assignee DraftSkipAssignee], home_row]"

definition candidate_label :: "employee_candidate_view \<Rightarrow> utext" where
  "candidate_label c =
     ec_full_name c
     @ (case ec_telegram_username c of Some name \<Rightarrow> ascii '' (@'' @ name @ ascii '')'' | None \<Rightarrow> [])"

text \<open>One button per candidate that has an employee id.\<close>

definition candidate_rows ::
  "(int \<Rightarrow> telegram_callback) \<Rightarrow> employee_candidate_view list \<Rightarrow> keyboard" where
  "candidate_rows pick candidates =
     List.map_filter
       (\<lambda>c. map_option (\<lambda>i. [Button (candidate_label c) (pick i)]) (ec_employee_id c)) candidates"

definition guided_assignee_suggestions_keyboard :: "employee_candidate_view list \<Rightarrow> keyboard" where
  "guided_assignee_suggestions_keyboard candidates =
     candidate_rows GuidedAssigneeConfirm candidates
     @ [[Button txt_b_no_assignee DraftSkipAssignee], home_row]"

definition guided_deadline_keyboard :: keyboard where
  "guided_deadline_keyboard =
     [[Button txt_b_no_deadline DraftSkipDeadline], home_row]"

definition guided_confirmation_keyboard :: keyboard where
  "guided_confirmation_keyboard =
     [[Button txt_b_confirm_create DraftSubmit],
      [Button txt_b_edit_assignee (DraftEdit FieldAssignee),
       Button txt_b_edit_description (DraftEdit FieldDescription)],
      [Button txt_b_edit_deadline (DraftEdit FieldDeadline)],
      home_row]"

definition voice_confirmation_keyboard :: keyboard where
  "voice_confirmation_keyboard =
     [[Button txt_b_confirm_create VoiceCreateConfirm],
      [Button txt_b_fix_text VoiceCreateEdit,
       Button txt_b_voice_cancel VoiceCreateCancel],
      home_row]"

definition voice_edit_keyboard :: keyboard where
  "voice_edit_keyboard =
     [[Button txt_b_voice_back VoiceCreateBack,
       Button txt_b_voice_cancel VoiceCreateCancel],
      home_row]"

definition clarification_keyboard :: "clarification_request \<Rightarrow> keyboard" where
  "clarification_keyboard request =
     candidate_rows ClarificationPickEmployee (cl_candidates request)
     @ (if cl_allow_unassigned request
        then [[Button txt_b_create_unassigned ClarificationCreateUnassigned]]
        else [])
     @ [[Button txt_b_to_create_menu MenuCreate], home_row]"

definition registration_link_keyboard :: "employee_candidate_view list \<Rightarrow> bool \<Rightarrow> keyboard" where
  "registration_link_keyboard candidates allow_continue_unlinked =
     candidate_rows RegistrationPickEmployee candidates
     @ (if allow_continue_unlinked
        then [[Button txt_b_unlinked RegistrationContinueUnlinked]]
        else [])"

definition created_task_followup_keyboard :: "task_creation_summary \<Rightarrow> bool \<Rightarrow> keyboard" where
  "created_task_followup_keyboard summary allow_assign_owner =
     [[Button txt_b_open_card (OpenTask (cs_task_uid summary) OriginCreated Compact)]]
     @ (if allow_assign_owner
        then [[Button txt_b_who
                 (StartTaskReassignInput (cs_task_uid summary) OriginCreated)]]
        else [])
     @ [[Button txt_b_another MenuCreate, Button txt_b_home MenuHome]]"

subsection \<open>The admin panel\<close>

abbreviation panel_row :: "button list" where
  "panel_row \<equiv> [Button txt_b_panel AdminMenu]"

definition admin_menu_keyboard :: keyboard where
  "admin_menu_keyboard =
     [[Button txt_b_admins AdminUsers],
      [Button txt_b_audit AdminAudit,
       Button txt_b_security AdminSecurityAudit],
      [Button txt_b_flags AdminFeatures],
      home_row]"

fun role_badge :: "user_role \<Rightarrow> utext" where
  "role_badge Admin = txt_badge_admin"
| "role_badge Manager = txt_badge_manager"
| "role_badge User = txt_badge_user"

definition admin_user_list_label :: "user \<Rightarrow> utext" where
  "admin_user_list_label u =
    (let display = display_name_object u;
         name = (if dn_kind display = Anonymous then ascii ''ID '' @ show_int (u_telegram_id u)
                 else dn_value display)
     in role_badge (u_role u) @ [32] @ name
        @ (if u_deactivated_at u \<noteq> None then txt_badge_deactivated else []))"

definition admin_users_keyboard :: "user list \<Rightarrow> keyboard" where
  "admin_users_keyboard users =
     List.map_filter
       (\<lambda>u. map_option (\<lambda>i. [Button (admin_user_list_label u) (AdminUserDetails i)]) (u_id u)) users
     @ [panel_row, home_row]"

definition role_choices :: "(admin_role_option \<times> user_role \<times> utext) list" where
  "role_choices =
     [(OptUser, User, txt_b_role_user),
      (OptManager, Manager, txt_b_role_manager),
      (OptAdmin, Admin, txt_b_role_admin)]"

definition admin_user_details_keyboard :: "user \<Rightarrow> keyboard" where
  "admin_user_details_keyboard target =
    (case u_id target of
       None \<Rightarrow> [panel_row]
     | Some uid \<Rightarrow>
        (let role_row =
               map (\<lambda>(opt, _, lbl). Button lbl (AdminUserPrepareRoleChange uid opt))
                 (filter (\<lambda>(_, role, _). u_role target \<noteq> role) role_choices)
         in (if role_row = [] then [] else [role_row])
            @ [(if u_deactivated_at target \<noteq> None
                then [Button txt_b_activate (AdminUserPrepareReactivate uid)]
                else [Button txt_b_deactivate (AdminUserPrepareDeactivate uid)]),
               [Button txt_b_to_list AdminUsers],
               panel_row, home_row]))"

definition admin_confirmation_keyboard :: "utext \<Rightarrow> keyboard" where
  "admin_confirmation_keyboard nonce =
     [[Button txt_b_confirm (AdminConfirmNonce nonce),
       Button txt_b_admin_cancel AdminCancelPending],
      panel_row]"

definition admin_back_keyboard :: keyboard where
  "admin_back_keyboard = [panel_row, home_row]"

definition admin_features_keyboard :: "(feature_flag \<times> bool) list \<Rightarrow> keyboard" where
  "admin_features_keyboard flags =
     map (\<lambda>(flag, enabled).
            [Button
               (if enabled
                then txt_flag_on @ ascii (as_key flag) @ txt_flag_off_hint
                else txt_flag_off @ ascii (as_key flag) @ txt_flag_on_hint)
               (AdminToggleFeature (ascii (as_key flag)))]) flags
     @ [panel_row, home_row]"

fun admin_role_label :: "admin_role_option \<Rightarrow> utext" where
  "admin_role_label OptUser = txt_role_user"
| "admin_role_label OptManager = txt_role_manager"
| "admin_role_label OptAdmin = txt_role_admin"

fun describe_pending_admin_action :: "pending_admin_action \<Rightarrow> utext" where
  "describe_pending_admin_action (ChangeRole _ telegram_id name role) =
     txt_pa_assign @ name @ ascii '' (tg id '' @ show_int telegram_id
     @ txt_pa_role @ admin_role_label role"
| "describe_pending_admin_action (Deactivate _ telegram_id name) =
     txt_pa_deactivate @ name @ ascii '' (tg id ''
     @ show_int telegram_id
     @ txt_pa_loses"
| "describe_pending_admin_action (Reactivate _ telegram_id name) =
     txt_pa_reactivate @ name @ ascii '' (tg id ''
     @ show_int telegram_id @ ascii '').''"


section \<open>Labels shared by the texts of the screens\<close>

text \<open>\<^verbatim>\<open>src/presentation/telegram/ui_shared.rs\<close>: badges and labels of statuses and deliveries, and the
  two ways of laying out a list of lines.\<close>

definition MENU_EMOJI :: utext where "MENU_EMOJI = txt_e_menu"
definition CREATE_EMOJI :: utext where "CREATE_EMOJI = txt_e_create"
definition QUICK_EMOJI :: utext where "QUICK_EMOJI = txt_e_quick"
definition GUIDED_EMOJI :: utext where "GUIDED_EMOJI = txt_e_guided"
definition TASKS_EMOJI :: utext where "TASKS_EMOJI = txt_e_tasks"
definition SETTINGS_EMOJI :: utext where "SETTINGS_EMOJI = txt_e_settings"
definition HELP_EMOJI :: utext where "HELP_EMOJI = txt_e_help"
definition SYNC_EMOJI :: utext where "SYNC_EMOJI = txt_e_sync"
definition INFO_EMOJI :: utext where "INFO_EMOJI = txt_e_info"
definition TIME_EMOJI :: utext where "TIME_EMOJI = txt_e_time"

fun status_label :: "task_status \<Rightarrow> utext" where
  "status_label Created = txt_sl_new"
| "status_label Sent = txt_sl_sent"
| "status_label InProgress = txt_sl_progress"
| "status_label Blocked = txt_sl_blocked"
| "status_label InReview = txt_sl_review"
| "status_label Completed = txt_sl_done"
| "status_label Cancelled = txt_sl_cancelled"

fun delivery_badge :: "delivery_status \<Rightarrow> utext" where
  "delivery_badge DeliveredToAssignee = txt_db_delivered"
| "delivery_badge PendingDelivery = txt_db_pending"
| "delivery_badge PendingAssigneeRegistration = txt_db_waiting"
| "delivery_badge DeliveryRetry = txt_db_retry"
| "delivery_badge DeliveryFailedStatus = txt_db_failed"
| "delivery_badge CreatorOnly = txt_db_creator"

fun delivery_detail :: "delivery_status \<Rightarrow> utext" where
  "delivery_detail DeliveredToAssignee =
     txt_dd_delivered"
| "delivery_detail PendingDelivery =
     txt_dd_pending"
| "delivery_detail PendingAssigneeRegistration =
     txt_dd_waiting"
| "delivery_detail DeliveryRetry =
     txt_dd_retry"
| "delivery_detail DeliveryFailedStatus =
     txt_dd_failed"
| "delivery_detail CreatorOnly =
     txt_dd_creator"

text \<open>A dash separates a badge from its detail and stands for an empty list.\<close>

definition join_numbered_lines :: "utext list \<Rightarrow> utext" where
  "join_numbered_lines values =
     (if values = [] then txt_no_description
      else join_lines (map (\<lambda>(i, v). show_nat (i + 1) @ ascii ''. '' @ v) (enumerate 0 values)))"

definition bullet :: utext where "bullet = txt_ui_bullet"

definition join_bullets :: "utext list \<Rightarrow> utext" where
  "join_bullets values =
     (if values = [] then txt_dash else join_lines (map (\<lambda>v. bullet @ v) values))"

text \<open>A badge is never empty, so a status or a delivery always shows.\<close>

lemma badges_show: "status_badge s \<noteq> []" "status_label s \<noteq> []" "delivery_badge d \<noteq> []"
  by (cases s; simp add: keyboards_text_defs keyboards_text_defs)+ (cases d; simp add: keyboards_text_defs)

end
