(* ===== verification/Ui_Menu.thy ===== *)
theory Ui_Menu
  imports Keyboards Create_Task Screen_Texts
begin

section \<open>Texts of the menus, the wizards, onboarding and the profile\<close>

text \<open>\<^verbatim>\<open>src/presentation/telegram/ui_text_menu.rs\<close>, one definition per function. A format string is the
  concatenation of its literal pieces and its arguments.\<close>

subsection \<open>Menus\<close>

definition welcome_text :: "user \<Rightarrow> utext" where
  "welcome_text actor =
    (let role_hint =
           (if is_manager_or_admin (u_role actor)
            then txt_hint_manager
            else txt_hint_user)
     in (txt_welcome @ display_name actor @ txt_welcome_2 @ role_hint @ txt_welcome_3))"

definition help_text :: utext where
  "help_text =
     (HELP_EMOJI @ txt_help @ CREATE_EMOJI @ txt_help_2)"

definition create_menu_text :: utext where
  "create_menu_text =
     (CREATE_EMOJI @ txt_create_menu @ QUICK_EMOJI @ txt_create_menu_2 @ GUIDED_EMOJI
      @ txt_create_menu_3)"

definition quick_create_prompt :: utext where
  "quick_create_prompt =
     (QUICK_EMOJI @ txt_quick_prompt @ MENU_EMOJI @ txt_quick_prompt_2)"

subsection \<open>The guided wizard\<close>

definition guided_assignee_prompt :: utext where
  "guided_assignee_prompt =
     (GUIDED_EMOJI @ txt_g_assignee)"

definition guided_assignee_clarification_text :: "utext \<Rightarrow> utext" where
  "guided_assignee_clarification_text resolver_message =
     (GUIDED_EMOJI @ txt_g_clarify @ resolver_message)"

definition guided_description_prompt :: utext where
  "guided_description_prompt =
     (GUIDED_EMOJI @ txt_g_description)"

definition guided_deadline_prompt :: utext where
  "guided_deadline_prompt =
     (GUIDED_EMOJI @ txt_g_deadline)"

definition guided_confirmation_text :: "guided_task_draft \<Rightarrow> utext" where
  "guided_confirmation_text d =
    (let assignee = (case gd_assignee d of Some v \<Rightarrow> v | None \<Rightarrow> txt_gc_none);
         description = (case gd_description d of Some v \<Rightarrow> v | None \<Rightarrow> txt_gc_unset);
         deadline = (case gd_deadline d of Some v \<Rightarrow> v | None \<Rightarrow> txt_gc_no_deadline)
     in (INFO_EMOJI @ txt_g_confirm @ assignee @ txt_g_confirm_2 @ description
      @ txt_g_confirm_3 @ deadline @ txt_g_confirm_4))"

subsection \<open>Voice\<close>

definition voice_confirmation_text :: "utext \<Rightarrow> utext" where
  "voice_confirmation_text transcript =
     (INFO_EMOJI @ txt_v_confirm @ transcript @ txt_v_confirm_2)"

definition render_candidate_lines :: "employee_candidate_view list \<Rightarrow> utext" where
  "render_candidate_lines candidates =
     join_lines (map (\<lambda>c.
       bullet @ candidate_label c @ txt_em_dash
       @ show_nat (ec_confidence c) @ ascii ''%'') candidates)"

definition voice_interpretation_text :: "utext \<Rightarrow> task_interpretation_preview \<Rightarrow> utext" where
  "voice_interpretation_text transcript preview =
    (let deadline = (case ip_deadline_label preview of Some v \<Rightarrow> v | None \<Rightarrow> txt_gc_no_deadline);
         assignee =
           (case ip_assignee preview of
              InterpretNone \<Rightarrow> txt_vi_none
            | InterpretResolved display delivery \<Rightarrow>
                (display @ txt_vi_delivery @ delivery_badge delivery @ txt_vi_delivery_2
      @ delivery_detail delivery)
            | InterpretClarification request \<Rightarrow>
                cl_message request @ [10]
                @ (if cl_candidates request = []
                   then txt_vi_manual
                   else render_candidate_lines (cl_candidates request)));
         transcript_block =
           (if transcript = [] then []
            else (INFO_EMOJI @ txt_vi_heard @ transcript @ [10, 10]))
     in (transcript_block @ INFO_EMOJI @ txt_vi_text @ assignee @ txt_vi_text_2 @ deadline
      @ txt_vi_text_3 @ ip_description preview))"

definition voice_edit_prompt :: "utext \<Rightarrow> utext" where
  "voice_edit_prompt transcript =
     (GUIDED_EMOJI @ txt_v_edit @ transcript @ txt_v_edit_2)"

subsection \<open>Registration and onboarding\<close>

definition registration_link_text :: "utext \<Rightarrow> employee_candidate_view list \<Rightarrow> utext" where
  "registration_link_text message candidates =
     (if candidates = []
      then (INFO_EMOJI @ txt_rl_none @ message @ txt_rl_none_2)
      else (INFO_EMOJI @ txt_rl_some @ message @ txt_rl_some_2
      @ render_candidate_lines candidates))"

definition onboarding_welcome_text :: utext where
  "onboarding_welcome_text =
     (INFO_EMOJI @ txt_ob_welcome)"

definition onboarding_ask_last_name_text :: "utext \<Rightarrow> utext" where
  "onboarding_ask_last_name_text given_name =
     (INFO_EMOJI @ txt_ob_last @ given_name @ txt_ob_last_2)"

definition onboarding_retry_first_name_text :: utext where
  "onboarding_retry_first_name_text =
     (INFO_EMOJI @ txt_ob_retry_first)"

definition onboarding_retry_last_name_text :: utext where
  "onboarding_retry_last_name_text =
     (INFO_EMOJI @ txt_ob_retry_last)"

definition onboarding_too_long_text :: utext where
  "onboarding_too_long_text =
     (INFO_EMOJI @ txt_ob_too_long)"

definition onboarding_link_expected_text :: utext where
  "onboarding_link_expected_text =
     (INFO_EMOJI @ txt_ob_link)"

definition onboarding_completed_text :: "user \<Rightarrow> utext" where
  "onboarding_completed_text actor =
     (txt_ob_done @ display_name actor @ txt_ob_done_2)"

subsection \<open>Statistics and the profile\<close>

definition average_label :: "task_stats \<Rightarrow> utext" where
  "average_label stats =
     (case st_average_completion_hours stats of
        Some v \<Rightarrow> show_int v @ txt_hours
      | None \<Rightarrow> txt_no_data)"

definition stats_text :: "utext \<Rightarrow> task_stats \<Rightarrow> utext" where
  "stats_text title stats =
     (title @ txt_stats @ show_nat (st_created_count stats) @ txt_stats_2
      @ show_nat (st_active_count stats) @ txt_stats_3 @ show_nat (st_completed_count stats)
      @ txt_stats_4 @ show_nat (st_overdue_count stats) @ txt_stats_5 @ average_label stats)"

text \<open>\<^verbatim>\<open>i32\<close> division truncates towards zero; \<open>{:02}\<close> pads a number below ten with a zero.\<close>

definition div_trunc :: "int \<Rightarrow> int \<Rightarrow> int" where
  "div_trunc a b = (if a < 0 then - ((- a) div b) else a div b)"

definition pad2 :: "int \<Rightarrow> utext" where
  "pad2 n = (if 0 \<le> n \<and> n < 10 then 48 # show_int n else show_int n)"

definition clock_label :: "int \<Rightarrow> utext" where
  "clock_label m =
     pad2 (div_trunc m 60 mod 24) @ [58] @ pad2 ((m - 60 * div_trunc m 60) mod 60)"

definition format_quiet_hours :: "int \<Rightarrow> int \<Rightarrow> utext" where
  "format_quiet_hours start_min end_min =
     (if start_min = end_min then txt_quiet_off
      else (clock_label start_min @ txt_quiet @ clock_label end_min @ txt_quiet_2))"

fun profile_role :: "user_role \<Rightarrow> utext" where
  "profile_role User = txt_pr_user"
| "profile_role Manager = txt_pr_manager"
| "profile_role Admin = txt_pr_admin"

definition render_personal_activity :: "task_stats \<Rightarrow> utext" where
  "render_personal_activity stats =
     (txt_activity @ show_nat (st_created_count stats) @ txt_activity_2
      @ show_nat (st_active_count stats) @ txt_activity_3
      @ show_nat (st_completed_count stats) @ txt_activity_4
      @ show_nat (st_overdue_count stats) @ txt_activity_5 @ average_label stats)"

definition settings_text_with_stats :: "user \<Rightarrow> task_stats option \<Rightarrow> utext" where
  "settings_text_with_stats actor stats =
    (let notifications =
           (if u_last_chat_id actor \<noteq> None then txt_connected
            else txt_not_connected);
         display = display_name_object actor;
         fio = (if dn_kind display = Anonymous then txt_gc_unset else dn_value display);
         quiet = format_quiet_hours (u_quiet_hours_start_min actor) (u_quiet_hours_end_min actor);
         username = (case u_telegram_username actor of Some v \<Rightarrow> v | None \<Rightarrow> txt_gc_unset);
         profile = (SETTINGS_EMOJI @ txt_profile @ fio @ txt_profile_2 @ username @ txt_profile_3
      @ show_int (u_telegram_id actor) @ txt_profile_4 @ profile_role (u_role actor)
      @ txt_profile_5 @ u_timezone actor @ txt_profile_6 @ quiet @ txt_profile_7
      @ notifications)
     in case stats of
          Some s \<Rightarrow> profile @ [10, 10] @ render_personal_activity s
        | None \<Rightarrow> profile)"

definition settings_text :: "user \<Rightarrow> utext" where
  "settings_text actor = settings_text_with_stats actor None"

definition synced_text :: "nat \<Rightarrow> utext" where
  "synced_text n =
     (SYNC_EMOJI @ txt_synced @ show_nat n @ ascii ''.'')"

text \<open>The quiet hours of the default profile read as the clock shows them.\<close>

lemma default_quiet_hours:
  "clock_label DEFAULT_QUIET_HOURS_START_MIN = ascii ''22:00''
   \<and> clock_label DEFAULT_QUIET_HOURS_END_MIN = ascii ''08:00''"
  by code_simp

lemma clock_label_in_day:
  assumes "0 \<le> m" "m < 1440"
  shows "clock_label m = pad2 (m div 60) @ [58] @ pad2 (m mod 60)"
proof -
  have "m div 60 mod 24 = m div 60" using assms by auto
  moreover have "(m - 60 * (m div 60)) mod 60 = m mod 60" by (simp add: minus_mult_div_eq_mod)
  ultimately show ?thesis using assms by (simp add: clock_label_def div_trunc_def)
qed

end
