(* ===== verification/Ui_Admin.thy ===== *)
theory Ui_Admin
  imports Keyboards Screen_Texts
begin

section \<open>Texts of the admin panel\<close>

text \<open>\<^verbatim>\<open>src/presentation/telegram/ui_text_admin.rs\<close>. The instants chrono prints (\<^verbatim>\<open>%d.%m.%Y %H:%M\<close> and
  \<^verbatim>\<open>%d.%m %H:%M\<close>) and the clock reading of the two logs are arguments.\<close>

definition admin_name :: "user \<Rightarrow> utext" where
  "admin_name u =
    (let display = display_name_object u
     in if dn_kind display = Anonymous then ascii ''tg id '' @ show_int (u_telegram_id u)
        else dn_value display)"

fun role_label :: "user_role \<Rightarrow> utext" where
  "role_label User = txt_ar_user"
| "role_label Manager = txt_ar_manager"
| "role_label Admin = txt_ar_admin"

fun action_code_ru :: "audit_action_code \<Rightarrow> utext" where
  "action_code_ru UserOnboardingStarted = txt_ac_started"
| "action_code_ru UserOnboardingCompleted = txt_ac_completed"
| "action_code_ru UserOnboardingAbandoned = txt_ac_abandoned"
| "action_code_ru UserEmployeeLinked = txt_ac_linked"
| "action_code_ru UserEmployeeUnlinked = txt_ac_unlinked"
| "action_code_ru RoleElevatedByBootstrap = txt_ac_bootstrap"
| "action_code_ru RoleChangedByAdmin = txt_ac_role"
| "action_code_ru UserDeactivatedByAdmin = txt_ac_deact"
| "action_code_ru UserReactivatedByAdmin = txt_ac_react"
| "action_code_ru AdminFeatureToggled = txt_ac_flag"
| "action_code_ru ForbiddenActionAttempted = txt_ac_forbidden"
| "action_code_ru CallbackAuthorshipViolation = txt_ac_callback"
| "action_code_ru RateLimitExceeded = ascii ''rate-limit''"
| "action_code_ru AdminNonceExpired = txt_ac_nonce"

definition security_event_code_ru :: "audit_action_code \<Rightarrow> utext" where
  "security_event_code_ru code =
     (if code = ForbiddenActionAttempted then txt_se_forbidden
      else action_code_ru code)"

subsection \<open>Menu, refusals and confirmations\<close>

definition admin_menu_text :: "user \<Rightarrow> utext" where
  "admin_menu_text actor =
    (let display = display_name_object actor;
         name = (if dn_kind display = Anonymous then txt_am_admin else dn_value display)
     in (txt_am @ name @ txt_am_2))"

definition admin_access_denied_text :: utext where
  "admin_access_denied_text =
     (INFO_EMOJI @ txt_at_denied)"

definition admin_account_deactivated_text :: utext where
  "admin_account_deactivated_text =
     (INFO_EMOJI @ txt_at_deact)"

definition admin_self_target_text :: utext where
  "admin_self_target_text =
     (INFO_EMOJI @ txt_at_self)"

definition admin_last_admin_text :: utext where
  "admin_last_admin_text =
     (INFO_EMOJI @ txt_at_last)"

definition admin_user_not_found_text :: utext where
  "admin_user_not_found_text =
     (INFO_EMOJI @ txt_at_missing)"

definition admin_confirm_text :: "utext \<Rightarrow> utext" where
  "admin_confirm_text body =
     (txt_at_confirm @ body @ txt_at_confirm_2)"

definition admin_action_cancelled_text :: utext where
  "admin_action_cancelled_text = (INFO_EMOJI @ txt_at_cancelled)"

definition admin_nonce_expired_text :: utext where
  "admin_nonce_expired_text =
     (INFO_EMOJI @ txt_at_expired)"

definition admin_nonce_wrong_actor_text :: utext where
  "admin_nonce_wrong_actor_text =
     (INFO_EMOJI @ txt_at_wrong)"

definition admin_role_changed_text :: "user \<Rightarrow> utext" where
  "admin_role_changed_text u =
     (txt_at_role @ admin_name u @ txt_at_role_2 @ role_label (u_role u))"

definition admin_deactivated_text :: "user \<Rightarrow> utext" where
  "admin_deactivated_text u =
     (txt_at_off @ admin_name u @ txt_at_off_2)"

definition admin_reactivated_text :: "user \<Rightarrow> utext" where
  "admin_reactivated_text u =
     (txt_at_on @ admin_name u @ txt_at_on_2)"

subsection \<open>Users\<close>

definition admin_users_text :: "user list \<Rightarrow> user \<Rightarrow> utext" where
  "admin_users_text users actor =
     (if users = []
      then (INFO_EMOJI @ txt_au_none @ show_int (u_telegram_id actor) @ txt_au_none_2)
      else
       (let user_lines = map (\<lambda>u.
              (let status = (if u_deactivated_at u \<noteq> None then txt_au_off else [])
               in (txt_au_line @ admin_name u @ txt_au_line_2 @ role_label (u_role u) @ status
      @ ascii '' (tg id '' @ show_int (u_telegram_id u) @ ascii '')''))) users
        in (txt_au_some @ show_nat (length users) @ txt_au_some_2 @ join_lines user_lines
      @ txt_au_some_3)))"

definition admin_user_details_text :: "(instant \<Rightarrow> utext) \<Rightarrow> user \<Rightarrow> utext" where
  "admin_user_details_text show_time u =
    (let username = (case u_telegram_username u of Some v \<Rightarrow> 64 # v | None \<Rightarrow> txt_aud_none);
         status = (case u_deactivated_at u of
                     Some at \<Rightarrow> txt_aud_since @ show_time at
                   | None \<Rightarrow> txt_aud_active)
     in (txt_aud @ admin_name u @ txt_aud_2 @ username @ txt_aud_3
      @ show_int (u_telegram_id u) @ txt_aud_4 @ role_label (u_role u) @ txt_aud_5 @ status
      @ txt_aud_6))"

subsection \<open>The two logs and the flags\<close>

text \<open>\<^verbatim>\<open>num_minutes\<close> truncates towards zero; a negative age shows as zero.\<close>

definition age_minutes :: "instant \<Rightarrow> instant \<Rightarrow> int" where
  "age_minutes now at = max 0 ((now - at) div ns_per_min)"

definition user_tag :: "row_id \<Rightarrow> utext" where
  "user_tag i = ascii ''user#'' @ show_int i"

definition admin_audit_text ::
  "(instant \<Rightarrow> utext) \<Rightarrow> instant \<Rightarrow> admin_audit_entry list \<Rightarrow> utext" where
  "admin_audit_text short_time now entries =
     (if entries = [] then (INFO_EMOJI @ txt_aa_none)
      else
       (let log_lines = map (\<lambda>e.
              (let age = show_int (age_minutes now (aa_created_at e));
                   actor = (case aa_actor_user_id e of Some i \<Rightarrow> user_tag i | None \<Rightarrow> ascii ''platform'');
                   target = (case aa_target_user_id e of Some i \<Rightarrow> user_tag i | None \<Rightarrow> txt_dash)
               in (txt_aa_line @ short_time (aa_created_at e) @ ascii '' ('' @ age @ txt_aa_line_2
      @ action_code_ru (aa_action_code e) @ txt_aa_line_3 @ actor @ txt_aa_line_4 @ target))) entries
        in (txt_aa_some @ show_nat (length entries) @ txt_aa_some_2 @ join_lines log_lines)))"

definition admin_security_audit_text ::
  "(instant \<Rightarrow> utext) \<Rightarrow> instant \<Rightarrow> security_audit_entry list \<Rightarrow> utext" where
  "admin_security_audit_text short_time now entries =
     (if entries = [] then (INFO_EMOJI @ txt_sa_none)
      else
       (let log_lines = map (\<lambda>e.
              (let age = show_int (age_minutes now (sa_created_at e));
                   actor = (case (sa_actor_user_id e, sa_telegram_id e) of
                              (Some uid, _) \<Rightarrow> user_tag uid
                            | (None, Some tg) \<Rightarrow> ascii ''tg#'' @ show_int tg
                            | _ \<Rightarrow> txt_dash)
               in (txt_sa_line @ short_time (sa_created_at e) @ ascii '' ('' @ age @ txt_sa_line_2
      @ security_event_code_ru (sa_event_code e) @ txt_sa_line_3 @ actor))) entries
        in (txt_sa_some @ show_nat (length entries) @ txt_sa_some_2 @ join_lines log_lines
      @ txt_sa_some_3)))"

definition admin_features_text :: "(feature_flag \<times> bool) list \<Rightarrow> utext" where
  "admin_features_text flags =
     join_lines
      ([txt_af_title, []]
       @ map (\<lambda>(flag, enabled). (if enabled then txt_af_on else txt_af_off) @ [32] @ ascii (as_key flag)) flags
       @ [[], txt_af_hint])"

text \<open>The security log distinguishes all events, and so does the log of actions.\<close>

lemma action_codes_distinct: "inj action_code_ru"
proof (rule injI)
  fix x y :: audit_action_code
  assume "action_code_ru x = action_code_ru y"
  then show "x = y"
    by (cases x; cases y) (simp_all add: ui_admin_text_defs ascii_def)
qed

end
