(* ===== verification/Bot.thy ===== *)
theory Bot
  imports Ui_Tasks Ui_Admin Commands Transcript Onboarding Registration Reassign Task_Use_Cases
    Admin_Use_Cases Task_Lists Bot_Texts
begin

section \<open>The runtime of the bot and its transport\<close>

text \<open>
  \<^verbatim>\<open>TelegramRuntime\<close> of \<^verbatim>\<open>src/presentation/telegram/dispatcher.rs\<close> and \<^verbatim>\<open>dispatcher_transport.rs\<close>. The
  state \<open>bot\<close> holds the database with the in-memory stores: active screens, drafts, interactions,
  selections, registration links, nonces, the deduplicator, the barriers of the updates being
  handled, the statistics cache, and every Telegram call made with the message id it returned, if it succeeded. What lies
  outside the repository is the record \<open>runtime\<close>: the replies of the Telegram API by the number of
  the call, the rate limiter (governor) by the number of the check, the monotonic clock by the number
  of the reading, the employees the directory returns, the texts chrono and uuid print.
\<close>

subsection \<open>State\<close>

datatype request_error = ApiError utext | OtherRequestError utext

datatype api_reply = ReplyOk int | ReplyError request_error

datatype telegram_call =
    SendMessage chat_id utext "keyboard option"
  | EditMessage chat_id int utext keyboard
  | AnswerCallback utext utext

record runtime =
  rt_libraries :: libraries
  rt_services :: services
  rt_sqlite :: sqlite_stats
  rt_day_text :: "day \<Rightarrow> utext"
  rt_day_month :: "day \<Rightarrow> utext"
  rt_time_text :: "instant \<Rightarrow> utext"
  rt_short_time :: "instant \<Rightarrow> utext"
  rt_parse_uuid :: "utext \<Rightarrow> uuid option"
  rt_simple_uuid :: "uuid \<Rightarrow> utext"
  rt_hash :: "utext \<Rightarrow> int"
  rt_nonce_ttl :: instant
  rt_employees :: "nat \<Rightarrow> employee list result"
  rt_telegram :: "nat \<Rightarrow> api_reply"
  rt_rate_allows :: "nat \<Rightarrow> bool"
  rt_monotonic :: "nat \<Rightarrow> instant"

record bot =
  b_world :: world
  b_screens :: "active_screen_state chat_store"
  b_selections :: "pending_assignee_selection chat_store"
  b_links :: "pending_registration_link chat_store"
  b_sessions :: "creation_session chat_store"
  b_interactions :: "task_interaction_session chat_store"
  b_nonces :: nonce_store
  b_dedup :: update_dedup
  b_barriers :: "bool chat_store"
  b_stats_cache :: stats_cache
  b_calls :: "(telegram_call \<times> int option) list"
  b_checks :: nat
  b_readings :: nat
  b_fetches :: nat

subsection \<open>Handlers\<close>

text \<open>A handler returns \<^verbatim>\<open>Result<T, teloxide::RequestError>\<close>, or panics. \<open>call\<close> runs a use case on the
  database and hands over its \<^verbatim>\<open>AppResult\<close>; a use case whose own code panics makes the handler panic.\<close>

datatype 'a handled = Finished 'a | RequestFailed request_error | Panicked

type_synonym 'a handler = "bot \<Rightarrow> 'a handled \<times> bot"

definition finish :: "'a \<Rightarrow> 'a handler" where
  "finish x s = (Finished x, s)"

definition andThen :: "'a handler \<Rightarrow> ('a \<Rightarrow> 'b handler) \<Rightarrow> 'b handler" where
  "andThen m f s =
     (case m s of
        (Finished x, s1) \<Rightarrow> f x s1
      | (RequestFailed e, s1) \<Rightarrow> (RequestFailed e, s1)
      | (Panicked, s1) \<Rightarrow> (Panicked, s1))"

definition see :: "(bot \<Rightarrow> 'a) \<Rightarrow> 'a handler" where
  "see f s = (Finished (f s), s)"

definition change :: "(bot \<Rightarrow> bot) \<Rightarrow> unit handler" where
  "change f s = (Finished (), f s)"

definition call :: "(world, 'a) act \<Rightarrow> 'a result handler" where
  "call m s = (case m (b_world s) of (r, w) \<Rightarrow> (Finished r, s\<lparr> b_world := w \<rparr>))"

definition call_may_panic :: "(world, 'a option) act \<Rightarrow> 'a result handler" where
  "call_may_panic m s =
     (case m (b_world s) of
        (Inl e, w) \<Rightarrow> (Finished (Inl e), s\<lparr> b_world := w \<rparr>)
      | (Inr None, w) \<Rightarrow> (Panicked, s\<lparr> b_world := w \<rparr>)
      | (Inr (Some x), w) \<Rightarrow> (Finished (Inr x), s\<lparr> b_world := w \<rparr>))"

text \<open>An action of the database that cannot fail: a clock reading or a fresh identifier.\<close>

definition draw :: "(world, 'a) act \<Rightarrow> ('a \<Rightarrow> 'b handler) \<Rightarrow> 'b handler" where
  "draw m f = andThen (call m) (\<lambda>r. case r of Inr x \<Rightarrow> f x | Inl _ \<Rightarrow> (\<lambda>s. (Panicked, s)))"

definition monotonic :: "runtime \<Rightarrow> instant handler" where
  "monotonic R s = (Finished (rt_monotonic R (b_readings s)), s\<lparr> b_readings := Suc (b_readings s) \<rparr>)"

definition telegram :: "runtime \<Rightarrow> telegram_call \<Rightarrow> api_reply handler" where
  "telegram R c s =
    (let reply = rt_telegram R (length (b_calls s)) in
     (Finished reply,
      s\<lparr> b_calls := b_calls s @ [(c, (case reply of ReplyOk mid \<Rightarrow> Some mid | ReplyError _ \<Rightarrow> None))] \<rparr>))"

definition perform :: "runtime \<Rightarrow> telegram_call \<Rightarrow> int handler" where
  "perform R c =
     andThen (telegram R c) (\<lambda>reply s.
       case reply of ReplyOk mid \<Rightarrow> (Finished mid, s) | ReplyError e \<Rightarrow> (RequestFailed e, s))"

subsection \<open>Errors of the API\<close>

definition is_message_not_modified_error :: "request_error \<Rightarrow> bool" where
  "is_message_not_modified_error e =
     (case e of
        ApiError t \<Rightarrow> contains_text (to_ascii_lowercase t) (ascii ''message is not modified'')
      | OtherRequestError _ \<Rightarrow> False)"

definition is_edit_fallback_error :: "request_error \<Rightarrow> bool" where
  "is_edit_fallback_error e =
     (case e of
        ApiError t \<Rightarrow>
          (let text = to_ascii_lowercase t in
           contains_text text (ascii ''message to edit not found'')
           \<or> contains_text text (ascii ''message can'' @ [39] @ ascii ''t be edited'')
           \<or> contains_text text (ascii ''message can not be edited'')
           \<or> contains_text text (ascii ''there is no text in the message to edit''))
      | OtherRequestError _ \<Rightarrow> False)"

datatype screen_render_result = Edited | NoChange | FallbackRequired

definition try_edit_screen ::
  "runtime \<Rightarrow> chat_id \<Rightarrow> int \<Rightarrow> utext \<Rightarrow> keyboard \<Rightarrow> screen_render_result handler" where
  "try_edit_screen R chat mid body kb =
     andThen (telegram R (EditMessage chat mid body kb)) (\<lambda>reply s.
       case reply of
         ReplyOk _ \<Rightarrow> (Finished Edited, s)
       | ReplyError e \<Rightarrow>
           if is_message_not_modified_error e then (Finished NoChange, s)
           else if is_edit_fallback_error e then (Finished FallbackRequired, s)
           else (RequestFailed e, s))"

subsection \<open>The barrier and the screens\<close>

definition try_consume_update_barrier :: "chat_id \<Rightarrow> bool handler" where
  "try_consume_update_barrier chat s =
     (case b_barriers s chat of
        None \<Rightarrow> (Finished True, s)
      | Some flag \<Rightarrow>
         (let (allowed, flag') = try_consume flag
          in (Finished allowed, s\<lparr> b_barriers := chat_set chat flag' (b_barriers s) \<rparr>)))"

definition set_screen :: "chat_id \<Rightarrow> int \<Rightarrow> screen_descriptor \<Rightarrow> unit handler" where
  "set_screen chat mid descriptor =
     change (\<lambda>s. s\<lparr> b_screens :=
       chat_set chat \<lparr> as_message_id = mid, as_descriptor = descriptor \<rparr> (b_screens s) \<rparr>)"

definition send_new ::
  "runtime \<Rightarrow> chat_id \<Rightarrow> screen_descriptor \<Rightarrow> utext \<Rightarrow> keyboard \<Rightarrow> unit handler" where
  "send_new R chat descriptor body kb =
     andThen (perform R (SendMessage chat body (Some kb))) (\<lambda>mid.
     set_screen chat mid descriptor)"

definition send_screen ::
  "runtime \<Rightarrow> chat_id \<Rightarrow> screen_descriptor \<Rightarrow> utext \<Rightarrow> keyboard \<Rightarrow> unit handler" where
  "send_screen R chat descriptor body kb =
    andThen (try_consume_update_barrier chat) (\<lambda>allowed.
    if \<not> allowed then finish ()
    else
      andThen (see (\<lambda>s. chat_get chat (b_screens s))) (\<lambda>active.
      case active of
        None \<Rightarrow> send_new R chat descriptor body kb
      | Some a \<Rightarrow>
          andThen (try_edit_screen R chat (as_message_id a) body kb) (\<lambda>result.
          if result = FallbackRequired then send_new R chat descriptor body kb
          else set_screen chat (as_message_id a) descriptor)))"

definition send_fresh_screen ::
  "runtime \<Rightarrow> chat_id \<Rightarrow> screen_descriptor \<Rightarrow> utext \<Rightarrow> keyboard \<Rightarrow> unit handler" where
  "send_fresh_screen R chat descriptor body kb =
    andThen (try_consume_update_barrier chat) (\<lambda>allowed.
    if \<not> allowed then finish () else send_new R chat descriptor body kb)"

definition answer_callback :: "runtime \<Rightarrow> utext \<Rightarrow> utext \<Rightarrow> unit handler" where
  "answer_callback R callback_id body =
     andThen (perform R (AnswerCallback callback_id body)) (\<lambda>_. finish ())"

definition send_plain :: "runtime \<Rightarrow> chat_id \<Rightarrow> utext \<Rightarrow> unit handler" where
  "send_plain R chat body =
     andThen (perform R (SendMessage chat body None)) (\<lambda>_. finish ())"

definition RATE_LIMIT_MESSAGE :: utext where
  "RATE_LIMIT_MESSAGE = txt_rate_limit"

definition error_text :: "app_error \<Rightarrow> utext" where
  "error_text e =
    (case e of
       app_error.NotFound _ _ _ \<Rightarrow> txt_er_missing
     | Auth code _ _ \<Rightarrow>
         if code = ''UNAUTHORIZED'' then txt_er_rights
         else txt_er_start
     | Validation _ _ _ \<Rightarrow> txt_er_invalid
     | RateLimit _ _ _ \<Rightarrow> RATE_LIMIT_MESSAGE
     | Conflict _ _ _ \<Rightarrow> txt_er_conflict
     | _ \<Rightarrow> txt_er_other)"

definition send_error :: "runtime \<Rightarrow> chat_id \<Rightarrow> app_error \<Rightarrow> unit handler" where
  "send_error R chat e =
    andThen (try_consume_update_barrier chat) (\<lambda>allowed.
    if \<not> allowed then finish () else send_plain R chat (error_text e))"

subsection \<open>Clearing and setting the stores\<close>

definition clear_session :: "chat_id \<Rightarrow> unit handler" where
  "clear_session chat = change (\<lambda>s. s\<lparr> b_sessions := chat_clear chat (b_sessions s) \<rparr>)"

definition clear_interaction :: "chat_id \<Rightarrow> unit handler" where
  "clear_interaction chat = change (\<lambda>s. s\<lparr> b_interactions := chat_clear chat (b_interactions s) \<rparr>)"

definition clear_selection :: "chat_id \<Rightarrow> unit handler" where
  "clear_selection chat = change (\<lambda>s. s\<lparr> b_selections := chat_clear chat (b_selections s) \<rparr>)"

definition clear_link :: "chat_id \<Rightarrow> unit handler" where
  "clear_link chat = change (\<lambda>s. s\<lparr> b_links := chat_clear chat (b_links s) \<rparr>)"

definition put_session ::
  "(creation_session chat_store \<Rightarrow> creation_session chat_store) \<Rightarrow> unit handler" where
  "put_session f = change (\<lambda>s. s\<lparr> b_sessions := f (b_sessions s) \<rparr>)"

definition put_selection ::
  "(pending_assignee_selection chat_store \<Rightarrow> pending_assignee_selection chat_store) \<Rightarrow> unit handler" where
  "put_selection f = change (\<lambda>s. s\<lparr> b_selections := f (b_selections s) \<rparr>)"

definition put_link ::
  "(pending_registration_link chat_store \<Rightarrow> pending_registration_link chat_store) \<Rightarrow> unit handler" where
  "put_link f = change (\<lambda>s. s\<lparr> b_links := f (b_links s) \<rparr>)"

definition put_interaction :: "chat_id \<Rightarrow> task_interaction_session \<Rightarrow> unit handler" where
  "put_interaction chat v = change (\<lambda>s. s\<lparr> b_interactions := chat_set chat v (b_interactions s) \<rparr>)"

definition session_of :: "chat_id \<Rightarrow> creation_session option handler" where
  "session_of chat = see (\<lambda>s. chat_get chat (b_sessions s))"

definition feature_enabled :: "feature_flag \<Rightarrow> bool handler" where
  "feature_enabled flag = see (\<lambda>s. flag_is_enabled (w_flags (b_world s)) flag)"

text \<open>\<open>seq\<close> drops the unit a store operation returns.\<close>

definition seq :: "unit handler \<Rightarrow> 'a handler \<Rightarrow> 'a handler" where
  "seq m n = andThen m (\<lambda>_. n)"

text \<open>The ids a clarification offers.\<close>

definition clarification_candidate_ids :: "clarification_request \<Rightarrow> int list" where
  "clarification_candidate_ids request =
     List.map_filter ec_employee_id (cl_candidates request)"

subsection \<open>Incoming updates\<close>

record telegram_sender =
  sn_id :: nat
  sn_full_name :: utext
  sn_username :: "utext option"

record telegram_voice =
  tv_file_id :: utext
  tv_unique_id :: utext
  tv_duration :: nat
  tv_mime_type :: "utext option"
  tv_size :: nat

record telegram_message =
  tm_id :: int
  tm_chat :: chat_id
  tm_from :: "telegram_sender option"
  tm_text :: "utext option"
  tm_voice :: "telegram_voice option"

record callback_query =
  cq_id :: utext
  cq_from :: telegram_sender
  cq_message :: "(int \<times> chat_id) option"
  cq_data :: "utext option"

definition i64_of_user :: "nat \<Rightarrow> int option" where
  "i64_of_user n = (if n < 2 ^ 63 then Some (int n) else None)"

definition incoming ::
  "int \<Rightarrow> chat_id \<Rightarrow> telegram_sender \<Rightarrow> message_content \<Rightarrow> (world, incoming_message option) act" where
  "incoming mid chat sender content =
     (case i64_of_user (sn_id sender) of
        None \<Rightarrow> ret None
      | Some i \<Rightarrow>
          tryA now_utc (\<lambda>now.
          ret (Some \<lparr> m_message_id = mid, m_chat_id = chat, m_sender_id = i,
            m_sender_name = sn_full_name sender, m_sender_username = sn_username sender,
            m_content = content, m_timestamp = now, m_source_message_key_override = None,
            m_is_voice_origin = False \<rparr>)))"

definition to_incoming_message :: "telegram_message \<Rightarrow> (world, incoming_message option) act" where
  "to_incoming_message m =
    (case tm_from m of
       None \<Rightarrow> ret None
     | Some sender \<Rightarrow>
        (case tm_text m of
           Some t \<Rightarrow>
             incoming (tm_id m) (tm_chat m) sender
               (if starts_with [47] t then CommandContent t else TextContent t)
         | None \<Rightarrow>
            (case tm_voice m of
               Some v \<Rightarrow>
                 incoming (tm_id m) (tm_chat m) sender
                   (VoiceContent \<lparr> v_file_id = tv_file_id v, v_file_unique_id = tv_unique_id v,
                      v_duration_seconds = tv_duration v, v_mime_type = tv_mime_type v,
                      v_file_size_bytes = (if tv_size v = 2 ^ 32 - 1 then None else Some (tv_size v)) \<rparr>)
             | None \<Rightarrow> ret None)))"

definition callback_to_incoming_message :: "callback_query \<Rightarrow> (world, incoming_message option) act" where
  "callback_to_incoming_message q =
    (case cq_message q of
       None \<Rightarrow> ret None
     | Some (mid, chat) \<Rightarrow>
         incoming mid chat (cq_from q)
           (CommandContent (case cq_data q of Some d \<Rightarrow> d | None \<Rightarrow> [])))"

end
