(* ===== verification/Bot_Views.thy ===== *)
theory Bot_Views
  imports Bot Task_Details Bot_Texts
begin

section \<open>Navigation, task cards and typed input\<close>

text \<open>
  \<^verbatim>\<open>dispatcher_navigation.rs\<close>, \<^verbatim>\<open>dispatcher_task_views.rs\<close> and \<^verbatim>\<open>dispatcher_interactions.rs\<close> of
  \<^verbatim>\<open>src/presentation/telegram\<close>: the handlers that show menus, lists and cards, change the status of a
  task, and take a comment, a blocker or a new assignee typed for a task.
\<close>

subsection \<open>Menus\<close>

definition clear_chat :: "chat_id \<Rightarrow> unit handler" where
  "clear_chat chat =
     seq (clear_session chat) (seq (clear_interaction chat)
       (seq (clear_selection chat) (clear_link chat)))"

definition show_main_menu :: "runtime \<Rightarrow> user \<Rightarrow> chat_id \<Rightarrow> unit handler" where
  "show_main_menu R actor chat =
     seq (clear_chat chat)
       (send_screen R chat ScrMainMenu (welcome_text actor) (main_menu_keyboard actor))"

definition show_main_menu_fresh :: "runtime \<Rightarrow> user \<Rightarrow> chat_id \<Rightarrow> unit handler" where
  "show_main_menu_fresh R actor chat =
     seq (clear_chat chat)
       (send_fresh_screen R chat ScrMainMenu (welcome_text actor) (main_menu_keyboard actor))"

definition show_help :: "runtime \<Rightarrow> chat_id \<Rightarrow> user \<Rightarrow> unit handler" where
  "show_help R chat actor = send_screen R chat ScrHelp help_text (main_menu_keyboard actor)"

definition show_create_menu :: "runtime \<Rightarrow> chat_id \<Rightarrow> unit handler" where
  "show_create_menu R chat =
     seq (clear_chat chat)
       (send_screen R chat ScrCreateMenu create_menu_text create_menu_keyboard)"

text \<open>The fallback several handlers share: the creation menu, with the stores left as they are.\<close>

definition fallback_to_create_menu :: "runtime \<Rightarrow> chat_id \<Rightarrow> unit handler" where
  "fallback_to_create_menu R chat =
     send_screen R chat ScrCreateMenu create_menu_text create_menu_keyboard"

definition stats_of_actor :: "runtime \<Rightarrow> user \<Rightarrow> stats_scope \<Rightarrow> task_stats result handler" where
  "stats_of_actor R actor scope =
     andThen (monotonic R) (\<lambda>asked.
     andThen (monotonic R) (\<lambda>answered.
     andThen (see b_stats_cache) (\<lambda>cache.
     andThen (call (collect_stats (rt_sqlite R) asked answered cache actor scope)) (\<lambda>r.
     case r of
       Inl e \<Rightarrow> finish (Inl e)
     | Inr (stats, cache') \<Rightarrow>
         seq (change (\<lambda>s. s\<lparr> b_stats_cache := cache' \<rparr>)) (finish (Inr stats))))))"

definition show_settings :: "runtime \<Rightarrow> chat_id \<Rightarrow> user \<Rightarrow> unit handler" where
  "show_settings R chat actor =
     andThen (stats_of_actor R actor PersonalStats) (\<lambda>r.
     send_screen R chat ScrSettings
       (settings_text_with_stats actor (case r of Inr stats \<Rightarrow> Some stats | Inl _ \<Rightarrow> None))
       (main_menu_keyboard actor))"

definition show_stats :: "runtime \<Rightarrow> user \<Rightarrow> chat_id \<Rightarrow> stats_scope \<Rightarrow> unit handler" where
  "show_stats R actor chat scope =
     andThen (stats_of_actor R actor scope) (\<lambda>r.
     case r of
       Inr stats \<Rightarrow>
         send_screen R chat (ScrStats scope)
           (stats_text (case scope of
               PersonalStats \<Rightarrow> txt_st_mine
             | TeamStats \<Rightarrow> txt_st_team) stats)
           (main_menu_keyboard actor)
     | Inl e \<Rightarrow> send_error R chat e)"

fun list_scope :: "task_list_origin \<Rightarrow> task_list_scope" where
  "list_scope OriginAssigned = AssignedToMe"
| "list_scope OriginCreated = CreatedByMe"
| "list_scope OriginTeam = Team"
| "list_scope OriginFocus = Focus"
| "list_scope OriginManagerInbox = ManagerInbox"

definition show_task_list ::
  "runtime \<Rightarrow> user \<Rightarrow> chat_id \<Rightarrow> task_list_origin \<Rightarrow> utext option \<Rightarrow> unit handler" where
  "show_task_list R actor chat orig cursor =
     andThen (call (list_tasks actor (list_scope orig) cursor None)) (\<lambda>r.
     case r of
       Inr page \<Rightarrow>
         send_screen R chat (ScrTaskList orig)
           (list_text (rt_day_text R) (fst (list_header orig)) (snd (list_header orig)) page)
           (task_list_keyboard (rt_day_month R) orig page)
     | Inl e \<Rightarrow> send_error R chat e)"

definition sync_employees_h :: "runtime \<Rightarrow> chat_id \<Rightarrow> user \<Rightarrow> unit handler" where
  "sync_employees_h R chat actor =
     (case ensure_can_sync_employees actor of
        Inl e \<Rightarrow> send_error R chat e
      | Inr _ \<Rightarrow>
          andThen (see b_fetches) (\<lambda>n.
          seq (change (\<lambda>s. s\<lparr> b_fetches := Suc n \<rparr>))
          (andThen (call (sync_employees (rt_employees R n))) (\<lambda>r.
           case r of
             Inr synced \<Rightarrow>
               send_screen R chat ScrSyncEmployeesResult (synced_text synced)
                 (main_menu_keyboard actor)
           | Inl e \<Rightarrow> send_error R chat e))))"

subsection \<open>Task cards\<close>

definition task_status_of :: "runtime \<Rightarrow> user \<Rightarrow> uuid \<Rightarrow> task_status_details result handler" where
  "task_status_of R actor uid = call (get_task_status (rt_day_text R) (rt_time_text R) actor uid)"

definition show_task_details_with_notice ::
  "runtime \<Rightarrow> user \<Rightarrow> chat_id \<Rightarrow> uuid \<Rightarrow> task_list_origin \<Rightarrow> task_card_mode \<Rightarrow> utext option
   \<Rightarrow> unit handler" where
  "show_task_details_with_notice R actor chat uid orig mode notice =
     andThen (task_status_of R actor uid) (\<lambda>r.
     case r of
       Inr details \<Rightarrow>
         send_screen R chat (ScrTaskDetail uid mode orig)
           (task_detail_text details mode notice) (task_detail_keyboard details orig mode)
     | Inl e \<Rightarrow> send_error R chat e)"

definition show_task_details ::
  "runtime \<Rightarrow> user \<Rightarrow> chat_id \<Rightarrow> uuid \<Rightarrow> task_list_origin \<Rightarrow> task_card_mode \<Rightarrow> unit handler" where
  "show_task_details R actor chat uid orig mode =
     show_task_details_with_notice R actor chat uid orig mode None"

definition INVALID_TASK_REFERENCE_MESSAGE :: utext where
  "INVALID_TASK_REFERENCE_MESSAGE = txt_invalid_reference"

definition show_task_from_command :: "runtime \<Rightarrow> user \<Rightarrow> chat_id \<Rightarrow> utext \<Rightarrow> unit handler" where
  "show_task_from_command R actor chat reference =
     andThen (call (resolve_task_uid (rt_parse_uuid R) reference)) (\<lambda>r.
     case r of
       Inr uid \<Rightarrow> show_task_details R actor chat uid OriginCreated Compact
     | Inl _ \<Rightarrow>
         send_screen R chat ScrUnknown INVALID_TASK_REFERENCE_MESSAGE (main_menu_keyboard actor))"

definition confirm_task_cancel ::
  "runtime \<Rightarrow> user \<Rightarrow> chat_id \<Rightarrow> uuid \<Rightarrow> task_list_origin \<Rightarrow> unit handler" where
  "confirm_task_cancel R actor chat uid orig =
     andThen (task_status_of R actor uid) (\<lambda>r.
     case r of
       Inr details \<Rightarrow>
         send_screen R chat (ScrCancelConfirmation uid orig) (cancel_confirmation_text details)
           (cancel_confirmation_keyboard uid orig)
     | Inl e \<Rightarrow> send_error R chat e)"

definition execute_cancel_from_command :: "runtime \<Rightarrow> user \<Rightarrow> chat_id \<Rightarrow> utext \<Rightarrow> unit handler" where
  "execute_cancel_from_command R actor chat reference =
     andThen (call (resolve_task_uid (rt_parse_uuid R) reference)) (\<lambda>r.
     case r of
       Inr uid \<Rightarrow> confirm_task_cancel R actor chat uid OriginCreated
     | Inl _ \<Rightarrow>
         send_screen R chat ScrUnknown INVALID_TASK_REFERENCE_MESSAGE (main_menu_keyboard actor))"

definition update_task_status_h ::
  "runtime \<Rightarrow> user \<Rightarrow> chat_id \<Rightarrow> uuid \<Rightarrow> task_status \<Rightarrow> task_list_origin \<Rightarrow> unit handler" where
  "update_task_status_h R actor chat uid next_status orig =
     andThen (call (update_task_status actor uid next_status)) (\<lambda>r.
     case r of
       Inr summary \<Rightarrow>
         show_task_details_with_notice R actor chat uid orig Compact (Some (ts_message summary))
     | Inl e \<Rightarrow> send_error R chat e)"

definition show_delivery_help ::
  "runtime \<Rightarrow> user \<Rightarrow> chat_id \<Rightarrow> uuid \<Rightarrow> task_list_origin \<Rightarrow> unit handler" where
  "show_delivery_help R actor chat uid orig =
     andThen (task_status_of R actor uid) (\<lambda>r.
     case r of
       Inr details \<Rightarrow>
         send_screen R chat (ScrDeliveryHelp uid orig) (delivery_help_text details)
           (delivery_help_keyboard uid orig)
     | Inl e \<Rightarrow> send_error R chat e)"

subsection \<open>A comment, a blocker or an assignee typed for a task\<close>

definition TASK_INTERACTION_TEXT_REQUIRED_MESSAGE :: utext where
  "TASK_INTERACTION_TEXT_REQUIRED_MESSAGE = txt_interaction_text"
definition COMMENT_SAVED_NOTICE :: utext where
  "COMMENT_SAVED_NOTICE = txt_comment_saved"
definition BLOCKER_SAVED_NOTICE :: utext where
  "BLOCKER_SAVED_NOTICE = txt_blocker_saved_notice"

fun interaction_prompt :: "task_interaction_kind \<Rightarrow> task_status_details \<Rightarrow> utext" where
  "interaction_prompt KindComment details = task_comment_prompt details"
| "interaction_prompt KindBlocker details = task_blocker_prompt details"
| "interaction_prompt KindReassign details = task_reassign_prompt details"

definition start_task_interaction ::
  "runtime \<Rightarrow> user \<Rightarrow> chat_id \<Rightarrow> uuid \<Rightarrow> task_list_origin \<Rightarrow> task_interaction_kind \<Rightarrow> unit handler" where
  "start_task_interaction R actor chat uid orig kind =
     andThen (task_status_of R actor uid) (\<lambda>r.
     case r of
       Inr details \<Rightarrow>
         seq (put_interaction chat \<lparr> ti_task_uid = uid, ti_origin = orig, ti_kind = kind \<rparr>)
           (send_screen R chat (ScrTaskInteractionPrompt uid orig kind)
             (interaction_prompt kind details) (task_detail_keyboard details orig Compact))
     | Inl e \<Rightarrow> send_error R chat e)"

definition show_prompt_again ::
  "runtime \<Rightarrow> user \<Rightarrow> chat_id \<Rightarrow> task_interaction_session \<Rightarrow> utext \<Rightarrow> unit handler" where
  "show_prompt_again R actor chat session prefix_message =
     andThen (task_status_of R actor (ti_task_uid session)) (\<lambda>r.
     case r of
       Inr details \<Rightarrow>
         send_screen R chat
           (ScrTaskInteractionPrompt (ti_task_uid session) (ti_origin session) (ti_kind session))
           (prefix_message @ [10, 10] @ interaction_prompt (ti_kind session) details)
           (task_detail_keyboard details (ti_origin session) Compact)
     | Inl e \<Rightarrow> send_error R chat e)"

definition show_reassign_clarification ::
  "runtime \<Rightarrow> chat_id \<Rightarrow> uuid \<Rightarrow> task_list_origin \<Rightarrow> utext \<Rightarrow> task_interaction_kind
   \<Rightarrow> clarification_request \<Rightarrow> unit handler" where
  "show_reassign_clarification R chat uid orig query kind q =
     seq (put_selection (set_reassign chat uid orig query (clarification_candidate_ids q)))
       (send_screen R chat (ScrTaskInteractionPrompt uid orig kind)
         (task_creation_text (OutcomeClarification q)) (clarification_keyboard q))"

text \<open>The text of a message without surrounding whitespace, if it has one and it is not blank.\<close>

definition typed_text :: "incoming_message \<Rightarrow> utext option" where
  "typed_text m =
     (case text_payload (m_content m) of
        None \<Rightarrow> None
      | Some t \<Rightarrow> if trim t = [] then None else Some (trim t))"

definition handle_task_interaction_message ::
  "runtime \<Rightarrow> incoming_message \<Rightarrow> user \<Rightarrow> task_interaction_session \<Rightarrow> unit handler" where
  "handle_task_interaction_message R m actor session =
    (let chat = m_chat_id m; uid = ti_task_uid session;
         card = (\<lambda>notice. show_task_details_with_notice R actor chat uid (ti_origin session) Compact
                   (Some notice))
     in case typed_text m of
          None \<Rightarrow> show_prompt_again R actor chat session TASK_INTERACTION_TEXT_REQUIRED_MESSAGE
        | Some t \<Rightarrow>
           (case ti_kind session of
              KindComment \<Rightarrow>
                andThen (call (add_task_comment actor uid t)) (\<lambda>r.
                case r of
                  Inr _ \<Rightarrow> seq (clear_interaction chat) (card COMMENT_SAVED_NOTICE)
                | Inl e \<Rightarrow> send_error R chat e)
            | KindBlocker \<Rightarrow>
                andThen (call (report_task_blocker actor uid t)) (\<lambda>r.
                case r of
                  Inr _ \<Rightarrow> seq (clear_interaction chat) (card BLOCKER_SAVED_NOTICE)
                | Inl e \<Rightarrow> send_error R chat e)
            | KindReassign \<Rightarrow>
                andThen (call (reassign_task_auto (lb_unicode (rt_libraries R))
                                 (sv_similar (rt_services R)) actor uid t)) (\<lambda>r.
                case r of
                  Inr (Reassigned summary) \<Rightarrow>
                    seq (clear_interaction chat)
                      (seq (clear_selection chat) (card (ts_message summary)))
                | Inr (ReassignClarification q) \<Rightarrow>
                    show_reassign_clarification R chat uid (ti_origin session) t
                      (ti_kind session) q
                | Inl e \<Rightarrow> send_error R chat e)))"

end
