(* ===== verification/Bot_Creation.thy ===== *)
theory Bot_Creation
  imports Bot_Views Bot_Texts
begin

section \<open>Creating tasks in conversation\<close>

text \<open>
  \<^verbatim>\<open>dispatcher_creation_outcomes.rs\<close>, \<^verbatim>\<open>dispatcher_voice.rs\<close>, \<^verbatim>\<open>dispatcher_guided.rs\<close>,
  \<^verbatim>\<open>dispatcher_guided_steps.rs\<close> and \<^verbatim>\<open>dispatcher_assignee_clarifications.rs\<close>: quick capture, the guided
  wizard, voice drafts, and the choice of an assignee from the candidates of a clarification.
\<close>

subsection \<open>Outcomes\<close>

datatype session_completion = ClearSession | KeepOnClarification

definition keyboard_for_outcome :: "task_creation_outcome \<Rightarrow> keyboard" where
  "keyboard_for_outcome outcome =
     (case outcome of
        OutcomeCreated s \<Rightarrow> created_task_followup_keyboard s (cs_delivery_status s = CreatorOnly)
      | OutcomeClarification q \<Rightarrow> clarification_keyboard q
      | OutcomeDuplicate _ \<Rightarrow> outcome_keyboard outcome)"

fun outcome_descriptor :: "task_creation_outcome \<Rightarrow> screen_descriptor" where
  "outcome_descriptor (OutcomeCreated s) = ScrTaskCreationResult (Some (cs_task_uid s))"
| "outcome_descriptor (OutcomeDuplicate s) = ScrTaskCreationResult (Some (cs_task_uid s))"
| "outcome_descriptor (OutcomeClarification _) = ScrTaskCreationResult None"

definition should_clear_session :: "task_creation_outcome \<Rightarrow> session_completion \<Rightarrow> bool" where
  "should_clear_session outcome completion =
     (case completion of
        ClearSession \<Rightarrow> True
      | KeepOnClarification \<Rightarrow>
          (case outcome of OutcomeClarification _ \<Rightarrow> False | _ \<Rightarrow> True))"

definition create_task_h ::
  "runtime \<Rightarrow> incoming_message \<Rightarrow> assignee_decision \<Rightarrow> task_creation_outcome result handler" where
  "create_task_h R m decision =
     call_may_panic (create_task (rt_libraries R) (rt_services R) m decision)"

definition create_and_present ::
  "runtime \<Rightarrow> chat_id \<Rightarrow> incoming_message \<Rightarrow> session_completion \<Rightarrow> unit handler" where
  "create_and_present R chat m completion =
     andThen (create_task_h R m AssignAuto) (\<lambda>r.
     case r of
       Inr outcome \<Rightarrow>
         seq (case outcome of
                OutcomeClarification q \<Rightarrow>
                  put_selection (set_create chat m (clarification_candidate_ids q)
                    (cl_allow_unassigned q))
              | _ \<Rightarrow> clear_selection chat)
         (seq (if should_clear_session outcome completion then clear_session chat else finish ())
           (send_screen R chat (outcome_descriptor outcome) (task_creation_text outcome)
             (keyboard_for_outcome outcome)))
     | Inl e \<Rightarrow> send_error R chat e)"

subsection \<open>Voice drafts\<close>

definition VOICE_SYNTHETIC_MESSAGE_ID :: int where "VOICE_SYNTHETIC_MESSAGE_ID = -1"
definition VOICE_TEXT_REQUIRED_MESSAGE :: utext where
  "VOICE_TEXT_REQUIRED_MESSAGE = txt_voice_text"
definition VOICE_TRANSCRIPT_UPDATED_NOTICE :: utext where
  "VOICE_TRANSCRIPT_UPDATED_NOTICE = txt_voice_updated"
definition VOICE_CONFIRMATION_HINT :: utext where
  "VOICE_CONFIRMATION_HINT = txt_voice_hint"
definition VOICE_PROCESSING_MESSAGE :: utext where
  "VOICE_PROCESSING_MESSAGE = txt_voice_processing"
definition VOICE_EMPTY_TRANSCRIPT_MESSAGE :: utext where
  "VOICE_EMPTY_TRANSCRIPT_MESSAGE = txt_voice_empty"
definition VOICE_CLIPPED_NOTICE :: utext where
  "VOICE_CLIPPED_NOTICE = txt_voice_clipped"
definition GUIDED_FALLBACK_NAME :: utext where
  "GUIDED_FALLBACK_NAME = txt_fallback_name"

definition build_voice_message :: "chat_id \<Rightarrow> user \<Rightarrow> voice_task_draft \<Rightarrow> instant \<Rightarrow> incoming_message" where
  "build_voice_message chat actor d now =
     \<lparr> m_message_id = VOICE_SYNTHETIC_MESSAGE_ID, m_chat_id = chat,
       m_sender_id = u_telegram_id actor,
       m_sender_name = (case u_full_name actor of Some n \<Rightarrow> n | None \<Rightarrow> GUIDED_FALLBACK_NAME),
       m_sender_username = u_telegram_username actor,
       m_content = TextContent (vd_transcript d), m_timestamp = now,
       m_source_message_key_override = Some (vd_source_message_key d),
       m_is_voice_origin = True \<rparr>"

definition transcription_error_text :: "app_error \<Rightarrow> utext" where
  "transcription_error_text e =
    (let code = err_code e in
     if code = ''VOICE_TOO_LONG'' then txt_te_long
     else if code = ''VOICE_TOO_LARGE'' then txt_te_large
     else if code = ''TRANSCRIPTION_EMPTY'' then txt_te_empty
     else if code = ''CIRCUIT_BREAKER_OPEN'' then txt_te_open
     else txt_te_other)"

definition build_confirmation_body ::
  "runtime \<Rightarrow> user \<Rightarrow> chat_id \<Rightarrow> voice_task_draft \<Rightarrow> utext handler" where
  "build_confirmation_body R actor chat d =
     draw now_utc (\<lambda>now.
     andThen (call_may_panic (preview_interpretation (rt_libraries R) (rt_services R)
                (build_voice_message chat actor d now))) (\<lambda>r.
     finish (case r of
       Inr preview \<Rightarrow> voice_interpretation_text (vd_transcript d) preview
     | Inl _ \<Rightarrow> voice_confirmation_text (vd_transcript d))))"

definition show_voice_confirmation ::
  "runtime \<Rightarrow> user \<Rightarrow> chat_id \<Rightarrow> voice_task_draft \<Rightarrow> utext option \<Rightarrow> unit handler" where
  "show_voice_confirmation R actor chat d notice =
     andThen (build_confirmation_body R actor chat d) (\<lambda>base.
     send_screen R chat (ScrVoiceCreate VoiceConfirm)
       (join [10, 10] ((case notice of Some n \<Rightarrow> [n] | None \<Rightarrow> [])
          @ (if vd_truncated d then [VOICE_CLIPPED_NOTICE] else []) @ [base]))
       voice_confirmation_keyboard)"

definition voice_start :: "runtime \<Rightarrow> user \<Rightarrow> incoming_message \<Rightarrow> unit handler" where
  "voice_start R actor m =
    (let chat = m_chat_id m in
     seq (send_screen R chat ScrProcessing VOICE_PROCESSING_MESSAGE [])
     (case transcribe_voice_message (rt_services R) m of
        Inr transcript \<Rightarrow>
          (case transcript_from_raw transcript of
             Inr normalised \<Rightarrow>
               (let d = with_truncation (nt_truncated normalised)
                          (voice_new (source_message_key m) (nt_text normalised)) in
                seq (put_session (set_voice chat d))
                (seq (clear_selection chat)
                  (show_voice_confirmation R actor chat d None)))
           | Inl _ \<Rightarrow>
               send_screen R chat ScrQuickCreate VOICE_EMPTY_TRANSCRIPT_MESSAGE
                 create_menu_keyboard)
      | Inl e \<Rightarrow>
          send_screen R chat ScrQuickCreate (transcription_error_text e) create_menu_keyboard))"

definition voice_prompt_again ::
  "runtime \<Rightarrow> user \<Rightarrow> chat_id \<Rightarrow> voice_task_draft \<Rightarrow> utext \<Rightarrow> unit handler" where
  "voice_prompt_again R actor chat d prefix_message =
     (case vd_step d of
        VoiceConfirm \<Rightarrow>
          andThen (build_confirmation_body R actor chat d) (\<lambda>body.
          send_screen R chat (ScrVoiceCreate VoiceConfirm) (prefix_message @ [10, 10] @ body)
            voice_confirmation_keyboard)
      | VoiceEditTranscript \<Rightarrow>
          send_screen R chat (ScrVoiceCreate VoiceEditTranscript)
            (prefix_message @ [10, 10] @ voice_edit_prompt (vd_transcript d)) voice_edit_keyboard)"

definition voice_handle_message ::
  "runtime \<Rightarrow> incoming_message \<Rightarrow> user \<Rightarrow> voice_task_draft \<Rightarrow> unit handler" where
  "voice_handle_message R m actor d =
    (case m_content m of
       VoiceContent _ \<Rightarrow> voice_start R actor m
     | _ \<Rightarrow>
        (let chat = m_chat_id m in
         case typed_text m of
           None \<Rightarrow> voice_prompt_again R actor chat d VOICE_TEXT_REQUIRED_MESSAGE
         | Some t \<Rightarrow>
            (case vd_step d of
               VoiceEditTranscript \<Rightarrow>
                 (let updated = replace_transcript t d in
                  seq (put_session (update_voice chat updated))
                    (show_voice_confirmation R actor chat updated
                      (Some VOICE_TRANSCRIPT_UPDATED_NOTICE)))
             | VoiceConfirm \<Rightarrow>
                 andThen (build_confirmation_body R actor chat d) (\<lambda>body.
                 send_screen R chat (ScrVoiceCreate VoiceConfirm)
                   (VOICE_CONFIRMATION_HINT @ [10, 10] @ body) voice_confirmation_keyboard))))"

definition voice_start_edit :: "runtime \<Rightarrow> chat_id \<Rightarrow> unit handler" where
  "voice_start_edit R chat =
     andThen (session_of chat) (\<lambda>session.
     case session of
       Some (VoiceDraft d) \<Rightarrow>
         seq (put_session (update_voice chat (start_editing d)))
           (send_screen R chat (ScrVoiceCreate VoiceEditTranscript)
             (voice_edit_prompt (vd_transcript (start_editing d))) voice_edit_keyboard)
     | _ \<Rightarrow> fallback_to_create_menu R chat)"

definition voice_return_to_confirmation :: "runtime \<Rightarrow> user \<Rightarrow> chat_id \<Rightarrow> unit handler" where
  "voice_return_to_confirmation R actor chat =
     andThen (session_of chat) (\<lambda>session.
     case session of
       Some (VoiceDraft d) \<Rightarrow>
         seq (put_session (update_voice chat (draft_to_confirmation d)))
           (show_voice_confirmation R actor chat (draft_to_confirmation d) None)
     | _ \<Rightarrow> fallback_to_create_menu R chat)"

definition voice_cancel :: "runtime \<Rightarrow> chat_id \<Rightarrow> unit handler" where
  "voice_cancel R chat =
     seq (clear_session chat) (seq (clear_selection chat) (fallback_to_create_menu R chat))"

definition voice_submit :: "runtime \<Rightarrow> user \<Rightarrow> chat_id \<Rightarrow> unit handler" where
  "voice_submit R actor chat =
     andThen (session_of chat) (\<lambda>session.
     case session of
       Some (VoiceDraft d) \<Rightarrow>
         draw now_utc (\<lambda>now.
         (let synthetic = build_voice_message chat actor d now in
          andThen (build_confirmation_body R actor chat d) (\<lambda>preview_body.
          andThen (create_task_h R synthetic AssignAuto) (\<lambda>r.
          case r of
            Inr (OutcomeClarification q) \<Rightarrow>
              seq (put_selection (set_create chat synthetic (clarification_candidate_ids q)
                    (cl_allow_unassigned q)))
                (send_screen R chat (ScrVoiceCreate VoiceConfirm)
                  (cl_message q @ [10, 10] @ preview_body) (clarification_keyboard q))
          | Inr outcome \<Rightarrow>
              seq (clear_session chat)
                (seq (clear_selection chat)
                  (send_screen R chat (outcome_descriptor outcome) (task_creation_text outcome)
                    (outcome_keyboard outcome)))
          | Inl e \<Rightarrow> send_error R chat e))))
     | _ \<Rightarrow> fallback_to_create_menu R chat)"

subsection \<open>The guided wizard\<close>

definition GUIDED_SYNTHETIC_MESSAGE_ID :: int where "GUIDED_SYNTHETIC_MESSAGE_ID = 0"
definition GUIDED_TEXT_REQUIRED_MESSAGE :: utext where
  "GUIDED_TEXT_REQUIRED_MESSAGE = txt_guided_text"
definition GUIDED_DESCRIPTION_REQUIRED_MESSAGE :: utext where
  "GUIDED_DESCRIPTION_REQUIRED_MESSAGE = txt_guided_description"

definition start_quick :: "runtime \<Rightarrow> chat_id \<Rightarrow> unit handler" where
  "start_quick R chat =
     seq (clear_selection chat) (seq (put_session (set_quick_capture chat))
       (send_screen R chat ScrQuickCreate quick_create_prompt quick_capture_keyboard))"

definition start_guided :: "runtime \<Rightarrow> chat_id \<Rightarrow> unit handler" where
  "start_guided R chat =
     seq (clear_selection chat)
     (draw fresh_uuid (\<lambda>key.
      seq (put_session (set_guided chat key))
       (send_screen R chat (ScrGuidedStep StepAssignee) guided_assignee_prompt
         guided_assignee_keyboard)))"

definition show_description_step :: "runtime \<Rightarrow> chat_id \<Rightarrow> unit handler" where
  "show_description_step R chat =
     send_screen R chat (ScrGuidedStep StepDescription) guided_description_prompt
       create_menu_keyboard"

definition confirm_assignee :: "runtime \<Rightarrow> chat_id \<Rightarrow> int \<Rightarrow> unit handler" where
  "confirm_assignee R chat employee_id =
     andThen (session_of chat) (\<lambda>session.
     case session of
       Some (Guided d) \<Rightarrow>
         seq (put_session (update_guided chat
               (d\<lparr> gd_resolved_employee_id := Some employee_id, gd_step := StepDescription \<rparr>)))
           (show_description_step R chat)
     | _ \<Rightarrow> fallback_to_create_menu R chat)"

definition skip_assignee :: "runtime \<Rightarrow> chat_id \<Rightarrow> unit handler" where
  "skip_assignee R chat =
     andThen (session_of chat) (\<lambda>session.
     case session of
       Some (Guided d) \<Rightarrow>
         seq (put_session (update_guided chat
               (d\<lparr> gd_assignee := None, gd_step := StepDescription \<rparr>)))
           (show_description_step R chat)
     | _ \<Rightarrow> fallback_to_create_menu R chat)"

definition show_guided_confirmation :: "runtime \<Rightarrow> chat_id \<Rightarrow> guided_task_draft \<Rightarrow> unit handler" where
  "show_guided_confirmation R chat d =
    (let confirmed = d\<lparr> gd_step := StepConfirm \<rparr> in
     seq (put_session (update_guided chat confirmed))
       (send_screen R chat (ScrGuidedStep StepConfirm) (guided_confirmation_text confirmed)
         guided_confirmation_keyboard))"

definition skip_deadline :: "runtime \<Rightarrow> chat_id \<Rightarrow> unit handler" where
  "skip_deadline R chat =
     andThen (session_of chat) (\<lambda>session.
     case session of
       Some (Guided d) \<Rightarrow>
         show_guided_confirmation R chat (d\<lparr> gd_deadline := None, gd_step := StepConfirm \<rparr>)
     | _ \<Rightarrow> fallback_to_create_menu R chat)"

definition edit_guided_field :: "runtime \<Rightarrow> chat_id \<Rightarrow> draft_edit_field \<Rightarrow> unit handler" where
  "edit_guided_field R chat fld =
     andThen (session_of chat) (\<lambda>session.
     case session of
       Some (Guided d) \<Rightarrow>
         (let edited = edit_field fld d in
          seq (put_session (update_guided chat edited))
          (case gd_step edited of
             StepAssignee \<Rightarrow>
               send_screen R chat (ScrGuidedStep StepAssignee) guided_assignee_prompt
                 guided_assignee_keyboard
           | StepDescription \<Rightarrow> show_description_step R chat
           | StepDeadline \<Rightarrow>
               send_screen R chat (ScrGuidedStep StepDeadline) guided_deadline_prompt
                 guided_deadline_keyboard
           | StepConfirm \<Rightarrow>
               send_screen R chat (ScrGuidedStep StepConfirm) (guided_confirmation_text edited)
                 guided_confirmation_keyboard))
     | _ \<Rightarrow> fallback_to_create_menu R chat)"

definition build_deadline_suffix :: "utext \<Rightarrow> utext" where
  "build_deadline_suffix v =
    (let trimmed = trim v in
     case trimmed of
       c # _ \<Rightarrow> if is_ascii_digit c then txt_until @ trimmed else 32 # trimmed
     | [] \<Rightarrow> 32 # trimmed)"

definition guided_message_text :: "guided_task_draft \<Rightarrow> utext \<Rightarrow> utext" where
  "guided_message_text d description =
     (if gd_resolved_employee_id d \<noteq> None then description
      else case gd_assignee d of Some a \<Rightarrow> a @ ascii '', '' @ description | None \<Rightarrow> description)
     @ (case gd_deadline d of Some v \<Rightarrow> build_deadline_suffix v | None \<Rightarrow> [])"

definition build_guided_message ::
  "chat_id \<Rightarrow> user \<Rightarrow> guided_task_draft \<Rightarrow> utext \<Rightarrow> (uuid \<Rightarrow> utext) \<Rightarrow> instant \<Rightarrow> incoming_message" where
  "build_guided_message chat actor d description show_uuid now =
     \<lparr> m_message_id = GUIDED_SYNTHETIC_MESSAGE_ID, m_chat_id = chat,
       m_sender_id = u_telegram_id actor,
       m_sender_name = (case u_full_name actor of Some n \<Rightarrow> n | None \<Rightarrow> GUIDED_FALLBACK_NAME),
       m_sender_username = u_telegram_username actor,
       m_content = TextContent (guided_message_text d description), m_timestamp = now,
       m_source_message_key_override =
         Some (ascii ''telegram:guided:'' @ show_int chat @ [58] @ show_uuid (gd_submission_key d)),
       m_is_voice_origin = False \<rparr>"

definition guided_decision :: "guided_task_draft \<Rightarrow> assignee_decision" where
  "guided_decision d =
     (case gd_resolved_employee_id d of Some i \<Rightarrow> AssignEmployee i | None \<Rightarrow> AssignAuto)"

definition submit_guided :: "runtime \<Rightarrow> user \<Rightarrow> chat_id \<Rightarrow> unit handler" where
  "submit_guided R actor chat =
     andThen (session_of chat) (\<lambda>session.
     case session of
       Some (Guided d) \<Rightarrow>
        (case gd_description d of
           Some description \<Rightarrow>
             if trim description = [] then
               send_screen R chat (ScrGuidedStep StepConfirm) GUIDED_DESCRIPTION_REQUIRED_MESSAGE
                 guided_confirmation_keyboard
             else
               draw now_utc (\<lambda>now.
               andThen (see (\<lambda>s. env_uuid_text (w_env (b_world s)))) (\<lambda>show_uuid.
               (let synthetic = build_guided_message chat actor d description show_uuid now in
                andThen (create_task_h R synthetic (guided_decision d)) (\<lambda>r.
                case r of
                  Inr (OutcomeClarification q) \<Rightarrow>
                    seq (put_selection (set_create chat synthetic (clarification_candidate_ids q)
                          (cl_allow_unassigned q)))
                      (send_screen R chat (outcome_descriptor (OutcomeClarification q))
                        (task_creation_text (OutcomeClarification q)) (clarification_keyboard q))
                | Inr outcome \<Rightarrow>
                    seq (clear_session chat)
                      (seq (clear_selection chat)
                        (send_screen R chat (outcome_descriptor outcome)
                          (task_creation_text outcome) (outcome_keyboard outcome)))
                | Inl e \<Rightarrow> send_error R chat e))))
         | None \<Rightarrow>
             send_screen R chat (ScrGuidedStep StepConfirm) GUIDED_DESCRIPTION_REQUIRED_MESSAGE
               guided_confirmation_keyboard)
     | _ \<Rightarrow> fallback_to_create_menu R chat)"

subsection \<open>Texts typed during the wizard\<close>

definition update_guided_assignee :: "utext \<Rightarrow> guided_task_draft \<Rightarrow> guided_task_draft" where
  "update_guided_assignee v d =
     d\<lparr> gd_assignee := Some v, gd_resolved_employee_id := None, gd_step := StepDescription \<rparr>"

definition update_guided_assignee_resolved ::
  "utext \<Rightarrow> int option \<Rightarrow> guided_task_draft \<Rightarrow> guided_task_draft" where
  "update_guided_assignee_resolved v employee_id d =
     d\<lparr> gd_assignee := Some v, gd_resolved_employee_id := employee_id, gd_step := StepDescription \<rparr>"

definition update_guided_description :: "utext \<Rightarrow> guided_task_draft \<Rightarrow> guided_task_draft" where
  "update_guided_description v d = d\<lparr> gd_description := Some v, gd_step := StepDeadline \<rparr>"

definition update_guided_deadline :: "utext \<Rightarrow> guided_task_draft \<Rightarrow> guided_task_draft" where
  "update_guided_deadline v d = d\<lparr> gd_deadline := Some v, gd_step := StepConfirm \<rparr>"

definition validate_guided_description :: "utext \<Rightarrow> utext option" where
  "validate_guided_description v =
    (let trimmed = trim v in
     if length trimmed < MIN_TASK_DESCRIPTION_LENGTH
     then Some txt_gd_short
     else if length (split_whitespace trimmed) < 2
     then Some txt_gd_one_word
     else None)"

definition handle_guided_assignee_step :: "runtime \<Rightarrow> chat_id \<Rightarrow> utext \<Rightarrow> unit handler" where
  "handle_guided_assignee_step R chat v =
     andThen (session_of chat) (\<lambda>session.
     case session of
       Some (Guided d) \<Rightarrow>
         andThen (call (preview_assignee_resolution (rt_libraries R) (rt_services R) v)) (\<lambda>r.
         case r of
           Inr (ResolvedTo found) \<Rightarrow>
             seq (put_session (update_guided chat (update_guided_assignee_resolved v
                    (Option.bind (ra_employee found) e_id) d)))
               (show_description_step R chat)
         | Inr (ResolutionClarification q) \<Rightarrow>
             seq (put_session (update_guided chat d))
               (send_screen R chat ScrGuidedAssigneeOptions
                 (guided_assignee_clarification_text (cl_message q))
                 (guided_assignee_suggestions_keyboard (cl_candidates q)))
         | Inl _ \<Rightarrow>
             seq (put_session (update_guided chat (update_guided_assignee v d)))
               (show_description_step R chat))
     | _ \<Rightarrow> fallback_to_create_menu R chat)"

definition handle_guided_description_step ::
  "runtime \<Rightarrow> chat_id \<Rightarrow> guided_task_draft \<Rightarrow> utext \<Rightarrow> unit handler" where
  "handle_guided_description_step R chat d v =
     (case validate_guided_description v of
        Some hint \<Rightarrow>
          send_screen R chat (ScrGuidedStep StepDescription) hint create_menu_keyboard
      | None \<Rightarrow>
          seq (put_session (update_guided chat (update_guided_description v d)))
            (send_screen R chat (ScrGuidedStep StepDeadline) guided_deadline_prompt
              guided_deadline_keyboard))"

definition handle_guided_deadline_step ::
  "runtime \<Rightarrow> chat_id \<Rightarrow> guided_task_draft \<Rightarrow> utext \<Rightarrow> unit handler" where
  "handle_guided_deadline_step R chat d v =
     show_guided_confirmation R chat (update_guided_deadline v d)"

definition handle_guided_message ::
  "runtime \<Rightarrow> incoming_message \<Rightarrow> user \<Rightarrow> guided_task_draft \<Rightarrow> unit handler" where
  "handle_guided_message R m actor d =
    (let chat = m_chat_id m in
     case typed_text m of
       None \<Rightarrow>
         send_screen R chat (ScrGuidedStep (gd_step d)) GUIDED_TEXT_REQUIRED_MESSAGE
           (main_menu_keyboard actor)
     | Some t \<Rightarrow>
        (case gd_step d of
           StepAssignee \<Rightarrow> handle_guided_assignee_step R chat t
         | StepDescription \<Rightarrow> handle_guided_description_step R chat d t
         | StepDeadline \<Rightarrow> handle_guided_deadline_step R chat d t
         | StepConfirm \<Rightarrow>
             send_screen R chat (ScrGuidedStep StepConfirm) (guided_confirmation_text d)
               guided_confirmation_keyboard))"

definition handle_session_message ::
  "runtime \<Rightarrow> incoming_message \<Rightarrow> user \<Rightarrow> creation_session \<Rightarrow> unit handler" where
  "handle_session_message R m actor session =
     (case session of
        QuickCapture \<Rightarrow>
          (case m_content m of
             VoiceContent _ \<Rightarrow> voice_start R actor m
           | _ \<Rightarrow> create_and_present R (m_chat_id m) m KeepOnClarification)
      | Guided d \<Rightarrow> handle_guided_message R m actor d
      | VoiceDraft d \<Rightarrow> voice_handle_message R m actor d)"

subsection \<open>The choice among candidates\<close>

definition CANDIDATES_STALE_NOTICE :: utext where
  "CANDIDATES_STALE_NOTICE = txt_candidates_stale"

definition present_created :: "runtime \<Rightarrow> chat_id \<Rightarrow> task_creation_outcome result \<Rightarrow> unit handler" where
  "present_created R chat r =
     (case r of
        Inr outcome \<Rightarrow>
          seq (clear_selection chat)
            (seq (clear_session chat)
              (send_screen R chat (outcome_descriptor outcome) (task_creation_text outcome)
                (keyboard_for_outcome outcome)))
      | Inl e \<Rightarrow> send_error R chat e)"

definition choose_clarified_assignee ::
  "runtime \<Rightarrow> user \<Rightarrow> chat_id \<Rightarrow> int \<Rightarrow> unit handler" where
  "choose_clarified_assignee R actor chat employee_id =
     andThen (see (\<lambda>s. chat_get chat (b_selections s))) (\<lambda>selection.
     case selection of
       None \<Rightarrow> fallback_to_create_menu R chat
     | Some (SelectCreate pending) \<Rightarrow>
         if employee_id \<notin> set (sc_candidate_ids pending) then
           seq (clear_selection chat) (fallback_to_create_menu R chat)
         else
           andThen (create_task_h R (sc_message pending) (AssignEmployee employee_id))
             (present_created R chat)
     | Some (SelectReassign pending) \<Rightarrow>
         (let uid = rs_task_uid pending; orig = rs_origin pending;
              card = (\<lambda>notice. show_task_details_with_notice R actor chat uid orig Compact
                        (Some notice))
          in if employee_id \<notin> set (rs_candidate_ids pending) then
               seq (clear_selection chat) (card CANDIDATES_STALE_NOTICE)
             else
               andThen (call (reassign_task (lb_unicode (rt_libraries R))
                          (sv_similar (rt_services R)) actor uid (rs_original_query pending)
                          (ReassignEmployee employee_id))) (\<lambda>r.
               case r of
                 Inr (Reassigned summary) \<Rightarrow>
                   seq (clear_selection chat) (card (ts_message summary))
               | Inr (ReassignClarification q) \<Rightarrow>
                   show_reassign_clarification R chat uid orig (rs_original_query pending)
                     KindReassign q
               | Inl e \<Rightarrow> send_error R chat e)))"

definition create_without_assignee_after_clarification :: "runtime \<Rightarrow> chat_id \<Rightarrow> unit handler" where
  "create_without_assignee_after_clarification R chat =
     andThen (see (\<lambda>s. chat_get chat (b_selections s))) (\<lambda>selection.
     case selection of
       Some (SelectCreate pending) \<Rightarrow>
         if \<not> sc_allow_unassigned pending then
           seq (clear_selection chat) (fallback_to_create_menu R chat)
         else
           andThen (create_task_h R (sc_message pending) CreateUnassigned) (present_created R chat)
     | _ \<Rightarrow> fallback_to_create_menu R chat)"

end
