(* ===== verification/Bot_Admin.thy ===== *)
theory Bot_Admin
  imports Bot_Views
begin

section \<open>The admin panel of the bot\<close>

text \<open>
  \<^verbatim>\<open>src/presentation/telegram/dispatcher_admin.rs\<close>: the panel's screens, the two steps of a destructive
  action (a confirmation carrying a nonce, and its redemption), the feature flags and the two logs.
\<close>

definition RECENT_AUDIT_LIMIT :: nat where "RECENT_AUDIT_LIMIT = 20"
definition RECENT_SECURITY_AUDIT_LIMIT :: nat where "RECENT_SECURITY_AUDIT_LIMIT = 30"

definition guard_admin :: "user \<Rightarrow> unit result" where
  "guard_admin actor = ensure_can_access_admin_panel actor"

definition render_admin_error :: "runtime \<Rightarrow> user \<Rightarrow> chat_id \<Rightarrow> app_error \<Rightarrow> unit handler" where
  "render_admin_error R actor chat e =
    (let code = err_code e in
     if code = ''FORBIDDEN_ADMIN_ONLY'' then
       send_screen R chat ScrMainMenu admin_access_denied_text (main_menu_keyboard actor)
     else if code = ''FORBIDDEN_ACCOUNT_DEACTIVATED'' then
       send_screen R chat ScrMainMenu admin_account_deactivated_text (main_menu_keyboard actor)
     else if code = ''FORBIDDEN_SELF_TARGET'' then
       send_screen R chat ScrAdminMenu admin_self_target_text admin_menu_keyboard
     else if code = ''LAST_ADMIN_PROTECTED'' then
       send_screen R chat ScrAdminMenu admin_last_admin_text admin_menu_keyboard
     else if code = ''USER_NOT_FOUND'' then
       send_screen R chat ScrAdminMenu admin_user_not_found_text admin_menu_keyboard
     else send_error R chat e)"

definition show_admin_menu :: "runtime \<Rightarrow> user \<Rightarrow> chat_id \<Rightarrow> unit handler" where
  "show_admin_menu R actor chat =
     (case guard_admin actor of
        Inl e \<Rightarrow> render_admin_error R actor chat e
      | Inr _ \<Rightarrow> send_screen R chat ScrAdminMenu (admin_menu_text actor) admin_menu_keyboard)"

definition show_admin_users :: "runtime \<Rightarrow> user \<Rightarrow> chat_id \<Rightarrow> unit handler" where
  "show_admin_users R actor chat =
     andThen (call (panel_list_active_admins actor)) (\<lambda>r.
     case r of
       Inr users \<Rightarrow>
         send_screen R chat ScrAdminUsers (admin_users_text users actor) (admin_users_keyboard users)
     | Inl e \<Rightarrow> render_admin_error R actor chat e)"

definition show_admin_user_details :: "runtime \<Rightarrow> user \<Rightarrow> chat_id \<Rightarrow> row_id \<Rightarrow> unit handler" where
  "show_admin_user_details R actor chat user_id =
     andThen (call (get_user actor user_id)) (\<lambda>r.
     case r of
       Inr target \<Rightarrow>
         send_screen R chat (ScrAdminUserDetails user_id)
           (admin_user_details_text (rt_time_text R) target) (admin_user_details_keyboard target)
     | Inl e \<Rightarrow> render_admin_error R actor chat e)"

subsection \<open>Two-step actions\<close>

definition issue_confirmation ::
  "runtime \<Rightarrow> user \<Rightarrow> chat_id \<Rightarrow> pending_admin_action \<Rightarrow> unit handler" where
  "issue_confirmation R actor chat action =
     (case u_id actor of
        None \<Rightarrow>
          render_admin_error R actor chat
            (unauthenticated (ascii ''Actor must be registered'')
              (JObj [(''telegram_id'', JNum (u_telegram_id actor))]))
      | Some actor_id \<Rightarrow>
          if target_user_id action = actor_id then
            render_admin_error R actor chat
              (forbidden ''FORBIDDEN_SELF_TARGET''
                (ascii ''An admin cannot apply this action to themselves'')
                (JObj [(''actor_user_id'', JNum actor_id)]))
          else
            draw fresh_uuid (\<lambda>uid.
            andThen (monotonic R) (\<lambda>now.
            (let nonce = rt_simple_uuid R uid in
             seq (change (\<lambda>s. s\<lparr> b_nonces :=
                    nonce_issue (rt_nonce_ttl R) now nonce actor_id action (b_nonces s) \<rparr>))
               (send_screen R chat (ScrAdminConfirm nonce)
                 (admin_confirm_text (describe_pending_admin_action action))
                 (admin_confirmation_keyboard nonce))))))"

definition prepare_admin_action ::
  "runtime \<Rightarrow> user \<Rightarrow> chat_id \<Rightarrow> row_id \<Rightarrow> (user \<Rightarrow> pending_admin_action) \<Rightarrow> unit handler" where
  "prepare_admin_action R actor chat user_id mk =
     andThen (call (get_user actor user_id)) (\<lambda>r.
     case r of
       Inr target \<Rightarrow> issue_confirmation R actor chat (mk target)
     | Inl e \<Rightarrow> render_admin_error R actor chat e)"

definition prepare_admin_role_change ::
  "runtime \<Rightarrow> user \<Rightarrow> chat_id \<Rightarrow> row_id \<Rightarrow> admin_role_option \<Rightarrow> unit handler" where
  "prepare_admin_role_change R actor chat user_id next_role =
     prepare_admin_action R actor chat user_id
       (\<lambda>target. ChangeRole user_id (u_telegram_id target) (admin_name target) next_role)"

definition prepare_admin_deactivate :: "runtime \<Rightarrow> user \<Rightarrow> chat_id \<Rightarrow> row_id \<Rightarrow> unit handler" where
  "prepare_admin_deactivate R actor chat user_id =
     prepare_admin_action R actor chat user_id
       (\<lambda>target. Deactivate user_id (u_telegram_id target) (admin_name target))"

definition prepare_admin_reactivate :: "runtime \<Rightarrow> user \<Rightarrow> chat_id \<Rightarrow> row_id \<Rightarrow> unit handler" where
  "prepare_admin_reactivate R actor chat user_id =
     prepare_admin_action R actor chat user_id
       (\<lambda>target. Reactivate user_id (u_telegram_id target) (admin_name target))"

definition redeem_nonce ::
  "runtime \<Rightarrow> int \<Rightarrow> utext \<Rightarrow> (nonce_error + pending_admin_action) handler" where
  "redeem_nonce R actor_id nonce =
     andThen (monotonic R) (\<lambda>now s.
       (case nonce_consume now actor_id nonce (b_nonces s) of
          (r, store) \<Rightarrow> (Finished r, s\<lparr> b_nonces := store \<rparr>)))"

text \<open>What the redeemed action does, and the text that announces it.\<close>

fun carry_out :: "user \<Rightarrow> pending_admin_action \<Rightarrow> (world, user) act" where
  "carry_out actor (ChangeRole target _ _ role) = change_role actor target (to_user_role role)"
| "carry_out actor (Deactivate target _ _) = deactivate_user actor target"
| "carry_out actor (Reactivate target _ _) = reactivate_user actor target"

fun carried_out_text :: "pending_admin_action \<Rightarrow> user \<Rightarrow> utext" where
  "carried_out_text (ChangeRole _ _ _ _) u = admin_role_changed_text u"
| "carried_out_text (Deactivate _ _ _) u = admin_deactivated_text u"
| "carried_out_text (Reactivate _ _ _) u = admin_reactivated_text u"

definition execute_admin_confirmation ::
  "runtime \<Rightarrow> user \<Rightarrow> chat_id \<Rightarrow> utext \<Rightarrow> unit handler" where
  "execute_admin_confirmation R actor chat nonce =
     (case u_id actor of
        None \<Rightarrow>
          render_admin_error R actor chat
            (unauthenticated (ascii ''Actor must be registered'')
              (JObj [(''telegram_id'', JNum (u_telegram_id actor))]))
      | Some actor_id \<Rightarrow>
          andThen (redeem_nonce R actor_id nonce) (\<lambda>redeemed.
          case redeemed of
            Inl nonce_error.NotFound \<Rightarrow>
              send_screen R chat ScrAdminMenu admin_nonce_expired_text admin_menu_keyboard
          | Inl WrongActor \<Rightarrow>
              send_screen R chat ScrAdminMenu admin_nonce_wrong_actor_text admin_menu_keyboard
          | Inr action \<Rightarrow>
              andThen (call (carry_out actor action)) (\<lambda>r.
              case r of
                Inr u \<Rightarrow>
                  send_screen R chat
                    (ScrAdminUserDetails (case u_id u of Some i \<Rightarrow> i | None \<Rightarrow> 0))
                    (carried_out_text action u) (admin_user_details_keyboard u)
              | Inl e \<Rightarrow> render_admin_error R actor chat e)))"

definition cancel_admin_pending :: "runtime \<Rightarrow> user \<Rightarrow> chat_id \<Rightarrow> unit handler" where
  "cancel_admin_pending R actor chat =
     seq (send_screen R chat ScrAdminMenu admin_action_cancelled_text admin_menu_keyboard)
       (show_admin_menu R actor chat)"

subsection \<open>Logs and flags\<close>

definition show_admin_audit :: "runtime \<Rightarrow> user \<Rightarrow> chat_id \<Rightarrow> unit handler" where
  "show_admin_audit R actor chat =
     andThen (call (list_recent_audit actor RECENT_AUDIT_LIMIT)) (\<lambda>r.
     case r of
       Inr entries \<Rightarrow>
         draw now_utc (\<lambda>now.
         send_screen R chat ScrAdminAudit (admin_audit_text (rt_short_time R) now entries)
           admin_back_keyboard)
     | Inl e \<Rightarrow> render_admin_error R actor chat e)"

definition show_admin_security_audit :: "runtime \<Rightarrow> user \<Rightarrow> chat_id \<Rightarrow> unit handler" where
  "show_admin_security_audit R actor chat =
     (case guard_admin actor of
        Inl e \<Rightarrow> render_admin_error R actor chat e
      | Inr _ \<Rightarrow>
          andThen (call (list_recent_security_audit RECENT_SECURITY_AUDIT_LIMIT)) (\<lambda>r.
          case r of
            Inr entries \<Rightarrow>
              draw now_utc (\<lambda>now.
              send_screen R chat ScrAdminSecurityAudit
                (admin_security_audit_text (rt_short_time R) now entries) admin_back_keyboard)
          | Inl e \<Rightarrow> render_admin_error R actor chat e))"

definition show_admin_features :: "runtime \<Rightarrow> user \<Rightarrow> chat_id \<Rightarrow> unit handler" where
  "show_admin_features R actor chat =
     (case guard_admin actor of
        Inl e \<Rightarrow> render_admin_error R actor chat e
      | Inr _ \<Rightarrow>
          andThen (see (\<lambda>s. all_flags (w_flags (b_world s)))) (\<lambda>flags.
          send_screen R chat ScrAdminFeatures (admin_features_text flags)
            (admin_features_keyboard flags)))"

definition toggle_admin_feature :: "runtime \<Rightarrow> user \<Rightarrow> chat_id \<Rightarrow> utext \<Rightarrow> unit handler" where
  "toggle_admin_feature R actor chat flag_key =
     (case feature_flag_from_str flag_key of
        Inl _ \<Rightarrow> show_admin_features R actor chat
      | Inr flag \<Rightarrow>
          andThen (feature_enabled flag) (\<lambda>current_enabled.
          andThen (call (toggle_feature_flag actor flag_key (\<not> current_enabled))) (\<lambda>r.
          case r of
            Inr _ \<Rightarrow> show_admin_features R actor chat
          | Inl e \<Rightarrow> render_admin_error R actor chat e)))"

end
