(* ===== verification/Bot_Entry.thy ===== *)
theory Bot_Entry
  imports Bot_Creation Bot_Admin Bot_Texts
begin

section \<open>Onboarding, registration and the dispatcher\<close>

text \<open>
  \<^verbatim>\<open>dispatcher_onboarding.rs\<close>, \<^verbatim>\<open>dispatcher_registration.rs\<close>, \<^verbatim>\<open>dispatcher_handlers.rs\<close> and
  \<^verbatim>\<open>dispatcher.rs\<close>: what happens to an update from its arrival to its screen. Every update passes the
  deduplicator, gets a barrier of its own, identifies its actor through the onboarding gate and the
  registration, and then reaches the handler of its command, session or button.
\<close>

subsection \<open>Onboarding\<close>

definition publish_link_screen :: "runtime \<Rightarrow> chat_id \<Rightarrow> link_clarification \<Rightarrow> unit handler" where
  "publish_link_screen R chat c =
     seq (put_link (set_link chat (List.map_filter ec_employee_id (lc_candidates c))
            (lc_allow_continue_unlinked c)))
       (send_fresh_screen R chat ScrRegistrationLinking
         (registration_link_text (lc_message c) (lc_candidates c))
         (registration_link_keyboard (lc_candidates c) (lc_allow_continue_unlinked c)))"

fun retry_text :: "onboarding_retry_reason \<Rightarrow> utext" where
  "retry_text FirstNameInvalid = onboarding_retry_first_name_text"
| "retry_text LastNameInvalid = onboarding_retry_last_name_text"
| "retry_text LinkSelectionExpected = onboarding_link_expected_text"
| "retry_text TooLong = onboarding_too_long_text"

datatype onboarding_next_action = AwaitText | AwaitCallback | OnboardingFinished

definition render_outcome ::
  "runtime \<Rightarrow> chat_id \<Rightarrow> onboarding_outcome \<Rightarrow> onboarding_next_action handler" where
  "render_outcome R chat outcome =
     (case outcome of
        AskFirstName _ \<Rightarrow>
          seq (send_fresh_screen R chat ScrOnboardingFirstName onboarding_welcome_text [])
            (finish AwaitText)
      | AskLastName u \<Rightarrow>
          seq (send_fresh_screen R chat ScrOnboardingLastName
                (onboarding_ask_last_name_text
                  (case u_first_name u of Some v \<Rightarrow> v | None \<Rightarrow> [])) [])
            (finish AwaitText)
      | AskEmployeeLink _ c \<Rightarrow> seq (publish_link_screen R chat c) (finish AwaitCallback)
      | OnboardingDone u \<Rightarrow>
          seq (send_fresh_screen R chat ScrMainMenu (onboarding_completed_text u) [])
            (finish OnboardingFinished)
      | RetryPrompt reason \<Rightarrow>
          seq (send_plain R chat (retry_text reason)) (finish AwaitText))"

datatype onboarding_gate_result = JustCompleted | GateInProgress | NotApplicable

definition gate_result :: "onboarding_next_action \<Rightarrow> onboarding_gate_result" where
  "gate_result a = (if a = OnboardingFinished then JustCompleted else GateInProgress)"

definition run_onboarding_gate :: "runtime \<Rightarrow> incoming_message \<Rightarrow> onboarding_gate_result handler" where
  "run_onboarding_gate R m =
    (let chat = m_chat_id m in
     andThen (call (probe_onboarding_state (m_sender_id m))) (\<lambda>probe.
     (let existing = (case probe of Inr v \<Rightarrow> v | Inl _ \<Rightarrow> None);
          onboarded = (case existing of Some u \<Rightarrow> is_onboarded u | None \<Rightarrow> False);
          rendered = (\<lambda>r. case r of
             Inr outcome \<Rightarrow>
               andThen (render_outcome R chat outcome) (\<lambda>a. finish (gate_result a))
           | Inl e \<Rightarrow> seq (send_error R chat e) (finish GateInProgress))
      in if onboarded then finish NotApplicable
         else if existing = None \<or> is_explicit_start_command m then
           andThen (call (handle_start (m_timestamp m) m)) rendered
         else
          (case text_payload (m_content m) of
             Some t \<Rightarrow>
               andThen (call (handle_text (lb_unicode (rt_libraries R)) (m_timestamp m) m t)) rendered
           | None \<Rightarrow>
               seq (send_plain R chat onboarding_welcome_text) (finish GateInProgress)))))"

subsection \<open>Registration\<close>

datatype registration_result = ActorReady user | ConsumedByOnboarding | Aborted

definition register_actor :: "runtime \<Rightarrow> incoming_message \<Rightarrow> registration_result handler" where
  "register_actor R m =
    (let chat = m_chat_id m; U = lb_unicode (rt_libraries R) in
     andThen (run_onboarding_gate R m) (\<lambda>gate.
     if gate \<noteq> NotApplicable then finish ConsumedByOnboarding
     else
       andThen (call (preview_linking U m)) (\<lambda>preview.
       case preview of
         Inr (LinkReady decision) \<Rightarrow>
           andThen (call (execute_with_link_decision U m decision)) (\<lambda>r.
           case r of
             Inr actor \<Rightarrow> finish (ActorReady actor)
           | Inl e \<Rightarrow> seq (send_error R chat e) (finish Aborted))
       | Inr (LinkClarification c) \<Rightarrow> seq (publish_link_screen R chat c) (finish Aborted)
       | Inl e \<Rightarrow> seq (send_error R chat e) (finish Aborted))))"

definition REGISTRATION_STALE_MESSAGE :: utext where
  "REGISTRATION_STALE_MESSAGE = txt_registration_stale"

definition send_registration_stale :: "runtime \<Rightarrow> chat_id \<Rightarrow> unit handler" where
  "send_registration_stale R chat =
     send_screen R chat ScrRegistrationLinking REGISTRATION_STALE_MESSAGE []"

definition is_user_in_onboarding_link_step :: "int \<Rightarrow> bool handler" where
  "is_user_in_onboarding_link_step telegram_id =
     andThen (call (probe_onboarding_state telegram_id)) (\<lambda>r.
     finish (case r of
       Inr (Some u) \<Rightarrow> u_onboarding_state u = AwaitingEmployeeLink
     | _ \<Rightarrow> False))"

definition dispatch_to_onboarding ::
  "runtime \<Rightarrow> incoming_message \<Rightarrow> link_selection \<Rightarrow> unit handler" where
  "dispatch_to_onboarding R m selection =
    (let chat = m_chat_id m in
     andThen (call (handle_link_selection (lb_unicode (rt_libraries R)) (m_timestamp m) m selection))
      (\<lambda>r.
       case r of
         Inr outcome \<Rightarrow> seq (clear_link chat) (andThen (render_outcome R chat outcome) (\<lambda>_. finish ()))
       | Inl e \<Rightarrow> send_error R chat e))"

definition link_and_welcome ::
  "runtime \<Rightarrow> incoming_message \<Rightarrow> link_decision \<Rightarrow> utext \<Rightarrow> unit handler" where
  "link_and_welcome R m decision banner =
    (let chat = m_chat_id m in
     andThen (call (execute_with_link_decision (lb_unicode (rt_libraries R)) m decision)) (\<lambda>r.
     case r of
       Inr actor \<Rightarrow>
         seq (clear_link chat)
           (send_screen R chat ScrMainMenu (banner @ welcome_text actor) (main_menu_keyboard actor))
     | Inl e \<Rightarrow> send_error R chat e))"

definition handle_registration_link_callback ::
  "runtime \<Rightarrow> incoming_message \<Rightarrow> telegram_callback \<Rightarrow> unit handler" where
  "handle_registration_link_callback R m cb =
    (let chat = m_chat_id m in
     andThen (is_user_in_onboarding_link_step (m_sender_id m)) (\<lambda>onboarding.
     case cb of
       RegistrationPickEmployee employee_id \<Rightarrow>
         if onboarding then dispatch_to_onboarding R m (PickEmployee employee_id)
         else
           andThen (see (\<lambda>s. chat_get chat (b_links s))) (\<lambda>pending.
           case pending of
             None \<Rightarrow> send_registration_stale R chat
           | Some p \<Rightarrow>
               if employee_id \<notin> set (pl_candidate_ids p) then send_registration_stale R chat
               else
                 link_and_welcome R m (LinkEmployee employee_id)
                   txt_linked)
     | RegistrationContinueUnlinked \<Rightarrow>
         if onboarding then dispatch_to_onboarding R m ContinueWithoutLink
         else
           link_and_welcome R m ContinueUnlinked
             txt_unlinked
     | _ \<Rightarrow> finish ()))"

subsection \<open>The rate limit\<close>

definition check_rate_limit :: "runtime \<Rightarrow> user \<Rightarrow> chat_id \<Rightarrow> bool handler" where
  "check_rate_limit R actor chat =
     andThen (see b_checks) (\<lambda>n.
     seq (change (\<lambda>s. s\<lparr> b_checks := Suc n \<rparr>))
     (if rt_rate_allows R n then finish True
      else
        draw now_utc (\<lambda>now.
        andThen (call (append_security_audit
           \<lparr> sa_id = None, sa_actor_user_id = u_id actor, sa_telegram_id = Some (u_telegram_id actor),
             sa_event_code = RateLimitExceeded, sa_metadata = JObj [(''chat_id'', JNum chat)],
             sa_created_at = now \<rparr>)) (\<lambda>_.
        seq (send_plain R chat RATE_LIMIT_MESSAGE) (finish False)))))"

subsection \<open>Commands\<close>

definition handle_new_task_command ::
  "runtime \<Rightarrow> incoming_message \<Rightarrow> utext option \<Rightarrow> unit handler" where
  "handle_new_task_command R m payload =
     (case payload of
        Some p \<Rightarrow> create_and_present R (m_chat_id m) (m\<lparr> m_content := TextContent p \<rparr>) ClearSession
      | None \<Rightarrow> show_create_menu R (m_chat_id m))"

definition search_result_text :: "utext \<Rightarrow> task_list_item list \<Rightarrow> utext" where
  "search_result_text canonical items =
     (if items = [] then
        (txt_find_none @ canonical @ txt_find_none_2)
      else
        (txt_find_some @ show_nat (length items) @ txt_find_some_2 @ canonical
      @ txt_find_some_3)
        @ concat (map (\<lambda>item. (txt_find_line @ li_public_code item @ txt_find_line_2 @ li_title item))
            (take 10 items))
        @ (if length items > 10
           then (txt_find_more @ show_nat (length items - 10) @ txt_find_more_2) else []))"

definition run_find_command ::
  "runtime \<Rightarrow> user \<Rightarrow> chat_id \<Rightarrow> utext option \<Rightarrow> unit handler" where
  "run_find_command R actor chat query =
    (let U = lb_unicode (rt_libraries R) in
     case query of
       None \<Rightarrow>
         send_fresh_screen R chat ScrHelp
           txt_find_hint
           (main_menu_keyboard actor)
     | Some raw \<Rightarrow>
        (case parse_search_query U raw of
           Inl e \<Rightarrow> send_error R chat e
         | Inr canonical \<Rightarrow>
             andThen (call (search_tasks U actor canonical)) (\<lambda>r.
             case r of
               Inr items \<Rightarrow>
                 send_fresh_screen R chat ScrHelp (search_result_text canonical items)
                   (main_menu_keyboard actor)
             | Inl e \<Rightarrow> send_error R chat e)))"

definition handle_command ::
  "runtime \<Rightarrow> incoming_message \<Rightarrow> user \<Rightarrow> bot_command \<Rightarrow> unit handler" where
  "handle_command R m actor cmd =
    (let chat = m_chat_id m in
     seq (clear_interaction chat)
      (case cmd of
         CmdStart \<Rightarrow> show_main_menu_fresh R actor chat
       | CmdMenu \<Rightarrow> show_main_menu_fresh R actor chat
       | CmdHelp \<Rightarrow> show_help R chat actor
       | CmdNewTask payload \<Rightarrow> handle_new_task_command R m payload
       | CmdMyTasks cursor \<Rightarrow> show_task_list R actor chat OriginAssigned cursor
       | CmdCreatedTasks cursor \<Rightarrow> show_task_list R actor chat OriginCreated cursor
       | CmdTeamTasks cursor \<Rightarrow> show_task_list R actor chat OriginTeam cursor
       | CmdTeamStats \<Rightarrow>
           andThen (feature_enabled TeamAnalytics) (\<lambda>enabled.
           if \<not> enabled then
             send_fresh_screen R chat ScrMainMenu
               txt_analytics_off
               (main_menu_keyboard actor)
           else show_stats R actor chat TeamStats)
       | CmdStatus reference \<Rightarrow> show_task_from_command R actor chat reference
       | CmdCancelTask reference \<Rightarrow> execute_cancel_from_command R actor chat reference
       | CmdStats \<Rightarrow> show_stats R actor chat PersonalStats
       | CmdSettings \<Rightarrow> show_settings R chat actor
       | CmdAdminSyncEmployees \<Rightarrow> sync_employees_h R chat actor
       | CmdAdmin \<Rightarrow> show_admin_menu R actor chat
       | CmdFind query \<Rightarrow> run_find_command R actor chat query))"

subsection \<open>Buttons\<close>

definition voice_callback ::
  "runtime \<Rightarrow> user \<Rightarrow> chat_id \<Rightarrow> unit handler \<Rightarrow> unit handler" where
  "voice_callback R actor chat h =
     andThen (feature_enabled VoiceV2) (\<lambda>enabled.
     if \<not> enabled then show_main_menu R actor chat else h)"

definition handle_callback_action ::
  "runtime \<Rightarrow> incoming_message \<Rightarrow> user \<Rightarrow> telegram_callback \<Rightarrow> unit handler" where
  "handle_callback_action R m actor cb =
    (let chat = m_chat_id m in
     seq (clear_interaction chat)
      (case cb of
         MenuHome \<Rightarrow> show_main_menu R actor chat
       | MenuHelp \<Rightarrow> show_help R chat actor
       | MenuSettings \<Rightarrow> show_settings R chat actor
       | MenuStats \<Rightarrow> show_stats R actor chat PersonalStats
       | MenuTeamStats \<Rightarrow>
           andThen (feature_enabled TeamAnalytics) (\<lambda>enabled.
           if \<not> enabled then show_main_menu R actor chat else show_stats R actor chat TeamStats)
       | MenuCreate \<Rightarrow> show_create_menu R chat
       | MenuSyncEmployees \<Rightarrow> sync_employees_h R chat actor
       | ListTasks orig cursor \<Rightarrow> show_task_list R actor chat orig cursor
       | OpenTask uid orig mode \<Rightarrow> show_task_details R actor chat uid orig mode
       | UpdateTaskStatus uid next_status orig \<Rightarrow>
           update_task_status_h R actor chat uid next_status orig
       | ConfirmTaskCancel uid orig \<Rightarrow> confirm_task_cancel R actor chat uid orig
       | ExecuteTaskCancel uid orig \<Rightarrow> update_task_status_h R actor chat uid Cancelled orig
       | StartTaskCommentInput uid orig \<Rightarrow> start_task_interaction R actor chat uid orig KindComment
       | StartTaskBlockerInput uid orig \<Rightarrow> start_task_interaction R actor chat uid orig KindBlocker
       | StartTaskReassignInput uid orig \<Rightarrow> start_task_interaction R actor chat uid orig KindReassign
       | ShowDeliveryHelp uid orig \<Rightarrow> show_delivery_help R actor chat uid orig
       | StartQuickCreate \<Rightarrow> start_quick R chat
       | StartGuidedCreate \<Rightarrow> start_guided R chat
       | VoiceCreateConfirm \<Rightarrow> voice_callback R actor chat (voice_submit R actor chat)
       | VoiceCreateEdit \<Rightarrow> voice_callback R actor chat (voice_start_edit R chat)
       | VoiceCreateBack \<Rightarrow> voice_callback R actor chat (voice_return_to_confirmation R actor chat)
       | VoiceCreateCancel \<Rightarrow> voice_callback R actor chat (voice_cancel R chat)
       | RegistrationPickEmployee _ \<Rightarrow> finish ()
       | RegistrationContinueUnlinked \<Rightarrow> finish ()
       | ClarificationPickEmployee employee_id \<Rightarrow>
           choose_clarified_assignee R actor chat employee_id
       | ClarificationCreateUnassigned \<Rightarrow> create_without_assignee_after_clarification R chat
       | DraftSkipAssignee \<Rightarrow> skip_assignee R chat
       | DraftSkipDeadline \<Rightarrow> skip_deadline R chat
       | DraftSubmit \<Rightarrow> submit_guided R actor chat
       | DraftEdit fld \<Rightarrow> edit_guided_field R chat fld
       | GuidedAssigneeConfirm employee_id \<Rightarrow> confirm_assignee R chat employee_id
       | AdminMenu \<Rightarrow> show_admin_menu R actor chat
       | AdminUsers \<Rightarrow> show_admin_users R actor chat
       | AdminUserDetails user_id \<Rightarrow> show_admin_user_details R actor chat user_id
       | AdminUserPrepareRoleChange user_id next_role \<Rightarrow>
           prepare_admin_role_change R actor chat user_id next_role
       | AdminUserPrepareDeactivate user_id \<Rightarrow> prepare_admin_deactivate R actor chat user_id
       | AdminUserPrepareReactivate user_id \<Rightarrow> prepare_admin_reactivate R actor chat user_id
       | AdminConfirmNonce nonce \<Rightarrow> execute_admin_confirmation R actor chat nonce
       | AdminCancelPending \<Rightarrow> cancel_admin_pending R actor chat
       | AdminAudit \<Rightarrow> show_admin_audit R actor chat
       | AdminSecurityAudit \<Rightarrow> show_admin_security_audit R actor chat
       | AdminFeatures \<Rightarrow> show_admin_features R actor chat
       | AdminToggleFeature flag_key \<Rightarrow> toggle_admin_feature R actor chat flag_key))"

subsection \<open>The dispatcher\<close>

definition CALLBACK_OK_TEXT :: utext where "CALLBACK_OK_TEXT = txt_callback_ok"
definition STALE_MUTATION_CALLBACK_TEXT :: utext where
  "STALE_MUTATION_CALLBACK_TEXT = txt_stale_mutation"
definition STALE_NAVIGATION_CALLBACK_TEXT :: utext where
  "STALE_NAVIGATION_CALLBACK_TEXT = txt_stale_navigation"

definition dispatch_message_inner :: "runtime \<Rightarrow> incoming_message \<Rightarrow> unit handler" where
  "dispatch_message_inner R m =
    (let chat = m_chat_id m in
     andThen (register_actor R m) (\<lambda>registration.
     case registration of
       ConsumedByOnboarding \<Rightarrow> finish ()
     | Aborted \<Rightarrow> finish ()
     | ActorReady actor \<Rightarrow>
         andThen (check_rate_limit R actor chat) (\<lambda>allowed.
         if \<not> allowed then finish ()
         else
          (case Option.bind (text_payload (m_content m)) parse_command of
             Some cmd \<Rightarrow> handle_command R m actor cmd
           | None \<Rightarrow>
               andThen (session_of chat) (\<lambda>session.
               case session of
                 Some creation \<Rightarrow> handle_session_message R m actor creation
               | None \<Rightarrow>
                   andThen (see (\<lambda>s. chat_get chat (b_interactions s))) (\<lambda>interaction.
                   case interaction of
                     Some typed \<Rightarrow> handle_task_interaction_message R m actor typed
                   | None \<Rightarrow>
                      (case m_content m of
                         VoiceContent _ \<Rightarrow> voice_start R actor m
                       | _ \<Rightarrow> create_and_present R chat m ClearSession)))))))"

definition dispatch_callback_inner ::
  "runtime \<Rightarrow> utext \<Rightarrow> telegram_callback \<Rightarrow> incoming_message \<Rightarrow> unit handler" where
  "dispatch_callback_inner R query_id cb m =
    (let chat = m_chat_id m in
     seq (change (\<lambda>s. s\<lparr> b_screens := hydrate_if_missing chat (m_message_id m) (b_screens s) \<rparr>))
     (andThen (register_actor R m) (\<lambda>registration.
      case registration of
        ConsumedByOnboarding \<Rightarrow> finish ()
      | Aborted \<Rightarrow> finish ()
      | ActorReady actor \<Rightarrow>
          andThen (see (\<lambda>s. is_stale chat (m_message_id m) (b_screens s))) (\<lambda>stale.
          andThen (see (\<lambda>s. case chat_get chat (b_screens s) of
                     Some scr \<Rightarrow> \<not> accepts (as_descriptor scr) cb | None \<Rightarrow> False)) (\<lambda>mismatch.
          if stale \<and> is_mutating cb then answer_callback R query_id STALE_MUTATION_CALLBACK_TEXT
          else if \<not> stale \<and> mismatch \<and> is_mutating cb then
            answer_callback R query_id STALE_MUTATION_CALLBACK_TEXT
          else
            seq (answer_callback R query_id
                   (if stale \<or> mismatch then STALE_NAVIGATION_CALLBACK_TEXT else CALLBACK_OK_TEXT))
              (if is_registration_callback cb then handle_registration_link_callback R m cb
               else handle_callback_action R m actor cb))))))"

text \<open>
  \<^verbatim>\<open>observe\<close>, then the barrier around the handler. The barrier is removed when the handler returns,
  with or without an error, but not when it panics.
\<close>

definition under_barrier :: "chat_id \<Rightarrow> unit handler \<Rightarrow> unit handler" where
  "under_barrier chat h s =
     (case h (s\<lparr> b_barriers := chat_set chat False (b_barriers s) \<rparr>) of
        (Panicked, s1) \<Rightarrow> (Panicked, s1)
      | (r, s1) \<Rightarrow> (r, s1\<lparr> b_barriers := chat_clear chat (b_barriers s1) \<rparr>))"

definition once_per_update :: "dedup_key \<Rightarrow> unit handler \<Rightarrow> unit handler" where
  "once_per_update key h s =
     (case observe key (b_dedup s) of
        (fresh, dedup) \<Rightarrow>
          if fresh then h (s\<lparr> b_dedup := dedup \<rparr>) else (Finished (), s\<lparr> b_dedup := dedup \<rparr>))"

definition handle_message :: "runtime \<Rightarrow> telegram_message \<Rightarrow> unit handler" where
  "handle_message R message =
     draw (to_incoming_message message) (\<lambda>received.
     case received of
       None \<Rightarrow> finish ()
     | Some m \<Rightarrow>
         once_per_update \<lparr> dk_chat_id = m_chat_id m, dk_token = m_message_id m \<rparr>
           (under_barrier (m_chat_id m) (dispatch_message_inner R m)))"

definition handle_callback_query :: "runtime \<Rightarrow> callback_query \<Rightarrow> unit handler" where
  "handle_callback_query R query =
     (case Option.bind (cq_data query) (parse_callback (rt_parse_uuid R)) of
        None \<Rightarrow> finish ()
      | Some cb \<Rightarrow>
          draw (callback_to_incoming_message query) (\<lambda>received.
          case received of
            None \<Rightarrow> finish ()
          | Some m \<Rightarrow>
              once_per_update \<lparr> dk_chat_id = m_chat_id m, dk_token = rt_hash R (cq_id query) \<rparr>
                (under_barrier (m_chat_id m)
                  (dispatch_callback_inner R (cq_id query) cb m))))"

end
