(* ===== verification/Use_Case_Frames.thy ===== *)
theory Use_Case_Frames
  imports Onboarding Create_Task Reassign Task_Lists Task_Details Admin_Use_Cases
begin

section \<open>What use cases may do to the database\<close>

text \<open>
  A use case writes through the repositories only. \<open>repository_frame\<close> is that interface: a preorder
  on databases that every write of a repository obeys; \<open>registration_frame\<close> asks it of the writes of
  registration and onboarding only, \<open>onboarding_frame\<close> of what these make of their writes on tasks, \<open>use_case_frame\<close> of all but those that change rights. Inside them every use case a chat can reach obeys the preorder too, so a component that wants to know what use cases may do proves one fact for
  each kind of write.
\<close>

subsection \<open>Case distinctions\<close>

lemma obeys_resolution:
  "(\<And>v. obeys R (f v)) \<Longrightarrow> (\<And>q. obeys R (g q)) \<Longrightarrow>
   obeys R (case r of ResolvedTo v \<Rightarrow> f v | ResolutionClarification q \<Rightarrow> g q)"
  by (cases r) simp_all

lemma obeys_ranked:
  "(\<And>x. obeys R (f x)) \<Longrightarrow> (\<And>x xs. obeys R (g x xs)) \<Longrightarrow> (\<And>xs. obeys R (h xs)) \<Longrightarrow> obeys R k \<Longrightarrow>
   obeys R (case r of RankedUnique x \<Rightarrow> f x | RankedSuggested x xs \<Rightarrow> g x xs
     | RankedAmbiguous xs \<Rightarrow> h xs | RankedNotFound \<Rightarrow> k)"
  by (cases r) simp_all

lemma obeys_decision:
  "obeys R a \<Longrightarrow> (\<And>i. obeys R (f i)) \<Longrightarrow> obeys R c \<Longrightarrow>
     obeys R (case d of AssignAuto \<Rightarrow> a | AssignEmployee i \<Rightarrow> f i | CreateUnassigned \<Rightarrow> c)"
  by (cases d) simp_all

lemma obeys_reassign_decision:
  "obeys R a \<Longrightarrow> (\<And>i. obeys R (f i)) \<Longrightarrow>
     obeys R (case d of ReassignAuto \<Rightarrow> a | ReassignEmployee i \<Rightarrow> f i)"
  by (cases d) simp_all

lemma obeys_link_preview:
  "(\<And>d. obeys R (f d)) \<Longrightarrow> (\<And>q. obeys R (g q)) \<Longrightarrow>
     obeys R (case p of LinkReady d \<Rightarrow> f d | LinkClarification q \<Rightarrow> g q)"
  by (cases p) simp_all

lemma obeys_link_decision:
  "obeys R a \<Longrightarrow> (\<And>i. obeys R (f i)) \<Longrightarrow> obeys R b \<Longrightarrow>
     obeys R (case d of LinkAuto \<Rightarrow> a | LinkEmployee i \<Rightarrow> f i | ContinueUnlinked \<Rightarrow> b)"
  by (cases d) simp_all

lemma obeys_match:
  "(\<And>e. obeys R (f e)) \<Longrightarrow> (\<And>es. obeys R (g es)) \<Longrightarrow> obeys R h \<Longrightarrow>
     obeys R (case r of MatchUnique e \<Rightarrow> f e | MatchAmbiguous es \<Rightarrow> g es | MatchNotFound \<Rightarrow> h)"
  by (cases r) simp_all

lemma obeys_persisted:
  "(\<And>t. obeys R (f t)) \<Longrightarrow> (\<And>t. obeys R (g t)) \<Longrightarrow>
     obeys R (case p of TaskCreated t \<Rightarrow> f t | TaskExisting t \<Rightarrow> g t)"
  by (cases p) simp_all

lemma obeys_reference:
  "(\<And>i. obeys R (f i)) \<Longrightarrow> (\<And>u. obeys R (g u)) \<Longrightarrow>
     obeys R (case r of PublicId i \<Rightarrow> f i | Uid u \<Rightarrow> g u)"
  by (cases r) simp_all

lemma obeys_list_scope:
  "obeys R a \<Longrightarrow> obeys R b \<Longrightarrow> obeys R c \<Longrightarrow> obeys R d \<Longrightarrow> obeys R e \<Longrightarrow>
     obeys R (case s of AssignedToMe \<Rightarrow> a | Focus \<Rightarrow> b | CreatedByMe \<Rightarrow> c | Team \<Rightarrow> d | ManagerInbox \<Rightarrow> e)"
  by (cases s) simp_all

lemma obeys_onboarding_state:
  "obeys R a \<Longrightarrow> obeys R b \<Longrightarrow> obeys R c \<Longrightarrow> obeys R d \<Longrightarrow>
     obeys R (case s of AwaitingFirstName \<Rightarrow> a | AwaitingLastName \<Rightarrow> b
       | AwaitingEmployeeLink \<Rightarrow> c | OnboardingCompleted \<Rightarrow> d)"
  by (cases s) simp_all

lemma obeys_stats_scope:
  "obeys R a \<Longrightarrow> obeys R b \<Longrightarrow> obeys R (case s of PersonalStats \<Rightarrow> a | TeamStats \<Rightarrow> b)"
  by (cases s) simp_all

lemma obeys_let: "(\<And>y. obeys R (f y)) \<Longrightarrow> obeys R (let y = x in f y)"
  by simp

lemmas obeys_cases = obeys_if obeys_option obeys_prod obeys_sum obeys_resolution obeys_ranked
  obeys_decision obeys_reassign_decision obeys_link_preview obeys_link_decision obeys_match
  obeys_persisted obeys_reference obeys_list_scope obeys_onboarding_state
  obeys_stats_scope

lemmas reads_defs = find_by_telegram_id_def find_user_by_id_def find_by_username_def
  find_by_uid_def find_by_id_def list_active_employees_def find_employee_by_id_def
  find_by_source_message_key_def list_open_assigned_to_employee_without_user_def
  find_latest_for_task_and_recipient_def

subsection \<open>Registration and onboarding\<close>

text \<open>The writes registration and onboarding need: the links of open tasks as one operation, and accounts.\<close>

locale onboarding_frame = store_frame R for R :: "world \<Rightarrow> world \<Rightarrow> bool" +
  assumes recovery: "obeys R (recover_pending_assignments u matched)"
    and persist: "obeys R (persist_user m matched)"
    and session: "obeys R (ensure_onboarding_session tg chat name full now)"
    and progress: "obeys R (save_onboarding_progress i v st fn sn now)"
    and completion: "obeys R (complete_onboarding i v first_part last_part e now)"
begin

lemmas onboarding_rules = store_rules obeys_cases session progress completion

lemma preview_linking: "obeys R (preview_linking U m)"
  unfolding preview_linking_def reads_defs by (intro onboarding_rules)

lemma link_decision: "obeys R (execute_with_link_decision U m decision)"
  unfolding execute_with_link_decision_def resolve_employee_for_decision_def reads_defs
  by (intro onboarding_rules preview_linking recovery persist)

lemma register_user: "obeys R (register_user U m)"
  unfolding register_user_def by (intro onboarding_rules preview_linking link_decision)

lemma onboarding_handlers:
  "obeys R (handle_start now m)"
  "obeys R (handle_link_selection U now m choice)"
  "obeys R (probe_onboarding_state i)"
  unfolding handle_start_def handle_link_selection_def require_active_session_def
    probe_onboarding_state_def reads_defs Let_def
  by (intro onboarding_rules link_decision)+

lemma onboarding_text: "obeys R (handle_text U now m entry)"
  unfolding handle_text_def step_first_name_def step_last_name_def require_active_session_def reads_defs
  by (intro onboarding_rules preview_linking link_decision)

end

text \<open>The same in terms of the single writes.\<close>

locale registration_frame = store_frame R for R :: "world \<Rightarrow> world \<Rightarrow> bool" +
  assumes update_task: "obeys R (update_task t)"
    and enqueue: "obeys R (enqueue n)"
    and requeue: "obeys R (requeue i)"
    and append_audit: "obeys R (append_audit a)"
    and upsert_from_message: "obeys R (upsert_from_message u)"
    and onboarding_session: "obeys R (ensure_onboarding_session tg chat name full now)"
    and onboarding_progress: "obeys R (save_onboarding_progress i v st fn sn now)"
    and onboarding_complete: "obeys R (complete_onboarding i v first_part last_part e now)"
begin

lemmas registration_rules = store_rules obeys_cases update_task enqueue requeue append_audit

lemma recover_pending_assignments: "obeys R (recover_pending_assignments u e)"
proof -
  have "obeys R (recover_batches n i j)" for n i j
  proof (induction n)
    case (Suc n)
    then show ?case
      unfolding recover_batches.simps recover_task_batch_def recover_one_def
        link_task_to_registered_user_def retry_link_after_conflict_def log_recovered_assignment_def
        ensure_assignment_notification_def requeue_assignment_notification_def
        enqueue_assignment_notification_def reads_defs
      by (intro registration_rules)
  qed (simp add: ret)
  then show ?thesis
    unfolding recover_pending_assignments_def by (intro registration_rules)
qed

end

sublocale registration_frame \<subseteq> onboarding_frame R
  by unfold_locales
     (simp_all add: recover_pending_assignments persist_user_def upsert_from_message onboarding_session
       onboarding_progress onboarding_complete)

subsection \<open>All use cases\<close>

locale use_case_frame = registration_frame R for R :: "world \<Rightarrow> world \<Rightarrow> bool" +
  assumes insert_task: "obeys R (insert_task t)"
    and create_comment: "obeys R (create_comment c)"
    and upsert_many: "obeys R (upsert_many es)"
    and append_admin_audit: "obeys R (append_admin_audit entry)"
    and append_security_audit: "obeys R (append_security_audit event)"
    and upsert_override: "obeys R (upsert_override flag on by_user now)"
    and flags: "R w (w\<lparr> w_flags := F \<rparr>)"
begin

lemmas writes = update_task insert_task enqueue requeue append_audit create_comment
  upsert_from_message upsert_many onboarding_session onboarding_progress onboarding_complete
  append_admin_audit append_security_audit upsert_override

lemmas use_case_rules = store_rules forA obeys_cases writes

subsection \<open>Assignees\<close>

lemma resolve_user: "obeys R (resolve_user_from_employee e)"
  unfolding resolve_user_from_employee_def reads_defs by (intro use_case_rules)

lemma resolve_with_purpose: "obeys R (resolve_with_purpose U similar q purpose)"
  unfolding resolve_with_purpose_def resolve_unmatched_def reads_defs Let_def
  by (intro use_case_rules resolve_user)

lemma resolve_employee_id: "obeys R (resolve_employee_id i)"
  unfolding resolve_employee_id_def reads_defs by (intro use_case_rules resolve_user)

lemma preview_assignee_resolution: "obeys R (preview_assignee_resolution L S q)"
  unfolding preview_assignee_resolution_def resolve_for_creation_def Let_def
  by (intro use_case_rules resolve_with_purpose)

subsection \<open>Tasks\<close>

lemma create_task: "obeys R (create_task L S m decision)"
  unfolding create_task_def register_creator_def resolve_assignee_def resolve_for_creation_def
    create_resolved_def persist_created_def create_if_absent_def log_task_creation_def
    enqueue_assignee_notification_def reads_defs
  by (intro use_case_rules resolve_with_purpose resolve_employee_id)

lemma preview_interpretation: "obeys R (preview_interpretation L S m)"
  unfolding preview_interpretation_def resolve_for_creation_def Let_def
  by (intro use_case_rules resolve_with_purpose)

lemma update_task_status: "obeys R (update_task_status actor uid s)"
  unfolding update_task_status_def log_status_change_def enqueue_participant_notifications_def
    notify_status_participant_def reads_defs
  by (intro use_case_rules)

lemma report_task_blocker: "obeys R (report_task_blocker actor uid reason)"
  unfolding report_task_blocker_def log_blocker_def notify_creator_def reads_defs
  by (intro use_case_rules)

lemma add_task_comment: "obeys R (add_task_comment actor uid body)"
  unfolding add_task_comment_def log_comment_def notify_other_side_def
    notify_comment_participant_def reads_defs
  by (intro use_case_rules)

lemma reassign_task: "obeys R (reassign_task U similar actor uid q decision)"
  unfolding reassign_task_def choose_assignee_def store_reassignment_def log_reassignment_def
    notify_new_assignee_def resolve_for_reassignment_def reads_defs
  by (intro use_case_rules resolve_with_purpose resolve_employee_id)

lemma list_tasks: "obeys R (list_tasks actor scope cursor limit)"
  unfolding list_tasks_def scoped_tasks_def list_assigned_to_user_def list_created_by_user_def
    list_all_tasks_def reads_defs Let_def
  by (intro use_case_rules)

lemma search_tasks: "obeys R (search_tasks U actor q)"
  unfolding search_tasks_def list_assigned_to_user_def list_created_by_user_def reads_defs Let_def
  by (intro use_case_rules)

lemma collect_stats: "obeys R (collect_stats db asked answered cache actor scope)"
  unfolding collect_stats_def count_stats_for_user_def global_stats_cached_def count_stats_global_def reads_defs Let_def
  by (intro use_case_rules)

lemma get_task_status: "obeys R (get_task_status show_day show_time actor uid)"
  unfolding get_task_status_def resolve_assignee_display_def resolve_delivery_status_def
    employee_display_def list_for_task_def list_recent_for_task_def reads_defs Let_def
  by (intro use_case_rules)

lemma resolve_task_uid: "obeys R (resolve_task_uid parse_uuid reference)"
  unfolding resolve_task_uid_def reads_defs by (intro use_case_rules)

subsection \<open>Accounts\<close>

lemma get_user: "obeys R (get_user actor i)"
  unfolding get_user_def reads_defs by (intro use_case_rules)

lemma emit_audit: "obeys R (emit_audit e)"
  unfolding emit_audit_def by (intro use_case_rules)

lemma panel_reads:
  "obeys R (panel_list_active_admins actor)"
  "obeys R (list_recent_audit actor n)"
  "obeys R (list_recent_security_audit n)"
  unfolding panel_list_active_admins_def list_active_admins_def list_recent_audit_def
    list_recent_security_audit_def list_recent_admin_audit_def reads_defs
  by (intro use_case_rules)+

lemma toggle_feature_flag: "obeys R (toggle_feature_flag actor key on)"
  unfolding toggle_feature_flag_def by (intro use_case_rules emit_audit modify flags)

lemma sync_employees: "obeys R (sync_employees fetched)"
  unfolding sync_employees_def by (intro use_case_rules)

end

subsection \<open>Changing the rights of accounts\<close>

text \<open>The four writes that change a role or deactivate an account.\<close>

locale repository_frame = use_case_frame R for R :: "world \<Rightarrow> world \<Rightarrow> bool" +
  assumes set_role: "obeys R (set_role i role now)"
    and deactivate: "obeys R (deactivate i now)"
    and reactivate: "obeys R (reactivate i now)"
    and promote: "obeys R (promote_bootstrap_admin tg now)"
begin

lemmas rights_rules = use_case_rules set_role deactivate reactivate promote

lemma panel:
  "obeys R (change_role actor i r)"
  "obeys R (deactivate_user actor i)"
  "obeys R (reactivate_user actor i)"
  unfolding change_role_def deactivate_user_def reactivate_user_def
  by (intro rights_rules get_user emit_audit)+

lemma bootstrap_admins: "obeys R (bootstrap_admins ids)"
proof -
  have "obeys R (promote_one now s i)" for now s i
    unfolding promote_one_def
    by (intro rights_rules emit_audit)
       (auto intro!: rights_rules emit_audit split: sum.split option.split bootstrap_promotion.split)
  then show ?thesis
    unfolding bootstrap_admins_def Let_def by (intro rights_rules foldA)
qed

end

end
