(* ===== verification/Bot_Frames.thy ===== *)
theory Bot_Frames
  imports Bot_Entry Use_Case_Frames
begin

section \<open>What handlers may do to the runtime\<close>

text \<open>
  \<open>keeps Q h\<close>: every run of the handler \<open>h\<close>, whether it returns, fails or panics, relates the runtime
  before and after by \<open>Q\<close>. \<open>bot_frame\<close> is the interface between the handlers and such a relation: what
  the use cases may do to the database (\<open>repository_frame\<close>), what the stores may hold, and the
  functions of the transport that show something. The handlers of menus, cards, lists, wizards, voice
  drafts and the admin panel obey every relation that fits the interface.
\<close>

definition keeps :: "(bot \<Rightarrow> bot \<Rightarrow> bool) \<Rightarrow> 'a handler \<Rightarrow> bool" where
  "keeps Q h \<longleftrightarrow> (\<forall>s. Q s (snd (h s)))"

lemma keepsI: "(\<And>s. Q s (snd (h s))) \<Longrightarrow> keeps Q h"
  by (simp add: keeps_def)

lemma keepsD: "keeps Q h \<Longrightarrow> h s = (r, t) \<Longrightarrow> Q s t"
  by (metis keeps_def snd_conv)

subsection \<open>Case distinctions\<close>

lemma keeps_if: "(b \<Longrightarrow> keeps Q m) \<Longrightarrow> (\<not> b \<Longrightarrow> keeps Q n) \<Longrightarrow> keeps Q (if b then m else n)"
  by simp

lemma keeps_option:
  "keeps Q m \<Longrightarrow> (\<And>x. keeps Q (f x)) \<Longrightarrow> keeps Q (case v of None \<Rightarrow> m | Some x \<Rightarrow> f x)"
  by (cases v) simp_all

lemma keeps_sum:
  "(\<And>x. keeps Q (f x)) \<Longrightarrow> (\<And>x. keeps Q (g x)) \<Longrightarrow> keeps Q (case v of Inl x \<Rightarrow> f x | Inr x \<Rightarrow> g x)"
  by (cases v) simp_all

lemma keeps_prod: "(\<And>x y. keeps Q (f x y)) \<Longrightarrow> keeps Q (case v of (x, y) \<Rightarrow> f x y)"
  by (cases v) simp

lemma keeps_reassign_outcome:
  "(\<And>x. keeps Q (f x)) \<Longrightarrow> (\<And>q. keeps Q (g q)) \<Longrightarrow>
     keeps Q (case v of Reassigned x \<Rightarrow> f x | ReassignClarification q \<Rightarrow> g q)"
  by (cases v) simp_all

lemma keeps_creation_outcome:
  "(\<And>x. keeps Q (f x)) \<Longrightarrow> (\<And>q. keeps Q (g q)) \<Longrightarrow> (\<And>q. keeps Q (h q)) \<Longrightarrow>
     keeps Q (case v of OutcomeCreated x \<Rightarrow> f x | OutcomeClarification q \<Rightarrow> g q | OutcomeDuplicate q \<Rightarrow> h q)"
  by (cases v) simp_all

lemma keeps_resolution:
  "(\<And>x. keeps Q (f x)) \<Longrightarrow> (\<And>q. keeps Q (g q)) \<Longrightarrow>
     keeps Q (case v of ResolvedTo x \<Rightarrow> f x | ResolutionClarification q \<Rightarrow> g q)"
  by (cases v) simp_all

lemma keeps_session:
  "keeps Q a \<Longrightarrow> (\<And>d. keeps Q (f d)) \<Longrightarrow> (\<And>d. keeps Q (g d)) \<Longrightarrow>
     keeps Q (case v of QuickCapture \<Rightarrow> a | Guided d \<Rightarrow> f d | VoiceDraft d \<Rightarrow> g d)"
  by (cases v) simp_all

lemma keeps_selection:
  "(\<And>x. keeps Q (f x)) \<Longrightarrow> (\<And>x. keeps Q (g x)) \<Longrightarrow>
     keeps Q (case v of SelectCreate x \<Rightarrow> f x | SelectReassign x \<Rightarrow> g x)"
  by (cases v) simp_all

lemma keeps_content:
  "(\<And>x. keeps Q (f x)) \<Longrightarrow> (\<And>x. keeps Q (g x)) \<Longrightarrow> (\<And>x. keeps Q (h x)) \<Longrightarrow>
     keeps Q (case v of TextContent x \<Rightarrow> f x | VoiceContent x \<Rightarrow> g x | CommandContent x \<Rightarrow> h x)"
  by (cases v) simp_all

lemma keeps_kind:
  "keeps Q a \<Longrightarrow> keeps Q b \<Longrightarrow> keeps Q c \<Longrightarrow>
     keeps Q (case v of KindComment \<Rightarrow> a | KindBlocker \<Rightarrow> b | KindReassign \<Rightarrow> c)"
  by (cases v) simp_all

lemma keeps_guided_step:
  "keeps Q a \<Longrightarrow> keeps Q b \<Longrightarrow> keeps Q c \<Longrightarrow> keeps Q d \<Longrightarrow>
     keeps Q (case v of StepAssignee \<Rightarrow> a | StepDescription \<Rightarrow> b | StepDeadline \<Rightarrow> c | StepConfirm \<Rightarrow> d)"
  by (cases v) simp_all

lemma keeps_voice_step:
  "keeps Q a \<Longrightarrow> keeps Q b \<Longrightarrow> keeps Q (case v of VoiceConfirm \<Rightarrow> a | VoiceEditTranscript \<Rightarrow> b)"
  by (cases v) simp_all

lemma keeps_nonce_error:
  "keeps Q a \<Longrightarrow> keeps Q b \<Longrightarrow> keeps Q (case v of nonce_error.NotFound \<Rightarrow> a | WrongActor \<Rightarrow> b)"
  by (cases v) simp_all

lemmas keeps_cases = keeps_if keeps_option keeps_sum keeps_prod keeps_reassign_outcome
  keeps_creation_outcome keeps_resolution keeps_session keeps_selection keeps_content keeps_kind
  keeps_guided_step keeps_voice_step keeps_nonce_error

subsection \<open>Combinators\<close>

locale handler_frame =
  fixes Q :: "bot \<Rightarrow> bot \<Rightarrow> bool"
  assumes refl: "Q s s"
    and trans: "Q s t \<Longrightarrow> Q t u \<Longrightarrow> Q s u"
begin

lemma finish: "keeps Q (finish x)"
  by (simp add: keeps_def finish_def refl)

lemma see: "keeps Q (see f)"
  by (simp add: keeps_def see_def refl)

lemma andThen: "keeps Q m \<Longrightarrow> (\<And>x. keeps Q (f x)) \<Longrightarrow> keeps Q (andThen m f)"
  unfolding keeps_def andThen_def
  by (auto split: prod.split handled.split) (metis snd_conv trans)+

lemma seq: "keeps Q m \<Longrightarrow> keeps Q n \<Longrightarrow> keeps Q (seq m n)"
  unfolding seq_def by (rule andThen)

lemma change: "(\<And>s. Q s (f s)) \<Longrightarrow> keeps Q (change f)"
  by (simp add: keeps_def change_def)

lemma panicked: "keeps Q (\<lambda>s. (Panicked, s))"
  by (simp add: keeps_def refl)

lemma call: "(\<And>s. Q s (s\<lparr> b_world := snd (m (b_world s)) \<rparr>)) \<Longrightarrow> keeps Q (call m)"
  by (auto simp: keeps_def call_def split: prod.split) (metis snd_conv)

lemma call_may_panic:
  "(\<And>s. Q s (s\<lparr> b_world := snd (m (b_world s)) \<rparr>)) \<Longrightarrow> keeps Q (call_may_panic m)"
  by (auto simp: keeps_def call_may_panic_def split: prod.split sum.split option.split) (metis snd_conv)+

lemma draw:
  assumes "\<And>s. Q s (s\<lparr> b_world := snd (m (b_world s)) \<rparr>)" "\<And>x. keeps Q (f x)"
  shows "keeps Q (draw m f)"
proof -
  have "keeps Q (case r of Inr x \<Rightarrow> f x | Inl e \<Rightarrow> (\<lambda>s. (Panicked, s)))" for r
    using assms(2) panicked by (cases r) auto
  then show ?thesis unfolding draw_def by (intro andThen call assms(1))
qed

lemmas flow = finish see andThen seq keeps_cases

end

subsection \<open>The transport\<close>

text \<open>A relation that calls of the API, the barriers and the active screens do not disturb.\<close>

locale sender_frame = handler_frame +
  fixes R :: runtime and chat :: chat_id
  assumes telegram: "keeps Q (telegram R c)"
    and barrier: "keeps Q (try_consume_update_barrier chat)"
    and screen: "keeps Q (set_screen chat mid d)"
begin

lemma perform: "keeps Q (perform R c)"
proof -
  have "keeps Q (\<lambda>s. case reply of ReplyOk mid \<Rightarrow> (Finished mid, s) | ReplyError e \<Rightarrow> (RequestFailed e, s))"
    for reply
    by (cases reply) (simp_all add: keeps_def refl)
  then show ?thesis unfolding perform_def by (intro andThen telegram)
qed

lemma send_new: "keeps Q (send_new R chat d body kb)"
  unfolding send_new_def by (intro flow perform screen)

lemma send_plain: "keeps Q (send_plain R chat body)"
  unfolding send_plain_def by (intro flow perform)

lemma try_edit_screen: "keeps Q (try_edit_screen R chat mid body kb)"
proof -
  have "keeps Q (\<lambda>s. case reply of ReplyOk _ \<Rightarrow> (Finished Edited, s)
       | ReplyError e \<Rightarrow>
           if is_message_not_modified_error e then (Finished NoChange, s)
           else if is_edit_fallback_error e then (Finished FallbackRequired, s)
           else (RequestFailed e, s))" for reply
    by (cases reply) (simp_all add: keeps_def refl)
  then show ?thesis unfolding try_edit_screen_def by (intro andThen telegram)
qed

lemma sends:
  "keeps Q (send_screen R chat d body kb)"
  "keeps Q (send_fresh_screen R chat d body kb)"
  "keeps Q (send_error R chat e)"
  unfolding send_screen_def send_fresh_screen_def send_error_def
  by (intro flow barrier send_new send_plain try_edit_screen screen)+

end

subsection \<open>The interface of the handlers\<close>

locale transport_frame = handler_frame Q + db: onboarding_frame W
  for Q :: "bot \<Rightarrow> bot \<Rightarrow> bool" and W :: "world \<Rightarrow> world \<Rightarrow> bool" +
  fixes R :: runtime and chat :: chat_id
  assumes world: "W (b_world s) w \<Longrightarrow> Q s (s\<lparr> b_world := w \<rparr>)"
    and links: "Q s (s\<lparr> b_links := lnk \<rparr>)"
    and send_screen: "keeps Q (send_screen R chat d body kb)"
    and send_fresh_screen: "keeps Q (send_fresh_screen R chat d body kb)"
    and send_error: "keeps Q (send_error R chat e)"
begin

lemma runs: "obeys W m \<Longrightarrow> keeps Q (call m)"
  by (rule call, rule world) (simp add: obeys_def)

lemma runs_may_panic: "obeys W m \<Longrightarrow> keeps Q (call_may_panic m)"
  by (rule call_may_panic, rule world) (simp add: obeys_def)

lemma draws: "obeys W m \<Longrightarrow> (\<And>x. keeps Q (f x)) \<Longrightarrow> keeps Q (draw m f)"
  by (rule draw, rule world) (simp_all add: obeys_def)

lemma link_stores: "keeps Q (clear_link chat)" "keeps Q (put_link h)"
  unfolding clear_link_def put_link_def by (intro change links)+

lemmas shows_one = send_screen send_fresh_screen send_error

lemmas transport_rules = flow shows_one link_stores

end

text \<open>The button that confirms an admin action; it alone needs the writes that change rights.\<close>

fun confirms :: "telegram_callback \<Rightarrow> bool" where
  "confirms (AdminConfirmNonce _) = True"
| "confirms _ = False"

locale bot_frame = transport_frame Q W R chat + db: use_case_frame W
  for Q :: "bot \<Rightarrow> bot \<Rightarrow> bool" and W :: "world \<Rightarrow> world \<Rightarrow> bool" and R :: runtime and chat :: chat_id +
  assumes selections: "Q s (s\<lparr> b_selections := sel \<rparr>)"
    and sessions: "Q s (s\<lparr> b_sessions := ses \<rparr>)"
    and interactions: "Q s (s\<lparr> b_interactions := typed \<rparr>)"
    and nonces: "Q s (s\<lparr> b_nonces := store \<rparr>)"
    and stats_cache: "Q s (s\<lparr> b_stats_cache := cch \<rparr>)"
    and readings: "Q s (s\<lparr> b_readings := rdg \<rparr>)"
    and fetches: "Q s (s\<lparr> b_fetches := ftc \<rparr>)"
begin

lemma stores:
  "keeps Q (clear_session chat)" "keeps Q (clear_interaction chat)" "keeps Q (clear_selection chat)"
  "keeps Q (put_session f)" "keeps Q (put_selection g)" "keeps Q (put_interaction chat v)"
  unfolding clear_session_def clear_interaction_def clear_selection_def
    put_session_def put_selection_def put_interaction_def
  by (intro change selections sessions interactions)+

lemma monotonic: "keeps Q (monotonic R)"
  by (simp add: keeps_def monotonic_def readings)

lemma looks: "keeps Q (session_of c)" "keeps Q (feature_enabled flag)"
  unfolding session_of_def feature_enabled_def by (intro see)+

lemmas rules = transport_rules stores looks monotonic

subsubsection \<open>Views\<close>

lemma fallback: "keeps Q (fallback_to_create_menu R chat)"
  unfolding fallback_to_create_menu_def by (intro rules)

lemma menus:
  "keeps Q (show_main_menu R actor chat)" "keeps Q (show_main_menu_fresh R actor chat)"
  "keeps Q (show_help R chat actor)" "keeps Q (show_create_menu R chat)"
  unfolding show_main_menu_def show_main_menu_fresh_def show_help_def show_create_menu_def clear_chat_def
  by (intro rules)+

lemma stats_of_actor: "keeps Q (stats_of_actor R actor scope)"
  unfolding stats_of_actor_def by (intro rules runs db.collect_stats change stats_cache)

lemma stats:
  "keeps Q (show_settings R chat actor)" "keeps Q (show_stats R actor chat scope)"
  unfolding show_settings_def show_stats_def by (intro rules stats_of_actor)+

lemma lists:
  "keeps Q (show_task_list R actor chat orig cursor)" "keeps Q (sync_employees_h R chat actor)"
  unfolding show_task_list_def sync_employees_h_def
  by (intro rules runs db.list_tasks db.sync_employees change fetches)+

lemma task_status_of: "keeps Q (task_status_of R actor uid)"
  unfolding task_status_of_def by (intro runs db.get_task_status)

lemma card: "keeps Q (show_task_details_with_notice R actor chat uid orig mode notice)"
  unfolding show_task_details_with_notice_def by (intro rules task_status_of)

lemma cards:
  "keeps Q (show_task_details R actor chat uid orig mode)"
  "keeps Q (confirm_task_cancel R actor chat uid orig)"
  "keeps Q (show_delivery_help R actor chat uid orig)"
  "keeps Q (update_task_status_h R actor chat uid next_status orig)"
  unfolding show_task_details_def confirm_task_cancel_def show_delivery_help_def update_task_status_h_def
  by (intro rules task_status_of card runs db.update_task_status)+

lemma card_commands:
  "keeps Q (show_task_from_command R actor chat reference)"
  "keeps Q (execute_cancel_from_command R actor chat reference)"
  unfolding show_task_from_command_def execute_cancel_from_command_def
  by (intro rules cards runs db.resolve_task_uid)+

lemma interactions_rules:
  "keeps Q (start_task_interaction R actor chat uid orig kind)"
  "keeps Q (show_prompt_again R actor chat session prefix_message)"
  "keeps Q (show_reassign_clarification R chat uid orig q kind c)"
  unfolding start_task_interaction_def show_prompt_again_def show_reassign_clarification_def
  by (intro rules task_status_of)+

lemma reassign_auto: "obeys W (reassign_task_auto U similar actor uid q)"
  unfolding reassign_task_auto_def by (rule db.reassign_task)

lemma interaction_message:
  assumes "m_chat_id m = chat"
  shows "keeps Q (handle_task_interaction_message R m actor session)"
  unfolding handle_task_interaction_message_def Let_def assms
  by (intro rules interactions_rules card runs db.add_task_comment db.report_task_blocker reassign_auto)

subsubsection \<open>Creation\<close>

lemma create_task_h: "keeps Q (create_task_h R m decision)"
  unfolding create_task_h_def by (intro runs_may_panic db.create_task)

lemma create_and_present: "keeps Q (create_and_present R chat m completion)"
  unfolding create_and_present_def by (intro rules create_task_h)

lemma confirmation_body: "keeps Q (build_confirmation_body R actor chat d)"
  unfolding build_confirmation_body_def
  by (intro rules draws db.now_utc runs_may_panic db.preview_interpretation)

lemma voice_confirmation: "keeps Q (show_voice_confirmation R actor chat d notice)"
  unfolding show_voice_confirmation_def by (intro rules confirmation_body)

lemma voice_start:
  assumes "m_chat_id m = chat"
  shows "keeps Q (voice_start R actor m)"
  unfolding voice_start_def Let_def assms by (intro rules voice_confirmation)

lemma voice_prompt_again: "keeps Q (voice_prompt_again R actor chat d prefix_message)"
  unfolding voice_prompt_again_def by (intro rules confirmation_body)

lemma voice_message:
  assumes "m_chat_id m = chat"
  shows "keeps Q (voice_handle_message R m actor d)"
  unfolding voice_handle_message_def Let_def assms
  by (intro rules voice_start[OF assms] voice_prompt_again voice_confirmation confirmation_body)

lemma voice_buttons:
  "keeps Q (voice_start_edit R chat)" "keeps Q (voice_return_to_confirmation R actor chat)"
  "keeps Q (voice_cancel R chat)"
  unfolding voice_start_edit_def voice_return_to_confirmation_def voice_cancel_def
  by (intro rules fallback voice_confirmation)+

lemma voice_submit: "keeps Q (voice_submit R actor chat)"
  unfolding voice_submit_def Let_def
  by (intro rules fallback draws db.now_utc confirmation_body create_task_h)

lemma description_step: "keeps Q (show_description_step R chat)"
  unfolding show_description_step_def by (intro rules)

lemma guided_confirmation: "keeps Q (show_guided_confirmation R chat d)"
  unfolding show_guided_confirmation_def Let_def by (intro rules)

lemma wizard:
  "keeps Q (start_quick R chat)" "keeps Q (start_guided R chat)"
  "keeps Q (confirm_assignee R chat i)" "keeps Q (skip_assignee R chat)"
  "keeps Q (skip_deadline R chat)" "keeps Q (edit_guided_field R chat fld)"
  unfolding start_quick_def start_guided_def confirm_assignee_def skip_assignee_def skip_deadline_def
    edit_guided_field_def Let_def
  by (intro rules fallback description_step guided_confirmation draws db.fresh_uuid)+

lemma submit_guided: "keeps Q (submit_guided R actor chat)"
  unfolding submit_guided_def Let_def
  by (intro rules fallback draws db.now_utc create_task_h)

lemma guided_message:
  assumes "m_chat_id m = chat"
  shows "keeps Q (handle_guided_message R m actor d)"
  unfolding handle_guided_message_def handle_guided_assignee_step_def handle_guided_description_step_def
    handle_guided_deadline_step_def Let_def assms
  by (intro rules fallback description_step guided_confirmation runs db.preview_assignee_resolution)

lemma session_message:
  assumes "m_chat_id m = chat"
  shows "keeps Q (handle_session_message R m actor session)"
  unfolding handle_session_message_def assms
  by (intro rules voice_start[OF assms] create_and_present guided_message[OF assms] voice_message[OF assms])

lemma present_created: "keeps Q (present_created R chat r)"
  unfolding present_created_def by (intro rules)

lemma clarified:
  "keeps Q (choose_clarified_assignee R actor chat i)"
  "keeps Q (create_without_assignee_after_clarification R chat)"
  unfolding choose_clarified_assignee_def create_without_assignee_after_clarification_def Let_def
  by (intro rules fallback present_created create_task_h card interactions_rules runs db.reassign_task)+

subsubsection \<open>The admin panel\<close>

lemma admin_error: "keeps Q (render_admin_error R actor chat e)"
  unfolding render_admin_error_def Let_def by (intro rules)

lemma issue_confirmation: "keeps Q (issue_confirmation R actor chat action)"
  unfolding issue_confirmation_def Let_def
  by (intro rules admin_error draws db.fresh_uuid change nonces)

lemma prepare:
  "keeps Q (prepare_admin_role_change R actor chat i role)"
  "keeps Q (prepare_admin_deactivate R actor chat i)"
  "keeps Q (prepare_admin_reactivate R actor chat i)"
  unfolding prepare_admin_role_change_def prepare_admin_deactivate_def prepare_admin_reactivate_def
    prepare_admin_action_def
  by (intro rules admin_error issue_confirmation runs db.get_user)+

lemma redeem_nonce: "keeps Q (redeem_nonce R i nonce)"
  unfolding redeem_nonce_def
  by (intro andThen monotonic keepsI) (simp add: nonces split: prod.split)

lemma admin_menu: "keeps Q (show_admin_menu R actor chat)"
  unfolding show_admin_menu_def by (intro rules admin_error)

lemma admin_features: "keeps Q (show_admin_features R actor chat)"
  unfolding show_admin_features_def by (intro rules admin_error)

lemma admin_screens:
  "keeps Q (show_admin_users R actor chat)" "keeps Q (show_admin_user_details R actor chat i)"
  "keeps Q (cancel_admin_pending R actor chat)" "keeps Q (show_admin_audit R actor chat)"
  "keeps Q (show_admin_security_audit R actor chat)" "keeps Q (toggle_admin_feature R actor chat key)"
  unfolding show_admin_users_def show_admin_user_details_def cancel_admin_pending_def show_admin_audit_def
    show_admin_security_audit_def toggle_admin_feature_def
  by (intro rules admin_error admin_menu admin_features runs draws db.now_utc db.panel_reads db.get_user
      db.toggle_feature_flag)+

subsubsection \<open>Commands and buttons\<close>

lemma find_command: "keeps Q (run_find_command R actor chat q)"
  unfolding run_find_command_def Let_def by (intro rules runs db.search_tasks)

lemma new_task_command:
  assumes "m_chat_id m = chat"
  shows "keeps Q (handle_new_task_command R m payload)"
  unfolding handle_new_task_command_def assms by (intro rules create_and_present menus)

lemmas handlers = menus stats lists cards card_commands interactions_rules wizard submit_guided
  voice_buttons voice_submit clarified prepare admin_menu admin_features
  admin_screens find_command

lemma command:
  assumes "m_chat_id m = chat"
  shows "keeps Q (handle_command R m actor cmd)"
  unfolding handle_command_def Let_def assms
  by (intro seq stores, cases cmd; simp only: bot_command.case)
     (intro rules handlers new_task_command[OF assms])+

lemma voice_callback: "keeps Q h \<Longrightarrow> keeps Q (voice_callback R actor chat h)"
  unfolding voice_callback_def by (intro rules menus)

text \<open>Every button but the confirmation of an admin action.\<close>

lemma plain_button:
  assumes "m_chat_id m = chat" "\<not> confirms cb"
  shows "keeps Q (handle_callback_action R m actor cb)"
  unfolding handle_callback_action_def Let_def assms(1)
  by (intro seq stores, insert assms(2), cases cb; simp only: telegram_callback.case confirms.simps not_True_eq_False)
     (intro rules handlers voice_callback)+

end

subsubsection \<open>The confirmation of an admin action\<close>

locale panel_bot_frame = bot_frame Q W R chat + db: repository_frame W
  for Q :: "bot \<Rightarrow> bot \<Rightarrow> bool" and W :: "world \<Rightarrow> world \<Rightarrow> bool" and R :: runtime and chat :: chat_id
begin

lemma carry_out: "obeys W (carry_out actor action)"
  by (cases action) (simp_all add: db.panel)

lemma execute_admin_confirmation: "keeps Q (execute_admin_confirmation R actor chat nonce)"
  unfolding execute_admin_confirmation_def by (intro rules admin_error redeem_nonce runs carry_out)

lemma button:
  assumes "m_chat_id m = chat"
  shows "keeps Q (handle_callback_action R m actor cb)"
proof (cases "confirms cb")
  case True
  then obtain nonce where cb: "cb = AdminConfirmNonce nonce" by (cases cb) simp_all
  show ?thesis
    unfolding handle_callback_action_def Let_def assms cb telegram_callback.case
    by (intro seq stores execute_admin_confirmation)
qed (rule plain_button[OF assms])

end

end
