(* ===== verification/Ledger.thy ===== *)
theory Ledger
  imports Use_Case_Frames "HOL-Library.Sublist"
begin

section \<open>Sessions of account operations\<close>

text \<open>
  Everything the program does with accounts, in any order and with any database failures: the admin
  panel, the bootstrap sweep, registration, the onboarding dialogue, the synchronisation of the
  directory and the creation of tasks, which registers its author. Each is one step of a session;
  the session goes on whatever a step returns.
\<close>

datatype account_operation =
    ChangeRole user row_id user_role
  | DeactivateUser user row_id
  | ReactivateUser user row_id
  | ToggleFlag user utext bool
  | BootstrapAdmins "int list"
  | RegisterUser unicode incoming_message
  | OnboardingStart instant incoming_message
  | OnboardingText unicode instant incoming_message utext
  | OnboardingLink unicode instant incoming_message link_selection
  | SyncEmployees "employee list result"
  | CreateTask libraries services incoming_message assignee_decision

definition ignore :: "(world, 'a) act \<Rightarrow> (world, unit) act" where
  "ignore m = attempt m (\<lambda>_. ret ())"

fun account_step :: "account_operation \<Rightarrow> (world, unit) act" where
  "account_step (ChangeRole actor i r) = ignore (change_role actor i r)"
| "account_step (DeactivateUser actor i) = ignore (deactivate_user actor i)"
| "account_step (ReactivateUser actor i) = ignore (reactivate_user actor i)"
| "account_step (ToggleFlag actor key on) = ignore (toggle_feature_flag actor key on)"
| "account_step (BootstrapAdmins ids) = ignore (bootstrap_admins ids)"
| "account_step (RegisterUser U m) = ignore (register_user U m)"
| "account_step (OnboardingStart now m) = ignore (handle_start now m)"
| "account_step (OnboardingText U now m entry) = ignore (handle_text U now m entry)"
| "account_step (OnboardingLink U now m choice) = ignore (handle_link_selection U now m choice)"
| "account_step (SyncEmployees fetched) = ignore (sync_employees fetched)"
| "account_step (CreateTask L S m decision) = ignore (create_task L S m decision)"

definition account_session :: "account_operation list \<Rightarrow> (world, unit) act" where
  "account_session ops = forA ops account_step"

subsection \<open>Account operations and the remaining admin\<close>

text \<open>Every write of a repository keeps an active admin, so every use case does.\<close>

lemma admins_same_users: "(\<And>w. w_users (snd (f w)) = w_users w) \<Longrightarrow> obeys keeps_admin (statement ok f)"
  by (rule admins.statement) (simp add: keeps_admin_same_users)

lemma admins_execute: "(\<And>w. w_users (f w) = w_users w) \<Longrightarrow> obeys keeps_admin (execute f)"
  by (rule admins.execute) (simp add: keeps_admin_same_users)

lemma admins_of_appends: "obeys appends_records m \<Longrightarrow> obeys keeps_admin m"
  by (erule obeys_weaken) (simp add: appends_records_def keeps_admin_same_users)

lemma admins_task_writes:
  "obeys keeps_admin (update_task t)"
  "obeys keeps_admin (insert_task t)"
  "obeys keeps_admin (requeue i)"
  "obeys keeps_admin (upsert_many es)"
  unfolding update_task_def insert_task_def requeue_def update_notification_def upsert_many_def
    upsert_one_def reads_defs
  by (intro admins.store_rules obeys_cases admins.forA admins_same_users admins_execute;
      simp add: set_employees_def)+

lemma admins_log_writes:
  "obeys keeps_admin (append_security_audit e)"
  "obeys keeps_admin (upsert_override f b i now)"
  unfolding append_security_audit_def upsert_override_def
  by (rule admins_same_users; simp add: Let_def)+

interpretation account_use_cases: repository_frame keeps_admin
  by unfold_locales
     (simp_all add: admins_task_writes admins_log_writes admins_upsert admins_set_role admins_deactivate
       admins_reactivate admins_promote admins_onboarding admins_audit keeps_admin_same_users
       admins_of_appends[OF appends_enqueue] admins_of_appends[OF appends_audit]
       admins_of_appends[OF appends_comment])

lemma admins_step: "obeys keeps_admin (account_step op)"
  by (cases op) (simp_all add: ignore_def account_use_cases.use_case_rules account_use_cases.panel
      account_use_cases.toggle_feature_flag account_use_cases.bootstrap_admins
      account_use_cases.register_user account_use_cases.onboarding_handlers
      account_use_cases.onboarding_text account_use_cases.sync_employees account_use_cases.create_task)

text \<open>The bot is never left without an administrator. Whatever account operations run, by whomever,
  in whatever order and with whatever database failures in between (role changes, deactivations,
  the bootstrap sweep, registrations, onboarding steps, directory synchronisations, task
  creations), a database that has an active admin still has one afterwards, and its accounts still
  have distinct identities and distinct Telegram accounts.\<close>

theorem active_admin_remains:
  assumes "users_ok w" "has_active_admin w" "account_session ops w = (r, w')"
  shows "has_active_admin w' \<and> users_ok w'"
proof -
  have "obeys keeps_admin (account_session ops)"
    unfolding account_session_def by (intro admins.forA admins_step)
  from obeysD[OF this assms(3)] assms(1,2) show ?thesis by (simp add: keeps_admin_def)
qed

text \<open>An admin demotes the only other admin, and then somebody tries to demote the last one.\<close>

theorem active_admin_remains_witness:
  "\<exists>w'. account_session [ChangeRole sample_admin 2 Admin, DeactivateUser sample_admin 2,
          ChangeRole sample_admin 3 User, BootstrapAdmins [10, 99]] sample_world = (Inr (), w')
     \<and> has_active_admin w' \<and> users_ok w'"
proof -
  have start: "users_ok sample_world" "has_active_admin sample_world"
    by (simp_all add: users_ok_def has_active_admin_def active_admin_def)
  obtain r w' where run: "account_session [ChangeRole sample_admin 2 Admin, DeactivateUser sample_admin 2,
          ChangeRole sample_admin 3 User, BootstrapAdmins [10, 99]] sample_world = (r, w')" by fastforce
  have "r = Inr ()"
    using run by (auto simp: account_session_def ignore_def tryA_def attempt_def ret_def split: prod.splits)
  with active_admin_remains[OF start run] run show ?thesis by blast
qed


section \<open>What the database never forgets\<close>

text \<open>
  The repositories have no delete statement for tasks, accounts, comments, histories and audit logs.
  \<open>only_grows\<close> says what follows for the rows: logs are appended to, accounts keep their identity and
  notifications their content, both keep their order, and a task keeps what it was created with, while
  a change of any other column of the aggregate but the time of the last change raises its version. The
  two columns of the SLA worker, which are no part of the aggregate, are in the side tables.
\<close>

definition task_origin ::
  "task \<Rightarrow> row_id option \<times> uuid \<times> utext \<times> row_id \<times> utext \<times> message_type \<times> int \<times> int \<times> instant" where
  "task_origin t =
     (t_id t, t_task_uid t, t_source_message_key t, t_created_by_user_id t, t_original_message t,
      t_message_type t, t_telegram_chat_id t, t_telegram_message_id t, t_created_at t)"

definition notice_content :: "notification \<Rightarrow> notification_type \<times> row_id option \<times> row_id option \<times> row_id \<times> utext \<times> utext \<times> instant" where
  "notice_content n = (n_notification_type n, n_id n, n_task_id n, n_recipient_user_id n, n_message n, n_dedupe_key n, n_created_at n)"

definition task_succeeds :: "task \<Rightarrow> task \<Rightarrow> bool" where
  "task_succeeds t u \<longleftrightarrow>
     task_origin u = task_origin t
     \<and> (t_version t < t_version u \<or> (\<exists>now. u = t\<lparr> t_updated_at := now \<rparr>))"

definition account_identity :: "user \<Rightarrow> row_id option \<times> int" where
  "account_identity u = (u_id u, u_telegram_id u)"

definition tasks_grow :: "task list \<Rightarrow> task list \<Rightarrow> bool" where
  "tasks_grow ts us \<longleftrightarrow> length ts \<le> length us \<and> (\<forall>i < length ts. task_succeeds (ts ! i) (us ! i))"

definition only_grows :: "world \<Rightarrow> world \<Rightarrow> bool" where
  "only_grows w w' \<longleftrightarrow>
     tasks_grow (w_tasks w) (w_tasks w')
     \<and> prefix (map account_identity (w_users w)) (map account_identity (w_users w'))
     \<and> prefix (map notice_content (w_notifications w)) (map notice_content (w_notifications w'))
     \<and> prefix (w_comments w) (w_comments w') \<and> prefix (w_history w) (w_history w')
     \<and> prefix (w_admin_audit w) (w_admin_audit w')
     \<and> prefix (w_security_audit w) (w_security_audit w')
     \<and> prefix (sd_escalations (w_side w)) (sd_escalations (w_side w'))"

subsection \<open>A preorder\<close>

lemma task_succeeds_refl [simp]: "task_succeeds t t"
proof -
  have "t = t\<lparr> t_updated_at := t_updated_at t \<rparr>" by simp
  then show ?thesis unfolding task_succeeds_def by blast
qed

lemma task_succeeds_trans: "task_succeeds s t \<Longrightarrow> task_succeeds t u \<Longrightarrow> task_succeeds s u"
  by (auto simp: task_succeeds_def)

lemma tasks_grow_refl [simp]: "tasks_grow ts ts"
  by (simp add: tasks_grow_def)

lemma tasks_grow_trans: "tasks_grow ss ts \<Longrightarrow> tasks_grow ts us \<Longrightarrow> tasks_grow ss us"
  by (auto simp: tasks_grow_def intro: task_succeeds_trans)

lemma tasks_grow_append [simp]: "tasks_grow ts (ts @ us)"
  by (simp add: tasks_grow_def nth_append)

lemma tasks_grow_update:
  "(\<And>t. P t \<Longrightarrow> task_succeeds t (f t)) \<Longrightarrow> tasks_grow ts (update_where P f ts)"
  by (simp add: tasks_grow_def update_where_def)

lemma map_identity_update:
  "(\<And>u. P u \<Longrightarrow> k (f u) = k u) \<Longrightarrow> map k (update_where P f xs) = map k xs"
  by (simp add: update_where_def)

interpretation ledger: store_frame only_grows
proof unfold_locales
  show "only_grows s u" if "only_grows s t" "only_grows t u" for s t u :: world
    using that unfolding only_grows_def by (meson prefix_order.trans tasks_grow_trans)
qed (simp_all add: only_grows_def bookkeeping_free_def)

subsection \<open>The writes\<close>

lemma ledger_statement: "(\<And>w. only_grows w (snd (f w))) \<Longrightarrow> obeys only_grows (statement ok f)"
  by (rule ledger.statement)

lemma write_columns_succeeds: "update_matches t r \<Longrightarrow> task_succeeds r (write_columns t r)"
  by (simp add: update_matches_def task_succeeds_def task_origin_def write_columns_def)

lemma ledger_tasks:
  "obeys only_grows (update_task t)" "obeys only_grows (insert_task t)"
  unfolding update_task_def insert_task_def
  by (intro ledger.store_rules ledger_statement;
      simp add: only_grows_def tasks_grow_update write_columns_succeeds)+

lemma ledger_notifications:
  "obeys only_grows (enqueue n)" "obeys only_grows (requeue i)"
  unfolding enqueue_def requeue_def update_notification_def
  by (intro ledger.store_rules ledger_statement ledger.execute;
      simp add: only_grows_def map_identity_update notice_content_def)+

lemma ledger_logs:
  "obeys only_grows (append_audit a)" "obeys only_grows (create_comment c)"
  "obeys only_grows (append_admin_audit entry)" "obeys only_grows (append_security_audit event)"
  "obeys only_grows (upsert_override flag on by_user now)"
  unfolding append_audit_def create_comment_def append_admin_audit_def append_security_audit_def
    upsert_override_def
  by (intro ledger_statement; simp add: only_grows_def Let_def)+

lemma ledger_user_update:
  "(\<And>u. P u \<Longrightarrow> account_identity (f u) = account_identity u) \<Longrightarrow>
     obeys only_grows (update_user_returning P f)"
  unfolding update_user_returning_def
  by (intro ledger_statement) (simp add: only_grows_def map_identity_update)

lemma ledger_user_insert: "obeys only_grows (insert_user u)"
  unfolding insert_user_def by (intro ledger_statement) (simp add: only_grows_def Let_def)

lemma ledger_accounts:
  "obeys only_grows (set_role i role now)" "obeys only_grows (deactivate i now)"
  "obeys only_grows (reactivate i now)" "obeys only_grows (promote_bootstrap_admin tg now)"
  "obeys only_grows (ensure_onboarding_session tg chat name full now)"
  "obeys only_grows (save_onboarding_progress i v st fn sn now)"
  "obeys only_grows (complete_onboarding i v first_part last_part e now)"
  unfolding set_role_def deactivate_def reactivate_def promote_bootstrap_admin_def
    ensure_onboarding_session_def save_onboarding_progress_def complete_onboarding_def
    load_user_by_id_in_tx_def count_other_active_admins_in_tx_def reads_defs
  by (intro ledger.store_rules obeys_cases ledger_user_update ledger_user_insert;
      simp add: account_identity_def)+

lemma ledger_directory: "obeys only_grows (upsert_many es)"
  unfolding upsert_many_def upsert_one_def
  by (intro ledger.store_rules ledger.forA obeys_cases ledger.execute)
     (simp_all add: only_grows_def set_employees_def)

lemma ledger_upsert: "obeys only_grows (upsert_from_message u)"
  unfolding upsert_from_message_def
  by (intro ledger_statement)
     (auto simp: only_grows_def Let_def map_identity_update account_identity_def merge_from_message_def
       split: option.split)

interpretation ledger_use_cases: repository_frame only_grows
  by unfold_locales
     (simp_all add: ledger_tasks ledger_notifications ledger_logs ledger_accounts ledger_directory
       ledger_upsert only_grows_def)

subsection \<open>The keys of the tables\<close>

text \<open>
  A source message key identifies one task and a dedupe key one notification: the unique indexes of
  the schema, as an invariant every write keeps.
\<close>

definition keys_ok :: "world \<Rightarrow> bool" where
  "keys_ok w \<longleftrightarrow> tasks_ok w \<and> distinct (map n_dedupe_key (w_notifications w)) \<and> users_ok w"

definition keeps_keys :: "world \<Rightarrow> world \<Rightarrow> bool" where
  "keeps_keys w w' \<longleftrightarrow> (keys_ok w \<longrightarrow> keys_ok w')"

lemma keys_same: "w_tasks w' = w_tasks w \<Longrightarrow> w_notifications w' = w_notifications w \<Longrightarrow>
    w_users w' = w_users w \<Longrightarrow> keeps_keys w w'"
  by (simp add: keeps_keys_def keys_ok_def tasks_ok_def users_ok_def)

interpretation keys: store_frame keeps_keys
proof unfold_locales
  show "keeps_keys s u" if "keeps_keys s t" "keeps_keys t u" for s t u :: world
    using that unfolding keeps_keys_def by blast
qed (simp_all add: keys_same bookkeeping_free_def)

lemma keys_tasks:
  "obeys keeps_keys (update_task t)" "obeys keeps_keys (insert_task t)"
  unfolding update_task_def insert_task_def
  by (intro keys.store_rules keys.statement;
      simp add: keeps_keys_def keys_ok_def users_ok_def tasks_ok_update tasks_ok_insert)+

lemma keys_of_notifications:
  "(distinct (map n_dedupe_key (w_notifications w)) \<Longrightarrow> distinct (map n_dedupe_key ns)) \<Longrightarrow>
     keeps_keys w (w\<lparr> w_notifications := ns \<rparr>)"
  by (simp add: keeps_keys_def keys_ok_def tasks_ok_def users_ok_def)

lemma keys_enqueue: "obeys keeps_keys (enqueue n)"
  unfolding enqueue_def
proof (intro keys.store_rules keys.statement)
  fix w :: world
  have "distinct (map n_dedupe_key (w_notifications w @ [n\<lparr> n_id := i \<rparr>]))"
    if "\<not> dedupe_clash n (w_notifications w)" "distinct (map n_dedupe_key (w_notifications w))" for i
    using that unfolding dedupe_clash_def list_ex_iff by (simp add: image_iff) metis
  then show "keeps_keys w (snd ((), if dedupe_clash n (w_notifications w) then w
                 else w\<lparr> w_notifications := w_notifications w
                        @ [n\<lparr> n_id := Some (next_id n_id (w_notifications w)) \<rparr>] \<rparr>))"
    by (simp add: keys.refl keys_of_notifications)
qed

lemma keys_requeue: "obeys keeps_keys (requeue i)"
  unfolding requeue_def update_notification_def
  by (intro keys.execute keys_of_notifications) (simp add: map_identity_update)

lemma keys_logs:
  "obeys keeps_keys (append_audit a)" "obeys keeps_keys (create_comment c)"
  "obeys keeps_keys (append_admin_audit entry)" "obeys keeps_keys (append_security_audit event)"
  "obeys keeps_keys (upsert_override flag on by_user now)"
  unfolding append_audit_def create_comment_def append_admin_audit_def append_security_audit_def
    upsert_override_def
  by (intro keys.statement; simp add: Let_def keys_same)+

text \<open>Writes to the accounts keep the other tables, and \<open>keeps_admin\<close> knows what they do to the accounts.\<close>

definition accounts_only :: "world \<Rightarrow> world \<Rightarrow> bool" where
  "accounts_only w w' \<longleftrightarrow>
     w_tasks w' = w_tasks w \<and> w_notifications w' = w_notifications w"

interpretation accounts_only: store_frame accounts_only
  by unfold_locales (auto simp: accounts_only_def bookkeeping_free_def)

lemma accounts_only_update: "obeys accounts_only (update_user_returning P f)" "obeys accounts_only (insert_user u)"
  unfolding update_user_returning_def insert_user_def
  by (intro accounts_only.statement; simp add: accounts_only_def Let_def)+

lemma accounts_only_writes:
  "obeys accounts_only (set_role i role now)" "obeys accounts_only (deactivate i now)"
  "obeys accounts_only (reactivate i now)" "obeys accounts_only (promote_bootstrap_admin tg now)"
  "obeys accounts_only (ensure_onboarding_session tg chat name full now)"
  "obeys accounts_only (save_onboarding_progress i v st fn sn now)"
  "obeys accounts_only (complete_onboarding i v first_part last_part e now)"
  unfolding set_role_def deactivate_def reactivate_def promote_bootstrap_admin_def
    ensure_onboarding_session_def save_onboarding_progress_def complete_onboarding_def
    load_user_by_id_in_tx_def count_other_active_admins_in_tx_def reads_defs
  by (intro accounts_only.store_rules obeys_cases accounts_only_update)+

lemma accounts_only_directory: "obeys accounts_only (upsert_many es)"
  unfolding upsert_many_def upsert_one_def
  by (intro accounts_only.store_rules accounts_only.forA obeys_cases accounts_only.execute)
     (simp_all add: accounts_only_def set_employees_def)

lemma accounts_only_upsert: "obeys accounts_only (upsert_from_message u)"
  unfolding upsert_from_message_def
  by (intro accounts_only.statement) (simp add: accounts_only_def Let_def split: option.split)

lemma keys_accounts:
  "obeys accounts_only m \<Longrightarrow> obeys keeps_admin m \<Longrightarrow> obeys keeps_keys m"
  by (auto simp: obeys_def accounts_only_def keeps_admin_def keeps_keys_def keys_ok_def tasks_ok_def)

interpretation keys_use_cases: repository_frame keeps_keys
  by unfold_locales
     (simp_all add: keys_tasks keys_enqueue keys_requeue keys_logs keys_accounts accounts_only_writes
       accounts_only_directory accounts_only_upsert account_use_cases.rights_rules keys_same)

end
