(* ===== verification/Bot_Updates.thy ===== *)
theory Bot_Updates
  imports Bot_Frames Ledger
begin

section \<open>Streams of updates\<close>

text \<open>
  \<^verbatim>\<open>run_telegram_dispatcher\<close> of \<^verbatim>\<open>dispatcher.rs\<close> hands every update to the endpoint of its branch.
  The lock per chat lets the updates of a chat run one after the other, so what a chat sees is a list
  of updates, each handled in the state the previous one left, whatever that one returned.
\<close>

datatype update = MessageUpdate telegram_message | CallbackUpdate callback_query

fun handle_update :: "runtime \<Rightarrow> update \<Rightarrow> unit handler" where
  "handle_update R (MessageUpdate message) = handle_message R message"
| "handle_update R (CallbackUpdate query) = handle_callback_query R query"

fun run_updates :: "runtime \<Rightarrow> update list \<Rightarrow> bot \<Rightarrow> bot" where
  "run_updates R [] s = s"
| "run_updates R (u # us) s = run_updates R us (snd (handle_update R u s))"

lemma run_updates_snoc: "run_updates R (us @ [u]) s = snd (handle_update R u (run_updates R us s))"
  by (induction us arbitrary: s) simp_all

subsection \<open>Relations every update obeys\<close>

lemma keeps_next_action:
  "(\<And>u. keeps Q (a u)) \<Longrightarrow> (\<And>u. keeps Q (b u)) \<Longrightarrow> (\<And>u c. keeps Q (f u c)) \<Longrightarrow> (\<And>u. keeps Q (g u)) \<Longrightarrow>
   (\<And>r. keeps Q (h r)) \<Longrightarrow>
     keeps Q (case v of AskFirstName u \<Rightarrow> a u | AskLastName u \<Rightarrow> b u | AskEmployeeLink u c \<Rightarrow> f u c
       | OnboardingDone u \<Rightarrow> g u | RetryPrompt r \<Rightarrow> h r)"
  by (cases v) simp_all

lemma keeps_link_preview:
  "(\<And>d. keeps Q (f d)) \<Longrightarrow> (\<And>c. keeps Q (g c)) \<Longrightarrow>
     keeps Q (case v of LinkReady d \<Rightarrow> f d | LinkClarification c \<Rightarrow> g c)"
  by (cases v) simp_all

lemma keeps_registration_result:
  "(\<And>u. keeps Q (f u)) \<Longrightarrow> keeps Q a \<Longrightarrow> keeps Q b \<Longrightarrow>
     keeps Q (case v of ActorReady u \<Rightarrow> f u | ConsumedByOnboarding \<Rightarrow> a | Aborted \<Rightarrow> b)"
  by (cases v) simp_all

lemmas entry_cases = keeps_next_action keeps_link_preview keeps_registration_result

locale entry_frame = transport_frame +
  assumes telegram: "keeps Q (telegram R c)"
begin

lemma perform: "keeps Q (perform R c)"
proof -
  have "keeps Q (\<lambda>s. case reply of ReplyOk mid \<Rightarrow> (Finished mid, s) | ReplyError e \<Rightarrow> (RequestFailed e, s))"
    for reply
    by (cases reply) (simp_all add: keeps_def refl)
  then show ?thesis unfolding perform_def by (intro andThen telegram)
qed

lemma raw: "keeps Q (send_plain R c body)" "keeps Q (answer_callback R q body)"
  unfolding send_plain_def answer_callback_def by (intro transport_rules perform)+

lemma publish_link_screen: "keeps Q (publish_link_screen R chat c)"
  unfolding publish_link_screen_def by (intro transport_rules)

lemma render_outcome: "keeps Q (render_outcome R chat v)"
  unfolding render_outcome_def by (intro entry_cases transport_rules raw publish_link_screen)

lemma onboarding_gate:
  assumes "m_chat_id m = chat"
  shows "keeps Q (run_onboarding_gate R m)"
  unfolding run_onboarding_gate_def Let_def assms
  by (intro transport_rules raw render_outcome runs db.onboarding_handlers db.onboarding_text)

lemma register_actor:
  assumes "m_chat_id m = chat"
  shows "keeps Q (register_actor R m)"
  unfolding register_actor_def Let_def assms
  by (intro entry_cases transport_rules onboarding_gate[OF assms] publish_link_screen runs db.preview_linking
      db.link_decision)

lemma dispatch_to_onboarding:
  assumes "m_chat_id m = chat"
  shows "keeps Q (dispatch_to_onboarding R m selection)"
  unfolding dispatch_to_onboarding_def Let_def assms
  by (intro transport_rules render_outcome runs db.onboarding_handlers)

lemma link_and_welcome:
  assumes "m_chat_id m = chat"
  shows "keeps Q (link_and_welcome R m decision banner)"
  unfolding link_and_welcome_def Let_def assms by (intro transport_rules runs db.link_decision)

lemma registration_button:
  assumes "m_chat_id m = chat"
  shows "keeps Q (handle_registration_link_callback R m cb)"
  unfolding handle_registration_link_callback_def is_user_in_onboarding_link_step_def
    send_registration_stale_def Let_def assms
  by (intro transport_rules runs db.onboarding_handlers, cases cb; simp only: telegram_callback.case)
     (intro transport_rules dispatch_to_onboarding[OF assms] link_and_welcome[OF assms])+

end

locale update_frame = entry_frame Q W R chat + bot_frame Q W R chat
  for Q :: "bot \<Rightarrow> bot \<Rightarrow> bool" and W :: "world \<Rightarrow> world \<Rightarrow> bool" and R :: runtime and chat :: chat_id +
  assumes screens: "Q s (s\<lparr> b_screens := scr \<rparr>)"
    and barriers: "Q s (s\<lparr> b_barriers := bar \<rparr>)"
    and checks: "Q s (s\<lparr> b_checks := chk \<rparr>)"
begin

lemma rate_limit: "keeps Q (check_rate_limit R actor chat)"
  unfolding check_rate_limit_def
  by (intro rules change checks draws db.now_utc runs db.append_security_audit raw)

lemma message_dispatch:
  assumes "m_chat_id m = chat"
  shows "keeps Q (dispatch_message_inner R m)"
  unfolding dispatch_message_inner_def Let_def assms
  by (intro entry_cases rules register_actor[OF assms] rate_limit command[OF assms]
      session_message[OF assms] interaction_message[OF assms] voice_start[OF assms] create_and_present)

lemma plain_callback_dispatch:
  assumes "m_chat_id m = chat" "\<not> confirms cb"
  shows "keeps Q (dispatch_callback_inner R q cb m)"
  unfolding dispatch_callback_inner_def Let_def assms(1)
  by (intro entry_cases rules change screens register_actor[OF assms(1)] raw
      registration_button[OF assms(1)] plain_button[OF assms])

lemma under_barrier:
  assumes "keeps Q h"
  shows "keeps Q (under_barrier c h)"
proof (rule keepsI)
  fix s
  have "Q s (snd (h (s\<lparr> b_barriers := b \<rparr>)))" for b
    using assms barriers trans unfolding keeps_def by blast
  then show "Q s (snd (under_barrier c h s))"
    by (auto simp: under_barrier_def split: prod.split handled.split) (metis snd_conv barriers trans)+
qed

end

locale panel_update_frame = update_frame Q W R chat + panel_bot_frame Q W R chat
  for Q :: "bot \<Rightarrow> bot \<Rightarrow> bool" and W :: "world \<Rightarrow> world \<Rightarrow> bool" and R :: runtime and chat :: chat_id
begin

lemma callback_dispatch:
  assumes "m_chat_id m = chat"
  shows "keeps Q (dispatch_callback_inner R q cb m)"
  unfolding dispatch_callback_inner_def Let_def assms
  by (intro entry_cases rules change screens register_actor[OF assms] raw
      registration_button[OF assms] button[OF assms])

end

subsection \<open>Relations between the databases\<close>

text \<open>The transport does not touch the database, so every \<open>repository_frame\<close> gives an \<open>update_frame\<close>.\<close>

definition on_world :: "(world \<Rightarrow> world \<Rightarrow> bool) \<Rightarrow> bot \<Rightarrow> bot \<Rightarrow> bool" where
  "on_world W s t \<longleftrightarrow> W (b_world s) (b_world t)"

interpretation transport: sender_frame "on_world (=)" R chat for R chat
  by unfold_locales
     (auto simp: on_world_def keeps_def telegram_def set_screen_def change_def Let_def
       try_consume_update_barrier_def split: option.split prod.split)

lemma keeps_weaken: "keeps P h \<Longrightarrow> (\<And>s t. P s t \<Longrightarrow> Q s t) \<Longrightarrow> keeps Q h"
  by (simp add: keeps_def)

sublocale use_case_frame \<subseteq> updates: update_frame "on_world R" R T chat for T chat
proof unfold_locales
  have weak: "on_world R s t" if "on_world (=) s t" for s t
    using that by (simp add: on_world_def refl)
  show "on_world R s u" if "on_world R s t" "on_world R t u" for s t u
    using that trans by (auto simp: on_world_def)
  show "keeps (on_world R) (send_screen T chat d body kb)"
    "keeps (on_world R) (send_fresh_screen T chat d body kb)"
    "keeps (on_world R) (send_error T chat e)" "keeps (on_world R) (telegram T c)" for d body kb e c
    by (simp_all add: keeps_weaken[OF transport.sends(1) weak] keeps_weaken[OF transport.sends(2) weak]
        keeps_weaken[OF transport.sends(3) weak] keeps_weaken[OF transport.telegram weak])
qed (simp_all add: on_world_def refl)

sublocale repository_frame \<subseteq> panel_updates: panel_update_frame "on_world R" R T chat for T chat
  by unfold_locales

text \<open>An update that confirms an admin action.\<close>

fun confirming :: "runtime \<Rightarrow> update \<Rightarrow> bool" where
  "confirming R (MessageUpdate message) = False"
| "confirming R (CallbackUpdate query) =
     (case Option.bind (cq_data query) (parse_callback (rt_parse_uuid R)) of
        Some cb \<Rightarrow> confirms cb
      | None \<Rightarrow> False)"

context use_case_frame
begin

lemma once_per_update:
  assumes "keeps (on_world R) h"
  shows "keeps (on_world R) (once_per_update key h)"
proof (rule keepsI)
  fix s :: bot
  have "on_world R s (snd (h (s\<lparr> b_dedup := d \<rparr>)))" for d
    using assms by (auto simp: keeps_def on_world_def dest!: spec[of _ "s\<lparr> b_dedup := d \<rparr>"])
  then show "on_world R s (snd (once_per_update key h s))"
    by (auto simp: once_per_update_def on_world_def refl split: prod.split)
qed

lemma plain_update:
  assumes "\<not> confirming T u"
  shows "keeps (on_world R) (handle_update T u)"
proof (cases u)
  case (MessageUpdate message)
  have "obeys R (to_incoming_message message)"
    unfolding to_incoming_message_def incoming_def by (intro use_case_rules)
  then show ?thesis
    unfolding MessageUpdate handle_update.simps handle_message_def
    by (intro updates.rules updates.draws once_per_update updates.under_barrier
        updates.message_dispatch[OF HOL.refl])
next
  case (CallbackUpdate query)
  have "obeys R (callback_to_incoming_message query)"
    unfolding callback_to_incoming_message_def incoming_def by (intro use_case_rules)
  then have "keeps (on_world R) (handle_callback_query T query)"
    using assms CallbackUpdate unfolding handle_callback_query_def
    by (cases "Option.bind (cq_data query) (parse_callback (rt_parse_uuid T))")
       (auto intro!: updates.rules updates.draws once_per_update updates.under_barrier
          updates.plain_callback_dispatch[OF HOL.refl])
  then show ?thesis unfolding CallbackUpdate by simp
qed

end

context repository_frame
begin

lemma handle_update: "keeps (on_world R) (handle_update T u)"
proof (cases "confirming T u")
  case True
  then obtain query cb where u: "u = CallbackUpdate query"
    and cb: "Option.bind (cq_data query) (parse_callback (rt_parse_uuid T)) = Some cb"
    by (cases u) (auto split: option.splits)
  have "obeys R (callback_to_incoming_message query)"
    unfolding callback_to_incoming_message_def incoming_def by (intro use_case_rules)
  then show ?thesis
    unfolding u handle_update.simps handle_callback_query_def cb option.case
    by (intro updates.rules updates.draws once_per_update updates.under_barrier
        panel_updates.callback_dispatch[OF HOL.refl])
qed (rule plain_update)

lemma run_updates: "R (b_world s) (b_world (run_updates T us s))"
proof (induction us arbitrary: s)
  case (Cons u us)
  have "R (b_world s) (b_world (snd (handle_update T u s)))"
    using handle_update by (simp add: keeps_def on_world_def)
  with Cons.IH show ?case by (auto intro: trans)
qed (simp add: refl)

end

end
