(* ===== verification/Bot_Barrier.thy ===== *)
theory Bot_Barrier
  imports Bot_Updates
begin

section \<open>One visible effect per update\<close>

text \<open>
  The barrier of an update lets one function of the transport show something. Onboarding and the rate
  limiter send without asking the barrier, and end the update when they do. \<open>one_effect\<close> puts both
  together: an update that starts with an unspent barrier makes at most one message appear or change.
  Calls that failed show nothing, and the toast of a button is not a message.
\<close>

fun visible :: "telegram_call \<times> int option \<Rightarrow> bool" where
  "visible (SendMessage _ _ _, r) = (r \<noteq> None)"
| "visible (EditMessage _ _ _ _, r) = (r \<noteq> None)"
| "visible (AnswerCallback _ _, _) = False"

definition effects :: "bot \<Rightarrow> nat" where
  "effects s = length (filter visible (b_calls s))"

lemma effects_simps [simp]:
  "effects (s\<lparr> b_world := w \<rparr>) = effects s" "effects (s\<lparr> b_screens := scr \<rparr>) = effects s"
  "effects (s\<lparr> b_selections := sel \<rparr>) = effects s" "effects (s\<lparr> b_links := lnk \<rparr>) = effects s"
  "effects (s\<lparr> b_sessions := ses \<rparr>) = effects s" "effects (s\<lparr> b_interactions := typed \<rparr>) = effects s"
  "effects (s\<lparr> b_nonces := store \<rparr>) = effects s" "effects (s\<lparr> b_dedup := ded \<rparr>) = effects s"
  "effects (s\<lparr> b_barriers := bar \<rparr>) = effects s" "effects (s\<lparr> b_stats_cache := cch \<rparr>) = effects s"
  "effects (s\<lparr> b_checks := chk \<rparr>) = effects s" "effects (s\<lparr> b_readings := rdg \<rparr>) = effects s"
  "effects (s\<lparr> b_fetches := ftc \<rparr>) = effects s"
  "effects (s\<lparr> b_calls := b_calls s @ [c] \<rparr>) = effects s + (if visible c then 1 else 0)"
  by (simp_all add: effects_def)

subsection \<open>Silent handlers\<close>

definition silent :: "bot \<Rightarrow> bot \<Rightarrow> bool" where
  "silent s t \<longleftrightarrow> effects t = effects s \<and> b_barriers t = b_barriers s"

interpretation everything: repository_frame "\<lambda>_ _. True"
  by unfold_locales (simp_all add: obeys_def bookkeeping_free_def)

interpretation silent: handler_frame silent
  by unfold_locales (simp_all add: silent_def)

lemma silent_change: "(\<And>s. effects (f s) = effects s) \<Longrightarrow> (\<And>s. b_barriers (f s) = b_barriers s) \<Longrightarrow>
    keeps silent (change f)"
  by (intro silent.change) (simp add: silent_def)

lemma silent_call: "keeps silent (call m)" "keeps silent (call_may_panic n)"
  by (intro silent.call silent.call_may_panic; simp add: silent_def)+

lemma silent_draw: "(\<And>x. keeps silent (f x)) \<Longrightarrow> keeps silent (draw m f)"
  by (intro silent.draw) (simp_all add: silent_def)

lemma perform_run:
  "perform R c s =
     (case rt_telegram R (length (b_calls s)) of
        ReplyOk mid \<Rightarrow> (Finished mid, s\<lparr> b_calls := b_calls s @ [(c, Some mid)] \<rparr>)
      | ReplyError e \<Rightarrow> (RequestFailed e, s\<lparr> b_calls := b_calls s @ [(c, None)] \<rparr>))"
  by (simp add: perform_def andThen_def telegram_def Let_def split: api_reply.split)

lemma silent_answer: "keeps silent (answer_callback R q body)"
proof -
  have "keeps silent (perform R (AnswerCallback q body))"
    by (simp add: keeps_def perform_run silent_def split: api_reply.split)
  then show ?thesis unfolding answer_callback_def by (intro silent.flow)
qed

subsection \<open>Handlers that show at most one thing\<close>

definition at_most_one :: "'a handler \<Rightarrow> bool" where
  "at_most_one h \<longleftrightarrow> (\<forall>s. effects (snd (h s)) \<le> effects s + 1 \<and> b_barriers (snd (h s)) = b_barriers s)"

lemma perform_shows: "at_most_one (perform R c)"
  by (simp add: at_most_one_def perform_run split: api_reply.split)

lemma at_most_one_then:
  assumes "at_most_one m" "\<And>x. keeps silent (f x)"
  shows "at_most_one (andThen m f)"
  unfolding at_most_one_def
proof
  fix s :: bot
  obtain r t where run: "m s = (r, t)" by fastforce
  have m: "effects t \<le> effects s + 1" "b_barriers t = b_barriers s"
    using assms(1) run by (auto simp: at_most_one_def dest!: spec[of _ s])
  have f: "silent t (snd (f x t))" for x using assms(2) by (simp add: keeps_def)
  show "effects (snd (andThen m f s)) \<le> effects s + 1
      \<and> b_barriers (snd (andThen m f s)) = b_barriers s"
    using m f by (cases r) (auto simp: andThen_def run silent_def)
qed

lemma silent_then_one:
  assumes "keeps silent m" "\<And>x. at_most_one (f x)"
  shows "at_most_one (andThen m f)"
  unfolding at_most_one_def
proof
  fix s :: bot
  obtain r t where run: "m s = (r, t)" by fastforce
  have m: "effects t = effects s" "b_barriers t = b_barriers s"
    using keepsD[OF assms(1) run] by (auto simp: silent_def)
  have f: "effects (snd (f x t)) \<le> effects t + 1 \<and> b_barriers (snd (f x t)) = b_barriers t" for x
    using assms(2) by (simp add: at_most_one_def)
  show "effects (snd (andThen m f s)) \<le> effects s + 1
      \<and> b_barriers (snd (andThen m f s)) = b_barriers s"
    using m f by (cases r) (auto simp: andThen_def run)
qed

lemma silent_is_one: "keeps silent h \<Longrightarrow> at_most_one h"
  by (simp add: keeps_def at_most_one_def silent_def)

lemma set_screen_silent: "keeps silent (set_screen chat mid d)"
  unfolding set_screen_def by (intro silent_change) simp_all

lemma raw_shows_one:
  "at_most_one (send_new R chat d body kb)" "at_most_one (send_plain R chat body)"
  unfolding send_new_def send_plain_def
  by (intro at_most_one_then perform_shows set_screen_silent silent.flow)+

text \<open>An edit that falls back has shown nothing yet.\<close>

lemma edit_or_send_shows_one:
  "at_most_one (andThen (try_edit_screen R chat mid body kb) (\<lambda>result.
     if result = FallbackRequired then send_new R chat d body kb else set_screen chat mid d))"
  unfolding at_most_one_def
proof
  fix s :: bot
  define reply where "reply = rt_telegram R (length (b_calls s))"
  define t where "t r = s\<lparr> b_calls := b_calls s @ [(EditMessage chat mid body kb, r)] \<rparr>" for r
  have send: "effects (snd (send_new R chat d body kb (t None))) \<le> effects (t None) + 1
      \<and> b_barriers (snd (send_new R chat d body kb (t None))) = b_barriers (t None)"
    using raw_shows_one(1) by (simp add: at_most_one_def)
  have screen: "effects (snd (set_screen chat mid d u)) = effects u
      \<and> b_barriers (snd (set_screen chat mid d u)) = b_barriers u" for u
    using set_screen_silent by (simp add: keeps_def silent_def)
  have t: "effects (t None) = effects s" "effects (t (Some i)) = effects s + 1"
    "b_barriers (t r) = b_barriers s" for i r
    by (simp_all add: t_def)
  show "effects (snd (andThen (try_edit_screen R chat mid body kb) (\<lambda>result.
       if result = FallbackRequired then send_new R chat d body kb else set_screen chat mid d) s))
        \<le> effects s + 1
    \<and> b_barriers (snd (andThen (try_edit_screen R chat mid body kb) (\<lambda>result.
       if result = FallbackRequired then send_new R chat d body kb else set_screen chat mid d) s))
        = b_barriers s"
    using send screen[of "t None"] screen[of "t (Some i)" for i]
    by (cases reply)
       (auto simp: andThen_def try_edit_screen_def telegram_def Let_def reply_def[symmetric]
         t_def[symmetric] t)
qed

subsection \<open>The barrier\<close>

definition unspent :: "bool \<Rightarrow> nat" where
  "unspent flag = (if flag then 0 else 1)"

definition barrier_step :: "chat_id \<Rightarrow> bot \<Rightarrow> bot \<Rightarrow> bool" where
  "barrier_step chat s t \<longleftrightarrow>
     (\<forall>flag. b_barriers s chat = Some flag \<longrightarrow>
        (\<exists>flag'. b_barriers t chat = Some flag' \<and> effects t + unspent flag' \<le> effects s + unspent flag))"

lemma silent_step: "silent s t \<Longrightarrow> barrier_step chat s t"
  by (simp add: silent_def barrier_step_def)

text \<open>A handler that asks the barrier and then shows at most one thing.\<close>

lemma gated:
  assumes "at_most_one h"
  shows "keeps (barrier_step chat)
    (andThen (try_consume_update_barrier chat) (\<lambda>allowed. if \<not> allowed then finish () else h))"
proof (rule keepsI)
  fix s :: bot
  let ?g = "andThen (try_consume_update_barrier chat) (\<lambda>allowed. if \<not> allowed then finish () else h)"
  show "barrier_step chat s (snd (?g s))"
  proof (cases "b_barriers s chat")
    case None
    then show ?thesis by (simp add: barrier_step_def)
  next
    case (Some flag)
    define t where "t = s\<lparr> b_barriers := chat_set chat True (b_barriers s) \<rparr>"
    have t: "effects t = effects s" "b_barriers t chat = Some True"
      by (simp_all add: t_def chat_set_def)
    have run: "?g s = (if flag then (Finished (), t) else h t)"
      using Some by (simp add: andThen_def try_consume_update_barrier_def try_consume_def finish_def t_def)
    have "effects (snd (h t)) \<le> effects t + 1 \<and> b_barriers (snd (h t)) = b_barriers t"
      using assms by (simp add: at_most_one_def)
    with Some t show ?thesis unfolding run by (auto simp: barrier_step_def unspent_def)
  qed
qed

lemma barrier_shows:
  "keeps (barrier_step chat) (send_screen R chat d body kb)"
  "keeps (barrier_step chat) (send_fresh_screen R chat d body kb)"
  "keeps (barrier_step chat) (send_error R chat e)"
proof -
  have "at_most_one (case active of None \<Rightarrow> send_new R chat d body kb
      | Some a \<Rightarrow> andThen (try_edit_screen R chat (as_message_id a) body kb) (\<lambda>result.
          if result = FallbackRequired then send_new R chat d body kb
          else set_screen chat (as_message_id a) d))" for active
    by (cases active) (simp_all add: raw_shows_one edit_or_send_shows_one)
  then show "keeps (barrier_step chat) (send_screen R chat d body kb)"
    unfolding send_screen_def by (intro gated silent_then_one silent.see)
qed (simp_all add: send_fresh_screen_def send_error_def gated raw_shows_one)

interpretation barrier: panel_bot_frame "barrier_step chat" "\<lambda>_ _. True" R chat for chat R
proof unfold_locales
  show "barrier_step chat s u" if "barrier_step chat s t" "barrier_step chat t u" for s t u
    using that unfolding barrier_step_def by (metis order.trans)
qed (simp_all add: silent_step silent_def barrier_shows)

subsection \<open>Updates\<close>

text \<open>\<open>one_effect\<close>: started with an unspent barrier, the handler shows at most one thing.\<close>

definition one_effect :: "chat_id \<Rightarrow> 'a handler \<Rightarrow> bool" where
  "one_effect chat h \<longleftrightarrow>
     (\<forall>s. b_barriers s chat = Some False \<longrightarrow> effects (snd (h s)) \<le> effects s + 1)"

lemma one_effectD: "one_effect chat h \<Longrightarrow> b_barriers s chat = Some False \<Longrightarrow> effects (snd (h s)) \<le> effects s + 1"
  by (simp add: one_effect_def)

lemma one_effect_of_barrier: "keeps (barrier_step chat) h \<Longrightarrow> one_effect chat h"
  unfolding one_effect_def keeps_def barrier_step_def unspent_def by fastforce

lemma one_effect_of_one: "at_most_one h \<Longrightarrow> one_effect chat h"
  by (simp add: one_effect_def at_most_one_def)

lemma one_effect_of_silent: "keeps silent h \<Longrightarrow> one_effect chat h"
  by (simp add: one_effect_def keeps_def silent_def)

lemma one_effect_then:
  assumes "keeps silent m" "\<And>x. one_effect chat (f x)"
  shows "one_effect chat (andThen m f)"
  unfolding one_effect_def
proof (intro allI impI)
  fix s :: bot
  assume s: "b_barriers s chat = Some False"
  obtain r t where run: "m s = (r, t)" by fastforce
  have t: "effects t = effects s" "b_barriers t chat = Some False"
    using keepsD[OF assms(1) run] s by (auto simp: silent_def)
  have "effects (snd (f x t)) \<le> effects t + 1" for x
    using assms(2) t(2) by (simp add: one_effect_def)
  with t show "effects (snd (andThen m f s)) \<le> effects s + 1"
    by (cases r) (auto simp: andThen_def run)
qed

text \<open>
  \<open>spares P h\<close>: the handler shows at most one thing, and none at all when it returns a value of \<open>P\<close>.
  Onboarding, registration and the rate limiter are such handlers: they show something only when
  the update ends with them.
\<close>

definition spares :: "chat_id \<Rightarrow> ('a \<Rightarrow> bool) \<Rightarrow> 'a handler \<Rightarrow> bool" where
  "spares chat P h \<longleftrightarrow> one_effect chat h \<and> (\<forall>s x t. h s = (Finished x, t) \<longrightarrow> P x \<longrightarrow> silent s t)"

lemma spares_silent: "keeps silent h \<Longrightarrow> spares chat P h"
  by (auto simp: spares_def one_effect_of_silent dest: keepsD)

lemma spares_nothing: "one_effect chat h \<Longrightarrow> spares chat (\<lambda>_. False) h"
  by (simp add: spares_def)

lemma spares_then:
  assumes m: "spares chat P m" and f: "\<And>x. P x \<Longrightarrow> spares chat P' (f x)"
    and g: "\<And>x. \<not> P x \<Longrightarrow> keeps silent (f x)"
    and end_of: "\<And>x s y t. \<not> P x \<Longrightarrow> f x s = (Finished y, t) \<Longrightarrow> \<not> P' y"
  shows "spares chat P' (andThen m f)"
  unfolding spares_def one_effect_def
proof (intro conjI allI impI)
  fix s :: bot
  assume s: "b_barriers s chat = Some False"
  obtain r t where run: "m s = (r, t)" by fastforce
  have one: "effects t \<le> effects s + 1" using m s run by (auto simp: spares_def one_effect_def dest!: spec[of _ s])
  show "effects (snd (andThen m f s)) \<le> effects s + 1"
  proof (cases r)
    case (Finished x)
    show ?thesis
    proof (cases "P x")
      case True
      then have quiet: "silent s t" using m run Finished by (auto simp: spares_def)
      have t: "b_barriers t chat = Some False" "effects t = effects s"
        using quiet s by (auto simp: silent_def)
      have "one_effect chat (f x)" using f[OF True] by (simp add: spares_def)
      from one_effectD[OF this t(1)] t(2) have "effects (snd (f x t)) \<le> effects s + 1" by simp
      with Finished show ?thesis by (simp add: andThen_def run)
    next
      case False
      then have "silent t (snd (f x t))" using g by (simp add: keeps_def)
      with one Finished show ?thesis by (simp add: andThen_def run silent_def)
    qed
  qed (use one in \<open>simp_all add: andThen_def run\<close>)
next
  fix s y u
  assume run: "andThen m f s = (Finished y, u)" and y: "P' y"
  obtain x t where x: "m s = (Finished x, t)" "f x t = (Finished y, u)"
    using run by (auto simp: andThen_def split: prod.splits handled.splits)
  with y end_of have P: "P x" by blast
  with m x have "silent s t" by (auto simp: spares_def)
  moreover have "silent t u" using f[OF P] x(2) y by (auto simp: spares_def)
  ultimately show "silent s u" by (rule silent.trans)
qed

lemma spares_after_silent:
  assumes "keeps silent m" "\<And>x. spares chat P (f x)"
  shows "spares chat P (andThen m f)"
  by (rule spares_then[where P = "\<lambda>_. True"]) (simp_all add: assms spares_silent)

text \<open>A handler that shows one thing and returns a value that ends the update.\<close>

lemma spares_end:
  assumes "one_effect chat m" "\<not> P y"
  shows "spares chat P (seq m (finish y))"
  unfolding seq_def
  by (rule spares_then[OF spares_nothing[OF assms(1)]])
     (use assms(2) in \<open>auto simp: silent.finish finish_def\<close>)

lemma one_effect_spared:
  assumes "spares chat P m" "\<And>x. P x \<Longrightarrow> one_effect chat (f x)" "\<And>x. \<not> P x \<Longrightarrow> keeps silent (f x)"
  shows "one_effect chat (andThen m f)"
proof -
  have "spares chat (\<lambda>_. False) (andThen m f)"
    by (rule spares_then[OF assms(1)]) (simp_all add: spares_nothing assms)
  then show ?thesis by (simp add: spares_def)
qed

lemma barrier_effects:
  "one_effect chat (send_fresh_screen R chat d body kb)" "one_effect chat (send_error R chat e)"
  by (intro one_effect_of_barrier barrier_shows)+

lemma publish_effect: "one_effect chat (publish_link_screen R chat c)"
  unfolding publish_link_screen_def by (intro one_effect_of_barrier barrier.rules)

lemma render_effects:
  "spares chat (\<lambda>_. False) (render_outcome R chat v)"
  unfolding render_outcome_def
  by (cases v) (auto intro!: spares_end barrier_effects publish_effect one_effect_of_one raw_shows_one)

definition not_applicable :: "onboarding_gate_result \<Rightarrow> bool" where
  "not_applicable g \<longleftrightarrow> g = NotApplicable"

lemma gate_effects: "spares (m_chat_id m) not_applicable (run_onboarding_gate R m)"
proof -
  let ?chat = "m_chat_id m"
  define rendered where "rendered r = (case r of
       Inr outcome \<Rightarrow> andThen (render_outcome R ?chat outcome) (\<lambda>a. finish (gate_result a))
     | Inl e \<Rightarrow> seq (send_error R ?chat e) (finish GateInProgress))" for r
  have rendered: "spares ?chat not_applicable (rendered r)" for r
  proof (cases r)
    case (Inl e)
    then show ?thesis
      by (auto simp: rendered_def not_applicable_def intro!: spares_end barrier_effects)
  next
    case (Inr v)
    have "spares ?chat not_applicable (andThen (render_outcome R ?chat v) (\<lambda>a. finish (gate_result a)))"
      by (rule spares_then[OF render_effects])
         (auto simp: silent.finish finish_def gate_result_def not_applicable_def split: if_splits)
    with Inr show ?thesis by (simp add: rendered_def)
  qed
  have greeted: "spares ?chat not_applicable
      (seq (send_plain R ?chat onboarding_welcome_text) (finish GateInProgress))"
    by (intro spares_end one_effect_of_one raw_shows_one) (simp add: not_applicable_def)
  have answered: "spares ?chat not_applicable (andThen (call h) rendered)" for h
    by (intro spares_after_silent silent_call rendered)
  show ?thesis
    unfolding run_onboarding_gate_def Let_def rendered_def[symmetric]
    by (intro spares_after_silent silent_call)
       (simp add: spares_silent[OF silent.finish] answered greeted split: option.split)
qed

definition is_actor :: "registration_result \<Rightarrow> bool" where
  "is_actor r \<longleftrightarrow> (\<exists>u. r = ActorReady u)"

lemma register_effects: "spares (m_chat_id m) is_actor (register_actor R m)"
proof -
  let ?chat = "m_chat_id m"
  have aborted: "spares ?chat is_actor (seq (send_error R ?chat e) (finish Aborted))" for e
    by (intro spares_end barrier_effects) (simp add: is_actor_def)
  have linked: "spares ?chat is_actor (case r of Inr actor \<Rightarrow> finish (ActorReady actor)
      | Inl e \<Rightarrow> seq (send_error R ?chat e) (finish Aborted))" for r
    by (cases r) (simp_all add: aborted spares_silent silent.finish)
  have published: "spares ?chat is_actor (seq (publish_link_screen R ?chat c) (finish Aborted))" for c
    by (intro spares_end publish_effect) (simp add: is_actor_def)
  show ?thesis
    unfolding register_actor_def Let_def
  proof (rule spares_then[OF gate_effects])
    fix gate
    assume "not_applicable gate"
    then show "spares ?chat is_actor
        (if gate \<noteq> NotApplicable then finish ConsumedByOnboarding
         else andThen (call (preview_linking (lb_unicode (rt_libraries R)) m)) (\<lambda>preview.
           case preview of
             Inr (LinkReady decision) \<Rightarrow>
               andThen (call (execute_with_link_decision (lb_unicode (rt_libraries R)) m decision)) (\<lambda>r.
               case r of
                 Inr actor \<Rightarrow> finish (ActorReady actor)
               | Inl e \<Rightarrow> seq (send_error R ?chat e) (finish Aborted))
           | Inr (LinkClarification c) \<Rightarrow> seq (publish_link_screen R ?chat c) (finish Aborted)
           | Inl e \<Rightarrow> seq (send_error R ?chat e) (finish Aborted)))"
      by (auto simp: not_applicable_def intro!: spares_after_silent silent_call linked published aborted
          split: sum.split link_preview.split)
  qed (auto simp: not_applicable_def silent.finish finish_def is_actor_def)
qed

lemma rate_limit_effects: "spares chat (\<lambda>allowed. allowed) (check_rate_limit R actor chat)"
proof -
  have "spares chat (\<lambda>allowed. allowed) (seq (send_plain R chat RATE_LIMIT_MESSAGE) (finish False))"
    by (intro spares_end one_effect_of_one raw_shows_one) simp
  then have "spares chat (\<lambda>allowed. allowed) (draw now_utc (\<lambda>now.
        andThen (call (append_security_audit (entry now))) (\<lambda>_.
        seq (send_plain R chat RATE_LIMIT_MESSAGE) (finish False))))" for entry
    unfolding draw_def
    by (intro spares_after_silent silent_call)
       (auto split: sum.split intro!: spares_after_silent silent_call spares_silent[OF silent.panicked])
  then show ?thesis
    unfolding check_rate_limit_def seq_def[of "change f" for f]
    by (intro spares_after_silent silent.see silent_change)
       (simp_all add: spares_silent[OF silent.finish])
qed

lemma one_effect_registered:
  assumes "\<And>actor. one_effect (m_chat_id m) (f actor)"
  shows "one_effect (m_chat_id m) (andThen (register_actor R m) (\<lambda>r. case r of
    ActorReady actor \<Rightarrow> f actor | ConsumedByOnboarding \<Rightarrow> finish () | Aborted \<Rightarrow> finish ()))"
proof (rule one_effect_spared[OF register_effects])
  fix r
  show "is_actor r \<Longrightarrow> one_effect (m_chat_id m) (case r of
      ActorReady actor \<Rightarrow> f actor | ConsumedByOnboarding \<Rightarrow> finish () | Aborted \<Rightarrow> finish ())"
    by (cases r) (simp_all add: assms is_actor_def)
  show "\<not> is_actor r \<Longrightarrow> keeps silent (case r of
      ActorReady actor \<Rightarrow> f actor | ConsumedByOnboarding \<Rightarrow> finish () | Aborted \<Rightarrow> finish ())"
    by (cases r) (simp_all add: silent.finish is_actor_def)
qed

lemma one_effect_allowed:
  assumes "one_effect chat h"
  shows "one_effect chat (andThen (check_rate_limit R actor chat)
    (\<lambda>allowed. if \<not> allowed then finish () else h))"
  by (rule one_effect_spared[OF rate_limit_effects]) (simp_all add: assms silent.finish)

lemma message_effects: "one_effect (m_chat_id m) (dispatch_message_inner R m)"
  unfolding dispatch_message_inner_def Let_def
  by (intro one_effect_registered one_effect_allowed one_effect_of_barrier barrier.rules
      barrier.command barrier.session_message barrier.interaction_message barrier.voice_start
      barrier.create_and_present HOL.refl)

lemma at_most_one_sum:
  "(\<And>x. at_most_one (f x)) \<Longrightarrow> (\<And>x. at_most_one (g x)) \<Longrightarrow> at_most_one (case r of Inl x \<Rightarrow> f x | Inr x \<Rightarrow> g x)"
  by (cases r) simp_all

lemma onboarding_button_effects: "one_effect (m_chat_id m) (dispatch_to_onboarding R m selection)"
proof -
  have "one_effect (m_chat_id m) (seq (clear_link (m_chat_id m))
      (andThen (render_outcome R (m_chat_id m) v) (\<lambda>_. finish ())))" for v
    unfolding seq_def
    by (intro one_effect_then one_effect_spared[OF render_effects] silent.finish)
       (simp_all add: clear_link_def silent_change)
  then show ?thesis
    unfolding dispatch_to_onboarding_def Let_def
    by (intro one_effect_then silent_call) (auto split: sum.split intro: barrier_effects)
qed

lemma registration_button_effects:
  "one_effect (m_chat_id m) (handle_registration_link_callback R m cb)"
proof -
  have linked: "one_effect (m_chat_id m) (link_and_welcome R m decision banner)" for decision banner
    unfolding link_and_welcome_def Let_def
    by (intro one_effect_of_barrier barrier.rules barrier.runs) (simp add: obeys_def)
  have stale: "one_effect (m_chat_id m) (send_registration_stale R (m_chat_id m))"
    unfolding send_registration_stale_def by (intro one_effect_of_barrier barrier.rules)
  have picked: "one_effect (m_chat_id m) (andThen (see look) (\<lambda>pending.
      case pending of
        None \<Rightarrow> send_registration_stale R (m_chat_id m)
      | Some p \<Rightarrow>
          if employee_id \<notin> set (pl_candidate_ids p) then send_registration_stale R (m_chat_id m)
          else link_and_welcome R m (LinkEmployee employee_id) banner))" for look employee_id banner
    by (intro one_effect_then silent.see) (simp add: linked stale split: option.split)
  have step: "keeps silent (is_user_in_onboarding_link_step i)" for i
    unfolding is_user_in_onboarding_link_step_def by (intro silent.flow silent_call)
  show ?thesis
    unfolding handle_registration_link_callback_def Let_def
    by (intro one_effect_then step, cases cb)
       (simp_all add: onboarding_button_effects linked picked one_effect_of_silent silent.finish)
qed

lemma one_effect_if:
  "one_effect chat m \<Longrightarrow> one_effect chat n \<Longrightarrow> one_effect chat (if b then m else n)"
  by simp

lemma callback_effects: "one_effect (m_chat_id m) (dispatch_callback_inner R q cb m)"
  unfolding dispatch_callback_inner_def Let_def seq_def
  by (intro one_effect_then silent_change one_effect_registered one_effect_if silent.see silent_answer
      one_effect_of_silent[OF silent_answer] registration_button_effects
      one_effect_of_barrier[OF barrier.button[OF HOL.refl]]) simp_all

lemma under_barrier_effects:
  assumes "one_effect chat h"
  shows "effects (snd (under_barrier chat h s)) \<le> Suc (effects s)"
proof -
  let ?t = "s\<lparr> b_barriers := chat_set chat False (b_barriers s) \<rparr>"
  have "effects (snd (h ?t)) \<le> Suc (effects ?t)"
    using one_effectD[OF assms, of ?t] by (simp add: chat_set_def)
  then show ?thesis by (auto simp: under_barrier_def split: prod.split handled.split)
qed

lemma once_per_update_effects:
  "(\<And>s. effects (snd (h s)) \<le> Suc (effects s)) \<Longrightarrow> effects (snd (once_per_update key h s)) \<le> Suc (effects s)"
  by (auto simp: once_per_update_def split: prod.split) (metis effects_simps(8))

lemma draw_effects:
  assumes "\<And>x s. effects (snd (f x s)) \<le> Suc (effects s)"
  shows "effects (snd (draw m f s)) \<le> Suc (effects s)"
proof -
  obtain r w where "m (b_world s) = (r, w)" by fastforce
  moreover have "effects (snd (f x (s\<lparr> b_world := w \<rparr>))) \<le> Suc (effects s)" for x
    using assms[of x "s\<lparr> b_world := w \<rparr>"] by simp
  ultimately show ?thesis by (cases r) (simp_all add: draw_def andThen_def call_def)
qed

lemma update_effects: "effects (snd (handle_update R u s)) \<le> Suc (effects s)"
  by (cases u)
     (auto simp: handle_message_def handle_callback_query_def finish_def
       intro!: draw_effects once_per_update_effects under_barrier_effects message_effects callback_effects
       split: option.split)

text \<open>C1. An update is answered at most once. Whatever a chat sends and presses, in whatever order,
  and whatever the Telegram API and the database return (failed edits, lost messages, errors of the
  use cases, panics), the bot sends or edits at most one message per update: no handler, no error
  banner and no onboarding prompt adds a second one.\<close>

theorem one_message_per_update:
  "effects (run_updates R us s) \<le> effects s + length us"
proof (induction us arbitrary: s)
  case (Cons u us)
  from Cons.IH[of "snd (handle_update R u s)"] update_effects[of R u s] show ?case by simp
qed simp

end
