(* ===== verification/Bot_Safety.thy ===== *)
theory Bot_Safety
  imports Bot_Barrier Samples
begin

section \<open>What a stream of updates can and cannot do\<close>

subsection \<open>A runtime and a bot to run updates on\<close>

text \<open>
  A Telegram API that answers every call, a rate limiter that allows everything, a clock that ticks
  once per reading, and a bot that has just started on the sample database.
\<close>

definition sample_runtime :: runtime where
  "sample_runtime = \<lparr>
     rt_libraries = sample_libraries, rt_services = sample_services,
     rt_sqlite = \<lparr> sq_today = 0, sq_average = (\<lambda>_. None) \<rparr>,
     rt_day_text = show_int, rt_day_month = show_int, rt_time_text = show_int, rt_short_time = show_int,
     rt_parse_uuid = (\<lambda>_. None), rt_simple_uuid = (\<lambda>u. show_nat (unat u)), rt_hash = (\<lambda>t. int (length t)),
     rt_nonce_ttl = 300, rt_employees = (\<lambda>_. Inr []), rt_telegram = (\<lambda>n. ReplyOk (100 + int n)),
     rt_rate_allows = (\<lambda>_. True), rt_monotonic = int \<rparr>"

definition sample_member :: user where
  "sample_member = sample_admin\<lparr> u_first_name := Some (ascii ''Ann''), u_last_name := Some (ascii ''Lee'') \<rparr>"

definition sample_bot :: bot where
  "sample_bot = \<lparr> b_world = sample_world\<lparr> w_users := [sample_creator, sample_user, sample_member] \<rparr>,
     b_screens = Map.empty, b_selections = Map.empty, b_links = Map.empty, b_sessions = Map.empty,
     b_interactions = Map.empty, b_nonces = Map.empty, b_dedup = dedup_new, b_barriers = Map.empty,
     b_stats_cache = None, b_calls = [], b_checks = 0, b_readings = 0, b_fetches = 0 \<rparr>"

definition sample_sender :: "nat \<Rightarrow> telegram_sender" where
  "sample_sender i = \<lparr> sn_id = i, sn_full_name = ascii ''Ann Lee'', sn_username = None \<rparr>"

definition sample_typed :: "nat \<Rightarrow> utext \<Rightarrow> telegram_message" where
  "sample_typed i t = \<lparr> tm_id = 7, tm_chat = int i, tm_from = Some (sample_sender i), tm_text = Some t,
     tm_voice = None \<rparr>"

definition sample_press :: "nat \<Rightarrow> int \<Rightarrow> utext \<Rightarrow> callback_query" where
  "sample_press i mid d = \<lparr> cq_id = ascii ''q'', cq_from = sample_sender i, cq_message = Some (mid, int i),
     cq_data = Some d \<rparr>"

lemma sample_bot_fields [simp]:
  "w_users (b_world sample_bot) = [sample_creator, sample_user, sample_member]"
  "b_screens sample_bot = Map.empty" "b_dedup sample_bot = dedup_new" "b_nonces sample_bot = Map.empty"
  "b_calls sample_bot = []"
  by (simp_all add: sample_bot_def)

lemma sample_keys_ok: "keys_ok (b_world sample_bot)"
  by (simp add: keys_ok_def tasks_ok_def users_ok_def sample_bot_def sample_member_def sample_admin_def
      sample_user_def sample_creator_def sample_world_def)

subsection \<open>People who have not finished onboarding\<close>

definition account_rights :: "user \<Rightarrow> row_id option \<times> int \<times> user_role \<times> instant option" where
  "account_rights u = (u_id u, u_telegram_id u, u_role u, u_deactivated_at u)"

text \<open>An open task that waits for its employee is linked with the account; nothing else of it changes.\<close>

definition task_linked :: "task \<Rightarrow> task \<Rightarrow> bool" where
  "task_linked t u \<longleftrightarrow> u = t \<or>
     t_assigned_to_user_id t = None \<and> t_assigned_to_employee_id t \<noteq> None \<and> is_open t
     \<and> (\<exists>user now. u = t\<lparr> t_version := t_version t + 1, t_assigned_to_user_id := Some user, t_updated_at := now \<rparr>)"

definition appends :: "('a \<Rightarrow> bool) \<Rightarrow> 'a list \<Rightarrow> 'a list \<Rightarrow> bool" where
  "appends P xs ys \<longleftrightarrow> (\<exists>new. ys = xs @ new \<and> list_all P new)"

text \<open>
  All that onboarding may do to the tables. Tasks are linked, and the notifications and history entries that
  appear say so; accounts that appear have no rights beyond those of a user; everything else stays.
\<close>

definition only_onboards :: "world \<Rightarrow> world \<Rightarrow> bool" where
  "only_onboards w w' \<longleftrightarrow>
     list_all2 task_linked (w_tasks w) (w_tasks w')
     \<and> appends (\<lambda>(_, _, role, deactivated_at). role = User \<and> deactivated_at = None)
         (map account_rights (w_users w)) (map account_rights (w_users w'))
     \<and> appends (\<lambda>n. fst n = TaskAssigned)
         (map notice_content (w_notifications w)) (map notice_content (w_notifications w'))
     \<and> appends (\<lambda>a. al_action a = AuditAssigned \<and> al_new_status a = al_old_status a)
         (w_history w) (w_history w')
     \<and> w_employees w' = w_employees w \<and> w_comments w' = w_comments w
     \<and> w_admin_audit w' = w_admin_audit w \<and> w_security_audit w' = w_security_audit w
     \<and> w_flag_overrides w' = w_flag_overrides w \<and> w_flags w' = w_flags w \<and> w_side w' = w_side w"

definition no_command :: "world \<Rightarrow> world \<Rightarrow> bool" where
  "no_command w w' \<longleftrightarrow> map t_task_uid (w_tasks w') = map t_task_uid (w_tasks w)
     \<and> (distinct (map t_task_uid (w_tasks w)) \<longrightarrow> only_onboards w w')"

lemma task_linked_refl [simp]: "task_linked t t"
  by (simp add: task_linked_def)

lemma task_linked_trans: "task_linked s t \<Longrightarrow> task_linked t u \<Longrightarrow> task_linked s u"
  by (auto simp: task_linked_def)

lemma appends_refl [simp]: "appends P xs xs"
  by (simp add: appends_def)

lemma appends_new [simp]: "appends P xs (xs @ new) \<longleftrightarrow> list_all P new"
  by (simp add: appends_def)

lemma appends_trans: "appends P xs ys \<Longrightarrow> appends P ys zs \<Longrightarrow> appends P xs zs"
  by (auto simp: appends_def)

lemma only_onboards_refl [simp]: "only_onboards w w"
  by (simp add: only_onboards_def list_all2_refl)

lemma tasks_linked_trans:
  "list_all2 task_linked xs ys \<Longrightarrow> list_all2 task_linked ys zs \<Longrightarrow> list_all2 task_linked xs zs"
  using list_all2_trans[of task_linked task_linked task_linked xs ys zs] task_linked_trans by blast

lemma only_onboards_trans:
  assumes "only_onboards w w1" "only_onboards w1 w2"
  shows "only_onboards w w2"
proof -
  note a = assms(1)[unfolded only_onboards_def] and b = assms(2)[unfolded only_onboards_def]
  note next_a = a[THEN conjunct2] and next_b = b[THEN conjunct2]
  show ?thesis
    unfolding only_onboards_def
    using tasks_linked_trans[OF a[THEN conjunct1] b[THEN conjunct1]]
      appends_trans[OF next_a[THEN conjunct1] next_b[THEN conjunct1]]
      appends_trans[OF next_a[THEN conjunct2, THEN conjunct1] next_b[THEN conjunct2, THEN conjunct1]]
      appends_trans[OF next_a[THEN conjunct2, THEN conjunct2, THEN conjunct1]
        next_b[THEN conjunct2, THEN conjunct2, THEN conjunct1]]
      next_a[THEN conjunct2, THEN conjunct2, THEN conjunct2] next_b[THEN conjunct2, THEN conjunct2, THEN conjunct2]
    by simp
qed

interpretation no_command: store_frame no_command
proof unfold_locales
  show "no_command s u" if "no_command s t" "no_command t u" for s t u :: world
    using that only_onboards_trans unfolding no_command_def by metis
qed (simp_all add: no_command_def bookkeeping_free_def only_onboards_def list_all2_refl)

lemma no_command_same_tasks:
  "w_tasks w' = w_tasks w \<Longrightarrow> only_onboards w w' \<Longrightarrow> no_command w w'"
  by (simp add: no_command_def)

lemma no_command_user_update:
  "(\<And>u. P u \<Longrightarrow> account_rights (f u) = account_rights u) \<Longrightarrow> obeys no_command (update_user_returning P f)"
  unfolding update_user_returning_def
  by (intro no_command.statement no_command_same_tasks)
     (simp_all add: only_onboards_def list_all2_refl map_identity_update)

lemma no_command_user_insert:
  "u_role u = User \<Longrightarrow> u_deactivated_at u = None \<Longrightarrow> obeys no_command (insert_user u)"
  unfolding insert_user_def
  by (intro no_command.statement no_command_same_tasks)
     (simp_all add: only_onboards_def list_all2_refl Let_def account_rights_def)

lemma no_command_records:
  "n_notification_type n = TaskAssigned \<Longrightarrow> obeys no_command (enqueue n)" "obeys no_command (requeue i)"
  "al_action a = AuditAssigned \<Longrightarrow> al_new_status a = al_old_status a \<Longrightarrow> obeys no_command (append_audit a)"
  unfolding enqueue_def requeue_def update_notification_def append_audit_def
  by (intro no_command.store_rules no_command.statement no_command.execute no_command_same_tasks;
      simp add: only_onboards_def list_all2_refl Let_def map_identity_update notice_content_def)+

lemma no_command_persist: "obeys no_command (persist_user m matched)"
  unfolding persist_user_def upsert_from_message_def
  by (intro no_command.statement no_command_same_tasks)
     (auto simp: only_onboards_def list_all2_refl Let_def map_identity_update account_rights_def
       merge_from_message_def from_message_def split: option.split)

lemma no_command_onboarding:
  "obeys no_command (ensure_onboarding_session tg chat name full now)"
  "obeys no_command (save_onboarding_progress i v st fn sn now)"
  "obeys no_command (complete_onboarding i v first_part last_part e now)"
  unfolding ensure_onboarding_session_def save_onboarding_progress_def complete_onboarding_def reads_defs
  by (intro no_command.store_rules obeys_cases no_command_user_update no_command_user_insert;
      simp add: account_rights_def)+

subsubsection \<open>Linking tasks\<close>

text \<open>A task that was read earlier is still in the table, as it was or linked since.\<close>

definition known :: "task \<Rightarrow> world \<Rightarrow> bool" where
  "known t w \<longleftrightarrow> (\<exists>u \<in> set (w_tasks w). task_linked t u)"

definition linkable :: "task \<Rightarrow> bool" where
  "linkable t \<longleftrightarrow> t_assigned_to_user_id t = None \<and> t_assigned_to_employee_id t \<noteq> None \<and> is_open t"

lemma known_stays:
  assumes "no_command w w'" "distinct (map t_task_uid (w_tasks w))" "known t w"
  shows "known t w' \<and> distinct (map t_task_uid (w_tasks w'))"
proof -
  obtain u where u: "u \<in> set (w_tasks w)" "task_linked t u" using assms(3) by (auto simp: known_def)
  have "list_all2 task_linked (w_tasks w) (w_tasks w')"
    using assms(1,2) by (simp add: no_command_def only_onboards_def)
  then obtain u' where "u' \<in> set (w_tasks w')" "task_linked u u'"
    using u(1) by (metis in_set_conv_nth list_all2_conv_all_nth)
  with u(2) task_linked_trans assms(1,2) show ?thesis
    by (auto simp: known_def no_command_def)
qed

lemma link_write:
  assumes "linkable t" "known t w" "link_registered_assignee t user now = Inr t'"
  shows "no_command w (snd (update_task t' w))"
proof -
  have t': "t' = t\<lparr> t_version := t_version t + 1, t_assigned_to_user_id := Some user, t_updated_at := now \<rparr>"
    using assms(1,3) by (auto simp: link_registered_assignee_def linkable_def split: if_splits)
  let ?f = "\<lambda>v. v\<lparr> w_tasks := update_where (update_matches t') (write_columns t') (w_tasks v) \<rparr>"
  have same: "task_linked r (write_columns t' r)"
    if "update_matches t' r" "r \<in> set (w_tasks w)" "distinct (map t_task_uid (w_tasks w))" for r
  proof -
    obtain u where u: "u \<in> set (w_tasks w)" "task_linked t u" using assms(2) by (auto simp: known_def)
    have "t_task_uid u = t_task_uid r" using u(2) that(1) t' by (auto simp: task_linked_def update_matches_def)
    then have "u = r" using that(2,3) u(1) by (auto simp: distinct_map dest: inj_onD)
    with u(2) have "task_linked t r" by simp
    moreover have "t_version r = t_version t" using that(1) by (simp add: update_matches_def t')
    ultimately have "r = t" unfolding task_linked_def by auto
    moreover have "write_columns t' t = t'" unfolding t' by (simp add: write_columns_def)
    moreover have "task_linked t t'" using assms(1) unfolding task_linked_def linkable_def t' by blast
    ultimately show ?thesis by simp
  qed
  have "list_all2 task_linked (w_tasks w) (update_where (update_matches t') (write_columns t') (w_tasks w))"
    if "distinct (map t_task_uid (w_tasks w))"
    using same that unfolding update_where_def by (simp add: list_all2_map2 list_all2_same)
  then have written: "no_command w (?f w)"
    by (simp add: no_command_def only_onboards_def map_identity_update write_columns_def)
  have "no_command w (snd (statement ok (\<lambda>v. (g v, ?f v)) w))" for ok g
  proof -
    have flip: "w\<lparr> w_faults := x, w_tasks := ts \<rparr> = w\<lparr> w_tasks := ts, w_faults := x \<rparr>" for x ts by simp
    have "no_command w (w\<lparr> w_faults := x, w_tasks := update_where (update_matches t') (write_columns t') (w_tasks w) \<rparr>)" for x
      unfolding flip by (rule no_command.trans[OF written no_command.faults_step])
    then show ?thesis
      using no_command.faults_step[of w]
      by (auto simp: statement_def Let_def split: list.split option.split)
  qed
  moreover have "snd (tryA m (\<lambda>row. lift (h row)) w) = snd (m w)"
    for m :: "(world, task option) act" and h :: "task option \<Rightarrow> task result"
    by (simp add: tryA_def split: prod.split sum.split)
  ultimately show ?thesis unfolding update_task_def by simp
qed

text \<open>What holds of an action in the states in which the keys are unique and a set of tasks is known.\<close>

definition links_from :: "task set \<Rightarrow> (world, 'a) act \<Rightarrow> bool" where
  "links_from K m \<longleftrightarrow> (\<forall>w. distinct (map t_task_uid (w_tasks w)) \<longrightarrow> (\<forall>t \<in> K. known t w) \<longrightarrow> no_command w (snd (m w)))"

lemma links_from_obeys: "obeys no_command m \<Longrightarrow> links_from K m"
  by (simp add: obeys_def links_from_def)

lemma links_from_mono: "links_from K m \<Longrightarrow> K \<subseteq> L \<Longrightarrow> links_from L m"
  by (auto simp: links_from_def)

lemma links_from_run:
  assumes "links_from K m" "distinct (map t_task_uid (w_tasks w))" "\<forall>t \<in> K. known t w" "m w = (r, w')"
  shows "no_command w w' \<and> distinct (map t_task_uid (w_tasks w')) \<and> (\<forall>t \<in> K. known t w')"
proof -
  have "no_command w w'" using assms(1-3) unfolding links_from_def assms(4)[THEN arg_cong, of snd, simplified, symmetric] by blast
  then show ?thesis using assms(2,3) known_stays by (auto simp: no_command_def)
qed

lemma links_from_attempt:
  assumes "links_from K m" "\<And>r. links_from K (f r)"
  shows "links_from K (attempt m f)"
  unfolding links_from_def
proof (intro allI impI)
  fix w assume w: "distinct (map t_task_uid (w_tasks w))" "\<forall>t \<in> K. known t w"
  obtain r w1 where run: "m w = (r, w1)" by fastforce
  from links_from_run[OF assms(1) w run] assms(2)[of r] show "no_command w (snd (attempt m f w))"
    using run by (auto simp: attempt_def links_from_def intro: no_command.trans)
qed

lemma links_from_tryA:
  assumes "links_from K m" "\<And>x. links_from K (f x)"
  shows "links_from K (tryA m f)"
proof -
  have "tryA m f = attempt m (\<lambda>r. case r of Inl e \<Rightarrow> fail e | Inr x \<Rightarrow> f x)"
    by (simp add: fun_eq_iff tryA_def attempt_def fail_def split: prod.split sum.split)
  moreover have "links_from K (case r of Inl e \<Rightarrow> fail e | Inr x \<Rightarrow> f x)" for r
    using assms(2) links_from_obeys[OF no_command.fail] by (cases r) simp_all
  ultimately show ?thesis using links_from_attempt[OF assms(1), of "\<lambda>r. case r of Inl e \<Rightarrow> fail e | Inr x \<Rightarrow> f x"] by metis
qed

lemma links_from_select:
  assumes "\<And>w t. t \<in> L (g w) \<Longrightarrow> t \<in> set (w_tasks w)" "\<And>w. links_from (K \<union> L (g w)) (f (g w))"
  shows "links_from K (tryA (select g) f)"
  unfolding links_from_def
proof (intro allI impI)
  fix w assume w: "distinct (map t_task_uid (w_tasks w))" "\<forall>t \<in> K. known t w"
  obtain r w1 where run: "select g w = (r, w1)" by fastforce
  note after = links_from_run[OF links_from_obeys[OF no_command.select] w run]
  show "no_command w (snd (tryA (select g) f w))"
  proof (cases r)
    case (Inr x)
    with run have "x = g w1" by (auto simp: select_Inr)
    then have "\<forall>t \<in> L x. known t w1" using assms(1) unfolding known_def by (meson task_linked_refl)
    with after assms(2)[of w1] run Inr \<open>x = g w1\<close> show ?thesis
      by (auto simp: tryA_def links_from_def intro: no_command.trans)
  qed (use after run in \<open>simp add: tryA_def\<close>)
qed

lemma links_from_link:
  assumes "linkable t" "t \<in> K" "\<And>u. links_from K (f u)"
  shows "links_from K (tryA (lift (link_registered_assignee t user now)) (\<lambda>u. attempt (update_task u) f))"
proof -
  have "links_from K (attempt (update_task u) f)" if "link_registered_assignee t user now = Inr u" for u
    using link_write[OF assms(1) _ that] assms(2,3)
    by (intro links_from_attempt) (auto simp: links_from_def)
  then show ?thesis
    by (cases "link_registered_assignee t user now") (auto simp: tryA_def lift_def links_from_def no_command.refl)
qed

lemmas links_rules = links_from_tryA links_from_link

lemma links_from_sum:
  "(\<And>x. links_from K (f x)) \<Longrightarrow> (\<And>x. links_from K (g x)) \<Longrightarrow> links_from K (case r of Inl x \<Rightarrow> f x | Inr x \<Rightarrow> g x)"
  by (cases r) simp_all

lemma links_from_if: "(b \<Longrightarrow> links_from K m) \<Longrightarrow> (\<not> b \<Longrightarrow> links_from K n) \<Longrightarrow> links_from K (if b then m else n)"
  by simp

lemma links_retry: "links_from K (retry_link_after_conflict t user employee)"
  unfolding retry_link_after_conflict_def find_by_uid_def
proof (rule links_from_select[where L = "\<lambda>found. set_option found"])
  show "u \<in> set_option (find (\<lambda>r. t_task_uid r = t_task_uid t) (w_tasks w)) \<Longrightarrow> u \<in> set (w_tasks w)" for u w
    by (auto dest: find_SomeD)
  have done_so: "links_from L (case r of Inr saved \<Rightarrow> ret (Some saved)
      | Inl e \<Rightarrow> if err_code e = TASK_VERSION_CONFLICT_ERROR then ret None else fail e)" for L r
    by (intro links_from_obeys obeys_cases no_command.rules)
  have "links_from (K \<union> set_option found) (case found of None \<Rightarrow> ret None
      | Some latest \<Rightarrow> if \<not> should_link_task latest employee then ret None
        else tryA now_utc (\<lambda>now. tryA (lift (link_registered_assignee latest user now)) (\<lambda>retried.
          attempt (update_task retried) (\<lambda>r. case r of Inr saved \<Rightarrow> ret (Some saved)
            | Inl e \<Rightarrow> if err_code e = TASK_VERSION_CONFLICT_ERROR then ret None else fail e))))" for found
  proof (cases found)
    case (Some latest)
    show ?thesis
    proof (cases "should_link_task latest employee")
      case True
      then have "linkable latest"
        by (cases "t_status latest") (auto simp: should_link_task_def linkable_def is_open_def)
      with True show ?thesis
        unfolding Some option.case not_not if_False
        by (simp only: not_True_eq_False if_False)
           (intro links_from_tryA links_from_link done_so links_from_obeys[OF no_command.now_utc]; simp)
    qed (simp add: Some links_from_obeys no_command.ret)
  qed (simp add: links_from_obeys no_command.ret)
  then show "links_from (K \<union> set_option (find P (w_tasks w))) (case find P (w_tasks w) of None \<Rightarrow> ret None
      | Some latest \<Rightarrow> if \<not> should_link_task latest employee then ret None
        else tryA now_utc (\<lambda>now. tryA (lift (link_registered_assignee latest user now)) (\<lambda>retried.
          attempt (update_task retried) (\<lambda>r. case r of Inr saved \<Rightarrow> ret (Some saved)
            | Inl e \<Rightarrow> if err_code e = TASK_VERSION_CONFLICT_ERROR then ret None else fail e))))" for P w .
qed

lemma links_one:
  assumes "linkable t"
  shows "links_from {t} (recover_one user employee n t)"
proof -
  have "links_from {t} (link_task_to_registered_user t user employee)"
    unfolding link_task_to_registered_user_def
    by (intro links_from_tryA links_from_obeys[OF no_command.now_utc] links_from_link[OF assms] links_from_sum
        links_from_if links_retry links_from_obeys[OF no_command.ret] links_from_obeys[OF no_command.fail]) simp
  moreover have "obeys no_command (log_recovered_assignment s user employee)" for s
    unfolding log_recovered_assignment_def
    by (intro no_command.store_rules obeys_cases no_command_records) simp_all
  moreover have "obeys no_command (ensure_assignment_notification s user)" for s
    unfolding ensure_assignment_notification_def requeue_assignment_notification_def
      enqueue_assignment_notification_def reads_defs
    by (intro no_command.store_rules obeys_cases no_command_records) (simp add: pending_notification_def)
  ultimately show ?thesis
    unfolding recover_one_def
    by (intro links_from_tryA links_from_obeys[OF obeys_option]) (auto intro: no_command.rules obeys_cases links_from_obeys)
qed

lemma links_batch:
  assumes "\<forall>t \<in> set tasks. linkable t"
  shows "links_from (set tasks) (foldA (recover_one user employee) n tasks)"
  using assms
proof (induction tasks arbitrary: n)
  case (Cons t tasks)
  have "links_from (set (t # tasks)) (recover_one user employee n t)"
    using links_from_mono[OF links_one] Cons.prems by simp
  moreover have "links_from (set (t # tasks)) (foldA (recover_one user employee) k tasks)" for k
    using links_from_mono[OF Cons.IH] Cons.prems by (simp add: subset_insertI)
  ultimately show ?case by (simp add: links_from_tryA)
qed (simp add: links_from_obeys no_command.ret)

lemma links_batches: "links_from {} (recover_batches n user employee)"
proof (induction n)
  case (Suc n)
  show ?case
    unfolding recover_batches.simps list_open_assigned_to_employee_without_user_def
  proof (rule links_from_select[where L = set])
    fix w
    let ?read = "recently_updated (\<lambda>t. t_assigned_to_employee_id t = Some employee
        \<and> t_assigned_to_user_id t = None \<and> is_open t) REGISTRATION_RECOVERY_TASK_BATCH_SIZE"
    show "t \<in> set (?read w) \<Longrightarrow> t \<in> set (w_tasks w)" for t
      by (auto simp: recently_updated_def dest!: in_set_takeD)
    have "\<forall>t \<in> set (?read w). linkable t"
      by (auto simp: recently_updated_def linkable_def dest!: in_set_takeD)
    then have batch: "links_from (set (?read w)) (recover_task_batch (?read w) user employee)"
      unfolding recover_task_batch_def by (rule links_batch)
    show "links_from ({} \<union> set (?read w)) (if ?read w = [] then ret ()
      else tryA (recover_task_batch (?read w) user employee) (\<lambda>recovered_count.
        if recovered_count = 0 \<or> length (?read w) < REGISTRATION_RECOVERY_TASK_BATCH_SIZE then ret ()
        else recover_batches n user employee))"
      using batch links_from_mono[OF Suc.IH]
      by (intro links_from_if links_from_tryA links_from_obeys[OF no_command.ret]) auto
  qed
qed (simp add: links_from_obeys no_command.ret)

definition same_uids :: "world \<Rightarrow> world \<Rightarrow> bool" where
  "same_uids w w' \<longleftrightarrow> map t_task_uid (w_tasks w') = map t_task_uid (w_tasks w)"

interpretation same_uids: store_frame same_uids
  by unfold_locales (simp_all add: same_uids_def bookkeeping_free_def)

interpretation uids: registration_frame same_uids
proof unfold_locales
  show "obeys same_uids (update_task t)" for t
    unfolding update_task_def
    by (intro same_uids.store_rules same_uids.statement)
       (simp add: same_uids_def map_identity_update write_columns_def)
qed (auto simp: upsert_from_message_def enqueue_def requeue_def update_notification_def append_audit_def
      ensure_onboarding_session_def save_onboarding_progress_def complete_onboarding_def
      update_user_returning_def insert_user_def reads_defs
    intro!: same_uids.store_rules obeys_cases same_uids.statement same_uids.execute
    simp: same_uids_def Let_def split: option.split)

lemma no_command_recovery: "obeys no_command (recover_pending_assignments u matched)"
proof (rule obeysI)
  fix w
  have uids: "same_uids w (snd (recover_pending_assignments u matched w))"
    using uids.recover_pending_assignments by (simp add: obeys_def)
  have "links_from {} (recover_pending_assignments u matched)"
    unfolding recover_pending_assignments_def
    by (cases "Option.bind matched e_id")
       (simp_all add: links_from_tryA links_batches links_from_obeys no_command.ret no_command.lift)
  then show "no_command w (snd (recover_pending_assignments u matched w))"
    using uids unfolding links_from_def by (cases "distinct (map t_task_uid (w_tasks w))") (auto simp: no_command_def same_uids_def)
qed

interpretation no_command_use_cases: onboarding_frame no_command
  by unfold_locales
     (simp_all add: no_command_recovery no_command_persist no_command_onboarding)

text \<open>In memory, the only thing that moves on is the dialogue itself: its screen and its question for a link.\<close>

definition keeps_stores :: "bot \<Rightarrow> bot \<Rightarrow> bool" where
  "keeps_stores s t \<longleftrightarrow> b_sessions t = b_sessions s \<and> b_selections t = b_selections s
     \<and> b_interactions t = b_interactions s \<and> b_nonces t = b_nonces s \<and> b_stats_cache t = b_stats_cache s"

definition outsider_step :: "bot \<Rightarrow> bot \<Rightarrow> bool" where
  "outsider_step s t \<longleftrightarrow> no_command (b_world s) (b_world t) \<and> keeps_stores s t"

interpretation outsider_sends: sender_frame outsider_step R chat for R chat
  by unfold_locales
     (auto simp: outsider_step_def keeps_stores_def keeps_def telegram_def set_screen_def change_def Let_def
       try_consume_update_barrier_def no_command.refl split: option.split prod.split
       intro: no_command.trans)

interpretation outsiders: entry_frame outsider_step no_command R chat for R chat
  by unfold_locales
     (simp_all add: outsider_sends.sends outsider_sends.telegram outsider_step_def keeps_stores_def no_command.refl)

definition no_account_onboarded :: "int \<Rightarrow> world \<Rightarrow> bool" where
  "no_account_onboarded telegram_id w \<longleftrightarrow>
     list_all (\<lambda>a. u_telegram_id a = telegram_id \<longrightarrow> \<not> is_onboarded a) (w_users w)"

lemma probe_not_onboarded:
  assumes "no_account_onboarded tg w" "probe_onboarding_state tg w = (r, w')"
  shows "(case (case r of Inr v \<Rightarrow> v | Inl _ \<Rightarrow> None) of Some a \<Rightarrow> is_onboarded a | None \<Rightarrow> False) = False"
proof (cases r)
  case (Inr v)
  with assms(2) have "v = find (\<lambda>a. u_telegram_id a = tg) (w_users w)"
    by (auto simp: probe_onboarding_state_def find_by_telegram_id_def select_Inr)
  with assms(1) Inr show ?thesis
    by (auto simp: no_account_onboarded_def list_all_iff split: option.split dest!: find_SomeD)
qed simp

definition returns :: "('a \<Rightarrow> bool) \<Rightarrow> 'a handler \<Rightarrow> bool" where
  "returns P h \<longleftrightarrow> (\<forall>s x t. h s = (Finished x, t) \<longrightarrow> P x)"

lemma returns_finish: "P x \<Longrightarrow> returns P (finish x)"
  by (simp add: returns_def finish_def)

lemma returns_then: "(\<And>x. returns P (f x)) \<Longrightarrow> returns P (andThen m f)"
  by (auto simp: returns_def andThen_def split: prod.splits handled.splits)

lemma returns_if: "returns P m \<Longrightarrow> returns P n \<Longrightarrow> returns P (if b then m else n)"
  by simp

lemma returns_option: "returns P m \<Longrightarrow> (\<And>x. returns P (f x)) \<Longrightarrow> returns P (case v of None \<Rightarrow> m | Some x \<Rightarrow> f x)"
  by (cases v) simp_all

lemma returns_sum:
  "(\<And>x. returns P (f x)) \<Longrightarrow> (\<And>x. returns P (g x)) \<Longrightarrow> returns P (case v of Inl x \<Rightarrow> f x | Inr x \<Rightarrow> g x)"
  by (cases v) simp_all

lemma returns_call:
  assumes "andThen (call m) f s = (Finished x, t)" "\<And>r w. m (b_world s) = (r, w) \<Longrightarrow> returns P (f r)"
  shows "P x"
proof -
  obtain r w where "m (b_world s) = (r, w)" by fastforce
  with assms show ?thesis by (fastforce simp: andThen_def call_def returns_def)
qed

lemma gate_stops:
  assumes "probe_onboarding_state (m_sender_id m) (b_world s) = (r, w)"
    and "(case (case r of Inr v \<Rightarrow> v | Inl _ \<Rightarrow> None) of Some a \<Rightarrow> is_onboarded a | None \<Rightarrow> False) = False"
    and "run_onboarding_gate R m s = (Finished g, t)"
  shows "g \<noteq> NotApplicable"
proof -
  have finished: "returns (\<lambda>g. g \<noteq> NotApplicable) (finish (gate_result a))"
    "returns (\<lambda>g. g \<noteq> NotApplicable) (finish GateInProgress)" for a
    by (intro returns_finish; simp add: gate_result_def)+
  show ?thesis
    using assms(3) unfolding run_onboarding_gate_def Let_def
  proof (rule returns_call, goal_cases)
    case (1 r' w')
    with assms(1) have r: "r' = r" by simp
    show ?case
      unfolding r assms(2) if_False seq_def
      by (intro returns_if returns_option returns_then returns_sum finished)
  qed
qed

lemma gate_stops_outsiders:
  assumes "no_account_onboarded (m_sender_id m) (b_world s)"
    and "run_onboarding_gate R m s = (Finished g, t)"
  shows "g \<noteq> NotApplicable"
proof -
  obtain r w where "probe_onboarding_state (m_sender_id m) (b_world s) = (r, w)" by fastforce
  from gate_stops[OF this probe_not_onboarded[OF assms(1) this] assms(2)] show ?thesis .
qed

lemma register_outsider:
  assumes "no_account_onboarded (m_sender_id m) (b_world s)" "m_chat_id m = chat"
  shows "\<exists>r t. register_actor R m s = (r, t) \<and> outsider_step s t \<and> (\<forall>a. r \<noteq> Finished (ActorReady a))"
proof -
  obtain g t where gate: "run_onboarding_gate R m s = (g, t)" by fastforce
  have step: "outsider_step s t" using keepsD[OF outsiders.onboarding_gate[OF assms(2)] gate] .
  show ?thesis
    using gate step gate_stops_outsiders[OF assms(1)]
    by (cases g) (auto simp: register_actor_def Let_def andThen_def[of "run_onboarding_gate R m"] finish_def)
qed

lemma outsider_continues:
  assumes "no_account_onboarded (m_sender_id m) (b_world s)" "m_chat_id m = chat"
  shows "outsider_step s (snd (andThen (register_actor R m) (\<lambda>r. case r of
    ActorReady actor \<Rightarrow> f actor | ConsumedByOnboarding \<Rightarrow> finish () | Aborted \<Rightarrow> finish ()) s))"
proof -
  obtain r t where "register_actor R m s = (r, t)" "outsider_step s t"
    "\<forall>a. r \<noteq> Finished (ActorReady a)"
    using register_outsider[OF assms] by blast
  then show ?thesis
    by (cases r) (auto simp: andThen_def finish_def split: registration_result.split)
qed

definition outsider_safe :: "int \<Rightarrow> 'a handler \<Rightarrow> bool" where
  "outsider_safe tg h \<longleftrightarrow> (\<forall>s. no_account_onboarded tg (b_world s) \<longrightarrow> outsider_step s (snd (h s)))"

lemma outsider_message: "m_sender_id m = tg \<Longrightarrow> outsider_safe tg (dispatch_message_inner R m)"
  unfolding outsider_safe_def dispatch_message_inner_def Let_def by (simp add: outsider_continues)

lemma outsider_callback:
  assumes "m_sender_id m = tg"
  shows "outsider_safe tg (dispatch_callback_inner R q cb m)"
  unfolding outsider_safe_def
proof (intro allI impI)
  fix s :: bot
  let ?t = "s\<lparr> b_screens := hydrate_if_missing (m_chat_id m) (m_message_id m) (b_screens s) \<rparr>"
  assume "no_account_onboarded tg (b_world s)"
  then have "no_account_onboarded (m_sender_id m) (b_world ?t)" using assms by simp
  from outsider_continues[OF this HOL.refl]
  have "outsider_step ?t (snd (dispatch_callback_inner R q cb m s))"
    by (simp add: dispatch_callback_inner_def seq_def[of "change f" for f] andThen_def[of "change f" for f]
        change_def Let_def)
  moreover have "outsider_step s ?t" by (simp add: outsider_step_def keeps_stores_def no_command.refl)
  ultimately show "outsider_step s (snd (dispatch_callback_inner R q cb m s))"
    by (rule outsider_sends.trans[rotated])
qed

lemma outsider_under_barrier: "outsider_safe tg h \<Longrightarrow> outsider_safe tg (under_barrier chat h)"
  unfolding outsider_safe_def
proof (intro allI impI)
  fix s :: bot
  let ?t = "s\<lparr> b_barriers := chat_set chat False (b_barriers s) \<rparr>"
  assume h: "\<forall>s. no_account_onboarded tg (b_world s) \<longrightarrow> outsider_step s (snd (h s))"
    and s: "no_account_onboarded tg (b_world s)"
  have "outsider_step ?t (snd (h ?t))" using h s by simp
  then show "outsider_step s (snd (under_barrier chat h s))"
    by (auto simp: under_barrier_def outsider_step_def keeps_stores_def split: prod.split handled.split)
qed

lemma outsider_once: "outsider_safe tg h \<Longrightarrow> outsider_safe tg (once_per_update key h)"
  unfolding outsider_safe_def
proof (intro allI impI)
  fix s :: bot
  assume h: "\<forall>s. no_account_onboarded tg (b_world s) \<longrightarrow> outsider_step s (snd (h s))"
    and s: "no_account_onboarded tg (b_world s)"
  have "outsider_step (s\<lparr> b_dedup := d \<rparr>) (snd (h (s\<lparr> b_dedup := d \<rparr>)))" for d
    using h s by simp
  then show "outsider_step s (snd (once_per_update key h s))"
    by (auto simp: once_per_update_def outsider_step_def keeps_stores_def no_command.refl split: prod.split)
qed

fun sender_of :: "update \<Rightarrow> nat option" where
  "sender_of (MessageUpdate message) = map_option sn_id (tm_from message)"
| "sender_of (CallbackUpdate query) = Some (sn_id (cq_from query))"

lemma outsider_draw:
  assumes "\<And>w r w'. m w = (r, w') \<Longrightarrow> w_users w' = w_users w \<and> no_command w w'"
    and "\<And>w x w'. m w = (Inr x, w') \<Longrightarrow> outsider_safe tg (f x)"
  shows "outsider_safe tg (draw m f)"
  unfolding outsider_safe_def
proof (intro allI impI)
  fix s :: bot
  assume s: "no_account_onboarded tg (b_world s)"
  obtain r w where run: "m (b_world s) = (r, w)" by fastforce
  from assms(1)[OF run] have w: "w_users w = w_users (b_world s)" "no_command (b_world s) w" by auto
  then have here: "outsider_step s (s\<lparr> b_world := w \<rparr>)" by (simp add: outsider_step_def keeps_stores_def)
  show "outsider_step s (snd (draw m f s))"
  proof (cases r)
    case (Inl e)
    with run here show ?thesis by (simp add: draw_def andThen_def call_def)
  next
    case (Inr x)
    have "no_account_onboarded tg (b_world (s\<lparr> b_world := w \<rparr>))"
      using s w by (simp add: no_account_onboarded_def)
    with assms(2) run Inr have "outsider_step (s\<lparr> b_world := w \<rparr>) (snd (f x (s\<lparr> b_world := w \<rparr>)))"
      unfolding outsider_safe_def by blast
    with here run Inr show ?thesis
      by (auto simp: draw_def andThen_def call_def intro: outsider_sends.trans)
  qed
qed

lemma incoming_reads:
  "incoming mid chat sender content w = (r, w') \<Longrightarrow>
     (w_users w' = w_users w \<and> no_command w w') \<and> (\<forall>m. r = Inr (Some m) \<longrightarrow> m_sender_id m = int (sn_id sender))"
  by (auto simp: incoming_def i64_of_user_def tryA_def now_utc_def ret_def no_command_def only_onboards_def list_all2_refl
      split: if_splits)

lemma received_reads:
  "to_incoming_message message w = (r, w') \<Longrightarrow> w_users w' = w_users w \<and> no_command w w'"
  "callback_to_incoming_message query w = (r, w') \<Longrightarrow> w_users w' = w_users w \<and> no_command w w'"
  by (auto simp: to_incoming_message_def callback_to_incoming_message_def no_command.refl
      dest!: incoming_reads split: option.splits prod.splits if_splits)

lemma received_sender:
  "to_incoming_message message w = (Inr (Some m), w') \<Longrightarrow> sender_of (MessageUpdate message) = Some i \<Longrightarrow>
     m_sender_id m = int i"
  "callback_to_incoming_message query w = (Inr (Some m), w') \<Longrightarrow> sender_of (CallbackUpdate query) = Some i \<Longrightarrow>
     m_sender_id m = int i"
  by (auto simp: to_incoming_message_def callback_to_incoming_message_def
      dest!: incoming_reads split: option.splits prod.splits if_splits)

lemma outsider_finish: "outsider_safe tg (finish x)"
  by (simp add: outsider_safe_def finish_def outsider_sends.refl)

lemma outsider_received:
  "(\<And>m. received = Some m \<Longrightarrow> outsider_safe tg (h m)) \<Longrightarrow>
   outsider_safe tg (case received of None \<Rightarrow> finish ()
     | Some m \<Rightarrow> once_per_update (key m) (under_barrier (m_chat_id m) (h m)))"
  by (cases received) (simp_all add: outsider_finish outsider_once outsider_under_barrier)

text \<open>C2. Onboarding comes first. While no account of the sender has finished onboarding, an update of
  theirs, message or button, does nothing but onboarding, whatever the API and the database answer. On a
  database with unique keys, no task appears or changes, except that an open task which waits for an
  employee is linked with an account; every new notification announces an assignment and every new history
  entry records a link that leaves the status as it is; the notifications there are keep their recipient
  and text; no account gains rights, and a new one is an active ordinary user; comments, employees, both
  audit logs, flags and the tables of the background jobs stay as they are; and no draft, selection, typed
  interaction or admin confirmation begins or ends.\<close>

theorem outsiders_only_onboard:
  assumes "sender_of u = Some i" "no_account_onboarded (int i) (b_world s)" "keys_ok (b_world s)"
  shows "only_onboards (b_world s) (b_world (snd (handle_update R u s)))
    \<and> keeps_stores s (snd (handle_update R u s))"
proof -
  have "outsider_safe (int i) (handle_update R u)"
  proof (cases u)
    case (MessageUpdate message)
    show ?thesis
      unfolding MessageUpdate handle_update.simps handle_message_def
      by (intro outsider_draw received_reads outsider_received outsider_message)
         (use received_sender(1)[OF _ assms(1)[unfolded MessageUpdate]] in auto)
  next
    case (CallbackUpdate query)
    show ?thesis
    proof (cases "Option.bind (cq_data query) (parse_callback (rt_parse_uuid R))")
      case (Some cb)
      show ?thesis
        unfolding CallbackUpdate handle_update.simps handle_callback_query_def Some option.case
        by (intro outsider_draw received_reads outsider_received outsider_callback)
           (use received_sender(2)[OF _ assms(1)[unfolded CallbackUpdate]] in auto)
    qed (simp add: CallbackUpdate handle_callback_query_def outsider_finish)
  qed
  with assms(2,3) show ?thesis
    by (simp add: outsider_safe_def outsider_step_def no_command_def keys_ok_def tasks_ok_def)
qed

text \<open>Somebody the database does not know presses a button of an old message.\<close>

theorem outsiders_only_onboard_witness:
  "only_onboards (b_world sample_bot)
     (b_world (snd (handle_update sample_runtime (CallbackUpdate (sample_press 99 5 (ascii ''menu:create''))) sample_bot)))
   \<and> keeps_stores sample_bot
     (snd (handle_update sample_runtime (CallbackUpdate (sample_press 99 5 (ascii ''menu:create''))) sample_bot))"
  by (rule outsiders_only_onboard[where i = 99])
     (simp_all add: sample_press_def sample_sender_def no_account_onboarded_def sample_member_def sample_keys_ok)

subsection \<open>Updates delivered again\<close>

definition same_dedup :: "bot \<Rightarrow> bot \<Rightarrow> bool" where
  "same_dedup s t \<longleftrightarrow> b_dedup t = b_dedup s"

interpretation dedup_sends: sender_frame same_dedup R chat for R chat
  by unfold_locales
     (auto simp: same_dedup_def keeps_def telegram_def set_screen_def change_def Let_def
       try_consume_update_barrier_def split: option.split prod.split)

interpretation dedup: panel_update_frame same_dedup "\<lambda>_ _. True" R chat for R chat
  by unfold_locales (simp_all add: dedup_sends.sends dedup_sends.telegram same_dedup_def)

text \<open>The key under which the deduplicator knows an update; updates without a key are ignored.\<close>

fun update_key :: "runtime \<Rightarrow> update \<Rightarrow> dedup_key option" where
  "update_key R (MessageUpdate message) =
     (case tm_from message of
        None \<Rightarrow> None
      | Some sender \<Rightarrow>
          if i64_of_user (sn_id sender) = None \<or> tm_text message = None \<and> tm_voice message = None then None
          else Some \<lparr> dk_chat_id = tm_chat message, dk_token = tm_id message \<rparr>)"
| "update_key R (CallbackUpdate query) =
     (case (Option.bind (cq_data query) (parse_callback (rt_parse_uuid R)), cq_message query) of
        (Some _, Some (_, chat)) \<Rightarrow>
          if i64_of_user (sn_id (cq_from query)) = None then None
          else Some \<lparr> dk_chat_id = chat, dk_token = rt_hash R (cq_id query) \<rparr>
      | _ \<Rightarrow> None)"

lemma incoming_run:
  "\<exists>w'. same_tables w w' \<and> incoming mid chat sender content w =
     (Inr (if i64_of_user (sn_id sender) = None then None
           else Some \<lparr> m_message_id = mid, m_chat_id = chat,
             m_sender_id = the (i64_of_user (sn_id sender)),
             m_sender_name = sn_full_name sender, m_sender_username = sn_username sender,
             m_content = content, m_timestamp = env_clock (w_env w) (w_ticks w),
             m_source_message_key_override = None, m_is_voice_origin = False \<rparr>), w')"
  by (auto simp: incoming_def tryA_def now_utc_def ret_def same_tables_def split: option.split)

lemma message_run:
  "\<exists>r w'. to_incoming_message message w = (Inr r, w') \<and> same_tables w w' \<and>
     update_key R (MessageUpdate message) =
       map_option (\<lambda>m. \<lparr> dk_chat_id = m_chat_id m, dk_token = m_message_id m \<rparr>) r"
proof (cases "tm_from message")
  case (Some sender)
  have "\<exists>r w'. incoming (tm_id message) (tm_chat message) sender content w = (Inr r, w') \<and> same_tables w w' \<and>
      (if i64_of_user (sn_id sender) = None then None
       else Some \<lparr> dk_chat_id = tm_chat message, dk_token = tm_id message \<rparr>) =
        map_option (\<lambda>m. \<lparr> dk_chat_id = m_chat_id m, dk_token = m_message_id m \<rparr>) r" for content
    using incoming_run[of w "tm_id message" "tm_chat message" sender content] by auto
  with Some show ?thesis
    by (cases "tm_text message"; cases "tm_voice message")
       (simp_all add: to_incoming_message_def same_tables.refl)
qed (simp add: to_incoming_message_def same_tables.refl)

lemma callback_run:
  "\<exists>r w'. callback_to_incoming_message query w = (Inr r, w') \<and> same_tables w w' \<and>
     map_option (\<lambda>m. \<lparr> dk_chat_id = m_chat_id m, dk_token = token \<rparr>) r =
       (case cq_message query of None \<Rightarrow> None
        | Some (_, chat) \<Rightarrow> if i64_of_user (sn_id (cq_from query)) = None then None
            else Some \<lparr> dk_chat_id = chat, dk_token = token \<rparr>)"
proof (cases "cq_message query")
  case (Some place)
  obtain mid chat where place: "place = (mid, chat)" by fastforce
  show ?thesis
    using incoming_run[of w mid chat "cq_from query"
        "CommandContent (case cq_data query of Some d \<Rightarrow> d | None \<Rightarrow> [])"]
    by (auto simp: callback_to_incoming_message_def Some place)
qed (simp add: callback_to_incoming_message_def same_tables.refl)

lemma draw_run: "m (b_world s) = (Inr x, w) \<Longrightarrow> draw m f s = f x (s\<lparr> b_world := w \<rparr>)"
  by (simp add: draw_def andThen_def call_def)

lemma handle_update_run:
  "\<exists>w. same_tables (b_world s) w \<and>
    (case update_key R u of
       None \<Rightarrow> handle_update R u s = (Finished (), s\<lparr> b_world := w \<rparr>)
     | Some k \<Rightarrow> (\<exists>h. keeps same_dedup h \<and>
         handle_update R u s = once_per_update k h (s\<lparr> b_world := w \<rparr>)))"
proof (cases u)
  case (MessageUpdate message)
  have dispatch: "keeps same_dedup (under_barrier (m_chat_id m) (dispatch_message_inner R m))" for m
    by (intro dedup.under_barrier dedup.message_dispatch[OF HOL.refl])
  obtain r w where run: "to_incoming_message message (b_world s) = (Inr r, w)" "same_tables (b_world s) w"
    "update_key R u = map_option (\<lambda>m. \<lparr> dk_chat_id = m_chat_id m, dk_token = m_message_id m \<rparr>) r"
    using message_run[of message "b_world s" R] MessageUpdate by auto
  then show ?thesis
    using dispatch unfolding MessageUpdate handle_update.simps handle_message_def
      draw_run[of "to_incoming_message message" s, OF run(1)]
    by (cases r) (auto simp: finish_def)
next
  case (CallbackUpdate query)
  show ?thesis
  proof (cases "Option.bind (cq_data query) (parse_callback (rt_parse_uuid R))")
    case None
    then show ?thesis
      using CallbackUpdate same_tables.refl by (auto simp: handle_callback_query_def finish_def intro!: exI[of _ "b_world s"])
  next
    case (Some cb)
    have dispatch: "keeps same_dedup (under_barrier (m_chat_id m) (dispatch_callback_inner R (cq_id query) cb m))" for m
      by (intro dedup.under_barrier dedup.callback_dispatch[OF HOL.refl])
    obtain r w where run: "callback_to_incoming_message query (b_world s) = (Inr r, w)"
      "same_tables (b_world s) w"
      "update_key R u = map_option (\<lambda>m. \<lparr> dk_chat_id = m_chat_id m, dk_token = rt_hash R (cq_id query) \<rparr>) r"
      using callback_run[of query "b_world s" "rt_hash R (cq_id query)"] CallbackUpdate Some
      by (auto split: option.splits prod.splits)
    then show ?thesis
      using dispatch unfolding CallbackUpdate handle_update.simps handle_callback_query_def Some option.case
        draw_run[of "callback_to_incoming_message query" s, OF run(1)]
      by (cases r) (auto simp: finish_def)
  qed
qed

lemma dedup_evolves:
  assumes "dedup_abs h (b_dedup s)"
  shows "\<exists>ks. length ks \<le> 1 \<and> dedup_abs (h @ ks) (b_dedup (snd (handle_update R u s)))
    \<and> (\<forall>k. update_key R u = Some k \<longrightarrow> k \<notin> ud_seen (b_dedup s) \<longrightarrow> ks = [k])"
proof -
  obtain w where w: "case update_key R u of
       None \<Rightarrow> handle_update R u s = (Finished (), s\<lparr> b_world := w \<rparr>)
     | Some k \<Rightarrow> (\<exists>h. keeps same_dedup h \<and>
         handle_update R u s = once_per_update k h (s\<lparr> b_world := w \<rparr>))"
    using handle_update_run by blast
  show ?thesis
  proof (cases "update_key R u")
    case None
    with w assms show ?thesis by (auto intro!: exI[of _ "[]"])
  next
    case (Some k)
    then obtain hd where hd: "keeps same_dedup hd"
      "handle_update R u s = once_per_update k hd (s\<lparr> b_world := w \<rparr>)" using w by auto
    obtain st where obs: "observe k (b_dedup s) = (k \<notin> set (last_n UPDATE_DEDUP_CAPACITY h), st)"
      "dedup_abs (if k \<notin> set (last_n UPDATE_DEDUP_CAPACITY h) then h @ [k] else h) st"
      using observe_refines[OF assms] by blast
    have "b_dedup (snd (hd (s\<lparr> b_world := w, b_dedup := st \<rparr>))) = st"
      using hd(1) by (simp add: keeps_def same_dedup_def)
    then have "b_dedup (snd (handle_update R u s)) = st"
      using hd(2) obs(1) by (simp add: once_per_update_def)
    moreover have "ud_seen (b_dedup s) = set (last_n UPDATE_DEDUP_CAPACITY h)"
      using assms by (simp add: dedup_abs_def)
    ultimately show ?thesis
      using obs(2) Some
      by (intro exI[of _ "if k \<notin> set (last_n UPDATE_DEDUP_CAPACITY h) then [k] else []"]) auto
  qed
qed

lemma dedup_evolves_all:
  "dedup_abs h (b_dedup s) \<Longrightarrow>
     \<exists>ks. length ks \<le> length us \<and> dedup_abs (h @ ks) (b_dedup (run_updates R us s))"
proof (induction us arbitrary: h s)
  case (Cons u us)
  obtain k1 where k1: "length k1 \<le> 1" "dedup_abs (h @ k1) (b_dedup (snd (handle_update R u s)))"
    using dedup_evolves[OF Cons.prems, of R u] by blast
  obtain ks where "length ks \<le> length us" "dedup_abs ((h @ k1) @ ks) (b_dedup (run_updates R (u # us) s))"
    using Cons.IH[OF k1(2)] by auto
  with k1(1) show ?case by (intro exI[of _ "k1 @ ks"]) simp
qed (auto intro: exI[of _ "[]"])

text \<open>C3. A redelivered update does nothing. An update the deduplicator has not forgotten (fewer than
  2048 others of any chat came since it was first handled) and that Telegram delivers once more
  leaves the database tables, every store, the screens and the list of calls to the API exactly as
  they are; only the clock of the database moved.\<close>

theorem redelivered_update_is_inert:
  assumes "dedup_abs h (b_dedup s)" "update_key R u = Some k" "k \<notin> ud_seen (b_dedup s)"
    and "length us < UPDATE_DEDUP_CAPACITY" "t = run_updates R (u # us) s"
  shows "\<exists>w. same_tables (b_world t) w \<and> handle_update R u t = (Finished (), t\<lparr> b_world := w \<rparr>)"
proof -
  have "dedup_abs (h @ [k]) (b_dedup (snd (handle_update R u s)))"
    using dedup_evolves[OF assms(1), of R u] assms(2,3) by auto
  then obtain ks where ks: "length ks \<le> length us" "dedup_abs ((h @ [k]) @ ks) (b_dedup t)"
    using dedup_evolves_all[of "h @ [k]" _ us R] assms(5) by fastforce
  have "k \<in> set (last_n UPDATE_DEDUP_CAPACITY ((h @ [k]) @ ks))"
    using ks(1) assms(4) by (simp add: last_n_def)
  then have seen: "observe k (b_dedup t) = (False, b_dedup t)"
    using ks(2) by (simp add: observe_def dedup_abs_def)
  obtain w where "same_tables (b_world t) w"
    "\<exists>h. keeps same_dedup h \<and> handle_update R u t = once_per_update k h (t\<lparr> b_world := w \<rparr>)"
    using handle_update_run[of t R u] assms(2) by auto
  with seen show ?thesis by (auto simp: once_per_update_def)
qed

text \<open>A message that arrives, then another one, then the first once more.\<close>

theorem redelivered_update_is_inert_witness:
  "\<exists>t w. t = run_updates sample_runtime [MessageUpdate (sample_typed 30 (ascii ''/start'')),
        MessageUpdate (sample_typed 99 (ascii ''/start''))] sample_bot
     \<and> same_tables (b_world t) w
     \<and> handle_update sample_runtime (MessageUpdate (sample_typed 30 (ascii ''/start''))) t
         = (Finished (), t\<lparr> b_world := w \<rparr>)"
proof -
  have fresh: "dedup_abs [] (b_dedup sample_bot)" "ud_seen (b_dedup sample_bot) = {}"
    by (simp_all add: dedup_abs_def dedup_new_def last_n_def)
  have key: "update_key sample_runtime (MessageUpdate (sample_typed 30 (ascii ''/start'')))
      = Some \<lparr> dk_chat_id = 30, dk_token = 7 \<rparr>"
    by (simp add: sample_typed_def sample_sender_def i64_of_user_def)
  show ?thesis
    using redelivered_update_is_inert[OF fresh(1) key _ _ HOL.refl,
        of "[MessageUpdate (sample_typed 99 (ascii ''/start''))]"] fresh(2)
    by (simp add: UPDATE_DEDUP_CAPACITY_def)
qed

subsection \<open>Presses on screens that are out of date\<close>

lemma gate_passes:
  assumes "run_onboarding_gate R m s = (Finished NotApplicable, t)"
  shows "\<exists>w. t = s\<lparr> b_world := w \<rparr>"
proof -
  obtain r w where run: "probe_onboarding_state (m_sender_id m) (b_world s) = (r, w)" by fastforce
  have "(case (case r of Inr v \<Rightarrow> v | Inl _ \<Rightarrow> None) of Some a \<Rightarrow> is_onboarded a | None \<Rightarrow> False)"
    using gate_stops[OF run _ assms] by blast
  with assms run show ?thesis
    by (simp add: run_onboarding_gate_def Let_def andThen_def call_def finish_def) blast
qed

lemma register_passes:
  assumes "register_actor R m s = (Finished (ActorReady actor), t)"
  shows "\<exists>w. t = s\<lparr> b_world := w \<rparr>"
proof -
  obtain g u where gate: "run_onboarding_gate R m s = (g, u)" by fastforce
  have g: "g = Finished NotApplicable"
    using assms gate by (cases g) (auto simp: register_actor_def Let_def andThen_def finish_def split: if_splits)
  obtain w where u: "u = s\<lparr> b_world := w \<rparr>" using gate_passes gate g by blast
  show ?thesis
    using assms unfolding register_actor_def Let_def andThen_def[of "run_onboarding_gate R m"] gate g u
    by (auto simp: andThen_def call_def finish_def seq_def
        split: prod.splits sum.splits link_preview.splits handled.splits)
qed

lemma stale_press:
  assumes "is_mutating cb"
    and "screens = hydrate_if_missing (m_chat_id m) (m_message_id m) (b_screens s)"
    and "chat_get (m_chat_id m) screens = Some scr"
    and "as_message_id scr \<noteq> m_message_id m \<or> \<not> accepts (as_descriptor scr) cb"
    and "register_actor R m (s\<lparr> b_screens := screens \<rparr>) = (Finished (ActorReady actor), t)"
  shows "t = s\<lparr> b_screens := screens, b_world := b_world t \<rparr>"
    and "\<exists>r reply. dispatch_callback_inner R q cb m s =
          (r, t\<lparr> b_calls := b_calls s @ [(AnswerCallback q STALE_MUTATION_CALLBACK_TEXT, reply)] \<rparr>)"
proof -
  show t: "t = s\<lparr> b_screens := screens, b_world := b_world t \<rparr>" using register_passes[OF assms(5)] by auto
  have b: "b_screens t = screens" "b_calls t = b_calls s" by (subst t, simp)+
  have "snd (dispatch_callback_inner R q cb m s) = snd (answer_callback R q STALE_MUTATION_CALLBACK_TEXT t)"
    using assms(1,3,4)
    by (auto simp: dispatch_callback_inner_def seq_def change_def see_def andThen_def Let_def b
        assms(2)[symmetric] assms(5) is_stale_def chat_get_def split: option.splits)
  then show "\<exists>r reply. dispatch_callback_inner R q cb m s =
      (r, t\<lparr> b_calls := b_calls s @ [(AnswerCallback q STALE_MUTATION_CALLBACK_TEXT, reply)] \<rparr>)"
    by (cases "dispatch_callback_inner R q cb m s")
       (auto simp: answer_callback_def andThen_def perform_run finish_def b split: api_reply.splits)
qed

lemma stale_press_identifies:
  assumes "is_mutating cb" "register_actor R m (s\<lparr> b_screens := screens \<rparr>) = (g, t)"
  shows "no_command (b_world s) (b_world t) \<and> keeps_stores s t"
proof -
  have "outsider_step (s\<lparr> b_screens := screens \<rparr>) t"
    using keepsD[OF outsiders.register_actor[OF HOL.refl] assms(2)] .
  then show ?thesis by (simp add: outsider_step_def keeps_stores_def)
qed

lemma press_stops_at_the_gate:
  assumes "screens = hydrate_if_missing (m_chat_id m) (m_message_id m) (b_screens s)"
    and "register_actor R m (s\<lparr> b_screens := screens \<rparr>) = (g, t)" "\<forall>actor. g \<noteq> Finished (ActorReady actor)"
  shows "snd (dispatch_callback_inner R q cb m s) = t"
  using assms
  by (auto simp: dispatch_callback_inner_def seq_def change_def andThen_def Let_def finish_def
      split: handled.split registration_result.split)

text \<open>C4. A press that is out of date runs no handler. Take a button that changes something, pressed on a
  message that is not the screen of the chat, or while the chat shows a kind of screen on which the
  capability matrix does not accept this kind of button. Then the gate that identifies the sender is all
  that runs: it may do the writes of onboarding and registration, on a database with unique keys nothing
  else, and no draft, selection, typed interaction or admin confirmation changes. A sender it lets pass gets
  one answer, the toast that says the button is out of date, and no screen or message; for a sender it holds back
  what the gate itself showed is all.\<close>

theorem stale_press_only_answers:
  assumes "is_mutating cb"
    and "screens = hydrate_if_missing (m_chat_id m) (m_message_id m) (b_screens s)"
    and "chat_get (m_chat_id m) screens = Some scr"
    and "as_message_id scr \<noteq> m_message_id m \<or> \<not> accepts (as_descriptor scr) cb"
    and "register_actor R m (s\<lparr> b_screens := screens \<rparr>) = (g, t)" "keys_ok (b_world s)"
  shows "only_onboards (b_world s) (b_world t) \<and> keeps_stores s t
    \<and> (if \<exists>actor. g = Finished (ActorReady actor)
       then t = s\<lparr> b_screens := screens, b_world := b_world t \<rparr>
         \<and> (\<exists>r reply. dispatch_callback_inner R q cb m s =
              (r, t\<lparr> b_calls := b_calls s @ [(AnswerCallback q STALE_MUTATION_CALLBACK_TEXT, reply)] \<rparr>))
       else snd (dispatch_callback_inner R q cb m s) = t)"
  using stale_press_identifies[OF assms(1,5)] stale_press[OF assms(1-4)] press_stops_at_the_gate[OF assms(2,5)] assms(5,6)
  by (auto simp: no_command_def keys_ok_def tasks_ok_def)

text \<open>
  The admin presses a confirmation button on message 5, which is not the screen of the chat any more.
\<close>

definition sample_pressed :: incoming_message where
  "sample_pressed = \<lparr> m_message_id = 5, m_chat_id = 30, m_sender_id = 30, m_sender_name = ascii ''Ann Lee'',
     m_sender_username = None, m_content = CommandContent (ascii ''a:confirm:n''), m_timestamp = 1,
     m_source_message_key_override = None, m_is_voice_origin = False \<rparr>"

definition sample_elsewhere :: bot where
  "sample_elsewhere = sample_bot\<lparr> b_screens :=
     [30 \<mapsto> \<lparr> as_message_id = 6, as_descriptor = ScrMainMenu \<rparr>] \<rparr>"

lemma sample_press_is_no_start: "\<not> is_explicit_start_command sample_pressed"
  by (simp add: is_explicit_start_command_def sample_pressed_def starts_with_def trim_start_by_def
      is_whitespace_def ascii_def)

lemma sample_pressed_fields [simp]:
  "m_message_id sample_pressed = 5" "m_chat_id sample_pressed = 30" "m_sender_id sample_pressed = 30"
  by (simp_all add: sample_pressed_def)

lemma sample_found:
  "find_by_telegram_id 30 (b_world sample_elsewhere) = (Inr (Some sample_member), b_world sample_elsewhere)"
  by (simp add: find_by_telegram_id_def sample_elsewhere_def sample_bot_def sample_member_def
      sample_admin_def sample_user_def sample_creator_def run_simps)

lemma sample_member_onboarded: "is_onboarded sample_member" "u_linked_employee_id sample_member = None"
  by (simp_all add: is_onboarded_def sample_member_def sample_admin_def sample_user_def
      sample_creator_def onboarding_terminal_def ascii_def)

lemma sample_gate:
  "run_onboarding_gate sample_runtime sample_pressed sample_elsewhere = (Finished NotApplicable, sample_elsewhere)"
  by (simp add: run_onboarding_gate_def andThen_def call_def probe_onboarding_state_def sample_found
      sample_member_onboarded finish_def Let_def)

lemma sample_preview:
  "preview_linking U sample_pressed (b_world sample_elsewhere) =
     (Inr (LinkReady ContinueUnlinked), b_world sample_elsewhere)"
  by (simp add: preview_linking_def sample_press_is_no_start sample_found sample_member_onboarded run_simps)

lemma sample_no_faults: "w_faults (b_world sample_elsewhere) = []"
  by (simp add: sample_elsewhere_def sample_bot_def)

lemma statement_finishes:
  assumes "w_faults w = []" "ok (w\<lparr> w_faults := [] \<rparr>)"
  obtains x w' where "statement ok f w = (Inr x, w')"
  using assms by (cases "f (w\<lparr> w_faults := [] \<rparr>)") (simp add: statement_def Let_def)

lemma sample_persisted:
  "\<exists>actor w. execute_with_link_decision U sample_pressed ContinueUnlinked (b_world sample_elsewhere) =
     (Inr actor, w)"
proof -
  obtain actor w where
    "upsert_from_message (from_message sample_pressed User False\<lparr> u_linked_employee_id := None \<rparr>)
      (b_world sample_elsewhere) = (Inr actor, w)"
    unfolding upsert_from_message_def
    by (rule statement_finishes[OF sample_no_faults]) (auto simp: references_def from_message_def)
  then show ?thesis
    by (simp add: execute_with_link_decision_def resolve_employee_for_decision_def persist_user_def
        recover_pending_assignments_def run_simps)
qed

lemma sample_registration:
  "\<exists>actor t. register_actor sample_runtime sample_pressed sample_elsewhere = (Finished (ActorReady actor), t)"
proof -
  obtain actor w where "execute_with_link_decision (lb_unicode (rt_libraries sample_runtime)) sample_pressed
      ContinueUnlinked (b_world sample_elsewhere) = (Inr actor, w)"
    using sample_persisted by blast
  then show ?thesis
    by (simp add: register_actor_def sample_gate sample_preview andThen_def call_def finish_def Let_def)
qed

lemma sample_keys_elsewhere: "keys_ok (b_world sample_elsewhere)"
  using sample_keys_ok by (simp add: sample_elsewhere_def)

theorem stale_press_only_answers_witness:
  "\<exists>t r reply. dispatch_callback_inner sample_runtime (ascii ''q'') (AdminConfirmNonce (ascii ''n''))
      sample_pressed sample_elsewhere =
     (r, t\<lparr> b_calls := [(AnswerCallback (ascii ''q'') STALE_MUTATION_CALLBACK_TEXT, reply)] \<rparr>)"
proof -
  obtain actor t where run: "register_actor sample_runtime sample_pressed sample_elsewhere =
      (Finished (ActorReady actor), t)"
    using sample_registration by blast
  then have started: "register_actor sample_runtime sample_pressed
      (sample_elsewhere\<lparr> b_screens := b_screens sample_elsewhere \<rparr>) = (Finished (ActorReady actor), t)"
    by simp
  have hydrated: "b_screens sample_elsewhere =
      hydrate_if_missing (m_chat_id sample_pressed) (m_message_id sample_pressed) (b_screens sample_elsewhere)"
    and chat: "chat_get (m_chat_id sample_pressed) (b_screens sample_elsewhere) =
      Some \<lparr> as_message_id = 6, as_descriptor = ScrMainMenu \<rparr>"
    by (simp_all add: hydrate_if_missing_def chat_get_def sample_elsewhere_def)
  have "\<exists>r reply. dispatch_callback_inner sample_runtime (ascii ''q'') (AdminConfirmNonce (ascii ''n''))
      sample_pressed sample_elsewhere =
     (r, t\<lparr> b_calls := b_calls sample_elsewhere @
        [(AnswerCallback (ascii ''q'') STALE_MUTATION_CALLBACK_TEXT, reply)] \<rparr>)"
    using stale_press_only_answers[OF _ hydrated chat _ started] sample_keys_elsewhere by simp
  moreover have "b_calls sample_elsewhere = []" by (simp add: sample_elsewhere_def)
  ultimately show ?thesis by auto
qed

end
