(* ===== verification/Scheduler.thy ===== *)
theory Scheduler
  imports Ledger Deliveries Sla_Worker Recurrence Reminders
begin

section \<open>The background jobs\<close>

text \<open>
  \<^verbatim>\<open>src/infrastructure/scheduler/mod.rs\<close>. Every job has a ticker of its own. An interval job runs at each
  tick; a daily job runs at the first tick it sees in its hour of a day. A job that fails is logged and
  runs again at its next tick. What the jobs answer to is in \<open>job_env\<close>: the directory that is
  fetched, Telegram, the order in which a batch of deliveries finishes, the printing of days and the
  crates the recurrence rules use.
\<close>

record scheduler_config =
  sc_employee_sync_interval_minutes :: int
  sc_notification_poll_interval_seconds :: int
  sc_reminder_tick_seconds :: int
  sc_daily_deadline_reminder_hour_utc :: int
  sc_daily_overdue_scan_hour_utc :: int
  sc_daily_summary_hour_utc :: int

datatype background_job =
  EmployeeSync | NotificationDelivery | DailyJob daily_job | SlaScan | RecurrenceScan

definition SLA_CHECK_INTERVAL :: int where "SLA_CHECK_INTERVAL = 5 * 60"
definition RECURRENCE_CHECK_INTERVAL :: int where "RECURRENCE_CHECK_INTERVAL = 60"

text \<open>Seconds between two ticks of a job.\<close>

fun job_interval :: "scheduler_config \<Rightarrow> background_job \<Rightarrow> int" where
  "job_interval config EmployeeSync = sc_employee_sync_interval_minutes config * 60"
| "job_interval config NotificationDelivery = sc_notification_poll_interval_seconds config"
| "job_interval config (DailyJob _) = sc_reminder_tick_seconds config"
| "job_interval config SlaScan = SLA_CHECK_INTERVAL"
| "job_interval config RecurrenceScan = RECURRENCE_CHECK_INTERVAL"

fun target_hour :: "scheduler_config \<Rightarrow> daily_job \<Rightarrow> int" where
  "target_hour config UpcomingDeadlines = sc_daily_deadline_reminder_hour_utc config"
| "target_hour config OverdueAlerts = sc_daily_overdue_scan_hour_utc config"
| "target_hour config DailySummaries = sc_daily_summary_hour_utc config"

record job_env =
  je_employees :: "employee list result"
  je_telegram :: telegram
  je_order :: "notification list \<Rightarrow> notification list"
  je_show_day :: "day \<Rightarrow> utext"
  je_crates :: crates

fun job_action :: "job_env \<Rightarrow> background_job \<Rightarrow> (courier, unit) act" where
  "job_action J EmployeeSync = tryA (db (sync_employees (je_employees J))) (\<lambda>_. ret ())"
| "job_action J NotificationDelivery = process_notifications (je_telegram J) (je_order J)"
| "job_action J (DailyJob job) = db (run_daily (je_show_day J) job)"
| "job_action J SlaScan = db update_sla_states"
| "job_action J RecurrenceScan = db (process_recurrence_rules (je_crates J))"

definition run_job :: "job_env \<Rightarrow> background_job \<Rightarrow> courier \<Rightarrow> courier" where
  "run_job J job c = snd (job_action J job c)"

subsection \<open>Daily jobs\<close>

definition hour_of :: "instant \<Rightarrow> int" where
  "hour_of t = (t mod ns_per_day) div (3600 * ns_per_sec)"

definition daily_due :: "int \<Rightarrow> instant \<Rightarrow> day option \<Rightarrow> bool" where
  "daily_due target now last_run_date \<longleftrightarrow> hour_of now = target \<and> last_run_date \<noteq> Some (date_of now)"

text \<open>One turn of the loop of \<^verbatim>\<open>spawn_daily_job\<close> on the date it remembers and the state its job changes.\<close>

definition daily_tick :: "int \<Rightarrow> ('s \<Rightarrow> 's) \<Rightarrow> instant \<Rightarrow> day option \<times> 's \<Rightarrow> day option \<times> 's" where
  "daily_tick target job now loop =
     (if daily_due target now (fst loop) then (Some (date_of now), job (snd loop)) else loop)"

text \<open>The loop over all its ticks, with a job that notes when it ran.\<close>

definition daily_runs :: "int \<Rightarrow> instant list \<Rightarrow> instant list" where
  "daily_runs target ticks =
     snd (fold (\<lambda>now. daily_tick target (\<lambda>runs. runs @ [now]) now) ticks (None, []))"

fun runs_after :: "int \<Rightarrow> day option \<Rightarrow> instant list \<Rightarrow> instant list" where
  "runs_after target last_run [] = []"
| "runs_after target last_run (t # ts) =
     (if daily_due target t last_run then t # runs_after target (Some (date_of t)) ts
      else runs_after target last_run ts)"

lemma fold_daily_tick:
  "snd (fold (\<lambda>now. daily_tick target (\<lambda>runs. runs @ [now]) now) ts (last_run, runs)) =
     runs @ runs_after target last_run ts"
  by (induction ts arbitrary: last_run runs) (simp_all add: daily_tick_def)

lemma daily_runs_eq: "daily_runs target ts = runs_after target None ts"
  by (simp add: daily_runs_def fold_daily_tick)

lemma runs_after_date:
  "d # map date_of (runs_after h (Some d) ts) =
     remdups_adj (d # map date_of (filter (\<lambda>t. hour_of t = h) ts))"
  by (induction ts arbitrary: d) (auto simp: daily_due_def)

lemma dates_of_runs:
  "map date_of (daily_runs h ts) = remdups_adj (map date_of (filter (\<lambda>t. hour_of t = h) ts))"
  unfolding daily_runs_eq
proof (induction ts)
  case (Cons t ts)
  then show ?case using runs_after_date[of "date_of t" h ts] by (auto simp: daily_due_def)
qed simp

lemma runs_subset: "set (runs_after h last_run ts) \<subseteq> {t \<in> set ts. hour_of t = h}"
  by (induction ts arbitrary: last_run) (auto simp: daily_due_def)

lemma date_of_mono: "s \<le> t \<Longrightarrow> date_of s \<le> date_of t"
  by (simp add: date_of_def zdiv_mono1)

lemma sorted_remdups_adj_distinct: "sorted (ds :: day list) \<Longrightarrow> distinct (remdups_adj ds)"
  by (induction ds rule: remdups_adj.induct) auto

lemma dates_of_runs_distinct:
  assumes "sorted ts"
  shows "distinct (map date_of (daily_runs h ts))"
  unfolding dates_of_runs
proof (rule sorted_remdups_adj_distinct)
  show "sorted (map date_of (filter (\<lambda>t. hour_of t = h) ts))"
    using assms by (induction ts) (auto simp: date_of_mono)
qed

text \<open>A ticker that is on time.\<close>

definition ticks :: "instant \<Rightarrow> int \<Rightarrow> nat \<Rightarrow> instant list" where
  "ticks start period n = map (\<lambda>k. start + int k * (period * ns_per_sec)) [0..<n]"

lemma sorted_ticks: "0 < period \<Longrightarrow> sorted (ticks start period n)"
  by (auto simp: ticks_def sorted_iff_nth_mono mult_right_mono)

definition hour_starts :: "day \<Rightarrow> int \<Rightarrow> instant" where
  "hour_starts d h = d * ns_per_day + h * (3600 * ns_per_sec)"

lemma in_the_hour:
  assumes "0 \<le> h" "h \<le> 23" "hour_starts d h \<le> t" "t < hour_starts d h + 3600 * ns_per_sec"
  shows "date_of t = d" "hour_of t = h"
proof -
  define x where "x = t - hour_starts d h"
  have t: "t = h * (3600 * ns_per_sec) + x + d * ns_per_day" and x: "0 \<le> x" "x < 3600 * ns_per_sec"
    using assms by (auto simp: x_def hour_starts_def)
  have "h * (3600 * ns_per_sec) \<le> 23 * (3600 * ns_per_sec)" using assms(2) by (simp add: ns_per_sec_def)
  then have y: "0 \<le> h * (3600 * ns_per_sec) + x" "h * (3600 * ns_per_sec) + x < ns_per_day"
    using x assms(1) by (auto simp: ns_per_day_def ns_per_sec_def)
  then show "date_of t = d"
    unfolding date_of_def t by (simp add: div_mult_self3 div_pos_pos_trivial)
  have "t mod ns_per_day = h * (3600 * ns_per_sec) + x" unfolding t using y by (simp add: mod_pos_pos_trivial)
  then show "hour_of t = h" using x by (simp add: hour_of_def ns_per_sec_def)
qed

lemma a_tick_in_time:
  assumes "0 < P" "start \<le> from_here" "from_here + P \<le> start + int n * P"
  shows "\<exists>k < n. from_here \<le> start + int k * P \<and> start + int k * P < from_here + P"
proof -
  define k where "k = (from_here - start + P - 1) div P"
  have "(from_here - start + P - 1) mod P < P" "0 \<le> (from_here - start + P - 1) mod P" using assms(1) by simp_all
  moreover have "k * P + (from_here - start + P - 1) mod P = from_here - start + P - 1"
    unfolding k_def by (rule div_mult_mod_eq)
  ultimately have k: "from_here \<le> start + k * P" "start + k * P < from_here + P" by linarith+
  have "0 \<le> k" using assms by (simp add: k_def pos_imp_zdiv_nonneg_iff)
  moreover have "k * P < int n * P" using k(2) assms(3) by linarith
  then have "k < int n" using assms(1) by simp
  ultimately show ?thesis using k by (intro exI[of _ "nat k"]) auto
qed

lemma once_if_distinct: "x \<in> set xs \<Longrightarrow> distinct xs \<Longrightarrow> count_list xs x = 1"
proof (induction xs)
  case (Cons y ys)
  then show ?case by (cases "x = y") (auto simp: count_list_0_iff)
qed simp

text \<open>A daily job runs exactly once a day. Whatever the hour of the job, if its ticker ticks at least
  once an hour, then on every day of which the ticker has seen the hour begin and has ticked once
  more, the job has run once and not twice.\<close>

lemma daily_job_once:
  assumes "0 < job_interval config (DailyJob job)" "job_interval config (DailyJob job) \<le> 3600"
    and "0 \<le> target_hour config job" "target_hour config job \<le> 23"
    and "start \<le> hour_starts d (target_hour config job)"
    and "hour_starts d (target_hour config job) + job_interval config (DailyJob job) * ns_per_sec
           \<le> start + int n * (job_interval config (DailyJob job) * ns_per_sec)"
  shows "length (filter (\<lambda>t. date_of t = d)
           (daily_runs (target_hour config job) (ticks start (job_interval config (DailyJob job)) n))) = 1"
proof -
  let ?h = "target_hour config job" and ?P = "job_interval config (DailyJob job)"
  let ?dates = "map date_of (daily_runs ?h (ticks start ?P n))"
  have pos: "0 < ?P * ns_per_sec" and hour: "?P * ns_per_sec \<le> 3600 * ns_per_sec"
    using assms(1,2) by (simp_all add: ns_per_sec_def)
  obtain k where k: "k < n" "hour_starts d ?h \<le> start + int k * (?P * ns_per_sec)"
    "start + int k * (?P * ns_per_sec) < hour_starts d ?h + ?P * ns_per_sec"
    using a_tick_in_time[OF pos assms(5,6)] by blast
  let ?t = "start + int k * (?P * ns_per_sec)"
  have "?t \<in> set (ticks start ?P n)" using k(1) by (auto simp: ticks_def)
  moreover have "date_of ?t = d" "hour_of ?t = ?h"
    using in_the_hour[OF assms(3,4) k(2)] k(3) hour by linarith+
  ultimately have "d \<in> set ?dates" unfolding dates_of_runs by force
  moreover have "distinct ?dates" using sorted_ticks[OF assms(1)] by (rule dates_of_runs_distinct)
  ultimately have "count_list ?dates d = 1" by (rule once_if_distinct)
  moreover have "length (filter (\<lambda>t. date_of t = d) ts) = count_list (map date_of ts) d" for ts
    by (induction ts) auto
  ultimately show ?thesis by simp
qed

text \<open>The bound matters. Started at half past midnight, with a tick every two
  hours, the job of nine o'clock never runs.\<close>

lemma slow_ticker_misses_the_hour: "daily_runs 9 (ticks (1800 * ns_per_sec) 7200 n) = []"
proof -
  have "hour_of (1800 * ns_per_sec + int k * (7200 * ns_per_sec)) = 2 * (int k mod 12)" for k
  proof (rule in_the_hour(2)[of _ "int k div 12"])
    have "int k * 7200 = int k div 12 * 86400 + int k mod 12 * 7200"
      using div_mult_mod_eq[of "int k" 12] by linarith
    then have "int k * 7200 * ns_per_sec = (int k div 12 * 86400 + int k mod 12 * 7200) * ns_per_sec" by simp
    then have "1800 * ns_per_sec + int k * (7200 * ns_per_sec) =
        hour_starts (int k div 12) (2 * (int k mod 12)) + 1800 * ns_per_sec"
      by (simp add: hour_starts_def ns_per_day_def algebra_simps)
    then show "hour_starts (int k div 12) (2 * (int k mod 12)) \<le> 1800 * ns_per_sec + int k * (7200 * ns_per_sec)"
      and "1800 * ns_per_sec + int k * (7200 * ns_per_sec)
        < hour_starts (int k div 12) (2 * (int k mod 12)) + 3600 * ns_per_sec"
      by (simp_all add: ns_per_sec_def)
  qed (use pos_mod_bound[of 12 "int k"] in linarith)+
  moreover have "2 * (int k mod 12) \<noteq> 9" for k by presburger
  ultimately have "filter (\<lambda>t. hour_of t = 9) (ticks (1800 * ns_per_sec) 7200 n) = []"
    by (auto simp: ticks_def filter_empty_conv)
  with dates_of_runs[of 9 "ticks (1800 * ns_per_sec) 7200 n"] show ?thesis by simp
qed

subsection \<open>What the jobs may do to the database\<close>

text \<open>
  Beside the writes of the use cases, the jobs settle notifications, write the SLA columns and move
  recurrence rules. A relation that these respect too is respected by every job.
\<close>

locale worker_frame = use_case_frame R for R :: "world \<Rightarrow> world \<Rightarrow> bool" +
  assumes mark_sent: "obeys R (mark_sent i mid now)"
    and mark_failed: "obeys R (mark_failed i code)"
    and mark_retry_pending: "obeys R (mark_retry_pending i later code)"
    and update_sla_state: "obeys R (update_sla_state tid sla lvl now)"
    and record_escalation: "obeys R (record_escalation tid lvl code detail now)"
    and advance_rule: "obeys R (advance_rule i now nxt now')"
begin

lemmas worker_rules = use_case_rules mark_sent mark_failed mark_retry_pending update_sla_state
  record_escalation advance_rule

lemma daily_jobs: "obeys R (run_daily show_day job)"
  by (cases job)
     (simp only: run_daily.simps enqueue_upcoming_deadlines_def enqueue_overdue_alerts_def
       enqueue_daily_summaries_def remind_deadline_def alert_overdue_def alert_recipient_def
       summarise_user_def get_due_between_def get_overdue_def list_with_chat_id_def list_open_def Let_def,
      intro worker_rules)+

lemma sla_scan: "obeys R update_sla_states"
  unfolding update_sla_states_def update_one_sla_def escalate_def list_active_with_deadline_def Let_def
  by (intro worker_rules)

lemma recurrence_scan: "obeys R (process_recurrence_rules lib)"
  unfolding process_recurrence_rules_def fire_rule_def advance_def get_template_def list_due_def
    create_if_absent_def reads_defs
  by (intro worker_rules)

definition on_courier :: "courier \<Rightarrow> courier \<Rightarrow> bool" where
  "on_courier c c' \<longleftrightarrow> R (co_world c) (co_world c')"

lemma courier_frame: "frame on_courier"
  by unfold_locales (auto simp: on_courier_def intro: refl trans)

lemma on_db: "obeys R m \<Longrightarrow> obeys on_courier (db m)"
  by (auto simp: obeys_def db_def on_courier_def split: prod.split) (metis snd_conv)

lemma on_send: "obeys on_courier (send_notification tg chat body kind uid st)"
  by (simp add: obeys_def send_notification_def on_courier_def refl)

lemmas courier_rules = on_db on_send obeys_cases frame.ret[OF courier_frame] frame.fail[OF courier_frame]
  frame.tryA[OF courier_frame] frame.attempt[OF courier_frame]

lemma delivery: "obeys on_courier (deliver_single tg n)"
  unfolding deliver_single_def handle_transient_failure_def mark_related_task_as_sent_def
    load_related_task_def reads_defs
  by (intro courier_rules worker_rules)

lemma delivery_run: "obeys on_courier (process_notifications tg order)"
proof -
  have "obeys on_courier (deliver_all tg e ns)" for e ns
    by (induction ns arbitrary: e) (simp_all add: courier_rules delivery)
  then show ?thesis
    unfolding process_notifications_def list_pending_def by (intro courier_rules worker_rules)
qed

lemma run_job: "R (co_world c) (co_world (run_job J job c))"
proof -
  have "obeys on_courier (job_action J job)"
    by (cases job; simp only: job_action.simps)
       (intro courier_rules delivery_run sync_employees daily_jobs sla_scan recurrence_scan)+
  then show ?thesis by (simp add: obeys_def on_courier_def run_job_def)
qed

end

end
