(* ===== verification/System.thy ===== *)
theory System
  imports Bot_Safety Scheduler
begin

section \<open>Who can change rights\<close>

text \<open>
  Roles and deactivations change by the confirmation of an admin action and by nothing else. Every
  other update obeys \<open>keeps_rights\<close>: accounts may be added, but those that exist keep their role and
  stay active or deactivated.
\<close>

definition rights :: "world \<Rightarrow> (row_id option \<times> int \<times> user_role \<times> instant option) list" where
  "rights w = map account_rights (w_users w)"

definition keeps_rights :: "world \<Rightarrow> world \<Rightarrow> bool" where
  "keeps_rights w w' \<longleftrightarrow> prefix (rights w) (rights w')"

lemma keeps_rights_same: "w_users w' = w_users w \<Longrightarrow> keeps_rights w w'"
  by (simp add: keeps_rights_def rights_def)

interpretation rights: store_frame keeps_rights
proof unfold_locales
  show "keeps_rights s u" if "keeps_rights s t" "keeps_rights t u" for s t u :: world
    using that unfolding keeps_rights_def by (rule prefix_order.trans)
qed (simp_all add: keeps_rights_same bookkeeping_free_def)

lemma rights_task_writes:
  "obeys keeps_rights (insert_task t)" "obeys keeps_rights (upsert_many es)"
  unfolding insert_task_def upsert_many_def upsert_one_def
  by (intro rights.store_rules rights.forA obeys_cases rights.statement rights.execute;
      simp add: keeps_rights_same set_employees_def)+

lemma rights_log_writes:
  "obeys keeps_rights (create_comment c)" "obeys keeps_rights (append_admin_audit entry)"
  "obeys keeps_rights (append_security_audit event)"
  "obeys keeps_rights (upsert_override flag on by_user now)"
  unfolding create_comment_def append_admin_audit_def append_security_audit_def upsert_override_def
  by (intro rights.statement; simp add: keeps_rights_same Let_def)+

lemma rights_of_users:
  "(\<And>u. P u \<Longrightarrow> account_rights (f u) = account_rights u) \<Longrightarrow> obeys keeps_rights (update_user_returning P f)"
  "obeys keeps_rights (insert_user u)" "obeys keeps_rights (upsert_from_message u)"
  unfolding update_user_returning_def insert_user_def upsert_from_message_def
  by (intro rights.statement; auto simp: keeps_rights_def rights_def Let_def map_identity_update
      account_rights_def merge_from_message_def split: option.split)+

lemma rights_of_registration:
  "obeys keeps_rights (update_task t)" "obeys keeps_rights (enqueue n)" "obeys keeps_rights (requeue i)"
  "obeys keeps_rights (append_audit a)"
  unfolding update_task_def enqueue_def requeue_def update_notification_def append_audit_def
  by (intro rights.store_rules rights.statement rights.execute; simp add: keeps_rights_same Let_def)+

lemma rights_of_onboarding:
  "obeys keeps_rights (ensure_onboarding_session tg chat name full now)"
  "obeys keeps_rights (save_onboarding_progress i v st fn sn now)"
  "obeys keeps_rights (complete_onboarding i v first_part last_part e now)"
  unfolding ensure_onboarding_session_def save_onboarding_progress_def complete_onboarding_def reads_defs
  by (intro rights.store_rules obeys_cases rights_of_users; simp add: account_rights_def)+

interpretation rights_use_cases: use_case_frame keeps_rights
  by unfold_locales
     (simp_all add: rights_task_writes rights_log_writes rights_of_users rights_of_registration
       rights_of_onboarding keeps_rights_same)

subsection \<open>A confirmation without its nonce\<close>

definition rights_step :: "bot \<Rightarrow> bot \<Rightarrow> bool" where
  "rights_step s t \<longleftrightarrow> keeps_rights (b_world s) (b_world t) \<and> b_nonces t = b_nonces s"

interpretation rights_sends: sender_frame rights_step R chat for R chat
  by unfold_locales
     (auto simp: rights_step_def keeps_def telegram_def set_screen_def change_def Let_def
       try_consume_update_barrier_def rights.refl split: option.split prod.split
       intro: rights.trans)

interpretation rights_entry: entry_frame rights_step keeps_rights R chat for R chat
  by unfold_locales (simp_all add: rights_sends.sends rights_sends.telegram rights_step_def rights.refl)

definition unconfirmed :: "utext \<Rightarrow> 'a handler \<Rightarrow> bool" where
  "unconfirmed nonce h \<longleftrightarrow>
     (\<forall>s. b_nonces s nonce = None \<longrightarrow> keeps_rights (b_world s) (b_world (snd (h s))))"

lemma unconfirmedD: "unconfirmed nonce h \<Longrightarrow> b_nonces s nonce = None \<Longrightarrow> keeps_rights (b_world s) (b_world (snd (h s)))"
  by (simp add: unconfirmed_def)

lemma unconfirmed_of_step: "keeps rights_step h \<Longrightarrow> unconfirmed nonce h"
  by (simp add: unconfirmed_def keeps_def rights_step_def)

lemma unconfirmed_of_world: "keeps (on_world keeps_rights) h \<Longrightarrow> unconfirmed nonce h"
  by (simp add: unconfirmed_def keeps_def on_world_def)

lemma unconfirmed_then:
  assumes "keeps rights_step m" "\<And>x. unconfirmed nonce (f x)"
  shows "unconfirmed nonce (andThen m f)"
  unfolding unconfirmed_def
proof (intro allI impI)
  fix s :: bot
  assume s: "b_nonces s nonce = None"
  obtain r t where run: "m s = (r, t)" by fastforce
  have t: "keeps_rights (b_world s) (b_world t)" "b_nonces t nonce = None"
    using keepsD[OF assms(1) run] s by (auto simp: rights_step_def)
  have "keeps_rights (b_world t) (b_world (snd (f x t)))" for x
    using assms(2) t(2) by (simp add: unconfirmed_def)
  with t(1) show "keeps_rights (b_world s) (b_world (snd (andThen m f s)))"
    by (cases r) (auto simp: andThen_def run intro: rights.trans)
qed

lemma unconfirmed_if: "unconfirmed nonce m \<Longrightarrow> unconfirmed nonce n \<Longrightarrow> unconfirmed nonce (if b then m else n)"
  by simp

lemma unconfirmed_execution: "unconfirmed nonce (execute_admin_confirmation R actor chat nonce)"
proof (cases "u_id actor")
  case None
  then show ?thesis
    unfolding execute_admin_confirmation_def option.case
    by (intro unconfirmed_of_world) (simp add: rights_use_cases.updates.admin_error)
next
  case (Some i)
  show ?thesis
    unfolding unconfirmed_def
  proof (intro allI impI)
    fix s :: bot
    assume s: "b_nonces s nonce = None"
    define t where "t = s\<lparr> b_readings := Suc (b_readings s),
      b_nonces := sweep_expired (rt_monotonic R (b_readings s)) (b_nonces s) \<rparr>"
    have "redeem_nonce R i nonce s = (Finished (Inl nonce_error.NotFound), t)"
      using s by (simp add: redeem_nonce_def andThen_def monotonic_def nonce_consume_def sweep_expired_def
          Let_def t_def)
    then have "snd (execute_admin_confirmation R actor chat nonce s) =
        snd (send_screen R chat ScrAdminMenu admin_nonce_expired_text admin_menu_keyboard t)"
      by (simp add: execute_admin_confirmation_def Some andThen_def)
    moreover have "rights_step t (snd (send_screen R chat ScrAdminMenu admin_nonce_expired_text admin_menu_keyboard t))"
      using rights_sends.sends(1) by (simp add: keeps_def)
    ultimately show "keeps_rights (b_world s) (b_world (snd (execute_admin_confirmation R actor chat nonce s)))"
      by (simp add: rights_step_def t_def)
  qed
qed

lemma rights_change: "(\<And>s. rights_step s (f s)) \<Longrightarrow> keeps rights_step (change f)"
  by (rule rights_sends.change)

lemma unconfirmed_registered:
  assumes "\<And>actor. unconfirmed nonce (f actor)"
  shows "unconfirmed nonce (andThen (register_actor R m) (\<lambda>r. case r of
    ActorReady actor \<Rightarrow> f actor | ConsumedByOnboarding \<Rightarrow> finish () | Aborted \<Rightarrow> finish ()))"
proof (rule unconfirmed_then[OF rights_entry.register_actor[OF HOL.refl]])
  fix r
  show "unconfirmed nonce (case r of
      ActorReady actor \<Rightarrow> f actor | ConsumedByOnboarding \<Rightarrow> finish () | Aborted \<Rightarrow> finish ())"
    by (cases r) (simp_all add: assms unconfirmed_of_step rights_sends.finish)
qed

lemma unconfirmed_dispatch:
  "unconfirmed nonce (dispatch_callback_inner R q (AdminConfirmNonce nonce) m)"
  unfolding dispatch_callback_inner_def handle_callback_action_def Let_def seq_def clear_interaction_def
    telegram_callback.case is_registration_callback.simps if_False
  by (intro unconfirmed_then unconfirmed_registered unconfirmed_if rights_change rights_sends.see
      rights_entry.raw unconfirmed_of_step[OF rights_entry.raw(2)] unconfirmed_execution)
     (simp_all add: rights_step_def rights.refl)

lemma unconfirmed_under_barrier:
  assumes "unconfirmed nonce h"
  shows "unconfirmed nonce (under_barrier chat h)"
  unfolding unconfirmed_def
proof (intro allI impI)
  fix s :: bot
  assume "b_nonces s nonce = None"
  with unconfirmedD[OF assms, of "s\<lparr> b_barriers := chat_set chat False (b_barriers s) \<rparr>"]
  show "keeps_rights (b_world s) (b_world (snd (under_barrier chat h s)))"
    by (auto simp: under_barrier_def split: prod.split handled.split)
qed

lemma unconfirmed_once:
  assumes "unconfirmed nonce h"
  shows "unconfirmed nonce (once_per_update key h)"
  unfolding unconfirmed_def
proof (intro allI impI)
  fix s :: bot
  assume "b_nonces s nonce = None"
  with unconfirmedD[OF assms, of "s\<lparr> b_dedup := d \<rparr>" for d]
  show "keeps_rights (b_world s) (b_world (snd (once_per_update key h s)))"
    by (auto simp: once_per_update_def rights.refl split: prod.split)
qed

text \<open>The nonce an update confirms.\<close>

fun confirmed_nonce :: "runtime \<Rightarrow> update \<Rightarrow> utext option" where
  "confirmed_nonce R (MessageUpdate message) = None"
| "confirmed_nonce R (CallbackUpdate query) =
     (case Option.bind (cq_data query) (parse_callback (rt_parse_uuid R)) of
        Some (AdminConfirmNonce nonce) \<Rightarrow> Some nonce
      | _ \<Rightarrow> None)"

lemma unconfirmed_update:
  assumes "confirmed_nonce R u = Some nonce"
  shows "unconfirmed nonce (handle_update R u)"
proof -
  obtain query where u: "u = CallbackUpdate query"
    and cb: "Option.bind (cq_data query) (parse_callback (rt_parse_uuid R)) = Some (AdminConfirmNonce nonce)"
    using assms by (cases u) (auto split: option.splits telegram_callback.splits)
  have received: "unconfirmed nonce (case received of None \<Rightarrow> finish ()
     | Some m \<Rightarrow> once_per_update (key m) (under_barrier (m_chat_id m)
         (dispatch_callback_inner R q (AdminConfirmNonce nonce) m)))" for received key q
    by (cases received)
       (simp_all add: unconfirmed_of_step rights_sends.finish unconfirmed_once unconfirmed_under_barrier
         unconfirmed_dispatch)
  have reads: "keeps rights_step (call (callback_to_incoming_message query))"
    unfolding callback_to_incoming_message_def incoming_def
    by (intro rights_entry.runs rights_use_cases.use_case_rules)
  have "unconfirmed nonce (case r of Inr x \<Rightarrow> (case x of None \<Rightarrow> finish ()
     | Some m \<Rightarrow> once_per_update (key m) (under_barrier (m_chat_id m)
         (dispatch_callback_inner R q (AdminConfirmNonce nonce) m))) | Inl _ \<Rightarrow> (\<lambda>s. (Panicked, s)))"
    for r key q
    by (cases r) (simp_all add: received unconfirmed_of_step rights_sends.panicked)
  then show ?thesis
    unfolding u handle_update.simps handle_callback_query_def cb option.case draw_def
    by (intro unconfirmed_then reads)
qed

text \<open>So whatever arrives, an update that is not a press of a live confirmation leaves all rights as they
  are.\<close>

lemma rights_of_update:
  "keeps_rights (b_world s) (b_world (snd (handle_update R u s)))
   \<or> (\<exists>nonce entry. confirmed_nonce R u = Some nonce \<and> b_nonces s nonce = Some entry)"
proof (cases "confirmed_nonce R u")
  case None
  then have "\<not> confirming R u"
    by (cases u) (auto split: option.splits telegram_callback.splits elim: confirms.elims)
  then have "keeps (on_world keeps_rights) (handle_update R u)" by (rule rights_use_cases.plain_update)
  then show ?thesis by (simp add: keeps_def on_world_def)
next
  case (Some nonce)
  with unconfirmed_update[OF Some] show ?thesis by (cases "b_nonces s nonce") (auto simp: unconfirmed_def)
qed


section \<open>The running system\<close>

text \<open>
  \<^verbatim>\<open>run_application\<close> of \<^verbatim>\<open>src/presentation/bootstrap.rs\<close> starts the process: it layers the stored
  overrides over the feature flags of the environment, promotes the configured administrators, starts
  the background jobs and hands the updates to the dispatcher, with every store in memory empty. What
  happens from then on is a list of events, updates, ticks of the jobs, stops and restarts, in any order.

  An event is one step here although the statements of two events can alternate. The relations
  proved below hold for each single statement and are transitive, so they hold for every such mixture;
  \<open>Task_Sessions\<close> treats the one place where an event relies on what it has read before.
\<close>

record system =
  sy_bot :: bot
  sy_last_runs :: "daily_job \<Rightarrow> day option"
  sy_sent :: "(int \<times> utext) list"
  sy_running :: bool

text \<open>What ends a process: the HTTP server or the dispatcher, whose task may have crashed, or a signal.\<close>

datatype ending =
    HttpEnded "utext + unit result"
  | TelegramEnded "utext + unit result"
  | SignalReceived

datatype event =
    Arrives update
  | Ticks job_env background_job instant
  | Stops ending
  | Restarts "utext option" "int list"

subsection \<open>Starting\<close>

text \<open>The stores of \<^verbatim>\<open>TelegramRuntime\<close> as they are built; the records of what was called and read stay.\<close>

definition fresh_process :: "bot \<Rightarrow> bot" where
  "fresh_process s = s\<lparr> b_screens := Map.empty, b_selections := Map.empty, b_links := Map.empty,
     b_sessions := Map.empty, b_interactions := Map.empty, b_nonces := Map.empty,
     b_dedup := dedup_new, b_barriers := Map.empty, b_stats_cache := None \<rparr>"

definition start_up :: "utext option \<Rightarrow> int list \<Rightarrow> (world, unit) act" where
  "start_up env_value admin_ids =
     tryA list_overrides (\<lambda>overrides.
     tryA (modify (\<lambda>w. w\<lparr> w_flags := apply_overrides overrides (from_env_and_defaults env_value) \<rparr>)) (\<lambda>_.
     tryA (bootstrap_admins admin_ids) (\<lambda>_.
     ret ())))"

definition restart :: "utext option \<Rightarrow> int list \<Rightarrow> system \<Rightarrow> system" where
  "restart env_value admin_ids s =
     (case start_up env_value admin_ids (b_world (sy_bot s)) of
        (r, w) \<Rightarrow> s\<lparr> sy_bot := (fresh_process (sy_bot s))\<lparr> b_world := w \<rparr>,
          sy_last_runs := (\<lambda>_. None), sy_running := (r = Inr ()) \<rparr>)"

text \<open>The exit of the process.\<close>

fun shutdown_result :: "ending \<Rightarrow> unit result" where
  "shutdown_result (HttpEnded r) =
     (case r of
        Inl join_error \<Rightarrow> Inl (internal ''HTTP_TASK_JOIN_FAILED'' (ascii ''HTTP server task crashed'')
          (JObj [(''error'', JStr join_error)]))
      | Inr res \<Rightarrow> res)"
| "shutdown_result (TelegramEnded r) =
     (case r of
        Inl join_error \<Rightarrow> Inl (internal ''TELEGRAM_TASK_JOIN_FAILED'' (ascii ''Telegram dispatcher crashed'')
          (JObj [(''error'', JStr join_error)]))
      | Inr res \<Rightarrow> res)"
| "shutdown_result SignalReceived = Inr ()"

subsection \<open>Running\<close>

definition work :: "job_env \<Rightarrow> background_job \<Rightarrow> system \<Rightarrow> system" where
  "work J job s =
     (let c = run_job J job \<lparr> co_world = b_world (sy_bot s), co_sent = sy_sent s \<rparr>
      in s\<lparr> sy_bot := (sy_bot s)\<lparr> b_world := co_world c \<rparr>, sy_sent := co_sent c \<rparr>)"

fun job_tick :: "scheduler_config \<Rightarrow> job_env \<Rightarrow> background_job \<Rightarrow> instant \<Rightarrow> system \<Rightarrow> system" where
  "job_tick C J (DailyJob job) now s =
     (case daily_tick (target_hour C job) (work J (DailyJob job)) now (sy_last_runs s job, s) of
        (last_run, s') \<Rightarrow> s'\<lparr> sy_last_runs := (sy_last_runs s')(job := last_run) \<rparr>)"
| "job_tick C J job now s = work J job s"

fun react :: "scheduler_config \<Rightarrow> runtime \<Rightarrow> event \<Rightarrow> system \<Rightarrow> system" where
  "react C R (Arrives u) s =
     (if sy_running s then s\<lparr> sy_bot := snd (handle_update R u (sy_bot s)) \<rparr> else s)"
| "react C R (Ticks J job now) s = (if sy_running s then job_tick C J job now s else s)"
| "react C R (Stops _) s = s\<lparr> sy_running := False \<rparr>"
| "react C R (Restarts env_value admin_ids) s = restart env_value admin_ids s"

definition run_system :: "scheduler_config \<Rightarrow> runtime \<Rightarrow> event list \<Rightarrow> system \<Rightarrow> system" where
  "run_system C R es s = fold (react C R) es s"

abbreviation database :: "system \<Rightarrow> world" where
  "database s \<equiv> b_world (sy_bot s)"

subsection \<open>Relations every event obeys\<close>

text \<open>All writes of the program: those of the panel and the bootstrap, and those of the jobs.\<close>

locale system_frame = repository_frame R + worker_frame R for R :: "world \<Rightarrow> world \<Rightarrow> bool"
begin

lemma start_up: "obeys R (start_up env_value admin_ids)"
  unfolding start_up_def list_overrides_def
  by (intro use_case_rules bootstrap_admins modify flags)

lemma restart: "R (database s) (database (restart env_value admin_ids s))"
  using obeysD[OF start_up] by (auto simp: restart_def split: prod.split)

end

context worker_frame
begin

lemma work: "R (database s) (database (work J job s))"
  using run_job[of "\<lparr> co_world = database s, co_sent = sy_sent s \<rparr>" J job] by (simp add: work_def Let_def)

lemma job_tick: "R (database s) (database (job_tick C J job now s))"
  by (cases "(C, J, job, now, s)" rule: job_tick.cases) (simp_all add: work daily_tick_def refl)

lemma tick: "R (database s) (database (react C T (Ticks J job now) s))"
  by (simp add: job_tick refl)

end

context system_frame
begin

lemma react: "R (database s) (database (react C T e s))"
proof (cases e)
  case (Arrives u)
  with handle_update[of T u] show ?thesis by (simp add: keeps_def on_world_def refl)
qed (simp_all add: job_tick restart refl)

lemma run_system: "R (database s) (database (run_system C T es s))"
  unfolding run_system_def by (induction es arbitrary: s) (auto simp: refl intro: trans[OF react])

end

subsection \<open>Nothing is erased\<close>

lemma touched_succeeds: "task_origin u = task_origin t \<Longrightarrow> u = t\<lparr> t_updated_at := now \<rparr> \<Longrightarrow> task_succeeds t u"
  by (auto simp: task_succeeds_def)

lemma ledger_jobs:
  "obeys only_grows (mark_sent i mid now)" "obeys only_grows (mark_failed i code)"
  "obeys only_grows (mark_retry_pending i later code)" "obeys only_grows (update_sla_state tid sla lvl now)"
  "obeys only_grows (record_escalation tid lvl code' detail now)" "obeys only_grows (advance_rule j now nxt now')"
  unfolding mark_sent_def mark_failed_def mark_retry_pending_def update_notification_def
    update_sla_state_def record_escalation_def advance_rule_def
  by (intro ledger_statement ledger.execute;
      simp add: only_grows_def map_identity_update notice_content_def tasks_grow_update touched_succeeds
        task_origin_def Let_def)+

interpretation ledger_system: system_frame only_grows
  by unfold_locales (simp_all add: ledger_jobs)

text \<open>C6. Nothing is erased. Over any run of the system, updates, background jobs and restarts in any
  order and whatever fails on the way, task histories, comments, SLA escalations and both audit logs are
  only appended to; no account disappears or changes its ids; no notification disappears or changes its
  type, task, recipient, text, dedupe key or time of creation; no task disappears, a task keeps its
  identifiers, its author, its original message and its time of creation for ever, and any other change
  of the columns of the task aggregate raises its version, but for the time of its last change. (The SLA
  worker writes that time and its own two columns, \<^verbatim>\<open>sla_state\<close> and \<^verbatim>\<open>sla_last_level\<close>, without a version;
  these two are no part of the aggregate, and nothing is said about them here.)\<close>

theorem nothing_is_erased: "only_grows (database s) (database (run_system C R es s))"
  by (rule ledger_system.run_system)

subsection \<open>The invariants of the database\<close>

lemma keys_jobs:
  "obeys keeps_keys (mark_sent i mid now)" "obeys keeps_keys (mark_failed i code)"
  "obeys keeps_keys (mark_retry_pending i later code)" "obeys keeps_keys (update_sla_state tid sla lvl now)"
  "obeys keeps_keys (record_escalation tid lvl code' detail now)" "obeys keeps_keys (advance_rule j now nxt now')"
proof -
  have tasks: "keeps_keys w (w\<lparr> w_side := sd, w_tasks := update_where P (\<lambda>t. t\<lparr> t_updated_at := now \<rparr>) (w_tasks w) \<rparr>)"
    for w sd P
    by (auto simp: keeps_keys_def keys_ok_def tasks_ok_def users_ok_def map_update_where_frame set_update_where)
  have side: "keeps_keys w (w\<lparr> w_side := sd \<rparr>)" for w sd by (simp add: keys_same)
  show "obeys keeps_keys (mark_sent i mid now)" "obeys keeps_keys (mark_failed i code)"
    "obeys keeps_keys (mark_retry_pending i later code)"
    unfolding mark_sent_def mark_failed_def mark_retry_pending_def update_notification_def
    by (intro keys.execute keys_of_notifications; simp add: map_identity_update)+
  show "obeys keeps_keys (update_sla_state tid sla lvl now)" "obeys keeps_keys (advance_rule j now nxt now')"
    unfolding update_sla_state_def advance_rule_def by (intro keys.execute tasks side)+
  show "obeys keeps_keys (record_escalation tid lvl code' detail now)"
    unfolding record_escalation_def by (intro keys.statement) (simp add: side keys.refl)
qed

lemma admins_jobs:
  "obeys keeps_admin (mark_sent i mid now)" "obeys keeps_admin (mark_failed i code)"
  "obeys keeps_admin (mark_retry_pending i later code)" "obeys keeps_admin (update_sla_state tid sla lvl now)"
  "obeys keeps_admin (record_escalation tid lvl code' detail now)" "obeys keeps_admin (advance_rule j now nxt now')"
  unfolding mark_sent_def mark_failed_def mark_retry_pending_def update_notification_def
    update_sla_state_def record_escalation_def advance_rule_def
  by (intro admins_same_users admins_execute; simp)+

interpretation keys_system: system_frame keeps_keys
  by unfold_locales (simp_all add: keys_jobs)

interpretation account_system: system_frame keeps_admin
  by unfold_locales (simp_all add: admins_jobs)

text \<open>C7. The database stays sound. Any run of the system, updates, background jobs and restarts in any
  order, keeps the unique keys of the tables, so a message key belongs to one task, a dedupe key to
  one notification and a Telegram id to one account, and never leaves the bot without an active
  admin.\<close>

theorem database_stays_sound:
  assumes "keys_ok (database s)"
  shows "keys_ok (database (run_system C R es s))
    \<and> (has_active_admin (database s) \<longrightarrow> has_active_admin (database (run_system C R es s)))"
  using assms keys_system.run_system[of s C R es] account_system.run_system[of s C R es]
  by (simp add: keeps_keys_def keeps_admin_def keys_ok_def)

text \<open>
  The bot of the samples satisfies the invariant. It is restarted, receives two messages and a press,
  and the scan for escalations and the overdue alerts run in between.
\<close>

lemma sample_has_admin: "has_active_admin (b_world sample_bot)"
  by (simp add: has_active_admin_def active_admin_def sample_member_def sample_admin_def
      sample_user_def sample_creator_def)

definition sample_jobs :: job_env where
  "sample_jobs = \<lparr> je_employees = Inr [sample_employee], je_telegram = (\<lambda>k _ _ _ _ _. Inr (int k)),
     je_order = rev, je_show_day = show_int, je_crates = sample_crates \<rparr>"

definition sample_scheduler :: scheduler_config where
  "sample_scheduler = \<lparr> sc_employee_sync_interval_minutes = 60,
     sc_notification_poll_interval_seconds = 30, sc_reminder_tick_seconds = 60,
     sc_daily_deadline_reminder_hour_utc = 9, sc_daily_overdue_scan_hour_utc = 10,
     sc_daily_summary_hour_utc = 8 \<rparr>"

definition sample_events :: "event list" where
  "sample_events = [Restarts None [30], Arrives (MessageUpdate (sample_typed 30 (ascii ''/start''))),
     Ticks sample_jobs SlaScan 7, Arrives (MessageUpdate (sample_typed 40 (ascii ''Ann''))),
     Ticks sample_jobs (DailyJob OverdueAlerts) (hour_starts 3 10),
     Arrives (CallbackUpdate (sample_press 30 5 (ascii ''menu:home'')))]"

definition sample_system :: system where
  "sample_system = \<lparr> sy_bot = sample_bot, sy_last_runs = (\<lambda>_. None), sy_sent = [], sy_running = False \<rparr>"

theorem database_stays_sound_witness:
  "keys_ok (database (run_system sample_scheduler sample_runtime sample_events sample_system))
   \<and> has_active_admin (database (run_system sample_scheduler sample_runtime sample_events sample_system))"
  using database_stays_sound[of sample_system sample_scheduler sample_runtime sample_events]
    sample_keys_ok sample_has_admin
  by (simp add: sample_system_def)

subsection \<open>Who can change rights\<close>

text \<open>The jobs change nobody's rights, and a start only promotes who is listed in the configuration.\<close>

lemma rights_jobs:
  "obeys keeps_rights (mark_sent i mid now)" "obeys keeps_rights (mark_failed i code)"
  "obeys keeps_rights (mark_retry_pending i later code)" "obeys keeps_rights (update_sla_state tid sla lvl now)"
  "obeys keeps_rights (record_escalation tid lvl code' detail now)" "obeys keeps_rights (advance_rule j now nxt now')"
  unfolding mark_sent_def mark_failed_def mark_retry_pending_def update_notification_def
    update_sla_state_def record_escalation_def advance_rule_def
  by (intro rights.statement rights.execute; simp add: keeps_rights_same)+

interpretation rights_workers: worker_frame keeps_rights
  by unfold_locales (simp_all add: rights_jobs)

definition promoted :: "int set \<Rightarrow> user \<Rightarrow> user \<Rightarrow> bool" where
  "promoted ids u v \<longleftrightarrow> account_rights v = account_rights u
     \<or> account_identity v = account_identity u \<and> u_telegram_id u \<in> ids
       \<and> u_role u \<noteq> Admin \<and> u_role v = Admin \<and> u_deactivated_at v = None"

definition listed_only :: "int set \<Rightarrow> world \<Rightarrow> world \<Rightarrow> bool" where
  "listed_only ids w w' \<longleftrightarrow> (users_ok w \<longrightarrow> list_all2 (promoted ids) (w_users w) (w_users w'))"

lemma promoted_refl [simp]: "promoted ids u u"
  by (simp add: promoted_def)

lemma promoted_identity: "promoted ids u v \<Longrightarrow> account_identity v = account_identity u"
  by (auto simp: promoted_def account_rights_def account_identity_def)

lemma promoted_trans: "promoted ids u v \<Longrightarrow> promoted ids v w \<Longrightarrow> promoted ids u w"
  by (auto simp: promoted_def account_rights_def account_identity_def)

lemma users_ok_promoted:
  assumes "users_ok w" "list_all2 (promoted ids) (w_users w) (w_users w')"
  shows "users_ok w'"
proof -
  have same: "map account_identity (w_users w') = map account_identity (w_users w)"
    using assms(2) by (induction rule: list_all2_induct) (simp_all add: promoted_identity)
  have keys: "map u_id us = map fst (map account_identity us)"
    "map u_telegram_id us = map snd (map account_identity us)"
    "(\<forall>u \<in> set us. u_id u \<noteq> None) \<longleftrightarrow> None \<notin> set (map fst (map account_identity us))" for us
    by (auto simp: account_identity_def image_iff) (metis option.exhaust)
  show ?thesis using assms(1) unfolding users_ok_def keys same .
qed

interpretation listed: store_frame "listed_only ids" for ids
proof unfold_locales
  show "listed_only ids s u" if "listed_only ids s t" "listed_only ids t u" for s t u :: world
    using that users_ok_promoted list_all2_trans[of "promoted ids" "promoted ids" "promoted ids"]
    by (fastforce simp: listed_only_def intro: promoted_trans)
qed (simp_all add: listed_only_def bookkeeping_free_def list_all2_refl)

lemma listed_same_users: "w_users w' = w_users w \<Longrightarrow> listed_only ids w w'"
  by (simp add: listed_only_def list_all2_refl)

lemma listed_promote:
  assumes "tg \<in> ids"
  shows "obeys (listed_only ids) (promote_bootstrap_admin tg now)"
proof (rule obeysI)
  fix w :: world
  let ?up = "\<lambda>r. r\<lparr> u_role := Admin, u_deactivated_at := None, u_updated_at := now \<rparr>"
  let ?rest = "\<lambda>u. tryA (update_user_returning (\<lambda>r. u_id r = u_id u) ?up)
     (\<lambda>row. tryA (lift (ok_or no_row_error row)) (\<lambda>elevated. ret (Some (Elevated elevated))))"
  obtain r w1 where found: "find_by_telegram_id tg w = (r, w1)" by fastforce
  have same: "w_users w1 = w_users w"
    using found by (cases r) (auto simp: find_by_telegram_id_def select_Inr dest!: select_Inl)
  have rest: "listed_only ids w1 (snd (?rest u w1))" if u: "find (\<lambda>x. u_telegram_id x = tg) (w_users w1) = Some u" "u_role u \<noteq> Admin" for u
  proof -
    have member: "u \<in> set (w_users w1)" "u_telegram_id u = tg" using u(1) by (auto simp: find_Some_iff)
    have "promoted ids x (if u_id x = u_id u then ?up x else x)" if "users_ok w1" "x \<in> set (w_users w1)" for x
    proof (cases "u_id x = u_id u")
      case True
      with that member have "x = u" by (auto simp: users_ok_def distinct_map inj_on_def)
      with member assms u(2) show ?thesis by (simp add: promoted_def account_identity_def)
    qed simp
    then have step: "listed_only ids w1 (w1\<lparr> w_faults := f,
        w_users := update_where (\<lambda>r. u_id r = u_id u) ?up (w_users w1) \<rparr>)" for f
      by (auto simp: listed_only_def update_where_def list_all2_conv_all_nth)
    obtain q w2 where upd: "update_user_returning (\<lambda>r. u_id r = u_id u) ?up w1 = (q, w2)" by fastforce
    have "listed_only ids w1 w2"
      using upd step listed_same_users
      by (cases q) (auto simp: update_user_returning_def statement_Inr dest!: statement_Inl)
    moreover have "snd (?rest u w1) = w2"
      using upd by (cases q) (auto simp: tryA_def ret_def lift_def split: sum.split)
    ultimately show ?thesis by simp
  qed
  have "listed_only ids w1 (snd (promote_bootstrap_admin tg now w))"
  proof (cases r)
    case (Inl e)
    with found show ?thesis by (simp add: promote_bootstrap_admin_def tryA_def listed.refl)
  next
    case (Inr existing)
    then have "existing = find (\<lambda>u. u_telegram_id u = tg) (w_users w1)"
      using found by (simp add: find_by_telegram_id_def select_Inr)
    with found Inr rest show ?thesis
      by (auto simp: promote_bootstrap_admin_def tryA_def[of "find_by_telegram_id tg"] ret_def listed.refl
          split: option.split)
  qed
  then show "listed_only ids w (snd (promote_bootstrap_admin tg now w))"
    using listed.trans[OF listed_same_users[OF same]] by simp
qed

lemma listed_start_up: "obeys (listed_only (set ids)) (start_up env_value ids)"
proof -
  have audit: "obeys (listed_only I) (emit_audit entry)" for I entry
    unfolding emit_audit_def append_admin_audit_def
    by (intro listed.store_rules listed.statement) (simp add: Let_def listed_same_users)
  have one: "obeys (listed_only I) (promote_one now s tg)" if "tg \<in> I" for I now s tg
    unfolding promote_one_def
    by (auto intro!: listed.store_rules listed_promote[OF that] audit
        split: sum.split option.split bootstrap_promotion.split)
  have "obeys (listed_only I) (foldA (promote_one now) s tgs)" if "set tgs \<subseteq> I" for I now s tgs
    using that by (induction tgs arbitrary: s) (auto intro!: listed.tryA listed.ret one)
  then have "obeys (listed_only (set ids)) (bootstrap_admins ids)"
    unfolding bootstrap_admins_def Let_def by (auto intro!: listed.tryA listed.ret listed.now_utc)
  then show ?thesis
    unfolding start_up_def list_overrides_def
    by (intro listed.store_rules listed.modify listed_same_users) simp_all
qed

text \<open>On a database that answers, everybody listed who has an account is an administrator afterwards.\<close>

lemma start_up_settles:
  assumes "w_faults w = []" "users_ok w" "links_ok w"
  shows "\<exists>w'. start_up env_value ids w = (Inr (), w')
    \<and> (\<forall>u \<in> set (w_users w'). u_telegram_id u \<in> set ids \<longrightarrow> u_role u = Admin)"
proof -
  let ?w = "w\<lparr> w_flags := apply_overrides (read_overrides (w_flag_overrides w)) (from_env_and_defaults env_value) \<rparr>"
  have "Admin_Use_Cases.settled {} (?w\<lparr> w_ticks := Suc (w_ticks w) \<rparr>)"
    using assms by (simp add: Admin_Use_Cases.settled_def users_ok_def links_ok_def)
  from promote_all_settles[OF this, of "env_clock (w_env w) (w_ticks w)" _ ids]
  obtain summary w1 where "bootstrap_admins ids ?w = (Inr summary, w1)"
    "\<forall>u \<in> set (w_users w1). u_telegram_id u \<in> set ids \<longrightarrow> u_role u = Admin"
    by (cases "ids = []")
       (fastforce simp: bootstrap_admins_def Let_def tryA_def ret_def now_utc_def Admin_Use_Cases.settled_def)+
  with assms(1) show ?thesis
    by (simp add: start_up_def list_overrides_def tryA_def select_no_faults modify_def ret_def)
qed

lemma restart_listed:
  assumes "users_ok (database s)"
  shows "list_all2 (promoted (set ids)) (w_users (database s)) (w_users (database (restart env_value ids s)))"
  using obeysD[OF listed_start_up[of ids env_value], of "database s"] assms
  by (auto simp: restart_def listed_only_def split: prod.split)

lemma restart_settles:
  assumes "users_ok (database s)" "w_faults (database s) = []" "links_ok (database s)"
    "u \<in> set (w_users (database (restart env_value ids s)))" "u_telegram_id u \<in> set ids"
  shows "u_role u = Admin"
  using start_up_settles[OF assms(2,1,3), of env_value ids] assms(4,5) by (auto simp: restart_def)

text \<open>C5. Rights change by a live confirmation or by the configuration. In a database whose accounts
  have distinct ids and Telegram ids, whatever arrives and whatever the API and the database answer,
  an update, a tick of a job or a stop leaves the role and the deactivation of every existing account
  as they are, unless it is a press of a confirmation button whose nonce is still in the store of
  pending admin actions. A start of the process changes the rights of nobody but accounts whose
  Telegram id is configured and who were no administrators, and these changes make them active
  administrators; no account appears or disappears. If moreover the database answers and its links
  to employees are sound, after the start every account whose Telegram id is configured has the role
  of an administrator. (A statement that fails during the start is only logged, so then some of them
  may keep their role; a listed administrator who was deactivated stays deactivated; and nothing
  promotes a listed person who registers later, whatever the comments in the bootstrap and the
  configuration say: that waits for the next start.)\<close>

theorem rights_change_by_confirmation_only:
  assumes "users_ok (database s)"
  shows "case e of
      Restarts env_value ids \<Rightarrow>
        list_all2 (promoted (set ids)) (w_users (database s)) (w_users (database (react C R e s)))
        \<and> (w_faults (database s) = [] \<and> links_ok (database s) \<longrightarrow>
            (\<forall>u \<in> set (w_users (database (react C R e s))). u_telegram_id u \<in> set ids \<longrightarrow> u_role u = Admin))
    | Arrives update \<Rightarrow>
        keeps_rights (database s) (database (react C R e s))
        \<or> (\<exists>nonce entry. confirmed_nonce R update = Some nonce \<and> b_nonces (sy_bot s) nonce = Some entry)
    | _ \<Rightarrow> keeps_rights (database s) (database (react C R e s))"
proof (cases e)
  case (Arrives u)
  with rights_of_update[of "sy_bot s" R u] show ?thesis by (auto simp: rights.refl)
next
  case (Restarts env_value ids)
  with restart_listed[OF assms] restart_settles[OF assms] show ?thesis by auto
qed (simp_all add: rights_workers.job_tick rights.refl)

text \<open>The bot of the samples, started with its user 10 in the list: the account becomes an administrator.\<close>

theorem rights_change_by_confirmation_only_witness:
  "map u_role (filter (\<lambda>u. u_telegram_id u = 10)
     (w_users (database (react sample_scheduler sample_runtime (Restarts None [10]) sample_system)))) = [Admin]"
proof -
  let ?users = "w_users (database (react sample_scheduler sample_runtime (Restarts None [10]) sample_system))"
  have "users_ok (database sample_system)"
    using sample_keys_ok by (simp add: keys_ok_def sample_system_def)
  moreover have "w_faults (database sample_system) = []" "links_ok (database sample_system)"
    by (simp_all add: sample_system_def sample_bot_def sample_world_def links_ok_def references_def
        sample_user_def sample_creator_def sample_member_def sample_admin_def)
  ultimately have "list_all2 (promoted {10}) (w_users (database sample_system)) ?users"
    and listed: "list_all (\<lambda>u. u_telegram_id u = 10 \<longrightarrow> u_role u = Admin) ?users"
    using rights_change_by_confirmation_only[of sample_system sample_scheduler sample_runtime "Restarts None [10]"]
    by (simp_all add: list_all_iff)
  then have "map u_telegram_id ?users = map u_telegram_id [sample_creator, sample_user, sample_member]"
    by (auto simp: sample_system_def sample_bot_def list_all2_Cons1 promoted_def account_rights_def account_identity_def)
  then obtain a b c where "?users = [a, b, c]" "u_telegram_id a = 10" "u_telegram_id b \<noteq> 10" "u_telegram_id c \<noteq> 10"
    by (auto simp: sample_user_def sample_creator_def sample_member_def map_eq_Cons_conv)
  with listed show ?thesis by simp
qed

end
