(* ===== verification/Rows.thy ===== *)
theory Rows
  imports Task_Repo Record_Repos Samples
begin

section \<open>Rows and records\<close>

text \<open>
  The row structs of \<^verbatim>\<open>src/infrastructure/db/models.rs\<close>, one field per column, their conversions into
  domain records, and what the \<^verbatim>\<open>INSERT\<close> and \<^verbatim>\<open>UPDATE\<close> statements of the repositories bind. The store
  of the model (\<open>world\<close>) holds the records; here is why it may: reading back what was written gives the
  record, and writing the columns of an update and reading the row is the update of the record.

  How the \<^verbatim>\<open>uuid\<close> and \<^verbatim>\<open>serde_json\<close> crates print and parse is the argument \<open>F\<close>; printing a list of
  strings or a JSON value does not fail. That a text is parsed back is a hypothesis about the texts
  of the record at hand.
\<close>

record row_formats =
  rf_uuid_text :: "uuid \<Rightarrow> utext"
  rf_parse_uuid :: "utext \<Rightarrow> utext + uuid"
  rf_strings_text :: "utext list \<Rightarrow> utext"
  rf_parse_strings :: "utext \<Rightarrow> utext + utext list"
  rf_json_text :: "json \<Rightarrow> utext"
  rf_parse_json :: "utext \<Rightarrow> utext + json"

subsection \<open>The rows\<close>

record user_row =
  ur_id :: row_id
  ur_telegram_id :: int
  ur_last_chat_id :: "int option"
  ur_telegram_username :: "utext option"
  ur_full_name :: "utext option"
  ur_first_name :: "utext option"
  ur_last_name :: "utext option"
  ur_linked_employee_id :: "row_id option"
  ur_is_employee :: int
  ur_role :: string
  ur_onboarding_state :: "string option"
  ur_onboarding_version :: int
  ur_timezone :: utext
  ur_quiet_hours_start_min :: int
  ur_quiet_hours_end_min :: int
  ur_deactivated_at :: "instant option"
  ur_created_at :: instant
  ur_updated_at :: instant

record employee_row =
  er_id :: row_id
  er_full_name :: utext
  er_telegram_username :: "utext option"
  er_email :: "utext option"
  er_phone :: "utext option"
  er_department :: "utext option"
  er_is_active :: int
  er_synced_at :: "instant option"
  er_created_at :: instant
  er_updated_at :: instant

record task_row =
  tr_id :: row_id
  tr_task_uid :: utext
  tr_version :: int
  tr_source_message_key :: utext
  tr_created_by_user_id :: row_id
  tr_assigned_to_user_id :: "row_id option"
  tr_assigned_to_employee_id :: "row_id option"
  tr_title :: utext
  tr_description :: utext
  tr_acceptance_criteria :: utext
  tr_expected_result :: utext
  tr_deadline :: "day option"
  tr_deadline_raw :: "utext option"
  tr_original_message :: utext
  tr_message_type :: string
  tr_ai_model_used :: utext
  tr_ai_response_raw :: utext
  tr_status :: string
  tr_priority :: string
  tr_blocked_reason :: "utext option"
  tr_telegram_chat_id :: int
  tr_telegram_message_id :: int
  tr_telegram_task_message_id :: "int option"
  tr_tags :: utext
  tr_created_at :: instant
  tr_sent_at :: "instant option"
  tr_started_at :: "instant option"
  tr_blocked_at :: "instant option"
  tr_review_requested_at :: "instant option"
  tr_completed_at :: "instant option"
  tr_cancelled_at :: "instant option"
  tr_updated_at :: instant

record notification_row =
  nr_id :: row_id
  nr_task_id :: "row_id option"
  nr_recipient_user_id :: row_id
  nr_notification_type :: string
  nr_message :: utext
  nr_dedupe_key :: utext
  nr_telegram_message_id :: "int option"
  nr_delivery_state :: string
  nr_is_sent :: int
  nr_is_read :: int
  nr_attempt_count :: int
  nr_sent_at :: "instant option"
  nr_read_at :: "instant option"
  nr_next_attempt_at :: "instant option"
  nr_last_error_code :: "string option"
  nr_created_at :: instant

record audit_log_row =
  ar_id :: row_id
  ar_task_id :: row_id
  ar_action :: string
  ar_old_status :: "string option"
  ar_new_status :: "string option"
  ar_changed_by_user_id :: "row_id option"
  ar_metadata :: utext
  ar_created_at :: instant

record comment_row =
  cr_id :: row_id
  cr_task_id :: row_id
  cr_author_user_id :: row_id
  cr_kind :: string
  cr_body :: utext
  cr_created_at :: instant

record admin_audit_log_row =
  aar_id :: row_id
  aar_actor_user_id :: "row_id option"
  aar_target_user_id :: "row_id option"
  aar_action_code :: string
  aar_metadata :: utext
  aar_created_at :: instant

record security_audit_log_row =
  sar_id :: row_id
  sar_actor_user_id :: "row_id option"
  sar_telegram_id :: "int option"
  sar_event_code :: string
  sar_metadata :: utext
  sar_created_at :: instant

subsection \<open>Reading\<close>

definition invalid_text :: "string \<Rightarrow> utext \<Rightarrow> app_error" where
  "invalid_text field raw =
     internal ''DATABASE_ROW_INVALID'' (ascii ''Database row contains an invalid value'')
       (JObj [(''field'', jstr field), (''raw'', JStr raw)])"

lemma invalid_row_text: "invalid_row field raw = invalid_text field (ascii raw)"
  by (simp add: invalid_row_def invalid_text_def jstr_def)

definition parsed :: "string \<Rightarrow> utext + 'a \<Rightarrow> 'a result" where
  "parsed field r = (case r of Inl e \<Rightarrow> Inl (invalid_text field e) | Inr x \<Rightarrow> Inr x)"

definition parse_json_array :: "row_formats \<Rightarrow> utext \<Rightarrow> string \<Rightarrow> utext list result" where
  "parse_json_array F payload field = parsed field (rf_parse_strings F payload)"

text \<open>\<^verbatim>\<open>value as i32\<close> keeps the low 32 bits.\<close>

definition as_i32 :: "int \<Rightarrow> int" where
  "as_i32 i = sint (word_of_int i :: 32 word)"

definition user_of_row :: "user_row \<Rightarrow> user result" where
  "user_of_row row =
    tryR (parse_user_role (ur_role row)) (\<lambda>role.
    Inr \<lparr> u_id = Some (ur_id row), u_telegram_id = ur_telegram_id row,
      u_last_chat_id = ur_last_chat_id row, u_telegram_username = ur_telegram_username row,
      u_full_name = ur_full_name row, u_first_name = ur_first_name row,
      u_last_name = ur_last_name row, u_linked_employee_id = ur_linked_employee_id row,
      u_is_employee = i64_as_bool (ur_is_employee row), u_role = role,
      u_onboarding_state = onboarding_from_storage (ur_onboarding_state row),
      u_onboarding_version = ur_onboarding_version row, u_timezone = ur_timezone row,
      u_quiet_hours_start_min = as_i32 (ur_quiet_hours_start_min row),
      u_quiet_hours_end_min = as_i32 (ur_quiet_hours_end_min row),
      u_deactivated_at = ur_deactivated_at row, u_created_at = ur_created_at row,
      u_updated_at = ur_updated_at row \<rparr>)"

definition employee_of_row :: "employee_row \<Rightarrow> employee" where
  "employee_of_row row =
    \<lparr> e_id = Some (er_id row), e_full_name = er_full_name row,
      e_telegram_username = er_telegram_username row, e_email = er_email row,
      e_phone = er_phone row, e_department = er_department row,
      e_is_active = i64_as_bool (er_is_active row), e_synced_at = er_synced_at row,
      e_created_at = er_created_at row, e_updated_at = er_updated_at row \<rparr>"

definition task_of_row :: "row_formats \<Rightarrow> task_row \<Rightarrow> task result" where
  "task_of_row F row =
    tryR (parsed ''task_uid'' (rf_parse_uuid F (tr_task_uid row))) (\<lambda>uid.
    tryR (parse_json_array F (tr_acceptance_criteria row) ''acceptance_criteria'') (\<lambda>criteria.
    tryR (parse_message_type (tr_message_type row)) (\<lambda>mtype.
    tryR (parse_task_status (tr_status row)) (\<lambda>st.
    tryR (parse_task_priority (tr_priority row)) (\<lambda>priority.
    tryR (parse_json_array F (tr_tags row) ''tags'') (\<lambda>tags.
    Inr \<lparr> t_id = Some (tr_id row), t_task_uid = uid, t_version = tr_version row,
      t_source_message_key = tr_source_message_key row,
      t_created_by_user_id = tr_created_by_user_id row,
      t_assigned_to_user_id = tr_assigned_to_user_id row,
      t_assigned_to_employee_id = tr_assigned_to_employee_id row, t_title = tr_title row,
      t_description = tr_description row, t_acceptance_criteria = criteria,
      t_expected_result = tr_expected_result row, t_deadline = tr_deadline row,
      t_deadline_raw = tr_deadline_raw row, t_original_message = tr_original_message row,
      t_message_type = mtype, t_ai_model_used = tr_ai_model_used row,
      t_ai_response_raw = tr_ai_response_raw row, t_status = st, t_priority = priority,
      t_blocked_reason = tr_blocked_reason row, t_telegram_chat_id = tr_telegram_chat_id row,
      t_telegram_message_id = tr_telegram_message_id row,
      t_telegram_task_message_id = tr_telegram_task_message_id row, t_tags = tags,
      t_created_at = tr_created_at row, t_sent_at = tr_sent_at row,
      t_started_at = tr_started_at row, t_blocked_at = tr_blocked_at row,
      t_review_requested_at = tr_review_requested_at row, t_completed_at = tr_completed_at row,
      t_cancelled_at = tr_cancelled_at row, t_updated_at = tr_updated_at row \<rparr>))))))"

definition notification_of_row :: "notification_row \<Rightarrow> notification result" where
  "notification_of_row row =
    tryR (parse_notification_type (nr_notification_type row)) (\<lambda>ntype.
    tryR (parse_delivery_state (nr_delivery_state row)) (\<lambda>st.
    Inr \<lparr> n_id = Some (nr_id row), n_task_id = nr_task_id row,
      n_recipient_user_id = nr_recipient_user_id row, n_notification_type = ntype,
      n_message = nr_message row, n_dedupe_key = nr_dedupe_key row,
      n_telegram_message_id = nr_telegram_message_id row, n_delivery_state = st,
      n_is_sent = i64_as_bool (nr_is_sent row), n_is_read = i64_as_bool (nr_is_read row),
      n_attempt_count = nr_attempt_count row, n_sent_at = nr_sent_at row,
      n_read_at = nr_read_at row, n_next_attempt_at = nr_next_attempt_at row,
      n_last_error_code = nr_last_error_code row, n_created_at = nr_created_at row \<rparr>))"

definition audit_of_row :: "row_formats \<Rightarrow> audit_log_row \<Rightarrow> audit_entry result" where
  "audit_of_row F row =
    tryR (parse_audit_action (ar_action row)) (\<lambda>action.
    tryR (parsed ''metadata'' (rf_parse_json F (ar_metadata row))) (\<lambda>metadata.
    Inr \<lparr> al_id = Some (ar_id row), al_task_id = ar_task_id row, al_action = action,
      al_old_status = ar_old_status row, al_new_status = ar_new_status row,
      al_changed_by_user_id = ar_changed_by_user_id row, al_metadata = metadata,
      al_created_at = ar_created_at row \<rparr>))"

definition comment_of_row :: "comment_row \<Rightarrow> task_comment result" where
  "comment_of_row row =
    tryR (parse_comment_kind (cr_kind row)) (\<lambda>kind.
    Inr \<lparr> c_id = Some (cr_id row), c_task_id = cr_task_id row,
      c_author_user_id = cr_author_user_id row, c_kind = kind, c_body = cr_body row,
      c_created_at = cr_created_at row \<rparr>)"

definition admin_audit_of_row :: "row_formats \<Rightarrow> admin_audit_log_row \<Rightarrow> admin_audit_entry result" where
  "admin_audit_of_row F row =
    tryR (parse_audit_action_code (aar_action_code row)) (\<lambda>code.
    tryR (parsed ''metadata'' (rf_parse_json F (aar_metadata row))) (\<lambda>metadata.
    Inr \<lparr> aa_id = Some (aar_id row), aa_actor_user_id = aar_actor_user_id row,
      aa_target_user_id = aar_target_user_id row, aa_action_code = code, aa_metadata = metadata,
      aa_created_at = aar_created_at row \<rparr>))"

definition security_audit_of_row ::
  "row_formats \<Rightarrow> security_audit_log_row \<Rightarrow> security_audit_entry result" where
  "security_audit_of_row F row =
    tryR (parse_audit_action_code (sar_event_code row)) (\<lambda>code.
    tryR (parsed ''metadata'' (rf_parse_json F (sar_metadata row))) (\<lambda>metadata.
    Inr \<lparr> sa_id = Some (sar_id row), sa_actor_user_id = sar_actor_user_id row,
      sa_telegram_id = sar_telegram_id row, sa_event_code = code, sa_metadata = metadata,
      sa_created_at = sar_created_at row \<rparr>))"

subsection \<open>Writing\<close>

text \<open>The row an insertion stores under the identity \<open>i\<close>.\<close>

definition task_insert :: "row_formats \<Rightarrow> row_id \<Rightarrow> task \<Rightarrow> task_row" where
  "task_insert F i t =
    \<lparr> tr_id = i, tr_task_uid = rf_uuid_text F (t_task_uid t), tr_version = t_version t,
      tr_source_message_key = t_source_message_key t,
      tr_created_by_user_id = t_created_by_user_id t,
      tr_assigned_to_user_id = t_assigned_to_user_id t,
      tr_assigned_to_employee_id = t_assigned_to_employee_id t, tr_title = t_title t,
      tr_description = t_description t,
      tr_acceptance_criteria = rf_strings_text F (t_acceptance_criteria t),
      tr_expected_result = t_expected_result t, tr_deadline = t_deadline t,
      tr_deadline_raw = t_deadline_raw t, tr_original_message = t_original_message t,
      tr_message_type = message_type_to_db (t_message_type t),
      tr_ai_model_used = t_ai_model_used t, tr_ai_response_raw = t_ai_response_raw t,
      tr_status = task_status_to_db (t_status t),
      tr_priority = task_priority_to_db (t_priority t), tr_blocked_reason = t_blocked_reason t,
      tr_telegram_chat_id = t_telegram_chat_id t,
      tr_telegram_message_id = t_telegram_message_id t,
      tr_telegram_task_message_id = t_telegram_task_message_id t,
      tr_tags = rf_strings_text F (t_tags t), tr_created_at = t_created_at t,
      tr_sent_at = t_sent_at t, tr_started_at = t_started_at t, tr_blocked_at = t_blocked_at t,
      tr_review_requested_at = t_review_requested_at t, tr_completed_at = t_completed_at t,
      tr_cancelled_at = t_cancelled_at t, tr_updated_at = t_updated_at t \<rparr>"

definition task_update :: "row_formats \<Rightarrow> task \<Rightarrow> task_row \<Rightarrow> task_row" where
  "task_update F t row = row\<lparr>
      tr_assigned_to_user_id := t_assigned_to_user_id t,
      tr_assigned_to_employee_id := t_assigned_to_employee_id t, tr_title := t_title t,
      tr_description := t_description t,
      tr_acceptance_criteria := rf_strings_text F (t_acceptance_criteria t),
      tr_expected_result := t_expected_result t, tr_deadline := t_deadline t,
      tr_deadline_raw := t_deadline_raw t, tr_status := task_status_to_db (t_status t),
      tr_priority := task_priority_to_db (t_priority t), tr_blocked_reason := t_blocked_reason t,
      tr_telegram_task_message_id := t_telegram_task_message_id t, tr_sent_at := t_sent_at t,
      tr_started_at := t_started_at t, tr_blocked_at := t_blocked_at t,
      tr_review_requested_at := t_review_requested_at t, tr_completed_at := t_completed_at t,
      tr_cancelled_at := t_cancelled_at t, tr_updated_at := t_updated_at t,
      tr_version := t_version t \<rparr>"

definition notification_insert :: "row_id \<Rightarrow> notification \<Rightarrow> notification_row" where
  "notification_insert i n =
    \<lparr> nr_id = i, nr_task_id = n_task_id n, nr_recipient_user_id = n_recipient_user_id n,
      nr_notification_type = notification_type_to_db (n_notification_type n),
      nr_message = n_message n, nr_dedupe_key = n_dedupe_key n,
      nr_telegram_message_id = n_telegram_message_id n,
      nr_delivery_state = delivery_state_to_db (n_delivery_state n),
      nr_is_sent = bool_as_i64 (n_is_sent n), nr_is_read = bool_as_i64 (n_is_read n),
      nr_attempt_count = n_attempt_count n, nr_sent_at = n_sent_at n, nr_read_at = n_read_at n,
      nr_next_attempt_at = n_next_attempt_at n, nr_last_error_code = n_last_error_code n,
      nr_created_at = n_created_at n \<rparr>"

definition audit_insert :: "row_formats \<Rightarrow> row_id \<Rightarrow> audit_entry \<Rightarrow> audit_log_row" where
  "audit_insert F i a =
    \<lparr> ar_id = i, ar_task_id = al_task_id a, ar_action = audit_action_to_db (al_action a),
      ar_old_status = al_old_status a, ar_new_status = al_new_status a,
      ar_changed_by_user_id = al_changed_by_user_id a,
      ar_metadata = rf_json_text F (al_metadata a), ar_created_at = al_created_at a \<rparr>"

definition comment_insert :: "row_id \<Rightarrow> task_comment \<Rightarrow> comment_row" where
  "comment_insert i c =
    \<lparr> cr_id = i, cr_task_id = c_task_id c, cr_author_user_id = c_author_user_id c,
      cr_kind = comment_kind_to_db (c_kind c), cr_body = c_body c, cr_created_at = c_created_at c \<rparr>"

definition admin_audit_insert :: "row_formats \<Rightarrow> row_id \<Rightarrow> admin_audit_entry \<Rightarrow> admin_audit_log_row" where
  "admin_audit_insert F i a =
    \<lparr> aar_id = i, aar_actor_user_id = aa_actor_user_id a,
      aar_target_user_id = aa_target_user_id a, aar_action_code = as_code (aa_action_code a),
      aar_metadata = rf_json_text F (aa_metadata a), aar_created_at = aa_created_at a \<rparr>"

definition security_audit_insert ::
  "row_formats \<Rightarrow> row_id \<Rightarrow> security_audit_entry \<Rightarrow> security_audit_log_row" where
  "security_audit_insert F i a =
    \<lparr> sar_id = i, sar_actor_user_id = sa_actor_user_id a, sar_telegram_id = sa_telegram_id a,
      sar_event_code = as_code (sa_event_code a), sar_metadata = rf_json_text F (sa_metadata a),
      sar_created_at = sa_created_at a \<rparr>"

subsection \<open>What is written is read back\<close>

lemmas reads_back = parse_user_role_iff parse_task_status_iff parse_task_priority_iff
  parse_message_type_iff parse_notification_type_iff parse_delivery_state_iff
  parse_audit_action_iff parse_comment_kind_iff parse_audit_action_code_iff

lemma enums_read_back [simp]:
  "parse_task_status (task_status_to_db s) = Inr s"
  "parse_task_priority (task_priority_to_db p) = Inr p"
  "parse_message_type (message_type_to_db m) = Inr m"
  "parse_notification_type (notification_type_to_db n) = Inr n"
  "parse_delivery_state (delivery_state_to_db d) = Inr d"
  "parse_audit_action (audit_action_to_db a) = Inr a"
  "parse_comment_kind (comment_kind_to_db k) = Inr k"
  "parse_audit_action_code (as_code c) = Inr c"
  by (simp_all add: reads_back)

definition texts_ok :: "row_formats \<Rightarrow> task \<Rightarrow> bool" where
  "texts_ok F t \<longleftrightarrow>
     rf_parse_uuid F (rf_uuid_text F (t_task_uid t)) = Inr (t_task_uid t)
     \<and> rf_parse_strings F (rf_strings_text F (t_acceptance_criteria t)) = Inr (t_acceptance_criteria t)
     \<and> rf_parse_strings F (rf_strings_text F (t_tags t)) = Inr (t_tags t)"

definition metadata_ok :: "row_formats \<Rightarrow> json \<Rightarrow> bool" where
  "metadata_ok F m \<longleftrightarrow> rf_parse_json F (rf_json_text F m) = Inr m"

lemma task_read_back: "texts_ok F t \<Longrightarrow> task_of_row F (task_insert F i t) = Inr (t\<lparr> t_id := Some i \<rparr>)"
  by (simp add: task_of_row_def task_insert_def texts_ok_def parse_json_array_def parsed_def)

lemma notification_read_back:
  "notification_of_row (notification_insert i n) = Inr (n\<lparr> n_id := Some i \<rparr>)"
  by (simp add: notification_of_row_def notification_insert_def)

lemma comment_read_back: "comment_of_row (comment_insert i c) = Inr (c\<lparr> c_id := Some i \<rparr>)"
  by (simp add: comment_of_row_def comment_insert_def)

lemma logs_read_back:
  "metadata_ok F (al_metadata a) \<Longrightarrow> audit_of_row F (audit_insert F i a) = Inr (a\<lparr> al_id := Some i \<rparr>)"
  "metadata_ok F (aa_metadata b) \<Longrightarrow>
     admin_audit_of_row F (admin_audit_insert F i b) = Inr (b\<lparr> aa_id := Some i \<rparr>)"
  "metadata_ok F (sa_metadata e) \<Longrightarrow>
     security_audit_of_row F (security_audit_insert F i e) = Inr (e\<lparr> sa_id := Some i \<rparr>)"
  by (simp_all add: audit_of_row_def audit_insert_def admin_audit_of_row_def admin_audit_insert_def
      security_audit_of_row_def security_audit_insert_def metadata_ok_def parsed_def)

text \<open>
  The statement \<^verbatim>\<open>UPDATE tasks ... WHERE task_uid = ? AND version = ?\<close> on the rows of the table, and what it
  means for a table to hold a list of records: every row reads as its record, under the printed form
  of its identifier.
\<close>

definition task_row_matches :: "row_formats \<Rightarrow> task \<Rightarrow> task_row \<Rightarrow> bool" where
  "task_row_matches F t row \<longleftrightarrow>
     tr_task_uid row = rf_uuid_text F (t_task_uid t) \<and> tr_version row = t_version t - 1"

definition update_rows :: "row_formats \<Rightarrow> task \<Rightarrow> task_row list \<Rightarrow> task_row list" where
  "update_rows F t rows = update_where (task_row_matches F t) (task_update F t) rows"

definition holds_task :: "row_formats \<Rightarrow> task_row \<Rightarrow> task \<Rightarrow> bool" where
  "holds_task F row t \<longleftrightarrow>
     task_of_row F row = Inr t \<and> tr_task_uid row = rf_uuid_text F (t_task_uid t)"

definition holds_tasks :: "row_formats \<Rightarrow> task_row list \<Rightarrow> task list \<Rightarrow> bool" where
  "holds_tasks F rows ts \<longleftrightarrow> list_all2 (holds_task F) rows ts"

lemma task_uid_columns [simp]:
  "tr_task_uid (task_insert F i t) = rf_uuid_text F (t_task_uid t)"
  "tr_task_uid (task_update F t row) = tr_task_uid row"
  by (simp_all add: task_insert_def task_update_def)

lemma write_columns_uid [simp]: "t_task_uid (write_columns t r) = t_task_uid r"
  by (simp add: write_columns_def)

lemma task_of_row_Inr:
  "task_of_row F row = Inr t \<Longrightarrow> rf_parse_uuid F (tr_task_uid row) = Inr (t_task_uid t) \<and> tr_version row = t_version t"
  by (auto simp: task_of_row_def tryR_eq_Inr parsed_def split: sum.splits)

lemma update_read_back:
  assumes "texts_ok F t" "task_of_row F row = Inr stored"
  shows "task_of_row F (task_update F t row) = Inr (write_columns t stored)"
  using assms
  by (auto simp: task_of_row_def task_update_def write_columns_def texts_ok_def parse_json_array_def parsed_def
      tryR_eq_Inr split: sum.splits)

lemma matches_alike:
  assumes "texts_ok F t" "holds_task F row stored"
  shows "task_row_matches F t row \<longleftrightarrow> update_matches t stored"
  using assms task_of_row_Inr[of F row stored]
  by (auto simp: task_row_matches_def update_matches_def holds_task_def texts_ok_def)

text \<open>C10. The tables implement the store of decoded records. If a table of tasks holds a list of records
  and the texts of a task are parsed back, then after the \<^verbatim>\<open>UPDATE\<close> of the task the table holds the list
  in which the records of its identifier and previous version have the new columns, and after its
  \<^verbatim>\<open>INSERT\<close> the table holds the list with the task at the end.\<close>

theorem tables_implement_records:
  assumes "holds_tasks F rows ts" "texts_ok F t"
  shows "holds_tasks F (update_rows F t rows) (update_where (update_matches t) (write_columns t) ts)
    \<and> holds_tasks F (rows @ [task_insert F i t]) (ts @ [t\<lparr> t_id := Some i \<rparr>])"
proof
  have one: "holds_task F (if task_row_matches F t row then task_update F t row else row)
      (if update_matches t stored then write_columns t stored else stored)"
    if "holds_task F row stored" for row stored
    using that matches_alike[OF assms(2) that] update_read_back[OF assms(2)]
    by (auto simp: holds_task_def)
  show "holds_tasks F (update_rows F t rows) (update_where (update_matches t) (write_columns t) ts)"
    unfolding holds_tasks_def update_rows_def update_where_def list_all2_map1 list_all2_map2
    by (rule list_all2_mono[OF assms(1)[unfolded holds_tasks_def] one])
  show "holds_tasks F (rows @ [task_insert F i t]) (ts @ [t\<lparr> t_id := Some i \<rparr>])"
    using assms task_read_back[OF assms(2)]
    by (auto simp: holds_tasks_def holds_task_def intro!: list_all2_appendI)
qed

text \<open>Formats that print a length before each text.\<close>

fun sample_parse_strings :: "utext \<Rightarrow> utext list" where
  "sample_parse_strings [] = []"
| "sample_parse_strings (n # rest) = take n rest # sample_parse_strings (drop n rest)"

definition sample_formats :: row_formats where
  "sample_formats = \<lparr> rf_uuid_text = (\<lambda>u. [unat u]),
     rf_parse_uuid = (\<lambda>s. case s of [n] \<Rightarrow> Inr (word_of_nat n) | _ \<Rightarrow> Inl (ascii ''invalid'')),
     rf_strings_text = (\<lambda>xs. concat (map (\<lambda>x. length x # x) xs)),
     rf_parse_strings = (\<lambda>s. Inr (sample_parse_strings s)),
     rf_json_text = (\<lambda>_. []), rf_parse_json = (\<lambda>_. Inr (JObj [])) \<rparr>"

lemma sample_strings: "sample_parse_strings (concat (map (\<lambda>x. length x # x) xs)) = xs"
  by (induction xs) simp_all

lemma sample_texts_ok: "texts_ok sample_formats t"
  by (simp add: texts_ok_def sample_formats_def sample_strings)

theorem tables_implement_records_witness:
  "holds_tasks sample_formats
     (update_rows sample_formats (sample_task\<lparr> t_version := t_version sample_task + 1, t_status := Sent \<rparr>)
        [task_insert sample_formats 1 sample_task])
     [sample_task\<lparr> t_version := t_version sample_task + 1, t_status := Sent, t_id := Some 1 \<rparr>]"
proof -
  let ?t = "sample_task\<lparr> t_version := t_version sample_task + 1, t_status := Sent \<rparr>"
  have "holds_tasks sample_formats [task_insert sample_formats 1 sample_task] [sample_task\<lparr> t_id := Some 1 \<rparr>]"
    using task_read_back[OF sample_texts_ok] by (simp add: holds_tasks_def holds_task_def)
  from tables_implement_records[OF this sample_texts_ok, THEN conjunct1, of ?t] have
    "holds_tasks sample_formats (update_rows sample_formats ?t [task_insert sample_formats 1 sample_task])
       (update_where (update_matches ?t) (write_columns ?t) [sample_task\<lparr> t_id := Some 1 \<rparr>])" .
  moreover have "update_where (update_matches ?t) (write_columns ?t) [sample_task\<lparr> t_id := Some 1 \<rparr>] = [?t\<lparr> t_id := Some 1 \<rparr>]"
    by (simp add: update_where_def update_matches_def write_columns_def sample_task_def)
  ultimately show ?thesis by (simp only: simp_thms)
qed

text \<open>A row that cannot be read is reported with the column at fault.\<close>

definition blames :: "string set \<Rightarrow> 'a result \<Rightarrow> bool" where
  "blames names r \<longleftrightarrow> (\<forall>e. r = Inl e \<longrightarrow> (\<exists>field \<in> names. \<exists>raw. e = invalid_text field raw))"

lemma blames_Inr: "blames names (Inr x)"
  by (simp add: blames_def)

lemma blames_tryR: "blames names r \<Longrightarrow> (\<And>x. blames names (f x)) \<Longrightarrow> blames names (tryR r f)"
  by (auto simp: blames_def tryR_eq_Inl)

lemma blames_parsed: "field \<in> names \<Longrightarrow> blames names (parsed field r)"
  by (auto simp: blames_def parsed_def split: sum.splits)

lemma blames_enums:
  "''message_type'' \<in> names \<Longrightarrow> blames names (parse_message_type s)"
  "''status'' \<in> names \<Longrightarrow> blames names (parse_task_status s)"
  "''priority'' \<in> names \<Longrightarrow> blames names (parse_task_priority s)"
  by (auto simp: blames_def parse_message_type_def parse_task_status_def parse_task_priority_def
      invalid_row_text split: if_splits)

lemma unreadable_task_row:
  "blames {''task_uid'', ''acceptance_criteria'', ''message_type'', ''status'', ''priority'', ''tags''}
     (task_of_row F row)"
  unfolding task_of_row_def parse_json_array_def
  by (intro blames_tryR blames_parsed blames_enums blames_Inr) simp_all

end
