(* ===== verification/Configuration.thy ===== *)
theory Configuration
  imports Parsing Task_Codes Scheduler
begin

section \<open>The configuration\<close>

text \<open>
  \<^verbatim>\<open>src/config/mod.rs\<close> and the choices \<^verbatim>\<open>src/presentation/bootstrap.rs\<close> makes by it. The environment of
  the process is a function from names to values. Secrets are kept as texts. \<^verbatim>\<open>AppConfig\<close> derives
  \<^verbatim>\<open>Validate\<close>, but its fields do not carry the attribute \<^verbatim>\<open>validate(nested)\<close> that version 0.20 of the crate
  asks for, so \<^verbatim>\<open>self.validate()\<close> checks nothing; that what it would check holds all the same is part of
  \<open>loaded_configuration_is_usable\<close>.
\<close>

type_synonym env_vars = "string \<Rightarrow> utext option"

record database_config =
  dc_database_url :: utext

record telegram_config =
  tc_bot_token :: utext

record google_sheets_config =
  gs_spreadsheet_id :: utext
  gs_range :: utext
  gs_api_key :: "utext option"
  gs_bearer_token :: "utext option"

record gemini_config =
  gc_api_key :: utext
  gc_model :: utext

record openai_config =
  oc_api_key :: utext
  oc_transcription_model :: utext

record http_server_config =
  hc_bind_address :: utext

record observability_config =
  oc_log_level :: utext

record bot_behavior_config =
  bc_rate_limit_per_minute :: nat

record security_config =
  sec_admin_ids :: "int set"
  sec_admin_nonce_ttl_seconds :: nat

record feature_flags_config =
  fc_env_value :: "utext option"

record app_config =
  ac_database :: database_config
  ac_telegram :: telegram_config
  ac_google_sheets :: google_sheets_config
  ac_gemini :: gemini_config
  ac_openai :: openai_config
  ac_http_server :: http_server_config
  ac_observability :: observability_config
  ac_scheduler :: scheduler_config
  ac_bot :: bot_behavior_config
  ac_security :: security_config
  ac_features :: feature_flags_config

subsection \<open>Reading variables\<close>

definition optional_env :: "env_vars \<Rightarrow> string \<Rightarrow> utext option" where
  "optional_env env name =
     (case map_option trim (env name) of
        None \<Rightarrow> None
      | Some v \<Rightarrow> if v = [] then None else Some v)"

definition optional_secret :: "env_vars \<Rightarrow> string \<Rightarrow> utext option" where
  "optional_secret env name = optional_env env name"

definition required_env :: "env_vars \<Rightarrow> string \<Rightarrow> utext result" where
  "required_env env name =
     ok_or (schema_validation ''ENV_MISSING''
       (ascii (''Environment variable '' @ name @ '' is required''))
       (JObj [(''name'', jstr name)])) (optional_env env name)"

definition optional_u32 :: "env_vars \<Rightarrow> string \<Rightarrow> nat \<Rightarrow> nat result" where
  "optional_u32 env name default_value =
     (case optional_env env name of
        Some v \<Rightarrow> ok_or (schema_validation ''ENV_NUMBER_INVALID''
            (ascii (''Environment variable '' @ name @ '' must be a positive integer''))
            (JObj [(''name'', jstr name), (''value'', JStr v)])) (parse_unsigned (2 ^ 32) v)
      | None \<Rightarrow> Inr default_value)"

definition non_zero_u32 :: "env_vars \<Rightarrow> string \<Rightarrow> nat \<Rightarrow> nat result" where
  "non_zero_u32 env name default_value =
     tryR (optional_u32 env name default_value) (\<lambda>v.
     if v = 0 then Inl (schema_validation ''ENV_NON_ZERO_REQUIRED''
         (ascii (''Environment variable '' @ name @ '' must be greater than zero''))
         (JObj [(''name'', jstr name), (''value'', JNum (int v))]))
     else Inr v)"

definition admin_ids_invalid :: "string \<Rightarrow> utext \<Rightarrow> app_error" where
  "admin_ids_invalid message token =
     schema_validation ''ADMIN_IDS_INVALID'' (ascii message) (JObj [(''token'', JStr token)])"

fun admin_ids_of :: "int set \<Rightarrow> utext list \<Rightarrow> int set result" where
  "admin_ids_of ids [] = Inr ids"
| "admin_ids_of ids (token # tokens) =
    (let trimmed = trim token in
     if trimmed = [] then admin_ids_of ids tokens
     else case parse_i64 trimmed of
       None \<Rightarrow> Inl (admin_ids_invalid
         ''TELEGRAM_ADMIN_IDS must be a comma-separated list of integer Telegram user IDs'' trimmed)
     | Some i \<Rightarrow>
         if i \<le> 0 then Inl (admin_ids_invalid
           ''TELEGRAM_ADMIN_IDS entries must be positive Telegram user IDs'' trimmed)
         else admin_ids_of (insert i ids) tokens)"

definition parse_admin_ids :: "utext option \<Rightarrow> int set result" where
  "parse_admin_ids raw = (case raw of None \<Rightarrow> Inr {} | Some text \<Rightarrow> admin_ids_of {} (split_on 44 text))"

subsection \<open>Loading\<close>

definition DEFAULT_GEMINI_MODEL :: string where "DEFAULT_GEMINI_MODEL = ''gemini-2.5-flash''"
definition DEFAULT_RATE_LIMIT_PER_MINUTE :: nat where "DEFAULT_RATE_LIMIT_PER_MINUTE = 20"
definition DEFAULT_OPENAI_TRANSCRIPTION_MODEL :: string where
  "DEFAULT_OPENAI_TRANSCRIPTION_MODEL = ''gpt-4o-mini-transcribe''"
definition DEFAULT_BIND_ADDRESS :: string where "DEFAULT_BIND_ADDRESS = ''0.0.0.0:8080''"
definition DEFAULT_LOG_LEVEL :: string where "DEFAULT_LOG_LEVEL = ''info,telegram_task_bot=debug''"

definition or_default :: "string \<Rightarrow> utext option \<Rightarrow> utext" where
  "or_default d v = (case v of None \<Rightarrow> ascii d | Some x \<Rightarrow> x)"

text \<open>The derived \<^verbatim>\<open>validate\<close> passes: \<^verbatim>\<open>AppConfig\<close> constrains no field of its own, and the structs it
  contains are not marked as nested. The remaining rules are these.\<close>

definition validate_with_rules :: "app_config \<Rightarrow> unit result" where
  "validate_with_rules config =
    (let sheets = ac_google_sheets config; scheduler = ac_scheduler config;
         deadline = sc_daily_deadline_reminder_hour_utc scheduler;
         overdue = sc_daily_overdue_scan_hour_utc scheduler;
         summary = sc_daily_summary_hour_utc scheduler in
     if gs_api_key sheets = None \<and> gs_bearer_token sheets = None then
       Inl (schema_validation ''GOOGLE_SHEETS_AUTH_MISSING''
         (ascii ''Either GOOGLE_SHEETS_API_KEY or GOOGLE_SHEETS_BEARER_TOKEN must be configured'')
         (JObj [(''spreadsheet_id'', JStr (gs_spreadsheet_id sheets))]))
     else if deadline > 23 \<or> overdue > 23 \<or> summary > 23 then
       Inl (schema_validation ''SCHEDULER_HOUR_INVALID''
         (ascii ''Scheduler hour must be in the 0..=23 range'')
         (JObj [(''deadline_hour'', JNum deadline), (''overdue_hour'', JNum overdue),
           (''daily_summary_hour'', JNum summary)]))
     else Inr ())"

definition load_scheduler :: "env_vars \<Rightarrow> scheduler_config result" where
  "load_scheduler env =
     tryR (non_zero_u32 env ''EMPLOYEE_SYNC_INTERVAL_MINUTES'' 60) (\<lambda>sync.
     tryR (non_zero_u32 env ''NOTIFICATION_POLL_INTERVAL_SECONDS'' 30) (\<lambda>poll.
     tryR (non_zero_u32 env ''REMINDER_TICK_SECONDS'' 60) (\<lambda>tick.
     tryR (optional_u32 env ''DEADLINE_REMINDER_HOUR_UTC'' 9) (\<lambda>deadline.
     tryR (optional_u32 env ''OVERDUE_SCAN_HOUR_UTC'' 10) (\<lambda>overdue.
     tryR (optional_u32 env ''DAILY_SUMMARY_HOUR_UTC'' 8) (\<lambda>summary.
     Inr \<lparr> sc_employee_sync_interval_minutes = int sync,
       sc_notification_poll_interval_seconds = int poll, sc_reminder_tick_seconds = int tick,
       sc_daily_deadline_reminder_hour_utc = int deadline,
       sc_daily_overdue_scan_hour_utc = int overdue, sc_daily_summary_hour_utc = int summary \<rparr>))))))"

text \<open>The struct built from the values that can fail to load and from the optional variables.\<close>

definition assemble ::
  "env_vars \<Rightarrow> utext \<Rightarrow> utext \<Rightarrow> utext \<Rightarrow> utext \<Rightarrow> utext \<Rightarrow> scheduler_config \<Rightarrow> nat \<Rightarrow> int set \<Rightarrow> nat \<Rightarrow> app_config" where
  "assemble env database_url bot_token spreadsheet_id gemini_key openai_key scheduler per_minute admin_ids nonce_ttl =
    \<lparr> ac_database = \<lparr> dc_database_url = database_url \<rparr>,
      ac_telegram = \<lparr> tc_bot_token = bot_token \<rparr>,
      ac_google_sheets = \<lparr> gs_spreadsheet_id = spreadsheet_id,
        gs_range = or_default ''Employees!A:F'' (optional_env env ''GOOGLE_SHEETS_RANGE''),
        gs_api_key = optional_secret env ''GOOGLE_SHEETS_API_KEY'',
        gs_bearer_token = optional_secret env ''GOOGLE_SHEETS_BEARER_TOKEN'' \<rparr>,
      ac_gemini = \<lparr> gc_api_key = gemini_key,
        gc_model = or_default DEFAULT_GEMINI_MODEL (optional_env env ''GOOGLE_GEMINI_MODEL'') \<rparr>,
      ac_openai = \<lparr> oc_api_key = openai_key,
        oc_transcription_model = or_default DEFAULT_OPENAI_TRANSCRIPTION_MODEL
          (optional_env env ''OPENAI_TRANSCRIPTION_MODEL'') \<rparr>,
      ac_http_server = \<lparr> hc_bind_address = or_default DEFAULT_BIND_ADDRESS (optional_env env ''BIND_ADDRESS'') \<rparr>,
      ac_observability = \<lparr> oc_log_level = or_default DEFAULT_LOG_LEVEL (optional_env env ''RUST_LOG'') \<rparr>,
      ac_scheduler = scheduler,
      ac_bot = \<lparr> bc_rate_limit_per_minute = per_minute \<rparr>,
      ac_security = \<lparr> sec_admin_ids = admin_ids, sec_admin_nonce_ttl_seconds = nonce_ttl \<rparr>,
      ac_features = \<lparr> fc_env_value = optional_env env ''FEATURE_FLAGS'' \<rparr> \<rparr>"

definition from_env :: "env_vars \<Rightarrow> app_config result" where
  "from_env env =
     tryR (required_env env ''DATABASE_URL'') (\<lambda>database_url.
     tryR (required_env env ''TELEGRAM_BOT_TOKEN'') (\<lambda>bot_token.
     tryR (required_env env ''GOOGLE_SHEETS_ID'') (\<lambda>spreadsheet_id.
     tryR (required_env env ''GOOGLE_GEMINI_API_KEY'') (\<lambda>gemini_key.
     tryR (required_env env ''OPENAI_API_KEY'') (\<lambda>openai_key.
     tryR (load_scheduler env) (\<lambda>scheduler.
     tryR (non_zero_u32 env ''RATE_LIMIT_PER_MINUTE'' DEFAULT_RATE_LIMIT_PER_MINUTE) (\<lambda>per_minute.
     tryR (parse_admin_ids (optional_env env ''TELEGRAM_ADMIN_IDS'')) (\<lambda>admin_ids.
     tryR (non_zero_u32 env ''ADMIN_NONCE_TTL_SECONDS'' 120) (\<lambda>nonce_ttl.
     let config = assemble env database_url bot_token spreadsheet_id gemini_key openai_key scheduler
       per_minute admin_ids nonce_ttl in
     tryR (validate_with_rules config) (\<lambda>_. Inr config))))))))))"

subsection \<open>What the wiring makes of it\<close>

definition is_placeholder :: "utext \<Rightarrow> bool" where
  "is_placeholder v \<longleftrightarrow> trim v = [] \<or> v = ascii ''replace_me'' \<or> v = ascii ''local_placeholder''"

definition uses_local_generator :: "app_config \<Rightarrow> bool" where
  "uses_local_generator config = is_placeholder (gc_api_key (ac_gemini config))"

definition uses_local_directory :: "app_config \<Rightarrow> bool" where
  "uses_local_directory config \<longleftrightarrow> is_placeholder (gs_spreadsheet_id (ac_google_sheets config))
     \<or> gs_api_key (ac_google_sheets config) = None \<and> gs_bearer_token (ac_google_sheets config) = None"

subsection \<open>What was read\<close>

lemma optional_env_nonempty: "optional_env env name = Some v \<Longrightarrow> v \<noteq> []"
  by (auto simp: optional_env_def split: option.splits if_splits)

lemma optional_env_not_empty:
  "Some [] \<noteq> optional_env env name" "Some [] \<noteq> optional_secret env name"
  using optional_env_nonempty[of env name "[]"] by (auto simp: optional_secret_def)

lemma required_env_nonempty: "required_env env name = Inr v \<Longrightarrow> v \<noteq> []"
  unfolding required_env_def by (cases "optional_env env name") (auto dest: optional_env_nonempty)

lemma or_default_nonempty: "d \<noteq> [] \<Longrightarrow> or_default d (optional_env env name) \<noteq> []"
  by (auto simp: or_default_def ascii_def split: option.splits dest: optional_env_nonempty)

lemma parse_unsigned_bound: "parse_unsigned b s = Some v \<Longrightarrow> v < b"
  by (auto simp: parse_unsigned_def split: option.splits if_splits)

lemma ok_or_Inr: "ok_or e v = Inr x \<longleftrightarrow> v = Some x"
  by (cases v) auto

lemma optional_u32_bound: "optional_u32 env name d = Inr v \<Longrightarrow> d < 2 ^ 32 \<Longrightarrow> v < 2 ^ 32"
  by (auto simp: optional_u32_def ok_or_Inr split: option.splits dest: parse_unsigned_bound)

lemma non_zero_u32_bound: "non_zero_u32 env name d = Inr v \<Longrightarrow> d < 2 ^ 32 \<Longrightarrow> 0 < v \<and> v < 2 ^ 32"
  by (auto simp: non_zero_u32_def tryR_eq_Inr split: if_splits dest: optional_u32_bound)

text \<open>The tokens of \<^verbatim>\<open>TELEGRAM_ADMIN_IDS\<close>, and the identifiers they stand for.\<close>

definition admin_tokens :: "utext \<Rightarrow> utext list" where
  "admin_tokens raw = filter (\<lambda>t. t \<noteq> []) (map trim (split_on 44 raw))"

definition positive_id :: "utext \<Rightarrow> bool" where
  "positive_id token \<longleftrightarrow> (case parse_i64 token of None \<Rightarrow> False | Some i \<Rightarrow> 0 < i)"

lemma admin_ids_of_iff:
  "admin_ids_of ids tokens = Inr s \<longleftrightarrow>
     (let ts = filter (\<lambda>t. t \<noteq> []) (map trim tokens) in
      list_all positive_id ts \<and> s = ids \<union> (\<lambda>t. the (parse_i64 t)) ` set ts)"
  by (induction ids tokens rule: admin_ids_of.induct)
     (auto simp: Let_def positive_id_def split: option.splits if_splits)

lemma parse_admin_ids_iff:
  "parse_admin_ids (Some raw) = Inr s \<longleftrightarrow>
     list_all positive_id (admin_tokens raw) \<and> s = (\<lambda>t. the (parse_i64 t)) ` set (admin_tokens raw)"
  by (simp add: parse_admin_ids_def admin_ids_of_iff admin_tokens_def Let_def)

subsection \<open>A loaded configuration\<close>

definition scheduler_usable :: "scheduler_config \<Rightarrow> bool" where
  "scheduler_usable s \<longleftrightarrow>
     0 < sc_employee_sync_interval_minutes s \<and> sc_employee_sync_interval_minutes s < 2 ^ 32
     \<and> 0 < sc_notification_poll_interval_seconds s \<and> sc_notification_poll_interval_seconds s < 2 ^ 32
     \<and> 0 < sc_reminder_tick_seconds s \<and> sc_reminder_tick_seconds s < 2 ^ 32
     \<and> (\<forall>job. 0 \<le> target_hour s job \<and> target_hour s job \<le> 23)"

text \<open>Every text of a configuration: those that are always there and those that may be missing.\<close>

definition required_texts :: "app_config \<Rightarrow> utext list" where
  "required_texts c =
     [dc_database_url (ac_database c), tc_bot_token (ac_telegram c), gs_spreadsheet_id (ac_google_sheets c),
      gs_range (ac_google_sheets c), gc_api_key (ac_gemini c), gc_model (ac_gemini c),
      oc_api_key (ac_openai c), oc_transcription_model (ac_openai c),
      hc_bind_address (ac_http_server c), oc_log_level (ac_observability c)]"

definition optional_texts :: "app_config \<Rightarrow> utext option list" where
  "optional_texts c = [gs_api_key (ac_google_sheets c), gs_bearer_token (ac_google_sheets c),
     fc_env_value (ac_features c)]"

definition configuration_usable :: "env_vars \<Rightarrow> app_config \<Rightarrow> bool" where
  "configuration_usable env c \<longleftrightarrow>
     [] \<notin> set (required_texts c) \<and> Some [] \<notin> set (optional_texts c)
     \<and> (gs_api_key (ac_google_sheets c) \<noteq> None \<or> gs_bearer_token (ac_google_sheets c) \<noteq> None)
     \<and> scheduler_usable (ac_scheduler c)
     \<and> 0 < bc_rate_limit_per_minute (ac_bot c) \<and> bc_rate_limit_per_minute (ac_bot c) < 2 ^ 32
     \<and> 0 < sec_admin_nonce_ttl_seconds (ac_security c) \<and> sec_admin_nonce_ttl_seconds (ac_security c) < 2 ^ 32
     \<and> sec_admin_ids (ac_security c) =
         (case optional_env env ''TELEGRAM_ADMIN_IDS'' of None \<Rightarrow> {}
          | Some raw \<Rightarrow> (\<lambda>t. the (parse_i64 t)) ` set (admin_tokens raw))
     \<and> (\<forall>i \<in> sec_admin_ids (ac_security c). 0 < i \<and> i < 2 ^ 63)"

lemma load_scheduler_usable:
  assumes "load_scheduler env = Inr s" "sc_daily_deadline_reminder_hour_utc s \<le> 23"
    "sc_daily_overdue_scan_hour_utc s \<le> 23" "sc_daily_summary_hour_utc s \<le> 23"
  shows "scheduler_usable s"
proof -
  have "0 \<le> target_hour s job \<and> target_hour s job \<le> 23" for job
    using assms by (cases job) (auto simp: load_scheduler_def tryR_eq_Inr)
  then show ?thesis
    using assms(1) unfolding scheduler_usable_def load_scheduler_def tryR_eq_Inr
    by (auto dest!: non_zero_u32_bound)
qed

lemma parse_i64_below: "parse_i64 t = Some i \<Longrightarrow> i < 2 ^ 63"
  by (auto simp: parse_i64_def split: option.splits if_splits)

lemma positive_id_bounds: "positive_id t \<Longrightarrow> 0 < the (parse_i64 t) \<and> the (parse_i64 t) < 2 ^ 63"
  by (cases "parse_i64 t") (auto simp: positive_id_def dest: parse_i64_below)

lemma positive_ids: "list_all positive_id ts \<Longrightarrow> i \<in> (\<lambda>t. the (parse_i64 t)) ` set ts \<Longrightarrow> 0 < i \<and> i < 2 ^ 63"
  using positive_id_bounds by (auto simp: list_all_iff)

lemma loaded_usable:
  assumes "from_env env = Inr c"
  shows "configuration_usable env c"
proof -
  have names: "DEFAULT_GEMINI_MODEL \<noteq> []" "DEFAULT_OPENAI_TRANSCRIPTION_MODEL \<noteq> []"
    "DEFAULT_BIND_ADDRESS \<noteq> []" "DEFAULT_LOG_LEVEL \<noteq> []"
    by (simp_all add: DEFAULT_GEMINI_MODEL_def DEFAULT_OPENAI_TRANSCRIPTION_MODEL_def
        DEFAULT_BIND_ADDRESS_def DEFAULT_LOG_LEVEL_def)
  have ids_ok: "s = (case raw of None \<Rightarrow> {} | Some r \<Rightarrow> (\<lambda>t. the (parse_i64 t)) ` set (admin_tokens r))
      \<and> (\<forall>i \<in> s. 0 < i \<and> i < 2 ^ 63)" if "parse_admin_ids raw = Inr s" for raw s
  proof (cases raw)
    case (Some r)
    with that have "list_all positive_id (admin_tokens r)" "s = (\<lambda>t. the (parse_i64 t)) ` set (admin_tokens r)"
      by (simp_all add: parse_admin_ids_iff)
    with Some positive_ids show ?thesis by auto
  qed (use that in \<open>simp add: parse_admin_ids_def\<close>)
  obtain url token sheet gemini openai scheduler rate ids ttl where
    c: "c = assemble env url token sheet gemini openai scheduler rate ids ttl"
    and texts: "url \<noteq> []" "token \<noteq> []" "sheet \<noteq> []" "gemini \<noteq> []" "openai \<noteq> []"
    and scheduler: "load_scheduler env = Inr scheduler"
    and rate: "non_zero_u32 env ''RATE_LIMIT_PER_MINUTE'' DEFAULT_RATE_LIMIT_PER_MINUTE = Inr rate"
    and admins: "parse_admin_ids (optional_env env ''TELEGRAM_ADMIN_IDS'') = Inr ids"
    and ttl: "non_zero_u32 env ''ADMIN_NONCE_TTL_SECONDS'' 120 = Inr ttl"
    and rules: "validate_with_rules c = Inr ()"
    using assms unfolding from_env_def tryR_eq_Inr Let_def
    by (auto dest!: required_env_nonempty)
  from rules have hours: "sc_daily_deadline_reminder_hour_utc scheduler \<le> 23"
    "sc_daily_overdue_scan_hour_utc scheduler \<le> 23" "sc_daily_summary_hour_utc scheduler \<le> 23"
    and key: "gs_api_key (ac_google_sheets c) \<noteq> None \<or> gs_bearer_token (ac_google_sheets c) \<noteq> None"
    by (auto simp: validate_with_rules_def Let_def c assemble_def split: if_splits)
  have "scheduler_usable scheduler" using load_scheduler_usable[OF scheduler hours] .
  moreover have "0 < rate" "rate < 2 ^ 32" "0 < ttl" "ttl < 2 ^ 32"
    using non_zero_u32_bound[OF rate] non_zero_u32_bound[OF ttl] by (simp_all add: DEFAULT_RATE_LIMIT_PER_MINUTE_def)
  ultimately show ?thesis
    using texts key ids_ok[OF admins] unfolding configuration_usable_def required_texts_def optional_texts_def
      c assemble_def
    by (simp add: or_default_nonempty[THEN not_sym] optional_env_not_empty names)
qed

text \<open>C38. A configuration that loads is usable. None of its texts is empty, the credentials and the other
  optional texts included when they are there; there is a credential for the directory; every
  interval, the rate limit and the time to live of a nonce are positive and fit their 32 bits; the
  hours of the daily jobs are hours of a day; and the administrators are exactly the numbers of the
  comma separated list, all of them positive 64-bit numbers.\<close>

theorem loaded_configuration_is_usable:
  assumes "from_env env = Inr c"
  shows "configuration_usable env c"
  using assms by (rule loaded_usable)

text \<open>An environment with the variables that are required and two administrators.\<close>

definition sample_vars :: env_vars where
  "sample_vars = [''DATABASE_URL'' \<mapsto> ascii ''sqlite::memory:'', ''TELEGRAM_BOT_TOKEN'' \<mapsto> ascii ''t'',
     ''GOOGLE_SHEETS_ID'' \<mapsto> ascii ''sheet'', ''GOOGLE_GEMINI_API_KEY'' \<mapsto> ascii ''replace_me'',
     ''OPENAI_API_KEY'' \<mapsto> ascii ''o'', ''GOOGLE_SHEETS_API_KEY'' \<mapsto> ascii '' k '',
     ''TELEGRAM_ADMIN_IDS'' \<mapsto> ascii '' 30, 31,'', ''OVERDUE_SCAN_HOUR_UTC'' \<mapsto> ascii ''23'']"

lemma sample_variables:
  "optional_env sample_vars ''DATABASE_URL'' = Some (ascii ''sqlite::memory:'')"
  "optional_env sample_vars ''TELEGRAM_BOT_TOKEN'' = Some (ascii ''t'')"
  "optional_env sample_vars ''GOOGLE_SHEETS_ID'' = Some (ascii ''sheet'')"
  "optional_env sample_vars ''GOOGLE_GEMINI_API_KEY'' = Some (ascii ''replace_me'')"
  "optional_env sample_vars ''OPENAI_API_KEY'' = Some (ascii ''o'')"
  "optional_env sample_vars ''GOOGLE_SHEETS_API_KEY'' = Some (ascii ''k'')"
  "optional_env sample_vars ''TELEGRAM_ADMIN_IDS'' = Some (ascii ''30, 31,'')"
  "optional_env sample_vars ''OVERDUE_SCAN_HOUR_UTC'' = Some (ascii ''23'')"
  by (simp_all add: optional_env_def sample_vars_def trim_def trim_start_by_def trim_end_by_def
      is_whitespace_def ascii_def)

lemma sample_dom: "dom sample_vars = {''DATABASE_URL'', ''TELEGRAM_BOT_TOKEN'', ''GOOGLE_SHEETS_ID'',
    ''GOOGLE_GEMINI_API_KEY'', ''OPENAI_API_KEY'', ''GOOGLE_SHEETS_API_KEY'', ''TELEGRAM_ADMIN_IDS'',
    ''OVERDUE_SCAN_HOUR_UTC''}"
  by (auto simp: sample_vars_def)

lemma sample_unset:
  "name \<notin> dom sample_vars \<Longrightarrow> optional_env sample_vars name = None"
  by (cases "sample_vars name") (auto simp: optional_env_def)

lemma sample_admins: "parse_admin_ids (Some (ascii ''30, 31,'')) = Inr {30, 31}"
  by (auto simp: parse_admin_ids_def ascii_def trim_def trim_start_by_def trim_end_by_def is_whitespace_def
      parse_i64_def parse_nat_def is_ascii_digit_def digits_value_def)

lemma sample_scheduler_loads:
  "load_scheduler sample_vars = Inr \<lparr> sc_employee_sync_interval_minutes = 60,
     sc_notification_poll_interval_seconds = 30, sc_reminder_tick_seconds = 60,
     sc_daily_deadline_reminder_hour_utc = 9, sc_daily_overdue_scan_hour_utc = 23,
     sc_daily_summary_hour_utc = 8 \<rparr>"
proof -
  have "parse_unsigned (2 ^ 32) (ascii ''23'') = Some 23"
    by (simp add: parse_unsigned_def ascii_def parse_nat_def is_ascii_digit_def digits_value_def)
  then show ?thesis
    by (simp add: load_scheduler_def non_zero_u32_def optional_u32_def sample_variables sample_unset sample_dom)
qed

lemma sample_vars_loads:
  "\<exists>c. from_env sample_vars = Inr c \<and> sec_admin_ids (ac_security c) = {30, 31}
     \<and> target_hour (ac_scheduler c) OverdueAlerts = 23
     \<and> job_interval (ac_scheduler c) (DailyJob OverdueAlerts) = 60"
  by (simp add: from_env_def required_env_def sample_variables sample_scheduler_loads sample_admins
      non_zero_u32_def optional_u32_def sample_unset sample_dom DEFAULT_RATE_LIMIT_PER_MINUTE_def assemble_def
      validate_with_rules_def optional_secret_def Let_def)

theorem loaded_configuration_is_usable_witness:
  "\<exists>c. from_env sample_vars = Inr c \<and> configuration_usable sample_vars c"
  using sample_vars_loads loaded_configuration_is_usable[of sample_vars] by blast

text \<open>C22. A daily job runs exactly once a day. With any configuration that loads and ticks at least once an
  hour, on every day of which the ticker of a daily job has seen the hour of the job begin and has
  ticked once more, the job has run once and not twice.\<close>

theorem daily_job_runs_once_a_day:
  assumes "from_env env = Inr c"
    and "job_interval (ac_scheduler c) (DailyJob job) \<le> 3600"
    and "start \<le> hour_starts d (target_hour (ac_scheduler c) job)"
    and "hour_starts d (target_hour (ac_scheduler c) job)
             + job_interval (ac_scheduler c) (DailyJob job) * ns_per_sec
           \<le> start + int n * (job_interval (ac_scheduler c) (DailyJob job) * ns_per_sec)"
  shows "length (filter (\<lambda>t. date_of t = d) (daily_runs (target_hour (ac_scheduler c) job)
           (ticks start (job_interval (ac_scheduler c) (DailyJob job)) n))) = 1"
proof -
  have "scheduler_usable (ac_scheduler c)"
    using loaded_usable[OF assms(1)] by (simp add: configuration_usable_def)
  then have "0 < job_interval (ac_scheduler c) (DailyJob job)"
    "0 \<le> target_hour (ac_scheduler c) job" "target_hour (ac_scheduler c) job \<le> 23"
    by (simp_all add: scheduler_usable_def)
  then show ?thesis using daily_job_once assms(2-) by blast
qed

theorem daily_job_runs_once_a_day_witness:
  "\<exists>c. from_env sample_vars = Inr c
     \<and> length (filter (\<lambda>t. date_of t = 1) (daily_runs (target_hour (ac_scheduler c) OverdueAlerts)
           (ticks 7 (job_interval (ac_scheduler c) (DailyJob OverdueAlerts)) 3000))) = 1"
proof -
  obtain c where c: "from_env sample_vars = Inr c" "target_hour (ac_scheduler c) OverdueAlerts = 23"
    "job_interval (ac_scheduler c) (DailyJob OverdueAlerts) = 60"
    using sample_vars_loads by blast
  with daily_job_runs_once_a_day[OF c(1), of OverdueAlerts 7 1 3000] show ?thesis
    by (auto simp: hour_starts_def ns_per_day_def ns_per_sec_def)
qed

end
