(* ===== verification/Chat_Locks.thy ===== *)
theory Chat_Locks
  imports Gateway
begin

section \<open>One update of a chat at a time\<close>

text \<open>
  \<^verbatim>\<open>ChatSerializer\<close> and \<^verbatim>\<open>UpdateGuard\<close> of \<^verbatim>\<open>src/presentation/telegram/gateway.rs\<close>. Every update runs in a
  task of its own, and tasks interleave wherever they await. A task looks for the mutex of its chat
  under the read lock of the map, and if there is none it takes the write lock and looks again before it inserts
  one; then it asks for the mutex, waits for its turn, handles the update behind a fresh barrier and
  gives the mutex back. The mutex is tokio's: it serves those who ask in the order in which they
  ask. A step of the model is what happens between two awaits.
\<close>

subsection \<open>The gate\<close>

text \<open>Where the task of an update is. Mutexes are numbered in the order in which they are made.\<close>

datatype passage =
    Looking | NotThere | Found nat | Queued nat | Handling nat bool | Gone

text \<open>The queue of a mutex has its holder in front. The last three fields are a history: who has
  asked, who has been served, and how many effects each update has shown.\<close>

record gate =
  gl_locks :: "int \<Rightarrow> nat option"
  gl_next :: nat
  gl_queues :: "nat \<Rightarrow> nat list"
  gl_updates :: "nat \<Rightarrow> (int \<times> passage) option"
  gl_asked :: "nat \<Rightarrow> nat list"
  gl_served :: "nat \<Rightarrow> nat list"
  gl_shown :: "nat \<Rightarrow> nat"

definition gate_new :: gate where
  "gate_new = \<lparr> gl_locks = Map.empty, gl_next = 0, gl_queues = (\<lambda>_. []), gl_updates = Map.empty,
     gl_asked = (\<lambda>_. []), gl_served = (\<lambda>_. []), gl_shown = (\<lambda>_. 0) \<rparr>"

definition moves_to :: "nat \<Rightarrow> int \<Rightarrow> passage \<Rightarrow> gate \<Rightarrow> gate" where
  "moves_to i chat p g = g\<lparr> gl_updates := (gl_updates g)(i \<mapsto> (chat, p)) \<rparr>"

text \<open>The first block of \<^verbatim>\<open>obtain_lock\<close>.\<close>

definition look_up_lock :: "int \<Rightarrow> gate \<Rightarrow> passage" where
  "look_up_lock chat g = (case gl_locks g chat of Some l \<Rightarrow> Found l | None \<Rightarrow> NotThere)"

text \<open>The rest of it: \<^verbatim>\<open>entry(chat_id).or_insert_with(..)\<close>.\<close>

definition entry_lock :: "int \<Rightarrow> gate \<Rightarrow> nat \<times> gate" where
  "entry_lock chat g =
     (case gl_locks g chat of
        Some l \<Rightarrow> (l, g)
      | None \<Rightarrow> (gl_next g,
          g\<lparr> gl_locks := (gl_locks g)(chat \<mapsto> gl_next g), gl_next := Suc (gl_next g) \<rparr>))"

definition ask_for :: "nat \<Rightarrow> nat \<Rightarrow> gate \<Rightarrow> gate" where
  "ask_for l i g = g\<lparr> gl_queues := (gl_queues g)(l := gl_queues g l @ [i]),
     gl_asked := (gl_asked g)(l := gl_asked g l @ [i]) \<rparr>"

definition give_back :: "nat \<Rightarrow> gate \<Rightarrow> gate" where
  "give_back l g = g\<lparr> gl_served := (gl_served g)(l := gl_served g l @ [hd (gl_queues g l)]),
     gl_queues := (gl_queues g)(l := tl (gl_queues g l)) \<rparr>"

text \<open>An update arrives under a fresh number; the next step of its task; the task asks its barrier
  for permission to show something.\<close>

definition arrives :: "nat \<Rightarrow> int \<Rightarrow> gate \<Rightarrow> gate option" where
  "arrives i chat g = (if gl_updates g i = None then Some (moves_to i chat Looking g) else None)"

definition proceeds :: "nat \<Rightarrow> gate \<Rightarrow> gate option" where
  "proceeds i g =
     (case gl_updates g i of
        None \<Rightarrow> None
      | Some (chat, p) \<Rightarrow>
          (case p of
             Looking \<Rightarrow> Some (moves_to i chat (look_up_lock chat g) g)
           | NotThere \<Rightarrow> (case entry_lock chat g of (l, g') \<Rightarrow> Some (moves_to i chat (Found l) g'))
           | Found l \<Rightarrow> Some (moves_to i chat (Queued l) (ask_for l i g))
           | Queued l \<Rightarrow>
               if take 1 (gl_queues g l) = [i] then Some (moves_to i chat (Handling l False) g) else None
           | Handling l _ \<Rightarrow> Some (moves_to i chat Gone (give_back l g))
           | Gone \<Rightarrow> None))"

definition asks_barrier :: "nat \<Rightarrow> gate \<Rightarrow> (bool \<times> gate) option" where
  "asks_barrier i g =
     (case gl_updates g i of
        Some (chat, Handling l spent) \<Rightarrow>
          (case try_consume spent of
             (allowed, spent') \<Rightarrow> Some (allowed, (moves_to i chat (Handling l spent') g)\<lparr>
               gl_shown := (gl_shown g)(i := gl_shown g i + (if allowed then 1 else 0)) \<rparr>))
      | _ \<Rightarrow> None)"

text \<open>The states of any number of updates under any schedule.\<close>

inductive reachable :: "gate \<Rightarrow> bool" where
  start: "reachable gate_new"
| arrival: "reachable g \<Longrightarrow> arrives i chat g = Some g' \<Longrightarrow> reachable g'"
| progress: "reachable g \<Longrightarrow> proceeds i g = Some g' \<Longrightarrow> reachable g'"
| effect: "reachable g \<Longrightarrow> asks_barrier i g = Some (allowed, g') \<Longrightarrow> reachable g'"

subsection \<open>What holds in every state\<close>

fun lock_of :: "passage \<Rightarrow> nat option" where
  "lock_of (Found l) = Some l"
| "lock_of (Queued l) = Some l"
| "lock_of (Handling l _) = Some l"
| "lock_of _ = None"

fun in_queue_of :: "passage \<Rightarrow> nat option" where
  "in_queue_of (Queued l) = Some l"
| "in_queue_of (Handling l _) = Some l"
| "in_queue_of _ = None"

definition locks_ok :: "gate \<Rightarrow> bool" where
  "locks_ok g \<longleftrightarrow> (\<forall>c l. gl_locks g c = Some l \<longrightarrow> l < gl_next g)
     \<and> (\<forall>c c' l. gl_locks g c = Some l \<longrightarrow> gl_locks g c' = Some l \<longrightarrow> c = c')"

definition updates_ok :: "gate \<Rightarrow> bool" where
  "updates_ok g \<longleftrightarrow>
     (\<forall>i c p l. gl_updates g i = Some (c, p) \<longrightarrow> lock_of p = Some l \<longrightarrow> gl_locks g c = Some l)"

definition queues_ok :: "gate \<Rightarrow> bool" where
  "queues_ok g \<longleftrightarrow>
     (\<forall>l. distinct (gl_queues g l) \<and> gl_asked g l = gl_served g l @ gl_queues g l)
     \<and> (\<forall>l i. i \<in> set (gl_queues g l) \<longrightarrow> (\<exists>c p. gl_updates g i = Some (c, p) \<and> in_queue_of p = Some l))
     \<and> (\<forall>i c p l. gl_updates g i = Some (c, p) \<longrightarrow> in_queue_of p = Some l \<longrightarrow> i \<in> set (gl_queues g l))
     \<and> (\<forall>i c l b. gl_updates g i = Some (c, Handling l b) \<longrightarrow> (\<exists>js. gl_queues g l = i # js))"

fun shown_at :: "passage \<Rightarrow> nat \<Rightarrow> bool" where
  "shown_at (Handling _ spent) n \<longleftrightarrow> n = (if spent then 1 else 0)"
| "shown_at Gone n \<longleftrightarrow> n \<le> 1"
| "shown_at _ n \<longleftrightarrow> n = 0"

definition shown_ok :: "gate \<Rightarrow> bool" where
  "shown_ok g \<longleftrightarrow> (\<forall>i. gl_updates g i = None \<longrightarrow> gl_shown g i = 0)
     \<and> (\<forall>i c p. gl_updates g i = Some (c, p) \<longrightarrow> shown_at p (gl_shown g i))"

lemma moves_to_simps [simp]:
  "gl_locks (moves_to i c p g) = gl_locks g" "gl_next (moves_to i c p g) = gl_next g"
  "gl_queues (moves_to i c p g) = gl_queues g" "gl_asked (moves_to i c p g) = gl_asked g"
  "gl_served (moves_to i c p g) = gl_served g" "gl_shown (moves_to i c p g) = gl_shown g"
  "gl_updates (moves_to i c p g) = (gl_updates g)(i \<mapsto> (c, p))"
  by (simp_all add: moves_to_def)

text \<open>The steps by name: one introduction and one elimination rule serve all invariants.\<close>

inductive steps_to :: "gate \<Rightarrow> gate \<Rightarrow> bool" where
  arrive: "gl_updates g i = None \<Longrightarrow> steps_to g (moves_to i c Looking g)"
| look: "gl_updates g i = Some (c, Looking) \<Longrightarrow> steps_to g (moves_to i c (look_up_lock c g) g)"
| found: "gl_updates g i = Some (c, NotThere) \<Longrightarrow> gl_locks g c = Some l \<Longrightarrow>
    steps_to g (moves_to i c (Found l) g)"
| insert: "gl_updates g i = Some (c, NotThere) \<Longrightarrow> gl_locks g c = None \<Longrightarrow>
    steps_to g (moves_to i c (Found (gl_next g))
      (g\<lparr> gl_locks := (gl_locks g)(c \<mapsto> gl_next g), gl_next := Suc (gl_next g) \<rparr>))"
| ask: "gl_updates g i = Some (c, Found l) \<Longrightarrow> steps_to g (moves_to i c (Queued l) (ask_for l i g))"
| enter: "gl_updates g i = Some (c, Queued l) \<Longrightarrow> gl_queues g l = i # js \<Longrightarrow>
    steps_to g (moves_to i c (Handling l False) g)"
| leave: "gl_updates g i = Some (c, Handling l b) \<Longrightarrow> steps_to g (moves_to i c Gone (give_back l g))"
| screen: "gl_updates g i = Some (c, Handling l b) \<Longrightarrow>
    steps_to g ((moves_to i c (Handling l True) g)\<lparr> gl_shown := (gl_shown g)(i := gl_shown g i + (if b then 0 else 1)) \<rparr>)"

lemma take_1_eq: "take (Suc 0) xs = [x] \<longleftrightarrow> (\<exists>ys. xs = x # ys)"
  by (cases xs) auto

lemma steps:
  "arrives i chat g = Some g' \<Longrightarrow> steps_to g g'" "proceeds i g = Some g' \<Longrightarrow> steps_to g g'"
  "asks_barrier i g = Some (allowed, g') \<Longrightarrow> steps_to g g'"
proof -
  show "arrives i chat g = Some g' \<Longrightarrow> steps_to g g'"
    by (auto simp: arrives_def intro: steps_to.intros split: if_splits)
  show "proceeds i g = Some g' \<Longrightarrow> steps_to g g'"
    by (auto simp: proceeds_def entry_lock_def take_1_eq split: option.splits passage.splits if_splits)
       (blast intro: steps_to.intros)+
  show "asks_barrier i g = Some (allowed, g') \<Longrightarrow> steps_to g g'"
    using steps_to.screen[of g i _ _ True] steps_to.screen[of g i _ _ False]
    by (auto simp: asks_barrier_def try_consume_def split: option.splits passage.splits)
qed

lemma reachable_invariant:
  assumes "reachable g" "I gate_new" "\<And>g g'. steps_to g g' \<Longrightarrow> I g \<Longrightarrow> I g'"
  shows "I g"
  using assms(1) by (induction rule: reachable.induct) (auto intro: assms(2,3) dest: steps)

lemma locks_ok_step: "steps_to g g' \<Longrightarrow> locks_ok g \<Longrightarrow> locks_ok g'"
  by (erule steps_to.cases) (force simp: locks_ok_def ask_for_def give_back_def less_Suc_eq)+

lemma updates_ok_step: "steps_to g g' \<Longrightarrow> updates_ok g \<Longrightarrow> updates_ok g'"
  by (erule steps_to.cases)
     (force simp: updates_ok_def ask_for_def give_back_def look_up_lock_def split: option.splits if_splits)+

lemma shown_ok_step: "steps_to g g' \<Longrightarrow> shown_ok g \<Longrightarrow> shown_ok g'"
  by (erule steps_to.cases)
     (fastforce simp: shown_ok_def ask_for_def give_back_def look_up_lock_def split: option.splits if_splits)+

lemma look_up_lock_not_queued [simp]: "in_queue_of (look_up_lock c g) = None" "look_up_lock c g \<noteq> Handling l b"
  by (simp_all add: look_up_lock_def split: option.split)

lemma queues_okD:
  assumes "queues_ok g"
  shows "distinct (gl_queues g l)" "gl_asked g l = gl_served g l @ gl_queues g l"
    and "i \<in> set (gl_queues g l) \<Longrightarrow> \<exists>c p. gl_updates g i = Some (c, p) \<and> in_queue_of p = Some l"
    and "gl_updates g i = Some (c, p) \<Longrightarrow> in_queue_of p = Some l \<Longrightarrow> i \<in> set (gl_queues g l)"
    and "gl_updates g i = Some (c, Handling l b) \<Longrightarrow> \<exists>js. gl_queues g l = i # js"
  using assms unfolding queues_ok_def by blast+

lemma queues_okI:
  assumes "\<And>l. distinct (gl_queues g l)" "\<And>l. gl_asked g l = gl_served g l @ gl_queues g l"
    and "\<And>l i. i \<in> set (gl_queues g l) \<Longrightarrow> \<exists>c p. gl_updates g i = Some (c, p) \<and> in_queue_of p = Some l"
    and "\<And>i c p l. gl_updates g i = Some (c, p) \<Longrightarrow> in_queue_of p = Some l \<Longrightarrow> i \<in> set (gl_queues g l)"
    and "\<And>i c l b. gl_updates g i = Some (c, Handling l b) \<Longrightarrow> \<exists>js. gl_queues g l = i # js"
  shows "queues_ok g"
  using assms unfolding queues_ok_def by blast

lemma queues_ok_step:
  assumes "steps_to g g'" "queues_ok g"
  shows "queues_ok g'"
  using assms
proof cases
  case (leave i c l b)
  then obtain js where q: "gl_queues g l = i # js" using queues_okD(5)[OF assms(2)] by blast
  have out: "i \<notin> set (gl_queues g k)" if "k \<noteq> l" for k
    using that leave queues_okD(3)[OF assms(2), of i k] by auto
  have "i \<notin> set js" using q queues_okD(1)[OF assms(2), of l] by simp
  note old = queues_okD[OF assms(2)]
  show ?thesis
    unfolding leave(1)
  proof (rule queues_okI)
    fix k show "distinct (gl_queues (moves_to i c Gone (give_back l g)) k)"
      using old(1) by (simp add: give_back_def distinct_tl)
    show "gl_asked (moves_to i c Gone (give_back l g)) k =
        gl_served (moves_to i c Gone (give_back l g)) k @ gl_queues (moves_to i c Gone (give_back l g)) k"
      using old(2)[of k] q by (simp add: give_back_def)
  next
    fix k j assume "j \<in> set (gl_queues (moves_to i c Gone (give_back l g)) k)"
    then have "j \<in> set (gl_queues g k)" "j \<noteq> i"
      using q out \<open>i \<notin> set js\<close> by (auto simp: give_back_def split: if_splits)
    then show "\<exists>c' p. gl_updates (moves_to i c Gone (give_back l g)) j = Some (c', p) \<and> in_queue_of p = Some k"
      using old(3) by (simp add: give_back_def)
  next
    fix j c' p k
    assume "gl_updates (moves_to i c Gone (give_back l g)) j = Some (c', p)" "in_queue_of p = Some k"
    then have "j \<noteq> i" "j \<in> set (gl_queues g k)"
      using old(4)[of j c' p k] by (auto simp: give_back_def split: if_splits)
    then show "j \<in> set (gl_queues (moves_to i c Gone (give_back l g)) k)"
      using q by (auto simp: give_back_def)
  next
    fix j c' k b' assume "gl_updates (moves_to i c Gone (give_back l g)) j = Some (c', Handling k b')"
    then have "j \<noteq> i" "\<exists>js. gl_queues g k = j # js"
      using old(5)[of j c' k b'] by (auto simp: give_back_def split: if_splits)
    with q show "\<exists>js. gl_queues (moves_to i c Gone (give_back l g)) k = j # js"
      by (auto simp: give_back_def)
  qed
next
  case (ask i c l)
  have out: "i \<notin> set (gl_queues g k)" for k
    using ask queues_okD(3)[OF assms(2), of i k] by auto
  note old = queues_okD[OF assms(2)]
  show ?thesis
    unfolding ask(1)
  proof (rule queues_okI)
    fix k show "distinct (gl_queues (moves_to i c (Queued l) (ask_for l i g)) k)"
      using old(1) out by (simp add: ask_for_def)
    show "gl_asked (moves_to i c (Queued l) (ask_for l i g)) k =
        gl_served (moves_to i c (Queued l) (ask_for l i g)) k @ gl_queues (moves_to i c (Queued l) (ask_for l i g)) k"
      using old(2)[of k] by (auto simp: ask_for_def)
  next
    fix k j assume "j \<in> set (gl_queues (moves_to i c (Queued l) (ask_for l i g)) k)"
    then show "\<exists>c' p. gl_updates (moves_to i c (Queued l) (ask_for l i g)) j = Some (c', p) \<and> in_queue_of p = Some k"
      using old(3)[of j k] out by (auto simp: ask_for_def split: if_splits)
  next
    fix j c' p k
    assume "gl_updates (moves_to i c (Queued l) (ask_for l i g)) j = Some (c', p)" "in_queue_of p = Some k"
    then show "j \<in> set (gl_queues (moves_to i c (Queued l) (ask_for l i g)) k)"
      using old(4)[of j c' p k] by (auto simp: ask_for_def split: if_splits)
  next
    fix j c' k b' assume "gl_updates (moves_to i c (Queued l) (ask_for l i g)) j = Some (c', Handling k b')"
    then show "\<exists>js. gl_queues (moves_to i c (Queued l) (ask_for l i g)) k = j # js"
      using old(5)[of j c' k b'] by (auto simp: ask_for_def split: if_splits)
  qed
next
  case (arrive i c)
  then show ?thesis using assms(2) unfolding queues_ok_def by simp (intro conjI allI impI; force)
next
  case (look i c)
  then show ?thesis using assms(2) unfolding queues_ok_def by simp (intro conjI allI impI; force)
next
  case (found i c l)
  then show ?thesis using assms(2) unfolding queues_ok_def by simp (intro conjI allI impI; force)
next
  case (insert i c)
  then show ?thesis using assms(2) unfolding queues_ok_def by simp (intro conjI allI impI; force)
next
  case (enter i c l js)
  then show ?thesis using assms(2) unfolding queues_ok_def by simp (intro conjI allI impI; force)
next
  case (screen i c l b)
  then show ?thesis using assms(2) unfolding queues_ok_def by simp (intro conjI allI impI; force)
qed

lemma finite_step:
  assumes "steps_to g g'" "finite (dom (gl_updates g))"
  shows "finite (dom (gl_updates g'))"
  using assms by cases (auto simp: ask_for_def give_back_def)

lemma gate_new_ok: "locks_ok gate_new" "updates_ok gate_new" "queues_ok gate_new" "shown_ok gate_new"
  "finite (dom (gl_updates gate_new))"
  by (simp_all add: gate_new_def locks_ok_def updates_ok_def queues_ok_def shown_ok_def)

lemma gate_invariants:
  assumes "reachable g"
  shows "locks_ok g" "updates_ok g" "queues_ok g" "shown_ok g" "finite (dom (gl_updates g))"
proof -
  note from_new = reachable_invariant[OF assms]
  show "locks_ok g" by (rule from_new[of locks_ok, OF gate_new_ok(1) locks_ok_step])
  show "updates_ok g" by (rule from_new[of updates_ok, OF gate_new_ok(2) updates_ok_step])
  show "queues_ok g" by (rule from_new[of queues_ok, OF gate_new_ok(3) queues_ok_step])
  show "shown_ok g" by (rule from_new[of shown_ok, OF gate_new_ok(4) shown_ok_step])
  show "finite (dom (gl_updates g))"
    by (rule from_new[of "\<lambda>g. finite (dom (gl_updates g))", OF gate_new_ok(5) finite_step])
qed

subsection \<open>One at a time\<close>

lemma chat_of_holder:
  assumes "reachable g" "gl_updates g i = Some (c, p)" "in_queue_of p = Some l" "j \<in> set (gl_queues g l)"
  shows "\<exists>q. gl_updates g j = Some (c, q) \<and> in_queue_of q = Some l"
proof -
  note inv = gate_invariants[OF assms(1)]
  have lock: "lock_of q = Some l" if "in_queue_of q = Some l" for q
    using that by (cases q) simp_all
  obtain c' q where q: "gl_updates g j = Some (c', q)" "in_queue_of q = Some l"
    using queues_okD(3)[OF inv(3) assms(4)] by blast
  have "gl_locks g c = Some l" "gl_locks g c' = Some l"
    using inv(2) assms(2,3) q lock unfolding updates_ok_def by blast+
  then have "c' = c" using inv(1) unfolding locks_ok_def by blast
  with q show ?thesis by blast
qed

lemma one_holder:
  assumes "reachable g" "gl_updates g i = Some (c, Handling l b)" "gl_updates g j = Some (c, Handling l' b')"
  shows "i = j"
proof -
  note inv = gate_invariants[OF assms(1)]
  have "gl_locks g c = Some l" "gl_locks g c = Some l'"
    using inv(2) assms(2,3) unfolding updates_ok_def by (metis lock_of.simps(3))+
  then have "l' = l" by simp
  with queues_okD(5)[OF inv(3) assms(2)] queues_okD(5)[OF inv(3) assms(3)] show ?thesis by auto
qed

lemma shown_once:
  assumes "reachable g"
  shows "gl_shown g i \<le> 1"
proof (cases "gl_updates g i")
  case (Some v)
  then obtain c p where "gl_updates g i = Some (c, p)" by (cases v) simp
  then have "shown_at p (gl_shown g i)"
    using gate_invariants(4)[OF assms] unfolding shown_ok_def by blast
  then show ?thesis by (cases p) (auto split: if_splits)
qed (use gate_invariants(4)[OF assms] in \<open>simp add: shown_ok_def\<close>)

text \<open>C27. One update of a chat at a time. However the tasks of the updates interleave, also when two
  updates of a new chat look for its mutex at once, two different updates of one chat are never
  handled at the same time; a mutex has served its updates in the order in which they asked for it;
  and an update shows at most one effect, whatever asks its barrier and how often.\<close>

theorem one_update_of_a_chat_at_a_time:
  assumes "reachable g"
  shows "(gl_updates g i = Some (c, Handling l b) \<longrightarrow> gl_updates g j = Some (c, Handling l' b') \<longrightarrow> i = j)
    \<and> (\<exists>waiting. gl_asked g m = gl_served g m @ waiting) \<and> gl_shown g i \<le> 1"
  using one_holder[OF assms, of i c l b j l' b'] shown_once[OF assms]
    queues_okD(2)[OF gate_invariants(3)[OF assms]] by blast

datatype gate_event = Arrival nat int | Progress nat | Effect nat

fun gate_happens :: "gate_event \<Rightarrow> gate \<Rightarrow> gate option" where
  "gate_happens (Arrival i chat) g = arrives i chat g"
| "gate_happens (Progress i) g = proceeds i g"
| "gate_happens (Effect i) g = map_option snd (asks_barrier i g)"

fun run_gate :: "gate_event list \<Rightarrow> gate \<Rightarrow> gate option" where
  "run_gate [] g = Some g"
| "run_gate (e # es) g = Option.bind (gate_happens e g) (run_gate es)"

lemma run_gate_reachable: "reachable g \<Longrightarrow> run_gate es g = Some g' \<Longrightarrow> reachable g'"
proof (induction es arbitrary: g)
  case (Cons e es)
  then obtain g1 where g1: "gate_happens e g = Some g1" "run_gate es g1 = Some g'"
    by (auto simp: bind_eq_Some_conv)
  have "reachable g1"
    using Cons.prems(1) g1(1) by (cases e) (auto intro: arrival progress effect)
  from this g1(2) show ?case by (rule Cons.IH)
qed simp

text \<open>Two updates of a new chat both miss its mutex, then both take the write lock; the first to
  ask is handled while the second waits.\<close>

definition sample_race :: "gate_event list" where
  "sample_race = [Arrival 1 7, Arrival 2 7, Progress 1, Progress 2, Progress 2, Progress 1,
     Progress 1, Progress 2, Progress 1, Effect 1, Effect 1]"

lemma sample_race_runs:
  "\<exists>g. run_gate sample_race gate_new = Some g \<and> gl_updates g 1 = Some (7, Handling 0 True)
     \<and> gl_updates g 2 = Some (7, Queued 0) \<and> dom (gl_updates g) = {1, 2}"
  by (auto simp: sample_race_def gate_new_def arrives_def proceeds_def moves_to_def look_up_lock_def
      entry_lock_def ask_for_def asks_barrier_def try_consume_def numeral_2_eq_2)

theorem one_update_of_a_chat_at_a_time_witness:
  "\<exists>g. run_gate sample_race gate_new = Some g \<and> gl_updates g 1 = Some (7, Handling 0 True)
     \<and> (\<forall>j l b. gl_updates g j = Some (7, Handling l b) \<longrightarrow> j = 1) \<and> gl_shown g 1 \<le> 1"
proof -
  obtain g where g: "run_gate sample_race gate_new = Some g" "gl_updates g 1 = Some (7, Handling 0 True)"
    using sample_race_runs by blast
  with one_update_of_a_chat_at_a_time[OF run_gate_reachable[OF start g(1)], of 1 7 0 True] show ?thesis
    by blast
qed

subsection \<open>Everyone gets a turn\<close>

fun steps_left :: "passage \<Rightarrow> nat" where
  "steps_left Looking = 5"
| "steps_left NotThere = 4"
| "steps_left (Found _) = 3"
| "steps_left (Queued _) = 2"
| "steps_left (Handling _ _) = 1"
| "steps_left Gone = 0"

definition work_left :: "gate \<Rightarrow> nat" where
  "work_left g = (\<Sum>i \<in> dom (gl_updates g). case gl_updates g i of Some (_, p) \<Rightarrow> steps_left p | None \<Rightarrow> 0)"

fun all_proceed :: "nat list \<Rightarrow> gate \<Rightarrow> gate option" where
  "all_proceed [] g = Some g"
| "all_proceed (i # js) g = Option.bind (proceeds i g) (all_proceed js)"

lemma proceeds_moves:
  assumes "proceeds i g = Some g'"
  shows "\<exists>c p q. gl_updates g i = Some (c, p) \<and> gl_updates g' = (gl_updates g)(i \<mapsto> (c, q)) \<and> steps_left q < steps_left p"
  using assms
  by (auto simp: proceeds_def entry_lock_def look_up_lock_def ask_for_def give_back_def
      split: option.splits passage.splits if_splits)
     (rule exI, rule conjI, rule refl, simp)+

lemma work_decreases:
  assumes "finite (dom (gl_updates g))" "proceeds i g = Some g'"
  shows "work_left g' < work_left g" "dom (gl_updates g') = dom (gl_updates g)"
proof -
  obtain c p q where m: "gl_updates g i = Some (c, p)" "gl_updates g' = (gl_updates g)(i \<mapsto> (c, q))"
    "steps_left q < steps_left p"
    using proceeds_moves[OF assms(2)] by blast
  then show dom: "dom (gl_updates g') = dom (gl_updates g)" by auto
  show "work_left g' < work_left g"
    unfolding work_left_def dom
  proof (rule sum_strict_mono_ex1[OF assms(1)])
    show "\<exists>a \<in> dom (gl_updates g). (case gl_updates g' a of Some (_, p) \<Rightarrow> steps_left p | None \<Rightarrow> 0)
        < (case gl_updates g a of Some (_, p) \<Rightarrow> steps_left p | None \<Rightarrow> 0)"
      using m by (intro bexI[of _ i]) auto
  qed (use m in auto)
qed

lemma steps_left_le: "steps_left p \<le> 5"
  by (cases p) simp_all

lemma work_bounded: "finite (dom (gl_updates g)) \<Longrightarrow> work_left g \<le> 5 * card (dom (gl_updates g))"
  unfolding work_left_def
  by (rule order_trans[OF sum_bounded_above[of _ _ 5]]) (auto simp: steps_left_le)

lemma all_proceed_bounded:
  "finite (dom (gl_updates g)) \<Longrightarrow> all_proceed js g = Some g' \<Longrightarrow> length js + work_left g' \<le> work_left g"
proof (induction js arbitrary: g)
  case (Cons i js)
  then obtain g1 where g1: "proceeds i g = Some g1" "all_proceed js g1 = Some g'"
    by (auto simp: bind_eq_Some_conv)
  with work_decreases[OF Cons.prems(1) g1(1)] Cons.IH[OF _ g1(2)] Cons.prems(1) show ?case by simp
qed simp

lemma someone_of_the_chat_proceeds:
  assumes "reachable g" "gl_updates g i = Some (c, p)" "p \<noteq> Gone"
  shows "\<exists>j q. gl_updates g j = Some (c, q) \<and> proceeds j g \<noteq> None"
proof (cases "in_queue_of p")
  case None
  then have "proceeds i g \<noteq> None"
    using assms(2,3) by (cases p) (auto simp: proceeds_def entry_lock_def split: option.splits)
  with assms(2) show ?thesis by blast
next
  case (Some l)
  have "i \<in> set (gl_queues g l)"
    using queues_okD(4)[OF gate_invariants(3)[OF assms(1)] assms(2) Some] .
  then obtain j js where q: "gl_queues g l = j # js" by (cases "gl_queues g l") auto
  then obtain r where r: "gl_updates g j = Some (c, r)" "in_queue_of r = Some l"
    using chat_of_holder[OF assms(1,2) Some] by auto
  then have "proceeds j g \<noteq> None" using q by (cases r) (auto simp: proceeds_def)
  with r(1) show ?thesis by blast
qed

lemma all_proceed_reachable: "reachable g \<Longrightarrow> all_proceed js g = Some g' \<Longrightarrow> reachable g'"
  by (induction js arbitrary: g) (auto simp: bind_eq_Some_conv dest: progress)

text \<open>C28. Every update gets its turn. Chats do not hold up each other: while an update is not through,
  the task of some update of the same chat can go on. Every schedule of the updates that have arrived ends,
  after at most five steps for each of them, and when none can go on, all are through.\<close>

theorem every_update_gets_its_turn:
  assumes "reachable g"
  shows "(gl_updates g i = Some (c, p) \<longrightarrow> p \<noteq> Gone \<longrightarrow>
        (\<exists>j q. gl_updates g j = Some (c, q) \<and> proceeds j g \<noteq> None))
    \<and> (all_proceed js g = Some g' \<longrightarrow> length js \<le> 5 * card (dom (gl_updates g))
        \<and> ((\<forall>j. proceeds j g' = None) \<longrightarrow> (\<forall>c q. gl_updates g' i = Some (c, q) \<longrightarrow> q = Gone)))"
proof (intro conjI impI allI)
  assume "all_proceed js g = Some g'"
  then show "length js \<le> 5 * card (dom (gl_updates g))"
    using all_proceed_bounded work_bounded gate_invariants(5)[OF assms] by fastforce
next
  fix c q assume "all_proceed js g = Some g'" "\<forall>j. proceeds j g' = None" "gl_updates g' i = Some (c, q)"
  then show "q = Gone"
    using someone_of_the_chat_proceeds[OF all_proceed_reachable[OF assms], of js g' i c q] by auto
qed (use someone_of_the_chat_proceeds[OF assms] in blast)

theorem every_update_gets_its_turn_witness:
  "\<exists>g g'. run_gate sample_race gate_new = Some g \<and> all_proceed [1, 2, 2] g = Some g'
     \<and> length [1, 2, 2 :: nat] \<le> 5 * card (dom (gl_updates g)) \<and> (\<exists>j q. gl_updates g j = Some (7, q) \<and> proceeds j g \<noteq> None)"
proof -
  obtain g where g: "run_gate sample_race gate_new = Some g" "gl_updates g 2 = Some (7, Queued 0)"
    using sample_race_runs by blast
  have "\<exists>g'. all_proceed [1, 2, 2] g = Some g'"
    using g(1) by (auto simp: sample_race_def gate_new_def arrives_def proceeds_def moves_to_def
        look_up_lock_def entry_lock_def ask_for_def give_back_def asks_barrier_def try_consume_def numeral_2_eq_2)
  then obtain g' where "all_proceed [1, 2, 2] g = Some g'" by blast
  with g every_update_gets_its_turn[OF run_gate_reachable[OF start g(1)], of 2 7 "Queued 0" "[1, 2, 2]" g']
  show ?thesis by blast
qed

end
