(* ===== verification/Notifier.thy ===== *)
theory Notifier
  imports Deliveries Bot_Safety
begin

section \<open>The messages of the deliveries\<close>

text \<open>
  \<^verbatim>\<open>src/infrastructure/telegram/bot_gateway.rs\<close>: what a notification looks like in the chat, with the
  buttons under it, and how an error of Telegram is classified for the delivery. The buttons carry
  the older, shorter payloads. What the API answers to a message is the argument \<open>api\<close>; how
  teloxide prints an error is \<open>display\<close>, beside the text of an API error itself.
\<close>

definition OPEN_TASK_LABEL :: utext where "OPEN_TASK_LABEL = txt_nb_open"
definition START_PROGRESS_LABEL :: utext where "START_PROGRESS_LABEL = txt_nb_start"
definition APPROVE_LABEL :: utext where "APPROVE_LABEL = txt_nb_approve"
definition RETURN_TO_WORK_LABEL :: utext where "RETURN_TO_WORK_LABEL = txt_nb_return"
definition BLOCKER_LABEL :: utext where "BLOCKER_LABEL = txt_nb_blocker"

text \<open>A button is its label and its payload.\<close>

type_synonym inline_button = "utext \<times> utext"

definition open_callback :: "(uuid \<Rightarrow> utext) \<Rightarrow> uuid \<Rightarrow> utext" where
  "open_callback show_uuid uid = ascii ''open:'' @ show_uuid uid"

definition block_callback :: "(uuid \<Rightarrow> utext) \<Rightarrow> uuid \<Rightarrow> utext" where
  "block_callback show_uuid uid = ascii ''block:'' @ show_uuid uid"

fun status_payload :: "task_status \<Rightarrow> string" where
  "status_payload Created = ''created''"
| "status_payload Sent = ''sent''"
| "status_payload InProgress = ''in_progress''"
| "status_payload Blocked = ''blocked''"
| "status_payload InReview = ''in_review''"
| "status_payload Completed = ''completed''"
| "status_payload Cancelled = ''cancelled''"

definition status_callback :: "(uuid \<Rightarrow> utext) \<Rightarrow> uuid \<Rightarrow> task_status \<Rightarrow> utext" where
  "status_callback show_uuid uid st =
     ascii ''status:'' @ show_uuid uid @ ascii '':'' @ ascii (status_payload st)"

fun notification_rows :: "(uuid \<Rightarrow> utext) \<Rightarrow> notification_type \<Rightarrow> uuid \<Rightarrow> inline_button list list option" where
  "notification_rows show_uuid TaskAssigned uid = Some
     [[(OPEN_TASK_LABEL, open_callback show_uuid uid),
       (START_PROGRESS_LABEL, status_callback show_uuid uid InProgress),
       (BLOCKER_LABEL, block_callback show_uuid uid)]]"
| "notification_rows show_uuid TaskReviewRequested uid = Some
     [[(OPEN_TASK_LABEL, open_callback show_uuid uid),
       (APPROVE_LABEL, status_callback show_uuid uid Completed),
       (RETURN_TO_WORK_LABEL, status_callback show_uuid uid InProgress)]]"
| "notification_rows show_uuid DailySummary uid = None"
| "notification_rows show_uuid _ uid = Some [[(OPEN_TASK_LABEL, open_callback show_uuid uid)]]"

definition build_keyboard ::
  "(uuid \<Rightarrow> utext) \<Rightarrow> notification_type \<Rightarrow> uuid option \<Rightarrow> inline_button list list option" where
  "build_keyboard show_uuid ntype task_uid =
     (case task_uid of None \<Rightarrow> None | Some uid \<Rightarrow> notification_rows show_uuid ntype uid)"

subsection \<open>Errors\<close>

definition telegram_error :: "(request_error \<Rightarrow> utext) \<Rightarrow> request_error \<Rightarrow> app_error" where
  "telegram_error display e =
     (let context = JObj [(''error'', JStr (display e))];
          failed = network ''TELEGRAM_REQUEST_FAILED'' (ascii ''Telegram API request failed'') context in
      case e of
        ApiError api \<Rightarrow>
          (let text = to_ascii_lowercase api; says = (\<lambda>phrase. contains_text text (ascii phrase)) in
           if says ''bot was blocked by the user'' \<or> says ''user is deactivated''
              \<or> says ''bot is not a member''
           then network ''TELEGRAM_BOT_BLOCKED''
             (ascii ''Bot was blocked by the user or user is deactivated'') context
           else if says ''chat not found'' \<or> says ''group chat was upgraded''
              \<or> says ''supergroup chat was upgraded''
           then network ''TELEGRAM_CHAT_NOT_FOUND'' (ascii ''Telegram chat not found'') context
           else failed)
      | OtherRequestError _ \<Rightarrow> failed)"

text \<open>The answer to the \<open>k\<close>-th message sent, to a chat, with a text and buttons.\<close>

type_synonym bot_api = "nat \<Rightarrow> int \<Rightarrow> utext \<Rightarrow> inline_button list list option \<Rightarrow> request_error + int"

definition send_text :: "(request_error \<Rightarrow> utext) \<Rightarrow> bot_api \<Rightarrow> nat \<Rightarrow> int \<Rightarrow> utext \<Rightarrow> int result" where
  "send_text display api k chat body = map_sum (telegram_error display) id (api k chat body None)"

definition teloxide_notifier ::
  "(request_error \<Rightarrow> utext) \<Rightarrow> (uuid \<Rightarrow> utext) \<Rightarrow> bot_api \<Rightarrow> telegram" where
  "teloxide_notifier display show_uuid api k chat body ntype task_uid st =
     map_sum (telegram_error display) id (api k chat body (build_keyboard show_uuid ntype task_uid))"

subsection \<open>The buttons\<close>

lemma labels_nonempty: "label \<in> {OPEN_TASK_LABEL, START_PROGRESS_LABEL, APPROVE_LABEL, RETURN_TO_WORK_LABEL,
    BLOCKER_LABEL} \<Longrightarrow> label \<noteq> []"
  by (auto simp: OPEN_TASK_LABEL_def START_PROGRESS_LABEL_def APPROVE_LABEL_def RETURN_TO_WORK_LABEL_def
      BLOCKER_LABEL_def notifier_text_defs)

lemma payloads_parse:
  assumes "uuid_format show_uuid parse_uuid"
  shows "parse_callback parse_uuid (open_callback show_uuid u) = Some (OpenTask u OriginAssigned Compact)"
    and "parse_callback parse_uuid (block_callback show_uuid u) = Some (StartTaskBlockerInput u OriginAssigned)"
    and "parse_callback parse_uuid (status_callback show_uuid u st) = Some (UpdateTaskStatus u st OriginAssigned)"
proof -
  have uuid: "58 \<notin> set (show_uuid u)" "parse_uuid (show_uuid u) = Some u"
    using assms by (simp_all add: uuid_format_def)
  have two: "split_on 58 (ascii p @ 58 # show_uuid u) = [ascii p, show_uuid u]" if "58 \<notin> set (ascii p)" for p
    using that uuid(1) by (simp add: split_on_append split_on_no_sep)
  have three: "split_on 58 (ascii p @ 58 # show_uuid u @ 58 # ascii q) = [ascii p, show_uuid u, ascii q]"
    if "58 \<notin> set (ascii p)" "58 \<notin> set (ascii q)" for p q
    using that uuid(1) by (simp add: split_on_append split_on_no_sep)
  show "parse_callback parse_uuid (open_callback show_uuid u) = Some (OpenTask u OriginAssigned Compact)"
    using two[of "''open''"]
    by (simp add: open_callback_def parse_callback_def parse_legacy_callback_def ascii_def uuid)
  show "parse_callback parse_uuid (block_callback show_uuid u) = Some (StartTaskBlockerInput u OriginAssigned)"
    using two[of "''block''"]
    by (simp add: block_callback_def parse_callback_def parse_legacy_callback_def ascii_def uuid)
  have code: "status_payload st = task_status_code st" by (cases st) simp_all
  have "split_on 58 (status_callback show_uuid u st) = [ascii ''status'', show_uuid u, ascii (task_status_code st)]"
    using three[of "''status''" "task_status_code st"] by (simp add: status_callback_def code) (simp add: ascii_def)
  then show "parse_callback parse_uuid (status_callback show_uuid u st) = Some (UpdateTaskStatus u st OriginAssigned)"
    by (simp add: parse_callback_def parse_legacy_callback_def uuid)
qed

lemma payloads_fit:
  assumes "uuid_format show_uuid parse_uuid"
  shows "length (open_callback show_uuid u) \<le> 64" "length (block_callback show_uuid u) \<le> 64"
    "length (status_callback show_uuid u st) \<le> 64"
proof -
  have "length (show_uuid u) = 36" using assms by (simp add: uuid_format_def)
  then show "length (open_callback show_uuid u) \<le> 64" "length (block_callback show_uuid u) \<le> 64"
    "length (status_callback show_uuid u st) \<le> 64"
    by (simp_all add: open_callback_def block_callback_def) (cases st; simp add: status_callback_def)
qed

text \<open>C25. The buttons under a notification are understood. A message about an assignment offers to open the
  task, to start work and to report a blocker, one about a review request to open it, to accept it and to
  return it, any other message about a task to open it, and a summary offers nothing. The payload of each
  of these buttons fits into the 64 bytes Telegram allows, and the bot reads it back as exactly the action
  of its label on the task the notification is about: opening its card, moving it to work, to completion
  or back to work, or asking for the blocker. (Whether the bot carries the action out is another matter:
  it depends on the status of the task by then and on the screen of the chat.)\<close>

theorem notification_buttons_are_understood:
  assumes "uuid_format show_uuid parse_uuid"
  shows "map_option (\<lambda>rows. map (\<lambda>(label, payload). (label, parse_callback parse_uuid payload)) (concat rows))
      (build_keyboard show_uuid ntype task_uid)
    = (case task_uid of None \<Rightarrow> None
       | Some u \<Rightarrow>
          if ntype = DailySummary then None
          else Some ((OPEN_TASK_LABEL, Some (OpenTask u OriginAssigned Compact)) #
            (if ntype = TaskAssigned then
               [(START_PROGRESS_LABEL, Some (UpdateTaskStatus u InProgress OriginAssigned)),
                (BLOCKER_LABEL, Some (StartTaskBlockerInput u OriginAssigned))]
             else if ntype = TaskReviewRequested then
               [(APPROVE_LABEL, Some (UpdateTaskStatus u Completed OriginAssigned)),
                (RETURN_TO_WORK_LABEL, Some (UpdateTaskStatus u InProgress OriginAssigned))]
             else [])))
    \<and> (\<forall>rows label payload. build_keyboard show_uuid ntype task_uid = Some rows
         \<and> (label, payload) \<in> set (concat rows) \<longrightarrow> length payload \<le> 64 \<and> label \<noteq> [])"
proof (cases task_uid)
  case (Some u)
  show ?thesis
    unfolding Some build_keyboard_def option.case
    by (cases ntype) (use payloads_parse[OF assms] payloads_fit[OF assms] in \<open>auto simp: labels_nonempty\<close>)
qed (simp add: build_keyboard_def)

theorem notification_buttons_are_understood_witness:
  "map_option (\<lambda>rows. map (\<lambda>(label, payload). (label, parse_callback sample_parse_uuid payload)) (concat rows))
      (build_keyboard sample_show_uuid TaskReviewRequested (Some 7))
    = Some [(OPEN_TASK_LABEL, Some (OpenTask 7 OriginAssigned Compact)),
        (APPROVE_LABEL, Some (UpdateTaskStatus 7 Completed OriginAssigned)),
        (RETURN_TO_WORK_LABEL, Some (UpdateTaskStatus 7 InProgress OriginAssigned))]"
  using notification_buttons_are_understood[OF sample_uuid_format, of TaskReviewRequested "Some 7"] by simp

text \<open>Understood is not obeyed. The notification is a message of its own and never the screen of the
  chat, so once the chat has a screen, the status buttons of its notifications only get the answer
  that they are out of date.\<close>

lemma status_buttons_of_notifications_are_refused:
  assumes "uuid_format show_uuid parse_uuid"
    and "chat_get (m_chat_id m) (b_screens s) = Some scr" "as_message_id scr \<noteq> m_message_id m"
    and "register_actor R m s = (Finished (ActorReady actor), t)"
  shows "\<exists>cb r reply. parse_callback parse_uuid (status_callback show_uuid u st) = Some cb
    \<and> dispatch_callback_inner R q cb m s =
        (r, t\<lparr> b_calls := b_calls s @ [(AnswerCallback q STALE_MUTATION_CALLBACK_TEXT, reply)] \<rparr>)"
proof -
  have "b_screens s = hydrate_if_missing (m_chat_id m) (m_message_id m) (b_screens s)"
    using assms(2) by (simp add: hydrate_if_missing_def chat_get_def)
  from stale_press(2)[OF _ this assms(2), of "UpdateTaskStatus u st OriginAssigned" R actor t q] assms(3,4)
  show ?thesis using payloads_parse(3)[OF assms(1)] by auto
qed

subsection \<open>Permanent failures\<close>

definition permanent_phrases :: "string list" where
  "permanent_phrases = [''bot was blocked by the user'', ''user is deactivated'', ''bot is not a member'',
     ''chat not found'', ''group chat was upgraded'', ''supergroup chat was upgraded'']"

lemma telegram_error_permanent:
  "err_code (telegram_error display e) \<in> set PERMANENT_DELIVERY_ERROR_CODES \<longleftrightarrow>
     (\<exists>api. e = ApiError api \<and>
        (\<exists>phrase \<in> set permanent_phrases. contains_text (to_ascii_lowercase api) (ascii phrase)))"
  by (cases e) (simp_all add: telegram_error_def PERMANENT_DELIVERY_ERROR_CODES_def permanent_phrases_def
      network_def Let_def)

text \<open>C24. A recipient who cannot be reached is given up at once, any other failure is tried again. When
  Telegram refuses a due notification, it is marked as failed if the refusal is one of the six that
  are known to be permanent, whatever their capitals and whatever stands around them; after any other error it waits for
  its next attempt, unless this was its last one.\<close>

theorem refused_notification:
  assumes "row_of i c = Some n" "awaiting n" "w_faults (co_world c) = []"
    and "find (\<lambda>u. u_id u = Some (n_recipient_user_id n)) (w_users (co_world c)) = Some u"
    and "u_last_chat_id u = Some chat"
    and "\<And>kb. api (length (co_sent c)) chat (n_message n) kb = Inl e"
  shows "\<exists>n'. row_of i (redeliver (teloxide_notifier display show_uuid api) i c) = Some n'
    \<and> n_delivery_state n' =
       (if \<exists>text. e = ApiError text
             \<and> (\<exists>phrase \<in> set permanent_phrases. contains_text (to_ascii_lowercase text) (ascii phrase))
        then DeliveryFailed
        else if n_attempt_count n + 1 < MAX_NOTIFICATION_RETRY_ATTEMPTS then DeliveryRetryPending
        else DeliveryFailed)"
proof -
  let ?tg = "teloxide_notifier display show_uuid api" and ?w = "co_world c"
  have i: "n_id n = Some i" using find_SomeD[OF assms(1)[unfolded row_of_def]] by simp
  obtain rel where rel: "load_related_task (n_task_id n) ?w = (Inr rel, ?w)"
    using assms(3)
    by (cases "n_task_id n") (simp_all add: load_related_task_def find_by_id_def select_no_faults ret_def)
  have "deliver_single ?tg n c = db (after_send i n rel (Inl (telegram_error display e)))
      (c\<lparr> co_sent := co_sent c @ [(chat, n_message n)] \<rparr>)"
    using assms(3-6) rel
    by (simp add: deliver_single_eq i tryA_def attempt_def db_def find_user_by_id_def select_no_faults
        send_notification_def teloxide_notifier_def)
  then obtain m where m: "w_notifications (co_world (snd (deliver_single ?tg n c))) =
      update_where (\<lambda>r. n_id r = Some i) (apply_mark m) (w_notifications ?w)"
    "n_delivery_state (apply_mark m n) =
       (if err_code (telegram_error display e) \<in> set PERMANENT_DELIVERY_ERROR_CODES then DeliveryFailed
        else if n_attempt_count n + 1 < MAX_NOTIFICATION_RETRY_ATTEMPTS then DeliveryRetryPending
        else DeliveryFailed)"
    using assms(3) that[of "MarkFailed code" for code] that[of "MarkRetry later code" for later code]
    by (auto simp: after_send_def handle_transient_failure_def marks db_def tryA_def now_utc_def
        update_notification_calm split: if_splits)
  have "row_of i (snd (deliver_single ?tg n c)) = map_option (\<lambda>r. if n_id r = Some i then apply_mark m r else r) (row_of i c)"
    unfolding row_of_def m(1) by (rule find_update_where) simp
  then have "row_of i (redeliver ?tg i c) = Some (apply_mark m n)"
    using assms(1,2) i by (simp add: redeliver_def)
  with m(2) show ?thesis unfolding telegram_error_permanent by blast
qed

text \<open>The sample notification, to a person who has blocked the bot.\<close>

definition sample_refusal_text :: utext where
  "sample_refusal_text = ascii ''Forbidden: Bot was blocked by the user''"

lemma sample_refusal_permanent:
  "contains_text (to_ascii_lowercase sample_refusal_text) (ascii ''bot was blocked by the user'')"
  by (simp add: sample_refusal_text_def ascii_def to_ascii_lowercase_def starts_with_def)

theorem refused_notification_witness:
  "\<exists>n'. row_of 1 (redeliver (teloxide_notifier (\<lambda>_. []) sample_show_uuid
        (\<lambda>_ _ _ _. Inl (ApiError sample_refusal_text))) 1 sample_courier) = Some n'
     \<and> n_delivery_state n' = DeliveryFailed"
proof -
  obtain u chat where "find (\<lambda>u. u_id u = Some (n_recipient_user_id sample_notification))
      (w_users (co_world sample_courier)) = Some u" "u_last_chat_id u = Some chat"
    by (simp add: sample_courier_def sample_notification_def sample_world_def sample_user_def sample_creator_def)
  moreover have "awaiting sample_notification" by (simp add: awaiting_def sample_notification_def)
  moreover have "\<exists>text. ApiError sample_refusal_text = ApiError text
      \<and> (\<exists>phrase \<in> set permanent_phrases. contains_text (to_ascii_lowercase text) (ascii phrase))"
    using sample_refusal_permanent by (auto simp: permanent_phrases_def)
  ultimately show ?thesis
    using refused_notification[OF sample_courier_ok(1) _ sample_courier_ok(2), of u chat
        "\<lambda>_ _ _ _. Inl (ApiError sample_refusal_text)" "ApiError sample_refusal_text" "\<lambda>_. []" sample_show_uuid]
    by auto
qed

end
