(* ===== verification/Clients.thy ===== *)
theory Clients
  imports Configuration Http_Resilience Transcript Local_Generator
begin

section \<open>The clients of the external services\<close>

text \<open>
  \<^verbatim>\<open>src/infrastructure/ai/gemini_client.rs\<close>, \<^verbatim>\<open>openai_transcription_client.rs\<close> and
  \<^verbatim>\<open>directory_digest.rs\<close>, and \<^verbatim>\<open>src/infrastructure/employee_directory\<close>: which requests the clients send,
  behind their circuit breaker and with retries, and what they make of the answers. The other side is
  the argument \<open>I\<close>: the answer to the \<open>k\<close>-th request of a client and the readings of the monotonic clock. How
  \<^verbatim>\<open>serde_json\<close>, \<^verbatim>\<open>chrono\<close> and the validator read and print is \<open>F\<close>, and percent encoding is \<open>enc\<close>.
\<close>

subsection \<open>Requests and answers\<close>

record gemini_generate_request =
  gq_system_instruction :: utext
  gq_contents :: "(string \<times> utext) list"
  gq_temperature_tenths :: nat
  gq_response_mime_type :: string

datatype sheets_credential = Bearer utext | KeyParameter utext | NoCredential

datatype http_request =
    GenerateContent utext utext gemini_generate_request
  | GetFile utext utext
  | DownloadFile utext
  | TranscribeAudio utext utext utext "8 word list"
  | GetValues utext sheets_credential

text \<open>A request that fails, or the status of its answer with the body that was asked for or the reason why
  the body is not one.\<close>

datatype 'b reply = Unreachable utext | Answered nat "utext + 'b"

record telegram_file_lookup_response =
  fl_ok :: bool
  fl_result :: "utext option option"
  fl_description :: "utext option"

record internet =
  in_now :: "nat \<Rightarrow> instant"
  in_candidates :: "nat \<Rightarrow> utext list list reply"
  in_file :: "nat \<Rightarrow> telegram_file_lookup_response reply"
  in_audio :: "nat \<Rightarrow> 8 word list reply"
  in_transcript :: "nat \<Rightarrow> utext reply"
  in_values :: "nat \<Rightarrow> utext list list option reply"

record model_formats =
  mf_iso_date :: "day \<Rightarrow> utext"
  mf_parse_draft :: "utext \<Rightarrow> utext + structured_task_draft"
  mf_report :: "structured_task_draft \<Rightarrow> utext"

text \<open>A client has its own breaker. The model keeps the requests it sent; the database is there for
  the digest of the directory.\<close>

record client =
  cl_breaker :: circuit_breaker
  cl_readings :: nat
  cl_requests :: "http_request list"
  cl_world :: world

definition client_new :: "world \<Rightarrow> client" where
  "client_new w = \<lparr> cl_breaker = breaker_new, cl_readings = 0, cl_requests = [], cl_world = w \<rparr>"

definition database_act :: "(world, 'a) act \<Rightarrow> (client, 'a) act" where
  "database_act m c = (case m (cl_world c) of (r, w) \<Rightarrow> (r, c\<lparr> cl_world := w \<rparr>))"

definition breaker_closed :: "internet \<Rightarrow> string \<Rightarrow> (client, unit) act" where
  "breaker_closed I service_name c =
     (ensure_closed service_name (in_now I (cl_readings c)) (cl_breaker c),
      c\<lparr> cl_readings := Suc (cl_readings c) \<rparr>)"

definition breaker_failure :: "internet \<Rightarrow> (client, unit) act" where
  "breaker_failure I c =
     (Inr (), c\<lparr> cl_breaker := record_failure (in_now I (cl_readings c)) (cl_breaker c),
        cl_readings := Suc (cl_readings c) \<rparr>)"

definition breaker_success :: "(client, unit) act" where
  "breaker_success c = (Inr (), c\<lparr> cl_breaker := record_success (cl_breaker c) \<rparr>)"

definition error_of :: "string \<Rightarrow> string \<Rightarrow> utext \<Rightarrow> app_error" where
  "error_of code message e = network code (ascii message) (JObj [(''error'', JStr e)])"

definition status_error :: "string \<Rightarrow> string \<Rightarrow> nat \<Rightarrow> app_error" where
  "status_error code message st = network code (ascii message) (JObj [(''status'', JNum (int st))])"

text \<open>\<^verbatim>\<open>send().await.map_err(..)?\<close>, and \<^verbatim>\<open>json().await.map_err(..)?\<close> on its answer.\<close>

definition send_request ::
  "http_request \<Rightarrow> (nat \<Rightarrow> 'b reply) \<Rightarrow> string \<Rightarrow> string \<Rightarrow> (client, nat \<times> (utext + 'b)) act" where
  "send_request req answer code message c =
     ((case answer (length (cl_requests c)) of
         Unreachable e \<Rightarrow> Inl (error_of code message e)
       | Answered st body \<Rightarrow> Inr (st, body)),
      c\<lparr> cl_requests := cl_requests c @ [req] \<rparr>)"

definition read_body :: "string \<Rightarrow> string \<Rightarrow> utext + 'b \<Rightarrow> 'b result" where
  "read_body code message body = (case body of Inl e \<Rightarrow> Inl (error_of code message e) | Inr b \<Rightarrow> Inr b)"

definition is_success :: "nat \<Rightarrow> bool" where
  "is_success st \<longleftrightarrow> 200 \<le> st \<and> st \<le> 299"

definition ensure_success_status :: "nat \<times> 'c \<Rightarrow> string \<Rightarrow> string \<Rightarrow> 'c result" where
  "ensure_success_status response code message =
     (if is_success (fst response) then Inr (snd response) else Inl (status_error code message (fst response)))"

text \<open>The same with the breaker, which only counts answers of the wrong status.\<close>

definition guarded_status :: "internet \<Rightarrow> nat \<times> 'c \<Rightarrow> string \<Rightarrow> string \<Rightarrow> (client, 'c) act" where
  "guarded_status I response code message =
     (if is_success (fst response) then ret (snd response)
      else tryA (breaker_failure I) (\<lambda>_. fail (status_error code message (fst response))))"

subsection \<open>The digest of the directory\<close>

definition MAX_DIGEST_BYTES :: nat where "MAX_DIGEST_BYTES = 8 * 1024"

definition bytes :: "utext \<Rightarrow> nat" where
  "bytes s = sum_list (map len_utf8 s)"

definition digest_line :: "employee \<Rightarrow> utext" where
  "digest_line e =
     (case e_telegram_username e of
        Some handle \<Rightarrow>
          if handle \<noteq> [] then (e_full_name e @ txt_dg_handle @ trim_start_by (\<lambda>c. c = 64) handle)
          else e_full_name e
      | None \<Rightarrow> e_full_name e)"

definition append_line :: "utext \<Rightarrow> utext \<Rightarrow> utext" where
  "append_line out line = (if out = [] then line else out @ [10] @ line)"

text \<open>The loop: what was written and how many employees are left out.\<close>

fun digest_loop :: "employee list \<Rightarrow> utext \<Rightarrow> utext \<times> nat" where
  "digest_loop [] out = (out, 0)"
| "digest_loop (e # es) out =
     (if bytes out + bytes (digest_line e) + 1 > MAX_DIGEST_BYTES then (out, length (e # es))
      else digest_loop es (append_line out (digest_line e)))"

definition digest_footer :: "nat \<Rightarrow> utext" where
  "digest_footer truncated =
     (txt_dg_footer @ show_int (int truncated) @ txt_dg_footer_2)"

definition render_digest :: "employee list \<Rightarrow> utext" where
  "render_digest employees =
     (case digest_loop employees [] of (out, truncated) \<Rightarrow>
        if truncated > 0 then append_line out (digest_footer truncated) else out)"

definition fetch_digest :: "(world, utext) act" where
  "fetch_digest =
     tryA list_active_employees (\<lambda>employees. ret (render_digest (sort_key e_full_name employees)))"

text \<open>What is listed fits into the budget, and it is the longest list of the first employees that does.\<close>

lemma bytes_append [simp]: "bytes (s @ t) = bytes s + bytes t" "bytes (c # s) = len_utf8 c + bytes s" "bytes [] = 0"
  by (simp_all add: bytes_def)

lemma digest_line_nonempty: "e_full_name e \<noteq> [] \<Longrightarrow> digest_line e \<noteq> []"
  by (auto simp: digest_line_def split: option.split)

lemma join_snoc: "xs \<noteq> [] \<Longrightarrow> join sep (xs @ [y]) = join sep xs @ sep @ y"
  by (induction sep xs rule: join.induct) auto

lemma append_line_join:
  assumes "\<forall>x \<in> set xs. x \<noteq> []"
  shows "append_line (join [10] xs) y = join [10] (xs @ [y])"
proof (cases "xs = []")
  case False
  then have "join [10] xs \<noteq> []" using assms by (cases xs rule: list.exhaust; cases "tl xs") auto
  with False show ?thesis by (simp add: append_line_def join_snoc)
qed (simp add: append_line_def)

lemma digest_loop_prefix:
  assumes "\<forall>e \<in> set (before @ es). e_full_name e \<noteq> []" "bytes (join [10] (map digest_line before)) \<le> MAX_DIGEST_BYTES"
  shows "\<exists>n \<le> length es. digest_loop es (join [10] (map digest_line before)) =
        (join [10] (map digest_line (before @ take n es)), length es - n)
     \<and> bytes (join [10] (map digest_line (before @ take n es))) \<le> MAX_DIGEST_BYTES
     \<and> (n < length es \<longrightarrow> MAX_DIGEST_BYTES <
          bytes (join [10] (map digest_line (before @ take n es))) + bytes (digest_line (es ! n)) + 1)"
  using assms
proof (induction es arbitrary: "before")
  case (Cons e es)
  let ?out = "join [10] (map digest_line before)"
  show ?case
  proof (cases "bytes ?out + bytes (digest_line e) + 1 > MAX_DIGEST_BYTES")
    case True
    with Cons.prems show ?thesis by (intro exI[of _ 0]) simp
  next
    case False
    have next_out: "append_line ?out (digest_line e) = join [10] (map digest_line (before @ [e]))"
      using append_line_join[of "map digest_line before"] Cons.prems(1) digest_line_nonempty by auto
    have "bytes (append_line ?out (digest_line e)) \<le> MAX_DIGEST_BYTES"
      using False by (auto simp: append_line_def len_utf8_def)
    then obtain n where "n \<le> length es" "digest_loop es (join [10] (map digest_line (before @ [e]))) =
        (join [10] (map digest_line ((before @ [e]) @ take n es)), length es - n)"
      "bytes (join [10] (map digest_line ((before @ [e]) @ take n es))) \<le> MAX_DIGEST_BYTES"
      "n < length es \<longrightarrow> MAX_DIGEST_BYTES < bytes (join [10] (map digest_line ((before @ [e]) @ take n es)))
          + bytes (digest_line (es ! n)) + 1"
      using Cons.IH[of "before @ [e]"] Cons.prems(1) next_out by auto
    with False next_out show ?thesis by (intro exI[of _ "Suc n"]) simp
  qed
qed simp


text \<open>The digest fits its budget. Of employees with names it lists as many, from the first on, as fit into
  8192 bytes, one per line, and says how many are left out: the listed part never exceeds the budget,
  and when someone is left out, the next line would not have fitted.\<close>

theorem digest_fits_its_budget:
  assumes "\<forall>e \<in> set es. e_full_name e \<noteq> []"
  shows "\<exists>n listed. n \<le> length es \<and> listed = join [10] (map digest_line (take n es))
    \<and> render_digest es = (if n < length es then append_line listed (digest_footer (length es - n)) else listed)
    \<and> bytes listed \<le> MAX_DIGEST_BYTES
    \<and> (n < length es \<longrightarrow> MAX_DIGEST_BYTES < bytes listed + bytes (digest_line (es ! n)) + 1)"
  using digest_loop_prefix[of "[]" es] assms by (fastforce simp: render_digest_def MAX_DIGEST_BYTES_def)

theorem digest_fits_its_budget_witness:
  "\<exists>n listed. n \<le> 2 \<and> listed = join [10] (map digest_line (take n [sample_employee, sample_employee]))
     \<and> bytes listed \<le> MAX_DIGEST_BYTES"
  using digest_fits_its_budget[of "[sample_employee, sample_employee]"] by (auto simp: sample_employee_def ascii_def)

text \<open>Nothing but names and handles goes into it.\<close>

lemma digest_of_names:
  assumes "map (\<lambda>e. (e_full_name e, e_telegram_username e)) es = map (\<lambda>e. (e_full_name e, e_telegram_username e)) es'"
  shows "render_digest es = render_digest es'"
proof -
  have "digest_loop es out = digest_loop es' out" for out
    using assms
  proof (induction es arbitrary: es' out)
    case (Cons e es)
    then obtain e' es1 where es': "es' = e' # es1" by (cases es') auto
    with Cons.prems have "digest_line e = digest_line e'" "length es = length es1"
      by (auto simp: digest_line_def split: option.split dest: map_eq_imp_length_eq)
    with Cons.IH[of es1] Cons.prems es' show ?case by simp
  qed simp
  then show ?thesis by (simp add: render_digest_def)
qed

subsection \<open>Gemini\<close>

definition GEMINI_API_BASE_URL :: string where
  "GEMINI_API_BASE_URL = ''https://generativelanguage.googleapis.com/v1beta/models''"

definition SYSTEM_PROMPT :: utext where
  "SYSTEM_PROMPT = txt_system_prompt"

record prompt_context =
  pc_parsed_request :: parsed_task_request
  pc_assignee :: "employee option"
  pc_today_iso :: utext
  pc_today_weekday :: utext
  pc_user_timezone :: utext
  pc_directory_digest :: utext

definition weekday_ru :: "nat \<Rightarrow> utext" where
  "weekday_ru weekday =
     [txt_wd_mon, txt_wd_tue, txt_wd_wed,
      txt_wd_thu, txt_wd_fri, txt_wd_sat,
      txt_wd_sun] ! weekday"

definition user_prompt :: "model_formats \<Rightarrow> prompt_context \<Rightarrow> utext" where
  "user_prompt F context =
    (let p = pc_parsed_request context;
         assignee_display =
           (case map_option e_full_name (pc_assignee context) of
              Some name \<Rightarrow> name
            | None \<Rightarrow>
                (case p_assignee_name p of Some name \<Rightarrow> name | None \<Rightarrow> txt_gp_nobody));
         deadline_hint =
           (case p_deadline p of
              Some date \<Rightarrow> mf_iso_date F date | None \<Rightarrow> txt_gp_no_deadline);
         directory_block =
           (if pc_directory_digest context = []
            then txt_gp_no_directory
            else (txt_gp_directory @ pc_directory_digest context))
     in (txt_gp_prompt @ pc_today_iso context @ ascii '' ('' @ pc_today_weekday context
      @ txt_gp_prompt_2 @ pc_user_timezone context @ txt_gp_prompt_3 @ directory_block
      @ txt_gp_prompt_4 @ assignee_display @ txt_gp_prompt_5 @ deadline_hint
      @ txt_gp_prompt_6 @ p_task_description p @ txt_gp_prompt_7))"

definition from_input :: "model_formats \<Rightarrow> prompt_context \<Rightarrow> gemini_generate_request" where
  "from_input F context =
     \<lparr> gq_system_instruction = SYSTEM_PROMPT, gq_contents = [(''user'', user_prompt F context)],
       gq_temperature_tenths = 2, gq_response_mime_type = ''application/json'' \<rparr>"

text \<open>A generator with or without a source of digests; a digest that fails is left out.\<close>

record gemini_task_generator =
  gm_config :: gemini_config
  gm_directory_digest :: bool

definition with_directory_digest :: "gemini_task_generator \<Rightarrow> gemini_task_generator" where
  "with_directory_digest G = G\<lparr> gm_directory_digest := True \<rparr>"

definition digest_or_nothing :: "gemini_task_generator \<Rightarrow> (client, utext) act" where
  "digest_or_nothing G =
     (if gm_directory_digest G
      then attempt (database_act fetch_digest) (\<lambda>r. case r of Inr digest \<Rightarrow> ret digest | Inl _ \<Rightarrow> ret [])
      else ret [])"

definition first_text :: "utext list list \<Rightarrow> utext option" where
  "first_text candidates =
     (case candidates of
        [] \<Rightarrow> None
      | parts # _ \<Rightarrow> (case parts of [] \<Rightarrow> None | part # _ \<Rightarrow> Some part))"

definition perform_request ::
  "internet \<Rightarrow> model_formats \<Rightarrow> gemini_task_generator \<Rightarrow> parsed_task_request \<Rightarrow> employee option \<Rightarrow>
   (client, generated_task) act" where
  "perform_request I F G p assignee =
    tryA (breaker_closed I ''gemini'') (\<lambda>_.
    tryA (database_act now_utc) (\<lambda>today.
    tryA (digest_or_nothing G) (\<lambda>digest.
    let url = ascii (GEMINI_API_BASE_URL @ ''/'') @ gc_model (gm_config G) @ ascii '':generateContent'';
        context = \<lparr> pc_parsed_request = p, pc_assignee = assignee,
          pc_today_iso = mf_iso_date F (date_of today),
          pc_today_weekday = weekday_ru (num_days_from_monday (date_of today)),
          pc_user_timezone = ascii DEFAULT_USER_TIMEZONE, pc_directory_digest = digest \<rparr> in
    tryA (send_request (GenerateContent url (gc_api_key (gm_config G)) (from_input F context))
            (in_candidates I) ''GEMINI_REQUEST_FAILED'' ''Gemini request failed'') (\<lambda>response.
    tryA (guarded_status I response ''GEMINI_HTTP_STATUS'' ''Gemini returned a non-success status code'') (\<lambda>body.
    tryA (lift (read_body ''GEMINI_RESPONSE_INVALID'' ''Gemini response is not valid JSON'' body)) (\<lambda>candidates.
    tryA (lift (ok_or (network ''GEMINI_RESPONSE_EMPTY''
            (ascii ''Gemini response did not contain task JSON'') (JObj [])) (first_text candidates))) (\<lambda>raw_response.
    tryA (lift (case mf_parse_draft F raw_response of
            Inl e \<Rightarrow> Inl (schema_validation ''GEMINI_SCHEMA_INVALID''
              (ascii ''Gemini response does not match the expected schema'')
              (JObj [(''error'', JStr e), (''raw_response'', JStr raw_response)]))
          | Inr d \<Rightarrow> Inr d)) (\<lambda>d.
    tryA (lift (validate_business_rules (mf_report F) d)) (\<lambda>_.
    tryA breaker_success (\<lambda>_.
    ret \<lparr> gt_model_name = gc_model (gm_config G), gt_raw_response = raw_response,
          gt_structured_task = d \<rparr>))))))))))"

definition generate_task ::
  "internet \<Rightarrow> model_formats \<Rightarrow> gemini_task_generator \<Rightarrow> parsed_task_request \<Rightarrow> employee option \<Rightarrow>
   (client \<times> nat list, generated_task) act" where
  "generate_task I F G p assignee = retry_with_backoff (perform_request I F G p assignee)"

subsection \<open>OpenAI\<close>

definition TELEGRAM_API_BASE_URL :: string where "TELEGRAM_API_BASE_URL = ''https://api.telegram.org''"
definition OPENAI_TRANSCRIPTION_URL :: string where
  "OPENAI_TRANSCRIPTION_URL = ''https://api.openai.com/v1/audio/transcriptions''"
definition MAX_AUDIO_FILE_SIZE_BYTES :: nat where "MAX_AUDIO_FILE_SIZE_BYTES = 25 * 1024 * 1024"
definition MAX_AUDIO_DURATION_SECONDS :: nat where "MAX_AUDIO_DURATION_SECONDS = 10 * 60"

definition validate_voice_metadata :: "voice_attachment \<Rightarrow> unit result" where
  "validate_voice_metadata voice =
    (if v_duration_seconds voice > MAX_AUDIO_DURATION_SECONDS then
       Inl (business_rule ''VOICE_TOO_LONG'' (ascii ''Voice message duration exceeds the supported limit'')
         (JObj [(''max_seconds'', JNum (int MAX_AUDIO_DURATION_SECONDS))]))
     else
       (case v_file_size_bytes voice of
          Some file_size_bytes \<Rightarrow>
            if file_size_bytes > MAX_AUDIO_FILE_SIZE_BYTES then
              Inl (business_rule ''VOICE_TOO_LARGE'' (ascii ''Voice message file size exceeds the supported limit'')
                (JObj [(''max_bytes'', JNum (int MAX_AUDIO_FILE_SIZE_BYTES))]))
            else Inr ()
        | None \<Rightarrow> Inr ()))"

definition download_voice :: "internet \<Rightarrow> telegram_config \<Rightarrow> voice_attachment \<Rightarrow> (client, 8 word list) act" where
  "download_voice I T voice =
    tryA (lift (validate_voice_metadata voice)) (\<lambda>_.
    tryA (send_request (GetFile (ascii (TELEGRAM_API_BASE_URL @ ''/bot'') @ tc_bot_token T @ ascii ''/getFile'')
             (v_file_id voice)) (in_file I)
            ''TELEGRAM_FILE_LOOKUP_FAILED'' ''Failed to request voice file metadata from Telegram'') (\<lambda>response.
    tryA (lift (ensure_success_status response ''TELEGRAM_FILE_LOOKUP_HTTP_STATUS''
            ''Telegram file lookup returned a non-success status'')) (\<lambda>body.
    tryA (lift (read_body ''TELEGRAM_FILE_LOOKUP_INVALID'' ''Telegram file lookup response is invalid'' body)) (\<lambda>payload.
    if \<not> fl_ok payload then
      fail (network ''TELEGRAM_FILE_LOOKUP_REJECTED'' (ascii ''Telegram rejected the voice file lookup request'')
        (JObj [(''description'', case fl_description payload of None \<Rightarrow> JNull | Some d \<Rightarrow> JStr d)]))
    else
    tryA (lift (ok_or (network ''TELEGRAM_FILE_PATH_MISSING''
            (ascii ''Telegram did not return a downloadable file path'')
            (JObj [(''file_id'', JStr (v_file_id voice))])) (Option.bind (fl_result payload) id))) (\<lambda>file_path.
    tryA (send_request (DownloadFile (ascii (TELEGRAM_API_BASE_URL @ ''/file/bot'') @ tc_bot_token T
             @ ascii ''/'' @ file_path)) (in_audio I)
            ''TELEGRAM_FILE_DOWNLOAD_FAILED'' ''Failed to download voice payload from Telegram'') (\<lambda>download.
    tryA (lift (ensure_success_status download ''TELEGRAM_FILE_DOWNLOAD_HTTP_STATUS''
            ''Telegram file download returned a non-success status'')) (\<lambda>audio.
    lift (read_body ''TELEGRAM_FILE_BYTES_INVALID'' ''Failed to read downloaded voice bytes'' audio))))))))"

definition transcribe_bytes :: "internet \<Rightarrow> openai_config \<Rightarrow> 8 word list \<Rightarrow> (client, utext) act" where
  "transcribe_bytes I A audio_bytes =
    tryA (breaker_closed I ''openai_transcription'') (\<lambda>_.
    tryA (send_request (TranscribeAudio (oc_api_key A) (oc_transcription_model A) (ascii ''ru'') audio_bytes)
            (in_transcript I) ''OPENAI_TRANSCRIPTION_FAILED'' ''Failed to request transcription from OpenAI'') (\<lambda>response.
    tryA (guarded_status I response ''OPENAI_TRANSCRIPTION_HTTP_STATUS''
            ''OpenAI transcription API returned a non-success status'') (\<lambda>body.
    tryA (lift (read_body ''OPENAI_TRANSCRIPTION_RESPONSE_INVALID'' ''OpenAI transcription response is invalid'' body)) (\<lambda>spoken.
    if trim spoken = [] then
      fail (business_rule ''TRANSCRIPTION_EMPTY'' (ascii ''Voice message could not be transcribed into text'') (JObj []))
    else tryA breaker_success (\<lambda>_. ret (trim spoken))))))"

definition transcribe ::
  "internet \<Rightarrow> telegram_config \<Rightarrow> openai_config \<Rightarrow> voice_attachment \<Rightarrow> (client \<times> nat list, utext) act" where
  "transcribe I T A voice =
     tryA (retry_with_backoff (download_voice I T voice)) (\<lambda>audio_bytes.
     retry_with_backoff (transcribe_bytes I A audio_bytes))"

subsection \<open>The employee directory\<close>

definition GOOGLE_SHEETS_VALUES_URL :: string where
  "GOOGLE_SHEETS_VALUES_URL = ''https://sheets.googleapis.com/v4/spreadsheets''"

definition sheets_credentials :: "google_sheets_config \<Rightarrow> sheets_credential" where
  "sheets_credentials C =
     (case gs_bearer_token C of
        Some token \<Rightarrow> Bearer token
      | None \<Rightarrow> (case gs_api_key C of Some key \<Rightarrow> KeyParameter key | None \<Rightarrow> NoCredential))"

definition fetch_rows ::
  "internet \<Rightarrow> (utext \<Rightarrow> utext) \<Rightarrow> google_sheets_config \<Rightarrow> (client, utext list list) act" where
  "fetch_rows I enc C =
    tryA (breaker_closed I ''google_sheets'') (\<lambda>_.
    tryA (send_request (GetValues (ascii (GOOGLE_SHEETS_VALUES_URL @ ''/'') @ gs_spreadsheet_id C @ ascii ''/values/''
             @ enc (gs_range C)) (sheets_credentials C)) (in_values I)
            ''GOOGLE_SHEETS_REQUEST_FAILED'' ''Failed to request employees from Google Sheets'') (\<lambda>response.
    tryA (guarded_status I response ''GOOGLE_SHEETS_HTTP_STATUS''
            ''Google Sheets returned a non-success status code'') (\<lambda>body.
    tryA (lift (read_body ''GOOGLE_SHEETS_RESPONSE_INVALID'' ''Google Sheets response is invalid'' body)) (\<lambda>cells.
    tryA breaker_success (\<lambda>_.
    ret (case cells of Some rows \<Rightarrow> rows | None \<Rightarrow> []))))))"

definition is_header_row :: "unicode \<Rightarrow> utext list \<Rightarrow> bool" where
  "is_header_row U row =
     list_ex (\<lambda>cell. replace_char 32 95 (uc_to_lowercase U (trim cell)) \<in>
       {ascii ''full_name'', ascii ''telegram_username'', ascii ''email'', ascii ''phone'',
        ascii ''department'', ascii ''is_active''}) row"

definition cell_at :: "utext list \<Rightarrow> nat \<Rightarrow> utext option" where
  "cell_at row i = (if i < length row then Some (row ! i) else None)"

definition filled_cell :: "(utext \<Rightarrow> utext) \<Rightarrow> utext list \<Rightarrow> nat \<Rightarrow> utext option" where
  "filled_cell clean row i =
     (case map_option (\<lambda>v. clean (trim v)) (cell_at row i) of
        Some v \<Rightarrow> if v = [] then None else Some v
      | None \<Rightarrow> None)"

definition employee_of_cells :: "unicode \<Rightarrow> instant \<Rightarrow> nat \<times> utext list \<Rightarrow> employee option" where
  "employee_of_cells U now indexed =
    (let (index, row) = indexed in
     if index = 0 \<and> is_header_row U row then None
     else
       (case cell_at row 0 of
          None \<Rightarrow> None
        | Some cell \<Rightarrow>
            (let full_name = trim cell in
             if full_name = [] then None
             else Some
               \<lparr> e_id = None, e_full_name = full_name,
                 e_telegram_username = filled_cell (trim_start_by (\<lambda>c. c = 64)) row 1,
                 e_email = filled_cell id row 2, e_phone = filled_cell id row 3,
                 e_department = filled_cell id row 4,
                 e_is_active = (case cell_at row 5 of
                     Some v \<Rightarrow> \<not> eq_ignore_ascii_case (trim v) (ascii ''false'') | None \<Rightarrow> True),
                 e_synced_at = Some now, e_created_at = now, e_updated_at = now \<rparr>)))"

definition employees_of_rows :: "unicode \<Rightarrow> instant \<Rightarrow> utext list list \<Rightarrow> employee list" where
  "employees_of_rows U now rows = List.map_filter (employee_of_cells U now) (enumerate 0 rows)"

definition fetch_employees ::
  "internet \<Rightarrow> unicode \<Rightarrow> (utext \<Rightarrow> utext) \<Rightarrow> google_sheets_config \<Rightarrow> (client \<times> nat list, employee list) act" where
  "fetch_employees I U enc C =
     tryA (retry_with_backoff (fetch_rows I enc C)) (\<lambda>rows (c, slept).
       case database_act now_utc c of
         (Inr now, c1) \<Rightarrow> (Inr (employees_of_rows U now rows), (c1, slept))
       | (Inl e, c1) \<Rightarrow> (Inl e, (c1, slept)))"

definition local_directory :: "employee list result" where
  "local_directory = Inr []"

subsection \<open>How many requests\<close>

text \<open>\<open>sends b m\<close>: the action adds requests to those sent, of each kind at most as many as the budget \<open>b\<close> has.\<close>

datatype request_kind = ModelRequest | LookupRequest | DownloadRequest | TranscriptionRequest | SheetRequest

fun kind_of :: "http_request \<Rightarrow> request_kind" where
  "kind_of (GenerateContent _ _ _) = ModelRequest"
| "kind_of (GetFile _ _) = LookupRequest"
| "kind_of (DownloadFile _) = DownloadRequest"
| "kind_of (TranscribeAudio _ _ _ _) = TranscriptionRequest"
| "kind_of (GetValues _ _) = SheetRequest"

definition adds_requests :: "request_kind multiset \<Rightarrow> client \<Rightarrow> client \<Rightarrow> bool" where
  "adds_requests b c c' \<longleftrightarrow> (\<exists>sent. cl_requests c' = cl_requests c @ sent \<and> mset (map kind_of sent) \<subseteq># b)"

definition sends :: "request_kind multiset \<Rightarrow> (client, 'a) act \<Rightarrow> bool" where
  "sends b m \<longleftrightarrow> (\<forall>c. adds_requests b c (snd (m c)))"

lemma adds_refl [simp]: "adds_requests b c c"
  by (simp add: adds_requests_def)

lemma adds_trans: "adds_requests a c c1 \<Longrightarrow> adds_requests b c1 c2 \<Longrightarrow> adds_requests (a + b) c c2"
  by (fastforce simp: adds_requests_def intro: subset_mset.add_mono)

lemma adds_mono: "adds_requests a c c' \<Longrightarrow> a \<subseteq># b \<Longrightarrow> adds_requests b c c'"
  by (auto simp: adds_requests_def)

lemma sends_nothing [simp]:
  "sends {#} (ret x)" "sends {#} (fail e)" "sends {#} (lift r)" "sends {#} (breaker_closed I service)"
  "sends {#} (breaker_failure I)" "sends {#} breaker_success" "sends {#} (database_act m)"
  by (simp_all add: sends_def adds_requests_def ret_def fail_def lift_def breaker_closed_def breaker_failure_def
      breaker_success_def database_act_def split: prod.split)

lemma sends_one [simp]:
  "sends {#ModelRequest#} (send_request (GenerateContent url key body) answer code message)"
  "sends {#LookupRequest#} (send_request (GetFile url file_id) answer1 code message)"
  "sends {#DownloadRequest#} (send_request (DownloadFile url) answer2 code message)"
  "sends {#TranscriptionRequest#} (send_request (TranscribeAudio key model lang audio) answer3 code message)"
  "sends {#SheetRequest#} (send_request (GetValues url credential) answer4 code message)"
  by (simp_all add: sends_def adds_requests_def send_request_def)

lemma sends_mono: "sends a m \<Longrightarrow> a \<subseteq># b \<Longrightarrow> sends b m"
  unfolding sends_def by (blast intro: adds_mono)

lemma sends_tryA:
  assumes "sends a m" "\<And>x. sends b (f x)"
  shows "sends (a + b) (tryA m f)"
  unfolding sends_def
proof
  fix c
  obtain r c1 where run: "m c = (r, c1)" by fastforce
  then have first: "adds_requests a c c1" using assms(1) by (metis sends_def snd_conv)
  have "adds_requests b c1 (snd (f x c1))" for x using assms(2) by (simp add: sends_def)
  then show "adds_requests (a + b) c (snd (tryA m f c))"
    using first adds_mono[OF first, of "a + b"] adds_trans[OF first] by (cases r) (auto simp: tryA_def run)
qed

lemma sends_attempt:
  assumes "sends a m" "\<And>x. sends b (f x)"
  shows "sends (a + b) (attempt m f)"
  using assms unfolding sends_def attempt_def by (auto split: prod.split intro: adds_trans)

lemma sends_if: "sends a m \<Longrightarrow> sends b n \<Longrightarrow> sends (a \<union># b) (if P then m else n)"
  by (auto intro: sends_mono)

lemma sends_sum: "(\<And>x. sends a (f x)) \<Longrightarrow> (\<And>x. sends b (g x)) \<Longrightarrow>
    sends (a \<union># b) (case r of Inl x \<Rightarrow> f x | Inr x \<Rightarrow> g x)"
  by (cases r) (simp_all, (rule sends_mono, assumption, simp | rule sends_mono, blast, simp)+)

lemmas sends_rules = sends_tryA sends_attempt sends_if sends_sum sends_nothing sends_one

lemma sends_guarded [simp]: "sends {#} (guarded_status I response code message)"
  unfolding guarded_status_def by (rule sends_mono, (rule sends_rules)+, simp)

lemma sends_digest [simp]: "sends {#} (digest_or_nothing G)"
  unfolding digest_or_nothing_def by (rule sends_mono, (rule sends_rules)+, simp)

lemma one_request_each:
  "sends {#ModelRequest#} (perform_request I F G p assignee)"
  "sends {#TranscriptionRequest#} (transcribe_bytes I A audio_bytes)"
  "sends {#SheetRequest#} (fetch_rows I enc C)"
  unfolding perform_request_def transcribe_bytes_def fetch_rows_def Let_def
  by (rule sends_mono, (rule sends_rules sends_guarded sends_digest)+, simp)+

lemma two_requests: "sends {#LookupRequest, DownloadRequest#} (download_voice I T voice)"
  unfolding download_voice_def by (rule sends_mono, (rule sends_rules)+, simp)

lemma retry_adds:
  assumes "sends b op"
  shows "adds_requests (repeat_mset (length ks) b) c (fst (snd (retry_loop op ks delay e (c, slept))))"
proof (induction ks arbitrary: delay e c slept)
  case (Cons a ks)
  have one: "adds_requests b c (snd (op c))" using assms by (simp add: sends_def)
  obtain r c1 where run: "op c = (r, c1)" by fastforce
  show ?case
    using adds_mono[OF one, of "b + repeat_mset (length ks) b"] adds_trans[OF one[unfolded run snd_conv] Cons.IH]
    by (simp add: run split: sum.split)
qed simp

lemma retry_sends:
  assumes "sends b op"
  shows "adds_requests (repeat_mset 3 b) c (fst (snd (retry_with_backoff op (c, slept))))"
proof -
  have "length [1 ..< MAX_EXTERNAL_RETRY_ATTEMPTS + 1] = 3" by (simp add: MAX_EXTERNAL_RETRY_ATTEMPTS_def)
  with retry_adds[OF assms, of "[1 ..< MAX_EXTERNAL_RETRY_ATTEMPTS + 1]" c 250 None slept] show ?thesis
    unfolding retry_with_backoff_def by simp
qed

text \<open>While the breaker is open, the guarded clients do not even try.\<close>

definition stays_open :: "internet \<Rightarrow> client \<Rightarrow> bool" where
  "stays_open I c \<longleftrightarrow> (\<exists>until. cb_opened_until (cl_breaker c) = Some until \<and> (\<forall>k \<ge> cl_readings c. in_now I k < until))"

lemma closed_check:
  assumes "stays_open I c"
  shows "\<exists>e. breaker_closed I service c = (Inl e, c\<lparr> cl_readings := Suc (cl_readings c) \<rparr>)
     \<and> err_code e = ''CIRCUIT_BREAKER_OPEN''"
    and "stays_open I (c\<lparr> cl_readings := Suc (cl_readings c) \<rparr>)"
  using assms by (auto simp: stays_open_def breaker_closed_def ensure_closed_def network_def)

definition idle_when_open :: "internet \<Rightarrow> (client, 'a) act \<Rightarrow> bool" where
  "idle_when_open I m \<longleftrightarrow> (\<forall>c. stays_open I c \<longrightarrow>
     stays_open I (snd (m c)) \<and> cl_requests (snd (m c)) = cl_requests c)"

lemma guarded_idle: "idle_when_open I (tryA (breaker_closed I service) f)"
  unfolding idle_when_open_def
proof (intro allI impI)
  fix c assume "stays_open I c"
  with closed_check(1)[OF this, of service] closed_check(2)[OF this] show "stays_open I (snd (tryA (breaker_closed I service) f c))
      \<and> cl_requests (snd (tryA (breaker_closed I service) f c)) = cl_requests c"
    by (auto simp: tryA_def)
qed

lemma clients_idle:
  "idle_when_open I (perform_request I F G p assignee)" "idle_when_open I (transcribe_bytes I A audio_bytes)"
  "idle_when_open I (fetch_rows I enc C)"
  unfolding perform_request_def transcribe_bytes_def fetch_rows_def by (rule guarded_idle)+

lemma retry_idle:
  assumes "idle_when_open I op" "stays_open I c"
  shows "stays_open I (fst (snd (retry_loop op ks delay e (c, slept))))
    \<and> cl_requests (fst (snd (retry_loop op ks delay e (c, slept)))) = cl_requests c"
  using assms(2)
proof (induction ks arbitrary: delay e c slept)
  case (Cons a ks)
  have "stays_open I (snd (op c))" "cl_requests (snd (op c)) = cl_requests c"
    using assms(1) Cons.prems by (simp_all add: idle_when_open_def)
  then show ?case using Cons.IH by (auto split: prod.split sum.split)
qed simp

lemma retry_open:
  assumes "idle_when_open I op" "stays_open I c"
  shows "adds_requests {#} c (fst (snd (retry_with_backoff op (c, slept))))"
  using retry_idle[OF assms] by (simp add: adds_requests_def retry_with_backoff_def)

text \<open>The download leaves the breaker alone.\<close>

definition same_breaker :: "client \<Rightarrow> client \<Rightarrow> bool" where
  "same_breaker c c' \<longleftrightarrow> cl_breaker c' = cl_breaker c \<and> cl_readings c' = cl_readings c"

interpretation quiet: frame same_breaker
  by unfold_locales (simp_all add: same_breaker_def)

lemma quiet_send: "obeys same_breaker (send_request req answer code message)"
  by (simp add: obeys_def same_breaker_def send_request_def)

lemma quiet_download: "obeys same_breaker (download_voice I T voice)"
  unfolding download_voice_def by (intro quiet.rules obeys_if quiet_send)

lemma quiet_retry:
  assumes "obeys same_breaker op"
  shows "same_breaker c (fst (snd (retry_loop op ks delay e (c, slept))))"
proof (induction ks arbitrary: delay e c slept)
  case (Cons a ks)
  have "same_breaker c (snd (op c))" using assms by (simp add: obeys_def)
  then show ?case using quiet.trans[OF _ Cons.IH] by (auto split: prod.split sum.split)
qed (simp add: same_breaker_def)

lemma stays_open_same: "same_breaker c c' \<Longrightarrow> stays_open I c' = stays_open I c"
  by (simp add: same_breaker_def stays_open_def)

text \<open>C31. The external services are called a bounded number of times. Whatever the services answer, one task
  costs at most three requests, all to the language model, one synchronisation at most three, all to the
  sheet, and one voice message at most three lookups of its file, three downloads and three transcriptions,
  and nothing else. While the breaker of a client is open, from the first to the last reading of the clock,
  the request it guards is not sent at all: neither the model nor the sheet is asked, and a voice message is
  looked up and downloaded but never sent to be transcribed.\<close>

theorem external_calls_are_bounded:
  "adds_requests (if stays_open I c then {#} else replicate_mset 3 ModelRequest) c
      (fst (snd (generate_task I F G p assignee (c, slept))))
   \<and> adds_requests (if stays_open I c then {#} else replicate_mset 3 SheetRequest) c
      (fst (snd (fetch_employees I U enc C (c, slept))))
   \<and> adds_requests (replicate_mset 3 LookupRequest + replicate_mset 3 DownloadRequest
        + (if stays_open I c then {#} else replicate_mset 3 TranscriptionRequest)) c
      (fst (snd (transcribe I T A voice (c, slept))))"
proof (intro conjI)
  have thrice: "repeat_mset 3 {#k#} = replicate_mset 3 k" for k :: request_kind by simp
  show "adds_requests (if stays_open I c then {#} else replicate_mset 3 ModelRequest) c
      (fst (snd (generate_task I F G p assignee (c, slept))))"
    using retry_sends[OF one_request_each(1), unfolded thrice] retry_open[OF clients_idle(1)]
    unfolding generate_task_def by simp
  obtain r c1 sl where rows: "retry_with_backoff (fetch_rows I enc C) (c, slept) = (r, (c1, sl))" by (metis prod.exhaust)
  have "adds_requests (if stays_open I c then {#} else replicate_mset 3 SheetRequest) c c1"
    using retry_sends[OF one_request_each(3)[of I enc C], of c slept] retry_open[OF clients_idle(3)[of I enc C], of c slept] rows
    by simp
  then show "adds_requests (if stays_open I c then {#} else replicate_mset 3 SheetRequest) c
      (fst (snd (fetch_employees I U enc C (c, slept))))"
    by (auto simp: fetch_employees_def tryA_def rows database_act_def adds_requests_def split: sum.split prod.split)
  let ?files = "replicate_mset 3 LookupRequest + replicate_mset 3 DownloadRequest"
  let ?words = "if stays_open I c then {#} else replicate_mset 3 TranscriptionRequest"
  obtain r' c2 sl' where audio: "retry_with_backoff (download_voice I T voice) (c, slept) = (r', (c2, sl'))"
    by (metis prod.exhaust)
  have "same_breaker c c2"
    using quiet_retry[OF quiet_download[of I T voice], of c _ _ _ slept] audio
    unfolding retry_with_backoff_def by (metis fst_conv snd_conv)
  then have c2: "stays_open I c2 = stays_open I c" by (rule stays_open_same)
  have "repeat_mset 3 {#LookupRequest, DownloadRequest#} = ?files" by (simp add: numeral_3_eq_3)
  then have files: "adds_requests ?files c c2"
    using retry_sends[OF two_requests[of I T voice], of c slept] audio by simp
  have "adds_requests ?words c2 (fst (snd (retry_with_backoff (transcribe_bytes I A bs) (c2, sl'))))" for bs
    using retry_sends[OF one_request_each(2)[of I A bs], of c2 sl'] retry_open[OF clients_idle(2)[of I A bs], of c2 sl'] c2
    by simp
  then show "adds_requests (?files + ?words) c (fst (snd (transcribe I T A voice (c, slept))))"
    using adds_trans[OF files] adds_mono[OF files, of "?files + ?words"]
    by (cases r') (auto simp: transcribe_def tryA_def audio simp del: if_split)
qed

subsection \<open>What they return\<close>

lemma retry_result:
  "fst (retry_loop op ks delay e (c, slept)) = Inr x \<Longrightarrow> \<exists>c1 c2. op c1 = (Inr x, c2)"
proof (induction ks arbitrary: delay e c slept)
  case (Cons a ks)
  then show ?case by (auto split: prod.splits sum.splits if_splits)
qed simp

lemma retried_result: "fst (retry_with_backoff op (c, slept)) = Inr x \<Longrightarrow> \<exists>c1 c2. op c1 = (Inr x, c2)"
  unfolding retry_with_backoff_def by (rule retry_result)

definition usable_draft :: "model_formats \<Rightarrow> gemini_task_generator \<Rightarrow> generated_task \<Rightarrow> bool" where
  "usable_draft F G g \<longleftrightarrow> draft_within_limits (gt_structured_task g)
     \<and> mf_parse_draft F (gt_raw_response g) = Inr (gt_structured_task g) \<and> gt_model_name g = gc_model (gm_config G)"

definition within_voice_limits :: "voice_attachment \<Rightarrow> bool" where
  "within_voice_limits voice \<longleftrightarrow> v_duration_seconds voice \<le> MAX_AUDIO_DURATION_SECONDS
     \<and> (\<forall>n. v_file_size_bytes voice = Some n \<longrightarrow> n \<le> MAX_AUDIO_FILE_SIZE_BYTES)"

text \<open>A text without blanks around it that is not empty. A username has lost its leading \<^verbatim>\<open>@\<close>, and only
  behind one of these can a blank have stood.\<close>

definition clean_text :: "utext \<Rightarrow> bool" where
  "clean_text s \<longleftrightarrow> s \<noteq> [] \<and> trim s = s"

definition clean_handle :: "utext \<Rightarrow> bool" where
  "clean_handle s \<longleftrightarrow> s \<noteq> [] \<and> hd s \<noteq> 64 \<and> \<not> is_whitespace (last s)"

definition clean_employee :: "employee \<Rightarrow> bool" where
  "clean_employee e \<longleftrightarrow> e_id e = None \<and> clean_text (e_full_name e)
     \<and> pred_option clean_handle (e_telegram_username e) \<and> pred_option clean_text (e_email e)
     \<and> pred_option clean_text (e_phone e) \<and> pred_option clean_text (e_department e)"

lemma sum_case_Inr: "(case r of Inl e \<Rightarrow> Inl (h e) | Inr d \<Rightarrow> Inr d) = Inr y \<longleftrightarrow> r = Inr y"
  by (cases r) auto

lemma perform_request_usable:
  assumes "perform_request I F G p assignee c = (Inr g, c')"
  shows "usable_draft F G g"
  using assms
  by (auto simp: perform_request_def Let_def tryA_eq_Inr usable_draft_def validate_ok_iff sum_case_Inr)

lemma transcribe_bytes_usable:
  assumes "transcribe_bytes I A audio_bytes c = (Inr spoken, c')"
  shows "spoken \<noteq> [] \<and> trim spoken = spoken"
  using assms by (auto simp: transcribe_bytes_def tryA_eq_Inr split: if_splits)

lemma download_within_limits:
  assumes "download_voice I T voice c = (Inr audio_bytes, c')"
  shows "within_voice_limits voice"
  using assms
  by (auto simp: download_voice_def tryA_eq_Inr validate_voice_metadata_def within_voice_limits_def
      split: if_splits option.splits)

lemma filled_cell_clean:
  "pred_option clean_text (filled_cell id row i)"
  "pred_option clean_handle (filled_cell (trim_start_by (\<lambda>c. c = 64)) row i)"
proof -
  show "pred_option clean_text (filled_cell id row i)"
    by (auto simp: filled_cell_def clean_text_def split: option.split)
  have "clean_handle (dropWhile (\<lambda>c. c = 64) (trim s))" if "dropWhile (\<lambda>c. c = 64) (trim s) \<noteq> []" for s
  proof -
    let ?rest = "dropWhile (\<lambda>c. c = 64) (trim s)"
    have "trim s = takeWhile (\<lambda>c. c = 64) (trim s) @ ?rest" by simp
    then have "last ?rest = last (trim s)" using that by (metis last_appendR)
    moreover have "hd ?rest \<noteq> 64" using hd_dropWhile[OF that] by simp
    moreover have "trim s \<noteq> []" using that by auto
    ultimately show ?thesis using that trim_not_ws_ends[of s] by (simp add: clean_handle_def)
  qed
  then show "pred_option clean_handle (filled_cell (trim_start_by (\<lambda>c. c = 64)) row i)"
    by (auto simp: filled_cell_def trim_start_by_def split: option.split)
qed

lemma employees_clean: "e \<in> set (employees_of_rows U now rows) \<Longrightarrow> clean_employee e"
  by (auto simp: employees_of_rows_def map_filter_def employee_of_cells_def clean_employee_def clean_text_def[of "trim s" for s]
      filled_cell_clean Let_def split: if_splits option.splits)

text \<open>C32. What the external services return can be used as it is. A task that the language model generates
  passes the limits of a draft and is the raw answer as parsed; a transcript is not blank and has no
  blanks around it, and only recordings within the limits are transcribed; and every employee read from the
  sheet is new and has a name; the name, the address, the phone and the department are not blank and
  have no blanks around them, a username is not empty, does not begin with \<^verbatim>\<open>@\<close> and does not end with a
  blank, and what would be blank is left out.\<close>

theorem services_return_usable_results:
  "(fst (generate_task I F G p assignee (c, slept)) = Inr g \<longrightarrow> usable_draft F G g)
   \<and> (fst (transcribe I T A voice (c, slept)) = Inr spoken \<longrightarrow>
        spoken \<noteq> [] \<and> trim spoken = spoken \<and> within_voice_limits voice)
   \<and> (fst (fetch_employees I U enc C (c, slept)) = Inr es \<longrightarrow> (\<forall>e \<in> set es. clean_employee e))"
proof (intro conjI impI)
  assume run: "fst (generate_task I F G p assignee (c, slept)) = Inr g"
  obtain c1 c2 where "perform_request I F G p assignee c1 = (Inr g, c2)"
    using retried_result[OF run[unfolded generate_task_def]] by blast
  then show "usable_draft F G g" by (rule perform_request_usable)
next
  assume run: "fst (transcribe I T A voice (c, slept)) = Inr spoken"
  then obtain audio_bytes c1 where audio: "retry_with_backoff (download_voice I T voice) (c, slept) = (Inr audio_bytes, c1)"
    and spoken: "fst (retry_with_backoff (transcribe_bytes I A audio_bytes) c1) = Inr spoken"
    by (auto simp: transcribe_def tryA_def split: prod.splits sum.splits)
  show "within_voice_limits voice"
    using audio retried_result[of "download_voice I T voice" c slept audio_bytes] download_within_limits by auto
  show "spoken \<noteq> []" "trim spoken = spoken"
    using spoken retried_result[of _ "fst c1" "snd c1"] transcribe_bytes_usable by (metis prod.collapse)+
next
  assume "fst (fetch_employees I U enc C (c, slept)) = Inr es"
  then obtain now rows where "es = employees_of_rows U now rows"
    by (auto simp: fetch_employees_def tryA_def split: prod.splits sum.splits)
  then show "\<forall>e \<in> set es. clean_employee e" using employees_clean by blast
qed

text \<open>Services that answer: the transcription cannot be reached at first, and the sheet has a header and
  one person without an address.\<close>

definition sample_internet :: internet where
  "sample_internet = \<lparr> in_now = (\<lambda>k. int k), in_candidates = (\<lambda>_. Answered 200 (Inr [[ascii ''draft'']])),
     in_file = (\<lambda>_. Answered 200 (Inr \<lparr> fl_ok = True, fl_result = Some (Some (ascii ''voice.ogg'')),
       fl_description = None \<rparr>)),
     in_audio = (\<lambda>_. Answered 200 (Inr [1])),
     in_transcript = (\<lambda>k. if k = 2 then Unreachable [] else Answered 200 (Inr (ascii '' call Ann ''))),
     in_values = (\<lambda>_. Answered 200 (Inr (Some [[ascii ''full_name''], [ascii ''Ann'', ascii ''@ann'', ascii ''  '']]))) \<rparr>"

definition sample_formats :: model_formats where
  "sample_formats = \<lparr> mf_iso_date = show_int, mf_parse_draft = (\<lambda>_. Inr sample_draft), mf_report = (\<lambda>_. []) \<rparr>"

definition sample_generator :: gemini_task_generator where
  "sample_generator = \<lparr> gm_config = \<lparr> gc_api_key = [], gc_model = ascii ''gemini'' \<rparr>, gm_directory_digest = False \<rparr>"

definition sample_voice :: voice_attachment where
  "sample_voice = \<lparr> v_file_id = [], v_file_unique_id = [], v_duration_seconds = 5, v_mime_type = None,
     v_file_size_bytes = None \<rparr>"

lemmas first_attempt = retry_with_backoff_def MAX_EXTERNAL_RETRY_ATTEMPTS_def upt_rec breaker_closed_def
  ensure_closed_def breaker_new_def client_new_def send_request_def guarded_status_def is_success_def read_body_def
  breaker_success_def tryA_def lift_def ret_def

lemma sample_generated:
  "fst (generate_task sample_internet sample_formats sample_generator p None (client_new w, [])) =
     Inr \<lparr> gt_model_name = ascii ''gemini'', gt_raw_response = ascii ''draft'', gt_structured_task = sample_draft \<rparr>"
proof -
  have "validate_business_rules (mf_report sample_formats) sample_draft = Inr ()"
    using sample_draft_within_limits by (simp add: validate_ok_iff)
  then show ?thesis
    by (simp add: generate_task_def perform_request_def first_attempt digest_or_nothing_def database_act_def now_utc_def
        Let_def first_text_def sample_internet_def sample_generator_def)
       (simp add: sample_formats_def first_attempt)
qed

lemma sample_fetched:
  "\<exists>e. fst (fetch_employees sample_internet ascii_letters id \<lparr> gs_spreadsheet_id = [], gs_range = [], gs_api_key = None,
      gs_bearer_token = None \<rparr> (client_new w, [])) = Inr [e] \<and> e_full_name e = ascii ''Ann''"
  by (simp add: fetch_employees_def fetch_rows_def first_attempt database_act_def now_utc_def sample_internet_def
      employees_of_rows_def employee_of_cells_def is_header_row_def cell_at_def map_filter_simps Let_def ascii_def
      trim_def trim_start_by_def trim_end_by_def is_whitespace_def replace_char_def ascii_letters_def
      to_ascii_lowercase_def)

lemma sample_download:
  "retry_with_backoff (download_voice sample_internet \<lparr> tc_bot_token = [] \<rparr> sample_voice) (client_new w, []) =
     (Inr [1], (client_new w\<lparr> cl_requests := [GetFile (ascii (TELEGRAM_API_BASE_URL @ ''/bot'') @ ascii ''/getFile'') [],
        DownloadFile (ascii (TELEGRAM_API_BASE_URL @ ''/file/bot'') @ ascii ''/'' @ ascii ''voice.ogg'')] \<rparr>, []))"
  by (simp add: first_attempt download_voice_def validate_voice_metadata_def sample_voice_def
      MAX_AUDIO_DURATION_SECONDS_def sample_internet_def ensure_success_status_def)

lemma sample_transcript:
  "fst (transcribe sample_internet \<lparr> tc_bot_token = [] \<rparr> \<lparr> oc_api_key = [], oc_transcription_model = [] \<rparr>
     sample_voice (client_new w, [])) = Inr (ascii ''call Ann'')"
proof -
  have "trim (ascii '' call Ann '') = ascii ''call Ann''"
    by (simp add: ascii_def trim_def trim_start_by_def trim_end_by_def is_whitespace_def)
  then show ?thesis
    by (simp add: transcribe_def tryA_def sample_download)
       (simp add: first_attempt transcribe_bytes_def sample_internet_def error_of_def network_def ascii_def)
qed

theorem services_return_usable_results_witness:
  "\<exists>g e. fst (generate_task sample_internet sample_formats sample_generator sample_request None
        (client_new sample_world, [])) = Inr g \<and> usable_draft sample_formats sample_generator g
     \<and> fst (transcribe sample_internet \<lparr> tc_bot_token = [] \<rparr> \<lparr> oc_api_key = [], oc_transcription_model = [] \<rparr>
         sample_voice (client_new sample_world, [])) = Inr (ascii ''call Ann'')
     \<and> trim (ascii ''call Ann'') = ascii ''call Ann'' \<and> within_voice_limits sample_voice
     \<and> fst (fetch_employees sample_internet ascii_letters id \<lparr> gs_spreadsheet_id = [], gs_range = [],
         gs_api_key = None, gs_bearer_token = None \<rparr> (client_new sample_world, [])) = Inr [e] \<and> clean_employee e"
proof -
  obtain e where "fst (fetch_employees sample_internet ascii_letters id \<lparr> gs_spreadsheet_id = [], gs_range = [],
         gs_api_key = None, gs_bearer_token = None \<rparr> (client_new sample_world, [])) = Inr [e]"
    using sample_fetched by blast
  with services_return_usable_results[of sample_internet sample_formats sample_generator sample_request None
      "client_new sample_world" "[]" _ "\<lparr> tc_bot_token = [] \<rparr>" "\<lparr> oc_api_key = [], oc_transcription_model = [] \<rparr>"
      sample_voice "ascii ''call Ann''" ascii_letters id "\<lparr> gs_spreadsheet_id = [], gs_range = [],
         gs_api_key = None, gs_bearer_token = None \<rparr>" "[e]"] sample_transcript sample_generated
  show ?thesis by fastforce
qed

end
