(* ===== verification/Trigram_Index.thy ===== *)
theory Trigram_Index
  imports Complex_Main Person_Name Store
begin

section \<open>The trigram index of names\<close>

text \<open>
  \<^verbatim>\<open>src/infrastructure/db/repositories/person_trigram_repository.rs\<close> with its port in
  \<^verbatim>\<open>application/ports/repositories.rs\<close>: the table of the trigrams of employees and users, rewritten in one
  transaction per owner, and the lookup by the number of shared trigrams. Nothing else of the
  program reads or writes this table, so its state stands alone. SQL leaves open in which order owners with
  equally many shared trigrams come; \<open>arrange\<close> is the order in which the groups are made. Scores
  are exact here and \<^verbatim>\<open>f32\<close> in the program.
\<close>

datatype person_trigram_owner_kind = EmployeeOwner | UserOwner

fun owner_kind_code :: "person_trigram_owner_kind \<Rightarrow> string" where
  "owner_kind_code EmployeeOwner = ''employee''"
| "owner_kind_code UserOwner = ''user''"

record person_trigram_candidate =
  ptc_owner_kind :: person_trigram_owner_kind
  ptc_owner_id :: int
  ptc_shared_trigrams :: nat
  ptc_score :: rat

type_synonym trigram_row = "(string \<times> int) \<times> utext"

record trigram_db =
  tx_rows :: "trigram_row list"
  tx_faults :: "utext option list"

definition MAX_TOP_MATCHES :: nat where "MAX_TOP_MATCHES = 50"
definition MIN_TOP_MATCHES :: nat where "MIN_TOP_MATCHES = 1"

subsection \<open>Statements\<close>

definition trigram_statement ::
  "(trigram_row list \<Rightarrow> utext + 'a \<times> trigram_row list) \<Rightarrow> (trigram_db, 'a) act" where
  "trigram_statement f db =
    (case tx_faults db of
       Some text # rest \<Rightarrow> (Inl (database_error text), db\<lparr> tx_faults := rest \<rparr>)
     | faults \<Rightarrow>
        (case f (tx_rows db) of
           Inl text \<Rightarrow> (Inl (database_error text), db\<lparr> tx_faults := tl faults \<rparr>)
         | Inr (x, rows) \<Rightarrow> (Inr x, db\<lparr> tx_rows := rows, tx_faults := tl faults \<rparr>)))"

definition no_statement :: "(trigram_db, unit) act" where
  "no_statement = trigram_statement (\<lambda>rows. Inr ((), rows))"

definition delete_owner :: "string \<times> int \<Rightarrow> (trigram_db, unit) act" where
  "delete_owner owner = trigram_statement (\<lambda>rows. Inr ((), filter (\<lambda>r. fst r \<noteq> owner) rows))"

definition insert_trigram :: "string \<times> int \<Rightarrow> utext \<Rightarrow> (trigram_db, unit) act" where
  "insert_trigram owner trigram = trigram_statement (\<lambda>rows.
     if (owner, trigram) \<in> set rows then Inl (ascii ''UNIQUE constraint failed'')
     else if fst owner \<notin> {''employee'', ''user''} then Inl (ascii ''CHECK constraint failed'')
     else Inr ((), rows @ [(owner, trigram)]))"

text \<open>Begin, body and commit; an error on the way drops what was written.\<close>

definition trigram_transaction :: "(trigram_db, unit) act \<Rightarrow> (trigram_db, unit) act" where
  "trigram_transaction body db =
    (case tryA no_statement (\<lambda>_. tryA body (\<lambda>_. no_statement)) db of
       (Inl e, db') \<Rightarrow> (Inl e, db'\<lparr> tx_rows := tx_rows db \<rparr>)
     | (Inr x, db') \<Rightarrow> (Inr x, db'))"

subsection \<open>The operations\<close>

text \<open>The loop over the trigrams, with the set of those seen.\<close>

fun insert_unseen :: "string \<times> int \<Rightarrow> utext set \<Rightarrow> utext list \<Rightarrow> (trigram_db, unit) act" where
  "insert_unseen owner seen [] = ret ()"
| "insert_unseen owner seen (t # ts) =
     (if t \<in> seen then insert_unseen owner seen ts
      else tryA (insert_trigram owner t) (\<lambda>_. insert_unseen owner (insert t seen) ts))"

definition trigrams_upsert :: "person_trigram_owner_kind \<Rightarrow> int \<Rightarrow> utext list \<Rightarrow> (trigram_db, unit) act" where
  "trigrams_upsert owner_kind owner_id ts =
    (let owner = (owner_kind_code owner_kind, owner_id) in
     trigram_transaction (tryA (delete_owner owner) (\<lambda>_. insert_unseen owner {} ts)))"

definition trigrams_delete :: "person_trigram_owner_kind \<Rightarrow> int \<Rightarrow> (trigram_db, unit) act" where
  "trigrams_delete owner_kind owner_id = delete_owner (owner_kind_code owner_kind, owner_id)"

definition parse_owner_kind :: "string \<Rightarrow> person_trigram_owner_kind result" where
  "parse_owner_kind code =
    (if code = ''employee'' then Inr EmployeeOwner
     else if code = ''user'' then Inr UserOwner
     else Inl (internal ''PERSON_TRIGRAM_OWNER_KIND_UNKNOWN''
       (ascii ''unrecognised person_trigrams.owner_kind value '' @ [39] @ ascii code @ [39, 32, 8212]
          @ ascii '' migration drift?'')
       (JObj [(''owner_kind'', jstr code)])))"

text \<open>\<^verbatim>\<open>SELECT .. COUNT(..) .. WHERE trigram IN (..) GROUP BY .. ORDER BY shared DESC LIMIT ?\<close>.\<close>

definition select_shared ::
  "((string \<times> int) list \<Rightarrow> (string \<times> int) list) \<Rightarrow> utext list \<Rightarrow> nat \<Rightarrow> trigram_row list \<Rightarrow> ((string \<times> int) \<times> nat) list" where
  "select_shared arrange query effective_limit rows =
    (let hits = filter (\<lambda>r. snd r \<in> set query) rows;
         groups = map (\<lambda>owner. (owner, length (filter (\<lambda>r. fst r = owner) hits))) (arrange (remdups (map fst hits))) in
     take effective_limit (sort_key (\<lambda>g. - int (snd g)) groups))"

definition candidate_of :: "nat \<Rightarrow> (string \<times> int) \<times> nat \<Rightarrow> person_trigram_candidate result" where
  "candidate_of query_size row = (case row of ((code, owner_id), shared) \<Rightarrow>
     tryR (parse_owner_kind code) (\<lambda>owner_kind.
     Inr \<lparr> ptc_owner_kind = owner_kind, ptc_owner_id = owner_id, ptc_shared_trigrams = shared,
       ptc_score = (if query_size = 0 then 0 else of_nat shared / of_nat query_size) \<rparr>))"

definition top_matches ::
  "((string \<times> int) list \<Rightarrow> (string \<times> int) list) \<Rightarrow> utext list \<Rightarrow> nat \<Rightarrow> (trigram_db, person_trigram_candidate list) act" where
  "top_matches arrange query limit =
    (if query = [] then ret []
     else (let effective_limit = max MIN_TOP_MATCHES (min limit MAX_TOP_MATCHES) in
       tryA (trigram_statement (\<lambda>rows. Inr (select_shared arrange query effective_limit rows, rows))) (\<lambda>rows.
       mapA (\<lambda>row. lift (candidate_of (length query) row)) rows)))"

subsection \<open>Writing\<close>

definition trigrams_of :: "string \<times> int \<Rightarrow> trigram_row list \<Rightarrow> utext set" where
  "trigrams_of owner rows = {t. (owner, t) \<in> set rows}"

definition known_kind :: "string \<Rightarrow> bool" where
  "known_kind code \<longleftrightarrow> code = ''employee'' \<or> code = ''user''"

definition index_ok :: "trigram_row list \<Rightarrow> bool" where
  "index_ok rows \<longleftrightarrow> distinct rows \<and> (\<forall>r \<in> set rows. known_kind (fst (fst r)))"

lemma code_known [simp]: "known_kind (owner_kind_code k)"
  by (cases k) (simp_all add: known_kind_def)

lemma statement_cases:
  assumes "trigram_statement f db = (r, db')"
  obtains (refused) e where "r = Inl e" "tx_rows db' = tx_rows db" "tx_faults db \<noteq> [] \<or> (\<exists>text. f (tx_rows db) = Inl text)"
  | (done_so) x rows where "r = Inr x" "f (tx_rows db) = Inr (x, rows)" "tx_rows db' = rows" "tx_faults db' = tl (tx_faults db)"
  using assms
  by (auto simp: trigram_statement_def split: list.splits option.splits sum.splits prod.splits)

lemma insert_unseen_rows:
  assumes "insert_unseen owner seen ts db = (r, db')" "known_kind (fst owner)" "index_ok (tx_rows db)"
    and "trigrams_of owner (tx_rows db) = seen"
  shows "index_ok (tx_rows db') \<and> (\<forall>other. other \<noteq> owner \<longrightarrow> trigrams_of other (tx_rows db') = trigrams_of other (tx_rows db))
    \<and> (r = Inr () \<longrightarrow> trigrams_of owner (tx_rows db') = seen \<union> set ts) \<and> (tx_faults db = [] \<longrightarrow> r = Inr () \<and> tx_faults db' = [])"
  using assms
proof (induction owner seen ts arbitrary: db rule: insert_unseen.induct)
  case (2 owner seen t ts)
  show ?case
  proof (cases "t \<in> seen")
    case True
    then have "seen \<union> set (t # ts) = seen \<union> set ts" by auto
    with "2.IH"(1)[OF True, of db] "2.prems" True show ?thesis by auto
  next
    case False
    obtain q db1 where q: "insert_trigram owner t db = (q, db1)" by fastforce
    have new: "(owner, t) \<notin> set (tx_rows db)" using False "2.prems"(4) by (auto simp: trigrams_of_def)
    from q show ?thesis unfolding insert_trigram_def
    proof (cases rule: statement_cases)
      case (refused e)
      with False q new "2.prems" show ?thesis by (auto simp: tryA_def known_kind_def)
    next
      case (done_so x rows)
      with new "2.prems"(2) have rows: "tx_rows db1 = tx_rows db @ [(owner, t)]" by (auto split: if_splits)
      have "index_ok (tx_rows db1)" "trigrams_of owner (tx_rows db1) = insert t seen"
        using rows new "2.prems" by (auto simp: index_ok_def trigrams_of_def)
      with "2.IH"(2)[OF False, of db1] done_so q False "2.prems" rows show ?thesis
        by (auto simp: tryA_def trigrams_of_def)
    qed
  qed
qed (auto)

text \<open>The trigrams of an owner are replaced as a whole or not at all. After a successful \<^verbatim>\<open>upsert\<close> the owner has
  exactly the given ones, after a failed one the table is as it was; no other owner is touched, no
  row is there twice, and on a database that answers it succeeds.\<close>

theorem trigrams_replaced_as_a_whole:
  assumes "trigrams_upsert kind owner_id ts db = (r, db')" "index_ok (tx_rows db)"
  shows "index_ok (tx_rows db') \<and> (tx_faults db = [] \<longrightarrow> r = Inr ())
    \<and> (case r of
         Inl e \<Rightarrow> tx_rows db' = tx_rows db
       | Inr _ \<Rightarrow> \<forall>owner. trigrams_of owner (tx_rows db') =
           (if owner = (owner_kind_code kind, owner_id) then set ts else trigrams_of owner (tx_rows db)))"
proof -
  let ?owner = "(owner_kind_code kind, owner_id)"
  let ?body = "tryA (delete_owner ?owner) (\<lambda>_. insert_unseen ?owner {} ts)"
  let ?left = "filter (\<lambda>x. fst x \<noteq> ?owner) (tx_rows db)"
  obtain q db1 where run: "tryA no_statement (\<lambda>_. tryA ?body (\<lambda>_. no_statement)) db = (q, db1)" by fastforce
  have r: "r = q" "tx_rows db' = (case q of Inl _ \<Rightarrow> tx_rows db | Inr _ \<Rightarrow> tx_rows db1)"
    using assms(1) run by (auto simp: trigrams_upsert_def trigram_transaction_def Let_def split: sum.splits)
  have left: "index_ok ?left" "trigrams_of ?owner ?left = {}"
    "other \<noteq> ?owner \<Longrightarrow> trigrams_of other ?left = trigrams_of other (tx_rows db)" for other
    using assms(2) by (auto simp: index_ok_def trigrams_of_def)
  have calm: "trigram_statement f s = (Inr x, s\<lparr> tx_rows := rows \<rparr>)"
    if "tx_faults s = []" "f (tx_rows s) = Inr (x, rows)" for f :: "trigram_row list \<Rightarrow> utext + unit \<times> trigram_row list" and s x rows
    using that by (cases s) (simp add: trigram_statement_def)
  have succeeds: "q = Inr ()" if "tx_faults db = []"
  proof -
    obtain q2 db2 where ins: "insert_unseen ?owner {} ts (db\<lparr> tx_rows := ?left \<rparr>) = (q2, db2)" by fastforce
    have "q2 = Inr ()" "tx_faults db2 = []"
      using insert_unseen_rows[OF ins] left that by auto
    with run ins that show ?thesis
      by (simp add: tryA_def no_statement_def delete_owner_def calm)
  qed
  show ?thesis
  proof (cases q)
    case (Inl e)
    with r assms(2) succeeds show ?thesis by auto
  next
    case (Inr x)
    with run obtain s1 s2 s3 where s: "no_statement db = (Inr (), s1)" "delete_owner ?owner s1 = (Inr (), s2)"
      "insert_unseen ?owner {} ts s2 = (Inr (), s3)" "no_statement s3 = (Inr (), db1)"
      by (auto simp: tryA_eq_Inr)
    have "tx_rows s1 = tx_rows db" "tx_rows db1 = tx_rows s3"
      using s(1,4) unfolding no_statement_def by (auto elim!: statement_cases)
    moreover have "tx_rows s2 = filter (\<lambda>x. fst x \<noteq> ?owner) (tx_rows s1)"
      using s(2) unfolding delete_owner_def by (auto elim!: statement_cases)
    ultimately show ?thesis
      using insert_unseen_rows[OF s(3)] left r Inr by auto
  qed
qed

subsection \<open>Looking up\<close>

definition shared_with :: "utext list \<Rightarrow> string \<times> int \<Rightarrow> trigram_row list \<Rightarrow> nat" where
  "shared_with query owner rows = card (set query \<inter> trigrams_of owner rows)"

definition candidate_owner :: "person_trigram_candidate \<Rightarrow> string \<times> int" where
  "candidate_owner c = (owner_kind_code (ptc_owner_kind c), ptc_owner_id c)"

lemma count_hits:
  assumes "index_ok rows"
  shows "length (filter (\<lambda>r. fst r = owner) (filter (\<lambda>r. snd r \<in> set query) rows)) = shared_with query owner rows"
proof -
  have "set (filter (\<lambda>r. fst r = owner) (filter (\<lambda>r. snd r \<in> set query) rows))
      = Pair owner ` (set query \<inter> trigrams_of owner rows)"
    by (auto simp: trigrams_of_def)
  then show ?thesis
    using assms by (simp add: index_ok_def shared_with_def distinct_card[symmetric] card_image inj_on_def del: filter_filter)
qed

text \<open>The groups before the limit: every owner that shares something, once, in falling order.\<close>

lemma ranked_groups:
  fixes query :: "utext list"
  assumes "index_ok rows" "\<And>owners. distinct owners \<Longrightarrow> distinct (arrange owners) \<and> set (arrange owners) = set owners"
  shows "\<exists>gs. (\<forall>limit. select_shared arrange query limit rows = take limit gs) \<and> distinct (map fst gs)
    \<and> set gs = {(owner, shared_with query owner rows) | owner. shared_with query owner rows > 0}
    \<and> sorted_wrt (\<lambda>a b. snd b \<le> snd a) gs"
proof -
  let ?hits = "filter (\<lambda>r. snd r \<in> set query) rows"
  let ?owners = "arrange (remdups (map fst ?hits))"
  let ?gs = "sort_key (\<lambda>g. - int (snd g)) (map (\<lambda>owner. (owner, shared_with query owner rows)) ?owners)"
  have owners: "distinct ?owners" "set ?owners = fst ` set ?hits"
    using assms(2)[OF distinct_remdups, of "map fst ?hits"] by simp_all
  have "shared_with query owner rows > 0 \<longleftrightarrow> owner \<in> fst ` set ?hits" for owner
    by (force simp: shared_with_def card_gt_0_iff trigrams_of_def)
  then have "set ?gs = {(owner, shared_with query owner rows) | owner. shared_with query owner rows > 0}"
    using owners(2) by auto
  moreover have "distinct (map fst ?gs)"
    using owners(1) by (auto simp: distinct_map inj_on_def)
  moreover have "sorted_wrt (\<lambda>a b. snd b \<le> snd a) ?gs"
    using sorted_sort_key[of "\<lambda>g. - int (snd g)" "map (\<lambda>owner. (owner, shared_with query owner rows)) ?owners"]
    by (simp add: sorted_map)
  moreover have "select_shared arrange query limit rows = take limit ?gs" for limit
    using count_hits[OF assms(1)] by (simp add: select_shared_def Let_def del: filter_filter)
  ultimately show ?thesis by blast
qed

lemma owner_kind_parsed: "parse_owner_kind code = Inr k \<longleftrightarrow> code = owner_kind_code k"
  by (cases k) (auto simp: parse_owner_kind_def split: if_splits)

lemma candidates_of_rows:
  "mapA (\<lambda>row. lift (candidate_of n row)) rows db = (Inr cs, db') \<Longrightarrow>
     db' = db \<and> map (\<lambda>c. (candidate_owner c, ptc_shared_trigrams c)) cs = rows
     \<and> (\<forall>c \<in> set cs. ptc_score c = (if n = 0 then 0 else of_nat (ptc_shared_trigrams c) / of_nat n))"
  by (induction rows arbitrary: cs)
     (auto simp: tryA_eq_Inr candidate_of_def tryR_eq_Inr owner_kind_parsed candidate_owner_def)

text \<open>C39. The lookup returns the best owners. What comes back are at most fifty different owners in falling order,
  each with the number of query trigrams it has and that number as a share of the query, and
  whoever is missing shares nothing, or the list is full and nobody in it shares less.\<close>

theorem best_owners_are_found:
  assumes "top_matches arrange query limit db = (Inr cs, db')" "index_ok (tx_rows db)"
    and "\<And>owners. distinct owners \<Longrightarrow> distinct (arrange owners) \<and> set (arrange owners) = set owners"
  shows "tx_rows db' = tx_rows db \<and> length cs \<le> max 1 (min limit 50) \<and> distinct (map candidate_owner cs)
    \<and> sorted_wrt (\<lambda>a b. ptc_shared_trigrams b \<le> ptc_shared_trigrams a) cs
    \<and> (\<forall>c \<in> set cs. ptc_shared_trigrams c = shared_with query (candidate_owner c) (tx_rows db)
         \<and> 0 < ptc_score c \<and> ptc_score c \<le> 1 \<and> ptc_score c * of_nat (length query) = of_nat (ptc_shared_trigrams c))
    \<and> (\<forall>owner. owner \<notin> candidate_owner ` set cs \<longrightarrow> shared_with query owner (tx_rows db) = 0
         \<or> length cs = max 1 (min limit 50)
            \<and> (\<forall>c \<in> set cs. shared_with query owner (tx_rows db) \<le> ptc_shared_trigrams c))"
proof (cases "query = []")
  case True
  then show ?thesis using assms(1) by (simp add: top_matches_def shared_with_def)
next
  case False
  let ?L = "max 1 (min limit 50)" and ?sh = "\<lambda>owner. shared_with query owner (tx_rows db)"
  obtain gs where gs: "\<And>limit. select_shared arrange query limit (tx_rows db) = take limit gs" "distinct (map fst gs)"
    "set gs = {(owner, ?sh owner) | owner. ?sh owner > 0}" "sorted_wrt (\<lambda>a b. snd b \<le> snd a) gs"
    using ranked_groups[OF assms(2,3)] by blast
  obtain rows db1 where rows: "trigram_statement (\<lambda>rows. Inr (select_shared arrange query ?L rows, rows)) db = (Inr rows, db1)"
    "mapA (\<lambda>row. lift (candidate_of (length query) row)) rows db1 = (Inr cs, db')"
    using assms(1) False by (auto simp: top_matches_def Let_def tryA_eq_Inr MAX_TOP_MATCHES_def MIN_TOP_MATCHES_def)
  have "rows = take ?L gs" "tx_rows db1 = tx_rows db"
    using rows(1) gs(1) by (auto elim!: statement_cases)
  with candidates_of_rows[OF rows(2)] have same: "tx_rows db' = tx_rows db"
    and cs: "map (\<lambda>c. (candidate_owner c, ptc_shared_trigrams c)) cs = take ?L gs"
    and score: "\<forall>c \<in> set cs. ptc_score c = of_nat (ptc_shared_trigrams c) / of_nat (length query)"
    using False by auto
  have len: "length cs = min (length gs) ?L"
    using arg_cong[OF cs, of length] by simp
  have "map candidate_owner cs = map fst (take ?L gs)"
    using arg_cong[OF cs, of "map fst"] by (simp add: comp_def)
  then have dist: "distinct (map candidate_owner cs)"
    using gs(2) by (metis distinct_take take_map)
  have "sorted_wrt (\<lambda>a b. snd b \<le> snd a) (take ?L gs)" using gs(4) by (rule sorted_wrt_take)
  then have sorted: "sorted_wrt (\<lambda>a b. ptc_shared_trigrams b \<le> ptc_shared_trigrams a) cs"
    unfolding cs[symmetric] by (simp add: sorted_wrt_map)
  have listed: "ptc_shared_trigrams c = ?sh (candidate_owner c) \<and> 0 < ptc_shared_trigrams c" if "c \<in> set cs" for c
  proof -
    have "(candidate_owner c, ptc_shared_trigrams c) \<in> set (take ?L gs)" unfolding cs[symmetric] using that by auto
    then show ?thesis using gs(3) set_take_subset[of ?L gs] by auto
  qed
  have few: "?sh owner \<le> length query" for owner
    unfolding shared_with_def by (meson card_length card_mono finite_set inf_le1 order_trans)
  have scores: "0 < ptc_score c \<and> ptc_score c \<le> 1 \<and> ptc_score c * of_nat (length query) = of_nat (ptc_shared_trigrams c)"
    if "c \<in> set cs" for c
  proof -
    have share: "0 < s \<Longrightarrow> s \<le> n \<Longrightarrow> 0 < (of_nat s / of_nat n :: rat) \<and> (of_nat s / of_nat n :: rat) \<le> 1
      \<and> (of_nat s / of_nat n) * (of_nat n :: rat) = of_nat s" for s n :: nat
      by simp
    have "ptc_score c = of_nat (ptc_shared_trigrams c) / of_nat (length query)" using score that by blast
    moreover have "0 < ptc_shared_trigrams c" "ptc_shared_trigrams c \<le> length query"
      using listed[OF that] few[of "candidate_owner c"] by simp_all
    ultimately show ?thesis using share[of "ptc_shared_trigrams c" "length query"] by presburger
  qed
  have rest: "?sh owner = 0 \<or> length cs = ?L \<and> (\<forall>c \<in> set cs. ?sh owner \<le> ptc_shared_trigrams c)"
    if "owner \<notin> candidate_owner ` set cs" for owner
  proof (cases "?sh owner = 0")
    case False
    then have "(owner, ?sh owner) \<in> set gs" unfolding gs(3) by blast
    moreover have "(owner, ?sh owner) \<notin> set (take ?L gs)" unfolding cs[symmetric] using that by auto
    ultimately have late: "(owner, ?sh owner) \<in> set (drop ?L gs)"
      by (metis Un_iff append_take_drop_id set_append)
    then have "length cs = ?L" using len by (cases "length gs \<le> ?L") auto
    moreover have "?sh owner \<le> ptc_shared_trigrams c" if "c \<in> set cs" for c
    proof -
      have "(candidate_owner c, ptc_shared_trigrams c) \<in> set (take ?L gs)" unfolding cs[symmetric] using that by auto
      moreover have "sorted_wrt (\<lambda>a b. snd b \<le> snd a) (take ?L gs @ drop ?L gs)" using gs(4) by simp
      ultimately show ?thesis using late unfolding sorted_wrt_append by fastforce
    qed
    ultimately show ?thesis by blast
  qed simp
  show ?thesis using same len dist sorted listed scores rest by auto
qed

text \<open>Ann, Anna and a colleague, looked up by the trigrams of Anna with room for one answer.\<close>

definition sample_index :: trigram_db where
  "sample_index = \<lparr> tx_rows = [((''employee'', 1), ascii ''ann''), ((''user'', 4), ascii ''bob''),
     ((''user'', 1), ascii ''ann''), ((''user'', 1), ascii ''nna'')], tx_faults = [] \<rparr>"

lemma sample_lookup:
  "top_matches id [ascii ''ann'', ascii ''nna''] 0 sample_index =
     (Inr [\<lparr> ptc_owner_kind = UserOwner, ptc_owner_id = 1, ptc_shared_trigrams = 2, ptc_score = 1 \<rparr>], sample_index)"
  by (simp add: top_matches_def sample_index_def tryA_def trigram_statement_def select_shared_def Let_def ascii_def
      MAX_TOP_MATCHES_def MIN_TOP_MATCHES_def sort_key_def candidate_of_def parse_owner_kind_def lift_def ret_def)

theorem best_owners_are_found_witness:
  "\<exists>cs. top_matches id [ascii ''ann'', ascii ''nna''] 0 sample_index = (Inr cs, sample_index) \<and> length cs = 1
     \<and> (\<forall>owner. owner \<notin> candidate_owner ` set cs \<longrightarrow>
          shared_with [ascii ''ann'', ascii ''nna''] owner (tx_rows sample_index) \<le> 2)"
proof -
  have "index_ok (tx_rows sample_index)"
    by (simp add: sample_index_def index_ok_def known_kind_def ascii_def)
  from best_owners_are_found[OF sample_lookup this] show ?thesis
    using sample_lookup by auto (metis le0)
qed

text \<open>An owner whose trigrams are the query is found with the score one, unless the query repeats a
  trigram: then its score is lower, since repetitions count in the length of the query.\<close>

lemma full_match_score:
  assumes "trigrams_of owner rows = set query"
  shows "shared_with query owner rows = length query \<longleftrightarrow> distinct query"
  using assms by (simp add: shared_with_def) (metis card_distinct distinct_card)

end
