(* ===== verification/Perimeter.thy ===== *)
theory Perimeter
  imports Store User_Domain Transcript
begin

section \<open>Health checks, pseudonyms and the principal of a turn\<close>

text \<open>
  \<^verbatim>\<open>src/presentation/http/mod.rs\<close>: what the endpoints of the operator answer;
  \<^verbatim>\<open>src/shared/pii.rs\<close>: the pseudonyms that stand for personal data in logs, with SHA-256 as the
  argument \<open>sha\<close>; \<^verbatim>\<open>src/application/context.rs\<close>: who acts in a turn.
\<close>

subsection \<open>The operator's endpoints\<close>

record build_info =
  bi_version :: utext
  bi_name :: utext
  bi_git_sha :: utext
  bi_build_profile :: utext
  bi_rustc_version :: utext

text \<open>The arguments are what Cargo and the build script baked in.\<close>

definition build_info_collect :: "utext \<Rightarrow> utext \<Rightarrow> utext option \<Rightarrow> bool \<Rightarrow> utext option \<Rightarrow> build_info" where
  "build_info_collect pkg_version pkg_name git_sha debug_assertions rustc_version =
     \<lparr> bi_version = pkg_version, bi_name = pkg_name,
       bi_git_sha = (case git_sha of Some sha \<Rightarrow> sha | None \<Rightarrow> ascii ''unknown''),
       bi_build_profile = (if debug_assertions then ascii ''debug'' else ascii ''release''),
       bi_rustc_version = (case rustc_version of Some v \<Rightarrow> v | None \<Rightarrow> ascii ''unknown'') \<rparr>"

datatype http_body = JsonBody json | PlainBody string utext

record http_response =
  hr_status :: nat
  hr_body :: http_body

definition healthz :: http_response where
  "healthz = \<lparr> hr_status = 200, hr_body = JsonBody (JObj [(''status'', jstr ''ok'')]) \<rparr>"

text \<open>\<^verbatim>\<open>SELECT 1\<close>, and the text of the error when the driver refuses it.\<close>

definition ping :: "world \<Rightarrow> (utext + int) \<times> world" where
  "ping w =
    (case w_faults w of
       Some text # rest \<Rightarrow> (Inl text, w\<lparr> w_faults := rest \<rparr>)
     | faults \<Rightarrow> (Inr 1, w\<lparr> w_faults := tl faults \<rparr>))"

definition healthz_deep :: "nat \<Rightarrow> world \<Rightarrow> http_response \<times> world" where
  "healthz_deep elapsed_ms w =
    (case ping w of
       (Inr _, w') \<Rightarrow>
         (\<lparr> hr_status = 200, hr_body = JsonBody (JObj [(''status'', jstr ''ok''),
             (''checks'', JObj [(''database'', JObj [(''status'', jstr ''ok''),
               (''latency_ms'', JNum (int elapsed_ms))])])]) \<rparr>, w')
     | (Inl error, w') \<Rightarrow>
         (\<lparr> hr_status = 503, hr_body = JsonBody (JObj [(''status'', jstr ''degraded''),
             (''checks'', JObj [(''database'', JObj [(''status'', jstr ''error''),
               (''latency_ms'', JNum (int elapsed_ms)), (''error'', JStr error)])])]) \<rparr>, w'))"

definition metrics_page :: "utext \<Rightarrow> http_response" where
  "metrics_page rendered = \<lparr> hr_status = 200, hr_body = PlainBody ''text/plain; version=0.0.4'' rendered \<rparr>"

definition version_page :: "build_info \<Rightarrow> http_response" where
  "version_page info =
     \<lparr> hr_status = 200, hr_body = JsonBody (JObj [(''name'', JStr (bi_name info)), (''version'', JStr (bi_version info)),
         (''git_sha'', JStr (bi_git_sha info)), (''profile'', JStr (bi_build_profile info)),
         (''rustc'', JStr (bi_rustc_version info))]) \<rparr>"

text \<open>The routes; \<open>None\<close> is a path without one.\<close>

definition http_get :: "build_info \<Rightarrow> utext \<Rightarrow> nat \<Rightarrow> string \<Rightarrow> world \<Rightarrow> http_response option \<times> world" where
  "http_get info rendered elapsed_ms path w =
    (if path = ''/healthz'' then (Some healthz, w)
     else if path = ''/healthz/deep'' then (case healthz_deep elapsed_ms w of (r, w') \<Rightarrow> (Some r, w'))
     else if path = ''/metrics'' then (Some (metrics_page rendered), w)
     else if path = ''/version'' then (Some (version_page info), w)
     else (None, w))"

text \<open>No endpoint changes a row, and only the deep check depends on the database: it answers 200 exactly when
  the database does.\<close>

theorem endpoints_only_read:
  assumes "http_get info rendered elapsed_ms path w = (r, w')"
  shows "w' = w\<lparr> w_faults := w_faults w' \<rparr>
    \<and> (path \<noteq> ''/healthz/deep'' \<longrightarrow> w' = w \<and> r = fst (http_get info rendered ms path any))
    \<and> (path = ''/healthz/deep'' \<longrightarrow>
         map_option hr_status r = Some (if \<exists>text rest. w_faults w = Some text # rest then 503 else 200))"
  using assms
  by (auto simp: http_get_def healthz_deep_def ping_def split: if_splits prod.splits sum.splits list.splits option.splits)

subsection \<open>Pseudonyms\<close>

definition utf8 :: "uchar \<Rightarrow> nat list" where
  "utf8 c =
    (if c < 128 then [c]
     else if c < 2048 then [192 + c div 64, 128 + c mod 64]
     else if c < 65536 then [224 + c div 4096, 128 + c div 64 mod 64, 128 + c mod 64]
     else [240 + c div 262144, 128 + c div 4096 mod 64, 128 + c div 64 mod 64, 128 + c mod 64])"

lemma length_utf8: "length (utf8 c) = len_utf8 c"
  by (simp add: utf8_def len_utf8_def)

definition hex_digit :: "nat \<Rightarrow> uchar" where
  "hex_digit n = (if n < 10 then 48 + n else 87 + n)"

text \<open>\<^verbatim>\<open>{:x}\<close> of a byte: without a leading zero.\<close>

definition lower_hex :: "nat \<Rightarrow> utext" where
  "lower_hex n = (if n < 16 then [hex_digit n] else [hex_digit (n div 16), hex_digit (n mod 16)])"

text \<open>A redactor is its salt.\<close>

type_synonym pii_redactor = "nat list"

definition nil_redactor :: pii_redactor where "nil_redactor = []"

definition redact :: "(nat list \<Rightarrow> nat list) \<Rightarrow> pii_redactor \<Rightarrow> utext \<Rightarrow> utext" where
  "redact sha salt input =
    (if input = [] then ascii ''pii:empty''
     else let digest = sha (salt @ concat (map utf8 input)) in
       ascii ''pii:'' @ lower_hex (digest ! 0) @ lower_hex (digest ! 1) @ lower_hex (digest ! 2))"

definition redact_opt :: "(nat list \<Rightarrow> nat list) \<Rightarrow> pii_redactor \<Rightarrow> utext option \<Rightarrow> utext" where
  "redact_opt sha salt input = (case input of Some v \<Rightarrow> redact sha salt v | None \<Rightarrow> ascii ''pii:none'')"

definition install_global_redactor :: "pii_redactor \<Rightarrow> pii_redactor option \<Rightarrow> pii_redactor option" where
  "install_global_redactor redactor cell = (case cell of None \<Rightarrow> Some redactor | Some old \<Rightarrow> Some old)"

definition global_redactor :: "pii_redactor option \<Rightarrow> pii_redactor \<times> pii_redactor option" where
  "global_redactor cell = (case cell of None \<Rightarrow> (nil_redactor, Some nil_redactor) | Some r \<Rightarrow> (r, Some r))"

definition is_hex :: "uchar \<Rightarrow> bool" where
  "is_hex c \<longleftrightarrow> 48 \<le> c \<and> c \<le> 57 \<or> 97 \<le> c \<and> c \<le> 102"

lemma lower_hex_ok:
  "n < 256 \<Longrightarrow> list_all is_hex (lower_hex n) \<and> length (lower_hex n) \<in> {1, 2}"
  by (auto simp: lower_hex_def hex_digit_def is_hex_def)

text \<open>A pseudonym is three to six hexadecimal digits, so it never looks like one of the two markers.\<close>

theorem pseudonyms_are_hex:
  assumes "input \<noteq> []" "\<And>bs. length (sha bs) = 32 \<and> (\<forall>b \<in> set (sha bs). b < 256)"
  shows "\<exists>digits. redact sha salt input = ascii ''pii:'' @ digits \<and> list_all is_hex digits
    \<and> 3 \<le> length digits \<and> length digits \<le> 6
    \<and> redact sha salt input \<noteq> ascii ''pii:empty'' \<and> redact sha salt input \<noteq> redact_opt sha salt None"
proof -
  let ?d = "sha (salt @ concat (map utf8 input))"
  let ?digits = "lower_hex (?d ! 0) @ lower_hex (?d ! 1) @ lower_hex (?d ! 2)"
  have "?d ! i < 256" if "i < 3" for i
    using assms(2)[of "salt @ concat (map utf8 input)"] that by (simp add: all_set_conv_all_nth)
  then have hex: "list_all is_hex (lower_hex (?d ! i))" "length (lower_hex (?d ! i)) \<in> {1, 2}" if "i < 3" for i
    using lower_hex_ok that by blast+
  have eq: "redact sha salt input = ascii ''pii:'' @ ?digits"
    using assms(1) by (simp add: redact_def Let_def)
  have ok: "list_all is_hex ?digits" using hex(1)[of 0] hex(1)[of 1] hex(1)[of 2] by simp
  moreover have "3 \<le> length ?digits \<and> length ?digits \<le> 6"
    using hex(2)[of 0] hex(2)[of 1] hex(2)[of 2] by auto
  moreover have "redact sha salt input \<noteq> ascii ''pii:empty''"
  proof
    assume "redact sha salt input = ascii ''pii:empty''"
    then have "?digits = ascii ''empty''" unfolding eq by (simp add: ascii_def)
    with ok have "list_all is_hex (ascii ''empty'')" by metis
    then show False by (simp add: is_hex_def ascii_def)
  qed
  moreover have "redact sha salt input \<noteq> redact_opt sha salt None"
  proof
    assume "redact sha salt input = redact_opt sha salt None"
    then have "?digits = ascii ''none''" unfolding eq by (simp add: redact_opt_def ascii_def)
    with ok have "list_all is_hex (ascii ''none'')" by metis
    then show False by (simp add: is_hex_def ascii_def)
  qed
  ultimately show ?thesis using eq by blast
qed

text \<open>Since leading zeros are dropped, digests that differ in the bytes used can give the same pseudonym.\<close>

lemma pseudonyms_collide:
  assumes "input \<noteq> []" "input' \<noteq> []"
    and "take 3 (sha (salt @ concat (map utf8 input))) = [1, 35, 4]"
    and "take 3 (sha (salt @ concat (map utf8 input'))) = [18, 3, 4]"
  shows "redact sha salt input = redact sha salt input'"
proof -
  have "d ! 0 = a \<and> d ! 1 = b \<and> d ! 2 = c" if "take 3 d = [a, b, c]" for d :: "nat list" and a b c
    using that nth_take[of 0 3 d] nth_take[of 1 3 d] nth_take[of 2 3 d] by simp
  from this[OF assms(3)] this[OF assms(4)] show ?thesis
    using assms(1,2) by (simp add: redact_def Let_def lower_hex_def hex_digit_def)
qed

text \<open>The first redactor stays: one that is read before it is installed has no salt for good.\<close>

lemma first_redactor_stays:
  "fold install_global_redactor rs (Some r) = Some r"
  "global_redactor (fold install_global_redactor rs (snd (global_redactor None))) = (nil_redactor, Some nil_redactor)"
proof -
  show stays: "fold install_global_redactor rs (Some r) = Some r" for r
    by (induction rs) (simp_all add: install_global_redactor_def)
  show "global_redactor (fold install_global_redactor rs (snd (global_redactor None))) = (nil_redactor, Some nil_redactor)"
    by (simp add: global_redactor_def stays)
qed

subsection \<open>The principal of a turn\<close>

record telegram_chat_context =
  tcc_chat_id :: int
  tcc_telegram_user_id :: int

datatype locale_choice = RussianPrimary

record principal_identity =
  pi_user_id :: "row_id option"
  pi_role :: user_role
  pi_locale :: locale_choice

record principal_context =
  px_identity :: principal_identity
  px_telegram :: telegram_chat_context
  px_trace_id :: uuid
  px_now :: instant

definition principal_context_new ::
  "principal_identity \<Rightarrow> telegram_chat_context \<Rightarrow> uuid \<Rightarrow> instant \<Rightarrow> principal_context" where
  "principal_context_new identity telegram trace_id now =
     \<lparr> px_identity = identity, px_telegram = telegram, px_trace_id = trace_id, px_now = now \<rparr>"

definition anonymous_context :: "telegram_chat_context \<Rightarrow> uuid \<Rightarrow> instant \<Rightarrow> principal_context" where
  "anonymous_context telegram trace_id now =
     \<lparr> px_identity = \<lparr> pi_user_id = None, pi_role = User, pi_locale = RussianPrimary \<rparr>,
       px_telegram = telegram, px_trace_id = trace_id, px_now = now \<rparr>"

definition is_anonymous :: "principal_context \<Rightarrow> bool" where
  "is_anonymous ctx \<longleftrightarrow> pi_user_id (px_identity ctx) = None"

text \<open>An anonymous principal has no rights above those of a user.\<close>

lemma anonymous_is_unprivileged:
  "is_anonymous (anonymous_context telegram trace_id now)
   \<and> \<not> is_manager_or_admin (pi_role (px_identity (anonymous_context telegram trace_id now)))"
  by (simp add: is_anonymous_def anonymous_context_def)

end
