(* ===== verification/Spec2Isabelle.thy ===== *)
theory Spec2Isabelle
  imports Task_Use_Cases Admin_Use_Cases Deliveries Gateway Http_Resilience
    Notification_Preferences Voice_Repo Sla_Worker Recurrence
    Onboarding Create_Task Task_Lists Reassign Reminders Task_Details
    Commands Transcript Local_Generator System Rows Configuration Chat_Locks Notifier Clients
    Trigram_Index Perimeter
begin

text \<open>
  A Telegram task manager, written in Rust (\<^verbatim>\<open>src/src\<close>). People dictate or type tasks; the bot reads
  an assignee and a deadline out of the text, stores the task, tells the people involved and moves
  it through a review workflow. SQLite holds the data; a scheduler sends notifications and
  reminders, escalates late tasks and creates recurring ones; administrators manage roles and
  feature flags from a panel in the chat.

  \<^bold>\<open>How the model is built.\<close> An operation that can fail and that reads or changes state is an
  action \<open>(world, 'a) act\<close> (\<open>Actions\<close>): a function from the state to a result and the next state,
  the result being an \<open>app_error\<close> or a value (\<open>Errors\<close> is \<^verbatim>\<open>domain/errors.rs\<close>). The composition
  \<open>tryA\<close> is the \<^verbatim>\<open>?\<close> of the source. The state \<open>world\<close> (\<open>Store\<close>) has one list of rows per table, the
  in-memory feature flags, an environment (the clock, fresh and printed UUIDs, printed dates), the
  number of clock readings and of identities drawn, and the list of database failures still to come:
  every statement takes the next entry of that list and fails when it says so, so a theorem about
  a run holds for every pattern of database failures. A statement checks the foreign keys and
  unique columns of the migrations. A read clock (\<^verbatim>\<open>Clock::now_utc\<close>) advances the number of
  readings; the theorems quantify over all clocks. A panic of the source is the value \<open>None\<close> of
  an option result. The prelude \<open>Base\<close> has the types (Unicode text as a list of scalar values,
  instants in nanoseconds, days), the string functions of the Rust standard library and the shared
  lemmas; \<open>Samples\<close> has the database the witnesses run on. The theories named \<^verbatim>\<open>..._Texts\<close> hold the
  Russian literals of the interface.

  \<^bold>\<open>The parts.\<close> Paths are relative to \<^verbatim>\<open>src/src\<close>.

  \<^item> Tasks. \<open>Task_Types\<close>, \<open>Task_Draft\<close>, \<open>Task_Entity\<close>, \<open>Task_Views\<close> (\<^verbatim>\<open>domain/task\<close>,
    \<^verbatim>\<open>application/dto/task_views.rs\<close>): the status machine, the draft of the language model, the task
    record with its four versioned operations, the card. \<open>Task_Lifecycle\<close> makes the operations a step
    relation and proves which timestamps a status implies, the review request of a completed task among them.
    \<open>Task_Codes\<close> (\<^verbatim>\<open>shared/task_codes.rs\<close>): the printed task numbers.
  \<^item> Storage. \<open>Task_Repo\<close>, \<open>Record_Repos\<close>, \<open>User_Repo\<close>, \<open>Employee_Repo\<close> and \<open>Codecs\<close>
    (\<^verbatim>\<open>infrastructure/db\<close>): each query as a function of the tables; \<open>Rows\<close> has the row structs, their conversions
    and the statements on rows, and proves that the tasks table implements the list of tasks. The contract a repository gives
    its callers is a locale: \<open>versioned_store\<close> in \<open>Task_Sessions\<close> (a write succeeds only from the version
    read), \<open>frame\<close> and \<open>store_frame\<close> in \<open>Actions\<close> and \<open>Store\<close> (what a group of statements leaves alone), each interpreted on
    the model's own statements.
  \<^item> Workflow. \<open>Role_Policy\<close> (\<^verbatim>\<open>application/policies\<close>), \<open>Task_Use_Cases\<close> (status, blocker, comment),
    \<open>Reassign\<close>, \<open>Task_Lists\<close> (lists, search, statistics): the handlers with every guard and early
    return. \<open>Task_Sessions\<close> interleaves any number of them and proves that no update is lost.
  \<^item> From text to task. \<open>Parsing\<close>, \<open>Deadline\<close>, \<open>Name_Matching\<close>, \<open>Assignee_Resolution\<close>,
    \<open>Unicode_Text\<close> and \<open>Create_Task\<close>: the parser, the deadline kernel with time
    zones, the matching of names, the use case that creates the task.
  \<^item> People. \<open>User_Domain\<close>, \<open>Person_Name\<close>, \<open>Registration\<close>, \<open>Onboarding\<close>, \<open>Admin_Use_Cases\<close>,
    \<open>Feature_Flags\<close>: names, accounts, roles, the panel and the flags; \<open>Trigram_Index\<close>: the ranked lookup of names.
  \<^item> In the background. \<open>Deliveries\<close> (sending with retries), \<open>Reminders\<close> (daily jobs, with the
    locale \<open>keyed_notices\<close> for notifications under keys), \<open>Sla\<close> and \<open>Sla_Worker\<close> (working time and
    escalation), \<open>Recurrence\<close>, \<open>Voice_Domain\<close> and \<open>Voice_Repo\<close> (the claims on voice messages),
    \<open>Notification_Preferences\<close> (quiet hours), \<open>Scheduler\<close> (the jobs, their intervals and hours).
  \<^item> The edge. \<open>Configuration\<close> (\<^verbatim>\<open>config/mod.rs\<close>: every variable of the environment), \<open>Gateway\<close> (duplicate
    updates, one-shot confirmations), \<open>Chat_Locks\<close> (the lock per chat, as a transition system over the
    tasks of all updates), \<open>Callback_Codec\<close> (button data), \<open>Http_Resilience\<close> (circuit breaker and
    retry), \<open>Clients\<close> (the language model, speech recognition and the sheet of employees behind
    them), \<open>Notifier\<close> (notifications in the chat), \<open>Transcript\<close> (clipping of speech),
    \<open>Local_Generator\<close> (the fallback for the language model), \<open>Perimeter\<close> (the operator's endpoints,
    pseudonyms for logs, the principal of a turn).
  \<^item> The bot (\<^verbatim>\<open>presentation/telegram\<close>). \<open>Chat_State\<close> (drafts, interactions and other memory per
    chat), \<open>Screens\<close> (what is shown and which buttons it accepts), \<open>Keyboards\<close>,
    \<open>Ui_Menu\<close>, \<open>Ui_Tasks\<close>, \<open>Ui_Admin\<close>, \<open>Commands\<close>. A handler \<open>'a handler\<close> (\<open>Bot\<close>) is a function from
    the \<open>bot\<close>, that is the \<open>world\<close> and every store the process keeps in memory, to a result and the next \<open>bot\<close>; the
    result says that it finished, that a call to Telegram failed, or that it panicked. The calls made are
    recorded in order, the answers are a parameter. \<open>Bot_Views\<close>, \<open>Bot_Creation\<close>, \<open>Bot_Admin\<close> and
    \<open>Bot_Entry\<close> are the dispatchers, down to the endpoint of an update.
  \<^item> The whole. \<open>Use_Case_Frames\<close> and \<open>Bot_Frames\<close> state what a relation between states must obey for
    every use case, and every handler, to obey it (the locales \<open>use_case_frame\<close>, \<open>repository_frame\<close>, \<open>handler_frame\<close> to
    \<open>bot_frame\<close>). \<open>Ledger\<close> (what is never erased, the unique keys) and \<open>Bot_Updates\<close> (streams of
    updates) interpret them; \<open>Bot_Barrier\<close> and \<open>Bot_Safety\<close> derive what holds for
    every update, whatever Telegram and the database answer. \<open>System\<close> is the running program
    (\<^verbatim>\<open>presentation/bootstrap.rs\<close>): it starts, reacts to updates and to the jobs of the scheduler in any
    order, stops, and starts again, with the database kept and the memory lost; its properties hold for
    every such history.

  \<^bold>\<open>What is proved.\<close> Invariants of every reachable state (lifecycle, stored tasks, the last
  administrator); the effect of each use case on success and on failure, table by table; round trips
  of the codecs; equivalence of the working-time loop and the paged lists with their specifications;
  the review gate from the request to the stored status; who is assigned without a question; that the
  status buttons of a card, and the buttons of a notification, mean the status the operations accept;
  refinement of the bounded duplicate memory to a sliding window; termination and bounds of retries,
  sweeps, batches and external calls, by kind of request; liveness of notifications, recurrence rules
  and daily jobs; one update of a chat at a time, and its turn for each, under any schedule. For the
  whole bot: an update shows at most one screen, strangers change nothing but what the onboarding
  changes, an update delivered again does nothing and a press on an old screen is only answered. For
  the running system, restarts included: rights change by a confirmation or by the configuration,
  nothing is erased, the keys of the database stay unique and an active administrator remains. The
  findings of the manifest name the places where the code does not do what it, or its documentation, means to.

  \<^bold>\<open>Bounds.\<close> Every loop of the source is a structural recursion or has the source's own bound
  as fuel: the working-time loop and the search for a working day stop after the source's 366 days,
  the recovery of assignments after its 5 batches, a retry after its attempts. Where a loop can run
  out, the theorem states that it does not or what it returns then. Integers are unbounded where the
  source's width cannot be reached; widths that matter (identities, minutes, the period of a
  deadline) are written out.

  \<^bold>\<open>Parameters.\<close> Code outside \<^verbatim>\<open>src\<close> is an argument of the definitions that use it: the Unicode
  tables, regular-expression engine, time-zone database and date printing (\<open>libraries\<close>), the string
  similarity of \<^verbatim>\<open>strsim\<close>, speech recognition and the language model (\<open>services\<close>), the printing and
  drawing of UUIDs, Telegram's answers, the validation of drafts by the \<^verbatim>\<open>validator\<close> crate (written
  out), SQLite's average, and the monotonic clock. Theorems hold for all of them; a hypothesis on
  one is named in the statement.

  \<^bold>\<open>Not modelled.\<close> Of the start (\<^verbatim>\<open>presentation/bootstrap.rs\<close>, \<^verbatim>\<open>main.rs\<close>): the construction of objects,
  the shutdown signal and the tasks of the runtime; what they do to the state is in \<open>System\<close>. Logging and
  metrics, the connection pool, the token bucket (the \<^verbatim>\<open>governor\<close> crate), the signatures of
  the ports, and the bytes on the wire of the HTTP clients. Between chats, concurrency is
  modelled as interleaving of the atomic operations of the stores.
\<close>

end
